(* ===== verification/Afs_Prelude.thy ===== *)
theory Afs_Prelude
  imports Complex_Main "HOL-Library.Word" "HOL-Library.Signed_Division"
begin

text \<open>
  What every component of the development shares: the names of the C integer types, the errors the
  C code can end with, the vocabulary of bit arrays (one \<open>uint8_t\<close> per bit, value 0 or 1), the
  generic facts on lists, words and index ranges, and the collections of rules
  (\<^theory_text>\<open>afs_length\<close>, \<^theory_text>\<open>afs_nth\<close>, \<^theory_text>\<open>afs_bits\<close>) that the component theories extend.
\<close>

unbundle bit_operations_syntax

named_theorems afs_length \<open>lengths of the arrays the operations produce\<close>
named_theorems afs_nth \<open>what the arrays the operations produce hold at an index\<close>
named_theorems afs_bits \<open>which results are arrays of zeros and ones\<close>

section \<open>C integer types\<close>

type_synonym u8 = "8 word"
type_synonym u16 = "16 word"
type_synonym u32 = "32 word"
type_synonym i32 = "32 word"

section \<open>Results\<close>

text \<open>A call that may fail, followed by the rest of the code.\<close>

definition res_bind :: "'e + 'a \<Rightarrow> ('a \<Rightarrow> 'e + 'b) \<Rightarrow> 'e + 'b" where
  "res_bind x f = (case x of Inl e \<Rightarrow> Inl e | Inr a \<Rightarrow> f a)"

lemma res_bind_simps [simp]: "res_bind (Inl e) f = Inl e" "res_bind (Inr a) f = f a"
  by (simp_all add: res_bind_def)

section \<open>Arrays of bits\<close>

text \<open>A bit array of the C code: one byte per bit, each byte 0 or 1.\<close>

definition bitarr :: "u8 list \<Rightarrow> bool" where
  "bitarr xs = list_all (\<lambda>b. b = 0 \<or> b = 1) xs"

lemma bitarr_Nil [simp, afs_bits]: "bitarr []"
  by (simp add: bitarr_def)

lemma bitarr_Cons [simp]: "bitarr (x # xs) \<longleftrightarrow> (x = 0 \<or> x = 1) \<and> bitarr xs"
  by (simp add: bitarr_def)

lemma bitarr_append [simp]: "bitarr (xs @ ys) \<longleftrightarrow> bitarr xs \<and> bitarr ys"
  by (simp add: bitarr_def)

lemma bitarr_nth: "bitarr xs \<longleftrightarrow> (\<forall>i < length xs. xs ! i = 0 \<or> xs ! i = 1)"
  by (simp add: bitarr_def list_all_length)

lemma bitarr_nthD: "bitarr xs \<Longrightarrow> i < length xs \<Longrightarrow> xs ! i = 0 \<or> xs ! i = 1"
  by (simp add: bitarr_nth)

lemma bitarr_replicate0 [simp, afs_bits]: "bitarr (replicate n 0)"
  by (simp add: bitarr_def list_all_length)

lemma bitarr_take [afs_bits]: "bitarr xs \<Longrightarrow> bitarr (take n xs)"
  by (auto simp: bitarr_def list_all_iff dest: in_set_takeD)

lemma bitarr_drop [afs_bits]: "bitarr xs \<Longrightarrow> bitarr (drop n xs)"
  by (auto simp: bitarr_def list_all_iff dest: in_set_dropD)

text \<open>The same array as truth values, and back.\<close>

definition bools :: "u8 list \<Rightarrow> bool list" where
  "bools xs = map (\<lambda>b. b \<noteq> 0) xs"

definition unbools :: "bool list \<Rightarrow> u8 list" where
  "unbools bs = map of_bool bs"

lemma length_bools [simp]: "length (bools xs) = length xs"
  by (simp add: bools_def)

lemma length_unbools [simp]: "length (unbools xs) = length xs"
  by (simp add: unbools_def)

lemma nth_bools [simp]: "i < length xs \<Longrightarrow> bools xs ! i = (xs ! i \<noteq> 0)"
  by (simp add: bools_def)

lemma nth_unbools [simp]: "i < length xs \<Longrightarrow> unbools xs ! i = of_bool (xs ! i)"
  by (simp add: unbools_def)

lemma bools_append [simp]: "bools (xs @ ys) = bools xs @ bools ys"
  by (simp add: bools_def)

lemma bools_Cons [simp]: "bools (x # xs) = (x \<noteq> 0) # bools xs"
  by (simp add: bools_def)

lemma bools_Nil [simp]: "bools [] = []"
  by (simp add: bools_def)

lemma bools_unbools [simp]: "bools (unbools bs) = bs"
  by (simp add: bools_def unbools_def comp_def)

lemma unbools_bools: "bitarr xs \<Longrightarrow> unbools (bools xs) = xs"
  by (induction xs) (auto simp: bools_def unbools_def)

lemma bitarr_unbools [simp, afs_bits]: "bitarr (unbools bs)"
  by (simp add: bitarr_def unbools_def list_all_iff)

lemma bools_inj: "bitarr xs \<Longrightarrow> bitarr ys \<Longrightarrow> bools xs = bools ys \<Longrightarrow> xs = ys"
  using unbools_bools by metis

lemma bools_take [simp]: "bools (take n xs) = take n (bools xs)"
  by (simp add: bools_def take_map)

lemma bools_drop [simp]: "bools (drop n xs) = drop n (bools xs)"
  by (simp add: bools_def drop_map)

section \<open>Buffers\<close>

text \<open>
  \<open>memcpy (buf + off, xs, length xs)\<close>: the part of the buffer at \<open>off\<close> is overwritten. The
  length lemma needs the copy to stay inside the buffer, as C does.
\<close>

definition memcpy_at :: "'a list \<Rightarrow> nat \<Rightarrow> 'a list \<Rightarrow> 'a list" where
  "memcpy_at buf off xs = take off buf @ xs @ drop (off + length xs) buf"

lemma length_memcpy_at [simp, afs_length]:
  "off + length xs \<le> length buf \<Longrightarrow> length (memcpy_at buf off xs) = length buf"
  by (simp add: memcpy_at_def)

lemma nth_memcpy_at [afs_nth]:
  assumes "off + length xs \<le> length buf" "i < length buf"
  shows "memcpy_at buf off xs ! i =
    (if off \<le> i \<and> i < off + length xs then xs ! (i - off) else buf ! i)"
  using assms by (auto simp: memcpy_at_def nth_append)

lemma bitarr_memcpy_at [afs_bits]: "bitarr buf \<Longrightarrow> bitarr xs \<Longrightarrow> bitarr (memcpy_at buf off xs)"
  by (simp add: memcpy_at_def bitarr_take bitarr_drop)

lemma memcpy_at_all: "length xs = length buf \<Longrightarrow> memcpy_at buf 0 xs = xs"
  by (simp add: memcpy_at_def)

section \<open>Single bits of words\<close>

lemma drop_bit_and_1: "drop_bit k w AND 1 = of_bool (bit (w :: 'a :: len word) k)"
  by (rule bit_eqI) (auto simp: bit_simps)

lemma of_bool_word_neq_0 [simp]: "(of_bool b \<noteq> (0 :: 'a :: len word)) = b"
  by simp

lemma bit_of_01: "(b :: u8) = 0 \<or> b = 1 \<Longrightarrow> bit b n \<longleftrightarrow> n = 0 \<and> b \<noteq> 0"
  by (auto simp: bit_simps)

section \<open>Tabulated lists\<close>

lemma nth_map_upt0 [simp, afs_nth]: "i < n \<Longrightarrow> map f [0..<n] ! i = f i"
  by simp

lemma map_upt_eqI: "length xs = n \<Longrightarrow> (\<And>i. i < n \<Longrightarrow> f i = xs ! i) \<Longrightarrow> map f [0..<n] = xs"
  by (simp add: list_eq_iff_nth_eq)

end
