(* ===== verification/Afs_Bits.thy ===== *)
theory Afs_Bits
  imports Afs_Prelude
begin

text \<open>
  The bit-level helpers of \<open>pocketsdr/pocketsdr.c\<close>: packing bit arrays into bytes and back, the
  bits of a word, the parity of a word by table look-up, the reversal of a shift register and the
  code of a linear feedback shift register. A buffer that C fills through a pointer is the list of
  the bytes the function writes. The lemmas give each result bit by bit; the properties are the
  round trips and the equivalence of the table look-up with the parity of the bits.
\<close>

section \<open>Definitions\<close>

subsection \<open>Packing and unpacking\<close>

text \<open>One step of a packing loop: \<open>buff[i / 8] |= b << (7 - i % 8)\<close>, with \<open>b\<close> the bit for index \<open>i\<close>.\<close>

definition or_at :: "(nat \<Rightarrow> u8) \<Rightarrow> u8 list \<Rightarrow> nat \<Rightarrow> u8 list" where
  "or_at f buff i = buff[i div 8 := buff ! (i div 8) OR push_bit (7 - i mod 8) (f i)]"

definition sdr_pack_bits :: "u8 list \<Rightarrow> nat \<Rightarrow> nat \<Rightarrow> u8 list" where
  "sdr_pack_bits data nbit nz =
     foldl (or_at (\<lambda>i. data ! (i - nz))) (replicate ((nz + nbit + 7) div 8) 0) [nz..<nz + nbit]"

definition sdr_unpack_bits :: "u8 list \<Rightarrow> nat \<Rightarrow> u8 list" where
  "sdr_unpack_bits data nbit = map (\<lambda>i. drop_bit (7 - i mod 8) (data ! (i div 8)) AND 1) [0..<nbit]"

definition sdr_unpack_data :: "u32 \<Rightarrow> nat \<Rightarrow> u8 list" where
  "sdr_unpack_data data nbit = map (\<lambda>i. ucast (drop_bit (nbit - 1 - i) data AND 1)) [0..<nbit]"

subsection \<open>Parity and shift registers\<close>

definition xor_8b :: "u8 list" where
  "xor_8b = concat [
     [0,1,1,0,1,0,0,1, 1,0,0,1,0,1,1,0, 1,0,0,1,0,1,1,0, 0,1,1,0,1,0,0,1],
     [1,0,0,1,0,1,1,0, 0,1,1,0,1,0,0,1, 0,1,1,0,1,0,0,1, 1,0,0,1,0,1,1,0],
     [1,0,0,1,0,1,1,0, 0,1,1,0,1,0,0,1, 0,1,1,0,1,0,0,1, 1,0,0,1,0,1,1,0],
     [0,1,1,0,1,0,0,1, 1,0,0,1,0,1,1,0, 1,0,0,1,0,1,1,0, 0,1,1,0,1,0,0,1],
     [1,0,0,1,0,1,1,0, 0,1,1,0,1,0,0,1, 0,1,1,0,1,0,0,1, 1,0,0,1,0,1,1,0],
     [0,1,1,0,1,0,0,1, 1,0,0,1,0,1,1,0, 1,0,0,1,0,1,1,0, 0,1,1,0,1,0,0,1],
     [0,1,1,0,1,0,0,1, 1,0,0,1,0,1,1,0, 1,0,0,1,0,1,1,0, 0,1,1,0,1,0,0,1],
     [1,0,0,1,0,1,1,0, 0,1,1,0,1,0,0,1, 0,1,1,0,1,0,0,1, 1,0,0,1,0,1,1,0]]"

definition xor_byte :: "u8 \<Rightarrow> u8" where
  "xor_byte b = xor_8b ! unat b"

definition sdr_xor_bits :: "u32 \<Rightarrow> u8" where
  "sdr_xor_bits X = xor_byte (ucast X) XOR xor_byte (ucast (drop_bit 8 X)) XOR
     xor_byte (ucast (drop_bit 16 X)) XOR xor_byte (ucast (drop_bit 24 X))"

text \<open>\<open>CHIP[] = {-1, 1}\<close>, the \<open>int8_t\<close> values as integers.\<close>

definition CHIP :: "int list" where
  "CHIP = [-1, 1]"

definition rev_reg :: "i32 \<Rightarrow> nat \<Rightarrow> i32" where
  "rev_reg R N = foldl (\<lambda>RR i. push_bit 1 RR OR (signed_drop_bit i R AND 1)) 0 [0..<N]"

definition lfsr_next :: "i32 \<Rightarrow> i32 \<Rightarrow> nat \<Rightarrow> i32" where
  "lfsr_next R tap n = push_bit (n - 1) (ucast (sdr_xor_bits (R AND tap))) OR signed_drop_bit 1 R"

primrec LFSR :: "nat \<Rightarrow> i32 \<Rightarrow> i32 \<Rightarrow> nat \<Rightarrow> int list" where
  "LFSR 0 R tap n = []"
| "LFSR (Suc N) R tap n = (CHIP ! unat (R AND 1)) # LFSR N (lfsr_next R tap n) tap n"

section \<open>Packing\<close>

lemma length_or_at [simp]: "length (or_at f buff i) = length buff"
  by (simp add: or_at_def)

lemma length_foldl_or_at [simp, afs_length]: "length (foldl (or_at f) buff is) = length buff"
  by (induction "is" arbitrary: buff) simp_all

lemma bit_push_01:
  assumes "(b :: u8) = 0 \<or> b = 1" "k < 8"
  shows "bit (push_bit s b) k \<longleftrightarrow> k = s \<and> b \<noteq> 0"
  using assms by (auto simp: bit_push_bit_iff bit_of_01)

lemma or_at_nth:
  assumes "j < length buff" "k < 8" "f i = 0 \<or> f i = 1"
  shows "bit (or_at f buff i ! j) k \<longleftrightarrow> bit (buff ! j) k \<or> i = 8 * j + (7 - k) \<and> f i \<noteq> 0"
proof (cases "i div 8 = j")
  case True
  have "k = 7 - i mod 8 \<longleftrightarrow> i = 8 * j + (7 - k)"
  proof -
    have "i = 8 * j + i mod 8" using True by presburger
    moreover have "i mod 8 < 8" by simp
    ultimately show ?thesis using assms(2) by linarith
  qed
  with True assms show ?thesis
    by (auto simp: or_at_def bit_or_iff bit_push_01)
next
  case False
  then have "i \<noteq> 8 * j + (7 - k)" using assms(2) by auto
  with False show ?thesis by (simp add: or_at_def)
qed

lemma foldl_or_at_nth:
  assumes "\<forall>i. a \<le> i \<and> i < b \<longrightarrow> f i = 0 \<or> f i = 1" "j < length buff" "k < 8"
  shows "bit (foldl (or_at f) buff [a..<b] ! j) k \<longleftrightarrow> bit (buff ! j) k \<or>
    (a \<le> 8 * j + (7 - k) \<and> 8 * j + (7 - k) < b \<and> f (8 * j + (7 - k)) \<noteq> 0)"
  using assms(1)
proof (induction b)
  case 0
  then show ?case by simp
next
  case (Suc b)
  show ?case
  proof (cases "a \<le> b")
    case True
    then have "f b = 0 \<or> f b = 1" using Suc.prems by simp
    then have "bit (foldl (or_at f) buff [a..<Suc b] ! j) k \<longleftrightarrow>
        bit (foldl (or_at f) buff [a..<b] ! j) k \<or> b = 8 * j + (7 - k) \<and> f b \<noteq> 0"
      using True assms(2,3) by (simp add: or_at_nth)
    with Suc.IH Suc.prems True show ?thesis
      by (auto simp: less_Suc_eq)
  next
    case False
    then show ?thesis by (auto simp: upt_rec)
  qed
qed

lemma length_sdr_pack_bits [simp, afs_length]:
  "length (sdr_pack_bits data nbit nz) = (nz + nbit + 7) div 8"
  by (simp add: sdr_pack_bits_def)

lemma bit_sdr_pack_bits [afs_nth]:
  assumes "bitarr data" "nbit \<le> length data" "j < (nz + nbit + 7) div 8" "k < 8"
  shows "bit (sdr_pack_bits data nbit nz ! j) k \<longleftrightarrow>
    nz \<le> 8 * j + (7 - k) \<and> 8 * j + (7 - k) < nz + nbit \<and> data ! (8 * j + (7 - k) - nz) \<noteq> 0"
proof -
  have "\<forall>i. nz \<le> i \<and> i < nz + nbit \<longrightarrow> data ! (i - nz) = 0 \<or> data ! (i - nz) = 1"
  proof (intro allI impI)
    fix i assume "nz \<le> i \<and> i < nz + nbit"
    then have "i - nz < length data" using assms(2) by linarith
    then show "data ! (i - nz) = 0 \<or> data ! (i - nz) = 1" by (rule bitarr_nthD [OF assms(1)])
  qed
  from foldl_or_at_nth [where f = "\<lambda>i. data ! (i - nz)" and buff = "replicate ((nz + nbit + 7) div 8) 0",
      OF this] assms(3,4)
  show ?thesis by (simp add: sdr_pack_bits_def)
qed

lemma length_sdr_unpack_bits [simp, afs_length]: "length (sdr_unpack_bits data nbit) = nbit"
  by (simp add: sdr_unpack_bits_def)

lemma nth_sdr_unpack_bits [afs_nth]:
  "i < nbit \<Longrightarrow> sdr_unpack_bits data nbit ! i = of_bool (bit (data ! (i div 8)) (7 - i mod 8))"
  by (simp add: sdr_unpack_bits_def drop_bit_and_1)

lemma bitarr_sdr_unpack_bits [simp, afs_bits]: "bitarr (sdr_unpack_bits data nbit)"
  by (simp add: bitarr_nth nth_sdr_unpack_bits)

lemma length_sdr_unpack_data [simp, afs_length]: "length (sdr_unpack_data w n) = n"
  by (simp add: sdr_unpack_data_def)

lemma nth_sdr_unpack_data [afs_nth]:
  "i < n \<Longrightarrow> sdr_unpack_data w n ! i = of_bool (bit w (n - 1 - i))"
  by (simp add: sdr_unpack_data_def drop_bit_and_1)

lemma bitarr_sdr_unpack_data [simp, afs_bits]: "bitarr (sdr_unpack_data w n)"
  by (simp add: bitarr_nth nth_sdr_unpack_data)

lemma bytes_index: "8 * (i div 8) + (7 - (7 - i mod 8)) = (i :: nat)"
  by (simp add: algebra_simps)

lemma sdr_unpack_pack:
  assumes "bitarr data" "length data = n"
  shows "sdr_unpack_bits (sdr_pack_bits data n 0) n = data"
proof (rule nth_equalityI)
  show "length (sdr_unpack_bits (sdr_pack_bits data n 0) n) = length data"
    using assms by simp
  fix i assume "i < length (sdr_unpack_bits (sdr_pack_bits data n 0) n)"
  then have i: "i < n" by simp
  then have "i div 8 < (0 + n + 7) div 8" by linarith
  with i assms have "sdr_unpack_bits (sdr_pack_bits data n 0) n ! i = of_bool (data ! i \<noteq> 0)"
    by (simp add: nth_sdr_unpack_bits bit_sdr_pack_bits bytes_index)
  also have "\<dots> = data ! i" using bitarr_nthD [of data i] assms i by auto
  finally show "sdr_unpack_bits (sdr_pack_bits data n 0) n ! i = data ! i" .
qed


lemma bytes_index_inv:
  assumes "k < 8" shows "(8 * j + (7 - k)) div 8 = (j :: nat)" "7 - (8 * j + (7 - k)) mod 8 = k"
proof -
  show "(8 * j + (7 - k)) div 8 = j" by simp
  have "(8 * j + (7 - k)) mod 8 = 7 - k" by simp
  with assms show "7 - (8 * j + (7 - k)) mod 8 = k" by simp
qed

lemma sdr_pack_unpack:
  assumes "length bytes = n"
  shows "sdr_pack_bits (sdr_unpack_bits bytes (8 * n)) (8 * n) 0 = bytes"
proof (rule nth_equalityI)
  show "length (sdr_pack_bits (sdr_unpack_bits bytes (8 * n)) (8 * n) 0) = length bytes"
    using assms by simp
  fix j assume "j < length (sdr_pack_bits (sdr_unpack_bits bytes (8 * n)) (8 * n) 0)"
  then have j: "j < n" by simp
  show "sdr_pack_bits (sdr_unpack_bits bytes (8 * n)) (8 * n) 0 ! j = bytes ! j"
  proof (rule bit_word_eqI)
    fix k assume "k < LENGTH(8)"
    then have "k < 8" by simp
    moreover from this j have "8 * j + (7 - k) < 8 * n" by linarith
    ultimately show "bit (sdr_pack_bits (sdr_unpack_bits bytes (8 * n)) (8 * n) 0 ! j) k = bit (bytes ! j) k"
      using j bytes_index_inv [of k j] by (simp only: bit_sdr_pack_bits nth_sdr_unpack_bits
          bitarr_sdr_unpack_bits length_sdr_unpack_bits) simp
  qed
qed

section \<open>Parity\<close>

text \<open>The reference: the exclusive or of the lowest \<open>k\<close> bits.\<close>

fun bits_parity :: "nat \<Rightarrow> 'a :: semiring_bits \<Rightarrow> bool" where
  "bits_parity 0 w = False"
| "bits_parity (Suc k) w = (bits_parity k w \<noteq> bit w k)"

text \<open>The table of the parities of all \<open>k\<close>-bit numbers, by doubling.\<close>

fun parity_table :: "nat \<Rightarrow> u8 list" where
  "parity_table 0 = [0]"
| "parity_table (Suc k) = parity_table k @ map (\<lambda>b. 1 - b) (parity_table k)"

lemma xor_8b_parity_table: "xor_8b = parity_table 8"
  by (simp add: xor_8b_def eval_nat_numeral)

lemma length_parity_table [simp]: "length (parity_table k) = 2 ^ k"
  by (induction k) auto

lemma bits_parity_cong:
  "(\<And>i. i < k \<Longrightarrow> bit n i = bit m i) \<Longrightarrow> bits_parity k n = bits_parity k m"
  by (induction k) auto

lemma bit_nat_above: "n < 2 ^ k \<Longrightarrow> \<not> bit (n :: nat) k"
  by (simp add: bit_iff_odd)

lemma bit_top_nat:
  assumes "2 ^ k \<le> n" "n < 2 ^ Suc k"
  shows "bit n k" "i < k \<Longrightarrow> bit (n - 2 ^ k) i = bit (n :: nat) i"
proof -
  define m where "m = n - 2 ^ k"
  have m: "n = 2 ^ k + m" "m < 2 ^ k" using assms by (auto simp: m_def)
  then show "bit n k" by (simp add: bit_iff_odd)
  assume "i < k"
  have "take_bit k n = take_bit k m" by (simp add: m take_bit_eq_mod)
  then have "bit (take_bit k n) i = bit (take_bit k m) i" by simp
  then show "bit (n - 2 ^ k) i = bit n i"
    using \<open>i < k\<close> by (simp add: bit_take_bit_iff m_def)
qed

lemma parity_table_nth: "n < 2 ^ k \<Longrightarrow> parity_table k ! n = of_bool (bits_parity k n)"
proof (induction k arbitrary: n)
  case 0
  then show ?case by simp
next
  case (Suc k)
  show ?case
  proof (cases "n < 2 ^ k")
    case True
    then show ?thesis using Suc.IH by (simp add: nth_append bit_nat_above)
  next
    case False
    then have "2 ^ k \<le> n" by simp
    note top = bit_top_nat [OF this Suc.prems]
    have "bits_parity k (n - 2 ^ k) = bits_parity k n"
      by (rule bits_parity_cong) (rule top(2))
    moreover have "n - 2 ^ k < 2 ^ k" using Suc.prems False by simp
    ultimately show ?thesis
      using False Suc.IH [of "n - 2 ^ k"] top(1) by (simp add: nth_append)
  qed
qed

lemma xor_byte_parity: "xor_byte b = of_bool (bits_parity 8 b)"
proof -
  have "unat b < 2 ^ 8" using unsigned_less [of b] by simp
  then have "xor_byte b = of_bool (bits_parity 8 (unat b))"
    unfolding xor_byte_def xor_8b_parity_table by (rule parity_table_nth)
  also have "bits_parity 8 (unat b) = bits_parity 8 b"
    by (rule bits_parity_cong) (simp add: bit_unsigned_iff)
  finally show ?thesis .
qed

lemma bits_parity_add:
  "bits_parity (m + k) (w :: 'a :: len word) = (bits_parity m w \<noteq> bits_parity k (drop_bit m w))"
  by (induction k) (auto simp: bit_drop_bit_eq)

lemma bits_parity_ucast: "bits_parity 8 (ucast (w :: u32) :: u8) = bits_parity 8 w"
  by (rule bits_parity_cong) (simp add: bit_unsigned_iff)

lemma sdr_xor_bits_parity: "sdr_xor_bits X = of_bool (bits_parity 32 X)"
proof -
  have "bits_parity (8 + (8 + (8 + 8))) X =
      (bits_parity 8 X \<noteq> (bits_parity 8 (drop_bit 8 X) \<noteq>
        (bits_parity 8 (drop_bit 16 X) \<noteq> bits_parity 8 (drop_bit 24 X))))"
    unfolding bits_parity_add [of 8] by simp
  then show ?thesis
    by (simp add: sdr_xor_bits_def xor_byte_parity bits_parity_ucast del: bits_parity.simps)
qed

section \<open>Shift registers\<close>

lemma bit_signed_drop_bit_i32:
  "bit (signed_drop_bit i (R :: i32)) k =
    (if 32 - i \<le> k \<and> k < 32 then bit R 31 else bit R (i + k))"
  unfolding bit_signed_drop_bit_iff by simp

lemma lfsr_next_bit:
  assumes "\<And>k. n \<le> k \<Longrightarrow> \<not> bit R k" "0 < n" "n \<le> 31"
  shows "bit (lfsr_next R tap n) k \<longleftrightarrow>
    (if k = n - 1 then bits_parity 32 (R AND tap) else bit R (Suc k))"
proof (cases "k < 32")
  case False
  then have "\<not> bit (lfsr_next R tap n) k" "\<not> bit R (Suc k)" "k \<noteq> n - 1"
    using assms(3) by (auto simp: bit_word.rep_eq bit_simps dest: bit_imp_le_length)
  then show ?thesis by simp
next
  case True
  have "\<not> bit R 31" using assms(1,3) by simp
  then have "bit (signed_drop_bit 1 R) k = bit R (Suc k)"
    using True assms(1) [of "Suc k"] assms(3) by (auto simp: bit_signed_drop_bit_i32)
  moreover have "bit R n = False" using assms(1) by simp
  ultimately show ?thesis
    using True assms(2) by (auto simp: lfsr_next_def bit_or_iff bit_push_bit_iff sdr_xor_bits_parity
        bit_unsigned_iff bit_of_bool_iff simp del: bits_parity.simps)
qed

lemma LFSR_length [simp, afs_length]: "length (LFSR N R tap n) = N"
  by (induction N arbitrary: R) simp_all

lemma CHIP_bit: "CHIP ! unat (R AND 1) = (if bit (R :: i32) 0 then 1 else -1)"
  by (simp add: CHIP_def bit_0 and_one_eq odd_iff_mod_2_eq_one flip: mod_2_eq_odd)

text \<open>The first \<open>n\<close> chips of the code are the bits of the initial register, lowest first.\<close>

lemma LFSR_systematic:
  assumes "\<And>k. n \<le> k \<Longrightarrow> \<not> bit R k" "0 < n" "n \<le> 31" "i < n" "i < N"
  shows "LFSR N R tap n ! i = (if bit R i then 1 else -1)"
  using assms(1,4,5)
proof (induction i arbitrary: N R)
  case 0
  then show ?case by (cases N) (simp_all add: CHIP_bit)
next
  case (Suc i)
  then obtain M where N: "N = Suc M" by (cases N) auto
  have nx: "bit (lfsr_next R tap n) k \<longleftrightarrow>
      (if k = n - 1 then bits_parity 32 (R AND tap) else bit R (Suc k))" for k
    by (rule lfsr_next_bit [OF _ assms(2,3)]) (rule Suc.prems(1))
  have "\<not> bit (lfsr_next R tap n) k" if "n \<le> k" for k
  proof -
    have "k \<noteq> n - 1" using that assms(2) by linarith
    then show ?thesis using that Suc.prems(1) by (simp add: nx del: bits_parity.simps)
  qed
  with Suc.IH [of "lfsr_next R tap n" M] Suc.prems N
  show ?case by (simp add: nx)
qed

lemma LFSR_values: "c \<in> set (LFSR N R tap n) \<Longrightarrow> c = 1 \<or> c = -1"
  by (induction N arbitrary: R) (auto simp: CHIP_bit split: if_splits)

lemma bit_rev_reg:
  assumes "N \<le> 31"
  shows "bit (rev_reg R N) k \<longleftrightarrow> k < N \<and> bit R (N - 1 - k)"
  using assms
proof (induction N arbitrary: k)
  case 0
  then show ?case by (simp add: rev_reg_def)
next
  case (Suc N)
  have step: "rev_reg R (Suc N) = push_bit 1 (rev_reg R N) OR (signed_drop_bit N R AND 1)"
    by (simp add: rev_reg_def)
  have b: "bit (signed_drop_bit N R AND 1) k \<longleftrightarrow> k = 0 \<and> bit R N"
    using Suc.prems by (auto simp: bit_and_iff bit_signed_drop_bit_i32 bit_1_iff)
  have "bit (push_bit 1 (rev_reg R N)) k \<longleftrightarrow> 1 \<le> k \<and> k < 32 \<and> bit (rev_reg R N) (k - 1)"
    unfolding bit_push_bit_iff by (auto dest: bit_imp_le_length)
  also have "\<dots> \<longleftrightarrow> 1 \<le> k \<and> k < 32 \<and> k - 1 < N \<and> bit R (N - 1 - (k - 1))"
    using Suc.IH [of "k - 1"] Suc.prems by simp
  finally show ?case
    unfolding step bit_or_iff b using Suc.prems by (cases k) auto
qed

end
