(* ===== verification/Afs_Crc24q.thy ===== *)
theory Afs_Crc24q
  imports Afs_Bits
begin

text \<open>
  The CRC-24Q of \<open>rtklib/rtkcmn.c\<close>: the table \<open>tbl_CRC24Q\<close> and the byte-wise loop
  \<open>rtk_crc24q\<close>. The reference is the bit-serial division by the generator polynomial
  0x1864CFB; the main lemma says that the table-driven loop computes it. Division of a bit by the
  generator is linear and injective on 24-bit registers, which gives the error detection facts: a
  burst of at most 24 bits never leaves the check value unchanged.
\<close>

section \<open>Definitions\<close>

definition tbl_CRC24Q :: "u32 list" where
  "tbl_CRC24Q = concat [
     [0x000000, 0x864CFB, 0x8AD50D, 0x0C99F6, 0x93E6E1, 0x15AA1A, 0x1933EC, 0x9F7F17],
     [0xA18139, 0x27CDC2, 0x2B5434, 0xAD18CF, 0x3267D8, 0xB42B23, 0xB8B2D5, 0x3EFE2E],
     [0xC54E89, 0x430272, 0x4F9B84, 0xC9D77F, 0x56A868, 0xD0E493, 0xDC7D65, 0x5A319E],
     [0x64CFB0, 0xE2834B, 0xEE1ABD, 0x685646, 0xF72951, 0x7165AA, 0x7DFC5C, 0xFBB0A7],
     [0x0CD1E9, 0x8A9D12, 0x8604E4, 0x00481F, 0x9F3708, 0x197BF3, 0x15E205, 0x93AEFE],
     [0xAD50D0, 0x2B1C2B, 0x2785DD, 0xA1C926, 0x3EB631, 0xB8FACA, 0xB4633C, 0x322FC7],
     [0xC99F60, 0x4FD39B, 0x434A6D, 0xC50696, 0x5A7981, 0xDC357A, 0xD0AC8C, 0x56E077],
     [0x681E59, 0xEE52A2, 0xE2CB54, 0x6487AF, 0xFBF8B8, 0x7DB443, 0x712DB5, 0xF7614E],
     [0x19A3D2, 0x9FEF29, 0x9376DF, 0x153A24, 0x8A4533, 0x0C09C8, 0x00903E, 0x86DCC5],
     [0xB822EB, 0x3E6E10, 0x32F7E6, 0xB4BB1D, 0x2BC40A, 0xAD88F1, 0xA11107, 0x275DFC],
     [0xDCED5B, 0x5AA1A0, 0x563856, 0xD074AD, 0x4F0BBA, 0xC94741, 0xC5DEB7, 0x43924C],
     [0x7D6C62, 0xFB2099, 0xF7B96F, 0x71F594, 0xEE8A83, 0x68C678, 0x645F8E, 0xE21375],
     [0x15723B, 0x933EC0, 0x9FA736, 0x19EBCD, 0x8694DA, 0x00D821, 0x0C41D7, 0x8A0D2C],
     [0xB4F302, 0x32BFF9, 0x3E260F, 0xB86AF4, 0x2715E3, 0xA15918, 0xADC0EE, 0x2B8C15],
     [0xD03CB2, 0x567049, 0x5AE9BF, 0xDCA544, 0x43DA53, 0xC596A8, 0xC90F5E, 0x4F43A5],
     [0x71BD8B, 0xF7F170, 0xFB6886, 0x7D247D, 0xE25B6A, 0x641791, 0x688E67, 0xEEC29C],
     [0x3347A4, 0xB50B5F, 0xB992A9, 0x3FDE52, 0xA0A145, 0x26EDBE, 0x2A7448, 0xAC38B3],
     [0x92C69D, 0x148A66, 0x181390, 0x9E5F6B, 0x01207C, 0x876C87, 0x8BF571, 0x0DB98A],
     [0xF6092D, 0x7045D6, 0x7CDC20, 0xFA90DB, 0x65EFCC, 0xE3A337, 0xEF3AC1, 0x69763A],
     [0x578814, 0xD1C4EF, 0xDD5D19, 0x5B11E2, 0xC46EF5, 0x42220E, 0x4EBBF8, 0xC8F703],
     [0x3F964D, 0xB9DAB6, 0xB54340, 0x330FBB, 0xAC70AC, 0x2A3C57, 0x26A5A1, 0xA0E95A],
     [0x9E1774, 0x185B8F, 0x14C279, 0x928E82, 0x0DF195, 0x8BBD6E, 0x872498, 0x016863],
     [0xFAD8C4, 0x7C943F, 0x700DC9, 0xF64132, 0x693E25, 0xEF72DE, 0xE3EB28, 0x65A7D3],
     [0x5B59FD, 0xDD1506, 0xD18CF0, 0x57C00B, 0xC8BF1C, 0x4EF3E7, 0x426A11, 0xC426EA],
     [0x2AE476, 0xACA88D, 0xA0317B, 0x267D80, 0xB90297, 0x3F4E6C, 0x33D79A, 0xB59B61],
     [0x8B654F, 0x0D29B4, 0x01B042, 0x87FCB9, 0x1883AE, 0x9ECF55, 0x9256A3, 0x141A58],
     [0xEFAAFF, 0x69E604, 0x657FF2, 0xE33309, 0x7C4C1E, 0xFA00E5, 0xF69913, 0x70D5E8],
     [0x4E2BC6, 0xC8673D, 0xC4FECB, 0x42B230, 0xDDCD27, 0x5B81DC, 0x57182A, 0xD154D1],
     [0x26359F, 0xA07964, 0xACE092, 0x2AAC69, 0xB5D37E, 0x339F85, 0x3F0673, 0xB94A88],
     [0x87B4A6, 0x01F85D, 0x0D61AB, 0x8B2D50, 0x145247, 0x921EBC, 0x9E874A, 0x18CBB1],
     [0xE37B16, 0x6537ED, 0x69AE1B, 0xEFE2E0, 0x709DF7, 0xF6D10C, 0xFA48FA, 0x7C0401],
     [0x42FA2F, 0xC4B6D4, 0xC82F22, 0x4E63D9, 0xD11CCE, 0x575035, 0x5BC9C3, 0xDD8538]]"

definition crc24q_step :: "u32 \<Rightarrow> u8 \<Rightarrow> u32" where
  "crc24q_step crc b =
     (push_bit 8 crc AND 0xFFFFFF) XOR tbl_CRC24Q ! unat (drop_bit 16 crc XOR ucast b)"

definition rtk_crc24q :: "u8 list \<Rightarrow> nat \<Rightarrow> u32" where
  "rtk_crc24q buff len = foldl (\<lambda>crc i. crc24q_step crc (buff ! i)) 0 [0..<len]"

section \<open>The bit-serial reference\<close>

definition crc_bit :: "u32 \<Rightarrow> bool \<Rightarrow> u32" where
  "crc_bit crc b =
     (push_bit 1 crc AND 0xFFFFFF) XOR (if bit crc 23 \<noteq> b then 0x864CFB else 0)"

definition crc_bits :: "u32 \<Rightarrow> bool list \<Rightarrow> u32" where
  "crc_bits crc bs = foldl crc_bit crc bs"

text \<open>Division with a zero input bit: the linear part of a step.\<close>

definition crc_shift :: "u32 \<Rightarrow> u32" where
  "crc_shift crc = crc_bit crc False"

text \<open>A bit string placed at the top of the 24-bit register, first bit highest.\<close>

fun crc_top :: "bool list \<Rightarrow> u32" where
  "crc_top [] = 0"
| "crc_top (b # bs) = push_bit 23 (of_bool b) XOR drop_bit 1 (crc_top bs)"

lemma crc_bits_simps [simp]:
  "crc_bits c [] = c" "crc_bits c (b # bs) = crc_bits (crc_bit c b) bs"
  "crc_bits c (bs @ cs) = crc_bits (crc_bits c bs) cs"
  by (simp_all add: crc_bits_def)

lemma bit_mask24: "bit (0xFFFFFF :: u32) k \<longleftrightarrow> k < 24"
proof -
  have "(0xFFFFFF :: u32) = mask 24" by (simp add: mask_eq_exp_minus_1)
  then show ?thesis unfolding \<open>0xFFFFFF = mask 24\<close> bit_mask_iff by auto
qed

text \<open>The generator without its leading term.\<close>

definition crc_poly :: u32 where
  "crc_poly = 0x864CFB"

lemma bit_crc_bit:
  "bit (crc_bit w b) k \<longleftrightarrow>
    ((1 \<le> k \<and> k < 24 \<and> bit w (k - 1)) \<noteq> (bit w 23 \<noteq> b \<and> bit crc_poly k))"
  unfolding crc_bit_def bit_xor_iff bit_and_iff bit_mask24 bit_push_bit_iff crc_poly_def
  by (auto dest: bit_imp_le_length)

lemma bit_crc_shift:
  "bit (crc_shift w) k \<longleftrightarrow> ((1 \<le> k \<and> k < 24 \<and> bit w (k - 1)) \<noteq> (bit w 23 \<and> bit crc_poly k))"
  by (simp add: crc_shift_def bit_crc_bit)

lemma crc_shift_linear: "crc_shift (v XOR w) = crc_shift v XOR crc_shift w"
  by (rule bit_eqI) (auto simp: bit_crc_shift bit_xor_iff)

lemma crc_shift_pow_linear: "(crc_shift ^^ n) (v XOR w) = (crc_shift ^^ n) v XOR (crc_shift ^^ n) w"
  by (induction n) (simp_all add: crc_shift_linear)

lemma crc_shift_0 [simp]: "crc_shift 0 = 0"
  by (simp add: crc_shift_def crc_bit_def)

lemma crc_shift_pow_0 [simp]: "(crc_shift ^^ n) 0 = 0"
  by (induction n) simp_all

lemma bit_top_bit: "bit (push_bit 23 (of_bool b :: u32)) k \<longleftrightarrow> k = 23 \<and> b"
  unfolding bit_push_bit_iff by (auto simp: bit_of_bool_iff)

lemma crc_bit_shift: "crc_bit c b = crc_shift (c XOR push_bit 23 (of_bool b))"
  by (rule bit_eqI) (auto simp: bit_crc_bit bit_crc_shift bit_xor_iff bit_top_bit)

text \<open>A register whose top \<open>k\<close> bits are clear is only shifted.\<close>

lemma crc_shift_low:
  assumes "\<And>j. 23 \<le> j \<Longrightarrow> \<not> bit w j"
  shows "crc_shift w = push_bit 1 w"
proof (rule bit_eqI)
  fix k
  have "bit (push_bit 1 w) k \<longleftrightarrow> 1 \<le> k \<and> k < 32 \<and> bit w (k - 1)"
    unfolding bit_push_bit_iff by (auto dest: bit_imp_le_length)
  moreover have "\<not> bit w (k - 1)" if "24 \<le> k" using assms that by simp
  ultimately show "bit (crc_shift w) k = bit (push_bit 1 w) k"
    using assms [of 23] by (auto simp: bit_crc_shift not_less)
qed

lemma crc_shift_pow_low:
  assumes "\<And>j. 24 - k \<le> j \<Longrightarrow> \<not> bit w j" "k \<le> 24"
  shows "(crc_shift ^^ k) w = push_bit k w"
  using assms
proof (induction k)
  case 0
  then show ?case by simp
next
  case (Suc k)
  have low: "\<not> bit w j" if "24 - Suc k \<le> j" for j using Suc.prems(1) that .
  then have IH: "(crc_shift ^^ k) w = push_bit k w" using Suc by simp
  have "\<not> bit (push_bit k w) j" if "23 \<le> j" for j
    unfolding bit_push_bit_iff using low [of "j - k"] that by auto
  then have "crc_shift (push_bit k w) = push_bit 1 (push_bit k w)"
    by (rule crc_shift_low)
  with IH show ?case by (simp add: push_bit_push_bit)
qed

text \<open>Feeding at most 24 bits is placing them at the top of the register and dividing.\<close>

lemma bit_crc_top: "bit (crc_top bs) k \<longleftrightarrow> k \<le> 23 \<and> 23 - k < length bs \<and> bs ! (23 - k)"
proof (induction bs arbitrary: k)
  case Nil
  then show ?case by simp
next
  case (Cons b bs)
  have "bit (crc_top (b # bs)) k \<longleftrightarrow> ((k = 23 \<and> b) \<noteq> bit (crc_top bs) (Suc k))"
    by (simp add: bit_xor_iff bit_top_bit bit_drop_bit_eq)
  also have "bit (crc_top bs) (Suc k) \<longleftrightarrow> k < 23 \<and> 23 - k < length (b # bs) \<and> (b # bs) ! (23 - k)"
    by (auto simp: Cons.IH nth_Cons' Suc_diff_Suc)
  finally show ?case by (cases "k = 23") auto
qed

lemma crc_bits_top: "length bs \<le> 24 \<Longrightarrow> crc_bits c bs = (crc_shift ^^ length bs) (c XOR crc_top bs)"
proof (induction bs arbitrary: c)
  case Nil
  then show ?case by simp
next
  case (Cons b bs)
  have "crc_shift (drop_bit 1 (crc_top bs)) = push_bit 1 (drop_bit 1 (crc_top bs))"
    by (rule crc_shift_low) (simp add: bit_drop_bit_eq bit_crc_top)
  also have "\<dots> = crc_top bs"
  proof (rule bit_eqI)
    fix k
    show "bit (push_bit 1 (drop_bit 1 (crc_top bs))) k = bit (crc_top bs) k"
      unfolding bit_push_bit_iff using Cons.prems
      by (cases k) (auto simp: bit_drop_bit_eq bit_crc_top)
  qed
  finally have sh: "crc_shift (drop_bit 1 (crc_top bs)) = crc_top bs" .
  have "crc_bits c (b # bs) = (crc_shift ^^ length bs) (crc_bit c b XOR crc_top bs)"
    using Cons by simp
  also have "crc_bit c b XOR crc_top bs = crc_shift (c XOR crc_top (b # bs))"
    using sh by (simp add: crc_bit_shift crc_shift_linear ac_simps)
  finally show ?case by (simp add: funpow_swap1)
qed


section \<open>The table is the reference\<close>

text \<open>The table built by doubling from the images of the single bits.\<close>

fun crc_table :: "nat \<Rightarrow> u32 list" where
  "crc_table 0 = [0]"
| "crc_table (Suc k) =
     crc_table k @ map (\<lambda>w. w XOR (crc_shift ^^ 8) (push_bit (16 + k) 1)) (crc_table k)"

lemma crc_shift_code:
  "crc_shift w = (push_bit 1 w AND 0xFFFFFF) XOR (if bit w 23 then 0x864CFB else 0)"
  by (simp add: crc_shift_def crc_bit_def)

lemma crc_images:
  "(crc_shift ^^ 8) 0x10000 = 0x864CFB" "(crc_shift ^^ 8) 0x20000 = 0x8AD50D"
  "(crc_shift ^^ 8) 0x40000 = 0x93E6E1" "(crc_shift ^^ 8) 0x80000 = 0xA18139"
  "(crc_shift ^^ 8) 0x100000 = 0xC54E89" "(crc_shift ^^ 8) 0x200000 = 0x0CD1E9"
  "(crc_shift ^^ 8) 0x400000 = 0x19A3D2" "(crc_shift ^^ 8) 0x800000 = 0x3347A4"
  by (simp_all add: eval_nat_numeral crc_shift_code)

lemma crc_table_numeral: "crc_table (numeral n) =
    crc_table (pred_numeral n) @ map (\<lambda>w. w XOR (crc_shift ^^ 8) (push_bit (16 + pred_numeral n) 1))
      (crc_table (pred_numeral n))"
  by (simp add: numeral_eq_Suc [of n] del: push_bit_of_1)

lemma tbl_CRC24Q_crc_table: "tbl_CRC24Q = crc_table 8"
  by (simp add: tbl_CRC24Q_def crc_table_numeral crc_images)

lemma length_crc_table [simp]: "length (crc_table k) = 2 ^ k"
  by (induction k) auto

lemma crc_table_nth:
  "n < 2 ^ k \<Longrightarrow> k \<le> 8 \<Longrightarrow> crc_table k ! n = (crc_shift ^^ 8) (push_bit 16 (word_of_nat n))"
proof (induction k arbitrary: n)
  case 0
  then show ?case by simp
next
  case (Suc k)
  show ?case
  proof (cases "n < 2 ^ k")
    case True
    then show ?thesis using Suc by (simp add: nth_append)
  next
    case False
    then have ge: "2 ^ k \<le> n" by simp
    define m where "m = n - 2 ^ k"
    have m: "m < 2 ^ k" using Suc.prems ge by (simp add: m_def)
    have split: "(word_of_nat n :: u32) = word_of_nat m XOR push_bit k 1"
    proof (rule bit_word_eqI)
      fix i assume i: "i < LENGTH(32)"
      have nb: "bit (word_of_nat x :: u32) i \<longleftrightarrow> bit x i" for x
        using i by (simp add: bit_of_nat_iff)
      have kb: "bit (push_bit k 1 :: u32) i \<longleftrightarrow> i = k"
        unfolding bit_push_bit_iff using Suc.prems(2) by (auto simp: bit_1_iff)
      have "bit n i \<longleftrightarrow> (bit m i \<noteq> (i = k))"
      proof (cases i k rule: linorder_cases)
        case less
        then show ?thesis using bit_top_nat(2) [OF ge Suc.prems(1)] by (simp add: m_def)
      next
        case equal
        then show ?thesis using bit_top_nat(1) [OF ge Suc.prems(1)] bit_nat_above [OF m] by simp
      next
        case greater
        then have "n < 2 ^ i" "m < 2 ^ i"
          using Suc.prems(1) m power_increasing [of "Suc k" i "2 :: nat"]
            power_increasing [of k i "2 :: nat"] by simp_all
        then show ?thesis using greater by (simp add: bit_nat_above)
      qed
      then show "bit (word_of_nat n :: u32) i = bit (word_of_nat m XOR push_bit k 1 :: u32) i"
        by (simp only: bit_xor_iff nb kb)
    qed
    have "crc_table (Suc k) ! n = crc_table k ! m XOR (crc_shift ^^ 8) (push_bit (16 + k) 1)"
      using ge m by (simp add: nth_append m_def)
    also have "crc_table k ! m = (crc_shift ^^ 8) (push_bit 16 (word_of_nat m))"
      using Suc.IH [OF m] Suc.prems(2) by simp
    finally show ?thesis
      by (simp add: split crc_shift_pow_linear push_bit_xor push_bit_push_bit
          del: push_bit_of_1 crc_table.simps)
  qed
qed

lemma tbl_CRC24Q_nth:
  "n < 256 \<Longrightarrow> tbl_CRC24Q ! n = (crc_shift ^^ 8) (push_bit 16 (word_of_nat n))"
  using crc_table_nth [of n 8] by (simp add: tbl_CRC24Q_crc_table del: crc_table.simps)

section \<open>One byte\<close>

definition byte_bits :: "u8 \<Rightarrow> bool list" where
  "byte_bits b = map (\<lambda>i. bit b (7 - i)) [0..<8]"

lemma length_byte_bits [simp]: "length (byte_bits b) = 8"
  by (simp add: byte_bits_def)

lemma crc_top_byte: "crc_top (byte_bits b) = push_bit 16 (ucast b)"
proof (rule bit_eqI)
  fix k
  have "bit (push_bit 16 (ucast b :: u32)) k \<longleftrightarrow> 16 \<le> k \<and> k < 32 \<and> bit b (k - 16)"
    unfolding bit_push_bit_iff by (auto simp: bit_unsigned_iff dest: bit_imp_le_length)
  also have "\<dots> \<longleftrightarrow> 16 \<le> k \<and> k < 24 \<and> bit b (k - 16)"
    using bit_imp_le_length [of b "k - 16"] by auto
  finally show "bit (crc_top (byte_bits b)) k = bit (push_bit 16 (ucast b :: u32)) k"
    by (auto simp: bit_crc_top byte_bits_def nth_map_upt0)
qed

lemma crc_bit_high: "24 \<le> k \<Longrightarrow> \<not> bit (crc_bit c b) k"
proof -
  assume "24 \<le> k"
  moreover have "\<not> bit crc_poly k" if "24 \<le> k"
  proof -
    have "crc_poly = crc_poly AND 0xFFFFFF" by (simp add: crc_poly_def)
    then show ?thesis using that by (metis bit_and_iff bit_mask24 not_less)
  qed
  ultimately show ?thesis by (simp add: bit_crc_bit)
qed

lemma crc_bits_high:
  "(\<And>j. 24 \<le> j \<Longrightarrow> \<not> bit c j) \<Longrightarrow> 24 \<le> k \<Longrightarrow> \<not> bit (crc_bits c bs) k"
  by (induction bs arbitrary: c) (simp_all add: crc_bit_high)

lemma crc24q_step_bits:
  assumes "\<And>j. 24 \<le> j \<Longrightarrow> \<not> bit c j"
  shows "crc24q_step c b = crc_bits c (byte_bits b)"
proof -
  define x where "x = c XOR push_bit 16 (ucast b)"
  define hi where "hi = drop_bit 16 c XOR (ucast b :: u32)"
  define lo where "lo = c AND 0xFFFF"
  have b16: "bit (0xFFFF :: u32) k \<longleftrightarrow> k < 16" for k
  proof -
    have "(0xFFFF :: u32) = mask 16" by (simp add: mask_eq_exp_minus_1)
    then show ?thesis unfolding \<open>0xFFFF = mask 16\<close> bit_mask_iff by auto
  qed
  have bhi: "bit hi k \<longleftrightarrow> k < 8 \<and> (bit c (k + 16) \<noteq> bit b k)" for k
    using assms [of "k + 16"] bit_imp_le_length [of b k]
    by (cases "k < 8") (auto simp: hi_def bit_xor_iff bit_drop_bit_eq bit_unsigned_iff add.commute)
  have "hi = take_bit 8 hi"
    by (rule bit_eqI) (auto simp: bit_take_bit_iff bhi)
  then have "unat hi = take_bit 8 (unat hi)" by (metis unsigned_take_bit_eq)
  then have hi256: "unat hi < 256" using take_bit_nat_less_exp [of 8 "unat hi"] by simp
  have xs: "x = push_bit 16 hi XOR lo"
  proof (rule bit_eqI)
    fix k
    show "bit x k = bit (push_bit 16 hi XOR lo) k"
      unfolding x_def lo_def bit_xor_iff bit_push_bit_iff bit_and_iff b16
      using assms [of k] bit_imp_le_length [of c k] bit_imp_le_length [of b "k - 16"]
      by (cases "k < 24") (auto simp: bhi bit_unsigned_iff)
  qed
  have "crc_bits c (byte_bits b) = (crc_shift ^^ 8) x"
    by (simp add: crc_bits_top crc_top_byte x_def)
  also have "\<dots> = (crc_shift ^^ 8) (push_bit 16 hi) XOR (crc_shift ^^ 8) lo"
    by (simp only: xs crc_shift_pow_linear)
  also have "(crc_shift ^^ 8) (push_bit 16 hi) = tbl_CRC24Q ! unat hi"
    using hi256 by (simp add: tbl_CRC24Q_nth)
  also have "(crc_shift ^^ 8) lo = push_bit 8 lo"
  proof (rule crc_shift_pow_low)
    show "\<not> bit lo j" if "24 - 8 \<le> j" for j
      unfolding lo_def bit_and_iff b16 using that by simp
  qed simp
  also have "push_bit 8 lo = push_bit 8 c AND 0xFFFFFF"
    unfolding lo_def by (rule bit_eqI) (unfold bit_and_iff b16 bit_mask24 bit_push_bit_iff, auto)
  finally show ?thesis by (simp add: crc24q_step_def hi_def xor.commute)
qed


section \<open>The byte loop computes the reference\<close>

definition bytes_bits :: "u8 list \<Rightarrow> bool list" where
  "bytes_bits bs = concat (map byte_bits bs)"

lemma rtk_crc24q_crc_bits:
  "len \<le> length buff \<Longrightarrow> rtk_crc24q buff len = crc_bits 0 (bytes_bits (take len buff))"
proof (induction len)
  case 0
  then show ?case by (simp add: rtk_crc24q_def bytes_bits_def)
next
  case (Suc len)
  define c where "c = crc_bits 0 (bytes_bits (take len buff))"
  have "\<not> bit c j" if "24 \<le> j" for j
    unfolding c_def by (rule crc_bits_high [OF _ that]) simp
  then have "crc24q_step c (buff ! len) = crc_bits c (byte_bits (buff ! len))"
    by (rule crc24q_step_bits)
  moreover have "rtk_crc24q buff (Suc len) = crc24q_step (rtk_crc24q buff len) (buff ! len)"
    by (simp add: rtk_crc24q_def)
  moreover have "bytes_bits (take (Suc len) buff) = bytes_bits (take len buff) @ byte_bits (buff ! len)"
    using Suc.prems by (simp add: take_Suc_conv_app_nth bytes_bits_def)
  ultimately show ?case using Suc by (simp add: c_def)
qed

lemma crc_bits_lead0: "crc_bits 0 (replicate n False @ bs) = crc_bits 0 bs"
proof -
  have "crc_bits 0 (replicate n False) = 0"
    by (induction n) (simp_all add: crc_bit_def)
  then show ?thesis by simp
qed

lemma crc_bits_less: "bit (crc_bits 0 bs) k \<Longrightarrow> k < 24"
  using crc_bits_high [of 0 k bs] by (cases "k < 24") auto

section \<open>Linearity, injectivity and error bursts\<close>

lemma crc_bit_xor: "crc_bit (c XOR d) (b \<noteq> e) = crc_bit c b XOR crc_bit d e"
  by (rule bit_eqI) (auto simp: bit_crc_bit bit_xor_iff)

lemma crc_bits_xor:
  "length bs = length es \<Longrightarrow>
    crc_bits (c XOR d) (map2 (\<noteq>) bs es) = crc_bits c bs XOR crc_bits d es"
proof (induction bs es arbitrary: c d rule: list_induct2)
  case Nil
  then show ?case by simp
next
  case (Cons b bs e es)
  then show ?case by (simp only: zip_Cons_Cons list.map prod.case crc_bits_simps crc_bit_xor)
qed

lemma crc_shift_eq_0:
  assumes "crc_shift w = 0" "\<And>j. 24 \<le> j \<Longrightarrow> \<not> bit w j"
  shows "w = 0"
proof (rule bit_eqI)
  fix k
  have "bit crc_poly 0" by (simp add: crc_poly_def bit_0)
  moreover have "\<not> bit (crc_shift w) 0" using assms(1) by simp
  ultimately have top: "\<not> bit w 23" by (simp add: bit_crc_shift)
  have "\<not> bit (crc_shift w) (Suc k)" using assms(1) by simp
  with top assms(2) [of k] have "\<not> bit w k"
    by (cases "k < 23") (auto simp: bit_crc_shift not_less le_less_Suc_eq dest: le_neq_implies_less)
  then show "bit w k = bit 0 k" by simp
qed

lemma crc_shift_pow_eq_0:
  assumes "(crc_shift ^^ n) w = 0" "\<And>j. 24 \<le> j \<Longrightarrow> \<not> bit w j"
  shows "w = 0"
  using assms
proof (induction n arbitrary: w)
  case 0
  then show ?case by simp
next
  case (Suc n)
  have "(crc_shift ^^ n) (crc_shift w) = 0" using Suc.prems(1) by (simp add: funpow_swap1)
  moreover have "\<not> bit (crc_shift w) j" if "24 \<le> j" for j
    using that by (simp add: crc_shift_def crc_bit_high)
  ultimately have "crc_shift w = 0" by (rule Suc.IH)
  then show ?case using Suc.prems(2) by (rule crc_shift_eq_0)
qed

lemma crc_bits_zeros: "crc_bits c (replicate n False) = (crc_shift ^^ n) c"
  by (induction n arbitrary: c) (simp_all add: crc_shift_def funpow_swap1)

text \<open>A burst: the errors lie within a window of at most 24 positions.\<close>

definition burst24 :: "bool list \<Rightarrow> bool" where
  "burst24 es \<longleftrightarrow> (\<exists>a b w. es = replicate a False @ w @ replicate b False \<and>
     length w \<le> 24 \<and> (\<exists>e \<in> set w. e))"

lemma crc_burst_nonzero:
  assumes "burst24 es"
  shows "crc_bits 0 es \<noteq> 0"
proof
  assume z: "crc_bits 0 es = 0"
  from assms obtain a b w where es: "es = replicate a False @ w @ replicate b False"
    and w: "length w \<le> 24" "\<exists>e \<in> set w. e"
    by (auto simp: burst24_def)
  have "crc_bits 0 es = (crc_shift ^^ b) (crc_bits 0 w)"
    unfolding es by (subst crc_bits_lead0) (simp add: crc_bits_zeros)
  with z have "crc_bits 0 w = 0"
    using crc_shift_pow_eq_0 crc_bits_less by (metis not_less)
  then have "(crc_shift ^^ length w) (crc_top w) = 0"
    using crc_bits_top [OF w(1), of 0] by simp
  moreover have "\<not> bit (crc_top w) j" if "24 \<le> j" for j using that by (simp add: bit_crc_top)
  ultimately have z: "crc_top w = 0" by (rule crc_shift_pow_eq_0)
  from w(2) obtain i where i: "i < length w" "w ! i" by (auto simp: in_set_conv_nth)
  with w(1) have "bit (crc_top w) (23 - i)" by (simp add: bit_crc_top)
  with z show False by simp
qed

end
