(* ===== verification/Mod2sparse.thy ===== *)
theory Mod2sparse
  imports Afs_Prelude
begin

text \<open>
  The sparse matrices over GF(2) of \<open>ldpc/mod2sparse.c\<close>, with their pointer structure: every
  nonzero entry is a node that is doubly linked in its row and in its column, the lists are
  circular and closed by header nodes, nodes come from blocks of ten and freed nodes are chained
  through \<open>left\<close>. The heap holds the nodes by address; an address is a row or column header of a
  matrix, or a node of a block. The chain of blocks of a matrix (\<open>blocks\<close>, \<open>next\<close>) is the list of
  its block numbers. \<open>exit (1)\<close> and \<open>abort ()\<close> are error results; a pointer loop carries fuel, and
  running out of it is the error \<open>No_return\<close> (the theory \<open>Mod2sparse_Inv\<close> shows that it never
  happens on a well-formed matrix). Allocation is taken to succeed.
\<close>

section \<open>Nodes, matrices and the heap\<close>

datatype addr = Null | RowHdr nat nat | ColHdr nat nat | Ent nat nat

record mod2entry =
  row :: int
  col :: int
  left :: addr
  right :: addr
  up :: addr
  down :: addr
  pr :: real
  lr :: real

record mod2sparse =
  n_rows :: int
  n_cols :: int
  blocks :: "nat list"
  next_free :: addr

record heap =
  ent :: "addr \<Rightarrow> mod2entry"
  mat :: "nat \<Rightarrow> mod2sparse"
  nmat :: nat
  nblk :: nat
  live :: "nat \<Rightarrow> bool"

datatype mod2err = Exit string | Abort | No_return

definition Mod2sparse_block :: nat where
  "Mod2sparse_block = 10"

text \<open>What \<open>calloc\<close> leaves in a node.\<close>

definition zero_entry :: mod2entry where
  "zero_entry = \<lparr>row = 0, col = 0, left = Null, right = Null, up = Null, down = Null, pr = 0, lr = 0\<rparr>"

text \<open>Before any matrix is allocated.\<close>

definition heap0 :: heap where
  "heap0 = \<lparr>ent = (\<lambda>_. zero_entry), mat = (\<lambda>_. \<lparr>n_rows = 0, n_cols = 0, blocks = [], next_free = Null\<rparr>),
     nmat = 0, nblk = 0, live = (\<lambda>_. False)\<rparr>"

definition upd_ent :: "addr \<Rightarrow> (mod2entry \<Rightarrow> mod2entry) \<Rightarrow> heap \<Rightarrow> heap" where
  "upd_ent a f h = h\<lparr>ent := (ent h)(a := f (ent h a))\<rparr>"

definition upd_mat :: "nat \<Rightarrow> (mod2sparse \<Rightarrow> mod2sparse) \<Rightarrow> heap \<Rightarrow> heap" where
  "upd_mat m f h = h\<lparr>mat := (mat h)(m := f (mat h m))\<rparr>"

section \<open>Access macros\<close>

definition first_in_row :: "heap \<Rightarrow> nat \<Rightarrow> nat \<Rightarrow> addr" where
  "first_in_row h m i = right (ent h (RowHdr m i))"

definition first_in_col :: "heap \<Rightarrow> nat \<Rightarrow> nat \<Rightarrow> addr" where
  "first_in_col h m j = down (ent h (ColHdr m j))"

definition last_in_row :: "heap \<Rightarrow> nat \<Rightarrow> nat \<Rightarrow> addr" where
  "last_in_row h m i = left (ent h (RowHdr m i))"

definition last_in_col :: "heap \<Rightarrow> nat \<Rightarrow> nat \<Rightarrow> addr" where
  "last_in_col h m j = up (ent h (ColHdr m j))"

definition next_in_row :: "heap \<Rightarrow> addr \<Rightarrow> addr" where
  "next_in_row h e = right (ent h e)"

definition next_in_col :: "heap \<Rightarrow> addr \<Rightarrow> addr" where
  "next_in_col h e = down (ent h e)"

definition at_end :: "heap \<Rightarrow> addr \<Rightarrow> bool" where
  "at_end h e \<longleftrightarrow> row (ent h e) < 0"

definition mod2sparse_rows :: "heap \<Rightarrow> nat \<Rightarrow> int" where
  "mod2sparse_rows h m = n_rows (mat h m)"

definition mod2sparse_cols :: "heap \<Rightarrow> nat \<Rightarrow> int" where
  "mod2sparse_cols h m = n_cols (mat h m)"

text \<open>Fuel for a walk along a row or a column: more than any well-formed list has nodes.\<close>

definition walk_fuel :: "heap \<Rightarrow> nat \<Rightarrow> nat" where
  "walk_fuel h m = Suc (nat (n_rows (mat h m)) + nat (n_cols (mat h m)))"

section \<open>Allocation\<close>

text \<open>A fresh block, zeroed, becomes the first of the matrix's blocks.\<close>

definition new_block :: "nat \<Rightarrow> heap \<Rightarrow> heap" where
  "new_block m h = (let b = nblk h in
     upd_mat m (\<lambda>M. M\<lparr>blocks := b # blocks M\<rparr>)
       (h\<lparr>ent := (\<lambda>a. case a of Ent b' k \<Rightarrow> if b' = b then zero_entry else ent h a | _ \<Rightarrow> ent h a),
          nblk := Suc b, live := (live h)(b := True)\<rparr>))"

text \<open>One turn of the loop that chains the entries of the block into the free list.\<close>

definition chain_entry :: "nat \<Rightarrow> nat \<Rightarrow> heap \<Rightarrow> nat \<Rightarrow> heap" where
  "chain_entry m b h k =
     upd_mat m (\<lambda>M. M\<lparr>next_free := Ent b k\<rparr>)
       (upd_ent (Ent b k) (\<lambda>e. e\<lparr>left := next_free (mat h m)\<rparr>) h)"

definition alloc_entry :: "nat \<Rightarrow> heap \<Rightarrow> heap \<times> addr" where
  "alloc_entry m h =
     (let h1 = (if next_free (mat h m) = Null
                then foldl (chain_entry m (nblk h)) (new_block m h) [0..<Mod2sparse_block]
                else h);
          e = next_free (mat h1 m);
          h2 = upd_mat m (\<lambda>M. M\<lparr>next_free := left (ent h1 e)\<rparr>) h1;
          h3 = upd_ent e (\<lambda>x. x\<lparr>pr := 0\<rparr>) h2
      in (upd_ent e (\<lambda>x. x\<lparr>lr := 0\<rparr>) h3, e))"

text \<open>\<open>e->left = e->right = e->up = e->down = e\<close>\<close>

definition self_link :: "addr \<Rightarrow> heap \<Rightarrow> heap" where
  "self_link a h = upd_ent a (\<lambda>e. e\<lparr>left := a, right := a, up := a, down := a\<rparr>) h"

definition init_hdr :: "addr \<Rightarrow> heap \<Rightarrow> heap" where
  "init_hdr a h = upd_ent a (\<lambda>e. e\<lparr>row := -1, col := -1\<rparr>) (self_link a (upd_ent a (\<lambda>_. zero_entry) h))"

definition mod2sparse_allocate :: "int \<Rightarrow> int \<Rightarrow> heap \<Rightarrow> mod2err + heap \<times> nat" where
  "mod2sparse_allocate nr nc h =
     (if nr \<le> 0 \<or> nc \<le> 0
      then Inl (Exit ''mod2sparse_allocate: Invalid number of rows or columns'')
      else let m = nmat h;
               h1 = h\<lparr>nmat := Suc m,
                      mat := (mat h)(m := \<lparr>n_rows = nr, n_cols = nc, blocks = [], next_free = Null\<rparr>)\<rparr>;
               h2 = foldl (\<lambda>h i. init_hdr (RowHdr m i) h) h1 [0..<nat nr];
               h3 = foldl (\<lambda>h j. init_hdr (ColHdr m j) h) h2 [0..<nat nc]
           in Inr (h3, m))"

text \<open>\<open>while (r->blocks != 0) { b = r->blocks; r->blocks = b->next; free (b); }\<close>\<close>

definition free_blocks :: "nat \<Rightarrow> heap \<Rightarrow> heap" where
  "free_blocks m h =
     upd_mat m (\<lambda>M. M\<lparr>blocks := []\<rparr>)
       (h\<lparr>live := foldl (\<lambda>l b. l(b := False)) (live h) (blocks (mat h m))\<rparr>)"

definition mod2sparse_clear :: "nat \<Rightarrow> heap \<Rightarrow> heap" where
  "mod2sparse_clear r h =
     (let h1 = foldl (\<lambda>h i. self_link (RowHdr r i) h) h [0..<nat (mod2sparse_rows h r)];
          h2 = foldl (\<lambda>h j. self_link (ColHdr r j) h) h1 [0..<nat (mod2sparse_cols h r)]
      in free_blocks r h2)"

section \<open>Finding, inserting and deleting\<close>

fun find_loop :: "nat \<Rightarrow> heap \<Rightarrow> int \<Rightarrow> int \<Rightarrow> addr \<Rightarrow> addr \<Rightarrow> mod2err + addr" where
  "find_loop 0 h r c re ce = Inl No_return"
| "find_loop (Suc f) h r c re ce =
     (if at_end h re \<or> c < col (ent h re) then Inr Null
      else if col (ent h re) = c then Inr re
      else if at_end h ce \<or> r < row (ent h ce) then Inr Null
      else if row (ent h ce) = r then Inr ce
      else find_loop f h r c (next_in_row h re) (next_in_col h ce))"

definition out_of_bounds :: "heap \<Rightarrow> nat \<Rightarrow> int \<Rightarrow> int \<Rightarrow> bool" where
  "out_of_bounds h m r c \<longleftrightarrow>
     r < 0 \<or> r \<ge> mod2sparse_rows h m \<or> c < 0 \<or> c \<ge> mod2sparse_cols h m"

definition mod2sparse_find :: "nat \<Rightarrow> int \<Rightarrow> int \<Rightarrow> heap \<Rightarrow> mod2err + addr" where
  "mod2sparse_find m r c h =
     (if out_of_bounds h m r c then Inl (Exit ''mod2sparse_find: row or column index out of bounds'')
      else let re = last_in_row h m (nat r); ce = last_in_col h m (nat c) in
        if at_end h re \<or> col (ent h re) < c then Inr Null
        else if col (ent h re) = c then Inr re
        else if at_end h ce \<or> row (ent h ce) < r then Inr Null
        else if row (ent h ce) = r then Inr ce
        else find_loop (walk_fuel h m) h r c (first_in_row h m (nat r)) (first_in_col h m (nat c)))"

text \<open>
  The search for the place of a column in a row: the node that has it (\<open>True\<close>), or the node before
  which it belongs (\<open>False\<close>); and the same in a column.
\<close>

fun row_scan :: "nat \<Rightarrow> heap \<Rightarrow> int \<Rightarrow> addr \<Rightarrow> mod2err + bool \<times> addr" where
  "row_scan 0 h c re = Inl No_return"
| "row_scan (Suc f) h c re =
     (if \<not> at_end h re \<and> col (ent h re) = c then Inr (True, re)
      else if at_end h re \<or> c < col (ent h re) then Inr (False, re)
      else row_scan f h c (next_in_row h re))"

fun col_scan :: "nat \<Rightarrow> heap \<Rightarrow> int \<Rightarrow> addr \<Rightarrow> mod2err + bool \<times> addr" where
  "col_scan 0 h r ce = Inl No_return"
| "col_scan (Suc f) h r ce =
     (if \<not> at_end h ce \<and> row (ent h ce) = r then Inr (True, ce)
      else if at_end h ce \<or> r < row (ent h ce) then Inr (False, ce)
      else col_scan f h r (next_in_col h ce))"

definition row_place :: "nat \<Rightarrow> int \<Rightarrow> int \<Rightarrow> heap \<Rightarrow> mod2err + bool \<times> addr" where
  "row_place m r c h =
     (let re = last_in_row h m (nat r) in
      if \<not> at_end h re \<and> col (ent h re) = c then Inr (True, re)
      else if at_end h re \<or> col (ent h re) < c then Inr (False, right (ent h re))
      else row_scan (walk_fuel h m) h c (first_in_row h m (nat r)))"

definition col_place :: "nat \<Rightarrow> int \<Rightarrow> int \<Rightarrow> heap \<Rightarrow> mod2err + bool \<times> addr" where
  "col_place m r c h =
     (let ce = last_in_col h m (nat c) in
      if \<not> at_end h ce \<and> row (ent h ce) = r then Inr (True, ce)
      else if at_end h ce \<or> row (ent h ce) < r then Inr (False, down (ent h ce))
      else col_scan (walk_fuel h m) h r (first_in_col h m (nat c)))"

text \<open>
  \<open>ne->left = re->left; ne->right = re; ne->left->right = ne; ne->right->left = ne;\<close>
  and the same with \<open>up\<close> and \<open>down\<close>.
\<close>

definition link_row :: "addr \<Rightarrow> addr \<Rightarrow> heap \<Rightarrow> heap" where
  "link_row ne re h =
     (let h1 = upd_ent ne (\<lambda>e. e\<lparr>left := left (ent h re)\<rparr>) h;
          h2 = upd_ent ne (\<lambda>e. e\<lparr>right := re\<rparr>) h1;
          h3 = upd_ent (left (ent h2 ne)) (\<lambda>e. e\<lparr>right := ne\<rparr>) h2
      in upd_ent (right (ent h3 ne)) (\<lambda>e. e\<lparr>left := ne\<rparr>) h3)"

definition link_col :: "addr \<Rightarrow> addr \<Rightarrow> heap \<Rightarrow> heap" where
  "link_col ne ce h =
     (let h1 = upd_ent ne (\<lambda>e. e\<lparr>up := up (ent h ce)\<rparr>) h;
          h2 = upd_ent ne (\<lambda>e. e\<lparr>down := ce\<rparr>) h1;
          h3 = upd_ent (up (ent h2 ne)) (\<lambda>e. e\<lparr>down := ne\<rparr>) h2
      in upd_ent (down (ent h3 ne)) (\<lambda>e. e\<lparr>up := ne\<rparr>) h3)"

definition mod2sparse_insert :: "nat \<Rightarrow> int \<Rightarrow> int \<Rightarrow> heap \<Rightarrow> mod2err + heap \<times> addr" where
  "mod2sparse_insert m r c h =
     (if out_of_bounds h m r c then Inl (Exit ''mod2sparse_insert: row or column index out of bounds'')
      else case row_place m r c h of
        Inl x \<Rightarrow> Inl x
      | Inr (True, re) \<Rightarrow> Inr (h, re)
      | Inr (False, re) \<Rightarrow>
          (let (h1, ne) = alloc_entry m h;
               h2 = upd_ent ne (\<lambda>e. e\<lparr>row := r, col := c\<rparr>) h1;
               h3 = link_row ne re h2
           in case col_place m r c h3 of
                Inl x \<Rightarrow> Inl x
              | Inr (True, ce) \<Rightarrow> Inl (Exit ''mod2sparse_insert: Garbled matrix'')
              | Inr (False, ce) \<Rightarrow> Inr (link_col ne ce h3, ne)))"

definition unlink_row :: "addr \<Rightarrow> heap \<Rightarrow> heap" where
  "unlink_row e h =
     (let h1 = upd_ent (left (ent h e)) (\<lambda>x. x\<lparr>right := right (ent h e)\<rparr>) h
      in upd_ent (right (ent h1 e)) (\<lambda>x. x\<lparr>left := left (ent h1 e)\<rparr>) h1)"

definition unlink_col :: "addr \<Rightarrow> heap \<Rightarrow> heap" where
  "unlink_col e h =
     (let h1 = upd_ent (up (ent h e)) (\<lambda>x. x\<lparr>down := down (ent h e)\<rparr>) h
      in upd_ent (down (ent h1 e)) (\<lambda>x. x\<lparr>up := up (ent h1 e)\<rparr>) h1)"

definition mod2sparse_delete :: "nat \<Rightarrow> addr \<Rightarrow> heap \<Rightarrow> mod2err + heap" where
  "mod2sparse_delete m e h =
     (if e = Null then Inl (Exit ''mod2sparse_delete: Trying to delete a null entry'')
      else if row (ent h e) < 0 \<or> col (ent h e) < 0
      then Inl (Exit ''mod2sparse_delete: Trying to delete a header entry'')
      else let h1 = unlink_row e h;
               h2 = unlink_col e h1;
               h3 = upd_ent e (\<lambda>x. x\<lparr>left := next_free (mat h2 m)\<rparr>) h2
           in Inr (upd_mat m (\<lambda>M. M\<lparr>next_free := e\<rparr>) h3))"

section \<open>Products and counts\<close>

text \<open>The inner loop of \<open>mod2sparse_mulvec\<close>: \<open>v[mod2sparse_row (e)] ^= 1\<close> along a column.\<close>

fun col_flip :: "nat \<Rightarrow> heap \<Rightarrow> addr \<Rightarrow> u8 list \<Rightarrow> mod2err + u8 list" where
  "col_flip 0 h e v = Inl No_return"
| "col_flip (Suc f) h e v =
     (if at_end h e then Inr v
      else col_flip f h (next_in_col h e)
             (let i = nat (row (ent h e)) in v[i := v ! i XOR 1]))"

fun mulvec_loop :: "nat \<Rightarrow> u8 list \<Rightarrow> heap \<Rightarrow> nat list \<Rightarrow> u8 list \<Rightarrow> mod2err + u8 list" where
  "mulvec_loop m u h [] v = Inr v"
| "mulvec_loop m u h (j # js) v =
     (if u ! j \<noteq> 0
      then case col_flip (walk_fuel h m) h (first_in_col h m j) v of
             Inl x \<Rightarrow> Inl x
           | Inr v' \<Rightarrow> mulvec_loop m u h js v'
      else mulvec_loop m u h js v)"

definition mod2sparse_mulvec :: "nat \<Rightarrow> u8 list \<Rightarrow> heap \<Rightarrow> mod2err + u8 list" where
  "mod2sparse_mulvec m u h =
     mulvec_loop m u h [0..<nat (mod2sparse_cols h m)] (replicate (nat (mod2sparse_rows h m)) 0)"

fun row_count :: "nat \<Rightarrow> heap \<Rightarrow> addr \<Rightarrow> int \<Rightarrow> mod2err + int" where
  "row_count 0 h e count = Inl No_return"
| "row_count (Suc f) h e count =
     (if at_end h e then Inr count else row_count f h (next_in_row h e) (count + 1))"

fun col_count :: "nat \<Rightarrow> heap \<Rightarrow> addr \<Rightarrow> int \<Rightarrow> mod2err + int" where
  "col_count 0 h e count = Inl No_return"
| "col_count (Suc f) h e count =
     (if at_end h e then Inr count else col_count f h (next_in_col h e) (count + 1))"

definition mod2sparse_count_row :: "nat \<Rightarrow> int \<Rightarrow> heap \<Rightarrow> mod2err + int" where
  "mod2sparse_count_row m r h =
     (if r < 0 \<or> r \<ge> mod2sparse_rows h m then Inl (Exit ''mod2sparse_count_row: row index out of bounds'')
      else row_count (walk_fuel h m) h (first_in_row h m (nat r)) 0)"

definition mod2sparse_count_col :: "nat \<Rightarrow> int \<Rightarrow> heap \<Rightarrow> mod2err + int" where
  "mod2sparse_count_col m c h =
     (if c < 0 \<or> c \<ge> mod2sparse_cols h m then Inl (Exit ''mod2sparse_count_col: column index out of bounds'')
      else col_count (walk_fuel h m) h (first_in_col h m (nat c)) 0)"

end
