(* ===== verification/Mod2sparse_Lists.thy ===== *)
theory Mod2sparse_Lists
  imports Mod2sparse
begin

text \<open>
  Doubly linked segments: \<open>dseg n p a xs b\<close> says that following \<open>n\<close> from \<open>a\<close> visits the nodes
  \<open>xs\<close> in order and ends at \<open>b\<close>, and that \<open>p\<close> leads back. A row of a matrix is such a segment from
  its header to itself. The lemmas split a segment, and say what linking a node in and unlinking a
  node do to it.
\<close>

fun dseg :: "(addr \<Rightarrow> addr) \<Rightarrow> (addr \<Rightarrow> addr) \<Rightarrow> addr \<Rightarrow> addr list \<Rightarrow> addr \<Rightarrow> bool" where
  "dseg n p a [] b \<longleftrightarrow> n a = b \<and> p b = a"
| "dseg n p a (x # xs) b \<longleftrightarrow> n a = x \<and> p x = a \<and> dseg n p x xs b"

lemma dseg_first: "dseg n p a xs b \<Longrightarrow> n a = hd (xs @ [b])"
  by (cases xs) auto

lemma dseg_last: "dseg n p a xs b \<Longrightarrow> p b = last (a # xs)"
  by (induction xs arbitrary: a) auto

lemma dseg_append:
  "dseg n p a (xs @ ys) b \<longleftrightarrow> dseg n p a xs (hd (ys @ [b])) \<and> dseg n p (last (a # xs)) ys b"
proof (induction xs arbitrary: a)
  case Nil
  show ?case by (cases ys) auto
next
  case (Cons x xs)
  then show ?case by simp
qed

lemma dseg_mid: "dseg n p a (xs @ y # ys) b \<longleftrightarrow> dseg n p a xs y \<and> dseg n p y ys b"
  by (induction xs arbitrary: a) auto

lemma dseg_next:
  "dseg n p a (xs @ y # ys) b \<Longrightarrow> n y = hd (ys @ [b])"
  by (auto simp: dseg_append dest: dseg_first)

lemma dseg_prev:
  "dseg n p a (xs @ y # ys) b \<Longrightarrow> p y = last (a # xs)"
  by (simp add: dseg_append dseg_last)

text \<open>A segment depends on \<open>n\<close> at its start and its nodes, on \<open>p\<close> at its nodes and its end.\<close>

lemma dseg_cong:
  assumes "dseg n p a xs b" "\<And>v. v \<in> insert a (set xs) \<Longrightarrow> n' v = n v"
    "\<And>v. v \<in> insert b (set xs) \<Longrightarrow> p' v = p v"
  shows "dseg n' p' a xs b"
  using assms by (induction xs arbitrary: a) auto

lemma dseg_new_end:
  assumes "dseg n p a xs b" "distinct (a # xs)"
    "\<And>v. v \<in> set (butlast (a # xs)) \<Longrightarrow> n' v = n v" "n' (last (a # xs)) = z"
    "\<And>v. v \<in> set xs \<Longrightarrow> p' v = p v" "p' z = last (a # xs)"
  shows "dseg n' p' a xs z"
  using assms by (induction xs arbitrary: a) (auto split: if_splits)

lemma dseg_new_start:
  assumes "dseg n p a ys b" "n' z = hd (ys @ [b])" "p' (hd (ys @ [b])) = z"
    "\<And>v. v \<in> set ys \<Longrightarrow> n' v = n v" "\<And>v. v \<in> set (tl (ys @ [b])) \<Longrightarrow> p' v = p v"
  shows "dseg n' p' z ys b"
proof (cases ys)
  case Nil
  with assms show ?thesis by simp
next
  case (Cons y ys')
  have "dseg n' p' y ys' b"
    by (rule dseg_cong [of n p]) (use assms Cons in auto)
  with assms Cons show ?thesis by simp
qed

lemma hd_snoc_in: "hd (ys @ [b]) \<in> insert b (set ys)"
  by (cases ys) auto

lemma last_Cons_in: "last (a # xs) \<in> insert a (set xs)"
  by (cases xs rule: rev_cases) auto

lemma butlast_notin_last: "distinct (a # xs) \<Longrightarrow> v \<in> set (butlast (a # xs)) \<Longrightarrow> v \<noteq> last (a # xs)"
  by (metis append_butlast_last_id distinct_butlast distinct_append list.distinct(1) list.set_intros(1)
      IntI empty_iff list.simps(15) insert_iff)

lemma tl_snoc_notin_hd: "distinct ys \<Longrightarrow> b \<notin> set ys \<Longrightarrow> v \<in> set (tl (ys @ [b])) \<Longrightarrow> v \<noteq> hd (ys @ [b])"
  by (cases ys) auto

text \<open>Linking \<open>z\<close> in between the two parts of a segment.\<close>

lemma dseg_insert:
  assumes seg: "dseg n p a (xs @ ys) b" and dist: "distinct (a # xs @ ys)" "b \<notin> set (xs @ ys)"
    and z: "z \<notin> set (xs @ ys)" "z \<noteq> a" "z \<noteq> b"
  defines "l \<equiv> last (a # xs)" and "r \<equiv> hd (ys @ [b])"
  shows "dseg (n(z := r, l := z)) (p(z := l, r := z)) a (xs @ z # ys) b"
proof -
  have parts: "dseg n p a xs r" "dseg n p l ys b"
    using seg by (simp_all add: dseg_append l_def r_def)
  have l: "l \<in> insert a (set xs)" unfolding l_def by (rule last_Cons_in)
  have r: "r \<in> insert b (set ys)" unfolding r_def by (rule hd_snoc_in)
  have 1: "dseg (n(z := r, l := z)) (p(z := l, r := z)) a xs z"
  proof (rule dseg_new_end [OF parts(1)])
    show "distinct (a # xs)" using dist by auto
    show "(n(z := r, l := z)) v = n v" if "v \<in> set (butlast (a # xs))" for v
      using that butlast_notin_last [of a xs v] dist z in_set_butlastD [OF that]
      by (auto simp: l_def)
    show "(n(z := r, l := z)) (last (a # xs)) = z" by (simp add: l_def)
    show "(p(z := l, r := z)) v = p v" if "v \<in> set xs" for v
      using that r dist z by auto
    show "(p(z := l, r := z)) z = last (a # xs)" using r z by (auto simp: l_def)
  qed
  have 2: "dseg (n(z := r, l := z)) (p(z := l, r := z)) z ys b"
  proof (rule dseg_new_start [OF parts(2)])
    show "(n(z := r, l := z)) z = hd (ys @ [b])" using l z by (auto simp: r_def)
    show "(p(z := l, r := z)) (hd (ys @ [b])) = z" by (simp add: r_def)
    show "(n(z := r, l := z)) v = n v" if "v \<in> set ys" for v
      using that l dist z by auto
    show "(p(z := l, r := z)) v = p v" if "v \<in> set (tl (ys @ [b]))" for v
    proof -
      have "v \<noteq> r" using that tl_snoc_notin_hd [of ys b v] dist by (simp add: r_def)
      moreover have "v \<noteq> z" using that z by (cases ys) auto
      ultimately show ?thesis by simp
    qed
  qed
  from 1 2 show ?thesis unfolding dseg_mid ..
qed

text \<open>Unlinking \<open>z\<close>.\<close>

lemma dseg_delete:
  assumes seg: "dseg n p a (xs @ z # ys) b" and dist: "distinct (a # xs @ z # ys)" "b \<notin> set (xs @ z # ys)"
  shows "dseg (n(p z := n z)) (p(n z := p z)) a (xs @ ys) b"
proof -
  define l where "l = last (a # xs)"
  define r where "r = hd (ys @ [b])"
  have pz: "p z = l" and nz: "n z = r" using seg by (auto simp: l_def r_def dest: dseg_prev dseg_next)
  have parts: "dseg n p a xs z" "dseg n p z ys b"
    using seg by (simp_all add: dseg_mid)
  have l: "l \<in> insert a (set xs)" unfolding l_def by (rule last_Cons_in)
  have r: "r \<in> insert b (set ys)" unfolding r_def by (rule hd_snoc_in)
  have 1: "dseg (n(l := r)) (p(r := l)) a xs r"
  proof (rule dseg_new_end [OF parts(1)])
    show "distinct (a # xs)" using dist by auto
    show "(n(l := r)) v = n v" if "v \<in> set (butlast (a # xs))" for v
      using that butlast_notin_last [of a xs v] dist by (auto simp: l_def)
    show "(p(r := l)) v = p v" if "v \<in> set xs" for v
      using that r dist by auto
  qed (simp_all add: l_def)
  have 2: "dseg (n(l := r)) (p(r := l)) l ys b"
  proof (rule dseg_new_start [OF parts(2)])
    show "(n(l := r)) v = n v" if "v \<in> set ys" for v using that l dist by auto
    show "(p(r := l)) v = p v" if "v \<in> set (tl (ys @ [b]))" for v
      using that tl_snoc_notin_hd [of ys b v] dist by (simp add: r_def)
  qed (simp_all add: r_def)
  from 1 2 show ?thesis by (simp add: dseg_append pz nz l_def r_def)
qed

text \<open>Sorted keys split a list at a key.\<close>

lemma sorted_key_split:
  fixes k :: "addr \<Rightarrow> int"
  assumes "sorted_wrt (<) (map k xs)" "c \<notin> k ` set xs"
  shows "\<forall>x \<in> set (dropWhile (\<lambda>x. k x < c) xs). c < k x"
  using assms
proof (induction xs)
  case Nil
  then show ?case by simp
next
  case (Cons x xs)
  show ?case
  proof (cases "k x < c")
    case True
    with Cons show ?thesis by auto
  next
    case False
    with Cons.prems(2) have "c < k x" by auto
    moreover have "\<forall>y \<in> set xs. k x < k y" using Cons.prems(1) by auto
    ultimately show ?thesis using False by auto
  qed
qed

lemma sorted_key_insert:
  fixes k :: "addr \<Rightarrow> int"
  assumes "sorted_wrt (<) (map k xs)" "c \<notin> k ` set xs" "k z = c"
  shows "sorted_wrt (<) (map k (takeWhile (\<lambda>x. k x < c) xs @ z # dropWhile (\<lambda>x. k x < c) xs))"
proof -
  let ?t = "takeWhile (\<lambda>x. k x < c) xs" and ?d = "dropWhile (\<lambda>x. k x < c) xs"
  have "map k xs = map k ?t @ map k ?d" by (simp flip: map_append)
  with assms(1) have "sorted_wrt (<) (map k ?t @ map k ?d)" by (simp only:)
  then have srt: "sorted_wrt (<) (map k ?t)" "sorted_wrt (<) (map k ?d)"
    by (simp_all add: sorted_wrt_append)
  have "\<forall>x \<in> set ?t. k x < c" by (auto dest: set_takeWhileD)
  moreover have "\<forall>x \<in> set ?d. c < k x" by (rule sorted_key_split [OF assms(1,2)])
  ultimately show ?thesis using srt assms(3) by (fastforce simp: sorted_wrt_append)
qed

lemma sorted_key_last:
  fixes k :: "addr \<Rightarrow> int"
  assumes "sorted_wrt (<) (map k xs)" "x \<in> set xs" shows "k x \<le> k (last xs)"
  using assms by (induction xs) (auto simp: less_imp_le)

lemma sorted_key_distinct:
  fixes k :: "addr \<Rightarrow> int"
  assumes "sorted_wrt (<) (map k xs)" shows "distinct xs"
  using assms by (induction xs) auto

lemma sorted_key_length:
  fixes k :: "addr \<Rightarrow> int"
  assumes "sorted_wrt (<) (map k xs)" "\<forall>x \<in> set xs. 0 \<le> k x \<and> k x < int n"
  shows "length xs \<le> n"
proof -
  have "distinct (map k xs)" using assms(1) strict_sorted_iff by blast
  then have "length xs = card (k ` set xs)" by (metis distinct_card length_map list.set_map)
  also have "\<dots> \<le> card {0..<int n}" using assms(2) by (intro card_mono) auto
  finally show ?thesis by simp
qed

lemma sorted_key_card:
  fixes k :: "addr \<Rightarrow> int"
  assumes "sorted_wrt (<) (map k xs)" "\<forall>x \<in> set xs. 0 \<le> k x"
  shows "card (nat ` k ` set xs) = length xs"
proof -
  have "distinct (map k xs)" using assms(1) strict_sorted_iff by blast
  then have "card (k ` set xs) = length xs" by (metis distinct_card length_map set_map)
  moreover have "inj_on nat (k ` set xs)"
    using assms(2) by (intro inj_onI) (metis eq_nat_nat_iff imageE)
  ultimately show ?thesis by (simp add: card_image)
qed

end
