(* ===== verification/Mod2sparse_Inv.thy ===== *)
theory Mod2sparse_Inv
  imports Mod2sparse_Lists
begin

text \<open>
  The representation invariant of a sparse matrix and what the pointer operations do to it. The
  ghost lists \<open>rl\<close> and \<open>cl\<close> are the nodes of each row and column in order, \<open>fl\<close> the free nodes.
  \<open>mat_rel h m nr nc E\<close> is the abstraction: matrix \<open>m\<close> of heap \<open>h\<close> is well formed, has \<open>nr\<close>
  rows and \<open>nc\<close> columns, and its nonzero entries are the pairs in \<open>E\<close>. \<open>heap_ok\<close> keeps the blocks
  of different matrices apart, and \<open>mframe\<close> says that an operation touched one matrix only.
\<close>

section \<open>The invariant\<close>

definition owned :: "heap \<Rightarrow> nat \<Rightarrow> addr \<Rightarrow> bool" where
  "owned h m a \<longleftrightarrow> (\<exists>b k. a = Ent b k \<and> b \<in> set (blocks (mat h m)) \<and> k < Mod2sparse_block)"

definition rows_ok :: "(addr \<Rightarrow> mod2entry) \<Rightarrow> nat \<Rightarrow> nat \<Rightarrow> (nat \<Rightarrow> addr list) \<Rightarrow> bool" where
  "rows_ok E m nr rl \<longleftrightarrow> (\<forall>i < nr.
     dseg (\<lambda>a. right (E a)) (\<lambda>a. left (E a)) (RowHdr m i) (rl i) (RowHdr m i) \<and>
     sorted_wrt (<) (map (\<lambda>a. col (E a)) (rl i)) \<and> row (E (RowHdr m i)) = -1)"

definition cols_ok :: "(addr \<Rightarrow> mod2entry) \<Rightarrow> nat \<Rightarrow> nat \<Rightarrow> (nat \<Rightarrow> addr list) \<Rightarrow> bool" where
  "cols_ok E m nc cl \<longleftrightarrow> (\<forall>j < nc.
     dseg (\<lambda>a. down (E a)) (\<lambda>a. up (E a)) (ColHdr m j) (cl j) (ColHdr m j) \<and>
     sorted_wrt (<) (map (\<lambda>a. row (E a)) (cl j)) \<and> row (E (ColHdr m j)) = -1)"

definition nodes_ok :: "(addr \<Rightarrow> mod2entry) \<Rightarrow> nat \<Rightarrow> nat \<Rightarrow>
    (nat \<Rightarrow> addr list) \<Rightarrow> (nat \<Rightarrow> addr list) \<Rightarrow> bool" where
  "nodes_ok E nr nc rl cl \<longleftrightarrow>
     (\<forall>i < nr. \<forall>x \<in> set (rl i). \<exists>j < nc. row (E x) = int i \<and> col (E x) = int j \<and> x \<in> set (cl j)) \<and>
     (\<forall>j < nc. \<forall>x \<in> set (cl j). \<exists>i < nr. row (E x) = int i \<and> col (E x) = int j \<and> x \<in> set (rl i))"

definition nodes :: "nat \<Rightarrow> (nat \<Rightarrow> addr list) \<Rightarrow> addr set" where
  "nodes nr rl = (\<Union>i < nr. set (rl i))"

fun fchain :: "(addr \<Rightarrow> addr) \<Rightarrow> addr \<Rightarrow> addr list \<Rightarrow> bool" where
  "fchain l a [] \<longleftrightarrow> a = Null"
| "fchain l a (x # xs) \<longleftrightarrow> a = x \<and> fchain l (l x) xs"

abbreviation nrow :: "heap \<Rightarrow> nat \<Rightarrow> nat" where
  "nrow h m \<equiv> nat (n_rows (mat h m))"

abbreviation ncol :: "heap \<Rightarrow> nat \<Rightarrow> nat" where
  "ncol h m \<equiv> nat (n_cols (mat h m))"

definition mat_rep :: "heap \<Rightarrow> nat \<Rightarrow> (nat \<Rightarrow> addr list) \<Rightarrow> (nat \<Rightarrow> addr list) \<Rightarrow> addr list \<Rightarrow> bool" where
  "mat_rep h m rl cl fl \<longleftrightarrow>
     0 < n_rows (mat h m) \<and> 0 < n_cols (mat h m) \<and> m < nmat h \<and>
     rows_ok (ent h) m (nrow h m) rl \<and> cols_ok (ent h) m (ncol h m) cl \<and>
     nodes_ok (ent h) (nrow h m) (ncol h m) rl cl \<and>
     fchain (\<lambda>a. left (ent h a)) (next_free (mat h m)) fl \<and> distinct fl \<and>
     (\<forall>x \<in> set fl \<union> nodes (nrow h m) rl. owned h m x) \<and> set fl \<inter> nodes (nrow h m) rl = {} \<and>
     (\<forall>b \<in> set (blocks (mat h m)). live h b)"

definition heap_ok :: "heap \<Rightarrow> bool" where
  "heap_ok h \<longleftrightarrow>
     (\<forall>m < nmat h. \<forall>b \<in> set (blocks (mat h m)). b < nblk h) \<and>
     (\<forall>m < nmat h. \<forall>m' < nmat h. m \<noteq> m' \<longrightarrow> set (blocks (mat h m)) \<inter> set (blocks (mat h m')) = {})"

definition entries_of :: "(addr \<Rightarrow> mod2entry) \<Rightarrow> nat \<Rightarrow> (nat \<Rightarrow> addr list) \<Rightarrow> (nat \<times> nat) set" where
  "entries_of E nr rl = {(i, nat (col (E x))) | i x. i < nr \<and> x \<in> set (rl i)}"

definition mat_rel :: "heap \<Rightarrow> nat \<Rightarrow> nat \<Rightarrow> nat \<Rightarrow> (nat \<times> nat) set \<Rightarrow> bool" where
  "mat_rel h m nr nc E \<longleftrightarrow> heap_ok h \<and> nr = nrow h m \<and> nc = ncol h m \<and>
     (\<exists>rl cl fl. mat_rep h m rl cl fl \<and> E = entries_of (ent h) nr rl)"

definition mframe :: "nat \<Rightarrow> heap \<Rightarrow> heap \<Rightarrow> bool" where
  "mframe m h h' \<longleftrightarrow> nmat h \<le> nmat h' \<and>
     (\<forall>m' < nmat h. m' \<noteq> m \<longrightarrow> mat h' m' = mat h m' \<and>
        (\<forall>i. ent h' (RowHdr m' i) = ent h (RowHdr m' i) \<and> ent h' (ColHdr m' i) = ent h (ColHdr m' i)) \<and>
        (\<forall>b \<in> set (blocks (mat h m')). live h' b = live h b \<and> (\<forall>k. ent h' (Ent b k) = ent h (Ent b k))))"

text \<open>The addresses a change of matrix \<open>m\<close> may touch.\<close>

definition foot :: "heap \<Rightarrow> nat \<Rightarrow> addr \<Rightarrow> bool" where
  "foot h m a \<longleftrightarrow> (\<exists>i. a = RowHdr m i \<or> a = ColHdr m i) \<or> owned h m a"

lemma heap_ok_heap0 [simp]: "heap_ok heap0"
  by (simp add: heap_ok_def heap0_def)

lemma heap_ok_disjoint:
  "heap_ok h \<Longrightarrow> m < nmat h \<Longrightarrow> m' < nmat h \<Longrightarrow> m \<noteq> m' \<Longrightarrow> b \<in> set (blocks (mat h m)) \<Longrightarrow>
    b \<notin> set (blocks (mat h m'))"
  unfolding heap_ok_def by blast

section \<open>Frames\<close>

lemma frame_refl: "mframe m h h"
  by (simp add: mframe_def)

lemma frame_trans:
  assumes "mframe m h h'" "mframe m h' h''" shows "mframe m h h''"
  unfolding mframe_def
proof (intro conjI allI impI)
  show "nmat h \<le> nmat h''" using assms by (auto simp: mframe_def)
  fix m' assume m': "m' < nmat h" "m' \<noteq> m"
  then have "m' < nmat h'" using assms by (auto simp: mframe_def)
  note 1 = assms(1) [unfolded mframe_def, THEN conjunct2, rule_format, OF m']
    and 2 = assms(2) [unfolded mframe_def, THEN conjunct2, rule_format, OF this m'(2)]
  show "mat h'' m' = mat h m'"
    "\<And>i. ent h'' (RowHdr m' i) = ent h (RowHdr m' i)"
    "\<And>i. ent h'' (ColHdr m' i) = ent h (ColHdr m' i)" using 1 2 by auto
  show "\<forall>b \<in> set (blocks (mat h m')). live h'' b = live h b \<and> (\<forall>k. ent h'' (Ent b k) = ent h (Ent b k))"
    using 1 2 by auto
qed

lemma rows_ok_cong:
  assumes "rows_ok E m nr rl" "\<And>i. i < nr \<Longrightarrow> E' (RowHdr m i) = E (RowHdr m i)"
    "\<And>x. x \<in> nodes nr rl \<Longrightarrow> E' x = E x"
  shows "rows_ok E' m nr rl"
  unfolding rows_ok_def
proof (intro allI impI conjI)
  fix i assume i: "i < nr"
  have nd: "E' x = E x" if "x \<in> set (rl i)" for x
    using assms(3) that i by (auto simp: nodes_def)
  show "dseg (\<lambda>a. right (E' a)) (\<lambda>a. left (E' a)) (RowHdr m i) (rl i) (RowHdr m i)"
    by (rule dseg_cong [of "\<lambda>a. right (E a)" "\<lambda>a. left (E a)"])
      (use assms(1,2) i nd in \<open>auto simp: rows_ok_def\<close>)
  show "sorted_wrt (<) (map (\<lambda>a. col (E' a)) (rl i))"
    using assms(1) i nd by (simp add: rows_ok_def cong: map_cong)
  show "row (E' (RowHdr m i)) = -1" using assms(1,2) i by (simp add: rows_ok_def)
qed

lemma cols_ok_cong:
  assumes "cols_ok E m nc cl" "\<And>j. j < nc \<Longrightarrow> E' (ColHdr m j) = E (ColHdr m j)"
    "\<And>x. x \<in> nodes nc cl \<Longrightarrow> E' x = E x"
  shows "cols_ok E' m nc cl"
  unfolding cols_ok_def
proof (intro allI impI conjI)
  fix j assume j: "j < nc"
  have nd: "E' x = E x" if "x \<in> set (cl j)" for x
    using assms(3) that j by (auto simp: nodes_def)
  show "dseg (\<lambda>a. down (E' a)) (\<lambda>a. up (E' a)) (ColHdr m j) (cl j) (ColHdr m j)"
    by (rule dseg_cong [of "\<lambda>a. down (E a)" "\<lambda>a. up (E a)"])
      (use assms(1,2) j nd in \<open>auto simp: cols_ok_def\<close>)
  show "sorted_wrt (<) (map (\<lambda>a. row (E' a)) (cl j))"
    using assms(1) j nd by (simp add: cols_ok_def cong: map_cong)
  show "row (E' (ColHdr m j)) = -1" using assms(1,2) j by (simp add: cols_ok_def)
qed

lemma nodes_ok_cong:
  assumes "nodes_ok E nr nc rl cl" "\<And>x. x \<in> nodes nr rl \<Longrightarrow> E' x = E x"
  shows "nodes_ok E' nr nc rl cl"
proof -
  have "E' x = E x" if "i < nr" "x \<in> set (rl i)" for i x
    using assms(2) that by (auto simp: nodes_def)
  then show ?thesis using assms(1) unfolding nodes_ok_def by (metis (no_types, lifting))
qed

lemma nodes_cols: "nodes_ok E nr nc rl cl \<Longrightarrow> nodes nc cl = nodes nr rl"
  unfolding nodes_ok_def nodes_def by (auto 4 4)

lemma nodes_ok_row: "nodes_ok E nr nc rl cl \<Longrightarrow> i < nr \<Longrightarrow> x \<in> set (rl i) \<Longrightarrow> row (E x) = int i"
  by (auto simp: nodes_ok_def)

lemma nodes_ok_col: "nodes_ok E nr nc rl cl \<Longrightarrow> j < nc \<Longrightarrow> x \<in> set (cl j) \<Longrightarrow> col (E x) = int j"
  by (auto simp: nodes_ok_def)

lemma fchain_cong: "fchain l a xs \<Longrightarrow> (\<And>x. x \<in> set xs \<Longrightarrow> l' x = l x) \<Longrightarrow> fchain l' a xs"
  by (induction xs arbitrary: a) auto

text \<open>The invariant only looks at the footprint of its matrix.\<close>

lemma mat_rep_upd:
  assumes "mat_rep h m rl cl fl" "n_rows (mat h' m) = n_rows (mat h m)" "n_cols (mat h' m) = n_cols (mat h m)"
    "m < nmat h'"
    and hd: "\<And>i. ent h' (RowHdr m i) = ent h (RowHdr m i)" "\<And>i. ent h' (ColHdr m i) = ent h (ColHdr m i)"
    and nd: "\<And>x. x \<in> nodes (nrow h m) rl \<Longrightarrow> ent h' x = ent h x"
    and fl: "fchain (\<lambda>a. left (ent h' a)) (next_free (mat h' m)) fl'" "distinct fl'"
      "\<And>x. x \<in> set fl' \<Longrightarrow> owned h' m x" "set fl' \<inter> nodes (nrow h m) rl = {}"
    and bl: "set (blocks (mat h m)) \<subseteq> set (blocks (mat h' m))" "\<forall>b \<in> set (blocks (mat h' m)). live h' b"
  shows "mat_rep h' m rl cl fl'"
proof -
  note rep = assms(1) [unfolded mat_rep_def]
  have "rows_ok (ent h') m (nrow h m) rl"
    by (rule rows_ok_cong [of "ent h"]) (use rep hd nd in auto)
  moreover have "cols_ok (ent h') m (ncol h m) cl"
    by (rule cols_ok_cong [of "ent h"]) (use rep hd nd nodes_cols in auto)
  moreover have "nodes_ok (ent h') (nrow h m) (ncol h m) rl cl"
    by (rule nodes_ok_cong [of "ent h"]) (use rep nd in auto)
  moreover have "owned h' m x" if "x \<in> nodes (nrow h m) rl" for x
  proof -
    have "owned h m x" using rep that by blast
    then show ?thesis using bl(1) by (auto simp: owned_def)
  qed
  ultimately show ?thesis
    using rep assms(2-4) fl bl by (auto simp: mat_rep_def)
qed

lemma mat_rep_cong:
  assumes "mat_rep h m rl cl fl" "mat h' m = mat h m" "m < nmat h'"
    "\<And>a. foot h m a \<Longrightarrow> ent h' a = ent h a"
    "\<And>b. b \<in> set (blocks (mat h m)) \<Longrightarrow> live h' b = live h b"
  shows "mat_rep h' m rl cl fl"
proof (rule mat_rep_upd [OF assms(1)])
  note rep = assms(1) [unfolded mat_rep_def]
  show "ent h' x = ent h x" if "x \<in> nodes (nrow h m) rl" for x
    using rep that assms(4) by (auto simp: foot_def)
  show "fchain (\<lambda>a. left (ent h' a)) (next_free (mat h' m)) fl"
    by (rule fchain_cong [of "\<lambda>a. left (ent h a)"]) (use rep assms(2,4) in \<open>auto simp: foot_def\<close>)
qed (use assms in \<open>auto simp: mat_rep_def foot_def owned_def\<close>)

lemma frame_mat_rep:
  assumes "mframe m h h'" "m' \<noteq> m" "mat_rep h m' rl cl fl"
  shows "mat_rep h' m' rl cl fl"
proof (rule mat_rep_cong [OF assms(3)])
  have m': "m' < nmat h" using assms(3) by (simp add: mat_rep_def)
  with assms(1,2) show "mat h' m' = mat h m'" "m' < nmat h'" by (auto simp: mframe_def)
  show "ent h' a = ent h a" if "foot h m' a" for a
    using that assms(1,2) m' by (auto simp: mframe_def foot_def owned_def)
  show "live h' b = live h b" if "b \<in> set (blocks (mat h m'))" for b
    using that assms(1,2) m' by (auto simp: mframe_def)
qed

lemma entries_of_cong:
  "(\<And>x. x \<in> nodes nr rl \<Longrightarrow> E' x = E x) \<Longrightarrow> entries_of E' nr rl = entries_of E nr rl"
  unfolding entries_of_def nodes_def by (rule Collect_cong) (metis (no_types, lifting) UN_I lessThan_iff)

lemma frame_mat_rel:
  assumes "mframe m h h'" "heap_ok h'" "m' \<noteq> m" "mat_rel h m' nr nc E"
  shows "mat_rel h' m' nr nc E"
proof -
  from assms(4) obtain rl cl fl where rep: "mat_rep h m' rl cl fl"
    and E: "E = entries_of (ent h) nr rl" and n: "nr = nrow h m'" "nc = ncol h m'"
    by (auto simp: mat_rel_def)
  have m': "m' < nmat h" using rep by (simp add: mat_rep_def)
  have "mat_rep h' m' rl cl fl" by (rule frame_mat_rep [OF assms(1,3) rep])
  moreover have "mat h' m' = mat h m'" using assms(1,3) m' by (simp add: mframe_def)
  moreover have "entries_of (ent h') nr rl = entries_of (ent h) nr rl"
  proof (rule entries_of_cong)
    fix x assume "x \<in> nodes nr rl"
    then have "owned h m' x" using rep n by (auto simp: mat_rep_def)
    then show "ent h' x = ent h x" using assms(1,3) m' by (auto simp: mframe_def owned_def)
  qed
  ultimately show ?thesis using assms(2) E n by (auto simp: mat_rel_def)
qed

lemma upd_ent_simps [simp]:
  "mat (upd_ent a f h) = mat h" "nmat (upd_ent a f h) = nmat h" "nblk (upd_ent a f h) = nblk h"
  "live (upd_ent a f h) = live h" "ent (upd_ent a f h) = (ent h)(a := f (ent h a))"
  by (simp_all add: upd_ent_def)

lemma upd_mat_simps [simp]:
  "ent (upd_mat m f h) = ent h" "nmat (upd_mat m f h) = nmat h" "nblk (upd_mat m f h) = nblk h"
  "live (upd_mat m f h) = live h" "mat (upd_mat m f h) = (mat h)(m := f (mat h m))"
  by (simp_all add: upd_mat_def)

lemma heap_ok_upd_ent [simp]: "heap_ok (upd_ent a f h) = heap_ok h"
  by (simp add: heap_ok_def)

lemma frame_footI:
  assumes "heap_ok h" "m < nmat h" "mat h' = mat h" "nmat h' = nmat h" "live h' = live h"
    "\<And>a. \<not> foot h m a \<Longrightarrow> ent h' a = ent h a"
  shows "mframe m h h'"
proof -
  have "\<not> foot h m (RowHdr m' i)" "\<not> foot h m (ColHdr m' i)" if "m' \<noteq> m" for m' i
    using that by (auto simp: foot_def owned_def)
  moreover have "\<not> foot h m (Ent b k)" if "m' < nmat h" "m' \<noteq> m" "b \<in> set (blocks (mat h m'))" for m' b k
    using that heap_ok_disjoint [OF assms(1) that(1) assms(2)] by (auto simp: foot_def owned_def)
  ultimately show ?thesis using assms by (auto simp: mframe_def)
qed

lemma frame_upd_mat: "mframe m h (upd_mat m f h)"
  by (simp add: mframe_def)

lemma frame_upd_ent:
  assumes "heap_ok h" "m < nmat h" "foot h m a"
  shows "mframe m h (upd_ent a f h)"
  by (rule frame_footI) (use assms in auto)

end
