(* ===== verification/Mod2sparse_Ops.thy ===== *)
theory Mod2sparse_Ops
  imports Mod2sparse_Inv
begin

text \<open>
  What the pointer operations of \<open>mod2sparse.c\<close> do to the representation. Rows and columns are
  handled once: \<open>lists_ok\<close> is a family of sorted circular lists with headers, \<open>place_of\<close> is where
  a key belongs in one of them, and the lemmas on linking and unlinking are stated for the family.
\<close>

section \<open>Families of sorted circular lists\<close>

definition lists_ok :: "(addr \<Rightarrow> addr) \<Rightarrow> (addr \<Rightarrow> addr) \<Rightarrow> (addr \<Rightarrow> int) \<Rightarrow> (nat \<Rightarrow> addr) \<Rightarrow> nat \<Rightarrow>
    (nat \<Rightarrow> addr list) \<Rightarrow> bool" where
  "lists_ok n p key hdr cnt ls \<longleftrightarrow>
     (\<forall>i < cnt. dseg n p (hdr i) (ls i) (hdr i) \<and> sorted_wrt (<) (map key (ls i)))"

definition lists_sep :: "(nat \<Rightarrow> addr) \<Rightarrow> nat \<Rightarrow> (nat \<Rightarrow> addr list) \<Rightarrow> bool" where
  "lists_sep hdr cnt ls \<longleftrightarrow> inj hdr \<and> (\<forall>i < cnt. \<forall>j. hdr j \<notin> set (ls i)) \<and>
     (\<forall>i < cnt. \<forall>j < cnt. i \<noteq> j \<longrightarrow> set (ls i) \<inter> set (ls j) = {})"

lemma lists_sepI:
  assumes "inj hdr" "\<And>i j. i < cnt \<Longrightarrow> hdr j \<notin> set (ls i)"
    "\<And>i x. i < cnt \<Longrightarrow> x \<in> set (ls i) \<Longrightarrow> tag x = int i"
  shows "lists_sep hdr cnt ls"
  unfolding lists_sep_def
proof (intro conjI allI impI)
  fix i j assume "i < cnt" "j < cnt" "i \<noteq> j"
  then show "set (ls i) \<inter> set (ls j) = {}"
    using assms(3) [of i] assms(3) [of j] by (metis disjoint_iff of_nat_eq_iff)
qed (use assms in auto)

lemma lists_sep_hdr: "lists_sep hdr cnt ls \<Longrightarrow> i < cnt \<Longrightarrow> hdr j \<notin> set (ls i)"
  by (simp add: lists_sep_def)

lemma lists_sep_apart:
  assumes "lists_sep hdr cnt ls" "i < cnt" "j < cnt" "i \<noteq> j"
  shows "insert (hdr i) (set (ls i)) \<inter> insert (hdr j) (set (ls j)) = {}"
proof -
  have "hdr i \<noteq> hdr j" using assms by (metis injD lists_sep_def)
  moreover have "set (ls i) \<inter> set (ls j) = {}" using assms unfolding lists_sep_def by blast
  ultimately show ?thesis using assms lists_sep_hdr by auto
qed

lemma rows_ok_lists:
  "rows_ok E m nr rl \<longleftrightarrow>
     lists_ok (\<lambda>a. right (E a)) (\<lambda>a. left (E a)) (\<lambda>a. col (E a)) (RowHdr m) nr rl \<and>
     (\<forall>i < nr. row (E (RowHdr m i)) = -1)"
  unfolding rows_ok_def lists_ok_def by blast

lemma cols_ok_lists:
  "cols_ok E m nc cl \<longleftrightarrow>
     lists_ok (\<lambda>a. down (E a)) (\<lambda>a. up (E a)) (\<lambda>a. row (E a)) (ColHdr m) nc cl \<and>
     (\<forall>j < nc. row (E (ColHdr m j)) = -1)"
  unfolding cols_ok_def lists_ok_def by blast

text \<open>Where a key belongs in a sorted list: whether it is there, and the node at or before which.\<close>

definition place_of :: "(addr \<Rightarrow> int) \<Rightarrow> int \<Rightarrow> addr list \<Rightarrow> addr \<Rightarrow> bool \<times> addr" where
  "place_of key c xs hdr = (let ys = dropWhile (\<lambda>x. key x < c) xs in
     (ys \<noteq> [] \<and> key (hd ys) = c, hd (ys @ [hdr])))"

definition put_at :: "(addr \<Rightarrow> int) \<Rightarrow> int \<Rightarrow> addr \<Rightarrow> addr list \<Rightarrow> addr list" where
  "put_at key c z xs = takeWhile (\<lambda>x. key x < c) xs @ z # dropWhile (\<lambda>x. key x < c) xs"

lemma set_put_at [simp]: "set (put_at key c z xs) = insert z (set xs)"
proof -
  have "set xs = set (takeWhile (\<lambda>x. key x < c) xs @ dropWhile (\<lambda>x. key x < c) xs)" by simp
  then show ?thesis unfolding put_at_def by (simp del: takeWhile_dropWhile_id)
qed

lemma place_of_found:
  assumes "place_of key c xs hdr = (True, x)" shows "x \<in> set xs" "key x = c"
proof -
  let ?d = "dropWhile (\<lambda>x. key x < c) xs"
  have "?d \<noteq> []" "key (hd ?d) = c" "x = hd ?d"
    using assms by (auto simp: place_of_def Let_def hd_append)
  then show "x \<in> set xs" "key x = c" using set_dropWhileD hd_in_set by (metis, simp)
qed

lemma place_of_absent:
  assumes "place_of key c xs hdr = (False, x)" "sorted_wrt (<) (map key xs)"
  shows "c \<notin> key ` set xs"
proof
  assume "c \<in> key ` set xs"
  then obtain y where y: "y \<in> set xs" "key y = c" by auto
  let ?d = "dropWhile (\<lambda>x. key x < c) xs" and ?t = "takeWhile (\<lambda>x. key x < c) xs"
  have "y \<notin> set ?t" using y by (auto dest: set_takeWhileD)
  then have yd: "y \<in> set ?d" using y(1) by (metis Un_iff set_append takeWhile_dropWhile_id)
  then have ne: "?d \<noteq> []" by (metis empty_iff empty_set)
  have "\<not> key (hd ?d) < c" using hd_dropWhile [OF ne] by simp
  moreover have "sorted_wrt (<) (map key ?d)"
    using assms(2) by (metis map_append sorted_wrt_append takeWhile_dropWhile_id)
  then have "key (hd ?d) \<le> key y" using yd by (cases ?d) auto
  ultimately have "key (hd ?d) = c" using y by simp
  with assms(1) ne show False by (simp add: place_of_def Let_def)
qed

lemma place_of_cong:
  assumes "\<And>x. x \<in> set xs \<Longrightarrow> key' x = key x" shows "place_of key' c xs hdr = place_of key c xs hdr"
proof -
  let ?d = "dropWhile (\<lambda>x. key x < c) xs"
  have d: "dropWhile (\<lambda>x. key' x < c) xs = ?d" using assms by (simp cong: dropWhile_cong)
  have "key' (hd ?d) = key (hd ?d)" if "?d \<noteq> []"
    by (rule assms) (rule set_dropWhileD [OF hd_in_set [OF that]])
  then show ?thesis unfolding place_of_def Let_def d by (auto simp del: dropWhile_eq_Nil_conv)
qed

lemma place_of_snd: "snd (place_of key c xs hdr) = hd (dropWhile (\<lambda>x. key x < c) xs @ [hdr])"
  by (simp add: place_of_def Let_def)

text \<open>The shortcuts the code takes at the last node of a sorted list.\<close>

lemma dropWhile_last_less:
  fixes key :: "addr \<Rightarrow> int"
  assumes "sorted_wrt (<) (map key xs)" "xs \<noteq> []" "key (last xs) < (c :: int)"
  shows "dropWhile (\<lambda>x. key x < c) xs = []"
  using sorted_key_last [OF assms(1)] assms(3) by force

lemma dropWhile_last_eq:
  fixes key :: "addr \<Rightarrow> int"
  assumes "sorted_wrt (<) (map key xs)" "xs \<noteq> []" "key (last xs) = (c :: int)"
  shows "dropWhile (\<lambda>x. key x < c) xs = [last xs]"
  using assms
proof (induction xs)
  case Nil
  then show ?case by simp
next
  case (Cons x xs)
  show ?case
  proof (cases "xs = []")
    case True
    with Cons.prems show ?thesis by simp
  next
    case False
    then have "key x < key (last xs)" using Cons.prems(1) last_in_set by auto
    with Cons False show ?thesis by simp
  qed
qed

text \<open>Linking a node in, and unlinking one, keeps a family well formed.\<close>

lemma lists_ok_cong:
  assumes "lists_ok n p key hdr cnt ls" "\<And>i v. i < cnt \<Longrightarrow> v \<in> insert (hdr i) (set (ls i)) \<Longrightarrow> n' v = n v \<and> p' v = p v"
    "\<And>i v. i < cnt \<Longrightarrow> v \<in> set (ls i) \<Longrightarrow> key' v = key v"
  shows "lists_ok n' p' key' hdr cnt ls"
  unfolding lists_ok_def
proof (intro allI impI conjI)
  fix i assume i: "i < cnt"
  show "dseg n' p' (hdr i) (ls i) (hdr i)"
    by (rule dseg_cong [of n p]) (use assms i in \<open>auto simp: lists_ok_def\<close>)
  show "sorted_wrt (<) (map key' (ls i))"
    using assms i by (simp add: lists_ok_def cong: map_cong)
qed

lemma lists_ok_place:
  assumes "lists_ok n p key hdr cnt ls" "i < cnt" "place_of key c (ls i) (hdr i) = (False, r)"
  shows "p r = last (hdr i # takeWhile (\<lambda>x. key x < c) (ls i))"
    "r \<in> insert (hdr i) (set (ls i))" "p r \<in> insert (hdr i) (set (ls i))"
proof -
  let ?t = "takeWhile (\<lambda>x. key x < c) (ls i)" and ?d = "dropWhile (\<lambda>x. key x < c) (ls i)"
  have r: "r = hd (?d @ [hdr i])" using assms(3) place_of_snd [of key c "ls i" "hdr i"] by simp
  have split: "dseg n p (hdr i) (?t @ ?d) (hdr i)" using assms(1,2) by (simp add: lists_ok_def)
  show l: "p r = last (hdr i # ?t)"
    using split unfolding dseg_append r by (blast dest: dseg_last)
  show "r \<in> insert (hdr i) (set (ls i))" "p r \<in> insert (hdr i) (set (ls i))"
    using hd_snoc_in [of ?d "hdr i"] last_Cons_in [of "hdr i" ?t] r l
    by (auto dest: set_takeWhileD set_dropWhileD)
qed

lemma lists_ok_insert:
  assumes ok: "lists_ok n p key hdr cnt ls" and sep: "lists_sep hdr cnt ls" and i: "i < cnt"
    and z: "\<And>j. j < cnt \<Longrightarrow> z \<notin> set (ls j)" "\<And>j. z \<noteq> hdr j"
    and key: "\<And>j x. j < cnt \<Longrightarrow> x \<in> set (ls j) \<Longrightarrow> key' x = key x" "key' z = c"
    and pl: "place_of key c (ls i) (hdr i) = (False, r)"
  shows "lists_ok (n(z := r, p r := z)) (p(z := p r, r := z)) key' hdr cnt (ls(i := put_at key c z (ls i)))"
  unfolding lists_ok_def
proof (intro allI impI)
  fix j assume j: "j < cnt"
  have seg: "dseg n p (hdr k) (ls k) (hdr k)" "sorted_wrt (<) (map key (ls k))" if "k < cnt" for k
    using ok that by (auto simp: lists_ok_def)
  let ?t = "takeWhile (\<lambda>x. key x < c) (ls i)" and ?d = "dropWhile (\<lambda>x. key x < c) (ls i)"
  have r: "r = hd (?d @ [hdr i])" using pl place_of_snd [of key c "ls i" "hdr i"] by simp
  have split: "dseg n p (hdr i) (?t @ ?d) (hdr i)" using seg(1) [OF i] by simp
  note l = lists_ok_place(1) [OF ok i pl] and near = lists_ok_place(2,3) [OF ok i pl]
  show "dseg (n(z := r, p r := z)) (p(z := p r, r := z)) (hdr j)
        ((ls(i := put_at key c z (ls i))) j) (hdr j) \<and>
      sorted_wrt (<) (map key' ((ls(i := put_at key c z (ls i))) j))"
  proof (cases "j = i")
    case True
    have "dseg (n(z := r, p r := z)) (p(z := p r, r := z)) (hdr i) (?t @ z # ?d) (hdr i)"
      unfolding l unfolding r
    proof (rule dseg_insert [OF split])
      show "distinct (hdr i # ?t @ ?d)" "hdr i \<notin> set (?t @ ?d)"
        using sep i sorted_key_distinct [OF seg(2) [OF i]] by (auto simp: lists_sep_def)
      show "z \<notin> set (?t @ ?d)" "z \<noteq> hdr i" "z \<noteq> hdr i" using z i by auto
    qed
    moreover have "sorted_wrt (<) (map key' (put_at key c z (ls i)))"
    proof -
      have kk: "key' x = key x" if "x \<in> set (ls i)" for x using key(1) i that by blast
      have "sorted_wrt (<) (map key' (ls i))" using seg(2) [OF i] kk by (simp cong: map_cong)
      moreover have "c \<notin> key' ` set (ls i)" using place_of_absent [OF pl seg(2) [OF i]] kk by force
      ultimately have "sorted_wrt (<) (map key' (put_at key' c z (ls i)))"
        unfolding put_at_def using key(2) by (rule sorted_key_insert)
      also have "put_at key' c z (ls i) = put_at key c z (ls i)"
        unfolding put_at_def using kk by (simp cong: takeWhile_cong dropWhile_cong)
      finally show ?thesis .
    qed
    ultimately show ?thesis using True by (simp add: put_at_def)
  next
    case False
    have away: "v \<noteq> z" "v \<noteq> r" "v \<noteq> p r" if "v \<in> insert (hdr j) (set (ls j))" for v
      using that near z j lists_sep_apart [OF sep i j] False by blast+
    have "dseg (n(z := r, p r := z)) (p(z := p r, r := z)) (hdr j) (ls j) (hdr j)"
      by (rule dseg_cong [OF seg(1) [OF j]]) (use away in auto)
    moreover have "sorted_wrt (<) (map key' (ls j))"
      using seg(2) [OF j] key(1) [OF j] by (simp cong: map_cong)
    ultimately show ?thesis using False by simp
  qed
qed

lemma lists_ok_delete:
  assumes ok: "lists_ok n p key hdr cnt ls" and sep: "lists_sep hdr cnt ls" and i: "i < cnt"
    and z: "z \<in> set (ls i)"
  shows "lists_ok (n(p z := n z)) (p(n z := p z)) key hdr cnt (ls(i := remove1 z (ls i)))"
  unfolding lists_ok_def
proof (intro allI impI)
  fix j assume j: "j < cnt"
  have seg: "dseg n p (hdr k) (ls k) (hdr k)" "sorted_wrt (<) (map key (ls k))" if "k < cnt" for k
    using ok that by (auto simp: lists_ok_def)
  obtain xs ys where xy: "ls i = xs @ z # ys" using z by (meson split_list)
  have dist: "distinct (ls i)" by (rule sorted_key_distinct [OF seg(2) [OF i]])
  have rem: "remove1 z (ls i) = xs @ ys" using dist xy by (simp add: remove1_append)
  have split: "dseg n p (hdr i) (xs @ z # ys) (hdr i)" using seg(1) [OF i] xy by simp
  have near: "n z \<in> insert (hdr i) (set (ls i))" "p z \<in> insert (hdr i) (set (ls i))"
    using dseg_next [OF split] dseg_prev [OF split] hd_snoc_in [of ys "hdr i"] last_Cons_in [of "hdr i" xs] xy
    by auto
  show "dseg (n(p z := n z)) (p(n z := p z)) (hdr j) ((ls(i := remove1 z (ls i))) j) (hdr j) \<and>
      sorted_wrt (<) (map key ((ls(i := remove1 z (ls i))) j))"
  proof (cases "j = i")
    case True
    have "dseg (n(p z := n z)) (p(n z := p z)) (hdr i) (xs @ ys) (hdr i)"
    proof (rule dseg_delete [OF split])
      show "distinct (hdr i # xs @ z # ys)" "hdr i \<notin> set (xs @ z # ys)"
        using lists_sep_hdr [OF sep i, of i] dist xy by auto
    qed
    moreover have "sorted_wrt (<) (map key (xs @ ys))"
      using seg(2) [OF i] xy by (auto simp: sorted_wrt_append)
    ultimately show ?thesis using True rem by simp
  next
    case False
    have away: "v \<noteq> n z" "v \<noteq> p z" if "v \<in> insert (hdr j) (set (ls j))" for v
      using that near lists_sep_apart [OF sep i j] False by blast+
    have "dseg (n(p z := n z)) (p(n z := p z)) (hdr j) (ls j) (hdr j)"
      by (rule dseg_cong [OF seg(1) [OF j]]) (use away in auto)
    then show ?thesis using False seg(2) [OF j] by simp
  qed
qed

section \<open>Searching a row or a column\<close>

text \<open>The two scans are one search, over the successor and the key of the list.\<close>

fun gscan :: "nat \<Rightarrow> (addr \<Rightarrow> bool) \<Rightarrow> (addr \<Rightarrow> int) \<Rightarrow> (addr \<Rightarrow> addr) \<Rightarrow> int \<Rightarrow> addr \<Rightarrow>
    mod2err + bool \<times> addr" where
  "gscan 0 stop key nx c e = Inl No_return"
| "gscan (Suc f) stop key nx c e =
     (if \<not> stop e \<and> key e = c then Inr (True, e)
      else if stop e \<or> c < key e then Inr (False, e)
      else gscan f stop key nx c (nx e))"

lemma row_scan_gscan:
  "row_scan f h c e = gscan f (at_end h) (\<lambda>a. col (ent h a)) (\<lambda>a. right (ent h a)) c e"
  by (induction f arbitrary: e) (simp_all add: next_in_row_def)

lemma col_scan_gscan:
  "col_scan f h r e = gscan f (at_end h) (\<lambda>a. row (ent h a)) (\<lambda>a. down (ent h a)) r e"
  by (induction f arbitrary: e) (simp_all add: next_in_col_def)

lemma gscan_place:
  assumes "dseg n p a xs hdr" "stop hdr" "\<forall>x \<in> set xs. \<not> stop x" "length xs < f"
  shows "gscan f stop key n c (n a) = Inr (place_of key c xs hdr)"
  using assms
proof (induction xs arbitrary: a f)
  case Nil
  then show ?case by (cases f) (auto simp: place_of_def)
next
  case (Cons x xs)
  then obtain f' where f: "f = Suc f'" "length xs < f'" by (cases f) auto
  have "gscan f' stop key n c (n x) = Inr (place_of key c xs hdr)"
    using Cons f by auto
  with Cons.prems f show ?case by (auto simp: place_of_def Let_def)
qed

definition gplace :: "nat \<Rightarrow> (addr \<Rightarrow> bool) \<Rightarrow> (addr \<Rightarrow> int) \<Rightarrow> (addr \<Rightarrow> addr) \<Rightarrow> int \<Rightarrow> addr \<Rightarrow> addr \<Rightarrow>
    mod2err + bool \<times> addr" where
  "gplace f stop key nx c lst fst_e =
     (if \<not> stop lst \<and> key lst = c then Inr (True, lst)
      else if stop lst \<or> key lst < c then Inr (False, nx lst)
      else gscan f stop key nx c fst_e)"

lemma gplace_place:
  assumes seg: "dseg n p hdr xs hdr" and "stop hdr" "\<forall>x \<in> set xs. \<not> stop x" "length xs < f"
    and srt: "sorted_wrt (<) (map key xs)"
  shows "gplace f stop key n c (p hdr) (n hdr) = Inr (place_of key c xs hdr)"
proof (cases xs rule: rev_cases)
  case Nil
  with assms show ?thesis by (auto simp: gplace_def place_of_def)
next
  case (snoc ys y)
  have "p hdr = y" using dseg_last [OF seg] snoc by simp
  moreover have "n y = hdr" using seg snoc by (simp add: dseg_mid)
  moreover have "\<not> stop y" using assms(3) snoc by simp
  ultimately show ?thesis
    using gscan_place [OF assms(1-4), of key c] snoc dropWhile_last_less [OF srt, of c]
      dropWhile_last_eq [OF srt, of c]
    by (auto simp: gplace_def place_of_def Let_def)
qed

lemma row_place_gplace:
  "row_place m (int r) c h = gplace (walk_fuel h m) (at_end h) (\<lambda>a. col (ent h a)) (\<lambda>a. right (ent h a))
     c (left (ent h (RowHdr m r))) (right (ent h (RowHdr m r)))"
  by (simp add: row_place_def gplace_def row_scan_gscan last_in_row_def first_in_row_def)

lemma col_place_gplace:
  "col_place m r (int c) h = gplace (walk_fuel h m) (at_end h) (\<lambda>a. row (ent h a)) (\<lambda>a. down (ent h a))
     r (up (ent h (ColHdr m c))) (down (ent h (ColHdr m c)))"
  by (simp add: col_place_def gplace_def col_scan_gscan last_in_col_def first_in_col_def)

lemma row_place_spec:
  assumes "rows_ok (ent h) m (nrow h m) rl" "r < nrow h m"
    "\<forall>x \<in> set (rl r). 0 \<le> row (ent h x) \<and> 0 \<le> col (ent h x) \<and> col (ent h x) < int (ncol h m)"
  shows "row_place m (int r) c h = Inr (place_of (\<lambda>a. col (ent h a)) c (rl r) (RowHdr m r))"
proof -
  have "length (rl r) \<le> ncol h m"
    by (rule sorted_key_length [of "\<lambda>a. col (ent h a)"]) (use assms in \<open>auto simp: rows_ok_def\<close>)
  then show ?thesis unfolding row_place_gplace
    by (intro gplace_place) (use assms in \<open>auto simp: rows_ok_def at_end_def walk_fuel_def\<close>)
qed

lemma col_place_spec:
  assumes "cols_ok (ent h) m (ncol h m) cl" "c < ncol h m"
    "\<forall>x \<in> set (cl c). 0 \<le> row (ent h x) \<and> row (ent h x) < int (nrow h m)"
  shows "col_place m r (int c) h = Inr (place_of (\<lambda>a. row (ent h a)) r (cl c) (ColHdr m c))"
proof -
  have "length (cl c) \<le> nrow h m"
    by (rule sorted_key_length [of "\<lambda>a. row (ent h a)"]) (use assms in \<open>auto simp: cols_ok_def\<close>)
  then show ?thesis unfolding col_place_gplace
    by (intro gplace_place) (use assms in \<open>auto simp: cols_ok_def at_end_def walk_fuel_def\<close>)
qed

section \<open>Linking and unlinking, field by field\<close>

lemma link_row_fields:
  assumes "ne \<noteq> re" "left (ent h re) \<noteq> ne"
  shows "(\<lambda>a. right (ent (link_row ne re h) a)) = (\<lambda>a. right (ent h a))(ne := re, left (ent h re) := ne)"
    "(\<lambda>a. left (ent (link_row ne re h) a)) = (\<lambda>a. left (ent h a))(ne := left (ent h re), re := ne)"
    "row (ent (link_row ne re h) a) = row (ent h a)" "col (ent (link_row ne re h) a) = col (ent h a)"
    "up (ent (link_row ne re h) a) = up (ent h a)" "down (ent (link_row ne re h) a) = down (ent h a)"
  using assms by (auto simp: link_row_def Let_def fun_eq_iff)

lemma link_col_fields:
  assumes "ne \<noteq> ce" "up (ent h ce) \<noteq> ne"
  shows "(\<lambda>a. down (ent (link_col ne ce h) a)) = (\<lambda>a. down (ent h a))(ne := ce, up (ent h ce) := ne)"
    "(\<lambda>a. up (ent (link_col ne ce h) a)) = (\<lambda>a. up (ent h a))(ne := up (ent h ce), ce := ne)"
    "row (ent (link_col ne ce h) a) = row (ent h a)" "col (ent (link_col ne ce h) a) = col (ent h a)"
    "left (ent (link_col ne ce h) a) = left (ent h a)" "right (ent (link_col ne ce h) a) = right (ent h a)"
  using assms by (auto simp: link_col_def Let_def fun_eq_iff)

lemma link_row_simps [simp]:
  "mat (link_row ne re h) = mat h" "nmat (link_row ne re h) = nmat h" "nblk (link_row ne re h) = nblk h"
  "live (link_row ne re h) = live h"
  by (simp_all add: link_row_def Let_def)

lemma link_col_simps [simp]:
  "mat (link_col ne re h) = mat h" "nmat (link_col ne re h) = nmat h" "nblk (link_col ne re h) = nblk h"
  "live (link_col ne re h) = live h"
  by (simp_all add: link_col_def Let_def)

lemma unlink_row_fields:
  assumes "left (ent h e) \<noteq> e"
  shows "(\<lambda>a. right (ent (unlink_row e h) a)) = (\<lambda>a. right (ent h a))(left (ent h e) := right (ent h e))"
    "(\<lambda>a. left (ent (unlink_row e h) a)) = (\<lambda>a. left (ent h a))(right (ent h e) := left (ent h e))"
    "row (ent (unlink_row e h) a) = row (ent h a)" "col (ent (unlink_row e h) a) = col (ent h a)"
    "up (ent (unlink_row e h) a) = up (ent h a)" "down (ent (unlink_row e h) a) = down (ent h a)"
  using assms by (auto simp: unlink_row_def Let_def fun_eq_iff)

lemma unlink_col_fields:
  assumes "up (ent h e) \<noteq> e"
  shows "(\<lambda>a. down (ent (unlink_col e h) a)) = (\<lambda>a. down (ent h a))(up (ent h e) := down (ent h e))"
    "(\<lambda>a. up (ent (unlink_col e h) a)) = (\<lambda>a. up (ent h a))(down (ent h e) := up (ent h e))"
    "row (ent (unlink_col e h) a) = row (ent h a)" "col (ent (unlink_col e h) a) = col (ent h a)"
    "left (ent (unlink_col e h) a) = left (ent h a)" "right (ent (unlink_col e h) a) = right (ent h a)"
  using assms by (auto simp: unlink_col_def Let_def fun_eq_iff)

lemma unlink_simps [simp]:
  "mat (unlink_row e h) = mat h" "nmat (unlink_row e h) = nmat h" "nblk (unlink_row e h) = nblk h"
  "live (unlink_row e h) = live h"
  "mat (unlink_col e h) = mat h" "nmat (unlink_col e h) = nmat h" "nblk (unlink_col e h) = nblk h"
  "live (unlink_col e h) = live h"
  by (simp_all add: unlink_row_def unlink_col_def Let_def)

section \<open>Taking a node from the free list\<close>

lemma chain_entries:
  fixes h :: heap and m b :: nat
  assumes "next_free (mat h m) = Null" "h' = (\<lambda>k. foldl (chain_entry m b) h [0..<k])"
  shows "mat (h' k) = (mat h)(m := (mat h m)\<lparr>next_free := if k = 0 then Null else Ent b (k - 1)\<rparr>) \<and>
    (\<forall>i < k. left (ent (h' k) (Ent b i)) = (if i = 0 then Null else Ent b (i - 1))) \<and>
    (\<forall>a. (\<forall>i. a \<noteq> Ent b i) \<longrightarrow> ent (h' k) a = ent h a) \<and>
    nmat (h' k) = nmat h \<and> nblk (h' k) = nblk h \<and> live (h' k) = live h"
  using assms by (induction k) (auto simp: chain_entry_def less_Suc_eq)

lemma fchain_block:
  assumes "\<And>i. i < k \<Longrightarrow> l (Ent b i) = (if i = 0 then Null else Ent b (i - 1))"
  shows "fchain l (if k = 0 then Null else Ent b (k - 1)) (map (Ent b) (rev [0..<k]))"
  using assms by (induction k) auto


lemma alloc_refill:
  assumes rep: "mat_rep h m rl cl fl" and ok: "heap_ok h" and nf: "next_free (mat h m) = Null"
  defines "h1 \<equiv> foldl (chain_entry m (nblk h)) (new_block m h) [0..<Mod2sparse_block]"
  shows "mat_rep h1 m rl cl (map (Ent (nblk h)) (rev [0..<Mod2sparse_block]))"
    "heap_ok h1" "mframe m h h1" "\<And>x. x \<in> nodes (nrow h m) rl \<Longrightarrow> ent h1 x = ent h x"
    "n_rows (mat h1 m) = n_rows (mat h m)" "n_cols (mat h1 m) = n_cols (mat h m)"
proof -
  let ?b = "nblk h" and ?h0 = "new_block m h"
  have nb: "mat ?h0 = (mat h)(m := (mat h m)\<lparr>blocks := ?b # blocks (mat h m)\<rparr>)" "nmat ?h0 = nmat h"
    "nblk ?h0 = Suc ?b" "live ?h0 = (live h)(?b := True)"
    "\<And>a. (\<forall>i. a \<noteq> Ent ?b i) \<Longrightarrow> ent ?h0 a = ent h a"
    by (auto simp: new_block_def Let_def split: addr.split)
  have "next_free (mat ?h0 m) = Null" using nf nb by simp
  note ch = chain_entries [OF this, of _ ?b, OF refl, of Mod2sparse_block, folded h1_def]
  have m: "m < nmat h" using rep by (simp add: mat_rep_def)
  have fresh: "?b \<notin> set (blocks (mat h m'))" if "m' < nmat h" for m'
    using ok that by (auto simp: heap_ok_def)
  have out: "ent h1 a = ent h a" if "\<forall>i. a \<noteq> Ent ?b i" for a using ch nb that by simp
  have nd: "\<forall>i. x \<noteq> Ent ?b i" if "x \<in> nodes (nrow h m) rl" for x
  proof -
    have "owned h m x" using rep that by (auto simp: mat_rep_def)
    then show ?thesis using fresh [OF m] by (auto simp: owned_def)
  qed
  show "ent h1 x = ent h x" if "x \<in> nodes (nrow h m) rl" for x
    using out nd that by blast
  show dims: "n_rows (mat h1 m) = n_rows (mat h m)" "n_cols (mat h1 m) = n_cols (mat h m)"
    using ch nb by simp_all
  show "heap_ok h1"
    using ok m fresh ch nb by (auto simp: heap_ok_def less_Suc_eq)
  show "mframe m h h1"
    using m fresh ch nb by (auto simp: mframe_def)
  show "mat_rep h1 m rl cl (map (Ent ?b) (rev [0..<Mod2sparse_block]))"
  proof (rule mat_rep_upd [OF rep dims])
    show "fchain (\<lambda>a. left (ent h1 a)) (next_free (mat h1 m)) (map (Ent ?b) (rev [0..<Mod2sparse_block]))"
      using fchain_block [of Mod2sparse_block "\<lambda>a. left (ent h1 a)" ?b] ch by simp
    show "distinct (map (Ent ?b) (rev [0..<Mod2sparse_block]))" by (simp add: distinct_map inj_on_def)
    show "set (map (Ent ?b) (rev [0..<Mod2sparse_block])) \<inter> nodes (nrow h m) rl = {}" using nd by auto
    show "\<forall>b \<in> set (blocks (mat h1 m)). live h1 b" using ch nb rep by (auto simp: mat_rep_def)
  qed (use m ch nb out nd in \<open>auto simp: owned_def\<close>)
qed

lemma alloc_pop:
  assumes rep: "mat_rep h m rl cl (e # fl)" and ok: "heap_ok h"
  defines "h' \<equiv> upd_ent e (\<lambda>x. x\<lparr>lr := 0\<rparr>) (upd_ent e (\<lambda>x. x\<lparr>pr := 0\<rparr>)
                  (upd_mat m (\<lambda>M. M\<lparr>next_free := left (ent h e)\<rparr>) h))"
  shows "mat_rep h' m rl cl fl" "heap_ok h'" "mframe m h h'" "owned h' m e"
    "e \<notin> set fl \<union> nodes (nrow h m) rl" "\<And>x. x \<in> nodes (nrow h m) rl \<Longrightarrow> ent h' x = ent h x"
    "n_rows (mat h' m) = n_rows (mat h m)" "n_cols (mat h' m) = n_cols (mat h m)"
proof -
  note r = rep [unfolded mat_rep_def]
  show e: "e \<notin> set fl \<union> nodes (nrow h m) rl" using r by auto
  have own: "owned h m e" using r by auto
  then show "owned h' m e" by (simp add: h'_def owned_def)
  have out: "ent h' a = ent h a" if "a \<noteq> e" for a using that by (simp add: h'_def)
  show "ent h' x = ent h x" if "x \<in> nodes (nrow h m) rl" for x using e out that by (metis UnI2)
  show dims: "n_rows (mat h' m) = n_rows (mat h m)" "n_cols (mat h' m) = n_cols (mat h m)"
    by (simp_all add: h'_def)
  show "heap_ok h'" using ok r by (auto simp: heap_ok_def h'_def)
  have "b \<notin> set (blocks (mat h m'))" if "e = Ent b k" "m' < nmat h" "m' \<noteq> m" for b k m'
    using heap_ok_disjoint [OF ok] own r that by (auto simp: owned_def)
  then show "mframe m h h'" using own by (auto simp: mframe_def h'_def owned_def)
  show "mat_rep h' m rl cl fl"
  proof (rule mat_rep_upd [OF rep dims])
    show "fchain (\<lambda>a. left (ent h' a)) (next_free (mat h' m)) fl"
      by (rule fchain_cong [of "\<lambda>a. left (ent h a)"]) (use r e in \<open>auto simp: h'_def\<close>)
    show "m < nmat h'" "distinct fl" "set fl \<inter> nodes (nrow h m) rl = {}"
      "set (blocks (mat h m)) \<subseteq> set (blocks (mat h' m))" using r by (auto simp: h'_def)
    show "\<forall>b \<in> set (blocks (mat h' m)). live h' b" using r by (simp add: h'_def)
    show "ent h' (RowHdr m i) = ent h (RowHdr m i)" "ent h' (ColHdr m i) = ent h (ColHdr m i)" for i
      using own out by (auto simp: owned_def)
    show "ent h' x = ent h x" if "x \<in> nodes (nrow h m) rl" for x using e out that by (metis UnI2)
    show "owned h' m x" if "x \<in> set fl" for x
    proof -
      have "owned h m x" using r that by simp
      then show ?thesis by (simp add: h'_def owned_def)
    qed
  qed
qed

lemma alloc_entry_spec:
  assumes rep: "mat_rep h m rl cl fl" and ok: "heap_ok h"
  obtains h' ne fl' where "alloc_entry m h = (h', ne)" "mat_rep h' m rl cl fl'" "heap_ok h'" "mframe m h h'"
    "owned h' m ne" "ne \<notin> set fl' \<union> nodes (nrow h m) rl"
    "\<And>x. x \<in> nodes (nrow h m) rl \<Longrightarrow> ent h' x = ent h x"
    "n_rows (mat h' m) = n_rows (mat h m)" "n_cols (mat h' m) = n_cols (mat h m)"
proof -
  define h1 where "h1 = (if next_free (mat h m) = Null
    then foldl (chain_entry m (nblk h)) (new_block m h) [0..<Mod2sparse_block] else h)"
  have "\<exists>e fl1. mat_rep h1 m rl cl (e # fl1) \<and> heap_ok h1 \<and> mframe m h h1 \<and>
      (\<forall>x \<in> nodes (nrow h m) rl. ent h1 x = ent h x) \<and>
      n_rows (mat h1 m) = n_rows (mat h m) \<and> n_cols (mat h1 m) = n_cols (mat h m)"
  proof (cases "next_free (mat h m) = Null")
    case True
    have "map (Ent (nblk h)) (rev [0..<Mod2sparse_block]) =
        Ent (nblk h) 9 # map (Ent (nblk h)) (rev [0..<9])"
      using upt_Suc_append [of 0 9] by (simp add: Mod2sparse_block_def)
    moreover have "h1 = foldl (chain_entry m (nblk h)) (new_block m h) [0..<Mod2sparse_block]"
      using True by (simp add: h1_def)
    note alloc_refill [OF rep ok True, folded this]
    ultimately show ?thesis by (intro exI conjI ballI) simp_all
  next
    case False
    have "fchain (\<lambda>a. left (ent h a)) (next_free (mat h m)) fl" using rep by (simp add: mat_rep_def)
    with False obtain e fl1 where "fl = e # fl1" by (cases fl) auto
    with rep ok False show ?thesis by (auto simp: h1_def frame_refl)
  qed
  then obtain e fl1 where 1: "mat_rep h1 m rl cl (e # fl1)" "heap_ok h1" "mframe m h h1"
      "\<And>x. x \<in> nodes (nrow h m) rl \<Longrightarrow> ent h1 x = ent h x"
      "n_rows (mat h1 m) = n_rows (mat h m)" "n_cols (mat h1 m) = n_cols (mat h m)" by auto
  have e: "e = next_free (mat h1 m)" using 1(1) by (simp add: mat_rep_def)
  define h' where "h' = upd_ent e (\<lambda>x. x\<lparr>lr := 0\<rparr>) (upd_ent e (\<lambda>x. x\<lparr>pr := 0\<rparr>)
                  (upd_mat m (\<lambda>M. M\<lparr>next_free := left (ent h1 e)\<rparr>) h1))"
  note p = alloc_pop [OF 1(1,2), folded h'_def, unfolded 1(5,6)]
  have "alloc_entry m h = (h', e)" by (simp add: alloc_entry_def Let_def h1_def h'_def e)
  then show ?thesis
    by (rule that [OF _ p(1,2) frame_trans [OF 1(3) p(3)] p(4,5) _ p(7,8)]) (simp add: p(6) 1(4))
qed

section \<open>Insertion\<close>

text \<open>What the invariant says about the nodes of a matrix.\<close>

lemma mat_rep_row_node:
  assumes "mat_rep h m rl cl fl" "i < nrow h m" "x \<in> set (rl i)"
  shows "row (ent h x) = int i" "0 \<le> col (ent h x)" "nat (col (ent h x)) < ncol h m"
    "x \<in> set (cl (nat (col (ent h x))))" "owned h m x"
  using assms by (force simp: mat_rep_def nodes_ok_def nodes_def)+

lemma mat_rep_col_node:
  assumes "mat_rep h m rl cl fl" "j < ncol h m" "x \<in> set (cl j)"
  shows "col (ent h x) = int j" "0 \<le> row (ent h x)" "nat (row (ent h x)) < nrow h m"
    "x \<in> set (rl (nat (row (ent h x))))" "owned h m x"
proof -
  from assms show "col (ent h x) = int j" "0 \<le> row (ent h x)" and r: "nat (row (ent h x)) < nrow h m"
    "x \<in> set (rl (nat (row (ent h x))))"
    by (force simp: mat_rep_def nodes_ok_def)+
  then show "owned h m x" using mat_rep_row_node(5) [OF assms(1) r] by simp
qed

lemma mat_rep_rows_sep:
  assumes "mat_rep h m rl cl fl" shows "lists_sep (RowHdr m) (nrow h m) rl"
proof (rule lists_sepI)
  show "RowHdr m j \<notin> set (rl i)" if "i < nrow h m" for i j
    using mat_rep_row_node(5) [OF assms that] by (auto simp: owned_def)
qed (use mat_rep_row_node(1) [OF assms] in \<open>auto simp: inj_def\<close>)

lemma mat_rep_cols_sep:
  assumes "mat_rep h m rl cl fl" shows "lists_sep (ColHdr m) (ncol h m) cl"
proof (rule lists_sepI)
  show "ColHdr m j \<notin> set (cl i)" if "i < ncol h m" for i j
    using mat_rep_col_node(5) [OF assms that] by (auto simp: owned_def)
qed (use mat_rep_col_node(1) [OF assms] in \<open>auto simp: inj_def\<close>)

lemma mat_rep_row_place:
  assumes "mat_rep h m rl cl fl" "r < nrow h m"
  shows "row_place m (int r) c h = Inr (place_of (\<lambda>a. col (ent h a)) c (rl r) (RowHdr m r))"
proof (rule row_place_spec)
  show "\<forall>x \<in> set (rl r). 0 \<le> row (ent h x) \<and> 0 \<le> col (ent h x) \<and> col (ent h x) < int (ncol h m)"
  proof
    fix x assume "x \<in> set (rl r)"
    then show "0 \<le> row (ent h x) \<and> 0 \<le> col (ent h x) \<and> col (ent h x) < int (ncol h m)"
      using mat_rep_row_node(1-3) [OF assms] by force
  qed
qed (use assms in \<open>auto simp: mat_rep_def\<close>)

lemma mem_entries_of:
  assumes "mat_rep h m rl cl fl" "r < nrow h m"
  shows "(r, c) \<in> entries_of (ent h) (nrow h m) rl \<longleftrightarrow> int c \<in> (\<lambda>a. col (ent h a)) ` set (rl r)"
  using mat_rep_row_node(2) [OF assms] assms(2) by (force simp: entries_of_def)

text \<open>
  A free node that is linked into a row and into a column at the places the searches find: the
  result is again a well-formed matrix, with one more entry.
\<close>

lemma nodes_upd: "r < nr \<Longrightarrow> set xs = insert z (set (rl r)) \<Longrightarrow> nodes nr (rl(r := xs)) = insert z (nodes nr rl)"
  by (auto simp: nodes_def split: if_splits)

lemma nodes_ok_put:
  assumes ok: "nodes_ok E nr nc rl cl" and rc: "r < nr" "c < nc"
    and new: "\<And>i. i < nr \<Longrightarrow> z \<notin> set (rl i)" "\<And>j. j < nc \<Longrightarrow> z \<notin> set (cl j)"
    and sets: "set xs = insert z (set (rl r))" "set ys = insert z (set (cl c))"
    and E': "\<And>x. row (E' x) = (if x = z then int r else row (E x))"
      "\<And>x. col (E' x) = (if x = z then int c else col (E x))"
  shows "nodes_ok E' nr nc (rl(r := xs)) (cl(c := ys))"
  unfolding nodes_ok_def
proof (intro conjI allI impI ballI)
  fix i x assume i: "i < nr" and x: "x \<in> set ((rl(r := xs)) i)"
  show "\<exists>j < nc. row (E' x) = int i \<and> col (E' x) = int j \<and> x \<in> set ((cl(c := ys)) j)"
  proof (cases "x = z")
    case True
    with x new(1) [OF i] have "i = r" by (auto split: if_splits)
    with True rc sets E' show ?thesis by (intro exI [of _ c]) simp
  next
    case False
    with x sets have "x \<in> set (rl i)" by (auto split: if_splits)
    with ok i obtain j where "j < nc" "row (E x) = int i" "col (E x) = int j" "x \<in> set (cl j)"
      unfolding nodes_ok_def by blast
    with False sets E' show ?thesis by (intro exI [of _ j]) auto
  qed
next
  fix j x assume j: "j < nc" and x: "x \<in> set ((cl(c := ys)) j)"
  show "\<exists>i < nr. row (E' x) = int i \<and> col (E' x) = int j \<and> x \<in> set ((rl(r := xs)) i)"
  proof (cases "x = z")
    case True
    with x new(2) [OF j] have "j = c" by (auto split: if_splits)
    with True rc sets E' show ?thesis by (intro exI [of _ r]) simp
  next
    case False
    with x sets have "x \<in> set (cl j)" by (auto split: if_splits)
    with ok j obtain i where "i < nr" "row (E x) = int i" "col (E x) = int j" "x \<in> set (rl i)"
      unfolding nodes_ok_def by blast
    with False sets E' show ?thesis by (intro exI [of _ i]) auto
  qed
qed

lemma entries_of_put:
  assumes "r < nr" "\<And>i. i < nr \<Longrightarrow> z \<notin> set (rl i)" "set xs = insert z (set (rl r))"
    "\<And>x. col (E' x) = (if x = z then int c else col (E x))"
  shows "entries_of E' nr (rl(r := xs)) = insert (r, c) (entries_of E nr rl)"
proof (intro set_eqI iffI)
  fix p assume "p \<in> entries_of E' nr (rl(r := xs))"
  then obtain i x where p: "p = (i, nat (col (E' x)))" "i < nr" "x \<in> set ((rl(r := xs)) i)"
    by (auto simp: entries_of_def)
  then show "p \<in> insert (r, c) (entries_of E nr rl)"
    using assms by (auto simp: entries_of_def split: if_splits)
next
  fix p assume "p \<in> insert (r, c) (entries_of E nr rl)"
  then consider "p = (r, c)" | i x where "p = (i, nat (col (E x)))" "i < nr" "x \<in> set (rl i)"
    by (auto simp: entries_of_def)
  then show "p \<in> entries_of E' nr (rl(r := xs))"
  proof cases
    case 1
    then show ?thesis using assms by (auto simp: entries_of_def intro!: exI [of _ z])
  next
    case (2 i x)
    moreover have "x \<noteq> z" using 2 assms(2) by auto
    ultimately show ?thesis using assms by (auto simp: entries_of_def intro!: exI [of _ x])
  qed
qed

lemma link_mat_rep:
  assumes rep: "mat_rep h m rl cl fl" and r: "r < nrow h m" and c: "c < ncol h m"
    and ne: "owned h m ne" "ne \<notin> set fl \<union> nodes (nrow h m) rl"
    and pr: "place_of (\<lambda>a. col (ent h a)) (int c) (rl r) (RowHdr m r) = (False, re)"
    and pc: "place_of (\<lambda>a. row (ent h a)) (int r) (cl c) (ColHdr m c) = (False, ce)"
  defines "h2 \<equiv> upd_ent ne (\<lambda>e. e\<lparr>row := int r, col := int c\<rparr>) h"
  defines "h4 \<equiv> link_col ne ce (link_row ne re h2)"
  defines "rl' \<equiv> rl(r := put_at (\<lambda>a. col (ent h a)) (int c) ne (rl r))"
    and "cl' \<equiv> cl(c := put_at (\<lambda>a. row (ent h a)) (int r) ne (cl c))"
  shows "mat_rep h4 m rl' cl' fl"
    "(\<lambda>a. row (ent h4 a)) = (\<lambda>a. row (ent h a))(ne := int r)"
    "(\<lambda>a. col (ent h4 a)) = (\<lambda>a. col (ent h a))(ne := int c)"
proof -
  note R = rep [unfolded mat_rep_def]
  let ?right = "\<lambda>a. right (ent h a)" and ?left = "\<lambda>a. left (ent h a)"
  let ?down = "\<lambda>a. down (ent h a)" and ?up = "\<lambda>a. up (ent h a)"
  have rows: "lists_ok ?right ?left (\<lambda>a. col (ent h a)) (RowHdr m) (nrow h m) rl"
    and cols: "lists_ok ?down ?up (\<lambda>a. row (ent h a)) (ColHdr m) (ncol h m) cl"
    using R by (auto simp: rows_ok_lists cols_ok_lists)
  have nodes_eq: "nodes (ncol h m) cl = nodes (nrow h m) rl" using R by (auto dest: nodes_cols)
  have new: "ne \<notin> set (rl i)" if "i < nrow h m" for i using ne that by (auto simp: nodes_def)
  have newc: "ne \<notin> set (cl j)" if "j < ncol h m" for j using ne that nodes_eq by (auto simp: nodes_def)
  have hdr: "ne \<noteq> RowHdr m i" "ne \<noteq> ColHdr m i" for i using ne by (auto simp: owned_def)
  have re: "ne \<noteq> re" "?left re \<noteq> ne" "re \<notin> set fl"
    using lists_ok_place(2,3) [OF rows r pr] new [OF r] hdr R r by (auto simp: owned_def nodes_def)
  have ce: "ne \<noteq> ce" "?up ce \<noteq> ne" using lists_ok_place(2,3) [OF cols c pc] newc [OF c] hdr by auto
  have h2: "right (ent h2 a) = right (ent h a)" "left (ent h2 a) = left (ent h a)"
    "down (ent h2 a) = down (ent h a)" "up (ent h2 a) = up (ent h a)" for a by (simp_all add: h2_def)
  have rc2: "row (ent h2 a) = (if a = ne then int r else row (ent h a))"
    "col (ent h2 a) = (if a = ne then int c else col (ent h a))" for a by (simp_all add: h2_def)
  let ?h3 = "link_row ne re h2"
  have re2: "left (ent h2 re) \<noteq> ne" using re h2 by simp
  note F3 = link_row_fields [OF re(1) re2]
  have ce3: "up (ent ?h3 ce) \<noteq> ne" using ce F3 h2 by simp
  note F4 = link_col_fields [OF ce(1) ce3, folded h4_def]
  show row4: "(\<lambda>a. row (ent h4 a)) = (\<lambda>a. row (ent h a))(ne := int r)"
    and col4: "(\<lambda>a. col (ent h4 a)) = (\<lambda>a. col (ent h a))(ne := int c)"
    using rc2 by (simp_all add: F4 F3 fun_eq_iff)
  have right4: "(\<lambda>a. right (ent h4 a)) = ?right(ne := re, ?left re := ne)"
    and left4: "(\<lambda>a. left (ent h4 a)) = ?left(ne := ?left re, re := ne)"
    by (simp_all add: F4 F3 h2)
  have down4: "(\<lambda>a. down (ent h4 a)) = ?down(ne := ce, ?up ce := ne)"
    and up4: "(\<lambda>a. up (ent h4 a)) = ?up(ne := ?up ce, ce := ne)"
    by (simp_all add: F4 F3 h2)
  have mats: "mat h4 = mat h" "nmat h4 = nmat h" "live h4 = live h" by (simp_all add: h4_def h2_def)
  have row4a: "row (ent h4 a) = (if a = ne then int r else row (ent h a))" for a
    using fun_cong [OF row4, of a] by simp
  have col4a: "col (ent h4 a) = (if a = ne then int c else col (ent h a))" for a
    using fun_cong [OF col4, of a] by simp
  have "rows_ok (ent h4) m (nrow h m) rl'"
    unfolding rows_ok_lists right4 left4 rl'_def
    by (intro conjI lists_ok_insert [OF rows mat_rep_rows_sep [OF rep] r] pr)
      (use new hdr R in \<open>auto simp: row4a col4a rows_ok_def\<close>)
  moreover have "cols_ok (ent h4) m (ncol h m) cl'"
    unfolding cols_ok_lists down4 up4 cl'_def
    by (intro conjI lists_ok_insert [OF cols mat_rep_cols_sep [OF rep] c] pc)
      (use newc hdr R in \<open>auto simp: row4a col4a cols_ok_def\<close>)
  moreover have "nodes_ok (ent h4) (nrow h m) (ncol h m) rl' cl'"
    unfolding rl'_def cl'_def
    by (rule nodes_ok_put [of "ent h"]) (use R r c new newc in \<open>simp_all add: row4a col4a\<close>)
  moreover have "fchain (\<lambda>a. left (ent h4 a)) (next_free (mat h m)) fl"
    unfolding left4 by (rule fchain_cong [of ?left]) (use R ne re in auto)
  moreover have "nodes (nrow h m) rl' = insert ne (nodes (nrow h m) rl)"
    unfolding rl'_def by (rule nodes_upd [OF r]) simp
  ultimately show "mat_rep h4 m rl' cl' fl"
    using R ne mats by (auto simp: mat_rep_def owned_def)
qed

lemma link_row_out: "a \<noteq> ne \<Longrightarrow> a \<noteq> re \<Longrightarrow> a \<noteq> left (ent h re) \<Longrightarrow> ne \<noteq> re \<Longrightarrow> left (ent h re) \<noteq> ne \<Longrightarrow>
    ent (link_row ne re h) a = ent h a"
  by (simp add: link_row_def Let_def)

lemma link_col_out: "a \<noteq> ne \<Longrightarrow> a \<noteq> ce \<Longrightarrow> a \<noteq> up (ent h ce) \<Longrightarrow> ne \<noteq> ce \<Longrightarrow> up (ent h ce) \<noteq> ne \<Longrightarrow>
    ent (link_col ne ce h) a = ent h a"
  by (simp add: link_col_def Let_def)

lemma mat_rep_foot:
  assumes "mat_rep h m rl cl fl"
  shows "i < nrow h m \<Longrightarrow> x \<in> insert (RowHdr m i) (set (rl i)) \<Longrightarrow> foot h m x"
    "j < ncol h m \<Longrightarrow> x \<in> insert (ColHdr m j) (set (cl j)) \<Longrightarrow> foot h m x"
  using mat_rep_row_node(5) [OF assms] mat_rep_col_node(5) [OF assms] by (auto simp: foot_def)

text \<open>
  The insertion of an entry that is not there, from the place found in the row on: the search of the
  column cannot find it, and the matrix gains the entry.
\<close>

lemma insert_new:
  assumes rep: "mat_rep h m rl cl fl" and ok: "heap_ok h" and r: "r < nrow h m" and c: "c < ncol h m"
    and pr: "place_of (\<lambda>a. col (ent h a)) (int c) (rl r) (RowHdr m r) = (False, re)"
    and ne: "owned h m ne" "ne \<notin> set fl \<union> nodes (nrow h m) rl"
  defines "h3 \<equiv> link_row ne re (upd_ent ne (\<lambda>e. e\<lparr>row := int r, col := int c\<rparr>) h)"
  obtains ce where "col_place m (int r) (int c) h3 = Inr (False, ce)"
    "mat_rel (link_col ne ce h3) m (nrow h m) (ncol h m) (insert (r, c) (entries_of (ent h) (nrow h m) rl))"
    "mframe m h (link_col ne ce h3)"
    "row (ent (link_col ne ce h3) ne) = int r" "col (ent (link_col ne ce h3) ne) = int c"
proof -
  note R = rep [unfolded mat_rep_def]
  let ?h2 = "upd_ent ne (\<lambda>e. e\<lparr>row := int r, col := int c\<rparr>) h"
  have rows: "lists_ok (\<lambda>a. right (ent h a)) (\<lambda>a. left (ent h a)) (\<lambda>a. col (ent h a)) (RowHdr m) (nrow h m) rl"
    and cols: "lists_ok (\<lambda>a. down (ent h a)) (\<lambda>a. up (ent h a)) (\<lambda>a. row (ent h a)) (ColHdr m) (ncol h m) cl"
    using R by (auto simp: rows_ok_lists cols_ok_lists)
  have abs: "int c \<notin> (\<lambda>a. col (ent h a)) ` set (rl r)"
    by (rule place_of_absent [OF pr]) (use R r in \<open>auto simp: rows_ok_def\<close>)
  obtain b ce where pc: "place_of (\<lambda>a. row (ent h a)) (int r) (cl c) (ColHdr m c) = (b, ce)" by fastforce
  have b: "b = False"
  proof (rule ccontr)
    assume "b \<noteq> False"
    then have x: "ce \<in> set (cl c)" "row (ent h ce) = int r" using place_of_found [of _ _ _ _ ce] pc by auto
    then have "ce \<in> set (rl r)" "col (ent h ce) = int c" using mat_rep_col_node [OF rep c] by fastforce+
    with abs show False by force
  qed
  have new: "ne \<notin> insert (RowHdr m r) (set (rl r))" "ne \<notin> insert (ColHdr m c) (set (cl c))"
    using ne r c R nodes_cols [of "ent h" "nrow h m" "ncol h m" rl cl] by (auto simp: nodes_def owned_def)
  have re: "ne \<noteq> re" "left (ent h re) \<noteq> ne" using lists_ok_place(2,3) [OF rows r pr] new by auto
  have ce: "ne \<noteq> ce" "up (ent h ce) \<noteq> ne" using lists_ok_place(2,3) [OF cols c pc [unfolded b]] new by auto
  have left2: "left (ent ?h2 re) = left (ent h re)" by simp
  have re2: "left (ent ?h2 re) \<noteq> ne" using re left2 by simp
  note F3 = link_row_fields [OF re(1) re2, folded h3_def]
  have ne_c: "x \<noteq> ne" if "j < ncol h m" "x \<in> set (cl j)" for x j
    using that ne R nodes_cols [of "ent h" "nrow h m" "ncol h m" rl cl] by (auto simp: nodes_def)
  have row3: "row (ent h3 x) = (if x = ne then int r else row (ent h x))" for x by (simp add: F3)
  have "cols_ok (ent h3) m (ncol h m) cl"
    unfolding cols_ok_lists
    by (intro conjI lists_ok_cong [OF cols]) (use ne_c ne R in \<open>auto simp: F3 row3 owned_def cols_ok_def\<close>)
  then have "col_place m (int r) (int c) h3 = Inr (place_of (\<lambda>a. row (ent h3 a)) (int r) (cl c) (ColHdr m c))"
    by (intro col_place_spec) (use c ne_c row3 mat_rep_col_node(2,3) [OF rep c] in \<open>force simp: h3_def\<close>)+
  also have "place_of (\<lambda>a. row (ent h3 a)) (int r) (cl c) (ColHdr m c) = (False, ce)"
    using pc b ne_c [OF c] row3 place_of_cong [of "cl c" "\<lambda>a. row (ent h3 a)" "\<lambda>a. row (ent h a)"] by simp
  finally have cp: "col_place m (int r) (int c) h3 = Inr (False, ce)" .
  note L = link_mat_rep [OF rep r c ne pr pc [unfolded b], folded h3_def]
  let ?h4 = "link_col ne ce h3"
  have up3: "up (ent h3 ce) = up (ent h ce)" by (simp add: F3)
  have ftm: "foot h m x" if "x \<in> {ne, re, left (ent h re), ce, up (ent h ce)}" for x
    using that ne mat_rep_foot(1) [OF rep r] mat_rep_foot(2) [OF rep c]
      lists_ok_place(2,3) [OF rows r pr] lists_ok_place(2,3) [OF cols c pc [unfolded b]] by (auto simp: foot_def)
  have "mframe m h ?h4"
  proof (rule frame_footI [OF ok])
    show "ent ?h4 a = ent h a" if "\<not> foot h m a" for a
    proof -
      have out: "a \<notin> {ne, re, left (ent h re), ce, up (ent h ce)}" using that ftm by blast
      then have "ent ?h4 a = ent h3 a" using ce up3 by (intro link_col_out) auto
      also have "\<dots> = ent ?h2 a" unfolding h3_def using out re re2 by (intro link_row_out) auto
      finally show ?thesis using out by simp
    qed
  qed (use R in \<open>simp_all add: h3_def\<close>)
  moreover have "mat_rel ?h4 m (nrow h m) (ncol h m) (insert (r, c) (entries_of (ent h) (nrow h m) rl))"
  proof -
    have "entries_of (ent ?h4) (nrow h m) (rl(r := put_at (\<lambda>a. col (ent h a)) (int c) ne (rl r))) =
        insert (r, c) (entries_of (ent h) (nrow h m) rl)"
      by (rule entries_of_put [OF r]) (use ne fun_cong [OF L(3)] in \<open>auto simp: nodes_def\<close>)
    then show ?thesis unfolding mat_rel_def using L(1) ok by (auto simp: h3_def heap_ok_def)
  qed
  ultimately show ?thesis using that [OF cp] L(2,3) by (metis fun_upd_same)
qed

text \<open>
  Insertion: in range it never fails, whatever the state of the free list; the entry is there
  afterwards, the others are as before, and no other matrix changes.
\<close>

lemma insert_ok:
  assumes rel: "mat_rel h m nr nc E" and r: "r < nr" and c: "c < nc"
  obtains h' a where "mod2sparse_insert m (int r) (int c) h = Inr (h', a)"
    "mat_rel h' m nr nc (insert (r, c) E)" "mframe m h h'"
    "row (ent h' a) = int r" "col (ent h' a) = int c"
proof -
  from rel obtain rl cl fl where rep: "mat_rep h m rl cl fl" and E: "E = entries_of (ent h) nr rl"
    and n: "nr = nrow h m" "nc = ncol h m" and ok: "heap_ok h"
    by (auto simp: mat_rel_def)
  have inb: "\<not> out_of_bounds h m (int r) (int c)"
    using r c n by (auto simp: out_of_bounds_def mod2sparse_rows_def mod2sparse_cols_def)
  have r': "r < nrow h m" and c': "c < ncol h m" using r c n by auto
  obtain b re where pl: "place_of (\<lambda>a. col (ent h a)) (int c) (rl r) (RowHdr m r) = (b, re)" by fastforce
  have rp: "row_place m (int r) (int c) h = Inr (b, re)" using mat_rep_row_place [OF rep r'] pl by simp
  show ?thesis
  proof (cases b)
    case True
    have re: "re \<in> set (rl r)" "col (ent h re) = int c" using place_of_found [of _ _ _ _ re] pl True by auto
    then have "(r, c) \<in> E" unfolding E n(1) mem_entries_of [OF rep r'] by force
    then have "mat_rel h m nr nc (insert (r, c) E)" using rel by (simp add: insert_absorb)
    moreover have "mod2sparse_insert m (int r) (int c) h = Inr (h, re)"
      using inb rp True by (simp add: mod2sparse_insert_def)
    ultimately show ?thesis using that re mat_rep_row_node(1) [OF rep r'] frame_refl by blast
  next
    case False
    obtain h1 ne fl1 where al: "alloc_entry m h = (h1, ne)" and rep1: "mat_rep h1 m rl cl fl1"
      and ok1: "heap_ok h1" and fr1: "mframe m h h1" and own: "owned h1 m ne"
      and ne: "ne \<notin> set fl1 \<union> nodes (nrow h m) rl"
      and nd: "\<And>x. x \<in> nodes (nrow h m) rl \<Longrightarrow> ent h1 x = ent h x"
      and dims: "n_rows (mat h1 m) = n_rows (mat h m)" "n_cols (mat h1 m) = n_cols (mat h m)"
      using alloc_entry_spec [OF rep ok] by blast
    have "ent h1 x = ent h x" if "x \<in> set (rl r)" for x
      using that r' by (intro nd) (auto simp: nodes_def)
    then have "place_of (\<lambda>a. col (ent h1 a)) (int c) (rl r) (RowHdr m r) = (False, re)"
      using pl False place_of_cong [of "rl r" "\<lambda>a. col (ent h1 a)" "\<lambda>a. col (ent h a)"] by simp
    note place1 = this
    let ?h3 = "link_row ne re (upd_ent ne (\<lambda>e. e\<lparr>row := int r, col := int c\<rparr>) h1)"
    have n1: "nrow h1 m = nr" "ncol h1 m = nc" using dims n by simp_all
    have r1: "r < nrow h1 m" and c1: "c < ncol h1 m" and ne1: "ne \<notin> set fl1 \<union> nodes (nrow h1 m) rl"
      using r c n1 ne n by auto
    obtain ce where cp: "col_place m (int r) (int c) ?h3 = Inr (False, ce)"
      and res: "mat_rel (link_col ne ce ?h3) m nr nc (insert (r, c) (entries_of (ent h1) nr rl))"
        "mframe m h1 (link_col ne ce ?h3)"
        "row (ent (link_col ne ce ?h3) ne) = int r" "col (ent (link_col ne ce ?h3) ne) = int c"
      by (rule insert_new [OF rep1 ok1 r1 c1 place1 own ne1, unfolded n1])
    have ins: "mod2sparse_insert m (int r) (int c) h = Inr (link_col ne ce ?h3, ne)"
      using inb rp False al cp by (simp add: mod2sparse_insert_def)
    have "entries_of (ent h1) nr rl = E" unfolding E n by (rule entries_of_cong [OF nd])
    then have "mat_rel (link_col ne ce ?h3) m nr nc (insert (r, c) E)" using res(1) by simp
    then show ?thesis by (rule that [OF ins _ frame_trans [OF fr1 res(2)] res(3,4)])
  qed
qed

end
