(* ===== verification/Mod2sparse_Spec.thy ===== *)
theory Mod2sparse_Spec
  imports Mod2sparse_Ops
begin

text \<open>
  The contract of the sparse matrices: a matrix is an abstract set of positions, and allocation,
  insertion, search, deletion, the product with a vector and the counts are what they are on that
  set. The locale \<open>mod2_store\<close> is the interface the LDPC coder relies on, with the lemmas the coder
  needs; its interpretation on the pointer model discharges the laws.
\<close>

section \<open>Allocation\<close>

lemma fold_init_row:
  "foldl (\<lambda>h i. init_hdr (RowHdr m i) h) h [0..<k] =
     h\<lparr>ent := \<lambda>a. case a of RowHdr m' i \<Rightarrow> if m' = m \<and> i < k
         then zero_entry\<lparr>row := -1, col := -1, left := a, right := a, up := a, down := a\<rparr> else ent h a
       | _ \<Rightarrow> ent h a\<rparr>"
  by (induction k) (auto simp: init_hdr_def self_link_def upd_ent_def fun_eq_iff intro!: heap.equality split: addr.split)

lemma fold_init_col:
  "foldl (\<lambda>h j. init_hdr (ColHdr m j) h) h [0..<k] =
     h\<lparr>ent := \<lambda>a. case a of ColHdr m' j \<Rightarrow> if m' = m \<and> j < k
         then zero_entry\<lparr>row := -1, col := -1, left := a, right := a, up := a, down := a\<rparr> else ent h a
       | _ \<Rightarrow> ent h a\<rparr>"
  by (induction k) (auto simp: init_hdr_def self_link_def upd_ent_def fun_eq_iff intro!: heap.equality split: addr.split)

lemma allocate_ok:
  assumes ok: "heap_ok h" and nr: "0 < nr" and nc: "0 < nc"
  obtains h' where "mod2sparse_allocate (int nr) (int nc) h = Inr (h', nmat h)"
    "mat_rel h' (nmat h) nr nc {}" "mframe (nmat h) h h'" "nmat h' = Suc (nmat h)"
proof -
  let ?m = "nmat h"
  define h1 where "h1 = h\<lparr>nmat := Suc ?m,
    mat := (mat h)(?m := \<lparr>n_rows = int nr, n_cols = int nc, blocks = [], next_free = Null\<rparr>)\<rparr>"
  define h' where "h' = foldl (\<lambda>h j. init_hdr (ColHdr ?m j) h)
    (foldl (\<lambda>h i. init_hdr (RowHdr ?m i) h) h1 [0..<nr]) [0..<nc]"
  have res: "mod2sparse_allocate (int nr) (int nc) h = Inr (h', ?m)"
    using nr nc by (simp add: mod2sparse_allocate_def h'_def h1_def Let_def)
  have f: "mat h' = mat h1" "nmat h' = Suc ?m" "live h' = live h" "nblk h' = nblk h"
    by (simp_all add: h'_def fold_init_row fold_init_col h1_def)
  have ok': "heap_ok h'" using ok by (auto simp: heap_ok_def f h1_def less_Suc_eq)
  have "mat_rep h' ?m (\<lambda>_. []) (\<lambda>_. []) []"
    using nr nc unfolding mat_rep_def rows_ok_def cols_ok_def nodes_ok_def nodes_def
    by (simp add: f) (simp add: h'_def fold_init_row fold_init_col h1_def)
  moreover have "entries_of (ent h') nr (\<lambda>_. []) = {}" by (simp add: entries_of_def)
  ultimately have "mat_rel h' ?m nr nc {}"
    unfolding mat_rel_def using ok' by (intro conjI exI) (auto simp: f h1_def)
  moreover have "mframe ?m h h'"
    by (auto simp: mframe_def h'_def fold_init_row fold_init_col h1_def)
  ultimately show ?thesis using that res f by blast
qed

section \<open>Walks along a column\<close>

text \<open>
  \<open>mod2sparse_mulvec\<close> flips \<open>v\<close> at the row of every entry of every column whose \<open>u\<close> is nonzero.
\<close>

lemma col_flip_walk:
  assumes "dseg (\<lambda>a. down (ent h a)) p a xs hdr" "at_end h hdr" "\<forall>x \<in> set xs. \<not> at_end h x" "length xs < f"
  shows "col_flip f h (down (ent h a)) v = Inr (foldl (\<lambda>v x. v[nat (row (ent h x)) := v ! nat (row (ent h x)) XOR 1]) v xs)"
  using assms
proof (induction xs arbitrary: a f v)
  case Nil
  then show ?case by (cases f) auto
next
  case (Cons x xs)
  then obtain f' where f: "f = Suc f'" "length xs < f'" by (cases f) auto
  then show ?case using Cons by (auto simp: next_in_col_def Let_def)
qed

lemma flips_length:
  fixes v :: "u8 list"
  shows "length (foldl (\<lambda>v x. v[nat (key x) := v ! nat (key x) XOR 1]) v xs) = length v"
  by (induction xs arbitrary: v) auto

lemma flips_nth:
  fixes v :: "u8 list"
  assumes "\<forall>x \<in> set xs. nat (key x) < length v" "distinct (map key xs)" "\<forall>x \<in> set xs. 0 \<le> key x" "i < length v"
  shows "foldl (\<lambda>v x. v[nat (key x) := v ! nat (key x) XOR 1]) v xs ! i =
      v ! i XOR of_bool (int i \<in> key ` set xs)"
  using assms
proof (induction xs arbitrary: v)
  case (Cons x xs)
  then have "int i \<in> key ` set xs \<Longrightarrow> i \<noteq> nat (key x)" by auto
  with Cons show ?case by (auto simp: nth_list_update)
qed simp

text \<open>One column of the product.\<close>

lemma mat_rep_col_flip:
  assumes rep: "mat_rep h m rl cl fl" and j: "j < ncol h m" and v: "length v = nrow h m"
  obtains v' where "col_flip (walk_fuel h m) h (first_in_col h m j) v = Inr v'" "length v' = length v"
    "\<And>i. i < length v \<Longrightarrow> v' ! i = v ! i XOR of_bool ((i, j) \<in> entries_of (ent h) (nrow h m) rl)"
proof -
  let ?key = "\<lambda>x. row (ent h x)"
  have cols: "dseg (\<lambda>a. down (ent h a)) (\<lambda>a. up (ent h a)) (ColHdr m j) (cl j) (ColHdr m j)"
    "sorted_wrt (<) (map ?key (cl j))" "?key (ColHdr m j) = -1"
    using rep j by (auto simp: mat_rep_def cols_ok_def)
  have key: "0 \<le> ?key x" "nat (?key x) < nrow h m" if "x \<in> set (cl j)" for x
    using mat_rep_col_node(2,3) [OF rep j that] by auto
  have "length (cl j) \<le> nrow h m"
    by (rule sorted_key_length [OF cols(2)]) (use key in force)
  then have 1: "col_flip (walk_fuel h m) h (first_in_col h m j) v =
      Inr (foldl (\<lambda>v x. v[nat (?key x) := v ! nat (?key x) XOR 1]) v (cl j))"
    unfolding first_in_col_def
    by (intro col_flip_walk [OF cols(1)]) (use cols key in \<open>auto simp: at_end_def walk_fuel_def not_less\<close>)
  have dist: "distinct (map ?key (cl j))" using cols(2) strict_sorted_iff by blast
  have mem: "int i \<in> ?key ` set (cl j) \<longleftrightarrow> (i, j) \<in> entries_of (ent h) (nrow h m) rl" if i: "i < nrow h m" for i
  proof -
    have "x \<in> set (cl j) \<and> ?key x = int i \<longleftrightarrow> x \<in> set (rl i) \<and> col (ent h x) = int j" for x
      using mat_rep_row_node [OF rep i] mat_rep_col_node [OF rep j] by fastforce
    then have "int i \<in> ?key ` set (cl j) \<longleftrightarrow> int j \<in> (\<lambda>a. col (ent h a)) ` set (rl i)"
      unfolding image_iff by metis
    then show ?thesis unfolding mem_entries_of [OF rep i] .
  qed
  show ?thesis
    by (rule that [OF 1]) (use key dist v mem flips_nth [of "cl j" ?key v] in \<open>auto simp: flips_length\<close>)
qed

section \<open>The product with a vector\<close>

text \<open>
  The parity of the entries of row \<open>i\<close> whose column is set in \<open>u\<close>: row \<open>i\<close> of the product over GF(2).
\<close>

definition gf2_row :: "(nat \<times> nat) set \<Rightarrow> nat \<Rightarrow> (nat \<Rightarrow> bool) \<Rightarrow> nat \<Rightarrow> bool" where
  "gf2_row E nc u i = odd (card {j. j < nc \<and> (i, j) \<in> E \<and> u j})"

lemma gf2_row_0 [simp]: "gf2_row E 0 u i = False"
  by (simp add: gf2_row_def)

lemma gf2_row_Suc: "gf2_row E (Suc k) u i = (gf2_row E k u i \<noteq> ((i, k) \<in> E \<and> u k))"
proof -
  let ?S = "\<lambda>k. {j. j < k \<and> (i, j) \<in> E \<and> u j}"
  have "?S (Suc k) = (if (i, k) \<in> E \<and> u k then insert k (?S k) else ?S k)"
    by (auto simp: less_Suc_eq)
  moreover have "k \<notin> ?S k" "finite (?S k)" by auto
  ultimately show ?thesis by (simp add: gf2_row_def)
qed

lemma mulvec_loop_ok:
  assumes rep: "mat_rep h m rl cl fl" and k: "k \<le> ncol h m"
  obtains v where "mulvec_loop m u h [0..<k] (replicate (nrow h m) 0) = Inr v" "length v = nrow h m"
    "\<And>i. i < nrow h m \<Longrightarrow> v ! i = of_bool (gf2_row (entries_of (ent h) (nrow h m) rl) k (\<lambda>j. u ! j \<noteq> 0) i)"
proof -
  have snoc: "mulvec_loop m u h (xs @ [j]) v = (case mulvec_loop m u h xs v of Inl x \<Rightarrow> Inl x
      | Inr v' \<Rightarrow> mulvec_loop m u h [j] v')" for xs j v
    by (induction xs arbitrary: v) (auto split: sum.split)
  have "\<exists>v. mulvec_loop m u h [0..<k] (replicate (nrow h m) 0) = Inr v \<and> length v = nrow h m \<and>
      (\<forall>i < nrow h m. v ! i = of_bool (gf2_row (entries_of (ent h) (nrow h m) rl) k (\<lambda>j. u ! j \<noteq> 0) i))"
    using k
  proof (induction k)
    case 0
    then show ?case by simp
  next
    case (Suc k)
    then obtain v where v: "mulvec_loop m u h [0..<k] (replicate (nrow h m) 0) = Inr v" "length v = nrow h m"
      "\<forall>i < nrow h m. v ! i = of_bool (gf2_row (entries_of (ent h) (nrow h m) rl) k (\<lambda>j. u ! j \<noteq> 0) i)"
      by auto
    show ?case
    proof (cases "u ! k = 0")
      case True
      with v snoc show ?thesis by (auto simp: gf2_row_Suc)
    next
      case False
      obtain v' where "col_flip (walk_fuel h m) h (first_in_col h m k) v = Inr v'" "length v' = length v"
        "\<And>i. i < length v \<Longrightarrow> v' ! i = v ! i XOR of_bool ((i, k) \<in> entries_of (ent h) (nrow h m) rl)"
        using mat_rep_col_flip [OF rep _ v(2), of k] Suc.prems by auto
      with v snoc False show ?thesis by (auto simp: gf2_row_Suc)
    qed
  qed
  then show ?thesis using that by blast
qed

lemma mulvec_ok:
  assumes "mat_rel h m nr nc E"
  shows "mod2sparse_mulvec m u h = Inr (map (\<lambda>i. of_bool (gf2_row E nc (\<lambda>j. u ! j \<noteq> 0) i)) [0..<nr])"
proof -
  from assms obtain rl cl fl where rep: "mat_rep h m rl cl fl" and E: "E = entries_of (ent h) nr rl"
    and n: "nr = nrow h m" "nc = ncol h m" by (auto simp: mat_rel_def)
  show ?thesis using mulvec_loop_ok [OF rep order_refl, of u] unfolding E n mod2sparse_mulvec_def
    by (metis (no_types, lifting) map_upt_eqI mod2sparse_cols_def mod2sparse_rows_def)
qed

section \<open>Search\<close>

lemma find_loop_ok:
  assumes "dseg (\<lambda>a. right (ent h a)) p a xs (RowHdr m r)" "dseg (\<lambda>a. down (ent h a)) q b ys (ColHdr m c)"
    "at_end h (RowHdr m r)" "at_end h (ColHdr m c)" "\<forall>x \<in> set xs \<union> set ys. \<not> at_end h x"
    "sorted_wrt (<) (map (\<lambda>x. col (ent h x)) xs)" "sorted_wrt (<) (map (\<lambda>x. row (ent h x)) ys)"
    "cc \<in> (\<lambda>x. col (ent h x)) ` set xs \<longleftrightarrow> rr \<in> (\<lambda>x. row (ent h x)) ` set ys"
    "length xs < f"
  shows "\<exists>e. find_loop f h rr cc (right (ent h a)) (down (ent h b)) = Inr e \<and>
    (if cc \<in> (\<lambda>x. col (ent h x)) ` set xs
     then e \<in> set xs \<and> col (ent h e) = cc \<or> e \<in> set ys \<and> row (ent h e) = rr else e = Null)"
  using assms
proof (induction xs arbitrary: a b ys f)
  case Nil
  then show ?case by (cases f) auto
next
  case (Cons x xs)
  then obtain f' where f: "f = Suc f'" "length xs < f'" by (cases f) auto
  have x: "right (ent h a) = x" "\<not> at_end h x" using Cons.prems by auto
  have after: "\<forall>y \<in> set xs. col (ent h x) < col (ent h y)" using Cons.prems(6) by auto
  consider "cc < col (ent h x)" | "col (ent h x) = cc" | "col (ent h x) < cc" by linarith
  then show ?case
  proof cases
    case 3
    show ?thesis
    proof (cases ys)
      case Nil
      with Cons.prems f x 3 show ?thesis by auto
    next
      case (Cons y ys')
      have y: "down (ent h b) = y" "\<not> at_end h y" using Cons.prems \<open>ys = y # ys'\<close> by auto
      have aftery: "\<forall>z \<in> set ys'. row (ent h y) < row (ent h z)" using Cons.prems(7) \<open>ys = y # ys'\<close> by auto
      consider "rr < row (ent h y)" | "row (ent h y) = rr" | "row (ent h y) < rr" by linarith
      then show ?thesis
      proof cases
        case 1
        then have "rr \<notin> (\<lambda>x. row (ent h x)) ` set ys" using aftery Cons by force
        with Cons.prems(8) show ?thesis using f x y 1 3 by auto
      next
        case 2
        then have "rr \<in> (\<lambda>x. row (ent h x)) ` set ys" using Cons by force
        with Cons.prems(8) show ?thesis using f x y 2 3 Cons by auto
      next
        case 3
        have "cc \<in> (\<lambda>x. col (ent h x)) ` set xs \<longleftrightarrow> rr \<in> (\<lambda>x. row (ent h x)) ` set ys'"
          using Cons.prems(8) \<open>col (ent h x) < cc\<close> 3 Cons by auto
        then have "\<exists>e. find_loop f' h rr cc (right (ent h x)) (down (ent h y)) = Inr e \<and>
            (if cc \<in> (\<lambda>x. col (ent h x)) ` set xs
             then e \<in> set xs \<and> col (ent h e) = cc \<or> e \<in> set ys' \<and> row (ent h e) = rr else e = Null)"
          by (intro Cons.IH) (use Cons.prems Cons f in auto)
        then show ?thesis using f x y 3 \<open>col (ent h x) < cc\<close> Cons
          by (auto simp: next_in_row_def next_in_col_def split: if_splits)
      qed
    qed
  qed (use f x after in auto)
qed

text \<open>A node of the matrix at a position.\<close>

definition node_at :: "heap \<Rightarrow> nat \<Rightarrow> nat \<Rightarrow> nat \<Rightarrow> addr \<Rightarrow> bool" where
  "node_at h m r c e \<longleftrightarrow> row (ent h e) = int r \<and> col (ent h e) = int c \<and>
     (\<exists>rl cl fl. mat_rep h m rl cl fl \<and> e \<in> set (rl r))"

lemma mat_rep_find:
  assumes rep: "mat_rep h m rl cl fl" and r: "r < nrow h m" and c: "c < ncol h m"
  shows "\<exists>e. mod2sparse_find m (int r) (int c) h = Inr e \<and>
    (if (r, c) \<in> entries_of (ent h) (nrow h m) rl
     then e \<in> set (rl r) \<and> col (ent h e) = int c else e = Null)"
proof -
  let ?col = "\<lambda>x. col (ent h x)" and ?row = "\<lambda>x. row (ent h x)"
  have R: "dseg (\<lambda>a. right (ent h a)) (\<lambda>a. left (ent h a)) (RowHdr m r) (rl r) (RowHdr m r)"
      "sorted_wrt (<) (map ?col (rl r))" "?row (RowHdr m r) = -1"
    using rep r by (auto simp: mat_rep_def rows_ok_def)
  have C: "dseg (\<lambda>a. down (ent h a)) (\<lambda>a. up (ent h a)) (ColHdr m c) (cl c) (ColHdr m c)"
      "sorted_wrt (<) (map ?row (cl c))" "?row (ColHdr m c) = -1"
    using rep c by (auto simp: mat_rep_def cols_ok_def)
  have both: "x \<in> set (cl c) \<and> ?row x = int r \<longleftrightarrow> x \<in> set (rl r) \<and> ?col x = int c" for x
    using mat_rep_row_node [OF rep r] mat_rep_col_node [OF rep c] by fastforce
  then have mem: "int c \<in> ?col ` set (rl r) \<longleftrightarrow> int r \<in> ?row ` set (cl c)" unfolding image_iff by metis
  have pos: "\<not> at_end h x" if "x \<in> set (rl r) \<union> set (cl c)" for x
    using that mat_rep_row_node(1) [OF rep r] mat_rep_col_node(2) [OF rep c] by (fastforce simp: at_end_def)
  have hdr: "at_end h (RowHdr m r)" "at_end h (ColHdr m c)" using R C by (auto simp: at_end_def)
  have colb: "\<forall>x \<in> set (rl r). 0 \<le> ?col x \<and> ?col x < int (ncol h m)"
    using mat_rep_row_node(2,3) [OF rep r] by force
  have fuel: "length (rl r) < walk_fuel h m"
    using sorted_key_length [OF R(2) colb] by (simp add: walk_fuel_def)
  obtain e where loop: "find_loop (walk_fuel h m) h (int r) (int c) (right (ent h (RowHdr m r))) (down (ent h (ColHdr m c))) = Inr e"
      "if int c \<in> ?col ` set (rl r) then e \<in> set (rl r) \<and> ?col e = int c \<or> e \<in> set (cl c) \<and> ?row e = int r else e = Null"
    using find_loop_ok [OF R(1) C(1) hdr _ R(2) C(2) mem fuel] pos by blast
  define re where "re = left (ent h (RowHdr m r))"
  define ce where "ce = up (ent h (ColHdr m c))"
  have lastr: "re = last (RowHdr m r # rl r)" and lastc: "ce = last (ColHdr m c # cl c)"
    using dseg_last [OF R(1)] dseg_last [OF C(1)] by (simp_all add: re_def ce_def)
  have inb: "\<not> out_of_bounds h m (int r) (int c)"
    using r c by (auto simp: out_of_bounds_def mod2sparse_rows_def mod2sparse_cols_def)
  have re: "\<not> at_end h re \<Longrightarrow> re \<in> set (rl r)" and ce: "\<not> at_end h ce \<Longrightarrow> ce \<in> set (cl c)"
    using hdr by (auto simp: lastr lastc split: if_splits)
  have r_end: "int c \<notin> ?col ` set (rl r)" if "at_end h re \<or> ?col re < int c"
    using that pos sorted_key_last [OF R(2)] by (cases "rl r = []") (force simp: lastr)+
  have c_end: "int c \<notin> ?col ` set (rl r)" if "at_end h ce \<or> ?row ce < int r"
    unfolding mem using that pos sorted_key_last [OF C(2)] by (cases "cl c = []") (force simp: lastc)+
  let ?P = "\<lambda>e. if int c \<in> ?col ` set (rl r) then e \<in> set (rl r) \<and> ?col e = int c else e = Null"
  define e' where "e' = (if at_end h re \<or> ?col re < int c then Null
      else if ?col re = int c then re
      else if at_end h ce \<or> ?row ce < int r then Null
      else if ?row ce = int r then ce else e)"
  have res: "mod2sparse_find m (int r) (int c) h = Inr e'"
    unfolding mod2sparse_find_def Let_def last_in_row_def last_in_col_def first_in_row_def first_in_col_def
      nat_int loop(1) e'_def re_def ce_def using inb by presburger
  have found: "?P x" if "x \<in> set (rl r)" "?col x = int c" for x using that by force
  have "?P e'"
  proof -
    consider "at_end h re \<or> ?col re < int c" | "at_end h ce \<or> ?row ce < int r" "e' = Null"
      | "e' = re" "\<not> at_end h re" "?col re = int c" | "e' = ce" "\<not> at_end h ce" "?row ce = int r" | "e' = e"
      unfolding e'_def by presburger
    then show ?thesis
    proof cases
      case 1
      then show ?thesis using r_end by (simp add: e'_def)
    next
      case 2
      then show ?thesis using c_end by simp
    next
      case 3
      then show ?thesis using found re by blast
    next
      case 4
      then show ?thesis using found both ce by blast
    next
      case 5
      then show ?thesis using loop(2) both [of e] by presburger
    qed
  qed
  with res show ?thesis unfolding mem_entries_of [OF rep r] by blast
qed

lemma find_ok:
  assumes "mat_rel h m nr nc E" "r < nr" "c < nc"
  obtains e where "mod2sparse_find m (int r) (int c) h = Inr e"
    "if (r, c) \<in> E then node_at h m r c e else e = Null"
proof -
  from assms obtain rl cl fl where rep: "mat_rep h m rl cl fl" and E: "E = entries_of (ent h) (nrow h m) rl"
    and rc: "r < nrow h m" "c < ncol h m" by (auto simp: mat_rel_def)
  from mat_rep_find [OF rep rc] obtain e where
    "mod2sparse_find m (int r) (int c) h = Inr e"
    "if (r, c) \<in> E then e \<in> set (rl r) \<and> col (ent h e) = int c else e = Null" unfolding E by blast
  moreover have "node_at h m r c e" if "e \<in> set (rl r)" "col (ent h e) = int c" for e
    unfolding node_at_def using rep that mat_rep_row_node(1) [OF rep rc(1)] by blast
  ultimately show ?thesis using that [of e] by presburger
qed

section \<open>Deletion\<close>

lemma nodes_ok_remove:
  assumes ok: "nodes_ok E nr nc rl cl" and z: "r < nr" "z \<in> set (rl r)" "c < nc" "z \<in> set (cl c)"
    and dist: "distinct (rl r)" "distinct (cl c)"
    and E': "\<And>x. row (E' x) = row (E x)" "\<And>x. col (E' x) = col (E x)"
  shows "nodes_ok E' nr nc (rl(r := remove1 z (rl r))) (cl(c := remove1 z (cl c)))"
proof -
  note at = nodes_ok_row [OF ok] nodes_ok_col [OF ok]
  have rm: "x \<in> set ((rl(r := remove1 z (rl r))) i) \<longleftrightarrow> x \<in> set (rl i) \<and> x \<noteq> z" if "i < nr" for x i
  proof (cases "i = r")
    case False
    then have "z \<notin> set (rl i)" using at(1) [OF that] at(1) [OF z(1,2)] by force
    with False show ?thesis by auto
  qed (use dist in auto)
  have cm: "x \<in> set ((cl(c := remove1 z (cl c))) j) \<longleftrightarrow> x \<in> set (cl j) \<and> x \<noteq> z" if "j < nc" for x j
  proof (cases "j = c")
    case False
    then have "z \<notin> set (cl j)" using at(2) [OF that] at(2) [OF z(3,4)] by force
    with False show ?thesis by auto
  qed (use dist in auto)
  show ?thesis
    unfolding nodes_ok_def
  proof (intro conjI allI impI ballI)
    fix i x assume i: "i < nr" and "x \<in> set ((rl(r := remove1 z (rl r))) i)"
    then have "x \<in> set (rl i)" "x \<noteq> z" using rm by blast+
    with ok i show "\<exists>j < nc. row (E' x) = int i \<and> col (E' x) = int j \<and>
        x \<in> set ((cl(c := remove1 z (cl c))) j)"
      unfolding nodes_ok_def E' using cm by blast
  next
    fix j x assume j: "j < nc" and "x \<in> set ((cl(c := remove1 z (cl c))) j)"
    then have "x \<in> set (cl j)" "x \<noteq> z" using cm by blast+
    with ok j show "\<exists>i < nr. row (E' x) = int i \<and> col (E' x) = int j \<and>
        x \<in> set ((rl(r := remove1 z (rl r))) i)"
      unfolding nodes_ok_def E' using rm by blast
  qed
qed

lemma lists_ok_nbrs:
  assumes "lists_ok n p key hdr cnt ls" "lists_sep hdr cnt ls" "i < cnt" "z \<in> set (ls i)"
  shows "n z \<in> insert (hdr i) (set (ls i))" "p z \<in> insert (hdr i) (set (ls i))" "p z \<noteq> z" "n z \<noteq> z"
proof -
  obtain xs ys where xy: "ls i = xs @ z # ys" using assms(4) by (meson split_list)
  have seg: "dseg n p (hdr i) (xs @ z # ys) (hdr i)" using assms(1,3) xy by (auto simp: lists_ok_def)
  have dist: "distinct (ls i)" by (rule sorted_key_distinct [of key]) (use assms in \<open>auto simp: lists_ok_def\<close>)
  have nb: "n z = hd (ys @ [hdr i])" "p z = last (hdr i # xs)" using dseg_next [OF seg] dseg_prev [OF seg] .
  then show "n z \<in> insert (hdr i) (set (ls i))" "p z \<in> insert (hdr i) (set (ls i))"
    using hd_snoc_in [of ys "hdr i"] last_Cons_in [of "hdr i" xs] xy by auto
  have "z \<noteq> hdr i" using lists_sep_hdr [OF assms(2,3), of i] assms(4) by auto
  then show "p z \<noteq> z" "n z \<noteq> z"
    using nb hd_snoc_in [of ys "hdr i"] last_Cons_in [of "hdr i" xs] dist xy by auto
qed

lemma delete_mat_rep:
  assumes rep: "mat_rep h m rl cl fl" and ok: "heap_ok h" and r: "r < nrow h m" and c: "c < ncol h m"
    and e: "e \<in> set (rl r)" "col (ent h e) = int c"
  obtains h' where "mod2sparse_delete m e h = Inr h'" "mframe m h h'" "heap_ok h'"
    "mat_rep h' m (rl(r := remove1 e (rl r))) (cl(c := remove1 e (cl c))) (e # fl)"
    "\<And>x. col (ent h' x) = col (ent h x)" "n_rows (mat h' m) = n_rows (mat h m)" "n_cols (mat h' m) = n_cols (mat h m)"
proof -
  note R = rep [unfolded mat_rep_def]
  let ?right = "\<lambda>a. right (ent h a)" and ?left = "\<lambda>a. left (ent h a)"
  let ?down = "\<lambda>a. down (ent h a)" and ?up = "\<lambda>a. up (ent h a)"
  have rows: "lists_ok ?right ?left (\<lambda>a. col (ent h a)) (RowHdr m) (nrow h m) rl"
    and cols: "lists_ok ?down ?up (\<lambda>a. row (ent h a)) (ColHdr m) (ncol h m) cl"
    using R by (auto simp: rows_ok_lists cols_ok_lists)
  have ec: "e \<in> set (cl c)" and own: "owned h m e" and er: "row (ent h e) = int r"
    using mat_rep_row_node [OF rep r e(1)] e(2) by auto
  note sepr = mat_rep_rows_sep [OF rep] and sepc = mat_rep_cols_sep [OF rep]
  note nbr = lists_ok_nbrs [OF rows sepr r e(1)] and nbc = lists_ok_nbrs [OF cols sepc c ec]
  define h1 where "h1 = unlink_row e h"
  define h2 where "h2 = unlink_col e h1"
  define h' where "h' = upd_mat m (\<lambda>M. M\<lparr>next_free := e\<rparr>) (upd_ent e (\<lambda>x. x\<lparr>left := next_free (mat h m)\<rparr>) h2)"
  note F1 = unlink_row_fields [of h e, OF nbr(3), folded h1_def]
  have up1: "up (ent h1 e) \<noteq> e" using nbc(3) F1 by simp
  note F2 = unlink_col_fields [of h1 e, OF up1, folded h2_def]
  have mats: "mat h2 = mat h" "nmat h2 = nmat h" "live h2 = live h" "nblk h2 = nblk h"
    by (simp_all add: h2_def h1_def)
  have del: "mod2sparse_delete m e h = Inr h'"
    using er e(2) own mats(1)
    by (auto simp: mod2sparse_delete_def Let_def h'_def h2_def h1_def owned_def)
  have rc': "row (ent h' a) = row (ent h a)" "col (ent h' a) = col (ent h a)" for a
    using F1 F2 by (simp_all add: h'_def)
  have right': "(\<lambda>a. right (ent h' a)) = ?right(?left e := ?right e)"
    and left': "(\<lambda>a. left (ent h' a)) = (?left(?right e := ?left e))(e := next_free (mat h m))"
    and down': "(\<lambda>a. down (ent h' a)) = ?down(?up e := ?down e)"
    and up': "(\<lambda>a. up (ent h' a)) = ?up(?down e := ?up e)"
    using F1 F2 by (auto simp: h'_def fun_eq_iff)
  have dims: "n_rows (mat h' m) = n_rows (mat h m)" "n_cols (mat h' m) = n_cols (mat h m)"
    by (simp_all add: h'_def mats)
  let ?rl = "rl(r := remove1 e (rl r))" and ?cl = "cl(c := remove1 e (cl c))"
  have dist: "distinct (rl r)" "distinct (cl c)"
    using rows cols r c unfolding lists_ok_def by (blast intro: sorted_key_distinct)+
  have eout: "e \<notin> set (?rl i)" if "i < nrow h m" for i
    using dist lists_sep_apart [OF sepr r that] e(1) by auto
  have hdr: "e \<noteq> RowHdr m i" "e \<noteq> ColHdr m i" for i using own by (auto simp: owned_def)
  have nodes': "nodes (nrow h m) ?rl = nodes (nrow h m) rl - {e}"
    using eout dist r by (fastforce simp: nodes_def split: if_splits)
  have "rows_ok (ent h') m (nrow h m) ?rl"
    unfolding rows_ok_lists right' left' rc'
    by (intro conjI lists_ok_cong [OF lists_ok_delete [OF rows sepr r e(1)]])
      (use eout hdr R in \<open>auto simp: rows_ok_def\<close>)
  moreover have "cols_ok (ent h') m (ncol h m) ?cl"
    unfolding cols_ok_lists down' up' rc'
    by (intro conjI lists_ok_delete [OF cols sepc c ec]) (use R in \<open>auto simp: cols_ok_def\<close>)
  moreover have "nodes_ok (ent h') (nrow h m) (ncol h m) ?rl ?cl"
    by (rule nodes_ok_remove [of "ent h"]) (use R r c e ec dist in \<open>auto simp: rc'\<close>)
  moreover have efl: "e \<notin> set fl" using R e r by (auto simp: nodes_def)
  moreover have "right (ent h e) \<notin> set fl"
    using nbr(1) r R by (auto simp: owned_def nodes_def)
  then have "fchain (\<lambda>a. left (ent h' a)) e (e # fl)"
    unfolding left' using R efl by (auto intro!: fchain_cong [of ?left])
  moreover have "\<forall>x \<in> set (e # fl) \<union> nodes (nrow h m) ?rl. owned h' m x"
  proof
    fix x assume "x \<in> set (e # fl) \<union> nodes (nrow h m) ?rl"
    then have "owned h m x" using R own unfolding nodes' by auto
    then show "owned h' m x" by (simp add: owned_def h'_def mats)
  qed
  moreover have "set (e # fl) \<inter> nodes (nrow h m) ?rl = {}" using R unfolding nodes' by auto
  moreover have "next_free (mat h' m) = e" "blocks (mat h' m) = blocks (mat h m)" "live h' = live h" "m < nmat h'"
    using R by (simp_all add: h'_def mats)
  ultimately have "mat_rep h' m ?rl ?cl (e # fl)"
    unfolding mat_rep_def dims using R by (intro conjI) simp_all
  moreover have "heap_ok h'" using ok by (auto simp: heap_ok_def h'_def mats)
  moreover have "mframe m h (upd_ent e (\<lambda>x. x\<lparr>left := next_free (mat h m)\<rparr>) h2)"
  proof (rule frame_footI [OF ok])
    fix a assume "\<not> foot h m a"
    then have "a \<notin> {e, ?left e, ?right e, ?up e, ?down e}"
      using mat_rep_foot(1) [OF rep r] mat_rep_foot(2) [OF rep c] nbr nbc e(1) by blast
    then show "ent (upd_ent e (\<lambda>x. x\<lparr>left := next_free (mat h m)\<rparr>) h2) a = ent h a"
      using F1 up1 nbr by (simp add: h2_def h1_def unlink_row_def unlink_col_def Let_def)
  qed (use R mats in auto)
  then have "mframe m h h'" unfolding h'_def by (rule frame_trans [OF _ frame_upd_mat])
  ultimately show ?thesis using that [OF del] rc' dims by blast
qed

lemma delete_ok:
  assumes rel: "mat_rel h m nr nc E" and r: "r < nr" and c: "c < nc"
    and e: "mod2sparse_find m (int r) (int c) h = Inr e" "e \<noteq> Null"
  obtains h' where "mod2sparse_delete m e h = Inr h'" "mat_rel h' m nr nc (E - {(r, c)})" "mframe m h h'"
proof -
  from rel obtain rl cl fl where rep: "mat_rep h m rl cl fl" and E: "E = entries_of (ent h) nr rl"
    and n: "nr = nrow h m" "nc = ncol h m" and ok: "heap_ok h" by (auto simp: mat_rel_def)
  have rc: "r < nrow h m" "c < ncol h m" using r c n by auto
  have e': "e \<in> set (rl r)" "col (ent h e) = int c"
    using mat_rep_find [OF rep rc] e by (auto split: if_splits)
  obtain h' where h': "mod2sparse_delete m e h = Inr h'" "mframe m h h'" "heap_ok h'"
    "mat_rep h' m (rl(r := remove1 e (rl r))) (cl(c := remove1 e (cl c))) (e # fl)"
    "\<And>x. col (ent h' x) = col (ent h x)" "n_rows (mat h' m) = n_rows (mat h m)" "n_cols (mat h' m) = n_cols (mat h m)"
    using delete_mat_rep [OF rep ok rc e'] by blast
  have srt: "sorted_wrt (<) (map (\<lambda>a. col (ent h a)) (rl r))"
    using rep rc by (auto simp: mat_rep_def rows_ok_def)
  have dist: "distinct (rl r)" by (rule sorted_key_distinct [OF srt])
  have inj: "inj_on (\<lambda>a. col (ent h a)) (set (rl r))"
    using srt by (metis distinct_map strict_sorted_iff)
  have "entries_of (ent h') nr (rl(r := remove1 e (rl r))) = E - {(r, c)}" (is "?L = _")
  proof (rule set_eqI)
    fix p :: "nat \<times> nat"
    obtain i j where p: "p = (i, j)" by fastforce
    have rep': "nrow h' m = nr" using h' n by simp
    show "p \<in> ?L \<longleftrightarrow> p \<in> E - {(r, c)}"
    proof (cases "i < nr")
      case True
      have 1: "p \<in> ?L \<longleftrightarrow> int j \<in> (\<lambda>a. col (ent h a)) ` set ((rl(r := remove1 e (rl r))) i)"
        using mem_entries_of [OF h'(4), of i j] True rep' h'(5) p by simp
      have 2: "p \<in> E \<longleftrightarrow> int j \<in> (\<lambda>a. col (ent h a)) ` set (rl i)"
        unfolding E using mem_entries_of [OF rep, of i j] True n p by simp
      show ?thesis
      proof (cases "i = r")
        case True
        then have "(\<lambda>a. col (ent h a)) ` set ((rl(r := remove1 e (rl r))) i) =
            (\<lambda>a. col (ent h a)) ` set (rl i) - {int c}"
          using dist e' inj_on_image_set_diff [OF inj, of "set (rl r)" "{e}"] by simp
        with 1 2 p True show ?thesis by auto
      qed (use 1 2 p in simp)
    qed (use p E in \<open>auto simp: entries_of_def\<close>)
  qed
  moreover have "nr = nrow h' m" "nc = ncol h' m" using h' n by simp_all
  ultimately have "mat_rel h' m nr nc (E - {(r, c)})"
    unfolding mat_rel_def using h'(3,4) by metis
  then show ?thesis using that h' by blast
qed

section \<open>Counts\<close>

lemma row_count_walk:
  assumes "dseg (\<lambda>a. right (ent h a)) p a xs hdr" "at_end h hdr" "\<forall>x \<in> set xs. \<not> at_end h x" "length xs < f"
  shows "row_count f h (right (ent h a)) k = Inr (k + int (length xs))"
  using assms
proof (induction xs arbitrary: a f k)
  case Nil
  then show ?case by (cases f) auto
next
  case (Cons x xs)
  then show ?case by (cases f) (auto simp: next_in_row_def)
qed

lemma col_count_walk:
  assumes "dseg (\<lambda>a. down (ent h a)) p a xs hdr" "at_end h hdr" "\<forall>x \<in> set xs. \<not> at_end h x" "length xs < f"
  shows "col_count f h (down (ent h a)) k = Inr (k + int (length xs))"
  using assms
proof (induction xs arbitrary: a f k)
  case Nil
  then show ?case by (cases f) auto
next
  case (Cons x xs)
  then show ?case by (cases f) (auto simp: next_in_col_def)
qed

lemma count_row_ok:
  assumes "mat_rel h m nr nc E" "r < nr"
  shows "mod2sparse_count_row m (int r) h = Inr (int (card {c. (r, c) \<in> E}))"
proof -
  from assms obtain rl cl fl where rep: "mat_rep h m rl cl fl" and E: "E = entries_of (ent h) (nrow h m) rl"
    and r: "r < nrow h m" by (auto simp: mat_rel_def)
  let ?col = "\<lambda>x. col (ent h x)"
  have R: "dseg (\<lambda>a. right (ent h a)) (\<lambda>a. left (ent h a)) (RowHdr m r) (rl r) (RowHdr m r)"
      "sorted_wrt (<) (map ?col (rl r))" "row (ent h (RowHdr m r)) = -1"
    using rep r by (auto simp: mat_rep_def rows_ok_def)
  have key: "row (ent h x) = int r" "0 \<le> ?col x" "nat (?col x) < ncol h m" if "x \<in> set (rl r)" for x
    using mat_rep_row_node(1-3) [OF rep r that] by auto
  have "length (rl r) \<le> ncol h m" by (rule sorted_key_length [OF R(2)]) (use key in force)
  then have "row_count (walk_fuel h m) h (right (ent h (RowHdr m r))) 0 = Inr (0 + int (length (rl r)))"
    by (intro row_count_walk [OF R(1)]) (use R key in \<open>auto simp: at_end_def walk_fuel_def\<close>)
  moreover have "{c. (r, c) \<in> E} = nat ` ?col ` set (rl r)"
    unfolding E mem_entries_of [OF rep r] using key by (force simp: image_iff)
  moreover have "card (nat ` ?col ` set (rl r)) = length (rl r)"
    by (rule sorted_key_card [OF R(2)]) (use key in auto)
  moreover have "int r < n_rows (mat h m)" using r by simp
  ultimately show ?thesis
    by (simp add: mod2sparse_count_row_def mod2sparse_rows_def first_in_row_def)
qed

lemma count_col_ok:
  assumes "mat_rel h m nr nc E" "c < nc"
  shows "mod2sparse_count_col m (int c) h = Inr (int (card {r. (r, c) \<in> E}))"
proof -
  from assms obtain rl cl fl where rep: "mat_rep h m rl cl fl" and E: "E = entries_of (ent h) (nrow h m) rl"
    and c: "c < ncol h m" by (auto simp: mat_rel_def)
  let ?row = "\<lambda>x. row (ent h x)"
  have R: "dseg (\<lambda>a. down (ent h a)) (\<lambda>a. up (ent h a)) (ColHdr m c) (cl c) (ColHdr m c)"
      "sorted_wrt (<) (map ?row (cl c))" "row (ent h (ColHdr m c)) = -1"
    using rep c by (auto simp: mat_rep_def cols_ok_def)
  have key: "col (ent h x) = int c" "0 \<le> ?row x" "nat (?row x) < nrow h m" "x \<in> set (rl (nat (?row x)))"
    if "x \<in> set (cl c)" for x
    using mat_rep_col_node(1-4) [OF rep c that] by auto
  have "length (cl c) \<le> nrow h m" by (rule sorted_key_length [OF R(2)]) (use key in force)
  then have "col_count (walk_fuel h m) h (down (ent h (ColHdr m c))) 0 = Inr (0 + int (length (cl c)))"
    by (intro col_count_walk [OF R(1)]) (use R key in \<open>auto simp: at_end_def walk_fuel_def not_less\<close>)
  moreover have "{r. (r, c) \<in> E} = nat ` ?row ` set (cl c)"
  proof (intro set_eqI iffI)
    fix r assume "r \<in> {r. (r, c) \<in> E}"
    then obtain x where x: "r < nrow h m" "x \<in> set (rl r)" "nat (col (ent h x)) = c"
      unfolding E by (auto simp: entries_of_def)
    then have "x \<in> set (cl c)" "?row x = int r" using mat_rep_row_node [OF rep x(1,2)] by auto
    then show "r \<in> nat ` ?row ` set (cl c)" by force
  next
    fix r assume "r \<in> nat ` ?row ` set (cl c)"
    then obtain x where x: "x \<in> set (cl c)" "r = nat (?row x)" by blast
    then show "r \<in> {r. (r, c) \<in> E}" unfolding E using key [OF x(1)] by (force simp: entries_of_def)
  qed
  moreover have "card (nat ` ?row ` set (cl c)) = length (cl c)"
    by (rule sorted_key_card [OF R(2)]) (use key in auto)
  moreover have "int c < n_cols (mat h m)" using c by simp
  ultimately show ?thesis
    by (simp add: mod2sparse_count_col_def mod2sparse_cols_def first_in_col_def)
qed

section \<open>Clearing\<close>

lemma fold_self_link_row:
  "foldl (\<lambda>h i. self_link (RowHdr m i) h) h [0..<k] =
     h\<lparr>ent := \<lambda>a. case a of RowHdr m' i \<Rightarrow> if m' = m \<and> i < k
         then (ent h a)\<lparr>left := a, right := a, up := a, down := a\<rparr> else ent h a
       | _ \<Rightarrow> ent h a\<rparr>"
  by (induction k) (auto simp: self_link_def upd_ent_def fun_eq_iff intro!: heap.equality split: addr.split)

lemma fold_self_link_col:
  "foldl (\<lambda>h j. self_link (ColHdr m j) h) h [0..<k] =
     h\<lparr>ent := \<lambda>a. case a of ColHdr m' j \<Rightarrow> if m' = m \<and> j < k
         then (ent h a)\<lparr>left := a, right := a, up := a, down := a\<rparr> else ent h a
       | _ \<Rightarrow> ent h a\<rparr>"
  by (induction k) (auto simp: self_link_def upd_ent_def fun_eq_iff intro!: heap.equality split: addr.split)

lemma foldl_kill: "foldl (\<lambda>l b. l(b := False)) f bs = (\<lambda>b. f b \<and> b \<notin> set bs)"
  by (induction bs arbitrary: f) auto

lemma clear_fields:
  "mat (mod2sparse_clear m h) = (mat h)(m := (mat h m)\<lparr>blocks := []\<rparr>)"
  "live (mod2sparse_clear m h) b \<longleftrightarrow> live h b \<and> b \<notin> set (blocks (mat h m))"
  "nmat (mod2sparse_clear m h) = nmat h" "nblk (mod2sparse_clear m h) = nblk h"
  by (simp_all add: mod2sparse_clear_def Let_def free_blocks_def fold_self_link_row fold_self_link_col foldl_kill)

lemma clear_ok:
  assumes rel: "mat_rel h m nr nc E" and nf: "next_free (mat h m) = Null"
  shows "mat_rel (mod2sparse_clear m h) m nr nc {}"
proof -
  let ?h = "mod2sparse_clear m h"
  from rel obtain rl cl fl where rep: "mat_rep h m rl cl fl"
    and n: "nr = nrow h m" "nc = ncol h m" and ok: "heap_ok h" by (auto simp: mat_rel_def)
  have "rows_ok (ent ?h) m (nrow h m) (\<lambda>_. [])" "cols_ok (ent ?h) m (ncol h m) (\<lambda>_. [])"
    using rep by (auto simp: mat_rep_def rows_ok_def cols_ok_def mod2sparse_clear_def Let_def free_blocks_def
        fold_self_link_row fold_self_link_col mod2sparse_rows_def mod2sparse_cols_def)
  then have "mat_rep ?h m (\<lambda>_. []) (\<lambda>_. []) []"
    using rep nf by (simp add: mat_rep_def nodes_ok_def nodes_def clear_fields)
  moreover have "heap_ok ?h" using ok by (auto simp: heap_ok_def clear_fields)
  moreover have "entries_of (ent ?h) nr (\<lambda>_. []) = {}" by (simp add: entries_of_def)
  ultimately show ?thesis unfolding mat_rel_def using n by (intro conjI exI) (auto simp: clear_fields)
qed

text \<open>
  A matrix that has free nodes keeps its free list when it is cleared, although the blocks the nodes
  are in have been freed: the next entry it hands out is in freed memory.
\<close>

lemma clear_dangling:
  assumes rel: "mat_rel h m nr nc E" and nf: "next_free (mat h m) \<noteq> Null"
  obtains b k where "next_free (mat (mod2sparse_clear m h) m) = Ent b k"
    "\<not> live (mod2sparse_clear m h) b" "snd (alloc_entry m (mod2sparse_clear m h)) = Ent b k"
proof -
  from rel obtain rl cl fl where rep: "mat_rep h m rl cl fl" by (auto simp: mat_rel_def)
  then obtain fl' where "fl = next_free (mat h m) # fl'"
    using nf by (cases fl) (auto simp: mat_rep_def)
  then have "owned h m (next_free (mat h m))" using rep by (auto simp: mat_rep_def)
  then obtain b k where bk: "next_free (mat h m) = Ent b k" "b \<in> set (blocks (mat h m))"
    by (auto simp: owned_def)
  show ?thesis by (rule that [of b k]) (use bk in \<open>auto simp: clear_fields alloc_entry_def Let_def\<close>)
qed

section \<open>The store\<close>

text \<open>The loop that inserts the positions of a table.\<close>

fun insert_each :: "('m \<Rightarrow> int \<Rightarrow> int \<Rightarrow> 'h \<Rightarrow> 'e + 'h \<times> 'a) \<Rightarrow> 'm \<Rightarrow> (nat \<times> nat) list \<Rightarrow> 'h \<Rightarrow> 'e + 'h" where
  "insert_each ins m [] h = Inr h"
| "insert_each ins m (p # ps) h =
     (case ins m (int (fst p)) (int (snd p)) h of
        Inl e \<Rightarrow> Inl e
      | Inr (h', _) \<Rightarrow> insert_each ins m ps h')"

locale mod2_store =
  fixes wf :: "'h \<Rightarrow> bool"
    and rel :: "'h \<Rightarrow> 'm \<Rightarrow> nat \<Rightarrow> nat \<Rightarrow> (nat \<times> nat) set \<Rightarrow> bool"
    and alloc :: "int \<Rightarrow> int \<Rightarrow> 'h \<Rightarrow> 'e + 'h \<times> 'm"
    and ins :: "'m \<Rightarrow> int \<Rightarrow> int \<Rightarrow> 'h \<Rightarrow> 'e + 'h \<times> 'a"
    and mulvec :: "'m \<Rightarrow> u8 list \<Rightarrow> 'h \<Rightarrow> 'e + u8 list"
  assumes rel_wf: "rel h m nr nc E \<Longrightarrow> wf h"
    and alloc_law: "wf h \<Longrightarrow> 0 < nr \<Longrightarrow> 0 < nc \<Longrightarrow>
      \<exists>h' m. alloc (int nr) (int nc) h = Inr (h', m) \<and> rel h' m nr nc {} \<and>
        (\<forall>m' nr' nc' E'. rel h m' nr' nc' E' \<longrightarrow> m' \<noteq> m \<and> rel h' m' nr' nc' E')"
    and insert_law: "rel h m nr nc E \<Longrightarrow> r < nr \<Longrightarrow> c < nc \<Longrightarrow>
      \<exists>h' a. ins m (int r) (int c) h = Inr (h', a) \<and> rel h' m nr nc (insert (r, c) E) \<and>
        (\<forall>m' nr' nc' E'. m' \<noteq> m \<longrightarrow> rel h m' nr' nc' E' \<longrightarrow> rel h' m' nr' nc' E')"
    and mulvec_law: "rel h m nr nc E \<Longrightarrow>
      mulvec m u h = Inr (map (\<lambda>i. of_bool (gf2_row E nc (\<lambda>j. u ! j \<noteq> 0) i)) [0..<nr])"
begin

lemma insert_each_ok:
  assumes "rel h m nr nc E" "\<forall>(r, c) \<in> set ps. r < nr \<and> c < nc"
  shows "\<exists>h'. insert_each ins m ps h = Inr h' \<and> rel h' m nr nc (E \<union> set ps) \<and>
    (\<forall>m' nr' nc' E'. m' \<noteq> m \<longrightarrow> rel h m' nr' nc' E' \<longrightarrow> rel h' m' nr' nc' E')"
  using assms
proof (induction ps arbitrary: h E)
  case Nil
  then show ?case by simp
next
  case (Cons p ps)
  obtain r c where p: "p = (r, c)" by fastforce
  then obtain h1 a where 1: "ins m (int r) (int c) h = Inr (h1, a)" "rel h1 m nr nc (insert (r, c) E)"
      "\<forall>m' nr' nc' E'. m' \<noteq> m \<longrightarrow> rel h m' nr' nc' E' \<longrightarrow> rel h1 m' nr' nc' E'"
    using insert_law [OF Cons.prems(1), of r c] Cons.prems(2) by auto
  obtain h2 where 2: "insert_each ins m ps h1 = Inr h2" "rel h2 m nr nc (insert (r, c) E \<union> set ps)"
      "\<forall>m' nr' nc' E'. m' \<noteq> m \<longrightarrow> rel h1 m' nr' nc' E' \<longrightarrow> rel h2 m' nr' nc' E'"
    using Cons.IH [OF 1(2)] Cons.prems(2) by auto
  have "insert (r, c) E \<union> set ps = E \<union> set (p # ps)" using p by auto
  with 1 2 p show ?case by auto
qed

text \<open>A fresh matrix filled from a table holds exactly the table, and the other matrices are kept.\<close>

lemma load_ok:
  assumes "wf h" "0 < nr" "0 < nc" "\<forall>(r, c) \<in> set ps. r < nr \<and> c < nc"
  shows "\<exists>h1 m h'. alloc (int nr) (int nc) h = Inr (h1, m) \<and> insert_each ins m ps h1 = Inr h' \<and>
    rel h' m nr nc (set ps) \<and> (\<forall>m' nr' nc' E'. rel h m' nr' nc' E' \<longrightarrow> rel h' m' nr' nc' E')"
proof -
  obtain h1 m where 1: "alloc (int nr) (int nc) h = Inr (h1, m)" "rel h1 m nr nc {}"
      "\<forall>m' nr' nc' E'. rel h m' nr' nc' E' \<longrightarrow> m' \<noteq> m \<and> rel h1 m' nr' nc' E'"
    using alloc_law [OF assms(1-3)] by auto
  from insert_each_ok [OF 1(2) assms(4)] 1 show ?thesis by auto
qed

end

interpretation ms: mod2_store heap_ok mat_rel mod2sparse_allocate mod2sparse_insert mod2sparse_mulvec
proof unfold_locales
  show "heap_ok h" if "mat_rel h m nr nc E" for h m nr nc E
    using that by (simp add: mat_rel_def)
  show "\<exists>h' m. mod2sparse_allocate (int nr) (int nc) h = Inr (h', m) \<and> mat_rel h' m nr nc {} \<and>
      (\<forall>m' nr' nc' E'. mat_rel h m' nr' nc' E' \<longrightarrow> m' \<noteq> m \<and> mat_rel h' m' nr' nc' E')"
    if h: "heap_ok h" "0 < nr" "0 < nc" for h nr nc
  proof -
    obtain h' where h': "mod2sparse_allocate (int nr) (int nc) h = Inr (h', nmat h)"
      "mat_rel h' (nmat h) nr nc {}" "mframe (nmat h) h h'" using allocate_ok [OF h] by blast
    have "m' \<noteq> nmat h" if "mat_rel h m' nr' nc' E'" for m' nr' nc' E'
      using that by (auto simp: mat_rel_def mat_rep_def)
    moreover have "heap_ok h'" using h'(2) by (simp add: mat_rel_def)
    ultimately show ?thesis using h' frame_mat_rel [OF h'(3)] by blast
  qed
  show "\<exists>h' a. mod2sparse_insert m (int r) (int c) h = Inr (h', a) \<and> mat_rel h' m nr nc (insert (r, c) E) \<and>
      (\<forall>m' nr' nc' E'. m' \<noteq> m \<longrightarrow> mat_rel h m' nr' nc' E' \<longrightarrow> mat_rel h' m' nr' nc' E')"
    if h: "mat_rel h m nr nc E" "r < nr" "c < nc" for h m nr nc E r c
  proof -
    obtain h' a where h': "mod2sparse_insert m (int r) (int c) h = Inr (h', a)"
      "mat_rel h' m nr nc (insert (r, c) E)" "mframe m h h'" using insert_ok [OF h] by blast
    moreover have "heap_ok h'" using h'(2) by (simp add: mat_rel_def)
    ultimately show ?thesis using frame_mat_rel [OF h'(3)] by blast
  qed
qed (rule mulvec_ok)

end
