(* ===== verification/Afs_Gf2.thy ===== *)
theory Afs_Gf2
  imports Mod2sparse_Spec
begin

text \<open>
  Matrices over GF(2) given by the positions of their ones: parities of sums, the composition of two
  matrices, and a check that one table is the right inverse of another. The check looks columns up in
  a binary trie, so that it can be evaluated on the tables of the LDPC code by rewriting.
\<close>

section \<open>Parities\<close>

lemma odd_sum_cong:
  fixes f g :: "nat \<Rightarrow> nat"
  assumes "\<And>j. j < n \<Longrightarrow> odd (f j) = odd (g j)"
  shows "odd (\<Sum>j < n. f j) = odd (\<Sum>j < n. g j)"
  using assms by (induction n) auto

lemma gf2_row_sum:
  "gf2_row E n u i = odd (\<Sum>j < n. of_bool ((i, j) \<in> E) * of_bool (u j) :: nat)"
  by (induction n) (auto simp: gf2_row_Suc)

lemma gf2_row_cong: "(\<And>j. j < n \<Longrightarrow> u j = v j) \<Longrightarrow> gf2_row E n u i = gf2_row E n v i"
  unfolding gf2_row_sum by simp

lemma gf2_row_xor: "gf2_row E n (\<lambda>j. u j \<noteq> v j) i = (gf2_row E n u i \<noteq> gf2_row E n v i)"
  by (induction n) (auto simp: gf2_row_Suc)

lemma gf2_row_zero [simp]: "gf2_row E n (\<lambda>j. False) i = False"
  by (simp add: gf2_row_def)

text \<open>\<open>Q\<close> is a right inverse of \<open>P\<close>: every entry of the product has the parity of the identity.\<close>

definition right_inverse :: "(nat \<times> nat) set \<Rightarrow> (nat \<times> nat) set \<Rightarrow> nat \<Rightarrow> bool" where
  "right_inverse P Q n \<longleftrightarrow>
     (\<forall>i < n. \<forall>k < n. odd (\<Sum>j < n. of_bool ((i, j) \<in> P) * of_bool ((j, k) \<in> Q) :: nat) = (i = k))"

lemma right_inverse_row:
  assumes inv: "right_inverse P Q n" and i: "i < n"
  shows "gf2_row P n (\<lambda>j. gf2_row Q n x j) i = x i"
proof -
  let ?p = "\<lambda>j. of_bool ((i, j) \<in> P) :: nat" and ?q = "\<lambda>j k. of_bool ((j, k) \<in> Q) :: nat"
  have "gf2_row P n (\<lambda>j. gf2_row Q n x j) i = odd (\<Sum>j < n. ?p j * (\<Sum>k < n. ?q j k * of_bool (x k)))"
    unfolding gf2_row_sum [of P] by (rule odd_sum_cong) (simp add: gf2_row_sum)
  also have "(\<Sum>j < n. ?p j * (\<Sum>k < n. ?q j k * of_bool (x k))) =
      (\<Sum>k < n. of_bool (x k) * (\<Sum>j < n. ?p j * ?q j k))"
    unfolding sum_distrib_left by (subst sum.swap) (simp add: mult.assoc mult.commute mult.left_commute)
  also have "odd \<dots> = odd (\<Sum>k < n. of_bool (x k) * of_bool (i = k) :: nat)"
    by (rule odd_sum_cong) (use inv i in \<open>auto simp: right_inverse_def\<close>)
  also have "(\<Sum>k < n. of_bool (x k) * of_bool (i = k) :: nat) = of_bool (x i)"
    using i by (simp add: sum.remove [of _ i])
  finally show ?thesis by simp
qed

section \<open>A trie of columns\<close>

datatype 'a nt = Lf | Nd "'a nt" "'a list" "'a nt"

fun nt_get :: "'a nt \<Rightarrow> nat \<Rightarrow> 'a list" where
  "nt_get Lf j = []"
| "nt_get (Nd l v r) j = (if j = 0 then v else if even j then nt_get l (j div 2) else nt_get r (j div 2))"

function nt_add :: "nat \<Rightarrow> 'a \<Rightarrow> 'a nt \<Rightarrow> 'a nt" where
  "nt_add j x Lf = (if j = 0 then Nd Lf [x] Lf
     else if even j then Nd (nt_add (j div 2) x Lf) [] Lf else Nd Lf [] (nt_add (j div 2) x Lf))"
| "nt_add j x (Nd l v r) = (if j = 0 then Nd l (x # v) r
     else if even j then Nd (nt_add (j div 2) x l) v r else Nd l v (nt_add (j div 2) x r))"
  by pat_completeness auto
termination by (relation "measure (\<lambda>(j, x, t). j)") auto

lemma nt_get_add: "nt_get (nt_add k x t) j = (if j = k then x # nt_get t j else nt_get t j)"
proof (induction k x t arbitrary: j rule: nt_add.induct)
  case (1 k x)
  have "even j = even k \<Longrightarrow> (j div 2 = k div 2) = (j = k)"
    by (metis dvd_mult_div_cancel odd_two_times_div_two_succ)
  with 1 show ?case by auto
next
  case (2 k x l v r)
  have "even j = even k \<Longrightarrow> (j div 2 = k div 2) = (j = k)"
    by (metis dvd_mult_div_cancel odd_two_times_div_two_succ)
  with 2 show ?case by auto
qed

fun nt_build :: "(nat \<times> nat) list \<Rightarrow> nat nt" where
  "nt_build [] = Lf"
| "nt_build (p # ps) = nt_add (snd p) (fst p) (nt_build ps)"

lemma nt_build_get: "nt_get (nt_build tab) k = map fst (filter (\<lambda>p. snd p = k) tab)"
  by (induction tab) (auto simp: nt_get_add)

lemma set_nt_build: "set (nt_get (nt_build tab) k) = {r. (r, k) \<in> set tab}"
  unfolding nt_build_get by force

section \<open>Toggling\<close>

fun toggle :: "'a \<Rightarrow> 'a list \<Rightarrow> 'a list" where
  "toggle x [] = [x]"
| "toggle x (y # ys) = (if x = y then ys else y # toggle x ys)"

fun toggles :: "'a list \<Rightarrow> 'a list \<Rightarrow> 'a list" where
  "toggles [] acc = acc"
| "toggles (x # xs) acc = toggles xs (toggle x acc)"

fun gather :: "nat nt \<Rightarrow> nat list \<Rightarrow> nat list \<Rightarrow> nat list" where
  "gather t [] acc = acc"
| "gather t (j # js) acc = gather t js (toggles (nt_get t j) acc)"

lemma toggle_sem:
  "distinct ys \<Longrightarrow> distinct (toggle x ys) \<and> (\<forall>i. i \<in> set (toggle x ys) \<longleftrightarrow> (i \<in> set ys) \<noteq> (i = x))"
  by (induction ys) auto

lemma toggles_sem:
  "distinct acc \<Longrightarrow> distinct (toggles xs acc) \<and>
     (\<forall>i. i \<in> set (toggles xs acc) \<longleftrightarrow> (i \<in> set acc) \<noteq> odd (count_list xs i))"
proof (induction xs arbitrary: acc)
  case (Cons x xs)
  from toggle_sem [OF Cons.prems, of x] have "distinct (toggle x acc)"
    and mem: "\<And>i. i \<in> set (toggle x acc) \<longleftrightarrow> (i \<in> set acc) \<noteq> (i = x)" by blast+
  from Cons.IH [OF this(1)] show ?case by (auto simp: mem)
qed simp

lemma gather_sem:
  "distinct acc \<Longrightarrow>
     i \<in> set (gather t js acc) \<longleftrightarrow> (i \<in> set acc) \<noteq> odd (\<Sum>j\<leftarrow>js. count_list (nt_get t j) i)"
proof (induction js arbitrary: acc)
  case (Cons j js)
  from toggles_sem [OF Cons.prems, of "nt_get t j"] have d: "distinct (toggles (nt_get t j) acc)"
    and mem: "\<And>i. i \<in> set (toggles (nt_get t j) acc) \<longleftrightarrow> (i \<in> set acc) \<noteq> odd (count_list (nt_get t j) i)"
    by blast+
  show ?case unfolding gather.simps Cons.IH [OF d] mem by auto
qed simp

lemma count_list_distinct: "distinct xs \<Longrightarrow> count_list xs x = of_bool (x \<in> set xs)"
  by (induction xs) auto

text \<open>Column \<open>k\<close> of the product is the unit vector, and no position of the columns is repeated.\<close>

definition unit_col :: "nat nt \<Rightarrow> nat nt \<Rightarrow> nat \<Rightarrow> bool" where
  "unit_col t u k \<longleftrightarrow> distinct (nt_get t k) \<and> distinct (nt_get u k) \<and> gather t (nt_get u k) [] = [k]"

fun unit_cols :: "nat nt \<Rightarrow> nat nt \<Rightarrow> nat list \<Rightarrow> bool" where
  "unit_cols t u [] = True"
| "unit_cols t u (k # ks) \<longleftrightarrow> unit_col t u k \<and> unit_cols t u ks"

lemma unit_cols_iff: "unit_cols t u ks \<longleftrightarrow> (\<forall>k \<in> set ks. unit_col t u k)"
  by (induction ks) auto

lemma right_inverseI:
  assumes cols: "\<And>k. k < n \<Longrightarrow> \<exists>u. unit_col (nt_build P) u k \<and> nt_get u k = nt_get (nt_build Q) k"
    and dims: "list_all (\<lambda>p. fst p < n) Q"
  shows "right_inverse (set P) (set Q) n"
  unfolding right_inverse_def
proof (intro allI impI)
  fix i k assume i: "i < n" and k: "k < n"
  let ?J = "nt_get (nt_build Q) k"
  have d: "distinct (nt_get (nt_build P) j)" if "j < n" for j using cols [OF that] by (auto simp: unit_col_def)
  have J: "distinct ?J" "gather (nt_build P) ?J [] = [k]" using cols [OF k] by (auto simp: unit_col_def)
  have setJ: "set ?J = {j. j < n \<and> (j, k) \<in> set Q}"
    unfolding set_nt_build using dims by (auto simp: list_all_iff)
  have "(i = k) = odd (\<Sum>j\<leftarrow>?J. count_list (nt_get (nt_build P) j) i)"
    using gather_sem [of "[]" i "nt_build P" ?J] J(2) by auto
  also have "(\<Sum>j\<leftarrow>?J. count_list (nt_get (nt_build P) j) i) = (\<Sum>j \<in> set ?J. count_list (nt_get (nt_build P) j) i)"
    by (rule sum_list_distinct_conv_sum_set [OF J(1)])
  also have "\<dots> = (\<Sum>j \<in> set ?J. of_bool ((i, j) \<in> set P))"
  proof (rule sum.cong [OF refl])
    fix j assume "j \<in> set ?J"
    then have "distinct (nt_get (nt_build P) j)" using d setJ by auto
    then show "count_list (nt_get (nt_build P) j) i = of_bool ((i, j) \<in> set P)"
      using set_nt_build [of P j] by (simp add: count_list_distinct)
  qed
  also have "\<dots> = (\<Sum>j < n. of_bool ((i, j) \<in> set P) * of_bool ((j, k) \<in> set Q))"
    unfolding setJ by (rule sum.mono_neutral_cong_left) auto
  finally show "odd (\<Sum>j < n. of_bool ((i, j) \<in> set P) * of_bool ((j, k) \<in> set Q) :: nat) = (i = k)" by simp
qed

section \<open>Rules for evaluation\<close>

lemma nt_get_eval:
  "nt_get Lf j = []"
  "nt_get (Nd l v r) 0 = v" "nt_get (Nd l v r) 1 = nt_get r 0"
  "nt_get (Nd l v r) (numeral (num.Bit0 n)) = nt_get l (numeral n)"
  "nt_get (Nd l v r) (numeral (num.Bit1 n)) = nt_get r (numeral n)"
  by simp_all

lemma nt_add_eval:
  "nt_add 0 x Lf = Nd Lf [x] Lf" "nt_add 1 x Lf = Nd Lf [] (nt_add 0 x Lf)"
  "nt_add (numeral (num.Bit0 n)) x Lf = Nd (nt_add (numeral n) x Lf) [] Lf"
  "nt_add (numeral (num.Bit1 n)) x Lf = Nd Lf [] (nt_add (numeral n) x Lf)"
  "nt_add 0 x (Nd l v r) = Nd l (x # v) r" "nt_add 1 x (Nd l v r) = Nd l v (nt_add 0 x r)"
  "nt_add (numeral (num.Bit0 n)) x (Nd l v r) = Nd (nt_add (numeral n) x l) v r"
  "nt_add (numeral (num.Bit1 n)) x (Nd l v r) = Nd l v (nt_add (numeral n) x r)"
  by simp_all

lemma upt_lit_eval:
  "[0..<numeral n] = 0 # [1..<numeral n]"
  "[1..<numeral n] = (if (1 :: nat) < numeral n then 1 # [2..<numeral n] else [])"
  by (simp_all add: upt_rec numeral_2_eq_2)

lemma nt_build_concat: "nt_build (concat xss) = foldr (\<lambda>xs t. foldr (\<lambda>p. nt_add (snd p) (fst p)) xs t) xss Lf"
proof -
  have "nt_build (xs @ ys) = foldr (\<lambda>p. nt_add (snd p) (fst p)) xs (nt_build ys)" for xs ys
    by (induction xs) simp_all
  then show ?thesis by (induction xss) simp_all
qed

text \<open>Rewriting does not enter the tries.\<close>

lemma nt_get_cong: "j = j' \<Longrightarrow> nt_get t j = nt_get t j'" by simp
lemma unit_col_cong: "j = j' \<Longrightarrow> unit_col t u j = unit_col t u j'" by simp
lemma unit_cols_cong: "j = j' \<Longrightarrow> unit_cols t u j = unit_cols t u j'" by simp
lemma gather_cong: "j = j' \<Longrightarrow> a = a' \<Longrightarrow> gather t j a = gather t j' a'" by simp

lemmas nt_congs = nt_get_cong unit_col_cong unit_cols_cong gather_cong

lemmas nt_build_eval = nt_build_concat foldr.simps comp_apply id_apply fst_conv snd_conv nt_add_eval numeral_One

lemmas unit_cols_simps = unit_cols.simps unit_col_def nt_get_eval numeral_One distinct.simps list.set
  insert_iff empty_iff gather.simps toggles.simps toggle.simps if_True if_False simp_thms list.inject list.distinct
  numeral_eq_iff num.inject num.distinct zero_neq_numeral numeral_neq_zero one_eq_numeral_iff
  numeral_eq_one_iff zero_neq_one one_neq_zero

lemma unit_cols_eval:
  "nt_build P = t \<Longrightarrow> nt_build Q = u \<Longrightarrow> xs = ks \<Longrightarrow> unit_cols t u ks \<Longrightarrow>
    unit_cols (nt_build P) (nt_build Q) xs"
  by simp

lemma right_inverse_halves:
  assumes "unit_cols (nt_build P) (nt_build Q0) [0..<h]" "unit_cols (nt_build P) (nt_build Q1) [h..<n]"
    "list_all (\<lambda>p. snd p < h) Q0" "list_all (\<lambda>p. h \<le> snd p) Q1" "list_all (\<lambda>p. fst p < n) (Q0 @ Q1)"
  shows "right_inverse (set P) (set (Q0 @ Q1)) n"
proof (rule right_inverseI)
  fix k assume k: "k < n"
  show "\<exists>u. unit_col (nt_build P) u k \<and> nt_get u k = nt_get (nt_build (Q0 @ Q1)) k"
  proof (cases "k < h")
    case True
    then have "nt_get (nt_build (Q0 @ Q1)) k = nt_get (nt_build Q0) k"
      using assms(4) by (auto simp: nt_build_get list_all_iff filter_empty_conv)
    then show ?thesis using assms(1) True by (auto simp: unit_cols_iff)
  next
    case False
    then have "nt_get (nt_build (Q0 @ Q1)) k = nt_get (nt_build Q1) k"
      using assms(3) by (auto simp: nt_build_get list_all_iff filter_empty_conv)
    then show ?thesis using assms(2) False k by (auto simp: unit_cols_iff)
  qed
qed (rule assms(5))

section \<open>Tables\<close>

text \<open>A position inside a matrix of the given size.\<close>

definition in_dims :: "nat \<Rightarrow> nat \<Rightarrow> nat \<times> nat \<Rightarrow> bool" where
  "in_dims nr nc p \<longleftrightarrow> fst p < nr \<and> snd p < nc"

lemma in_dims_Pair: "in_dims nr nc (r, c) \<longleftrightarrow> r < nr \<and> c < nc"
  by (simp add: in_dims_def)

lemma list_all_concat: "list_all P (concat xss) = list_all (list_all P) xss"
  by (induction xss) simp_all

lemma in_dims_ball: "list_all (in_dims nr nc) tab \<Longrightarrow> \<forall>(r, c) \<in> set tab. r < nr \<and> c < nc"
  by (auto simp: list_all_iff in_dims_def)

end
