(* ===== verification/Afs_Tab_SF2.thy ===== *)
theory Afs_Tab_SF2
  imports Afs_Gf2
begin

text \<open>
  The submatrices \<open>A\<close>, \<open>B\<close>, \<open>D\<close> and the inverse of \<open>B\<close> of the LDPC code of subframe 2, as the index
  tables of \<open>afs_nav.c\<close> list them: one pair (row, column) per nonzero entry, one inner list per line.
  Long tables are cut into parts.
\<close>

section \<open>SF2_A: positions in a matrix of 480 rows and 1200 columns\<close>

definition SF2_A_ind_0 :: "(nat \<times> nat) list" where
  "SF2_A_ind_0 = concat [
    [(95, 0), (218, 0), (286, 0), (96, 1), (219, 1), (287, 1), (97, 2), (220, 2), (288, 2), (98, 3)],
    [(221, 3), (289, 3), (99, 4), (222, 4), (290, 4), (100, 5), (223, 5), (291, 5), (101, 6), (224, 6)],
    [(292, 6), (102, 7), (225, 7), (293, 7), (103, 8), (226, 8), (294, 8), (104, 9), (227, 9), (295, 9)],
    [(105, 10), (228, 10), (296, 10), (106, 11), (229, 11), (297, 11), (107, 12), (230, 12), (298, 12), (108, 13)],
    [(231, 13), (299, 13), (109, 14), (232, 14), (300, 14), (110, 15), (233, 15), (301, 15), (111, 16), (234, 16)],
    [(302, 16), (112, 17), (235, 17), (303, 17), (113, 18), (236, 18), (304, 18), (114, 19), (237, 19), (305, 19)],
    [(115, 20), (238, 20), (306, 20), (116, 21), (239, 21), (307, 21), (117, 22), (120, 22), (308, 22), (118, 23)],
    [(121, 23), (309, 23), (119, 24), (122, 24), (310, 24), (0, 25), (123, 25), (311, 25), (1, 26), (124, 26)],
    [(312, 26), (2, 27), (125, 27), (313, 27), (3, 28), (126, 28), (314, 28), (4, 29), (127, 29), (315, 29)],
    [(5, 30), (128, 30), (316, 30), (6, 31), (129, 31), (317, 31), (7, 32), (130, 32), (318, 32), (8, 33)],
    [(131, 33), (319, 33), (9, 34), (132, 34), (320, 34), (10, 35), (133, 35), (321, 35), (11, 36), (134, 36)],
    [(322, 36), (12, 37), (135, 37), (323, 37), (13, 38), (136, 38), (324, 38), (14, 39), (137, 39), (325, 39)],
    [(15, 40), (138, 40), (326, 40), (16, 41), (139, 41), (327, 41), (17, 42), (140, 42), (328, 42), (18, 43)],
    [(141, 43), (329, 43), (19, 44), (142, 44), (330, 44), (20, 45), (143, 45), (331, 45), (21, 46), (144, 46)],
    [(332, 46), (22, 47), (145, 47), (333, 47), (23, 48), (146, 48), (334, 48), (24, 49), (147, 49), (335, 49)],
    [(25, 50), (148, 50), (336, 50), (26, 51), (149, 51), (337, 51), (27, 52), (150, 52), (338, 52), (28, 53)],
    [(151, 53), (339, 53), (29, 54), (152, 54), (340, 54), (30, 55), (153, 55), (341, 55), (31, 56), (154, 56)],
    [(342, 56), (32, 57), (155, 57), (343, 57), (33, 58), (156, 58), (344, 58), (34, 59), (157, 59), (345, 59)],
    [(35, 60), (158, 60), (346, 60), (36, 61), (159, 61), (347, 61), (37, 62), (160, 62), (348, 62), (38, 63)],
    [(161, 63), (349, 63), (39, 64), (162, 64), (350, 64), (40, 65), (163, 65), (351, 65), (41, 66), (164, 66)],
    [(352, 66), (42, 67), (165, 67), (353, 67), (43, 68), (166, 68), (354, 68), (44, 69), (167, 69), (355, 69)],
    [(45, 70), (168, 70), (356, 70), (46, 71), (169, 71), (357, 71), (47, 72), (170, 72), (358, 72), (48, 73)],
    [(171, 73), (359, 73), (49, 74), (172, 74), (240, 74), (50, 75), (173, 75), (241, 75), (51, 76), (174, 76)],
    [(242, 76), (52, 77), (175, 77), (243, 77), (53, 78), (176, 78), (244, 78), (54, 79), (177, 79), (245, 79)],
    [(55, 80), (178, 80), (246, 80), (56, 81), (179, 81), (247, 81), (57, 82), (180, 82), (248, 82), (58, 83)],
    [(181, 83), (249, 83), (59, 84), (182, 84), (250, 84), (60, 85), (183, 85), (251, 85), (61, 86), (184, 86)],
    [(252, 86), (62, 87), (185, 87), (253, 87), (63, 88), (186, 88), (254, 88), (64, 89), (187, 89), (255, 89)],
    [(65, 90), (188, 90), (256, 90), (66, 91), (189, 91), (257, 91), (67, 92), (190, 92), (258, 92), (68, 93)],
    [(191, 93), (259, 93), (69, 94), (192, 94), (260, 94), (70, 95), (193, 95), (261, 95), (71, 96), (194, 96)],
    [(262, 96), (72, 97), (195, 97), (263, 97), (73, 98), (196, 98), (264, 98), (74, 99), (197, 99), (265, 99)],
    [(75, 100), (198, 100), (266, 100), (76, 101), (199, 101), (267, 101), (77, 102), (200, 102), (268, 102), (78, 103)],
    [(201, 103), (269, 103), (79, 104), (202, 104), (270, 104), (80, 105), (203, 105), (271, 105), (81, 106), (204, 106)],
    [(272, 106), (82, 107), (205, 107), (273, 107), (83, 108), (206, 108), (274, 108), (84, 109), (207, 109), (275, 109)],
    [(85, 110), (208, 110), (276, 110), (86, 111), (209, 111), (277, 111), (87, 112), (210, 112), (278, 112), (88, 113)],
    [(211, 113), (279, 113), (89, 114), (212, 114), (280, 114), (90, 115), (213, 115), (281, 115), (91, 116), (214, 116)],
    [(282, 116), (92, 117), (215, 117), (283, 117), (93, 118), (216, 118), (284, 118), (94, 119), (217, 119), (285, 119)],
    [(109, 120), (329, 120), (361, 120), (110, 121), (330, 121), (362, 121), (111, 122), (331, 122), (363, 122), (112, 123)],
    [(332, 123), (364, 123), (113, 124), (333, 124), (365, 124), (114, 125), (334, 125), (366, 125), (115, 126), (335, 126)],
    [(367, 126), (116, 127), (336, 127), (368, 127), (117, 128), (337, 128), (369, 128), (118, 129), (338, 129), (370, 129)],
    [(119, 130), (339, 130), (371, 130), (0, 131), (340, 131), (372, 131), (1, 132), (341, 132), (373, 132), (2, 133)],
    [(342, 133), (374, 133), (3, 134), (343, 134), (375, 134), (4, 135), (344, 135), (376, 135), (5, 136), (345, 136)],
    [(377, 136), (6, 137), (346, 137), (378, 137), (7, 138), (347, 138), (379, 138), (8, 139), (348, 139), (380, 139)],
    [(9, 140), (349, 140), (381, 140), (10, 141), (350, 141), (382, 141), (11, 142), (351, 142), (383, 142), (12, 143)],
    [(352, 143), (384, 143), (13, 144), (353, 144), (385, 144), (14, 145), (354, 145), (386, 145), (15, 146), (355, 146)],
    [(387, 146), (16, 147), (356, 147), (388, 147), (17, 148), (357, 148), (389, 148), (18, 149), (358, 149), (390, 149)],
    [(19, 150), (359, 150), (391, 150), (20, 151), (240, 151), (392, 151), (21, 152), (241, 152), (393, 152), (22, 153)],
    [(242, 153), (394, 153), (23, 154), (243, 154), (395, 154), (24, 155), (244, 155), (396, 155), (25, 156), (245, 156)],
    [(397, 156), (26, 157), (246, 157), (398, 157), (27, 158), (247, 158), (399, 158), (28, 159), (248, 159), (400, 159)],
    [(29, 160), (249, 160), (401, 160), (30, 161), (250, 161), (402, 161), (31, 162), (251, 162), (403, 162), (32, 163)],
    [(252, 163), (404, 163), (33, 164), (253, 164), (405, 164), (34, 165), (254, 165), (406, 165), (35, 166), (255, 166)],
    [(407, 166), (36, 167), (256, 167), (408, 167), (37, 168), (257, 168), (409, 168), (38, 169), (258, 169), (410, 169)],
    [(39, 170), (259, 170), (411, 170), (40, 171), (260, 171), (412, 171), (41, 172), (261, 172), (413, 172), (42, 173)],
    [(262, 173), (414, 173), (43, 174), (263, 174), (415, 174), (44, 175), (264, 175), (416, 175), (45, 176), (265, 176)],
    [(417, 176), (46, 177), (266, 177), (418, 177), (47, 178), (267, 178), (419, 178), (48, 179), (268, 179), (420, 179)],
    [(49, 180), (269, 180), (421, 180), (50, 181), (270, 181), (422, 181), (51, 182), (271, 182), (423, 182), (52, 183)],
    [(272, 183), (424, 183), (53, 184), (273, 184), (425, 184), (54, 185), (274, 185), (426, 185), (55, 186), (275, 186)],
    [(427, 186), (56, 187), (276, 187), (428, 187), (57, 188), (277, 188), (429, 188), (58, 189), (278, 189), (430, 189)],
    [(59, 190), (279, 190), (431, 190), (60, 191), (280, 191), (432, 191), (61, 192), (281, 192), (433, 192), (62, 193)],
    [(282, 193), (434, 193), (63, 194), (283, 194), (435, 194), (64, 195), (284, 195), (436, 195), (65, 196), (285, 196)],
    [(437, 196), (66, 197), (286, 197), (438, 197), (67, 198), (287, 198), (439, 198), (68, 199), (288, 199), (440, 199)],
    [(69, 200), (289, 200), (441, 200), (70, 201), (290, 201), (442, 201), (71, 202), (291, 202), (443, 202), (72, 203)],
    [(292, 203), (444, 203), (73, 204), (293, 204), (445, 204), (74, 205), (294, 205), (446, 205), (75, 206), (295, 206)],
    [(447, 206), (76, 207), (296, 207), (448, 207), (77, 208), (297, 208), (449, 208), (78, 209), (298, 209), (450, 209)],
    [(79, 210), (299, 210), (451, 210), (80, 211), (300, 211), (452, 211), (81, 212), (301, 212), (453, 212), (82, 213)],
    [(302, 213), (454, 213), (83, 214), (303, 214), (455, 214), (84, 215), (304, 215), (456, 215), (85, 216), (305, 216)],
    [(457, 216), (86, 217), (306, 217), (458, 217), (87, 218), (307, 218), (459, 218), (88, 219), (308, 219), (460, 219)],
    [(89, 220), (309, 220), (461, 220), (90, 221), (310, 221), (462, 221), (91, 222), (311, 222), (463, 222), (92, 223)],
    [(312, 223), (464, 223), (93, 224), (313, 224), (465, 224), (94, 225), (314, 225), (466, 225), (95, 226), (315, 226)],
    [(467, 226), (96, 227), (316, 227), (468, 227), (97, 228), (317, 228), (469, 228), (98, 229), (318, 229), (470, 229)],
    [(99, 230), (319, 230), (471, 230), (100, 231), (320, 231), (472, 231), (101, 232), (321, 232), (473, 232), (102, 233)],
    [(322, 233), (474, 233), (103, 234), (323, 234), (475, 234), (104, 235), (324, 235), (476, 235), (105, 236), (325, 236)],
    [(477, 236), (106, 237), (326, 237), (478, 237), (107, 238), (327, 238), (479, 238), (108, 239), (328, 239), (360, 239)],
    [(49, 240), (429, 240), (50, 241), (430, 241), (51, 242), (431, 242), (52, 243), (432, 243), (53, 244), (433, 244)],
    [(54, 245), (434, 245), (55, 246), (435, 246), (56, 247), (436, 247), (57, 248), (437, 248), (58, 249), (438, 249)],
    [(59, 250), (439, 250), (60, 251), (440, 251), (61, 252), (441, 252), (62, 253), (442, 253), (63, 254), (443, 254)],
    [(64, 255), (444, 255), (65, 256), (445, 256), (66, 257), (446, 257), (67, 258), (447, 258), (68, 259), (448, 259)],
    [(69, 260), (449, 260), (70, 261), (450, 261), (71, 262), (451, 262), (72, 263), (452, 263), (73, 264), (453, 264)],
    [(74, 265), (454, 265), (75, 266), (455, 266), (76, 267), (456, 267), (77, 268), (457, 268), (78, 269), (458, 269)],
    [(79, 270), (459, 270), (80, 271), (460, 271), (81, 272), (461, 272), (82, 273), (462, 273), (83, 274), (463, 274)],
    [(84, 275), (464, 275), (85, 276), (465, 276), (86, 277), (466, 277), (87, 278), (467, 278), (88, 279), (468, 279)],
    [(89, 280), (469, 280), (90, 281), (470, 281), (91, 282), (471, 282), (92, 283), (472, 283), (93, 284), (473, 284)],
    [(94, 285), (474, 285), (95, 286), (475, 286), (96, 287), (476, 287), (97, 288), (477, 288), (98, 289), (478, 289)],
    [(99, 290), (479, 290), (100, 291), (360, 291), (101, 292), (361, 292), (102, 293), (362, 293), (103, 294), (363, 294)],
    [(104, 295), (364, 295), (105, 296), (365, 296), (106, 297), (366, 297), (107, 298), (367, 298), (108, 299), (368, 299)],
    [(109, 300), (369, 300), (110, 301), (370, 301), (111, 302), (371, 302), (112, 303), (372, 303), (113, 304), (373, 304)],
    [(114, 305), (374, 305), (115, 306), (375, 306), (116, 307), (376, 307), (117, 308), (377, 308), (118, 309), (378, 309)],
    [(119, 310), (379, 310), (0, 311), (380, 311), (1, 312), (381, 312), (2, 313), (382, 313), (3, 314), (383, 314)],
    [(4, 315), (384, 315), (5, 316), (385, 316), (6, 317), (386, 317), (7, 318), (387, 318), (8, 319), (388, 319)],
    [(9, 320), (389, 320), (10, 321), (390, 321), (11, 322), (391, 322), (12, 323), (392, 323), (13, 324), (393, 324)],
    [(14, 325), (394, 325), (15, 326), (395, 326), (16, 327), (396, 327), (17, 328), (397, 328), (18, 329), (398, 329)],
    [(19, 330), (399, 330), (20, 331), (400, 331), (21, 332), (401, 332), (22, 333), (402, 333), (23, 334), (403, 334)],
    [(24, 335), (404, 335), (25, 336), (405, 336), (26, 337), (406, 337), (27, 338), (407, 338), (28, 339), (408, 339)],
    [(29, 340), (409, 340), (30, 341), (410, 341), (31, 342), (411, 342), (32, 343), (412, 343), (33, 344), (413, 344)],
    [(34, 345), (414, 345), (35, 346), (415, 346), (36, 347), (416, 347), (37, 348), (417, 348), (38, 349), (418, 349)],
    [(39, 350), (419, 350), (40, 351), (420, 351), (41, 352), (421, 352), (42, 353), (422, 353), (43, 354), (423, 354)],
    [(44, 355), (424, 355), (45, 356), (425, 356), (46, 357), (426, 357), (47, 358), (427, 358), (48, 359), (428, 359)],
    [(99, 360), (186, 360), (357, 360), (100, 361), (187, 361), (358, 361), (101, 362), (188, 362), (359, 362), (102, 363)],
    [(189, 363), (240, 363), (103, 364), (190, 364), (241, 364), (104, 365), (191, 365), (242, 365), (105, 366), (192, 366)],
    [(243, 366), (106, 367), (193, 367), (244, 367), (107, 368), (194, 368), (245, 368), (108, 369), (195, 369), (246, 369)],
    [(109, 370), (196, 370), (247, 370), (110, 371), (197, 371), (248, 371), (111, 372), (198, 372), (249, 372), (112, 373)],
    [(199, 373), (250, 373), (113, 374), (200, 374), (251, 374), (114, 375), (201, 375), (252, 375), (115, 376), (202, 376)],
    [(253, 376), (116, 377), (203, 377), (254, 377), (117, 378), (204, 378), (255, 378), (118, 379), (205, 379), (256, 379)],
    [(119, 380), (206, 380), (257, 380), (0, 381), (207, 381), (258, 381), (1, 382), (208, 382), (259, 382), (2, 383)],
    [(209, 383), (260, 383), (3, 384), (210, 384), (261, 384), (4, 385), (211, 385), (262, 385), (5, 386), (212, 386)],
    [(263, 386), (6, 387), (213, 387), (264, 387), (7, 388), (214, 388), (265, 388), (8, 389), (215, 389), (266, 389)],
    [(9, 390), (216, 390), (267, 390), (10, 391), (217, 391), (268, 391), (11, 392), (218, 392), (269, 392), (12, 393)],
    [(219, 393), (270, 393), (13, 394), (220, 394), (271, 394), (14, 395), (221, 395), (272, 395), (15, 396), (222, 396)],
    [(273, 396), (16, 397), (223, 397), (274, 397), (17, 398), (224, 398), (275, 398), (18, 399), (225, 399), (276, 399)],
    [(19, 400), (226, 400), (277, 400), (20, 401), (227, 401), (278, 401), (21, 402), (228, 402), (279, 402), (22, 403)],
    [(229, 403), (280, 403), (23, 404), (230, 404), (281, 404), (24, 405), (231, 405), (282, 405), (25, 406), (232, 406)],
    [(283, 406), (26, 407), (233, 407), (284, 407), (27, 408), (234, 408), (285, 408), (28, 409), (235, 409), (286, 409)],
    [(29, 410), (236, 410), (287, 410), (30, 411), (237, 411), (288, 411), (31, 412), (238, 412), (289, 412), (32, 413)],
    [(239, 413), (290, 413), (33, 414), (120, 414), (291, 414), (34, 415), (121, 415), (292, 415), (35, 416), (122, 416)],
    [(293, 416), (36, 417), (123, 417), (294, 417), (37, 418), (124, 418), (295, 418), (38, 419), (125, 419), (296, 419)],
    [(39, 420), (126, 420), (297, 420), (40, 421), (127, 421), (298, 421), (41, 422), (128, 422), (299, 422), (42, 423)],
    [(129, 423), (300, 423), (43, 424), (130, 424), (301, 424), (44, 425), (131, 425), (302, 425), (45, 426), (132, 426)],
    [(303, 426), (46, 427), (133, 427), (304, 427), (47, 428), (134, 428), (305, 428), (48, 429), (135, 429), (306, 429)],
    [(49, 430), (136, 430), (307, 430), (50, 431), (137, 431), (308, 431), (51, 432), (138, 432), (309, 432), (52, 433)],
    [(139, 433), (310, 433), (53, 434), (140, 434), (311, 434), (54, 435), (141, 435), (312, 435), (55, 436), (142, 436)],
    [(313, 436), (56, 437), (143, 437), (314, 437), (57, 438), (144, 438), (315, 438), (58, 439), (145, 439), (316, 439)],
    [(59, 440), (146, 440), (317, 440), (60, 441), (147, 441), (318, 441), (61, 442), (148, 442), (319, 442), (62, 443)],
    [(149, 443), (320, 443), (63, 444), (150, 444), (321, 444), (64, 445), (151, 445), (322, 445), (65, 446), (152, 446)],
    [(323, 446), (66, 447), (153, 447), (324, 447), (67, 448), (154, 448), (325, 448), (68, 449), (155, 449), (326, 449)],
    [(69, 450), (156, 450), (327, 450), (70, 451), (157, 451), (328, 451), (71, 452), (158, 452), (329, 452), (72, 453)],
    [(159, 453), (330, 453), (73, 454), (160, 454), (331, 454), (74, 455), (161, 455), (332, 455), (75, 456), (162, 456)],
    [(333, 456), (76, 457), (163, 457), (334, 457), (77, 458), (164, 458), (335, 458), (78, 459), (165, 459), (336, 459)],
    [(79, 460), (166, 460), (337, 460), (80, 461), (167, 461), (338, 461), (81, 462), (168, 462), (339, 462), (82, 463)],
    [(169, 463), (340, 463), (83, 464), (170, 464), (341, 464), (84, 465), (171, 465), (342, 465), (85, 466), (172, 466)],
    [(343, 466), (86, 467), (173, 467), (344, 467), (87, 468), (174, 468), (345, 468), (88, 469), (175, 469), (346, 469)],
    [(89, 470), (176, 470), (347, 470), (90, 471), (177, 471), (348, 471), (91, 472), (178, 472), (349, 472), (92, 473)],
    [(179, 473), (350, 473), (93, 474), (180, 474), (351, 474), (94, 475), (181, 475), (352, 475), (95, 476), (182, 476)],
    [(353, 476), (96, 477), (183, 477), (354, 477), (97, 478), (184, 478), (355, 478), (98, 479), (185, 479), (356, 479)],
    [(177, 480), (307, 480), (385, 480), (178, 481), (308, 481), (386, 481), (179, 482), (309, 482), (387, 482), (180, 483)],
    [(310, 483), (388, 483), (181, 484), (311, 484), (389, 484), (182, 485), (312, 485), (390, 485), (183, 486), (313, 486)],
    [(391, 486), (184, 487), (314, 487), (392, 487), (185, 488), (315, 488), (393, 488), (186, 489), (316, 489), (394, 489)],
    [(187, 490), (317, 490), (395, 490), (188, 491), (318, 491), (396, 491), (189, 492), (319, 492), (397, 492), (190, 493)],
    [(320, 493), (398, 493), (191, 494), (321, 494), (399, 494), (192, 495), (322, 495), (400, 495), (193, 496), (323, 496)],
    [(401, 496), (194, 497), (324, 497), (402, 497), (195, 498), (325, 498), (403, 498), (196, 499), (326, 499), (404, 499)],
    [(197, 500), (327, 500), (405, 500), (198, 501), (328, 501), (406, 501), (199, 502), (329, 502), (407, 502), (200, 503)],
    [(330, 503), (408, 503), (201, 504), (331, 504), (409, 504), (202, 505), (332, 505), (410, 505), (203, 506), (333, 506)],
    [(411, 506), (204, 507), (334, 507), (412, 507), (205, 508), (335, 508), (413, 508), (206, 509), (336, 509), (414, 509)],
    [(207, 510), (337, 510), (415, 510), (208, 511), (338, 511), (416, 511), (209, 512), (339, 512), (417, 512), (210, 513)],
    [(340, 513), (418, 513), (211, 514), (341, 514), (419, 514), (212, 515), (342, 515), (420, 515), (213, 516), (343, 516)],
    [(421, 516), (214, 517), (344, 517), (422, 517), (215, 518), (345, 518), (423, 518), (216, 519), (346, 519), (424, 519)],
    [(217, 520), (347, 520), (425, 520), (218, 521), (348, 521), (426, 521), (219, 522), (349, 522), (427, 522), (220, 523)],
    [(350, 523), (428, 523), (221, 524), (351, 524), (429, 524), (222, 525), (352, 525), (430, 525), (223, 526), (353, 526)],
    [(431, 526), (224, 527), (354, 527), (432, 527), (225, 528), (355, 528), (433, 528), (226, 529), (356, 529), (434, 529)]]"

definition SF2_A_ind_1 :: "(nat \<times> nat) list" where
  "SF2_A_ind_1 = concat [
    [(227, 530), (357, 530), (435, 530), (228, 531), (358, 531), (436, 531), (229, 532), (359, 532), (437, 532), (230, 533)],
    [(240, 533), (438, 533), (231, 534), (241, 534), (439, 534), (232, 535), (242, 535), (440, 535), (233, 536), (243, 536)],
    [(441, 536), (234, 537), (244, 537), (442, 537), (235, 538), (245, 538), (443, 538), (236, 539), (246, 539), (444, 539)],
    [(237, 540), (247, 540), (445, 540), (238, 541), (248, 541), (446, 541), (239, 542), (249, 542), (447, 542), (120, 543)],
    [(250, 543), (448, 543), (121, 544), (251, 544), (449, 544), (122, 545), (252, 545), (450, 545), (123, 546), (253, 546)],
    [(451, 546), (124, 547), (254, 547), (452, 547), (125, 548), (255, 548), (453, 548), (126, 549), (256, 549), (454, 549)],
    [(127, 550), (257, 550), (455, 550), (128, 551), (258, 551), (456, 551), (129, 552), (259, 552), (457, 552), (130, 553)],
    [(260, 553), (458, 553), (131, 554), (261, 554), (459, 554), (132, 555), (262, 555), (460, 555), (133, 556), (263, 556)],
    [(461, 556), (134, 557), (264, 557), (462, 557), (135, 558), (265, 558), (463, 558), (136, 559), (266, 559), (464, 559)],
    [(137, 560), (267, 560), (465, 560), (138, 561), (268, 561), (466, 561), (139, 562), (269, 562), (467, 562), (140, 563)],
    [(270, 563), (468, 563), (141, 564), (271, 564), (469, 564), (142, 565), (272, 565), (470, 565), (143, 566), (273, 566)],
    [(471, 566), (144, 567), (274, 567), (472, 567), (145, 568), (275, 568), (473, 568), (146, 569), (276, 569), (474, 569)],
    [(147, 570), (277, 570), (475, 570), (148, 571), (278, 571), (476, 571), (149, 572), (279, 572), (477, 572), (150, 573)],
    [(280, 573), (478, 573), (151, 574), (281, 574), (479, 574), (152, 575), (282, 575), (360, 575), (153, 576), (283, 576)],
    [(361, 576), (154, 577), (284, 577), (362, 577), (155, 578), (285, 578), (363, 578), (156, 579), (286, 579), (364, 579)],
    [(157, 580), (287, 580), (365, 580), (158, 581), (288, 581), (366, 581), (159, 582), (289, 582), (367, 582), (160, 583)],
    [(290, 583), (368, 583), (161, 584), (291, 584), (369, 584), (162, 585), (292, 585), (370, 585), (163, 586), (293, 586)],
    [(371, 586), (164, 587), (294, 587), (372, 587), (165, 588), (295, 588), (373, 588), (166, 589), (296, 589), (374, 589)],
    [(167, 590), (297, 590), (375, 590), (168, 591), (298, 591), (376, 591), (169, 592), (299, 592), (377, 592), (170, 593)],
    [(300, 593), (378, 593), (171, 594), (301, 594), (379, 594), (172, 595), (302, 595), (380, 595), (173, 596), (303, 596)],
    [(381, 596), (174, 597), (304, 597), (382, 597), (175, 598), (305, 598), (383, 598), (176, 599), (306, 599), (384, 599)],
    [(213, 600), (370, 600), (214, 601), (371, 601), (215, 602), (372, 602), (216, 603), (373, 603), (217, 604), (374, 604)],
    [(218, 605), (375, 605), (219, 606), (376, 606), (220, 607), (377, 607), (221, 608), (378, 608), (222, 609), (379, 609)],
    [(223, 610), (380, 610), (224, 611), (381, 611), (225, 612), (382, 612), (226, 613), (383, 613), (227, 614), (384, 614)],
    [(228, 615), (385, 615), (229, 616), (386, 616), (230, 617), (387, 617), (231, 618), (388, 618), (232, 619), (389, 619)],
    [(233, 620), (390, 620), (234, 621), (391, 621), (235, 622), (392, 622), (236, 623), (393, 623), (237, 624), (394, 624)],
    [(238, 625), (395, 625), (239, 626), (396, 626), (120, 627), (397, 627), (121, 628), (398, 628), (122, 629), (399, 629)],
    [(123, 630), (400, 630), (124, 631), (401, 631), (125, 632), (402, 632), (126, 633), (403, 633), (127, 634), (404, 634)],
    [(128, 635), (405, 635), (129, 636), (406, 636), (130, 637), (407, 637), (131, 638), (408, 638), (132, 639), (409, 639)],
    [(133, 640), (410, 640), (134, 641), (411, 641), (135, 642), (412, 642), (136, 643), (413, 643), (137, 644), (414, 644)],
    [(138, 645), (415, 645), (139, 646), (416, 646), (140, 647), (417, 647), (141, 648), (418, 648), (142, 649), (419, 649)],
    [(143, 650), (420, 650), (144, 651), (421, 651), (145, 652), (422, 652), (146, 653), (423, 653), (147, 654), (424, 654)],
    [(148, 655), (425, 655), (149, 656), (426, 656), (150, 657), (427, 657), (151, 658), (428, 658), (152, 659), (429, 659)],
    [(153, 660), (430, 660), (154, 661), (431, 661), (155, 662), (432, 662), (156, 663), (433, 663), (157, 664), (434, 664)],
    [(158, 665), (435, 665), (159, 666), (436, 666), (160, 667), (437, 667), (161, 668), (438, 668), (162, 669), (439, 669)],
    [(163, 670), (440, 670), (164, 671), (441, 671), (165, 672), (442, 672), (166, 673), (443, 673), (167, 674), (444, 674)],
    [(168, 675), (445, 675), (169, 676), (446, 676), (170, 677), (447, 677), (171, 678), (448, 678), (172, 679), (449, 679)],
    [(173, 680), (450, 680), (174, 681), (451, 681), (175, 682), (452, 682), (176, 683), (453, 683), (177, 684), (454, 684)],
    [(178, 685), (455, 685), (179, 686), (456, 686), (180, 687), (457, 687), (181, 688), (458, 688), (182, 689), (459, 689)],
    [(183, 690), (460, 690), (184, 691), (461, 691), (185, 692), (462, 692), (186, 693), (463, 693), (187, 694), (464, 694)],
    [(188, 695), (465, 695), (189, 696), (466, 696), (190, 697), (467, 697), (191, 698), (468, 698), (192, 699), (469, 699)],
    [(193, 700), (470, 700), (194, 701), (471, 701), (195, 702), (472, 702), (196, 703), (473, 703), (197, 704), (474, 704)],
    [(198, 705), (475, 705), (199, 706), (476, 706), (200, 707), (477, 707), (201, 708), (478, 708), (202, 709), (479, 709)],
    [(203, 710), (360, 710), (204, 711), (361, 711), (205, 712), (362, 712), (206, 713), (363, 713), (207, 714), (364, 714)],
    [(208, 715), (365, 715), (209, 716), (366, 716), (210, 717), (367, 717), (211, 718), (368, 718), (212, 719), (369, 719)],
    [(97, 720), (144, 720), (441, 720), (98, 721), (145, 721), (442, 721), (99, 722), (146, 722), (443, 722), (100, 723)],
    [(147, 723), (444, 723), (101, 724), (148, 724), (445, 724), (102, 725), (149, 725), (446, 725), (103, 726), (150, 726)],
    [(447, 726), (104, 727), (151, 727), (448, 727), (105, 728), (152, 728), (449, 728), (106, 729), (153, 729), (450, 729)],
    [(107, 730), (154, 730), (451, 730), (108, 731), (155, 731), (452, 731), (109, 732), (156, 732), (453, 732), (110, 733)],
    [(157, 733), (454, 733), (111, 734), (158, 734), (455, 734), (112, 735), (159, 735), (456, 735), (113, 736), (160, 736)],
    [(457, 736), (114, 737), (161, 737), (458, 737), (115, 738), (162, 738), (459, 738), (116, 739), (163, 739), (460, 739)],
    [(117, 740), (164, 740), (461, 740), (118, 741), (165, 741), (462, 741), (119, 742), (166, 742), (463, 742), (0, 743)],
    [(167, 743), (464, 743), (1, 744), (168, 744), (465, 744), (2, 745), (169, 745), (466, 745), (3, 746), (170, 746)],
    [(467, 746), (4, 747), (171, 747), (468, 747), (5, 748), (172, 748), (469, 748), (6, 749), (173, 749), (470, 749)],
    [(7, 750), (174, 750), (471, 750), (8, 751), (175, 751), (472, 751), (9, 752), (176, 752), (473, 752), (10, 753)],
    [(177, 753), (474, 753), (11, 754), (178, 754), (475, 754), (12, 755), (179, 755), (476, 755), (13, 756), (180, 756)],
    [(477, 756), (14, 757), (181, 757), (478, 757), (15, 758), (182, 758), (479, 758), (16, 759), (183, 759), (360, 759)],
    [(17, 760), (184, 760), (361, 760), (18, 761), (185, 761), (362, 761), (19, 762), (186, 762), (363, 762), (20, 763)],
    [(187, 763), (364, 763), (21, 764), (188, 764), (365, 764), (22, 765), (189, 765), (366, 765), (23, 766), (190, 766)],
    [(367, 766), (24, 767), (191, 767), (368, 767), (25, 768), (192, 768), (369, 768), (26, 769), (193, 769), (370, 769)],
    [(27, 770), (194, 770), (371, 770), (28, 771), (195, 771), (372, 771), (29, 772), (196, 772), (373, 772), (30, 773)],
    [(197, 773), (374, 773), (31, 774), (198, 774), (375, 774), (32, 775), (199, 775), (376, 775), (33, 776), (200, 776)],
    [(377, 776), (34, 777), (201, 777), (378, 777), (35, 778), (202, 778), (379, 778), (36, 779), (203, 779), (380, 779)],
    [(37, 780), (204, 780), (381, 780), (38, 781), (205, 781), (382, 781), (39, 782), (206, 782), (383, 782), (40, 783)],
    [(207, 783), (384, 783), (41, 784), (208, 784), (385, 784), (42, 785), (209, 785), (386, 785), (43, 786), (210, 786)],
    [(387, 786), (44, 787), (211, 787), (388, 787), (45, 788), (212, 788), (389, 788), (46, 789), (213, 789), (390, 789)],
    [(47, 790), (214, 790), (391, 790), (48, 791), (215, 791), (392, 791), (49, 792), (216, 792), (393, 792), (50, 793)],
    [(217, 793), (394, 793), (51, 794), (218, 794), (395, 794), (52, 795), (219, 795), (396, 795), (53, 796), (220, 796)],
    [(397, 796), (54, 797), (221, 797), (398, 797), (55, 798), (222, 798), (399, 798), (56, 799), (223, 799), (400, 799)],
    [(57, 800), (224, 800), (401, 800), (58, 801), (225, 801), (402, 801), (59, 802), (226, 802), (403, 802), (60, 803)],
    [(227, 803), (404, 803), (61, 804), (228, 804), (405, 804), (62, 805), (229, 805), (406, 805), (63, 806), (230, 806)],
    [(407, 806), (64, 807), (231, 807), (408, 807), (65, 808), (232, 808), (409, 808), (66, 809), (233, 809), (410, 809)],
    [(67, 810), (234, 810), (411, 810), (68, 811), (235, 811), (412, 811), (69, 812), (236, 812), (413, 812), (70, 813)],
    [(237, 813), (414, 813), (71, 814), (238, 814), (415, 814), (72, 815), (239, 815), (416, 815), (73, 816), (120, 816)],
    [(417, 816), (74, 817), (121, 817), (418, 817), (75, 818), (122, 818), (419, 818), (76, 819), (123, 819), (420, 819)],
    [(77, 820), (124, 820), (421, 820), (78, 821), (125, 821), (422, 821), (79, 822), (126, 822), (423, 822), (80, 823)],
    [(127, 823), (424, 823), (81, 824), (128, 824), (425, 824), (82, 825), (129, 825), (426, 825), (83, 826), (130, 826)],
    [(427, 826), (84, 827), (131, 827), (428, 827), (85, 828), (132, 828), (429, 828), (86, 829), (133, 829), (430, 829)],
    [(87, 830), (134, 830), (431, 830), (88, 831), (135, 831), (432, 831), (89, 832), (136, 832), (433, 832), (90, 833)],
    [(137, 833), (434, 833), (91, 834), (138, 834), (435, 834), (92, 835), (139, 835), (436, 835), (93, 836), (140, 836)],
    [(437, 836), (94, 837), (141, 837), (438, 837), (95, 838), (142, 838), (439, 838), (96, 839), (143, 839), (440, 839)],
    [(217, 840), (401, 840), (218, 841), (402, 841), (219, 842), (403, 842), (220, 843), (404, 843), (221, 844), (405, 844)],
    [(222, 845), (406, 845), (223, 846), (407, 846), (224, 847), (408, 847), (225, 848), (409, 848), (226, 849), (410, 849)],
    [(227, 850), (411, 850), (228, 851), (412, 851), (229, 852), (413, 852), (230, 853), (414, 853), (231, 854), (415, 854)],
    [(232, 855), (416, 855), (233, 856), (417, 856), (234, 857), (418, 857), (235, 858), (419, 858), (236, 859), (420, 859)],
    [(237, 860), (421, 860), (238, 861), (422, 861), (239, 862), (423, 862), (120, 863), (424, 863), (121, 864), (425, 864)],
    [(122, 865), (426, 865), (123, 866), (427, 866), (124, 867), (428, 867), (125, 868), (429, 868), (126, 869), (430, 869)],
    [(127, 870), (431, 870), (128, 871), (432, 871), (129, 872), (433, 872), (130, 873), (434, 873), (131, 874), (435, 874)],
    [(132, 875), (436, 875), (133, 876), (437, 876), (134, 877), (438, 877), (135, 878), (439, 878), (136, 879), (440, 879)],
    [(137, 880), (441, 880), (138, 881), (442, 881), (139, 882), (443, 882), (140, 883), (444, 883), (141, 884), (445, 884)],
    [(142, 885), (446, 885), (143, 886), (447, 886), (144, 887), (448, 887), (145, 888), (449, 888), (146, 889), (450, 889)],
    [(147, 890), (451, 890), (148, 891), (452, 891), (149, 892), (453, 892), (150, 893), (454, 893), (151, 894), (455, 894)],
    [(152, 895), (456, 895), (153, 896), (457, 896), (154, 897), (458, 897), (155, 898), (459, 898), (156, 899), (460, 899)],
    [(157, 900), (461, 900), (158, 901), (462, 901), (159, 902), (463, 902), (160, 903), (464, 903), (161, 904), (465, 904)],
    [(162, 905), (466, 905), (163, 906), (467, 906), (164, 907), (468, 907), (165, 908), (469, 908), (166, 909), (470, 909)],
    [(167, 910), (471, 910), (168, 911), (472, 911), (169, 912), (473, 912), (170, 913), (474, 913), (171, 914), (475, 914)],
    [(172, 915), (476, 915), (173, 916), (477, 916), (174, 917), (478, 917), (175, 918), (479, 918), (176, 919), (360, 919)],
    [(177, 920), (361, 920), (178, 921), (362, 921), (179, 922), (363, 922), (180, 923), (364, 923), (181, 924), (365, 924)],
    [(182, 925), (366, 925), (183, 926), (367, 926), (184, 927), (368, 927), (185, 928), (369, 928), (186, 929), (370, 929)],
    [(187, 930), (371, 930), (188, 931), (372, 931), (189, 932), (373, 932), (190, 933), (374, 933), (191, 934), (375, 934)],
    [(192, 935), (376, 935), (193, 936), (377, 936), (194, 937), (378, 937), (195, 938), (379, 938), (196, 939), (380, 939)],
    [(197, 940), (381, 940), (198, 941), (382, 941), (199, 942), (383, 942), (200, 943), (384, 943), (201, 944), (385, 944)],
    [(202, 945), (386, 945), (203, 946), (387, 946), (204, 947), (388, 947), (205, 948), (389, 948), (206, 949), (390, 949)],
    [(207, 950), (391, 950), (208, 951), (392, 951), (209, 952), (393, 952), (210, 953), (394, 953), (211, 954), (395, 954)],
    [(212, 955), (396, 955), (213, 956), (397, 956), (214, 957), (398, 957), (215, 958), (399, 958), (216, 959), (400, 959)],
    [(231, 960), (325, 960), (437, 960), (232, 961), (326, 961), (438, 961), (233, 962), (327, 962), (439, 962), (234, 963)],
    [(328, 963), (440, 963), (235, 964), (329, 964), (441, 964), (236, 965), (330, 965), (442, 965), (237, 966), (331, 966)],
    [(443, 966), (238, 967), (332, 967), (444, 967), (239, 968), (333, 968), (445, 968), (120, 969), (334, 969), (446, 969)],
    [(121, 970), (335, 970), (447, 970), (122, 971), (336, 971), (448, 971), (123, 972), (337, 972), (449, 972), (124, 973)],
    [(338, 973), (450, 973), (125, 974), (339, 974), (451, 974), (126, 975), (340, 975), (452, 975), (127, 976), (341, 976)],
    [(453, 976), (128, 977), (342, 977), (454, 977), (129, 978), (343, 978), (455, 978), (130, 979), (344, 979), (456, 979)],
    [(131, 980), (345, 980), (457, 980), (132, 981), (346, 981), (458, 981), (133, 982), (347, 982), (459, 982), (134, 983)],
    [(348, 983), (460, 983), (135, 984), (349, 984), (461, 984), (136, 985), (350, 985), (462, 985), (137, 986), (351, 986)],
    [(463, 986), (138, 987), (352, 987), (464, 987), (139, 988), (353, 988), (465, 988), (140, 989), (354, 989), (466, 989)],
    [(141, 990), (355, 990), (467, 990), (142, 991), (356, 991), (468, 991), (143, 992), (357, 992), (469, 992), (144, 993)],
    [(358, 993), (470, 993), (145, 994), (359, 994), (471, 994), (146, 995), (240, 995), (472, 995), (147, 996), (241, 996)],
    [(473, 996), (148, 997), (242, 997), (474, 997), (149, 998), (243, 998), (475, 998), (150, 999), (244, 999), (476, 999)],
    [(151, 1000), (245, 1000), (477, 1000), (152, 1001), (246, 1001), (478, 1001), (153, 1002), (247, 1002), (479, 1002), (154, 1003)],
    [(248, 1003), (360, 1003), (155, 1004), (249, 1004), (361, 1004), (156, 1005), (250, 1005), (362, 1005), (157, 1006), (251, 1006)],
    [(363, 1006), (158, 1007), (252, 1007), (364, 1007), (159, 1008), (253, 1008), (365, 1008), (160, 1009), (254, 1009), (366, 1009)],
    [(161, 1010), (255, 1010), (367, 1010), (162, 1011), (256, 1011), (368, 1011), (163, 1012), (257, 1012), (369, 1012), (164, 1013)],
    [(258, 1013), (370, 1013), (165, 1014), (259, 1014), (371, 1014), (166, 1015), (260, 1015), (372, 1015), (167, 1016), (261, 1016)],
    [(373, 1016), (168, 1017), (262, 1017), (374, 1017), (169, 1018), (263, 1018), (375, 1018), (170, 1019), (264, 1019), (376, 1019)],
    [(171, 1020), (265, 1020), (377, 1020), (172, 1021), (266, 1021), (378, 1021), (173, 1022), (267, 1022), (379, 1022), (174, 1023)],
    [(268, 1023), (380, 1023), (175, 1024), (269, 1024), (381, 1024), (176, 1025), (270, 1025), (382, 1025), (177, 1026), (271, 1026)],
    [(383, 1026), (178, 1027), (272, 1027), (384, 1027), (179, 1028), (273, 1028), (385, 1028), (180, 1029), (274, 1029), (386, 1029)],
    [(181, 1030), (275, 1030), (387, 1030), (182, 1031), (276, 1031), (388, 1031), (183, 1032), (277, 1032), (389, 1032), (184, 1033)],
    [(278, 1033), (390, 1033), (185, 1034), (279, 1034), (391, 1034), (186, 1035), (280, 1035), (392, 1035), (187, 1036), (281, 1036)],
    [(393, 1036), (188, 1037), (282, 1037), (394, 1037), (189, 1038), (283, 1038), (395, 1038), (190, 1039), (284, 1039), (396, 1039)],
    [(191, 1040), (285, 1040), (397, 1040), (192, 1041), (286, 1041), (398, 1041), (193, 1042), (287, 1042), (399, 1042), (194, 1043)],
    [(288, 1043), (400, 1043), (195, 1044), (289, 1044), (401, 1044), (196, 1045), (290, 1045), (402, 1045), (197, 1046), (291, 1046)],
    [(403, 1046), (198, 1047), (292, 1047), (404, 1047), (199, 1048), (293, 1048), (405, 1048), (200, 1049), (294, 1049), (406, 1049)],
    [(201, 1050), (295, 1050), (407, 1050), (202, 1051), (296, 1051), (408, 1051), (203, 1052), (297, 1052), (409, 1052), (204, 1053)],
    [(298, 1053), (410, 1053), (205, 1054), (299, 1054), (411, 1054), (206, 1055), (300, 1055), (412, 1055), (207, 1056), (301, 1056)],
    [(413, 1056), (208, 1057), (302, 1057), (414, 1057), (209, 1058), (303, 1058), (415, 1058), (210, 1059), (304, 1059), (416, 1059)],
    [(211, 1060), (305, 1060), (417, 1060), (212, 1061), (306, 1061), (418, 1061), (213, 1062), (307, 1062), (419, 1062), (214, 1063)],
    [(308, 1063), (420, 1063), (215, 1064), (309, 1064), (421, 1064), (216, 1065), (310, 1065), (422, 1065), (217, 1066), (311, 1066)],
    [(423, 1066), (218, 1067), (312, 1067), (424, 1067), (219, 1068), (313, 1068), (425, 1068), (220, 1069), (314, 1069), (426, 1069)],
    [(221, 1070), (315, 1070), (427, 1070), (222, 1071), (316, 1071), (428, 1071), (223, 1072), (317, 1072), (429, 1072), (224, 1073)],
    [(318, 1073), (430, 1073), (225, 1074), (319, 1074), (431, 1074), (226, 1075), (320, 1075), (432, 1075), (227, 1076), (321, 1076)],
    [(433, 1076), (228, 1077), (322, 1077), (434, 1077), (229, 1078), (323, 1078), (435, 1078), (230, 1079), (324, 1079), (436, 1079)],
    [(8, 1080), (193, 1080), (405, 1080), (9, 1081), (194, 1081), (406, 1081), (10, 1082), (195, 1082), (407, 1082), (11, 1083)],
    [(196, 1083), (408, 1083), (12, 1084), (197, 1084), (409, 1084), (13, 1085), (198, 1085), (410, 1085), (14, 1086), (199, 1086)],
    [(411, 1086), (15, 1087), (200, 1087), (412, 1087), (16, 1088), (201, 1088), (413, 1088), (17, 1089), (202, 1089), (414, 1089)],
    [(18, 1090), (203, 1090), (415, 1090), (19, 1091), (204, 1091), (416, 1091), (20, 1092), (205, 1092), (417, 1092), (21, 1093)],
    [(206, 1093), (418, 1093), (22, 1094), (207, 1094), (419, 1094), (23, 1095), (208, 1095), (420, 1095), (24, 1096), (209, 1096)],
    [(421, 1096), (25, 1097), (210, 1097), (422, 1097), (26, 1098), (211, 1098), (423, 1098), (27, 1099), (212, 1099), (424, 1099)],
    [(28, 1100), (213, 1100), (425, 1100), (29, 1101), (214, 1101), (426, 1101), (30, 1102), (215, 1102), (427, 1102), (31, 1103)]]"

definition SF2_A_ind_2 :: "(nat \<times> nat) list" where
  "SF2_A_ind_2 = concat [
    [(216, 1103), (428, 1103), (32, 1104), (217, 1104), (429, 1104), (33, 1105), (218, 1105), (430, 1105), (34, 1106), (219, 1106)],
    [(431, 1106), (35, 1107), (220, 1107), (432, 1107), (36, 1108), (221, 1108), (433, 1108), (37, 1109), (222, 1109), (434, 1109)],
    [(38, 1110), (223, 1110), (435, 1110), (39, 1111), (224, 1111), (436, 1111), (40, 1112), (225, 1112), (437, 1112), (41, 1113)],
    [(226, 1113), (438, 1113), (42, 1114), (227, 1114), (439, 1114), (43, 1115), (228, 1115), (440, 1115), (44, 1116), (229, 1116)],
    [(441, 1116), (45, 1117), (230, 1117), (442, 1117), (46, 1118), (231, 1118), (443, 1118), (47, 1119), (232, 1119), (444, 1119)],
    [(48, 1120), (233, 1120), (445, 1120), (49, 1121), (234, 1121), (446, 1121), (50, 1122), (235, 1122), (447, 1122), (51, 1123)],
    [(236, 1123), (448, 1123), (52, 1124), (237, 1124), (449, 1124), (53, 1125), (238, 1125), (450, 1125), (54, 1126), (239, 1126)],
    [(451, 1126), (55, 1127), (120, 1127), (452, 1127), (56, 1128), (121, 1128), (453, 1128), (57, 1129), (122, 1129), (454, 1129)],
    [(58, 1130), (123, 1130), (455, 1130), (59, 1131), (124, 1131), (456, 1131), (60, 1132), (125, 1132), (457, 1132), (61, 1133)],
    [(126, 1133), (458, 1133), (62, 1134), (127, 1134), (459, 1134), (63, 1135), (128, 1135), (460, 1135), (64, 1136), (129, 1136)],
    [(461, 1136), (65, 1137), (130, 1137), (462, 1137), (66, 1138), (131, 1138), (463, 1138), (67, 1139), (132, 1139), (464, 1139)],
    [(68, 1140), (133, 1140), (465, 1140), (69, 1141), (134, 1141), (466, 1141), (70, 1142), (135, 1142), (467, 1142), (71, 1143)],
    [(136, 1143), (468, 1143), (72, 1144), (137, 1144), (469, 1144), (73, 1145), (138, 1145), (470, 1145), (74, 1146), (139, 1146)],
    [(471, 1146), (75, 1147), (140, 1147), (472, 1147), (76, 1148), (141, 1148), (473, 1148), (77, 1149), (142, 1149), (474, 1149)],
    [(78, 1150), (143, 1150), (475, 1150), (79, 1151), (144, 1151), (476, 1151), (80, 1152), (145, 1152), (477, 1152), (81, 1153)],
    [(146, 1153), (478, 1153), (82, 1154), (147, 1154), (479, 1154), (83, 1155), (148, 1155), (360, 1155), (84, 1156), (149, 1156)],
    [(361, 1156), (85, 1157), (150, 1157), (362, 1157), (86, 1158), (151, 1158), (363, 1158), (87, 1159), (152, 1159), (364, 1159)],
    [(88, 1160), (153, 1160), (365, 1160), (89, 1161), (154, 1161), (366, 1161), (90, 1162), (155, 1162), (367, 1162), (91, 1163)],
    [(156, 1163), (368, 1163), (92, 1164), (157, 1164), (369, 1164), (93, 1165), (158, 1165), (370, 1165), (94, 1166), (159, 1166)],
    [(371, 1166), (95, 1167), (160, 1167), (372, 1167), (96, 1168), (161, 1168), (373, 1168), (97, 1169), (162, 1169), (374, 1169)],
    [(98, 1170), (163, 1170), (375, 1170), (99, 1171), (164, 1171), (376, 1171), (100, 1172), (165, 1172), (377, 1172), (101, 1173)],
    [(166, 1173), (378, 1173), (102, 1174), (167, 1174), (379, 1174), (103, 1175), (168, 1175), (380, 1175), (104, 1176), (169, 1176)],
    [(381, 1176), (105, 1177), (170, 1177), (382, 1177), (106, 1178), (171, 1178), (383, 1178), (107, 1179), (172, 1179), (384, 1179)],
    [(108, 1180), (173, 1180), (385, 1180), (109, 1181), (174, 1181), (386, 1181), (110, 1182), (175, 1182), (387, 1182), (111, 1183)],
    [(176, 1183), (388, 1183), (112, 1184), (177, 1184), (389, 1184), (113, 1185), (178, 1185), (390, 1185), (114, 1186), (179, 1186)],
    [(391, 1186), (115, 1187), (180, 1187), (392, 1187), (116, 1188), (181, 1188), (393, 1188), (117, 1189), (182, 1189), (394, 1189)],
    [(118, 1190), (183, 1190), (395, 1190), (119, 1191), (184, 1191), (396, 1191), (0, 1192), (185, 1192), (397, 1192), (1, 1193)],
    [(186, 1193), (398, 1193), (2, 1194), (187, 1194), (399, 1194), (3, 1195), (188, 1195), (400, 1195), (4, 1196), (189, 1196)],
    [(401, 1196), (5, 1197), (190, 1197), (402, 1197), (6, 1198), (191, 1198), (403, 1198), (7, 1199), (192, 1199), (404, 1199)]]"

definition SF2_A_ind :: "(nat \<times> nat) list" where
  "SF2_A_ind = SF2_A_ind_0 @ SF2_A_ind_1 @ SF2_A_ind_2"

section \<open>SF2_B: positions in a matrix of 480 rows and 480 columns\<close>

definition SF2_B_ind :: "(nat \<times> nat) list" where
  "SF2_B_ind = concat [
    [(119, 0), (240, 0), (479, 0), (0, 1), (241, 1), (360, 1), (1, 2), (242, 2), (361, 2), (2, 3)],
    [(243, 3), (362, 3), (3, 4), (244, 4), (363, 4), (4, 5), (245, 5), (364, 5), (5, 6), (246, 6)],
    [(365, 6), (6, 7), (247, 7), (366, 7), (7, 8), (248, 8), (367, 8), (8, 9), (249, 9), (368, 9)],
    [(9, 10), (250, 10), (369, 10), (10, 11), (251, 11), (370, 11), (11, 12), (252, 12), (371, 12), (12, 13)],
    [(253, 13), (372, 13), (13, 14), (254, 14), (373, 14), (14, 15), (255, 15), (374, 15), (15, 16), (256, 16)],
    [(375, 16), (16, 17), (257, 17), (376, 17), (17, 18), (258, 18), (377, 18), (18, 19), (259, 19), (378, 19)],
    [(19, 20), (260, 20), (379, 20), (20, 21), (261, 21), (380, 21), (21, 22), (262, 22), (381, 22), (22, 23)],
    [(263, 23), (382, 23), (23, 24), (264, 24), (383, 24), (24, 25), (265, 25), (384, 25), (25, 26), (266, 26)],
    [(385, 26), (26, 27), (267, 27), (386, 27), (27, 28), (268, 28), (387, 28), (28, 29), (269, 29), (388, 29)],
    [(29, 30), (270, 30), (389, 30), (30, 31), (271, 31), (390, 31), (31, 32), (272, 32), (391, 32), (32, 33)],
    [(273, 33), (392, 33), (33, 34), (274, 34), (393, 34), (34, 35), (275, 35), (394, 35), (35, 36), (276, 36)],
    [(395, 36), (36, 37), (277, 37), (396, 37), (37, 38), (278, 38), (397, 38), (38, 39), (279, 39), (398, 39)],
    [(39, 40), (280, 40), (399, 40), (40, 41), (281, 41), (400, 41), (41, 42), (282, 42), (401, 42), (42, 43)],
    [(283, 43), (402, 43), (43, 44), (284, 44), (403, 44), (44, 45), (285, 45), (404, 45), (45, 46), (286, 46)],
    [(405, 46), (46, 47), (287, 47), (406, 47), (47, 48), (288, 48), (407, 48), (48, 49), (289, 49), (408, 49)],
    [(49, 50), (290, 50), (409, 50), (50, 51), (291, 51), (410, 51), (51, 52), (292, 52), (411, 52), (52, 53)],
    [(293, 53), (412, 53), (53, 54), (294, 54), (413, 54), (54, 55), (295, 55), (414, 55), (55, 56), (296, 56)],
    [(415, 56), (56, 57), (297, 57), (416, 57), (57, 58), (298, 58), (417, 58), (58, 59), (299, 59), (418, 59)],
    [(59, 60), (300, 60), (419, 60), (60, 61), (301, 61), (420, 61), (61, 62), (302, 62), (421, 62), (62, 63)],
    [(303, 63), (422, 63), (63, 64), (304, 64), (423, 64), (64, 65), (305, 65), (424, 65), (65, 66), (306, 66)],
    [(425, 66), (66, 67), (307, 67), (426, 67), (67, 68), (308, 68), (427, 68), (68, 69), (309, 69), (428, 69)],
    [(69, 70), (310, 70), (429, 70), (70, 71), (311, 71), (430, 71), (71, 72), (312, 72), (431, 72), (72, 73)],
    [(313, 73), (432, 73), (73, 74), (314, 74), (433, 74), (74, 75), (315, 75), (434, 75), (75, 76), (316, 76)],
    [(435, 76), (76, 77), (317, 77), (436, 77), (77, 78), (318, 78), (437, 78), (78, 79), (319, 79), (438, 79)],
    [(79, 80), (320, 80), (439, 80), (80, 81), (321, 81), (440, 81), (81, 82), (322, 82), (441, 82), (82, 83)],
    [(323, 83), (442, 83), (83, 84), (324, 84), (443, 84), (84, 85), (325, 85), (444, 85), (85, 86), (326, 86)],
    [(445, 86), (86, 87), (327, 87), (446, 87), (87, 88), (328, 88), (447, 88), (88, 89), (329, 89), (448, 89)],
    [(89, 90), (330, 90), (449, 90), (90, 91), (331, 91), (450, 91), (91, 92), (332, 92), (451, 92), (92, 93)],
    [(333, 93), (452, 93), (93, 94), (334, 94), (453, 94), (94, 95), (335, 95), (454, 95), (95, 96), (336, 96)],
    [(455, 96), (96, 97), (337, 97), (456, 97), (97, 98), (338, 98), (457, 98), (98, 99), (339, 99), (458, 99)],
    [(99, 100), (340, 100), (459, 100), (100, 101), (341, 101), (460, 101), (101, 102), (342, 102), (461, 102), (102, 103)],
    [(343, 103), (462, 103), (103, 104), (344, 104), (463, 104), (104, 105), (345, 105), (464, 105), (105, 106), (346, 106)],
    [(465, 106), (106, 107), (347, 107), (466, 107), (107, 108), (348, 108), (467, 108), (108, 109), (349, 109), (468, 109)],
    [(109, 110), (350, 110), (469, 110), (110, 111), (351, 111), (470, 111), (111, 112), (352, 112), (471, 112), (112, 113)],
    [(353, 113), (472, 113), (113, 114), (354, 114), (473, 114), (114, 115), (355, 115), (474, 115), (115, 116), (356, 116)],
    [(475, 116), (116, 117), (357, 117), (476, 117), (117, 118), (358, 118), (477, 118), (118, 119), (359, 119), (478, 119)],
    [(0, 120), (120, 120), (1, 121), (121, 121), (2, 122), (122, 122), (3, 123), (123, 123), (4, 124), (124, 124)],
    [(5, 125), (125, 125), (6, 126), (126, 126), (7, 127), (127, 127), (8, 128), (128, 128), (9, 129), (129, 129)],
    [(10, 130), (130, 130), (11, 131), (131, 131), (12, 132), (132, 132), (13, 133), (133, 133), (14, 134), (134, 134)],
    [(15, 135), (135, 135), (16, 136), (136, 136), (17, 137), (137, 137), (18, 138), (138, 138), (19, 139), (139, 139)],
    [(20, 140), (140, 140), (21, 141), (141, 141), (22, 142), (142, 142), (23, 143), (143, 143), (24, 144), (144, 144)],
    [(25, 145), (145, 145), (26, 146), (146, 146), (27, 147), (147, 147), (28, 148), (148, 148), (29, 149), (149, 149)],
    [(30, 150), (150, 150), (31, 151), (151, 151), (32, 152), (152, 152), (33, 153), (153, 153), (34, 154), (154, 154)],
    [(35, 155), (155, 155), (36, 156), (156, 156), (37, 157), (157, 157), (38, 158), (158, 158), (39, 159), (159, 159)],
    [(40, 160), (160, 160), (41, 161), (161, 161), (42, 162), (162, 162), (43, 163), (163, 163), (44, 164), (164, 164)],
    [(45, 165), (165, 165), (46, 166), (166, 166), (47, 167), (167, 167), (48, 168), (168, 168), (49, 169), (169, 169)],
    [(50, 170), (170, 170), (51, 171), (171, 171), (52, 172), (172, 172), (53, 173), (173, 173), (54, 174), (174, 174)],
    [(55, 175), (175, 175), (56, 176), (176, 176), (57, 177), (177, 177), (58, 178), (178, 178), (59, 179), (179, 179)],
    [(60, 180), (180, 180), (61, 181), (181, 181), (62, 182), (182, 182), (63, 183), (183, 183), (64, 184), (184, 184)],
    [(65, 185), (185, 185), (66, 186), (186, 186), (67, 187), (187, 187), (68, 188), (188, 188), (69, 189), (189, 189)],
    [(70, 190), (190, 190), (71, 191), (191, 191), (72, 192), (192, 192), (73, 193), (193, 193), (74, 194), (194, 194)],
    [(75, 195), (195, 195), (76, 196), (196, 196), (77, 197), (197, 197), (78, 198), (198, 198), (79, 199), (199, 199)],
    [(80, 200), (200, 200), (81, 201), (201, 201), (82, 202), (202, 202), (83, 203), (203, 203), (84, 204), (204, 204)],
    [(85, 205), (205, 205), (86, 206), (206, 206), (87, 207), (207, 207), (88, 208), (208, 208), (89, 209), (209, 209)],
    [(90, 210), (210, 210), (91, 211), (211, 211), (92, 212), (212, 212), (93, 213), (213, 213), (94, 214), (214, 214)],
    [(95, 215), (215, 215), (96, 216), (216, 216), (97, 217), (217, 217), (98, 218), (218, 218), (99, 219), (219, 219)],
    [(100, 220), (220, 220), (101, 221), (221, 221), (102, 222), (222, 222), (103, 223), (223, 223), (104, 224), (224, 224)],
    [(105, 225), (225, 225), (106, 226), (226, 226), (107, 227), (227, 227), (108, 228), (228, 228), (109, 229), (229, 229)],
    [(110, 230), (230, 230), (111, 231), (231, 231), (112, 232), (232, 232), (113, 233), (233, 233), (114, 234), (234, 234)],
    [(115, 235), (235, 235), (116, 236), (236, 236), (117, 237), (237, 237), (118, 238), (238, 238), (119, 239), (239, 239)],
    [(120, 240), (240, 240), (121, 241), (241, 241), (122, 242), (242, 242), (123, 243), (243, 243), (124, 244), (244, 244)],
    [(125, 245), (245, 245), (126, 246), (246, 246), (127, 247), (247, 247), (128, 248), (248, 248), (129, 249), (249, 249)],
    [(130, 250), (250, 250), (131, 251), (251, 251), (132, 252), (252, 252), (133, 253), (253, 253), (134, 254), (254, 254)],
    [(135, 255), (255, 255), (136, 256), (256, 256), (137, 257), (257, 257), (138, 258), (258, 258), (139, 259), (259, 259)],
    [(140, 260), (260, 260), (141, 261), (261, 261), (142, 262), (262, 262), (143, 263), (263, 263), (144, 264), (264, 264)],
    [(145, 265), (265, 265), (146, 266), (266, 266), (147, 267), (267, 267), (148, 268), (268, 268), (149, 269), (269, 269)],
    [(150, 270), (270, 270), (151, 271), (271, 271), (152, 272), (272, 272), (153, 273), (273, 273), (154, 274), (274, 274)],
    [(155, 275), (275, 275), (156, 276), (276, 276), (157, 277), (277, 277), (158, 278), (278, 278), (159, 279), (279, 279)],
    [(160, 280), (280, 280), (161, 281), (281, 281), (162, 282), (282, 282), (163, 283), (283, 283), (164, 284), (284, 284)],
    [(165, 285), (285, 285), (166, 286), (286, 286), (167, 287), (287, 287), (168, 288), (288, 288), (169, 289), (289, 289)],
    [(170, 290), (290, 290), (171, 291), (291, 291), (172, 292), (292, 292), (173, 293), (293, 293), (174, 294), (294, 294)],
    [(175, 295), (295, 295), (176, 296), (296, 296), (177, 297), (297, 297), (178, 298), (298, 298), (179, 299), (299, 299)],
    [(180, 300), (300, 300), (181, 301), (301, 301), (182, 302), (302, 302), (183, 303), (303, 303), (184, 304), (304, 304)],
    [(185, 305), (305, 305), (186, 306), (306, 306), (187, 307), (307, 307), (188, 308), (308, 308), (189, 309), (309, 309)],
    [(190, 310), (310, 310), (191, 311), (311, 311), (192, 312), (312, 312), (193, 313), (313, 313), (194, 314), (314, 314)],
    [(195, 315), (315, 315), (196, 316), (316, 316), (197, 317), (317, 317), (198, 318), (318, 318), (199, 319), (319, 319)],
    [(200, 320), (320, 320), (201, 321), (321, 321), (202, 322), (322, 322), (203, 323), (323, 323), (204, 324), (324, 324)],
    [(205, 325), (325, 325), (206, 326), (326, 326), (207, 327), (327, 327), (208, 328), (328, 328), (209, 329), (329, 329)],
    [(210, 330), (330, 330), (211, 331), (331, 331), (212, 332), (332, 332), (213, 333), (333, 333), (214, 334), (334, 334)],
    [(215, 335), (335, 335), (216, 336), (336, 336), (217, 337), (337, 337), (218, 338), (338, 338), (219, 339), (339, 339)],
    [(220, 340), (340, 340), (221, 341), (341, 341), (222, 342), (342, 342), (223, 343), (343, 343), (224, 344), (344, 344)],
    [(225, 345), (345, 345), (226, 346), (346, 346), (227, 347), (347, 347), (228, 348), (348, 348), (229, 349), (349, 349)],
    [(230, 350), (350, 350), (231, 351), (351, 351), (232, 352), (352, 352), (233, 353), (353, 353), (234, 354), (354, 354)],
    [(235, 355), (355, 355), (236, 356), (356, 356), (237, 357), (357, 357), (238, 358), (358, 358), (239, 359), (359, 359)],
    [(240, 360), (360, 360), (241, 361), (361, 361), (242, 362), (362, 362), (243, 363), (363, 363), (244, 364), (364, 364)],
    [(245, 365), (365, 365), (246, 366), (366, 366), (247, 367), (367, 367), (248, 368), (368, 368), (249, 369), (369, 369)],
    [(250, 370), (370, 370), (251, 371), (371, 371), (252, 372), (372, 372), (253, 373), (373, 373), (254, 374), (374, 374)],
    [(255, 375), (375, 375), (256, 376), (376, 376), (257, 377), (377, 377), (258, 378), (378, 378), (259, 379), (379, 379)],
    [(260, 380), (380, 380), (261, 381), (381, 381), (262, 382), (382, 382), (263, 383), (383, 383), (264, 384), (384, 384)],
    [(265, 385), (385, 385), (266, 386), (386, 386), (267, 387), (387, 387), (268, 388), (388, 388), (269, 389), (389, 389)],
    [(270, 390), (390, 390), (271, 391), (391, 391), (272, 392), (392, 392), (273, 393), (393, 393), (274, 394), (394, 394)],
    [(275, 395), (395, 395), (276, 396), (396, 396), (277, 397), (397, 397), (278, 398), (398, 398), (279, 399), (399, 399)],
    [(280, 400), (400, 400), (281, 401), (401, 401), (282, 402), (402, 402), (283, 403), (403, 403), (284, 404), (404, 404)],
    [(285, 405), (405, 405), (286, 406), (406, 406), (287, 407), (407, 407), (288, 408), (408, 408), (289, 409), (409, 409)],
    [(290, 410), (410, 410), (291, 411), (411, 411), (292, 412), (412, 412), (293, 413), (413, 413), (294, 414), (414, 414)],
    [(295, 415), (415, 415), (296, 416), (416, 416), (297, 417), (417, 417), (298, 418), (418, 418), (299, 419), (419, 419)],
    [(300, 420), (420, 420), (301, 421), (421, 421), (302, 422), (422, 422), (303, 423), (423, 423), (304, 424), (424, 424)],
    [(305, 425), (425, 425), (306, 426), (426, 426), (307, 427), (427, 427), (308, 428), (428, 428), (309, 429), (429, 429)],
    [(310, 430), (430, 430), (311, 431), (431, 431), (312, 432), (432, 432), (313, 433), (433, 433), (314, 434), (434, 434)],
    [(315, 435), (435, 435), (316, 436), (436, 436), (317, 437), (437, 437), (318, 438), (438, 438), (319, 439), (439, 439)],
    [(320, 440), (440, 440), (321, 441), (441, 441), (322, 442), (442, 442), (323, 443), (443, 443), (324, 444), (444, 444)],
    [(325, 445), (445, 445), (326, 446), (446, 446), (327, 447), (447, 447), (328, 448), (448, 448), (329, 449), (449, 449)],
    [(330, 450), (450, 450), (331, 451), (451, 451), (332, 452), (452, 452), (333, 453), (453, 453), (334, 454), (454, 454)],
    [(335, 455), (455, 455), (336, 456), (456, 456), (337, 457), (457, 457), (338, 458), (458, 458), (339, 459), (459, 459)],
    [(340, 460), (460, 460), (341, 461), (461, 461), (342, 462), (462, 462), (343, 463), (463, 463), (344, 464), (464, 464)],
    [(345, 465), (465, 465), (346, 466), (466, 466), (347, 467), (467, 467), (348, 468), (468, 468), (349, 469), (469, 469)],
    [(350, 470), (470, 470), (351, 471), (471, 471), (352, 472), (472, 472), (353, 473), (473, 473), (354, 474), (474, 474)],
    [(355, 475), (475, 475), (356, 476), (476, 476), (357, 477), (477, 477), (358, 478), (478, 478), (359, 479), (479, 479)]]"

section \<open>SF2_D: positions in a matrix of 4560 rows and 480 columns\<close>

definition SF2_D_ind_0 :: "(nat \<times> nat) list" where
  "SF2_D_ind_0 = concat [
    [(672, 0), (1343, 0), (1832, 0), (3494, 0), (4046, 0), (4373, 0), (673, 1), (1344, 1), (1833, 1), (3495, 1)],
    [(4047, 1), (4374, 1), (674, 2), (1345, 2), (1834, 2), (3496, 2), (4048, 2), (4375, 2), (675, 3), (1346, 3)],
    [(1835, 3), (3497, 3), (4049, 3), (4376, 3), (676, 4), (1347, 4), (1836, 4), (3498, 4), (4050, 4), (4377, 4)],
    [(677, 5), (1348, 5), (1837, 5), (3499, 5), (4051, 5), (4378, 5), (678, 6), (1349, 6), (1838, 6), (3500, 6)],
    [(4052, 6), (4379, 6), (679, 7), (1350, 7), (1839, 7), (3501, 7), (4053, 7), (4380, 7), (680, 8), (1351, 8)],
    [(1840, 8), (3502, 8), (4054, 8), (4381, 8), (681, 9), (1352, 9), (1841, 9), (3503, 9), (4055, 9), (4382, 9)],
    [(682, 10), (1353, 10), (1842, 10), (3504, 10), (4056, 10), (4383, 10), (683, 11), (1354, 11), (1843, 11), (3505, 11)],
    [(4057, 11), (4384, 11), (684, 12), (1355, 12), (1844, 12), (3506, 12), (4058, 12), (4385, 12), (685, 13), (1356, 13)],
    [(1845, 13), (3507, 13), (4059, 13), (4386, 13), (686, 14), (1357, 14), (1846, 14), (3508, 14), (4060, 14), (4387, 14)],
    [(687, 15), (1358, 15), (1847, 15), (3509, 15), (4061, 15), (4388, 15), (688, 16), (1359, 16), (1848, 16), (3510, 16)],
    [(4062, 16), (4389, 16), (689, 17), (1360, 17), (1849, 17), (3511, 17), (4063, 17), (4390, 17), (690, 18), (1361, 18)],
    [(1850, 18), (3512, 18), (4064, 18), (4391, 18), (691, 19), (1362, 19), (1851, 19), (3513, 19), (4065, 19), (4392, 19)],
    [(692, 20), (1363, 20), (1852, 20), (3514, 20), (4066, 20), (4393, 20), (693, 21), (1364, 21), (1853, 21), (3515, 21)],
    [(4067, 21), (4394, 21), (694, 22), (1365, 22), (1854, 22), (3516, 22), (4068, 22), (4395, 22), (695, 23), (1366, 23)],
    [(1855, 23), (3517, 23), (4069, 23), (4396, 23), (696, 24), (1367, 24), (1856, 24), (3518, 24), (4070, 24), (4397, 24)],
    [(697, 25), (1368, 25), (1857, 25), (3519, 25), (4071, 25), (4398, 25), (698, 26), (1369, 26), (1858, 26), (3520, 26)],
    [(4072, 26), (4399, 26), (699, 27), (1370, 27), (1859, 27), (3521, 27), (4073, 27), (4400, 27), (700, 28), (1371, 28)],
    [(1860, 28), (3522, 28), (4074, 28), (4401, 28), (701, 29), (1372, 29), (1861, 29), (3523, 29), (4075, 29), (4402, 29)],
    [(702, 30), (1373, 30), (1862, 30), (3524, 30), (4076, 30), (4403, 30), (703, 31), (1374, 31), (1863, 31), (3525, 31)],
    [(4077, 31), (4404, 31), (704, 32), (1375, 32), (1864, 32), (3526, 32), (4078, 32), (4405, 32), (705, 33), (1376, 33)],
    [(1865, 33), (3527, 33), (4079, 33), (4406, 33), (706, 34), (1377, 34), (1866, 34), (3528, 34), (3960, 34), (4407, 34)],
    [(707, 35), (1378, 35), (1867, 35), (3529, 35), (3961, 35), (4408, 35), (708, 36), (1379, 36), (1868, 36), (3530, 36)],
    [(3962, 36), (4409, 36), (709, 37), (1380, 37), (1869, 37), (3531, 37), (3963, 37), (4410, 37), (710, 38), (1381, 38)],
    [(1870, 38), (3532, 38), (3964, 38), (4411, 38), (711, 39), (1382, 39), (1871, 39), (3533, 39), (3965, 39), (4412, 39)],
    [(712, 40), (1383, 40), (1872, 40), (3534, 40), (3966, 40), (4413, 40), (713, 41), (1384, 41), (1873, 41), (3535, 41)],
    [(3967, 41), (4414, 41), (714, 42), (1385, 42), (1874, 42), (3536, 42), (3968, 42), (4415, 42), (715, 43), (1386, 43)],
    [(1875, 43), (3537, 43), (3969, 43), (4416, 43), (716, 44), (1387, 44), (1876, 44), (3538, 44), (3970, 44), (4417, 44)],
    [(717, 45), (1388, 45), (1877, 45), (3539, 45), (3971, 45), (4418, 45), (718, 46), (1389, 46), (1878, 46), (3540, 46)],
    [(3972, 46), (4419, 46), (719, 47), (1390, 47), (1879, 47), (3541, 47), (3973, 47), (4420, 47), (600, 48), (1391, 48)],
    [(1880, 48), (3542, 48), (3974, 48), (4421, 48), (601, 49), (1392, 49), (1881, 49), (3543, 49), (3975, 49), (4422, 49)],
    [(602, 50), (1393, 50), (1882, 50), (3544, 50), (3976, 50), (4423, 50), (603, 51), (1394, 51), (1883, 51), (3545, 51)],
    [(3977, 51), (4424, 51), (604, 52), (1395, 52), (1884, 52), (3546, 52), (3978, 52), (4425, 52), (605, 53), (1396, 53)],
    [(1885, 53), (3547, 53), (3979, 53), (4426, 53), (606, 54), (1397, 54), (1886, 54), (3548, 54), (3980, 54), (4427, 54)],
    [(607, 55), (1398, 55), (1887, 55), (3549, 55), (3981, 55), (4428, 55), (608, 56), (1399, 56), (1888, 56), (3550, 56)],
    [(3982, 56), (4429, 56), (609, 57), (1400, 57), (1889, 57), (3551, 57), (3983, 57), (4430, 57), (610, 58), (1401, 58)],
    [(1890, 58), (3552, 58), (3984, 58), (4431, 58), (611, 59), (1402, 59), (1891, 59), (3553, 59), (3985, 59), (4432, 59)],
    [(612, 60), (1403, 60), (1892, 60), (3554, 60), (3986, 60), (4433, 60), (613, 61), (1404, 61), (1893, 61), (3555, 61)],
    [(3987, 61), (4434, 61), (614, 62), (1405, 62), (1894, 62), (3556, 62), (3988, 62), (4435, 62), (615, 63), (1406, 63)],
    [(1895, 63), (3557, 63), (3989, 63), (4436, 63), (616, 64), (1407, 64), (1896, 64), (3558, 64), (3990, 64), (4437, 64)],
    [(617, 65), (1408, 65), (1897, 65), (3559, 65), (3991, 65), (4438, 65), (618, 66), (1409, 66), (1898, 66), (3560, 66)],
    [(3992, 66), (4439, 66), (619, 67), (1410, 67), (1899, 67), (3561, 67), (3993, 67), (4320, 67), (620, 68), (1411, 68)],
    [(1900, 68), (3562, 68), (3994, 68), (4321, 68), (621, 69), (1412, 69), (1901, 69), (3563, 69), (3995, 69), (4322, 69)],
    [(622, 70), (1413, 70), (1902, 70), (3564, 70), (3996, 70), (4323, 70), (623, 71), (1414, 71), (1903, 71), (3565, 71)],
    [(3997, 71), (4324, 71), (624, 72), (1415, 72), (1904, 72), (3566, 72), (3998, 72), (4325, 72), (625, 73), (1416, 73)],
    [(1905, 73), (3567, 73), (3999, 73), (4326, 73), (626, 74), (1417, 74), (1906, 74), (3568, 74), (4000, 74), (4327, 74)],
    [(627, 75), (1418, 75), (1907, 75), (3569, 75), (4001, 75), (4328, 75), (628, 76), (1419, 76), (1908, 76), (3570, 76)],
    [(4002, 76), (4329, 76), (629, 77), (1420, 77), (1909, 77), (3571, 77), (4003, 77), (4330, 77), (630, 78), (1421, 78)],
    [(1910, 78), (3572, 78), (4004, 78), (4331, 78), (631, 79), (1422, 79), (1911, 79), (3573, 79), (4005, 79), (4332, 79)],
    [(632, 80), (1423, 80), (1912, 80), (3574, 80), (4006, 80), (4333, 80), (633, 81), (1424, 81), (1913, 81), (3575, 81)],
    [(4007, 81), (4334, 81), (634, 82), (1425, 82), (1914, 82), (3576, 82), (4008, 82), (4335, 82), (635, 83), (1426, 83)],
    [(1915, 83), (3577, 83), (4009, 83), (4336, 83), (636, 84), (1427, 84), (1916, 84), (3578, 84), (4010, 84), (4337, 84)],
    [(637, 85), (1428, 85), (1917, 85), (3579, 85), (4011, 85), (4338, 85), (638, 86), (1429, 86), (1918, 86), (3580, 86)],
    [(4012, 86), (4339, 86), (639, 87), (1430, 87), (1919, 87), (3581, 87), (4013, 87), (4340, 87), (640, 88), (1431, 88)],
    [(1800, 88), (3582, 88), (4014, 88), (4341, 88), (641, 89), (1432, 89), (1801, 89), (3583, 89), (4015, 89), (4342, 89)],
    [(642, 90), (1433, 90), (1802, 90), (3584, 90), (4016, 90), (4343, 90), (643, 91), (1434, 91), (1803, 91), (3585, 91)],
    [(4017, 91), (4344, 91), (644, 92), (1435, 92), (1804, 92), (3586, 92), (4018, 92), (4345, 92), (645, 93), (1436, 93)],
    [(1805, 93), (3587, 93), (4019, 93), (4346, 93), (646, 94), (1437, 94), (1806, 94), (3588, 94), (4020, 94), (4347, 94)],
    [(647, 95), (1438, 95), (1807, 95), (3589, 95), (4021, 95), (4348, 95), (648, 96), (1439, 96), (1808, 96), (3590, 96)],
    [(4022, 96), (4349, 96), (649, 97), (1320, 97), (1809, 97), (3591, 97), (4023, 97), (4350, 97), (650, 98), (1321, 98)],
    [(1810, 98), (3592, 98), (4024, 98), (4351, 98), (651, 99), (1322, 99), (1811, 99), (3593, 99), (4025, 99), (4352, 99)],
    [(652, 100), (1323, 100), (1812, 100), (3594, 100), (4026, 100), (4353, 100), (653, 101), (1324, 101), (1813, 101), (3595, 101)],
    [(4027, 101), (4354, 101), (654, 102), (1325, 102), (1814, 102), (3596, 102), (4028, 102), (4355, 102), (655, 103), (1326, 103)],
    [(1815, 103), (3597, 103), (4029, 103), (4356, 103), (656, 104), (1327, 104), (1816, 104), (3598, 104), (4030, 104), (4357, 104)],
    [(657, 105), (1328, 105), (1817, 105), (3599, 105), (4031, 105), (4358, 105), (658, 106), (1329, 106), (1818, 106), (3480, 106)],
    [(4032, 106), (4359, 106), (659, 107), (1330, 107), (1819, 107), (3481, 107), (4033, 107), (4360, 107), (660, 108), (1331, 108)],
    [(1820, 108), (3482, 108), (4034, 108), (4361, 108), (661, 109), (1332, 109), (1821, 109), (3483, 109), (4035, 109), (4362, 109)],
    [(662, 110), (1333, 110), (1822, 110), (3484, 110), (4036, 110), (4363, 110), (663, 111), (1334, 111), (1823, 111), (3485, 111)],
    [(4037, 111), (4364, 111), (664, 112), (1335, 112), (1824, 112), (3486, 112), (4038, 112), (4365, 112), (665, 113), (1336, 113)],
    [(1825, 113), (3487, 113), (4039, 113), (4366, 113), (666, 114), (1337, 114), (1826, 114), (3488, 114), (4040, 114), (4367, 114)],
    [(667, 115), (1338, 115), (1827, 115), (3489, 115), (4041, 115), (4368, 115), (668, 116), (1339, 116), (1828, 116), (3490, 116)],
    [(4042, 116), (4369, 116), (669, 117), (1340, 117), (1829, 117), (3491, 117), (4043, 117), (4370, 117), (670, 118), (1341, 118)],
    [(1830, 118), (3492, 118), (4044, 118), (4371, 118), (671, 119), (1342, 119), (1831, 119), (3493, 119), (4045, 119), (4372, 119)],
    [(60, 120), (153, 120), (304, 120), (428, 120), (652, 120), (1008, 120), (1236, 120), (1403, 120), (1505, 120), (1605, 120)],
    [(2034, 120), (3785, 120), (4095, 120), (4450, 120), (61, 121), (154, 121), (305, 121), (429, 121), (653, 121), (1009, 121)],
    [(1237, 121), (1404, 121), (1506, 121), (1606, 121), (2035, 121), (3786, 121), (4096, 121), (4451, 121), (62, 122), (155, 122)],
    [(306, 122), (430, 122), (654, 122), (1010, 122), (1238, 122), (1405, 122), (1507, 122), (1607, 122), (2036, 122), (3787, 122)],
    [(4097, 122), (4452, 122), (63, 123), (156, 123), (307, 123), (431, 123), (655, 123), (1011, 123), (1239, 123), (1406, 123)],
    [(1508, 123), (1608, 123), (2037, 123), (3788, 123), (4098, 123), (4453, 123), (64, 124), (157, 124), (308, 124), (432, 124)],
    [(656, 124), (1012, 124), (1240, 124), (1407, 124), (1509, 124), (1609, 124), (2038, 124), (3789, 124), (4099, 124), (4454, 124)],
    [(65, 125), (158, 125), (309, 125), (433, 125), (657, 125), (1013, 125), (1241, 125), (1408, 125), (1510, 125), (1610, 125)],
    [(2039, 125), (3790, 125), (4100, 125), (4455, 125), (66, 126), (159, 126), (310, 126), (434, 126), (658, 126), (1014, 126)],
    [(1242, 126), (1409, 126), (1511, 126), (1611, 126), (1920, 126), (3791, 126), (4101, 126), (4456, 126), (67, 127), (160, 127)],
    [(311, 127), (435, 127), (659, 127), (1015, 127), (1243, 127), (1410, 127), (1512, 127), (1612, 127), (1921, 127), (3792, 127)],
    [(4102, 127), (4457, 127), (68, 128), (161, 128), (312, 128), (436, 128), (660, 128), (1016, 128), (1244, 128), (1411, 128)],
    [(1513, 128), (1613, 128), (1922, 128), (3793, 128), (4103, 128), (4458, 128), (69, 129), (162, 129), (313, 129), (437, 129)],
    [(661, 129), (1017, 129), (1245, 129), (1412, 129), (1514, 129), (1614, 129), (1923, 129), (3794, 129), (4104, 129), (4459, 129)],
    [(70, 130), (163, 130), (314, 130), (438, 130), (662, 130), (1018, 130), (1246, 130), (1413, 130), (1515, 130), (1615, 130)],
    [(1924, 130), (3795, 130), (4105, 130), (4460, 130), (71, 131), (164, 131), (315, 131), (439, 131), (663, 131), (1019, 131)],
    [(1247, 131), (1414, 131), (1516, 131), (1616, 131), (1925, 131), (3796, 131), (4106, 131), (4461, 131), (72, 132), (165, 132)],
    [(316, 132), (440, 132), (664, 132), (1020, 132), (1248, 132), (1415, 132), (1517, 132), (1617, 132), (1926, 132), (3797, 132)],
    [(4107, 132), (4462, 132), (73, 133), (166, 133), (317, 133), (441, 133), (665, 133), (1021, 133), (1249, 133), (1416, 133)],
    [(1518, 133), (1618, 133), (1927, 133), (3798, 133), (4108, 133), (4463, 133), (74, 134), (167, 134), (318, 134), (442, 134)],
    [(666, 134), (1022, 134), (1250, 134), (1417, 134), (1519, 134), (1619, 134), (1928, 134), (3799, 134), (4109, 134), (4464, 134)],
    [(75, 135), (168, 135), (319, 135), (443, 135), (667, 135), (1023, 135), (1251, 135), (1418, 135), (1520, 135), (1620, 135)],
    [(1929, 135), (3800, 135), (4110, 135), (4465, 135), (76, 136), (169, 136), (320, 136), (444, 136), (668, 136), (1024, 136)],
    [(1252, 136), (1419, 136), (1521, 136), (1621, 136), (1930, 136), (3801, 136), (4111, 136), (4466, 136), (77, 137), (170, 137)],
    [(321, 137), (445, 137), (669, 137), (1025, 137), (1253, 137), (1420, 137), (1522, 137), (1622, 137), (1931, 137), (3802, 137)],
    [(4112, 137), (4467, 137), (78, 138), (171, 138), (322, 138), (446, 138), (670, 138), (1026, 138), (1254, 138), (1421, 138)],
    [(1523, 138), (1623, 138), (1932, 138), (3803, 138), (4113, 138), (4468, 138), (79, 139), (172, 139), (323, 139), (447, 139)],
    [(671, 139), (1027, 139), (1255, 139), (1422, 139), (1524, 139), (1624, 139), (1933, 139), (3804, 139), (4114, 139), (4469, 139)],
    [(80, 140), (173, 140), (324, 140), (448, 140), (672, 140), (1028, 140), (1256, 140), (1423, 140), (1525, 140), (1625, 140)],
    [(1934, 140), (3805, 140), (4115, 140), (4470, 140), (81, 141), (174, 141), (325, 141), (449, 141), (673, 141), (1029, 141)],
    [(1257, 141), (1424, 141), (1526, 141), (1626, 141), (1935, 141), (3806, 141), (4116, 141), (4471, 141), (82, 142), (175, 142)],
    [(326, 142), (450, 142), (674, 142), (1030, 142), (1258, 142), (1425, 142), (1527, 142), (1627, 142), (1936, 142), (3807, 142)],
    [(4117, 142), (4472, 142), (83, 143), (176, 143), (327, 143), (451, 143), (675, 143), (1031, 143), (1259, 143), (1426, 143)],
    [(1528, 143), (1628, 143), (1937, 143), (3808, 143), (4118, 143), (4473, 143), (84, 144), (177, 144), (328, 144), (452, 144)],
    [(676, 144), (1032, 144), (1260, 144), (1427, 144), (1529, 144), (1629, 144), (1938, 144), (3809, 144), (4119, 144), (4474, 144)],
    [(85, 145), (178, 145), (329, 145), (453, 145), (677, 145), (1033, 145), (1261, 145), (1428, 145), (1530, 145), (1630, 145)],
    [(1939, 145), (3810, 145), (4120, 145), (4475, 145), (86, 146), (179, 146), (330, 146), (454, 146), (678, 146), (1034, 146)],
    [(1262, 146), (1429, 146), (1531, 146), (1631, 146), (1940, 146), (3811, 146), (4121, 146), (4476, 146), (87, 147), (180, 147)],
    [(331, 147), (455, 147), (679, 147), (1035, 147), (1263, 147), (1430, 147), (1532, 147), (1632, 147), (1941, 147), (3812, 147)],
    [(4122, 147), (4477, 147), (88, 148), (181, 148), (332, 148), (456, 148), (680, 148), (1036, 148), (1264, 148), (1431, 148)],
    [(1533, 148), (1633, 148), (1942, 148), (3813, 148), (4123, 148), (4478, 148), (89, 149), (182, 149), (333, 149), (457, 149)],
    [(681, 149), (1037, 149), (1265, 149), (1432, 149), (1534, 149), (1634, 149), (1943, 149), (3814, 149), (4124, 149), (4479, 149)],
    [(90, 150), (183, 150), (334, 150), (458, 150), (682, 150), (1038, 150), (1266, 150), (1433, 150), (1535, 150), (1635, 150)],
    [(1944, 150), (3815, 150), (4125, 150), (4480, 150), (91, 151), (184, 151), (335, 151), (459, 151), (683, 151), (1039, 151)],
    [(1267, 151), (1434, 151), (1536, 151), (1636, 151), (1945, 151), (3816, 151), (4126, 151), (4481, 151), (92, 152), (185, 152)],
    [(336, 152), (460, 152), (684, 152), (1040, 152), (1268, 152), (1435, 152), (1537, 152), (1637, 152), (1946, 152), (3817, 152)],
    [(4127, 152), (4482, 152), (93, 153), (186, 153), (337, 153), (461, 153), (685, 153), (1041, 153), (1269, 153), (1436, 153)],
    [(1538, 153), (1638, 153), (1947, 153), (3818, 153), (4128, 153), (4483, 153), (94, 154), (187, 154), (338, 154), (462, 154)],
    [(686, 154), (1042, 154), (1270, 154), (1437, 154), (1539, 154), (1639, 154), (1948, 154), (3819, 154), (4129, 154), (4484, 154)],
    [(95, 155), (188, 155), (339, 155), (463, 155), (687, 155), (1043, 155), (1271, 155), (1438, 155), (1540, 155), (1640, 155)],
    [(1949, 155), (3820, 155), (4130, 155), (4485, 155), (96, 156), (189, 156), (340, 156), (464, 156), (688, 156), (1044, 156)],
    [(1272, 156), (1439, 156), (1541, 156), (1641, 156), (1950, 156), (3821, 156), (4131, 156), (4486, 156), (97, 157), (190, 157)],
    [(341, 157), (465, 157), (689, 157), (1045, 157), (1273, 157), (1320, 157), (1542, 157), (1642, 157), (1951, 157), (3822, 157)],
    [(4132, 157), (4487, 157), (98, 158), (191, 158), (342, 158), (466, 158), (690, 158), (1046, 158), (1274, 158), (1321, 158)],
    [(1543, 158), (1643, 158), (1952, 158), (3823, 158), (4133, 158), (4488, 158), (99, 159), (192, 159), (343, 159), (467, 159)],
    [(691, 159), (1047, 159), (1275, 159), (1322, 159), (1544, 159), (1644, 159), (1953, 159), (3824, 159), (4134, 159), (4489, 159)],
    [(100, 160), (193, 160), (344, 160), (468, 160), (692, 160), (1048, 160), (1276, 160), (1323, 160), (1545, 160), (1645, 160)],
    [(1954, 160), (3825, 160), (4135, 160), (4490, 160), (101, 161), (194, 161), (345, 161), (469, 161), (693, 161), (1049, 161)],
    [(1277, 161), (1324, 161), (1546, 161), (1646, 161), (1955, 161), (3826, 161), (4136, 161), (4491, 161), (102, 162), (195, 162)],
    [(346, 162), (470, 162), (694, 162), (1050, 162), (1278, 162), (1325, 162), (1547, 162), (1647, 162), (1956, 162), (3827, 162)],
    [(4137, 162), (4492, 162), (103, 163), (196, 163), (347, 163), (471, 163), (695, 163), (1051, 163), (1279, 163), (1326, 163)],
    [(1548, 163), (1648, 163), (1957, 163), (3828, 163), (4138, 163), (4493, 163), (104, 164), (197, 164), (348, 164), (472, 164)],
    [(696, 164), (1052, 164), (1280, 164), (1327, 164), (1549, 164), (1649, 164), (1958, 164), (3829, 164), (4139, 164), (4494, 164)],
    [(105, 165), (198, 165), (349, 165), (473, 165), (697, 165), (1053, 165), (1281, 165), (1328, 165), (1550, 165), (1650, 165)],
    [(1959, 165), (3830, 165), (4140, 165), (4495, 165), (106, 166), (199, 166), (350, 166), (474, 166), (698, 166), (1054, 166)],
    [(1282, 166), (1329, 166), (1551, 166), (1651, 166), (1960, 166), (3831, 166), (4141, 166), (4496, 166), (107, 167), (200, 167)],
    [(351, 167), (475, 167), (699, 167), (1055, 167), (1283, 167), (1330, 167), (1552, 167), (1652, 167), (1961, 167), (3832, 167)],
    [(4142, 167), (4497, 167), (108, 168), (201, 168), (352, 168), (476, 168), (700, 168), (1056, 168), (1284, 168), (1331, 168)],
    [(1553, 168), (1653, 168), (1962, 168), (3833, 168), (4143, 168), (4498, 168), (109, 169), (202, 169), (353, 169), (477, 169)],
    [(701, 169), (1057, 169), (1285, 169), (1332, 169), (1554, 169), (1654, 169), (1963, 169), (3834, 169), (4144, 169), (4499, 169)],
    [(110, 170), (203, 170), (354, 170), (478, 170), (702, 170), (1058, 170), (1286, 170), (1333, 170), (1555, 170), (1655, 170)],
    [(1964, 170), (3835, 170), (4145, 170), (4500, 170), (111, 171), (204, 171), (355, 171), (479, 171), (703, 171), (1059, 171)],
    [(1287, 171), (1334, 171), (1556, 171), (1656, 171), (1965, 171), (3836, 171), (4146, 171), (4501, 171), (112, 172), (205, 172)],
    [(356, 172), (360, 172), (704, 172), (1060, 172), (1288, 172), (1335, 172), (1557, 172), (1657, 172), (1966, 172), (3837, 172)],
    [(4147, 172), (4502, 172), (113, 173), (206, 173), (357, 173), (361, 173), (705, 173), (1061, 173), (1289, 173), (1336, 173)]]"

definition SF2_D_ind_1 :: "(nat \<times> nat) list" where
  "SF2_D_ind_1 = concat [
    [(1558, 173), (1658, 173), (1967, 173), (3838, 173), (4148, 173), (4503, 173), (114, 174), (207, 174), (358, 174), (362, 174)],
    [(706, 174), (1062, 174), (1290, 174), (1337, 174), (1559, 174), (1659, 174), (1968, 174), (3839, 174), (4149, 174), (4504, 174)],
    [(115, 175), (208, 175), (359, 175), (363, 175), (707, 175), (1063, 175), (1291, 175), (1338, 175), (1440, 175), (1660, 175)],
    [(1969, 175), (3720, 175), (4150, 175), (4505, 175), (116, 176), (209, 176), (240, 176), (364, 176), (708, 176), (1064, 176)],
    [(1292, 176), (1339, 176), (1441, 176), (1661, 176), (1970, 176), (3721, 176), (4151, 176), (4506, 176), (117, 177), (210, 177)],
    [(241, 177), (365, 177), (709, 177), (1065, 177), (1293, 177), (1340, 177), (1442, 177), (1662, 177), (1971, 177), (3722, 177)],
    [(4152, 177), (4507, 177), (118, 178), (211, 178), (242, 178), (366, 178), (710, 178), (1066, 178), (1294, 178), (1341, 178)],
    [(1443, 178), (1663, 178), (1972, 178), (3723, 178), (4153, 178), (4508, 178), (119, 179), (212, 179), (243, 179), (367, 179)],
    [(711, 179), (1067, 179), (1295, 179), (1342, 179), (1444, 179), (1664, 179), (1973, 179), (3724, 179), (4154, 179), (4509, 179)],
    [(0, 180), (213, 180), (244, 180), (368, 180), (712, 180), (1068, 180), (1296, 180), (1343, 180), (1445, 180), (1665, 180)],
    [(1974, 180), (3725, 180), (4155, 180), (4510, 180), (1, 181), (214, 181), (245, 181), (369, 181), (713, 181), (1069, 181)],
    [(1297, 181), (1344, 181), (1446, 181), (1666, 181), (1975, 181), (3726, 181), (4156, 181), (4511, 181), (2, 182), (215, 182)],
    [(246, 182), (370, 182), (714, 182), (1070, 182), (1298, 182), (1345, 182), (1447, 182), (1667, 182), (1976, 182), (3727, 182)],
    [(4157, 182), (4512, 182), (3, 183), (216, 183), (247, 183), (371, 183), (715, 183), (1071, 183), (1299, 183), (1346, 183)],
    [(1448, 183), (1668, 183), (1977, 183), (3728, 183), (4158, 183), (4513, 183), (4, 184), (217, 184), (248, 184), (372, 184)],
    [(716, 184), (1072, 184), (1300, 184), (1347, 184), (1449, 184), (1669, 184), (1978, 184), (3729, 184), (4159, 184), (4514, 184)],
    [(5, 185), (218, 185), (249, 185), (373, 185), (717, 185), (1073, 185), (1301, 185), (1348, 185), (1450, 185), (1670, 185)],
    [(1979, 185), (3730, 185), (4160, 185), (4515, 185), (6, 186), (219, 186), (250, 186), (374, 186), (718, 186), (1074, 186)],
    [(1302, 186), (1349, 186), (1451, 186), (1671, 186), (1980, 186), (3731, 186), (4161, 186), (4516, 186), (7, 187), (220, 187)],
    [(251, 187), (375, 187), (719, 187), (1075, 187), (1303, 187), (1350, 187), (1452, 187), (1672, 187), (1981, 187), (3732, 187)],
    [(4162, 187), (4517, 187), (8, 188), (221, 188), (252, 188), (376, 188), (600, 188), (1076, 188), (1304, 188), (1351, 188)],
    [(1453, 188), (1673, 188), (1982, 188), (3733, 188), (4163, 188), (4518, 188), (9, 189), (222, 189), (253, 189), (377, 189)],
    [(601, 189), (1077, 189), (1305, 189), (1352, 189), (1454, 189), (1674, 189), (1983, 189), (3734, 189), (4164, 189), (4519, 189)],
    [(10, 190), (223, 190), (254, 190), (378, 190), (602, 190), (1078, 190), (1306, 190), (1353, 190), (1455, 190), (1675, 190)],
    [(1984, 190), (3735, 190), (4165, 190), (4520, 190), (11, 191), (224, 191), (255, 191), (379, 191), (603, 191), (1079, 191)],
    [(1307, 191), (1354, 191), (1456, 191), (1676, 191), (1985, 191), (3736, 191), (4166, 191), (4521, 191), (12, 192), (225, 192)],
    [(256, 192), (380, 192), (604, 192), (960, 192), (1308, 192), (1355, 192), (1457, 192), (1677, 192), (1986, 192), (3737, 192)],
    [(4167, 192), (4522, 192), (13, 193), (226, 193), (257, 193), (381, 193), (605, 193), (961, 193), (1309, 193), (1356, 193)],
    [(1458, 193), (1678, 193), (1987, 193), (3738, 193), (4168, 193), (4523, 193), (14, 194), (227, 194), (258, 194), (382, 194)],
    [(606, 194), (962, 194), (1310, 194), (1357, 194), (1459, 194), (1679, 194), (1988, 194), (3739, 194), (4169, 194), (4524, 194)],
    [(15, 195), (228, 195), (259, 195), (383, 195), (607, 195), (963, 195), (1311, 195), (1358, 195), (1460, 195), (1560, 195)],
    [(1989, 195), (3740, 195), (4170, 195), (4525, 195), (16, 196), (229, 196), (260, 196), (384, 196), (608, 196), (964, 196)],
    [(1312, 196), (1359, 196), (1461, 196), (1561, 196), (1990, 196), (3741, 196), (4171, 196), (4526, 196), (17, 197), (230, 197)],
    [(261, 197), (385, 197), (609, 197), (965, 197), (1313, 197), (1360, 197), (1462, 197), (1562, 197), (1991, 197), (3742, 197)],
    [(4172, 197), (4527, 197), (18, 198), (231, 198), (262, 198), (386, 198), (610, 198), (966, 198), (1314, 198), (1361, 198)],
    [(1463, 198), (1563, 198), (1992, 198), (3743, 198), (4173, 198), (4528, 198), (19, 199), (232, 199), (263, 199), (387, 199)],
    [(611, 199), (967, 199), (1315, 199), (1362, 199), (1464, 199), (1564, 199), (1993, 199), (3744, 199), (4174, 199), (4529, 199)],
    [(20, 200), (233, 200), (264, 200), (388, 200), (612, 200), (968, 200), (1316, 200), (1363, 200), (1465, 200), (1565, 200)],
    [(1994, 200), (3745, 200), (4175, 200), (4530, 200), (21, 201), (234, 201), (265, 201), (389, 201), (613, 201), (969, 201)],
    [(1317, 201), (1364, 201), (1466, 201), (1566, 201), (1995, 201), (3746, 201), (4176, 201), (4531, 201), (22, 202), (235, 202)],
    [(266, 202), (390, 202), (614, 202), (970, 202), (1318, 202), (1365, 202), (1467, 202), (1567, 202), (1996, 202), (3747, 202)],
    [(4177, 202), (4532, 202), (23, 203), (236, 203), (267, 203), (391, 203), (615, 203), (971, 203), (1319, 203), (1366, 203)],
    [(1468, 203), (1568, 203), (1997, 203), (3748, 203), (4178, 203), (4533, 203), (24, 204), (237, 204), (268, 204), (392, 204)],
    [(616, 204), (972, 204), (1200, 204), (1367, 204), (1469, 204), (1569, 204), (1998, 204), (3749, 204), (4179, 204), (4534, 204)],
    [(25, 205), (238, 205), (269, 205), (393, 205), (617, 205), (973, 205), (1201, 205), (1368, 205), (1470, 205), (1570, 205)],
    [(1999, 205), (3750, 205), (4180, 205), (4535, 205), (26, 206), (239, 206), (270, 206), (394, 206), (618, 206), (974, 206)],
    [(1202, 206), (1369, 206), (1471, 206), (1571, 206), (2000, 206), (3751, 206), (4181, 206), (4536, 206), (27, 207), (120, 207)],
    [(271, 207), (395, 207), (619, 207), (975, 207), (1203, 207), (1370, 207), (1472, 207), (1572, 207), (2001, 207), (3752, 207)],
    [(4182, 207), (4537, 207), (28, 208), (121, 208), (272, 208), (396, 208), (620, 208), (976, 208), (1204, 208), (1371, 208)],
    [(1473, 208), (1573, 208), (2002, 208), (3753, 208), (4183, 208), (4538, 208), (29, 209), (122, 209), (273, 209), (397, 209)],
    [(621, 209), (977, 209), (1205, 209), (1372, 209), (1474, 209), (1574, 209), (2003, 209), (3754, 209), (4184, 209), (4539, 209)],
    [(30, 210), (123, 210), (274, 210), (398, 210), (622, 210), (978, 210), (1206, 210), (1373, 210), (1475, 210), (1575, 210)],
    [(2004, 210), (3755, 210), (4185, 210), (4540, 210), (31, 211), (124, 211), (275, 211), (399, 211), (623, 211), (979, 211)],
    [(1207, 211), (1374, 211), (1476, 211), (1576, 211), (2005, 211), (3756, 211), (4186, 211), (4541, 211), (32, 212), (125, 212)],
    [(276, 212), (400, 212), (624, 212), (980, 212), (1208, 212), (1375, 212), (1477, 212), (1577, 212), (2006, 212), (3757, 212)],
    [(4187, 212), (4542, 212), (33, 213), (126, 213), (277, 213), (401, 213), (625, 213), (981, 213), (1209, 213), (1376, 213)],
    [(1478, 213), (1578, 213), (2007, 213), (3758, 213), (4188, 213), (4543, 213), (34, 214), (127, 214), (278, 214), (402, 214)],
    [(626, 214), (982, 214), (1210, 214), (1377, 214), (1479, 214), (1579, 214), (2008, 214), (3759, 214), (4189, 214), (4544, 214)],
    [(35, 215), (128, 215), (279, 215), (403, 215), (627, 215), (983, 215), (1211, 215), (1378, 215), (1480, 215), (1580, 215)],
    [(2009, 215), (3760, 215), (4190, 215), (4545, 215), (36, 216), (129, 216), (280, 216), (404, 216), (628, 216), (984, 216)],
    [(1212, 216), (1379, 216), (1481, 216), (1581, 216), (2010, 216), (3761, 216), (4191, 216), (4546, 216), (37, 217), (130, 217)],
    [(281, 217), (405, 217), (629, 217), (985, 217), (1213, 217), (1380, 217), (1482, 217), (1582, 217), (2011, 217), (3762, 217)],
    [(4192, 217), (4547, 217), (38, 218), (131, 218), (282, 218), (406, 218), (630, 218), (986, 218), (1214, 218), (1381, 218)],
    [(1483, 218), (1583, 218), (2012, 218), (3763, 218), (4193, 218), (4548, 218), (39, 219), (132, 219), (283, 219), (407, 219)],
    [(631, 219), (987, 219), (1215, 219), (1382, 219), (1484, 219), (1584, 219), (2013, 219), (3764, 219), (4194, 219), (4549, 219)],
    [(40, 220), (133, 220), (284, 220), (408, 220), (632, 220), (988, 220), (1216, 220), (1383, 220), (1485, 220), (1585, 220)],
    [(2014, 220), (3765, 220), (4195, 220), (4550, 220), (41, 221), (134, 221), (285, 221), (409, 221), (633, 221), (989, 221)],
    [(1217, 221), (1384, 221), (1486, 221), (1586, 221), (2015, 221), (3766, 221), (4196, 221), (4551, 221), (42, 222), (135, 222)],
    [(286, 222), (410, 222), (634, 222), (990, 222), (1218, 222), (1385, 222), (1487, 222), (1587, 222), (2016, 222), (3767, 222)],
    [(4197, 222), (4552, 222), (43, 223), (136, 223), (287, 223), (411, 223), (635, 223), (991, 223), (1219, 223), (1386, 223)],
    [(1488, 223), (1588, 223), (2017, 223), (3768, 223), (4198, 223), (4553, 223), (44, 224), (137, 224), (288, 224), (412, 224)],
    [(636, 224), (992, 224), (1220, 224), (1387, 224), (1489, 224), (1589, 224), (2018, 224), (3769, 224), (4199, 224), (4554, 224)],
    [(45, 225), (138, 225), (289, 225), (413, 225), (637, 225), (993, 225), (1221, 225), (1388, 225), (1490, 225), (1590, 225)],
    [(2019, 225), (3770, 225), (4080, 225), (4555, 225), (46, 226), (139, 226), (290, 226), (414, 226), (638, 226), (994, 226)],
    [(1222, 226), (1389, 226), (1491, 226), (1591, 226), (2020, 226), (3771, 226), (4081, 226), (4556, 226), (47, 227), (140, 227)],
    [(291, 227), (415, 227), (639, 227), (995, 227), (1223, 227), (1390, 227), (1492, 227), (1592, 227), (2021, 227), (3772, 227)],
    [(4082, 227), (4557, 227), (48, 228), (141, 228), (292, 228), (416, 228), (640, 228), (996, 228), (1224, 228), (1391, 228)],
    [(1493, 228), (1593, 228), (2022, 228), (3773, 228), (4083, 228), (4558, 228), (49, 229), (142, 229), (293, 229), (417, 229)],
    [(641, 229), (997, 229), (1225, 229), (1392, 229), (1494, 229), (1594, 229), (2023, 229), (3774, 229), (4084, 229), (4559, 229)],
    [(50, 230), (143, 230), (294, 230), (418, 230), (642, 230), (998, 230), (1226, 230), (1393, 230), (1495, 230), (1595, 230)],
    [(2024, 230), (3775, 230), (4085, 230), (4440, 230), (51, 231), (144, 231), (295, 231), (419, 231), (643, 231), (999, 231)],
    [(1227, 231), (1394, 231), (1496, 231), (1596, 231), (2025, 231), (3776, 231), (4086, 231), (4441, 231), (52, 232), (145, 232)],
    [(296, 232), (420, 232), (644, 232), (1000, 232), (1228, 232), (1395, 232), (1497, 232), (1597, 232), (2026, 232), (3777, 232)],
    [(4087, 232), (4442, 232), (53, 233), (146, 233), (297, 233), (421, 233), (645, 233), (1001, 233), (1229, 233), (1396, 233)],
    [(1498, 233), (1598, 233), (2027, 233), (3778, 233), (4088, 233), (4443, 233), (54, 234), (147, 234), (298, 234), (422, 234)],
    [(646, 234), (1002, 234), (1230, 234), (1397, 234), (1499, 234), (1599, 234), (2028, 234), (3779, 234), (4089, 234), (4444, 234)],
    [(55, 235), (148, 235), (299, 235), (423, 235), (647, 235), (1003, 235), (1231, 235), (1398, 235), (1500, 235), (1600, 235)],
    [(2029, 235), (3780, 235), (4090, 235), (4445, 235), (56, 236), (149, 236), (300, 236), (424, 236), (648, 236), (1004, 236)],
    [(1232, 236), (1399, 236), (1501, 236), (1601, 236), (2030, 236), (3781, 236), (4091, 236), (4446, 236), (57, 237), (150, 237)],
    [(301, 237), (425, 237), (649, 237), (1005, 237), (1233, 237), (1400, 237), (1502, 237), (1602, 237), (2031, 237), (3782, 237)],
    [(4092, 237), (4447, 237), (58, 238), (151, 238), (302, 238), (426, 238), (650, 238), (1006, 238), (1234, 238), (1401, 238)],
    [(1503, 238), (1603, 238), (2032, 238), (3783, 238), (4093, 238), (4448, 238), (59, 239), (152, 239), (303, 239), (427, 239)],
    [(651, 239), (1007, 239), (1235, 239), (1402, 239), (1504, 239), (1604, 239), (2033, 239), (3784, 239), (4094, 239), (4449, 239)],
    [(495, 240), (1478, 240), (1582, 240), (2690, 240), (3364, 240), (3705, 240), (4251, 240), (496, 241), (1479, 241), (1583, 241)],
    [(2691, 241), (3365, 241), (3706, 241), (4252, 241), (497, 242), (1480, 242), (1584, 242), (2692, 242), (3366, 242), (3707, 242)],
    [(4253, 242), (498, 243), (1481, 243), (1585, 243), (2693, 243), (3367, 243), (3708, 243), (4254, 243), (499, 244), (1482, 244)],
    [(1586, 244), (2694, 244), (3368, 244), (3709, 244), (4255, 244), (500, 245), (1483, 245), (1587, 245), (2695, 245), (3369, 245)],
    [(3710, 245), (4256, 245), (501, 246), (1484, 246), (1588, 246), (2696, 246), (3370, 246), (3711, 246), (4257, 246), (502, 247)],
    [(1485, 247), (1589, 247), (2697, 247), (3371, 247), (3712, 247), (4258, 247), (503, 248), (1486, 248), (1590, 248), (2698, 248)],
    [(3372, 248), (3713, 248), (4259, 248), (504, 249), (1487, 249), (1591, 249), (2699, 249), (3373, 249), (3714, 249), (4260, 249)],
    [(505, 250), (1488, 250), (1592, 250), (2700, 250), (3374, 250), (3715, 250), (4261, 250), (506, 251), (1489, 251), (1593, 251)],
    [(2701, 251), (3375, 251), (3716, 251), (4262, 251), (507, 252), (1490, 252), (1594, 252), (2702, 252), (3376, 252), (3717, 252)],
    [(4263, 252), (508, 253), (1491, 253), (1595, 253), (2703, 253), (3377, 253), (3718, 253), (4264, 253), (509, 254), (1492, 254)],
    [(1596, 254), (2704, 254), (3378, 254), (3719, 254), (4265, 254), (510, 255), (1493, 255), (1597, 255), (2705, 255), (3379, 255)],
    [(3600, 255), (4266, 255), (511, 256), (1494, 256), (1598, 256), (2706, 256), (3380, 256), (3601, 256), (4267, 256), (512, 257)],
    [(1495, 257), (1599, 257), (2707, 257), (3381, 257), (3602, 257), (4268, 257), (513, 258), (1496, 258), (1600, 258), (2708, 258)],
    [(3382, 258), (3603, 258), (4269, 258), (514, 259), (1497, 259), (1601, 259), (2709, 259), (3383, 259), (3604, 259), (4270, 259)],
    [(515, 260), (1498, 260), (1602, 260), (2710, 260), (3384, 260), (3605, 260), (4271, 260), (516, 261), (1499, 261), (1603, 261)],
    [(2711, 261), (3385, 261), (3606, 261), (4272, 261), (517, 262), (1500, 262), (1604, 262), (2712, 262), (3386, 262), (3607, 262)],
    [(4273, 262), (518, 263), (1501, 263), (1605, 263), (2713, 263), (3387, 263), (3608, 263), (4274, 263), (519, 264), (1502, 264)],
    [(1606, 264), (2714, 264), (3388, 264), (3609, 264), (4275, 264), (520, 265), (1503, 265), (1607, 265), (2715, 265), (3389, 265)],
    [(3610, 265), (4276, 265), (521, 266), (1504, 266), (1608, 266), (2716, 266), (3390, 266), (3611, 266), (4277, 266), (522, 267)],
    [(1505, 267), (1609, 267), (2717, 267), (3391, 267), (3612, 267), (4278, 267), (523, 268), (1506, 268), (1610, 268), (2718, 268)],
    [(3392, 268), (3613, 268), (4279, 268), (524, 269), (1507, 269), (1611, 269), (2719, 269), (3393, 269), (3614, 269), (4280, 269)],
    [(525, 270), (1508, 270), (1612, 270), (2720, 270), (3394, 270), (3615, 270), (4281, 270), (526, 271), (1509, 271), (1613, 271)],
    [(2721, 271), (3395, 271), (3616, 271), (4282, 271), (527, 272), (1510, 272), (1614, 272), (2722, 272), (3396, 272), (3617, 272)],
    [(4283, 272), (528, 273), (1511, 273), (1615, 273), (2723, 273), (3397, 273), (3618, 273), (4284, 273), (529, 274), (1512, 274)],
    [(1616, 274), (2724, 274), (3398, 274), (3619, 274), (4285, 274), (530, 275), (1513, 275), (1617, 275), (2725, 275), (3399, 275)],
    [(3620, 275), (4286, 275), (531, 276), (1514, 276), (1618, 276), (2726, 276), (3400, 276), (3621, 276), (4287, 276), (532, 277)],
    [(1515, 277), (1619, 277), (2727, 277), (3401, 277), (3622, 277), (4288, 277), (533, 278), (1516, 278), (1620, 278), (2728, 278)],
    [(3402, 278), (3623, 278), (4289, 278), (534, 279), (1517, 279), (1621, 279), (2729, 279), (3403, 279), (3624, 279), (4290, 279)],
    [(535, 280), (1518, 280), (1622, 280), (2730, 280), (3404, 280), (3625, 280), (4291, 280), (536, 281), (1519, 281), (1623, 281)],
    [(2731, 281), (3405, 281), (3626, 281), (4292, 281), (537, 282), (1520, 282), (1624, 282), (2732, 282), (3406, 282), (3627, 282)],
    [(4293, 282), (538, 283), (1521, 283), (1625, 283), (2733, 283), (3407, 283), (3628, 283), (4294, 283), (539, 284), (1522, 284)],
    [(1626, 284), (2734, 284), (3408, 284), (3629, 284), (4295, 284), (540, 285), (1523, 285), (1627, 285), (2735, 285), (3409, 285)],
    [(3630, 285), (4296, 285), (541, 286), (1524, 286), (1628, 286), (2736, 286), (3410, 286), (3631, 286), (4297, 286), (542, 287)],
    [(1525, 287), (1629, 287), (2737, 287), (3411, 287), (3632, 287), (4298, 287), (543, 288), (1526, 288), (1630, 288), (2738, 288)],
    [(3412, 288), (3633, 288), (4299, 288), (544, 289), (1527, 289), (1631, 289), (2739, 289), (3413, 289), (3634, 289), (4300, 289)],
    [(545, 290), (1528, 290), (1632, 290), (2740, 290), (3414, 290), (3635, 290), (4301, 290), (546, 291), (1529, 291), (1633, 291)],
    [(2741, 291), (3415, 291), (3636, 291), (4302, 291), (547, 292), (1530, 292), (1634, 292), (2742, 292), (3416, 292), (3637, 292)],
    [(4303, 292), (548, 293), (1531, 293), (1635, 293), (2743, 293), (3417, 293), (3638, 293), (4304, 293), (549, 294), (1532, 294)],
    [(1636, 294), (2744, 294), (3418, 294), (3639, 294), (4305, 294), (550, 295), (1533, 295), (1637, 295), (2745, 295), (3419, 295)],
    [(3640, 295), (4306, 295), (551, 296), (1534, 296), (1638, 296), (2746, 296), (3420, 296), (3641, 296), (4307, 296), (552, 297)],
    [(1535, 297), (1639, 297), (2747, 297), (3421, 297), (3642, 297), (4308, 297), (553, 298), (1536, 298), (1640, 298), (2748, 298)],
    [(3422, 298), (3643, 298), (4309, 298), (554, 299), (1537, 299), (1641, 299), (2749, 299), (3423, 299), (3644, 299), (4310, 299)],
    [(555, 300), (1538, 300), (1642, 300), (2750, 300), (3424, 300), (3645, 300), (4311, 300), (556, 301), (1539, 301), (1643, 301)],
    [(2751, 301), (3425, 301), (3646, 301), (4312, 301), (557, 302), (1540, 302), (1644, 302), (2752, 302), (3426, 302), (3647, 302)],
    [(4313, 302), (558, 303), (1541, 303), (1645, 303), (2753, 303), (3427, 303), (3648, 303), (4314, 303), (559, 304), (1542, 304)],
    [(1646, 304), (2754, 304), (3428, 304), (3649, 304), (4315, 304), (560, 305), (1543, 305), (1647, 305), (2755, 305), (3429, 305)],
    [(3650, 305), (4316, 305), (561, 306), (1544, 306), (1648, 306), (2756, 306), (3430, 306), (3651, 306), (4317, 306), (562, 307)],
    [(1545, 307), (1649, 307), (2757, 307), (3431, 307), (3652, 307), (4318, 307), (563, 308), (1546, 308), (1650, 308), (2758, 308)],
    [(3432, 308), (3653, 308), (4319, 308), (564, 309), (1547, 309), (1651, 309), (2759, 309), (3433, 309), (3654, 309), (4200, 309)],
    [(565, 310), (1548, 310), (1652, 310), (2640, 310), (3434, 310), (3655, 310), (4201, 310), (566, 311), (1549, 311), (1653, 311)],
    [(2641, 311), (3435, 311), (3656, 311), (4202, 311), (567, 312), (1550, 312), (1654, 312), (2642, 312), (3436, 312), (3657, 312)],
    [(4203, 312), (568, 313), (1551, 313), (1655, 313), (2643, 313), (3437, 313), (3658, 313), (4204, 313), (569, 314), (1552, 314)],
    [(1656, 314), (2644, 314), (3438, 314), (3659, 314), (4205, 314), (570, 315), (1553, 315), (1657, 315), (2645, 315), (3439, 315)],
    [(3660, 315), (4206, 315), (571, 316), (1554, 316), (1658, 316), (2646, 316), (3440, 316), (3661, 316), (4207, 316), (572, 317)],
    [(1555, 317), (1659, 317), (2647, 317), (3441, 317), (3662, 317), (4208, 317), (573, 318), (1556, 318), (1660, 318), (2648, 318)]]"

definition SF2_D_ind_2 :: "(nat \<times> nat) list" where
  "SF2_D_ind_2 = concat [
    [(3442, 318), (3663, 318), (4209, 318), (574, 319), (1557, 319), (1661, 319), (2649, 319), (3443, 319), (3664, 319), (4210, 319)],
    [(575, 320), (1558, 320), (1662, 320), (2650, 320), (3444, 320), (3665, 320), (4211, 320), (576, 321), (1559, 321), (1663, 321)],
    [(2651, 321), (3445, 321), (3666, 321), (4212, 321), (577, 322), (1440, 322), (1664, 322), (2652, 322), (3446, 322), (3667, 322)],
    [(4213, 322), (578, 323), (1441, 323), (1665, 323), (2653, 323), (3447, 323), (3668, 323), (4214, 323), (579, 324), (1442, 324)],
    [(1666, 324), (2654, 324), (3448, 324), (3669, 324), (4215, 324), (580, 325), (1443, 325), (1667, 325), (2655, 325), (3449, 325)],
    [(3670, 325), (4216, 325), (581, 326), (1444, 326), (1668, 326), (2656, 326), (3450, 326), (3671, 326), (4217, 326), (582, 327)],
    [(1445, 327), (1669, 327), (2657, 327), (3451, 327), (3672, 327), (4218, 327), (583, 328), (1446, 328), (1670, 328), (2658, 328)],
    [(3452, 328), (3673, 328), (4219, 328), (584, 329), (1447, 329), (1671, 329), (2659, 329), (3453, 329), (3674, 329), (4220, 329)],
    [(585, 330), (1448, 330), (1672, 330), (2660, 330), (3454, 330), (3675, 330), (4221, 330), (586, 331), (1449, 331), (1673, 331)],
    [(2661, 331), (3455, 331), (3676, 331), (4222, 331), (587, 332), (1450, 332), (1674, 332), (2662, 332), (3456, 332), (3677, 332)],
    [(4223, 332), (588, 333), (1451, 333), (1675, 333), (2663, 333), (3457, 333), (3678, 333), (4224, 333), (589, 334), (1452, 334)],
    [(1676, 334), (2664, 334), (3458, 334), (3679, 334), (4225, 334), (590, 335), (1453, 335), (1677, 335), (2665, 335), (3459, 335)],
    [(3680, 335), (4226, 335), (591, 336), (1454, 336), (1678, 336), (2666, 336), (3460, 336), (3681, 336), (4227, 336), (592, 337)],
    [(1455, 337), (1679, 337), (2667, 337), (3461, 337), (3682, 337), (4228, 337), (593, 338), (1456, 338), (1560, 338), (2668, 338)],
    [(3462, 338), (3683, 338), (4229, 338), (594, 339), (1457, 339), (1561, 339), (2669, 339), (3463, 339), (3684, 339), (4230, 339)],
    [(595, 340), (1458, 340), (1562, 340), (2670, 340), (3464, 340), (3685, 340), (4231, 340), (596, 341), (1459, 341), (1563, 341)],
    [(2671, 341), (3465, 341), (3686, 341), (4232, 341), (597, 342), (1460, 342), (1564, 342), (2672, 342), (3466, 342), (3687, 342)],
    [(4233, 342), (598, 343), (1461, 343), (1565, 343), (2673, 343), (3467, 343), (3688, 343), (4234, 343), (599, 344), (1462, 344)],
    [(1566, 344), (2674, 344), (3468, 344), (3689, 344), (4235, 344), (480, 345), (1463, 345), (1567, 345), (2675, 345), (3469, 345)],
    [(3690, 345), (4236, 345), (481, 346), (1464, 346), (1568, 346), (2676, 346), (3470, 346), (3691, 346), (4237, 346), (482, 347)],
    [(1465, 347), (1569, 347), (2677, 347), (3471, 347), (3692, 347), (4238, 347), (483, 348), (1466, 348), (1570, 348), (2678, 348)],
    [(3472, 348), (3693, 348), (4239, 348), (484, 349), (1467, 349), (1571, 349), (2679, 349), (3473, 349), (3694, 349), (4240, 349)],
    [(485, 350), (1468, 350), (1572, 350), (2680, 350), (3474, 350), (3695, 350), (4241, 350), (486, 351), (1469, 351), (1573, 351)],
    [(2681, 351), (3475, 351), (3696, 351), (4242, 351), (487, 352), (1470, 352), (1574, 352), (2682, 352), (3476, 352), (3697, 352)],
    [(4243, 352), (488, 353), (1471, 353), (1575, 353), (2683, 353), (3477, 353), (3698, 353), (4244, 353), (489, 354), (1472, 354)],
    [(1576, 354), (2684, 354), (3478, 354), (3699, 354), (4245, 354), (490, 355), (1473, 355), (1577, 355), (2685, 355), (3479, 355)],
    [(3700, 355), (4246, 355), (491, 356), (1474, 356), (1578, 356), (2686, 356), (3360, 356), (3701, 356), (4247, 356), (492, 357)],
    [(1475, 357), (1579, 357), (2687, 357), (3361, 357), (3702, 357), (4248, 357), (493, 358), (1476, 358), (1580, 358), (2688, 358)],
    [(3362, 358), (3703, 358), (4249, 358), (494, 359), (1477, 359), (1581, 359), (2689, 359), (3363, 359), (3704, 359), (4250, 359)],
    [(446, 360), (909, 360), (1101, 360), (1278, 360), (2149, 360), (2674, 360), (3314, 360), (3699, 360), (3966, 360), (4380, 360)],
    [(447, 361), (910, 361), (1102, 361), (1279, 361), (2150, 361), (2675, 361), (3315, 361), (3700, 361), (3967, 361), (4381, 361)],
    [(448, 362), (911, 362), (1103, 362), (1280, 362), (2151, 362), (2676, 362), (3316, 362), (3701, 362), (3968, 362), (4382, 362)],
    [(449, 363), (912, 363), (1104, 363), (1281, 363), (2152, 363), (2677, 363), (3317, 363), (3702, 363), (3969, 363), (4383, 363)],
    [(450, 364), (913, 364), (1105, 364), (1282, 364), (2153, 364), (2678, 364), (3318, 364), (3703, 364), (3970, 364), (4384, 364)],
    [(451, 365), (914, 365), (1106, 365), (1283, 365), (2154, 365), (2679, 365), (3319, 365), (3704, 365), (3971, 365), (4385, 365)],
    [(452, 366), (915, 366), (1107, 366), (1284, 366), (2155, 366), (2680, 366), (3320, 366), (3705, 366), (3972, 366), (4386, 366)],
    [(453, 367), (916, 367), (1108, 367), (1285, 367), (2156, 367), (2681, 367), (3321, 367), (3706, 367), (3973, 367), (4387, 367)],
    [(454, 368), (917, 368), (1109, 368), (1286, 368), (2157, 368), (2682, 368), (3322, 368), (3707, 368), (3974, 368), (4388, 368)],
    [(455, 369), (918, 369), (1110, 369), (1287, 369), (2158, 369), (2683, 369), (3323, 369), (3708, 369), (3975, 369), (4389, 369)],
    [(456, 370), (919, 370), (1111, 370), (1288, 370), (2159, 370), (2684, 370), (3324, 370), (3709, 370), (3976, 370), (4390, 370)],
    [(457, 371), (920, 371), (1112, 371), (1289, 371), (2040, 371), (2685, 371), (3325, 371), (3710, 371), (3977, 371), (4391, 371)],
    [(458, 372), (921, 372), (1113, 372), (1290, 372), (2041, 372), (2686, 372), (3326, 372), (3711, 372), (3978, 372), (4392, 372)],
    [(459, 373), (922, 373), (1114, 373), (1291, 373), (2042, 373), (2687, 373), (3327, 373), (3712, 373), (3979, 373), (4393, 373)],
    [(460, 374), (923, 374), (1115, 374), (1292, 374), (2043, 374), (2688, 374), (3328, 374), (3713, 374), (3980, 374), (4394, 374)],
    [(461, 375), (924, 375), (1116, 375), (1293, 375), (2044, 375), (2689, 375), (3329, 375), (3714, 375), (3981, 375), (4395, 375)],
    [(462, 376), (925, 376), (1117, 376), (1294, 376), (2045, 376), (2690, 376), (3330, 376), (3715, 376), (3982, 376), (4396, 376)],
    [(463, 377), (926, 377), (1118, 377), (1295, 377), (2046, 377), (2691, 377), (3331, 377), (3716, 377), (3983, 377), (4397, 377)],
    [(464, 378), (927, 378), (1119, 378), (1296, 378), (2047, 378), (2692, 378), (3332, 378), (3717, 378), (3984, 378), (4398, 378)],
    [(465, 379), (928, 379), (1120, 379), (1297, 379), (2048, 379), (2693, 379), (3333, 379), (3718, 379), (3985, 379), (4399, 379)],
    [(466, 380), (929, 380), (1121, 380), (1298, 380), (2049, 380), (2694, 380), (3334, 380), (3719, 380), (3986, 380), (4400, 380)],
    [(467, 381), (930, 381), (1122, 381), (1299, 381), (2050, 381), (2695, 381), (3335, 381), (3600, 381), (3987, 381), (4401, 381)],
    [(468, 382), (931, 382), (1123, 382), (1300, 382), (2051, 382), (2696, 382), (3336, 382), (3601, 382), (3988, 382), (4402, 382)],
    [(469, 383), (932, 383), (1124, 383), (1301, 383), (2052, 383), (2697, 383), (3337, 383), (3602, 383), (3989, 383), (4403, 383)],
    [(470, 384), (933, 384), (1125, 384), (1302, 384), (2053, 384), (2698, 384), (3338, 384), (3603, 384), (3990, 384), (4404, 384)],
    [(471, 385), (934, 385), (1126, 385), (1303, 385), (2054, 385), (2699, 385), (3339, 385), (3604, 385), (3991, 385), (4405, 385)],
    [(472, 386), (935, 386), (1127, 386), (1304, 386), (2055, 386), (2700, 386), (3340, 386), (3605, 386), (3992, 386), (4406, 386)],
    [(473, 387), (936, 387), (1128, 387), (1305, 387), (2056, 387), (2701, 387), (3341, 387), (3606, 387), (3993, 387), (4407, 387)],
    [(474, 388), (937, 388), (1129, 388), (1306, 388), (2057, 388), (2702, 388), (3342, 388), (3607, 388), (3994, 388), (4408, 388)],
    [(475, 389), (938, 389), (1130, 389), (1307, 389), (2058, 389), (2703, 389), (3343, 389), (3608, 389), (3995, 389), (4409, 389)],
    [(476, 390), (939, 390), (1131, 390), (1308, 390), (2059, 390), (2704, 390), (3344, 390), (3609, 390), (3996, 390), (4410, 390)],
    [(477, 391), (940, 391), (1132, 391), (1309, 391), (2060, 391), (2705, 391), (3345, 391), (3610, 391), (3997, 391), (4411, 391)],
    [(478, 392), (941, 392), (1133, 392), (1310, 392), (2061, 392), (2706, 392), (3346, 392), (3611, 392), (3998, 392), (4412, 392)],
    [(479, 393), (942, 393), (1134, 393), (1311, 393), (2062, 393), (2707, 393), (3347, 393), (3612, 393), (3999, 393), (4413, 393)],
    [(360, 394), (943, 394), (1135, 394), (1312, 394), (2063, 394), (2708, 394), (3348, 394), (3613, 394), (4000, 394), (4414, 394)],
    [(361, 395), (944, 395), (1136, 395), (1313, 395), (2064, 395), (2709, 395), (3349, 395), (3614, 395), (4001, 395), (4415, 395)],
    [(362, 396), (945, 396), (1137, 396), (1314, 396), (2065, 396), (2710, 396), (3350, 396), (3615, 396), (4002, 396), (4416, 396)],
    [(363, 397), (946, 397), (1138, 397), (1315, 397), (2066, 397), (2711, 397), (3351, 397), (3616, 397), (4003, 397), (4417, 397)],
    [(364, 398), (947, 398), (1139, 398), (1316, 398), (2067, 398), (2712, 398), (3352, 398), (3617, 398), (4004, 398), (4418, 398)],
    [(365, 399), (948, 399), (1140, 399), (1317, 399), (2068, 399), (2713, 399), (3353, 399), (3618, 399), (4005, 399), (4419, 399)],
    [(366, 400), (949, 400), (1141, 400), (1318, 400), (2069, 400), (2714, 400), (3354, 400), (3619, 400), (4006, 400), (4420, 400)],
    [(367, 401), (950, 401), (1142, 401), (1319, 401), (2070, 401), (2715, 401), (3355, 401), (3620, 401), (4007, 401), (4421, 401)],
    [(368, 402), (951, 402), (1143, 402), (1200, 402), (2071, 402), (2716, 402), (3356, 402), (3621, 402), (4008, 402), (4422, 402)],
    [(369, 403), (952, 403), (1144, 403), (1201, 403), (2072, 403), (2717, 403), (3357, 403), (3622, 403), (4009, 403), (4423, 403)],
    [(370, 404), (953, 404), (1145, 404), (1202, 404), (2073, 404), (2718, 404), (3358, 404), (3623, 404), (4010, 404), (4424, 404)],
    [(371, 405), (954, 405), (1146, 405), (1203, 405), (2074, 405), (2719, 405), (3359, 405), (3624, 405), (4011, 405), (4425, 405)],
    [(372, 406), (955, 406), (1147, 406), (1204, 406), (2075, 406), (2720, 406), (3240, 406), (3625, 406), (4012, 406), (4426, 406)],
    [(373, 407), (956, 407), (1148, 407), (1205, 407), (2076, 407), (2721, 407), (3241, 407), (3626, 407), (4013, 407), (4427, 407)],
    [(374, 408), (957, 408), (1149, 408), (1206, 408), (2077, 408), (2722, 408), (3242, 408), (3627, 408), (4014, 408), (4428, 408)],
    [(375, 409), (958, 409), (1150, 409), (1207, 409), (2078, 409), (2723, 409), (3243, 409), (3628, 409), (4015, 409), (4429, 409)],
    [(376, 410), (959, 410), (1151, 410), (1208, 410), (2079, 410), (2724, 410), (3244, 410), (3629, 410), (4016, 410), (4430, 410)],
    [(377, 411), (840, 411), (1152, 411), (1209, 411), (2080, 411), (2725, 411), (3245, 411), (3630, 411), (4017, 411), (4431, 411)],
    [(378, 412), (841, 412), (1153, 412), (1210, 412), (2081, 412), (2726, 412), (3246, 412), (3631, 412), (4018, 412), (4432, 412)],
    [(379, 413), (842, 413), (1154, 413), (1211, 413), (2082, 413), (2727, 413), (3247, 413), (3632, 413), (4019, 413), (4433, 413)],
    [(380, 414), (843, 414), (1155, 414), (1212, 414), (2083, 414), (2728, 414), (3248, 414), (3633, 414), (4020, 414), (4434, 414)],
    [(381, 415), (844, 415), (1156, 415), (1213, 415), (2084, 415), (2729, 415), (3249, 415), (3634, 415), (4021, 415), (4435, 415)],
    [(382, 416), (845, 416), (1157, 416), (1214, 416), (2085, 416), (2730, 416), (3250, 416), (3635, 416), (4022, 416), (4436, 416)],
    [(383, 417), (846, 417), (1158, 417), (1215, 417), (2086, 417), (2731, 417), (3251, 417), (3636, 417), (4023, 417), (4437, 417)],
    [(384, 418), (847, 418), (1159, 418), (1216, 418), (2087, 418), (2732, 418), (3252, 418), (3637, 418), (4024, 418), (4438, 418)],
    [(385, 419), (848, 419), (1160, 419), (1217, 419), (2088, 419), (2733, 419), (3253, 419), (3638, 419), (4025, 419), (4439, 419)],
    [(386, 420), (849, 420), (1161, 420), (1218, 420), (2089, 420), (2734, 420), (3254, 420), (3639, 420), (4026, 420), (4320, 420)],
    [(387, 421), (850, 421), (1162, 421), (1219, 421), (2090, 421), (2735, 421), (3255, 421), (3640, 421), (4027, 421), (4321, 421)],
    [(388, 422), (851, 422), (1163, 422), (1220, 422), (2091, 422), (2736, 422), (3256, 422), (3641, 422), (4028, 422), (4322, 422)],
    [(389, 423), (852, 423), (1164, 423), (1221, 423), (2092, 423), (2737, 423), (3257, 423), (3642, 423), (4029, 423), (4323, 423)],
    [(390, 424), (853, 424), (1165, 424), (1222, 424), (2093, 424), (2738, 424), (3258, 424), (3643, 424), (4030, 424), (4324, 424)],
    [(391, 425), (854, 425), (1166, 425), (1223, 425), (2094, 425), (2739, 425), (3259, 425), (3644, 425), (4031, 425), (4325, 425)],
    [(392, 426), (855, 426), (1167, 426), (1224, 426), (2095, 426), (2740, 426), (3260, 426), (3645, 426), (4032, 426), (4326, 426)],
    [(393, 427), (856, 427), (1168, 427), (1225, 427), (2096, 427), (2741, 427), (3261, 427), (3646, 427), (4033, 427), (4327, 427)],
    [(394, 428), (857, 428), (1169, 428), (1226, 428), (2097, 428), (2742, 428), (3262, 428), (3647, 428), (4034, 428), (4328, 428)],
    [(395, 429), (858, 429), (1170, 429), (1227, 429), (2098, 429), (2743, 429), (3263, 429), (3648, 429), (4035, 429), (4329, 429)],
    [(396, 430), (859, 430), (1171, 430), (1228, 430), (2099, 430), (2744, 430), (3264, 430), (3649, 430), (4036, 430), (4330, 430)],
    [(397, 431), (860, 431), (1172, 431), (1229, 431), (2100, 431), (2745, 431), (3265, 431), (3650, 431), (4037, 431), (4331, 431)],
    [(398, 432), (861, 432), (1173, 432), (1230, 432), (2101, 432), (2746, 432), (3266, 432), (3651, 432), (4038, 432), (4332, 432)],
    [(399, 433), (862, 433), (1174, 433), (1231, 433), (2102, 433), (2747, 433), (3267, 433), (3652, 433), (4039, 433), (4333, 433)],
    [(400, 434), (863, 434), (1175, 434), (1232, 434), (2103, 434), (2748, 434), (3268, 434), (3653, 434), (4040, 434), (4334, 434)],
    [(401, 435), (864, 435), (1176, 435), (1233, 435), (2104, 435), (2749, 435), (3269, 435), (3654, 435), (4041, 435), (4335, 435)],
    [(402, 436), (865, 436), (1177, 436), (1234, 436), (2105, 436), (2750, 436), (3270, 436), (3655, 436), (4042, 436), (4336, 436)],
    [(403, 437), (866, 437), (1178, 437), (1235, 437), (2106, 437), (2751, 437), (3271, 437), (3656, 437), (4043, 437), (4337, 437)],
    [(404, 438), (867, 438), (1179, 438), (1236, 438), (2107, 438), (2752, 438), (3272, 438), (3657, 438), (4044, 438), (4338, 438)],
    [(405, 439), (868, 439), (1180, 439), (1237, 439), (2108, 439), (2753, 439), (3273, 439), (3658, 439), (4045, 439), (4339, 439)],
    [(406, 440), (869, 440), (1181, 440), (1238, 440), (2109, 440), (2754, 440), (3274, 440), (3659, 440), (4046, 440), (4340, 440)],
    [(407, 441), (870, 441), (1182, 441), (1239, 441), (2110, 441), (2755, 441), (3275, 441), (3660, 441), (4047, 441), (4341, 441)],
    [(408, 442), (871, 442), (1183, 442), (1240, 442), (2111, 442), (2756, 442), (3276, 442), (3661, 442), (4048, 442), (4342, 442)],
    [(409, 443), (872, 443), (1184, 443), (1241, 443), (2112, 443), (2757, 443), (3277, 443), (3662, 443), (4049, 443), (4343, 443)],
    [(410, 444), (873, 444), (1185, 444), (1242, 444), (2113, 444), (2758, 444), (3278, 444), (3663, 444), (4050, 444), (4344, 444)],
    [(411, 445), (874, 445), (1186, 445), (1243, 445), (2114, 445), (2759, 445), (3279, 445), (3664, 445), (4051, 445), (4345, 445)],
    [(412, 446), (875, 446), (1187, 446), (1244, 446), (2115, 446), (2640, 446), (3280, 446), (3665, 446), (4052, 446), (4346, 446)],
    [(413, 447), (876, 447), (1188, 447), (1245, 447), (2116, 447), (2641, 447), (3281, 447), (3666, 447), (4053, 447), (4347, 447)],
    [(414, 448), (877, 448), (1189, 448), (1246, 448), (2117, 448), (2642, 448), (3282, 448), (3667, 448), (4054, 448), (4348, 448)],
    [(415, 449), (878, 449), (1190, 449), (1247, 449), (2118, 449), (2643, 449), (3283, 449), (3668, 449), (4055, 449), (4349, 449)],
    [(416, 450), (879, 450), (1191, 450), (1248, 450), (2119, 450), (2644, 450), (3284, 450), (3669, 450), (4056, 450), (4350, 450)],
    [(417, 451), (880, 451), (1192, 451), (1249, 451), (2120, 451), (2645, 451), (3285, 451), (3670, 451), (4057, 451), (4351, 451)],
    [(418, 452), (881, 452), (1193, 452), (1250, 452), (2121, 452), (2646, 452), (3286, 452), (3671, 452), (4058, 452), (4352, 452)],
    [(419, 453), (882, 453), (1194, 453), (1251, 453), (2122, 453), (2647, 453), (3287, 453), (3672, 453), (4059, 453), (4353, 453)],
    [(420, 454), (883, 454), (1195, 454), (1252, 454), (2123, 454), (2648, 454), (3288, 454), (3673, 454), (4060, 454), (4354, 454)],
    [(421, 455), (884, 455), (1196, 455), (1253, 455), (2124, 455), (2649, 455), (3289, 455), (3674, 455), (4061, 455), (4355, 455)],
    [(422, 456), (885, 456), (1197, 456), (1254, 456), (2125, 456), (2650, 456), (3290, 456), (3675, 456), (4062, 456), (4356, 456)],
    [(423, 457), (886, 457), (1198, 457), (1255, 457), (2126, 457), (2651, 457), (3291, 457), (3676, 457), (4063, 457), (4357, 457)],
    [(424, 458), (887, 458), (1199, 458), (1256, 458), (2127, 458), (2652, 458), (3292, 458), (3677, 458), (4064, 458), (4358, 458)],
    [(425, 459), (888, 459), (1080, 459), (1257, 459), (2128, 459), (2653, 459), (3293, 459), (3678, 459), (4065, 459), (4359, 459)],
    [(426, 460), (889, 460), (1081, 460), (1258, 460), (2129, 460), (2654, 460), (3294, 460), (3679, 460), (4066, 460), (4360, 460)],
    [(427, 461), (890, 461), (1082, 461), (1259, 461), (2130, 461), (2655, 461), (3295, 461), (3680, 461), (4067, 461), (4361, 461)],
    [(428, 462), (891, 462), (1083, 462), (1260, 462), (2131, 462), (2656, 462), (3296, 462), (3681, 462), (4068, 462), (4362, 462)],
    [(429, 463), (892, 463), (1084, 463), (1261, 463), (2132, 463), (2657, 463), (3297, 463), (3682, 463), (4069, 463), (4363, 463)],
    [(430, 464), (893, 464), (1085, 464), (1262, 464), (2133, 464), (2658, 464), (3298, 464), (3683, 464), (4070, 464), (4364, 464)],
    [(431, 465), (894, 465), (1086, 465), (1263, 465), (2134, 465), (2659, 465), (3299, 465), (3684, 465), (4071, 465), (4365, 465)],
    [(432, 466), (895, 466), (1087, 466), (1264, 466), (2135, 466), (2660, 466), (3300, 466), (3685, 466), (4072, 466), (4366, 466)],
    [(433, 467), (896, 467), (1088, 467), (1265, 467), (2136, 467), (2661, 467), (3301, 467), (3686, 467), (4073, 467), (4367, 467)],
    [(434, 468), (897, 468), (1089, 468), (1266, 468), (2137, 468), (2662, 468), (3302, 468), (3687, 468), (4074, 468), (4368, 468)],
    [(435, 469), (898, 469), (1090, 469), (1267, 469), (2138, 469), (2663, 469), (3303, 469), (3688, 469), (4075, 469), (4369, 469)],
    [(436, 470), (899, 470), (1091, 470), (1268, 470), (2139, 470), (2664, 470), (3304, 470), (3689, 470), (4076, 470), (4370, 470)],
    [(437, 471), (900, 471), (1092, 471), (1269, 471), (2140, 471), (2665, 471), (3305, 471), (3690, 471), (4077, 471), (4371, 471)],
    [(438, 472), (901, 472), (1093, 472), (1270, 472), (2141, 472), (2666, 472), (3306, 472), (3691, 472), (4078, 472), (4372, 472)],
    [(439, 473), (902, 473), (1094, 473), (1271, 473), (2142, 473), (2667, 473), (3307, 473), (3692, 473), (4079, 473), (4373, 473)],
    [(440, 474), (903, 474), (1095, 474), (1272, 474), (2143, 474), (2668, 474), (3308, 474), (3693, 474), (3960, 474), (4374, 474)],
    [(441, 475), (904, 475), (1096, 475), (1273, 475), (2144, 475), (2669, 475), (3309, 475), (3694, 475), (3961, 475), (4375, 475)],
    [(442, 476), (905, 476), (1097, 476), (1274, 476), (2145, 476), (2670, 476), (3310, 476), (3695, 476), (3962, 476), (4376, 476)],
    [(443, 477), (906, 477), (1098, 477), (1275, 477), (2146, 477), (2671, 477), (3311, 477), (3696, 477), (3963, 477), (4377, 477)],
    [(444, 478), (907, 478), (1099, 478), (1276, 478), (2147, 478), (2672, 478), (3312, 478), (3697, 478), (3964, 478), (4378, 478)]]"

definition SF2_D_ind_3 :: "(nat \<times> nat) list" where
  "SF2_D_ind_3 = concat [
    [(445, 479), (908, 479), (1100, 479), (1277, 479), (2148, 479), (2673, 479), (3313, 479), (3698, 479), (3965, 479), (4379, 479)]]"

definition SF2_D_ind :: "(nat \<times> nat) list" where
  "SF2_D_ind = SF2_D_ind_0 @ SF2_D_ind_1 @ SF2_D_ind_2 @ SF2_D_ind_3"

section \<open>SF2_B_Inv: positions in a matrix of 480 rows and 480 columns\<close>

definition SF2_B_Inv_ind_0 :: "(nat \<times> nat) list" where
  "SF2_B_Inv_ind_0 = concat [
    [(0, 0), (120, 0), (239, 0), (240, 0), (359, 0), (479, 0), (1, 1), (120, 1), (121, 1), (240, 1)],
    [(241, 1), (360, 1), (2, 2), (121, 2), (122, 2), (241, 2), (242, 2), (361, 2), (3, 3), (122, 3)],
    [(123, 3), (242, 3), (243, 3), (362, 3), (4, 4), (123, 4), (124, 4), (243, 4), (244, 4), (363, 4)],
    [(5, 5), (124, 5), (125, 5), (244, 5), (245, 5), (364, 5), (6, 6), (125, 6), (126, 6), (245, 6)],
    [(246, 6), (365, 6), (7, 7), (126, 7), (127, 7), (246, 7), (247, 7), (366, 7), (8, 8), (127, 8)],
    [(128, 8), (247, 8), (248, 8), (367, 8), (9, 9), (128, 9), (129, 9), (248, 9), (249, 9), (368, 9)],
    [(10, 10), (129, 10), (130, 10), (249, 10), (250, 10), (369, 10), (11, 11), (130, 11), (131, 11), (250, 11)],
    [(251, 11), (370, 11), (12, 12), (131, 12), (132, 12), (251, 12), (252, 12), (371, 12), (13, 13), (132, 13)],
    [(133, 13), (252, 13), (253, 13), (372, 13), (14, 14), (133, 14), (134, 14), (253, 14), (254, 14), (373, 14)],
    [(15, 15), (134, 15), (135, 15), (254, 15), (255, 15), (374, 15), (16, 16), (135, 16), (136, 16), (255, 16)],
    [(256, 16), (375, 16), (17, 17), (136, 17), (137, 17), (256, 17), (257, 17), (376, 17), (18, 18), (137, 18)],
    [(138, 18), (257, 18), (258, 18), (377, 18), (19, 19), (138, 19), (139, 19), (258, 19), (259, 19), (378, 19)],
    [(20, 20), (139, 20), (140, 20), (259, 20), (260, 20), (379, 20), (21, 21), (140, 21), (141, 21), (260, 21)],
    [(261, 21), (380, 21), (22, 22), (141, 22), (142, 22), (261, 22), (262, 22), (381, 22), (23, 23), (142, 23)],
    [(143, 23), (262, 23), (263, 23), (382, 23), (24, 24), (143, 24), (144, 24), (263, 24), (264, 24), (383, 24)],
    [(25, 25), (144, 25), (145, 25), (264, 25), (265, 25), (384, 25), (26, 26), (145, 26), (146, 26), (265, 26)],
    [(266, 26), (385, 26), (27, 27), (146, 27), (147, 27), (266, 27), (267, 27), (386, 27), (28, 28), (147, 28)],
    [(148, 28), (267, 28), (268, 28), (387, 28), (29, 29), (148, 29), (149, 29), (268, 29), (269, 29), (388, 29)],
    [(30, 30), (149, 30), (150, 30), (269, 30), (270, 30), (389, 30), (31, 31), (150, 31), (151, 31), (270, 31)],
    [(271, 31), (390, 31), (32, 32), (151, 32), (152, 32), (271, 32), (272, 32), (391, 32), (33, 33), (152, 33)],
    [(153, 33), (272, 33), (273, 33), (392, 33), (34, 34), (153, 34), (154, 34), (273, 34), (274, 34), (393, 34)],
    [(35, 35), (154, 35), (155, 35), (274, 35), (275, 35), (394, 35), (36, 36), (155, 36), (156, 36), (275, 36)],
    [(276, 36), (395, 36), (37, 37), (156, 37), (157, 37), (276, 37), (277, 37), (396, 37), (38, 38), (157, 38)],
    [(158, 38), (277, 38), (278, 38), (397, 38), (39, 39), (158, 39), (159, 39), (278, 39), (279, 39), (398, 39)],
    [(40, 40), (159, 40), (160, 40), (279, 40), (280, 40), (399, 40), (41, 41), (160, 41), (161, 41), (280, 41)],
    [(281, 41), (400, 41), (42, 42), (161, 42), (162, 42), (281, 42), (282, 42), (401, 42), (43, 43), (162, 43)],
    [(163, 43), (282, 43), (283, 43), (402, 43), (44, 44), (163, 44), (164, 44), (283, 44), (284, 44), (403, 44)],
    [(45, 45), (164, 45), (165, 45), (284, 45), (285, 45), (404, 45), (46, 46), (165, 46), (166, 46), (285, 46)],
    [(286, 46), (405, 46), (47, 47), (166, 47), (167, 47), (286, 47), (287, 47), (406, 47), (48, 48), (167, 48)],
    [(168, 48), (287, 48), (288, 48), (407, 48), (49, 49), (168, 49), (169, 49), (288, 49), (289, 49), (408, 49)],
    [(50, 50), (169, 50), (170, 50), (289, 50), (290, 50), (409, 50), (51, 51), (170, 51), (171, 51), (290, 51)],
    [(291, 51), (410, 51), (52, 52), (171, 52), (172, 52), (291, 52), (292, 52), (411, 52), (53, 53), (172, 53)],
    [(173, 53), (292, 53), (293, 53), (412, 53), (54, 54), (173, 54), (174, 54), (293, 54), (294, 54), (413, 54)],
    [(55, 55), (174, 55), (175, 55), (294, 55), (295, 55), (414, 55), (56, 56), (175, 56), (176, 56), (295, 56)],
    [(296, 56), (415, 56), (57, 57), (176, 57), (177, 57), (296, 57), (297, 57), (416, 57), (58, 58), (177, 58)],
    [(178, 58), (297, 58), (298, 58), (417, 58), (59, 59), (178, 59), (179, 59), (298, 59), (299, 59), (418, 59)],
    [(60, 60), (179, 60), (180, 60), (299, 60), (300, 60), (419, 60), (61, 61), (180, 61), (181, 61), (300, 61)],
    [(301, 61), (420, 61), (62, 62), (181, 62), (182, 62), (301, 62), (302, 62), (421, 62), (63, 63), (182, 63)],
    [(183, 63), (302, 63), (303, 63), (422, 63), (64, 64), (183, 64), (184, 64), (303, 64), (304, 64), (423, 64)],
    [(65, 65), (184, 65), (185, 65), (304, 65), (305, 65), (424, 65), (66, 66), (185, 66), (186, 66), (305, 66)],
    [(306, 66), (425, 66), (67, 67), (186, 67), (187, 67), (306, 67), (307, 67), (426, 67), (68, 68), (187, 68)],
    [(188, 68), (307, 68), (308, 68), (427, 68), (69, 69), (188, 69), (189, 69), (308, 69), (309, 69), (428, 69)],
    [(70, 70), (189, 70), (190, 70), (309, 70), (310, 70), (429, 70), (71, 71), (190, 71), (191, 71), (310, 71)],
    [(311, 71), (430, 71), (72, 72), (191, 72), (192, 72), (311, 72), (312, 72), (431, 72), (73, 73), (192, 73)],
    [(193, 73), (312, 73), (313, 73), (432, 73), (74, 74), (193, 74), (194, 74), (313, 74), (314, 74), (433, 74)],
    [(75, 75), (194, 75), (195, 75), (314, 75), (315, 75), (434, 75), (76, 76), (195, 76), (196, 76), (315, 76)],
    [(316, 76), (435, 76), (77, 77), (196, 77), (197, 77), (316, 77), (317, 77), (436, 77), (78, 78), (197, 78)],
    [(198, 78), (317, 78), (318, 78), (437, 78), (79, 79), (198, 79), (199, 79), (318, 79), (319, 79), (438, 79)],
    [(80, 80), (199, 80), (200, 80), (319, 80), (320, 80), (439, 80), (81, 81), (200, 81), (201, 81), (320, 81)],
    [(321, 81), (440, 81), (82, 82), (201, 82), (202, 82), (321, 82), (322, 82), (441, 82), (83, 83), (202, 83)],
    [(203, 83), (322, 83), (323, 83), (442, 83), (84, 84), (203, 84), (204, 84), (323, 84), (324, 84), (443, 84)],
    [(85, 85), (204, 85), (205, 85), (324, 85), (325, 85), (444, 85), (86, 86), (205, 86), (206, 86), (325, 86)],
    [(326, 86), (445, 86), (87, 87), (206, 87), (207, 87), (326, 87), (327, 87), (446, 87), (88, 88), (207, 88)],
    [(208, 88), (327, 88), (328, 88), (447, 88), (89, 89), (208, 89), (209, 89), (328, 89), (329, 89), (448, 89)],
    [(90, 90), (209, 90), (210, 90), (329, 90), (330, 90), (449, 90), (91, 91), (210, 91), (211, 91), (330, 91)],
    [(331, 91), (450, 91), (92, 92), (211, 92), (212, 92), (331, 92), (332, 92), (451, 92), (93, 93), (212, 93)],
    [(213, 93), (332, 93), (333, 93), (452, 93), (94, 94), (213, 94), (214, 94), (333, 94), (334, 94), (453, 94)],
    [(95, 95), (214, 95), (215, 95), (334, 95), (335, 95), (454, 95), (96, 96), (215, 96), (216, 96), (335, 96)],
    [(336, 96), (455, 96), (97, 97), (216, 97), (217, 97), (336, 97), (337, 97), (456, 97), (98, 98), (217, 98)],
    [(218, 98), (337, 98), (338, 98), (457, 98), (99, 99), (218, 99), (219, 99), (338, 99), (339, 99), (458, 99)],
    [(100, 100), (219, 100), (220, 100), (339, 100), (340, 100), (459, 100), (101, 101), (220, 101), (221, 101), (340, 101)],
    [(341, 101), (460, 101), (102, 102), (221, 102), (222, 102), (341, 102), (342, 102), (461, 102), (103, 103), (222, 103)],
    [(223, 103), (342, 103), (343, 103), (462, 103), (104, 104), (223, 104), (224, 104), (343, 104), (344, 104), (463, 104)],
    [(105, 105), (224, 105), (225, 105), (344, 105), (345, 105), (464, 105), (106, 106), (225, 106), (226, 106), (345, 106)],
    [(346, 106), (465, 106), (107, 107), (226, 107), (227, 107), (346, 107), (347, 107), (466, 107), (108, 108), (227, 108)],
    [(228, 108), (347, 108), (348, 108), (467, 108), (109, 109), (228, 109), (229, 109), (348, 109), (349, 109), (468, 109)],
    [(110, 110), (229, 110), (230, 110), (349, 110), (350, 110), (469, 110), (111, 111), (230, 111), (231, 111), (350, 111)],
    [(351, 111), (470, 111), (112, 112), (231, 112), (232, 112), (351, 112), (352, 112), (471, 112), (113, 113), (232, 113)],
    [(233, 113), (352, 113), (353, 113), (472, 113), (114, 114), (233, 114), (234, 114), (353, 114), (354, 114), (473, 114)],
    [(115, 115), (234, 115), (235, 115), (354, 115), (355, 115), (474, 115), (116, 116), (235, 116), (236, 116), (355, 116)],
    [(356, 116), (475, 116), (117, 117), (236, 117), (237, 117), (356, 117), (357, 117), (476, 117), (118, 118), (237, 118)],
    [(238, 118), (357, 118), (358, 118), (477, 118), (119, 119), (238, 119), (239, 119), (358, 119), (359, 119), (478, 119)],
    [(0, 120), (239, 120), (240, 120), (359, 120), (479, 120), (1, 121), (120, 121), (240, 121), (241, 121), (360, 121)],
    [(2, 122), (121, 122), (241, 122), (242, 122), (361, 122), (3, 123), (122, 123), (242, 123), (243, 123), (362, 123)],
    [(4, 124), (123, 124), (243, 124), (244, 124), (363, 124), (5, 125), (124, 125), (244, 125), (245, 125), (364, 125)],
    [(6, 126), (125, 126), (245, 126), (246, 126), (365, 126), (7, 127), (126, 127), (246, 127), (247, 127), (366, 127)],
    [(8, 128), (127, 128), (247, 128), (248, 128), (367, 128), (9, 129), (128, 129), (248, 129), (249, 129), (368, 129)],
    [(10, 130), (129, 130), (249, 130), (250, 130), (369, 130), (11, 131), (130, 131), (250, 131), (251, 131), (370, 131)],
    [(12, 132), (131, 132), (251, 132), (252, 132), (371, 132), (13, 133), (132, 133), (252, 133), (253, 133), (372, 133)],
    [(14, 134), (133, 134), (253, 134), (254, 134), (373, 134), (15, 135), (134, 135), (254, 135), (255, 135), (374, 135)],
    [(16, 136), (135, 136), (255, 136), (256, 136), (375, 136), (17, 137), (136, 137), (256, 137), (257, 137), (376, 137)],
    [(18, 138), (137, 138), (257, 138), (258, 138), (377, 138), (19, 139), (138, 139), (258, 139), (259, 139), (378, 139)],
    [(20, 140), (139, 140), (259, 140), (260, 140), (379, 140), (21, 141), (140, 141), (260, 141), (261, 141), (380, 141)],
    [(22, 142), (141, 142), (261, 142), (262, 142), (381, 142), (23, 143), (142, 143), (262, 143), (263, 143), (382, 143)],
    [(24, 144), (143, 144), (263, 144), (264, 144), (383, 144), (25, 145), (144, 145), (264, 145), (265, 145), (384, 145)],
    [(26, 146), (145, 146), (265, 146), (266, 146), (385, 146), (27, 147), (146, 147), (266, 147), (267, 147), (386, 147)],
    [(28, 148), (147, 148), (267, 148), (268, 148), (387, 148), (29, 149), (148, 149), (268, 149), (269, 149), (388, 149)],
    [(30, 150), (149, 150), (269, 150), (270, 150), (389, 150), (31, 151), (150, 151), (270, 151), (271, 151), (390, 151)],
    [(32, 152), (151, 152), (271, 152), (272, 152), (391, 152), (33, 153), (152, 153), (272, 153), (273, 153), (392, 153)],
    [(34, 154), (153, 154), (273, 154), (274, 154), (393, 154), (35, 155), (154, 155), (274, 155), (275, 155), (394, 155)],
    [(36, 156), (155, 156), (275, 156), (276, 156), (395, 156), (37, 157), (156, 157), (276, 157), (277, 157), (396, 157)],
    [(38, 158), (157, 158), (277, 158), (278, 158), (397, 158), (39, 159), (158, 159), (278, 159), (279, 159), (398, 159)],
    [(40, 160), (159, 160), (279, 160), (280, 160), (399, 160), (41, 161), (160, 161), (280, 161), (281, 161), (400, 161)],
    [(42, 162), (161, 162), (281, 162), (282, 162), (401, 162), (43, 163), (162, 163), (282, 163), (283, 163), (402, 163)],
    [(44, 164), (163, 164), (283, 164), (284, 164), (403, 164), (45, 165), (164, 165), (284, 165), (285, 165), (404, 165)],
    [(46, 166), (165, 166), (285, 166), (286, 166), (405, 166), (47, 167), (166, 167), (286, 167), (287, 167), (406, 167)],
    [(48, 168), (167, 168), (287, 168), (288, 168), (407, 168), (49, 169), (168, 169), (288, 169), (289, 169), (408, 169)],
    [(50, 170), (169, 170), (289, 170), (290, 170), (409, 170), (51, 171), (170, 171), (290, 171), (291, 171), (410, 171)],
    [(52, 172), (171, 172), (291, 172), (292, 172), (411, 172), (53, 173), (172, 173), (292, 173), (293, 173), (412, 173)],
    [(54, 174), (173, 174), (293, 174), (294, 174), (413, 174), (55, 175), (174, 175), (294, 175), (295, 175), (414, 175)],
    [(56, 176), (175, 176), (295, 176), (296, 176), (415, 176), (57, 177), (176, 177), (296, 177), (297, 177), (416, 177)],
    [(58, 178), (177, 178), (297, 178), (298, 178), (417, 178), (59, 179), (178, 179), (298, 179), (299, 179), (418, 179)],
    [(60, 180), (179, 180), (299, 180), (300, 180), (419, 180), (61, 181), (180, 181), (300, 181), (301, 181), (420, 181)],
    [(62, 182), (181, 182), (301, 182), (302, 182), (421, 182), (63, 183), (182, 183), (302, 183), (303, 183), (422, 183)],
    [(64, 184), (183, 184), (303, 184), (304, 184), (423, 184), (65, 185), (184, 185), (304, 185), (305, 185), (424, 185)],
    [(66, 186), (185, 186), (305, 186), (306, 186), (425, 186), (67, 187), (186, 187), (306, 187), (307, 187), (426, 187)],
    [(68, 188), (187, 188), (307, 188), (308, 188), (427, 188), (69, 189), (188, 189), (308, 189), (309, 189), (428, 189)],
    [(70, 190), (189, 190), (309, 190), (310, 190), (429, 190), (71, 191), (190, 191), (310, 191), (311, 191), (430, 191)],
    [(72, 192), (191, 192), (311, 192), (312, 192), (431, 192), (73, 193), (192, 193), (312, 193), (313, 193), (432, 193)],
    [(74, 194), (193, 194), (313, 194), (314, 194), (433, 194), (75, 195), (194, 195), (314, 195), (315, 195), (434, 195)],
    [(76, 196), (195, 196), (315, 196), (316, 196), (435, 196), (77, 197), (196, 197), (316, 197), (317, 197), (436, 197)],
    [(78, 198), (197, 198), (317, 198), (318, 198), (437, 198), (79, 199), (198, 199), (318, 199), (319, 199), (438, 199)],
    [(80, 200), (199, 200), (319, 200), (320, 200), (439, 200), (81, 201), (200, 201), (320, 201), (321, 201), (440, 201)],
    [(82, 202), (201, 202), (321, 202), (322, 202), (441, 202), (83, 203), (202, 203), (322, 203), (323, 203), (442, 203)],
    [(84, 204), (203, 204), (323, 204), (324, 204), (443, 204), (85, 205), (204, 205), (324, 205), (325, 205), (444, 205)],
    [(86, 206), (205, 206), (325, 206), (326, 206), (445, 206), (87, 207), (206, 207), (326, 207), (327, 207), (446, 207)],
    [(88, 208), (207, 208), (327, 208), (328, 208), (447, 208), (89, 209), (208, 209), (328, 209), (329, 209), (448, 209)],
    [(90, 210), (209, 210), (329, 210), (330, 210), (449, 210), (91, 211), (210, 211), (330, 211), (331, 211), (450, 211)],
    [(92, 212), (211, 212), (331, 212), (332, 212), (451, 212), (93, 213), (212, 213), (332, 213), (333, 213), (452, 213)],
    [(94, 214), (213, 214), (333, 214), (334, 214), (453, 214), (95, 215), (214, 215), (334, 215), (335, 215), (454, 215)],
    [(96, 216), (215, 216), (335, 216), (336, 216), (455, 216), (97, 217), (216, 217), (336, 217), (337, 217), (456, 217)],
    [(98, 218), (217, 218), (337, 218), (338, 218), (457, 218), (99, 219), (218, 219), (338, 219), (339, 219), (458, 219)],
    [(100, 220), (219, 220), (339, 220), (340, 220), (459, 220), (101, 221), (220, 221), (340, 221), (341, 221), (460, 221)],
    [(102, 222), (221, 222), (341, 222), (342, 222), (461, 222), (103, 223), (222, 223), (342, 223), (343, 223), (462, 223)],
    [(104, 224), (223, 224), (343, 224), (344, 224), (463, 224), (105, 225), (224, 225), (344, 225), (345, 225), (464, 225)],
    [(106, 226), (225, 226), (345, 226), (346, 226), (465, 226), (107, 227), (226, 227), (346, 227), (347, 227), (466, 227)],
    [(108, 228), (227, 228), (347, 228), (348, 228), (467, 228), (109, 229), (228, 229), (348, 229), (349, 229), (468, 229)],
    [(110, 230), (229, 230), (349, 230), (350, 230), (469, 230), (111, 231), (230, 231), (350, 231), (351, 231), (470, 231)],
    [(112, 232), (231, 232), (351, 232), (352, 232), (471, 232), (113, 233), (232, 233), (352, 233), (353, 233), (472, 233)],
    [(114, 234), (233, 234), (353, 234), (354, 234), (473, 234), (115, 235), (234, 235), (354, 235), (355, 235), (474, 235)],
    [(116, 236), (235, 236), (355, 236), (356, 236), (475, 236), (117, 237), (236, 237), (356, 237), (357, 237), (476, 237)],
    [(118, 238), (237, 238), (357, 238), (358, 238), (477, 238), (119, 239), (238, 239), (358, 239), (359, 239), (478, 239)]]"

definition SF2_B_Inv_ind_1 :: "(nat \<times> nat) list" where
  "SF2_B_Inv_ind_1 = concat [
    [(0, 240), (239, 240), (359, 240), (479, 240), (1, 241), (120, 241), (240, 241), (360, 241), (2, 242), (121, 242)],
    [(241, 242), (361, 242), (3, 243), (122, 243), (242, 243), (362, 243), (4, 244), (123, 244), (243, 244), (363, 244)],
    [(5, 245), (124, 245), (244, 245), (364, 245), (6, 246), (125, 246), (245, 246), (365, 246), (7, 247), (126, 247)],
    [(246, 247), (366, 247), (8, 248), (127, 248), (247, 248), (367, 248), (9, 249), (128, 249), (248, 249), (368, 249)],
    [(10, 250), (129, 250), (249, 250), (369, 250), (11, 251), (130, 251), (250, 251), (370, 251), (12, 252), (131, 252)],
    [(251, 252), (371, 252), (13, 253), (132, 253), (252, 253), (372, 253), (14, 254), (133, 254), (253, 254), (373, 254)],
    [(15, 255), (134, 255), (254, 255), (374, 255), (16, 256), (135, 256), (255, 256), (375, 256), (17, 257), (136, 257)],
    [(256, 257), (376, 257), (18, 258), (137, 258), (257, 258), (377, 258), (19, 259), (138, 259), (258, 259), (378, 259)],
    [(20, 260), (139, 260), (259, 260), (379, 260), (21, 261), (140, 261), (260, 261), (380, 261), (22, 262), (141, 262)],
    [(261, 262), (381, 262), (23, 263), (142, 263), (262, 263), (382, 263), (24, 264), (143, 264), (263, 264), (383, 264)],
    [(25, 265), (144, 265), (264, 265), (384, 265), (26, 266), (145, 266), (265, 266), (385, 266), (27, 267), (146, 267)],
    [(266, 267), (386, 267), (28, 268), (147, 268), (267, 268), (387, 268), (29, 269), (148, 269), (268, 269), (388, 269)],
    [(30, 270), (149, 270), (269, 270), (389, 270), (31, 271), (150, 271), (270, 271), (390, 271), (32, 272), (151, 272)],
    [(271, 272), (391, 272), (33, 273), (152, 273), (272, 273), (392, 273), (34, 274), (153, 274), (273, 274), (393, 274)],
    [(35, 275), (154, 275), (274, 275), (394, 275), (36, 276), (155, 276), (275, 276), (395, 276), (37, 277), (156, 277)],
    [(276, 277), (396, 277), (38, 278), (157, 278), (277, 278), (397, 278), (39, 279), (158, 279), (278, 279), (398, 279)],
    [(40, 280), (159, 280), (279, 280), (399, 280), (41, 281), (160, 281), (280, 281), (400, 281), (42, 282), (161, 282)],
    [(281, 282), (401, 282), (43, 283), (162, 283), (282, 283), (402, 283), (44, 284), (163, 284), (283, 284), (403, 284)],
    [(45, 285), (164, 285), (284, 285), (404, 285), (46, 286), (165, 286), (285, 286), (405, 286), (47, 287), (166, 287)],
    [(286, 287), (406, 287), (48, 288), (167, 288), (287, 288), (407, 288), (49, 289), (168, 289), (288, 289), (408, 289)],
    [(50, 290), (169, 290), (289, 290), (409, 290), (51, 291), (170, 291), (290, 291), (410, 291), (52, 292), (171, 292)],
    [(291, 292), (411, 292), (53, 293), (172, 293), (292, 293), (412, 293), (54, 294), (173, 294), (293, 294), (413, 294)],
    [(55, 295), (174, 295), (294, 295), (414, 295), (56, 296), (175, 296), (295, 296), (415, 296), (57, 297), (176, 297)],
    [(296, 297), (416, 297), (58, 298), (177, 298), (297, 298), (417, 298), (59, 299), (178, 299), (298, 299), (418, 299)],
    [(60, 300), (179, 300), (299, 300), (419, 300), (61, 301), (180, 301), (300, 301), (420, 301), (62, 302), (181, 302)],
    [(301, 302), (421, 302), (63, 303), (182, 303), (302, 303), (422, 303), (64, 304), (183, 304), (303, 304), (423, 304)],
    [(65, 305), (184, 305), (304, 305), (424, 305), (66, 306), (185, 306), (305, 306), (425, 306), (67, 307), (186, 307)],
    [(306, 307), (426, 307), (68, 308), (187, 308), (307, 308), (427, 308), (69, 309), (188, 309), (308, 309), (428, 309)],
    [(70, 310), (189, 310), (309, 310), (429, 310), (71, 311), (190, 311), (310, 311), (430, 311), (72, 312), (191, 312)],
    [(311, 312), (431, 312), (73, 313), (192, 313), (312, 313), (432, 313), (74, 314), (193, 314), (313, 314), (433, 314)],
    [(75, 315), (194, 315), (314, 315), (434, 315), (76, 316), (195, 316), (315, 316), (435, 316), (77, 317), (196, 317)],
    [(316, 317), (436, 317), (78, 318), (197, 318), (317, 318), (437, 318), (79, 319), (198, 319), (318, 319), (438, 319)],
    [(80, 320), (199, 320), (319, 320), (439, 320), (81, 321), (200, 321), (320, 321), (440, 321), (82, 322), (201, 322)],
    [(321, 322), (441, 322), (83, 323), (202, 323), (322, 323), (442, 323), (84, 324), (203, 324), (323, 324), (443, 324)],
    [(85, 325), (204, 325), (324, 325), (444, 325), (86, 326), (205, 326), (325, 326), (445, 326), (87, 327), (206, 327)],
    [(326, 327), (446, 327), (88, 328), (207, 328), (327, 328), (447, 328), (89, 329), (208, 329), (328, 329), (448, 329)],
    [(90, 330), (209, 330), (329, 330), (449, 330), (91, 331), (210, 331), (330, 331), (450, 331), (92, 332), (211, 332)],
    [(331, 332), (451, 332), (93, 333), (212, 333), (332, 333), (452, 333), (94, 334), (213, 334), (333, 334), (453, 334)],
    [(95, 335), (214, 335), (334, 335), (454, 335), (96, 336), (215, 336), (335, 336), (455, 336), (97, 337), (216, 337)],
    [(336, 337), (456, 337), (98, 338), (217, 338), (337, 338), (457, 338), (99, 339), (218, 339), (338, 339), (458, 339)],
    [(100, 340), (219, 340), (339, 340), (459, 340), (101, 341), (220, 341), (340, 341), (460, 341), (102, 342), (221, 342)],
    [(341, 342), (461, 342), (103, 343), (222, 343), (342, 343), (462, 343), (104, 344), (223, 344), (343, 344), (463, 344)],
    [(105, 345), (224, 345), (344, 345), (464, 345), (106, 346), (225, 346), (345, 346), (465, 346), (107, 347), (226, 347)],
    [(346, 347), (466, 347), (108, 348), (227, 348), (347, 348), (467, 348), (109, 349), (228, 349), (348, 349), (468, 349)],
    [(110, 350), (229, 350), (349, 350), (469, 350), (111, 351), (230, 351), (350, 351), (470, 351), (112, 352), (231, 352)],
    [(351, 352), (471, 352), (113, 353), (232, 353), (352, 353), (472, 353), (114, 354), (233, 354), (353, 354), (473, 354)],
    [(115, 355), (234, 355), (354, 355), (474, 355), (116, 356), (235, 356), (355, 356), (475, 356), (117, 357), (236, 357)],
    [(356, 357), (476, 357), (118, 358), (237, 358), (357, 358), (477, 358), (119, 359), (238, 359), (358, 359), (478, 359)],
    [(0, 360), (239, 360), (359, 360), (360, 360), (479, 360), (1, 361), (120, 361), (240, 361), (360, 361), (361, 361)],
    [(2, 362), (121, 362), (241, 362), (361, 362), (362, 362), (3, 363), (122, 363), (242, 363), (362, 363), (363, 363)],
    [(4, 364), (123, 364), (243, 364), (363, 364), (364, 364), (5, 365), (124, 365), (244, 365), (364, 365), (365, 365)],
    [(6, 366), (125, 366), (245, 366), (365, 366), (366, 366), (7, 367), (126, 367), (246, 367), (366, 367), (367, 367)],
    [(8, 368), (127, 368), (247, 368), (367, 368), (368, 368), (9, 369), (128, 369), (248, 369), (368, 369), (369, 369)],
    [(10, 370), (129, 370), (249, 370), (369, 370), (370, 370), (11, 371), (130, 371), (250, 371), (370, 371), (371, 371)],
    [(12, 372), (131, 372), (251, 372), (371, 372), (372, 372), (13, 373), (132, 373), (252, 373), (372, 373), (373, 373)],
    [(14, 374), (133, 374), (253, 374), (373, 374), (374, 374), (15, 375), (134, 375), (254, 375), (374, 375), (375, 375)],
    [(16, 376), (135, 376), (255, 376), (375, 376), (376, 376), (17, 377), (136, 377), (256, 377), (376, 377), (377, 377)],
    [(18, 378), (137, 378), (257, 378), (377, 378), (378, 378), (19, 379), (138, 379), (258, 379), (378, 379), (379, 379)],
    [(20, 380), (139, 380), (259, 380), (379, 380), (380, 380), (21, 381), (140, 381), (260, 381), (380, 381), (381, 381)],
    [(22, 382), (141, 382), (261, 382), (381, 382), (382, 382), (23, 383), (142, 383), (262, 383), (382, 383), (383, 383)],
    [(24, 384), (143, 384), (263, 384), (383, 384), (384, 384), (25, 385), (144, 385), (264, 385), (384, 385), (385, 385)],
    [(26, 386), (145, 386), (265, 386), (385, 386), (386, 386), (27, 387), (146, 387), (266, 387), (386, 387), (387, 387)],
    [(28, 388), (147, 388), (267, 388), (387, 388), (388, 388), (29, 389), (148, 389), (268, 389), (388, 389), (389, 389)],
    [(30, 390), (149, 390), (269, 390), (389, 390), (390, 390), (31, 391), (150, 391), (270, 391), (390, 391), (391, 391)],
    [(32, 392), (151, 392), (271, 392), (391, 392), (392, 392), (33, 393), (152, 393), (272, 393), (392, 393), (393, 393)],
    [(34, 394), (153, 394), (273, 394), (393, 394), (394, 394), (35, 395), (154, 395), (274, 395), (394, 395), (395, 395)],
    [(36, 396), (155, 396), (275, 396), (395, 396), (396, 396), (37, 397), (156, 397), (276, 397), (396, 397), (397, 397)],
    [(38, 398), (157, 398), (277, 398), (397, 398), (398, 398), (39, 399), (158, 399), (278, 399), (398, 399), (399, 399)],
    [(40, 400), (159, 400), (279, 400), (399, 400), (400, 400), (41, 401), (160, 401), (280, 401), (400, 401), (401, 401)],
    [(42, 402), (161, 402), (281, 402), (401, 402), (402, 402), (43, 403), (162, 403), (282, 403), (402, 403), (403, 403)],
    [(44, 404), (163, 404), (283, 404), (403, 404), (404, 404), (45, 405), (164, 405), (284, 405), (404, 405), (405, 405)],
    [(46, 406), (165, 406), (285, 406), (405, 406), (406, 406), (47, 407), (166, 407), (286, 407), (406, 407), (407, 407)],
    [(48, 408), (167, 408), (287, 408), (407, 408), (408, 408), (49, 409), (168, 409), (288, 409), (408, 409), (409, 409)],
    [(50, 410), (169, 410), (289, 410), (409, 410), (410, 410), (51, 411), (170, 411), (290, 411), (410, 411), (411, 411)],
    [(52, 412), (171, 412), (291, 412), (411, 412), (412, 412), (53, 413), (172, 413), (292, 413), (412, 413), (413, 413)],
    [(54, 414), (173, 414), (293, 414), (413, 414), (414, 414), (55, 415), (174, 415), (294, 415), (414, 415), (415, 415)],
    [(56, 416), (175, 416), (295, 416), (415, 416), (416, 416), (57, 417), (176, 417), (296, 417), (416, 417), (417, 417)],
    [(58, 418), (177, 418), (297, 418), (417, 418), (418, 418), (59, 419), (178, 419), (298, 419), (418, 419), (419, 419)],
    [(60, 420), (179, 420), (299, 420), (419, 420), (420, 420), (61, 421), (180, 421), (300, 421), (420, 421), (421, 421)],
    [(62, 422), (181, 422), (301, 422), (421, 422), (422, 422), (63, 423), (182, 423), (302, 423), (422, 423), (423, 423)],
    [(64, 424), (183, 424), (303, 424), (423, 424), (424, 424), (65, 425), (184, 425), (304, 425), (424, 425), (425, 425)],
    [(66, 426), (185, 426), (305, 426), (425, 426), (426, 426), (67, 427), (186, 427), (306, 427), (426, 427), (427, 427)],
    [(68, 428), (187, 428), (307, 428), (427, 428), (428, 428), (69, 429), (188, 429), (308, 429), (428, 429), (429, 429)],
    [(70, 430), (189, 430), (309, 430), (429, 430), (430, 430), (71, 431), (190, 431), (310, 431), (430, 431), (431, 431)],
    [(72, 432), (191, 432), (311, 432), (431, 432), (432, 432), (73, 433), (192, 433), (312, 433), (432, 433), (433, 433)],
    [(74, 434), (193, 434), (313, 434), (433, 434), (434, 434), (75, 435), (194, 435), (314, 435), (434, 435), (435, 435)],
    [(76, 436), (195, 436), (315, 436), (435, 436), (436, 436), (77, 437), (196, 437), (316, 437), (436, 437), (437, 437)],
    [(78, 438), (197, 438), (317, 438), (437, 438), (438, 438), (79, 439), (198, 439), (318, 439), (438, 439), (439, 439)],
    [(80, 440), (199, 440), (319, 440), (439, 440), (440, 440), (81, 441), (200, 441), (320, 441), (440, 441), (441, 441)],
    [(82, 442), (201, 442), (321, 442), (441, 442), (442, 442), (83, 443), (202, 443), (322, 443), (442, 443), (443, 443)],
    [(84, 444), (203, 444), (323, 444), (443, 444), (444, 444), (85, 445), (204, 445), (324, 445), (444, 445), (445, 445)],
    [(86, 446), (205, 446), (325, 446), (445, 446), (446, 446), (87, 447), (206, 447), (326, 447), (446, 447), (447, 447)],
    [(88, 448), (207, 448), (327, 448), (447, 448), (448, 448), (89, 449), (208, 449), (328, 449), (448, 449), (449, 449)],
    [(90, 450), (209, 450), (329, 450), (449, 450), (450, 450), (91, 451), (210, 451), (330, 451), (450, 451), (451, 451)],
    [(92, 452), (211, 452), (331, 452), (451, 452), (452, 452), (93, 453), (212, 453), (332, 453), (452, 453), (453, 453)],
    [(94, 454), (213, 454), (333, 454), (453, 454), (454, 454), (95, 455), (214, 455), (334, 455), (454, 455), (455, 455)],
    [(96, 456), (215, 456), (335, 456), (455, 456), (456, 456), (97, 457), (216, 457), (336, 457), (456, 457), (457, 457)],
    [(98, 458), (217, 458), (337, 458), (457, 458), (458, 458), (99, 459), (218, 459), (338, 459), (458, 459), (459, 459)],
    [(100, 460), (219, 460), (339, 460), (459, 460), (460, 460), (101, 461), (220, 461), (340, 461), (460, 461), (461, 461)],
    [(102, 462), (221, 462), (341, 462), (461, 462), (462, 462), (103, 463), (222, 463), (342, 463), (462, 463), (463, 463)],
    [(104, 464), (223, 464), (343, 464), (463, 464), (464, 464), (105, 465), (224, 465), (344, 465), (464, 465), (465, 465)],
    [(106, 466), (225, 466), (345, 466), (465, 466), (466, 466), (107, 467), (226, 467), (346, 467), (466, 467), (467, 467)],
    [(108, 468), (227, 468), (347, 468), (467, 468), (468, 468), (109, 469), (228, 469), (348, 469), (468, 469), (469, 469)],
    [(110, 470), (229, 470), (349, 470), (469, 470), (470, 470), (111, 471), (230, 471), (350, 471), (470, 471), (471, 471)],
    [(112, 472), (231, 472), (351, 472), (471, 472), (472, 472), (113, 473), (232, 473), (352, 473), (472, 473), (473, 473)],
    [(114, 474), (233, 474), (353, 474), (473, 474), (474, 474), (115, 475), (234, 475), (354, 475), (474, 475), (475, 475)],
    [(116, 476), (235, 476), (355, 476), (475, 476), (476, 476), (117, 477), (236, 477), (356, 477), (476, 477), (477, 477)],
    [(118, 478), (237, 478), (357, 478), (477, 478), (478, 478), (119, 479), (238, 479), (358, 479), (478, 479), (479, 479)]]"

definition SF2_B_Inv_ind :: "(nat \<times> nat) list" where
  "SF2_B_Inv_ind = SF2_B_Inv_ind_0 @ SF2_B_Inv_ind_1"

section \<open>Every position is inside its matrix\<close>

lemma SF2_A_ind_0_bounds: "list_all (in_dims 480 1200) SF2_A_ind_0"
  unfolding SF2_A_ind_0_def by (simp add: list_all_concat in_dims_Pair)

lemma SF2_A_ind_1_bounds: "list_all (in_dims 480 1200) SF2_A_ind_1"
  unfolding SF2_A_ind_1_def by (simp add: list_all_concat in_dims_Pair)

lemma SF2_A_ind_2_bounds: "list_all (in_dims 480 1200) SF2_A_ind_2"
  unfolding SF2_A_ind_2_def by (simp add: list_all_concat in_dims_Pair)

lemma SF2_A_ind_bounds: "list_all (in_dims 480 1200) SF2_A_ind"
  unfolding SF2_A_ind_def list_all_append
  by (intro conjI SF2_A_ind_0_bounds SF2_A_ind_1_bounds SF2_A_ind_2_bounds)

lemma SF2_B_ind_bounds: "list_all (in_dims 480 480) SF2_B_ind"
  unfolding SF2_B_ind_def by (simp add: list_all_concat in_dims_Pair)

lemma SF2_D_ind_0_bounds: "list_all (in_dims 4560 480) SF2_D_ind_0"
  unfolding SF2_D_ind_0_def by (simp add: list_all_concat in_dims_Pair)

lemma SF2_D_ind_1_bounds: "list_all (in_dims 4560 480) SF2_D_ind_1"
  unfolding SF2_D_ind_1_def by (simp add: list_all_concat in_dims_Pair)

lemma SF2_D_ind_2_bounds: "list_all (in_dims 4560 480) SF2_D_ind_2"
  unfolding SF2_D_ind_2_def by (simp add: list_all_concat in_dims_Pair)

lemma SF2_D_ind_3_bounds: "list_all (in_dims 4560 480) SF2_D_ind_3"
  unfolding SF2_D_ind_3_def by (simp add: list_all_concat in_dims_Pair)

lemma SF2_D_ind_bounds: "list_all (in_dims 4560 480) SF2_D_ind"
  unfolding SF2_D_ind_def list_all_append
  by (intro conjI SF2_D_ind_0_bounds SF2_D_ind_1_bounds SF2_D_ind_2_bounds SF2_D_ind_3_bounds)

lemma SF2_B_Inv_ind_0_bounds: "list_all (in_dims 480 480) SF2_B_Inv_ind_0"
  unfolding SF2_B_Inv_ind_0_def by (simp add: list_all_concat in_dims_Pair)

lemma SF2_B_Inv_ind_1_bounds: "list_all (in_dims 480 480) SF2_B_Inv_ind_1"
  unfolding SF2_B_Inv_ind_1_def by (simp add: list_all_concat in_dims_Pair)

lemma SF2_B_Inv_ind_bounds: "list_all (in_dims 480 480) SF2_B_Inv_ind"
  unfolding SF2_B_Inv_ind_def list_all_append
  by (intro conjI SF2_B_Inv_ind_0_bounds SF2_B_Inv_ind_1_bounds)

end
