(* ===== verification/Afs_Inv_SF2.thy ===== *)
theory Afs_Inv_SF2
  imports Afs_Tab_SF2
begin

text \<open>
  The table \<open>SF2_B_Inv_ind\<close> is the inverse of the table \<open>SF2_B_ind\<close> over GF(2): evaluated column by
  column, in two halves.
\<close>

lemma SF2_unit_cols_0:
  "unit_cols (nt_build SF2_B_ind) (nt_build SF2_B_Inv_ind_0) [0..<240]"
  apply (rule unit_cols_eval)
    apply (simp only: SF2_B_ind_def nt_build_eval)
   apply (simp only: SF2_B_Inv_ind_0_def nt_build_eval)
  apply (simp add: upt_lit_eval upt_rec_numeral del: One_nat_def)
  apply (simp only: unit_cols_simps cong: nt_congs)
  done

lemma SF2_unit_cols_1:
  "unit_cols (nt_build SF2_B_ind) (nt_build SF2_B_Inv_ind_1) [240..<480]"
  apply (rule unit_cols_eval)
    apply (simp only: SF2_B_ind_def nt_build_eval)
   apply (simp only: SF2_B_Inv_ind_1_def nt_build_eval)
  apply (simp add: upt_lit_eval upt_rec_numeral del: One_nat_def)
  apply (simp only: unit_cols_simps cong: nt_congs)
  done

lemma SF2_B_Inv_cols:
  "list_all (\<lambda>p. snd p < 240) SF2_B_Inv_ind_0" "list_all (\<lambda>p. 240 \<le> snd p) SF2_B_Inv_ind_1"
  unfolding SF2_B_Inv_ind_0_def SF2_B_Inv_ind_1_def by (simp_all add: list_all_concat)

lemma SF2_right_inverse: "right_inverse (set SF2_B_ind) (set SF2_B_Inv_ind) 480"
  unfolding SF2_B_Inv_ind_def
  by (rule right_inverse_halves [OF SF2_unit_cols_0 SF2_unit_cols_1 SF2_B_Inv_cols])
    (use SF2_B_Inv_ind_bounds in \<open>auto simp: SF2_B_Inv_ind_def list_all_iff in_dims_def\<close>)

end
