(* ===== verification/Afs_Tab_SF3.thy ===== *)
theory Afs_Tab_SF3
  imports Afs_Gf2
begin

text \<open>
  The submatrices \<open>A\<close>, \<open>B\<close>, \<open>D\<close> and the inverse of \<open>B\<close> of the LDPC code of subframes 3 and 4, as the
  index tables of \<open>afs_nav.c\<close> list them.
\<close>

section \<open>SF3_A: positions in a matrix of 352 rows and 880 columns\<close>

definition SF3_A_ind_0 :: "(nat \<times> nat) list" where
  "SF3_A_ind_0 = concat [
    [(20, 0), (159, 0), (254, 0), (21, 1), (160, 1), (255, 1), (22, 2), (161, 2), (256, 2), (23, 3)],
    [(162, 3), (257, 3), (24, 4), (163, 4), (258, 4), (25, 5), (164, 5), (259, 5), (26, 6), (165, 6)],
    [(260, 6), (27, 7), (166, 7), (261, 7), (28, 8), (167, 8), (262, 8), (29, 9), (168, 9), (263, 9)],
    [(30, 10), (169, 10), (176, 10), (31, 11), (170, 11), (177, 11), (32, 12), (171, 12), (178, 12), (33, 13)],
    [(172, 13), (179, 13), (34, 14), (173, 14), (180, 14), (35, 15), (174, 15), (181, 15), (36, 16), (175, 16)],
    [(182, 16), (37, 17), (88, 17), (183, 17), (38, 18), (89, 18), (184, 18), (39, 19), (90, 19), (185, 19)],
    [(40, 20), (91, 20), (186, 20), (41, 21), (92, 21), (187, 21), (42, 22), (93, 22), (188, 22), (43, 23)],
    [(94, 23), (189, 23), (44, 24), (95, 24), (190, 24), (45, 25), (96, 25), (191, 25), (46, 26), (97, 26)],
    [(192, 26), (47, 27), (98, 27), (193, 27), (48, 28), (99, 28), (194, 28), (49, 29), (100, 29), (195, 29)],
    [(50, 30), (101, 30), (196, 30), (51, 31), (102, 31), (197, 31), (52, 32), (103, 32), (198, 32), (53, 33)],
    [(104, 33), (199, 33), (54, 34), (105, 34), (200, 34), (55, 35), (106, 35), (201, 35), (56, 36), (107, 36)],
    [(202, 36), (57, 37), (108, 37), (203, 37), (58, 38), (109, 38), (204, 38), (59, 39), (110, 39), (205, 39)],
    [(60, 40), (111, 40), (206, 40), (61, 41), (112, 41), (207, 41), (62, 42), (113, 42), (208, 42), (63, 43)],
    [(114, 43), (209, 43), (64, 44), (115, 44), (210, 44), (65, 45), (116, 45), (211, 45), (66, 46), (117, 46)],
    [(212, 46), (67, 47), (118, 47), (213, 47), (68, 48), (119, 48), (214, 48), (69, 49), (120, 49), (215, 49)],
    [(70, 50), (121, 50), (216, 50), (71, 51), (122, 51), (217, 51), (72, 52), (123, 52), (218, 52), (73, 53)],
    [(124, 53), (219, 53), (74, 54), (125, 54), (220, 54), (75, 55), (126, 55), (221, 55), (76, 56), (127, 56)],
    [(222, 56), (77, 57), (128, 57), (223, 57), (78, 58), (129, 58), (224, 58), (79, 59), (130, 59), (225, 59)],
    [(80, 60), (131, 60), (226, 60), (81, 61), (132, 61), (227, 61), (82, 62), (133, 62), (228, 62), (83, 63)],
    [(134, 63), (229, 63), (84, 64), (135, 64), (230, 64), (85, 65), (136, 65), (231, 65), (86, 66), (137, 66)],
    [(232, 66), (87, 67), (138, 67), (233, 67), (0, 68), (139, 68), (234, 68), (1, 69), (140, 69), (235, 69)],
    [(2, 70), (141, 70), (236, 70), (3, 71), (142, 71), (237, 71), (4, 72), (143, 72), (238, 72), (5, 73)],
    [(144, 73), (239, 73), (6, 74), (145, 74), (240, 74), (7, 75), (146, 75), (241, 75), (8, 76), (147, 76)],
    [(242, 76), (9, 77), (148, 77), (243, 77), (10, 78), (149, 78), (244, 78), (11, 79), (150, 79), (245, 79)],
    [(12, 80), (151, 80), (246, 80), (13, 81), (152, 81), (247, 81), (14, 82), (153, 82), (248, 82), (15, 83)],
    [(154, 83), (249, 83), (16, 84), (155, 84), (250, 84), (17, 85), (156, 85), (251, 85), (18, 86), (157, 86)],
    [(252, 86), (19, 87), (158, 87), (253, 87), (33, 88), (184, 88), (299, 88), (34, 89), (185, 89), (300, 89)],
    [(35, 90), (186, 90), (301, 90), (36, 91), (187, 91), (302, 91), (37, 92), (188, 92), (303, 92), (38, 93)],
    [(189, 93), (304, 93), (39, 94), (190, 94), (305, 94), (40, 95), (191, 95), (306, 95), (41, 96), (192, 96)],
    [(307, 96), (42, 97), (193, 97), (308, 97), (43, 98), (194, 98), (309, 98), (44, 99), (195, 99), (310, 99)],
    [(45, 100), (196, 100), (311, 100), (46, 101), (197, 101), (312, 101), (47, 102), (198, 102), (313, 102), (48, 103)],
    [(199, 103), (314, 103), (49, 104), (200, 104), (315, 104), (50, 105), (201, 105), (316, 105), (51, 106), (202, 106)],
    [(317, 106), (52, 107), (203, 107), (318, 107), (53, 108), (204, 108), (319, 108), (54, 109), (205, 109), (320, 109)],
    [(55, 110), (206, 110), (321, 110), (56, 111), (207, 111), (322, 111), (57, 112), (208, 112), (323, 112), (58, 113)],
    [(209, 113), (324, 113), (59, 114), (210, 114), (325, 114), (60, 115), (211, 115), (326, 115), (61, 116), (212, 116)],
    [(327, 116), (62, 117), (213, 117), (328, 117), (63, 118), (214, 118), (329, 118), (64, 119), (215, 119), (330, 119)],
    [(65, 120), (216, 120), (331, 120), (66, 121), (217, 121), (332, 121), (67, 122), (218, 122), (333, 122), (68, 123)],
    [(219, 123), (334, 123), (69, 124), (220, 124), (335, 124), (70, 125), (221, 125), (336, 125), (71, 126), (222, 126)],
    [(337, 126), (72, 127), (223, 127), (338, 127), (73, 128), (224, 128), (339, 128), (74, 129), (225, 129), (340, 129)],
    [(75, 130), (226, 130), (341, 130), (76, 131), (227, 131), (342, 131), (77, 132), (228, 132), (343, 132), (78, 133)],
    [(229, 133), (344, 133), (79, 134), (230, 134), (345, 134), (80, 135), (231, 135), (346, 135), (81, 136), (232, 136)],
    [(347, 136), (82, 137), (233, 137), (348, 137), (83, 138), (234, 138), (349, 138), (84, 139), (235, 139), (350, 139)],
    [(85, 140), (236, 140), (351, 140), (86, 141), (237, 141), (264, 141), (87, 142), (238, 142), (265, 142), (0, 143)],
    [(239, 143), (266, 143), (1, 144), (240, 144), (267, 144), (2, 145), (241, 145), (268, 145), (3, 146), (242, 146)],
    [(269, 146), (4, 147), (243, 147), (270, 147), (5, 148), (244, 148), (271, 148), (6, 149), (245, 149), (272, 149)],
    [(7, 150), (246, 150), (273, 150), (8, 151), (247, 151), (274, 151), (9, 152), (248, 152), (275, 152), (10, 153)],
    [(249, 153), (276, 153), (11, 154), (250, 154), (277, 154), (12, 155), (251, 155), (278, 155), (13, 156), (252, 156)],
    [(279, 156), (14, 157), (253, 157), (280, 157), (15, 158), (254, 158), (281, 158), (16, 159), (255, 159), (282, 159)],
    [(17, 160), (256, 160), (283, 160), (18, 161), (257, 161), (284, 161), (19, 162), (258, 162), (285, 162), (20, 163)],
    [(259, 163), (286, 163), (21, 164), (260, 164), (287, 164), (22, 165), (261, 165), (288, 165), (23, 166), (262, 166)],
    [(289, 166), (24, 167), (263, 167), (290, 167), (25, 168), (176, 168), (291, 168), (26, 169), (177, 169), (292, 169)],
    [(27, 170), (178, 170), (293, 170), (28, 171), (179, 171), (294, 171), (29, 172), (180, 172), (295, 172), (30, 173)],
    [(181, 173), (296, 173), (31, 174), (182, 174), (297, 174), (32, 175), (183, 175), (298, 175), (74, 176), (266, 176)],
    [(75, 177), (267, 177), (76, 178), (268, 178), (77, 179), (269, 179), (78, 180), (270, 180), (79, 181), (271, 181)],
    [(80, 182), (272, 182), (81, 183), (273, 183), (82, 184), (274, 184), (83, 185), (275, 185), (84, 186), (276, 186)],
    [(85, 187), (277, 187), (86, 188), (278, 188), (87, 189), (279, 189), (0, 190), (280, 190), (1, 191), (281, 191)],
    [(2, 192), (282, 192), (3, 193), (283, 193), (4, 194), (284, 194), (5, 195), (285, 195), (6, 196), (286, 196)],
    [(7, 197), (287, 197), (8, 198), (288, 198), (9, 199), (289, 199), (10, 200), (290, 200), (11, 201), (291, 201)],
    [(12, 202), (292, 202), (13, 203), (293, 203), (14, 204), (294, 204), (15, 205), (295, 205), (16, 206), (296, 206)],
    [(17, 207), (297, 207), (18, 208), (298, 208), (19, 209), (299, 209), (20, 210), (300, 210), (21, 211), (301, 211)],
    [(22, 212), (302, 212), (23, 213), (303, 213), (24, 214), (304, 214), (25, 215), (305, 215), (26, 216), (306, 216)],
    [(27, 217), (307, 217), (28, 218), (308, 218), (29, 219), (309, 219), (30, 220), (310, 220), (31, 221), (311, 221)],
    [(32, 222), (312, 222), (33, 223), (313, 223), (34, 224), (314, 224), (35, 225), (315, 225), (36, 226), (316, 226)],
    [(37, 227), (317, 227), (38, 228), (318, 228), (39, 229), (319, 229), (40, 230), (320, 230), (41, 231), (321, 231)],
    [(42, 232), (322, 232), (43, 233), (323, 233), (44, 234), (324, 234), (45, 235), (325, 235), (46, 236), (326, 236)],
    [(47, 237), (327, 237), (48, 238), (328, 238), (49, 239), (329, 239), (50, 240), (330, 240), (51, 241), (331, 241)],
    [(52, 242), (332, 242), (53, 243), (333, 243), (54, 244), (334, 244), (55, 245), (335, 245), (56, 246), (336, 246)],
    [(57, 247), (337, 247), (58, 248), (338, 248), (59, 249), (339, 249), (60, 250), (340, 250), (61, 251), (341, 251)],
    [(62, 252), (342, 252), (63, 253), (343, 253), (64, 254), (344, 254), (65, 255), (345, 255), (66, 256), (346, 256)],
    [(67, 257), (347, 257), (68, 258), (348, 258), (69, 259), (349, 259), (70, 260), (350, 260), (71, 261), (351, 261)],
    [(72, 262), (264, 262), (73, 263), (265, 263), (85, 264), (111, 264), (245, 264), (86, 265), (112, 265), (246, 265)],
    [(87, 266), (113, 266), (247, 266), (0, 267), (114, 267), (248, 267), (1, 268), (115, 268), (249, 268), (2, 269)],
    [(116, 269), (250, 269), (3, 270), (117, 270), (251, 270), (4, 271), (118, 271), (252, 271), (5, 272), (119, 272)],
    [(253, 272), (6, 273), (120, 273), (254, 273), (7, 274), (121, 274), (255, 274), (8, 275), (122, 275), (256, 275)],
    [(9, 276), (123, 276), (257, 276), (10, 277), (124, 277), (258, 277), (11, 278), (125, 278), (259, 278), (12, 279)],
    [(126, 279), (260, 279), (13, 280), (127, 280), (261, 280), (14, 281), (128, 281), (262, 281), (15, 282), (129, 282)],
    [(263, 282), (16, 283), (130, 283), (176, 283), (17, 284), (131, 284), (177, 284), (18, 285), (132, 285), (178, 285)],
    [(19, 286), (133, 286), (179, 286), (20, 287), (134, 287), (180, 287), (21, 288), (135, 288), (181, 288), (22, 289)],
    [(136, 289), (182, 289), (23, 290), (137, 290), (183, 290), (24, 291), (138, 291), (184, 291), (25, 292), (139, 292)],
    [(185, 292), (26, 293), (140, 293), (186, 293), (27, 294), (141, 294), (187, 294), (28, 295), (142, 295), (188, 295)],
    [(29, 296), (143, 296), (189, 296), (30, 297), (144, 297), (190, 297), (31, 298), (145, 298), (191, 298), (32, 299)],
    [(146, 299), (192, 299), (33, 300), (147, 300), (193, 300), (34, 301), (148, 301), (194, 301), (35, 302), (149, 302)],
    [(195, 302), (36, 303), (150, 303), (196, 303), (37, 304), (151, 304), (197, 304), (38, 305), (152, 305), (198, 305)],
    [(39, 306), (153, 306), (199, 306), (40, 307), (154, 307), (200, 307), (41, 308), (155, 308), (201, 308), (42, 309)],
    [(156, 309), (202, 309), (43, 310), (157, 310), (203, 310), (44, 311), (158, 311), (204, 311), (45, 312), (159, 312)],
    [(205, 312), (46, 313), (160, 313), (206, 313), (47, 314), (161, 314), (207, 314), (48, 315), (162, 315), (208, 315)],
    [(49, 316), (163, 316), (209, 316), (50, 317), (164, 317), (210, 317), (51, 318), (165, 318), (211, 318), (52, 319)],
    [(166, 319), (212, 319), (53, 320), (167, 320), (213, 320), (54, 321), (168, 321), (214, 321), (55, 322), (169, 322)],
    [(215, 322), (56, 323), (170, 323), (216, 323), (57, 324), (171, 324), (217, 324), (58, 325), (172, 325), (218, 325)],
    [(59, 326), (173, 326), (219, 326), (60, 327), (174, 327), (220, 327), (61, 328), (175, 328), (221, 328), (62, 329)],
    [(88, 329), (222, 329), (63, 330), (89, 330), (223, 330), (64, 331), (90, 331), (224, 331), (65, 332), (91, 332)],
    [(225, 332), (66, 333), (92, 333), (226, 333), (67, 334), (93, 334), (227, 334), (68, 335), (94, 335), (228, 335)],
    [(69, 336), (95, 336), (229, 336), (70, 337), (96, 337), (230, 337), (71, 338), (97, 338), (231, 338), (72, 339)],
    [(98, 339), (232, 339), (73, 340), (99, 340), (233, 340), (74, 341), (100, 341), (234, 341), (75, 342), (101, 342)],
    [(235, 342), (76, 343), (102, 343), (236, 343), (77, 344), (103, 344), (237, 344), (78, 345), (104, 345), (238, 345)],
    [(79, 346), (105, 346), (239, 346), (80, 347), (106, 347), (240, 347), (81, 348), (107, 348), (241, 348), (82, 349)],
    [(108, 349), (242, 349), (83, 350), (109, 350), (243, 350), (84, 351), (110, 351), (244, 351), (113, 352), (182, 352)],
    [(266, 352), (114, 353), (183, 353), (267, 353), (115, 354), (184, 354), (268, 354), (116, 355), (185, 355), (269, 355)],
    [(117, 356), (186, 356), (270, 356), (118, 357), (187, 357), (271, 357), (119, 358), (188, 358), (272, 358), (120, 359)],
    [(189, 359), (273, 359), (121, 360), (190, 360), (274, 360), (122, 361), (191, 361), (275, 361), (123, 362), (192, 362)],
    [(276, 362), (124, 363), (193, 363), (277, 363), (125, 364), (194, 364), (278, 364), (126, 365), (195, 365), (279, 365)],
    [(127, 366), (196, 366), (280, 366), (128, 367), (197, 367), (281, 367), (129, 368), (198, 368), (282, 368), (130, 369)],
    [(199, 369), (283, 369), (131, 370), (200, 370), (284, 370), (132, 371), (201, 371), (285, 371), (133, 372), (202, 372)],
    [(286, 372), (134, 373), (203, 373), (287, 373), (135, 374), (204, 374), (288, 374), (136, 375), (205, 375), (289, 375)],
    [(137, 376), (206, 376), (290, 376), (138, 377), (207, 377), (291, 377), (139, 378), (208, 378), (292, 378), (140, 379)],
    [(209, 379), (293, 379), (141, 380), (210, 380), (294, 380), (142, 381), (211, 381), (295, 381), (143, 382), (212, 382)],
    [(296, 382), (144, 383), (213, 383), (297, 383), (145, 384), (214, 384), (298, 384), (146, 385), (215, 385), (299, 385)],
    [(147, 386), (216, 386), (300, 386), (148, 387), (217, 387), (301, 387), (149, 388), (218, 388), (302, 388), (150, 389)],
    [(219, 389), (303, 389), (151, 390), (220, 390), (304, 390), (152, 391), (221, 391), (305, 391), (153, 392), (222, 392)],
    [(306, 392), (154, 393), (223, 393), (307, 393), (155, 394), (224, 394), (308, 394), (156, 395), (225, 395), (309, 395)],
    [(157, 396), (226, 396), (310, 396), (158, 397), (227, 397), (311, 397), (159, 398), (228, 398), (312, 398), (160, 399)],
    [(229, 399), (313, 399), (161, 400), (230, 400), (314, 400), (162, 401), (231, 401), (315, 401), (163, 402), (232, 402)],
    [(316, 402), (164, 403), (233, 403), (317, 403), (165, 404), (234, 404), (318, 404), (166, 405), (235, 405), (319, 405)],
    [(167, 406), (236, 406), (320, 406), (168, 407), (237, 407), (321, 407), (169, 408), (238, 408), (322, 408), (170, 409)],
    [(239, 409), (323, 409), (171, 410), (240, 410), (324, 410), (172, 411), (241, 411), (325, 411), (173, 412), (242, 412)],
    [(326, 412), (174, 413), (243, 413), (327, 413), (175, 414), (244, 414), (328, 414), (88, 415), (245, 415), (329, 415)],
    [(89, 416), (246, 416), (330, 416), (90, 417), (247, 417), (331, 417), (91, 418), (248, 418), (332, 418), (92, 419)],
    [(249, 419), (333, 419), (93, 420), (250, 420), (334, 420), (94, 421), (251, 421), (335, 421), (95, 422), (252, 422)],
    [(336, 422), (96, 423), (253, 423), (337, 423), (97, 424), (254, 424), (338, 424), (98, 425), (255, 425), (339, 425)],
    [(99, 426), (256, 426), (340, 426), (100, 427), (257, 427), (341, 427), (101, 428), (258, 428), (342, 428), (102, 429)],
    [(259, 429), (343, 429), (103, 430), (260, 430), (344, 430), (104, 431), (261, 431), (345, 431), (105, 432), (262, 432)],
    [(346, 432), (106, 433), (263, 433), (347, 433), (107, 434), (176, 434), (348, 434), (108, 435), (177, 435), (349, 435)],
    [(109, 436), (178, 436), (350, 436), (110, 437), (179, 437), (351, 437), (111, 438), (180, 438), (264, 438), (112, 439)],
    [(181, 439), (265, 439), (175, 440), (313, 440), (88, 441), (314, 441), (89, 442), (315, 442), (90, 443), (316, 443)],
    [(91, 444), (317, 444), (92, 445), (318, 445), (93, 446), (319, 446), (94, 447), (320, 447), (95, 448), (321, 448)],
    [(96, 449), (322, 449), (97, 450), (323, 450), (98, 451), (324, 451), (99, 452), (325, 452), (100, 453), (326, 453)],
    [(101, 454), (327, 454), (102, 455), (328, 455), (103, 456), (329, 456), (104, 457), (330, 457), (105, 458), (331, 458)],
    [(106, 459), (332, 459), (107, 460), (333, 460), (108, 461), (334, 461), (109, 462), (335, 462), (110, 463), (336, 463)],
    [(111, 464), (337, 464), (112, 465), (338, 465), (113, 466), (339, 466), (114, 467), (340, 467), (115, 468), (341, 468)],
    [(116, 469), (342, 469), (117, 470), (343, 470), (118, 471), (344, 471), (119, 472), (345, 472), (120, 473), (346, 473)],
    [(121, 474), (347, 474), (122, 475), (348, 475), (123, 476), (349, 476), (124, 477), (350, 477), (125, 478), (351, 478)],
    [(126, 479), (264, 479), (127, 480), (265, 480), (128, 481), (266, 481), (129, 482), (267, 482), (130, 483), (268, 483)],
    [(131, 484), (269, 484), (132, 485), (270, 485), (133, 486), (271, 486), (134, 487), (272, 487), (135, 488), (273, 488)],
    [(136, 489), (274, 489), (137, 490), (275, 490), (138, 491), (276, 491), (139, 492), (277, 492), (140, 493), (278, 493)],
    [(141, 494), (279, 494), (142, 495), (280, 495), (143, 496), (281, 496), (144, 497), (282, 497), (145, 498), (283, 498)],
    [(146, 499), (284, 499), (147, 500), (285, 500), (148, 501), (286, 501), (149, 502), (287, 502), (150, 503), (288, 503)],
    [(151, 504), (289, 504), (152, 505), (290, 505), (153, 506), (291, 506), (154, 507), (292, 507), (155, 508), (293, 508)],
    [(156, 509), (294, 509), (157, 510), (295, 510), (158, 511), (296, 511), (159, 512), (297, 512), (160, 513), (298, 513)],
    [(161, 514), (299, 514), (162, 515), (300, 515), (163, 516), (301, 516), (164, 517), (302, 517), (165, 518), (303, 518)],
    [(166, 519), (304, 519), (167, 520), (305, 520), (168, 521), (306, 521), (169, 522), (307, 522), (170, 523), (308, 523)],
    [(171, 524), (309, 524), (172, 525), (310, 525), (173, 526), (311, 526), (174, 527), (312, 527), (48, 528), (121, 528)],
    [(335, 528), (49, 529), (122, 529), (336, 529), (50, 530), (123, 530), (337, 530), (51, 531), (124, 531), (338, 531)],
    [(52, 532), (125, 532), (339, 532), (53, 533), (126, 533), (340, 533), (54, 534), (127, 534), (341, 534), (55, 535)],
    [(128, 535), (342, 535), (56, 536), (129, 536), (343, 536), (57, 537), (130, 537), (344, 537), (58, 538), (131, 538)],
    [(345, 538), (59, 539), (132, 539), (346, 539), (60, 540), (133, 540), (347, 540), (61, 541), (134, 541), (348, 541)],
    [(62, 542), (135, 542), (349, 542), (63, 543), (136, 543), (350, 543), (64, 544), (137, 544), (351, 544), (65, 545)],
    [(138, 545), (264, 545), (66, 546), (139, 546), (265, 546), (67, 547), (140, 547), (266, 547), (68, 548), (141, 548)]]"

definition SF3_A_ind_1 :: "(nat \<times> nat) list" where
  "SF3_A_ind_1 = concat [
    [(267, 548), (69, 549), (142, 549), (268, 549), (70, 550), (143, 550), (269, 550), (71, 551), (144, 551), (270, 551)],
    [(72, 552), (145, 552), (271, 552), (73, 553), (146, 553), (272, 553), (74, 554), (147, 554), (273, 554), (75, 555)],
    [(148, 555), (274, 555), (76, 556), (149, 556), (275, 556), (77, 557), (150, 557), (276, 557), (78, 558), (151, 558)],
    [(277, 558), (79, 559), (152, 559), (278, 559), (80, 560), (153, 560), (279, 560), (81, 561), (154, 561), (280, 561)],
    [(82, 562), (155, 562), (281, 562), (83, 563), (156, 563), (282, 563), (84, 564), (157, 564), (283, 564), (85, 565)],
    [(158, 565), (284, 565), (86, 566), (159, 566), (285, 566), (87, 567), (160, 567), (286, 567), (0, 568), (161, 568)],
    [(287, 568), (1, 569), (162, 569), (288, 569), (2, 570), (163, 570), (289, 570), (3, 571), (164, 571), (290, 571)],
    [(4, 572), (165, 572), (291, 572), (5, 573), (166, 573), (292, 573), (6, 574), (167, 574), (293, 574), (7, 575)],
    [(168, 575), (294, 575), (8, 576), (169, 576), (295, 576), (9, 577), (170, 577), (296, 577), (10, 578), (171, 578)],
    [(297, 578), (11, 579), (172, 579), (298, 579), (12, 580), (173, 580), (299, 580), (13, 581), (174, 581), (300, 581)],
    [(14, 582), (175, 582), (301, 582), (15, 583), (88, 583), (302, 583), (16, 584), (89, 584), (303, 584), (17, 585)],
    [(90, 585), (304, 585), (18, 586), (91, 586), (305, 586), (19, 587), (92, 587), (306, 587), (20, 588), (93, 588)],
    [(307, 588), (21, 589), (94, 589), (308, 589), (22, 590), (95, 590), (309, 590), (23, 591), (96, 591), (310, 591)],
    [(24, 592), (97, 592), (311, 592), (25, 593), (98, 593), (312, 593), (26, 594), (99, 594), (313, 594), (27, 595)],
    [(100, 595), (314, 595), (28, 596), (101, 596), (315, 596), (29, 597), (102, 597), (316, 597), (30, 598), (103, 598)],
    [(317, 598), (31, 599), (104, 599), (318, 599), (32, 600), (105, 600), (319, 600), (33, 601), (106, 601), (320, 601)],
    [(34, 602), (107, 602), (321, 602), (35, 603), (108, 603), (322, 603), (36, 604), (109, 604), (323, 604), (37, 605)],
    [(110, 605), (324, 605), (38, 606), (111, 606), (325, 606), (39, 607), (112, 607), (326, 607), (40, 608), (113, 608)],
    [(327, 608), (41, 609), (114, 609), (328, 609), (42, 610), (115, 610), (329, 610), (43, 611), (116, 611), (330, 611)],
    [(44, 612), (117, 612), (331, 612), (45, 613), (118, 613), (332, 613), (46, 614), (119, 614), (333, 614), (47, 615)],
    [(120, 615), (334, 615), (139, 616), (351, 616), (140, 617), (264, 617), (141, 618), (265, 618), (142, 619), (266, 619)],
    [(143, 620), (267, 620), (144, 621), (268, 621), (145, 622), (269, 622), (146, 623), (270, 623), (147, 624), (271, 624)],
    [(148, 625), (272, 625), (149, 626), (273, 626), (150, 627), (274, 627), (151, 628), (275, 628), (152, 629), (276, 629)],
    [(153, 630), (277, 630), (154, 631), (278, 631), (155, 632), (279, 632), (156, 633), (280, 633), (157, 634), (281, 634)],
    [(158, 635), (282, 635), (159, 636), (283, 636), (160, 637), (284, 637), (161, 638), (285, 638), (162, 639), (286, 639)],
    [(163, 640), (287, 640), (164, 641), (288, 641), (165, 642), (289, 642), (166, 643), (290, 643), (167, 644), (291, 644)],
    [(168, 645), (292, 645), (169, 646), (293, 646), (170, 647), (294, 647), (171, 648), (295, 648), (172, 649), (296, 649)],
    [(173, 650), (297, 650), (174, 651), (298, 651), (175, 652), (299, 652), (88, 653), (300, 653), (89, 654), (301, 654)],
    [(90, 655), (302, 655), (91, 656), (303, 656), (92, 657), (304, 657), (93, 658), (305, 658), (94, 659), (306, 659)],
    [(95, 660), (307, 660), (96, 661), (308, 661), (97, 662), (309, 662), (98, 663), (310, 663), (99, 664), (311, 664)],
    [(100, 665), (312, 665), (101, 666), (313, 666), (102, 667), (314, 667), (103, 668), (315, 668), (104, 669), (316, 669)],
    [(105, 670), (317, 670), (106, 671), (318, 671), (107, 672), (319, 672), (108, 673), (320, 673), (109, 674), (321, 674)],
    [(110, 675), (322, 675), (111, 676), (323, 676), (112, 677), (324, 677), (113, 678), (325, 678), (114, 679), (326, 679)],
    [(115, 680), (327, 680), (116, 681), (328, 681), (117, 682), (329, 682), (118, 683), (330, 683), (119, 684), (331, 684)],
    [(120, 685), (332, 685), (121, 686), (333, 686), (122, 687), (334, 687), (123, 688), (335, 688), (124, 689), (336, 689)],
    [(125, 690), (337, 690), (126, 691), (338, 691), (127, 692), (339, 692), (128, 693), (340, 693), (129, 694), (341, 694)],
    [(130, 695), (342, 695), (131, 696), (343, 696), (132, 697), (344, 697), (133, 698), (345, 698), (134, 699), (346, 699)],
    [(135, 700), (347, 700), (136, 701), (348, 701), (137, 702), (349, 702), (138, 703), (350, 703), (93, 704), (210, 704)],
    [(335, 704), (94, 705), (211, 705), (336, 705), (95, 706), (212, 706), (337, 706), (96, 707), (213, 707), (338, 707)],
    [(97, 708), (214, 708), (339, 708), (98, 709), (215, 709), (340, 709), (99, 710), (216, 710), (341, 710), (100, 711)],
    [(217, 711), (342, 711), (101, 712), (218, 712), (343, 712), (102, 713), (219, 713), (344, 713), (103, 714), (220, 714)],
    [(345, 714), (104, 715), (221, 715), (346, 715), (105, 716), (222, 716), (347, 716), (106, 717), (223, 717), (348, 717)],
    [(107, 718), (224, 718), (349, 718), (108, 719), (225, 719), (350, 719), (109, 720), (226, 720), (351, 720), (110, 721)],
    [(227, 721), (264, 721), (111, 722), (228, 722), (265, 722), (112, 723), (229, 723), (266, 723), (113, 724), (230, 724)],
    [(267, 724), (114, 725), (231, 725), (268, 725), (115, 726), (232, 726), (269, 726), (116, 727), (233, 727), (270, 727)],
    [(117, 728), (234, 728), (271, 728), (118, 729), (235, 729), (272, 729), (119, 730), (236, 730), (273, 730), (120, 731)],
    [(237, 731), (274, 731), (121, 732), (238, 732), (275, 732), (122, 733), (239, 733), (276, 733), (123, 734), (240, 734)],
    [(277, 734), (124, 735), (241, 735), (278, 735), (125, 736), (242, 736), (279, 736), (126, 737), (243, 737), (280, 737)],
    [(127, 738), (244, 738), (281, 738), (128, 739), (245, 739), (282, 739), (129, 740), (246, 740), (283, 740), (130, 741)],
    [(247, 741), (284, 741), (131, 742), (248, 742), (285, 742), (132, 743), (249, 743), (286, 743), (133, 744), (250, 744)],
    [(287, 744), (134, 745), (251, 745), (288, 745), (135, 746), (252, 746), (289, 746), (136, 747), (253, 747), (290, 747)],
    [(137, 748), (254, 748), (291, 748), (138, 749), (255, 749), (292, 749), (139, 750), (256, 750), (293, 750), (140, 751)],
    [(257, 751), (294, 751), (141, 752), (258, 752), (295, 752), (142, 753), (259, 753), (296, 753), (143, 754), (260, 754)],
    [(297, 754), (144, 755), (261, 755), (298, 755), (145, 756), (262, 756), (299, 756), (146, 757), (263, 757), (300, 757)],
    [(147, 758), (176, 758), (301, 758), (148, 759), (177, 759), (302, 759), (149, 760), (178, 760), (303, 760), (150, 761)],
    [(179, 761), (304, 761), (151, 762), (180, 762), (305, 762), (152, 763), (181, 763), (306, 763), (153, 764), (182, 764)],
    [(307, 764), (154, 765), (183, 765), (308, 765), (155, 766), (184, 766), (309, 766), (156, 767), (185, 767), (310, 767)],
    [(157, 768), (186, 768), (311, 768), (158, 769), (187, 769), (312, 769), (159, 770), (188, 770), (313, 770), (160, 771)],
    [(189, 771), (314, 771), (161, 772), (190, 772), (315, 772), (162, 773), (191, 773), (316, 773), (163, 774), (192, 774)],
    [(317, 774), (164, 775), (193, 775), (318, 775), (165, 776), (194, 776), (319, 776), (166, 777), (195, 777), (320, 777)],
    [(167, 778), (196, 778), (321, 778), (168, 779), (197, 779), (322, 779), (169, 780), (198, 780), (323, 780), (170, 781)],
    [(199, 781), (324, 781), (171, 782), (200, 782), (325, 782), (172, 783), (201, 783), (326, 783), (173, 784), (202, 784)],
    [(327, 784), (174, 785), (203, 785), (328, 785), (175, 786), (204, 786), (329, 786), (88, 787), (205, 787), (330, 787)],
    [(89, 788), (206, 788), (331, 788), (90, 789), (207, 789), (332, 789), (91, 790), (208, 790), (333, 790), (92, 791)],
    [(209, 791), (334, 791), (53, 792), (131, 792), (335, 792), (54, 793), (132, 793), (336, 793), (55, 794), (133, 794)],
    [(337, 794), (56, 795), (134, 795), (338, 795), (57, 796), (135, 796), (339, 796), (58, 797), (136, 797), (340, 797)],
    [(59, 798), (137, 798), (341, 798), (60, 799), (138, 799), (342, 799), (61, 800), (139, 800), (343, 800), (62, 801)],
    [(140, 801), (344, 801), (63, 802), (141, 802), (345, 802), (64, 803), (142, 803), (346, 803), (65, 804), (143, 804)],
    [(347, 804), (66, 805), (144, 805), (348, 805), (67, 806), (145, 806), (349, 806), (68, 807), (146, 807), (350, 807)],
    [(69, 808), (147, 808), (351, 808), (70, 809), (148, 809), (264, 809), (71, 810), (149, 810), (265, 810), (72, 811)],
    [(150, 811), (266, 811), (73, 812), (151, 812), (267, 812), (74, 813), (152, 813), (268, 813), (75, 814), (153, 814)],
    [(269, 814), (76, 815), (154, 815), (270, 815), (77, 816), (155, 816), (271, 816), (78, 817), (156, 817), (272, 817)],
    [(79, 818), (157, 818), (273, 818), (80, 819), (158, 819), (274, 819), (81, 820), (159, 820), (275, 820), (82, 821)],
    [(160, 821), (276, 821), (83, 822), (161, 822), (277, 822), (84, 823), (162, 823), (278, 823), (85, 824), (163, 824)],
    [(279, 824), (86, 825), (164, 825), (280, 825), (87, 826), (165, 826), (281, 826), (0, 827), (166, 827), (282, 827)],
    [(1, 828), (167, 828), (283, 828), (2, 829), (168, 829), (284, 829), (3, 830), (169, 830), (285, 830), (4, 831)],
    [(170, 831), (286, 831), (5, 832), (171, 832), (287, 832), (6, 833), (172, 833), (288, 833), (7, 834), (173, 834)],
    [(289, 834), (8, 835), (174, 835), (290, 835), (9, 836), (175, 836), (291, 836), (10, 837), (88, 837), (292, 837)],
    [(11, 838), (89, 838), (293, 838), (12, 839), (90, 839), (294, 839), (13, 840), (91, 840), (295, 840), (14, 841)],
    [(92, 841), (296, 841), (15, 842), (93, 842), (297, 842), (16, 843), (94, 843), (298, 843), (17, 844), (95, 844)],
    [(299, 844), (18, 845), (96, 845), (300, 845), (19, 846), (97, 846), (301, 846), (20, 847), (98, 847), (302, 847)],
    [(21, 848), (99, 848), (303, 848), (22, 849), (100, 849), (304, 849), (23, 850), (101, 850), (305, 850), (24, 851)],
    [(102, 851), (306, 851), (25, 852), (103, 852), (307, 852), (26, 853), (104, 853), (308, 853), (27, 854), (105, 854)],
    [(309, 854), (28, 855), (106, 855), (310, 855), (29, 856), (107, 856), (311, 856), (30, 857), (108, 857), (312, 857)],
    [(31, 858), (109, 858), (313, 858), (32, 859), (110, 859), (314, 859), (33, 860), (111, 860), (315, 860), (34, 861)],
    [(112, 861), (316, 861), (35, 862), (113, 862), (317, 862), (36, 863), (114, 863), (318, 863), (37, 864), (115, 864)],
    [(319, 864), (38, 865), (116, 865), (320, 865), (39, 866), (117, 866), (321, 866), (40, 867), (118, 867), (322, 867)],
    [(41, 868), (119, 868), (323, 868), (42, 869), (120, 869), (324, 869), (43, 870), (121, 870), (325, 870), (44, 871)],
    [(122, 871), (326, 871), (45, 872), (123, 872), (327, 872), (46, 873), (124, 873), (328, 873), (47, 874), (125, 874)],
    [(329, 874), (48, 875), (126, 875), (330, 875), (49, 876), (127, 876), (331, 876), (50, 877), (128, 877), (332, 877)],
    [(51, 878), (129, 878), (333, 878), (52, 879), (130, 879), (334, 879)]]"

definition SF3_A_ind :: "(nat \<times> nat) list" where
  "SF3_A_ind = SF3_A_ind_0 @ SF3_A_ind_1"

section \<open>SF3_B: positions in a matrix of 352 rows and 352 columns\<close>

definition SF3_B_ind :: "(nat \<times> nat) list" where
  "SF3_B_ind = concat [
    [(0, 0), (263, 0), (264, 0), (1, 1), (176, 1), (265, 1), (2, 2), (177, 2), (266, 2), (3, 3)],
    [(178, 3), (267, 3), (4, 4), (179, 4), (268, 4), (5, 5), (180, 5), (269, 5), (6, 6), (181, 6)],
    [(270, 6), (7, 7), (182, 7), (271, 7), (8, 8), (183, 8), (272, 8), (9, 9), (184, 9), (273, 9)],
    [(10, 10), (185, 10), (274, 10), (11, 11), (186, 11), (275, 11), (12, 12), (187, 12), (276, 12), (13, 13)],
    [(188, 13), (277, 13), (14, 14), (189, 14), (278, 14), (15, 15), (190, 15), (279, 15), (16, 16), (191, 16)],
    [(280, 16), (17, 17), (192, 17), (281, 17), (18, 18), (193, 18), (282, 18), (19, 19), (194, 19), (283, 19)],
    [(20, 20), (195, 20), (284, 20), (21, 21), (196, 21), (285, 21), (22, 22), (197, 22), (286, 22), (23, 23)],
    [(198, 23), (287, 23), (24, 24), (199, 24), (288, 24), (25, 25), (200, 25), (289, 25), (26, 26), (201, 26)],
    [(290, 26), (27, 27), (202, 27), (291, 27), (28, 28), (203, 28), (292, 28), (29, 29), (204, 29), (293, 29)],
    [(30, 30), (205, 30), (294, 30), (31, 31), (206, 31), (295, 31), (32, 32), (207, 32), (296, 32), (33, 33)],
    [(208, 33), (297, 33), (34, 34), (209, 34), (298, 34), (35, 35), (210, 35), (299, 35), (36, 36), (211, 36)],
    [(300, 36), (37, 37), (212, 37), (301, 37), (38, 38), (213, 38), (302, 38), (39, 39), (214, 39), (303, 39)],
    [(40, 40), (215, 40), (304, 40), (41, 41), (216, 41), (305, 41), (42, 42), (217, 42), (306, 42), (43, 43)],
    [(218, 43), (307, 43), (44, 44), (219, 44), (308, 44), (45, 45), (220, 45), (309, 45), (46, 46), (221, 46)],
    [(310, 46), (47, 47), (222, 47), (311, 47), (48, 48), (223, 48), (312, 48), (49, 49), (224, 49), (313, 49)],
    [(50, 50), (225, 50), (314, 50), (51, 51), (226, 51), (315, 51), (52, 52), (227, 52), (316, 52), (53, 53)],
    [(228, 53), (317, 53), (54, 54), (229, 54), (318, 54), (55, 55), (230, 55), (319, 55), (56, 56), (231, 56)],
    [(320, 56), (57, 57), (232, 57), (321, 57), (58, 58), (233, 58), (322, 58), (59, 59), (234, 59), (323, 59)],
    [(60, 60), (235, 60), (324, 60), (61, 61), (236, 61), (325, 61), (62, 62), (237, 62), (326, 62), (63, 63)],
    [(238, 63), (327, 63), (64, 64), (239, 64), (328, 64), (65, 65), (240, 65), (329, 65), (66, 66), (241, 66)],
    [(330, 66), (67, 67), (242, 67), (331, 67), (68, 68), (243, 68), (332, 68), (69, 69), (244, 69), (333, 69)],
    [(70, 70), (245, 70), (334, 70), (71, 71), (246, 71), (335, 71), (72, 72), (247, 72), (336, 72), (73, 73)],
    [(248, 73), (337, 73), (74, 74), (249, 74), (338, 74), (75, 75), (250, 75), (339, 75), (76, 76), (251, 76)],
    [(340, 76), (77, 77), (252, 77), (341, 77), (78, 78), (253, 78), (342, 78), (79, 79), (254, 79), (343, 79)],
    [(80, 80), (255, 80), (344, 80), (81, 81), (256, 81), (345, 81), (82, 82), (257, 82), (346, 82), (83, 83)],
    [(258, 83), (347, 83), (84, 84), (259, 84), (348, 84), (85, 85), (260, 85), (349, 85), (86, 86), (261, 86)],
    [(350, 86), (87, 87), (262, 87), (351, 87), (0, 88), (88, 88), (1, 89), (89, 89), (2, 90), (90, 90)],
    [(3, 91), (91, 91), (4, 92), (92, 92), (5, 93), (93, 93), (6, 94), (94, 94), (7, 95), (95, 95)],
    [(8, 96), (96, 96), (9, 97), (97, 97), (10, 98), (98, 98), (11, 99), (99, 99), (12, 100), (100, 100)],
    [(13, 101), (101, 101), (14, 102), (102, 102), (15, 103), (103, 103), (16, 104), (104, 104), (17, 105), (105, 105)],
    [(18, 106), (106, 106), (19, 107), (107, 107), (20, 108), (108, 108), (21, 109), (109, 109), (22, 110), (110, 110)],
    [(23, 111), (111, 111), (24, 112), (112, 112), (25, 113), (113, 113), (26, 114), (114, 114), (27, 115), (115, 115)],
    [(28, 116), (116, 116), (29, 117), (117, 117), (30, 118), (118, 118), (31, 119), (119, 119), (32, 120), (120, 120)],
    [(33, 121), (121, 121), (34, 122), (122, 122), (35, 123), (123, 123), (36, 124), (124, 124), (37, 125), (125, 125)],
    [(38, 126), (126, 126), (39, 127), (127, 127), (40, 128), (128, 128), (41, 129), (129, 129), (42, 130), (130, 130)],
    [(43, 131), (131, 131), (44, 132), (132, 132), (45, 133), (133, 133), (46, 134), (134, 134), (47, 135), (135, 135)],
    [(48, 136), (136, 136), (49, 137), (137, 137), (50, 138), (138, 138), (51, 139), (139, 139), (52, 140), (140, 140)],
    [(53, 141), (141, 141), (54, 142), (142, 142), (55, 143), (143, 143), (56, 144), (144, 144), (57, 145), (145, 145)],
    [(58, 146), (146, 146), (59, 147), (147, 147), (60, 148), (148, 148), (61, 149), (149, 149), (62, 150), (150, 150)],
    [(63, 151), (151, 151), (64, 152), (152, 152), (65, 153), (153, 153), (66, 154), (154, 154), (67, 155), (155, 155)],
    [(68, 156), (156, 156), (69, 157), (157, 157), (70, 158), (158, 158), (71, 159), (159, 159), (72, 160), (160, 160)],
    [(73, 161), (161, 161), (74, 162), (162, 162), (75, 163), (163, 163), (76, 164), (164, 164), (77, 165), (165, 165)],
    [(78, 166), (166, 166), (79, 167), (167, 167), (80, 168), (168, 168), (81, 169), (169, 169), (82, 170), (170, 170)],
    [(83, 171), (171, 171), (84, 172), (172, 172), (85, 173), (173, 173), (86, 174), (174, 174), (87, 175), (175, 175)],
    [(88, 176), (176, 176), (89, 177), (177, 177), (90, 178), (178, 178), (91, 179), (179, 179), (92, 180), (180, 180)],
    [(93, 181), (181, 181), (94, 182), (182, 182), (95, 183), (183, 183), (96, 184), (184, 184), (97, 185), (185, 185)],
    [(98, 186), (186, 186), (99, 187), (187, 187), (100, 188), (188, 188), (101, 189), (189, 189), (102, 190), (190, 190)],
    [(103, 191), (191, 191), (104, 192), (192, 192), (105, 193), (193, 193), (106, 194), (194, 194), (107, 195), (195, 195)],
    [(108, 196), (196, 196), (109, 197), (197, 197), (110, 198), (198, 198), (111, 199), (199, 199), (112, 200), (200, 200)],
    [(113, 201), (201, 201), (114, 202), (202, 202), (115, 203), (203, 203), (116, 204), (204, 204), (117, 205), (205, 205)],
    [(118, 206), (206, 206), (119, 207), (207, 207), (120, 208), (208, 208), (121, 209), (209, 209), (122, 210), (210, 210)],
    [(123, 211), (211, 211), (124, 212), (212, 212), (125, 213), (213, 213), (126, 214), (214, 214), (127, 215), (215, 215)],
    [(128, 216), (216, 216), (129, 217), (217, 217), (130, 218), (218, 218), (131, 219), (219, 219), (132, 220), (220, 220)],
    [(133, 221), (221, 221), (134, 222), (222, 222), (135, 223), (223, 223), (136, 224), (224, 224), (137, 225), (225, 225)],
    [(138, 226), (226, 226), (139, 227), (227, 227), (140, 228), (228, 228), (141, 229), (229, 229), (142, 230), (230, 230)],
    [(143, 231), (231, 231), (144, 232), (232, 232), (145, 233), (233, 233), (146, 234), (234, 234), (147, 235), (235, 235)],
    [(148, 236), (236, 236), (149, 237), (237, 237), (150, 238), (238, 238), (151, 239), (239, 239), (152, 240), (240, 240)],
    [(153, 241), (241, 241), (154, 242), (242, 242), (155, 243), (243, 243), (156, 244), (244, 244), (157, 245), (245, 245)],
    [(158, 246), (246, 246), (159, 247), (247, 247), (160, 248), (248, 248), (161, 249), (249, 249), (162, 250), (250, 250)],
    [(163, 251), (251, 251), (164, 252), (252, 252), (165, 253), (253, 253), (166, 254), (254, 254), (167, 255), (255, 255)],
    [(168, 256), (256, 256), (169, 257), (257, 257), (170, 258), (258, 258), (171, 259), (259, 259), (172, 260), (260, 260)],
    [(173, 261), (261, 261), (174, 262), (262, 262), (175, 263), (263, 263), (176, 264), (264, 264), (177, 265), (265, 265)],
    [(178, 266), (266, 266), (179, 267), (267, 267), (180, 268), (268, 268), (181, 269), (269, 269), (182, 270), (270, 270)],
    [(183, 271), (271, 271), (184, 272), (272, 272), (185, 273), (273, 273), (186, 274), (274, 274), (187, 275), (275, 275)],
    [(188, 276), (276, 276), (189, 277), (277, 277), (190, 278), (278, 278), (191, 279), (279, 279), (192, 280), (280, 280)],
    [(193, 281), (281, 281), (194, 282), (282, 282), (195, 283), (283, 283), (196, 284), (284, 284), (197, 285), (285, 285)],
    [(198, 286), (286, 286), (199, 287), (287, 287), (200, 288), (288, 288), (201, 289), (289, 289), (202, 290), (290, 290)],
    [(203, 291), (291, 291), (204, 292), (292, 292), (205, 293), (293, 293), (206, 294), (294, 294), (207, 295), (295, 295)],
    [(208, 296), (296, 296), (209, 297), (297, 297), (210, 298), (298, 298), (211, 299), (299, 299), (212, 300), (300, 300)],
    [(213, 301), (301, 301), (214, 302), (302, 302), (215, 303), (303, 303), (216, 304), (304, 304), (217, 305), (305, 305)],
    [(218, 306), (306, 306), (219, 307), (307, 307), (220, 308), (308, 308), (221, 309), (309, 309), (222, 310), (310, 310)],
    [(223, 311), (311, 311), (224, 312), (312, 312), (225, 313), (313, 313), (226, 314), (314, 314), (227, 315), (315, 315)],
    [(228, 316), (316, 316), (229, 317), (317, 317), (230, 318), (318, 318), (231, 319), (319, 319), (232, 320), (320, 320)],
    [(233, 321), (321, 321), (234, 322), (322, 322), (235, 323), (323, 323), (236, 324), (324, 324), (237, 325), (325, 325)],
    [(238, 326), (326, 326), (239, 327), (327, 327), (240, 328), (328, 328), (241, 329), (329, 329), (242, 330), (330, 330)],
    [(243, 331), (331, 331), (244, 332), (332, 332), (245, 333), (333, 333), (246, 334), (334, 334), (247, 335), (335, 335)],
    [(248, 336), (336, 336), (249, 337), (337, 337), (250, 338), (338, 338), (251, 339), (339, 339), (252, 340), (340, 340)],
    [(253, 341), (341, 341), (254, 342), (342, 342), (255, 343), (343, 343), (256, 344), (344, 344), (257, 345), (345, 345)],
    [(258, 346), (346, 346), (259, 347), (347, 347), (260, 348), (348, 348), (261, 349), (349, 349), (262, 350), (350, 350)],
    [(263, 351), (351, 351)]]"

section \<open>SF3_D: positions in a matrix of 3344 rows and 352 columns\<close>

definition SF3_D_ind_0 :: "(nat \<times> nat) list" where
  "SF3_D_ind_0 = concat [
    [(517, 0), (1041, 0), (1351, 0), (2611, 0), (2913, 0), (3188, 0), (518, 1), (1042, 1), (1352, 1), (2612, 1)],
    [(2914, 1), (3189, 1), (519, 2), (1043, 2), (1353, 2), (2613, 2), (2915, 2), (3190, 2), (520, 3), (1044, 3)],
    [(1354, 3), (2614, 3), (2916, 3), (3191, 3), (521, 4), (1045, 4), (1355, 4), (2615, 4), (2917, 4), (3192, 4)],
    [(522, 5), (1046, 5), (1356, 5), (2616, 5), (2918, 5), (3193, 5), (523, 6), (1047, 6), (1357, 6), (2617, 6)],
    [(2919, 6), (3194, 6), (524, 7), (1048, 7), (1358, 7), (2618, 7), (2920, 7), (3195, 7), (525, 8), (1049, 8)],
    [(1359, 8), (2619, 8), (2921, 8), (3196, 8), (526, 9), (1050, 9), (1360, 9), (2620, 9), (2922, 9), (3197, 9)],
    [(527, 10), (1051, 10), (1361, 10), (2621, 10), (2923, 10), (3198, 10), (440, 11), (1052, 11), (1362, 11), (2622, 11)],
    [(2924, 11), (3199, 11), (441, 12), (1053, 12), (1363, 12), (2623, 12), (2925, 12), (3200, 12), (442, 13), (1054, 13)],
    [(1364, 13), (2624, 13), (2926, 13), (3201, 13), (443, 14), (1055, 14), (1365, 14), (2625, 14), (2927, 14), (3202, 14)],
    [(444, 15), (968, 15), (1366, 15), (2626, 15), (2928, 15), (3203, 15), (445, 16), (969, 16), (1367, 16), (2627, 16)],
    [(2929, 16), (3204, 16), (446, 17), (970, 17), (1368, 17), (2628, 17), (2930, 17), (3205, 17), (447, 18), (971, 18)],
    [(1369, 18), (2629, 18), (2931, 18), (3206, 18), (448, 19), (972, 19), (1370, 19), (2630, 19), (2932, 19), (3207, 19)],
    [(449, 20), (973, 20), (1371, 20), (2631, 20), (2933, 20), (3208, 20), (450, 21), (974, 21), (1372, 21), (2632, 21)],
    [(2934, 21), (3209, 21), (451, 22), (975, 22), (1373, 22), (2633, 22), (2935, 22), (3210, 22), (452, 23), (976, 23)],
    [(1374, 23), (2634, 23), (2936, 23), (3211, 23), (453, 24), (977, 24), (1375, 24), (2635, 24), (2937, 24), (3212, 24)],
    [(454, 25), (978, 25), (1376, 25), (2636, 25), (2938, 25), (3213, 25), (455, 26), (979, 26), (1377, 26), (2637, 26)],
    [(2939, 26), (3214, 26), (456, 27), (980, 27), (1378, 27), (2638, 27), (2940, 27), (3215, 27), (457, 28), (981, 28)],
    [(1379, 28), (2639, 28), (2941, 28), (3216, 28), (458, 29), (982, 29), (1380, 29), (2552, 29), (2942, 29), (3217, 29)],
    [(459, 30), (983, 30), (1381, 30), (2553, 30), (2943, 30), (3218, 30), (460, 31), (984, 31), (1382, 31), (2554, 31)],
    [(2944, 31), (3219, 31), (461, 32), (985, 32), (1383, 32), (2555, 32), (2945, 32), (3220, 32), (462, 33), (986, 33)],
    [(1384, 33), (2556, 33), (2946, 33), (3221, 33), (463, 34), (987, 34), (1385, 34), (2557, 34), (2947, 34), (3222, 34)],
    [(464, 35), (988, 35), (1386, 35), (2558, 35), (2948, 35), (3223, 35), (465, 36), (989, 36), (1387, 36), (2559, 36)],
    [(2949, 36), (3224, 36), (466, 37), (990, 37), (1388, 37), (2560, 37), (2950, 37), (3225, 37), (467, 38), (991, 38)],
    [(1389, 38), (2561, 38), (2951, 38), (3226, 38), (468, 39), (992, 39), (1390, 39), (2562, 39), (2952, 39), (3227, 39)],
    [(469, 40), (993, 40), (1391, 40), (2563, 40), (2953, 40), (3228, 40), (470, 41), (994, 41), (1392, 41), (2564, 41)],
    [(2954, 41), (3229, 41), (471, 42), (995, 42), (1393, 42), (2565, 42), (2955, 42), (3230, 42), (472, 43), (996, 43)],
    [(1394, 43), (2566, 43), (2956, 43), (3231, 43), (473, 44), (997, 44), (1395, 44), (2567, 44), (2957, 44), (3232, 44)],
    [(474, 45), (998, 45), (1396, 45), (2568, 45), (2958, 45), (3233, 45), (475, 46), (999, 46), (1397, 46), (2569, 46)],
    [(2959, 46), (3234, 46), (476, 47), (1000, 47), (1398, 47), (2570, 47), (2960, 47), (3235, 47), (477, 48), (1001, 48)],
    [(1399, 48), (2571, 48), (2961, 48), (3236, 48), (478, 49), (1002, 49), (1400, 49), (2572, 49), (2962, 49), (3237, 49)],
    [(479, 50), (1003, 50), (1401, 50), (2573, 50), (2963, 50), (3238, 50), (480, 51), (1004, 51), (1402, 51), (2574, 51)],
    [(2964, 51), (3239, 51), (481, 52), (1005, 52), (1403, 52), (2575, 52), (2965, 52), (3240, 52), (482, 53), (1006, 53)],
    [(1404, 53), (2576, 53), (2966, 53), (3241, 53), (483, 54), (1007, 54), (1405, 54), (2577, 54), (2967, 54), (3242, 54)],
    [(484, 55), (1008, 55), (1406, 55), (2578, 55), (2968, 55), (3243, 55), (485, 56), (1009, 56), (1407, 56), (2579, 56)],
    [(2969, 56), (3244, 56), (486, 57), (1010, 57), (1320, 57), (2580, 57), (2970, 57), (3245, 57), (487, 58), (1011, 58)],
    [(1321, 58), (2581, 58), (2971, 58), (3246, 58), (488, 59), (1012, 59), (1322, 59), (2582, 59), (2972, 59), (3247, 59)],
    [(489, 60), (1013, 60), (1323, 60), (2583, 60), (2973, 60), (3248, 60), (490, 61), (1014, 61), (1324, 61), (2584, 61)],
    [(2974, 61), (3249, 61), (491, 62), (1015, 62), (1325, 62), (2585, 62), (2975, 62), (3250, 62), (492, 63), (1016, 63)],
    [(1326, 63), (2586, 63), (2976, 63), (3251, 63), (493, 64), (1017, 64), (1327, 64), (2587, 64), (2977, 64), (3252, 64)],
    [(494, 65), (1018, 65), (1328, 65), (2588, 65), (2978, 65), (3253, 65), (495, 66), (1019, 66), (1329, 66), (2589, 66)],
    [(2979, 66), (3254, 66), (496, 67), (1020, 67), (1330, 67), (2590, 67), (2980, 67), (3255, 67), (497, 68), (1021, 68)],
    [(1331, 68), (2591, 68), (2981, 68), (3168, 68), (498, 69), (1022, 69), (1332, 69), (2592, 69), (2982, 69), (3169, 69)],
    [(499, 70), (1023, 70), (1333, 70), (2593, 70), (2983, 70), (3170, 70), (500, 71), (1024, 71), (1334, 71), (2594, 71)],
    [(2984, 71), (3171, 71), (501, 72), (1025, 72), (1335, 72), (2595, 72), (2985, 72), (3172, 72), (502, 73), (1026, 73)],
    [(1336, 73), (2596, 73), (2986, 73), (3173, 73), (503, 74), (1027, 74), (1337, 74), (2597, 74), (2987, 74), (3174, 74)],
    [(504, 75), (1028, 75), (1338, 75), (2598, 75), (2988, 75), (3175, 75), (505, 76), (1029, 76), (1339, 76), (2599, 76)],
    [(2989, 76), (3176, 76), (506, 77), (1030, 77), (1340, 77), (2600, 77), (2990, 77), (3177, 77), (507, 78), (1031, 78)],
    [(1341, 78), (2601, 78), (2991, 78), (3178, 78), (508, 79), (1032, 79), (1342, 79), (2602, 79), (2904, 79), (3179, 79)],
    [(509, 80), (1033, 80), (1343, 80), (2603, 80), (2905, 80), (3180, 80), (510, 81), (1034, 81), (1344, 81), (2604, 81)],
    [(2906, 81), (3181, 81), (511, 82), (1035, 82), (1345, 82), (2605, 82), (2907, 82), (3182, 82), (512, 83), (1036, 83)],
    [(1346, 83), (2606, 83), (2908, 83), (3183, 83), (513, 84), (1037, 84), (1347, 84), (2607, 84), (2909, 84), (3184, 84)],
    [(514, 85), (1038, 85), (1348, 85), (2608, 85), (2910, 85), (3185, 85), (515, 86), (1039, 86), (1349, 86), (2609, 86)],
    [(2911, 86), (3186, 86), (516, 87), (1040, 87), (1350, 87), (2610, 87), (2912, 87), (3187, 87), (5, 88), (116, 88)],
    [(235, 88), (305, 88), (464, 88), (788, 88), (960, 88), (1016, 88), (1127, 88), (1170, 88), (1411, 88), (2732, 88)],
    [(3061, 88), (3336, 88), (6, 89), (117, 89), (236, 89), (306, 89), (465, 89), (789, 89), (961, 89), (1017, 89)],
    [(1128, 89), (1171, 89), (1412, 89), (2733, 89), (3062, 89), (3337, 89), (7, 90), (118, 90), (237, 90), (307, 90)],
    [(466, 90), (790, 90), (962, 90), (1018, 90), (1129, 90), (1172, 90), (1413, 90), (2734, 90), (3063, 90), (3338, 90)],
    [(8, 91), (119, 91), (238, 91), (308, 91), (467, 91), (791, 91), (963, 91), (1019, 91), (1130, 91), (1173, 91)],
    [(1414, 91), (2735, 91), (3064, 91), (3339, 91), (9, 92), (120, 92), (239, 92), (309, 92), (468, 92), (704, 92)],
    [(964, 92), (1020, 92), (1131, 92), (1174, 92), (1415, 92), (2736, 92), (3065, 92), (3340, 92), (10, 93), (121, 93)],
    [(240, 93), (310, 93), (469, 93), (705, 93), (965, 93), (1021, 93), (1132, 93), (1175, 93), (1416, 93), (2737, 93)],
    [(3066, 93), (3341, 93), (11, 94), (122, 94), (241, 94), (311, 94), (470, 94), (706, 94), (966, 94), (1022, 94)],
    [(1133, 94), (1176, 94), (1417, 94), (2738, 94), (3067, 94), (3342, 94), (12, 95), (123, 95), (242, 95), (312, 95)],
    [(471, 95), (707, 95), (967, 95), (1023, 95), (1134, 95), (1177, 95), (1418, 95), (2739, 95), (3068, 95), (3343, 95)],
    [(13, 96), (124, 96), (243, 96), (313, 96), (472, 96), (708, 96), (880, 96), (1024, 96), (1135, 96), (1178, 96)],
    [(1419, 96), (2740, 96), (3069, 96), (3256, 96), (14, 97), (125, 97), (244, 97), (314, 97), (473, 97), (709, 97)],
    [(881, 97), (1025, 97), (1136, 97), (1179, 97), (1420, 97), (2741, 97), (3070, 97), (3257, 97), (15, 98), (126, 98)],
    [(245, 98), (315, 98), (474, 98), (710, 98), (882, 98), (1026, 98), (1137, 98), (1180, 98), (1421, 98), (2742, 98)],
    [(3071, 98), (3258, 98), (16, 99), (127, 99), (246, 99), (316, 99), (475, 99), (711, 99), (883, 99), (1027, 99)],
    [(1138, 99), (1181, 99), (1422, 99), (2743, 99), (3072, 99), (3259, 99), (17, 100), (128, 100), (247, 100), (317, 100)],
    [(476, 100), (712, 100), (884, 100), (1028, 100), (1139, 100), (1182, 100), (1423, 100), (2744, 100), (3073, 100), (3260, 100)],
    [(18, 101), (129, 101), (248, 101), (318, 101), (477, 101), (713, 101), (885, 101), (1029, 101), (1140, 101), (1183, 101)],
    [(1424, 101), (2745, 101), (3074, 101), (3261, 101), (19, 102), (130, 102), (249, 102), (319, 102), (478, 102), (714, 102)],
    [(886, 102), (1030, 102), (1141, 102), (1184, 102), (1425, 102), (2746, 102), (3075, 102), (3262, 102), (20, 103), (131, 103)],
    [(250, 103), (320, 103), (479, 103), (715, 103), (887, 103), (1031, 103), (1142, 103), (1185, 103), (1426, 103), (2747, 103)],
    [(3076, 103), (3263, 103), (21, 104), (132, 104), (251, 104), (321, 104), (480, 104), (716, 104), (888, 104), (1032, 104)],
    [(1143, 104), (1186, 104), (1427, 104), (2748, 104), (3077, 104), (3264, 104), (22, 105), (133, 105), (252, 105), (322, 105)],
    [(481, 105), (717, 105), (889, 105), (1033, 105), (1056, 105), (1187, 105), (1428, 105), (2749, 105), (3078, 105), (3265, 105)],
    [(23, 106), (134, 106), (253, 106), (323, 106), (482, 106), (718, 106), (890, 106), (1034, 106), (1057, 106), (1188, 106)],
    [(1429, 106), (2750, 106), (3079, 106), (3266, 106), (24, 107), (135, 107), (254, 107), (324, 107), (483, 107), (719, 107)],
    [(891, 107), (1035, 107), (1058, 107), (1189, 107), (1430, 107), (2751, 107), (2992, 107), (3267, 107), (25, 108), (136, 108)],
    [(255, 108), (325, 108), (484, 108), (720, 108), (892, 108), (1036, 108), (1059, 108), (1190, 108), (1431, 108), (2752, 108)],
    [(2993, 108), (3268, 108), (26, 109), (137, 109), (256, 109), (326, 109), (485, 109), (721, 109), (893, 109), (1037, 109)],
    [(1060, 109), (1191, 109), (1432, 109), (2753, 109), (2994, 109), (3269, 109), (27, 110), (138, 110), (257, 110), (327, 110)],
    [(486, 110), (722, 110), (894, 110), (1038, 110), (1061, 110), (1192, 110), (1433, 110), (2754, 110), (2995, 110), (3270, 110)],
    [(28, 111), (139, 111), (258, 111), (328, 111), (487, 111), (723, 111), (895, 111), (1039, 111), (1062, 111), (1193, 111)],
    [(1434, 111), (2755, 111), (2996, 111), (3271, 111), (29, 112), (140, 112), (259, 112), (329, 112), (488, 112), (724, 112)],
    [(896, 112), (1040, 112), (1063, 112), (1194, 112), (1435, 112), (2756, 112), (2997, 112), (3272, 112), (30, 113), (141, 113)],
    [(260, 113), (330, 113), (489, 113), (725, 113), (897, 113), (1041, 113), (1064, 113), (1195, 113), (1436, 113), (2757, 113)],
    [(2998, 113), (3273, 113), (31, 114), (142, 114), (261, 114), (331, 114), (490, 114), (726, 114), (898, 114), (1042, 114)],
    [(1065, 114), (1196, 114), (1437, 114), (2758, 114), (2999, 114), (3274, 114), (32, 115), (143, 115), (262, 115), (332, 115)],
    [(491, 115), (727, 115), (899, 115), (1043, 115), (1066, 115), (1197, 115), (1438, 115), (2759, 115), (3000, 115), (3275, 115)],
    [(33, 116), (144, 116), (263, 116), (333, 116), (492, 116), (728, 116), (900, 116), (1044, 116), (1067, 116), (1198, 116)],
    [(1439, 116), (2760, 116), (3001, 116), (3276, 116), (34, 117), (145, 117), (176, 117), (334, 117), (493, 117), (729, 117)],
    [(901, 117), (1045, 117), (1068, 117), (1199, 117), (1440, 117), (2761, 117), (3002, 117), (3277, 117), (35, 118), (146, 118)],
    [(177, 118), (335, 118), (494, 118), (730, 118), (902, 118), (1046, 118), (1069, 118), (1200, 118), (1441, 118), (2762, 118)],
    [(3003, 118), (3278, 118), (36, 119), (147, 119), (178, 119), (336, 119), (495, 119), (731, 119), (903, 119), (1047, 119)],
    [(1070, 119), (1201, 119), (1442, 119), (2763, 119), (3004, 119), (3279, 119), (37, 120), (148, 120), (179, 120), (337, 120)],
    [(496, 120), (732, 120), (904, 120), (1048, 120), (1071, 120), (1202, 120), (1443, 120), (2764, 120), (3005, 120), (3280, 120)],
    [(38, 121), (149, 121), (180, 121), (338, 121), (497, 121), (733, 121), (905, 121), (1049, 121), (1072, 121), (1203, 121)],
    [(1444, 121), (2765, 121), (3006, 121), (3281, 121), (39, 122), (150, 122), (181, 122), (339, 122), (498, 122), (734, 122)],
    [(906, 122), (1050, 122), (1073, 122), (1204, 122), (1445, 122), (2766, 122), (3007, 122), (3282, 122), (40, 123), (151, 123)],
    [(182, 123), (340, 123), (499, 123), (735, 123), (907, 123), (1051, 123), (1074, 123), (1205, 123), (1446, 123), (2767, 123)],
    [(3008, 123), (3283, 123), (41, 124), (152, 124), (183, 124), (341, 124), (500, 124), (736, 124), (908, 124), (1052, 124)],
    [(1075, 124), (1206, 124), (1447, 124), (2768, 124), (3009, 124), (3284, 124), (42, 125), (153, 125), (184, 125), (342, 125)],
    [(501, 125), (737, 125), (909, 125), (1053, 125), (1076, 125), (1207, 125), (1448, 125), (2769, 125), (3010, 125), (3285, 125)],
    [(43, 126), (154, 126), (185, 126), (343, 126), (502, 126), (738, 126), (910, 126), (1054, 126), (1077, 126), (1208, 126)],
    [(1449, 126), (2770, 126), (3011, 126), (3286, 126), (44, 127), (155, 127), (186, 127), (344, 127), (503, 127), (739, 127)],
    [(911, 127), (1055, 127), (1078, 127), (1209, 127), (1450, 127), (2771, 127), (3012, 127), (3287, 127), (45, 128), (156, 128)],
    [(187, 128), (345, 128), (504, 128), (740, 128), (912, 128), (968, 128), (1079, 128), (1210, 128), (1451, 128), (2772, 128)],
    [(3013, 128), (3288, 128), (46, 129), (157, 129), (188, 129), (346, 129), (505, 129), (741, 129), (913, 129), (969, 129)],
    [(1080, 129), (1211, 129), (1452, 129), (2773, 129), (3014, 129), (3289, 129), (47, 130), (158, 130), (189, 130), (347, 130)],
    [(506, 130), (742, 130), (914, 130), (970, 130), (1081, 130), (1212, 130), (1453, 130), (2774, 130), (3015, 130), (3290, 130)],
    [(48, 131), (159, 131), (190, 131), (348, 131), (507, 131), (743, 131), (915, 131), (971, 131), (1082, 131), (1213, 131)],
    [(1454, 131), (2775, 131), (3016, 131), (3291, 131), (49, 132), (160, 132), (191, 132), (349, 132), (508, 132), (744, 132)],
    [(916, 132), (972, 132), (1083, 132), (1214, 132), (1455, 132), (2776, 132), (3017, 132), (3292, 132), (50, 133), (161, 133)],
    [(192, 133), (350, 133), (509, 133), (745, 133), (917, 133), (973, 133), (1084, 133), (1215, 133), (1456, 133), (2777, 133)],
    [(3018, 133), (3293, 133), (51, 134), (162, 134), (193, 134), (351, 134), (510, 134), (746, 134), (918, 134), (974, 134)],
    [(1085, 134), (1216, 134), (1457, 134), (2778, 134), (3019, 134), (3294, 134), (52, 135), (163, 135), (194, 135), (264, 135)],
    [(511, 135), (747, 135), (919, 135), (975, 135), (1086, 135), (1217, 135), (1458, 135), (2779, 135), (3020, 135), (3295, 135)],
    [(53, 136), (164, 136), (195, 136), (265, 136), (512, 136), (748, 136), (920, 136), (976, 136), (1087, 136), (1218, 136)],
    [(1459, 136), (2780, 136), (3021, 136), (3296, 136), (54, 137), (165, 137), (196, 137), (266, 137), (513, 137), (749, 137)],
    [(921, 137), (977, 137), (1088, 137), (1219, 137), (1460, 137), (2781, 137), (3022, 137), (3297, 137), (55, 138), (166, 138)],
    [(197, 138), (267, 138), (514, 138), (750, 138), (922, 138), (978, 138), (1089, 138), (1220, 138), (1461, 138), (2782, 138)],
    [(3023, 138), (3298, 138), (56, 139), (167, 139), (198, 139), (268, 139), (515, 139), (751, 139), (923, 139), (979, 139)],
    [(1090, 139), (1221, 139), (1462, 139), (2783, 139), (3024, 139), (3299, 139), (57, 140), (168, 140), (199, 140), (269, 140)],
    [(516, 140), (752, 140), (924, 140), (980, 140), (1091, 140), (1222, 140), (1463, 140), (2784, 140), (3025, 140), (3300, 140)],
    [(58, 141), (169, 141), (200, 141), (270, 141), (517, 141), (753, 141), (925, 141), (981, 141), (1092, 141), (1223, 141)],
    [(1464, 141), (2785, 141), (3026, 141), (3301, 141), (59, 142), (170, 142), (201, 142), (271, 142), (518, 142), (754, 142)],
    [(926, 142), (982, 142), (1093, 142), (1224, 142), (1465, 142), (2786, 142), (3027, 142), (3302, 142), (60, 143), (171, 143)],
    [(202, 143), (272, 143), (519, 143), (755, 143), (927, 143), (983, 143), (1094, 143), (1225, 143), (1466, 143), (2787, 143)],
    [(3028, 143), (3303, 143), (61, 144), (172, 144), (203, 144), (273, 144), (520, 144), (756, 144), (928, 144), (984, 144)],
    [(1095, 144), (1226, 144), (1467, 144), (2788, 144), (3029, 144), (3304, 144), (62, 145), (173, 145), (204, 145), (274, 145)],
    [(521, 145), (757, 145), (929, 145), (985, 145), (1096, 145), (1227, 145), (1468, 145), (2789, 145), (3030, 145), (3305, 145)],
    [(63, 146), (174, 146), (205, 146), (275, 146), (522, 146), (758, 146), (930, 146), (986, 146), (1097, 146), (1228, 146)],
    [(1469, 146), (2790, 146), (3031, 146), (3306, 146), (64, 147), (175, 147), (206, 147), (276, 147), (523, 147), (759, 147)],
    [(931, 147), (987, 147), (1098, 147), (1229, 147), (1470, 147), (2791, 147), (3032, 147), (3307, 147), (65, 148), (88, 148)],
    [(207, 148), (277, 148), (524, 148), (760, 148), (932, 148), (988, 148), (1099, 148), (1230, 148), (1471, 148), (2792, 148)],
    [(3033, 148), (3308, 148), (66, 149), (89, 149), (208, 149), (278, 149), (525, 149), (761, 149), (933, 149), (989, 149)],
    [(1100, 149), (1231, 149), (1472, 149), (2793, 149), (3034, 149), (3309, 149), (67, 150), (90, 150), (209, 150), (279, 150)],
    [(526, 150), (762, 150), (934, 150), (990, 150), (1101, 150), (1144, 150), (1473, 150), (2794, 150), (3035, 150), (3310, 150)],
    [(68, 151), (91, 151), (210, 151), (280, 151), (527, 151), (763, 151), (935, 151), (991, 151), (1102, 151), (1145, 151)],
    [(1474, 151), (2795, 151), (3036, 151), (3311, 151), (69, 152), (92, 152), (211, 152), (281, 152), (440, 152), (764, 152)],
    [(936, 152), (992, 152), (1103, 152), (1146, 152), (1475, 152), (2796, 152), (3037, 152), (3312, 152), (70, 153), (93, 153)],
    [(212, 153), (282, 153), (441, 153), (765, 153), (937, 153), (993, 153), (1104, 153), (1147, 153), (1476, 153), (2797, 153)],
    [(3038, 153), (3313, 153), (71, 154), (94, 154), (213, 154), (283, 154), (442, 154), (766, 154), (938, 154), (994, 154)],
    [(1105, 154), (1148, 154), (1477, 154), (2798, 154), (3039, 154), (3314, 154), (72, 155), (95, 155), (214, 155), (284, 155)]]"

definition SF3_D_ind_1 :: "(nat \<times> nat) list" where
  "SF3_D_ind_1 = concat [
    [(443, 155), (767, 155), (939, 155), (995, 155), (1106, 155), (1149, 155), (1478, 155), (2799, 155), (3040, 155), (3315, 155)],
    [(73, 156), (96, 156), (215, 156), (285, 156), (444, 156), (768, 156), (940, 156), (996, 156), (1107, 156), (1150, 156)],
    [(1479, 156), (2800, 156), (3041, 156), (3316, 156), (74, 157), (97, 157), (216, 157), (286, 157), (445, 157), (769, 157)],
    [(941, 157), (997, 157), (1108, 157), (1151, 157), (1480, 157), (2801, 157), (3042, 157), (3317, 157), (75, 158), (98, 158)],
    [(217, 158), (287, 158), (446, 158), (770, 158), (942, 158), (998, 158), (1109, 158), (1152, 158), (1481, 158), (2802, 158)],
    [(3043, 158), (3318, 158), (76, 159), (99, 159), (218, 159), (288, 159), (447, 159), (771, 159), (943, 159), (999, 159)],
    [(1110, 159), (1153, 159), (1482, 159), (2803, 159), (3044, 159), (3319, 159), (77, 160), (100, 160), (219, 160), (289, 160)],
    [(448, 160), (772, 160), (944, 160), (1000, 160), (1111, 160), (1154, 160), (1483, 160), (2804, 160), (3045, 160), (3320, 160)],
    [(78, 161), (101, 161), (220, 161), (290, 161), (449, 161), (773, 161), (945, 161), (1001, 161), (1112, 161), (1155, 161)],
    [(1484, 161), (2805, 161), (3046, 161), (3321, 161), (79, 162), (102, 162), (221, 162), (291, 162), (450, 162), (774, 162)],
    [(946, 162), (1002, 162), (1113, 162), (1156, 162), (1485, 162), (2806, 162), (3047, 162), (3322, 162), (80, 163), (103, 163)],
    [(222, 163), (292, 163), (451, 163), (775, 163), (947, 163), (1003, 163), (1114, 163), (1157, 163), (1486, 163), (2807, 163)],
    [(3048, 163), (3323, 163), (81, 164), (104, 164), (223, 164), (293, 164), (452, 164), (776, 164), (948, 164), (1004, 164)],
    [(1115, 164), (1158, 164), (1487, 164), (2808, 164), (3049, 164), (3324, 164), (82, 165), (105, 165), (224, 165), (294, 165)],
    [(453, 165), (777, 165), (949, 165), (1005, 165), (1116, 165), (1159, 165), (1488, 165), (2809, 165), (3050, 165), (3325, 165)],
    [(83, 166), (106, 166), (225, 166), (295, 166), (454, 166), (778, 166), (950, 166), (1006, 166), (1117, 166), (1160, 166)],
    [(1489, 166), (2810, 166), (3051, 166), (3326, 166), (84, 167), (107, 167), (226, 167), (296, 167), (455, 167), (779, 167)],
    [(951, 167), (1007, 167), (1118, 167), (1161, 167), (1490, 167), (2811, 167), (3052, 167), (3327, 167), (85, 168), (108, 168)],
    [(227, 168), (297, 168), (456, 168), (780, 168), (952, 168), (1008, 168), (1119, 168), (1162, 168), (1491, 168), (2812, 168)],
    [(3053, 168), (3328, 168), (86, 169), (109, 169), (228, 169), (298, 169), (457, 169), (781, 169), (953, 169), (1009, 169)],
    [(1120, 169), (1163, 169), (1492, 169), (2813, 169), (3054, 169), (3329, 169), (87, 170), (110, 170), (229, 170), (299, 170)],
    [(458, 170), (782, 170), (954, 170), (1010, 170), (1121, 170), (1164, 170), (1493, 170), (2814, 170), (3055, 170), (3330, 170)],
    [(0, 171), (111, 171), (230, 171), (300, 171), (459, 171), (783, 171), (955, 171), (1011, 171), (1122, 171), (1165, 171)],
    [(1494, 171), (2815, 171), (3056, 171), (3331, 171), (1, 172), (112, 172), (231, 172), (301, 172), (460, 172), (784, 172)],
    [(956, 172), (1012, 172), (1123, 172), (1166, 172), (1495, 172), (2728, 172), (3057, 172), (3332, 172), (2, 173), (113, 173)],
    [(232, 173), (302, 173), (461, 173), (785, 173), (957, 173), (1013, 173), (1124, 173), (1167, 173), (1408, 173), (2729, 173)],
    [(3058, 173), (3333, 173), (3, 174), (114, 174), (233, 174), (303, 174), (462, 174), (786, 174), (958, 174), (1014, 174)],
    [(1125, 174), (1168, 174), (1409, 174), (2730, 174), (3059, 174), (3334, 174), (4, 175), (115, 175), (234, 175), (304, 175)],
    [(463, 175), (787, 175), (959, 175), (1015, 175), (1126, 175), (1169, 175), (1410, 175), (2731, 175), (3060, 175), (3335, 175)],
    [(367, 176), (1067, 176), (1157, 176), (1971, 176), (2498, 176), (2687, 176), (3151, 176), (368, 177), (1068, 177), (1158, 177)],
    [(1972, 177), (2499, 177), (2688, 177), (3152, 177), (369, 178), (1069, 178), (1159, 178), (1973, 178), (2500, 178), (2689, 178)],
    [(3153, 178), (370, 179), (1070, 179), (1160, 179), (1974, 179), (2501, 179), (2690, 179), (3154, 179), (371, 180), (1071, 180)],
    [(1161, 180), (1975, 180), (2502, 180), (2691, 180), (3155, 180), (372, 181), (1072, 181), (1162, 181), (1976, 181), (2503, 181)],
    [(2692, 181), (3156, 181), (373, 182), (1073, 182), (1163, 182), (1977, 182), (2504, 182), (2693, 182), (3157, 182), (374, 183)],
    [(1074, 183), (1164, 183), (1978, 183), (2505, 183), (2694, 183), (3158, 183), (375, 184), (1075, 184), (1165, 184), (1979, 184)],
    [(2506, 184), (2695, 184), (3159, 184), (376, 185), (1076, 185), (1166, 185), (1980, 185), (2507, 185), (2696, 185), (3160, 185)],
    [(377, 186), (1077, 186), (1167, 186), (1981, 186), (2508, 186), (2697, 186), (3161, 186), (378, 187), (1078, 187), (1168, 187)],
    [(1982, 187), (2509, 187), (2698, 187), (3162, 187), (379, 188), (1079, 188), (1169, 188), (1983, 188), (2510, 188), (2699, 188)],
    [(3163, 188), (380, 189), (1080, 189), (1170, 189), (1984, 189), (2511, 189), (2700, 189), (3164, 189), (381, 190), (1081, 190)],
    [(1171, 190), (1985, 190), (2512, 190), (2701, 190), (3165, 190), (382, 191), (1082, 191), (1172, 191), (1986, 191), (2513, 191)],
    [(2702, 191), (3166, 191), (383, 192), (1083, 192), (1173, 192), (1987, 192), (2514, 192), (2703, 192), (3167, 192), (384, 193)],
    [(1084, 193), (1174, 193), (1988, 193), (2515, 193), (2704, 193), (3080, 193), (385, 194), (1085, 194), (1175, 194), (1989, 194)],
    [(2516, 194), (2705, 194), (3081, 194), (386, 195), (1086, 195), (1176, 195), (1990, 195), (2517, 195), (2706, 195), (3082, 195)],
    [(387, 196), (1087, 196), (1177, 196), (1991, 196), (2518, 196), (2707, 196), (3083, 196), (388, 197), (1088, 197), (1178, 197)],
    [(1992, 197), (2519, 197), (2708, 197), (3084, 197), (389, 198), (1089, 198), (1179, 198), (1993, 198), (2520, 198), (2709, 198)],
    [(3085, 198), (390, 199), (1090, 199), (1180, 199), (1994, 199), (2521, 199), (2710, 199), (3086, 199), (391, 200), (1091, 200)],
    [(1181, 200), (1995, 200), (2522, 200), (2711, 200), (3087, 200), (392, 201), (1092, 201), (1182, 201), (1996, 201), (2523, 201)],
    [(2712, 201), (3088, 201), (393, 202), (1093, 202), (1183, 202), (1997, 202), (2524, 202), (2713, 202), (3089, 202), (394, 203)],
    [(1094, 203), (1184, 203), (1998, 203), (2525, 203), (2714, 203), (3090, 203), (395, 204), (1095, 204), (1185, 204), (1999, 204)],
    [(2526, 204), (2715, 204), (3091, 204), (396, 205), (1096, 205), (1186, 205), (2000, 205), (2527, 205), (2716, 205), (3092, 205)],
    [(397, 206), (1097, 206), (1187, 206), (2001, 206), (2528, 206), (2717, 206), (3093, 206), (398, 207), (1098, 207), (1188, 207)],
    [(2002, 207), (2529, 207), (2718, 207), (3094, 207), (399, 208), (1099, 208), (1189, 208), (2003, 208), (2530, 208), (2719, 208)],
    [(3095, 208), (400, 209), (1100, 209), (1190, 209), (2004, 209), (2531, 209), (2720, 209), (3096, 209), (401, 210), (1101, 210)],
    [(1191, 210), (2005, 210), (2532, 210), (2721, 210), (3097, 210), (402, 211), (1102, 211), (1192, 211), (2006, 211), (2533, 211)],
    [(2722, 211), (3098, 211), (403, 212), (1103, 212), (1193, 212), (2007, 212), (2534, 212), (2723, 212), (3099, 212), (404, 213)],
    [(1104, 213), (1194, 213), (2008, 213), (2535, 213), (2724, 213), (3100, 213), (405, 214), (1105, 214), (1195, 214), (2009, 214)],
    [(2536, 214), (2725, 214), (3101, 214), (406, 215), (1106, 215), (1196, 215), (2010, 215), (2537, 215), (2726, 215), (3102, 215)],
    [(407, 216), (1107, 216), (1197, 216), (2011, 216), (2538, 216), (2727, 216), (3103, 216), (408, 217), (1108, 217), (1198, 217)],
    [(2012, 217), (2539, 217), (2640, 217), (3104, 217), (409, 218), (1109, 218), (1199, 218), (2013, 218), (2540, 218), (2641, 218)],
    [(3105, 218), (410, 219), (1110, 219), (1200, 219), (2014, 219), (2541, 219), (2642, 219), (3106, 219), (411, 220), (1111, 220)],
    [(1201, 220), (2015, 220), (2542, 220), (2643, 220), (3107, 220), (412, 221), (1112, 221), (1202, 221), (2016, 221), (2543, 221)],
    [(2644, 221), (3108, 221), (413, 222), (1113, 222), (1203, 222), (2017, 222), (2544, 222), (2645, 222), (3109, 222), (414, 223)],
    [(1114, 223), (1204, 223), (2018, 223), (2545, 223), (2646, 223), (3110, 223), (415, 224), (1115, 224), (1205, 224), (2019, 224)],
    [(2546, 224), (2647, 224), (3111, 224), (416, 225), (1116, 225), (1206, 225), (2020, 225), (2547, 225), (2648, 225), (3112, 225)],
    [(417, 226), (1117, 226), (1207, 226), (2021, 226), (2548, 226), (2649, 226), (3113, 226), (418, 227), (1118, 227), (1208, 227)],
    [(2022, 227), (2549, 227), (2650, 227), (3114, 227), (419, 228), (1119, 228), (1209, 228), (2023, 228), (2550, 228), (2651, 228)],
    [(3115, 228), (420, 229), (1120, 229), (1210, 229), (1936, 229), (2551, 229), (2652, 229), (3116, 229), (421, 230), (1121, 230)],
    [(1211, 230), (1937, 230), (2464, 230), (2653, 230), (3117, 230), (422, 231), (1122, 231), (1212, 231), (1938, 231), (2465, 231)],
    [(2654, 231), (3118, 231), (423, 232), (1123, 232), (1213, 232), (1939, 232), (2466, 232), (2655, 232), (3119, 232), (424, 233)],
    [(1124, 233), (1214, 233), (1940, 233), (2467, 233), (2656, 233), (3120, 233), (425, 234), (1125, 234), (1215, 234), (1941, 234)],
    [(2468, 234), (2657, 234), (3121, 234), (426, 235), (1126, 235), (1216, 235), (1942, 235), (2469, 235), (2658, 235), (3122, 235)],
    [(427, 236), (1127, 236), (1217, 236), (1943, 236), (2470, 236), (2659, 236), (3123, 236), (428, 237), (1128, 237), (1218, 237)],
    [(1944, 237), (2471, 237), (2660, 237), (3124, 237), (429, 238), (1129, 238), (1219, 238), (1945, 238), (2472, 238), (2661, 238)],
    [(3125, 238), (430, 239), (1130, 239), (1220, 239), (1946, 239), (2473, 239), (2662, 239), (3126, 239), (431, 240), (1131, 240)],
    [(1221, 240), (1947, 240), (2474, 240), (2663, 240), (3127, 240), (432, 241), (1132, 241), (1222, 241), (1948, 241), (2475, 241)],
    [(2664, 241), (3128, 241), (433, 242), (1133, 242), (1223, 242), (1949, 242), (2476, 242), (2665, 242), (3129, 242), (434, 243)],
    [(1134, 243), (1224, 243), (1950, 243), (2477, 243), (2666, 243), (3130, 243), (435, 244), (1135, 244), (1225, 244), (1951, 244)],
    [(2478, 244), (2667, 244), (3131, 244), (436, 245), (1136, 245), (1226, 245), (1952, 245), (2479, 245), (2668, 245), (3132, 245)],
    [(437, 246), (1137, 246), (1227, 246), (1953, 246), (2480, 246), (2669, 246), (3133, 246), (438, 247), (1138, 247), (1228, 247)],
    [(1954, 247), (2481, 247), (2670, 247), (3134, 247), (439, 248), (1139, 248), (1229, 248), (1955, 248), (2482, 248), (2671, 248)],
    [(3135, 248), (352, 249), (1140, 249), (1230, 249), (1956, 249), (2483, 249), (2672, 249), (3136, 249), (353, 250), (1141, 250)],
    [(1231, 250), (1957, 250), (2484, 250), (2673, 250), (3137, 250), (354, 251), (1142, 251), (1144, 251), (1958, 251), (2485, 251)],
    [(2674, 251), (3138, 251), (355, 252), (1143, 252), (1145, 252), (1959, 252), (2486, 252), (2675, 252), (3139, 252), (356, 253)],
    [(1056, 253), (1146, 253), (1960, 253), (2487, 253), (2676, 253), (3140, 253), (357, 254), (1057, 254), (1147, 254), (1961, 254)],
    [(2488, 254), (2677, 254), (3141, 254), (358, 255), (1058, 255), (1148, 255), (1962, 255), (2489, 255), (2678, 255), (3142, 255)],
    [(359, 256), (1059, 256), (1149, 256), (1963, 256), (2490, 256), (2679, 256), (3143, 256), (360, 257), (1060, 257), (1150, 257)],
    [(1964, 257), (2491, 257), (2680, 257), (3144, 257), (361, 258), (1061, 258), (1151, 258), (1965, 258), (2492, 258), (2681, 258)],
    [(3145, 258), (362, 259), (1062, 259), (1152, 259), (1966, 259), (2493, 259), (2682, 259), (3146, 259), (363, 260), (1063, 260)],
    [(1153, 260), (1967, 260), (2494, 260), (2683, 260), (3147, 260), (364, 261), (1064, 261), (1154, 261), (1968, 261), (2495, 261)],
    [(2684, 261), (3148, 261), (365, 262), (1065, 262), (1155, 262), (1969, 262), (2496, 262), (2685, 262), (3149, 262), (366, 263)],
    [(1066, 263), (1156, 263), (1970, 263), (2497, 263), (2686, 263), (3150, 263), (297, 264), (651, 264), (841, 264), (890, 264)],
    [(1544, 264), (1967, 264), (2404, 264), (2654, 264), (2954, 264), (3174, 264), (298, 265), (652, 265), (842, 265), (891, 265)],
    [(1545, 265), (1968, 265), (2405, 265), (2655, 265), (2955, 265), (3175, 265), (299, 266), (653, 266), (843, 266), (892, 266)],
    [(1546, 266), (1969, 266), (2406, 266), (2656, 266), (2956, 266), (3176, 266), (300, 267), (654, 267), (844, 267), (893, 267)],
    [(1547, 267), (1970, 267), (2407, 267), (2657, 267), (2957, 267), (3177, 267), (301, 268), (655, 268), (845, 268), (894, 268)],
    [(1548, 268), (1971, 268), (2408, 268), (2658, 268), (2958, 268), (3178, 268), (302, 269), (656, 269), (846, 269), (895, 269)],
    [(1549, 269), (1972, 269), (2409, 269), (2659, 269), (2959, 269), (3179, 269), (303, 270), (657, 270), (847, 270), (896, 270)],
    [(1550, 270), (1973, 270), (2410, 270), (2660, 270), (2960, 270), (3180, 270), (304, 271), (658, 271), (848, 271), (897, 271)],
    [(1551, 271), (1974, 271), (2411, 271), (2661, 271), (2961, 271), (3181, 271), (305, 272), (659, 272), (849, 272), (898, 272)],
    [(1552, 272), (1975, 272), (2412, 272), (2662, 272), (2962, 272), (3182, 272), (306, 273), (660, 273), (850, 273), (899, 273)],
    [(1553, 273), (1976, 273), (2413, 273), (2663, 273), (2963, 273), (3183, 273), (307, 274), (661, 274), (851, 274), (900, 274)],
    [(1554, 274), (1977, 274), (2414, 274), (2664, 274), (2964, 274), (3184, 274), (308, 275), (662, 275), (852, 275), (901, 275)],
    [(1555, 275), (1978, 275), (2415, 275), (2665, 275), (2965, 275), (3185, 275), (309, 276), (663, 276), (853, 276), (902, 276)],
    [(1556, 276), (1979, 276), (2416, 276), (2666, 276), (2966, 276), (3186, 276), (310, 277), (664, 277), (854, 277), (903, 277)],
    [(1557, 277), (1980, 277), (2417, 277), (2667, 277), (2967, 277), (3187, 277), (311, 278), (665, 278), (855, 278), (904, 278)],
    [(1558, 278), (1981, 278), (2418, 278), (2668, 278), (2968, 278), (3188, 278), (312, 279), (666, 279), (856, 279), (905, 279)],
    [(1559, 279), (1982, 279), (2419, 279), (2669, 279), (2969, 279), (3189, 279), (313, 280), (667, 280), (857, 280), (906, 280)],
    [(1560, 280), (1983, 280), (2420, 280), (2670, 280), (2970, 280), (3190, 280), (314, 281), (668, 281), (858, 281), (907, 281)],
    [(1561, 281), (1984, 281), (2421, 281), (2671, 281), (2971, 281), (3191, 281), (315, 282), (669, 282), (859, 282), (908, 282)],
    [(1562, 282), (1985, 282), (2422, 282), (2672, 282), (2972, 282), (3192, 282), (316, 283), (670, 283), (860, 283), (909, 283)],
    [(1563, 283), (1986, 283), (2423, 283), (2673, 283), (2973, 283), (3193, 283), (317, 284), (671, 284), (861, 284), (910, 284)],
    [(1564, 284), (1987, 284), (2424, 284), (2674, 284), (2974, 284), (3194, 284), (318, 285), (672, 285), (862, 285), (911, 285)],
    [(1565, 285), (1988, 285), (2425, 285), (2675, 285), (2975, 285), (3195, 285), (319, 286), (673, 286), (863, 286), (912, 286)],
    [(1566, 286), (1989, 286), (2426, 286), (2676, 286), (2976, 286), (3196, 286), (320, 287), (674, 287), (864, 287), (913, 287)],
    [(1567, 287), (1990, 287), (2427, 287), (2677, 287), (2977, 287), (3197, 287), (321, 288), (675, 288), (865, 288), (914, 288)],
    [(1568, 288), (1991, 288), (2428, 288), (2678, 288), (2978, 288), (3198, 288), (322, 289), (676, 289), (866, 289), (915, 289)],
    [(1569, 289), (1992, 289), (2429, 289), (2679, 289), (2979, 289), (3199, 289), (323, 290), (677, 290), (867, 290), (916, 290)],
    [(1570, 290), (1993, 290), (2430, 290), (2680, 290), (2980, 290), (3200, 290), (324, 291), (678, 291), (868, 291), (917, 291)],
    [(1571, 291), (1994, 291), (2431, 291), (2681, 291), (2981, 291), (3201, 291), (325, 292), (679, 292), (869, 292), (918, 292)],
    [(1572, 292), (1995, 292), (2432, 292), (2682, 292), (2982, 292), (3202, 292), (326, 293), (680, 293), (870, 293), (919, 293)],
    [(1573, 293), (1996, 293), (2433, 293), (2683, 293), (2983, 293), (3203, 293), (327, 294), (681, 294), (871, 294), (920, 294)],
    [(1574, 294), (1997, 294), (2434, 294), (2684, 294), (2984, 294), (3204, 294), (328, 295), (682, 295), (872, 295), (921, 295)],
    [(1575, 295), (1998, 295), (2435, 295), (2685, 295), (2985, 295), (3205, 295), (329, 296), (683, 296), (873, 296), (922, 296)],
    [(1576, 296), (1999, 296), (2436, 296), (2686, 296), (2986, 296), (3206, 296), (330, 297), (684, 297), (874, 297), (923, 297)],
    [(1577, 297), (2000, 297), (2437, 297), (2687, 297), (2987, 297), (3207, 297), (331, 298), (685, 298), (875, 298), (924, 298)],
    [(1578, 298), (2001, 298), (2438, 298), (2688, 298), (2988, 298), (3208, 298), (332, 299), (686, 299), (876, 299), (925, 299)],
    [(1579, 299), (2002, 299), (2439, 299), (2689, 299), (2989, 299), (3209, 299), (333, 300), (687, 300), (877, 300), (926, 300)],
    [(1580, 300), (2003, 300), (2440, 300), (2690, 300), (2990, 300), (3210, 300), (334, 301), (688, 301), (878, 301), (927, 301)],
    [(1581, 301), (2004, 301), (2441, 301), (2691, 301), (2991, 301), (3211, 301), (335, 302), (689, 302), (879, 302), (928, 302)],
    [(1582, 302), (2005, 302), (2442, 302), (2692, 302), (2904, 302), (3212, 302), (336, 303), (690, 303), (792, 303), (929, 303)],
    [(1583, 303), (2006, 303), (2443, 303), (2693, 303), (2905, 303), (3213, 303), (337, 304), (691, 304), (793, 304), (930, 304)],
    [(1496, 304), (2007, 304), (2444, 304), (2694, 304), (2906, 304), (3214, 304), (338, 305), (692, 305), (794, 305), (931, 305)],
    [(1497, 305), (2008, 305), (2445, 305), (2695, 305), (2907, 305), (3215, 305), (339, 306), (693, 306), (795, 306), (932, 306)],
    [(1498, 306), (2009, 306), (2446, 306), (2696, 306), (2908, 306), (3216, 306), (340, 307), (694, 307), (796, 307), (933, 307)],
    [(1499, 307), (2010, 307), (2447, 307), (2697, 307), (2909, 307), (3217, 307), (341, 308), (695, 308), (797, 308), (934, 308)],
    [(1500, 308), (2011, 308), (2448, 308), (2698, 308), (2910, 308), (3218, 308), (342, 309), (696, 309), (798, 309), (935, 309)],
    [(1501, 309), (2012, 309), (2449, 309), (2699, 309), (2911, 309), (3219, 309), (343, 310), (697, 310), (799, 310), (936, 310)],
    [(1502, 310), (2013, 310), (2450, 310), (2700, 310), (2912, 310), (3220, 310), (344, 311), (698, 311), (800, 311), (937, 311)],
    [(1503, 311), (2014, 311), (2451, 311), (2701, 311), (2913, 311), (3221, 311), (345, 312), (699, 312), (801, 312), (938, 312)],
    [(1504, 312), (2015, 312), (2452, 312), (2702, 312), (2914, 312), (3222, 312), (346, 313), (700, 313), (802, 313), (939, 313)],
    [(1505, 313), (2016, 313), (2453, 313), (2703, 313), (2915, 313), (3223, 313), (347, 314), (701, 314), (803, 314), (940, 314)],
    [(1506, 314), (2017, 314), (2454, 314), (2704, 314), (2916, 314), (3224, 314), (348, 315), (702, 315), (804, 315), (941, 315)],
    [(1507, 315), (2018, 315), (2455, 315), (2705, 315), (2917, 315), (3225, 315), (349, 316), (703, 316), (805, 316), (942, 316)],
    [(1508, 316), (2019, 316), (2456, 316), (2706, 316), (2918, 316), (3226, 316), (350, 317), (616, 317), (806, 317), (943, 317)],
    [(1509, 317), (2020, 317), (2457, 317), (2707, 317), (2919, 317), (3227, 317), (351, 318), (617, 318), (807, 318), (944, 318)],
    [(1510, 318), (2021, 318), (2458, 318), (2708, 318), (2920, 318), (3228, 318), (264, 319), (618, 319), (808, 319), (945, 319)],
    [(1511, 319), (2022, 319), (2459, 319), (2709, 319), (2921, 319), (3229, 319), (265, 320), (619, 320), (809, 320), (946, 320)],
    [(1512, 320), (2023, 320), (2460, 320), (2710, 320), (2922, 320), (3230, 320), (266, 321), (620, 321), (810, 321), (947, 321)]]"

definition SF3_D_ind_2 :: "(nat \<times> nat) list" where
  "SF3_D_ind_2 = concat [
    [(1513, 321), (1936, 321), (2461, 321), (2711, 321), (2923, 321), (3231, 321), (267, 322), (621, 322), (811, 322), (948, 322)],
    [(1514, 322), (1937, 322), (2462, 322), (2712, 322), (2924, 322), (3232, 322), (268, 323), (622, 323), (812, 323), (949, 323)],
    [(1515, 323), (1938, 323), (2463, 323), (2713, 323), (2925, 323), (3233, 323), (269, 324), (623, 324), (813, 324), (950, 324)],
    [(1516, 324), (1939, 324), (2376, 324), (2714, 324), (2926, 324), (3234, 324), (270, 325), (624, 325), (814, 325), (951, 325)],
    [(1517, 325), (1940, 325), (2377, 325), (2715, 325), (2927, 325), (3235, 325), (271, 326), (625, 326), (815, 326), (952, 326)],
    [(1518, 326), (1941, 326), (2378, 326), (2716, 326), (2928, 326), (3236, 326), (272, 327), (626, 327), (816, 327), (953, 327)],
    [(1519, 327), (1942, 327), (2379, 327), (2717, 327), (2929, 327), (3237, 327), (273, 328), (627, 328), (817, 328), (954, 328)],
    [(1520, 328), (1943, 328), (2380, 328), (2718, 328), (2930, 328), (3238, 328), (274, 329), (628, 329), (818, 329), (955, 329)],
    [(1521, 329), (1944, 329), (2381, 329), (2719, 329), (2931, 329), (3239, 329), (275, 330), (629, 330), (819, 330), (956, 330)],
    [(1522, 330), (1945, 330), (2382, 330), (2720, 330), (2932, 330), (3240, 330), (276, 331), (630, 331), (820, 331), (957, 331)],
    [(1523, 331), (1946, 331), (2383, 331), (2721, 331), (2933, 331), (3241, 331), (277, 332), (631, 332), (821, 332), (958, 332)],
    [(1524, 332), (1947, 332), (2384, 332), (2722, 332), (2934, 332), (3242, 332), (278, 333), (632, 333), (822, 333), (959, 333)],
    [(1525, 333), (1948, 333), (2385, 333), (2723, 333), (2935, 333), (3243, 333), (279, 334), (633, 334), (823, 334), (960, 334)],
    [(1526, 334), (1949, 334), (2386, 334), (2724, 334), (2936, 334), (3244, 334), (280, 335), (634, 335), (824, 335), (961, 335)],
    [(1527, 335), (1950, 335), (2387, 335), (2725, 335), (2937, 335), (3245, 335), (281, 336), (635, 336), (825, 336), (962, 336)],
    [(1528, 336), (1951, 336), (2388, 336), (2726, 336), (2938, 336), (3246, 336), (282, 337), (636, 337), (826, 337), (963, 337)],
    [(1529, 337), (1952, 337), (2389, 337), (2727, 337), (2939, 337), (3247, 337), (283, 338), (637, 338), (827, 338), (964, 338)],
    [(1530, 338), (1953, 338), (2390, 338), (2640, 338), (2940, 338), (3248, 338), (284, 339), (638, 339), (828, 339), (965, 339)],
    [(1531, 339), (1954, 339), (2391, 339), (2641, 339), (2941, 339), (3249, 339), (285, 340), (639, 340), (829, 340), (966, 340)],
    [(1532, 340), (1955, 340), (2392, 340), (2642, 340), (2942, 340), (3250, 340), (286, 341), (640, 341), (830, 341), (967, 341)],
    [(1533, 341), (1956, 341), (2393, 341), (2643, 341), (2943, 341), (3251, 341), (287, 342), (641, 342), (831, 342), (880, 342)],
    [(1534, 342), (1957, 342), (2394, 342), (2644, 342), (2944, 342), (3252, 342), (288, 343), (642, 343), (832, 343), (881, 343)],
    [(1535, 343), (1958, 343), (2395, 343), (2645, 343), (2945, 343), (3253, 343), (289, 344), (643, 344), (833, 344), (882, 344)],
    [(1536, 344), (1959, 344), (2396, 344), (2646, 344), (2946, 344), (3254, 344), (290, 345), (644, 345), (834, 345), (883, 345)],
    [(1537, 345), (1960, 345), (2397, 345), (2647, 345), (2947, 345), (3255, 345), (291, 346), (645, 346), (835, 346), (884, 346)],
    [(1538, 346), (1961, 346), (2398, 346), (2648, 346), (2948, 346), (3168, 346), (292, 347), (646, 347), (836, 347), (885, 347)],
    [(1539, 347), (1962, 347), (2399, 347), (2649, 347), (2949, 347), (3169, 347), (293, 348), (647, 348), (837, 348), (886, 348)],
    [(1540, 348), (1963, 348), (2400, 348), (2650, 348), (2950, 348), (3170, 348), (294, 349), (648, 349), (838, 349), (887, 349)],
    [(1541, 349), (1964, 349), (2401, 349), (2651, 349), (2951, 349), (3171, 349), (295, 350), (649, 350), (839, 350), (888, 350)],
    [(1542, 350), (1965, 350), (2402, 350), (2652, 350), (2952, 350), (3172, 350), (296, 351), (650, 351), (840, 351), (889, 351)],
    [(1543, 351), (1966, 351), (2403, 351), (2653, 351), (2953, 351), (3173, 351)]]"

definition SF3_D_ind :: "(nat \<times> nat) list" where
  "SF3_D_ind = SF3_D_ind_0 @ SF3_D_ind_1 @ SF3_D_ind_2"

section \<open>SF3_B_Inv: positions in a matrix of 352 rows and 352 columns\<close>

definition SF3_B_Inv_ind_0 :: "(nat \<times> nat) list" where
  "SF3_B_Inv_ind_0 = concat [
    [(1, 0), (88, 0), (89, 0), (176, 0), (177, 0), (265, 0), (2, 1), (89, 1), (90, 1), (177, 1)],
    [(178, 1), (266, 1), (3, 2), (90, 2), (91, 2), (178, 2), (179, 2), (267, 2), (4, 3), (91, 3)],
    [(92, 3), (179, 3), (180, 3), (268, 3), (5, 4), (92, 4), (93, 4), (180, 4), (181, 4), (269, 4)],
    [(6, 5), (93, 5), (94, 5), (181, 5), (182, 5), (270, 5), (7, 6), (94, 6), (95, 6), (182, 6)],
    [(183, 6), (271, 6), (8, 7), (95, 7), (96, 7), (183, 7), (184, 7), (272, 7), (9, 8), (96, 8)],
    [(97, 8), (184, 8), (185, 8), (273, 8), (10, 9), (97, 9), (98, 9), (185, 9), (186, 9), (274, 9)],
    [(11, 10), (98, 10), (99, 10), (186, 10), (187, 10), (275, 10), (12, 11), (99, 11), (100, 11), (187, 11)],
    [(188, 11), (276, 11), (13, 12), (100, 12), (101, 12), (188, 12), (189, 12), (277, 12), (14, 13), (101, 13)],
    [(102, 13), (189, 13), (190, 13), (278, 13), (15, 14), (102, 14), (103, 14), (190, 14), (191, 14), (279, 14)],
    [(16, 15), (103, 15), (104, 15), (191, 15), (192, 15), (280, 15), (17, 16), (104, 16), (105, 16), (192, 16)],
    [(193, 16), (281, 16), (18, 17), (105, 17), (106, 17), (193, 17), (194, 17), (282, 17), (19, 18), (106, 18)],
    [(107, 18), (194, 18), (195, 18), (283, 18), (20, 19), (107, 19), (108, 19), (195, 19), (196, 19), (284, 19)],
    [(21, 20), (108, 20), (109, 20), (196, 20), (197, 20), (285, 20), (22, 21), (109, 21), (110, 21), (197, 21)],
    [(198, 21), (286, 21), (23, 22), (110, 22), (111, 22), (198, 22), (199, 22), (287, 22), (24, 23), (111, 23)],
    [(112, 23), (199, 23), (200, 23), (288, 23), (25, 24), (112, 24), (113, 24), (200, 24), (201, 24), (289, 24)],
    [(26, 25), (113, 25), (114, 25), (201, 25), (202, 25), (290, 25), (27, 26), (114, 26), (115, 26), (202, 26)],
    [(203, 26), (291, 26), (28, 27), (115, 27), (116, 27), (203, 27), (204, 27), (292, 27), (29, 28), (116, 28)],
    [(117, 28), (204, 28), (205, 28), (293, 28), (30, 29), (117, 29), (118, 29), (205, 29), (206, 29), (294, 29)],
    [(31, 30), (118, 30), (119, 30), (206, 30), (207, 30), (295, 30), (32, 31), (119, 31), (120, 31), (207, 31)],
    [(208, 31), (296, 31), (33, 32), (120, 32), (121, 32), (208, 32), (209, 32), (297, 32), (34, 33), (121, 33)],
    [(122, 33), (209, 33), (210, 33), (298, 33), (35, 34), (122, 34), (123, 34), (210, 34), (211, 34), (299, 34)],
    [(36, 35), (123, 35), (124, 35), (211, 35), (212, 35), (300, 35), (37, 36), (124, 36), (125, 36), (212, 36)],
    [(213, 36), (301, 36), (38, 37), (125, 37), (126, 37), (213, 37), (214, 37), (302, 37), (39, 38), (126, 38)],
    [(127, 38), (214, 38), (215, 38), (303, 38), (40, 39), (127, 39), (128, 39), (215, 39), (216, 39), (304, 39)],
    [(41, 40), (128, 40), (129, 40), (216, 40), (217, 40), (305, 40), (42, 41), (129, 41), (130, 41), (217, 41)],
    [(218, 41), (306, 41), (43, 42), (130, 42), (131, 42), (218, 42), (219, 42), (307, 42), (44, 43), (131, 43)],
    [(132, 43), (219, 43), (220, 43), (308, 43), (45, 44), (132, 44), (133, 44), (220, 44), (221, 44), (309, 44)],
    [(46, 45), (133, 45), (134, 45), (221, 45), (222, 45), (310, 45), (47, 46), (134, 46), (135, 46), (222, 46)],
    [(223, 46), (311, 46), (48, 47), (135, 47), (136, 47), (223, 47), (224, 47), (312, 47), (49, 48), (136, 48)],
    [(137, 48), (224, 48), (225, 48), (313, 48), (50, 49), (137, 49), (138, 49), (225, 49), (226, 49), (314, 49)],
    [(51, 50), (138, 50), (139, 50), (226, 50), (227, 50), (315, 50), (52, 51), (139, 51), (140, 51), (227, 51)],
    [(228, 51), (316, 51), (53, 52), (140, 52), (141, 52), (228, 52), (229, 52), (317, 52), (54, 53), (141, 53)],
    [(142, 53), (229, 53), (230, 53), (318, 53), (55, 54), (142, 54), (143, 54), (230, 54), (231, 54), (319, 54)],
    [(56, 55), (143, 55), (144, 55), (231, 55), (232, 55), (320, 55), (57, 56), (144, 56), (145, 56), (232, 56)],
    [(233, 56), (321, 56), (58, 57), (145, 57), (146, 57), (233, 57), (234, 57), (322, 57), (59, 58), (146, 58)],
    [(147, 58), (234, 58), (235, 58), (323, 58), (60, 59), (147, 59), (148, 59), (235, 59), (236, 59), (324, 59)],
    [(61, 60), (148, 60), (149, 60), (236, 60), (237, 60), (325, 60), (62, 61), (149, 61), (150, 61), (237, 61)],
    [(238, 61), (326, 61), (63, 62), (150, 62), (151, 62), (238, 62), (239, 62), (327, 62), (64, 63), (151, 63)],
    [(152, 63), (239, 63), (240, 63), (328, 63), (65, 64), (152, 64), (153, 64), (240, 64), (241, 64), (329, 64)],
    [(66, 65), (153, 65), (154, 65), (241, 65), (242, 65), (330, 65), (67, 66), (154, 66), (155, 66), (242, 66)],
    [(243, 66), (331, 66), (68, 67), (155, 67), (156, 67), (243, 67), (244, 67), (332, 67), (69, 68), (156, 68)],
    [(157, 68), (244, 68), (245, 68), (333, 68), (70, 69), (157, 69), (158, 69), (245, 69), (246, 69), (334, 69)],
    [(71, 70), (158, 70), (159, 70), (246, 70), (247, 70), (335, 70), (72, 71), (159, 71), (160, 71), (247, 71)],
    [(248, 71), (336, 71), (73, 72), (160, 72), (161, 72), (248, 72), (249, 72), (337, 72), (74, 73), (161, 73)],
    [(162, 73), (249, 73), (250, 73), (338, 73), (75, 74), (162, 74), (163, 74), (250, 74), (251, 74), (339, 74)],
    [(76, 75), (163, 75), (164, 75), (251, 75), (252, 75), (340, 75), (77, 76), (164, 76), (165, 76), (252, 76)],
    [(253, 76), (341, 76), (78, 77), (165, 77), (166, 77), (253, 77), (254, 77), (342, 77), (79, 78), (166, 78)],
    [(167, 78), (254, 78), (255, 78), (343, 78), (80, 79), (167, 79), (168, 79), (255, 79), (256, 79), (344, 79)],
    [(81, 80), (168, 80), (169, 80), (256, 80), (257, 80), (345, 80), (82, 81), (169, 81), (170, 81), (257, 81)],
    [(258, 81), (346, 81), (83, 82), (170, 82), (171, 82), (258, 82), (259, 82), (347, 82), (84, 83), (171, 83)],
    [(172, 83), (259, 83), (260, 83), (348, 83), (85, 84), (172, 84), (173, 84), (260, 84), (261, 84), (349, 84)],
    [(86, 85), (173, 85), (174, 85), (261, 85), (262, 85), (350, 85), (87, 86), (174, 86), (175, 86), (262, 86)],
    [(263, 86), (351, 86), (0, 87), (88, 87), (175, 87), (176, 87), (263, 87), (264, 87), (1, 88), (89, 88)],
    [(176, 88), (177, 88), (265, 88), (2, 89), (90, 89), (177, 89), (178, 89), (266, 89), (3, 90), (91, 90)],
    [(178, 90), (179, 90), (267, 90), (4, 91), (92, 91), (179, 91), (180, 91), (268, 91), (5, 92), (93, 92)],
    [(180, 92), (181, 92), (269, 92), (6, 93), (94, 93), (181, 93), (182, 93), (270, 93), (7, 94), (95, 94)],
    [(182, 94), (183, 94), (271, 94), (8, 95), (96, 95), (183, 95), (184, 95), (272, 95), (9, 96), (97, 96)],
    [(184, 96), (185, 96), (273, 96), (10, 97), (98, 97), (185, 97), (186, 97), (274, 97), (11, 98), (99, 98)],
    [(186, 98), (187, 98), (275, 98), (12, 99), (100, 99), (187, 99), (188, 99), (276, 99), (13, 100), (101, 100)],
    [(188, 100), (189, 100), (277, 100), (14, 101), (102, 101), (189, 101), (190, 101), (278, 101), (15, 102), (103, 102)],
    [(190, 102), (191, 102), (279, 102), (16, 103), (104, 103), (191, 103), (192, 103), (280, 103), (17, 104), (105, 104)],
    [(192, 104), (193, 104), (281, 104), (18, 105), (106, 105), (193, 105), (194, 105), (282, 105), (19, 106), (107, 106)],
    [(194, 106), (195, 106), (283, 106), (20, 107), (108, 107), (195, 107), (196, 107), (284, 107), (21, 108), (109, 108)],
    [(196, 108), (197, 108), (285, 108), (22, 109), (110, 109), (197, 109), (198, 109), (286, 109), (23, 110), (111, 110)],
    [(198, 110), (199, 110), (287, 110), (24, 111), (112, 111), (199, 111), (200, 111), (288, 111), (25, 112), (113, 112)],
    [(200, 112), (201, 112), (289, 112), (26, 113), (114, 113), (201, 113), (202, 113), (290, 113), (27, 114), (115, 114)],
    [(202, 114), (203, 114), (291, 114), (28, 115), (116, 115), (203, 115), (204, 115), (292, 115), (29, 116), (117, 116)],
    [(204, 116), (205, 116), (293, 116), (30, 117), (118, 117), (205, 117), (206, 117), (294, 117), (31, 118), (119, 118)],
    [(206, 118), (207, 118), (295, 118), (32, 119), (120, 119), (207, 119), (208, 119), (296, 119), (33, 120), (121, 120)],
    [(208, 120), (209, 120), (297, 120), (34, 121), (122, 121), (209, 121), (210, 121), (298, 121), (35, 122), (123, 122)],
    [(210, 122), (211, 122), (299, 122), (36, 123), (124, 123), (211, 123), (212, 123), (300, 123), (37, 124), (125, 124)],
    [(212, 124), (213, 124), (301, 124), (38, 125), (126, 125), (213, 125), (214, 125), (302, 125), (39, 126), (127, 126)],
    [(214, 126), (215, 126), (303, 126), (40, 127), (128, 127), (215, 127), (216, 127), (304, 127), (41, 128), (129, 128)],
    [(216, 128), (217, 128), (305, 128), (42, 129), (130, 129), (217, 129), (218, 129), (306, 129), (43, 130), (131, 130)],
    [(218, 130), (219, 130), (307, 130), (44, 131), (132, 131), (219, 131), (220, 131), (308, 131), (45, 132), (133, 132)],
    [(220, 132), (221, 132), (309, 132), (46, 133), (134, 133), (221, 133), (222, 133), (310, 133), (47, 134), (135, 134)],
    [(222, 134), (223, 134), (311, 134), (48, 135), (136, 135), (223, 135), (224, 135), (312, 135), (49, 136), (137, 136)],
    [(224, 136), (225, 136), (313, 136), (50, 137), (138, 137), (225, 137), (226, 137), (314, 137), (51, 138), (139, 138)],
    [(226, 138), (227, 138), (315, 138), (52, 139), (140, 139), (227, 139), (228, 139), (316, 139), (53, 140), (141, 140)],
    [(228, 140), (229, 140), (317, 140), (54, 141), (142, 141), (229, 141), (230, 141), (318, 141), (55, 142), (143, 142)],
    [(230, 142), (231, 142), (319, 142), (56, 143), (144, 143), (231, 143), (232, 143), (320, 143), (57, 144), (145, 144)],
    [(232, 144), (233, 144), (321, 144), (58, 145), (146, 145), (233, 145), (234, 145), (322, 145), (59, 146), (147, 146)],
    [(234, 146), (235, 146), (323, 146), (60, 147), (148, 147), (235, 147), (236, 147), (324, 147), (61, 148), (149, 148)],
    [(236, 148), (237, 148), (325, 148), (62, 149), (150, 149), (237, 149), (238, 149), (326, 149), (63, 150), (151, 150)],
    [(238, 150), (239, 150), (327, 150), (64, 151), (152, 151), (239, 151), (240, 151), (328, 151), (65, 152), (153, 152)],
    [(240, 152), (241, 152), (329, 152), (66, 153), (154, 153), (241, 153), (242, 153), (330, 153), (67, 154), (155, 154)],
    [(242, 154), (243, 154), (331, 154), (68, 155), (156, 155), (243, 155), (244, 155), (332, 155), (69, 156), (157, 156)],
    [(244, 156), (245, 156), (333, 156), (70, 157), (158, 157), (245, 157), (246, 157), (334, 157), (71, 158), (159, 158)],
    [(246, 158), (247, 158), (335, 158), (72, 159), (160, 159), (247, 159), (248, 159), (336, 159), (73, 160), (161, 160)],
    [(248, 160), (249, 160), (337, 160), (74, 161), (162, 161), (249, 161), (250, 161), (338, 161), (75, 162), (163, 162)],
    [(250, 162), (251, 162), (339, 162), (76, 163), (164, 163), (251, 163), (252, 163), (340, 163), (77, 164), (165, 164)],
    [(252, 164), (253, 164), (341, 164), (78, 165), (166, 165), (253, 165), (254, 165), (342, 165), (79, 166), (167, 166)],
    [(254, 166), (255, 166), (343, 166), (80, 167), (168, 167), (255, 167), (256, 167), (344, 167), (81, 168), (169, 168)],
    [(256, 168), (257, 168), (345, 168), (82, 169), (170, 169), (257, 169), (258, 169), (346, 169), (83, 170), (171, 170)],
    [(258, 170), (259, 170), (347, 170), (84, 171), (172, 171), (259, 171), (260, 171), (348, 171), (85, 172), (173, 172)],
    [(260, 172), (261, 172), (349, 172), (86, 173), (174, 173), (261, 173), (262, 173), (350, 173), (87, 174), (175, 174)],
    [(262, 174), (263, 174), (351, 174), (0, 175), (88, 175), (176, 175), (263, 175), (264, 175), (1, 176), (89, 176)],
    [(177, 176), (265, 176), (2, 177), (90, 177), (178, 177), (266, 177), (3, 178), (91, 178), (179, 178), (267, 178)]]"

definition SF3_B_Inv_ind_1 :: "(nat \<times> nat) list" where
  "SF3_B_Inv_ind_1 = concat [
    [(4, 179), (92, 179), (180, 179), (268, 179), (5, 180), (93, 180), (181, 180), (269, 180), (6, 181), (94, 181)],
    [(182, 181), (270, 181), (7, 182), (95, 182), (183, 182), (271, 182), (8, 183), (96, 183), (184, 183), (272, 183)],
    [(9, 184), (97, 184), (185, 184), (273, 184), (10, 185), (98, 185), (186, 185), (274, 185), (11, 186), (99, 186)],
    [(187, 186), (275, 186), (12, 187), (100, 187), (188, 187), (276, 187), (13, 188), (101, 188), (189, 188), (277, 188)],
    [(14, 189), (102, 189), (190, 189), (278, 189), (15, 190), (103, 190), (191, 190), (279, 190), (16, 191), (104, 191)],
    [(192, 191), (280, 191), (17, 192), (105, 192), (193, 192), (281, 192), (18, 193), (106, 193), (194, 193), (282, 193)],
    [(19, 194), (107, 194), (195, 194), (283, 194), (20, 195), (108, 195), (196, 195), (284, 195), (21, 196), (109, 196)],
    [(197, 196), (285, 196), (22, 197), (110, 197), (198, 197), (286, 197), (23, 198), (111, 198), (199, 198), (287, 198)],
    [(24, 199), (112, 199), (200, 199), (288, 199), (25, 200), (113, 200), (201, 200), (289, 200), (26, 201), (114, 201)],
    [(202, 201), (290, 201), (27, 202), (115, 202), (203, 202), (291, 202), (28, 203), (116, 203), (204, 203), (292, 203)],
    [(29, 204), (117, 204), (205, 204), (293, 204), (30, 205), (118, 205), (206, 205), (294, 205), (31, 206), (119, 206)],
    [(207, 206), (295, 206), (32, 207), (120, 207), (208, 207), (296, 207), (33, 208), (121, 208), (209, 208), (297, 208)],
    [(34, 209), (122, 209), (210, 209), (298, 209), (35, 210), (123, 210), (211, 210), (299, 210), (36, 211), (124, 211)],
    [(212, 211), (300, 211), (37, 212), (125, 212), (213, 212), (301, 212), (38, 213), (126, 213), (214, 213), (302, 213)],
    [(39, 214), (127, 214), (215, 214), (303, 214), (40, 215), (128, 215), (216, 215), (304, 215), (41, 216), (129, 216)],
    [(217, 216), (305, 216), (42, 217), (130, 217), (218, 217), (306, 217), (43, 218), (131, 218), (219, 218), (307, 218)],
    [(44, 219), (132, 219), (220, 219), (308, 219), (45, 220), (133, 220), (221, 220), (309, 220), (46, 221), (134, 221)],
    [(222, 221), (310, 221), (47, 222), (135, 222), (223, 222), (311, 222), (48, 223), (136, 223), (224, 223), (312, 223)],
    [(49, 224), (137, 224), (225, 224), (313, 224), (50, 225), (138, 225), (226, 225), (314, 225), (51, 226), (139, 226)],
    [(227, 226), (315, 226), (52, 227), (140, 227), (228, 227), (316, 227), (53, 228), (141, 228), (229, 228), (317, 228)],
    [(54, 229), (142, 229), (230, 229), (318, 229), (55, 230), (143, 230), (231, 230), (319, 230), (56, 231), (144, 231)],
    [(232, 231), (320, 231), (57, 232), (145, 232), (233, 232), (321, 232), (58, 233), (146, 233), (234, 233), (322, 233)],
    [(59, 234), (147, 234), (235, 234), (323, 234), (60, 235), (148, 235), (236, 235), (324, 235), (61, 236), (149, 236)],
    [(237, 236), (325, 236), (62, 237), (150, 237), (238, 237), (326, 237), (63, 238), (151, 238), (239, 238), (327, 238)],
    [(64, 239), (152, 239), (240, 239), (328, 239), (65, 240), (153, 240), (241, 240), (329, 240), (66, 241), (154, 241)],
    [(242, 241), (330, 241), (67, 242), (155, 242), (243, 242), (331, 242), (68, 243), (156, 243), (244, 243), (332, 243)],
    [(69, 244), (157, 244), (245, 244), (333, 244), (70, 245), (158, 245), (246, 245), (334, 245), (71, 246), (159, 246)],
    [(247, 246), (335, 246), (72, 247), (160, 247), (248, 247), (336, 247), (73, 248), (161, 248), (249, 248), (337, 248)],
    [(74, 249), (162, 249), (250, 249), (338, 249), (75, 250), (163, 250), (251, 250), (339, 250), (76, 251), (164, 251)],
    [(252, 251), (340, 251), (77, 252), (165, 252), (253, 252), (341, 252), (78, 253), (166, 253), (254, 253), (342, 253)],
    [(79, 254), (167, 254), (255, 254), (343, 254), (80, 255), (168, 255), (256, 255), (344, 255), (81, 256), (169, 256)],
    [(257, 256), (345, 256), (82, 257), (170, 257), (258, 257), (346, 257), (83, 258), (171, 258), (259, 258), (347, 258)],
    [(84, 259), (172, 259), (260, 259), (348, 259), (85, 260), (173, 260), (261, 260), (349, 260), (86, 261), (174, 261)],
    [(262, 261), (350, 261), (87, 262), (175, 262), (263, 262), (351, 262), (0, 263), (88, 263), (176, 263), (264, 263)],
    [(1, 264), (89, 264), (177, 264), (264, 264), (265, 264), (2, 265), (90, 265), (178, 265), (265, 265), (266, 265)],
    [(3, 266), (91, 266), (179, 266), (266, 266), (267, 266), (4, 267), (92, 267), (180, 267), (267, 267), (268, 267)],
    [(5, 268), (93, 268), (181, 268), (268, 268), (269, 268), (6, 269), (94, 269), (182, 269), (269, 269), (270, 269)],
    [(7, 270), (95, 270), (183, 270), (270, 270), (271, 270), (8, 271), (96, 271), (184, 271), (271, 271), (272, 271)],
    [(9, 272), (97, 272), (185, 272), (272, 272), (273, 272), (10, 273), (98, 273), (186, 273), (273, 273), (274, 273)],
    [(11, 274), (99, 274), (187, 274), (274, 274), (275, 274), (12, 275), (100, 275), (188, 275), (275, 275), (276, 275)],
    [(13, 276), (101, 276), (189, 276), (276, 276), (277, 276), (14, 277), (102, 277), (190, 277), (277, 277), (278, 277)],
    [(15, 278), (103, 278), (191, 278), (278, 278), (279, 278), (16, 279), (104, 279), (192, 279), (279, 279), (280, 279)],
    [(17, 280), (105, 280), (193, 280), (280, 280), (281, 280), (18, 281), (106, 281), (194, 281), (281, 281), (282, 281)],
    [(19, 282), (107, 282), (195, 282), (282, 282), (283, 282), (20, 283), (108, 283), (196, 283), (283, 283), (284, 283)],
    [(21, 284), (109, 284), (197, 284), (284, 284), (285, 284), (22, 285), (110, 285), (198, 285), (285, 285), (286, 285)],
    [(23, 286), (111, 286), (199, 286), (286, 286), (287, 286), (24, 287), (112, 287), (200, 287), (287, 287), (288, 287)],
    [(25, 288), (113, 288), (201, 288), (288, 288), (289, 288), (26, 289), (114, 289), (202, 289), (289, 289), (290, 289)],
    [(27, 290), (115, 290), (203, 290), (290, 290), (291, 290), (28, 291), (116, 291), (204, 291), (291, 291), (292, 291)],
    [(29, 292), (117, 292), (205, 292), (292, 292), (293, 292), (30, 293), (118, 293), (206, 293), (293, 293), (294, 293)],
    [(31, 294), (119, 294), (207, 294), (294, 294), (295, 294), (32, 295), (120, 295), (208, 295), (295, 295), (296, 295)],
    [(33, 296), (121, 296), (209, 296), (296, 296), (297, 296), (34, 297), (122, 297), (210, 297), (297, 297), (298, 297)],
    [(35, 298), (123, 298), (211, 298), (298, 298), (299, 298), (36, 299), (124, 299), (212, 299), (299, 299), (300, 299)],
    [(37, 300), (125, 300), (213, 300), (300, 300), (301, 300), (38, 301), (126, 301), (214, 301), (301, 301), (302, 301)],
    [(39, 302), (127, 302), (215, 302), (302, 302), (303, 302), (40, 303), (128, 303), (216, 303), (303, 303), (304, 303)],
    [(41, 304), (129, 304), (217, 304), (304, 304), (305, 304), (42, 305), (130, 305), (218, 305), (305, 305), (306, 305)],
    [(43, 306), (131, 306), (219, 306), (306, 306), (307, 306), (44, 307), (132, 307), (220, 307), (307, 307), (308, 307)],
    [(45, 308), (133, 308), (221, 308), (308, 308), (309, 308), (46, 309), (134, 309), (222, 309), (309, 309), (310, 309)],
    [(47, 310), (135, 310), (223, 310), (310, 310), (311, 310), (48, 311), (136, 311), (224, 311), (311, 311), (312, 311)],
    [(49, 312), (137, 312), (225, 312), (312, 312), (313, 312), (50, 313), (138, 313), (226, 313), (313, 313), (314, 313)],
    [(51, 314), (139, 314), (227, 314), (314, 314), (315, 314), (52, 315), (140, 315), (228, 315), (315, 315), (316, 315)],
    [(53, 316), (141, 316), (229, 316), (316, 316), (317, 316), (54, 317), (142, 317), (230, 317), (317, 317), (318, 317)],
    [(55, 318), (143, 318), (231, 318), (318, 318), (319, 318), (56, 319), (144, 319), (232, 319), (319, 319), (320, 319)],
    [(57, 320), (145, 320), (233, 320), (320, 320), (321, 320), (58, 321), (146, 321), (234, 321), (321, 321), (322, 321)],
    [(59, 322), (147, 322), (235, 322), (322, 322), (323, 322), (60, 323), (148, 323), (236, 323), (323, 323), (324, 323)],
    [(61, 324), (149, 324), (237, 324), (324, 324), (325, 324), (62, 325), (150, 325), (238, 325), (325, 325), (326, 325)],
    [(63, 326), (151, 326), (239, 326), (326, 326), (327, 326), (64, 327), (152, 327), (240, 327), (327, 327), (328, 327)],
    [(65, 328), (153, 328), (241, 328), (328, 328), (329, 328), (66, 329), (154, 329), (242, 329), (329, 329), (330, 329)],
    [(67, 330), (155, 330), (243, 330), (330, 330), (331, 330), (68, 331), (156, 331), (244, 331), (331, 331), (332, 331)],
    [(69, 332), (157, 332), (245, 332), (332, 332), (333, 332), (70, 333), (158, 333), (246, 333), (333, 333), (334, 333)],
    [(71, 334), (159, 334), (247, 334), (334, 334), (335, 334), (72, 335), (160, 335), (248, 335), (335, 335), (336, 335)],
    [(73, 336), (161, 336), (249, 336), (336, 336), (337, 336), (74, 337), (162, 337), (250, 337), (337, 337), (338, 337)],
    [(75, 338), (163, 338), (251, 338), (338, 338), (339, 338), (76, 339), (164, 339), (252, 339), (339, 339), (340, 339)],
    [(77, 340), (165, 340), (253, 340), (340, 340), (341, 340), (78, 341), (166, 341), (254, 341), (341, 341), (342, 341)],
    [(79, 342), (167, 342), (255, 342), (342, 342), (343, 342), (80, 343), (168, 343), (256, 343), (343, 343), (344, 343)],
    [(81, 344), (169, 344), (257, 344), (344, 344), (345, 344), (82, 345), (170, 345), (258, 345), (345, 345), (346, 345)],
    [(83, 346), (171, 346), (259, 346), (346, 346), (347, 346), (84, 347), (172, 347), (260, 347), (347, 347), (348, 347)],
    [(85, 348), (173, 348), (261, 348), (348, 348), (349, 348), (86, 349), (174, 349), (262, 349), (349, 349), (350, 349)],
    [(87, 350), (175, 350), (263, 350), (350, 350), (351, 350), (0, 351), (88, 351), (176, 351), (264, 351), (351, 351)]]"

definition SF3_B_Inv_ind :: "(nat \<times> nat) list" where
  "SF3_B_Inv_ind = SF3_B_Inv_ind_0 @ SF3_B_Inv_ind_1"

section \<open>Every position is inside its matrix\<close>

lemma SF3_A_ind_0_bounds: "list_all (in_dims 352 880) SF3_A_ind_0"
  unfolding SF3_A_ind_0_def by (simp add: list_all_concat in_dims_Pair)

lemma SF3_A_ind_1_bounds: "list_all (in_dims 352 880) SF3_A_ind_1"
  unfolding SF3_A_ind_1_def by (simp add: list_all_concat in_dims_Pair)

lemma SF3_A_ind_bounds: "list_all (in_dims 352 880) SF3_A_ind"
  unfolding SF3_A_ind_def list_all_append
  by (intro conjI SF3_A_ind_0_bounds SF3_A_ind_1_bounds)

lemma SF3_B_ind_bounds: "list_all (in_dims 352 352) SF3_B_ind"
  unfolding SF3_B_ind_def by (simp add: list_all_concat in_dims_Pair)

lemma SF3_D_ind_0_bounds: "list_all (in_dims 3344 352) SF3_D_ind_0"
  unfolding SF3_D_ind_0_def by (simp add: list_all_concat in_dims_Pair)

lemma SF3_D_ind_1_bounds: "list_all (in_dims 3344 352) SF3_D_ind_1"
  unfolding SF3_D_ind_1_def by (simp add: list_all_concat in_dims_Pair)

lemma SF3_D_ind_2_bounds: "list_all (in_dims 3344 352) SF3_D_ind_2"
  unfolding SF3_D_ind_2_def by (simp add: list_all_concat in_dims_Pair)

lemma SF3_D_ind_bounds: "list_all (in_dims 3344 352) SF3_D_ind"
  unfolding SF3_D_ind_def list_all_append
  by (intro conjI SF3_D_ind_0_bounds SF3_D_ind_1_bounds SF3_D_ind_2_bounds)

lemma SF3_B_Inv_ind_0_bounds: "list_all (in_dims 352 352) SF3_B_Inv_ind_0"
  unfolding SF3_B_Inv_ind_0_def by (simp add: list_all_concat in_dims_Pair)

lemma SF3_B_Inv_ind_1_bounds: "list_all (in_dims 352 352) SF3_B_Inv_ind_1"
  unfolding SF3_B_Inv_ind_1_def by (simp add: list_all_concat in_dims_Pair)

lemma SF3_B_Inv_ind_bounds: "list_all (in_dims 352 352) SF3_B_Inv_ind"
  unfolding SF3_B_Inv_ind_def list_all_append
  by (intro conjI SF3_B_Inv_ind_0_bounds SF3_B_Inv_ind_1_bounds)

end
