(* ===== verification/Afs_Inv_SF3.thy ===== *)
theory Afs_Inv_SF3
  imports Afs_Tab_SF3
begin

text \<open>
  The table \<open>SF3_B_Inv_ind\<close> is the inverse of the table \<open>SF3_B_ind\<close> over GF(2): evaluated column by
  column, in two halves.
\<close>

lemma SF3_unit_cols_0:
  "unit_cols (nt_build SF3_B_ind) (nt_build SF3_B_Inv_ind_0) [0..<179]"
  apply (rule unit_cols_eval)
    apply (simp only: SF3_B_ind_def nt_build_eval)
   apply (simp only: SF3_B_Inv_ind_0_def nt_build_eval)
  apply (simp add: upt_lit_eval upt_rec_numeral del: One_nat_def)
  apply (simp only: unit_cols_simps cong: nt_congs)
  done

lemma SF3_unit_cols_1:
  "unit_cols (nt_build SF3_B_ind) (nt_build SF3_B_Inv_ind_1) [179..<352]"
  apply (rule unit_cols_eval)
    apply (simp only: SF3_B_ind_def nt_build_eval)
   apply (simp only: SF3_B_Inv_ind_1_def nt_build_eval)
  apply (simp add: upt_lit_eval upt_rec_numeral del: One_nat_def)
  apply (simp only: unit_cols_simps cong: nt_congs)
  done

lemma SF3_B_Inv_cols:
  "list_all (\<lambda>p. snd p < 179) SF3_B_Inv_ind_0" "list_all (\<lambda>p. 179 \<le> snd p) SF3_B_Inv_ind_1"
  unfolding SF3_B_Inv_ind_0_def SF3_B_Inv_ind_1_def by (simp_all add: list_all_concat)

lemma SF3_right_inverse: "right_inverse (set SF3_B_ind) (set SF3_B_Inv_ind) 352"
  unfolding SF3_B_Inv_ind_def
  by (rule right_inverse_halves [OF SF3_unit_cols_0 SF3_unit_cols_1 SF3_B_Inv_cols])
    (use SF3_B_Inv_ind_bounds in \<open>auto simp: SF3_B_Inv_ind_def list_all_iff in_dims_def\<close>)

end
