(* ===== verification/Afs_Tab_SF2_C.thy ===== *)
theory Afs_Tab_SF2_C
  imports Afs_Gf2
begin

text \<open>
  The submatrix \<open>C\<close> of the LDPC code of subframe 2, as the index table of \<open>afs_nav.c\<close> lists it.
\<close>

section \<open>SF2_C: positions in a matrix of 4560 rows and 1200 columns\<close>

definition SF2_C_ind_0 :: "(nat \<times> nat) list" where
  "SF2_C_ind_0 = concat [
    [(91, 0), (239, 0), (343, 0), (544, 0), (802, 0), (902, 0), (1152, 0), (1402, 0), (1792, 0), (1881, 0)],
    [(2042, 0), (2395, 0), (2574, 0), (2816, 0), (3095, 0), (3421, 0), (3656, 0), (3902, 0), (4273, 0), (92, 1)],
    [(120, 1), (344, 1), (545, 1), (803, 1), (903, 1), (1153, 1), (1403, 1), (1793, 1), (1882, 1), (2043, 1)],
    [(2396, 1), (2575, 1), (2817, 1), (3096, 1), (3422, 1), (3657, 1), (3903, 1), (4274, 1), (93, 2), (121, 2)],
    [(345, 2), (546, 2), (804, 2), (904, 2), (1154, 2), (1404, 2), (1794, 2), (1883, 2), (2044, 2), (2397, 2)],
    [(2576, 2), (2818, 2), (3097, 2), (3423, 2), (3658, 2), (3904, 2), (4275, 2), (94, 3), (122, 3), (346, 3)],
    [(547, 3), (805, 3), (905, 3), (1155, 3), (1405, 3), (1795, 3), (1884, 3), (2045, 3), (2398, 3), (2577, 3)],
    [(2819, 3), (3098, 3), (3424, 3), (3659, 3), (3905, 3), (4276, 3), (95, 4), (123, 4), (347, 4), (548, 4)],
    [(806, 4), (906, 4), (1156, 4), (1406, 4), (1796, 4), (1885, 4), (2046, 4), (2399, 4), (2578, 4), (2820, 4)],
    [(3099, 4), (3425, 4), (3660, 4), (3906, 4), (4277, 4), (96, 5), (124, 5), (348, 5), (549, 5), (807, 5)],
    [(907, 5), (1157, 5), (1407, 5), (1797, 5), (1886, 5), (2047, 5), (2280, 5), (2579, 5), (2821, 5), (3100, 5)],
    [(3426, 5), (3661, 5), (3907, 5), (4278, 5), (97, 6), (125, 6), (349, 6), (550, 6), (808, 6), (908, 6)],
    [(1158, 6), (1408, 6), (1798, 6), (1887, 6), (2048, 6), (2281, 6), (2580, 6), (2822, 6), (3101, 6), (3427, 6)],
    [(3662, 6), (3908, 6), (4279, 6), (98, 7), (126, 7), (350, 7), (551, 7), (809, 7), (909, 7), (1159, 7)],
    [(1409, 7), (1799, 7), (1888, 7), (2049, 7), (2282, 7), (2581, 7), (2823, 7), (3102, 7), (3428, 7), (3663, 7)],
    [(3909, 7), (4280, 7), (99, 8), (127, 8), (351, 8), (552, 8), (810, 8), (910, 8), (1160, 8), (1410, 8)],
    [(1680, 8), (1889, 8), (2050, 8), (2283, 8), (2582, 8), (2824, 8), (3103, 8), (3429, 8), (3664, 8), (3910, 8)],
    [(4281, 8), (100, 9), (128, 9), (352, 9), (553, 9), (811, 9), (911, 9), (1161, 9), (1411, 9), (1681, 9)],
    [(1890, 9), (2051, 9), (2284, 9), (2583, 9), (2825, 9), (3104, 9), (3430, 9), (3665, 9), (3911, 9), (4282, 9)],
    [(101, 10), (129, 10), (353, 10), (554, 10), (812, 10), (912, 10), (1162, 10), (1412, 10), (1682, 10), (1891, 10)],
    [(2052, 10), (2285, 10), (2584, 10), (2826, 10), (3105, 10), (3431, 10), (3666, 10), (3912, 10), (4283, 10), (102, 11)],
    [(130, 11), (354, 11), (555, 11), (813, 11), (913, 11), (1163, 11), (1413, 11), (1683, 11), (1892, 11), (2053, 11)],
    [(2286, 11), (2585, 11), (2827, 11), (3106, 11), (3432, 11), (3667, 11), (3913, 11), (4284, 11), (103, 12), (131, 12)],
    [(355, 12), (556, 12), (814, 12), (914, 12), (1164, 12), (1414, 12), (1684, 12), (1893, 12), (2054, 12), (2287, 12)],
    [(2586, 12), (2828, 12), (3107, 12), (3433, 12), (3668, 12), (3914, 12), (4285, 12), (104, 13), (132, 13), (356, 13)],
    [(557, 13), (815, 13), (915, 13), (1165, 13), (1415, 13), (1685, 13), (1894, 13), (2055, 13), (2288, 13), (2587, 13)],
    [(2829, 13), (3108, 13), (3434, 13), (3669, 13), (3915, 13), (4286, 13), (105, 14), (133, 14), (357, 14), (558, 14)],
    [(816, 14), (916, 14), (1166, 14), (1416, 14), (1686, 14), (1895, 14), (2056, 14), (2289, 14), (2588, 14), (2830, 14)],
    [(3109, 14), (3435, 14), (3670, 14), (3916, 14), (4287, 14), (106, 15), (134, 15), (358, 15), (559, 15), (817, 15)],
    [(917, 15), (1167, 15), (1417, 15), (1687, 15), (1896, 15), (2057, 15), (2290, 15), (2589, 15), (2831, 15), (3110, 15)],
    [(3436, 15), (3671, 15), (3917, 15), (4288, 15), (107, 16), (135, 16), (359, 16), (560, 16), (818, 16), (918, 16)],
    [(1168, 16), (1418, 16), (1688, 16), (1897, 16), (2058, 16), (2291, 16), (2590, 16), (2832, 16), (3111, 16), (3437, 16)],
    [(3672, 16), (3918, 16), (4289, 16), (108, 17), (136, 17), (240, 17), (561, 17), (819, 17), (919, 17), (1169, 17)],
    [(1419, 17), (1689, 17), (1898, 17), (2059, 17), (2292, 17), (2591, 17), (2833, 17), (3112, 17), (3438, 17), (3673, 17)],
    [(3919, 17), (4290, 17), (109, 18), (137, 18), (241, 18), (562, 18), (820, 18), (920, 18), (1170, 18), (1420, 18)],
    [(1690, 18), (1899, 18), (2060, 18), (2293, 18), (2592, 18), (2834, 18), (3113, 18), (3439, 18), (3674, 18), (3920, 18)],
    [(4291, 18), (110, 19), (138, 19), (242, 19), (563, 19), (821, 19), (921, 19), (1171, 19), (1421, 19), (1691, 19)],
    [(1900, 19), (2061, 19), (2294, 19), (2593, 19), (2835, 19), (3114, 19), (3440, 19), (3675, 19), (3921, 19), (4292, 19)],
    [(111, 20), (139, 20), (243, 20), (564, 20), (822, 20), (922, 20), (1172, 20), (1422, 20), (1692, 20), (1901, 20)],
    [(2062, 20), (2295, 20), (2594, 20), (2836, 20), (3115, 20), (3441, 20), (3676, 20), (3922, 20), (4293, 20), (112, 21)],
    [(140, 21), (244, 21), (565, 21), (823, 21), (923, 21), (1173, 21), (1423, 21), (1693, 21), (1902, 21), (2063, 21)],
    [(2296, 21), (2595, 21), (2837, 21), (3116, 21), (3442, 21), (3677, 21), (3923, 21), (4294, 21), (113, 22), (141, 22)],
    [(245, 22), (566, 22), (824, 22), (924, 22), (1174, 22), (1424, 22), (1694, 22), (1903, 22), (2064, 22), (2297, 22)],
    [(2596, 22), (2838, 22), (3117, 22), (3443, 22), (3678, 22), (3924, 22), (4295, 22), (114, 23), (142, 23), (246, 23)],
    [(567, 23), (825, 23), (925, 23), (1175, 23), (1425, 23), (1695, 23), (1904, 23), (2065, 23), (2298, 23), (2597, 23)],
    [(2839, 23), (3118, 23), (3444, 23), (3679, 23), (3925, 23), (4296, 23), (115, 24), (143, 24), (247, 24), (568, 24)],
    [(826, 24), (926, 24), (1176, 24), (1426, 24), (1696, 24), (1905, 24), (2066, 24), (2299, 24), (2598, 24), (2840, 24)],
    [(3119, 24), (3445, 24), (3680, 24), (3926, 24), (4297, 24), (116, 25), (144, 25), (248, 25), (569, 25), (827, 25)],
    [(927, 25), (1177, 25), (1427, 25), (1697, 25), (1906, 25), (2067, 25), (2300, 25), (2599, 25), (2841, 25), (3000, 25)],
    [(3446, 25), (3681, 25), (3927, 25), (4298, 25), (117, 26), (145, 26), (249, 26), (570, 26), (828, 26), (928, 26)],
    [(1178, 26), (1428, 26), (1698, 26), (1907, 26), (2068, 26), (2301, 26), (2600, 26), (2842, 26), (3001, 26), (3447, 26)],
    [(3682, 26), (3928, 26), (4299, 26), (118, 27), (146, 27), (250, 27), (571, 27), (829, 27), (929, 27), (1179, 27)],
    [(1429, 27), (1699, 27), (1908, 27), (2069, 27), (2302, 27), (2601, 27), (2843, 27), (3002, 27), (3448, 27), (3683, 27)],
    [(3929, 27), (4300, 27), (119, 28), (147, 28), (251, 28), (572, 28), (830, 28), (930, 28), (1180, 28), (1430, 28)],
    [(1700, 28), (1909, 28), (2070, 28), (2303, 28), (2602, 28), (2844, 28), (3003, 28), (3449, 28), (3684, 28), (3930, 28)],
    [(4301, 28), (0, 29), (148, 29), (252, 29), (573, 29), (831, 29), (931, 29), (1181, 29), (1431, 29), (1701, 29)],
    [(1910, 29), (2071, 29), (2304, 29), (2603, 29), (2845, 29), (3004, 29), (3450, 29), (3685, 29), (3931, 29), (4302, 29)],
    [(1, 30), (149, 30), (253, 30), (574, 30), (832, 30), (932, 30), (1182, 30), (1432, 30), (1702, 30), (1911, 30)],
    [(2072, 30), (2305, 30), (2604, 30), (2846, 30), (3005, 30), (3451, 30), (3686, 30), (3932, 30), (4303, 30), (2, 31)],
    [(150, 31), (254, 31), (575, 31), (833, 31), (933, 31), (1183, 31), (1433, 31), (1703, 31), (1912, 31), (2073, 31)],
    [(2306, 31), (2605, 31), (2847, 31), (3006, 31), (3452, 31), (3687, 31), (3933, 31), (4304, 31), (3, 32), (151, 32)],
    [(255, 32), (576, 32), (834, 32), (934, 32), (1184, 32), (1434, 32), (1704, 32), (1913, 32), (2074, 32), (2307, 32)],
    [(2606, 32), (2848, 32), (3007, 32), (3453, 32), (3688, 32), (3934, 32), (4305, 32), (4, 33), (152, 33), (256, 33)],
    [(577, 33), (835, 33), (935, 33), (1185, 33), (1435, 33), (1705, 33), (1914, 33), (2075, 33), (2308, 33), (2607, 33)],
    [(2849, 33), (3008, 33), (3454, 33), (3689, 33), (3935, 33), (4306, 33), (5, 34), (153, 34), (257, 34), (578, 34)],
    [(836, 34), (936, 34), (1186, 34), (1436, 34), (1706, 34), (1915, 34), (2076, 34), (2309, 34), (2608, 34), (2850, 34)],
    [(3009, 34), (3455, 34), (3690, 34), (3936, 34), (4307, 34), (6, 35), (154, 35), (258, 35), (579, 35), (837, 35)],
    [(937, 35), (1187, 35), (1437, 35), (1707, 35), (1916, 35), (2077, 35), (2310, 35), (2609, 35), (2851, 35), (3010, 35)],
    [(3456, 35), (3691, 35), (3937, 35), (4308, 35), (7, 36), (155, 36), (259, 36), (580, 36), (838, 36), (938, 36)],
    [(1188, 36), (1438, 36), (1708, 36), (1917, 36), (2078, 36), (2311, 36), (2610, 36), (2852, 36), (3011, 36), (3457, 36)],
    [(3692, 36), (3938, 36), (4309, 36), (8, 37), (156, 37), (260, 37), (581, 37), (839, 37), (939, 37), (1189, 37)],
    [(1439, 37), (1709, 37), (1918, 37), (2079, 37), (2312, 37), (2611, 37), (2853, 37), (3012, 37), (3458, 37), (3693, 37)],
    [(3939, 37), (4310, 37), (9, 38), (157, 38), (261, 38), (582, 38), (720, 38), (940, 38), (1190, 38), (1320, 38)],
    [(1710, 38), (1919, 38), (2080, 38), (2313, 38), (2612, 38), (2854, 38), (3013, 38), (3459, 38), (3694, 38), (3940, 38)],
    [(4311, 38), (10, 39), (158, 39), (262, 39), (583, 39), (721, 39), (941, 39), (1191, 39), (1321, 39), (1711, 39)],
    [(1800, 39), (2081, 39), (2314, 39), (2613, 39), (2855, 39), (3014, 39), (3460, 39), (3695, 39), (3941, 39), (4312, 39)],
    [(11, 40), (159, 40), (263, 40), (584, 40), (722, 40), (942, 40), (1192, 40), (1322, 40), (1712, 40), (1801, 40)],
    [(2082, 40), (2315, 40), (2614, 40), (2856, 40), (3015, 40), (3461, 40), (3696, 40), (3942, 40), (4313, 40), (12, 41)],
    [(160, 41), (264, 41), (585, 41), (723, 41), (943, 41), (1193, 41), (1323, 41), (1713, 41), (1802, 41), (2083, 41)],
    [(2316, 41), (2615, 41), (2857, 41), (3016, 41), (3462, 41), (3697, 41), (3943, 41), (4314, 41), (13, 42), (161, 42)],
    [(265, 42), (586, 42), (724, 42), (944, 42), (1194, 42), (1324, 42), (1714, 42), (1803, 42), (2084, 42), (2317, 42)],
    [(2616, 42), (2858, 42), (3017, 42), (3463, 42), (3698, 42), (3944, 42), (4315, 42), (14, 43), (162, 43), (266, 43)],
    [(587, 43), (725, 43), (945, 43), (1195, 43), (1325, 43), (1715, 43), (1804, 43), (2085, 43), (2318, 43), (2617, 43)],
    [(2859, 43), (3018, 43), (3464, 43), (3699, 43), (3945, 43), (4316, 43), (15, 44), (163, 44), (267, 44), (588, 44)],
    [(726, 44), (946, 44), (1196, 44), (1326, 44), (1716, 44), (1805, 44), (2086, 44), (2319, 44), (2618, 44), (2860, 44)],
    [(3019, 44), (3465, 44), (3700, 44), (3946, 44), (4317, 44), (16, 45), (164, 45), (268, 45), (589, 45), (727, 45)],
    [(947, 45), (1197, 45), (1327, 45), (1717, 45), (1806, 45), (2087, 45), (2320, 45), (2619, 45), (2861, 45), (3020, 45)],
    [(3466, 45), (3701, 45), (3947, 45), (4318, 45), (17, 46), (165, 46), (269, 46), (590, 46), (728, 46), (948, 46)],
    [(1198, 46), (1328, 46), (1718, 46), (1807, 46), (2088, 46), (2321, 46), (2620, 46), (2862, 46), (3021, 46), (3467, 46)],
    [(3702, 46), (3948, 46), (4319, 46), (18, 47), (166, 47), (270, 47), (591, 47), (729, 47), (949, 47), (1199, 47)],
    [(1329, 47), (1719, 47), (1808, 47), (2089, 47), (2322, 47), (2621, 47), (2863, 47), (3022, 47), (3468, 47), (3703, 47)],
    [(3949, 47), (4200, 47), (19, 48), (167, 48), (271, 48), (592, 48), (730, 48), (950, 48), (1080, 48), (1330, 48)],
    [(1720, 48), (1809, 48), (2090, 48), (2323, 48), (2622, 48), (2864, 48), (3023, 48), (3469, 48), (3704, 48), (3950, 48)],
    [(4201, 48), (20, 49), (168, 49), (272, 49), (593, 49), (731, 49), (951, 49), (1081, 49), (1331, 49), (1721, 49)],
    [(1810, 49), (2091, 49), (2324, 49), (2623, 49), (2865, 49), (3024, 49), (3470, 49), (3705, 49), (3951, 49), (4202, 49)],
    [(21, 50), (169, 50), (273, 50), (594, 50), (732, 50), (952, 50), (1082, 50), (1332, 50), (1722, 50), (1811, 50)],
    [(2092, 50), (2325, 50), (2624, 50), (2866, 50), (3025, 50), (3471, 50), (3706, 50), (3952, 50), (4203, 50), (22, 51)],
    [(170, 51), (274, 51), (595, 51), (733, 51), (953, 51), (1083, 51), (1333, 51), (1723, 51), (1812, 51), (2093, 51)],
    [(2326, 51), (2625, 51), (2867, 51), (3026, 51), (3472, 51), (3707, 51), (3953, 51), (4204, 51), (23, 52), (171, 52)],
    [(275, 52), (596, 52), (734, 52), (954, 52), (1084, 52), (1334, 52), (1724, 52), (1813, 52), (2094, 52), (2327, 52)],
    [(2626, 52), (2868, 52), (3027, 52), (3473, 52), (3708, 52), (3954, 52), (4205, 52), (24, 53), (172, 53), (276, 53)],
    [(597, 53), (735, 53), (955, 53), (1085, 53), (1335, 53), (1725, 53), (1814, 53), (2095, 53), (2328, 53), (2627, 53)],
    [(2869, 53), (3028, 53), (3474, 53), (3709, 53), (3955, 53), (4206, 53), (25, 54), (173, 54), (277, 54), (598, 54)],
    [(736, 54), (956, 54), (1086, 54), (1336, 54), (1726, 54), (1815, 54), (2096, 54), (2329, 54), (2628, 54), (2870, 54)],
    [(3029, 54), (3475, 54), (3710, 54), (3956, 54), (4207, 54), (26, 55), (174, 55), (278, 55), (599, 55), (737, 55)],
    [(957, 55), (1087, 55), (1337, 55), (1727, 55), (1816, 55), (2097, 55), (2330, 55), (2629, 55), (2871, 55), (3030, 55)],
    [(3476, 55), (3711, 55), (3957, 55), (4208, 55), (27, 56), (175, 56), (279, 56), (480, 56), (738, 56), (958, 56)],
    [(1088, 56), (1338, 56), (1728, 56), (1817, 56), (2098, 56), (2331, 56), (2630, 56), (2872, 56), (3031, 56), (3477, 56)],
    [(3712, 56), (3958, 56), (4209, 56), (28, 57), (176, 57), (280, 57), (481, 57), (739, 57), (959, 57), (1089, 57)],
    [(1339, 57), (1729, 57), (1818, 57), (2099, 57), (2332, 57), (2631, 57), (2873, 57), (3032, 57), (3478, 57), (3713, 57)],
    [(3959, 57), (4210, 57), (29, 58), (177, 58), (281, 58), (482, 58), (740, 58), (840, 58), (1090, 58), (1340, 58)],
    [(1730, 58), (1819, 58), (2100, 58), (2333, 58), (2632, 58), (2874, 58), (3033, 58), (3479, 58), (3714, 58), (3840, 58)],
    [(4211, 58), (30, 59), (178, 59), (282, 59), (483, 59), (741, 59), (841, 59), (1091, 59), (1341, 59), (1731, 59)],
    [(1820, 59), (2101, 59), (2334, 59), (2633, 59), (2875, 59), (3034, 59), (3360, 59), (3715, 59), (3841, 59), (4212, 59)],
    [(31, 60), (179, 60), (283, 60), (484, 60), (742, 60), (842, 60), (1092, 60), (1342, 60), (1732, 60), (1821, 60)],
    [(2102, 60), (2335, 60), (2634, 60), (2876, 60), (3035, 60), (3361, 60), (3716, 60), (3842, 60), (4213, 60), (32, 61)],
    [(180, 61), (284, 61), (485, 61), (743, 61), (843, 61), (1093, 61), (1343, 61), (1733, 61), (1822, 61), (2103, 61)],
    [(2336, 61), (2635, 61), (2877, 61), (3036, 61), (3362, 61), (3717, 61), (3843, 61), (4214, 61), (33, 62), (181, 62)],
    [(285, 62), (486, 62), (744, 62), (844, 62), (1094, 62), (1344, 62), (1734, 62), (1823, 62), (2104, 62), (2337, 62)],
    [(2636, 62), (2878, 62), (3037, 62), (3363, 62), (3718, 62), (3844, 62), (4215, 62), (34, 63), (182, 63), (286, 63)],
    [(487, 63), (745, 63), (845, 63), (1095, 63), (1345, 63), (1735, 63), (1824, 63), (2105, 63), (2338, 63), (2637, 63)],
    [(2879, 63), (3038, 63), (3364, 63), (3719, 63), (3845, 63), (4216, 63), (35, 64), (183, 64), (287, 64), (488, 64)],
    [(746, 64), (846, 64), (1096, 64), (1346, 64), (1736, 64), (1825, 64), (2106, 64), (2339, 64), (2638, 64), (2760, 64)],
    [(3039, 64), (3365, 64), (3600, 64), (3846, 64), (4217, 64), (36, 65), (184, 65), (288, 65), (489, 65), (747, 65)],
    [(847, 65), (1097, 65), (1347, 65), (1737, 65), (1826, 65), (2107, 65), (2340, 65), (2639, 65), (2761, 65), (3040, 65)],
    [(3366, 65), (3601, 65), (3847, 65), (4218, 65), (37, 66), (185, 66), (289, 66), (490, 66), (748, 66), (848, 66)],
    [(1098, 66), (1348, 66), (1738, 66), (1827, 66), (2108, 66), (2341, 66), (2520, 66), (2762, 66), (3041, 66), (3367, 66)],
    [(3602, 66), (3848, 66), (4219, 66), (38, 67), (186, 67), (290, 67), (491, 67), (749, 67), (849, 67), (1099, 67)],
    [(1349, 67), (1739, 67), (1828, 67), (2109, 67), (2342, 67), (2521, 67), (2763, 67), (3042, 67), (3368, 67), (3603, 67)],
    [(3849, 67), (4220, 67), (39, 68), (187, 68), (291, 68), (492, 68), (750, 68), (850, 68), (1100, 68), (1350, 68)],
    [(1740, 68), (1829, 68), (2110, 68), (2343, 68), (2522, 68), (2764, 68), (3043, 68), (3369, 68), (3604, 68), (3850, 68)],
    [(4221, 68), (40, 69), (188, 69), (292, 69), (493, 69), (751, 69), (851, 69), (1101, 69), (1351, 69), (1741, 69)],
    [(1830, 69), (2111, 69), (2344, 69), (2523, 69), (2765, 69), (3044, 69), (3370, 69), (3605, 69), (3851, 69), (4222, 69)],
    [(41, 70), (189, 70), (293, 70), (494, 70), (752, 70), (852, 70), (1102, 70), (1352, 70), (1742, 70), (1831, 70)],
    [(2112, 70), (2345, 70), (2524, 70), (2766, 70), (3045, 70), (3371, 70), (3606, 70), (3852, 70), (4223, 70), (42, 71)],
    [(190, 71), (294, 71), (495, 71), (753, 71), (853, 71), (1103, 71), (1353, 71), (1743, 71), (1832, 71), (2113, 71)],
    [(2346, 71), (2525, 71), (2767, 71), (3046, 71), (3372, 71), (3607, 71), (3853, 71), (4224, 71), (43, 72), (191, 72)],
    [(295, 72), (496, 72), (754, 72), (854, 72), (1104, 72), (1354, 72), (1744, 72), (1833, 72), (2114, 72), (2347, 72)],
    [(2526, 72), (2768, 72), (3047, 72), (3373, 72), (3608, 72), (3854, 72), (4225, 72), (44, 73), (192, 73), (296, 73)],
    [(497, 73), (755, 73), (855, 73), (1105, 73), (1355, 73), (1745, 73), (1834, 73), (2115, 73), (2348, 73), (2527, 73)],
    [(2769, 73), (3048, 73), (3374, 73), (3609, 73), (3855, 73), (4226, 73), (45, 74), (193, 74), (297, 74), (498, 74)],
    [(756, 74), (856, 74), (1106, 74), (1356, 74), (1746, 74), (1835, 74), (2116, 74), (2349, 74), (2528, 74), (2770, 74)],
    [(3049, 74), (3375, 74), (3610, 74), (3856, 74), (4227, 74), (46, 75), (194, 75), (298, 75), (499, 75), (757, 75)],
    [(857, 75), (1107, 75), (1357, 75), (1747, 75), (1836, 75), (2117, 75), (2350, 75), (2529, 75), (2771, 75), (3050, 75)],
    [(3376, 75), (3611, 75), (3857, 75), (4228, 75), (47, 76), (195, 76), (299, 76), (500, 76), (758, 76), (858, 76)],
    [(1108, 76), (1358, 76), (1748, 76), (1837, 76), (2118, 76), (2351, 76), (2530, 76), (2772, 76), (3051, 76), (3377, 76)],
    [(3612, 76), (3858, 76), (4229, 76), (48, 77), (196, 77), (300, 77), (501, 77), (759, 77), (859, 77), (1109, 77)]]"

definition SF2_C_ind_1 :: "(nat \<times> nat) list" where
  "SF2_C_ind_1 = concat [
    [(1359, 77), (1749, 77), (1838, 77), (2119, 77), (2352, 77), (2531, 77), (2773, 77), (3052, 77), (3378, 77), (3613, 77)],
    [(3859, 77), (4230, 77), (49, 78), (197, 78), (301, 78), (502, 78), (760, 78), (860, 78), (1110, 78), (1360, 78)],
    [(1750, 78), (1839, 78), (2120, 78), (2353, 78), (2532, 78), (2774, 78), (3053, 78), (3379, 78), (3614, 78), (3860, 78)],
    [(4231, 78), (50, 79), (198, 79), (302, 79), (503, 79), (761, 79), (861, 79), (1111, 79), (1361, 79), (1751, 79)],
    [(1840, 79), (2121, 79), (2354, 79), (2533, 79), (2775, 79), (3054, 79), (3380, 79), (3615, 79), (3861, 79), (4232, 79)],
    [(51, 80), (199, 80), (303, 80), (504, 80), (762, 80), (862, 80), (1112, 80), (1362, 80), (1752, 80), (1841, 80)],
    [(2122, 80), (2355, 80), (2534, 80), (2776, 80), (3055, 80), (3381, 80), (3616, 80), (3862, 80), (4233, 80), (52, 81)],
    [(200, 81), (304, 81), (505, 81), (763, 81), (863, 81), (1113, 81), (1363, 81), (1753, 81), (1842, 81), (2123, 81)],
    [(2356, 81), (2535, 81), (2777, 81), (3056, 81), (3382, 81), (3617, 81), (3863, 81), (4234, 81), (53, 82), (201, 82)],
    [(305, 82), (506, 82), (764, 82), (864, 82), (1114, 82), (1364, 82), (1754, 82), (1843, 82), (2124, 82), (2357, 82)],
    [(2536, 82), (2778, 82), (3057, 82), (3383, 82), (3618, 82), (3864, 82), (4235, 82), (54, 83), (202, 83), (306, 83)],
    [(507, 83), (765, 83), (865, 83), (1115, 83), (1365, 83), (1755, 83), (1844, 83), (2125, 83), (2358, 83), (2537, 83)],
    [(2779, 83), (3058, 83), (3384, 83), (3619, 83), (3865, 83), (4236, 83), (55, 84), (203, 84), (307, 84), (508, 84)],
    [(766, 84), (866, 84), (1116, 84), (1366, 84), (1756, 84), (1845, 84), (2126, 84), (2359, 84), (2538, 84), (2780, 84)],
    [(3059, 84), (3385, 84), (3620, 84), (3866, 84), (4237, 84), (56, 85), (204, 85), (308, 85), (509, 85), (767, 85)],
    [(867, 85), (1117, 85), (1367, 85), (1757, 85), (1846, 85), (2127, 85), (2360, 85), (2539, 85), (2781, 85), (3060, 85)],
    [(3386, 85), (3621, 85), (3867, 85), (4238, 85), (57, 86), (205, 86), (309, 86), (510, 86), (768, 86), (868, 86)],
    [(1118, 86), (1368, 86), (1758, 86), (1847, 86), (2128, 86), (2361, 86), (2540, 86), (2782, 86), (3061, 86), (3387, 86)],
    [(3622, 86), (3868, 86), (4239, 86), (58, 87), (206, 87), (310, 87), (511, 87), (769, 87), (869, 87), (1119, 87)],
    [(1369, 87), (1759, 87), (1848, 87), (2129, 87), (2362, 87), (2541, 87), (2783, 87), (3062, 87), (3388, 87), (3623, 87)],
    [(3869, 87), (4240, 87), (59, 88), (207, 88), (311, 88), (512, 88), (770, 88), (870, 88), (1120, 88), (1370, 88)],
    [(1760, 88), (1849, 88), (2130, 88), (2363, 88), (2542, 88), (2784, 88), (3063, 88), (3389, 88), (3624, 88), (3870, 88)],
    [(4241, 88), (60, 89), (208, 89), (312, 89), (513, 89), (771, 89), (871, 89), (1121, 89), (1371, 89), (1761, 89)],
    [(1850, 89), (2131, 89), (2364, 89), (2543, 89), (2785, 89), (3064, 89), (3390, 89), (3625, 89), (3871, 89), (4242, 89)],
    [(61, 90), (209, 90), (313, 90), (514, 90), (772, 90), (872, 90), (1122, 90), (1372, 90), (1762, 90), (1851, 90)],
    [(2132, 90), (2365, 90), (2544, 90), (2786, 90), (3065, 90), (3391, 90), (3626, 90), (3872, 90), (4243, 90), (62, 91)],
    [(210, 91), (314, 91), (515, 91), (773, 91), (873, 91), (1123, 91), (1373, 91), (1763, 91), (1852, 91), (2133, 91)],
    [(2366, 91), (2545, 91), (2787, 91), (3066, 91), (3392, 91), (3627, 91), (3873, 91), (4244, 91), (63, 92), (211, 92)],
    [(315, 92), (516, 92), (774, 92), (874, 92), (1124, 92), (1374, 92), (1764, 92), (1853, 92), (2134, 92), (2367, 92)],
    [(2546, 92), (2788, 92), (3067, 92), (3393, 92), (3628, 92), (3874, 92), (4245, 92), (64, 93), (212, 93), (316, 93)],
    [(517, 93), (775, 93), (875, 93), (1125, 93), (1375, 93), (1765, 93), (1854, 93), (2135, 93), (2368, 93), (2547, 93)],
    [(2789, 93), (3068, 93), (3394, 93), (3629, 93), (3875, 93), (4246, 93), (65, 94), (213, 94), (317, 94), (518, 94)],
    [(776, 94), (876, 94), (1126, 94), (1376, 94), (1766, 94), (1855, 94), (2136, 94), (2369, 94), (2548, 94), (2790, 94)],
    [(3069, 94), (3395, 94), (3630, 94), (3876, 94), (4247, 94), (66, 95), (214, 95), (318, 95), (519, 95), (777, 95)],
    [(877, 95), (1127, 95), (1377, 95), (1767, 95), (1856, 95), (2137, 95), (2370, 95), (2549, 95), (2791, 95), (3070, 95)],
    [(3396, 95), (3631, 95), (3877, 95), (4248, 95), (67, 96), (215, 96), (319, 96), (520, 96), (778, 96), (878, 96)],
    [(1128, 96), (1378, 96), (1768, 96), (1857, 96), (2138, 96), (2371, 96), (2550, 96), (2792, 96), (3071, 96), (3397, 96)],
    [(3632, 96), (3878, 96), (4249, 96), (68, 97), (216, 97), (320, 97), (521, 97), (779, 97), (879, 97), (1129, 97)],
    [(1379, 97), (1769, 97), (1858, 97), (2139, 97), (2372, 97), (2551, 97), (2793, 97), (3072, 97), (3398, 97), (3633, 97)],
    [(3879, 97), (4250, 97), (69, 98), (217, 98), (321, 98), (522, 98), (780, 98), (880, 98), (1130, 98), (1380, 98)],
    [(1770, 98), (1859, 98), (2140, 98), (2373, 98), (2552, 98), (2794, 98), (3073, 98), (3399, 98), (3634, 98), (3880, 98)],
    [(4251, 98), (70, 99), (218, 99), (322, 99), (523, 99), (781, 99), (881, 99), (1131, 99), (1381, 99), (1771, 99)],
    [(1860, 99), (2141, 99), (2374, 99), (2553, 99), (2795, 99), (3074, 99), (3400, 99), (3635, 99), (3881, 99), (4252, 99)],
    [(71, 100), (219, 100), (323, 100), (524, 100), (782, 100), (882, 100), (1132, 100), (1382, 100), (1772, 100), (1861, 100)],
    [(2142, 100), (2375, 100), (2554, 100), (2796, 100), (3075, 100), (3401, 100), (3636, 100), (3882, 100), (4253, 100), (72, 101)],
    [(220, 101), (324, 101), (525, 101), (783, 101), (883, 101), (1133, 101), (1383, 101), (1773, 101), (1862, 101), (2143, 101)],
    [(2376, 101), (2555, 101), (2797, 101), (3076, 101), (3402, 101), (3637, 101), (3883, 101), (4254, 101), (73, 102), (221, 102)],
    [(325, 102), (526, 102), (784, 102), (884, 102), (1134, 102), (1384, 102), (1774, 102), (1863, 102), (2144, 102), (2377, 102)],
    [(2556, 102), (2798, 102), (3077, 102), (3403, 102), (3638, 102), (3884, 102), (4255, 102), (74, 103), (222, 103), (326, 103)],
    [(527, 103), (785, 103), (885, 103), (1135, 103), (1385, 103), (1775, 103), (1864, 103), (2145, 103), (2378, 103), (2557, 103)],
    [(2799, 103), (3078, 103), (3404, 103), (3639, 103), (3885, 103), (4256, 103), (75, 104), (223, 104), (327, 104), (528, 104)],
    [(786, 104), (886, 104), (1136, 104), (1386, 104), (1776, 104), (1865, 104), (2146, 104), (2379, 104), (2558, 104), (2800, 104)],
    [(3079, 104), (3405, 104), (3640, 104), (3886, 104), (4257, 104), (76, 105), (224, 105), (328, 105), (529, 105), (787, 105)],
    [(887, 105), (1137, 105), (1387, 105), (1777, 105), (1866, 105), (2147, 105), (2380, 105), (2559, 105), (2801, 105), (3080, 105)],
    [(3406, 105), (3641, 105), (3887, 105), (4258, 105), (77, 106), (225, 106), (329, 106), (530, 106), (788, 106), (888, 106)],
    [(1138, 106), (1388, 106), (1778, 106), (1867, 106), (2148, 106), (2381, 106), (2560, 106), (2802, 106), (3081, 106), (3407, 106)],
    [(3642, 106), (3888, 106), (4259, 106), (78, 107), (226, 107), (330, 107), (531, 107), (789, 107), (889, 107), (1139, 107)],
    [(1389, 107), (1779, 107), (1868, 107), (2149, 107), (2382, 107), (2561, 107), (2803, 107), (3082, 107), (3408, 107), (3643, 107)],
    [(3889, 107), (4260, 107), (79, 108), (227, 108), (331, 108), (532, 108), (790, 108), (890, 108), (1140, 108), (1390, 108)],
    [(1780, 108), (1869, 108), (2150, 108), (2383, 108), (2562, 108), (2804, 108), (3083, 108), (3409, 108), (3644, 108), (3890, 108)],
    [(4261, 108), (80, 109), (228, 109), (332, 109), (533, 109), (791, 109), (891, 109), (1141, 109), (1391, 109), (1781, 109)],
    [(1870, 109), (2151, 109), (2384, 109), (2563, 109), (2805, 109), (3084, 109), (3410, 109), (3645, 109), (3891, 109), (4262, 109)],
    [(81, 110), (229, 110), (333, 110), (534, 110), (792, 110), (892, 110), (1142, 110), (1392, 110), (1782, 110), (1871, 110)],
    [(2152, 110), (2385, 110), (2564, 110), (2806, 110), (3085, 110), (3411, 110), (3646, 110), (3892, 110), (4263, 110), (82, 111)],
    [(230, 111), (334, 111), (535, 111), (793, 111), (893, 111), (1143, 111), (1393, 111), (1783, 111), (1872, 111), (2153, 111)],
    [(2386, 111), (2565, 111), (2807, 111), (3086, 111), (3412, 111), (3647, 111), (3893, 111), (4264, 111), (83, 112), (231, 112)],
    [(335, 112), (536, 112), (794, 112), (894, 112), (1144, 112), (1394, 112), (1784, 112), (1873, 112), (2154, 112), (2387, 112)],
    [(2566, 112), (2808, 112), (3087, 112), (3413, 112), (3648, 112), (3894, 112), (4265, 112), (84, 113), (232, 113), (336, 113)],
    [(537, 113), (795, 113), (895, 113), (1145, 113), (1395, 113), (1785, 113), (1874, 113), (2155, 113), (2388, 113), (2567, 113)],
    [(2809, 113), (3088, 113), (3414, 113), (3649, 113), (3895, 113), (4266, 113), (85, 114), (233, 114), (337, 114), (538, 114)],
    [(796, 114), (896, 114), (1146, 114), (1396, 114), (1786, 114), (1875, 114), (2156, 114), (2389, 114), (2568, 114), (2810, 114)],
    [(3089, 114), (3415, 114), (3650, 114), (3896, 114), (4267, 114), (86, 115), (234, 115), (338, 115), (539, 115), (797, 115)],
    [(897, 115), (1147, 115), (1397, 115), (1787, 115), (1876, 115), (2157, 115), (2390, 115), (2569, 115), (2811, 115), (3090, 115)],
    [(3416, 115), (3651, 115), (3897, 115), (4268, 115), (87, 116), (235, 116), (339, 116), (540, 116), (798, 116), (898, 116)],
    [(1148, 116), (1398, 116), (1788, 116), (1877, 116), (2158, 116), (2391, 116), (2570, 116), (2812, 116), (3091, 116), (3417, 116)],
    [(3652, 116), (3898, 116), (4269, 116), (88, 117), (236, 117), (340, 117), (541, 117), (799, 117), (899, 117), (1149, 117)],
    [(1399, 117), (1789, 117), (1878, 117), (2159, 117), (2392, 117), (2571, 117), (2813, 117), (3092, 117), (3418, 117), (3653, 117)],
    [(3899, 117), (4270, 117), (89, 118), (237, 118), (341, 118), (542, 118), (800, 118), (900, 118), (1150, 118), (1400, 118)],
    [(1790, 118), (1879, 118), (2040, 118), (2393, 118), (2572, 118), (2814, 118), (3093, 118), (3419, 118), (3654, 118), (3900, 118)],
    [(4271, 118), (90, 119), (238, 119), (342, 119), (543, 119), (801, 119), (901, 119), (1151, 119), (1401, 119), (1791, 119)],
    [(1880, 119), (2041, 119), (2394, 119), (2573, 119), (2815, 119), (3094, 119), (3420, 119), (3655, 119), (3901, 119), (4272, 119)],
    [(100, 120), (199, 120), (394, 120), (551, 120), (673, 120), (743, 120), (1076, 120), (1143, 120), (1238, 120), (1510, 120)],
    [(1604, 120), (1836, 120), (1923, 120), (2205, 120), (2439, 120), (2993, 120), (3279, 120), (3755, 120), (4158, 120), (4507, 120)],
    [(101, 121), (200, 121), (395, 121), (552, 121), (674, 121), (744, 121), (1077, 121), (1144, 121), (1239, 121), (1511, 121)],
    [(1605, 121), (1837, 121), (1924, 121), (2206, 121), (2440, 121), (2994, 121), (3280, 121), (3756, 121), (4159, 121), (4508, 121)],
    [(102, 122), (201, 122), (396, 122), (553, 122), (675, 122), (745, 122), (1078, 122), (1145, 122), (1240, 122), (1512, 122)],
    [(1606, 122), (1838, 122), (1925, 122), (2207, 122), (2441, 122), (2995, 122), (3281, 122), (3757, 122), (4160, 122), (4509, 122)],
    [(103, 123), (202, 123), (397, 123), (554, 123), (676, 123), (746, 123), (1079, 123), (1146, 123), (1241, 123), (1513, 123)],
    [(1607, 123), (1839, 123), (1926, 123), (2208, 123), (2442, 123), (2996, 123), (3282, 123), (3758, 123), (4161, 123), (4510, 123)],
    [(104, 124), (203, 124), (398, 124), (555, 124), (677, 124), (747, 124), (960, 124), (1147, 124), (1242, 124), (1514, 124)],
    [(1608, 124), (1840, 124), (1927, 124), (2209, 124), (2443, 124), (2997, 124), (3283, 124), (3759, 124), (4162, 124), (4511, 124)],
    [(105, 125), (204, 125), (399, 125), (556, 125), (678, 125), (748, 125), (961, 125), (1148, 125), (1243, 125), (1515, 125)],
    [(1609, 125), (1841, 125), (1928, 125), (2210, 125), (2444, 125), (2998, 125), (3284, 125), (3760, 125), (4163, 125), (4512, 125)],
    [(106, 126), (205, 126), (400, 126), (557, 126), (679, 126), (749, 126), (962, 126), (1149, 126), (1244, 126), (1516, 126)],
    [(1610, 126), (1842, 126), (1929, 126), (2211, 126), (2445, 126), (2999, 126), (3285, 126), (3761, 126), (4164, 126), (4513, 126)],
    [(107, 127), (206, 127), (401, 127), (558, 127), (680, 127), (750, 127), (963, 127), (1150, 127), (1245, 127), (1517, 127)],
    [(1611, 127), (1843, 127), (1930, 127), (2212, 127), (2446, 127), (2880, 127), (3286, 127), (3762, 127), (4165, 127), (4514, 127)],
    [(108, 128), (207, 128), (402, 128), (559, 128), (681, 128), (751, 128), (964, 128), (1151, 128), (1246, 128), (1518, 128)],
    [(1612, 128), (1844, 128), (1931, 128), (2213, 128), (2447, 128), (2881, 128), (3287, 128), (3763, 128), (4166, 128), (4515, 128)],
    [(109, 129), (208, 129), (403, 129), (560, 129), (682, 129), (752, 129), (965, 129), (1152, 129), (1247, 129), (1519, 129)],
    [(1613, 129), (1845, 129), (1932, 129), (2214, 129), (2448, 129), (2882, 129), (3288, 129), (3764, 129), (4167, 129), (4516, 129)],
    [(110, 130), (209, 130), (404, 130), (561, 130), (683, 130), (753, 130), (966, 130), (1153, 130), (1248, 130), (1520, 130)],
    [(1614, 130), (1846, 130), (1933, 130), (2215, 130), (2449, 130), (2883, 130), (3289, 130), (3765, 130), (4168, 130), (4517, 130)],
    [(111, 131), (210, 131), (405, 131), (562, 131), (684, 131), (754, 131), (967, 131), (1154, 131), (1249, 131), (1521, 131)],
    [(1615, 131), (1847, 131), (1934, 131), (2216, 131), (2450, 131), (2884, 131), (3290, 131), (3766, 131), (4169, 131), (4518, 131)],
    [(112, 132), (211, 132), (406, 132), (563, 132), (685, 132), (755, 132), (968, 132), (1155, 132), (1250, 132), (1522, 132)],
    [(1616, 132), (1848, 132), (1935, 132), (2217, 132), (2451, 132), (2885, 132), (3291, 132), (3767, 132), (4170, 132), (4519, 132)],
    [(113, 133), (212, 133), (407, 133), (564, 133), (686, 133), (756, 133), (969, 133), (1156, 133), (1251, 133), (1523, 133)],
    [(1617, 133), (1849, 133), (1936, 133), (2218, 133), (2452, 133), (2886, 133), (3292, 133), (3768, 133), (4171, 133), (4520, 133)],
    [(114, 134), (213, 134), (408, 134), (565, 134), (687, 134), (757, 134), (970, 134), (1157, 134), (1252, 134), (1524, 134)],
    [(1618, 134), (1850, 134), (1937, 134), (2219, 134), (2453, 134), (2887, 134), (3293, 134), (3769, 134), (4172, 134), (4521, 134)],
    [(115, 135), (214, 135), (409, 135), (566, 135), (688, 135), (758, 135), (971, 135), (1158, 135), (1253, 135), (1525, 135)],
    [(1619, 135), (1851, 135), (1938, 135), (2220, 135), (2454, 135), (2888, 135), (3294, 135), (3770, 135), (4173, 135), (4522, 135)],
    [(116, 136), (215, 136), (410, 136), (567, 136), (689, 136), (759, 136), (972, 136), (1159, 136), (1254, 136), (1526, 136)],
    [(1620, 136), (1852, 136), (1939, 136), (2221, 136), (2455, 136), (2889, 136), (3295, 136), (3771, 136), (4174, 136), (4523, 136)],
    [(117, 137), (216, 137), (411, 137), (568, 137), (690, 137), (760, 137), (973, 137), (1160, 137), (1255, 137), (1527, 137)],
    [(1621, 137), (1853, 137), (1940, 137), (2222, 137), (2456, 137), (2890, 137), (3296, 137), (3772, 137), (4175, 137), (4524, 137)],
    [(118, 138), (217, 138), (412, 138), (569, 138), (691, 138), (761, 138), (974, 138), (1161, 138), (1256, 138), (1528, 138)],
    [(1622, 138), (1854, 138), (1941, 138), (2223, 138), (2457, 138), (2891, 138), (3297, 138), (3773, 138), (4176, 138), (4525, 138)],
    [(119, 139), (218, 139), (413, 139), (570, 139), (692, 139), (762, 139), (975, 139), (1162, 139), (1257, 139), (1529, 139)],
    [(1623, 139), (1855, 139), (1942, 139), (2224, 139), (2458, 139), (2892, 139), (3298, 139), (3774, 139), (4177, 139), (4526, 139)],
    [(0, 140), (219, 140), (414, 140), (571, 140), (693, 140), (763, 140), (976, 140), (1163, 140), (1258, 140), (1530, 140)],
    [(1624, 140), (1856, 140), (1943, 140), (2225, 140), (2459, 140), (2893, 140), (3299, 140), (3775, 140), (4178, 140), (4527, 140)],
    [(1, 141), (220, 141), (415, 141), (572, 141), (694, 141), (764, 141), (977, 141), (1164, 141), (1259, 141), (1531, 141)],
    [(1625, 141), (1857, 141), (1944, 141), (2226, 141), (2460, 141), (2894, 141), (3300, 141), (3776, 141), (4179, 141), (4528, 141)],
    [(2, 142), (221, 142), (416, 142), (573, 142), (695, 142), (765, 142), (978, 142), (1165, 142), (1260, 142), (1532, 142)],
    [(1626, 142), (1858, 142), (1945, 142), (2227, 142), (2461, 142), (2895, 142), (3301, 142), (3777, 142), (4180, 142), (4529, 142)],
    [(3, 143), (222, 143), (417, 143), (574, 143), (696, 143), (766, 143), (979, 143), (1166, 143), (1261, 143), (1533, 143)],
    [(1627, 143), (1859, 143), (1946, 143), (2228, 143), (2462, 143), (2896, 143), (3302, 143), (3778, 143), (4181, 143), (4530, 143)],
    [(4, 144), (223, 144), (418, 144), (575, 144), (697, 144), (767, 144), (980, 144), (1167, 144), (1262, 144), (1534, 144)],
    [(1628, 144), (1860, 144), (1947, 144), (2229, 144), (2463, 144), (2897, 144), (3303, 144), (3779, 144), (4182, 144), (4531, 144)],
    [(5, 145), (224, 145), (419, 145), (576, 145), (698, 145), (768, 145), (981, 145), (1168, 145), (1263, 145), (1535, 145)],
    [(1629, 145), (1861, 145), (1948, 145), (2230, 145), (2464, 145), (2898, 145), (3304, 145), (3780, 145), (4183, 145), (4532, 145)],
    [(6, 146), (225, 146), (420, 146), (577, 146), (699, 146), (769, 146), (982, 146), (1169, 146), (1264, 146), (1536, 146)],
    [(1630, 146), (1862, 146), (1949, 146), (2231, 146), (2465, 146), (2899, 146), (3305, 146), (3781, 146), (4184, 146), (4533, 146)],
    [(7, 147), (226, 147), (421, 147), (578, 147), (700, 147), (770, 147), (983, 147), (1170, 147), (1265, 147), (1537, 147)],
    [(1631, 147), (1863, 147), (1950, 147), (2232, 147), (2466, 147), (2900, 147), (3306, 147), (3782, 147), (4185, 147), (4534, 147)],
    [(8, 148), (227, 148), (422, 148), (579, 148), (701, 148), (771, 148), (984, 148), (1171, 148), (1266, 148), (1538, 148)],
    [(1632, 148), (1864, 148), (1951, 148), (2233, 148), (2467, 148), (2901, 148), (3307, 148), (3783, 148), (4186, 148), (4535, 148)],
    [(9, 149), (228, 149), (423, 149), (580, 149), (702, 149), (772, 149), (985, 149), (1172, 149), (1267, 149), (1539, 149)],
    [(1633, 149), (1865, 149), (1952, 149), (2234, 149), (2468, 149), (2902, 149), (3308, 149), (3784, 149), (4187, 149), (4536, 149)],
    [(10, 150), (229, 150), (424, 150), (581, 150), (703, 150), (773, 150), (986, 150), (1173, 150), (1268, 150), (1540, 150)],
    [(1634, 150), (1866, 150), (1953, 150), (2235, 150), (2469, 150), (2903, 150), (3309, 150), (3785, 150), (4188, 150), (4537, 150)],
    [(11, 151), (230, 151), (425, 151), (582, 151), (704, 151), (774, 151), (987, 151), (1174, 151), (1269, 151), (1541, 151)],
    [(1635, 151), (1867, 151), (1954, 151), (2236, 151), (2470, 151), (2904, 151), (3310, 151), (3786, 151), (4189, 151), (4538, 151)],
    [(12, 152), (231, 152), (426, 152), (583, 152), (705, 152), (775, 152), (988, 152), (1175, 152), (1270, 152), (1542, 152)],
    [(1636, 152), (1868, 152), (1955, 152), (2237, 152), (2471, 152), (2905, 152), (3311, 152), (3787, 152), (4190, 152), (4539, 152)],
    [(13, 153), (232, 153), (427, 153), (584, 153), (706, 153), (776, 153), (989, 153), (1176, 153), (1271, 153), (1543, 153)]]"

definition SF2_C_ind_2 :: "(nat \<times> nat) list" where
  "SF2_C_ind_2 = concat [
    [(1637, 153), (1869, 153), (1956, 153), (2238, 153), (2472, 153), (2906, 153), (3312, 153), (3788, 153), (4191, 153), (4540, 153)],
    [(14, 154), (233, 154), (428, 154), (585, 154), (707, 154), (777, 154), (990, 154), (1177, 154), (1272, 154), (1544, 154)],
    [(1638, 154), (1870, 154), (1957, 154), (2239, 154), (2473, 154), (2907, 154), (3313, 154), (3789, 154), (4192, 154), (4541, 154)],
    [(15, 155), (234, 155), (429, 155), (586, 155), (708, 155), (778, 155), (991, 155), (1178, 155), (1273, 155), (1545, 155)],
    [(1639, 155), (1871, 155), (1958, 155), (2240, 155), (2474, 155), (2908, 155), (3314, 155), (3790, 155), (4193, 155), (4542, 155)],
    [(16, 156), (235, 156), (430, 156), (587, 156), (709, 156), (779, 156), (992, 156), (1179, 156), (1274, 156), (1546, 156)],
    [(1640, 156), (1872, 156), (1959, 156), (2241, 156), (2475, 156), (2909, 156), (3315, 156), (3791, 156), (4194, 156), (4543, 156)],
    [(17, 157), (236, 157), (431, 157), (588, 157), (710, 157), (780, 157), (993, 157), (1180, 157), (1275, 157), (1547, 157)],
    [(1641, 157), (1873, 157), (1960, 157), (2242, 157), (2476, 157), (2910, 157), (3316, 157), (3792, 157), (4195, 157), (4544, 157)],
    [(18, 158), (237, 158), (432, 158), (589, 158), (711, 158), (781, 158), (994, 158), (1181, 158), (1276, 158), (1548, 158)],
    [(1642, 158), (1874, 158), (1961, 158), (2243, 158), (2477, 158), (2911, 158), (3317, 158), (3793, 158), (4196, 158), (4545, 158)],
    [(19, 159), (238, 159), (433, 159), (590, 159), (712, 159), (782, 159), (995, 159), (1182, 159), (1277, 159), (1549, 159)],
    [(1643, 159), (1875, 159), (1962, 159), (2244, 159), (2478, 159), (2912, 159), (3318, 159), (3794, 159), (4197, 159), (4546, 159)],
    [(20, 160), (239, 160), (434, 160), (591, 160), (713, 160), (783, 160), (996, 160), (1183, 160), (1278, 160), (1550, 160)],
    [(1644, 160), (1876, 160), (1963, 160), (2245, 160), (2479, 160), (2913, 160), (3319, 160), (3795, 160), (4198, 160), (4547, 160)],
    [(21, 161), (120, 161), (435, 161), (592, 161), (714, 161), (784, 161), (997, 161), (1184, 161), (1279, 161), (1551, 161)],
    [(1645, 161), (1877, 161), (1964, 161), (2246, 161), (2480, 161), (2914, 161), (3320, 161), (3796, 161), (4199, 161), (4548, 161)],
    [(22, 162), (121, 162), (436, 162), (593, 162), (715, 162), (785, 162), (998, 162), (1185, 162), (1280, 162), (1552, 162)],
    [(1646, 162), (1878, 162), (1965, 162), (2247, 162), (2481, 162), (2915, 162), (3321, 162), (3797, 162), (4080, 162), (4549, 162)],
    [(23, 163), (122, 163), (437, 163), (594, 163), (716, 163), (786, 163), (999, 163), (1186, 163), (1281, 163), (1553, 163)],
    [(1647, 163), (1879, 163), (1966, 163), (2248, 163), (2482, 163), (2916, 163), (3322, 163), (3798, 163), (4081, 163), (4550, 163)],
    [(24, 164), (123, 164), (438, 164), (595, 164), (717, 164), (787, 164), (1000, 164), (1187, 164), (1282, 164), (1554, 164)],
    [(1648, 164), (1880, 164), (1967, 164), (2249, 164), (2483, 164), (2917, 164), (3323, 164), (3799, 164), (4082, 164), (4551, 164)],
    [(25, 165), (124, 165), (439, 165), (596, 165), (718, 165), (788, 165), (1001, 165), (1188, 165), (1283, 165), (1555, 165)],
    [(1649, 165), (1881, 165), (1968, 165), (2250, 165), (2484, 165), (2918, 165), (3324, 165), (3800, 165), (4083, 165), (4552, 165)],
    [(26, 166), (125, 166), (440, 166), (597, 166), (719, 166), (789, 166), (1002, 166), (1189, 166), (1284, 166), (1556, 166)],
    [(1650, 166), (1882, 166), (1969, 166), (2251, 166), (2485, 166), (2919, 166), (3325, 166), (3801, 166), (4084, 166), (4553, 166)],
    [(27, 167), (126, 167), (441, 167), (598, 167), (600, 167), (790, 167), (1003, 167), (1190, 167), (1285, 167), (1557, 167)],
    [(1651, 167), (1883, 167), (1970, 167), (2252, 167), (2486, 167), (2920, 167), (3326, 167), (3802, 167), (4085, 167), (4554, 167)],
    [(28, 168), (127, 168), (442, 168), (599, 168), (601, 168), (791, 168), (1004, 168), (1191, 168), (1286, 168), (1558, 168)],
    [(1652, 168), (1884, 168), (1971, 168), (2253, 168), (2487, 168), (2921, 168), (3327, 168), (3803, 168), (4086, 168), (4555, 168)],
    [(29, 169), (128, 169), (443, 169), (480, 169), (602, 169), (792, 169), (1005, 169), (1192, 169), (1287, 169), (1559, 169)],
    [(1653, 169), (1885, 169), (1972, 169), (2254, 169), (2488, 169), (2922, 169), (3328, 169), (3804, 169), (4087, 169), (4556, 169)],
    [(30, 170), (129, 170), (444, 170), (481, 170), (603, 170), (793, 170), (1006, 170), (1193, 170), (1288, 170), (1440, 170)],
    [(1654, 170), (1886, 170), (1973, 170), (2255, 170), (2489, 170), (2923, 170), (3329, 170), (3805, 170), (4088, 170), (4557, 170)],
    [(31, 171), (130, 171), (445, 171), (482, 171), (604, 171), (794, 171), (1007, 171), (1194, 171), (1289, 171), (1441, 171)],
    [(1655, 171), (1887, 171), (1974, 171), (2256, 171), (2490, 171), (2924, 171), (3330, 171), (3806, 171), (4089, 171), (4558, 171)],
    [(32, 172), (131, 172), (446, 172), (483, 172), (605, 172), (795, 172), (1008, 172), (1195, 172), (1290, 172), (1442, 172)],
    [(1656, 172), (1888, 172), (1975, 172), (2257, 172), (2491, 172), (2925, 172), (3331, 172), (3807, 172), (4090, 172), (4559, 172)],
    [(33, 173), (132, 173), (447, 173), (484, 173), (606, 173), (796, 173), (1009, 173), (1196, 173), (1291, 173), (1443, 173)],
    [(1657, 173), (1889, 173), (1976, 173), (2258, 173), (2492, 173), (2926, 173), (3332, 173), (3808, 173), (4091, 173), (4440, 173)],
    [(34, 174), (133, 174), (448, 174), (485, 174), (607, 174), (797, 174), (1010, 174), (1197, 174), (1292, 174), (1444, 174)],
    [(1658, 174), (1890, 174), (1977, 174), (2259, 174), (2493, 174), (2927, 174), (3333, 174), (3809, 174), (4092, 174), (4441, 174)],
    [(35, 175), (134, 175), (449, 175), (486, 175), (608, 175), (798, 175), (1011, 175), (1198, 175), (1293, 175), (1445, 175)],
    [(1659, 175), (1891, 175), (1978, 175), (2260, 175), (2494, 175), (2928, 175), (3334, 175), (3810, 175), (4093, 175), (4442, 175)],
    [(36, 176), (135, 176), (450, 176), (487, 176), (609, 176), (799, 176), (1012, 176), (1199, 176), (1294, 176), (1446, 176)],
    [(1660, 176), (1892, 176), (1979, 176), (2261, 176), (2495, 176), (2929, 176), (3335, 176), (3811, 176), (4094, 176), (4443, 176)],
    [(37, 177), (136, 177), (451, 177), (488, 177), (610, 177), (800, 177), (1013, 177), (1080, 177), (1295, 177), (1447, 177)],
    [(1661, 177), (1893, 177), (1980, 177), (2262, 177), (2496, 177), (2930, 177), (3336, 177), (3812, 177), (4095, 177), (4444, 177)],
    [(38, 178), (137, 178), (452, 178), (489, 178), (611, 178), (801, 178), (1014, 178), (1081, 178), (1296, 178), (1448, 178)],
    [(1662, 178), (1894, 178), (1981, 178), (2263, 178), (2497, 178), (2931, 178), (3337, 178), (3813, 178), (4096, 178), (4445, 178)],
    [(39, 179), (138, 179), (453, 179), (490, 179), (612, 179), (802, 179), (1015, 179), (1082, 179), (1297, 179), (1449, 179)],
    [(1663, 179), (1895, 179), (1982, 179), (2264, 179), (2498, 179), (2932, 179), (3338, 179), (3814, 179), (4097, 179), (4446, 179)],
    [(40, 180), (139, 180), (454, 180), (491, 180), (613, 180), (803, 180), (1016, 180), (1083, 180), (1298, 180), (1450, 180)],
    [(1664, 180), (1896, 180), (1983, 180), (2265, 180), (2499, 180), (2933, 180), (3339, 180), (3815, 180), (4098, 180), (4447, 180)],
    [(41, 181), (140, 181), (455, 181), (492, 181), (614, 181), (804, 181), (1017, 181), (1084, 181), (1299, 181), (1451, 181)],
    [(1665, 181), (1897, 181), (1984, 181), (2266, 181), (2500, 181), (2934, 181), (3340, 181), (3816, 181), (4099, 181), (4448, 181)],
    [(42, 182), (141, 182), (456, 182), (493, 182), (615, 182), (805, 182), (1018, 182), (1085, 182), (1300, 182), (1452, 182)],
    [(1666, 182), (1898, 182), (1985, 182), (2267, 182), (2501, 182), (2935, 182), (3341, 182), (3817, 182), (4100, 182), (4449, 182)],
    [(43, 183), (142, 183), (457, 183), (494, 183), (616, 183), (806, 183), (1019, 183), (1086, 183), (1301, 183), (1453, 183)],
    [(1667, 183), (1899, 183), (1986, 183), (2268, 183), (2502, 183), (2936, 183), (3342, 183), (3818, 183), (4101, 183), (4450, 183)],
    [(44, 184), (143, 184), (458, 184), (495, 184), (617, 184), (807, 184), (1020, 184), (1087, 184), (1302, 184), (1454, 184)],
    [(1668, 184), (1900, 184), (1987, 184), (2269, 184), (2503, 184), (2937, 184), (3343, 184), (3819, 184), (4102, 184), (4451, 184)],
    [(45, 185), (144, 185), (459, 185), (496, 185), (618, 185), (808, 185), (1021, 185), (1088, 185), (1303, 185), (1455, 185)],
    [(1669, 185), (1901, 185), (1988, 185), (2270, 185), (2504, 185), (2938, 185), (3344, 185), (3820, 185), (4103, 185), (4452, 185)],
    [(46, 186), (145, 186), (460, 186), (497, 186), (619, 186), (809, 186), (1022, 186), (1089, 186), (1304, 186), (1456, 186)],
    [(1670, 186), (1902, 186), (1989, 186), (2271, 186), (2505, 186), (2939, 186), (3345, 186), (3821, 186), (4104, 186), (4453, 186)],
    [(47, 187), (146, 187), (461, 187), (498, 187), (620, 187), (810, 187), (1023, 187), (1090, 187), (1305, 187), (1457, 187)],
    [(1671, 187), (1903, 187), (1990, 187), (2272, 187), (2506, 187), (2940, 187), (3346, 187), (3822, 187), (4105, 187), (4454, 187)],
    [(48, 188), (147, 188), (462, 188), (499, 188), (621, 188), (811, 188), (1024, 188), (1091, 188), (1306, 188), (1458, 188)],
    [(1672, 188), (1904, 188), (1991, 188), (2273, 188), (2507, 188), (2941, 188), (3347, 188), (3823, 188), (4106, 188), (4455, 188)],
    [(49, 189), (148, 189), (463, 189), (500, 189), (622, 189), (812, 189), (1025, 189), (1092, 189), (1307, 189), (1459, 189)],
    [(1673, 189), (1905, 189), (1992, 189), (2274, 189), (2508, 189), (2942, 189), (3348, 189), (3824, 189), (4107, 189), (4456, 189)],
    [(50, 190), (149, 190), (464, 190), (501, 190), (623, 190), (813, 190), (1026, 190), (1093, 190), (1308, 190), (1460, 190)],
    [(1674, 190), (1906, 190), (1993, 190), (2275, 190), (2509, 190), (2943, 190), (3349, 190), (3825, 190), (4108, 190), (4457, 190)],
    [(51, 191), (150, 191), (465, 191), (502, 191), (624, 191), (814, 191), (1027, 191), (1094, 191), (1309, 191), (1461, 191)],
    [(1675, 191), (1907, 191), (1994, 191), (2276, 191), (2510, 191), (2944, 191), (3350, 191), (3826, 191), (4109, 191), (4458, 191)],
    [(52, 192), (151, 192), (466, 192), (503, 192), (625, 192), (815, 192), (1028, 192), (1095, 192), (1310, 192), (1462, 192)],
    [(1676, 192), (1908, 192), (1995, 192), (2277, 192), (2511, 192), (2945, 192), (3351, 192), (3827, 192), (4110, 192), (4459, 192)],
    [(53, 193), (152, 193), (467, 193), (504, 193), (626, 193), (816, 193), (1029, 193), (1096, 193), (1311, 193), (1463, 193)],
    [(1677, 193), (1909, 193), (1996, 193), (2278, 193), (2512, 193), (2946, 193), (3352, 193), (3828, 193), (4111, 193), (4460, 193)],
    [(54, 194), (153, 194), (468, 194), (505, 194), (627, 194), (817, 194), (1030, 194), (1097, 194), (1312, 194), (1464, 194)],
    [(1678, 194), (1910, 194), (1997, 194), (2279, 194), (2513, 194), (2947, 194), (3353, 194), (3829, 194), (4112, 194), (4461, 194)],
    [(55, 195), (154, 195), (469, 195), (506, 195), (628, 195), (818, 195), (1031, 195), (1098, 195), (1313, 195), (1465, 195)],
    [(1679, 195), (1911, 195), (1998, 195), (2160, 195), (2514, 195), (2948, 195), (3354, 195), (3830, 195), (4113, 195), (4462, 195)],
    [(56, 196), (155, 196), (470, 196), (507, 196), (629, 196), (819, 196), (1032, 196), (1099, 196), (1314, 196), (1466, 196)],
    [(1560, 196), (1912, 196), (1999, 196), (2161, 196), (2515, 196), (2949, 196), (3355, 196), (3831, 196), (4114, 196), (4463, 196)],
    [(57, 197), (156, 197), (471, 197), (508, 197), (630, 197), (820, 197), (1033, 197), (1100, 197), (1315, 197), (1467, 197)],
    [(1561, 197), (1913, 197), (2000, 197), (2162, 197), (2516, 197), (2950, 197), (3356, 197), (3832, 197), (4115, 197), (4464, 197)],
    [(58, 198), (157, 198), (472, 198), (509, 198), (631, 198), (821, 198), (1034, 198), (1101, 198), (1316, 198), (1468, 198)],
    [(1562, 198), (1914, 198), (2001, 198), (2163, 198), (2517, 198), (2951, 198), (3357, 198), (3833, 198), (4116, 198), (4465, 198)],
    [(59, 199), (158, 199), (473, 199), (510, 199), (632, 199), (822, 199), (1035, 199), (1102, 199), (1317, 199), (1469, 199)],
    [(1563, 199), (1915, 199), (2002, 199), (2164, 199), (2518, 199), (2952, 199), (3358, 199), (3834, 199), (4117, 199), (4466, 199)],
    [(60, 200), (159, 200), (474, 200), (511, 200), (633, 200), (823, 200), (1036, 200), (1103, 200), (1318, 200), (1470, 200)],
    [(1564, 200), (1916, 200), (2003, 200), (2165, 200), (2519, 200), (2953, 200), (3359, 200), (3835, 200), (4118, 200), (4467, 200)],
    [(61, 201), (160, 201), (475, 201), (512, 201), (634, 201), (824, 201), (1037, 201), (1104, 201), (1319, 201), (1471, 201)],
    [(1565, 201), (1917, 201), (2004, 201), (2166, 201), (2400, 201), (2954, 201), (3240, 201), (3836, 201), (4119, 201), (4468, 201)],
    [(62, 202), (161, 202), (476, 202), (513, 202), (635, 202), (825, 202), (1038, 202), (1105, 202), (1200, 202), (1472, 202)],
    [(1566, 202), (1918, 202), (2005, 202), (2167, 202), (2401, 202), (2955, 202), (3241, 202), (3837, 202), (4120, 202), (4469, 202)],
    [(63, 203), (162, 203), (477, 203), (514, 203), (636, 203), (826, 203), (1039, 203), (1106, 203), (1201, 203), (1473, 203)],
    [(1567, 203), (1919, 203), (2006, 203), (2168, 203), (2402, 203), (2956, 203), (3242, 203), (3838, 203), (4121, 203), (4470, 203)],
    [(64, 204), (163, 204), (478, 204), (515, 204), (637, 204), (827, 204), (1040, 204), (1107, 204), (1202, 204), (1474, 204)],
    [(1568, 204), (1800, 204), (2007, 204), (2169, 204), (2403, 204), (2957, 204), (3243, 204), (3839, 204), (4122, 204), (4471, 204)],
    [(65, 205), (164, 205), (479, 205), (516, 205), (638, 205), (828, 205), (1041, 205), (1108, 205), (1203, 205), (1475, 205)],
    [(1569, 205), (1801, 205), (2008, 205), (2170, 205), (2404, 205), (2958, 205), (3244, 205), (3720, 205), (4123, 205), (4472, 205)],
    [(66, 206), (165, 206), (360, 206), (517, 206), (639, 206), (829, 206), (1042, 206), (1109, 206), (1204, 206), (1476, 206)],
    [(1570, 206), (1802, 206), (2009, 206), (2171, 206), (2405, 206), (2959, 206), (3245, 206), (3721, 206), (4124, 206), (4473, 206)],
    [(67, 207), (166, 207), (361, 207), (518, 207), (640, 207), (830, 207), (1043, 207), (1110, 207), (1205, 207), (1477, 207)],
    [(1571, 207), (1803, 207), (2010, 207), (2172, 207), (2406, 207), (2960, 207), (3246, 207), (3722, 207), (4125, 207), (4474, 207)],
    [(68, 208), (167, 208), (362, 208), (519, 208), (641, 208), (831, 208), (1044, 208), (1111, 208), (1206, 208), (1478, 208)],
    [(1572, 208), (1804, 208), (2011, 208), (2173, 208), (2407, 208), (2961, 208), (3247, 208), (3723, 208), (4126, 208), (4475, 208)],
    [(69, 209), (168, 209), (363, 209), (520, 209), (642, 209), (832, 209), (1045, 209), (1112, 209), (1207, 209), (1479, 209)],
    [(1573, 209), (1805, 209), (2012, 209), (2174, 209), (2408, 209), (2962, 209), (3248, 209), (3724, 209), (4127, 209), (4476, 209)],
    [(70, 210), (169, 210), (364, 210), (521, 210), (643, 210), (833, 210), (1046, 210), (1113, 210), (1208, 210), (1480, 210)],
    [(1574, 210), (1806, 210), (2013, 210), (2175, 210), (2409, 210), (2963, 210), (3249, 210), (3725, 210), (4128, 210), (4477, 210)],
    [(71, 211), (170, 211), (365, 211), (522, 211), (644, 211), (834, 211), (1047, 211), (1114, 211), (1209, 211), (1481, 211)],
    [(1575, 211), (1807, 211), (2014, 211), (2176, 211), (2410, 211), (2964, 211), (3250, 211), (3726, 211), (4129, 211), (4478, 211)],
    [(72, 212), (171, 212), (366, 212), (523, 212), (645, 212), (835, 212), (1048, 212), (1115, 212), (1210, 212), (1482, 212)],
    [(1576, 212), (1808, 212), (2015, 212), (2177, 212), (2411, 212), (2965, 212), (3251, 212), (3727, 212), (4130, 212), (4479, 212)],
    [(73, 213), (172, 213), (367, 213), (524, 213), (646, 213), (836, 213), (1049, 213), (1116, 213), (1211, 213), (1483, 213)],
    [(1577, 213), (1809, 213), (2016, 213), (2178, 213), (2412, 213), (2966, 213), (3252, 213), (3728, 213), (4131, 213), (4480, 213)],
    [(74, 214), (173, 214), (368, 214), (525, 214), (647, 214), (837, 214), (1050, 214), (1117, 214), (1212, 214), (1484, 214)],
    [(1578, 214), (1810, 214), (2017, 214), (2179, 214), (2413, 214), (2967, 214), (3253, 214), (3729, 214), (4132, 214), (4481, 214)],
    [(75, 215), (174, 215), (369, 215), (526, 215), (648, 215), (838, 215), (1051, 215), (1118, 215), (1213, 215), (1485, 215)],
    [(1579, 215), (1811, 215), (2018, 215), (2180, 215), (2414, 215), (2968, 215), (3254, 215), (3730, 215), (4133, 215), (4482, 215)],
    [(76, 216), (175, 216), (370, 216), (527, 216), (649, 216), (839, 216), (1052, 216), (1119, 216), (1214, 216), (1486, 216)],
    [(1580, 216), (1812, 216), (2019, 216), (2181, 216), (2415, 216), (2969, 216), (3255, 216), (3731, 216), (4134, 216), (4483, 216)],
    [(77, 217), (176, 217), (371, 217), (528, 217), (650, 217), (720, 217), (1053, 217), (1120, 217), (1215, 217), (1487, 217)],
    [(1581, 217), (1813, 217), (2020, 217), (2182, 217), (2416, 217), (2970, 217), (3256, 217), (3732, 217), (4135, 217), (4484, 217)],
    [(78, 218), (177, 218), (372, 218), (529, 218), (651, 218), (721, 218), (1054, 218), (1121, 218), (1216, 218), (1488, 218)],
    [(1582, 218), (1814, 218), (2021, 218), (2183, 218), (2417, 218), (2971, 218), (3257, 218), (3733, 218), (4136, 218), (4485, 218)],
    [(79, 219), (178, 219), (373, 219), (530, 219), (652, 219), (722, 219), (1055, 219), (1122, 219), (1217, 219), (1489, 219)],
    [(1583, 219), (1815, 219), (2022, 219), (2184, 219), (2418, 219), (2972, 219), (3258, 219), (3734, 219), (4137, 219), (4486, 219)],
    [(80, 220), (179, 220), (374, 220), (531, 220), (653, 220), (723, 220), (1056, 220), (1123, 220), (1218, 220), (1490, 220)],
    [(1584, 220), (1816, 220), (2023, 220), (2185, 220), (2419, 220), (2973, 220), (3259, 220), (3735, 220), (4138, 220), (4487, 220)],
    [(81, 221), (180, 221), (375, 221), (532, 221), (654, 221), (724, 221), (1057, 221), (1124, 221), (1219, 221), (1491, 221)],
    [(1585, 221), (1817, 221), (2024, 221), (2186, 221), (2420, 221), (2974, 221), (3260, 221), (3736, 221), (4139, 221), (4488, 221)],
    [(82, 222), (181, 222), (376, 222), (533, 222), (655, 222), (725, 222), (1058, 222), (1125, 222), (1220, 222), (1492, 222)],
    [(1586, 222), (1818, 222), (2025, 222), (2187, 222), (2421, 222), (2975, 222), (3261, 222), (3737, 222), (4140, 222), (4489, 222)],
    [(83, 223), (182, 223), (377, 223), (534, 223), (656, 223), (726, 223), (1059, 223), (1126, 223), (1221, 223), (1493, 223)],
    [(1587, 223), (1819, 223), (2026, 223), (2188, 223), (2422, 223), (2976, 223), (3262, 223), (3738, 223), (4141, 223), (4490, 223)],
    [(84, 224), (183, 224), (378, 224), (535, 224), (657, 224), (727, 224), (1060, 224), (1127, 224), (1222, 224), (1494, 224)],
    [(1588, 224), (1820, 224), (2027, 224), (2189, 224), (2423, 224), (2977, 224), (3263, 224), (3739, 224), (4142, 224), (4491, 224)],
    [(85, 225), (184, 225), (379, 225), (536, 225), (658, 225), (728, 225), (1061, 225), (1128, 225), (1223, 225), (1495, 225)],
    [(1589, 225), (1821, 225), (2028, 225), (2190, 225), (2424, 225), (2978, 225), (3264, 225), (3740, 225), (4143, 225), (4492, 225)],
    [(86, 226), (185, 226), (380, 226), (537, 226), (659, 226), (729, 226), (1062, 226), (1129, 226), (1224, 226), (1496, 226)],
    [(1590, 226), (1822, 226), (2029, 226), (2191, 226), (2425, 226), (2979, 226), (3265, 226), (3741, 226), (4144, 226), (4493, 226)],
    [(87, 227), (186, 227), (381, 227), (538, 227), (660, 227), (730, 227), (1063, 227), (1130, 227), (1225, 227), (1497, 227)]]"

definition SF2_C_ind_3 :: "(nat \<times> nat) list" where
  "SF2_C_ind_3 = concat [
    [(1591, 227), (1823, 227), (2030, 227), (2192, 227), (2426, 227), (2980, 227), (3266, 227), (3742, 227), (4145, 227), (4494, 227)],
    [(88, 228), (187, 228), (382, 228), (539, 228), (661, 228), (731, 228), (1064, 228), (1131, 228), (1226, 228), (1498, 228)],
    [(1592, 228), (1824, 228), (2031, 228), (2193, 228), (2427, 228), (2981, 228), (3267, 228), (3743, 228), (4146, 228), (4495, 228)],
    [(89, 229), (188, 229), (383, 229), (540, 229), (662, 229), (732, 229), (1065, 229), (1132, 229), (1227, 229), (1499, 229)],
    [(1593, 229), (1825, 229), (2032, 229), (2194, 229), (2428, 229), (2982, 229), (3268, 229), (3744, 229), (4147, 229), (4496, 229)],
    [(90, 230), (189, 230), (384, 230), (541, 230), (663, 230), (733, 230), (1066, 230), (1133, 230), (1228, 230), (1500, 230)],
    [(1594, 230), (1826, 230), (2033, 230), (2195, 230), (2429, 230), (2983, 230), (3269, 230), (3745, 230), (4148, 230), (4497, 230)],
    [(91, 231), (190, 231), (385, 231), (542, 231), (664, 231), (734, 231), (1067, 231), (1134, 231), (1229, 231), (1501, 231)],
    [(1595, 231), (1827, 231), (2034, 231), (2196, 231), (2430, 231), (2984, 231), (3270, 231), (3746, 231), (4149, 231), (4498, 231)],
    [(92, 232), (191, 232), (386, 232), (543, 232), (665, 232), (735, 232), (1068, 232), (1135, 232), (1230, 232), (1502, 232)],
    [(1596, 232), (1828, 232), (2035, 232), (2197, 232), (2431, 232), (2985, 232), (3271, 232), (3747, 232), (4150, 232), (4499, 232)],
    [(93, 233), (192, 233), (387, 233), (544, 233), (666, 233), (736, 233), (1069, 233), (1136, 233), (1231, 233), (1503, 233)],
    [(1597, 233), (1829, 233), (2036, 233), (2198, 233), (2432, 233), (2986, 233), (3272, 233), (3748, 233), (4151, 233), (4500, 233)],
    [(94, 234), (193, 234), (388, 234), (545, 234), (667, 234), (737, 234), (1070, 234), (1137, 234), (1232, 234), (1504, 234)],
    [(1598, 234), (1830, 234), (2037, 234), (2199, 234), (2433, 234), (2987, 234), (3273, 234), (3749, 234), (4152, 234), (4501, 234)],
    [(95, 235), (194, 235), (389, 235), (546, 235), (668, 235), (738, 235), (1071, 235), (1138, 235), (1233, 235), (1505, 235)],
    [(1599, 235), (1831, 235), (2038, 235), (2200, 235), (2434, 235), (2988, 235), (3274, 235), (3750, 235), (4153, 235), (4502, 235)],
    [(96, 236), (195, 236), (390, 236), (547, 236), (669, 236), (739, 236), (1072, 236), (1139, 236), (1234, 236), (1506, 236)],
    [(1600, 236), (1832, 236), (2039, 236), (2201, 236), (2435, 236), (2989, 236), (3275, 236), (3751, 236), (4154, 236), (4503, 236)],
    [(97, 237), (196, 237), (391, 237), (548, 237), (670, 237), (740, 237), (1073, 237), (1140, 237), (1235, 237), (1507, 237)],
    [(1601, 237), (1833, 237), (1920, 237), (2202, 237), (2436, 237), (2990, 237), (3276, 237), (3752, 237), (4155, 237), (4504, 237)],
    [(98, 238), (197, 238), (392, 238), (549, 238), (671, 238), (741, 238), (1074, 238), (1141, 238), (1236, 238), (1508, 238)],
    [(1602, 238), (1834, 238), (1921, 238), (2203, 238), (2437, 238), (2991, 238), (3277, 238), (3753, 238), (4156, 238), (4505, 238)],
    [(99, 239), (198, 239), (393, 239), (550, 239), (672, 239), (742, 239), (1075, 239), (1142, 239), (1237, 239), (1509, 239)],
    [(1603, 239), (1835, 239), (1922, 239), (2204, 239), (2438, 239), (2992, 239), (3278, 239), (3754, 239), (4157, 239), (4506, 239)],
    [(2236, 240), (2501, 240), (2734, 240), (2976, 240), (3203, 240), (3554, 240), (3848, 240), (4362, 240), (2237, 241), (2502, 241)],
    [(2735, 241), (2977, 241), (3204, 241), (3555, 241), (3849, 241), (4363, 241), (2238, 242), (2503, 242), (2736, 242), (2978, 242)],
    [(3205, 242), (3556, 242), (3850, 242), (4364, 242), (2239, 243), (2504, 243), (2737, 243), (2979, 243), (3206, 243), (3557, 243)],
    [(3851, 243), (4365, 243), (2240, 244), (2505, 244), (2738, 244), (2980, 244), (3207, 244), (3558, 244), (3852, 244), (4366, 244)],
    [(2241, 245), (2506, 245), (2739, 245), (2981, 245), (3208, 245), (3559, 245), (3853, 245), (4367, 245), (2242, 246), (2507, 246)],
    [(2740, 246), (2982, 246), (3209, 246), (3560, 246), (3854, 246), (4368, 246), (2243, 247), (2508, 247), (2741, 247), (2983, 247)],
    [(3210, 247), (3561, 247), (3855, 247), (4369, 247), (2244, 248), (2509, 248), (2742, 248), (2984, 248), (3211, 248), (3562, 248)],
    [(3856, 248), (4370, 248), (2245, 249), (2510, 249), (2743, 249), (2985, 249), (3212, 249), (3563, 249), (3857, 249), (4371, 249)],
    [(2246, 250), (2511, 250), (2744, 250), (2986, 250), (3213, 250), (3564, 250), (3858, 250), (4372, 250), (2247, 251), (2512, 251)],
    [(2745, 251), (2987, 251), (3214, 251), (3565, 251), (3859, 251), (4373, 251), (2248, 252), (2513, 252), (2746, 252), (2988, 252)],
    [(3215, 252), (3566, 252), (3860, 252), (4374, 252), (2249, 253), (2514, 253), (2747, 253), (2989, 253), (3216, 253), (3567, 253)],
    [(3861, 253), (4375, 253), (2250, 254), (2515, 254), (2748, 254), (2990, 254), (3217, 254), (3568, 254), (3862, 254), (4376, 254)],
    [(2251, 255), (2516, 255), (2749, 255), (2991, 255), (3218, 255), (3569, 255), (3863, 255), (4377, 255), (2252, 256), (2517, 256)],
    [(2750, 256), (2992, 256), (3219, 256), (3570, 256), (3864, 256), (4378, 256), (2253, 257), (2518, 257), (2751, 257), (2993, 257)],
    [(3220, 257), (3571, 257), (3865, 257), (4379, 257), (2254, 258), (2519, 258), (2752, 258), (2994, 258), (3221, 258), (3572, 258)],
    [(3866, 258), (4380, 258), (2255, 259), (2400, 259), (2753, 259), (2995, 259), (3222, 259), (3573, 259), (3867, 259), (4381, 259)],
    [(2256, 260), (2401, 260), (2754, 260), (2996, 260), (3223, 260), (3574, 260), (3868, 260), (4382, 260), (2257, 261), (2402, 261)],
    [(2755, 261), (2997, 261), (3224, 261), (3575, 261), (3869, 261), (4383, 261), (2258, 262), (2403, 262), (2756, 262), (2998, 262)],
    [(3225, 262), (3576, 262), (3870, 262), (4384, 262), (2259, 263), (2404, 263), (2757, 263), (2999, 263), (3226, 263), (3577, 263)],
    [(3871, 263), (4385, 263), (2260, 264), (2405, 264), (2758, 264), (2880, 264), (3227, 264), (3578, 264), (3872, 264), (4386, 264)],
    [(2261, 265), (2406, 265), (2759, 265), (2881, 265), (3228, 265), (3579, 265), (3873, 265), (4387, 265), (2262, 266), (2407, 266)],
    [(2640, 266), (2882, 266), (3229, 266), (3580, 266), (3874, 266), (4388, 266), (2263, 267), (2408, 267), (2641, 267), (2883, 267)],
    [(3230, 267), (3581, 267), (3875, 267), (4389, 267), (2264, 268), (2409, 268), (2642, 268), (2884, 268), (3231, 268), (3582, 268)],
    [(3876, 268), (4390, 268), (2265, 269), (2410, 269), (2643, 269), (2885, 269), (3232, 269), (3583, 269), (3877, 269), (4391, 269)],
    [(2266, 270), (2411, 270), (2644, 270), (2886, 270), (3233, 270), (3584, 270), (3878, 270), (4392, 270), (2267, 271), (2412, 271)],
    [(2645, 271), (2887, 271), (3234, 271), (3585, 271), (3879, 271), (4393, 271), (2268, 272), (2413, 272), (2646, 272), (2888, 272)],
    [(3235, 272), (3586, 272), (3880, 272), (4394, 272), (2269, 273), (2414, 273), (2647, 273), (2889, 273), (3236, 273), (3587, 273)],
    [(3881, 273), (4395, 273), (2270, 274), (2415, 274), (2648, 274), (2890, 274), (3237, 274), (3588, 274), (3882, 274), (4396, 274)],
    [(2271, 275), (2416, 275), (2649, 275), (2891, 275), (3238, 275), (3589, 275), (3883, 275), (4397, 275), (2272, 276), (2417, 276)],
    [(2650, 276), (2892, 276), (3239, 276), (3590, 276), (3884, 276), (4398, 276), (2273, 277), (2418, 277), (2651, 277), (2893, 277)],
    [(3120, 277), (3591, 277), (3885, 277), (4399, 277), (2274, 278), (2419, 278), (2652, 278), (2894, 278), (3121, 278), (3592, 278)],
    [(3886, 278), (4400, 278), (2275, 279), (2420, 279), (2653, 279), (2895, 279), (3122, 279), (3593, 279), (3887, 279), (4401, 279)],
    [(2276, 280), (2421, 280), (2654, 280), (2896, 280), (3123, 280), (3594, 280), (3888, 280), (4402, 280), (2277, 281), (2422, 281)],
    [(2655, 281), (2897, 281), (3124, 281), (3595, 281), (3889, 281), (4403, 281), (2278, 282), (2423, 282), (2656, 282), (2898, 282)],
    [(3125, 282), (3596, 282), (3890, 282), (4404, 282), (2279, 283), (2424, 283), (2657, 283), (2899, 283), (3126, 283), (3597, 283)],
    [(3891, 283), (4405, 283), (2160, 284), (2425, 284), (2658, 284), (2900, 284), (3127, 284), (3598, 284), (3892, 284), (4406, 284)],
    [(2161, 285), (2426, 285), (2659, 285), (2901, 285), (3128, 285), (3599, 285), (3893, 285), (4407, 285), (2162, 286), (2427, 286)],
    [(2660, 286), (2902, 286), (3129, 286), (3480, 286), (3894, 286), (4408, 286), (2163, 287), (2428, 287), (2661, 287), (2903, 287)],
    [(3130, 287), (3481, 287), (3895, 287), (4409, 287), (2164, 288), (2429, 288), (2662, 288), (2904, 288), (3131, 288), (3482, 288)],
    [(3896, 288), (4410, 288), (2165, 289), (2430, 289), (2663, 289), (2905, 289), (3132, 289), (3483, 289), (3897, 289), (4411, 289)],
    [(2166, 290), (2431, 290), (2664, 290), (2906, 290), (3133, 290), (3484, 290), (3898, 290), (4412, 290), (2167, 291), (2432, 291)],
    [(2665, 291), (2907, 291), (3134, 291), (3485, 291), (3899, 291), (4413, 291), (2168, 292), (2433, 292), (2666, 292), (2908, 292)],
    [(3135, 292), (3486, 292), (3900, 292), (4414, 292), (2169, 293), (2434, 293), (2667, 293), (2909, 293), (3136, 293), (3487, 293)],
    [(3901, 293), (4415, 293), (2170, 294), (2435, 294), (2668, 294), (2910, 294), (3137, 294), (3488, 294), (3902, 294), (4416, 294)],
    [(2171, 295), (2436, 295), (2669, 295), (2911, 295), (3138, 295), (3489, 295), (3903, 295), (4417, 295), (2172, 296), (2437, 296)],
    [(2670, 296), (2912, 296), (3139, 296), (3490, 296), (3904, 296), (4418, 296), (2173, 297), (2438, 297), (2671, 297), (2913, 297)],
    [(3140, 297), (3491, 297), (3905, 297), (4419, 297), (2174, 298), (2439, 298), (2672, 298), (2914, 298), (3141, 298), (3492, 298)],
    [(3906, 298), (4420, 298), (2175, 299), (2440, 299), (2673, 299), (2915, 299), (3142, 299), (3493, 299), (3907, 299), (4421, 299)],
    [(2176, 300), (2441, 300), (2674, 300), (2916, 300), (3143, 300), (3494, 300), (3908, 300), (4422, 300), (2177, 301), (2442, 301)],
    [(2675, 301), (2917, 301), (3144, 301), (3495, 301), (3909, 301), (4423, 301), (2178, 302), (2443, 302), (2676, 302), (2918, 302)],
    [(3145, 302), (3496, 302), (3910, 302), (4424, 302), (2179, 303), (2444, 303), (2677, 303), (2919, 303), (3146, 303), (3497, 303)],
    [(3911, 303), (4425, 303), (2180, 304), (2445, 304), (2678, 304), (2920, 304), (3147, 304), (3498, 304), (3912, 304), (4426, 304)],
    [(2181, 305), (2446, 305), (2679, 305), (2921, 305), (3148, 305), (3499, 305), (3913, 305), (4427, 305), (2182, 306), (2447, 306)],
    [(2680, 306), (2922, 306), (3149, 306), (3500, 306), (3914, 306), (4428, 306), (2183, 307), (2448, 307), (2681, 307), (2923, 307)],
    [(3150, 307), (3501, 307), (3915, 307), (4429, 307), (2184, 308), (2449, 308), (2682, 308), (2924, 308), (3151, 308), (3502, 308)],
    [(3916, 308), (4430, 308), (2185, 309), (2450, 309), (2683, 309), (2925, 309), (3152, 309), (3503, 309), (3917, 309), (4431, 309)],
    [(2186, 310), (2451, 310), (2684, 310), (2926, 310), (3153, 310), (3504, 310), (3918, 310), (4432, 310), (2187, 311), (2452, 311)],
    [(2685, 311), (2927, 311), (3154, 311), (3505, 311), (3919, 311), (4433, 311), (2188, 312), (2453, 312), (2686, 312), (2928, 312)],
    [(3155, 312), (3506, 312), (3920, 312), (4434, 312), (2189, 313), (2454, 313), (2687, 313), (2929, 313), (3156, 313), (3507, 313)],
    [(3921, 313), (4435, 313), (2190, 314), (2455, 314), (2688, 314), (2930, 314), (3157, 314), (3508, 314), (3922, 314), (4436, 314)],
    [(2191, 315), (2456, 315), (2689, 315), (2931, 315), (3158, 315), (3509, 315), (3923, 315), (4437, 315), (2192, 316), (2457, 316)],
    [(2690, 316), (2932, 316), (3159, 316), (3510, 316), (3924, 316), (4438, 316), (2193, 317), (2458, 317), (2691, 317), (2933, 317)],
    [(3160, 317), (3511, 317), (3925, 317), (4439, 317), (2194, 318), (2459, 318), (2692, 318), (2934, 318), (3161, 318), (3512, 318)],
    [(3926, 318), (4320, 318), (2195, 319), (2460, 319), (2693, 319), (2935, 319), (3162, 319), (3513, 319), (3927, 319), (4321, 319)],
    [(2196, 320), (2461, 320), (2694, 320), (2936, 320), (3163, 320), (3514, 320), (3928, 320), (4322, 320), (2197, 321), (2462, 321)],
    [(2695, 321), (2937, 321), (3164, 321), (3515, 321), (3929, 321), (4323, 321), (2198, 322), (2463, 322), (2696, 322), (2938, 322)],
    [(3165, 322), (3516, 322), (3930, 322), (4324, 322), (2199, 323), (2464, 323), (2697, 323), (2939, 323), (3166, 323), (3517, 323)],
    [(3931, 323), (4325, 323), (2200, 324), (2465, 324), (2698, 324), (2940, 324), (3167, 324), (3518, 324), (3932, 324), (4326, 324)],
    [(2201, 325), (2466, 325), (2699, 325), (2941, 325), (3168, 325), (3519, 325), (3933, 325), (4327, 325), (2202, 326), (2467, 326)],
    [(2700, 326), (2942, 326), (3169, 326), (3520, 326), (3934, 326), (4328, 326), (2203, 327), (2468, 327), (2701, 327), (2943, 327)],
    [(3170, 327), (3521, 327), (3935, 327), (4329, 327), (2204, 328), (2469, 328), (2702, 328), (2944, 328), (3171, 328), (3522, 328)],
    [(3936, 328), (4330, 328), (2205, 329), (2470, 329), (2703, 329), (2945, 329), (3172, 329), (3523, 329), (3937, 329), (4331, 329)],
    [(2206, 330), (2471, 330), (2704, 330), (2946, 330), (3173, 330), (3524, 330), (3938, 330), (4332, 330), (2207, 331), (2472, 331)],
    [(2705, 331), (2947, 331), (3174, 331), (3525, 331), (3939, 331), (4333, 331), (2208, 332), (2473, 332), (2706, 332), (2948, 332)],
    [(3175, 332), (3526, 332), (3940, 332), (4334, 332), (2209, 333), (2474, 333), (2707, 333), (2949, 333), (3176, 333), (3527, 333)],
    [(3941, 333), (4335, 333), (2210, 334), (2475, 334), (2708, 334), (2950, 334), (3177, 334), (3528, 334), (3942, 334), (4336, 334)],
    [(2211, 335), (2476, 335), (2709, 335), (2951, 335), (3178, 335), (3529, 335), (3943, 335), (4337, 335), (2212, 336), (2477, 336)],
    [(2710, 336), (2952, 336), (3179, 336), (3530, 336), (3944, 336), (4338, 336), (2213, 337), (2478, 337), (2711, 337), (2953, 337)],
    [(3180, 337), (3531, 337), (3945, 337), (4339, 337), (2214, 338), (2479, 338), (2712, 338), (2954, 338), (3181, 338), (3532, 338)],
    [(3946, 338), (4340, 338), (2215, 339), (2480, 339), (2713, 339), (2955, 339), (3182, 339), (3533, 339), (3947, 339), (4341, 339)],
    [(2216, 340), (2481, 340), (2714, 340), (2956, 340), (3183, 340), (3534, 340), (3948, 340), (4342, 340), (2217, 341), (2482, 341)],
    [(2715, 341), (2957, 341), (3184, 341), (3535, 341), (3949, 341), (4343, 341), (2218, 342), (2483, 342), (2716, 342), (2958, 342)],
    [(3185, 342), (3536, 342), (3950, 342), (4344, 342), (2219, 343), (2484, 343), (2717, 343), (2959, 343), (3186, 343), (3537, 343)],
    [(3951, 343), (4345, 343), (2220, 344), (2485, 344), (2718, 344), (2960, 344), (3187, 344), (3538, 344), (3952, 344), (4346, 344)],
    [(2221, 345), (2486, 345), (2719, 345), (2961, 345), (3188, 345), (3539, 345), (3953, 345), (4347, 345), (2222, 346), (2487, 346)],
    [(2720, 346), (2962, 346), (3189, 346), (3540, 346), (3954, 346), (4348, 346), (2223, 347), (2488, 347), (2721, 347), (2963, 347)],
    [(3190, 347), (3541, 347), (3955, 347), (4349, 347), (2224, 348), (2489, 348), (2722, 348), (2964, 348), (3191, 348), (3542, 348)],
    [(3956, 348), (4350, 348), (2225, 349), (2490, 349), (2723, 349), (2965, 349), (3192, 349), (3543, 349), (3957, 349), (4351, 349)],
    [(2226, 350), (2491, 350), (2724, 350), (2966, 350), (3193, 350), (3544, 350), (3958, 350), (4352, 350), (2227, 351), (2492, 351)],
    [(2725, 351), (2967, 351), (3194, 351), (3545, 351), (3959, 351), (4353, 351), (2228, 352), (2493, 352), (2726, 352), (2968, 352)],
    [(3195, 352), (3546, 352), (3840, 352), (4354, 352), (2229, 353), (2494, 353), (2727, 353), (2969, 353), (3196, 353), (3547, 353)],
    [(3841, 353), (4355, 353), (2230, 354), (2495, 354), (2728, 354), (2970, 354), (3197, 354), (3548, 354), (3842, 354), (4356, 354)],
    [(2231, 355), (2496, 355), (2729, 355), (2971, 355), (3198, 355), (3549, 355), (3843, 355), (4357, 355), (2232, 356), (2497, 356)],
    [(2730, 356), (2972, 356), (3199, 356), (3550, 356), (3844, 356), (4358, 356), (2233, 357), (2498, 357), (2731, 357), (2973, 357)],
    [(3200, 357), (3551, 357), (3845, 357), (4359, 357), (2234, 358), (2499, 358), (2732, 358), (2974, 358), (3201, 358), (3552, 358)],
    [(3846, 358), (4360, 358), (2235, 359), (2500, 359), (2733, 359), (2975, 359), (3202, 359), (3553, 359), (3847, 359), (4361, 359)],
    [(1078, 360), (2306, 360), (1079, 361), (2307, 361), (960, 362), (2308, 362), (961, 363), (2309, 363), (962, 364), (2310, 364)],
    [(963, 365), (2311, 365), (964, 366), (2312, 366), (965, 367), (2313, 367), (966, 368), (2314, 368), (967, 369), (2315, 369)],
    [(968, 370), (2316, 370), (969, 371), (2317, 371), (970, 372), (2318, 372), (971, 373), (2319, 373), (972, 374), (2320, 374)],
    [(973, 375), (2321, 375), (974, 376), (2322, 376), (975, 377), (2323, 377), (976, 378), (2324, 378), (977, 379), (2325, 379)],
    [(978, 380), (2326, 380), (979, 381), (2327, 381), (980, 382), (2328, 382), (981, 383), (2329, 383), (982, 384), (2330, 384)],
    [(983, 385), (2331, 385), (984, 386), (2332, 386), (985, 387), (2333, 387), (986, 388), (2334, 388), (987, 389), (2335, 389)],
    [(988, 390), (2336, 390), (989, 391), (2337, 391), (990, 392), (2338, 392), (991, 393), (2339, 393), (992, 394), (2340, 394)],
    [(993, 395), (2341, 395), (994, 396), (2342, 396), (995, 397), (2343, 397), (996, 398), (2344, 398), (997, 399), (2345, 399)],
    [(998, 400), (2346, 400), (999, 401), (2347, 401), (1000, 402), (2348, 402), (1001, 403), (2349, 403), (1002, 404), (2350, 404)],
    [(1003, 405), (2351, 405), (1004, 406), (2352, 406), (1005, 407), (2353, 407), (1006, 408), (2354, 408), (1007, 409), (2355, 409)],
    [(1008, 410), (2356, 410), (1009, 411), (2357, 411), (1010, 412), (2358, 412), (1011, 413), (2359, 413), (1012, 414), (2360, 414)],
    [(1013, 415), (2361, 415), (1014, 416), (2362, 416), (1015, 417), (2363, 417), (1016, 418), (2364, 418), (1017, 419), (2365, 419)],
    [(1018, 420), (2366, 420), (1019, 421), (2367, 421), (1020, 422), (2368, 422), (1021, 423), (2369, 423), (1022, 424), (2370, 424)],
    [(1023, 425), (2371, 425), (1024, 426), (2372, 426), (1025, 427), (2373, 427), (1026, 428), (2374, 428), (1027, 429), (2375, 429)],
    [(1028, 430), (2376, 430), (1029, 431), (2377, 431), (1030, 432), (2378, 432), (1031, 433), (2379, 433), (1032, 434), (2380, 434)],
    [(1033, 435), (2381, 435), (1034, 436), (2382, 436), (1035, 437), (2383, 437), (1036, 438), (2384, 438), (1037, 439), (2385, 439)],
    [(1038, 440), (2386, 440), (1039, 441), (2387, 441), (1040, 442), (2388, 442), (1041, 443), (2389, 443), (1042, 444), (2390, 444)],
    [(1043, 445), (2391, 445), (1044, 446), (2392, 446), (1045, 447), (2393, 447), (1046, 448), (2394, 448), (1047, 449), (2395, 449)],
    [(1048, 450), (2396, 450), (1049, 451), (2397, 451), (1050, 452), (2398, 452), (1051, 453), (2399, 453), (1052, 454), (2280, 454)],
    [(1053, 455), (2281, 455), (1054, 456), (2282, 456), (1055, 457), (2283, 457), (1056, 458), (2284, 458), (1057, 459), (2285, 459)],
    [(1058, 460), (2286, 460), (1059, 461), (2287, 461), (1060, 462), (2288, 462), (1061, 463), (2289, 463), (1062, 464), (2290, 464)],
    [(1063, 465), (2291, 465), (1064, 466), (2292, 466), (1065, 467), (2293, 467), (1066, 468), (2294, 468), (1067, 469), (2295, 469)],
    [(1068, 470), (2296, 470), (1069, 471), (2297, 471), (1070, 472), (2298, 472), (1071, 473), (2299, 473), (1072, 474), (2300, 474)],
    [(1073, 475), (2301, 475), (1074, 476), (2302, 476), (1075, 477), (2303, 477), (1076, 478), (2304, 478), (1077, 479), (2305, 479)],
    [(1933, 480), (3063, 480), (1934, 481), (3064, 481), (1935, 482), (3065, 482), (1936, 483), (3066, 483), (1937, 484), (3067, 484)],
    [(1938, 485), (3068, 485), (1939, 486), (3069, 486), (1940, 487), (3070, 487), (1941, 488), (3071, 488), (1942, 489), (3072, 489)],
    [(1943, 490), (3073, 490), (1944, 491), (3074, 491), (1945, 492), (3075, 492), (1946, 493), (3076, 493), (1947, 494), (3077, 494)]]"

definition SF2_C_ind_4 :: "(nat \<times> nat) list" where
  "SF2_C_ind_4 = concat [
    [(1948, 495), (3078, 495), (1949, 496), (3079, 496), (1950, 497), (3080, 497), (1951, 498), (3081, 498), (1952, 499), (3082, 499)],
    [(1953, 500), (3083, 500), (1954, 501), (3084, 501), (1955, 502), (3085, 502), (1956, 503), (3086, 503), (1957, 504), (3087, 504)],
    [(1958, 505), (3088, 505), (1959, 506), (3089, 506), (1960, 507), (3090, 507), (1961, 508), (3091, 508), (1962, 509), (3092, 509)],
    [(1963, 510), (3093, 510), (1964, 511), (3094, 511), (1965, 512), (3095, 512), (1966, 513), (3096, 513), (1967, 514), (3097, 514)],
    [(1968, 515), (3098, 515), (1969, 516), (3099, 516), (1970, 517), (3100, 517), (1971, 518), (3101, 518), (1972, 519), (3102, 519)],
    [(1973, 520), (3103, 520), (1974, 521), (3104, 521), (1975, 522), (3105, 522), (1976, 523), (3106, 523), (1977, 524), (3107, 524)],
    [(1978, 525), (3108, 525), (1979, 526), (3109, 526), (1980, 527), (3110, 527), (1981, 528), (3111, 528), (1982, 529), (3112, 529)],
    [(1983, 530), (3113, 530), (1984, 531), (3114, 531), (1985, 532), (3115, 532), (1986, 533), (3116, 533), (1987, 534), (3117, 534)],
    [(1988, 535), (3118, 535), (1989, 536), (3119, 536), (1990, 537), (3000, 537), (1991, 538), (3001, 538), (1992, 539), (3002, 539)],
    [(1993, 540), (3003, 540), (1994, 541), (3004, 541), (1995, 542), (3005, 542), (1996, 543), (3006, 543), (1997, 544), (3007, 544)],
    [(1998, 545), (3008, 545), (1999, 546), (3009, 546), (2000, 547), (3010, 547), (2001, 548), (3011, 548), (2002, 549), (3012, 549)],
    [(2003, 550), (3013, 550), (2004, 551), (3014, 551), (2005, 552), (3015, 552), (2006, 553), (3016, 553), (2007, 554), (3017, 554)],
    [(2008, 555), (3018, 555), (2009, 556), (3019, 556), (2010, 557), (3020, 557), (2011, 558), (3021, 558), (2012, 559), (3022, 559)],
    [(2013, 560), (3023, 560), (2014, 561), (3024, 561), (2015, 562), (3025, 562), (2016, 563), (3026, 563), (2017, 564), (3027, 564)],
    [(2018, 565), (3028, 565), (2019, 566), (3029, 566), (2020, 567), (3030, 567), (2021, 568), (3031, 568), (2022, 569), (3032, 569)],
    [(2023, 570), (3033, 570), (2024, 571), (3034, 571), (2025, 572), (3035, 572), (2026, 573), (3036, 573), (2027, 574), (3037, 574)],
    [(2028, 575), (3038, 575), (2029, 576), (3039, 576), (2030, 577), (3040, 577), (2031, 578), (3041, 578), (2032, 579), (3042, 579)],
    [(2033, 580), (3043, 580), (2034, 581), (3044, 581), (2035, 582), (3045, 582), (2036, 583), (3046, 583), (2037, 584), (3047, 584)],
    [(2038, 585), (3048, 585), (2039, 586), (3049, 586), (1920, 587), (3050, 587), (1921, 588), (3051, 588), (1922, 589), (3052, 589)],
    [(1923, 590), (3053, 590), (1924, 591), (3054, 591), (1925, 592), (3055, 592), (1926, 593), (3056, 593), (1927, 594), (3057, 594)],
    [(1928, 595), (3058, 595), (1929, 596), (3059, 596), (1930, 597), (3060, 597), (1931, 598), (3061, 598), (1932, 599), (3062, 599)],
    [(191, 600), (288, 600), (414, 600), (1627, 600), (2289, 600), (2545, 600), (2984, 600), (3221, 600), (3466, 600), (3735, 600)],
    [(4159, 600), (4465, 600), (192, 601), (289, 601), (415, 601), (1628, 601), (2290, 601), (2546, 601), (2985, 601), (3222, 601)],
    [(3467, 601), (3736, 601), (4160, 601), (4466, 601), (193, 602), (290, 602), (416, 602), (1629, 602), (2291, 602), (2547, 602)],
    [(2986, 602), (3223, 602), (3468, 602), (3737, 602), (4161, 602), (4467, 602), (194, 603), (291, 603), (417, 603), (1630, 603)],
    [(2292, 603), (2548, 603), (2987, 603), (3224, 603), (3469, 603), (3738, 603), (4162, 603), (4468, 603), (195, 604), (292, 604)],
    [(418, 604), (1631, 604), (2293, 604), (2549, 604), (2988, 604), (3225, 604), (3470, 604), (3739, 604), (4163, 604), (4469, 604)],
    [(196, 605), (293, 605), (419, 605), (1632, 605), (2294, 605), (2550, 605), (2989, 605), (3226, 605), (3471, 605), (3740, 605)],
    [(4164, 605), (4470, 605), (197, 606), (294, 606), (420, 606), (1633, 606), (2295, 606), (2551, 606), (2990, 606), (3227, 606)],
    [(3472, 606), (3741, 606), (4165, 606), (4471, 606), (198, 607), (295, 607), (421, 607), (1634, 607), (2296, 607), (2552, 607)],
    [(2991, 607), (3228, 607), (3473, 607), (3742, 607), (4166, 607), (4472, 607), (199, 608), (296, 608), (422, 608), (1635, 608)],
    [(2297, 608), (2553, 608), (2992, 608), (3229, 608), (3474, 608), (3743, 608), (4167, 608), (4473, 608), (200, 609), (297, 609)],
    [(423, 609), (1636, 609), (2298, 609), (2554, 609), (2993, 609), (3230, 609), (3475, 609), (3744, 609), (4168, 609), (4474, 609)],
    [(201, 610), (298, 610), (424, 610), (1637, 610), (2299, 610), (2555, 610), (2994, 610), (3231, 610), (3476, 610), (3745, 610)],
    [(4169, 610), (4475, 610), (202, 611), (299, 611), (425, 611), (1638, 611), (2300, 611), (2556, 611), (2995, 611), (3232, 611)],
    [(3477, 611), (3746, 611), (4170, 611), (4476, 611), (203, 612), (300, 612), (426, 612), (1639, 612), (2301, 612), (2557, 612)],
    [(2996, 612), (3233, 612), (3478, 612), (3747, 612), (4171, 612), (4477, 612), (204, 613), (301, 613), (427, 613), (1640, 613)],
    [(2302, 613), (2558, 613), (2997, 613), (3234, 613), (3479, 613), (3748, 613), (4172, 613), (4478, 613), (205, 614), (302, 614)],
    [(428, 614), (1641, 614), (2303, 614), (2559, 614), (2998, 614), (3235, 614), (3360, 614), (3749, 614), (4173, 614), (4479, 614)],
    [(206, 615), (303, 615), (429, 615), (1642, 615), (2304, 615), (2560, 615), (2999, 615), (3236, 615), (3361, 615), (3750, 615)],
    [(4174, 615), (4480, 615), (207, 616), (304, 616), (430, 616), (1643, 616), (2305, 616), (2561, 616), (2880, 616), (3237, 616)],
    [(3362, 616), (3751, 616), (4175, 616), (4481, 616), (208, 617), (305, 617), (431, 617), (1644, 617), (2306, 617), (2562, 617)],
    [(2881, 617), (3238, 617), (3363, 617), (3752, 617), (4176, 617), (4482, 617), (209, 618), (306, 618), (432, 618), (1645, 618)],
    [(2307, 618), (2563, 618), (2882, 618), (3239, 618), (3364, 618), (3753, 618), (4177, 618), (4483, 618), (210, 619), (307, 619)],
    [(433, 619), (1646, 619), (2308, 619), (2564, 619), (2883, 619), (3120, 619), (3365, 619), (3754, 619), (4178, 619), (4484, 619)],
    [(211, 620), (308, 620), (434, 620), (1647, 620), (2309, 620), (2565, 620), (2884, 620), (3121, 620), (3366, 620), (3755, 620)],
    [(4179, 620), (4485, 620), (212, 621), (309, 621), (435, 621), (1648, 621), (2310, 621), (2566, 621), (2885, 621), (3122, 621)],
    [(3367, 621), (3756, 621), (4180, 621), (4486, 621), (213, 622), (310, 622), (436, 622), (1649, 622), (2311, 622), (2567, 622)],
    [(2886, 622), (3123, 622), (3368, 622), (3757, 622), (4181, 622), (4487, 622), (214, 623), (311, 623), (437, 623), (1650, 623)],
    [(2312, 623), (2568, 623), (2887, 623), (3124, 623), (3369, 623), (3758, 623), (4182, 623), (4488, 623), (215, 624), (312, 624)],
    [(438, 624), (1651, 624), (2313, 624), (2569, 624), (2888, 624), (3125, 624), (3370, 624), (3759, 624), (4183, 624), (4489, 624)],
    [(216, 625), (313, 625), (439, 625), (1652, 625), (2314, 625), (2570, 625), (2889, 625), (3126, 625), (3371, 625), (3760, 625)],
    [(4184, 625), (4490, 625), (217, 626), (314, 626), (440, 626), (1653, 626), (2315, 626), (2571, 626), (2890, 626), (3127, 626)],
    [(3372, 626), (3761, 626), (4185, 626), (4491, 626), (218, 627), (315, 627), (441, 627), (1654, 627), (2316, 627), (2572, 627)],
    [(2891, 627), (3128, 627), (3373, 627), (3762, 627), (4186, 627), (4492, 627), (219, 628), (316, 628), (442, 628), (1655, 628)],
    [(2317, 628), (2573, 628), (2892, 628), (3129, 628), (3374, 628), (3763, 628), (4187, 628), (4493, 628), (220, 629), (317, 629)],
    [(443, 629), (1656, 629), (2318, 629), (2574, 629), (2893, 629), (3130, 629), (3375, 629), (3764, 629), (4188, 629), (4494, 629)],
    [(221, 630), (318, 630), (444, 630), (1657, 630), (2319, 630), (2575, 630), (2894, 630), (3131, 630), (3376, 630), (3765, 630)],
    [(4189, 630), (4495, 630), (222, 631), (319, 631), (445, 631), (1658, 631), (2320, 631), (2576, 631), (2895, 631), (3132, 631)],
    [(3377, 631), (3766, 631), (4190, 631), (4496, 631), (223, 632), (320, 632), (446, 632), (1659, 632), (2321, 632), (2577, 632)],
    [(2896, 632), (3133, 632), (3378, 632), (3767, 632), (4191, 632), (4497, 632), (224, 633), (321, 633), (447, 633), (1660, 633)],
    [(2322, 633), (2578, 633), (2897, 633), (3134, 633), (3379, 633), (3768, 633), (4192, 633), (4498, 633), (225, 634), (322, 634)],
    [(448, 634), (1661, 634), (2323, 634), (2579, 634), (2898, 634), (3135, 634), (3380, 634), (3769, 634), (4193, 634), (4499, 634)],
    [(226, 635), (323, 635), (449, 635), (1662, 635), (2324, 635), (2580, 635), (2899, 635), (3136, 635), (3381, 635), (3770, 635)],
    [(4194, 635), (4500, 635), (227, 636), (324, 636), (450, 636), (1663, 636), (2325, 636), (2581, 636), (2900, 636), (3137, 636)],
    [(3382, 636), (3771, 636), (4195, 636), (4501, 636), (228, 637), (325, 637), (451, 637), (1664, 637), (2326, 637), (2582, 637)],
    [(2901, 637), (3138, 637), (3383, 637), (3772, 637), (4196, 637), (4502, 637), (229, 638), (326, 638), (452, 638), (1665, 638)],
    [(2327, 638), (2583, 638), (2902, 638), (3139, 638), (3384, 638), (3773, 638), (4197, 638), (4503, 638), (230, 639), (327, 639)],
    [(453, 639), (1666, 639), (2328, 639), (2584, 639), (2903, 639), (3140, 639), (3385, 639), (3774, 639), (4198, 639), (4504, 639)],
    [(231, 640), (328, 640), (454, 640), (1667, 640), (2329, 640), (2585, 640), (2904, 640), (3141, 640), (3386, 640), (3775, 640)],
    [(4199, 640), (4505, 640), (232, 641), (329, 641), (455, 641), (1668, 641), (2330, 641), (2586, 641), (2905, 641), (3142, 641)],
    [(3387, 641), (3776, 641), (4080, 641), (4506, 641), (233, 642), (330, 642), (456, 642), (1669, 642), (2331, 642), (2587, 642)],
    [(2906, 642), (3143, 642), (3388, 642), (3777, 642), (4081, 642), (4507, 642), (234, 643), (331, 643), (457, 643), (1670, 643)],
    [(2332, 643), (2588, 643), (2907, 643), (3144, 643), (3389, 643), (3778, 643), (4082, 643), (4508, 643), (235, 644), (332, 644)],
    [(458, 644), (1671, 644), (2333, 644), (2589, 644), (2908, 644), (3145, 644), (3390, 644), (3779, 644), (4083, 644), (4509, 644)],
    [(236, 645), (333, 645), (459, 645), (1672, 645), (2334, 645), (2590, 645), (2909, 645), (3146, 645), (3391, 645), (3780, 645)],
    [(4084, 645), (4510, 645), (237, 646), (334, 646), (460, 646), (1673, 646), (2335, 646), (2591, 646), (2910, 646), (3147, 646)],
    [(3392, 646), (3781, 646), (4085, 646), (4511, 646), (238, 647), (335, 647), (461, 647), (1674, 647), (2336, 647), (2592, 647)],
    [(2911, 647), (3148, 647), (3393, 647), (3782, 647), (4086, 647), (4512, 647), (239, 648), (336, 648), (462, 648), (1675, 648)],
    [(2337, 648), (2593, 648), (2912, 648), (3149, 648), (3394, 648), (3783, 648), (4087, 648), (4513, 648), (120, 649), (337, 649)],
    [(463, 649), (1676, 649), (2338, 649), (2594, 649), (2913, 649), (3150, 649), (3395, 649), (3784, 649), (4088, 649), (4514, 649)],
    [(121, 650), (338, 650), (464, 650), (1677, 650), (2339, 650), (2595, 650), (2914, 650), (3151, 650), (3396, 650), (3785, 650)],
    [(4089, 650), (4515, 650), (122, 651), (339, 651), (465, 651), (1678, 651), (2340, 651), (2596, 651), (2915, 651), (3152, 651)],
    [(3397, 651), (3786, 651), (4090, 651), (4516, 651), (123, 652), (340, 652), (466, 652), (1679, 652), (2341, 652), (2597, 652)],
    [(2916, 652), (3153, 652), (3398, 652), (3787, 652), (4091, 652), (4517, 652), (124, 653), (341, 653), (467, 653), (1560, 653)],
    [(2342, 653), (2598, 653), (2917, 653), (3154, 653), (3399, 653), (3788, 653), (4092, 653), (4518, 653), (125, 654), (342, 654)],
    [(468, 654), (1561, 654), (2343, 654), (2599, 654), (2918, 654), (3155, 654), (3400, 654), (3789, 654), (4093, 654), (4519, 654)],
    [(126, 655), (343, 655), (469, 655), (1562, 655), (2344, 655), (2600, 655), (2919, 655), (3156, 655), (3401, 655), (3790, 655)],
    [(4094, 655), (4520, 655), (127, 656), (344, 656), (470, 656), (1563, 656), (2345, 656), (2601, 656), (2920, 656), (3157, 656)],
    [(3402, 656), (3791, 656), (4095, 656), (4521, 656), (128, 657), (345, 657), (471, 657), (1564, 657), (2346, 657), (2602, 657)],
    [(2921, 657), (3158, 657), (3403, 657), (3792, 657), (4096, 657), (4522, 657), (129, 658), (346, 658), (472, 658), (1565, 658)],
    [(2347, 658), (2603, 658), (2922, 658), (3159, 658), (3404, 658), (3793, 658), (4097, 658), (4523, 658), (130, 659), (347, 659)],
    [(473, 659), (1566, 659), (2348, 659), (2604, 659), (2923, 659), (3160, 659), (3405, 659), (3794, 659), (4098, 659), (4524, 659)],
    [(131, 660), (348, 660), (474, 660), (1567, 660), (2349, 660), (2605, 660), (2924, 660), (3161, 660), (3406, 660), (3795, 660)],
    [(4099, 660), (4525, 660), (132, 661), (349, 661), (475, 661), (1568, 661), (2350, 661), (2606, 661), (2925, 661), (3162, 661)],
    [(3407, 661), (3796, 661), (4100, 661), (4526, 661), (133, 662), (350, 662), (476, 662), (1569, 662), (2351, 662), (2607, 662)],
    [(2926, 662), (3163, 662), (3408, 662), (3797, 662), (4101, 662), (4527, 662), (134, 663), (351, 663), (477, 663), (1570, 663)],
    [(2352, 663), (2608, 663), (2927, 663), (3164, 663), (3409, 663), (3798, 663), (4102, 663), (4528, 663), (135, 664), (352, 664)],
    [(478, 664), (1571, 664), (2353, 664), (2609, 664), (2928, 664), (3165, 664), (3410, 664), (3799, 664), (4103, 664), (4529, 664)],
    [(136, 665), (353, 665), (479, 665), (1572, 665), (2354, 665), (2610, 665), (2929, 665), (3166, 665), (3411, 665), (3800, 665)],
    [(4104, 665), (4530, 665), (137, 666), (354, 666), (360, 666), (1573, 666), (2355, 666), (2611, 666), (2930, 666), (3167, 666)],
    [(3412, 666), (3801, 666), (4105, 666), (4531, 666), (138, 667), (355, 667), (361, 667), (1574, 667), (2356, 667), (2612, 667)],
    [(2931, 667), (3168, 667), (3413, 667), (3802, 667), (4106, 667), (4532, 667), (139, 668), (356, 668), (362, 668), (1575, 668)],
    [(2357, 668), (2613, 668), (2932, 668), (3169, 668), (3414, 668), (3803, 668), (4107, 668), (4533, 668), (140, 669), (357, 669)],
    [(363, 669), (1576, 669), (2358, 669), (2614, 669), (2933, 669), (3170, 669), (3415, 669), (3804, 669), (4108, 669), (4534, 669)],
    [(141, 670), (358, 670), (364, 670), (1577, 670), (2359, 670), (2615, 670), (2934, 670), (3171, 670), (3416, 670), (3805, 670)],
    [(4109, 670), (4535, 670), (142, 671), (359, 671), (365, 671), (1578, 671), (2360, 671), (2616, 671), (2935, 671), (3172, 671)],
    [(3417, 671), (3806, 671), (4110, 671), (4536, 671), (143, 672), (240, 672), (366, 672), (1579, 672), (2361, 672), (2617, 672)],
    [(2936, 672), (3173, 672), (3418, 672), (3807, 672), (4111, 672), (4537, 672), (144, 673), (241, 673), (367, 673), (1580, 673)],
    [(2362, 673), (2618, 673), (2937, 673), (3174, 673), (3419, 673), (3808, 673), (4112, 673), (4538, 673), (145, 674), (242, 674)],
    [(368, 674), (1581, 674), (2363, 674), (2619, 674), (2938, 674), (3175, 674), (3420, 674), (3809, 674), (4113, 674), (4539, 674)],
    [(146, 675), (243, 675), (369, 675), (1582, 675), (2364, 675), (2620, 675), (2939, 675), (3176, 675), (3421, 675), (3810, 675)],
    [(4114, 675), (4540, 675), (147, 676), (244, 676), (370, 676), (1583, 676), (2365, 676), (2621, 676), (2940, 676), (3177, 676)],
    [(3422, 676), (3811, 676), (4115, 676), (4541, 676), (148, 677), (245, 677), (371, 677), (1584, 677), (2366, 677), (2622, 677)],
    [(2941, 677), (3178, 677), (3423, 677), (3812, 677), (4116, 677), (4542, 677), (149, 678), (246, 678), (372, 678), (1585, 678)],
    [(2367, 678), (2623, 678), (2942, 678), (3179, 678), (3424, 678), (3813, 678), (4117, 678), (4543, 678), (150, 679), (247, 679)],
    [(373, 679), (1586, 679), (2368, 679), (2624, 679), (2943, 679), (3180, 679), (3425, 679), (3814, 679), (4118, 679), (4544, 679)],
    [(151, 680), (248, 680), (374, 680), (1587, 680), (2369, 680), (2625, 680), (2944, 680), (3181, 680), (3426, 680), (3815, 680)],
    [(4119, 680), (4545, 680), (152, 681), (249, 681), (375, 681), (1588, 681), (2370, 681), (2626, 681), (2945, 681), (3182, 681)],
    [(3427, 681), (3816, 681), (4120, 681), (4546, 681), (153, 682), (250, 682), (376, 682), (1589, 682), (2371, 682), (2627, 682)],
    [(2946, 682), (3183, 682), (3428, 682), (3817, 682), (4121, 682), (4547, 682), (154, 683), (251, 683), (377, 683), (1590, 683)],
    [(2372, 683), (2628, 683), (2947, 683), (3184, 683), (3429, 683), (3818, 683), (4122, 683), (4548, 683), (155, 684), (252, 684)],
    [(378, 684), (1591, 684), (2373, 684), (2629, 684), (2948, 684), (3185, 684), (3430, 684), (3819, 684), (4123, 684), (4549, 684)],
    [(156, 685), (253, 685), (379, 685), (1592, 685), (2374, 685), (2630, 685), (2949, 685), (3186, 685), (3431, 685), (3820, 685)],
    [(4124, 685), (4550, 685), (157, 686), (254, 686), (380, 686), (1593, 686), (2375, 686), (2631, 686), (2950, 686), (3187, 686)],
    [(3432, 686), (3821, 686), (4125, 686), (4551, 686), (158, 687), (255, 687), (381, 687), (1594, 687), (2376, 687), (2632, 687)],
    [(2951, 687), (3188, 687), (3433, 687), (3822, 687), (4126, 687), (4552, 687), (159, 688), (256, 688), (382, 688), (1595, 688)],
    [(2377, 688), (2633, 688), (2952, 688), (3189, 688), (3434, 688), (3823, 688), (4127, 688), (4553, 688), (160, 689), (257, 689)],
    [(383, 689), (1596, 689), (2378, 689), (2634, 689), (2953, 689), (3190, 689), (3435, 689), (3824, 689), (4128, 689), (4554, 689)],
    [(161, 690), (258, 690), (384, 690), (1597, 690), (2379, 690), (2635, 690), (2954, 690), (3191, 690), (3436, 690), (3825, 690)],
    [(4129, 690), (4555, 690), (162, 691), (259, 691), (385, 691), (1598, 691), (2380, 691), (2636, 691), (2955, 691), (3192, 691)],
    [(3437, 691), (3826, 691), (4130, 691), (4556, 691), (163, 692), (260, 692), (386, 692), (1599, 692), (2381, 692), (2637, 692)],
    [(2956, 692), (3193, 692), (3438, 692), (3827, 692), (4131, 692), (4557, 692), (164, 693), (261, 693), (387, 693), (1600, 693)],
    [(2382, 693), (2638, 693), (2957, 693), (3194, 693), (3439, 693), (3828, 693), (4132, 693), (4558, 693), (165, 694), (262, 694)],
    [(388, 694), (1601, 694), (2383, 694), (2639, 694), (2958, 694), (3195, 694), (3440, 694), (3829, 694), (4133, 694), (4559, 694)],
    [(166, 695), (263, 695), (389, 695), (1602, 695), (2384, 695), (2520, 695), (2959, 695), (3196, 695), (3441, 695), (3830, 695)],
    [(4134, 695), (4440, 695), (167, 696), (264, 696), (390, 696), (1603, 696), (2385, 696), (2521, 696), (2960, 696), (3197, 696)],
    [(3442, 696), (3831, 696), (4135, 696), (4441, 696), (168, 697), (265, 697), (391, 697), (1604, 697), (2386, 697), (2522, 697)],
    [(2961, 697), (3198, 697), (3443, 697), (3832, 697), (4136, 697), (4442, 697), (169, 698), (266, 698), (392, 698), (1605, 698)],
    [(2387, 698), (2523, 698), (2962, 698), (3199, 698), (3444, 698), (3833, 698), (4137, 698), (4443, 698), (170, 699), (267, 699)],
    [(393, 699), (1606, 699), (2388, 699), (2524, 699), (2963, 699), (3200, 699), (3445, 699), (3834, 699), (4138, 699), (4444, 699)],
    [(171, 700), (268, 700), (394, 700), (1607, 700), (2389, 700), (2525, 700), (2964, 700), (3201, 700), (3446, 700), (3835, 700)],
    [(4139, 700), (4445, 700), (172, 701), (269, 701), (395, 701), (1608, 701), (2390, 701), (2526, 701), (2965, 701), (3202, 701)],
    [(3447, 701), (3836, 701), (4140, 701), (4446, 701), (173, 702), (270, 702), (396, 702), (1609, 702), (2391, 702), (2527, 702)],
    [(2966, 702), (3203, 702), (3448, 702), (3837, 702), (4141, 702), (4447, 702), (174, 703), (271, 703), (397, 703), (1610, 703)],
    [(2392, 703), (2528, 703), (2967, 703), (3204, 703), (3449, 703), (3838, 703), (4142, 703), (4448, 703), (175, 704), (272, 704)],
    [(398, 704), (1611, 704), (2393, 704), (2529, 704), (2968, 704), (3205, 704), (3450, 704), (3839, 704), (4143, 704), (4449, 704)],
    [(176, 705), (273, 705), (399, 705), (1612, 705), (2394, 705), (2530, 705), (2969, 705), (3206, 705), (3451, 705), (3720, 705)]]"

definition SF2_C_ind_5 :: "(nat \<times> nat) list" where
  "SF2_C_ind_5 = concat [
    [(4144, 705), (4450, 705), (177, 706), (274, 706), (400, 706), (1613, 706), (2395, 706), (2531, 706), (2970, 706), (3207, 706)],
    [(3452, 706), (3721, 706), (4145, 706), (4451, 706), (178, 707), (275, 707), (401, 707), (1614, 707), (2396, 707), (2532, 707)],
    [(2971, 707), (3208, 707), (3453, 707), (3722, 707), (4146, 707), (4452, 707), (179, 708), (276, 708), (402, 708), (1615, 708)],
    [(2397, 708), (2533, 708), (2972, 708), (3209, 708), (3454, 708), (3723, 708), (4147, 708), (4453, 708), (180, 709), (277, 709)],
    [(403, 709), (1616, 709), (2398, 709), (2534, 709), (2973, 709), (3210, 709), (3455, 709), (3724, 709), (4148, 709), (4454, 709)],
    [(181, 710), (278, 710), (404, 710), (1617, 710), (2399, 710), (2535, 710), (2974, 710), (3211, 710), (3456, 710), (3725, 710)],
    [(4149, 710), (4455, 710), (182, 711), (279, 711), (405, 711), (1618, 711), (2280, 711), (2536, 711), (2975, 711), (3212, 711)],
    [(3457, 711), (3726, 711), (4150, 711), (4456, 711), (183, 712), (280, 712), (406, 712), (1619, 712), (2281, 712), (2537, 712)],
    [(2976, 712), (3213, 712), (3458, 712), (3727, 712), (4151, 712), (4457, 712), (184, 713), (281, 713), (407, 713), (1620, 713)],
    [(2282, 713), (2538, 713), (2977, 713), (3214, 713), (3459, 713), (3728, 713), (4152, 713), (4458, 713), (185, 714), (282, 714)],
    [(408, 714), (1621, 714), (2283, 714), (2539, 714), (2978, 714), (3215, 714), (3460, 714), (3729, 714), (4153, 714), (4459, 714)],
    [(186, 715), (283, 715), (409, 715), (1622, 715), (2284, 715), (2540, 715), (2979, 715), (3216, 715), (3461, 715), (3730, 715)],
    [(4154, 715), (4460, 715), (187, 716), (284, 716), (410, 716), (1623, 716), (2285, 716), (2541, 716), (2980, 716), (3217, 716)],
    [(3462, 716), (3731, 716), (4155, 716), (4461, 716), (188, 717), (285, 717), (411, 717), (1624, 717), (2286, 717), (2542, 717)],
    [(2981, 717), (3218, 717), (3463, 717), (3732, 717), (4156, 717), (4462, 717), (189, 718), (286, 718), (412, 718), (1625, 718)],
    [(2287, 718), (2543, 718), (2982, 718), (3219, 718), (3464, 718), (3733, 718), (4157, 718), (4463, 718), (190, 719), (287, 719)],
    [(413, 719), (1626, 719), (2288, 719), (2544, 719), (2983, 719), (3220, 719), (3465, 719), (3734, 719), (4158, 719), (4464, 719)],
    [(752, 720), (1208, 720), (1709, 720), (2819, 720), (753, 721), (1209, 721), (1710, 721), (2820, 721), (754, 722), (1210, 722)],
    [(1711, 722), (2821, 722), (755, 723), (1211, 723), (1712, 723), (2822, 723), (756, 724), (1212, 724), (1713, 724), (2823, 724)],
    [(757, 725), (1213, 725), (1714, 725), (2824, 725), (758, 726), (1214, 726), (1715, 726), (2825, 726), (759, 727), (1215, 727)],
    [(1716, 727), (2826, 727), (760, 728), (1216, 728), (1717, 728), (2827, 728), (761, 729), (1217, 729), (1718, 729), (2828, 729)],
    [(762, 730), (1218, 730), (1719, 730), (2829, 730), (763, 731), (1219, 731), (1720, 731), (2830, 731), (764, 732), (1220, 732)],
    [(1721, 732), (2831, 732), (765, 733), (1221, 733), (1722, 733), (2832, 733), (766, 734), (1222, 734), (1723, 734), (2833, 734)],
    [(767, 735), (1223, 735), (1724, 735), (2834, 735), (768, 736), (1224, 736), (1725, 736), (2835, 736), (769, 737), (1225, 737)],
    [(1726, 737), (2836, 737), (770, 738), (1226, 738), (1727, 738), (2837, 738), (771, 739), (1227, 739), (1728, 739), (2838, 739)],
    [(772, 740), (1228, 740), (1729, 740), (2839, 740), (773, 741), (1229, 741), (1730, 741), (2840, 741), (774, 742), (1230, 742)],
    [(1731, 742), (2841, 742), (775, 743), (1231, 743), (1732, 743), (2842, 743), (776, 744), (1232, 744), (1733, 744), (2843, 744)],
    [(777, 745), (1233, 745), (1734, 745), (2844, 745), (778, 746), (1234, 746), (1735, 746), (2845, 746), (779, 747), (1235, 747)],
    [(1736, 747), (2846, 747), (780, 748), (1236, 748), (1737, 748), (2847, 748), (781, 749), (1237, 749), (1738, 749), (2848, 749)],
    [(782, 750), (1238, 750), (1739, 750), (2849, 750), (783, 751), (1239, 751), (1740, 751), (2850, 751), (784, 752), (1240, 752)],
    [(1741, 752), (2851, 752), (785, 753), (1241, 753), (1742, 753), (2852, 753), (786, 754), (1242, 754), (1743, 754), (2853, 754)],
    [(787, 755), (1243, 755), (1744, 755), (2854, 755), (788, 756), (1244, 756), (1745, 756), (2855, 756), (789, 757), (1245, 757)],
    [(1746, 757), (2856, 757), (790, 758), (1246, 758), (1747, 758), (2857, 758), (791, 759), (1247, 759), (1748, 759), (2858, 759)],
    [(792, 760), (1248, 760), (1749, 760), (2859, 760), (793, 761), (1249, 761), (1750, 761), (2860, 761), (794, 762), (1250, 762)],
    [(1751, 762), (2861, 762), (795, 763), (1251, 763), (1752, 763), (2862, 763), (796, 764), (1252, 764), (1753, 764), (2863, 764)],
    [(797, 765), (1253, 765), (1754, 765), (2864, 765), (798, 766), (1254, 766), (1755, 766), (2865, 766), (799, 767), (1255, 767)],
    [(1756, 767), (2866, 767), (800, 768), (1256, 768), (1757, 768), (2867, 768), (801, 769), (1257, 769), (1758, 769), (2868, 769)],
    [(802, 770), (1258, 770), (1759, 770), (2869, 770), (803, 771), (1259, 771), (1760, 771), (2870, 771), (804, 772), (1260, 772)],
    [(1761, 772), (2871, 772), (805, 773), (1261, 773), (1762, 773), (2872, 773), (806, 774), (1262, 774), (1763, 774), (2873, 774)],
    [(807, 775), (1263, 775), (1764, 775), (2874, 775), (808, 776), (1264, 776), (1765, 776), (2875, 776), (809, 777), (1265, 777)],
    [(1766, 777), (2876, 777), (810, 778), (1266, 778), (1767, 778), (2877, 778), (811, 779), (1267, 779), (1768, 779), (2878, 779)],
    [(812, 780), (1268, 780), (1769, 780), (2879, 780), (813, 781), (1269, 781), (1770, 781), (2760, 781), (814, 782), (1270, 782)],
    [(1771, 782), (2761, 782), (815, 783), (1271, 783), (1772, 783), (2762, 783), (816, 784), (1272, 784), (1773, 784), (2763, 784)],
    [(817, 785), (1273, 785), (1774, 785), (2764, 785), (818, 786), (1274, 786), (1775, 786), (2765, 786), (819, 787), (1275, 787)],
    [(1776, 787), (2766, 787), (820, 788), (1276, 788), (1777, 788), (2767, 788), (821, 789), (1277, 789), (1778, 789), (2768, 789)],
    [(822, 790), (1278, 790), (1779, 790), (2769, 790), (823, 791), (1279, 791), (1780, 791), (2770, 791), (824, 792), (1280, 792)],
    [(1781, 792), (2771, 792), (825, 793), (1281, 793), (1782, 793), (2772, 793), (826, 794), (1282, 794), (1783, 794), (2773, 794)],
    [(827, 795), (1283, 795), (1784, 795), (2774, 795), (828, 796), (1284, 796), (1785, 796), (2775, 796), (829, 797), (1285, 797)],
    [(1786, 797), (2776, 797), (830, 798), (1286, 798), (1787, 798), (2777, 798), (831, 799), (1287, 799), (1788, 799), (2778, 799)],
    [(832, 800), (1288, 800), (1789, 800), (2779, 800), (833, 801), (1289, 801), (1790, 801), (2780, 801), (834, 802), (1290, 802)],
    [(1791, 802), (2781, 802), (835, 803), (1291, 803), (1792, 803), (2782, 803), (836, 804), (1292, 804), (1793, 804), (2783, 804)],
    [(837, 805), (1293, 805), (1794, 805), (2784, 805), (838, 806), (1294, 806), (1795, 806), (2785, 806), (839, 807), (1295, 807)],
    [(1796, 807), (2786, 807), (720, 808), (1296, 808), (1797, 808), (2787, 808), (721, 809), (1297, 809), (1798, 809), (2788, 809)],
    [(722, 810), (1298, 810), (1799, 810), (2789, 810), (723, 811), (1299, 811), (1680, 811), (2790, 811), (724, 812), (1300, 812)],
    [(1681, 812), (2791, 812), (725, 813), (1301, 813), (1682, 813), (2792, 813), (726, 814), (1302, 814), (1683, 814), (2793, 814)],
    [(727, 815), (1303, 815), (1684, 815), (2794, 815), (728, 816), (1304, 816), (1685, 816), (2795, 816), (729, 817), (1305, 817)],
    [(1686, 817), (2796, 817), (730, 818), (1306, 818), (1687, 818), (2797, 818), (731, 819), (1307, 819), (1688, 819), (2798, 819)],
    [(732, 820), (1308, 820), (1689, 820), (2799, 820), (733, 821), (1309, 821), (1690, 821), (2800, 821), (734, 822), (1310, 822)],
    [(1691, 822), (2801, 822), (735, 823), (1311, 823), (1692, 823), (2802, 823), (736, 824), (1312, 824), (1693, 824), (2803, 824)],
    [(737, 825), (1313, 825), (1694, 825), (2804, 825), (738, 826), (1314, 826), (1695, 826), (2805, 826), (739, 827), (1315, 827)],
    [(1696, 827), (2806, 827), (740, 828), (1316, 828), (1697, 828), (2807, 828), (741, 829), (1317, 829), (1698, 829), (2808, 829)],
    [(742, 830), (1318, 830), (1699, 830), (2809, 830), (743, 831), (1319, 831), (1700, 831), (2810, 831), (744, 832), (1200, 832)],
    [(1701, 832), (2811, 832), (745, 833), (1201, 833), (1702, 833), (2812, 833), (746, 834), (1202, 834), (1703, 834), (2813, 834)],
    [(747, 835), (1203, 835), (1704, 835), (2814, 835), (748, 836), (1204, 836), (1705, 836), (2815, 836), (749, 837), (1205, 837)],
    [(1706, 837), (2816, 837), (750, 838), (1206, 838), (1707, 838), (2817, 838), (751, 839), (1207, 839), (1708, 839), (2818, 839)],
    [(152, 840), (308, 840), (393, 840), (728, 840), (866, 840), (1710, 840), (2694, 840), (3139, 840), (3598, 840), (3854, 840)],
    [(4275, 840), (153, 841), (309, 841), (394, 841), (729, 841), (867, 841), (1711, 841), (2695, 841), (3140, 841), (3599, 841)],
    [(3855, 841), (4276, 841), (154, 842), (310, 842), (395, 842), (730, 842), (868, 842), (1712, 842), (2696, 842), (3141, 842)],
    [(3480, 842), (3856, 842), (4277, 842), (155, 843), (311, 843), (396, 843), (731, 843), (869, 843), (1713, 843), (2697, 843)],
    [(3142, 843), (3481, 843), (3857, 843), (4278, 843), (156, 844), (312, 844), (397, 844), (732, 844), (870, 844), (1714, 844)],
    [(2698, 844), (3143, 844), (3482, 844), (3858, 844), (4279, 844), (157, 845), (313, 845), (398, 845), (733, 845), (871, 845)],
    [(1715, 845), (2699, 845), (3144, 845), (3483, 845), (3859, 845), (4280, 845), (158, 846), (314, 846), (399, 846), (734, 846)],
    [(872, 846), (1716, 846), (2700, 846), (3145, 846), (3484, 846), (3860, 846), (4281, 846), (159, 847), (315, 847), (400, 847)],
    [(735, 847), (873, 847), (1717, 847), (2701, 847), (3146, 847), (3485, 847), (3861, 847), (4282, 847), (160, 848), (316, 848)],
    [(401, 848), (736, 848), (874, 848), (1718, 848), (2702, 848), (3147, 848), (3486, 848), (3862, 848), (4283, 848), (161, 849)],
    [(317, 849), (402, 849), (737, 849), (875, 849), (1719, 849), (2703, 849), (3148, 849), (3487, 849), (3863, 849), (4284, 849)],
    [(162, 850), (318, 850), (403, 850), (738, 850), (876, 850), (1720, 850), (2704, 850), (3149, 850), (3488, 850), (3864, 850)],
    [(4285, 850), (163, 851), (319, 851), (404, 851), (739, 851), (877, 851), (1721, 851), (2705, 851), (3150, 851), (3489, 851)],
    [(3865, 851), (4286, 851), (164, 852), (320, 852), (405, 852), (740, 852), (878, 852), (1722, 852), (2706, 852), (3151, 852)],
    [(3490, 852), (3866, 852), (4287, 852), (165, 853), (321, 853), (406, 853), (741, 853), (879, 853), (1723, 853), (2707, 853)],
    [(3152, 853), (3491, 853), (3867, 853), (4288, 853), (166, 854), (322, 854), (407, 854), (742, 854), (880, 854), (1724, 854)],
    [(2708, 854), (3153, 854), (3492, 854), (3868, 854), (4289, 854), (167, 855), (323, 855), (408, 855), (743, 855), (881, 855)],
    [(1725, 855), (2709, 855), (3154, 855), (3493, 855), (3869, 855), (4290, 855), (168, 856), (324, 856), (409, 856), (744, 856)],
    [(882, 856), (1726, 856), (2710, 856), (3155, 856), (3494, 856), (3870, 856), (4291, 856), (169, 857), (325, 857), (410, 857)],
    [(745, 857), (883, 857), (1727, 857), (2711, 857), (3156, 857), (3495, 857), (3871, 857), (4292, 857), (170, 858), (326, 858)],
    [(411, 858), (746, 858), (884, 858), (1728, 858), (2712, 858), (3157, 858), (3496, 858), (3872, 858), (4293, 858), (171, 859)],
    [(327, 859), (412, 859), (747, 859), (885, 859), (1729, 859), (2713, 859), (3158, 859), (3497, 859), (3873, 859), (4294, 859)],
    [(172, 860), (328, 860), (413, 860), (748, 860), (886, 860), (1730, 860), (2714, 860), (3159, 860), (3498, 860), (3874, 860)],
    [(4295, 860), (173, 861), (329, 861), (414, 861), (749, 861), (887, 861), (1731, 861), (2715, 861), (3160, 861), (3499, 861)],
    [(3875, 861), (4296, 861), (174, 862), (330, 862), (415, 862), (750, 862), (888, 862), (1732, 862), (2716, 862), (3161, 862)],
    [(3500, 862), (3876, 862), (4297, 862), (175, 863), (331, 863), (416, 863), (751, 863), (889, 863), (1733, 863), (2717, 863)],
    [(3162, 863), (3501, 863), (3877, 863), (4298, 863), (176, 864), (332, 864), (417, 864), (752, 864), (890, 864), (1734, 864)],
    [(2718, 864), (3163, 864), (3502, 864), (3878, 864), (4299, 864), (177, 865), (333, 865), (418, 865), (753, 865), (891, 865)],
    [(1735, 865), (2719, 865), (3164, 865), (3503, 865), (3879, 865), (4300, 865), (178, 866), (334, 866), (419, 866), (754, 866)],
    [(892, 866), (1736, 866), (2720, 866), (3165, 866), (3504, 866), (3880, 866), (4301, 866), (179, 867), (335, 867), (420, 867)],
    [(755, 867), (893, 867), (1737, 867), (2721, 867), (3166, 867), (3505, 867), (3881, 867), (4302, 867), (180, 868), (336, 868)],
    [(421, 868), (756, 868), (894, 868), (1738, 868), (2722, 868), (3167, 868), (3506, 868), (3882, 868), (4303, 868), (181, 869)],
    [(337, 869), (422, 869), (757, 869), (895, 869), (1739, 869), (2723, 869), (3168, 869), (3507, 869), (3883, 869), (4304, 869)],
    [(182, 870), (338, 870), (423, 870), (758, 870), (896, 870), (1740, 870), (2724, 870), (3169, 870), (3508, 870), (3884, 870)],
    [(4305, 870), (183, 871), (339, 871), (424, 871), (759, 871), (897, 871), (1741, 871), (2725, 871), (3170, 871), (3509, 871)],
    [(3885, 871), (4306, 871), (184, 872), (340, 872), (425, 872), (760, 872), (898, 872), (1742, 872), (2726, 872), (3171, 872)],
    [(3510, 872), (3886, 872), (4307, 872), (185, 873), (341, 873), (426, 873), (761, 873), (899, 873), (1743, 873), (2727, 873)],
    [(3172, 873), (3511, 873), (3887, 873), (4308, 873), (186, 874), (342, 874), (427, 874), (762, 874), (900, 874), (1744, 874)],
    [(2728, 874), (3173, 874), (3512, 874), (3888, 874), (4309, 874), (187, 875), (343, 875), (428, 875), (763, 875), (901, 875)],
    [(1745, 875), (2729, 875), (3174, 875), (3513, 875), (3889, 875), (4310, 875), (188, 876), (344, 876), (429, 876), (764, 876)],
    [(902, 876), (1746, 876), (2730, 876), (3175, 876), (3514, 876), (3890, 876), (4311, 876), (189, 877), (345, 877), (430, 877)],
    [(765, 877), (903, 877), (1747, 877), (2731, 877), (3176, 877), (3515, 877), (3891, 877), (4312, 877), (190, 878), (346, 878)],
    [(431, 878), (766, 878), (904, 878), (1748, 878), (2732, 878), (3177, 878), (3516, 878), (3892, 878), (4313, 878), (191, 879)],
    [(347, 879), (432, 879), (767, 879), (905, 879), (1749, 879), (2733, 879), (3178, 879), (3517, 879), (3893, 879), (4314, 879)],
    [(192, 880), (348, 880), (433, 880), (768, 880), (906, 880), (1750, 880), (2734, 880), (3179, 880), (3518, 880), (3894, 880)],
    [(4315, 880), (193, 881), (349, 881), (434, 881), (769, 881), (907, 881), (1751, 881), (2735, 881), (3180, 881), (3519, 881)],
    [(3895, 881), (4316, 881), (194, 882), (350, 882), (435, 882), (770, 882), (908, 882), (1752, 882), (2736, 882), (3181, 882)],
    [(3520, 882), (3896, 882), (4317, 882), (195, 883), (351, 883), (436, 883), (771, 883), (909, 883), (1753, 883), (2737, 883)],
    [(3182, 883), (3521, 883), (3897, 883), (4318, 883), (196, 884), (352, 884), (437, 884), (772, 884), (910, 884), (1754, 884)],
    [(2738, 884), (3183, 884), (3522, 884), (3898, 884), (4319, 884), (197, 885), (353, 885), (438, 885), (773, 885), (911, 885)],
    [(1755, 885), (2739, 885), (3184, 885), (3523, 885), (3899, 885), (4200, 885), (198, 886), (354, 886), (439, 886), (774, 886)],
    [(912, 886), (1756, 886), (2740, 886), (3185, 886), (3524, 886), (3900, 886), (4201, 886), (199, 887), (355, 887), (440, 887)],
    [(775, 887), (913, 887), (1757, 887), (2741, 887), (3186, 887), (3525, 887), (3901, 887), (4202, 887), (200, 888), (356, 888)],
    [(441, 888), (776, 888), (914, 888), (1758, 888), (2742, 888), (3187, 888), (3526, 888), (3902, 888), (4203, 888), (201, 889)],
    [(357, 889), (442, 889), (777, 889), (915, 889), (1759, 889), (2743, 889), (3188, 889), (3527, 889), (3903, 889), (4204, 889)],
    [(202, 890), (358, 890), (443, 890), (778, 890), (916, 890), (1760, 890), (2744, 890), (3189, 890), (3528, 890), (3904, 890)],
    [(4205, 890), (203, 891), (359, 891), (444, 891), (779, 891), (917, 891), (1761, 891), (2745, 891), (3190, 891), (3529, 891)],
    [(3905, 891), (4206, 891), (204, 892), (240, 892), (445, 892), (780, 892), (918, 892), (1762, 892), (2746, 892), (3191, 892)],
    [(3530, 892), (3906, 892), (4207, 892), (205, 893), (241, 893), (446, 893), (781, 893), (919, 893), (1763, 893), (2747, 893)],
    [(3192, 893), (3531, 893), (3907, 893), (4208, 893), (206, 894), (242, 894), (447, 894), (782, 894), (920, 894), (1764, 894)],
    [(2748, 894), (3193, 894), (3532, 894), (3908, 894), (4209, 894), (207, 895), (243, 895), (448, 895), (783, 895), (921, 895)],
    [(1765, 895), (2749, 895), (3194, 895), (3533, 895), (3909, 895), (4210, 895), (208, 896), (244, 896), (449, 896), (784, 896)],
    [(922, 896), (1766, 896), (2750, 896), (3195, 896), (3534, 896), (3910, 896), (4211, 896), (209, 897), (245, 897), (450, 897)],
    [(785, 897), (923, 897), (1767, 897), (2751, 897), (3196, 897), (3535, 897), (3911, 897), (4212, 897), (210, 898), (246, 898)],
    [(451, 898), (786, 898), (924, 898), (1768, 898), (2752, 898), (3197, 898), (3536, 898), (3912, 898), (4213, 898), (211, 899)],
    [(247, 899), (452, 899), (787, 899), (925, 899), (1769, 899), (2753, 899), (3198, 899), (3537, 899), (3913, 899), (4214, 899)],
    [(212, 900), (248, 900), (453, 900), (788, 900), (926, 900), (1770, 900), (2754, 900), (3199, 900), (3538, 900), (3914, 900)],
    [(4215, 900), (213, 901), (249, 901), (454, 901), (789, 901), (927, 901), (1771, 901), (2755, 901), (3200, 901), (3539, 901)],
    [(3915, 901), (4216, 901), (214, 902), (250, 902), (455, 902), (790, 902), (928, 902), (1772, 902), (2756, 902), (3201, 902)],
    [(3540, 902), (3916, 902), (4217, 902), (215, 903), (251, 903), (456, 903), (791, 903), (929, 903), (1773, 903), (2757, 903)],
    [(3202, 903), (3541, 903), (3917, 903), (4218, 903), (216, 904), (252, 904), (457, 904), (792, 904), (930, 904), (1774, 904)],
    [(2758, 904), (3203, 904), (3542, 904), (3918, 904), (4219, 904), (217, 905), (253, 905), (458, 905), (793, 905), (931, 905)],
    [(1775, 905), (2759, 905), (3204, 905), (3543, 905), (3919, 905), (4220, 905), (218, 906), (254, 906), (459, 906), (794, 906)],
    [(932, 906), (1776, 906), (2640, 906), (3205, 906), (3544, 906), (3920, 906), (4221, 906), (219, 907), (255, 907), (460, 907)],
    [(795, 907), (933, 907), (1777, 907), (2641, 907), (3206, 907), (3545, 907), (3921, 907), (4222, 907), (220, 908), (256, 908)],
    [(461, 908), (796, 908), (934, 908), (1778, 908), (2642, 908), (3207, 908), (3546, 908), (3922, 908), (4223, 908), (221, 909)],
    [(257, 909), (462, 909), (797, 909), (935, 909), (1779, 909), (2643, 909), (3208, 909), (3547, 909), (3923, 909), (4224, 909)],
    [(222, 910), (258, 910), (463, 910), (798, 910), (936, 910), (1780, 910), (2644, 910), (3209, 910), (3548, 910), (3924, 910)],
    [(4225, 910), (223, 911), (259, 911), (464, 911), (799, 911), (937, 911), (1781, 911), (2645, 911), (3210, 911), (3549, 911)],
    [(3925, 911), (4226, 911), (224, 912), (260, 912), (465, 912), (800, 912), (938, 912), (1782, 912), (2646, 912), (3211, 912)],
    [(3550, 912), (3926, 912), (4227, 912), (225, 913), (261, 913), (466, 913), (801, 913), (939, 913), (1783, 913), (2647, 913)],
    [(3212, 913), (3551, 913), (3927, 913), (4228, 913), (226, 914), (262, 914), (467, 914), (802, 914), (940, 914), (1784, 914)],
    [(2648, 914), (3213, 914), (3552, 914), (3928, 914), (4229, 914), (227, 915), (263, 915), (468, 915), (803, 915), (941, 915)]]"

definition SF2_C_ind_6 :: "(nat \<times> nat) list" where
  "SF2_C_ind_6 = concat [
    [(1785, 915), (2649, 915), (3214, 915), (3553, 915), (3929, 915), (4230, 915), (228, 916), (264, 916), (469, 916), (804, 916)],
    [(942, 916), (1786, 916), (2650, 916), (3215, 916), (3554, 916), (3930, 916), (4231, 916), (229, 917), (265, 917), (470, 917)],
    [(805, 917), (943, 917), (1787, 917), (2651, 917), (3216, 917), (3555, 917), (3931, 917), (4232, 917), (230, 918), (266, 918)],
    [(471, 918), (806, 918), (944, 918), (1788, 918), (2652, 918), (3217, 918), (3556, 918), (3932, 918), (4233, 918), (231, 919)],
    [(267, 919), (472, 919), (807, 919), (945, 919), (1789, 919), (2653, 919), (3218, 919), (3557, 919), (3933, 919), (4234, 919)],
    [(232, 920), (268, 920), (473, 920), (808, 920), (946, 920), (1790, 920), (2654, 920), (3219, 920), (3558, 920), (3934, 920)],
    [(4235, 920), (233, 921), (269, 921), (474, 921), (809, 921), (947, 921), (1791, 921), (2655, 921), (3220, 921), (3559, 921)],
    [(3935, 921), (4236, 921), (234, 922), (270, 922), (475, 922), (810, 922), (948, 922), (1792, 922), (2656, 922), (3221, 922)],
    [(3560, 922), (3936, 922), (4237, 922), (235, 923), (271, 923), (476, 923), (811, 923), (949, 923), (1793, 923), (2657, 923)],
    [(3222, 923), (3561, 923), (3937, 923), (4238, 923), (236, 924), (272, 924), (477, 924), (812, 924), (950, 924), (1794, 924)],
    [(2658, 924), (3223, 924), (3562, 924), (3938, 924), (4239, 924), (237, 925), (273, 925), (478, 925), (813, 925), (951, 925)],
    [(1795, 925), (2659, 925), (3224, 925), (3563, 925), (3939, 925), (4240, 925), (238, 926), (274, 926), (479, 926), (814, 926)],
    [(952, 926), (1796, 926), (2660, 926), (3225, 926), (3564, 926), (3940, 926), (4241, 926), (239, 927), (275, 927), (360, 927)],
    [(815, 927), (953, 927), (1797, 927), (2661, 927), (3226, 927), (3565, 927), (3941, 927), (4242, 927), (120, 928), (276, 928)],
    [(361, 928), (816, 928), (954, 928), (1798, 928), (2662, 928), (3227, 928), (3566, 928), (3942, 928), (4243, 928), (121, 929)],
    [(277, 929), (362, 929), (817, 929), (955, 929), (1799, 929), (2663, 929), (3228, 929), (3567, 929), (3943, 929), (4244, 929)],
    [(122, 930), (278, 930), (363, 930), (818, 930), (956, 930), (1680, 930), (2664, 930), (3229, 930), (3568, 930), (3944, 930)],
    [(4245, 930), (123, 931), (279, 931), (364, 931), (819, 931), (957, 931), (1681, 931), (2665, 931), (3230, 931), (3569, 931)],
    [(3945, 931), (4246, 931), (124, 932), (280, 932), (365, 932), (820, 932), (958, 932), (1682, 932), (2666, 932), (3231, 932)],
    [(3570, 932), (3946, 932), (4247, 932), (125, 933), (281, 933), (366, 933), (821, 933), (959, 933), (1683, 933), (2667, 933)],
    [(3232, 933), (3571, 933), (3947, 933), (4248, 933), (126, 934), (282, 934), (367, 934), (822, 934), (840, 934), (1684, 934)],
    [(2668, 934), (3233, 934), (3572, 934), (3948, 934), (4249, 934), (127, 935), (283, 935), (368, 935), (823, 935), (841, 935)],
    [(1685, 935), (2669, 935), (3234, 935), (3573, 935), (3949, 935), (4250, 935), (128, 936), (284, 936), (369, 936), (824, 936)],
    [(842, 936), (1686, 936), (2670, 936), (3235, 936), (3574, 936), (3950, 936), (4251, 936), (129, 937), (285, 937), (370, 937)],
    [(825, 937), (843, 937), (1687, 937), (2671, 937), (3236, 937), (3575, 937), (3951, 937), (4252, 937), (130, 938), (286, 938)],
    [(371, 938), (826, 938), (844, 938), (1688, 938), (2672, 938), (3237, 938), (3576, 938), (3952, 938), (4253, 938), (131, 939)],
    [(287, 939), (372, 939), (827, 939), (845, 939), (1689, 939), (2673, 939), (3238, 939), (3577, 939), (3953, 939), (4254, 939)],
    [(132, 940), (288, 940), (373, 940), (828, 940), (846, 940), (1690, 940), (2674, 940), (3239, 940), (3578, 940), (3954, 940)],
    [(4255, 940), (133, 941), (289, 941), (374, 941), (829, 941), (847, 941), (1691, 941), (2675, 941), (3120, 941), (3579, 941)],
    [(3955, 941), (4256, 941), (134, 942), (290, 942), (375, 942), (830, 942), (848, 942), (1692, 942), (2676, 942), (3121, 942)],
    [(3580, 942), (3956, 942), (4257, 942), (135, 943), (291, 943), (376, 943), (831, 943), (849, 943), (1693, 943), (2677, 943)],
    [(3122, 943), (3581, 943), (3957, 943), (4258, 943), (136, 944), (292, 944), (377, 944), (832, 944), (850, 944), (1694, 944)],
    [(2678, 944), (3123, 944), (3582, 944), (3958, 944), (4259, 944), (137, 945), (293, 945), (378, 945), (833, 945), (851, 945)],
    [(1695, 945), (2679, 945), (3124, 945), (3583, 945), (3959, 945), (4260, 945), (138, 946), (294, 946), (379, 946), (834, 946)],
    [(852, 946), (1696, 946), (2680, 946), (3125, 946), (3584, 946), (3840, 946), (4261, 946), (139, 947), (295, 947), (380, 947)],
    [(835, 947), (853, 947), (1697, 947), (2681, 947), (3126, 947), (3585, 947), (3841, 947), (4262, 947), (140, 948), (296, 948)],
    [(381, 948), (836, 948), (854, 948), (1698, 948), (2682, 948), (3127, 948), (3586, 948), (3842, 948), (4263, 948), (141, 949)],
    [(297, 949), (382, 949), (837, 949), (855, 949), (1699, 949), (2683, 949), (3128, 949), (3587, 949), (3843, 949), (4264, 949)],
    [(142, 950), (298, 950), (383, 950), (838, 950), (856, 950), (1700, 950), (2684, 950), (3129, 950), (3588, 950), (3844, 950)],
    [(4265, 950), (143, 951), (299, 951), (384, 951), (839, 951), (857, 951), (1701, 951), (2685, 951), (3130, 951), (3589, 951)],
    [(3845, 951), (4266, 951), (144, 952), (300, 952), (385, 952), (720, 952), (858, 952), (1702, 952), (2686, 952), (3131, 952)],
    [(3590, 952), (3846, 952), (4267, 952), (145, 953), (301, 953), (386, 953), (721, 953), (859, 953), (1703, 953), (2687, 953)],
    [(3132, 953), (3591, 953), (3847, 953), (4268, 953), (146, 954), (302, 954), (387, 954), (722, 954), (860, 954), (1704, 954)],
    [(2688, 954), (3133, 954), (3592, 954), (3848, 954), (4269, 954), (147, 955), (303, 955), (388, 955), (723, 955), (861, 955)],
    [(1705, 955), (2689, 955), (3134, 955), (3593, 955), (3849, 955), (4270, 955), (148, 956), (304, 956), (389, 956), (724, 956)],
    [(862, 956), (1706, 956), (2690, 956), (3135, 956), (3594, 956), (3850, 956), (4271, 956), (149, 957), (305, 957), (390, 957)],
    [(725, 957), (863, 957), (1707, 957), (2691, 957), (3136, 957), (3595, 957), (3851, 957), (4272, 957), (150, 958), (306, 958)],
    [(391, 958), (726, 958), (864, 958), (1708, 958), (2692, 958), (3137, 958), (3596, 958), (3852, 958), (4273, 958), (151, 959)],
    [(307, 959), (392, 959), (727, 959), (865, 959), (1709, 959), (2693, 959), (3138, 959), (3597, 959), (3853, 959), (4274, 959)],
    [(602, 960), (1153, 960), (2147, 960), (603, 961), (1154, 961), (2148, 961), (604, 962), (1155, 962), (2149, 962), (605, 963)],
    [(1156, 963), (2150, 963), (606, 964), (1157, 964), (2151, 964), (607, 965), (1158, 965), (2152, 965), (608, 966), (1159, 966)],
    [(2153, 966), (609, 967), (1160, 967), (2154, 967), (610, 968), (1161, 968), (2155, 968), (611, 969), (1162, 969), (2156, 969)],
    [(612, 970), (1163, 970), (2157, 970), (613, 971), (1164, 971), (2158, 971), (614, 972), (1165, 972), (2159, 972), (615, 973)],
    [(1166, 973), (2040, 973), (616, 974), (1167, 974), (2041, 974), (617, 975), (1168, 975), (2042, 975), (618, 976), (1169, 976)],
    [(2043, 976), (619, 977), (1170, 977), (2044, 977), (620, 978), (1171, 978), (2045, 978), (621, 979), (1172, 979), (2046, 979)],
    [(622, 980), (1173, 980), (2047, 980), (623, 981), (1174, 981), (2048, 981), (624, 982), (1175, 982), (2049, 982), (625, 983)],
    [(1176, 983), (2050, 983), (626, 984), (1177, 984), (2051, 984), (627, 985), (1178, 985), (2052, 985), (628, 986), (1179, 986)],
    [(2053, 986), (629, 987), (1180, 987), (2054, 987), (630, 988), (1181, 988), (2055, 988), (631, 989), (1182, 989), (2056, 989)],
    [(632, 990), (1183, 990), (2057, 990), (633, 991), (1184, 991), (2058, 991), (634, 992), (1185, 992), (2059, 992), (635, 993)],
    [(1186, 993), (2060, 993), (636, 994), (1187, 994), (2061, 994), (637, 995), (1188, 995), (2062, 995), (638, 996), (1189, 996)],
    [(2063, 996), (639, 997), (1190, 997), (2064, 997), (640, 998), (1191, 998), (2065, 998), (641, 999), (1192, 999), (2066, 999)],
    [(642, 1000), (1193, 1000), (2067, 1000), (643, 1001), (1194, 1001), (2068, 1001), (644, 1002), (1195, 1002), (2069, 1002), (645, 1003)],
    [(1196, 1003), (2070, 1003), (646, 1004), (1197, 1004), (2071, 1004), (647, 1005), (1198, 1005), (2072, 1005), (648, 1006), (1199, 1006)],
    [(2073, 1006), (649, 1007), (1080, 1007), (2074, 1007), (650, 1008), (1081, 1008), (2075, 1008), (651, 1009), (1082, 1009), (2076, 1009)],
    [(652, 1010), (1083, 1010), (2077, 1010), (653, 1011), (1084, 1011), (2078, 1011), (654, 1012), (1085, 1012), (2079, 1012), (655, 1013)],
    [(1086, 1013), (2080, 1013), (656, 1014), (1087, 1014), (2081, 1014), (657, 1015), (1088, 1015), (2082, 1015), (658, 1016), (1089, 1016)],
    [(2083, 1016), (659, 1017), (1090, 1017), (2084, 1017), (660, 1018), (1091, 1018), (2085, 1018), (661, 1019), (1092, 1019), (2086, 1019)],
    [(662, 1020), (1093, 1020), (2087, 1020), (663, 1021), (1094, 1021), (2088, 1021), (664, 1022), (1095, 1022), (2089, 1022), (665, 1023)],
    [(1096, 1023), (2090, 1023), (666, 1024), (1097, 1024), (2091, 1024), (667, 1025), (1098, 1025), (2092, 1025), (668, 1026), (1099, 1026)],
    [(2093, 1026), (669, 1027), (1100, 1027), (2094, 1027), (670, 1028), (1101, 1028), (2095, 1028), (671, 1029), (1102, 1029), (2096, 1029)],
    [(672, 1030), (1103, 1030), (2097, 1030), (673, 1031), (1104, 1031), (2098, 1031), (674, 1032), (1105, 1032), (2099, 1032), (675, 1033)],
    [(1106, 1033), (2100, 1033), (676, 1034), (1107, 1034), (2101, 1034), (677, 1035), (1108, 1035), (2102, 1035), (678, 1036), (1109, 1036)],
    [(2103, 1036), (679, 1037), (1110, 1037), (2104, 1037), (680, 1038), (1111, 1038), (2105, 1038), (681, 1039), (1112, 1039), (2106, 1039)],
    [(682, 1040), (1113, 1040), (2107, 1040), (683, 1041), (1114, 1041), (2108, 1041), (684, 1042), (1115, 1042), (2109, 1042), (685, 1043)],
    [(1116, 1043), (2110, 1043), (686, 1044), (1117, 1044), (2111, 1044), (687, 1045), (1118, 1045), (2112, 1045), (688, 1046), (1119, 1046)],
    [(2113, 1046), (689, 1047), (1120, 1047), (2114, 1047), (690, 1048), (1121, 1048), (2115, 1048), (691, 1049), (1122, 1049), (2116, 1049)],
    [(692, 1050), (1123, 1050), (2117, 1050), (693, 1051), (1124, 1051), (2118, 1051), (694, 1052), (1125, 1052), (2119, 1052), (695, 1053)],
    [(1126, 1053), (2120, 1053), (696, 1054), (1127, 1054), (2121, 1054), (697, 1055), (1128, 1055), (2122, 1055), (698, 1056), (1129, 1056)],
    [(2123, 1056), (699, 1057), (1130, 1057), (2124, 1057), (700, 1058), (1131, 1058), (2125, 1058), (701, 1059), (1132, 1059), (2126, 1059)],
    [(702, 1060), (1133, 1060), (2127, 1060), (703, 1061), (1134, 1061), (2128, 1061), (704, 1062), (1135, 1062), (2129, 1062), (705, 1063)],
    [(1136, 1063), (2130, 1063), (706, 1064), (1137, 1064), (2131, 1064), (707, 1065), (1138, 1065), (2132, 1065), (708, 1066), (1139, 1066)],
    [(2133, 1066), (709, 1067), (1140, 1067), (2134, 1067), (710, 1068), (1141, 1068), (2135, 1068), (711, 1069), (1142, 1069), (2136, 1069)],
    [(712, 1070), (1143, 1070), (2137, 1070), (713, 1071), (1144, 1071), (2138, 1071), (714, 1072), (1145, 1072), (2139, 1072), (715, 1073)],
    [(1146, 1073), (2140, 1073), (716, 1074), (1147, 1074), (2141, 1074), (717, 1075), (1148, 1075), (2142, 1075), (718, 1076), (1149, 1076)],
    [(2143, 1076), (719, 1077), (1150, 1077), (2144, 1077), (600, 1078), (1151, 1078), (2145, 1078), (601, 1079), (1152, 1079), (2146, 1079)],
    [(356, 1080), (912, 1080), (1537, 1080), (2510, 1080), (3223, 1080), (357, 1081), (913, 1081), (1538, 1081), (2511, 1081), (3224, 1081)],
    [(358, 1082), (914, 1082), (1539, 1082), (2512, 1082), (3225, 1082), (359, 1083), (915, 1083), (1540, 1083), (2513, 1083), (3226, 1083)],
    [(240, 1084), (916, 1084), (1541, 1084), (2514, 1084), (3227, 1084), (241, 1085), (917, 1085), (1542, 1085), (2515, 1085), (3228, 1085)],
    [(242, 1086), (918, 1086), (1543, 1086), (2516, 1086), (3229, 1086), (243, 1087), (919, 1087), (1544, 1087), (2517, 1087), (3230, 1087)],
    [(244, 1088), (920, 1088), (1545, 1088), (2518, 1088), (3231, 1088), (245, 1089), (921, 1089), (1546, 1089), (2519, 1089), (3232, 1089)],
    [(246, 1090), (922, 1090), (1547, 1090), (2400, 1090), (3233, 1090), (247, 1091), (923, 1091), (1548, 1091), (2401, 1091), (3234, 1091)],
    [(248, 1092), (924, 1092), (1549, 1092), (2402, 1092), (3235, 1092), (249, 1093), (925, 1093), (1550, 1093), (2403, 1093), (3236, 1093)],
    [(250, 1094), (926, 1094), (1551, 1094), (2404, 1094), (3237, 1094), (251, 1095), (927, 1095), (1552, 1095), (2405, 1095), (3238, 1095)],
    [(252, 1096), (928, 1096), (1553, 1096), (2406, 1096), (3239, 1096), (253, 1097), (929, 1097), (1554, 1097), (2407, 1097), (3120, 1097)],
    [(254, 1098), (930, 1098), (1555, 1098), (2408, 1098), (3121, 1098), (255, 1099), (931, 1099), (1556, 1099), (2409, 1099), (3122, 1099)],
    [(256, 1100), (932, 1100), (1557, 1100), (2410, 1100), (3123, 1100), (257, 1101), (933, 1101), (1558, 1101), (2411, 1101), (3124, 1101)],
    [(258, 1102), (934, 1102), (1559, 1102), (2412, 1102), (3125, 1102), (259, 1103), (935, 1103), (1440, 1103), (2413, 1103), (3126, 1103)],
    [(260, 1104), (936, 1104), (1441, 1104), (2414, 1104), (3127, 1104), (261, 1105), (937, 1105), (1442, 1105), (2415, 1105), (3128, 1105)],
    [(262, 1106), (938, 1106), (1443, 1106), (2416, 1106), (3129, 1106), (263, 1107), (939, 1107), (1444, 1107), (2417, 1107), (3130, 1107)],
    [(264, 1108), (940, 1108), (1445, 1108), (2418, 1108), (3131, 1108), (265, 1109), (941, 1109), (1446, 1109), (2419, 1109), (3132, 1109)],
    [(266, 1110), (942, 1110), (1447, 1110), (2420, 1110), (3133, 1110), (267, 1111), (943, 1111), (1448, 1111), (2421, 1111), (3134, 1111)],
    [(268, 1112), (944, 1112), (1449, 1112), (2422, 1112), (3135, 1112), (269, 1113), (945, 1113), (1450, 1113), (2423, 1113), (3136, 1113)],
    [(270, 1114), (946, 1114), (1451, 1114), (2424, 1114), (3137, 1114), (271, 1115), (947, 1115), (1452, 1115), (2425, 1115), (3138, 1115)],
    [(272, 1116), (948, 1116), (1453, 1116), (2426, 1116), (3139, 1116), (273, 1117), (949, 1117), (1454, 1117), (2427, 1117), (3140, 1117)],
    [(274, 1118), (950, 1118), (1455, 1118), (2428, 1118), (3141, 1118), (275, 1119), (951, 1119), (1456, 1119), (2429, 1119), (3142, 1119)],
    [(276, 1120), (952, 1120), (1457, 1120), (2430, 1120), (3143, 1120), (277, 1121), (953, 1121), (1458, 1121), (2431, 1121), (3144, 1121)],
    [(278, 1122), (954, 1122), (1459, 1122), (2432, 1122), (3145, 1122), (279, 1123), (955, 1123), (1460, 1123), (2433, 1123), (3146, 1123)],
    [(280, 1124), (956, 1124), (1461, 1124), (2434, 1124), (3147, 1124), (281, 1125), (957, 1125), (1462, 1125), (2435, 1125), (3148, 1125)],
    [(282, 1126), (958, 1126), (1463, 1126), (2436, 1126), (3149, 1126), (283, 1127), (959, 1127), (1464, 1127), (2437, 1127), (3150, 1127)],
    [(284, 1128), (840, 1128), (1465, 1128), (2438, 1128), (3151, 1128), (285, 1129), (841, 1129), (1466, 1129), (2439, 1129), (3152, 1129)],
    [(286, 1130), (842, 1130), (1467, 1130), (2440, 1130), (3153, 1130), (287, 1131), (843, 1131), (1468, 1131), (2441, 1131), (3154, 1131)],
    [(288, 1132), (844, 1132), (1469, 1132), (2442, 1132), (3155, 1132), (289, 1133), (845, 1133), (1470, 1133), (2443, 1133), (3156, 1133)],
    [(290, 1134), (846, 1134), (1471, 1134), (2444, 1134), (3157, 1134), (291, 1135), (847, 1135), (1472, 1135), (2445, 1135), (3158, 1135)],
    [(292, 1136), (848, 1136), (1473, 1136), (2446, 1136), (3159, 1136), (293, 1137), (849, 1137), (1474, 1137), (2447, 1137), (3160, 1137)],
    [(294, 1138), (850, 1138), (1475, 1138), (2448, 1138), (3161, 1138), (295, 1139), (851, 1139), (1476, 1139), (2449, 1139), (3162, 1139)],
    [(296, 1140), (852, 1140), (1477, 1140), (2450, 1140), (3163, 1140), (297, 1141), (853, 1141), (1478, 1141), (2451, 1141), (3164, 1141)],
    [(298, 1142), (854, 1142), (1479, 1142), (2452, 1142), (3165, 1142), (299, 1143), (855, 1143), (1480, 1143), (2453, 1143), (3166, 1143)],
    [(300, 1144), (856, 1144), (1481, 1144), (2454, 1144), (3167, 1144), (301, 1145), (857, 1145), (1482, 1145), (2455, 1145), (3168, 1145)],
    [(302, 1146), (858, 1146), (1483, 1146), (2456, 1146), (3169, 1146), (303, 1147), (859, 1147), (1484, 1147), (2457, 1147), (3170, 1147)],
    [(304, 1148), (860, 1148), (1485, 1148), (2458, 1148), (3171, 1148), (305, 1149), (861, 1149), (1486, 1149), (2459, 1149), (3172, 1149)],
    [(306, 1150), (862, 1150), (1487, 1150), (2460, 1150), (3173, 1150), (307, 1151), (863, 1151), (1488, 1151), (2461, 1151), (3174, 1151)],
    [(308, 1152), (864, 1152), (1489, 1152), (2462, 1152), (3175, 1152), (309, 1153), (865, 1153), (1490, 1153), (2463, 1153), (3176, 1153)],
    [(310, 1154), (866, 1154), (1491, 1154), (2464, 1154), (3177, 1154), (311, 1155), (867, 1155), (1492, 1155), (2465, 1155), (3178, 1155)],
    [(312, 1156), (868, 1156), (1493, 1156), (2466, 1156), (3179, 1156), (313, 1157), (869, 1157), (1494, 1157), (2467, 1157), (3180, 1157)],
    [(314, 1158), (870, 1158), (1495, 1158), (2468, 1158), (3181, 1158), (315, 1159), (871, 1159), (1496, 1159), (2469, 1159), (3182, 1159)],
    [(316, 1160), (872, 1160), (1497, 1160), (2470, 1160), (3183, 1160), (317, 1161), (873, 1161), (1498, 1161), (2471, 1161), (3184, 1161)],
    [(318, 1162), (874, 1162), (1499, 1162), (2472, 1162), (3185, 1162), (319, 1163), (875, 1163), (1500, 1163), (2473, 1163), (3186, 1163)],
    [(320, 1164), (876, 1164), (1501, 1164), (2474, 1164), (3187, 1164), (321, 1165), (877, 1165), (1502, 1165), (2475, 1165), (3188, 1165)],
    [(322, 1166), (878, 1166), (1503, 1166), (2476, 1166), (3189, 1166), (323, 1167), (879, 1167), (1504, 1167), (2477, 1167), (3190, 1167)],
    [(324, 1168), (880, 1168), (1505, 1168), (2478, 1168), (3191, 1168), (325, 1169), (881, 1169), (1506, 1169), (2479, 1169), (3192, 1169)],
    [(326, 1170), (882, 1170), (1507, 1170), (2480, 1170), (3193, 1170), (327, 1171), (883, 1171), (1508, 1171), (2481, 1171), (3194, 1171)],
    [(328, 1172), (884, 1172), (1509, 1172), (2482, 1172), (3195, 1172), (329, 1173), (885, 1173), (1510, 1173), (2483, 1173), (3196, 1173)],
    [(330, 1174), (886, 1174), (1511, 1174), (2484, 1174), (3197, 1174), (331, 1175), (887, 1175), (1512, 1175), (2485, 1175), (3198, 1175)],
    [(332, 1176), (888, 1176), (1513, 1176), (2486, 1176), (3199, 1176), (333, 1177), (889, 1177), (1514, 1177), (2487, 1177), (3200, 1177)],
    [(334, 1178), (890, 1178), (1515, 1178), (2488, 1178), (3201, 1178), (335, 1179), (891, 1179), (1516, 1179), (2489, 1179), (3202, 1179)],
    [(336, 1180), (892, 1180), (1517, 1180), (2490, 1180), (3203, 1180), (337, 1181), (893, 1181), (1518, 1181), (2491, 1181), (3204, 1181)],
    [(338, 1182), (894, 1182), (1519, 1182), (2492, 1182), (3205, 1182), (339, 1183), (895, 1183), (1520, 1183), (2493, 1183), (3206, 1183)],
    [(340, 1184), (896, 1184), (1521, 1184), (2494, 1184), (3207, 1184), (341, 1185), (897, 1185), (1522, 1185), (2495, 1185), (3208, 1185)],
    [(342, 1186), (898, 1186), (1523, 1186), (2496, 1186), (3209, 1186), (343, 1187), (899, 1187), (1524, 1187), (2497, 1187), (3210, 1187)],
    [(344, 1188), (900, 1188), (1525, 1188), (2498, 1188), (3211, 1188), (345, 1189), (901, 1189), (1526, 1189), (2499, 1189), (3212, 1189)],
    [(346, 1190), (902, 1190), (1527, 1190), (2500, 1190), (3213, 1190), (347, 1191), (903, 1191), (1528, 1191), (2501, 1191), (3214, 1191)],
    [(348, 1192), (904, 1192), (1529, 1192), (2502, 1192), (3215, 1192), (349, 1193), (905, 1193), (1530, 1193), (2503, 1193), (3216, 1193)],
    [(350, 1194), (906, 1194), (1531, 1194), (2504, 1194), (3217, 1194), (351, 1195), (907, 1195), (1532, 1195), (2505, 1195), (3218, 1195)],
    [(352, 1196), (908, 1196), (1533, 1196), (2506, 1196), (3219, 1196), (353, 1197), (909, 1197), (1534, 1197), (2507, 1197), (3220, 1197)],
    [(354, 1198), (910, 1198), (1535, 1198), (2508, 1198), (3221, 1198), (355, 1199), (911, 1199), (1536, 1199), (2509, 1199), (3222, 1199)]]"

definition SF2_C_ind :: "(nat \<times> nat) list" where
  "SF2_C_ind = SF2_C_ind_0 @ SF2_C_ind_1 @ SF2_C_ind_2 @ SF2_C_ind_3 @ SF2_C_ind_4 @ SF2_C_ind_5 @ SF2_C_ind_6"

section \<open>Every position is inside its matrix\<close>

lemma SF2_C_ind_0_bounds: "list_all (in_dims 4560 1200) SF2_C_ind_0"
  unfolding SF2_C_ind_0_def by (simp add: list_all_concat in_dims_Pair)

lemma SF2_C_ind_1_bounds: "list_all (in_dims 4560 1200) SF2_C_ind_1"
  unfolding SF2_C_ind_1_def by (simp add: list_all_concat in_dims_Pair)

lemma SF2_C_ind_2_bounds: "list_all (in_dims 4560 1200) SF2_C_ind_2"
  unfolding SF2_C_ind_2_def by (simp add: list_all_concat in_dims_Pair)

lemma SF2_C_ind_3_bounds: "list_all (in_dims 4560 1200) SF2_C_ind_3"
  unfolding SF2_C_ind_3_def by (simp add: list_all_concat in_dims_Pair)

lemma SF2_C_ind_4_bounds: "list_all (in_dims 4560 1200) SF2_C_ind_4"
  unfolding SF2_C_ind_4_def by (simp add: list_all_concat in_dims_Pair)

lemma SF2_C_ind_5_bounds: "list_all (in_dims 4560 1200) SF2_C_ind_5"
  unfolding SF2_C_ind_5_def by (simp add: list_all_concat in_dims_Pair)

lemma SF2_C_ind_6_bounds: "list_all (in_dims 4560 1200) SF2_C_ind_6"
  unfolding SF2_C_ind_6_def by (simp add: list_all_concat in_dims_Pair)

lemma SF2_C_ind_bounds: "list_all (in_dims 4560 1200) SF2_C_ind"
  unfolding SF2_C_ind_def list_all_append
  by (intro conjI SF2_C_ind_0_bounds SF2_C_ind_1_bounds SF2_C_ind_2_bounds SF2_C_ind_3_bounds SF2_C_ind_4_bounds SF2_C_ind_5_bounds SF2_C_ind_6_bounds)

end
