(* ===== verification/Afs_Tab_SF3_C.thy ===== *)
theory Afs_Tab_SF3_C
  imports Afs_Gf2
begin

text \<open>
  The submatrix \<open>C\<close> of the LDPC code of subframes 3 and 4, as the index table of \<open>afs_nav.c\<close> lists it.
\<close>

section \<open>SF3_C: positions in a matrix of 3344 rows and 880 columns\<close>

definition SF3_C_ind_0 :: "(nat \<times> nat) list" where
  "SF3_C_ind_0 = concat [
    [(2, 0), (97, 0), (217, 0), (387, 0), (593, 0), (701, 0), (851, 0), (1007, 0), (1235, 0), (1395, 0)],
    [(1516, 0), (1738, 0), (1864, 0), (2070, 0), (2237, 0), (2524, 0), (2717, 0), (2831, 0), (3147, 0), (3, 1)],
    [(98, 1), (218, 1), (388, 1), (594, 1), (702, 1), (852, 1), (1008, 1), (1236, 1), (1396, 1), (1517, 1)],
    [(1739, 1), (1865, 1), (2071, 1), (2238, 1), (2525, 1), (2718, 1), (2832, 1), (3148, 1), (4, 2), (99, 2)],
    [(219, 2), (389, 2), (595, 2), (703, 2), (853, 2), (1009, 2), (1237, 2), (1397, 2), (1518, 2), (1740, 2)],
    [(1866, 2), (2072, 2), (2239, 2), (2526, 2), (2719, 2), (2833, 2), (3149, 2), (5, 3), (100, 3), (220, 3)],
    [(390, 3), (596, 3), (616, 3), (854, 3), (1010, 3), (1238, 3), (1398, 3), (1519, 3), (1741, 3), (1867, 3)],
    [(2073, 3), (2240, 3), (2527, 3), (2720, 3), (2834, 3), (3150, 3), (6, 4), (101, 4), (221, 4), (391, 4)],
    [(597, 4), (617, 4), (855, 4), (1011, 4), (1239, 4), (1399, 4), (1520, 4), (1742, 4), (1868, 4), (2074, 4)],
    [(2241, 4), (2528, 4), (2721, 4), (2835, 4), (3151, 4), (7, 5), (102, 5), (222, 5), (392, 5), (598, 5)],
    [(618, 5), (856, 5), (1012, 5), (1240, 5), (1400, 5), (1521, 5), (1743, 5), (1869, 5), (2075, 5), (2242, 5)],
    [(2529, 5), (2722, 5), (2836, 5), (3152, 5), (8, 6), (103, 6), (223, 6), (393, 6), (599, 6), (619, 6)],
    [(857, 6), (1013, 6), (1241, 6), (1401, 6), (1522, 6), (1744, 6), (1870, 6), (2076, 6), (2243, 6), (2530, 6)],
    [(2723, 6), (2837, 6), (3153, 6), (9, 7), (104, 7), (224, 7), (394, 7), (600, 7), (620, 7), (858, 7)],
    [(1014, 7), (1242, 7), (1402, 7), (1523, 7), (1745, 7), (1871, 7), (2077, 7), (2244, 7), (2531, 7), (2724, 7)],
    [(2838, 7), (3154, 7), (10, 8), (105, 8), (225, 8), (395, 8), (601, 8), (621, 8), (859, 8), (1015, 8)],
    [(1243, 8), (1403, 8), (1524, 8), (1746, 8), (1872, 8), (2078, 8), (2245, 8), (2532, 8), (2725, 8), (2839, 8)],
    [(3155, 8), (11, 9), (106, 9), (226, 9), (396, 9), (602, 9), (622, 9), (860, 9), (1016, 9), (1244, 9)],
    [(1404, 9), (1525, 9), (1747, 9), (1873, 9), (2079, 9), (2246, 9), (2533, 9), (2726, 9), (2840, 9), (3156, 9)],
    [(12, 10), (107, 10), (227, 10), (397, 10), (603, 10), (623, 10), (861, 10), (1017, 10), (1245, 10), (1405, 10)],
    [(1526, 10), (1748, 10), (1874, 10), (2080, 10), (2247, 10), (2534, 10), (2727, 10), (2841, 10), (3157, 10), (13, 11)],
    [(108, 11), (228, 11), (398, 11), (604, 11), (624, 11), (862, 11), (1018, 11), (1246, 11), (1406, 11), (1527, 11)],
    [(1749, 11), (1875, 11), (2081, 11), (2248, 11), (2535, 11), (2640, 11), (2842, 11), (3158, 11), (14, 12), (109, 12)],
    [(229, 12), (399, 12), (605, 12), (625, 12), (863, 12), (1019, 12), (1247, 12), (1407, 12), (1528, 12), (1750, 12)],
    [(1876, 12), (2082, 12), (2249, 12), (2536, 12), (2641, 12), (2843, 12), (3159, 12), (15, 13), (110, 13), (230, 13)],
    [(400, 13), (606, 13), (626, 13), (864, 13), (1020, 13), (1248, 13), (1320, 13), (1529, 13), (1751, 13), (1877, 13)],
    [(2083, 13), (2250, 13), (2537, 13), (2642, 13), (2844, 13), (3160, 13), (16, 14), (111, 14), (231, 14), (401, 14)],
    [(607, 14), (627, 14), (865, 14), (1021, 14), (1249, 14), (1321, 14), (1530, 14), (1752, 14), (1878, 14), (2084, 14)],
    [(2251, 14), (2538, 14), (2643, 14), (2845, 14), (3161, 14), (17, 15), (112, 15), (232, 15), (402, 15), (608, 15)],
    [(628, 15), (866, 15), (1022, 15), (1250, 15), (1322, 15), (1531, 15), (1753, 15), (1879, 15), (2085, 15), (2252, 15)],
    [(2539, 15), (2644, 15), (2846, 15), (3162, 15), (18, 16), (113, 16), (233, 16), (403, 16), (609, 16), (629, 16)],
    [(867, 16), (1023, 16), (1251, 16), (1323, 16), (1532, 16), (1754, 16), (1880, 16), (2086, 16), (2253, 16), (2540, 16)],
    [(2645, 16), (2847, 16), (3163, 16), (19, 17), (114, 17), (234, 17), (404, 17), (610, 17), (630, 17), (868, 17)],
    [(1024, 17), (1252, 17), (1324, 17), (1533, 17), (1755, 17), (1881, 17), (2087, 17), (2254, 17), (2541, 17), (2646, 17)],
    [(2848, 17), (3164, 17), (20, 18), (115, 18), (235, 18), (405, 18), (611, 18), (631, 18), (869, 18), (1025, 18)],
    [(1253, 18), (1325, 18), (1534, 18), (1756, 18), (1882, 18), (2088, 18), (2255, 18), (2542, 18), (2647, 18), (2849, 18)],
    [(3165, 18), (21, 19), (116, 19), (236, 19), (406, 19), (612, 19), (632, 19), (870, 19), (1026, 19), (1254, 19)],
    [(1326, 19), (1535, 19), (1757, 19), (1883, 19), (2089, 19), (2256, 19), (2543, 19), (2648, 19), (2850, 19), (3166, 19)],
    [(22, 20), (117, 20), (237, 20), (407, 20), (613, 20), (633, 20), (871, 20), (1027, 20), (1255, 20), (1327, 20)],
    [(1536, 20), (1758, 20), (1884, 20), (2090, 20), (2257, 20), (2544, 20), (2649, 20), (2851, 20), (3167, 20), (23, 21)],
    [(118, 21), (238, 21), (408, 21), (614, 21), (634, 21), (872, 21), (1028, 21), (1256, 21), (1328, 21), (1537, 21)],
    [(1759, 21), (1885, 21), (2091, 21), (2258, 21), (2545, 21), (2650, 21), (2852, 21), (3080, 21), (24, 22), (119, 22)],
    [(239, 22), (409, 22), (615, 22), (635, 22), (873, 22), (1029, 22), (1257, 22), (1329, 22), (1538, 22), (1672, 22)],
    [(1886, 22), (2092, 22), (2259, 22), (2546, 22), (2651, 22), (2853, 22), (3081, 22), (25, 23), (120, 23), (240, 23)],
    [(410, 23), (528, 23), (636, 23), (874, 23), (1030, 23), (1258, 23), (1330, 23), (1539, 23), (1673, 23), (1887, 23)],
    [(2093, 23), (2260, 23), (2547, 23), (2652, 23), (2854, 23), (3082, 23), (26, 24), (121, 24), (241, 24), (411, 24)],
    [(529, 24), (637, 24), (875, 24), (1031, 24), (1259, 24), (1331, 24), (1540, 24), (1674, 24), (1888, 24), (2094, 24)],
    [(2261, 24), (2548, 24), (2653, 24), (2855, 24), (3083, 24), (27, 25), (122, 25), (242, 25), (412, 25), (530, 25)],
    [(638, 25), (876, 25), (1032, 25), (1260, 25), (1332, 25), (1541, 25), (1675, 25), (1889, 25), (2095, 25), (2262, 25)],
    [(2549, 25), (2654, 25), (2856, 25), (3084, 25), (28, 26), (123, 26), (243, 26), (413, 26), (531, 26), (639, 26)],
    [(877, 26), (1033, 26), (1261, 26), (1333, 26), (1542, 26), (1676, 26), (1890, 26), (2096, 26), (2263, 26), (2550, 26)],
    [(2655, 26), (2857, 26), (3085, 26), (29, 27), (124, 27), (244, 27), (414, 27), (532, 27), (640, 27), (878, 27)],
    [(1034, 27), (1262, 27), (1334, 27), (1543, 27), (1677, 27), (1891, 27), (2097, 27), (2264, 27), (2551, 27), (2656, 27)],
    [(2858, 27), (3086, 27), (30, 28), (125, 28), (245, 28), (415, 28), (533, 28), (641, 28), (879, 28), (1035, 28)],
    [(1263, 28), (1335, 28), (1544, 28), (1678, 28), (1892, 28), (2098, 28), (2265, 28), (2464, 28), (2657, 28), (2859, 28)],
    [(3087, 28), (31, 29), (126, 29), (246, 29), (416, 29), (534, 29), (642, 29), (792, 29), (1036, 29), (1264, 29)],
    [(1336, 29), (1545, 29), (1679, 29), (1893, 29), (2099, 29), (2266, 29), (2465, 29), (2658, 29), (2860, 29), (3088, 29)],
    [(32, 30), (127, 30), (247, 30), (417, 30), (535, 30), (643, 30), (793, 30), (1037, 30), (1265, 30), (1337, 30)],
    [(1546, 30), (1680, 30), (1894, 30), (2100, 30), (2267, 30), (2466, 30), (2659, 30), (2861, 30), (3089, 30), (33, 31)],
    [(128, 31), (248, 31), (418, 31), (536, 31), (644, 31), (794, 31), (1038, 31), (1266, 31), (1338, 31), (1547, 31)],
    [(1681, 31), (1895, 31), (2101, 31), (2268, 31), (2467, 31), (2660, 31), (2862, 31), (3090, 31), (34, 32), (129, 32)],
    [(249, 32), (419, 32), (537, 32), (645, 32), (795, 32), (1039, 32), (1267, 32), (1339, 32), (1548, 32), (1682, 32)],
    [(1896, 32), (2102, 32), (2269, 32), (2468, 32), (2661, 32), (2863, 32), (3091, 32), (35, 33), (130, 33), (250, 33)],
    [(420, 33), (538, 33), (646, 33), (796, 33), (1040, 33), (1268, 33), (1340, 33), (1549, 33), (1683, 33), (1897, 33)],
    [(2103, 33), (2270, 33), (2469, 33), (2662, 33), (2864, 33), (3092, 33), (36, 34), (131, 34), (251, 34), (421, 34)],
    [(539, 34), (647, 34), (797, 34), (1041, 34), (1269, 34), (1341, 34), (1550, 34), (1684, 34), (1898, 34), (2104, 34)],
    [(2271, 34), (2470, 34), (2663, 34), (2865, 34), (3093, 34), (37, 35), (132, 35), (252, 35), (422, 35), (540, 35)],
    [(648, 35), (798, 35), (1042, 35), (1270, 35), (1342, 35), (1551, 35), (1685, 35), (1899, 35), (2105, 35), (2272, 35)],
    [(2471, 35), (2664, 35), (2866, 35), (3094, 35), (38, 36), (133, 36), (253, 36), (423, 36), (541, 36), (649, 36)],
    [(799, 36), (1043, 36), (1271, 36), (1343, 36), (1552, 36), (1686, 36), (1900, 36), (2106, 36), (2273, 36), (2472, 36)],
    [(2665, 36), (2867, 36), (3095, 36), (39, 37), (134, 37), (254, 37), (424, 37), (542, 37), (650, 37), (800, 37)],
    [(1044, 37), (1272, 37), (1344, 37), (1553, 37), (1687, 37), (1901, 37), (2107, 37), (2274, 37), (2473, 37), (2666, 37)],
    [(2868, 37), (3096, 37), (40, 38), (135, 38), (255, 38), (425, 38), (543, 38), (651, 38), (801, 38), (1045, 38)],
    [(1273, 38), (1345, 38), (1554, 38), (1688, 38), (1902, 38), (2108, 38), (2275, 38), (2474, 38), (2667, 38), (2869, 38)],
    [(3097, 38), (41, 39), (136, 39), (256, 39), (426, 39), (544, 39), (652, 39), (802, 39), (1046, 39), (1274, 39)],
    [(1346, 39), (1555, 39), (1689, 39), (1903, 39), (2109, 39), (2276, 39), (2475, 39), (2668, 39), (2870, 39), (3098, 39)],
    [(42, 40), (137, 40), (257, 40), (427, 40), (545, 40), (653, 40), (803, 40), (1047, 40), (1275, 40), (1347, 40)],
    [(1556, 40), (1690, 40), (1904, 40), (2110, 40), (2277, 40), (2476, 40), (2669, 40), (2871, 40), (3099, 40), (43, 41)],
    [(138, 41), (258, 41), (428, 41), (546, 41), (654, 41), (804, 41), (1048, 41), (1276, 41), (1348, 41), (1557, 41)],
    [(1691, 41), (1905, 41), (2111, 41), (2278, 41), (2477, 41), (2670, 41), (2872, 41), (3100, 41), (44, 42), (139, 42)],
    [(259, 42), (429, 42), (547, 42), (655, 42), (805, 42), (1049, 42), (1277, 42), (1349, 42), (1558, 42), (1692, 42)],
    [(1906, 42), (2024, 42), (2279, 42), (2478, 42), (2671, 42), (2873, 42), (3101, 42), (45, 43), (140, 43), (260, 43)],
    [(430, 43), (548, 43), (656, 43), (806, 43), (1050, 43), (1278, 43), (1350, 43), (1559, 43), (1693, 43), (1907, 43)],
    [(2025, 43), (2280, 43), (2479, 43), (2672, 43), (2874, 43), (3102, 43), (46, 44), (141, 44), (261, 44), (431, 44)],
    [(549, 44), (657, 44), (807, 44), (1051, 44), (1279, 44), (1351, 44), (1560, 44), (1694, 44), (1908, 44), (2026, 44)],
    [(2281, 44), (2480, 44), (2673, 44), (2875, 44), (3103, 44), (47, 45), (142, 45), (262, 45), (432, 45), (550, 45)],
    [(658, 45), (808, 45), (1052, 45), (1280, 45), (1352, 45), (1561, 45), (1695, 45), (1909, 45), (2027, 45), (2282, 45)],
    [(2481, 45), (2674, 45), (2876, 45), (3104, 45), (48, 46), (143, 46), (263, 46), (433, 46), (551, 46), (659, 46)],
    [(809, 46), (1053, 46), (1281, 46), (1353, 46), (1562, 46), (1696, 46), (1910, 46), (2028, 46), (2283, 46), (2482, 46)],
    [(2675, 46), (2877, 46), (3105, 46), (49, 47), (144, 47), (176, 47), (434, 47), (552, 47), (660, 47), (810, 47)],
    [(1054, 47), (1282, 47), (1354, 47), (1563, 47), (1697, 47), (1911, 47), (2029, 47), (2284, 47), (2483, 47), (2676, 47)],
    [(2878, 47), (3106, 47), (50, 48), (145, 48), (177, 48), (435, 48), (553, 48), (661, 48), (811, 48), (1055, 48)],
    [(1283, 48), (1355, 48), (1564, 48), (1698, 48), (1912, 48), (2030, 48), (2285, 48), (2484, 48), (2677, 48), (2879, 48)],
    [(3107, 48), (51, 49), (146, 49), (178, 49), (436, 49), (554, 49), (662, 49), (812, 49), (968, 49), (1284, 49)],
    [(1356, 49), (1565, 49), (1699, 49), (1913, 49), (2031, 49), (2286, 49), (2485, 49), (2678, 49), (2880, 49), (3108, 49)],
    [(52, 50), (147, 50), (179, 50), (437, 50), (555, 50), (663, 50), (813, 50), (969, 50), (1285, 50), (1357, 50)],
    [(1566, 50), (1700, 50), (1914, 50), (2032, 50), (2287, 50), (2486, 50), (2679, 50), (2881, 50), (3109, 50), (53, 51)],
    [(148, 51), (180, 51), (438, 51), (556, 51), (664, 51), (814, 51), (970, 51), (1286, 51), (1358, 51), (1567, 51)],
    [(1701, 51), (1915, 51), (2033, 51), (2200, 51), (2487, 51), (2680, 51), (2882, 51), (3110, 51), (54, 52), (149, 52)],
    [(181, 52), (439, 52), (557, 52), (665, 52), (815, 52), (971, 52), (1287, 52), (1359, 52), (1568, 52), (1702, 52)],
    [(1916, 52), (2034, 52), (2201, 52), (2488, 52), (2681, 52), (2883, 52), (3111, 52), (55, 53), (150, 53), (182, 53)],
    [(352, 53), (558, 53), (666, 53), (816, 53), (972, 53), (1288, 53), (1360, 53), (1569, 53), (1703, 53), (1917, 53)],
    [(2035, 53), (2202, 53), (2489, 53), (2682, 53), (2884, 53), (3112, 53), (56, 54), (151, 54), (183, 54), (353, 54)],
    [(559, 54), (667, 54), (817, 54), (973, 54), (1289, 54), (1361, 54), (1570, 54), (1704, 54), (1918, 54), (2036, 54)],
    [(2203, 54), (2490, 54), (2683, 54), (2885, 54), (3113, 54), (57, 55), (152, 55), (184, 55), (354, 55), (560, 55)],
    [(668, 55), (818, 55), (974, 55), (1290, 55), (1362, 55), (1571, 55), (1705, 55), (1919, 55), (2037, 55), (2204, 55)],
    [(2491, 55), (2684, 55), (2886, 55), (3114, 55), (58, 56), (153, 56), (185, 56), (355, 56), (561, 56), (669, 56)],
    [(819, 56), (975, 56), (1291, 56), (1363, 56), (1572, 56), (1706, 56), (1920, 56), (2038, 56), (2205, 56), (2492, 56)],
    [(2685, 56), (2887, 56), (3115, 56), (59, 57), (154, 57), (186, 57), (356, 57), (562, 57), (670, 57), (820, 57)],
    [(976, 57), (1292, 57), (1364, 57), (1573, 57), (1707, 57), (1921, 57), (2039, 57), (2206, 57), (2493, 57), (2686, 57)],
    [(2888, 57), (3116, 57), (60, 58), (155, 58), (187, 58), (357, 58), (563, 58), (671, 58), (821, 58), (977, 58)],
    [(1293, 58), (1365, 58), (1574, 58), (1708, 58), (1922, 58), (2040, 58), (2207, 58), (2494, 58), (2687, 58), (2889, 58)],
    [(3117, 58), (61, 59), (156, 59), (188, 59), (358, 59), (564, 59), (672, 59), (822, 59), (978, 59), (1294, 59)],
    [(1366, 59), (1575, 59), (1709, 59), (1923, 59), (2041, 59), (2208, 59), (2495, 59), (2688, 59), (2890, 59), (3118, 59)],
    [(62, 60), (157, 60), (189, 60), (359, 60), (565, 60), (673, 60), (823, 60), (979, 60), (1295, 60), (1367, 60)],
    [(1576, 60), (1710, 60), (1924, 60), (2042, 60), (2209, 60), (2496, 60), (2689, 60), (2891, 60), (3119, 60), (63, 61)],
    [(158, 61), (190, 61), (360, 61), (566, 61), (674, 61), (824, 61), (980, 61), (1296, 61), (1368, 61), (1577, 61)],
    [(1711, 61), (1925, 61), (2043, 61), (2210, 61), (2497, 61), (2690, 61), (2892, 61), (3120, 61), (64, 62), (159, 62)],
    [(191, 62), (361, 62), (567, 62), (675, 62), (825, 62), (981, 62), (1297, 62), (1369, 62), (1578, 62), (1712, 62)],
    [(1926, 62), (2044, 62), (2211, 62), (2498, 62), (2691, 62), (2893, 62), (3121, 62), (65, 63), (160, 63), (192, 63)],
    [(362, 63), (568, 63), (676, 63), (826, 63), (982, 63), (1298, 63), (1370, 63), (1579, 63), (1713, 63), (1927, 63)],
    [(2045, 63), (2212, 63), (2499, 63), (2692, 63), (2894, 63), (3122, 63), (66, 64), (161, 64), (193, 64), (363, 64)],
    [(569, 64), (677, 64), (827, 64), (983, 64), (1299, 64), (1371, 64), (1580, 64), (1714, 64), (1928, 64), (2046, 64)],
    [(2213, 64), (2500, 64), (2693, 64), (2895, 64), (3123, 64), (67, 65), (162, 65), (194, 65), (364, 65), (570, 65)],
    [(678, 65), (828, 65), (984, 65), (1300, 65), (1372, 65), (1581, 65), (1715, 65), (1929, 65), (2047, 65), (2214, 65)],
    [(2501, 65), (2694, 65), (2896, 65), (3124, 65), (68, 66), (163, 66), (195, 66), (365, 66), (571, 66), (679, 66)],
    [(829, 66), (985, 66), (1301, 66), (1373, 66), (1582, 66), (1716, 66), (1930, 66), (2048, 66), (2215, 66), (2502, 66)],
    [(2695, 66), (2897, 66), (3125, 66), (69, 67), (164, 67), (196, 67), (366, 67), (572, 67), (680, 67), (830, 67)],
    [(986, 67), (1302, 67), (1374, 67), (1583, 67), (1717, 67), (1931, 67), (2049, 67), (2216, 67), (2503, 67), (2696, 67)],
    [(2898, 67), (3126, 67), (70, 68), (165, 68), (197, 68), (367, 68), (573, 68), (681, 68), (831, 68), (987, 68)],
    [(1303, 68), (1375, 68), (1496, 68), (1718, 68), (1932, 68), (2050, 68), (2217, 68), (2504, 68), (2697, 68), (2899, 68)],
    [(3127, 68), (71, 69), (166, 69), (198, 69), (368, 69), (574, 69), (682, 69), (832, 69), (988, 69), (1304, 69)],
    [(1376, 69), (1497, 69), (1719, 69), (1933, 69), (2051, 69), (2218, 69), (2505, 69), (2698, 69), (2900, 69), (3128, 69)],
    [(72, 70), (167, 70), (199, 70), (369, 70), (575, 70), (683, 70), (833, 70), (989, 70), (1305, 70), (1377, 70)],
    [(1498, 70), (1720, 70), (1934, 70), (2052, 70), (2219, 70), (2506, 70), (2699, 70), (2901, 70), (3129, 70), (73, 71)],
    [(168, 71), (200, 71), (370, 71), (576, 71), (684, 71), (834, 71), (990, 71), (1306, 71), (1378, 71), (1499, 71)],
    [(1721, 71), (1935, 71), (2053, 71), (2220, 71), (2507, 71), (2700, 71), (2902, 71), (3130, 71), (74, 72), (169, 72)],
    [(201, 72), (371, 72), (577, 72), (685, 72), (835, 72), (991, 72), (1307, 72), (1379, 72), (1500, 72), (1722, 72)],
    [(1848, 72), (2054, 72), (2221, 72), (2508, 72), (2701, 72), (2903, 72), (3131, 72), (75, 73), (170, 73), (202, 73)],
    [(372, 73), (578, 73), (686, 73), (836, 73), (992, 73), (1308, 73), (1380, 73), (1501, 73), (1723, 73), (1849, 73)],
    [(2055, 73), (2222, 73), (2509, 73), (2702, 73), (2816, 73), (3132, 73), (76, 74), (171, 74), (203, 74), (373, 74)],
    [(579, 74), (687, 74), (837, 74), (993, 74), (1309, 74), (1381, 74), (1502, 74), (1724, 74), (1850, 74), (2056, 74)],
    [(2223, 74), (2510, 74), (2703, 74), (2817, 74), (3133, 74), (77, 75), (172, 75), (204, 75), (374, 75), (580, 75)],
    [(688, 75), (838, 75), (994, 75), (1310, 75), (1382, 75), (1503, 75), (1725, 75), (1851, 75), (2057, 75), (2224, 75)],
    [(2511, 75), (2704, 75), (2818, 75), (3134, 75), (78, 76), (173, 76), (205, 76), (375, 76), (581, 76), (689, 76)],
    [(839, 76), (995, 76), (1311, 76), (1383, 76), (1504, 76), (1726, 76), (1852, 76), (2058, 76), (2225, 76), (2512, 76)],
    [(2705, 76), (2819, 76), (3135, 76), (79, 77), (174, 77), (206, 77), (376, 77), (582, 77), (690, 77), (840, 77)]]"

definition SF3_C_ind_1 :: "(nat \<times> nat) list" where
  "SF3_C_ind_1 = concat [
    [(996, 77), (1312, 77), (1384, 77), (1505, 77), (1727, 77), (1853, 77), (2059, 77), (2226, 77), (2513, 77), (2706, 77)],
    [(2820, 77), (3136, 77), (80, 78), (175, 78), (207, 78), (377, 78), (583, 78), (691, 78), (841, 78), (997, 78)],
    [(1313, 78), (1385, 78), (1506, 78), (1728, 78), (1854, 78), (2060, 78), (2227, 78), (2514, 78), (2707, 78), (2821, 78)],
    [(3137, 78), (81, 79), (88, 79), (208, 79), (378, 79), (584, 79), (692, 79), (842, 79), (998, 79), (1314, 79)],
    [(1386, 79), (1507, 79), (1729, 79), (1855, 79), (2061, 79), (2228, 79), (2515, 79), (2708, 79), (2822, 79), (3138, 79)],
    [(82, 80), (89, 80), (209, 80), (379, 80), (585, 80), (693, 80), (843, 80), (999, 80), (1315, 80), (1387, 80)],
    [(1508, 80), (1730, 80), (1856, 80), (2062, 80), (2229, 80), (2516, 80), (2709, 80), (2823, 80), (3139, 80), (83, 81)],
    [(90, 81), (210, 81), (380, 81), (586, 81), (694, 81), (844, 81), (1000, 81), (1316, 81), (1388, 81), (1509, 81)],
    [(1731, 81), (1857, 81), (2063, 81), (2230, 81), (2517, 81), (2710, 81), (2824, 81), (3140, 81), (84, 82), (91, 82)],
    [(211, 82), (381, 82), (587, 82), (695, 82), (845, 82), (1001, 82), (1317, 82), (1389, 82), (1510, 82), (1732, 82)],
    [(1858, 82), (2064, 82), (2231, 82), (2518, 82), (2711, 82), (2825, 82), (3141, 82), (85, 83), (92, 83), (212, 83)],
    [(382, 83), (588, 83), (696, 83), (846, 83), (1002, 83), (1318, 83), (1390, 83), (1511, 83), (1733, 83), (1859, 83)],
    [(2065, 83), (2232, 83), (2519, 83), (2712, 83), (2826, 83), (3142, 83), (86, 84), (93, 84), (213, 84), (383, 84)],
    [(589, 84), (697, 84), (847, 84), (1003, 84), (1319, 84), (1391, 84), (1512, 84), (1734, 84), (1860, 84), (2066, 84)],
    [(2233, 84), (2520, 84), (2713, 84), (2827, 84), (3143, 84), (87, 85), (94, 85), (214, 85), (384, 85), (590, 85)],
    [(698, 85), (848, 85), (1004, 85), (1232, 85), (1392, 85), (1513, 85), (1735, 85), (1861, 85), (2067, 85), (2234, 85)],
    [(2521, 85), (2714, 85), (2828, 85), (3144, 85), (0, 86), (95, 86), (215, 86), (385, 86), (591, 86), (699, 86)],
    [(849, 86), (1005, 86), (1233, 86), (1393, 86), (1514, 86), (1736, 86), (1862, 86), (2068, 86), (2235, 86), (2522, 86)],
    [(2715, 86), (2829, 86), (3145, 86), (1, 87), (96, 87), (216, 87), (386, 87), (592, 87), (700, 87), (850, 87)],
    [(1006, 87), (1234, 87), (1394, 87), (1515, 87), (1737, 87), (1863, 87), (2069, 87), (2236, 87), (2523, 87), (2716, 87)],
    [(2830, 87), (3146, 87), (21, 88), (92, 88), (304, 88), (409, 88), (512, 88), (591, 88), (758, 88), (877, 88)],
    [(957, 88), (1066, 88), (1186, 88), (1361, 88), (1456, 88), (1654, 88), (1823, 88), (2136, 88), (2435, 88), (2778, 88)],
    [(3056, 88), (3300, 88), (22, 89), (93, 89), (305, 89), (410, 89), (513, 89), (592, 89), (759, 89), (878, 89)],
    [(958, 89), (1067, 89), (1187, 89), (1362, 89), (1457, 89), (1655, 89), (1824, 89), (2137, 89), (2436, 89), (2779, 89)],
    [(3057, 89), (3301, 89), (23, 90), (94, 90), (306, 90), (411, 90), (514, 90), (593, 90), (760, 90), (879, 90)],
    [(959, 90), (1068, 90), (1188, 90), (1363, 90), (1458, 90), (1656, 90), (1825, 90), (2138, 90), (2437, 90), (2780, 90)],
    [(3058, 90), (3302, 90), (24, 91), (95, 91), (307, 91), (412, 91), (515, 91), (594, 91), (761, 91), (792, 91)],
    [(960, 91), (1069, 91), (1189, 91), (1364, 91), (1459, 91), (1657, 91), (1826, 91), (2139, 91), (2438, 91), (2781, 91)],
    [(3059, 91), (3303, 91), (25, 92), (96, 92), (308, 92), (413, 92), (516, 92), (595, 92), (762, 92), (793, 92)],
    [(961, 92), (1070, 92), (1190, 92), (1365, 92), (1460, 92), (1658, 92), (1827, 92), (2140, 92), (2439, 92), (2782, 92)],
    [(3060, 92), (3304, 92), (26, 93), (97, 93), (309, 93), (414, 93), (517, 93), (596, 93), (763, 93), (794, 93)],
    [(962, 93), (1071, 93), (1191, 93), (1366, 93), (1461, 93), (1659, 93), (1828, 93), (2141, 93), (2440, 93), (2783, 93)],
    [(3061, 93), (3305, 93), (27, 94), (98, 94), (310, 94), (415, 94), (518, 94), (597, 94), (764, 94), (795, 94)],
    [(963, 94), (1072, 94), (1192, 94), (1367, 94), (1462, 94), (1660, 94), (1829, 94), (2142, 94), (2441, 94), (2784, 94)],
    [(3062, 94), (3306, 94), (28, 95), (99, 95), (311, 95), (416, 95), (519, 95), (598, 95), (765, 95), (796, 95)],
    [(964, 95), (1073, 95), (1193, 95), (1368, 95), (1463, 95), (1661, 95), (1830, 95), (2143, 95), (2442, 95), (2785, 95)],
    [(3063, 95), (3307, 95), (29, 96), (100, 96), (312, 96), (417, 96), (520, 96), (599, 96), (766, 96), (797, 96)],
    [(965, 96), (1074, 96), (1194, 96), (1369, 96), (1464, 96), (1662, 96), (1831, 96), (2144, 96), (2443, 96), (2786, 96)],
    [(3064, 96), (3308, 96), (30, 97), (101, 97), (313, 97), (418, 97), (521, 97), (600, 97), (767, 97), (798, 97)],
    [(966, 97), (1075, 97), (1195, 97), (1370, 97), (1465, 97), (1663, 97), (1832, 97), (2145, 97), (2444, 97), (2787, 97)],
    [(3065, 97), (3309, 97), (31, 98), (102, 98), (314, 98), (419, 98), (522, 98), (601, 98), (768, 98), (799, 98)],
    [(967, 98), (1076, 98), (1196, 98), (1371, 98), (1466, 98), (1664, 98), (1833, 98), (2146, 98), (2445, 98), (2788, 98)],
    [(3066, 98), (3310, 98), (32, 99), (103, 99), (315, 99), (420, 99), (523, 99), (602, 99), (769, 99), (800, 99)],
    [(880, 99), (1077, 99), (1197, 99), (1372, 99), (1467, 99), (1665, 99), (1834, 99), (2147, 99), (2446, 99), (2789, 99)],
    [(3067, 99), (3311, 99), (33, 100), (104, 100), (316, 100), (421, 100), (524, 100), (603, 100), (770, 100), (801, 100)],
    [(881, 100), (1078, 100), (1198, 100), (1373, 100), (1468, 100), (1666, 100), (1835, 100), (2148, 100), (2447, 100), (2790, 100)],
    [(3068, 100), (3312, 100), (34, 101), (105, 101), (317, 101), (422, 101), (525, 101), (604, 101), (771, 101), (802, 101)],
    [(882, 101), (1079, 101), (1199, 101), (1374, 101), (1469, 101), (1667, 101), (1836, 101), (2149, 101), (2448, 101), (2791, 101)],
    [(3069, 101), (3313, 101), (35, 102), (106, 102), (318, 102), (423, 102), (526, 102), (605, 102), (772, 102), (803, 102)],
    [(883, 102), (1080, 102), (1200, 102), (1375, 102), (1470, 102), (1668, 102), (1837, 102), (2150, 102), (2449, 102), (2792, 102)],
    [(3070, 102), (3314, 102), (36, 103), (107, 103), (319, 103), (424, 103), (527, 103), (606, 103), (773, 103), (804, 103)],
    [(884, 103), (1081, 103), (1201, 103), (1376, 103), (1471, 103), (1669, 103), (1838, 103), (2151, 103), (2450, 103), (2793, 103)],
    [(3071, 103), (3315, 103), (37, 104), (108, 104), (320, 104), (425, 104), (440, 104), (607, 104), (774, 104), (805, 104)],
    [(885, 104), (1082, 104), (1202, 104), (1377, 104), (1472, 104), (1670, 104), (1839, 104), (2152, 104), (2451, 104), (2794, 104)],
    [(3072, 104), (3316, 104), (38, 105), (109, 105), (321, 105), (426, 105), (441, 105), (608, 105), (775, 105), (806, 105)],
    [(886, 105), (1083, 105), (1203, 105), (1378, 105), (1473, 105), (1671, 105), (1840, 105), (2153, 105), (2452, 105), (2795, 105)],
    [(3073, 105), (3317, 105), (39, 106), (110, 106), (322, 106), (427, 106), (442, 106), (609, 106), (776, 106), (807, 106)],
    [(887, 106), (1084, 106), (1204, 106), (1379, 106), (1474, 106), (1584, 106), (1841, 106), (2154, 106), (2453, 106), (2796, 106)],
    [(3074, 106), (3318, 106), (40, 107), (111, 107), (323, 107), (428, 107), (443, 107), (610, 107), (777, 107), (808, 107)],
    [(888, 107), (1085, 107), (1205, 107), (1380, 107), (1475, 107), (1585, 107), (1842, 107), (2155, 107), (2454, 107), (2797, 107)],
    [(3075, 107), (3319, 107), (41, 108), (112, 108), (324, 108), (429, 108), (444, 108), (611, 108), (778, 108), (809, 108)],
    [(889, 108), (1086, 108), (1206, 108), (1381, 108), (1476, 108), (1586, 108), (1843, 108), (2156, 108), (2455, 108), (2798, 108)],
    [(3076, 108), (3320, 108), (42, 109), (113, 109), (325, 109), (430, 109), (445, 109), (612, 109), (779, 109), (810, 109)],
    [(890, 109), (1087, 109), (1207, 109), (1382, 109), (1477, 109), (1587, 109), (1844, 109), (2157, 109), (2456, 109), (2799, 109)],
    [(3077, 109), (3321, 109), (43, 110), (114, 110), (326, 110), (431, 110), (446, 110), (613, 110), (780, 110), (811, 110)],
    [(891, 110), (1088, 110), (1208, 110), (1383, 110), (1478, 110), (1588, 110), (1845, 110), (2158, 110), (2457, 110), (2800, 110)],
    [(3078, 110), (3322, 110), (44, 111), (115, 111), (327, 111), (432, 111), (447, 111), (614, 111), (781, 111), (812, 111)],
    [(892, 111), (1089, 111), (1209, 111), (1384, 111), (1479, 111), (1589, 111), (1846, 111), (2159, 111), (2458, 111), (2801, 111)],
    [(3079, 111), (3323, 111), (45, 112), (116, 112), (328, 112), (433, 112), (448, 112), (615, 112), (782, 112), (813, 112)],
    [(893, 112), (1090, 112), (1210, 112), (1385, 112), (1480, 112), (1590, 112), (1847, 112), (2160, 112), (2459, 112), (2802, 112)],
    [(2992, 112), (3324, 112), (46, 113), (117, 113), (329, 113), (434, 113), (449, 113), (528, 113), (783, 113), (814, 113)],
    [(894, 113), (1091, 113), (1211, 113), (1386, 113), (1481, 113), (1591, 113), (1760, 113), (2161, 113), (2460, 113), (2803, 113)],
    [(2993, 113), (3325, 113), (47, 114), (118, 114), (330, 114), (435, 114), (450, 114), (529, 114), (784, 114), (815, 114)],
    [(895, 114), (1092, 114), (1212, 114), (1387, 114), (1482, 114), (1592, 114), (1761, 114), (2162, 114), (2461, 114), (2804, 114)],
    [(2994, 114), (3326, 114), (48, 115), (119, 115), (331, 115), (436, 115), (451, 115), (530, 115), (785, 115), (816, 115)],
    [(896, 115), (1093, 115), (1213, 115), (1388, 115), (1483, 115), (1593, 115), (1762, 115), (2163, 115), (2462, 115), (2805, 115)],
    [(2995, 115), (3327, 115), (49, 116), (120, 116), (332, 116), (437, 116), (452, 116), (531, 116), (786, 116), (817, 116)],
    [(897, 116), (1094, 116), (1214, 116), (1389, 116), (1484, 116), (1594, 116), (1763, 116), (2164, 116), (2463, 116), (2806, 116)],
    [(2996, 116), (3328, 116), (50, 117), (121, 117), (333, 117), (438, 117), (453, 117), (532, 117), (787, 117), (818, 117)],
    [(898, 117), (1095, 117), (1215, 117), (1390, 117), (1485, 117), (1595, 117), (1764, 117), (2165, 117), (2376, 117), (2807, 117)],
    [(2997, 117), (3329, 117), (51, 118), (122, 118), (334, 118), (439, 118), (454, 118), (533, 118), (788, 118), (819, 118)],
    [(899, 118), (1096, 118), (1216, 118), (1391, 118), (1486, 118), (1596, 118), (1765, 118), (2166, 118), (2377, 118), (2808, 118)],
    [(2998, 118), (3330, 118), (52, 119), (123, 119), (335, 119), (352, 119), (455, 119), (534, 119), (789, 119), (820, 119)],
    [(900, 119), (1097, 119), (1217, 119), (1392, 119), (1487, 119), (1597, 119), (1766, 119), (2167, 119), (2378, 119), (2809, 119)],
    [(2999, 119), (3331, 119), (53, 120), (124, 120), (336, 120), (353, 120), (456, 120), (535, 120), (790, 120), (821, 120)],
    [(901, 120), (1098, 120), (1218, 120), (1393, 120), (1488, 120), (1598, 120), (1767, 120), (2168, 120), (2379, 120), (2810, 120)],
    [(3000, 120), (3332, 120), (54, 121), (125, 121), (337, 121), (354, 121), (457, 121), (536, 121), (791, 121), (822, 121)],
    [(902, 121), (1099, 121), (1219, 121), (1394, 121), (1489, 121), (1599, 121), (1768, 121), (2169, 121), (2380, 121), (2811, 121)],
    [(3001, 121), (3333, 121), (55, 122), (126, 122), (338, 122), (355, 122), (458, 122), (537, 122), (704, 122), (823, 122)],
    [(903, 122), (1100, 122), (1220, 122), (1395, 122), (1490, 122), (1600, 122), (1769, 122), (2170, 122), (2381, 122), (2812, 122)],
    [(3002, 122), (3334, 122), (56, 123), (127, 123), (339, 123), (356, 123), (459, 123), (538, 123), (705, 123), (824, 123)],
    [(904, 123), (1101, 123), (1221, 123), (1396, 123), (1491, 123), (1601, 123), (1770, 123), (2171, 123), (2382, 123), (2813, 123)],
    [(3003, 123), (3335, 123), (57, 124), (128, 124), (340, 124), (357, 124), (460, 124), (539, 124), (706, 124), (825, 124)],
    [(905, 124), (1102, 124), (1222, 124), (1397, 124), (1492, 124), (1602, 124), (1771, 124), (2172, 124), (2383, 124), (2814, 124)],
    [(3004, 124), (3336, 124), (58, 125), (129, 125), (341, 125), (358, 125), (461, 125), (540, 125), (707, 125), (826, 125)],
    [(906, 125), (1103, 125), (1223, 125), (1398, 125), (1493, 125), (1603, 125), (1772, 125), (2173, 125), (2384, 125), (2815, 125)],
    [(3005, 125), (3337, 125), (59, 126), (130, 126), (342, 126), (359, 126), (462, 126), (541, 126), (708, 126), (827, 126)],
    [(907, 126), (1104, 126), (1224, 126), (1399, 126), (1494, 126), (1604, 126), (1773, 126), (2174, 126), (2385, 126), (2728, 126)],
    [(3006, 126), (3338, 126), (60, 127), (131, 127), (343, 127), (360, 127), (463, 127), (542, 127), (709, 127), (828, 127)],
    [(908, 127), (1105, 127), (1225, 127), (1400, 127), (1495, 127), (1605, 127), (1774, 127), (2175, 127), (2386, 127), (2729, 127)],
    [(3007, 127), (3339, 127), (61, 128), (132, 128), (344, 128), (361, 128), (464, 128), (543, 128), (710, 128), (829, 128)],
    [(909, 128), (1106, 128), (1226, 128), (1401, 128), (1408, 128), (1606, 128), (1775, 128), (2176, 128), (2387, 128), (2730, 128)],
    [(3008, 128), (3340, 128), (62, 129), (133, 129), (345, 129), (362, 129), (465, 129), (544, 129), (711, 129), (830, 129)],
    [(910, 129), (1107, 129), (1227, 129), (1402, 129), (1409, 129), (1607, 129), (1776, 129), (2177, 129), (2388, 129), (2731, 129)],
    [(3009, 129), (3341, 129), (63, 130), (134, 130), (346, 130), (363, 130), (466, 130), (545, 130), (712, 130), (831, 130)],
    [(911, 130), (1108, 130), (1228, 130), (1403, 130), (1410, 130), (1608, 130), (1777, 130), (2178, 130), (2389, 130), (2732, 130)],
    [(3010, 130), (3342, 130), (64, 131), (135, 131), (347, 131), (364, 131), (467, 131), (546, 131), (713, 131), (832, 131)],
    [(912, 131), (1109, 131), (1229, 131), (1404, 131), (1411, 131), (1609, 131), (1778, 131), (2179, 131), (2390, 131), (2733, 131)],
    [(3011, 131), (3343, 131), (65, 132), (136, 132), (348, 132), (365, 132), (468, 132), (547, 132), (714, 132), (833, 132)],
    [(913, 132), (1110, 132), (1230, 132), (1405, 132), (1412, 132), (1610, 132), (1779, 132), (2180, 132), (2391, 132), (2734, 132)],
    [(3012, 132), (3256, 132), (66, 133), (137, 133), (349, 133), (366, 133), (469, 133), (548, 133), (715, 133), (834, 133)],
    [(914, 133), (1111, 133), (1231, 133), (1406, 133), (1413, 133), (1611, 133), (1780, 133), (2181, 133), (2392, 133), (2735, 133)],
    [(3013, 133), (3257, 133), (67, 134), (138, 134), (350, 134), (367, 134), (470, 134), (549, 134), (716, 134), (835, 134)],
    [(915, 134), (1112, 134), (1144, 134), (1407, 134), (1414, 134), (1612, 134), (1781, 134), (2182, 134), (2393, 134), (2736, 134)],
    [(3014, 134), (3258, 134), (68, 135), (139, 135), (351, 135), (368, 135), (471, 135), (550, 135), (717, 135), (836, 135)],
    [(916, 135), (1113, 135), (1145, 135), (1320, 135), (1415, 135), (1613, 135), (1782, 135), (2183, 135), (2394, 135), (2737, 135)],
    [(3015, 135), (3259, 135), (69, 136), (140, 136), (264, 136), (369, 136), (472, 136), (551, 136), (718, 136), (837, 136)],
    [(917, 136), (1114, 136), (1146, 136), (1321, 136), (1416, 136), (1614, 136), (1783, 136), (2184, 136), (2395, 136), (2738, 136)],
    [(3016, 136), (3260, 136), (70, 137), (141, 137), (265, 137), (370, 137), (473, 137), (552, 137), (719, 137), (838, 137)],
    [(918, 137), (1115, 137), (1147, 137), (1322, 137), (1417, 137), (1615, 137), (1784, 137), (2185, 137), (2396, 137), (2739, 137)],
    [(3017, 137), (3261, 137), (71, 138), (142, 138), (266, 138), (371, 138), (474, 138), (553, 138), (720, 138), (839, 138)],
    [(919, 138), (1116, 138), (1148, 138), (1323, 138), (1418, 138), (1616, 138), (1785, 138), (2186, 138), (2397, 138), (2740, 138)],
    [(3018, 138), (3262, 138), (72, 139), (143, 139), (267, 139), (372, 139), (475, 139), (554, 139), (721, 139), (840, 139)],
    [(920, 139), (1117, 139), (1149, 139), (1324, 139), (1419, 139), (1617, 139), (1786, 139), (2187, 139), (2398, 139), (2741, 139)],
    [(3019, 139), (3263, 139), (73, 140), (144, 140), (268, 140), (373, 140), (476, 140), (555, 140), (722, 140), (841, 140)],
    [(921, 140), (1118, 140), (1150, 140), (1325, 140), (1420, 140), (1618, 140), (1787, 140), (2188, 140), (2399, 140), (2742, 140)],
    [(3020, 140), (3264, 140), (74, 141), (145, 141), (269, 141), (374, 141), (477, 141), (556, 141), (723, 141), (842, 141)],
    [(922, 141), (1119, 141), (1151, 141), (1326, 141), (1421, 141), (1619, 141), (1788, 141), (2189, 141), (2400, 141), (2743, 141)],
    [(3021, 141), (3265, 141), (75, 142), (146, 142), (270, 142), (375, 142), (478, 142), (557, 142), (724, 142), (843, 142)],
    [(923, 142), (1120, 142), (1152, 142), (1327, 142), (1422, 142), (1620, 142), (1789, 142), (2190, 142), (2401, 142), (2744, 142)],
    [(3022, 142), (3266, 142), (76, 143), (147, 143), (271, 143), (376, 143), (479, 143), (558, 143), (725, 143), (844, 143)],
    [(924, 143), (1121, 143), (1153, 143), (1328, 143), (1423, 143), (1621, 143), (1790, 143), (2191, 143), (2402, 143), (2745, 143)],
    [(3023, 143), (3267, 143), (77, 144), (148, 144), (272, 144), (377, 144), (480, 144), (559, 144), (726, 144), (845, 144)],
    [(925, 144), (1122, 144), (1154, 144), (1329, 144), (1424, 144), (1622, 144), (1791, 144), (2192, 144), (2403, 144), (2746, 144)],
    [(3024, 144), (3268, 144), (78, 145), (149, 145), (273, 145), (378, 145), (481, 145), (560, 145), (727, 145), (846, 145)],
    [(926, 145), (1123, 145), (1155, 145), (1330, 145), (1425, 145), (1623, 145), (1792, 145), (2193, 145), (2404, 145), (2747, 145)],
    [(3025, 145), (3269, 145), (79, 146), (150, 146), (274, 146), (379, 146), (482, 146), (561, 146), (728, 146), (847, 146)],
    [(927, 146), (1124, 146), (1156, 146), (1331, 146), (1426, 146), (1624, 146), (1793, 146), (2194, 146), (2405, 146), (2748, 146)],
    [(3026, 146), (3270, 146), (80, 147), (151, 147), (275, 147), (380, 147), (483, 147), (562, 147), (729, 147), (848, 147)],
    [(928, 147), (1125, 147), (1157, 147), (1332, 147), (1427, 147), (1625, 147), (1794, 147), (2195, 147), (2406, 147), (2749, 147)],
    [(3027, 147), (3271, 147), (81, 148), (152, 148), (276, 148), (381, 148), (484, 148), (563, 148), (730, 148), (849, 148)],
    [(929, 148), (1126, 148), (1158, 148), (1333, 148), (1428, 148), (1626, 148), (1795, 148), (2196, 148), (2407, 148), (2750, 148)],
    [(3028, 148), (3272, 148), (82, 149), (153, 149), (277, 149), (382, 149), (485, 149), (564, 149), (731, 149), (850, 149)],
    [(930, 149), (1127, 149), (1159, 149), (1334, 149), (1429, 149), (1627, 149), (1796, 149), (2197, 149), (2408, 149), (2751, 149)],
    [(3029, 149), (3273, 149), (83, 150), (154, 150), (278, 150), (383, 150), (486, 150), (565, 150), (732, 150), (851, 150)],
    [(931, 150), (1128, 150), (1160, 150), (1335, 150), (1430, 150), (1628, 150), (1797, 150), (2198, 150), (2409, 150), (2752, 150)],
    [(3030, 150), (3274, 150), (84, 151), (155, 151), (279, 151), (384, 151), (487, 151), (566, 151), (733, 151), (852, 151)],
    [(932, 151), (1129, 151), (1161, 151), (1336, 151), (1431, 151), (1629, 151), (1798, 151), (2199, 151), (2410, 151), (2753, 151)]]"

definition SF3_C_ind_2 :: "(nat \<times> nat) list" where
  "SF3_C_ind_2 = concat [
    [(3031, 151), (3275, 151), (85, 152), (156, 152), (280, 152), (385, 152), (488, 152), (567, 152), (734, 152), (853, 152)],
    [(933, 152), (1130, 152), (1162, 152), (1337, 152), (1432, 152), (1630, 152), (1799, 152), (2112, 152), (2411, 152), (2754, 152)],
    [(3032, 152), (3276, 152), (86, 153), (157, 153), (281, 153), (386, 153), (489, 153), (568, 153), (735, 153), (854, 153)],
    [(934, 153), (1131, 153), (1163, 153), (1338, 153), (1433, 153), (1631, 153), (1800, 153), (2113, 153), (2412, 153), (2755, 153)],
    [(3033, 153), (3277, 153), (87, 154), (158, 154), (282, 154), (387, 154), (490, 154), (569, 154), (736, 154), (855, 154)],
    [(935, 154), (1132, 154), (1164, 154), (1339, 154), (1434, 154), (1632, 154), (1801, 154), (2114, 154), (2413, 154), (2756, 154)],
    [(3034, 154), (3278, 154), (0, 155), (159, 155), (283, 155), (388, 155), (491, 155), (570, 155), (737, 155), (856, 155)],
    [(936, 155), (1133, 155), (1165, 155), (1340, 155), (1435, 155), (1633, 155), (1802, 155), (2115, 155), (2414, 155), (2757, 155)],
    [(3035, 155), (3279, 155), (1, 156), (160, 156), (284, 156), (389, 156), (492, 156), (571, 156), (738, 156), (857, 156)],
    [(937, 156), (1134, 156), (1166, 156), (1341, 156), (1436, 156), (1634, 156), (1803, 156), (2116, 156), (2415, 156), (2758, 156)],
    [(3036, 156), (3280, 156), (2, 157), (161, 157), (285, 157), (390, 157), (493, 157), (572, 157), (739, 157), (858, 157)],
    [(938, 157), (1135, 157), (1167, 157), (1342, 157), (1437, 157), (1635, 157), (1804, 157), (2117, 157), (2416, 157), (2759, 157)],
    [(3037, 157), (3281, 157), (3, 158), (162, 158), (286, 158), (391, 158), (494, 158), (573, 158), (740, 158), (859, 158)],
    [(939, 158), (1136, 158), (1168, 158), (1343, 158), (1438, 158), (1636, 158), (1805, 158), (2118, 158), (2417, 158), (2760, 158)],
    [(3038, 158), (3282, 158), (4, 159), (163, 159), (287, 159), (392, 159), (495, 159), (574, 159), (741, 159), (860, 159)],
    [(940, 159), (1137, 159), (1169, 159), (1344, 159), (1439, 159), (1637, 159), (1806, 159), (2119, 159), (2418, 159), (2761, 159)],
    [(3039, 159), (3283, 159), (5, 160), (164, 160), (288, 160), (393, 160), (496, 160), (575, 160), (742, 160), (861, 160)],
    [(941, 160), (1138, 160), (1170, 160), (1345, 160), (1440, 160), (1638, 160), (1807, 160), (2120, 160), (2419, 160), (2762, 160)],
    [(3040, 160), (3284, 160), (6, 161), (165, 161), (289, 161), (394, 161), (497, 161), (576, 161), (743, 161), (862, 161)],
    [(942, 161), (1139, 161), (1171, 161), (1346, 161), (1441, 161), (1639, 161), (1808, 161), (2121, 161), (2420, 161), (2763, 161)],
    [(3041, 161), (3285, 161), (7, 162), (166, 162), (290, 162), (395, 162), (498, 162), (577, 162), (744, 162), (863, 162)],
    [(943, 162), (1140, 162), (1172, 162), (1347, 162), (1442, 162), (1640, 162), (1809, 162), (2122, 162), (2421, 162), (2764, 162)],
    [(3042, 162), (3286, 162), (8, 163), (167, 163), (291, 163), (396, 163), (499, 163), (578, 163), (745, 163), (864, 163)],
    [(944, 163), (1141, 163), (1173, 163), (1348, 163), (1443, 163), (1641, 163), (1810, 163), (2123, 163), (2422, 163), (2765, 163)],
    [(3043, 163), (3287, 163), (9, 164), (168, 164), (292, 164), (397, 164), (500, 164), (579, 164), (746, 164), (865, 164)],
    [(945, 164), (1142, 164), (1174, 164), (1349, 164), (1444, 164), (1642, 164), (1811, 164), (2124, 164), (2423, 164), (2766, 164)],
    [(3044, 164), (3288, 164), (10, 165), (169, 165), (293, 165), (398, 165), (501, 165), (580, 165), (747, 165), (866, 165)],
    [(946, 165), (1143, 165), (1175, 165), (1350, 165), (1445, 165), (1643, 165), (1812, 165), (2125, 165), (2424, 165), (2767, 165)],
    [(3045, 165), (3289, 165), (11, 166), (170, 166), (294, 166), (399, 166), (502, 166), (581, 166), (748, 166), (867, 166)],
    [(947, 166), (1056, 166), (1176, 166), (1351, 166), (1446, 166), (1644, 166), (1813, 166), (2126, 166), (2425, 166), (2768, 166)],
    [(3046, 166), (3290, 166), (12, 167), (171, 167), (295, 167), (400, 167), (503, 167), (582, 167), (749, 167), (868, 167)],
    [(948, 167), (1057, 167), (1177, 167), (1352, 167), (1447, 167), (1645, 167), (1814, 167), (2127, 167), (2426, 167), (2769, 167)],
    [(3047, 167), (3291, 167), (13, 168), (172, 168), (296, 168), (401, 168), (504, 168), (583, 168), (750, 168), (869, 168)],
    [(949, 168), (1058, 168), (1178, 168), (1353, 168), (1448, 168), (1646, 168), (1815, 168), (2128, 168), (2427, 168), (2770, 168)],
    [(3048, 168), (3292, 168), (14, 169), (173, 169), (297, 169), (402, 169), (505, 169), (584, 169), (751, 169), (870, 169)],
    [(950, 169), (1059, 169), (1179, 169), (1354, 169), (1449, 169), (1647, 169), (1816, 169), (2129, 169), (2428, 169), (2771, 169)],
    [(3049, 169), (3293, 169), (15, 170), (174, 170), (298, 170), (403, 170), (506, 170), (585, 170), (752, 170), (871, 170)],
    [(951, 170), (1060, 170), (1180, 170), (1355, 170), (1450, 170), (1648, 170), (1817, 170), (2130, 170), (2429, 170), (2772, 170)],
    [(3050, 170), (3294, 170), (16, 171), (175, 171), (299, 171), (404, 171), (507, 171), (586, 171), (753, 171), (872, 171)],
    [(952, 171), (1061, 171), (1181, 171), (1356, 171), (1451, 171), (1649, 171), (1818, 171), (2131, 171), (2430, 171), (2773, 171)],
    [(3051, 171), (3295, 171), (17, 172), (88, 172), (300, 172), (405, 172), (508, 172), (587, 172), (754, 172), (873, 172)],
    [(953, 172), (1062, 172), (1182, 172), (1357, 172), (1452, 172), (1650, 172), (1819, 172), (2132, 172), (2431, 172), (2774, 172)],
    [(3052, 172), (3296, 172), (18, 173), (89, 173), (301, 173), (406, 173), (509, 173), (588, 173), (755, 173), (874, 173)],
    [(954, 173), (1063, 173), (1183, 173), (1358, 173), (1453, 173), (1651, 173), (1820, 173), (2133, 173), (2432, 173), (2775, 173)],
    [(3053, 173), (3297, 173), (19, 174), (90, 174), (302, 174), (407, 174), (510, 174), (589, 174), (756, 174), (875, 174)],
    [(955, 174), (1064, 174), (1184, 174), (1359, 174), (1454, 174), (1652, 174), (1821, 174), (2134, 174), (2433, 174), (2776, 174)],
    [(3054, 174), (3298, 174), (20, 175), (91, 175), (303, 175), (408, 175), (511, 175), (590, 175), (757, 175), (876, 175)],
    [(956, 175), (1065, 175), (1185, 175), (1360, 175), (1455, 175), (1653, 175), (1822, 175), (2135, 175), (2434, 175), (2777, 175)],
    [(3055, 175), (3299, 175), (1597, 176), (1828, 176), (1988, 176), (2176, 176), (2292, 176), (2623, 176), (2838, 176), (3184, 176)],
    [(1598, 177), (1829, 177), (1989, 177), (2177, 177), (2293, 177), (2624, 177), (2839, 177), (3185, 177), (1599, 178), (1830, 178)],
    [(1990, 178), (2178, 178), (2294, 178), (2625, 178), (2840, 178), (3186, 178), (1600, 179), (1831, 179), (1991, 179), (2179, 179)],
    [(2295, 179), (2626, 179), (2841, 179), (3187, 179), (1601, 180), (1832, 180), (1992, 180), (2180, 180), (2296, 180), (2627, 180)],
    [(2842, 180), (3188, 180), (1602, 181), (1833, 181), (1993, 181), (2181, 181), (2297, 181), (2628, 181), (2843, 181), (3189, 181)],
    [(1603, 182), (1834, 182), (1994, 182), (2182, 182), (2298, 182), (2629, 182), (2844, 182), (3190, 182), (1604, 183), (1835, 183)],
    [(1995, 183), (2183, 183), (2299, 183), (2630, 183), (2845, 183), (3191, 183), (1605, 184), (1836, 184), (1996, 184), (2184, 184)],
    [(2300, 184), (2631, 184), (2846, 184), (3192, 184), (1606, 185), (1837, 185), (1997, 185), (2185, 185), (2301, 185), (2632, 185)],
    [(2847, 185), (3193, 185), (1607, 186), (1838, 186), (1998, 186), (2186, 186), (2302, 186), (2633, 186), (2848, 186), (3194, 186)],
    [(1608, 187), (1839, 187), (1999, 187), (2187, 187), (2303, 187), (2634, 187), (2849, 187), (3195, 187), (1609, 188), (1840, 188)],
    [(2000, 188), (2188, 188), (2304, 188), (2635, 188), (2850, 188), (3196, 188), (1610, 189), (1841, 189), (2001, 189), (2189, 189)],
    [(2305, 189), (2636, 189), (2851, 189), (3197, 189), (1611, 190), (1842, 190), (2002, 190), (2190, 190), (2306, 190), (2637, 190)],
    [(2852, 190), (3198, 190), (1612, 191), (1843, 191), (2003, 191), (2191, 191), (2307, 191), (2638, 191), (2853, 191), (3199, 191)],
    [(1613, 192), (1844, 192), (2004, 192), (2192, 192), (2308, 192), (2639, 192), (2854, 192), (3200, 192), (1614, 193), (1845, 193)],
    [(2005, 193), (2193, 193), (2309, 193), (2552, 193), (2855, 193), (3201, 193), (1615, 194), (1846, 194), (2006, 194), (2194, 194)],
    [(2310, 194), (2553, 194), (2856, 194), (3202, 194), (1616, 195), (1847, 195), (2007, 195), (2195, 195), (2311, 195), (2554, 195)],
    [(2857, 195), (3203, 195), (1617, 196), (1760, 196), (2008, 196), (2196, 196), (2312, 196), (2555, 196), (2858, 196), (3204, 196)],
    [(1618, 197), (1761, 197), (2009, 197), (2197, 197), (2313, 197), (2556, 197), (2859, 197), (3205, 197), (1619, 198), (1762, 198)],
    [(2010, 198), (2198, 198), (2314, 198), (2557, 198), (2860, 198), (3206, 198), (1620, 199), (1763, 199), (2011, 199), (2199, 199)],
    [(2315, 199), (2558, 199), (2861, 199), (3207, 199), (1621, 200), (1764, 200), (2012, 200), (2112, 200), (2316, 200), (2559, 200)],
    [(2862, 200), (3208, 200), (1622, 201), (1765, 201), (2013, 201), (2113, 201), (2317, 201), (2560, 201), (2863, 201), (3209, 201)],
    [(1623, 202), (1766, 202), (2014, 202), (2114, 202), (2318, 202), (2561, 202), (2864, 202), (3210, 202), (1624, 203), (1767, 203)],
    [(2015, 203), (2115, 203), (2319, 203), (2562, 203), (2865, 203), (3211, 203), (1625, 204), (1768, 204), (2016, 204), (2116, 204)],
    [(2320, 204), (2563, 204), (2866, 204), (3212, 204), (1626, 205), (1769, 205), (2017, 205), (2117, 205), (2321, 205), (2564, 205)],
    [(2867, 205), (3213, 205), (1627, 206), (1770, 206), (2018, 206), (2118, 206), (2322, 206), (2565, 206), (2868, 206), (3214, 206)],
    [(1628, 207), (1771, 207), (2019, 207), (2119, 207), (2323, 207), (2566, 207), (2869, 207), (3215, 207), (1629, 208), (1772, 208)],
    [(2020, 208), (2120, 208), (2324, 208), (2567, 208), (2870, 208), (3216, 208), (1630, 209), (1773, 209), (2021, 209), (2121, 209)],
    [(2325, 209), (2568, 209), (2871, 209), (3217, 209), (1631, 210), (1774, 210), (2022, 210), (2122, 210), (2326, 210), (2569, 210)],
    [(2872, 210), (3218, 210), (1632, 211), (1775, 211), (2023, 211), (2123, 211), (2327, 211), (2570, 211), (2873, 211), (3219, 211)],
    [(1633, 212), (1776, 212), (1936, 212), (2124, 212), (2328, 212), (2571, 212), (2874, 212), (3220, 212), (1634, 213), (1777, 213)],
    [(1937, 213), (2125, 213), (2329, 213), (2572, 213), (2875, 213), (3221, 213), (1635, 214), (1778, 214), (1938, 214), (2126, 214)],
    [(2330, 214), (2573, 214), (2876, 214), (3222, 214), (1636, 215), (1779, 215), (1939, 215), (2127, 215), (2331, 215), (2574, 215)],
    [(2877, 215), (3223, 215), (1637, 216), (1780, 216), (1940, 216), (2128, 216), (2332, 216), (2575, 216), (2878, 216), (3224, 216)],
    [(1638, 217), (1781, 217), (1941, 217), (2129, 217), (2333, 217), (2576, 217), (2879, 217), (3225, 217), (1639, 218), (1782, 218)],
    [(1942, 218), (2130, 218), (2334, 218), (2577, 218), (2880, 218), (3226, 218), (1640, 219), (1783, 219), (1943, 219), (2131, 219)],
    [(2335, 219), (2578, 219), (2881, 219), (3227, 219), (1641, 220), (1784, 220), (1944, 220), (2132, 220), (2336, 220), (2579, 220)],
    [(2882, 220), (3228, 220), (1642, 221), (1785, 221), (1945, 221), (2133, 221), (2337, 221), (2580, 221), (2883, 221), (3229, 221)],
    [(1643, 222), (1786, 222), (1946, 222), (2134, 222), (2338, 222), (2581, 222), (2884, 222), (3230, 222), (1644, 223), (1787, 223)],
    [(1947, 223), (2135, 223), (2339, 223), (2582, 223), (2885, 223), (3231, 223), (1645, 224), (1788, 224), (1948, 224), (2136, 224)],
    [(2340, 224), (2583, 224), (2886, 224), (3232, 224), (1646, 225), (1789, 225), (1949, 225), (2137, 225), (2341, 225), (2584, 225)],
    [(2887, 225), (3233, 225), (1647, 226), (1790, 226), (1950, 226), (2138, 226), (2342, 226), (2585, 226), (2888, 226), (3234, 226)],
    [(1648, 227), (1791, 227), (1951, 227), (2139, 227), (2343, 227), (2586, 227), (2889, 227), (3235, 227), (1649, 228), (1792, 228)],
    [(1952, 228), (2140, 228), (2344, 228), (2587, 228), (2890, 228), (3236, 228), (1650, 229), (1793, 229), (1953, 229), (2141, 229)],
    [(2345, 229), (2588, 229), (2891, 229), (3237, 229), (1651, 230), (1794, 230), (1954, 230), (2142, 230), (2346, 230), (2589, 230)],
    [(2892, 230), (3238, 230), (1652, 231), (1795, 231), (1955, 231), (2143, 231), (2347, 231), (2590, 231), (2893, 231), (3239, 231)],
    [(1653, 232), (1796, 232), (1956, 232), (2144, 232), (2348, 232), (2591, 232), (2894, 232), (3240, 232), (1654, 233), (1797, 233)],
    [(1957, 233), (2145, 233), (2349, 233), (2592, 233), (2895, 233), (3241, 233), (1655, 234), (1798, 234), (1958, 234), (2146, 234)],
    [(2350, 234), (2593, 234), (2896, 234), (3242, 234), (1656, 235), (1799, 235), (1959, 235), (2147, 235), (2351, 235), (2594, 235)],
    [(2897, 235), (3243, 235), (1657, 236), (1800, 236), (1960, 236), (2148, 236), (2352, 236), (2595, 236), (2898, 236), (3244, 236)],
    [(1658, 237), (1801, 237), (1961, 237), (2149, 237), (2353, 237), (2596, 237), (2899, 237), (3245, 237), (1659, 238), (1802, 238)],
    [(1962, 238), (2150, 238), (2354, 238), (2597, 238), (2900, 238), (3246, 238), (1660, 239), (1803, 239), (1963, 239), (2151, 239)],
    [(2355, 239), (2598, 239), (2901, 239), (3247, 239), (1661, 240), (1804, 240), (1964, 240), (2152, 240), (2356, 240), (2599, 240)],
    [(2902, 240), (3248, 240), (1662, 241), (1805, 241), (1965, 241), (2153, 241), (2357, 241), (2600, 241), (2903, 241), (3249, 241)],
    [(1663, 242), (1806, 242), (1966, 242), (2154, 242), (2358, 242), (2601, 242), (2816, 242), (3250, 242), (1664, 243), (1807, 243)],
    [(1967, 243), (2155, 243), (2359, 243), (2602, 243), (2817, 243), (3251, 243), (1665, 244), (1808, 244), (1968, 244), (2156, 244)],
    [(2360, 244), (2603, 244), (2818, 244), (3252, 244), (1666, 245), (1809, 245), (1969, 245), (2157, 245), (2361, 245), (2604, 245)],
    [(2819, 245), (3253, 245), (1667, 246), (1810, 246), (1970, 246), (2158, 246), (2362, 246), (2605, 246), (2820, 246), (3254, 246)],
    [(1668, 247), (1811, 247), (1971, 247), (2159, 247), (2363, 247), (2606, 247), (2821, 247), (3255, 247), (1669, 248), (1812, 248)],
    [(1972, 248), (2160, 248), (2364, 248), (2607, 248), (2822, 248), (3168, 248), (1670, 249), (1813, 249), (1973, 249), (2161, 249)],
    [(2365, 249), (2608, 249), (2823, 249), (3169, 249), (1671, 250), (1814, 250), (1974, 250), (2162, 250), (2366, 250), (2609, 250)],
    [(2824, 250), (3170, 250), (1584, 251), (1815, 251), (1975, 251), (2163, 251), (2367, 251), (2610, 251), (2825, 251), (3171, 251)],
    [(1585, 252), (1816, 252), (1976, 252), (2164, 252), (2368, 252), (2611, 252), (2826, 252), (3172, 252), (1586, 253), (1817, 253)],
    [(1977, 253), (2165, 253), (2369, 253), (2612, 253), (2827, 253), (3173, 253), (1587, 254), (1818, 254), (1978, 254), (2166, 254)],
    [(2370, 254), (2613, 254), (2828, 254), (3174, 254), (1588, 255), (1819, 255), (1979, 255), (2167, 255), (2371, 255), (2614, 255)],
    [(2829, 255), (3175, 255), (1589, 256), (1820, 256), (1980, 256), (2168, 256), (2372, 256), (2615, 256), (2830, 256), (3176, 256)],
    [(1590, 257), (1821, 257), (1981, 257), (2169, 257), (2373, 257), (2616, 257), (2831, 257), (3177, 257), (1591, 258), (1822, 258)],
    [(1982, 258), (2170, 258), (2374, 258), (2617, 258), (2832, 258), (3178, 258), (1592, 259), (1823, 259), (1983, 259), (2171, 259)],
    [(2375, 259), (2618, 259), (2833, 259), (3179, 259), (1593, 260), (1824, 260), (1984, 260), (2172, 260), (2288, 260), (2619, 260)],
    [(2834, 260), (3180, 260), (1594, 261), (1825, 261), (1985, 261), (2173, 261), (2289, 261), (2620, 261), (2835, 261), (3181, 261)],
    [(1595, 262), (1826, 262), (1986, 262), (2174, 262), (2290, 262), (2621, 262), (2836, 262), (3182, 262), (1596, 263), (1827, 263)],
    [(1987, 263), (2175, 263), (2291, 263), (2622, 263), (2837, 263), (3183, 263), (781, 264), (1716, 264), (782, 265), (1717, 265)],
    [(783, 266), (1718, 266), (784, 267), (1719, 267), (785, 268), (1720, 268), (786, 269), (1721, 269), (787, 270), (1722, 270)],
    [(788, 271), (1723, 271), (789, 272), (1724, 272), (790, 273), (1725, 273), (791, 274), (1726, 274), (704, 275), (1727, 275)],
    [(705, 276), (1728, 276), (706, 277), (1729, 277), (707, 278), (1730, 278), (708, 279), (1731, 279), (709, 280), (1732, 280)],
    [(710, 281), (1733, 281), (711, 282), (1734, 282), (712, 283), (1735, 283), (713, 284), (1736, 284), (714, 285), (1737, 285)],
    [(715, 286), (1738, 286), (716, 287), (1739, 287), (717, 288), (1740, 288), (718, 289), (1741, 289), (719, 290), (1742, 290)],
    [(720, 291), (1743, 291), (721, 292), (1744, 292), (722, 293), (1745, 293), (723, 294), (1746, 294), (724, 295), (1747, 295)],
    [(725, 296), (1748, 296), (726, 297), (1749, 297), (727, 298), (1750, 298), (728, 299), (1751, 299), (729, 300), (1752, 300)],
    [(730, 301), (1753, 301), (731, 302), (1754, 302), (732, 303), (1755, 303), (733, 304), (1756, 304), (734, 305), (1757, 305)],
    [(735, 306), (1758, 306), (736, 307), (1759, 307), (737, 308), (1672, 308), (738, 309), (1673, 309), (739, 310), (1674, 310)],
    [(740, 311), (1675, 311), (741, 312), (1676, 312), (742, 313), (1677, 313), (743, 314), (1678, 314), (744, 315), (1679, 315)],
    [(745, 316), (1680, 316), (746, 317), (1681, 317), (747, 318), (1682, 318), (748, 319), (1683, 319), (749, 320), (1684, 320)],
    [(750, 321), (1685, 321), (751, 322), (1686, 322), (752, 323), (1687, 323), (753, 324), (1688, 324), (754, 325), (1689, 325)],
    [(755, 326), (1690, 326), (756, 327), (1691, 327), (757, 328), (1692, 328), (758, 329), (1693, 329), (759, 330), (1694, 330)],
    [(760, 331), (1695, 331), (761, 332), (1696, 332), (762, 333), (1697, 333), (763, 334), (1698, 334), (764, 335), (1699, 335)],
    [(765, 336), (1700, 336), (766, 337), (1701, 337), (767, 338), (1702, 338), (768, 339), (1703, 339), (769, 340), (1704, 340)],
    [(770, 341), (1705, 341), (771, 342), (1706, 342), (772, 343), (1707, 343), (773, 344), (1708, 344), (774, 345), (1709, 345)],
    [(775, 346), (1710, 346), (776, 347), (1711, 347), (777, 348), (1712, 348), (778, 349), (1713, 349), (779, 350), (1714, 350)],
    [(780, 351), (1715, 351), (1444, 352), (2215, 352), (1445, 353), (2216, 353), (1446, 354), (2217, 354), (1447, 355), (2218, 355)],
    [(1448, 356), (2219, 356), (1449, 357), (2220, 357), (1450, 358), (2221, 358), (1451, 359), (2222, 359), (1452, 360), (2223, 360)],
    [(1453, 361), (2224, 361), (1454, 362), (2225, 362), (1455, 363), (2226, 363), (1456, 364), (2227, 364), (1457, 365), (2228, 365)],
    [(1458, 366), (2229, 366), (1459, 367), (2230, 367), (1460, 368), (2231, 368), (1461, 369), (2232, 369), (1462, 370), (2233, 370)],
    [(1463, 371), (2234, 371), (1464, 372), (2235, 372), (1465, 373), (2236, 373), (1466, 374), (2237, 374), (1467, 375), (2238, 375)],
    [(1468, 376), (2239, 376), (1469, 377), (2240, 377), (1470, 378), (2241, 378), (1471, 379), (2242, 379), (1472, 380), (2243, 380)],
    [(1473, 381), (2244, 381), (1474, 382), (2245, 382), (1475, 383), (2246, 383), (1476, 384), (2247, 384), (1477, 385), (2248, 385)],
    [(1478, 386), (2249, 386), (1479, 387), (2250, 387), (1480, 388), (2251, 388), (1481, 389), (2252, 389), (1482, 390), (2253, 390)],
    [(1483, 391), (2254, 391), (1484, 392), (2255, 392), (1485, 393), (2256, 393), (1486, 394), (2257, 394), (1487, 395), (2258, 395)],
    [(1488, 396), (2259, 396), (1489, 397), (2260, 397), (1490, 398), (2261, 398), (1491, 399), (2262, 399), (1492, 400), (2263, 400)],
    [(1493, 401), (2264, 401), (1494, 402), (2265, 402), (1495, 403), (2266, 403), (1408, 404), (2267, 404), (1409, 405), (2268, 405)],
    [(1410, 406), (2269, 406), (1411, 407), (2270, 407), (1412, 408), (2271, 408), (1413, 409), (2272, 409), (1414, 410), (2273, 410)]]"

definition SF3_C_ind_3 :: "(nat \<times> nat) list" where
  "SF3_C_ind_3 = concat [
    [(1415, 411), (2274, 411), (1416, 412), (2275, 412), (1417, 413), (2276, 413), (1418, 414), (2277, 414), (1419, 415), (2278, 415)],
    [(1420, 416), (2279, 416), (1421, 417), (2280, 417), (1422, 418), (2281, 418), (1423, 419), (2282, 419), (1424, 420), (2283, 420)],
    [(1425, 421), (2284, 421), (1426, 422), (2285, 422), (1427, 423), (2286, 423), (1428, 424), (2287, 424), (1429, 425), (2200, 425)],
    [(1430, 426), (2201, 426), (1431, 427), (2202, 427), (1432, 428), (2203, 428), (1433, 429), (2204, 429), (1434, 430), (2205, 430)],
    [(1435, 431), (2206, 431), (1436, 432), (2207, 432), (1437, 433), (2208, 433), (1438, 434), (2209, 434), (1439, 435), (2210, 435)],
    [(1440, 436), (2211, 436), (1441, 437), (2212, 437), (1442, 438), (2213, 438), (1443, 439), (2214, 439), (141, 440), (198, 440)],
    [(315, 440), (1209, 440), (1698, 440), (1888, 440), (2139, 440), (2291, 440), (2479, 440), (2752, 440), (3073, 440), (3338, 440)],
    [(142, 441), (199, 441), (316, 441), (1210, 441), (1699, 441), (1889, 441), (2140, 441), (2292, 441), (2480, 441), (2753, 441)],
    [(3074, 441), (3339, 441), (143, 442), (200, 442), (317, 442), (1211, 442), (1700, 442), (1890, 442), (2141, 442), (2293, 442)],
    [(2481, 442), (2754, 442), (3075, 442), (3340, 442), (144, 443), (201, 443), (318, 443), (1212, 443), (1701, 443), (1891, 443)],
    [(2142, 443), (2294, 443), (2482, 443), (2755, 443), (3076, 443), (3341, 443), (145, 444), (202, 444), (319, 444), (1213, 444)],
    [(1702, 444), (1892, 444), (2143, 444), (2295, 444), (2483, 444), (2756, 444), (3077, 444), (3342, 444), (146, 445), (203, 445)],
    [(320, 445), (1214, 445), (1703, 445), (1893, 445), (2144, 445), (2296, 445), (2484, 445), (2757, 445), (3078, 445), (3343, 445)],
    [(147, 446), (204, 446), (321, 446), (1215, 446), (1704, 446), (1894, 446), (2145, 446), (2297, 446), (2485, 446), (2758, 446)],
    [(3079, 446), (3256, 446), (148, 447), (205, 447), (322, 447), (1216, 447), (1705, 447), (1895, 447), (2146, 447), (2298, 447)],
    [(2486, 447), (2759, 447), (2992, 447), (3257, 447), (149, 448), (206, 448), (323, 448), (1217, 448), (1706, 448), (1896, 448)],
    [(2147, 448), (2299, 448), (2487, 448), (2760, 448), (2993, 448), (3258, 448), (150, 449), (207, 449), (324, 449), (1218, 449)],
    [(1707, 449), (1897, 449), (2148, 449), (2300, 449), (2488, 449), (2761, 449), (2994, 449), (3259, 449), (151, 450), (208, 450)],
    [(325, 450), (1219, 450), (1708, 450), (1898, 450), (2149, 450), (2301, 450), (2489, 450), (2762, 450), (2995, 450), (3260, 450)],
    [(152, 451), (209, 451), (326, 451), (1220, 451), (1709, 451), (1899, 451), (2150, 451), (2302, 451), (2490, 451), (2763, 451)],
    [(2996, 451), (3261, 451), (153, 452), (210, 452), (327, 452), (1221, 452), (1710, 452), (1900, 452), (2151, 452), (2303, 452)],
    [(2491, 452), (2764, 452), (2997, 452), (3262, 452), (154, 453), (211, 453), (328, 453), (1222, 453), (1711, 453), (1901, 453)],
    [(2152, 453), (2304, 453), (2492, 453), (2765, 453), (2998, 453), (3263, 453), (155, 454), (212, 454), (329, 454), (1223, 454)],
    [(1712, 454), (1902, 454), (2153, 454), (2305, 454), (2493, 454), (2766, 454), (2999, 454), (3264, 454), (156, 455), (213, 455)],
    [(330, 455), (1224, 455), (1713, 455), (1903, 455), (2154, 455), (2306, 455), (2494, 455), (2767, 455), (3000, 455), (3265, 455)],
    [(157, 456), (214, 456), (331, 456), (1225, 456), (1714, 456), (1904, 456), (2155, 456), (2307, 456), (2495, 456), (2768, 456)],
    [(3001, 456), (3266, 456), (158, 457), (215, 457), (332, 457), (1226, 457), (1715, 457), (1905, 457), (2156, 457), (2308, 457)],
    [(2496, 457), (2769, 457), (3002, 457), (3267, 457), (159, 458), (216, 458), (333, 458), (1227, 458), (1716, 458), (1906, 458)],
    [(2157, 458), (2309, 458), (2497, 458), (2770, 458), (3003, 458), (3268, 458), (160, 459), (217, 459), (334, 459), (1228, 459)],
    [(1717, 459), (1907, 459), (2158, 459), (2310, 459), (2498, 459), (2771, 459), (3004, 459), (3269, 459), (161, 460), (218, 460)],
    [(335, 460), (1229, 460), (1718, 460), (1908, 460), (2159, 460), (2311, 460), (2499, 460), (2772, 460), (3005, 460), (3270, 460)],
    [(162, 461), (219, 461), (336, 461), (1230, 461), (1719, 461), (1909, 461), (2160, 461), (2312, 461), (2500, 461), (2773, 461)],
    [(3006, 461), (3271, 461), (163, 462), (220, 462), (337, 462), (1231, 462), (1720, 462), (1910, 462), (2161, 462), (2313, 462)],
    [(2501, 462), (2774, 462), (3007, 462), (3272, 462), (164, 463), (221, 463), (338, 463), (1144, 463), (1721, 463), (1911, 463)],
    [(2162, 463), (2314, 463), (2502, 463), (2775, 463), (3008, 463), (3273, 463), (165, 464), (222, 464), (339, 464), (1145, 464)],
    [(1722, 464), (1912, 464), (2163, 464), (2315, 464), (2503, 464), (2776, 464), (3009, 464), (3274, 464), (166, 465), (223, 465)],
    [(340, 465), (1146, 465), (1723, 465), (1913, 465), (2164, 465), (2316, 465), (2504, 465), (2777, 465), (3010, 465), (3275, 465)],
    [(167, 466), (224, 466), (341, 466), (1147, 466), (1724, 466), (1914, 466), (2165, 466), (2317, 466), (2505, 466), (2778, 466)],
    [(3011, 466), (3276, 466), (168, 467), (225, 467), (342, 467), (1148, 467), (1725, 467), (1915, 467), (2166, 467), (2318, 467)],
    [(2506, 467), (2779, 467), (3012, 467), (3277, 467), (169, 468), (226, 468), (343, 468), (1149, 468), (1726, 468), (1916, 468)],
    [(2167, 468), (2319, 468), (2507, 468), (2780, 468), (3013, 468), (3278, 468), (170, 469), (227, 469), (344, 469), (1150, 469)],
    [(1727, 469), (1917, 469), (2168, 469), (2320, 469), (2508, 469), (2781, 469), (3014, 469), (3279, 469), (171, 470), (228, 470)],
    [(345, 470), (1151, 470), (1728, 470), (1918, 470), (2169, 470), (2321, 470), (2509, 470), (2782, 470), (3015, 470), (3280, 470)],
    [(172, 471), (229, 471), (346, 471), (1152, 471), (1729, 471), (1919, 471), (2170, 471), (2322, 471), (2510, 471), (2783, 471)],
    [(3016, 471), (3281, 471), (173, 472), (230, 472), (347, 472), (1153, 472), (1730, 472), (1920, 472), (2171, 472), (2323, 472)],
    [(2511, 472), (2784, 472), (3017, 472), (3282, 472), (174, 473), (231, 473), (348, 473), (1154, 473), (1731, 473), (1921, 473)],
    [(2172, 473), (2324, 473), (2512, 473), (2785, 473), (3018, 473), (3283, 473), (175, 474), (232, 474), (349, 474), (1155, 474)],
    [(1732, 474), (1922, 474), (2173, 474), (2325, 474), (2513, 474), (2786, 474), (3019, 474), (3284, 474), (88, 475), (233, 475)],
    [(350, 475), (1156, 475), (1733, 475), (1923, 475), (2174, 475), (2326, 475), (2514, 475), (2787, 475), (3020, 475), (3285, 475)],
    [(89, 476), (234, 476), (351, 476), (1157, 476), (1734, 476), (1924, 476), (2175, 476), (2327, 476), (2515, 476), (2788, 476)],
    [(3021, 476), (3286, 476), (90, 477), (235, 477), (264, 477), (1158, 477), (1735, 477), (1925, 477), (2176, 477), (2328, 477)],
    [(2516, 477), (2789, 477), (3022, 477), (3287, 477), (91, 478), (236, 478), (265, 478), (1159, 478), (1736, 478), (1926, 478)],
    [(2177, 478), (2329, 478), (2517, 478), (2790, 478), (3023, 478), (3288, 478), (92, 479), (237, 479), (266, 479), (1160, 479)],
    [(1737, 479), (1927, 479), (2178, 479), (2330, 479), (2518, 479), (2791, 479), (3024, 479), (3289, 479), (93, 480), (238, 480)],
    [(267, 480), (1161, 480), (1738, 480), (1928, 480), (2179, 480), (2331, 480), (2519, 480), (2792, 480), (3025, 480), (3290, 480)],
    [(94, 481), (239, 481), (268, 481), (1162, 481), (1739, 481), (1929, 481), (2180, 481), (2332, 481), (2520, 481), (2793, 481)],
    [(3026, 481), (3291, 481), (95, 482), (240, 482), (269, 482), (1163, 482), (1740, 482), (1930, 482), (2181, 482), (2333, 482)],
    [(2521, 482), (2794, 482), (3027, 482), (3292, 482), (96, 483), (241, 483), (270, 483), (1164, 483), (1741, 483), (1931, 483)],
    [(2182, 483), (2334, 483), (2522, 483), (2795, 483), (3028, 483), (3293, 483), (97, 484), (242, 484), (271, 484), (1165, 484)],
    [(1742, 484), (1932, 484), (2183, 484), (2335, 484), (2523, 484), (2796, 484), (3029, 484), (3294, 484), (98, 485), (243, 485)],
    [(272, 485), (1166, 485), (1743, 485), (1933, 485), (2184, 485), (2336, 485), (2524, 485), (2797, 485), (3030, 485), (3295, 485)],
    [(99, 486), (244, 486), (273, 486), (1167, 486), (1744, 486), (1934, 486), (2185, 486), (2337, 486), (2525, 486), (2798, 486)],
    [(3031, 486), (3296, 486), (100, 487), (245, 487), (274, 487), (1168, 487), (1745, 487), (1935, 487), (2186, 487), (2338, 487)],
    [(2526, 487), (2799, 487), (3032, 487), (3297, 487), (101, 488), (246, 488), (275, 488), (1169, 488), (1746, 488), (1848, 488)],
    [(2187, 488), (2339, 488), (2527, 488), (2800, 488), (3033, 488), (3298, 488), (102, 489), (247, 489), (276, 489), (1170, 489)],
    [(1747, 489), (1849, 489), (2188, 489), (2340, 489), (2528, 489), (2801, 489), (3034, 489), (3299, 489), (103, 490), (248, 490)],
    [(277, 490), (1171, 490), (1748, 490), (1850, 490), (2189, 490), (2341, 490), (2529, 490), (2802, 490), (3035, 490), (3300, 490)],
    [(104, 491), (249, 491), (278, 491), (1172, 491), (1749, 491), (1851, 491), (2190, 491), (2342, 491), (2530, 491), (2803, 491)],
    [(3036, 491), (3301, 491), (105, 492), (250, 492), (279, 492), (1173, 492), (1750, 492), (1852, 492), (2191, 492), (2343, 492)],
    [(2531, 492), (2804, 492), (3037, 492), (3302, 492), (106, 493), (251, 493), (280, 493), (1174, 493), (1751, 493), (1853, 493)],
    [(2192, 493), (2344, 493), (2532, 493), (2805, 493), (3038, 493), (3303, 493), (107, 494), (252, 494), (281, 494), (1175, 494)],
    [(1752, 494), (1854, 494), (2193, 494), (2345, 494), (2533, 494), (2806, 494), (3039, 494), (3304, 494), (108, 495), (253, 495)],
    [(282, 495), (1176, 495), (1753, 495), (1855, 495), (2194, 495), (2346, 495), (2534, 495), (2807, 495), (3040, 495), (3305, 495)],
    [(109, 496), (254, 496), (283, 496), (1177, 496), (1754, 496), (1856, 496), (2195, 496), (2347, 496), (2535, 496), (2808, 496)],
    [(3041, 496), (3306, 496), (110, 497), (255, 497), (284, 497), (1178, 497), (1755, 497), (1857, 497), (2196, 497), (2348, 497)],
    [(2536, 497), (2809, 497), (3042, 497), (3307, 497), (111, 498), (256, 498), (285, 498), (1179, 498), (1756, 498), (1858, 498)],
    [(2197, 498), (2349, 498), (2537, 498), (2810, 498), (3043, 498), (3308, 498), (112, 499), (257, 499), (286, 499), (1180, 499)],
    [(1757, 499), (1859, 499), (2198, 499), (2350, 499), (2538, 499), (2811, 499), (3044, 499), (3309, 499), (113, 500), (258, 500)],
    [(287, 500), (1181, 500), (1758, 500), (1860, 500), (2199, 500), (2351, 500), (2539, 500), (2812, 500), (3045, 500), (3310, 500)],
    [(114, 501), (259, 501), (288, 501), (1182, 501), (1759, 501), (1861, 501), (2112, 501), (2352, 501), (2540, 501), (2813, 501)],
    [(3046, 501), (3311, 501), (115, 502), (260, 502), (289, 502), (1183, 502), (1672, 502), (1862, 502), (2113, 502), (2353, 502)],
    [(2541, 502), (2814, 502), (3047, 502), (3312, 502), (116, 503), (261, 503), (290, 503), (1184, 503), (1673, 503), (1863, 503)],
    [(2114, 503), (2354, 503), (2542, 503), (2815, 503), (3048, 503), (3313, 503), (117, 504), (262, 504), (291, 504), (1185, 504)],
    [(1674, 504), (1864, 504), (2115, 504), (2355, 504), (2543, 504), (2728, 504), (3049, 504), (3314, 504), (118, 505), (263, 505)],
    [(292, 505), (1186, 505), (1675, 505), (1865, 505), (2116, 505), (2356, 505), (2544, 505), (2729, 505), (3050, 505), (3315, 505)],
    [(119, 506), (176, 506), (293, 506), (1187, 506), (1676, 506), (1866, 506), (2117, 506), (2357, 506), (2545, 506), (2730, 506)],
    [(3051, 506), (3316, 506), (120, 507), (177, 507), (294, 507), (1188, 507), (1677, 507), (1867, 507), (2118, 507), (2358, 507)],
    [(2546, 507), (2731, 507), (3052, 507), (3317, 507), (121, 508), (178, 508), (295, 508), (1189, 508), (1678, 508), (1868, 508)],
    [(2119, 508), (2359, 508), (2547, 508), (2732, 508), (3053, 508), (3318, 508), (122, 509), (179, 509), (296, 509), (1190, 509)],
    [(1679, 509), (1869, 509), (2120, 509), (2360, 509), (2548, 509), (2733, 509), (3054, 509), (3319, 509), (123, 510), (180, 510)],
    [(297, 510), (1191, 510), (1680, 510), (1870, 510), (2121, 510), (2361, 510), (2549, 510), (2734, 510), (3055, 510), (3320, 510)],
    [(124, 511), (181, 511), (298, 511), (1192, 511), (1681, 511), (1871, 511), (2122, 511), (2362, 511), (2550, 511), (2735, 511)],
    [(3056, 511), (3321, 511), (125, 512), (182, 512), (299, 512), (1193, 512), (1682, 512), (1872, 512), (2123, 512), (2363, 512)],
    [(2551, 512), (2736, 512), (3057, 512), (3322, 512), (126, 513), (183, 513), (300, 513), (1194, 513), (1683, 513), (1873, 513)],
    [(2124, 513), (2364, 513), (2464, 513), (2737, 513), (3058, 513), (3323, 513), (127, 514), (184, 514), (301, 514), (1195, 514)],
    [(1684, 514), (1874, 514), (2125, 514), (2365, 514), (2465, 514), (2738, 514), (3059, 514), (3324, 514), (128, 515), (185, 515)],
    [(302, 515), (1196, 515), (1685, 515), (1875, 515), (2126, 515), (2366, 515), (2466, 515), (2739, 515), (3060, 515), (3325, 515)],
    [(129, 516), (186, 516), (303, 516), (1197, 516), (1686, 516), (1876, 516), (2127, 516), (2367, 516), (2467, 516), (2740, 516)],
    [(3061, 516), (3326, 516), (130, 517), (187, 517), (304, 517), (1198, 517), (1687, 517), (1877, 517), (2128, 517), (2368, 517)],
    [(2468, 517), (2741, 517), (3062, 517), (3327, 517), (131, 518), (188, 518), (305, 518), (1199, 518), (1688, 518), (1878, 518)],
    [(2129, 518), (2369, 518), (2469, 518), (2742, 518), (3063, 518), (3328, 518), (132, 519), (189, 519), (306, 519), (1200, 519)],
    [(1689, 519), (1879, 519), (2130, 519), (2370, 519), (2470, 519), (2743, 519), (3064, 519), (3329, 519), (133, 520), (190, 520)],
    [(307, 520), (1201, 520), (1690, 520), (1880, 520), (2131, 520), (2371, 520), (2471, 520), (2744, 520), (3065, 520), (3330, 520)],
    [(134, 521), (191, 521), (308, 521), (1202, 521), (1691, 521), (1881, 521), (2132, 521), (2372, 521), (2472, 521), (2745, 521)],
    [(3066, 521), (3331, 521), (135, 522), (192, 522), (309, 522), (1203, 522), (1692, 522), (1882, 522), (2133, 522), (2373, 522)],
    [(2473, 522), (2746, 522), (3067, 522), (3332, 522), (136, 523), (193, 523), (310, 523), (1204, 523), (1693, 523), (1883, 523)],
    [(2134, 523), (2374, 523), (2474, 523), (2747, 523), (3068, 523), (3333, 523), (137, 524), (194, 524), (311, 524), (1205, 524)],
    [(1694, 524), (1884, 524), (2135, 524), (2375, 524), (2475, 524), (2748, 524), (3069, 524), (3334, 524), (138, 525), (195, 525)],
    [(312, 525), (1206, 525), (1695, 525), (1885, 525), (2136, 525), (2288, 525), (2476, 525), (2749, 525), (3070, 525), (3335, 525)],
    [(139, 526), (196, 526), (313, 526), (1207, 526), (1696, 526), (1886, 526), (2137, 526), (2289, 526), (2477, 526), (2750, 526)],
    [(3071, 526), (3336, 526), (140, 527), (197, 527), (314, 527), (1208, 527), (1697, 527), (1887, 527), (2138, 527), (2290, 527)],
    [(2478, 527), (2751, 527), (3072, 527), (3337, 527), (530, 528), (911, 528), (1289, 528), (2096, 528), (531, 529), (912, 529)],
    [(1290, 529), (2097, 529), (532, 530), (913, 530), (1291, 530), (2098, 530), (533, 531), (914, 531), (1292, 531), (2099, 531)],
    [(534, 532), (915, 532), (1293, 532), (2100, 532), (535, 533), (916, 533), (1294, 533), (2101, 533), (536, 534), (917, 534)],
    [(1295, 534), (2102, 534), (537, 535), (918, 535), (1296, 535), (2103, 535), (538, 536), (919, 536), (1297, 536), (2104, 536)],
    [(539, 537), (920, 537), (1298, 537), (2105, 537), (540, 538), (921, 538), (1299, 538), (2106, 538), (541, 539), (922, 539)],
    [(1300, 539), (2107, 539), (542, 540), (923, 540), (1301, 540), (2108, 540), (543, 541), (924, 541), (1302, 541), (2109, 541)],
    [(544, 542), (925, 542), (1303, 542), (2110, 542), (545, 543), (926, 543), (1304, 543), (2111, 543), (546, 544), (927, 544)],
    [(1305, 544), (2024, 544), (547, 545), (928, 545), (1306, 545), (2025, 545), (548, 546), (929, 546), (1307, 546), (2026, 546)],
    [(549, 547), (930, 547), (1308, 547), (2027, 547), (550, 548), (931, 548), (1309, 548), (2028, 548), (551, 549), (932, 549)],
    [(1310, 549), (2029, 549), (552, 550), (933, 550), (1311, 550), (2030, 550), (553, 551), (934, 551), (1312, 551), (2031, 551)],
    [(554, 552), (935, 552), (1313, 552), (2032, 552), (555, 553), (936, 553), (1314, 553), (2033, 553), (556, 554), (937, 554)],
    [(1315, 554), (2034, 554), (557, 555), (938, 555), (1316, 555), (2035, 555), (558, 556), (939, 556), (1317, 556), (2036, 556)],
    [(559, 557), (940, 557), (1318, 557), (2037, 557), (560, 558), (941, 558), (1319, 558), (2038, 558), (561, 559), (942, 559)],
    [(1232, 559), (2039, 559), (562, 560), (943, 560), (1233, 560), (2040, 560), (563, 561), (944, 561), (1234, 561), (2041, 561)],
    [(564, 562), (945, 562), (1235, 562), (2042, 562), (565, 563), (946, 563), (1236, 563), (2043, 563), (566, 564), (947, 564)],
    [(1237, 564), (2044, 564), (567, 565), (948, 565), (1238, 565), (2045, 565), (568, 566), (949, 566), (1239, 566), (2046, 566)],
    [(569, 567), (950, 567), (1240, 567), (2047, 567), (570, 568), (951, 568), (1241, 568), (2048, 568), (571, 569), (952, 569)],
    [(1242, 569), (2049, 569), (572, 570), (953, 570), (1243, 570), (2050, 570), (573, 571), (954, 571), (1244, 571), (2051, 571)],
    [(574, 572), (955, 572), (1245, 572), (2052, 572), (575, 573), (956, 573), (1246, 573), (2053, 573), (576, 574), (957, 574)],
    [(1247, 574), (2054, 574), (577, 575), (958, 575), (1248, 575), (2055, 575), (578, 576), (959, 576), (1249, 576), (2056, 576)],
    [(579, 577), (960, 577), (1250, 577), (2057, 577), (580, 578), (961, 578), (1251, 578), (2058, 578), (581, 579), (962, 579)],
    [(1252, 579), (2059, 579), (582, 580), (963, 580), (1253, 580), (2060, 580), (583, 581), (964, 581), (1254, 581), (2061, 581)],
    [(584, 582), (965, 582), (1255, 582), (2062, 582), (585, 583), (966, 583), (1256, 583), (2063, 583), (586, 584), (967, 584)],
    [(1257, 584), (2064, 584), (587, 585), (880, 585), (1258, 585), (2065, 585), (588, 586), (881, 586), (1259, 586), (2066, 586)],
    [(589, 587), (882, 587), (1260, 587), (2067, 587), (590, 588), (883, 588), (1261, 588), (2068, 588), (591, 589), (884, 589)],
    [(1262, 589), (2069, 589), (592, 590), (885, 590), (1263, 590), (2070, 590), (593, 591), (886, 591), (1264, 591), (2071, 591)],
    [(594, 592), (887, 592), (1265, 592), (2072, 592), (595, 593), (888, 593), (1266, 593), (2073, 593), (596, 594), (889, 594)],
    [(1267, 594), (2074, 594), (597, 595), (890, 595), (1268, 595), (2075, 595), (598, 596), (891, 596), (1269, 596), (2076, 596)],
    [(599, 597), (892, 597), (1270, 597), (2077, 597), (600, 598), (893, 598), (1271, 598), (2078, 598), (601, 599), (894, 599)],
    [(1272, 599), (2079, 599), (602, 600), (895, 600), (1273, 600), (2080, 600), (603, 601), (896, 601), (1274, 601), (2081, 601)],
    [(604, 602), (897, 602), (1275, 602), (2082, 602), (605, 603), (898, 603), (1276, 603), (2083, 603), (606, 604), (899, 604)],
    [(1277, 604), (2084, 604), (607, 605), (900, 605), (1278, 605), (2085, 605), (608, 606), (901, 606), (1279, 606), (2086, 606)],
    [(609, 607), (902, 607), (1280, 607), (2087, 607), (610, 608), (903, 608), (1281, 608), (2088, 608), (611, 609), (904, 609)],
    [(1282, 609), (2089, 609), (612, 610), (905, 610), (1283, 610), (2090, 610), (613, 611), (906, 611), (1284, 611), (2091, 611)],
    [(614, 612), (907, 612), (1285, 612), (2092, 612), (615, 613), (908, 613), (1286, 613), (2093, 613), (528, 614), (909, 614)],
    [(1287, 614), (2094, 614), (529, 615), (910, 615), (1288, 615), (2095, 615), (161, 616), (254, 616), (328, 616), (593, 616)],
    [(617, 616), (1298, 616), (1986, 616), (2371, 616), (2591, 616), (2863, 616), (3162, 616), (162, 617), (255, 617), (329, 617)]]"

definition SF3_C_ind_4 :: "(nat \<times> nat) list" where
  "SF3_C_ind_4 = concat [
    [(594, 617), (618, 617), (1299, 617), (1987, 617), (2372, 617), (2592, 617), (2864, 617), (3163, 617), (163, 618), (256, 618)],
    [(330, 618), (595, 618), (619, 618), (1300, 618), (1988, 618), (2373, 618), (2593, 618), (2865, 618), (3164, 618), (164, 619)],
    [(257, 619), (331, 619), (596, 619), (620, 619), (1301, 619), (1989, 619), (2374, 619), (2594, 619), (2866, 619), (3165, 619)],
    [(165, 620), (258, 620), (332, 620), (597, 620), (621, 620), (1302, 620), (1990, 620), (2375, 620), (2595, 620), (2867, 620)],
    [(3166, 620), (166, 621), (259, 621), (333, 621), (598, 621), (622, 621), (1303, 621), (1991, 621), (2288, 621), (2596, 621)],
    [(2868, 621), (3167, 621), (167, 622), (260, 622), (334, 622), (599, 622), (623, 622), (1304, 622), (1992, 622), (2289, 622)],
    [(2597, 622), (2869, 622), (3080, 622), (168, 623), (261, 623), (335, 623), (600, 623), (624, 623), (1305, 623), (1993, 623)],
    [(2290, 623), (2598, 623), (2870, 623), (3081, 623), (169, 624), (262, 624), (336, 624), (601, 624), (625, 624), (1306, 624)],
    [(1994, 624), (2291, 624), (2599, 624), (2871, 624), (3082, 624), (170, 625), (263, 625), (337, 625), (602, 625), (626, 625)],
    [(1307, 625), (1995, 625), (2292, 625), (2600, 625), (2872, 625), (3083, 625), (171, 626), (176, 626), (338, 626), (603, 626)],
    [(627, 626), (1308, 626), (1996, 626), (2293, 626), (2601, 626), (2873, 626), (3084, 626), (172, 627), (177, 627), (339, 627)],
    [(604, 627), (628, 627), (1309, 627), (1997, 627), (2294, 627), (2602, 627), (2874, 627), (3085, 627), (173, 628), (178, 628)],
    [(340, 628), (605, 628), (629, 628), (1310, 628), (1998, 628), (2295, 628), (2603, 628), (2875, 628), (3086, 628), (174, 629)],
    [(179, 629), (341, 629), (606, 629), (630, 629), (1311, 629), (1999, 629), (2296, 629), (2604, 629), (2876, 629), (3087, 629)],
    [(175, 630), (180, 630), (342, 630), (607, 630), (631, 630), (1312, 630), (2000, 630), (2297, 630), (2605, 630), (2877, 630)],
    [(3088, 630), (88, 631), (181, 631), (343, 631), (608, 631), (632, 631), (1313, 631), (2001, 631), (2298, 631), (2606, 631)],
    [(2878, 631), (3089, 631), (89, 632), (182, 632), (344, 632), (609, 632), (633, 632), (1314, 632), (2002, 632), (2299, 632)],
    [(2607, 632), (2879, 632), (3090, 632), (90, 633), (183, 633), (345, 633), (610, 633), (634, 633), (1315, 633), (2003, 633)],
    [(2300, 633), (2608, 633), (2880, 633), (3091, 633), (91, 634), (184, 634), (346, 634), (611, 634), (635, 634), (1316, 634)],
    [(2004, 634), (2301, 634), (2609, 634), (2881, 634), (3092, 634), (92, 635), (185, 635), (347, 635), (612, 635), (636, 635)],
    [(1317, 635), (2005, 635), (2302, 635), (2610, 635), (2882, 635), (3093, 635), (93, 636), (186, 636), (348, 636), (613, 636)],
    [(637, 636), (1318, 636), (2006, 636), (2303, 636), (2611, 636), (2883, 636), (3094, 636), (94, 637), (187, 637), (349, 637)],
    [(614, 637), (638, 637), (1319, 637), (2007, 637), (2304, 637), (2612, 637), (2884, 637), (3095, 637), (95, 638), (188, 638)],
    [(350, 638), (615, 638), (639, 638), (1232, 638), (2008, 638), (2305, 638), (2613, 638), (2885, 638), (3096, 638), (96, 639)],
    [(189, 639), (351, 639), (528, 639), (640, 639), (1233, 639), (2009, 639), (2306, 639), (2614, 639), (2886, 639), (3097, 639)],
    [(97, 640), (190, 640), (264, 640), (529, 640), (641, 640), (1234, 640), (2010, 640), (2307, 640), (2615, 640), (2887, 640)],
    [(3098, 640), (98, 641), (191, 641), (265, 641), (530, 641), (642, 641), (1235, 641), (2011, 641), (2308, 641), (2616, 641)],
    [(2888, 641), (3099, 641), (99, 642), (192, 642), (266, 642), (531, 642), (643, 642), (1236, 642), (2012, 642), (2309, 642)],
    [(2617, 642), (2889, 642), (3100, 642), (100, 643), (193, 643), (267, 643), (532, 643), (644, 643), (1237, 643), (2013, 643)],
    [(2310, 643), (2618, 643), (2890, 643), (3101, 643), (101, 644), (194, 644), (268, 644), (533, 644), (645, 644), (1238, 644)],
    [(2014, 644), (2311, 644), (2619, 644), (2891, 644), (3102, 644), (102, 645), (195, 645), (269, 645), (534, 645), (646, 645)],
    [(1239, 645), (2015, 645), (2312, 645), (2620, 645), (2892, 645), (3103, 645), (103, 646), (196, 646), (270, 646), (535, 646)],
    [(647, 646), (1240, 646), (2016, 646), (2313, 646), (2621, 646), (2893, 646), (3104, 646), (104, 647), (197, 647), (271, 647)],
    [(536, 647), (648, 647), (1241, 647), (2017, 647), (2314, 647), (2622, 647), (2894, 647), (3105, 647), (105, 648), (198, 648)],
    [(272, 648), (537, 648), (649, 648), (1242, 648), (2018, 648), (2315, 648), (2623, 648), (2895, 648), (3106, 648), (106, 649)],
    [(199, 649), (273, 649), (538, 649), (650, 649), (1243, 649), (2019, 649), (2316, 649), (2624, 649), (2896, 649), (3107, 649)],
    [(107, 650), (200, 650), (274, 650), (539, 650), (651, 650), (1244, 650), (2020, 650), (2317, 650), (2625, 650), (2897, 650)],
    [(3108, 650), (108, 651), (201, 651), (275, 651), (540, 651), (652, 651), (1245, 651), (2021, 651), (2318, 651), (2626, 651)],
    [(2898, 651), (3109, 651), (109, 652), (202, 652), (276, 652), (541, 652), (653, 652), (1246, 652), (2022, 652), (2319, 652)],
    [(2627, 652), (2899, 652), (3110, 652), (110, 653), (203, 653), (277, 653), (542, 653), (654, 653), (1247, 653), (2023, 653)],
    [(2320, 653), (2628, 653), (2900, 653), (3111, 653), (111, 654), (204, 654), (278, 654), (543, 654), (655, 654), (1248, 654)],
    [(1936, 654), (2321, 654), (2629, 654), (2901, 654), (3112, 654), (112, 655), (205, 655), (279, 655), (544, 655), (656, 655)],
    [(1249, 655), (1937, 655), (2322, 655), (2630, 655), (2902, 655), (3113, 655), (113, 656), (206, 656), (280, 656), (545, 656)],
    [(657, 656), (1250, 656), (1938, 656), (2323, 656), (2631, 656), (2903, 656), (3114, 656), (114, 657), (207, 657), (281, 657)],
    [(546, 657), (658, 657), (1251, 657), (1939, 657), (2324, 657), (2632, 657), (2816, 657), (3115, 657), (115, 658), (208, 658)],
    [(282, 658), (547, 658), (659, 658), (1252, 658), (1940, 658), (2325, 658), (2633, 658), (2817, 658), (3116, 658), (116, 659)],
    [(209, 659), (283, 659), (548, 659), (660, 659), (1253, 659), (1941, 659), (2326, 659), (2634, 659), (2818, 659), (3117, 659)],
    [(117, 660), (210, 660), (284, 660), (549, 660), (661, 660), (1254, 660), (1942, 660), (2327, 660), (2635, 660), (2819, 660)],
    [(3118, 660), (118, 661), (211, 661), (285, 661), (550, 661), (662, 661), (1255, 661), (1943, 661), (2328, 661), (2636, 661)],
    [(2820, 661), (3119, 661), (119, 662), (212, 662), (286, 662), (551, 662), (663, 662), (1256, 662), (1944, 662), (2329, 662)],
    [(2637, 662), (2821, 662), (3120, 662), (120, 663), (213, 663), (287, 663), (552, 663), (664, 663), (1257, 663), (1945, 663)],
    [(2330, 663), (2638, 663), (2822, 663), (3121, 663), (121, 664), (214, 664), (288, 664), (553, 664), (665, 664), (1258, 664)],
    [(1946, 664), (2331, 664), (2639, 664), (2823, 664), (3122, 664), (122, 665), (215, 665), (289, 665), (554, 665), (666, 665)],
    [(1259, 665), (1947, 665), (2332, 665), (2552, 665), (2824, 665), (3123, 665), (123, 666), (216, 666), (290, 666), (555, 666)],
    [(667, 666), (1260, 666), (1948, 666), (2333, 666), (2553, 666), (2825, 666), (3124, 666), (124, 667), (217, 667), (291, 667)],
    [(556, 667), (668, 667), (1261, 667), (1949, 667), (2334, 667), (2554, 667), (2826, 667), (3125, 667), (125, 668), (218, 668)],
    [(292, 668), (557, 668), (669, 668), (1262, 668), (1950, 668), (2335, 668), (2555, 668), (2827, 668), (3126, 668), (126, 669)],
    [(219, 669), (293, 669), (558, 669), (670, 669), (1263, 669), (1951, 669), (2336, 669), (2556, 669), (2828, 669), (3127, 669)],
    [(127, 670), (220, 670), (294, 670), (559, 670), (671, 670), (1264, 670), (1952, 670), (2337, 670), (2557, 670), (2829, 670)],
    [(3128, 670), (128, 671), (221, 671), (295, 671), (560, 671), (672, 671), (1265, 671), (1953, 671), (2338, 671), (2558, 671)],
    [(2830, 671), (3129, 671), (129, 672), (222, 672), (296, 672), (561, 672), (673, 672), (1266, 672), (1954, 672), (2339, 672)],
    [(2559, 672), (2831, 672), (3130, 672), (130, 673), (223, 673), (297, 673), (562, 673), (674, 673), (1267, 673), (1955, 673)],
    [(2340, 673), (2560, 673), (2832, 673), (3131, 673), (131, 674), (224, 674), (298, 674), (563, 674), (675, 674), (1268, 674)],
    [(1956, 674), (2341, 674), (2561, 674), (2833, 674), (3132, 674), (132, 675), (225, 675), (299, 675), (564, 675), (676, 675)],
    [(1269, 675), (1957, 675), (2342, 675), (2562, 675), (2834, 675), (3133, 675), (133, 676), (226, 676), (300, 676), (565, 676)],
    [(677, 676), (1270, 676), (1958, 676), (2343, 676), (2563, 676), (2835, 676), (3134, 676), (134, 677), (227, 677), (301, 677)],
    [(566, 677), (678, 677), (1271, 677), (1959, 677), (2344, 677), (2564, 677), (2836, 677), (3135, 677), (135, 678), (228, 678)],
    [(302, 678), (567, 678), (679, 678), (1272, 678), (1960, 678), (2345, 678), (2565, 678), (2837, 678), (3136, 678), (136, 679)],
    [(229, 679), (303, 679), (568, 679), (680, 679), (1273, 679), (1961, 679), (2346, 679), (2566, 679), (2838, 679), (3137, 679)],
    [(137, 680), (230, 680), (304, 680), (569, 680), (681, 680), (1274, 680), (1962, 680), (2347, 680), (2567, 680), (2839, 680)],
    [(3138, 680), (138, 681), (231, 681), (305, 681), (570, 681), (682, 681), (1275, 681), (1963, 681), (2348, 681), (2568, 681)],
    [(2840, 681), (3139, 681), (139, 682), (232, 682), (306, 682), (571, 682), (683, 682), (1276, 682), (1964, 682), (2349, 682)],
    [(2569, 682), (2841, 682), (3140, 682), (140, 683), (233, 683), (307, 683), (572, 683), (684, 683), (1277, 683), (1965, 683)],
    [(2350, 683), (2570, 683), (2842, 683), (3141, 683), (141, 684), (234, 684), (308, 684), (573, 684), (685, 684), (1278, 684)],
    [(1966, 684), (2351, 684), (2571, 684), (2843, 684), (3142, 684), (142, 685), (235, 685), (309, 685), (574, 685), (686, 685)],
    [(1279, 685), (1967, 685), (2352, 685), (2572, 685), (2844, 685), (3143, 685), (143, 686), (236, 686), (310, 686), (575, 686)],
    [(687, 686), (1280, 686), (1968, 686), (2353, 686), (2573, 686), (2845, 686), (3144, 686), (144, 687), (237, 687), (311, 687)],
    [(576, 687), (688, 687), (1281, 687), (1969, 687), (2354, 687), (2574, 687), (2846, 687), (3145, 687), (145, 688), (238, 688)],
    [(312, 688), (577, 688), (689, 688), (1282, 688), (1970, 688), (2355, 688), (2575, 688), (2847, 688), (3146, 688), (146, 689)],
    [(239, 689), (313, 689), (578, 689), (690, 689), (1283, 689), (1971, 689), (2356, 689), (2576, 689), (2848, 689), (3147, 689)],
    [(147, 690), (240, 690), (314, 690), (579, 690), (691, 690), (1284, 690), (1972, 690), (2357, 690), (2577, 690), (2849, 690)],
    [(3148, 690), (148, 691), (241, 691), (315, 691), (580, 691), (692, 691), (1285, 691), (1973, 691), (2358, 691), (2578, 691)],
    [(2850, 691), (3149, 691), (149, 692), (242, 692), (316, 692), (581, 692), (693, 692), (1286, 692), (1974, 692), (2359, 692)],
    [(2579, 692), (2851, 692), (3150, 692), (150, 693), (243, 693), (317, 693), (582, 693), (694, 693), (1287, 693), (1975, 693)],
    [(2360, 693), (2580, 693), (2852, 693), (3151, 693), (151, 694), (244, 694), (318, 694), (583, 694), (695, 694), (1288, 694)],
    [(1976, 694), (2361, 694), (2581, 694), (2853, 694), (3152, 694), (152, 695), (245, 695), (319, 695), (584, 695), (696, 695)],
    [(1289, 695), (1977, 695), (2362, 695), (2582, 695), (2854, 695), (3153, 695), (153, 696), (246, 696), (320, 696), (585, 696)],
    [(697, 696), (1290, 696), (1978, 696), (2363, 696), (2583, 696), (2855, 696), (3154, 696), (154, 697), (247, 697), (321, 697)],
    [(586, 697), (698, 697), (1291, 697), (1979, 697), (2364, 697), (2584, 697), (2856, 697), (3155, 697), (155, 698), (248, 698)],
    [(322, 698), (587, 698), (699, 698), (1292, 698), (1980, 698), (2365, 698), (2585, 698), (2857, 698), (3156, 698), (156, 699)],
    [(249, 699), (323, 699), (588, 699), (700, 699), (1293, 699), (1981, 699), (2366, 699), (2586, 699), (2858, 699), (3157, 699)],
    [(157, 700), (250, 700), (324, 700), (589, 700), (701, 700), (1294, 700), (1982, 700), (2367, 700), (2587, 700), (2859, 700)],
    [(3158, 700), (158, 701), (251, 701), (325, 701), (590, 701), (702, 701), (1295, 701), (1983, 701), (2368, 701), (2588, 701)],
    [(2860, 701), (3159, 701), (159, 702), (252, 702), (326, 702), (591, 702), (703, 702), (1296, 702), (1984, 702), (2369, 702)],
    [(2589, 702), (2861, 702), (3160, 702), (160, 703), (253, 703), (327, 703), (592, 703), (616, 703), (1297, 703), (1985, 703)],
    [(2370, 703), (2590, 703), (2862, 703), (3161, 703), (474, 704), (853, 704), (1506, 704), (475, 705), (854, 705), (1507, 705)],
    [(476, 706), (855, 706), (1508, 706), (477, 707), (856, 707), (1509, 707), (478, 708), (857, 708), (1510, 708), (479, 709)],
    [(858, 709), (1511, 709), (480, 710), (859, 710), (1512, 710), (481, 711), (860, 711), (1513, 711), (482, 712), (861, 712)],
    [(1514, 712), (483, 713), (862, 713), (1515, 713), (484, 714), (863, 714), (1516, 714), (485, 715), (864, 715), (1517, 715)],
    [(486, 716), (865, 716), (1518, 716), (487, 717), (866, 717), (1519, 717), (488, 718), (867, 718), (1520, 718), (489, 719)],
    [(868, 719), (1521, 719), (490, 720), (869, 720), (1522, 720), (491, 721), (870, 721), (1523, 721), (492, 722), (871, 722)],
    [(1524, 722), (493, 723), (872, 723), (1525, 723), (494, 724), (873, 724), (1526, 724), (495, 725), (874, 725), (1527, 725)],
    [(496, 726), (875, 726), (1528, 726), (497, 727), (876, 727), (1529, 727), (498, 728), (877, 728), (1530, 728), (499, 729)],
    [(878, 729), (1531, 729), (500, 730), (879, 730), (1532, 730), (501, 731), (792, 731), (1533, 731), (502, 732), (793, 732)],
    [(1534, 732), (503, 733), (794, 733), (1535, 733), (504, 734), (795, 734), (1536, 734), (505, 735), (796, 735), (1537, 735)],
    [(506, 736), (797, 736), (1538, 736), (507, 737), (798, 737), (1539, 737), (508, 738), (799, 738), (1540, 738), (509, 739)],
    [(800, 739), (1541, 739), (510, 740), (801, 740), (1542, 740), (511, 741), (802, 741), (1543, 741), (512, 742), (803, 742)],
    [(1544, 742), (513, 743), (804, 743), (1545, 743), (514, 744), (805, 744), (1546, 744), (515, 745), (806, 745), (1547, 745)],
    [(516, 746), (807, 746), (1548, 746), (517, 747), (808, 747), (1549, 747), (518, 748), (809, 748), (1550, 748), (519, 749)],
    [(810, 749), (1551, 749), (520, 750), (811, 750), (1552, 750), (521, 751), (812, 751), (1553, 751), (522, 752), (813, 752)],
    [(1554, 752), (523, 753), (814, 753), (1555, 753), (524, 754), (815, 754), (1556, 754), (525, 755), (816, 755), (1557, 755)],
    [(526, 756), (817, 756), (1558, 756), (527, 757), (818, 757), (1559, 757), (440, 758), (819, 758), (1560, 758), (441, 759)],
    [(820, 759), (1561, 759), (442, 760), (821, 760), (1562, 760), (443, 761), (822, 761), (1563, 761), (444, 762), (823, 762)],
    [(1564, 762), (445, 763), (824, 763), (1565, 763), (446, 764), (825, 764), (1566, 764), (447, 765), (826, 765), (1567, 765)],
    [(448, 766), (827, 766), (1568, 766), (449, 767), (828, 767), (1569, 767), (450, 768), (829, 768), (1570, 768), (451, 769)],
    [(830, 769), (1571, 769), (452, 770), (831, 770), (1572, 770), (453, 771), (832, 771), (1573, 771), (454, 772), (833, 772)],
    [(1574, 772), (455, 773), (834, 773), (1575, 773), (456, 774), (835, 774), (1576, 774), (457, 775), (836, 775), (1577, 775)],
    [(458, 776), (837, 776), (1578, 776), (459, 777), (838, 777), (1579, 777), (460, 778), (839, 778), (1580, 778), (461, 779)],
    [(840, 779), (1581, 779), (462, 780), (841, 780), (1582, 780), (463, 781), (842, 781), (1583, 781), (464, 782), (843, 782)],
    [(1496, 782), (465, 783), (844, 783), (1497, 783), (466, 784), (845, 784), (1498, 784), (467, 785), (846, 785), (1499, 785)],
    [(468, 786), (847, 786), (1500, 786), (469, 787), (848, 787), (1501, 787), (470, 788), (849, 788), (1502, 788), (471, 789)],
    [(850, 789), (1503, 789), (472, 790), (851, 790), (1504, 790), (473, 791), (852, 791), (1505, 791), (197, 792), (680, 792)],
    [(1074, 792), (1787, 792), (2347, 792), (198, 793), (681, 793), (1075, 793), (1788, 793), (2348, 793), (199, 794), (682, 794)],
    [(1076, 794), (1789, 794), (2349, 794), (200, 795), (683, 795), (1077, 795), (1790, 795), (2350, 795), (201, 796), (684, 796)],
    [(1078, 796), (1791, 796), (2351, 796), (202, 797), (685, 797), (1079, 797), (1792, 797), (2352, 797), (203, 798), (686, 798)],
    [(1080, 798), (1793, 798), (2353, 798), (204, 799), (687, 799), (1081, 799), (1794, 799), (2354, 799), (205, 800), (688, 800)],
    [(1082, 800), (1795, 800), (2355, 800), (206, 801), (689, 801), (1083, 801), (1796, 801), (2356, 801), (207, 802), (690, 802)],
    [(1084, 802), (1797, 802), (2357, 802), (208, 803), (691, 803), (1085, 803), (1798, 803), (2358, 803), (209, 804), (692, 804)],
    [(1086, 804), (1799, 804), (2359, 804), (210, 805), (693, 805), (1087, 805), (1800, 805), (2360, 805), (211, 806), (694, 806)],
    [(1088, 806), (1801, 806), (2361, 806), (212, 807), (695, 807), (1089, 807), (1802, 807), (2362, 807), (213, 808), (696, 808)],
    [(1090, 808), (1803, 808), (2363, 808), (214, 809), (697, 809), (1091, 809), (1804, 809), (2364, 809), (215, 810), (698, 810)],
    [(1092, 810), (1805, 810), (2365, 810), (216, 811), (699, 811), (1093, 811), (1806, 811), (2366, 811), (217, 812), (700, 812)],
    [(1094, 812), (1807, 812), (2367, 812), (218, 813), (701, 813), (1095, 813), (1808, 813), (2368, 813), (219, 814), (702, 814)],
    [(1096, 814), (1809, 814), (2369, 814), (220, 815), (703, 815), (1097, 815), (1810, 815), (2370, 815), (221, 816), (616, 816)],
    [(1098, 816), (1811, 816), (2371, 816), (222, 817), (617, 817), (1099, 817), (1812, 817), (2372, 817), (223, 818), (618, 818)],
    [(1100, 818), (1813, 818), (2373, 818), (224, 819), (619, 819), (1101, 819), (1814, 819), (2374, 819), (225, 820), (620, 820)],
    [(1102, 820), (1815, 820), (2375, 820), (226, 821), (621, 821), (1103, 821), (1816, 821), (2288, 821), (227, 822), (622, 822)],
    [(1104, 822), (1817, 822), (2289, 822), (228, 823), (623, 823), (1105, 823), (1818, 823), (2290, 823), (229, 824), (624, 824)],
    [(1106, 824), (1819, 824), (2291, 824), (230, 825), (625, 825), (1107, 825), (1820, 825), (2292, 825), (231, 826), (626, 826)],
    [(1108, 826), (1821, 826), (2293, 826), (232, 827), (627, 827), (1109, 827), (1822, 827), (2294, 827), (233, 828), (628, 828)],
    [(1110, 828), (1823, 828), (2295, 828), (234, 829), (629, 829), (1111, 829), (1824, 829), (2296, 829), (235, 830), (630, 830)],
    [(1112, 830), (1825, 830), (2297, 830), (236, 831), (631, 831), (1113, 831), (1826, 831), (2298, 831), (237, 832), (632, 832)],
    [(1114, 832), (1827, 832), (2299, 832), (238, 833), (633, 833), (1115, 833), (1828, 833), (2300, 833), (239, 834), (634, 834)],
    [(1116, 834), (1829, 834), (2301, 834), (240, 835), (635, 835), (1117, 835), (1830, 835), (2302, 835), (241, 836), (636, 836)],
    [(1118, 836), (1831, 836), (2303, 836), (242, 837), (637, 837), (1119, 837), (1832, 837), (2304, 837), (243, 838), (638, 838)],
    [(1120, 838), (1833, 838), (2305, 838), (244, 839), (639, 839), (1121, 839), (1834, 839), (2306, 839), (245, 840), (640, 840)],
    [(1122, 840), (1835, 840), (2307, 840), (246, 841), (641, 841), (1123, 841), (1836, 841), (2308, 841), (247, 842), (642, 842)],
    [(1124, 842), (1837, 842), (2309, 842), (248, 843), (643, 843), (1125, 843), (1838, 843), (2310, 843), (249, 844), (644, 844)]]"

definition SF3_C_ind_5 :: "(nat \<times> nat) list" where
  "SF3_C_ind_5 = concat [
    [(1126, 844), (1839, 844), (2311, 844), (250, 845), (645, 845), (1127, 845), (1840, 845), (2312, 845), (251, 846), (646, 846)],
    [(1128, 846), (1841, 846), (2313, 846), (252, 847), (647, 847), (1129, 847), (1842, 847), (2314, 847), (253, 848), (648, 848)],
    [(1130, 848), (1843, 848), (2315, 848), (254, 849), (649, 849), (1131, 849), (1844, 849), (2316, 849), (255, 850), (650, 850)],
    [(1132, 850), (1845, 850), (2317, 850), (256, 851), (651, 851), (1133, 851), (1846, 851), (2318, 851), (257, 852), (652, 852)],
    [(1134, 852), (1847, 852), (2319, 852), (258, 853), (653, 853), (1135, 853), (1760, 853), (2320, 853), (259, 854), (654, 854)],
    [(1136, 854), (1761, 854), (2321, 854), (260, 855), (655, 855), (1137, 855), (1762, 855), (2322, 855), (261, 856), (656, 856)],
    [(1138, 856), (1763, 856), (2323, 856), (262, 857), (657, 857), (1139, 857), (1764, 857), (2324, 857), (263, 858), (658, 858)],
    [(1140, 858), (1765, 858), (2325, 858), (176, 859), (659, 859), (1141, 859), (1766, 859), (2326, 859), (177, 860), (660, 860)],
    [(1142, 860), (1767, 860), (2327, 860), (178, 861), (661, 861), (1143, 861), (1768, 861), (2328, 861), (179, 862), (662, 862)],
    [(1056, 862), (1769, 862), (2329, 862), (180, 863), (663, 863), (1057, 863), (1770, 863), (2330, 863), (181, 864), (664, 864)],
    [(1058, 864), (1771, 864), (2331, 864), (182, 865), (665, 865), (1059, 865), (1772, 865), (2332, 865), (183, 866), (666, 866)],
    [(1060, 866), (1773, 866), (2333, 866), (184, 867), (667, 867), (1061, 867), (1774, 867), (2334, 867), (185, 868), (668, 868)],
    [(1062, 868), (1775, 868), (2335, 868), (186, 869), (669, 869), (1063, 869), (1776, 869), (2336, 869), (187, 870), (670, 870)],
    [(1064, 870), (1777, 870), (2337, 870), (188, 871), (671, 871), (1065, 871), (1778, 871), (2338, 871), (189, 872), (672, 872)],
    [(1066, 872), (1779, 872), (2339, 872), (190, 873), (673, 873), (1067, 873), (1780, 873), (2340, 873), (191, 874), (674, 874)],
    [(1068, 874), (1781, 874), (2341, 874), (192, 875), (675, 875), (1069, 875), (1782, 875), (2342, 875), (193, 876), (676, 876)],
    [(1070, 876), (1783, 876), (2343, 876), (194, 877), (677, 877), (1071, 877), (1784, 877), (2344, 877), (195, 878), (678, 878)],
    [(1072, 878), (1785, 878), (2345, 878), (196, 879), (679, 879), (1073, 879), (1786, 879), (2346, 879)]]"

definition SF3_C_ind :: "(nat \<times> nat) list" where
  "SF3_C_ind = SF3_C_ind_0 @ SF3_C_ind_1 @ SF3_C_ind_2 @ SF3_C_ind_3 @ SF3_C_ind_4 @ SF3_C_ind_5"

section \<open>Every position is inside its matrix\<close>

lemma SF3_C_ind_0_bounds: "list_all (in_dims 3344 880) SF3_C_ind_0"
  unfolding SF3_C_ind_0_def by (simp add: list_all_concat in_dims_Pair)

lemma SF3_C_ind_1_bounds: "list_all (in_dims 3344 880) SF3_C_ind_1"
  unfolding SF3_C_ind_1_def by (simp add: list_all_concat in_dims_Pair)

lemma SF3_C_ind_2_bounds: "list_all (in_dims 3344 880) SF3_C_ind_2"
  unfolding SF3_C_ind_2_def by (simp add: list_all_concat in_dims_Pair)

lemma SF3_C_ind_3_bounds: "list_all (in_dims 3344 880) SF3_C_ind_3"
  unfolding SF3_C_ind_3_def by (simp add: list_all_concat in_dims_Pair)

lemma SF3_C_ind_4_bounds: "list_all (in_dims 3344 880) SF3_C_ind_4"
  unfolding SF3_C_ind_4_def by (simp add: list_all_concat in_dims_Pair)

lemma SF3_C_ind_5_bounds: "list_all (in_dims 3344 880) SF3_C_ind_5"
  unfolding SF3_C_ind_5_def by (simp add: list_all_concat in_dims_Pair)

lemma SF3_C_ind_bounds: "list_all (in_dims 3344 880) SF3_C_ind"
  unfolding SF3_C_ind_def list_all_append
  by (intro conjI SF3_C_ind_0_bounds SF3_C_ind_1_bounds SF3_C_ind_2_bounds SF3_C_ind_3_bounds SF3_C_ind_4_bounds SF3_C_ind_5_bounds)

end
