(* ===== verification/Afs_Nav.thy ===== *)
theory Afs_Nav
  imports Afs_Bits Afs_Crc24q Afs_Inv_SF2 Afs_Inv_SF3 Afs_Tab_SF2_C Afs_Tab_SF3_C
begin

text \<open>
  The transmit side of the navigation frame, \<open>afs_nav.c\<close>: the LDPC coders of subframes 2, 3 and 4
  over the sparse matrices, which are built on the first call and kept in static variables; the CRC;
  the BCH code of subframe 1; the block interleaver. Logging has no effect on the arrays and is left
  out.
\<close>

section \<open>The matrix cache\<close>

text \<open>The static pointers of \<open>afs_nav.c\<close> (\<open>None\<close> is \<open>NULL\<close>) and the heap they point into.\<close>

record nav_state =
  SF2_A :: "nat option"
  SF2_B_Inv :: "nat option"
  SF2_C :: "nat option"
  SF2_D :: "nat option"
  SF3_A :: "nat option"
  SF3_B_Inv :: "nat option"
  SF3_C :: "nat option"
  SF3_D :: "nat option"
  hp :: heap

definition nav0 :: nav_state where
  "nav0 = \<lparr>SF2_A = None, SF2_B_Inv = None, SF2_C = None, SF2_D = None,
     SF3_A = None, SF3_B_Inv = None, SF3_C = None, SF3_D = None, hp = heap0\<rparr>"

text \<open>\<open>if (!X) { X = mod2sparse_allocate (nr, nc); for (...) mod2sparse_insert (X, ...); }\<close>\<close>

definition cached :: "int \<Rightarrow> int \<Rightarrow> (nat \<times> nat) list \<Rightarrow> nat option \<Rightarrow> heap \<Rightarrow> mod2err + heap \<times> nat" where
  "cached nr nc ind slot h = (case slot of
     Some m \<Rightarrow> Inr (h, m)
   | None \<Rightarrow> res_bind (mod2sparse_allocate nr nc h) (\<lambda>(h1, m).
       res_bind (insert_each mod2sparse_insert m ind h1) (\<lambda>h2. Inr (h2, m))))"

definition load_SF2 :: "nav_state \<Rightarrow> mod2err + nav_state" where
  "load_SF2 s =
     res_bind (cached 480 1200 SF2_A_ind (SF2_A s) (hp s)) (\<lambda>(h1, a).
     res_bind (cached 480 480 SF2_B_Inv_ind (SF2_B_Inv s) h1) (\<lambda>(h2, b).
     res_bind (cached 4560 1200 SF2_C_ind (SF2_C s) h2) (\<lambda>(h3, c).
     res_bind (cached 4560 480 SF2_D_ind (SF2_D s) h3) (\<lambda>(h4, d).
       Inr (s\<lparr>SF2_A := Some a, SF2_B_Inv := Some b, SF2_C := Some c, SF2_D := Some d, hp := h4\<rparr>)))))"

definition load_SF3 :: "nav_state \<Rightarrow> mod2err + nav_state" where
  "load_SF3 s =
     res_bind (cached 352 880 SF3_A_ind (SF3_A s) (hp s)) (\<lambda>(h1, a).
     res_bind (cached 352 352 SF3_B_Inv_ind (SF3_B_Inv s) h1) (\<lambda>(h2, b).
     res_bind (cached 3344 880 SF3_C_ind (SF3_C s) h2) (\<lambda>(h3, c).
     res_bind (cached 3344 352 SF3_D_ind (SF3_D s) h3) (\<lambda>(h4, d).
       Inr (s\<lparr>SF3_A := Some a, SF3_B_Inv := Some b, SF3_C := Some c, SF3_D := Some d, hp := h4\<rparr>)))))"

section \<open>The LDPC coders\<close>

definition encode_LDPC_AFS_SF2 :: "u8 list \<Rightarrow> nav_state \<Rightarrow> mod2err + nav_state \<times> u8 list" where
  "encode_LDPC_AFS_SF2 syms s0 =
     res_bind (load_SF2 s0) (\<lambda>s.
     res_bind (mod2sparse_mulvec (the (SF2_A s)) syms (hp s)) (\<lambda>As.
     res_bind (mod2sparse_mulvec (the (SF2_B_Inv s)) As (hp s)) (\<lambda>p1.
     res_bind (mod2sparse_mulvec (the (SF2_C s)) syms (hp s)) (\<lambda>Cs.
     res_bind (mod2sparse_mulvec (the (SF2_D s)) p1 (hp s)) (\<lambda>Dp1.
       let p2 = map (\<lambda>i. (Cs ! i + Dp1 ! i) mod 2) [0..<4560]
       in Inr (s, map (\<lambda>i. syms ! (i + 240)) [0..<960] @ map (\<lambda>i. p1 ! i) [0..<480] @
                  map (\<lambda>i. p2 ! i) [0..<960]))))))"

definition encode_LDPC_AFS_SF3 :: "u8 list \<Rightarrow> nav_state \<Rightarrow> mod2err + nav_state \<times> u8 list" where
  "encode_LDPC_AFS_SF3 syms s0 =
     res_bind (load_SF3 s0) (\<lambda>st.
     let s = map (\<lambda>i. syms ! i) [0..<870] @ replicate 10 0 in
     res_bind (mod2sparse_mulvec (the (SF3_A st)) s (hp st)) (\<lambda>As.
     res_bind (mod2sparse_mulvec (the (SF3_B_Inv st)) As (hp st)) (\<lambda>p1.
     res_bind (mod2sparse_mulvec (the (SF3_C st)) s (hp st)) (\<lambda>Cs.
     res_bind (mod2sparse_mulvec (the (SF3_D st)) p1 (hp st)) (\<lambda>Dp1.
       let p2 = map (\<lambda>i. (Cs ! i + Dp1 ! i) mod 2) [0..<3344]
       in Inr (st, map (\<lambda>i. s ! (i + 176)) [0..<694] @ map (\<lambda>i. p1 ! i) [0..<352] @
                   map (\<lambda>i. p2 ! i) [0..<694]))))))"

section \<open>CRC, BCH and interleaving\<close>

definition append_CRC24 :: "u8 list \<Rightarrow> nat \<Rightarrow> u8 list" where
  "append_CRC24 syms len =
     (let N = (len - 24 + 7) div 8 * 8;
          buff = sdr_pack_bits syms len (N + 24 - len);
          crc = rtk_crc24q buff (N div 8)
      in memcpy_at syms (len - 24) (sdr_unpack_data crc 24))"

text \<open>
  The chips of the register are \<open>-1\<close> and \<open>1\<close>; \<open>(code[i - 1] + 1) / 2\<close> makes them bits. The buffer the
  caller passes holds the 52 symbols.
\<close>

definition generate_BCH_AFS_SF1 :: "i32 \<Rightarrow> i32 \<Rightarrow> u8 list" where
  "generate_BCH_AFS_SF1 fid toi =
     (let data = push_bit 7 fid OR toi;
          code = LFSR 51 (rev_reg (data AND 0xFF) 8) 0x9F 8;
          bit9 = (ucast (signed_drop_bit 8 data AND 1) :: u8)
      in bit9 # map (\<lambda>i. word_of_int ((code ! (i - 1) + 1) div 2) XOR bit9) [1..<52])"

text \<open>The two loops with \<open>k++\<close>: index \<open>k = 60 i + j\<close> of the output is index \<open>98 j + i\<close> of the input.\<close>

definition interleave_AFS_SF234 :: "u8 list \<Rightarrow> u8 list" where
  "interleave_AFS_SF234 syms_in = concat (map (\<lambda>i. map (\<lambda>j. syms_in ! (j * 98 + i)) [0..<60]) [0..<98])"

section \<open>The cache invariant\<close>

text \<open>Every matrix that is there holds its table.\<close>

definition slot_ok :: "heap \<Rightarrow> nat option \<Rightarrow> nat \<Rightarrow> nat \<Rightarrow> (nat \<times> nat) list \<Rightarrow> bool" where
  "slot_ok h slot nr nc ind \<longleftrightarrow> (\<forall>m. slot = Some m \<longrightarrow> mat_rel h m nr nc (set ind))"

definition nav_ok :: "nav_state \<Rightarrow> bool" where
  "nav_ok s \<longleftrightarrow> heap_ok (hp s) \<and>
     slot_ok (hp s) (SF2_A s) 480 1200 SF2_A_ind \<and> slot_ok (hp s) (SF2_B_Inv s) 480 480 SF2_B_Inv_ind \<and>
     slot_ok (hp s) (SF2_C s) 4560 1200 SF2_C_ind \<and> slot_ok (hp s) (SF2_D s) 4560 480 SF2_D_ind \<and>
     slot_ok (hp s) (SF3_A s) 352 880 SF3_A_ind \<and> slot_ok (hp s) (SF3_B_Inv s) 352 352 SF3_B_Inv_ind \<and>
     slot_ok (hp s) (SF3_C s) 3344 880 SF3_C_ind \<and> slot_ok (hp s) (SF3_D s) 3344 352 SF3_D_ind"

lemma nav_ok_nav0 [simp]: "nav_ok nav0"
  by (simp add: nav_ok_def nav0_def slot_ok_def)

definition keeps :: "heap \<Rightarrow> heap \<Rightarrow> bool" where
  "keeps h h' \<longleftrightarrow> heap_ok h' \<and> (\<forall>m nr nc E. mat_rel h m nr nc E \<longrightarrow> mat_rel h' m nr nc E)"

lemma keeps_trans: "keeps h h' \<Longrightarrow> keeps h' h'' \<Longrightarrow> keeps h h''"
  by (simp add: keeps_def)

lemma slot_ok_keeps: "slot_ok h slot nr nc ind \<Longrightarrow> keeps h h' \<Longrightarrow> slot_ok h' slot nr nc ind"
  by (simp add: slot_ok_def keeps_def)

lemma cached_ok:
  assumes "heap_ok h" "slot_ok h slot nr nc ind" "0 < nr" "0 < nc" "list_all (in_dims nr nc) ind"
  obtains h' m where "cached (int nr) (int nc) ind slot h = Inr (h', m)"
    "mat_rel h' m nr nc (set ind)" "keeps h h'"
proof (cases slot)
  case None
  from ms.load_ok [OF assms(1,3,4) in_dims_ball [OF assms(5)]] obtain h1 m h' where
    "mod2sparse_allocate (int nr) (int nc) h = Inr (h1, m)" "insert_each mod2sparse_insert m ind h1 = Inr h'"
    "mat_rel h' m nr nc (set ind)" "\<forall>m' nr' nc' E'. mat_rel h m' nr' nc' E' \<longrightarrow> mat_rel h' m' nr' nc' E'"
    by blast
  moreover from this(3) have "heap_ok h'" by (simp add: mat_rel_def)
  ultimately show ?thesis using None that by (auto simp: cached_def keeps_def)
next
  case (Some m)
  then show ?thesis using that [of h m] assms by (simp add: cached_def slot_ok_def keeps_def)
qed

text \<open>A slot of the cache after other slots have been filled.\<close>

lemma cached_step:
  assumes "slot_ok h0 slot nr nc ind" "keeps h0 h" "0 < nr" "0 < nc" "list_all (in_dims nr nc) ind"
  shows "\<exists>h' m. cached (int nr) (int nc) ind slot h = Inr (h', m) \<and> mat_rel h' m nr nc (set ind) \<and>
    keeps h h' \<and> keeps h0 h'"
proof -
  have "heap_ok h" using assms(2) by (simp add: keeps_def)
  from cached_ok [OF this slot_ok_keeps [OF assms(1,2)] assms(3-5)] show ?thesis
    using keeps_trans [OF assms(2)] by metis
qed

lemma cached_chain:
  assumes "heap_ok h0"
    and s1: "slot_ok h0 sl1 r1 c1 t1" "0 < r1" "0 < c1" "list_all (in_dims r1 c1) t1"
    and s2: "slot_ok h0 sl2 r2 c2 t2" "0 < r2" "0 < c2" "list_all (in_dims r2 c2) t2"
    and s3: "slot_ok h0 sl3 r3 c3 t3" "0 < r3" "0 < c3" "list_all (in_dims r3 c3) t3"
    and s4: "slot_ok h0 sl4 r4 c4 t4" "0 < r4" "0 < c4" "list_all (in_dims r4 c4) t4"
  obtains h1 h2 h3 h4 m1 m2 m3 m4 where "cached (int r1) (int c1) t1 sl1 h0 = Inr (h1, m1)"
    "cached (int r2) (int c2) t2 sl2 h1 = Inr (h2, m2)" "cached (int r3) (int c3) t3 sl3 h2 = Inr (h3, m3)"
    "cached (int r4) (int c4) t4 sl4 h3 = Inr (h4, m4)" "keeps h0 h4"
    "mat_rel h4 m1 r1 c1 (set t1)" "mat_rel h4 m2 r2 c2 (set t2)" "mat_rel h4 m3 r3 c3 (set t3)"
    "mat_rel h4 m4 r4 c4 (set t4)"
proof -
  have k0: "keeps h0 h0" using assms(1) by (simp add: keeps_def)
  from cached_step [OF s1(1) k0 s1(2-4)] obtain h1 m1 where
    1: "cached (int r1) (int c1) t1 sl1 h0 = Inr (h1, m1)" "mat_rel h1 m1 r1 c1 (set t1)" "keeps h0 h1" by blast
  from cached_step [OF s2(1) 1(3) s2(2-4)] obtain h2 m2 where
    2: "cached (int r2) (int c2) t2 sl2 h1 = Inr (h2, m2)" "mat_rel h2 m2 r2 c2 (set t2)" "keeps h1 h2" "keeps h0 h2"
    by blast
  from cached_step [OF s3(1) 2(4) s3(2-4)] obtain h3 m3 where
    3: "cached (int r3) (int c3) t3 sl3 h2 = Inr (h3, m3)" "mat_rel h3 m3 r3 c3 (set t3)" "keeps h2 h3" "keeps h0 h3"
    by blast
  from cached_step [OF s4(1) 3(4) s4(2-4)] obtain h4 m4 where
    4: "cached (int r4) (int c4) t4 sl4 h3 = Inr (h4, m4)" "mat_rel h4 m4 r4 c4 (set t4)" "keeps h3 h4" "keeps h0 h4"
    by blast
  show ?thesis by (rule that [OF 1(1) 2(1) 3(1) 4(1) 4(4)]) (use 1 2 3 4 in \<open>auto simp: keeps_def\<close>)
qed

lemma load_SF2_ok:
  assumes "nav_ok s"
  obtains s' a b c d where "load_SF2 s = Inr s'" "nav_ok s'"
    "SF2_A s' = Some a" "mat_rel (hp s') a 480 1200 (set SF2_A_ind)"
    "SF2_B_Inv s' = Some b" "mat_rel (hp s') b 480 480 (set SF2_B_Inv_ind)"
    "SF2_C s' = Some c" "mat_rel (hp s') c 4560 1200 (set SF2_C_ind)"
    "SF2_D s' = Some d" "mat_rel (hp s') d 4560 480 (set SF2_D_ind)"
proof -
  note ok = assms [unfolded nav_ok_def]
  have sl: "heap_ok (hp s)" "slot_ok (hp s) (SF2_A s) 480 1200 SF2_A_ind" "slot_ok (hp s) (SF2_B_Inv s) 480 480 SF2_B_Inv_ind"
      "slot_ok (hp s) (SF2_C s) 4560 1200 SF2_C_ind" "slot_ok (hp s) (SF2_D s) 4560 480 SF2_D_ind"
    using ok by simp_all
  have pos: "(0 :: nat) < 480" "(0 :: nat) < 1200" "(0 :: nat) < 4560" by simp_all
  obtain h1 h2 h3 h4 a b c d where c: "cached 480 1200 SF2_A_ind (SF2_A s) (hp s) = Inr (h1, a)"
      "cached 480 480 SF2_B_Inv_ind (SF2_B_Inv s) h1 = Inr (h2, b)"
      "cached 4560 1200 SF2_C_ind (SF2_C s) h2 = Inr (h3, c)" "cached 4560 480 SF2_D_ind (SF2_D s) h3 = Inr (h4, d)"
    and k: "keeps (hp s) h4"
    and rels: "mat_rel h4 a 480 1200 (set SF2_A_ind)" "mat_rel h4 b 480 480 (set SF2_B_Inv_ind)"
      "mat_rel h4 c 4560 1200 (set SF2_C_ind)" "mat_rel h4 d 4560 480 (set SF2_D_ind)"
    by (rule cached_chain [OF sl(1,2) pos(1,2) SF2_A_ind_bounds sl(3) pos(1,1) SF2_B_Inv_ind_bounds
          sl(4) pos(3,2) SF2_C_ind_bounds sl(5) pos(3,1) SF2_D_ind_bounds, unfolded of_nat_numeral]) (rule that)
  let ?s = "s\<lparr>SF2_A := Some a, SF2_B_Inv := Some b, SF2_C := Some c, SF2_D := Some d, hp := h4\<rparr>"
  have "load_SF2 s = Inr ?s" by (simp add: load_SF2_def c)
  moreover have "nav_ok ?s"
    using ok rels k slot_ok_keeps [OF _ k] by (simp add: nav_ok_def slot_ok_def keeps_def)
  ultimately show ?thesis using that [of ?s a b c d] rels by simp
qed

lemma load_SF3_ok:
  assumes "nav_ok s"
  obtains s' a b c d where "load_SF3 s = Inr s'" "nav_ok s'"
    "SF3_A s' = Some a" "mat_rel (hp s') a 352 880 (set SF3_A_ind)"
    "SF3_B_Inv s' = Some b" "mat_rel (hp s') b 352 352 (set SF3_B_Inv_ind)"
    "SF3_C s' = Some c" "mat_rel (hp s') c 3344 880 (set SF3_C_ind)"
    "SF3_D s' = Some d" "mat_rel (hp s') d 3344 352 (set SF3_D_ind)"
proof -
  note ok = assms [unfolded nav_ok_def]
  have sl: "heap_ok (hp s)" "slot_ok (hp s) (SF3_A s) 352 880 SF3_A_ind" "slot_ok (hp s) (SF3_B_Inv s) 352 352 SF3_B_Inv_ind"
      "slot_ok (hp s) (SF3_C s) 3344 880 SF3_C_ind" "slot_ok (hp s) (SF3_D s) 3344 352 SF3_D_ind"
    using ok by simp_all
  have pos: "(0 :: nat) < 352" "(0 :: nat) < 880" "(0 :: nat) < 3344" by simp_all
  obtain h1 h2 h3 h4 a b c d where c: "cached 352 880 SF3_A_ind (SF3_A s) (hp s) = Inr (h1, a)"
      "cached 352 352 SF3_B_Inv_ind (SF3_B_Inv s) h1 = Inr (h2, b)"
      "cached 3344 880 SF3_C_ind (SF3_C s) h2 = Inr (h3, c)" "cached 3344 352 SF3_D_ind (SF3_D s) h3 = Inr (h4, d)"
    and k: "keeps (hp s) h4"
    and rels: "mat_rel h4 a 352 880 (set SF3_A_ind)" "mat_rel h4 b 352 352 (set SF3_B_Inv_ind)"
      "mat_rel h4 c 3344 880 (set SF3_C_ind)" "mat_rel h4 d 3344 352 (set SF3_D_ind)"
    by (rule cached_chain [OF sl(1,2) pos(1,2) SF3_A_ind_bounds sl(3) pos(1,1) SF3_B_Inv_ind_bounds
          sl(4) pos(3,2) SF3_C_ind_bounds sl(5) pos(3,1) SF3_D_ind_bounds, unfolded of_nat_numeral]) (rule that)
  let ?s = "s\<lparr>SF3_A := Some a, SF3_B_Inv := Some b, SF3_C := Some c, SF3_D := Some d, hp := h4\<rparr>"
  have "load_SF3 s = Inr ?s" by (simp add: load_SF3_def c)
  moreover have "nav_ok ?s"
    using ok rels k slot_ok_keeps [OF _ k] by (simp add: nav_ok_def slot_ok_def keeps_def)
  ultimately show ?thesis using that [of ?s a b c d] rels by simp
qed

section \<open>What the coders compute\<close>

text \<open>The product of a matrix over GF(2) with a vector of bits.\<close>

definition mulv :: "(nat \<times> nat) set \<Rightarrow> nat \<Rightarrow> nat \<Rightarrow> u8 list \<Rightarrow> u8 list" where
  "mulv E nr nc u = map (\<lambda>i. of_bool (gf2_row E nc (\<lambda>j. u ! j \<noteq> 0) i)) [0..<nr]"

definition xor_list :: "u8 list \<Rightarrow> u8 list \<Rightarrow> u8 list" where
  "xor_list xs ys = map2 (XOR) xs ys"

text \<open>The two parity parts for the systematic part \<open>s\<close>: \<open>p1 = B\<^sup>-\<^sup>1 A s\<close> and \<open>p2 = C s + D p1\<close>.\<close>

definition SF2_p1 :: "u8 list \<Rightarrow> u8 list" where
  "SF2_p1 s = mulv (set SF2_B_Inv_ind) 480 480 (mulv (set SF2_A_ind) 480 1200 s)"

definition SF2_p2 :: "u8 list \<Rightarrow> u8 list" where
  "SF2_p2 s = xor_list (mulv (set SF2_C_ind) 4560 1200 s) (mulv (set SF2_D_ind) 4560 480 (SF2_p1 s))"

definition SF3_p1 :: "u8 list \<Rightarrow> u8 list" where
  "SF3_p1 s = mulv (set SF3_B_Inv_ind) 352 352 (mulv (set SF3_A_ind) 352 880 s)"

definition SF3_p2 :: "u8 list \<Rightarrow> u8 list" where
  "SF3_p2 s = xor_list (mulv (set SF3_C_ind) 3344 880 s) (mulv (set SF3_D_ind) 3344 352 (SF3_p1 s))"

text \<open>The whole codewords; subframe 3 has ten filler bits after its 870 bits.\<close>

definition SF2_codeword :: "u8 list \<Rightarrow> u8 list" where
  "SF2_codeword s = s @ SF2_p1 s @ SF2_p2 s"

definition SF3_fill :: "u8 list \<Rightarrow> u8 list" where
  "SF3_fill syms = take 870 syms @ replicate 10 0"

definition SF3_codeword :: "u8 list \<Rightarrow> u8 list" where
  "SF3_codeword s = s @ SF3_p1 s @ SF3_p2 s"

lemma length_mulv [simp, afs_length]: "length (mulv E nr nc u) = nr"
  by (simp add: mulv_def)

lemma nth_mulv [afs_nth]: "i < nr \<Longrightarrow> mulv E nr nc u ! i = of_bool (gf2_row E nc (\<lambda>j. u ! j \<noteq> 0) i)"
  by (simp add: mulv_def)

lemma bitarr_mulv [simp, afs_bits]: "bitarr (mulv E nr nc u)"
  by (simp add: bitarr_nth nth_mulv)

lemma mulvec_mulv: "mat_rel h m nr nc E \<Longrightarrow> mod2sparse_mulvec m u h = Inr (mulv E nr nc u)"
  by (simp add: ms.mulvec_law mulv_def)

lemma length_xor_list [simp, afs_length]: "length (xor_list xs ys) = min (length xs) (length ys)"
  by (simp add: xor_list_def)

lemma nth_xor_list [afs_nth]:
  "i < length xs \<Longrightarrow> i < length ys \<Longrightarrow> xor_list xs ys ! i = xs ! i XOR ys ! i"
  by (simp add: xor_list_def)

lemma add_mod_2_xor: "(a :: u8) = 0 \<or> a = 1 \<Longrightarrow> b = 0 \<or> b = 1 \<Longrightarrow> (a + b) mod 2 = a XOR b"
  by auto

lemma add_mod_2_xor_list:
  assumes "bitarr xs" "bitarr ys" "length xs = n" "length ys = n"
  shows "map (\<lambda>i. (xs ! i + ys ! i) mod 2) [0..<n] = xor_list xs ys"
proof (rule map_upt_eqI)
  fix i assume "i < n"
  then show "(xs ! i + ys ! i) mod 2 = xor_list xs ys ! i"
    using assms add_mod_2_xor [OF bitarr_nthD bitarr_nthD] by (simp add: nth_xor_list)
qed (use assms in simp)

lemma bitarr_xor_list [afs_bits]: "bitarr xs \<Longrightarrow> bitarr ys \<Longrightarrow> bitarr (xor_list xs ys)"
  by (auto simp: bitarr_nth nth_xor_list) (metis xor.left_neutral xor.right_neutral xor_self_eq)+

lemma SF_lengths [simp, afs_length]:
  "length (SF2_p1 s) = 480" "length (SF2_p2 s) = 4560" "length (SF3_p1 s) = 352" "length (SF3_p2 s) = 3344"
  by (simp_all add: SF2_p1_def SF2_p2_def SF3_p1_def SF3_p2_def)

lemma slice_map: "a + n \<le> length xs \<Longrightarrow> map (\<lambda>i. xs ! (i + a)) [0..<n] = take n (drop a xs)"
  by (rule map_upt_eqI) (simp_all add: add.commute)

lemma slice_map0: "n \<le> length xs \<Longrightarrow> map (\<lambda>i. xs ! i) [0..<n] = take n xs"
  using slice_map [of 0 n xs] by simp

text \<open>Whatever is cached, the coder returns the punctured codeword and keeps the cache well formed.\<close>

lemma encode_SF2_ok:
  assumes "nav_ok s" "length syms = 1200"
  obtains s' where "encode_LDPC_AFS_SF2 syms s = Inr (s', take 2400 (drop 240 (SF2_codeword syms)))" "nav_ok s'"
proof -
  obtain s' a b c d where l: "load_SF2 s = Inr s'" "nav_ok s'"
    "SF2_A s' = Some a" "mat_rel (hp s') a 480 1200 (set SF2_A_ind)"
    "SF2_B_Inv s' = Some b" "mat_rel (hp s') b 480 480 (set SF2_B_Inv_ind)"
    "SF2_C s' = Some c" "mat_rel (hp s') c 4560 1200 (set SF2_C_ind)"
    "SF2_D s' = Some d" "mat_rel (hp s') d 4560 480 (set SF2_D_ind)"
    using load_SF2_ok [OF assms(1)] by metis
  have p2: "map (\<lambda>i. (mulv (set SF2_C_ind) 4560 1200 syms ! i + mulv (set SF2_D_ind) 4560 480 (SF2_p1 syms) ! i) mod 2)
      [0..<4560] = SF2_p2 syms"
    unfolding SF2_p2_def by (rule add_mod_2_xor_list) simp_all
  have "encode_LDPC_AFS_SF2 syms s =
      Inr (s', take 960 (drop 240 syms) @ SF2_p1 syms @ take 960 (SF2_p2 syms))"
    using assms(2) p2 unfolding encode_LDPC_AFS_SF2_def
    by (simp add: l mulvec_mulv [OF l(4)] mulvec_mulv [OF l(6)] mulvec_mulv [OF l(8)] mulvec_mulv [OF l(10)]
        slice_map slice_map0 flip: SF2_p1_def)
  also have "take 960 (drop 240 syms) @ SF2_p1 syms @ take 960 (SF2_p2 syms) =
      take 2400 (drop 240 (SF2_codeword syms))"
    using assms(2) by (simp add: SF2_codeword_def)
  finally show ?thesis using that l(2) by blast
qed

lemma encode_SF3_ok:
  assumes "nav_ok s" "870 \<le> length syms"
  defines "cw \<equiv> SF3_codeword (SF3_fill syms)"
  obtains s' where "encode_LDPC_AFS_SF3 syms s = Inr (s', take 694 (drop 176 cw) @ take 1046 (drop 880 cw))" "nav_ok s'"
proof -
  obtain s' a b c d where l: "load_SF3 s = Inr s'" "nav_ok s'"
    "SF3_A s' = Some a" "mat_rel (hp s') a 352 880 (set SF3_A_ind)"
    "SF3_B_Inv s' = Some b" "mat_rel (hp s') b 352 352 (set SF3_B_Inv_ind)"
    "SF3_C s' = Some c" "mat_rel (hp s') c 3344 880 (set SF3_C_ind)"
    "SF3_D s' = Some d" "mat_rel (hp s') d 3344 352 (set SF3_D_ind)"
    using load_SF3_ok [OF assms(1)] by metis
  let ?f = "SF3_fill syms"
  have len: "length ?f = 880" using assms(2) by (simp add: SF3_fill_def)
  have p2: "map (\<lambda>i. (mulv (set SF3_C_ind) 3344 880 ?f ! i + mulv (set SF3_D_ind) 3344 352 (SF3_p1 ?f) ! i) mod 2)
      [0..<3344] = SF3_p2 ?f"
    unfolding SF3_p2_def by (rule add_mod_2_xor_list) simp_all
  have fill: "map (\<lambda>i. syms ! i) [0..<870] @ replicate 10 0 = ?f"
    using assms(2) by (simp add: SF3_fill_def slice_map0)
  have "encode_LDPC_AFS_SF3 syms s =
      Inr (s', take 694 (drop 176 ?f) @ SF3_p1 ?f @ take 694 (SF3_p2 ?f))"
    using len p2 unfolding encode_LDPC_AFS_SF3_def Let_def fill
    by (simp add: l mulvec_mulv [OF l(4)] mulvec_mulv [OF l(6)] mulvec_mulv [OF l(8)] mulvec_mulv [OF l(10)]
        slice_map slice_map0 flip: SF3_p1_def)
  also have "take 694 (drop 176 ?f) @ SF3_p1 ?f @ take 694 (SF3_p2 ?f) =
      take 694 (drop 176 cw) @ take 1046 (drop 880 cw)"
    using len by (simp add: cw_def SF3_codeword_def)
  finally show ?thesis using that l(2) by blast
qed

end
