(* ===== verification/Afs_Frame.thy ===== *)
theory Afs_Frame
  imports Afs_Nav
begin

text \<open>
  What the CRC, the BCH code of subframe 1 and the interleaver of \<open>afs_nav.c\<close> do to the bits.
\<close>

section \<open>Appending the CRC\<close>

text \<open>The 24 bits of a register, highest first.\<close>

definition bits24 :: "u32 \<Rightarrow> bool list" where
  "bits24 c = map (\<lambda>i. bit c (23 - i)) [0..<24]"

lemma nth_bits24 [simp]: "i < 24 \<Longrightarrow> bits24 c ! i = bit c (23 - i)"
  unfolding bits24_def by (rule nth_map_upt0)

lemma length_bits24 [simp]: "length (bits24 c) = 24"
  by (simp add: bits24_def)

lemma nth_bytes_bits: "i < 8 * length bs \<Longrightarrow> bytes_bits bs ! i = bit (bs ! (i div 8)) (7 - i mod 8)"
proof (induction bs arbitrary: i)
  case (Cons b bs)
  show ?case
  proof (cases "i < 8")
    case True
    then show ?thesis by (simp add: bytes_bits_def nth_append byte_bits_def)
  next
    case False
    then have "bytes_bits (b # bs) ! i = bytes_bits bs ! (i - 8)"
      by (simp add: bytes_bits_def nth_append)
    also have "\<dots> = bit (bs ! ((i - 8) div 8)) (7 - (i - 8) mod 8)"
      using Cons False by simp
    also have "(i - 8) div 8 = i div 8 - 1" using False by (simp add: le_div_geq)
    also have "(i - 8) mod 8 = i mod 8" using False by (simp add: le_mod_geq)
    also have "bs ! (i div 8 - 1) = (b # bs) ! (i div 8)" using False by (simp add: nth_Cons' div_eq_0_iff)
    finally show ?thesis .
  qed
qed simp

lemma length_bytes_bits [simp]: "length (bytes_bits bs) = 8 * length bs"
  by (induction bs) (simp_all add: bytes_bits_def)

text \<open>The bytes the CRC is taken over are the data bits, aligned right.\<close>

lemma packed_data_bits:
  assumes "bitarr syms" "len \<le> length syms" "24 \<le> len"
  defines "N \<equiv> (len - 24 + 7) div 8 * 8"
  shows "bytes_bits (take (N div 8) (sdr_pack_bits syms len (N + 24 - len))) =
    replicate (N + 24 - len) False @ bools (take (len - 24) syms)"
proof (rule nth_equalityI)
  have "len - 24 \<le> (len - 24 + 7) div 8 * 8" by presburger
  then have N: "len - 24 \<le> N" "N mod 8 = 0" "N + 24 - len + len = N + 24"
    using assms(3) by (auto simp: N_def)
  obtain q where q: "N = 8 * q" using N(2) by auto
  have bytes: "(N + 24 - len + len + 7) div 8 = N div 8 + 3" unfolding N(3) unfolding q by simp
  show len_eq: "length (bytes_bits (take (N div 8) (sdr_pack_bits syms len (N + 24 - len)))) =
      length (replicate (N + 24 - len) False @ bools (take (len - 24) syms))"
    using assms N bytes by (auto simp: min_def)
  fix i assume "i < length (bytes_bits (take (N div 8) (sdr_pack_bits syms len (N + 24 - len))))"
  then have i: "i < N" using bytes N by (auto simp: min_def)
  have i8: "i div 8 < N div 8" using i N by auto
  have "bytes_bits (take (N div 8) (sdr_pack_bits syms len (N + 24 - len))) ! i =
      bit (sdr_pack_bits syms len (N + 24 - len) ! (i div 8)) (7 - i mod 8)"
    using i i8 N bytes by (subst nth_bytes_bits) (auto simp: min_def)
  also have "\<dots> = (N + 24 - len \<le> i \<and> i < N + 24 - len + len \<and> syms ! (i - (N + 24 - len)) \<noteq> 0)"
    using bit_sdr_pack_bits [OF assms(1,2), of "i div 8" "N + 24 - len" "7 - i mod 8"] i8 bytes
    unfolding bytes_index by simp
  also have "\<dots> = (replicate (N + 24 - len) False @ bools (take (len - 24) syms)) ! i"
    using i N assms(2,3) by (auto simp: nth_append)
  finally show "bytes_bits (take (N div 8) (sdr_pack_bits syms len (N + 24 - len))) ! i =
      (replicate (N + 24 - len) False @ bools (take (len - 24) syms)) ! i" .
qed

lemma append_CRC24_eq:
  assumes "bitarr syms" "len \<le> length syms" "24 \<le> len"
  shows "append_CRC24 syms len =
    take (len - 24) syms @ unbools (bits24 (crc_bits 0 (bools (take (len - 24) syms)))) @ drop len syms"
proof -
  let ?N = "(len - 24 + 7) div 8 * 8"
  have "rtk_crc24q (sdr_pack_bits syms len (?N + 24 - len)) (?N div 8) = crc_bits 0 (bools (take (len - 24) syms))"
    using packed_data_bits [OF assms] crc_bits_lead0 by (subst rtk_crc24q_crc_bits) (auto simp del: crc_bits_simps)
  then have "append_CRC24 syms len = memcpy_at syms (len - 24) (sdr_unpack_data (crc_bits 0 (bools (take (len - 24) syms))) 24)"
    by (simp add: append_CRC24_def Let_def)
  moreover have "sdr_unpack_data c 24 = unbools (bits24 c)" for c
    by (simp add: sdr_unpack_data_def bits24_def unbools_def drop_bit_and_1)
  ultimately show ?thesis using assms(3) by (simp add: memcpy_at_def)
qed

lemma crc_top_bits24: "(\<And>k. 24 \<le> k \<Longrightarrow> \<not> bit c k) \<Longrightarrow> crc_top (bits24 c) = c"
proof (rule bit_eqI)
  fix n assume high: "\<And>k. 24 \<le> k \<Longrightarrow> \<not> bit c k"
  show "bit (crc_top (bits24 c)) n = bit c n"
  proof (cases "n \<le> 23")
    case False
    then show ?thesis using high [of n] by (simp add: bit_crc_top)
  qed (auto simp: bit_crc_top)
qed

text \<open>A block with its CRC appended has remainder zero, and only the CRC gives remainder zero.\<close>

lemma crc_residue:
  assumes "length cs = 24"
  shows "crc_bits 0 (ds @ cs) = 0 \<longleftrightarrow> cs = bits24 (crc_bits 0 ds)"
proof -
  let ?c = "crc_bits 0 ds"
  have high: "\<not> bit ?c k" "\<not> bit (crc_top cs) k" if "24 \<le> k" for k
    using that crc_bits_less [of ds k] by (auto simp: bit_crc_top)
  have "crc_bits 0 (ds @ cs) = (crc_shift ^^ 24) (?c XOR crc_top cs)"
    using crc_bits_top [of cs ?c] assms by simp
  also have "\<dots> = 0 \<longleftrightarrow> ?c XOR crc_top cs = 0"
    using crc_shift_pow_eq_0 [of 24 "?c XOR crc_top cs"] high by (auto simp: bit_xor_iff)
  also have "\<dots> \<longleftrightarrow> crc_top cs = ?c"
    by (metis xor.assoc xor.left_neutral xor_self_eq)
  also have "\<dots> \<longleftrightarrow> cs = bits24 ?c"
  proof
    assume "crc_top cs = ?c"
    then have "bits24 ?c = bits24 (crc_top cs)" by simp
    also have "\<dots> = cs" using assms by (auto simp: bits24_def bit_crc_top intro!: map_upt_eqI)
    finally show "cs = bits24 ?c" by simp
  qed (use high(1) in \<open>auto intro: crc_top_bits24\<close>)
  finally show ?thesis .
qed

section \<open>The interleaver\<close>

text \<open>A table of \<open>a\<close> rows of \<open>b\<close> values, flattened.\<close>

lemma concat_table_nth:
  assumes "k < a * b"
  shows "concat (map (\<lambda>i. map (f i) [0..<b]) [0..<a]) ! k = f (k div b) (k mod b)"
  using assms
proof (induction a)
  case (Suc a)
  have len: "length (concat (map (\<lambda>i. map (f i) [0..<b]) [0..<a])) = a * b"
    by (induction a) simp_all
  show ?case
  proof (cases "k < a * b")
    case True
    then show ?thesis using Suc.IH len by (simp add: nth_append)
  next
    case False
    then have "k = a * b + (k - a * b)" "k - a * b < b" using Suc.prems by auto
    then have "k div b = a" "k mod b = k - a * b"
      by (metis add.commute div_mult_self4 div_less mult.commute add_0 less_nat_zero_code)
        (metis \<open>k = a * b + (k - a * b)\<close> \<open>k - a * b < b\<close> mod_less mod_mult_self3)
    then show ?thesis using False Suc.prems len by (simp add: nth_append)
  qed
qed simp

lemma concat_table_length: "length (concat (map (\<lambda>i. map (f i) [0..<b]) [0..<a])) = a * b"
  by (induction a) simp_all

lemma length_interleave [simp, afs_length]: "length (interleave_AFS_SF234 xs) = 5880"
  unfolding interleave_AFS_SF234_def concat_table_length by simp

lemma interleave_nth [afs_nth]:
  "k < 5880 \<Longrightarrow> interleave_AFS_SF234 xs ! k = xs ! (k mod 60 * 98 + k div 60)"
  unfolding interleave_AFS_SF234_def by (subst concat_table_nth) simp_all

section \<open>Subframe 1\<close>

lemma of_bool_u8_inj: "(of_bool a :: u8) = of_bool b \<Longrightarrow> a = b"
  by (cases a; cases b) simp_all

lemma length_generate_BCH [simp, afs_length]: "length (generate_BCH_AFS_SF1 fid toi) = 52"
  by (simp add: generate_BCH_AFS_SF1_def Let_def)

text \<open>The first nine symbols carry the nine data bits: bit 8, then bits 7 to 0, each added to bit 8.\<close>

lemma bit9_eq: "(ucast (signed_drop_bit 8 (data :: i32) AND 1) :: u8) = of_bool (bit data 8)"
  by (rule bit_eqI) (auto simp: bit_unsigned_iff bit_and_iff bit_signed_drop_bit_i32 bit_1_iff bit_of_bool_iff)

lemma generate_BCH_head:
  fixes fid toi :: i32
  defines "data \<equiv> push_bit 7 fid OR toi"
  shows "generate_BCH_AFS_SF1 fid toi ! 0 = of_bool (bit data 8)"
    "i < 8 \<Longrightarrow> generate_BCH_AFS_SF1 fid toi ! Suc i = of_bool (bit data (7 - i) \<noteq> bit data 8)"
proof -
  note b9 = bit9_eq [of data]
  show "generate_BCH_AFS_SF1 fid toi ! 0 = of_bool (bit data 8)"
    using b9 by (simp add: generate_BCH_AFS_SF1_def Let_def data_def)
  assume i: "i < 8"
  let ?R = "rev_reg (data AND 0xFF) 8"
  have mask: "bit (0xFF :: i32) k \<longleftrightarrow> k < 8" for k
  proof -
    have "(0xFF :: i32) = mask 8" by (simp add: mask_eq_exp_minus_1)
    then show ?thesis unfolding \<open>0xFF = mask 8\<close> bit_mask_iff by auto
  qed
  have R: "bit ?R k \<longleftrightarrow> k < 8 \<and> bit data (7 - k)" for k
    using bit_rev_reg [of 8 "data AND 0xFF" k] mask [of "7 - k"] by (auto simp: bit_and_iff)
  have "LFSR 51 ?R 0x9F 8 ! i = (if bit ?R i then 1 else -1)"
    by (rule LFSR_systematic) (use i R in auto)
  then have "LFSR 51 ?R 0x9F 8 ! i = (if bit data (7 - i) then 1 else -1)" using R i by simp
  then show "generate_BCH_AFS_SF1 fid toi ! Suc i = of_bool (bit data (7 - i) \<noteq> bit data 8)"
    using i b9 by (auto simp: generate_BCH_AFS_SF1_def Let_def data_def nth_map_upt)
qed

lemma generate_BCH_bits: "bitarr (generate_BCH_AFS_SF1 fid toi)"
proof -
  let ?c = "LFSR 51 (rev_reg ((push_bit 7 fid OR toi) AND 0xFF) 8) 0x9F 8"
  let ?b = "ucast (signed_drop_bit 8 (push_bit 7 fid OR toi) AND 1) :: u8"
  have b: "?b = 0 \<or> ?b = 1" unfolding bit9_eq by simp
  have "?c ! (i - 1) = 1 \<or> ?c ! (i - 1) = -1" if "i \<in> {1..<52}" for i
    using that by (intro LFSR_values [OF nth_mem]) auto
  then show ?thesis
    unfolding generate_BCH_AFS_SF1_def Let_def bitarr_def using b by (fastforce simp: list_all_iff)
qed

lemma generate_BCH_inj:
  assumes "generate_BCH_AFS_SF1 fid toi = generate_BCH_AFS_SF1 fid' toi'" "k < 9"
  shows "bit (push_bit 7 fid OR toi) k = bit (push_bit 7 fid' OR toi') k"
proof -
  have 8: "bit (push_bit 7 fid OR toi) 8 = bit (push_bit 7 fid' OR toi') 8"
    using generate_BCH_head(1) [of fid toi] generate_BCH_head(1) [of fid' toi'] assms(1) of_bool_u8_inj by metis
  show ?thesis
  proof (cases "k = 8")
    case False
    then have lt: "7 - k < 8" and eq: "7 - (7 - k) = k" using assms(2) by auto
    let ?d = "push_bit 7 fid OR toi" and ?d' = "push_bit 7 fid' OR toi'"
    have "(of_bool (bit ?d k \<noteq> bit ?d 8) :: u8) = of_bool (bit ?d' k \<noteq> bit ?d' 8)"
      unfolding generate_BCH_head(2) [OF lt, unfolded eq, symmetric] assms(1) ..
    then have "(bit ?d k \<noteq> bit ?d 8) = (bit ?d' k \<noteq> bit ?d' 8)" by (rule of_bool_u8_inj)
    with 8 show ?thesis by blast
  qed (use 8 in simp)
qed

text \<open>Frame identifiers below 4 and times of interval below 128 are determined by the symbols.\<close>

lemma BCH_args_eq:
  assumes "fid < 4" "fid' < 4" "toi < 128" "toi' < 128"
    and "generate_BCH_AFS_SF1 fid toi = generate_BCH_AFS_SF1 fid' toi'"
  shows "fid = fid' \<and> toi = toi'"
proof -
  have lo: "\<not> bit x k" if "x < 128" "7 \<le> k" for x :: i32 and k
    using that bit_nat_above [of "unat x" k] power_increasing [of 7 k "2 :: nat"]
    by (simp add: bit_unsigned_iff word_less_nat_alt)
  have f: "\<not> bit x k" if "x < 4" "2 \<le> k" for x :: i32 and k
    using that bit_nat_above [of "unat x" k] power_increasing [of 2 k "2 :: nat"]
    by (simp add: bit_unsigned_iff word_less_nat_alt)
  have eq: "bit (push_bit 7 fid OR toi) k = bit (push_bit 7 fid' OR toi') k" if "k < 9" for k
    by (rule generate_BCH_inj [OF assms(5) that])
  have t: "bit toi k = bit toi' k" for k
  proof (cases "k < 7")
    case True
    then show ?thesis using eq [of k] by (simp add: bit_or_iff bit_push_bit_iff)
  qed (use lo assms(3,4) in simp)
  have g: "bit fid k = bit fid' k" for k
  proof (cases "k < 2")
    case True
    then have "bit (push_bit 7 fid OR toi) (7 + k) = bit fid k" "bit (push_bit 7 fid' OR toi') (7 + k) = bit fid' k"
      using lo assms(3,4) by (simp_all add: bit_or_iff bit_push_bit_iff)
    then show ?thesis using eq [of "7 + k"] True by simp
  qed (use f assms(1,2) in simp)
  show ?thesis using t g by (auto intro: bit_eqI)
qed

end
