(* ===== verification/Afs_Ldpc_Dec.thy ===== *)
theory Afs_Ldpc_Dec
  imports Afs_Nav
begin

text \<open>
  The receive side of the LDPC codes, \<open>sdr_ldpc_afs.c\<close> of PocketSDR-AFS: the parity check matrix put
  together from the index tables, and the decoder around the functions of the library LDPC-codes,
  which are not part of the sources and are parameters here. The main result is that every codeword
  of the coders of \<open>afs_nav.c\<close> satisfies all parity checks of the matrix the decoder builds.
\<close>

section \<open>The index tables of the decoder\<close>

text \<open>\<open>sdr_ldpc_afs.c\<close> repeats the tables of \<open>afs_nav.c\<close>, entry by entry.\<close>

definition sdr_SF2_A_ind :: "(nat \<times> nat) list" where
  "sdr_SF2_A_ind = SF2_A_ind"

definition sdr_SF2_B_ind :: "(nat \<times> nat) list" where
  "sdr_SF2_B_ind = SF2_B_ind"

definition sdr_SF2_C_ind :: "(nat \<times> nat) list" where
  "sdr_SF2_C_ind = SF2_C_ind"

definition sdr_SF2_D_ind :: "(nat \<times> nat) list" where
  "sdr_SF2_D_ind = SF2_D_ind"

definition sdr_SF3_A_ind :: "(nat \<times> nat) list" where
  "sdr_SF3_A_ind = SF3_A_ind"

definition sdr_SF3_B_ind :: "(nat \<times> nat) list" where
  "sdr_SF3_B_ind = SF3_B_ind"

definition sdr_SF3_C_ind :: "(nat \<times> nat) list" where
  "sdr_SF3_C_ind = SF3_C_ind"

definition sdr_SF3_D_ind :: "(nat \<times> nat) list" where
  "sdr_SF3_D_ind = SF3_D_ind"

lemmas sdr_tables = sdr_SF2_A_ind_def sdr_SF2_B_ind_def sdr_SF2_C_ind_def sdr_SF2_D_ind_def
  sdr_SF3_A_ind_def sdr_SF3_B_ind_def sdr_SF3_C_ind_def sdr_SF3_D_ind_def

section \<open>The library and the state\<close>

text \<open>
  \<open>prprp_decode\<close> yields the decoded block for the likelihood ratios, \<open>check\<close> the number of violated
  parity checks, \<open>changed\<close> the number of changed bits (cut to an integer). The other outputs of these
  functions are not used by the caller. Likelihood ratios are real numbers here.
\<close>

record ldpc_lib =
  prprp_decode :: "heap \<Rightarrow> nat \<Rightarrow> real list \<Rightarrow> u8 list"
  check_blk :: "heap \<Rightarrow> nat \<Rightarrow> u8 list \<Rightarrow> int"
  changed_blk :: "real list \<Rightarrow> u8 list \<Rightarrow> int"

record dec_state =
  H_AFS_SF2 :: "nat option"
  H_AFS_SF3 :: "nat option"
  dhp :: heap

definition dec0 :: dec_state where
  "dec0 = \<lparr>H_AFS_SF2 = None, H_AFS_SF3 = None, dhp = heap0\<rparr>"

definition ERR_PROB :: real where
  "ERR_PROB = 1 / 10 ^ 5"

definition LRATIO :: "real list" where
  "LRATIO = [ERR_PROB / (1 - ERR_PROB), (1 - ERR_PROB) / ERR_PROB, 1]"

section \<open>Decoding\<close>

text \<open>The result and the first \<open>m\<close> bits of the decoded block.\<close>

definition decode_B_LDPC :: "ldpc_lib \<Rightarrow> heap \<Rightarrow> nat \<Rightarrow> nat \<Rightarrow> nat \<Rightarrow> u8 list \<Rightarrow> int \<times> u8 list" where
  "decode_B_LDPC lib h H m n syms =
     (let lratio = map (\<lambda>i. LRATIO ! unat (syms ! i)) [0..<n];
          dblk = prprp_decode lib h H lratio;
          valid = (check_blk lib h H dblk = 0);
          nerr = changed_blk lib lratio dblk
      in (if valid then nerr else -1, take m dblk))"

definition gen_AFS_LDPC_H :: "nat \<Rightarrow> nat \<Rightarrow> nat \<Rightarrow> (nat \<times> nat) list \<Rightarrow> (nat \<times> nat) list \<Rightarrow> (nat \<times> nat) list \<Rightarrow>
    (nat \<times> nat) list \<Rightarrow> heap \<Rightarrow> mod2err + heap \<times> nat" where
  "gen_AFS_LDPC_H m n g H_A H_B H_C H_D h =
     res_bind (mod2sparse_allocate (int m) (int n) h) (\<lambda>(h0, H).
     let k = n - m in
     res_bind (insert_each mod2sparse_insert H H_A h0) (\<lambda>h1.
     res_bind (insert_each mod2sparse_insert H (map (\<lambda>(r, c). (r, k + c)) H_B) h1) (\<lambda>h2.
     res_bind (insert_each mod2sparse_insert H (map (\<lambda>(r, c). (m - g + r, c)) H_C) h2) (\<lambda>h3.
     res_bind (insert_each mod2sparse_insert H (map (\<lambda>(r, c). (m - g + r, k + c)) H_D) h3) (\<lambda>h4.
     res_bind (insert_each mod2sparse_insert H (map (\<lambda>i. (m - g + i, n - g + i)) [0..<g]) h4) (\<lambda>h5.
       Inr (h5, H)))))))"

definition sdr_decode_LDPC_AFS_SF2 :: "ldpc_lib \<Rightarrow> u8 list \<Rightarrow> dec_state \<Rightarrow> mod2err + dec_state \<times> int \<times> u8 list" where
  "sdr_decode_LDPC_AFS_SF2 lib syms st =
     res_bind (case H_AFS_SF2 st of
         None \<Rightarrow> res_bind (gen_AFS_LDPC_H 5040 6240 4560 sdr_SF2_A_ind sdr_SF2_B_ind sdr_SF2_C_ind sdr_SF2_D_ind (dhp st))
                   (\<lambda>(h, H). Inr (st\<lparr>H_AFS_SF2 := Some H, dhp := h\<rparr>))
       | Some H \<Rightarrow> Inr st)
       (\<lambda>st'. case H_AFS_SF2 st' of
         None \<Rightarrow> Inr (st', -1, [])
       | Some H \<Rightarrow> Inr (st', decode_B_LDPC lib (dhp st') H 5040 6240 syms))"

definition sdr_decode_LDPC_AFS_SF3 :: "ldpc_lib \<Rightarrow> u8 list \<Rightarrow> dec_state \<Rightarrow> mod2err + dec_state \<times> int \<times> u8 list" where
  "sdr_decode_LDPC_AFS_SF3 lib syms st =
     res_bind (case H_AFS_SF3 st of
         None \<Rightarrow> res_bind (gen_AFS_LDPC_H 3696 4576 3344 sdr_SF3_A_ind sdr_SF3_B_ind sdr_SF3_C_ind sdr_SF3_D_ind (dhp st))
                   (\<lambda>(h, H). Inr (st\<lparr>H_AFS_SF3 := Some H, dhp := h\<rparr>))
       | Some H \<Rightarrow> Inr st)
       (\<lambda>st'. case H_AFS_SF3 st' of
         None \<Rightarrow> Inr (st', -1, [])
       | Some H \<Rightarrow> Inr (st', decode_B_LDPC lib (dhp st') H 3696 4576 syms))"

section \<open>The parity check matrix\<close>

definition afs_H :: "nat \<Rightarrow> nat \<Rightarrow> nat \<Rightarrow> (nat \<times> nat) list \<Rightarrow> (nat \<times> nat) list \<Rightarrow> (nat \<times> nat) list \<Rightarrow>
    (nat \<times> nat) list \<Rightarrow> (nat \<times> nat) set" where
  "afs_H m n g A B C D =
     set A \<union> (\<lambda>(r, c). (r, n - m + c)) ` set B \<union> (\<lambda>(r, c). (m - g + r, c)) ` set C \<union>
     (\<lambda>(r, c). (m - g + r, n - m + c)) ` set D \<union> (\<lambda>i. (m - g + i, n - g + i)) ` {..<g}"

definition SF2_H :: "(nat \<times> nat) set" where
  "SF2_H = afs_H 5040 6240 4560 SF2_A_ind SF2_B_ind SF2_C_ind SF2_D_ind"

definition SF3_H :: "(nat \<times> nat) set" where
  "SF3_H = afs_H 3696 4576 3344 SF3_A_ind SF3_B_ind SF3_C_ind SF3_D_ind"

text \<open>The sizes fit together: \<open>g\<close> rows and columns of the identity, \<open>m - g\<close> rows above them.\<close>

definition afs_dims :: "nat \<Rightarrow> nat \<Rightarrow> nat \<Rightarrow> (nat \<times> nat) list \<Rightarrow> (nat \<times> nat) list \<Rightarrow> (nat \<times> nat) list \<Rightarrow>
    (nat \<times> nat) list \<Rightarrow> bool" where
  "afs_dims m n g A B C D \<longleftrightarrow> g < m \<and> m < n \<and>
     list_all (in_dims (m - g) (n - m)) A \<and> list_all (in_dims (m - g) (m - g)) B \<and>
     list_all (in_dims g (n - m)) C \<and> list_all (in_dims g (m - g)) D"

lemma SF2_dims: "afs_dims 5040 6240 4560 SF2_A_ind SF2_B_ind SF2_C_ind SF2_D_ind"
  using SF2_A_ind_bounds SF2_B_ind_bounds SF2_C_ind_bounds SF2_D_ind_bounds by (simp add: afs_dims_def)

lemma SF3_dims: "afs_dims 3696 4576 3344 SF3_A_ind SF3_B_ind SF3_C_ind SF3_D_ind"
  using SF3_A_ind_bounds SF3_B_ind_bounds SF3_C_ind_bounds SF3_D_ind_bounds by (simp add: afs_dims_def)

lemma gen_H_ok:
  assumes "heap_ok h" "afs_dims m n g A B C D"
  obtains h' H where "gen_AFS_LDPC_H m n g A B C D h = Inr (h', H)" "mat_rel h' H m n (afs_H m n g A B C D)" "keeps h h'"
proof -
  have sz: "0 < m" "0 < n" "g < m" "m < n" using assms(2) by (auto simp: afs_dims_def)
  have dims: "\<forall>(r, c) \<in> set A. r < m \<and> c < n" "\<forall>(r, c) \<in> set (map (\<lambda>(r, c). (r, n - m + c)) B). r < m \<and> c < n"
    "\<forall>(r, c) \<in> set (map (\<lambda>(r, c). (m - g + r, c)) C). r < m \<and> c < n"
    "\<forall>(r, c) \<in> set (map (\<lambda>(r, c). (m - g + r, n - m + c)) D). r < m \<and> c < n"
    "\<forall>(r, c) \<in> set (map (\<lambda>i. (m - g + i, n - g + i)) [0..<g]). r < m \<and> c < n"
    using assms(2) by (fastforce simp: afs_dims_def in_dims_def list_all_iff)+
  obtain h0 H where 0: "mod2sparse_allocate (int m) (int n) h = Inr (h0, H)" "mat_rel h0 H m n {}"
      "\<forall>m' nr' nc' E'. mat_rel h m' nr' nc' E' \<longrightarrow> m' \<noteq> H \<and> mat_rel h0 m' nr' nc' E'"
    using ms.alloc_law [OF assms(1) sz(1,2)] by blast
  note step = ms.insert_each_ok
  from step [OF 0(2) dims(1)] obtain h1 where 1: "insert_each mod2sparse_insert H A h0 = Inr h1"
      "mat_rel h1 H m n ({} \<union> set A)" "\<forall>m' nr' nc' E'. m' \<noteq> H \<longrightarrow> mat_rel h0 m' nr' nc' E' \<longrightarrow> mat_rel h1 m' nr' nc' E'"
    by blast
  from step [OF 1(2) dims(2)] obtain h2 where 2: "insert_each mod2sparse_insert H (map (\<lambda>(r, c). (r, n - m + c)) B) h1 = Inr h2"
      "mat_rel h2 H m n ({} \<union> set A \<union> set (map (\<lambda>(r, c). (r, n - m + c)) B))"
      "\<forall>m' nr' nc' E'. m' \<noteq> H \<longrightarrow> mat_rel h1 m' nr' nc' E' \<longrightarrow> mat_rel h2 m' nr' nc' E'"
    by blast
  from step [OF 2(2) dims(3)] obtain h3 where 3: "insert_each mod2sparse_insert H (map (\<lambda>(r, c). (m - g + r, c)) C) h2 = Inr h3"
      "mat_rel h3 H m n ({} \<union> set A \<union> set (map (\<lambda>(r, c). (r, n - m + c)) B) \<union> set (map (\<lambda>(r, c). (m - g + r, c)) C))"
      "\<forall>m' nr' nc' E'. m' \<noteq> H \<longrightarrow> mat_rel h2 m' nr' nc' E' \<longrightarrow> mat_rel h3 m' nr' nc' E'"
    by blast
  from step [OF 3(2) dims(4)] obtain h4 where 4: "insert_each mod2sparse_insert H (map (\<lambda>(r, c). (m - g + r, n - m + c)) D) h3 = Inr h4"
      "mat_rel h4 H m n ({} \<union> set A \<union> set (map (\<lambda>(r, c). (r, n - m + c)) B) \<union> set (map (\<lambda>(r, c). (m - g + r, c)) C) \<union>
        set (map (\<lambda>(r, c). (m - g + r, n - m + c)) D))"
      "\<forall>m' nr' nc' E'. m' \<noteq> H \<longrightarrow> mat_rel h3 m' nr' nc' E' \<longrightarrow> mat_rel h4 m' nr' nc' E'"
    by blast
  from step [OF 4(2) dims(5)] obtain h5 where 5: "insert_each mod2sparse_insert H (map (\<lambda>i. (m - g + i, n - g + i)) [0..<g]) h4 = Inr h5"
      "mat_rel h5 H m n ({} \<union> set A \<union> set (map (\<lambda>(r, c). (r, n - m + c)) B) \<union> set (map (\<lambda>(r, c). (m - g + r, c)) C) \<union>
        set (map (\<lambda>(r, c). (m - g + r, n - m + c)) D) \<union> set (map (\<lambda>i. (m - g + i, n - g + i)) [0..<g]))"
      "\<forall>m' nr' nc' E'. m' \<noteq> H \<longrightarrow> mat_rel h4 m' nr' nc' E' \<longrightarrow> mat_rel h5 m' nr' nc' E'"
    by blast
  have "gen_AFS_LDPC_H m n g A B C D h = Inr (h5, H)"
    by (simp add: gen_AFS_LDPC_H_def Let_def 0 1 2 3 4 5)
  moreover have "mat_rel h5 H m n (afs_H m n g A B C D)"
    using 5(2) by (simp add: afs_H_def atLeast0LessThan)
  moreover have "keeps h h5"
    unfolding keeps_def using 0(3) 1(3) 2(3) 3(3) 4(3) 5(2,3) by (auto simp: mat_rel_def [of h5 H])
  ultimately show ?thesis by (rule that)
qed

section \<open>Parity checks, block by block\<close>

lemma gf2_row_set_cong: "(\<And>j. j < n \<Longrightarrow> (i, j) \<in> E \<longleftrightarrow> (i', j) \<in> F) \<Longrightarrow> gf2_row E n u i = gf2_row F n u i'"
  unfolding gf2_row_def by (rule arg_cong [of _ _ odd], rule arg_cong [of _ _ card]) auto

lemma gf2_row_split:
  "gf2_row E (a + b) u i = (gf2_row E a u i \<noteq> gf2_row {(r, c). (r, a + c) \<in> E} b (\<lambda>j. u (a + j)) i)"
  by (induction b) (auto simp: gf2_row_Suc)

lemma gf2_row_single:
  assumes "k < n" "\<And>j. j < n \<Longrightarrow> (i, j) \<in> E \<longleftrightarrow> j = k" shows "gf2_row E n u i = u k"
proof -
  have "{j. j < n \<and> (i, j) \<in> E \<and> u j} = (if u k then {k} else {})" using assms by auto
  then show ?thesis by (simp add: gf2_row_def)
qed

lemma gf2_row_empty: "(\<And>j. j < n \<Longrightarrow> (i, j) \<notin> E) \<Longrightarrow> gf2_row E n u i = False"
proof -
  assume "\<And>j. j < n \<Longrightarrow> (i, j) \<notin> E"
  then have e: "{j. j < n \<and> (i, j) \<in> E \<and> u j} = {}" by auto
  show ?thesis unfolding gf2_row_def e by simp
qed

lemma mem_shift:
  "(r, c) \<in> (\<lambda>(r, c). (a + r, b + c)) ` S \<longleftrightarrow> a \<le> r \<and> b \<le> c \<and> (r - a, c - b :: nat) \<in> S"
  "(r, c) \<in> (\<lambda>(r, c). (r, b + c)) ` S \<longleftrightarrow> b \<le> c \<and> (r, c - b) \<in> S"
  "(r, c) \<in> (\<lambda>(r, c). (a + r, c)) ` S \<longleftrightarrow> a \<le> r \<and> (r - a, c) \<in> S" for r a :: nat
  by (force simp: image_iff)+

lemma afs_H_row:
  assumes dims: "afs_dims m n g A B C D"
  defines "H \<equiv> afs_H m n g A B C D" and "k \<equiv> n - m"
  shows "i < m - g \<Longrightarrow> gf2_row H n u i = (gf2_row (set A) k u i \<noteq> gf2_row (set B) (m - g) (\<lambda>j. u (k + j)) i)"
    "i < g \<Longrightarrow> gf2_row H n u (m - g + i) =
      ((gf2_row (set C) k u i \<noteq> gf2_row (set D) (m - g) (\<lambda>j. u (k + j)) i) \<noteq> u (n - g + i))"
proof -
  have sz: "g < m" "m < n" using dims by (auto simp: afs_dims_def)
  have n: "n = k + (m - g) + g" using sz by (simp add: k_def)
  have A: "r < m - g" "c < k" if "(r, c) \<in> set A" for r c
    using dims that by (auto simp: afs_dims_def list_all_iff in_dims_def k_def)
  have B: "r < m - g" "c < m - g" if "(r, c) \<in> set B" for r c
    using dims that by (auto simp: afs_dims_def list_all_iff in_dims_def)
  have C: "r < g" "c < k" if "(r, c) \<in> set C" for r c
    using dims that by (auto simp: afs_dims_def list_all_iff in_dims_def k_def)
  have D: "r < g" "c < m - g" if "(r, c) \<in> set D" for r c
    using dims that by (auto simp: afs_dims_def list_all_iff in_dims_def)
  have H: "(r, c) \<in> H \<longleftrightarrow> (r, c) \<in> set A \<or> (k \<le> c \<and> (r, c - k) \<in> set B) \<or>
      (m - g \<le> r \<and> (r - (m - g), c) \<in> set C) \<or> (m - g \<le> r \<and> k \<le> c \<and> (r - (m - g), c - k) \<in> set D) \<or>
      (m - g \<le> r \<and> r < m \<and> c = k + r)" for r c
  proof -
    have "(r, c) \<in> (\<lambda>i. (m - g + i, n - g + i)) ` {..<g} \<longleftrightarrow> m - g \<le> r \<and> r < m \<and> c = k + r"
      using sz by (auto simp: image_iff k_def intro!: bexI [of _ "r - (m - g)"])
    then show ?thesis unfolding H_def afs_H_def Un_iff mem_shift k_def by blast
  qed
  show "gf2_row H n u i = (gf2_row (set A) k u i \<noteq> gf2_row (set B) (m - g) (\<lambda>j. u (k + j)) i)" if i: "i < m - g"
  proof -
    have "gf2_row H n u i = ((gf2_row H k u i \<noteq> gf2_row {(r, c). (r, k + c) \<in> H} (m - g) (\<lambda>j. u (k + j)) i) \<noteq>
        gf2_row {(r, c). (r, k + (m - g) + c) \<in> H} g (\<lambda>j. u (k + (m - g) + j)) i)"
      by (subst n) (simp only: gf2_row_split)
    also have "gf2_row H k u i = gf2_row (set A) k u i"
      by (rule gf2_row_set_cong) (use i in \<open>auto simp: H\<close>)
    also have "gf2_row {(r, c). (r, k + c) \<in> H} (m - g) (\<lambda>j. u (k + j)) i = gf2_row (set B) (m - g) (\<lambda>j. u (k + j)) i"
      by (rule gf2_row_set_cong) (use i in \<open>auto simp: H dest: A\<close>)
    also have "gf2_row {(r, c). (r, k + (m - g) + c) \<in> H} g (\<lambda>j. u (k + (m - g) + j)) i = False"
      by (rule gf2_row_empty) (use i in \<open>auto simp: H dest: A B\<close>)
    finally show ?thesis by simp
  qed
  show "gf2_row H n u (m - g + i) =
      ((gf2_row (set C) k u i \<noteq> gf2_row (set D) (m - g) (\<lambda>j. u (k + j)) i) \<noteq> u (n - g + i))" if i: "i < g"
  proof -
    have "gf2_row H n u (m - g + i) = ((gf2_row H k u (m - g + i) \<noteq>
        gf2_row {(r, c). (r, k + c) \<in> H} (m - g) (\<lambda>j. u (k + j)) (m - g + i)) \<noteq>
        gf2_row {(r, c). (r, k + (m - g) + c) \<in> H} g (\<lambda>j. u (k + (m - g) + j)) (m - g + i))"
      by (subst n) (simp only: gf2_row_split)
    also have "gf2_row H k u (m - g + i) = gf2_row (set C) k u i"
      by (rule gf2_row_set_cong) (use i in \<open>auto simp: H dest: A\<close>)
    also have "gf2_row {(r, c). (r, k + c) \<in> H} (m - g) (\<lambda>j. u (k + j)) (m - g + i) = gf2_row (set D) (m - g) (\<lambda>j. u (k + j)) i"
      by (rule gf2_row_set_cong) (use i in \<open>auto simp: H dest: A B C\<close>)
    also have "gf2_row {(r, c). (r, k + (m - g) + c) \<in> H} g (\<lambda>j. u (k + (m - g) + j)) (m - g + i) = u (k + (m - g) + i)"
      by (rule gf2_row_single) (use i sz in \<open>auto simp: H dest: A B C D\<close>)
    also have "k + (m - g) + i = n - g + i" using n by simp
    finally show ?thesis .
  qed
qed

section \<open>Codewords satisfy the checks\<close>

text \<open>All \<open>m\<close> parity checks of \<open>H\<close> hold for the block \<open>x\<close>.\<close>

definition parity_ok :: "(nat \<times> nat) set \<Rightarrow> nat \<Rightarrow> nat \<Rightarrow> u8 list \<Rightarrow> bool" where
  "parity_ok H m n x \<longleftrightarrow> (\<forall>i < m. \<not> gf2_row H n (\<lambda>j. x ! j \<noteq> 0) i)"

lemma xor_01_neq: "(a :: u8) = of_bool p \<Longrightarrow> b = of_bool q \<Longrightarrow> (a XOR b \<noteq> 0) = (p \<noteq> q)"
  by (cases p; cases q) simp_all

lemma parity_ok_codeword:
  assumes dims: "afs_dims m n g A B C D" and inv: "right_inverse (set B) (set Bi) (m - g)"
    and s: "length s = n - m"
    and p1: "p1 = mulv (set Bi) (m - g) (m - g) (mulv (set A) (m - g) (n - m) s)"
    and p2: "p2 = xor_list (mulv (set C) g (n - m) s) (mulv (set D) g (m - g) p1)"
  shows "parity_ok (afs_H m n g A B C D) m n (s @ p1 @ p2)"
  unfolding parity_ok_def
proof (intro allI impI)
  fix r assume r: "r < m"
  have sz: "g < m" "m < n" using dims by (auto simp: afs_dims_def)
  let ?x = "s @ p1 @ p2" and ?k = "n - m"
  have l1: "length p1 = m - g" using p1 by simp
  have X: "j < ?k \<Longrightarrow> ?x ! j = s ! j" "j < m - g \<Longrightarrow> ?x ! (?k + j) = p1 ! j"
    "?x ! (n - g + j) = p2 ! j" for j
    using s l1 sz by (auto simp: nth_append)
  have As: "gf2_row E ?k (\<lambda>j. ?x ! j \<noteq> 0) i = gf2_row E ?k (\<lambda>j. s ! j \<noteq> 0) i" for E i
    by (rule gf2_row_cong) (simp add: X)
  have P1: "gf2_row E (m - g) (\<lambda>j. ?x ! (?k + j) \<noteq> 0) i = gf2_row E (m - g) (\<lambda>j. p1 ! j \<noteq> 0) i" for E i
    by (rule gf2_row_cong) (simp add: X)
  show "\<not> gf2_row (afs_H m n g A B C D) n (\<lambda>j. ?x ! j \<noteq> 0) r"
  proof (cases "r < m - g")
    case True
    have "gf2_row (set B) (m - g) (\<lambda>j. p1 ! j \<noteq> 0) r =
        gf2_row (set B) (m - g) (\<lambda>j. gf2_row (set Bi) (m - g) (\<lambda>i. gf2_row (set A) ?k (\<lambda>j. s ! j \<noteq> 0) i) j) r"
      by (rule gf2_row_cong) (auto simp: p1 nth_mulv intro!: gf2_row_cong)
    also have "\<dots> = gf2_row (set A) ?k (\<lambda>j. s ! j \<noteq> 0) r" by (rule right_inverse_row [OF inv True])
    finally show ?thesis unfolding afs_H_row(1) [OF dims True] As P1 by simp
  next
    case False
    define i where "i = r - (m - g)"
    have i: "i < g" "r = m - g + i" using False r sz by (auto simp: i_def)
    have "(p2 ! i \<noteq> 0) = (gf2_row (set C) ?k (\<lambda>j. s ! j \<noteq> 0) i \<noteq> gf2_row (set D) (m - g) (\<lambda>j. p1 ! j \<noteq> 0) i)"
      using i(1) unfolding p2 by (subst nth_xor_list) (auto simp: nth_mulv intro!: xor_01_neq)
    then show ?thesis unfolding i(2) afs_H_row(2) [OF dims i(1)] As P1 X(3) by simp
  qed
qed

lemma SF2_parity: "length s = 1200 \<Longrightarrow> parity_ok SF2_H 5040 6240 (SF2_codeword s)"
  unfolding SF2_H_def SF2_codeword_def
  by (rule parity_ok_codeword [OF SF2_dims]) (use SF2_right_inverse in \<open>simp_all add: SF2_p1_def SF2_p2_def\<close>)

lemma SF3_parity: "length s = 880 \<Longrightarrow> parity_ok SF3_H 3696 4576 (SF3_codeword s)"
  unfolding SF3_H_def SF3_codeword_def
  by (rule parity_ok_codeword [OF SF3_dims]) (use SF3_right_inverse in \<open>simp_all add: SF3_p1_def SF3_p2_def\<close>)

section \<open>The decoder\<close>

definition dec_ok :: "dec_state \<Rightarrow> bool" where
  "dec_ok st \<longleftrightarrow> heap_ok (dhp st) \<and>
     (\<forall>H. H_AFS_SF2 st = Some H \<longrightarrow> mat_rel (dhp st) H 5040 6240 SF2_H) \<and>
     (\<forall>H. H_AFS_SF3 st = Some H \<longrightarrow> mat_rel (dhp st) H 3696 4576 SF3_H)"

lemma dec_ok_dec0 [simp]: "dec_ok dec0"
  by (simp add: dec_ok_def dec0_def)

lemma decode_SF2_ok:
  assumes "dec_ok st"
  obtains st' H where "sdr_decode_LDPC_AFS_SF2 lib syms st = Inr (st', decode_B_LDPC lib (dhp st') H 5040 6240 syms)"
    "mat_rel (dhp st') H 5040 6240 SF2_H" "dec_ok st'"
proof (cases "H_AFS_SF2 st")
  case None
  have hok: "heap_ok (dhp st)" using assms by (simp add: dec_ok_def)
  obtain h H where g: "gen_AFS_LDPC_H 5040 6240 4560 SF2_A_ind SF2_B_ind SF2_C_ind SF2_D_ind (dhp st) = Inr (h, H)"
      "mat_rel h H 5040 6240 SF2_H" "keeps (dhp st) h"
    using gen_H_ok [OF hok SF2_dims] unfolding SF2_H_def by blast
  let ?st = "st\<lparr>H_AFS_SF2 := Some H, dhp := h\<rparr>"
  have "dec_ok ?st" using assms g by (auto simp: dec_ok_def keeps_def)
  then show ?thesis using that [of ?st H] g None by (simp add: sdr_decode_LDPC_AFS_SF2_def sdr_tables)
next
  case (Some H)
  then show ?thesis using that [of st H] assms by (simp add: sdr_decode_LDPC_AFS_SF2_def dec_ok_def)
qed

lemma decode_SF3_ok:
  assumes "dec_ok st"
  obtains st' H where "sdr_decode_LDPC_AFS_SF3 lib syms st = Inr (st', decode_B_LDPC lib (dhp st') H 3696 4576 syms)"
    "mat_rel (dhp st') H 3696 4576 SF3_H" "dec_ok st'"
proof (cases "H_AFS_SF3 st")
  case None
  have hok: "heap_ok (dhp st)" using assms by (simp add: dec_ok_def)
  obtain h H where g: "gen_AFS_LDPC_H 3696 4576 3344 SF3_A_ind SF3_B_ind SF3_C_ind SF3_D_ind (dhp st) = Inr (h, H)"
      "mat_rel h H 3696 4576 SF3_H" "keeps (dhp st) h"
    using gen_H_ok [OF hok SF3_dims] unfolding SF3_H_def by blast
  let ?st = "st\<lparr>H_AFS_SF3 := Some H, dhp := h\<rparr>"
  have "dec_ok ?st" using assms g by (auto simp: dec_ok_def keeps_def)
  then show ?thesis using that [of ?st H] g None by (simp add: sdr_decode_LDPC_AFS_SF3_def sdr_tables)
next
  case (Some H)
  then show ?thesis using that [of st H] assms by (simp add: sdr_decode_LDPC_AFS_SF3_def dec_ok_def)
qed

end
