(* ===== verification/Lnis_Codec.thy ===== *)
theory Lnis_Codec
  imports Afs_Frame Afs_Ldpc_Dec
begin

text \<open>
  The codec the application calls, \<open>Native/LnisAfsCodec/lnis_afs_codec.c\<close>: argument checks, error
  reporting, the assembly of a 6000-bit frame from its four subframes, and its decoding with the
  check of synchronisation pattern, subframe 1 and the three CRCs. A pointer argument is an option
  (\<open>None\<close> is \<open>NULL\<close>) of the array it points to; the arrays a call writes to are part of its result.
\<close>

section \<open>Constants, state and results\<close>

definition LNIS_AFS_ABI_VERSION :: u32 where
  "LNIS_AFS_ABI_VERSION = 1"

definition LNIS_AFS_FRAME_BITS :: nat where
  "LNIS_AFS_FRAME_BITS = 6000"

definition ERASURE :: u8 where
  "ERASURE = 2"

definition sync_bytes :: "u8 list" where
  "sync_bytes = [0xCC, 0x63, 0xF7, 0x45, 0x36, 0xF4, 0x9E, 0x04, 0xA0]"

record lnis_afs_decode_status =
  sb2_ok :: u8
  sb3_ok :: u8
  sb4_ok :: u8
  sb2_corrections :: int
  sb3_corrections :: int
  sb4_corrections :: int

record codec =
  nav :: nav_state
  dec :: dec_state
  last_error :: string

definition codec0 :: codec where
  "codec0 = \<lparr>nav = nav0, dec = dec0, last_error = []\<rparr>"

text \<open>The arrays a caller of \<open>lnis_afs_decode_frame\<close> passes for the results.\<close>

record decode_out =
  out_sb2 :: "u8 list option"
  out_sb3 :: "u8 list option"
  out_sb4 :: "u8 list option"
  out_status :: "lnis_afs_decode_status option"

definition zero_status :: lnis_afs_decode_status where
  "zero_status = \<lparr>sb2_ok = 0, sb3_ok = 0, sb4_ok = 0, sb2_corrections = 0, sb3_corrections = 0, sb4_corrections = 0\<rparr>"

section \<open>Helpers\<close>

text \<open>\<open>strncpy\<close> into 160 characters, the last of them the terminator; the result is \<open>-1\<close>.\<close>

definition fail :: "string \<Rightarrow> codec \<Rightarrow> codec \<times> int" where
  "fail message st = (st\<lparr>last_error := take 159 message\<rparr>, -1)"

definition unpack :: "u8 list \<Rightarrow> nat \<Rightarrow> u8 list" where
  "unpack bytes bit_count = map (\<lambda>i. drop_bit (7 - i mod 8) (bytes ! (i div 8)) AND 1) [0..<bit_count]"

definition pack :: "u8 list \<Rightarrow> nat \<Rightarrow> u8 list" where
  "pack bits bit_count = foldl (or_at (\<lambda>i. bits ! i AND 1)) (replicate ((bit_count + 7) div 8) 0) [0..<bit_count]"

definition valid_bits :: "u8 list option \<Rightarrow> nat \<Rightarrow> bool" where
  "valid_bits bits len = (case bits of None \<Rightarrow> False | Some b \<Rightarrow> list_all (\<lambda>i. \<not> b ! i > 1) [0..<len])"

definition crc_ok :: "u8 list \<Rightarrow> nat \<Rightarrow> nat \<Rightarrow> bool" where
  "crc_ok decoded data_len total_len =
     (let copy = append_CRC24 (memcpy_at (replicate 1200 0) 0 (take total_len decoded)) total_len
      in take 24 (drop data_len copy) = take 24 (drop data_len decoded))"

definition lnis_afs_get_abi_version :: u32 where
  "lnis_afs_get_abi_version = LNIS_AFS_ABI_VERSION"

definition lnis_afs_get_last_error :: "codec \<Rightarrow> string" where
  "lnis_afs_get_last_error st = last_error st"

section \<open>Encoding a frame\<close>

text \<open>\<open>memset (block, 0, ...); memcpy (block, sb, n); append_CRC24 (block, len);\<close>\<close>

definition crc_block :: "u8 list \<Rightarrow> nat \<Rightarrow> nat \<Rightarrow> u8 list" where
  "crc_block sb n len = append_CRC24 (memcpy_at (replicate 1200 0) 0 (take n sb)) len"

definition encode_frame_bits :: "u8 \<Rightarrow> u8 list \<Rightarrow> u8 list \<Rightarrow> u8 list \<Rightarrow> nav_state \<Rightarrow> mod2err + nav_state \<times> u8 list" where
  "encode_frame_bits toi sb2 sb3 sb4 s0 =
     (let frame1 = memcpy_at (replicate LNIS_AFS_FRAME_BITS 0) 0 (unpack sync_bytes 68);
          frame2 = memcpy_at frame1 68 (generate_BCH_AFS_SF1 0 (ucast toi)) in
      res_bind (encode_LDPC_AFS_SF2 (crc_block sb2 1176 1200) s0) (\<lambda>(s1, c2).
      res_bind (encode_LDPC_AFS_SF3 (crc_block sb3 846 870) s1) (\<lambda>(s2, c3).
      res_bind (encode_LDPC_AFS_SF3 (crc_block sb4 846 870) s2) (\<lambda>(s3, c4).
      let coded = memcpy_at (memcpy_at (memcpy_at (replicate 5880 0) 0 c2) 2400 c3) 4140 c4;
          interleaved = interleave_AFS_SF234 coded
      in Inr (s3, memcpy_at frame2 120 interleaved)))))"

definition lnis_afs_encode_frame :: "u8 \<Rightarrow> u8 list option \<Rightarrow> nat \<Rightarrow> u8 list option \<Rightarrow> nat \<Rightarrow> u8 list option \<Rightarrow> nat \<Rightarrow>
    u8 list option \<Rightarrow> nat \<Rightarrow> codec \<Rightarrow> mod2err + codec \<times> int \<times> u8 list option" where
  "lnis_afs_encode_frame toi sb2 sb2_len sb3 sb3_len sb4 sb4_len frame_bytes frame_len st =
     (if toi \<ge> 100
      then let (st', r) = fail ''TOI must be in the range 0..99'' st in Inr (st', r, frame_bytes)
      else if sb2_len \<noteq> 1176 \<or> sb3_len \<noteq> 846 \<or> sb4_len \<noteq> 846 \<or> frame_len \<noteq> 750
      then let (st', r) = fail ''Invalid AFS buffer length'' st in Inr (st', r, frame_bytes)
      else if frame_bytes = None \<or> \<not> valid_bits sb2 sb2_len \<or> \<not> valid_bits sb3 sb3_len \<or> \<not> valid_bits sb4 sb4_len
      then let (st', r) = fail ''AFS inputs must contain unpacked 0/1 bits'' st in Inr (st', r, frame_bytes)
      else res_bind (encode_frame_bits toi (the sb2) (the sb3) (the sb4) (nav st)) (\<lambda>(s', frame).
        Inr (st\<lparr>nav := s', last_error := []\<rparr>, 0, Some (memcpy_at (the frame_bytes) 0 (pack frame 6000)))))"

section \<open>Decoding a frame\<close>

text \<open>The loops \<open>deinterleaved[k++] = frame[j * 60 + i + 120]\<close>.\<close>

definition deinterleave :: "u8 list \<Rightarrow> u8 list" where
  "deinterleave frame = concat (map (\<lambda>i. map (\<lambda>j. frame ! (j * 60 + i + 120)) [0..<98]) [0..<60])"

definition received_sb34 :: "u8 list \<Rightarrow> u8 list" where
  "received_sb34 source =
     replicate 176 ERASURE @ take 694 source @ replicate 10 ERASURE @ take 1046 (drop 694 source) @
     replicate (4576 - 1926) ERASURE"

definition received_sb2 :: "u8 list \<Rightarrow> u8 list" where
  "received_sb2 deinterleaved = replicate 240 ERASURE @ take 2400 deinterleaved @ replicate (6240 - 2640) ERASURE"

text \<open>The new state, the flag returned, \<open>*corrections\<close> and the output array.\<close>

definition decode_sb34 :: "ldpc_lib \<Rightarrow> u8 list \<Rightarrow> u8 list \<Rightarrow> dec_state \<Rightarrow> mod2err + dec_state \<times> u8 \<times> int \<times> u8 list" where
  "decode_sb34 lib source output d0 =
     res_bind (sdr_decode_LDPC_AFS_SF3 lib (received_sb34 source) d0) (\<lambda>(d1, result, decoded).
       if result < 0 \<or> \<not> crc_ok decoded 846 870 then Inr (d1, 0, result, output)
       else Inr (d1, 1, result, memcpy_at output 0 (take 846 decoded)))"

definition lnis_afs_decode_frame :: "ldpc_lib \<Rightarrow> u8 \<Rightarrow> u8 list option \<Rightarrow> nat \<Rightarrow> nat \<Rightarrow> nat \<Rightarrow> nat \<Rightarrow> decode_out \<Rightarrow>
    codec \<Rightarrow> mod2err + codec \<times> int \<times> decode_out" where
  "lnis_afs_decode_frame lib toi frame_bytes frame_len sb2_len sb3_len sb4_len out st =
     (if frame_bytes = None \<or> out_sb2 out = None \<or> out_sb3 out = None \<or> out_sb4 out = None \<or>
         out_status out = None \<or> frame_len \<noteq> 750 \<or> sb2_len \<noteq> 1176 \<or> sb3_len \<noteq> 846 \<or> sb4_len \<noteq> 846 \<or> toi \<ge> 100
      then let (st', r) = fail ''Invalid AFS decode argument'' st in Inr (st', r, out)
      else let out0 = out\<lparr>out_status := Some zero_status\<rparr>;
               frame = unpack (the frame_bytes) 6000 in
        if take 68 frame \<noteq> unpack sync_bytes 68
        then let (st', r) = fail ''AFS synchronization pattern mismatch'' st in Inr (st', r, out0)
        else if take 52 (drop 68 frame) \<noteq> generate_BCH_AFS_SF1 0 (ucast toi)
        then let (st', r) = fail ''AFS SB1/TOI mismatch'' st in Inr (st', r, out0)
        else let deinterleaved = deinterleave frame in
          res_bind (sdr_decode_LDPC_AFS_SF2 lib (received_sb2 deinterleaved) (dec st)) (\<lambda>(d1, r2, decoded).
          let ok2 = (r2 \<ge> 0 \<and> crc_ok decoded 1176 1200);
              b2 = (if ok2 then memcpy_at (the (out_sb2 out)) 0 (take 1176 decoded) else the (out_sb2 out)) in
          res_bind (decode_sb34 lib (drop 2400 deinterleaved) (the (out_sb3 out)) d1) (\<lambda>(d2, ok3, r3, b3).
          res_bind (decode_sb34 lib (drop 4140 deinterleaved) (the (out_sb4 out)) d2) (\<lambda>(d3, ok4, r4, b4).
            Inr (st\<lparr>dec := d3, last_error := []\<rparr>,
                 if ok2 \<and> ok3 \<noteq> 0 \<and> ok4 \<noteq> 0 then 0 else 1,
                 \<lparr>out_sb2 = Some b2, out_sb3 = Some b3, out_sb4 = Some b4,
                  out_status = Some \<lparr>sb2_ok = of_bool ok2, sb3_ok = ok3, sb4_ok = ok4,
                    sb2_corrections = r2, sb3_corrections = r3, sb4_corrections = r4\<rparr>\<rparr>)))))"

end
