(* ===== verification/Lnis_Codec_Lemmas.thy ===== *)
theory Lnis_Codec_Lemmas
  imports Lnis_Codec
begin

text \<open>
  The pieces of the codec, each against what it stands for: packing, the validity check, the CRC of a
  block, the frame layout, the interleaver and its inverse, and the two ways a frame is assembled and
  taken apart.
\<close>

section \<open>Bits and bytes\<close>

lemma unpack_eq: "unpack = sdr_unpack_bits"
  by (simp add: fun_eq_iff unpack_def sdr_unpack_bits_def)

lemma length_unpack [simp, afs_length]: "length (unpack bytes n) = n"
  by (simp add: unpack_eq)

lemma bitarr_unpack [simp, afs_bits]: "bitarr (unpack bytes n)"
  by (simp add: unpack_eq)

lemma and_1_01: "(b :: u8) = 0 \<or> b = 1 \<Longrightarrow> b AND 1 = b"
  by auto

lemma foldl_or_at_cong:
  "(\<And>i. i \<in> set is \<Longrightarrow> f i = g i) \<Longrightarrow> foldl (or_at f) buff is = foldl (or_at g) buff is"
  by (induction "is" arbitrary: buff) (simp_all add: or_at_def)

lemma pack_eq: "bitarr bits \<Longrightarrow> n \<le> length bits \<Longrightarrow> pack bits n = sdr_pack_bits bits n 0"
  unfolding pack_def sdr_pack_bits_def
  by (simp, rule foldl_or_at_cong) (use and_1_01 [OF bitarr_nthD] in auto)

lemma length_pack [simp, afs_length]: "length (pack bits n) = (n + 7) div 8"
  by (simp add: pack_def)

lemma unpack_pack: "bitarr bits \<Longrightarrow> length bits = n \<Longrightarrow> unpack (pack bits n) n = bits"
  by (simp add: pack_eq unpack_eq sdr_unpack_pack)

lemma not_gt_1: "\<not> (b :: u8) > 1 \<longleftrightarrow> b = 0 \<or> b = 1"
  by (auto simp: not_less word_le_nat_alt word_unat_eq_iff le_Suc_eq)

lemma valid_bits_Some: "valid_bits (Some b) (length b) \<longleftrightarrow> bitarr b"
  by (auto simp: valid_bits_def list_all_iff bitarr_nth not_gt_1)

section \<open>The CRC of a block\<close>

text \<open>The block with its CRC: the data, the 24 check bits.\<close>

definition with_crc :: "u8 list \<Rightarrow> u8 list" where
  "with_crc d = d @ unbools (bits24 (crc_bits 0 (bools d)))"

lemma length_with_crc [simp]: "length (with_crc d) = length d + 24"
  by (simp add: with_crc_def)

lemma bitarr_with_crc [simp]: "bitarr d \<Longrightarrow> bitarr (with_crc d)"
  by (simp add: with_crc_def)

lemma append_crc_buffer:
  assumes "bitarr d" "length d = n" "n + 24 \<le> 1200"
  shows "append_CRC24 (memcpy_at (replicate 1200 0) 0 d) (n + 24) = with_crc d @ replicate (1200 - (n + 24)) 0"
proof -
  let ?b = "memcpy_at (replicate 1200 0) 0 d"
  have b: "?b = d @ replicate (1200 - n) 0" using assms by (simp add: memcpy_at_def)
  have "append_CRC24 ?b (n + 24) = take (n + 24 - 24) ?b @ unbools (bits24 (crc_bits 0 (bools (take (n + 24 - 24) ?b)))) @
      drop (n + 24) ?b"
    by (rule append_CRC24_eq) (use assms in \<open>auto simp: b\<close>)
  then show ?thesis using assms by (simp add: b with_crc_def bools_def)
qed

lemma crc_block_eq:
  assumes "bitarr d" "length d = n" "n + 24 \<le> 1200"
  shows "crc_block d n (n + 24) = with_crc d @ replicate (1200 - (n + 24)) 0"
  using append_crc_buffer [OF assms] assms by (simp add: crc_block_def)

lemma append_CRC24_cong:
  assumes "bitarr xs" "bitarr ys" "len \<le> length xs" "len \<le> length ys" "24 \<le> len"
    "take (len - 24) xs = take (len - 24) ys"
  shows "take len (append_CRC24 xs len) = take len (append_CRC24 ys len)"
  using assms append_CRC24_eq [OF assms(1,3,5)] append_CRC24_eq [OF assms(2,4,5)] by simp

text \<open>The check of the decoder accepts a block exactly when its remainder is zero.\<close>

lemma crc_ok_iff:
  assumes "bitarr x" "n + 24 \<le> length x" "n + 24 \<le> 1200"
  shows "crc_ok x n (n + 24) \<longleftrightarrow> crc_bits 0 (bools (take (n + 24) x)) = 0"
proof -
  let ?d = "take n x" and ?c = "take 24 (drop n x)"
  have split: "take (n + 24) x = ?d @ ?c" by (simp add: take_add)
  let ?b = "memcpy_at (replicate 1200 0) 0 (take (n + 24) x)"
  have b: "?b = take (n + 24) x @ replicate (1200 - (n + 24)) 0" using assms by (simp add: memcpy_at_def)
  have "append_CRC24 ?b (n + 24) = take (n + 24 - 24) ?b @ unbools (bits24 (crc_bits 0 (bools (take (n + 24 - 24) ?b)))) @
      drop (n + 24) ?b"
    by (rule append_CRC24_eq) (use assms in \<open>auto simp: b bitarr_take\<close>)
  then have "crc_ok x n (n + 24) \<longleftrightarrow> unbools (bits24 (crc_bits 0 (bools ?d))) = ?c"
    using assms by (simp add: crc_ok_def Let_def b bools_def)
  also have "\<dots> \<longleftrightarrow> bools ?c = bits24 (crc_bits 0 (bools ?d))"
  proof
    assume "bools ?c = bits24 (crc_bits 0 (bools ?d))"
    moreover have "unbools (bools ?c) = ?c" by (rule unbools_bools) (use assms in \<open>simp add: bitarr_take bitarr_drop\<close>)
    ultimately show "unbools (bits24 (crc_bits 0 (bools ?d))) = ?c" by simp
  next
    assume "unbools (bits24 (crc_bits 0 (bools ?d))) = ?c"
    then show "bools ?c = bits24 (crc_bits 0 (bools ?d))" by (metis bools_unbools)
  qed
  also have "\<dots> \<longleftrightarrow> crc_bits 0 (bools ?d @ bools ?c) = 0"
    using crc_residue [of "bools ?c" "bools ?d"] assms(2) by simp
  finally show ?thesis unfolding split bools_append .
qed

lemma crc_ok_with_crc:
  assumes "bitarr d" "length d = n" "n + 24 \<le> 1200"
  shows "crc_ok (with_crc d @ rest) n (n + 24)"
proof -
  have "take (n + 24) (with_crc d @ rest) = with_crc d" using assms(2) by simp
  moreover have "append_CRC24 (memcpy_at (replicate 1200 0) 0 (with_crc d)) (n + 24) =
      with_crc d @ replicate (1200 - (n + 24)) 0"
  proof -
    have b: "memcpy_at (replicate 1200 0) 0 (with_crc d) = with_crc d @ replicate (1200 - (n + 24)) 0"
      using assms by (simp add: memcpy_at_def)
    show ?thesis unfolding b
      by (subst append_CRC24_eq) (use assms in \<open>auto simp: with_crc_def\<close>)
  qed
  ultimately show ?thesis using assms(2) by (simp add: crc_ok_def Let_def)
qed

section \<open>The interleaver is inverted\<close>

lemma length_deinterleave [simp, afs_length]: "length (deinterleave f) = 5880"
  unfolding deinterleave_def concat_table_length by simp

lemma deinterleave_nth: "k < 5880 \<Longrightarrow> deinterleave f ! k = f ! (k mod 98 * 60 + k div 98 + 120)"
  unfolding deinterleave_def by (subst concat_table_nth) simp_all

lemma deinterleave_interleave:
  assumes "length pre = 120" "length c = 5880"
  shows "deinterleave (pre @ interleave_AFS_SF234 c) = c"
proof (rule nth_equalityI)
  fix k assume "k < length (deinterleave (pre @ interleave_AFS_SF234 c))"
  then have k: "k < 5880" by simp
  define i j where "i = k div 98" and "j = k mod 98"
  have ij: "i < 60" "j < 98" "k = i * 98 + j" using k by (auto simp: i_def j_def)
  have "deinterleave (pre @ interleave_AFS_SF234 c) ! k = interleave_AFS_SF234 c ! (j * 60 + i)"
    using deinterleave_nth [OF k] assms(1) by (simp add: nth_append i_def j_def)
  also have "\<dots> = c ! k" using ij by (subst interleave_nth) auto
  finally show "deinterleave (pre @ interleave_AFS_SF234 c) ! k = c ! k" .
qed (use assms in simp)

section \<open>The frame\<close>

text \<open>The transmitted symbols of the three coded subframes.\<close>

definition sb2_symbols :: "u8 list \<Rightarrow> u8 list" where
  "sb2_symbols d = take 2400 (drop 240 (SF2_codeword (with_crc d)))"

definition sb34_codeword :: "u8 list \<Rightarrow> u8 list" where
  "sb34_codeword d = SF3_codeword (with_crc d @ replicate 10 0)"

definition sb34_symbols :: "u8 list \<Rightarrow> u8 list" where
  "sb34_symbols d = take 694 (drop 176 (sb34_codeword d)) @ take 1046 (drop 880 (sb34_codeword d))"

definition frame_of :: "u8 \<Rightarrow> u8 list \<Rightarrow> u8 list \<Rightarrow> u8 list \<Rightarrow> u8 list" where
  "frame_of toi d2 d3 d4 = unpack sync_bytes 68 @ generate_BCH_AFS_SF1 0 (ucast toi) @
     interleave_AFS_SF234 (sb2_symbols d2 @ sb34_symbols d3 @ sb34_symbols d4)"

lemma length_symbols [simp]:
  "length d = 1176 \<Longrightarrow> length (sb2_symbols d) = 2400"
  "length d = 846 \<Longrightarrow> length (sb34_codeword d) = 4576"
  "length d = 846 \<Longrightarrow> length (sb34_symbols d) = 1740"
  by (simp_all add: sb2_symbols_def sb34_symbols_def sb34_codeword_def SF2_codeword_def SF3_codeword_def)

lemma encode_frame_bits_ok:
  assumes "nav_ok s" "bitarr d2" "length d2 = 1176" "bitarr d3" "length d3 = 846" "bitarr d4" "length d4 = 846"
  obtains s' where "encode_frame_bits toi d2 d3 d4 s = Inr (s', frame_of toi d2 d3 d4)" "nav_ok s'"
proof -
  have b2: "crc_block d2 1176 1200 = with_crc d2" using crc_block_eq [OF assms(2,3)] by simp
  have b34: "crc_block d 846 870 = with_crc d @ replicate 330 0" if "bitarr d" "length d = 846" for d
    using crc_block_eq [OF that] by simp
  obtain s1 where 1: "encode_LDPC_AFS_SF2 (with_crc d2) s = Inr (s1, sb2_symbols d2)" "nav_ok s1"
    using encode_SF2_ok [OF assms(1), of "with_crc d2"] assms(3) unfolding sb2_symbols_def by auto
  have sf3: "\<exists>s'. encode_LDPC_AFS_SF3 (crc_block d 846 870) s = Inr (s', sb34_symbols d) \<and> nav_ok s'"
    if "nav_ok s" "bitarr d" "length d = 846" for s d
  proof -
    have "SF3_fill (crc_block d 846 870) = with_crc d @ replicate 10 0"
      using that by (simp add: SF3_fill_def b34)
    then show ?thesis
      using encode_SF3_ok [OF that(1), of "crc_block d 846 870"] b34 [OF that(2,3)] that(3)
      unfolding sb34_symbols_def sb34_codeword_def by auto
  qed
  obtain s2 where 2: "encode_LDPC_AFS_SF3 (crc_block d3 846 870) s1 = Inr (s2, sb34_symbols d3)" "nav_ok s2"
    using sf3 [OF 1(2) assms(4,5)] by blast
  obtain s3 where 3: "encode_LDPC_AFS_SF3 (crc_block d4 846 870) s2 = Inr (s3, sb34_symbols d4)" "nav_ok s3"
    using sf3 [OF 2(2) assms(6,7)] by blast
  have coded: "memcpy_at (memcpy_at (memcpy_at (replicate 5880 0) 0 (sb2_symbols d2)) 2400 (sb34_symbols d3)) 4140
      (sb34_symbols d4) = sb2_symbols d2 @ sb34_symbols d3 @ sb34_symbols d4"
    using assms by (simp add: memcpy_at_def)
  have "encode_frame_bits toi d2 d3 d4 s = Inr (s3, frame_of toi d2 d3 d4)"
    unfolding encode_frame_bits_def Let_def b2 using assms
    by (simp add: 1 2 3 coded frame_of_def LNIS_AFS_FRAME_BITS_def memcpy_at_def)
  then show ?thesis using that 3(2) by blast
qed

lemma length_frame_of [simp]: "length (frame_of toi d2 d3 d4) = 6000"
  by (simp add: frame_of_def)

lemma bitarr_symbols:
  "bitarr d \<Longrightarrow> bitarr (sb2_symbols d)" "bitarr d \<Longrightarrow> bitarr (sb34_symbols d)"
  by (simp_all add: sb2_symbols_def sb34_symbols_def sb34_codeword_def SF2_codeword_def SF3_codeword_def
      SF2_p1_def SF2_p2_def SF3_p1_def SF3_p2_def bitarr_take bitarr_drop bitarr_xor_list)

lemma bitarr_interleave: "bitarr c \<Longrightarrow> length c = 5880 \<Longrightarrow> bitarr (interleave_AFS_SF234 c)"
  by (auto simp: bitarr_nth interleave_nth)

lemma bitarr_frame_of:
  assumes "bitarr d2" "length d2 = 1176" "bitarr d3" "length d3 = 846" "bitarr d4" "length d4 = 846"
  shows "bitarr (frame_of toi d2 d3 d4)"
  unfolding frame_of_def
  by (simp add: generate_BCH_bits) (rule bitarr_interleave, use assms in \<open>simp_all add: bitarr_symbols\<close>)

section \<open>What the codec relies on in the LDPC library\<close>

text \<open>\<open>check\<close> counts the violated parity checks of the matrix, \<open>changed\<close> counts bits.\<close>

definition check_counts :: "ldpc_lib \<Rightarrow> bool" where
  "check_counts lib \<longleftrightarrow> (\<forall>h H m n E x. mat_rel h H m n E \<longrightarrow>
     check_blk lib h H x = int (card {i. i < m \<and> gf2_row E n (\<lambda>j. x ! j \<noteq> 0) i}))"

definition changed_counts :: "ldpc_lib \<Rightarrow> bool" where
  "changed_counts lib \<longleftrightarrow> (\<forall>lratio x. 0 \<le> changed_blk lib lratio x)"

text \<open>The decoder finds the block \<open>x\<close> from the received symbols, given the matrix \<open>E\<close>.\<close>

definition recovers :: "ldpc_lib \<Rightarrow> (nat \<times> nat) set \<Rightarrow> nat \<Rightarrow> nat \<Rightarrow> u8 list \<Rightarrow> u8 list \<Rightarrow> bool" where
  "recovers lib E m n received x \<longleftrightarrow> (\<forall>h H. mat_rel h H m n E \<longrightarrow>
     prprp_decode lib h H (map (\<lambda>i. LRATIO ! unat (received ! i)) [0..<n]) = x)"

lemma check_counts_zero:
  assumes "check_counts lib" "mat_rel h H m n E"
  shows "check_blk lib h H x = 0 \<longleftrightarrow> parity_ok E m n x"
proof -
  have "finite {i. i < m \<and> gf2_row E n (\<lambda>j. x ! j \<noteq> 0) i}" by simp
  then have "card {i. i < m \<and> gf2_row E n (\<lambda>j. x ! j \<noteq> 0) i} = 0 \<longleftrightarrow> parity_ok E m n x"
    by (auto simp: parity_ok_def)
  then show ?thesis using assms by (simp add: check_counts_def)
qed

lemma decode_recovered:
  assumes "check_counts lib" "changed_counts lib" "recovers lib E m n received x" "parity_ok E m n x" "mat_rel h H m n E"
  obtains r where "decode_B_LDPC lib h H k n received = (r, take k x)" "0 \<le> r"
proof -
  have "prprp_decode lib h H (map (\<lambda>i. LRATIO ! unat (received ! i)) [0..<n]) = x"
    using assms(3,5) by (simp add: recovers_def)
  moreover have "check_blk lib h H x = 0" using check_counts_zero [OF assms(1,5)] assms(4) by blast
  ultimately show ?thesis
    using that assms(2) by (simp add: decode_B_LDPC_def Let_def changed_counts_def)
qed

section \<open>Decoding one block\<close>

lemma decode_sb34_ok:
  assumes lib: "check_counts lib" "changed_counts lib" and dec: "dec_ok d0"
    and d: "bitarr d" "length d = 846" and out: "length b = 846"
    and rec: "recovers lib SF3_H 3696 4576 (received_sb34 source) (sb34_codeword d)"
  obtains d1 r where "decode_sb34 lib source b d0 = Inr (d1, 1, r, d)" "dec_ok d1"
proof -
  obtain d1 H where 1: "sdr_decode_LDPC_AFS_SF3 lib (received_sb34 source) d0 =
      Inr (d1, decode_B_LDPC lib (dhp d1) H 3696 4576 (received_sb34 source))"
      "mat_rel (dhp d1) H 3696 4576 SF3_H" "dec_ok d1"
    using decode_SF3_ok [OF dec] by blast
  have par: "parity_ok SF3_H 3696 4576 (sb34_codeword d)"
    unfolding sb34_codeword_def by (rule SF3_parity) (simp add: d)
  obtain r where r: "decode_B_LDPC lib (dhp d1) H 3696 4576 (received_sb34 source) = (r, take 3696 (sb34_codeword d))" "0 \<le> r"
    using decode_recovered [OF lib rec par 1(2)] by blast
  have cw: "take 3696 (sb34_codeword d) = with_crc d @ take 2826 (replicate 10 0 @ SF3_p1 (with_crc d @ replicate 10 0) @
      SF3_p2 (with_crc d @ replicate 10 0))"
    using d by (simp add: sb34_codeword_def SF3_codeword_def)
  have "crc_ok (take 3696 (sb34_codeword d)) 846 870"
    unfolding cw using crc_ok_with_crc [OF d] by simp
  moreover have "take 846 (take 3696 (sb34_codeword d)) = d" unfolding cw using d by (simp add: with_crc_def)
  ultimately have "decode_sb34 lib source b d0 = Inr (d1, 1, r, d)"
    using 1(1) r out d by (simp add: decode_sb34_def memcpy_at_all del: take_take)
  then show ?thesis using that 1(3) by blast
qed

lemma decode_sb2_ok:
  assumes lib: "check_counts lib" "changed_counts lib" and dec: "dec_ok d0"
    and d: "bitarr d" "length d = 1176"
    and rec: "recovers lib SF2_H 5040 6240 received (SF2_codeword (with_crc d))"
  obtains d1 r x where "sdr_decode_LDPC_AFS_SF2 lib received d0 = Inr (d1, r, x)" "0 \<le> r" "dec_ok d1"
    "crc_ok x 1176 1200" "take 1176 x = d"
proof -
  let ?x = "SF2_codeword (with_crc d)"
  obtain d1 H where 1: "sdr_decode_LDPC_AFS_SF2 lib received d0 =
      Inr (d1, decode_B_LDPC lib (dhp d1) H 5040 6240 received)" "mat_rel (dhp d1) H 5040 6240 SF2_H" "dec_ok d1"
    using decode_SF2_ok [OF dec] by blast
  have par: "parity_ok SF2_H 5040 6240 ?x" by (rule SF2_parity) (simp add: d)
  obtain r where r: "decode_B_LDPC lib (dhp d1) H 5040 6240 received = (r, take 5040 ?x)" "0 \<le> r"
    using decode_recovered [OF lib rec par 1(2)] by blast
  have cw: "take 5040 ?x = with_crc d @ take 3840 (SF2_p1 (with_crc d) @ SF2_p2 (with_crc d))"
    using d by (simp add: SF2_codeword_def)
  have "crc_ok (take 5040 ?x) 1176 1200"
    unfolding cw using crc_ok_with_crc [OF d] by simp
  moreover have "take 1176 (take 5040 ?x) = d" unfolding cw using d by (simp add: with_crc_def)
  ultimately show ?thesis using that [of d1 r "take 5040 ?x"] 1 r by simp
qed

section \<open>Decoding an encoded frame\<close>

lemma decode_encoded:
  assumes lib: "check_counts lib" "changed_counts lib" and dec: "dec_ok (dec st)" and toi: "toi < 100"
    and d2: "bitarr d2" "length d2 = 1176" and d3: "bitarr d3" "length d3 = 846" and d4: "bitarr d4" "length d4 = 846"
    and rec2: "recovers lib SF2_H 5040 6240 (received_sb2 (sb2_symbols d2)) (SF2_codeword (with_crc d2))"
    and rec3: "recovers lib SF3_H 3696 4576 (received_sb34 (sb34_symbols d3)) (sb34_codeword d3)"
    and rec4: "recovers lib SF3_H 3696 4576 (received_sb34 (sb34_symbols d4)) (sb34_codeword d4)"
    and bufs: "length b2 = 1176" "length b3 = 846" "length b4 = 846"
    and bytes: "unpack bytes 6000 = frame_of toi d2 d3 d4"
  obtains st' stat where "lnis_afs_decode_frame lib toi (Some bytes) 750 1176 846 846
      \<lparr>out_sb2 = Some b2, out_sb3 = Some b3, out_sb4 = Some b4, out_status = Some s0\<rparr> st =
      Inr (st', 0, \<lparr>out_sb2 = Some d2, out_sb3 = Some d3, out_sb4 = Some d4, out_status = Some stat\<rparr>)"
    "sb2_ok stat = 1" "sb3_ok stat = 1" "sb4_ok stat = 1" "dec_ok (dec st')" "last_error st' = []"
proof -
  let ?c = "sb2_symbols d2 @ sb34_symbols d3 @ sb34_symbols d4"
  let ?pre = "unpack sync_bytes 68 @ generate_BCH_AFS_SF1 0 (ucast toi)"
  have fr: "frame_of toi d2 d3 d4 = ?pre @ interleave_AFS_SF234 ?c" by (simp add: frame_of_def)
  have dei: "deinterleave (frame_of toi d2 d3 d4) = ?c"
    unfolding fr by (rule deinterleave_interleave) (use d2 d3 d4 in simp_all)
  have heads: "take 68 (frame_of toi d2 d3 d4) = unpack sync_bytes 68"
    "take 52 (drop 68 (frame_of toi d2 d3 d4)) = generate_BCH_AFS_SF1 0 (ucast toi)"
    by (simp_all add: frame_of_def)
  have r2: "received_sb2 ?c = received_sb2 (sb2_symbols d2)" using d2 by (simp add: received_sb2_def)
  have r3: "received_sb34 (drop 2400 ?c) = received_sb34 (sb34_symbols d3)"
    using d2 d3 by (simp add: received_sb34_def)
  have r4: "received_sb34 (drop 4140 ?c) = received_sb34 (sb34_symbols d4)"
    using d2 d3 by (simp add: received_sb34_def)
  obtain e1 k2 x where 1: "sdr_decode_LDPC_AFS_SF2 lib (received_sb2 ?c) (dec st) = Inr (e1, k2, x)" "0 \<le> k2" "dec_ok e1"
      "crc_ok x 1176 1200" "take 1176 x = d2"
    using decode_sb2_ok [OF lib dec d2 rec2] unfolding r2 by blast
  obtain e2 k3 where 2: "decode_sb34 lib (drop 2400 ?c) b3 e1 = Inr (e2, 1, k3, d3)" "dec_ok e2"
    using decode_sb34_ok [OF lib 1(3) d3 bufs(2), of "drop 2400 ?c"] rec3 unfolding r3 by blast
  obtain e3 k4 where 3: "decode_sb34 lib (drop 4140 ?c) b4 e2 = Inr (e3, 1, k4, d4)" "dec_ok e3"
    using decode_sb34_ok [OF lib 2(2) d4 bufs(3), of "drop 4140 ?c"] rec4 unfolding r4 by blast
  have toi': "\<not> toi \<ge> 100" using toi by simp
  show ?thesis
    by (rule that [of "st\<lparr>dec := e3, last_error := []\<rparr>" "\<lparr>sb2_ok = 1, sb3_ok = 1, sb4_ok = 1,
        sb2_corrections = k2, sb3_corrections = k3, sb4_corrections = k4\<rparr>"])
      (use 1 2 3 toi' bufs d2 in \<open>simp_all add: lnis_afs_decode_frame_def bytes heads dei Let_def memcpy_at_all\<close>)
qed

end
