(* ===== verification/Lnis_Codec_Inv.thy ===== *)
theory Lnis_Codec_Inv
  imports Lnis_Codec_Lemmas
begin

text \<open>
  The codec over a sequence of calls: the invariant of its state, the step relation of the two calls,
  and what a successful decoding guarantees whatever the library does.
\<close>

section \<open>One call\<close>

definition codec_ok :: "codec \<Rightarrow> bool" where
  "codec_ok st \<longleftrightarrow> nav_ok (nav st) \<and> dec_ok (dec st)"

lemma codec_ok_codec0 [simp]: "codec_ok codec0"
  by (simp add: codec_ok_def codec0_def)

lemma crc_block_take: "crc_block (take n sb) n len = crc_block sb n len"
  by (simp add: crc_block_def)

lemma encode_frame_bits_take:
  "encode_frame_bits toi (take 1176 sb2) (take 846 sb3) (take 846 sb4) s = encode_frame_bits toi sb2 sb3 sb4 s"
  by (simp add: encode_frame_bits_def crc_block_take)

lemma valid_bits_take: "n \<le> length b \<Longrightarrow> valid_bits (Some b) n \<longleftrightarrow> bitarr (take n b)"
  by (auto simp: valid_bits_def list_all_iff bitarr_nth not_gt_1)

lemma valid_bits_SomeD: "valid_bits b n \<Longrightarrow> b \<noteq> None"
  by (cases b) (auto simp: valid_bits_def)

lemma encode_frame_ok:
  assumes "nav_ok (nav st)" "toi < 100" "bitarr d2" "length d2 = 1176" "bitarr d3" "length d3 = 846"
    "bitarr d4" "length d4 = 846" "length buf = 750"
  obtains s' where "lnis_afs_encode_frame toi (Some d2) 1176 (Some d3) 846 (Some d4) 846 (Some buf) 750 st =
      Inr (st\<lparr>nav := s', last_error := []\<rparr>, 0, Some (pack (frame_of toi d2 d3 d4) 6000))" "nav_ok s'"
proof -
  obtain s' where s': "encode_frame_bits toi d2 d3 d4 (nav st) = Inr (s', frame_of toi d2 d3 d4)" "nav_ok s'"
    using encode_frame_bits_ok [OF assms(1,3-8)] by blast
  have v: "valid_bits (Some d2) 1176" "valid_bits (Some d3) 846" "valid_bits (Some d4) 846"
    using assms valid_bits_Some [of d2] valid_bits_Some [of d3] valid_bits_Some [of d4] by simp_all
  have "\<not> toi \<ge> 100" using assms(2) by simp
  then have "lnis_afs_encode_frame toi (Some d2) 1176 (Some d3) 846 (Some d4) 846 (Some buf) 750 st =
      Inr (st\<lparr>nav := s', last_error := []\<rparr>, 0, Some (pack (frame_of toi d2 d3 d4) 6000))"
    using v s'(1) assms(9) by (simp add: lnis_afs_encode_frame_def memcpy_at_all)
  then show ?thesis using that s'(2) by blast
qed

text \<open>
  Any call that passes buffers as long as it says returns, with 0 or an error code: the code never
  leaves through \<open>exit\<close>, and the state stays well formed.
\<close>

definition buf_ok :: "u8 list option \<Rightarrow> nat \<Rightarrow> bool" where
  "buf_ok b n \<longleftrightarrow> (case b of None \<Rightarrow> True | Some xs \<Rightarrow> n \<le> length xs)"

definition encode_args_bad :: "u8 \<Rightarrow> u8 list option \<Rightarrow> nat \<Rightarrow> u8 list option \<Rightarrow> nat \<Rightarrow> u8 list option \<Rightarrow> nat \<Rightarrow>
    u8 list option \<Rightarrow> nat \<Rightarrow> string option" where
  "encode_args_bad toi sb2 n2 sb3 n3 sb4 n4 fb fl =
     (if toi \<ge> 100 then Some ''TOI must be in the range 0..99''
      else if n2 \<noteq> 1176 \<or> n3 \<noteq> 846 \<or> n4 \<noteq> 846 \<or> fl \<noteq> 750 then Some ''Invalid AFS buffer length''
      else if fb = None \<or> \<not> valid_bits sb2 n2 \<or> \<not> valid_bits sb3 n3 \<or> \<not> valid_bits sb4 n4
      then Some ''AFS inputs must contain unpacked 0/1 bits'' else None)"

lemma encode_frame_refused:
  assumes "encode_args_bad toi sb2 n2 sb3 n3 sb4 n4 fb fl = Some msg"
  shows "lnis_afs_encode_frame toi sb2 n2 sb3 n3 sb4 n4 fb fl st = Inr (st\<lparr>last_error := msg\<rparr>, -1, fb)"
proof -
  consider "toi \<ge> 100" | "\<not> toi \<ge> 100" "n2 \<noteq> 1176 \<or> n3 \<noteq> 846 \<or> n4 \<noteq> 846 \<or> fl \<noteq> 750"
    | "\<not> toi \<ge> 100" "\<not> (n2 \<noteq> 1176 \<or> n3 \<noteq> 846 \<or> n4 \<noteq> 846 \<or> fl \<noteq> 750)"
      "fb = None \<or> \<not> valid_bits sb2 n2 \<or> \<not> valid_bits sb3 n3 \<or> \<not> valid_bits sb4 n4"
    using assms by (auto simp: encode_args_bad_def split: if_splits)
  then show ?thesis
    using assms unfolding lnis_afs_encode_frame_def encode_args_bad_def
    by cases (simp_all only: if_True if_False simp_thms option.inject fail_def Let_def prod.case, auto)
qed

lemma encode_frame_total:
  assumes "codec_ok st" "buf_ok sb2 n2" "buf_ok sb3 n3" "buf_ok sb4 n4"
  obtains st' r out where "lnis_afs_encode_frame toi sb2 n2 sb3 n3 sb4 n4 fb fl st = Inr (st', r, out)"
    "codec_ok st'" "r = 0 \<or> r = -1"
proof (cases "encode_args_bad toi sb2 n2 sb3 n3 sb4 n4 fb fl = None")
  case False
  then obtain msg where "encode_args_bad toi sb2 n2 sb3 n3 sb4 n4 fb fl = Some msg" by auto
  from that [OF encode_frame_refused [OF this]] assms(1) show ?thesis by (simp add: codec_ok_def)
next
  case True
  then have good: "\<not> (toi \<ge> 100 \<or> n2 \<noteq> 1176 \<or> n3 \<noteq> 846 \<or> n4 \<noteq> 846 \<or> fl \<noteq> 750 \<or> fb = None \<or>
    \<not> valid_bits sb2 n2 \<or> \<not> valid_bits sb3 n3 \<or> \<not> valid_bits sb4 n4)"
    by (auto simp: encode_args_bad_def split: if_splits)
  then obtain b2 b3 b4 where b: "sb2 = Some b2" "sb3 = Some b3" "sb4 = Some b4"
    using valid_bits_SomeD [of sb2 n2] valid_bits_SomeD [of sb3 n3] valid_bits_SomeD [of sb4 n4] by auto
  have len: "1176 \<le> length b2" "846 \<le> length b3" "846 \<le> length b4"
    using assms(2-4) good b by (auto simp: buf_ok_def)
  have bits: "bitarr (take 1176 b2)" "bitarr (take 846 b3)" "bitarr (take 846 b4)"
    using good b valid_bits_take len by auto
  obtain s' x where s': "encode_frame_bits toi b2 b3 b4 (nav st) = Inr (s', x)" "nav_ok s'"
    by (rule encode_frame_bits_ok [of "nav st" "take 1176 b2" "take 846 b3" "take 846 b4" toi, unfolded encode_frame_bits_take])
      (use assms(1) bits len in \<open>simp_all add: codec_ok_def\<close>)
  have "\<exists>out. lnis_afs_encode_frame toi sb2 n2 sb3 n3 sb4 n4 fb fl st = Inr (st\<lparr>nav := s', last_error := []\<rparr>, 0, out)"
    using good s'(1) by (auto simp: lnis_afs_encode_frame_def b)
  then show ?thesis using that s'(2) assms(1) by (fastforce simp: codec_ok_def)
qed

lemma decode_sb34_total:
  assumes "dec_ok d0"
  obtains d1 ok r b' where "decode_sb34 lib source b d0 = Inr (d1, ok, r, b')" "dec_ok d1" "ok = 0 \<or> ok = 1"
    "ok = 0 \<Longrightarrow> b' = b"
proof -
  obtain d1 H where 1: "sdr_decode_LDPC_AFS_SF3 lib (received_sb34 source) d0 =
      Inr (d1, decode_B_LDPC lib (dhp d1) H 3696 4576 (received_sb34 source))" "dec_ok d1"
    using decode_SF3_ok [OF assms] by blast
  obtain r x where "decode_B_LDPC lib (dhp d1) H 3696 4576 (received_sb34 source) = (r, x)" by fastforce
  with 1 have "\<exists>ok r b'. decode_sb34 lib source b d0 = Inr (d1, ok, r, b') \<and> (ok = 0 \<and> b' = b \<or> ok = 1)"
    by (auto simp: decode_sb34_def)
  then show ?thesis using that 1(2) by fastforce
qed

text \<open>The three ways a call is refused before anything is decoded.\<close>

definition decode_args_bad :: "u8 \<Rightarrow> u8 list option \<Rightarrow> nat \<Rightarrow> nat \<Rightarrow> nat \<Rightarrow> nat \<Rightarrow> decode_out \<Rightarrow> bool" where
  "decode_args_bad toi fb fl n2 n3 n4 out \<longleftrightarrow>
     fb = None \<or> out_sb2 out = None \<or> out_sb3 out = None \<or> out_sb4 out = None \<or> out_status out = None \<or>
     fl \<noteq> 750 \<or> n2 \<noteq> 1176 \<or> n3 \<noteq> 846 \<or> n4 \<noteq> 846 \<or> toi \<ge> 100"

lemma decode_frame_bad_args:
  "decode_args_bad toi fb fl n2 n3 n4 out \<Longrightarrow> lnis_afs_decode_frame lib toi fb fl n2 n3 n4 out st =
     Inr (st\<lparr>last_error := ''Invalid AFS decode argument''\<rparr>, -1, out)"
  unfolding lnis_afs_decode_frame_def decode_args_bad_def by (simp only: if_True) (simp add: fail_def)

lemma decode_frame_bad_sync:
  "\<not> decode_args_bad toi fb fl n2 n3 n4 out \<Longrightarrow> take 68 (unpack (the fb) 6000) \<noteq> unpack sync_bytes 68 \<Longrightarrow>
     lnis_afs_decode_frame lib toi fb fl n2 n3 n4 out st =
     Inr (st\<lparr>last_error := ''AFS synchronization pattern mismatch''\<rparr>, -1, out\<lparr>out_status := Some zero_status\<rparr>)"
  unfolding lnis_afs_decode_frame_def decode_args_bad_def by (simp only: if_False Let_def if_True not_False_eq_True) (simp add: fail_def)

lemma decode_frame_bad_sb1:
  "\<not> decode_args_bad toi fb fl n2 n3 n4 out \<Longrightarrow> take 68 (unpack (the fb) 6000) = unpack sync_bytes 68 \<Longrightarrow>
     take 52 (drop 68 (unpack (the fb) 6000)) \<noteq> generate_BCH_AFS_SF1 0 (ucast toi) \<Longrightarrow>
     lnis_afs_decode_frame lib toi fb fl n2 n3 n4 out st =
     Inr (st\<lparr>last_error := ''AFS SB1/TOI mismatch''\<rparr>, -1, out\<lparr>out_status := Some zero_status\<rparr>)"
  unfolding lnis_afs_decode_frame_def decode_args_bad_def
  by (simp only: if_False Let_def if_True not_False_eq_True simp_thms) (simp add: fail_def)

lemma decode_frame_total:
  assumes "codec_ok st"
  obtains st' r out' where "lnis_afs_decode_frame lib toi fb fl n2 n3 n4 out st = Inr (st', r, out')"
    "codec_ok st'" "r = 0 \<or> r = 1 \<or> r = -1"
proof -
  let ?bad = "decode_args_bad toi fb fl n2 n3 n4 out" and ?f = "unpack (the fb) 6000"
  consider "?bad" | "\<not> ?bad" "take 68 ?f \<noteq> unpack sync_bytes 68"
    | "\<not> ?bad" "take 68 ?f = unpack sync_bytes 68" "take 52 (drop 68 ?f) \<noteq> generate_BCH_AFS_SF1 0 (ucast toi)"
    | "\<not> ?bad" "take 68 ?f = unpack sync_bytes 68" "take 52 (drop 68 ?f) = generate_BCH_AFS_SF1 0 (ucast toi)"
    by blast
  then show ?thesis
  proof cases
    case 1
    then show ?thesis using that [OF decode_frame_bad_args] assms by (simp add: codec_ok_def)
  next
    case 2
    then show ?thesis using that [OF decode_frame_bad_sync] assms by (simp add: codec_ok_def)
  next
    case 3
    then show ?thesis using that [OF decode_frame_bad_sb1] assms by (simp add: codec_ok_def)
  next
    case 4
    have ok: "dec_ok (dec st)" using assms by (simp add: codec_ok_def)
    obtain d1 H where 1: "sdr_decode_LDPC_AFS_SF2 lib (received_sb2 (deinterleave ?f)) (dec st) =
        Inr (d1, decode_B_LDPC lib (dhp d1) H 5040 6240 (received_sb2 (deinterleave ?f)))" "dec_ok d1"
      using decode_SF2_ok [OF ok] by blast
    obtain r2 x where x: "decode_B_LDPC lib (dhp d1) H 5040 6240 (received_sb2 (deinterleave ?f)) = (r2, x)" by fastforce
    obtain d2 ok3 r3 b3 where 2: "decode_sb34 lib (drop 2400 (deinterleave ?f)) (the (out_sb3 out)) d1 = Inr (d2, ok3, r3, b3)"
      "dec_ok d2" using decode_sb34_total [OF 1(2)] by metis
    obtain d3 ok4 r4 b4 where 3: "decode_sb34 lib (drop 4140 (deinterleave ?f)) (the (out_sb4 out)) d2 = Inr (d3, ok4, r4, b4)"
      "dec_ok d3" using decode_sb34_total [OF 2(2)] by metis
    have "\<exists>r out'. lnis_afs_decode_frame lib toi fb fl n2 n3 n4 out st =
        Inr (st\<lparr>dec := d3, last_error := []\<rparr>, r, out') \<and> (r = 0 \<or> r = 1)"
      unfolding lnis_afs_decode_frame_def Let_def
      using 4 unfolding decode_args_bad_def by (simp only: if_False simp_thms) (simp add: 1 x 2 3)
    then show ?thesis using that 3(2) assms by (fastforce simp: codec_ok_def)
  qed
qed

section \<open>Sequences of calls\<close>

text \<open>The states the codec can be in, calls in any order with any arguments.\<close>

inductive codec_reach :: "ldpc_lib \<Rightarrow> codec \<Rightarrow> bool" for lib where
  start: "codec_reach lib codec0"
| encode: "codec_reach lib st \<Longrightarrow> buf_ok sb2 n2 \<Longrightarrow> buf_ok sb3 n3 \<Longrightarrow> buf_ok sb4 n4 \<Longrightarrow>
    lnis_afs_encode_frame toi sb2 n2 sb3 n3 sb4 n4 fb fl st = Inr (st', r, out) \<Longrightarrow> codec_reach lib st'"
| decode: "codec_reach lib st \<Longrightarrow>
    lnis_afs_decode_frame lib toi fb' fl n2 n3 n4 out st = Inr (st', r, out') \<Longrightarrow> codec_reach lib st'"

inductive_cases codec_reachE: "codec_reach lib st"

lemma codec_reach_ok: "codec_reach lib st \<Longrightarrow> codec_ok st"
proof (induction rule: codec_reach.induct)
  case start
  show ?case by simp
next
  case (encode st sb2 n2 sb3 n3 sb4 n4 toi fb fl st' r out)
  from encode_frame_total [OF encode.IH encode.hyps(2-4), of toi fb fl] encode.hyps(5) show ?case by auto
next
  case (decode st toi fb' fl n2 n3 n4 out st' r out')
  from decode_frame_total [OF decode.IH, of lib toi fb' fl n2 n3 n4 out] decode.hyps(2) show ?case by auto
qed

section \<open>What a successful decoding guarantees\<close>

text \<open>The decoder of the library yields as many bits as it was given likelihood ratios.\<close>

definition blocks_ok :: "ldpc_lib \<Rightarrow> bool" where
  "blocks_ok lib \<longleftrightarrow> (\<forall>h H lratio. length (prprp_decode lib h H lratio) = length lratio \<and>
     bitarr (prprp_decode lib h H lratio))"

text \<open>A block that is a codeword and whose first \<open>n + 24\<close> bits have CRC remainder zero; \<open>d\<close> is its data.\<close>

definition good_block :: "(nat \<times> nat) set \<Rightarrow> nat \<Rightarrow> nat \<Rightarrow> nat \<Rightarrow> u8 list \<Rightarrow> bool" where
  "good_block E m k n d \<longleftrightarrow> (\<exists>x. length x = k \<and> bitarr x \<and> parity_ok E m k x \<and>
     crc_bits 0 (bools (take (n + 24) x)) = 0 \<and> d = take n x)"

lemma decode_B_LDPC_good:
  assumes lib: "check_counts lib" "blocks_ok lib" and rel: "mat_rel h H m k E"
    and dec: "decode_B_LDPC lib h H m k syms = (r, x)" "0 \<le> r" and crc: "crc_ok x n (n + 24)"
    and len: "n + 24 \<le> m" "n + 24 \<le> 1200" "m \<le> k"
  shows "good_block E m k n (take n x)" "length x = m"
proof -
  let ?l = "map (\<lambda>i. LRATIO ! unat (syms ! i)) [0..<k]"
  let ?d = "prprp_decode lib h H ?l"
  have d: "length ?d = k" "bitarr ?d" using lib(2) by (auto simp: blocks_ok_def)
  have x: "x = take m ?d" and chk: "check_blk lib h H ?d = 0"
    using dec by (auto simp: decode_B_LDPC_def Let_def split: if_splits)
  have "parity_ok E m k ?d" using check_counts_zero [OF lib(1) rel] chk by blast
  moreover have "crc_bits 0 (bools (take (n + 24) x)) = 0"
    using crc_ok_iff [of x n] crc d x len by (simp add: bitarr_take)
  moreover have "take (n + 24) x = take (n + 24) ?d" "take n x = take n ?d" using x len by (simp_all add: min_def)
  ultimately show "good_block E m k n (take n x)" unfolding good_block_def using d by metis
  show "length x = m" using x d len by simp
qed

lemma decode_sb34_good:
  assumes lib: "check_counts lib" "blocks_ok lib" and ok: "dec_ok d0"
    and dec: "decode_sb34 lib source b d0 = Inr (d1, ok, r, b')" "ok \<noteq> 0" and b: "length b = 846"
  shows "good_block SF3_H 3696 4576 846 b'"
proof -
  obtain d1' H where 1: "sdr_decode_LDPC_AFS_SF3 lib (received_sb34 source) d0 =
      Inr (d1', decode_B_LDPC lib (dhp d1') H 3696 4576 (received_sb34 source))" "mat_rel (dhp d1') H 3696 4576 SF3_H"
    using decode_SF3_ok [OF ok] by blast
  obtain r' x where x: "decode_B_LDPC lib (dhp d1') H 3696 4576 (received_sb34 source) = (r', x)" by fastforce
  have res: "0 \<le> r'" "crc_ok x 846 (846 + 24)" "b' = memcpy_at b 0 (take 846 x)"
    using dec 1(1) x by (auto simp: decode_sb34_def split: if_splits)
  from decode_B_LDPC_good [OF lib 1(2) x res(1,2)] have "good_block SF3_H 3696 4576 846 (take 846 x)" "length x = 3696"
    by simp_all
  with res(3) b show ?thesis by (simp add: memcpy_at_all)
qed

lemma decode_frame_good:
  assumes lib: "check_counts lib" "blocks_ok lib" and ok: "codec_ok st"
    and out: "out = \<lparr>out_sb2 = Some b2, out_sb3 = Some b3, out_sb4 = Some b4, out_status = Some s0\<rparr>"
    and b: "length b2 = 1176" "length b3 = 846" "length b4 = 846"
    and dec: "lnis_afs_decode_frame lib toi (Some bytes) 750 1176 846 846 out st = Inr (st', 0, out')"
  shows "toi < 100" "take 68 (unpack bytes 6000) = unpack sync_bytes 68"
    "take 52 (drop 68 (unpack bytes 6000)) = generate_BCH_AFS_SF1 0 (ucast toi)"
    "\<exists>d2 d3 d4 stat. out' = \<lparr>out_sb2 = Some d2, out_sb3 = Some d3, out_sb4 = Some d4, out_status = Some stat\<rparr> \<and>
      good_block SF2_H 5040 6240 1176 d2 \<and> good_block SF3_H 3696 4576 846 d3 \<and> good_block SF3_H 3696 4576 846 d4"
proof -
  let ?f = "unpack bytes 6000"
  have dok: "dec_ok (dec st)" using ok by (simp add: codec_ok_def)
  have g: "\<not> toi \<ge> 100 \<and> take 68 ?f = unpack sync_bytes 68 \<and> take 52 (drop 68 ?f) = generate_BCH_AFS_SF1 0 (ucast toi)"
  proof (rule ccontr)
    assume "\<not> ?thesis"
    moreover have "decode_args_bad toi (Some bytes) 750 1176 846 846 out \<longleftrightarrow> toi \<ge> 100"
      by (simp add: decode_args_bad_def out)
    ultimately have "\<exists>st'' out''. lnis_afs_decode_frame lib toi (Some bytes) 750 1176 846 846 out st = Inr (st'', -1, out'')"
      using decode_frame_bad_args [of toi "Some bytes" 750 1176 846 846 out lib st]
        decode_frame_bad_sync [of toi "Some bytes" 750 1176 846 846 out lib st]
        decode_frame_bad_sb1 [of toi "Some bytes" 750 1176 846 846 out lib st] by auto
    with dec show False by auto
  qed
  then show "toi < 100" "take 68 ?f = unpack sync_bytes 68"
    "take 52 (drop 68 ?f) = generate_BCH_AFS_SF1 0 (ucast toi)" by auto
  obtain d1 H where 1: "sdr_decode_LDPC_AFS_SF2 lib (received_sb2 (deinterleave ?f)) (dec st) =
      Inr (d1, decode_B_LDPC lib (dhp d1) H 5040 6240 (received_sb2 (deinterleave ?f)))"
      "mat_rel (dhp d1) H 5040 6240 SF2_H" "dec_ok d1"
    using decode_SF2_ok [OF dok] by blast
  obtain r2 x where x: "decode_B_LDPC lib (dhp d1) H 5040 6240 (received_sb2 (deinterleave ?f)) = (r2, x)" by fastforce
  obtain d2 ok3 r3 b3' where 2: "decode_sb34 lib (drop 2400 (deinterleave ?f)) b3 d1 = Inr (d2, ok3, r3, b3')" "dec_ok d2"
    using decode_sb34_total [OF 1(3)] by metis
  obtain d3 ok4 r4 b4' where 3: "decode_sb34 lib (drop 4140 (deinterleave ?f)) b4 d2 = Inr (d3, ok4, r4, b4')"
    using decode_sb34_total [OF 2(2)] by metis
  have res: "0 \<le> r2" "crc_ok x 1176 1200" "ok3 \<noteq> 0" "ok4 \<noteq> 0"
    and out': "\<exists>stat. out' = \<lparr>out_sb2 = Some (memcpy_at b2 0 (take 1176 x)), out_sb3 = Some b3', out_sb4 = Some b4', out_status = Some stat\<rparr>"
    using dec g 1(1) x 2(1) 3 by (auto simp: lnis_afs_decode_frame_def Let_def out split: if_splits)
  have good2: "good_block SF2_H 5040 6240 1176 (take 1176 x)" "length x = 5040"
    using decode_B_LDPC_good [OF lib 1(2) x res(1), of 1176] res(2) by simp_all
  then have "memcpy_at b2 0 (take 1176 x) = take 1176 x" using b by (simp add: memcpy_at_all)
  with out' good2(1) decode_sb34_good [OF lib 1(3) 2(1) res(3) b(2)] decode_sb34_good [OF lib 2(2) 3 res(4) b(3)]
  show "\<exists>d2 d3 d4 stat. out' = \<lparr>out_sb2 = Some d2, out_sb3 = Some d3, out_sb4 = Some d4, out_status = Some stat\<rparr> \<and>
      good_block SF2_H 5040 6240 1176 d2 \<and> good_block SF3_H 3696 4576 846 d3 \<and> good_block SF3_H 3696 4576 846 d4"
    by auto
qed

end
