(* ===== verification/Codec_Instances.thy ===== *)
theory Codec_Instances
  imports Lnis_Codec_Inv
begin

text \<open>
  Instances the witnesses share: a decoder library that satisfies every hypothesis the development
  makes about it, and a frame of zeros.
\<close>

section \<open>A library\<close>

text \<open>
  A library that satisfies the contract and decodes every block to zeros: it recovers the codeword of
  the block of zeros.
\<close>

definition zero_lib :: ldpc_lib where
  "zero_lib = \<lparr>prprp_decode = (\<lambda>h H l. replicate (length l) 0),
     check_blk = (\<lambda>h H x. case mod2sparse_mulvec H x h of Inl _ \<Rightarrow> -1 | Inr v \<Rightarrow> int (length (filter (\<lambda>b. b \<noteq> 0) v))),
     changed_blk = (\<lambda>l x. int (length (filter (\<lambda>(r, b). (r > 1) \<noteq> (b \<noteq> 0)) (zip l x))))\<rparr>"

definition zeros_out :: decode_out where
  "zeros_out = \<lparr>out_sb2 = Some (replicate 1176 1), out_sb3 = Some (replicate 846 1), out_sb4 = Some (replicate 846 1),
     out_status = Some zero_status\<rparr>"

lemma mulv_zeros: "nc \<le> k \<Longrightarrow> mulv E nr nc (replicate k 0) = replicate nr 0"
proof (rule nth_equalityI)
  fix i assume "nc \<le> k" "i < length (mulv E nr nc (replicate k 0))"
  moreover have "gf2_row E nc (\<lambda>j. replicate k (0 :: u8) ! j \<noteq> 0) i = gf2_row E nc (\<lambda>j. False) i"
    by (rule gf2_row_cong) (use \<open>nc \<le> k\<close> in simp)
  ultimately show "mulv E nr nc (replicate k 0) ! i = replicate nr 0 ! i" by (simp add: nth_mulv)
qed simp

lemma xor_zeros: "xor_list (replicate n 0) (replicate n 0) = replicate n 0"
  by (rule nth_equalityI) (simp_all add: nth_xor_list)

lemma crc_zeros: "crc_bits 0 (replicate n False) = 0"
  by (simp add: crc_bits_zeros)

lemma with_crc_zeros: "with_crc (replicate n 0) = replicate (n + 24) 0"
proof -
  have "bools (replicate n 0) = replicate n False" by (simp add: bools_def)
  moreover have "unbools (bits24 0) = replicate 24 0"
    by (rule nth_equalityI) (simp_all add: unbools_def)
  ultimately show ?thesis by (simp add: with_crc_def crc_zeros replicate_add)
qed

lemma codewords_zero:
  "SF2_codeword (replicate 1200 0) = replicate 6240 0" "SF3_codeword (replicate 880 0) = replicate 4576 0"
proof -
  have "SF2_codeword (replicate 1200 0) = replicate 1200 0 @ replicate 480 0 @ replicate 4560 0"
    by (simp add: SF2_codeword_def SF2_p1_def SF2_p2_def mulv_zeros xor_zeros)
  then show "SF2_codeword (replicate 1200 0) = replicate 6240 0" by (simp flip: replicate_add)
  have "SF3_codeword (replicate 880 0) = replicate 880 0 @ replicate 352 0 @ replicate 3344 0"
    by (simp add: SF3_codeword_def SF3_p1_def SF3_p2_def mulv_zeros xor_zeros)
  then show "SF3_codeword (replicate 880 0) = replicate 4576 0" by (simp flip: replicate_add)
qed

lemma sb34_codeword_zero: "sb34_codeword (replicate 846 0) = replicate 4576 0"
proof -
  have "with_crc (replicate 846 0) @ replicate 10 0 = replicate 880 0"
    by (simp add: with_crc_zeros flip: replicate_add)
  then show ?thesis by (simp add: sb34_codeword_def codewords_zero)
qed

lemma zero_lib_check: "check_counts zero_lib"
  unfolding check_counts_def
proof (intro allI impI)
  fix h H m n E and x :: "u8 list" assume rel: "mat_rel h H m n E"
  let ?v = "map (\<lambda>i. of_bool (gf2_row E n (\<lambda>j. x ! j \<noteq> 0) i)) [0..<m] :: u8 list"
  have "length (filter (\<lambda>b. b \<noteq> 0) ?v) = card {i. i < m \<and> gf2_row E n (\<lambda>j. x ! j \<noteq> 0) i}"
    by (simp add: filter_map comp_def length_filter_conv_card) (rule arg_cong [of _ _ card], auto)
  then show "check_blk zero_lib h H x = int (card {i. i < m \<and> gf2_row E n (\<lambda>j. x ! j \<noteq> 0) i})"
    by (simp add: zero_lib_def mulvec_ok [OF rel])
qed

lemma zero_lib_rest: "changed_counts zero_lib" "blocks_ok zero_lib"
  by (simp_all add: changed_counts_def blocks_ok_def zero_lib_def)

lemma zero_lib_recovers: "recovers zero_lib E m n received (replicate n 0)"
  by (simp add: recovers_def zero_lib_def)

lemmas zero_lib_ok = zero_lib_check zero_lib_rest zero_lib_recovers

text \<open>A frame of zeros and its decoding, for the witnesses.\<close>

definition zero_bytes :: "u8 list" where
  "zero_bytes = pack (frame_of 7 (replicate 1176 0) (replicate 846 0) (replicate 846 0)) 6000"

lemma unpack_zero_bytes: "unpack zero_bytes 6000 = frame_of 7 (replicate 1176 0) (replicate 846 0) (replicate 846 0)"
  unfolding zero_bytes_def by (rule unpack_pack) (simp_all add: bitarr_frame_of)

lemma decode_zero_bytes:
  "\<exists>st' stat. lnis_afs_decode_frame zero_lib 7 (Some zero_bytes) 750 1176 846 846 zeros_out codec0 =
      Inr (st', 0, \<lparr>out_sb2 = Some (replicate 1176 0), out_sb3 = Some (replicate 846 0), out_sb4 = Some (replicate 846 0),
        out_status = Some stat\<rparr>)"
  unfolding zeros_out_def
proof (rule decode_encoded [OF zero_lib_check zero_lib_rest(1) _ _ _ _ _ _ _ _ _ _ _ _ _ _ unpack_zero_bytes])
  fix st' stat
  assume "lnis_afs_decode_frame zero_lib 7 (Some zero_bytes) 750 1176 846 846
    \<lparr>out_sb2 = Some (replicate 1176 1), out_sb3 = Some (replicate 846 1), out_sb4 = Some (replicate 846 1),
      out_status = Some zero_status\<rparr> codec0 =
    Inr (st', 0, \<lparr>out_sb2 = Some (replicate 1176 0), out_sb3 = Some (replicate 846 0), out_sb4 = Some (replicate 846 0),
      out_status = Some stat\<rparr>)"
  then show "\<exists>st' stat. lnis_afs_decode_frame zero_lib 7 (Some zero_bytes) 750 1176 846 846
    \<lparr>out_sb2 = Some (replicate 1176 1), out_sb3 = Some (replicate 846 1), out_sb4 = Some (replicate 846 1),
      out_status = Some zero_status\<rparr> codec0 =
    Inr (st', 0, \<lparr>out_sb2 = Some (replicate 1176 0), out_sb3 = Some (replicate 846 0), out_sb4 = Some (replicate 846 0),
      out_status = Some stat\<rparr>)" by blast
qed (use zero_lib_recovers in \<open>simp_all add: codec0_def with_crc_zeros codewords_zero sb34_codeword_zero\<close>)

end
