(* ===== verification/Mod2sparse_Props.thy ===== *)
theory Mod2sparse_Props
  imports Mod2sparse_Spec
begin

text \<open>
  The properties of the sparse matrix store: every operation on the pointer structure is what it is
  on the set of positions, returns within its fuel, and leaves the other matrices of the heap alone;
  the error exits; and the one operation that breaks the structure. The witnesses run on a matrix of
  two rows and three columns.
\<close>

section \<open>Matrices for the witnesses\<close>

text \<open>Heap and matrix 0 after an allocation, and after one insertion.\<close>

definition heap_of :: "mod2err + heap \<times> 'a \<Rightarrow> heap" where
  "heap_of r = (case r of Inl _ \<Rightarrow> heap0 | Inr (h, _) \<Rightarrow> h)"

definition heap1 :: heap where
  "heap1 = heap_of (mod2sparse_allocate 2 3 heap0)"

definition heap2 :: heap where
  "heap2 = heap_of (mod2sparse_insert 0 1 2 heap1)"

lemma heap1_rel: "mat_rel heap1 0 2 3 {}"
proof -
  have z: "nmat heap0 = 0" by (simp add: heap0_def)
  obtain h' where "mod2sparse_allocate (int 2) (int 3) heap0 = Inr (h', 0)" "mat_rel h' 0 2 3 {}"
    by (rule allocate_ok [of heap0 2 3, unfolded z]) (simp_all add: that)
  then show ?thesis by (simp add: heap1_def heap_of_def)
qed

lemma heap2_rel: "mat_rel heap2 0 2 3 {(1, 2)}"
proof -
  obtain h' a where "mod2sparse_insert 0 (int 1) (int 2) heap1 = Inr (h', a)" "mat_rel h' 0 2 3 {(1, 2)}"
    by (rule insert_ok [OF heap1_rel, of 1 2]) (simp_all add: that)
  then show ?thesis by (simp add: heap2_def heap_of_def)
qed

text \<open>Every other matrix of the heap keeps its contents.\<close>

definition others_kept :: "nat \<Rightarrow> heap \<Rightarrow> heap \<Rightarrow> bool" where
  "others_kept m h h' \<longleftrightarrow> (\<forall>m' nr nc E. m' \<noteq> m \<longrightarrow> mat_rel h m' nr nc E \<longrightarrow> mat_rel h' m' nr nc E)"

lemma others_keptI: "mframe m h h' \<Longrightarrow> mat_rel h' m nr nc E \<Longrightarrow> others_kept m h h'"
  unfolding others_kept_def using frame_mat_rel by (auto simp: mat_rel_def [of h' m])

lemma node_at_not_Null:
  assumes "node_at h m r c e" "r < nrow h m"
  shows "e \<noteq> Null"
proof -
  obtain rl cl fl where rep: "mat_rep h m rl cl fl" and e: "e \<in> set (rl r)"
    using assms(1) by (auto simp: node_at_def)
  then have "owned h m e" using assms(2) by (auto simp: mat_rep_def nodes_def)
  then show ?thesis by (auto simp: owned_def)
qed

lemma mat_rel_bounds:
  assumes "mat_rel h m nr nc E" "(r, c) \<in> E"
  shows "r < nr" "c < nc"
proof -
  from assms obtain rl cl fl where rep: "mat_rep h m rl cl fl" and E: "E = entries_of (ent h) (nrow h m) rl"
    and n: "nr = nrow h m" "nc = ncol h m" by (auto simp: mat_rel_def)
  from assms(2) E obtain x where x: "r < nrow h m" "x \<in> set (rl r)" "c = nat (col (ent h x))"
    by (auto simp: entries_of_def)
  with mat_rep_row_node(3) [OF rep x(1,2)] n show "r < nr" "c < nc" by auto
qed

text \<open>A matrix represents one set of positions.\<close>

lemma mat_rel_fun:
  assumes "mat_rel h m nr nc E" "mat_rel h m nr nc F"
  shows "E = F"
proof -
  have sub: "E' \<subseteq> F'" if rel: "mat_rel h m nr nc E'" "mat_rel h m nr nc F'" for E' F'
  proof (rule subrelI)
    fix r c assume rc: "(r, c) \<in> E'"
    have b: "r < nr" "c < nc" using mat_rel_bounds [OF rel(1) rc] by auto
    obtain e where e: "mod2sparse_find m (int r) (int c) h = Inr e" "node_at h m r c e"
      by (rule find_ok [OF rel(1) b]) (use rc in \<open>auto split: if_splits\<close>)
    have "e \<noteq> Null" using node_at_not_Null [OF e(2)] b rel(1) by (simp add: mat_rel_def)
    then show "(r, c) \<in> F'" using find_ok [OF rel(2) b] e(1) by (metis Inr_inject)
  qed
  show ?thesis using sub [OF assms] sub [OF assms(2,1)] by blast
qed

text \<open>A new node taken from a new block leaves nine nodes on the free list.\<close>

lemma alloc_entry_refill:
  assumes "next_free (mat h m) = Null"
  shows "next_free (mat (fst (alloc_entry m h)) m) = Ent (nblk h) 8"
proof -
  have "next_free (mat (new_block m h) m) = Null" using assms by (simp add: new_block_def upd_mat_def Let_def)
  from chain_entries [OF this refl, of "nblk h" 10] show ?thesis
    using assms by (simp add: alloc_entry_def Let_def Mod2sparse_block_def)
qed

lemma insert_fills_free:
  assumes "mod2sparse_insert m r c h = Inr (h', a)" "next_free (mat h m) = Null"
  shows "h' = h \<or> next_free (mat h' m) \<noteq> Null"
  using assms alloc_entry_refill [of h m]
  by (auto simp: mod2sparse_insert_def Let_def split: if_splits sum.splits bool.splits prod.splits)

section \<open>Properties\<close>

text \<open>
  C34: \<open>mod2sparse_insert\<close> at a position inside the matrix returns a node of that position; the matrix
  then represents the old positions with the new one added (nothing changes when it was there),
  sorted and doubly linked in its row and its column, and every other matrix keeps its contents.
\<close>

theorem insert_refines:
  assumes "mat_rel h m nr nc E" "r < nr" "c < nc"
  shows "\<exists>h' a. mod2sparse_insert m (int r) (int c) h = Inr (h', a) \<and> mat_rel h' m nr nc (insert (r, c) E) \<and>
    row (ent h' a) = int r \<and> col (ent h' a) = int c \<and> others_kept m h h'"
proof -
  obtain h' a where "mod2sparse_insert m (int r) (int c) h = Inr (h', a)" "mat_rel h' m nr nc (insert (r, c) E)"
    "mframe m h h'" "row (ent h' a) = int r" "col (ent h' a) = int c"
    using insert_ok [OF assms] .
  then show ?thesis using others_keptI by blast
qed

theorem insert_refines_witness:
  "\<exists>h' a. mod2sparse_insert 0 0 1 heap2 = Inr (h', a) \<and> mat_rel h' 0 2 3 {(0, 1), (1, 2)} \<and>
    row (ent h' a) = 0 \<and> col (ent h' a) = 1 \<and> others_kept 0 heap2 h'"
  using insert_refines [OF heap2_rel, of 0 1] by simp

text \<open>
  C35: \<open>mod2sparse_mulvec\<close>, which walks the columns of the nonzero components and flips bits, computes
  the product over GF(2) of the represented matrix with the vector, for every vector.
\<close>

theorem mulvec_refines:
  assumes "mat_rel h m nr nc E"
  shows "mod2sparse_mulvec m u h = Inr (map (\<lambda>i. of_bool (odd (card {j. j < nc \<and> (i, j) \<in> E \<and> u ! j \<noteq> 0}))) [0..<nr])"
  using mulvec_ok [OF assms, of u] by (simp add: gf2_row_def)

theorem mulvec_refines_witness: "mod2sparse_mulvec 0 [1, 1, 1] heap2 = Inr [0, 1]"
proof -
  have s: "{j. j < 3 \<and> (i, j) \<in> {(1, 2)} \<and> [1, 1, 1 :: u8] ! j \<noteq> 0} = (if i = 1 then {2} else {})" for i :: nat
    by auto
  have "[0..<2] = [0, 1 :: nat]" by (simp add: upt_rec)
  then show ?thesis using mulvec_refines [OF heap2_rel, of "[1, 1, 1]"] unfolding s by simp
qed

text \<open>
  Searching a position and deleting what was found removes exactly that position; the search
  returns \<open>NULL\<close> exactly when the position is not in the matrix. The freed node goes to the free list
  of its own matrix, and every other matrix keeps its contents.
\<close>

theorem find_delete_refines:
  assumes "mat_rel h m nr nc E" "r < nr" "c < nc"
  shows "\<exists>e. mod2sparse_find m (int r) (int c) h = Inr e \<and> (e \<noteq> Null \<longleftrightarrow> (r, c) \<in> E) \<and>
    (e \<noteq> Null \<longrightarrow> row (ent h e) = int r \<and> col (ent h e) = int c \<and>
      (\<exists>h'. mod2sparse_delete m e h = Inr h' \<and> mat_rel h' m nr nc (E - {(r, c)}) \<and> others_kept m h h'))"
proof -
  obtain e where e: "mod2sparse_find m (int r) (int c) h = Inr e" "if (r, c) \<in> E then node_at h m r c e else e = Null"
    by (rule find_ok [OF assms])
  have "\<exists>h'. mod2sparse_delete m e h = Inr h' \<and> mat_rel h' m nr nc (E - {(r, c)}) \<and> others_kept m h h'" if "e \<noteq> Null"
    using delete_ok [OF assms e(1) that] others_keptI by metis
  moreover have "e \<noteq> Null \<longleftrightarrow> (r, c) \<in> E" "e \<noteq> Null \<longrightarrow> row (ent h e) = int r \<and> col (ent h e) = int c"
    using e(2) node_at_not_Null [of h m r c e] assms by (auto simp: node_at_def mat_rel_def split: if_splits)
  ultimately show ?thesis using e(1) by blast
qed

theorem find_delete_refines_witness:
  "\<exists>e. mod2sparse_find 0 1 2 heap2 = Inr e \<and> e \<noteq> Null \<and>
    (\<exists>h'. mod2sparse_delete 0 e heap2 = Inr h' \<and> mat_rel h' 0 2 3 {} \<and> others_kept 0 heap2 h')"
  using find_delete_refines [OF heap2_rel, of 1 2] by auto

text \<open>
  \<open>mod2sparse_allocate\<close> yields an empty matrix of the dimensions asked for, distinct from every
  matrix there is, all of which keep their contents.
\<close>

theorem allocate_refines:
  assumes "heap_ok h" "0 < nr" "0 < nc"
  shows "\<exists>h' m. mod2sparse_allocate (int nr) (int nc) h = Inr (h', m) \<and> mat_rel h' m nr nc {} \<and>
    mod2sparse_rows h' m = int nr \<and> mod2sparse_cols h' m = int nc \<and>
    (\<forall>m' nr' nc' E'. mat_rel h m' nr' nc' E' \<longrightarrow> m' \<noteq> m \<and> mat_rel h' m' nr' nc' E')"
proof -
  obtain h' m where h: "mod2sparse_allocate (int nr) (int nc) h = Inr (h', m)" "mat_rel h' m nr nc {}"
    "\<forall>m' nr' nc' E'. mat_rel h m' nr' nc' E' \<longrightarrow> m' \<noteq> m \<and> mat_rel h' m' nr' nc' E'"
    using ms.alloc_law [OF assms] by blast
  then have "mod2sparse_rows h' m = int nr" "mod2sparse_cols h' m = int nc"
    by (auto simp: mat_rel_def mat_rep_def mod2sparse_rows_def mod2sparse_cols_def)
  with h show ?thesis by blast
qed

theorem allocate_refines_witness:
  "\<exists>h' m. mod2sparse_allocate 4 5 heap2 = Inr (h', m) \<and> mat_rel h' m 4 5 {} \<and> m \<noteq> 0 \<and> mat_rel h' 0 2 3 {(1, 2)}"
proof -
  have "heap_ok heap2" using heap2_rel by (simp add: mat_rel_def)
  from allocate_refines [OF this, of 4 5] heap2_rel show ?thesis by fastforce
qed

text \<open>
  Loading a table of positions, in any order and with repetitions, yields exactly the set of its
  positions; this is how the coder and the decoder build their matrices.
\<close>

theorem load_table:
  assumes "heap_ok h" "0 < nr" "0 < nc" "\<forall>(r, c) \<in> set ps. r < nr \<and> c < nc"
  shows "\<exists>h1 m h'. mod2sparse_allocate (int nr) (int nc) h = Inr (h1, m) \<and>
    insert_each mod2sparse_insert m ps h1 = Inr h' \<and> mat_rel h' m nr nc (set ps) \<and>
    (\<forall>m' nr' nc' E'. mat_rel h m' nr' nc' E' \<longrightarrow> mat_rel h' m' nr' nc' E')"
  by (rule ms.load_ok [OF assms])

theorem load_table_witness:
  "\<exists>h1 m h'. mod2sparse_allocate 2 3 heap0 = Inr (h1, m) \<and>
    insert_each mod2sparse_insert m [(1, 2), (0, 0), (1, 2), (1, 0)] h1 = Inr h' \<and>
    mat_rel h' m 2 3 {(1, 2), (0, 0), (1, 0)}"
  using load_table [of heap0 2 3 "[(1, 2), (0, 0), (1, 2), (1, 0)]"] by (auto simp: insert_commute insert_absorb2)

text \<open>
  \<open>mod2sparse_count_row\<close> and \<open>mod2sparse_count_col\<close> count the positions of a row and of a column.
\<close>

theorem counts_refine:
  assumes "mat_rel h m nr nc E" "r < nr" "c < nc"
  shows "mod2sparse_count_row m (int r) h = Inr (int (card {j. (r, j) \<in> E})) \<and>
    mod2sparse_count_col m (int c) h = Inr (int (card {i. (i, c) \<in> E}))"
  using count_row_ok [OF assms(1,2)] count_col_ok [OF assms(1,3)] by simp

theorem counts_refine_witness: "mod2sparse_count_row 0 1 heap2 = Inr 1 \<and> mod2sparse_count_col 0 0 heap2 = Inr 0"
  using counts_refine [OF heap2_rel, of 1 0] by simp

text \<open>
  Outside its bounds every operation ends through \<open>exit\<close> with its message and changes nothing:
  allocation of an empty shape, search and insertion at a position outside, counting a row or column
  outside, deleting \<open>NULL\<close> or a header node.
\<close>

theorem bad_arguments_exit:
  "(nr \<le> 0 \<or> nc \<le> 0 \<longrightarrow> mod2sparse_allocate nr nc h = Inl (Exit ''mod2sparse_allocate: Invalid number of rows or columns'')) \<and>
   (r < 0 \<or> mod2sparse_rows h m \<le> r \<or> c < 0 \<or> mod2sparse_cols h m \<le> c \<longrightarrow>
      mod2sparse_find m r c h = Inl (Exit ''mod2sparse_find: row or column index out of bounds'') \<and>
      mod2sparse_insert m r c h = Inl (Exit ''mod2sparse_insert: row or column index out of bounds'')) \<and>
   (r < 0 \<or> mod2sparse_rows h m \<le> r \<longrightarrow>
      mod2sparse_count_row m r h = Inl (Exit ''mod2sparse_count_row: row index out of bounds'')) \<and>
   (c < 0 \<or> mod2sparse_cols h m \<le> c \<longrightarrow>
      mod2sparse_count_col m c h = Inl (Exit ''mod2sparse_count_col: column index out of bounds'')) \<and>
   mod2sparse_delete m Null h = Inl (Exit ''mod2sparse_delete: Trying to delete a null entry'') \<and>
   (e \<noteq> Null \<and> at_end h e \<longrightarrow>
      mod2sparse_delete m e h = Inl (Exit ''mod2sparse_delete: Trying to delete a header entry''))"
  by (simp add: mod2sparse_allocate_def mod2sparse_find_def mod2sparse_insert_def out_of_bounds_def
      mod2sparse_count_row_def mod2sparse_count_col_def mod2sparse_delete_def at_end_def)

theorem bad_arguments_exit_witness:
  "mod2sparse_insert 0 2 0 heap2 = Inl (Exit ''mod2sparse_insert: row or column index out of bounds'') \<and>
   mod2sparse_count_row 0 2 heap2 = Inl (Exit ''mod2sparse_count_row: row index out of bounds'') \<and>
   mod2sparse_allocate 2 0 heap2 = Inl (Exit ''mod2sparse_allocate: Invalid number of rows or columns'')"
proof -
  have "mod2sparse_rows heap2 0 = 2" "mod2sparse_cols heap2 0 = 3"
    using heap2_rel by (auto simp: mat_rel_def mat_rep_def mod2sparse_rows_def mod2sparse_cols_def)
  then show ?thesis using bad_arguments_exit [of 2 0 heap2 2 0 0] by simp
qed

text \<open>
  Clearing: \<open>mod2sparse_clear\<close> frees the blocks of a matrix but keeps its free list: whenever that list was
  not empty, the next node the matrix allocates lies in a freed block. After any insertion into a new
  matrix the list is not empty (a block has ten nodes).
\<close>

theorem clear_leaves_dangling:
  assumes "mat_rel h m nr nc E" "next_free (mat h m) \<noteq> Null"
  shows "\<exists>b k. next_free (mat (mod2sparse_clear m h) m) = Ent b k \<and> \<not> live (mod2sparse_clear m h) b \<and>
    snd (alloc_entry m (mod2sparse_clear m h)) = Ent b k"
  using clear_dangling [OF assms] by metis

lemma heap2_free: "next_free (mat heap2 0) \<noteq> Null"
proof -
  have n: "next_free (mat heap1 0) = Null"
    by (simp add: heap1_def heap_of_def mod2sparse_allocate_def Let_def heap0_def fold_init_row fold_init_col)
  obtain h' a where i: "mod2sparse_insert 0 (int 1) (int 2) heap1 = Inr (h', a)" "mat_rel h' 0 2 3 {(1, 2)}"
    by (rule insert_ok [OF heap1_rel, of 1 2]) (simp_all add: that)
  then have "next_free (mat h' 0) \<noteq> Null"
    using insert_fills_free [OF i(1) n] mat_rel_fun [OF heap1_rel] by auto
  with i(1) show ?thesis by (simp add: heap2_def heap_of_def)
qed

theorem clear_leaves_dangling_witness:
  "\<exists>b k. next_free (mat (mod2sparse_clear 0 heap2) 0) = Ent b k \<and> \<not> live (mod2sparse_clear 0 heap2) b \<and>
    snd (alloc_entry 0 (mod2sparse_clear 0 heap2)) = Ent b k"
  by (rule clear_leaves_dangling [OF heap2_rel heap2_free])

text \<open>
  \<open>mod2sparse_clear\<close> of a matrix with an empty free list yields the empty matrix of the same
  dimensions.
\<close>

theorem clear_refines:
  assumes "mat_rel h m nr nc E" "next_free (mat h m) = Null"
  shows "mat_rel (mod2sparse_clear m h) m nr nc {}"
  by (rule clear_ok [OF assms])

theorem clear_refines_witness: "mat_rel (mod2sparse_clear 0 heap1) 0 2 3 {}"
  by (rule clear_refines [OF heap1_rel])
    (simp add: heap1_def heap_of_def mod2sparse_allocate_def Let_def heap0_def fold_init_row fold_init_col)

end
