(* ===== verification/Afs_Props.thy ===== *)
theory Afs_Props
  imports Afs_Frame Afs_Ldpc_Dec Mod2sparse_Props
begin

text \<open>
  The properties of the coding layers below the codec: bit packing, parity, shift register, CRC-24Q,
  subframe 1, the LDPC coders with their cached matrices, and the parity check matrix of the decoder.
\<close>

section \<open>Linearity of the coders\<close>

lemma mulv_xor:
  assumes "bitarr u" "bitarr v" "nc \<le> length u" "nc \<le> length v"
  shows "mulv E nr nc (xor_list u v) = xor_list (mulv E nr nc u) (mulv E nr nc v)"
proof (rule nth_equalityI)
  fix i assume "i < length (mulv E nr nc (xor_list u v))"
  then have i: "i < nr" by simp
  have x: "(xor_list u v ! j \<noteq> 0) = ((u ! j \<noteq> 0) \<noteq> (v ! j \<noteq> 0))" if "j < nc" for j
    using bitarr_nthD [OF assms(1), of j] bitarr_nthD [OF assms(2), of j] that assms(3,4)
    by (auto simp: nth_xor_list)
  have "gf2_row E nc (\<lambda>j. xor_list u v ! j \<noteq> 0) i = gf2_row E nc (\<lambda>j. (u ! j \<noteq> 0) \<noteq> (v ! j \<noteq> 0)) i"
    by (rule gf2_row_cong) (rule x)
  also have "\<dots> = (gf2_row E nc (\<lambda>j. u ! j \<noteq> 0) i \<noteq> gf2_row E nc (\<lambda>j. v ! j \<noteq> 0) i)" by (rule gf2_row_xor)
  finally show "mulv E nr nc (xor_list u v) ! i = xor_list (mulv E nr nc u) (mulv E nr nc v) ! i"
    using i by (cases "gf2_row E nc (\<lambda>j. u ! j \<noteq> 0) i"; cases "gf2_row E nc (\<lambda>j. v ! j \<noteq> 0) i")
      (simp_all add: nth_mulv nth_xor_list)
qed simp

lemma xor_list_swap:
  assumes "length a = n" "length b = n" "length c = n" "length d = n"
  shows "xor_list (xor_list a b) (xor_list c d) = xor_list (xor_list a c) (xor_list b d)"
  by (rule nth_equalityI) (use assms in \<open>simp_all add: nth_xor_list ac_simps\<close>)

lemma xor_list_append:
  "length a = length b \<Longrightarrow> xor_list (a @ c) (b @ d) = xor_list a b @ xor_list c d"
  by (simp add: xor_list_def)

lemma xor_list_slice: "xor_list (take n (drop k a)) (take n (drop k b)) = take n (drop k (xor_list a b))"
  by (simp add: xor_list_def take_map drop_map drop_zip take_zip)

lemma SF2_codeword_xor:
  assumes "bitarr a" "bitarr b" "length a = 1200" "length b = 1200"
  shows "SF2_codeword (xor_list a b) = xor_list (SF2_codeword a) (SF2_codeword b)"
proof -
  have p1: "SF2_p1 (xor_list a b) = xor_list (SF2_p1 a) (SF2_p1 b)"
    using assms by (simp add: SF2_p1_def mulv_xor)
  have bits: "bitarr (SF2_p1 a)" "bitarr (SF2_p1 b)" by (simp_all add: SF2_p1_def)
  have "SF2_p2 (xor_list a b) = xor_list (SF2_p2 a) (SF2_p2 b)"
    using assms bits p1 by (simp add: SF2_p2_def mulv_xor xor_list_swap [where n = 4560])
  with p1 assms show ?thesis by (simp add: SF2_codeword_def xor_list_append)
qed

lemma SF3_codeword_xor:
  assumes "bitarr a" "bitarr b" "length a = 880" "length b = 880"
  shows "SF3_codeword (xor_list a b) = xor_list (SF3_codeword a) (SF3_codeword b)"
proof -
  have p1: "SF3_p1 (xor_list a b) = xor_list (SF3_p1 a) (SF3_p1 b)"
    using assms by (simp add: SF3_p1_def mulv_xor)
  have bits: "bitarr (SF3_p1 a)" "bitarr (SF3_p1 b)" by (simp_all add: SF3_p1_def)
  have "SF3_p2 (xor_list a b) = xor_list (SF3_p2 a) (SF3_p2 b)"
    using assms bits p1 by (simp add: SF3_p2_def mulv_xor xor_list_swap [where n = 3344])
  with p1 assms show ?thesis by (simp add: SF3_codeword_def xor_list_append)
qed

section \<open>The LDPC coders\<close>

text \<open>
  C23: whatever matrices are already cached, the coder of subframe 2 returns, and its 2400 symbols are
  bits 240 to 2639 of a word that starts with the 1200 input bits and satisfies all 5040 parity checks
  of the decoder's matrix; the cache stays well formed.
\<close>

theorem encode_SF2_codeword:
  assumes "nav_ok s" "length syms = 1200"
  shows "\<exists>s' cw. encode_LDPC_AFS_SF2 syms s = Inr (s', take 2400 (drop 240 cw)) \<and> nav_ok s' \<and>
    length cw = 6240 \<and> take 1200 cw = syms \<and> parity_ok SF2_H 5040 6240 cw"
proof -
  obtain s' where "encode_LDPC_AFS_SF2 syms s = Inr (s', take 2400 (drop 240 (SF2_codeword syms)))" "nav_ok s'"
    using encode_SF2_ok [OF assms] .
  moreover have "length (SF2_codeword syms) = 6240" "take 1200 (SF2_codeword syms) = syms"
    using assms(2) by (simp_all add: SF2_codeword_def)
  ultimately show ?thesis using SF2_parity [OF assms(2)] by blast
qed

theorem encode_SF2_codeword_witness:
  "\<exists>s' cw. encode_LDPC_AFS_SF2 (replicate 1200 1) nav0 = Inr (s', take 2400 (drop 240 cw)) \<and> nav_ok s' \<and>
    length cw = 6240 \<and> take 1200 cw = replicate 1200 1 \<and> parity_ok SF2_H 5040 6240 cw"
  by (rule encode_SF2_codeword) simp_all

text \<open>
  The same for subframes 3 and 4: the 1740 symbols are bits 176 to 869 and 880 to 1925 of a word
  that starts with the 870 input bits and ten zeros and satisfies all 3696 parity checks.
\<close>

theorem encode_SF3_codeword:
  assumes "nav_ok s" "870 \<le> length syms"
  shows "\<exists>s' cw. encode_LDPC_AFS_SF3 syms s = Inr (s', take 694 (drop 176 cw) @ take 1046 (drop 880 cw)) \<and> nav_ok s' \<and>
    length cw = 4576 \<and> take 880 cw = take 870 syms @ replicate 10 0 \<and> parity_ok SF3_H 3696 4576 cw"
proof -
  let ?cw = "SF3_codeword (SF3_fill syms)"
  obtain s' where "encode_LDPC_AFS_SF3 syms s = Inr (s', take 694 (drop 176 ?cw) @ take 1046 (drop 880 ?cw))" "nav_ok s'"
    using encode_SF3_ok [OF assms] .
  moreover have l: "length (SF3_fill syms) = 880" using assms(2) by (simp add: SF3_fill_def)
  moreover from l have "length ?cw = 4576" "take 880 ?cw = SF3_fill syms" by (simp_all add: SF3_codeword_def)
  ultimately show ?thesis using SF3_parity [OF l] unfolding SF3_fill_def by metis
qed

theorem encode_SF3_codeword_witness:
  "\<exists>s' cw. encode_LDPC_AFS_SF3 (replicate 1200 1) nav0 = Inr (s', take 694 (drop 176 cw) @ take 1046 (drop 880 cw)) \<and>
    nav_ok s' \<and> length cw = 4576 \<and> take 880 cw = take 870 (replicate 1200 1) @ replicate 10 0 \<and>
    parity_ok SF3_H 3696 4576 cw"
  by (rule encode_SF3_codeword) simp_all

text \<open>
  The coder of subframe 2 is linear: the symbols of the exclusive or of two blocks are the
  exclusive or of their symbols, from any well-formed cache.
\<close>

theorem encode_SF2_linear:
  assumes "nav_ok s" "bitarr a" "bitarr b" "length a = 1200" "length b = 1200"
  shows "\<exists>s' x y. encode_LDPC_AFS_SF2 a s = Inr (s', x) \<and> encode_LDPC_AFS_SF2 b s = Inr (s', y) \<and>
    encode_LDPC_AFS_SF2 (xor_list a b) s = Inr (s', xor_list x y)"
proof -
  have one: "\<exists>s'. load_SF2 s = Inr s' \<and>
      encode_LDPC_AFS_SF2 c s = Inr (s', take 2400 (drop 240 (SF2_codeword c)))" if c: "length c = 1200" for c
  proof -
    obtain s' where e: "encode_LDPC_AFS_SF2 c s = Inr (s', take 2400 (drop 240 (SF2_codeword c)))"
      using encode_SF2_ok [OF assms(1) c] by blast
    moreover have "load_SF2 s = Inr s'"
      using e by (auto simp: encode_LDPC_AFS_SF2_def res_bind_def Let_def split: sum.splits)
    ultimately show ?thesis by blast
  qed
  have l: "length (xor_list a b) = 1200" using assms by simp
  show ?thesis
    using one [OF assms(4)] one [OF assms(5)] one [OF l] SF2_codeword_xor [OF assms(2-5)]
    by (auto simp: xor_list_slice)
qed

theorem encode_SF2_linear_witness:
  "\<exists>s' x y. encode_LDPC_AFS_SF2 (replicate 1200 1) nav0 = Inr (s', x) \<and>
    encode_LDPC_AFS_SF2 (1 # replicate 1199 0) nav0 = Inr (s', y) \<and>
    encode_LDPC_AFS_SF2 (xor_list (replicate 1200 1) (1 # replicate 1199 0)) nav0 = Inr (s', xor_list x y)"
  by (rule encode_SF2_linear) (simp_all add: bitarr_def list_all_iff)

text \<open>
  The matrices are built once: after a call of the coder of subframe 2 any further call returns
  with the cache, and the heap, as they were.
\<close>

theorem encode_SF2_cached:
  assumes "encode_LDPC_AFS_SF2 syms s = Inr (s1, out1)" "encode_LDPC_AFS_SF2 syms' s1 = Inr (s2, out2)"
  shows "s2 = s1"
proof -
  have l: "load_SF2 s = Inr s1" "load_SF2 s1 = Inr s2"
    using assms by (auto simp: encode_LDPC_AFS_SF2_def res_bind_def Let_def split: sum.splits)
  then have "load_SF2 s1 = Inr s1"
    by (auto simp: load_SF2_def cached_def res_bind_def split: sum.splits)
  with l show ?thesis by simp
qed

definition nav1 :: nav_state where
  "nav1 = (case encode_LDPC_AFS_SF2 (replicate 1200 0) nav0 of Inl _ \<Rightarrow> nav0 | Inr (s, _) \<Rightarrow> s)"

theorem encode_SF2_cached_witness:
  "\<exists>out. encode_LDPC_AFS_SF2 (replicate 1200 1) nav1 = Inr (nav1, out)"
proof -
  obtain out1 where 1: "encode_LDPC_AFS_SF2 (replicate 1200 0) nav0 = Inr (nav1, out1)" "nav_ok nav1"
    using encode_SF2_ok [of nav0 "replicate 1200 0"] unfolding nav1_def by fastforce
  obtain s2 out2 where 2: "encode_LDPC_AFS_SF2 (replicate 1200 1) nav1 = Inr (s2, out2)"
    using encode_SF2_ok [OF 1(2), of "replicate 1200 1"] by fastforce
  from encode_SF2_cached [OF 1(1) 2] 2 show ?thesis by blast
qed

text \<open>
  The table \<open>SF2_B_Inv_ind\<close> is the inverse over GF(2) of the table \<open>SF2_B_ind\<close> (480 by 480), and
  \<open>SF3_B_Inv_ind\<close> of \<open>SF3_B_ind\<close> (352 by 352), entry by entry.
\<close>

theorem inverse_tables:
  "right_inverse (set SF2_B_ind) (set SF2_B_Inv_ind) 480 \<and> right_inverse (set SF3_B_ind) (set SF3_B_Inv_ind) 352"
  using SF2_right_inverse SF3_right_inverse by simp

text \<open>
  \<open>gen_AFS_LDPC_H\<close>, called with tables that fit its dimensions, builds the matrix with the blocks
  A and B above C, D and the identity, and keeps every matrix there was.
\<close>

theorem gen_H_refines:
  assumes "heap_ok h" "afs_dims m n g A B C D"
  shows "\<exists>h' H. gen_AFS_LDPC_H m n g A B C D h = Inr (h', H) \<and> mat_rel h' H m n (afs_H m n g A B C D) \<and>
    (\<forall>m' nr nc E. mat_rel h m' nr nc E \<longrightarrow> mat_rel h' m' nr nc E)"
  using gen_H_ok [OF assms] unfolding keeps_def by metis

theorem gen_H_refines_witness:
  "\<exists>h' H. gen_AFS_LDPC_H 2 3 1 [(0, 0)] [(0, 0)] [] [(0, 0)] heap2 = Inr (h', H) \<and>
    mat_rel h' H 2 3 (afs_H 2 3 1 [(0, 0)] [(0, 0)] [] [(0, 0)]) \<and> mat_rel h' 0 2 3 {(1, 2)}"
proof -
  have "heap_ok heap2" using heap2_rel by (simp add: mat_rel_def)
  from gen_H_refines [OF this, of 2 3 1 "[(0, 0)]" "[(0, 0)]" "[]" "[(0, 0)]"] heap2_rel show ?thesis
    by (auto simp: afs_dims_def in_dims_def)
qed

section \<open>CRC\<close>

text \<open>
  The table-driven loop of \<open>rtk_crc24q\<close> computes the remainder of the bit-serial division by the
  generator polynomial of CRC-24Q, for every buffer.
\<close>

theorem crc24q_bit_serial:
  assumes "len \<le> length buff"
  shows "rtk_crc24q buff len = crc_bits 0 (bytes_bits (take len buff))"
  by (rule rtk_crc24q_crc_bits [OF assms])

theorem crc24q_bit_serial_witness: "rtk_crc24q [0x80, 1] 2 = crc_bits 0 (bytes_bits [0x80, 1])"
  using crc24q_bit_serial [of 2 "[0x80, 1]"] by simp

text \<open>
  \<open>append_CRC24\<close> changes the last 24 of the \<open>len\<close> bits only; the block it leaves has remainder
  zero, and no other choice of the 24 bits has.
\<close>

theorem append_CRC24_remainder:
  assumes "bitarr syms" "len \<le> length syms" "24 \<le> len"
  shows "let x = append_CRC24 syms len in
    take (len - 24) x = take (len - 24) syms \<and> drop len x = drop len syms \<and> bitarr x \<and>
    crc_bits 0 (bools (take len x)) = 0 \<and>
    (\<forall>cs. length cs = 24 \<and> crc_bits 0 (bools (take (len - 24) syms) @ cs) = 0 \<longrightarrow>
      cs = bools (take 24 (drop (len - 24) x)))"
proof -
  let ?d = "take (len - 24) syms" and ?c = "unbools (bits24 (crc_bits 0 (bools (take (len - 24) syms))))"
  have x: "append_CRC24 syms len = ?d @ ?c @ drop len syms" by (rule append_CRC24_eq [OF assms])
  have len: "length ?d = len - 24" "length ?c = 24" using assms by simp_all
  have parts: "take len (?d @ ?c @ drop len syms) = ?d @ ?c" "drop len (?d @ ?c @ drop len syms) = drop len syms"
    "take (len - 24) (?d @ ?c @ drop len syms) = ?d" "take 24 (drop (len - 24) (?d @ ?c @ drop len syms)) = ?c"
    using len assms(3) by simp_all
  have "crc_bits 0 (bools ?d @ bits24 (crc_bits 0 (bools ?d))) = 0" by (subst crc_residue) simp_all
  moreover have "bitarr (?d @ ?c @ drop len syms)" using assms(1) by (simp add: bitarr_take bitarr_drop)
  ultimately show ?thesis
    unfolding Let_def x parts using crc_residue by (auto simp del: crc_bits_simps bools_take)
qed

theorem append_CRC24_remainder_witness:
  "let x = append_CRC24 (replicate 32 0) 30 in
    take 6 x = replicate 6 0 \<and> drop 30 x = replicate 2 0 \<and> bitarr x \<and> crc_bits 0 (bools (take 30 x)) = 0"
  using append_CRC24_remainder [of "replicate 32 0" 30] by (simp add: Let_def)

section \<open>Subframe 1 and the bit helpers\<close>

text \<open>
  Subframe 1 determines what it encodes: two calls with frame identifiers below 4 and times of
  interval below 128 that give the same 52 symbols have the same arguments.
\<close>

theorem BCH_injective:
  assumes "fid < 4" "fid' < 4" "toi < 128" "toi' < 128"
    and "generate_BCH_AFS_SF1 fid toi = generate_BCH_AFS_SF1 fid' toi'"
  shows "fid = fid' \<and> toi = toi'"
  by (rule BCH_args_eq [OF assms])

theorem BCH_injective_witness: "generate_BCH_AFS_SF1 0 5 \<noteq> generate_BCH_AFS_SF1 0 6"
  using BCH_injective [of 0 0 5 6] by auto

text \<open>
  Packing bits into bytes and unpacking them gives the bits back, and unpacking bytes and packing
  them gives the bytes back.
\<close>

theorem sdr_bits_roundtrip:
  assumes "bitarr bits" "length bits = n"
  shows "sdr_unpack_bits (sdr_pack_bits bits n 0) n = bits \<and>
    sdr_pack_bits (sdr_unpack_bits bytes (8 * length bytes)) (8 * length bytes) 0 = bytes"
  using sdr_unpack_pack [OF assms] sdr_pack_unpack [of bytes] by simp

theorem sdr_bits_roundtrip_witness: "sdr_unpack_bits (sdr_pack_bits [1, 0, 1, 1, 0, 0, 0, 1, 1] 9 0) 9 = [1, 0, 1, 1, 0, 0, 0, 1, 1]"
  using sdr_bits_roundtrip [of "[1, 0, 1, 1, 0, 0, 0, 1, 1]" 9] by simp

text \<open>
  \<open>sdr_xor_bits\<close>, four look-ups in a table of 256 entries, is the parity of the 32 bits.
\<close>

theorem xor_bits_parity: "sdr_xor_bits X = of_bool (odd (card {k. k < 32 \<and> bit X k}))"
proof -
  have "bits_parity n X = odd (card {k. k < n \<and> bit X k})" for n
  proof (induction n)
    case (Suc n)
    have "{k. k < Suc n \<and> bit X k} = (if bit X n then insert n {k. k < n \<and> bit X k} else {k. k < n \<and> bit X k})"
      by (auto simp: less_Suc_eq)
    then show ?case using Suc by simp
  qed simp
  then show ?thesis unfolding sdr_xor_bits_parity by simp
qed

text \<open>
  The code of a shift register of at most 31 bits starts with the bits of its initial state, lowest
  first, as chips \<open>1\<close> and \<open>-1\<close>; every chip is one of the two, and as many are produced as asked for.
\<close>

theorem LFSR_code:
  assumes "\<forall>k \<ge> n. \<not> bit R k" "0 < n" "n \<le> 31"
  shows "length (LFSR N R tap n) = N \<and> (\<forall>c \<in> set (LFSR N R tap n). c = 1 \<or> c = -1) \<and>
    (\<forall>i < min n N. LFSR N R tap n ! i = (if bit R i then 1 else -1))"
  using LFSR_systematic [of n R _ N tap] LFSR_values [of _ N R tap n] assms by simp

theorem LFSR_code_witness: "LFSR 51 1 0x9F 8 ! 0 = 1 \<and> LFSR 51 1 0x9F 8 ! 1 = -1 \<and> length (LFSR 51 1 0x9F 8) = 51"
proof -
  have "\<forall>k \<ge> 8. \<not> bit (1 :: i32) k" by (auto simp: bit_1_iff)
  from LFSR_code [OF this, of 51 "0x9F"] show ?thesis by (simp add: bit_1_iff)
qed

end
