(* ===== verification/Mod2sparse_Alg.thy ===== *)
theory Mod2sparse_Alg
  imports Mod2sparse_Spec
begin

text \<open>
  The operations of \<open>ldpc/mod2sparse.c\<close> on whole matrices: copying, choosing rows and columns,
  transposing, comparing, adding, multiplying, and solving triangular systems. They walk along the
  rows or columns of their operands and insert into the result.
\<close>

section \<open>Loops\<close>

text \<open>\<open>while (!mod2sparse_at_end (e)) { body; e = mod2sparse_next_in_row (e); }\<close>, or along a column.\<close>

fun walk :: "(heap \<Rightarrow> addr \<Rightarrow> addr) \<Rightarrow> nat \<Rightarrow> (addr \<Rightarrow> heap \<Rightarrow> mod2err + heap) \<Rightarrow> addr \<Rightarrow> heap \<Rightarrow> mod2err + heap" where
  "walk nxt 0 body e h = Inl No_return"
| "walk nxt (Suc f) body e h =
     (if at_end h e then Inr h else res_bind (body e h) (\<lambda>h'. walk nxt f body (nxt h' e) h'))"

text \<open>\<open>for (i = 0; i < n; i++) body\<close>\<close>

fun for_each :: "(nat \<Rightarrow> heap \<Rightarrow> mod2err + heap) \<Rightarrow> nat list \<Rightarrow> heap \<Rightarrow> mod2err + heap" where
  "for_each body [] h = Inr h"
| "for_each body (i # is) h = res_bind (body i h) (for_each body is)"

definition insert_at :: "nat \<Rightarrow> int \<Rightarrow> int \<Rightarrow> heap \<Rightarrow> mod2err + heap" where
  "insert_at r i j h = res_bind (mod2sparse_insert r i j h) (\<lambda>(h', _). Inr h')"

section \<open>Copies\<close>

text \<open>\<open>f = mod2sparse_insert (r, e->row, e->col); f->lr = e->lr; f->pr = e->pr;\<close>\<close>

definition copy_entry :: "nat \<Rightarrow> addr \<Rightarrow> heap \<Rightarrow> mod2err + heap" where
  "copy_entry r e h =
     res_bind (mod2sparse_insert r (row (ent h e)) (col (ent h e)) h) (\<lambda>(h1, f).
       let h2 = upd_ent f (\<lambda>x. x\<lparr>lr := lr (ent h1 e)\<rparr>) h1
       in Inr (upd_ent f (\<lambda>x. x\<lparr>pr := pr (ent h2 e)\<rparr>) h2))"

definition mod2sparse_copy :: "nat \<Rightarrow> nat \<Rightarrow> heap \<Rightarrow> mod2err + heap" where
  "mod2sparse_copy m r h =
     (if mod2sparse_rows h m > mod2sparse_rows h r \<or> mod2sparse_cols h m > mod2sparse_cols h r
      then Inl (Exit ''mod2sparse_copy: Destination matrix is too small'')
      else for_each (\<lambda>i h. walk next_in_row (walk_fuel h m) (copy_entry r) (first_in_row h m i) h) [0..<nat (mod2sparse_rows h m)] (mod2sparse_clear r h))"

definition mod2sparse_copyrows :: "nat \<Rightarrow> nat \<Rightarrow> int list \<Rightarrow> heap \<Rightarrow> mod2err + heap" where
  "mod2sparse_copyrows m r rows h =
     (if mod2sparse_cols h m > mod2sparse_cols h r
      then Inl (Exit ''mod2sparse_copyrows: Destination matrix has fewer columns than source'')
      else for_each (\<lambda>i h.
             if rows ! i < 0 \<or> rows ! i \<ge> mod2sparse_rows h m
             then Inl (Exit ''mod2sparse_copyrows: Row index out of range'')
             else walk next_in_row (walk_fuel h m) (\<lambda>e h. insert_at r (int i) (col (ent h e)) h)
                    (first_in_row h m (nat (rows ! i))) h)
           [0..<nat (mod2sparse_rows h r)] (mod2sparse_clear r h))"

definition mod2sparse_copycols :: "nat \<Rightarrow> nat \<Rightarrow> int list \<Rightarrow> heap \<Rightarrow> mod2err + heap" where
  "mod2sparse_copycols m r cols h =
     (if mod2sparse_rows h m > mod2sparse_rows h r
      then Inl (Exit ''mod2sparse_copycols: Destination matrix has fewer rows than source'')
      else for_each (\<lambda>j h.
             if cols ! j < 0 \<or> cols ! j \<ge> mod2sparse_cols h m
             then Inl (Exit ''mod2sparse_copycols: Column index out of range'')
             else walk next_in_col (walk_fuel h m) (\<lambda>e h. insert_at r (row (ent h e)) (int j) h)
                    (first_in_col h m (nat (cols ! j))) h)
           [0..<nat (mod2sparse_cols h r)] (mod2sparse_clear r h))"

definition mod2sparse_transpose :: "nat \<Rightarrow> nat \<Rightarrow> heap \<Rightarrow> mod2err + heap" where
  "mod2sparse_transpose m r h =
     (if mod2sparse_rows h m \<noteq> mod2sparse_cols h r \<or> mod2sparse_cols h m \<noteq> mod2sparse_rows h r
      then Inl (Exit ''mod2sparse_transpose: Matrices have incompatible dimensions'')
      else if r = m then Inl (Exit ''mod2sparse_transpose: Result matrix is the same as the operand'')
      else for_each (\<lambda>i h. walk next_in_row (walk_fuel h m) (\<lambda>e h. insert_at r (col (ent h e)) (int i) h)
             (first_in_row h m i) h) [0..<nat (mod2sparse_rows h m)] (mod2sparse_clear r h))"

section \<open>Comparison\<close>

fun equal_row :: "nat \<Rightarrow> heap \<Rightarrow> addr \<Rightarrow> addr \<Rightarrow> mod2err + bool" where
  "equal_row 0 h e1 e2 = Inl No_return"
| "equal_row (Suc f) h e1 e2 =
     (if \<not> at_end h e1 \<and> \<not> at_end h e2
      then if col (ent h e1) \<noteq> col (ent h e2) then Inr False
           else equal_row f h (next_in_row h e1) (next_in_row h e2)
      else Inr (\<not> (\<not> at_end h e1 \<or> \<not> at_end h e2)))"

fun equal_rows :: "nat \<Rightarrow> nat \<Rightarrow> heap \<Rightarrow> nat list \<Rightarrow> mod2err + bool" where
  "equal_rows m1 m2 h [] = Inr True"
| "equal_rows m1 m2 h (i # is) =
     res_bind (equal_row (walk_fuel h m1) h (first_in_row h m1 i) (first_in_row h m2 i)) (\<lambda>b.
       if b then equal_rows m1 m2 h is else Inr False)"

definition mod2sparse_equal :: "nat \<Rightarrow> nat \<Rightarrow> heap \<Rightarrow> mod2err + bool" where
  "mod2sparse_equal m1 m2 h =
     (if mod2sparse_rows h m1 \<noteq> mod2sparse_rows h m2 \<or> mod2sparse_cols h m1 \<noteq> mod2sparse_cols h m2
      then Inl (Exit ''mod2sparse_equal: Matrices have different dimensions'')
      else equal_rows m1 m2 h [0..<nat (mod2sparse_rows h m1)])"

section \<open>Sum and product\<close>

text \<open>The loop while both rows have entries; the rest of either row is walked afterwards.\<close>

fun add_loop :: "nat \<Rightarrow> nat \<Rightarrow> nat \<Rightarrow> addr \<Rightarrow> addr \<Rightarrow> heap \<Rightarrow> mod2err + heap \<times> addr \<times> addr" where
  "add_loop 0 r i e1 e2 h = Inl No_return"
| "add_loop (Suc f) r i e1 e2 h =
     (if \<not> at_end h e1 \<and> \<not> at_end h e2
      then if col (ent h e1) = col (ent h e2) then add_loop f r i (next_in_row h e1) (next_in_row h e2) h
           else if col (ent h e1) < col (ent h e2)
           then res_bind (insert_at r (int i) (col (ent h e1)) h) (\<lambda>h'. add_loop f r i (next_in_row h' e1) e2 h')
           else res_bind (insert_at r (int i) (col (ent h e2)) h) (\<lambda>h'. add_loop f r i e1 (next_in_row h' e2) h')
      else Inr (h, e1, e2))"

definition add_rows :: "nat \<Rightarrow> nat \<Rightarrow> nat \<Rightarrow> nat \<Rightarrow> heap \<Rightarrow> mod2err + heap" where
  "add_rows m1 m2 r i h =
     res_bind (add_loop (walk_fuel h m1 + walk_fuel h m2) r i (first_in_row h m1 i) (first_in_row h m2 i) h) (\<lambda>(h1, e1, e2).
     res_bind (walk next_in_row (walk_fuel h1 m1) (\<lambda>e h. insert_at r (int i) (col (ent h e)) h) e1 h1) (\<lambda>h2.
       walk next_in_row (walk_fuel h2 m2) (\<lambda>e h. insert_at r (int i) (col (ent h e)) h) e2 h2))"

definition mod2sparse_add :: "nat \<Rightarrow> nat \<Rightarrow> nat \<Rightarrow> heap \<Rightarrow> mod2err + heap" where
  "mod2sparse_add m1 m2 r h =
     (if mod2sparse_rows h m1 \<noteq> mod2sparse_rows h r \<or> mod2sparse_cols h m1 \<noteq> mod2sparse_cols h r \<or>
         mod2sparse_rows h m2 \<noteq> mod2sparse_rows h r \<or> mod2sparse_cols h m2 \<noteq> mod2sparse_cols h r
      then Inl (Exit ''mod2sparse_add: Matrices have different dimensions'')
      else if r = m1 \<or> r = m2 then Inl (Exit ''mod2sparse_add: Result matrix is the same as one of the operands'')
      else for_each (add_rows m1 m2 r) [0..<nat (mod2sparse_rows h r)] (mod2sparse_clear r h))"

text \<open>The parity of the positions where a row and a column meet.\<close>

fun dot_loop :: "nat \<Rightarrow> heap \<Rightarrow> addr \<Rightarrow> addr \<Rightarrow> bool \<Rightarrow> mod2err + bool" where
  "dot_loop 0 h e1 e2 b = Inl No_return"
| "dot_loop (Suc f) h e1 e2 b =
     (if \<not> at_end h e1 \<and> \<not> at_end h e2
      then if col (ent h e1) = row (ent h e2) then dot_loop f h (next_in_row h e1) (next_in_col h e2) (\<not> b)
           else if col (ent h e1) < row (ent h e2) then dot_loop f h (next_in_row h e1) e2 b
           else dot_loop f h e1 (next_in_col h e2) b
      else Inr b)"

definition mod2sparse_multiply :: "nat \<Rightarrow> nat \<Rightarrow> nat \<Rightarrow> heap \<Rightarrow> mod2err + heap" where
  "mod2sparse_multiply m1 m2 r h =
     (if mod2sparse_cols h m1 \<noteq> mod2sparse_rows h m2 \<or> mod2sparse_rows h m1 \<noteq> mod2sparse_rows h r \<or>
         mod2sparse_cols h m2 \<noteq> mod2sparse_cols h r
      then Inl (Exit ''mod2sparse_multiply: Matrices have incompatible dimensions'')
      else if r = m1 \<or> r = m2 then Inl (Exit ''mod2sparse_multiply: Result matrix is the same as one of the operands'')
      else for_each (\<lambda>i h.
             if at_end h (first_in_row h m1 i) then Inr h
             else for_each (\<lambda>j h.
                    res_bind (dot_loop (walk_fuel h m1 + walk_fuel h m2) h (first_in_row h m1 i) (first_in_col h m2 j) False)
                      (\<lambda>b. if b then insert_at r (int i) (int j) h else Inr h))
                  [0..<nat (mod2sparse_cols h m2)] h)
           [0..<nat (mod2sparse_rows h m1)] (mod2sparse_clear r h))"

section \<open>Triangular systems\<close>

text \<open>\<open>rows ? rows[i] : i\<close>\<close>

definition order_of :: "nat list option \<Rightarrow> nat \<Rightarrow> nat" where
  "order_of p i = (case p of None \<Rightarrow> i | Some q \<Rightarrow> q ! i)"

text \<open>The inner product of a row with the partial solution, and whether the diagonal is 1.\<close>

fun sub_row :: "nat \<Rightarrow> heap \<Rightarrow> nat \<Rightarrow> u8 list \<Rightarrow> addr \<Rightarrow> bool \<Rightarrow> u8 \<Rightarrow> mod2err + bool \<times> u8" where
  "sub_row 0 h i y e d b = Inl No_return"
| "sub_row (Suc f) h i y e d b =
     (if at_end h e then Inr (d, b)
      else let j = nat (col (ent h e)) in
        if j = i then sub_row f h i y (next_in_row h e) True b
        else sub_row f h i y (next_in_row h e) d (b XOR y ! j))"

fun forward_loop :: "nat \<Rightarrow> nat list option \<Rightarrow> u8 list \<Rightarrow> heap \<Rightarrow> nat list \<Rightarrow> u8 list \<Rightarrow> mod2err + bool \<times> u8 list" where
  "forward_loop L rows x h [] y = Inr (True, y)"
| "forward_loop L rows x h (i # is) y =
     (let ii = order_of rows i in
      res_bind (sub_row (walk_fuel h L) h i y (first_in_row h L ii) False 0) (\<lambda>(d, b).
        if \<not> d \<and> b \<noteq> x ! ii then Inr (False, y)
        else forward_loop L rows x h is (y[i := b XOR x ! ii])))"

definition mod2sparse_forward_sub :: "nat \<Rightarrow> nat list option \<Rightarrow> u8 list \<Rightarrow> u8 list \<Rightarrow> heap \<Rightarrow> mod2err + bool \<times> u8 list" where
  "mod2sparse_forward_sub L rows x y h =
     (let K = nat (mod2sparse_cols h L) in
      if \<exists>i \<in> set [0..<K]. (let e = last_in_row h L (order_of rows i) in \<not> at_end h e \<and> col (ent h e) > int i)
      then Inl (Exit ''mod2sparse_forward_sub: Matrix is not lower-triangular'')
      else forward_loop L rows x h [0..<K] y)"

fun backward_loop :: "nat \<Rightarrow> nat list option \<Rightarrow> u8 list \<Rightarrow> heap \<Rightarrow> nat list \<Rightarrow> u8 list \<Rightarrow> mod2err + bool \<times> u8 list" where
  "backward_loop U cols y h [] z = Inr (True, z)"
| "backward_loop U cols y h (i # is) z =
     (let ii = order_of cols i in
      res_bind (sub_row (walk_fuel h U) h ii z (first_in_row h U i) False 0) (\<lambda>(d, b).
        if \<not> d \<and> b \<noteq> y ! i then Inr (False, z)
        else backward_loop U cols y h is (z[ii := b XOR y ! i])))"

definition mod2sparse_backward_sub :: "nat \<Rightarrow> nat list option \<Rightarrow> u8 list \<Rightarrow> u8 list \<Rightarrow> heap \<Rightarrow> mod2err + bool \<times> u8 list" where
  "mod2sparse_backward_sub U cols y z h =
     (let K = nat (mod2sparse_rows h U) in
      if \<exists>i \<in> set [0..<K]. (let e = last_in_col h U (order_of cols i) in \<not> at_end h e \<and> row (ent h e) > int i)
      then Inl (Exit ''mod2sparse_backward_sub: Matrix is not upper-triangular'')
      else backward_loop U cols y h (rev [0..<K]) z)"

end
