(* ===== verification/Mod2sparse_Alg_Lemmas.thy ===== *)
theory Mod2sparse_Alg_Lemmas
  imports Mod2sparse_Alg Mod2sparse_Props
begin

text \<open>
  Reading along a row or a column: a cursor is a pointer together with the positions it will still
  visit, in order. A cursor of one matrix survives every change of another, so that the loops of the
  whole-matrix operations are inductions on the list of positions.
\<close>

section \<open>Cursors\<close>

fun cursor :: "(heap \<Rightarrow> addr \<Rightarrow> addr) \<Rightarrow> heap \<Rightarrow> nat \<Rightarrow> addr \<Rightarrow> (nat \<times> nat) list \<Rightarrow> bool" where
  "cursor nxt h m a [] \<longleftrightarrow> foot h m a \<and> at_end h a"
| "cursor nxt h m a (p # ps) \<longleftrightarrow> foot h m a \<and> row (ent h a) = int (fst p) \<and> col (ent h a) = int (snd p) \<and>
     cursor nxt h m (nxt h a) ps"

definition row_list :: "(nat \<times> nat) set \<Rightarrow> nat \<Rightarrow> nat list" where
  "row_list E i = sorted_list_of_set {j. (i, j) \<in> E}"

definition col_list :: "(nat \<times> nat) set \<Rightarrow> nat \<Rightarrow> nat list" where
  "col_list E j = sorted_list_of_set {i. (i, j) \<in> E}"

lemma at_end_node: "row (ent h a) = int i \<Longrightarrow> \<not> at_end h a"
  by (simp add: at_end_def)

lemma cursor_at_end: "cursor nxt h m a ps \<Longrightarrow> at_end h a \<longleftrightarrow> ps = []"
  by (cases ps) (auto simp: at_end_def)

lemma frame_ent:
  assumes "mframe r h h'" "m \<noteq> r" "m < nmat h" "foot h m a"
  shows "ent h' a = ent h a" "foot h' m a"
  using assms by (auto simp: mframe_def foot_def owned_def)

lemma cursor_frame:
  assumes "cursor nxt h m a ps" "mframe r h h'" "m \<noteq> r" "m < nmat h" "nxt = next_in_row \<or> nxt = next_in_col"
  shows "cursor nxt h' m a ps"
  using assms(1)
proof (induction ps arbitrary: a)
  case (Cons p ps)
  then have "nxt h' a = nxt h a" using assms(5) frame_ent [OF assms(2-4)] by (auto simp: next_in_row_def next_in_col_def)
  with Cons show ?case using frame_ent [OF assms(2-4)] by auto
qed (use frame_ent [OF assms(2-4)] in \<open>auto simp: at_end_def\<close>)

lemma sorted_keys_list:
  assumes "sorted_wrt (<) (map key xs)" "key ` set xs = int ` S"
  shows "map key xs = map int (sorted_list_of_set S)"
proof -
  have "finite (int ` S)" by (simp flip: assms(2))
  then have fin: "finite S" by (simp add: finite_image_iff inj_on_def)
  have "sorted_wrt (<) (map int (sorted_list_of_set S))" using strict_sorted_list_of_set [of S] by (simp add: sorted_wrt_map)
  moreover have "set (map int (sorted_list_of_set S)) = set (map key xs)" using assms(2) fin by simp
  ultimately show ?thesis by (metis assms(1) strict_sorted_equal)
qed

lemma dseg_cursor:
  assumes "dseg (\<lambda>a. right (ent h a)) p a xs hdr" "foot h m hdr" "at_end h hdr"
    "\<forall>x \<in> set xs. foot h m x \<and> row (ent h x) = int i" "map (\<lambda>x. col (ent h x)) xs = map int js"
  shows "cursor next_in_row h m (right (ent h a)) (map (Pair i) js)"
  using assms
proof (induction xs arbitrary: a js)
  case (Cons x xs)
  then obtain j js' where "js = j # js'" by auto
  with Cons show ?case by (auto simp: next_in_row_def)
qed auto

lemma dseg_cursor_col:
  assumes "dseg (\<lambda>a. down (ent h a)) p a xs hdr" "foot h m hdr" "at_end h hdr"
    "\<forall>x \<in> set xs. foot h m x \<and> col (ent h x) = int j" "map (\<lambda>x. row (ent h x)) xs = map int is"
  shows "cursor next_in_col h m (down (ent h a)) (map (\<lambda>i. (i, j)) is)"
  using assms
proof (induction xs arbitrary: a "is")
  case (Cons x xs)
  then obtain i is' where "is = i # is'" by auto
  with Cons show ?case by (auto simp: next_in_col_def)
qed auto

text \<open>The nodes of a row and of a column, whichever lists represent the matrix.\<close>

lemma mat_rel_entries:
  assumes "mat_rel h m nr nc E" "mat_rep h m rl cl fl"
  shows "E = entries_of (ent h) (nrow h m) rl"
proof -
  have n: "nr = nrow h m" and "heap_ok h" "nc = ncol h m" using assms(1) unfolding mat_rel_def by blast+
  then have "mat_rel h m nr nc (entries_of (ent h) nr rl)" unfolding mat_rel_def using assms(2) by blast
  with mat_rel_fun [OF assms(1)] n show ?thesis by blast
qed

lemma row_nodes:
  assumes "mat_rel h m nr nc E" and rep: "mat_rep h m rl cl fl" and i: "i < nrow h m"
  shows "(\<lambda>x. col (ent h x)) ` set (rl i) = int ` {j. (i, j) \<in> E}"
  unfolding mat_rel_entries [OF assms(1,2)] mem_entries_of [OF rep i]
  using mat_rep_row_node(2) [OF rep i] by (auto simp: image_iff) (metis nonneg_int_cases)

lemma col_nodes:
  assumes "mat_rel h m nr nc E" and rep: "mat_rep h m rl cl fl" and j: "j < ncol h m"
  shows "(\<lambda>x. row (ent h x)) ` set (cl j) = int ` {i. (i, j) \<in> E}" (is "?L = ?R")
proof -
  note E = mat_rel_entries [OF assms(1,2)]
  show ?thesis
  proof (intro equalityI subsetI)
    fix k assume "k \<in> ?L"
    then obtain x where x: "x \<in> set (cl j)" "k = row (ent h x)" by blast
    note n = mat_rep_col_node [OF rep j x(1)]
    then have "(nat k, j) \<in> E" unfolding E x(2) entries_of_def by force
    then show "k \<in> ?R" using n(2) x(2) by force
  next
    fix k assume "k \<in> ?R"
    then obtain i x where x: "k = int i" "i < nrow h m" "x \<in> set (rl i)" "j = nat (col (ent h x))"
      unfolding E entries_of_def by blast
    then have "x \<in> set (cl j)" "k = row (ent h x)" using mat_rep_row_node(1,4) [OF rep x(2,3)] by simp_all
    then show "k \<in> ?L" by blast
  qed
qed

lemma row_cursor:
  assumes "mat_rel h m nr nc E" "i < nr"
  shows "cursor next_in_row h m (first_in_row h m i) (map (Pair i) (row_list E i))"
proof -
  from assms obtain rl cl fl where rep: "mat_rep h m rl cl fl" and i: "i < nrow h m" by (auto simp: mat_rel_def)
  have R: "dseg (\<lambda>a. right (ent h a)) (\<lambda>a. left (ent h a)) (RowHdr m i) (rl i) (RowHdr m i)"
      "sorted_wrt (<) (map (\<lambda>x. col (ent h x)) (rl i))" "row (ent h (RowHdr m i)) = -1"
    using rep i by (auto simp: mat_rep_def rows_ok_def)
  from sorted_keys_list [OF R(2) row_nodes [OF assms(1) rep i]] show ?thesis
    unfolding first_in_row_def row_list_def
    by (intro dseg_cursor [OF R(1)]) (use R(3) mat_rep_row_node [OF rep i] in \<open>auto simp: foot_def at_end_def\<close>)
qed

lemma col_cursor:
  assumes "mat_rel h m nr nc E" "j < nc"
  shows "cursor next_in_col h m (first_in_col h m j) (map (\<lambda>i. (i, j)) (col_list E j))"
proof -
  from assms obtain rl cl fl where rep: "mat_rep h m rl cl fl" and j: "j < ncol h m" by (auto simp: mat_rel_def)
  have C: "dseg (\<lambda>a. down (ent h a)) (\<lambda>a. up (ent h a)) (ColHdr m j) (cl j) (ColHdr m j)"
      "sorted_wrt (<) (map (\<lambda>x. row (ent h x)) (cl j))" "row (ent h (ColHdr m j)) = -1"
    using rep j by (auto simp: mat_rep_def cols_ok_def)
  from sorted_keys_list [OF C(2) col_nodes [OF assms(1) rep j]] show ?thesis
    unfolding first_in_col_def col_list_def
    by (intro dseg_cursor_col [OF C(1)]) (use C(3) mat_rep_col_node [OF rep j] in \<open>auto simp: foot_def at_end_def\<close>)
qed

lemma mat_rel_finite: "mat_rel h m nr nc E \<Longrightarrow> finite E"
  by (rule finite_subset [of _ "{..<nr} \<times> {..<nc}"]) (use mat_rel_bounds in auto)

lemma row_list_facts:
  assumes "mat_rel h m nr nc E"
  shows "set (row_list E i) = {j. (i, j) \<in> E}" "sorted_wrt (<) (row_list E i)" "length (row_list E i) < walk_fuel h m"
    "set (col_list E i) = {k. (k, i) \<in> E}" "sorted_wrt (<) (col_list E i)" "length (col_list E i) < walk_fuel h m"
proof -
  have f: "{j. (i, j) \<in> E} \<subseteq> {..<nc}" "{k. (k, i) \<in> E} \<subseteq> {..<nr}" using mat_rel_bounds [OF assms] by auto
  then show "set (row_list E i) = {j. (i, j) \<in> E}" "set (col_list E i) = {k. (k, i) \<in> E}"
    unfolding row_list_def col_list_def by (auto dest: finite_subset)
  show "sorted_wrt (<) (row_list E i)" "sorted_wrt (<) (col_list E i)" unfolding row_list_def col_list_def by simp_all
  have n: "nrow h m = nr" "ncol h m = nc" using assms by (auto simp: mat_rel_def)
  show "length (row_list E i) < walk_fuel h m" "length (col_list E i) < walk_fuel h m"
    using card_mono [OF _ f(1)] card_mono [OF _ f(2)] by (auto simp: row_list_def col_list_def walk_fuel_def n)
qed

section \<open>Loops that fill a matrix\<close>

text \<open>The matrix \<open>r\<close> grows, everything else stays.\<close>

lemma walk_ok:
  assumes "cursor nxt h m e ps" "length ps < n" "m \<noteq> r" "m < nmat h" "nxt = next_in_row \<or> nxt = next_in_col"
    "mat_rel h r nr nc A"
    and step: "\<And>h A e i j. mat_rel h r nr nc A \<Longrightarrow> (i, j) \<in> set ps \<Longrightarrow> row (ent h e) = int i \<Longrightarrow> col (ent h e) = int j \<Longrightarrow>
      \<exists>h'. body e h = Inr h' \<and> mframe r h h' \<and> mat_rel h' r nr nc (insert (g (i, j)) A)"
  shows "\<exists>h'. walk nxt n body e h = Inr h' \<and> mframe r h h' \<and> mat_rel h' r nr nc (g ` set ps \<union> A)"
  using assms
proof (induction ps arbitrary: n e h A)
  case Nil
  then show ?case by (cases n) (auto simp: frame_refl)
next
  case (Cons p ps)
  then obtain n' where n: "n = Suc n'" "length ps < n'" by (cases n) auto
  obtain i j where p: "p = (i, j)" by fastforce
  have e: "row (ent h e) = int i" "col (ent h e) = int j" "cursor nxt h m (nxt h e) ps" "foot h m e"
    using Cons.prems(1) p by auto
  obtain h1 where h1: "body e h = Inr h1" "mframe r h h1" "mat_rel h1 r nr nc (insert (g (i, j)) A)"
    using Cons.prems(7) [OF Cons.prems(6) _ e(1,2)] p by auto
  have "nxt h1 e = nxt h e"
    using Cons.prems(5) frame_ent(1) [OF h1(2) Cons.prems(3,4) e(4)] by (auto simp: next_in_row_def next_in_col_def)
  moreover have "m < nmat h1" using h1(2) Cons.prems(4) by (simp add: mframe_def)
  moreover have "cursor nxt h1 m (nxt h e) ps" by (rule cursor_frame [OF e(3) h1(2) Cons.prems(3-5)])
  ultimately have "\<exists>h'. walk nxt n' body (nxt h1 e) h1 = Inr h' \<and> mframe r h1 h' \<and>
      mat_rel h' r nr nc (g ` set ps \<union> insert (g (i, j)) A)"
    using Cons.IH [OF _ n(2) Cons.prems(3) _ Cons.prems(5) h1(3)] Cons.prems(7) by simp
  then show ?case using n h1 at_end_node [OF e(1)] p frame_trans [OF h1(2)] by (auto simp: insert_commute)
qed

lemma for_each_ok:
  assumes "mat_rel h r nr nc (F {})"
    and step: "\<And>h' S i. mframe r h h' \<Longrightarrow> mat_rel h' r nr nc (F S) \<Longrightarrow> i \<in> set is \<Longrightarrow> 
      \<exists>h''. body i h' = Inr h'' \<and> mframe r h' h'' \<and> mat_rel h'' r nr nc (F (insert i S))"
  shows "\<exists>h'. for_each body is h = Inr h' \<and> mframe r h h' \<and> mat_rel h' r nr nc (F (set is))"
proof -
  have "\<exists>h2. for_each body js h1 = Inr h2 \<and> mframe r h h2 \<and> mat_rel h2 r nr nc (F (S \<union> set js))"
    if "mframe r h h1" "mat_rel h1 r nr nc (F S)" "set js \<subseteq> set is" for js h1 S
    using that
  proof (induction js arbitrary: h1 S)
    case (Cons j js)
    then obtain h2 where h2: "body j h1 = Inr h2" "mframe r h1 h2" "mat_rel h2 r nr nc (F (insert j S))"
      using step [of h1 S j] by auto
    have "\<exists>h3. for_each body js h2 = Inr h3 \<and> mframe r h h3 \<and> mat_rel h3 r nr nc (F (insert j S \<union> set js))"
      by (rule Cons.IH [OF frame_trans [OF Cons.prems(1) h2(2)] h2(3)]) (use Cons.prems(3) in simp)
    with h2(1) show ?case by simp
  qed auto
  from this [OF frame_refl assms(1), of "is"] show ?thesis by simp
qed

lemma insert_at_ok:
  assumes "mat_rel h r nr nc A" "i < nr" "j < nc"
  shows "\<exists>h'. insert_at r (int i) (int j) h = Inr h' \<and> mframe r h h' \<and> mat_rel h' r nr nc (insert (i, j) A)"
  using insert_ok [OF assms] unfolding insert_at_def by (metis (no_types, lifting) case_prod_conv res_bind_simps(2))

lemma clear_frame: "heap_ok h \<Longrightarrow> m < nmat h \<Longrightarrow> mframe m h (mod2sparse_clear m h)"
  unfolding mframe_def
  using heap_ok_disjoint [of h _ m]
  by (auto simp: clear_fields) (auto simp: mod2sparse_clear_def Let_def free_blocks_def fold_self_link_row fold_self_link_col)

lemma mat_rel_nmat: "mat_rel h m nr nc E \<Longrightarrow> m < nmat h"
  by (auto simp: mat_rel_def mat_rep_def)

lemma mat_rel_heap_ok: "mat_rel h m nr nc E \<Longrightarrow> heap_ok h"
  by (simp add: mat_rel_def)

lemma mat_rel_dims:
  assumes "mat_rel h m nr nc E"
  shows "mod2sparse_rows h m = int nr" "mod2sparse_cols h m = int nc"
  using assms by (auto simp: mat_rel_def mat_rep_def mod2sparse_rows_def mod2sparse_cols_def)

text \<open>A fresh result matrix, cleared, and an operand next to it.\<close>

lemma cleared:
  assumes "mat_rel h r nr nc F" "next_free (mat h r) = Null"
  shows "mat_rel (mod2sparse_clear r h) r nr nc {}" "mframe r h (mod2sparse_clear r h)"
  using clear_ok [OF assms] clear_frame [OF mat_rel_heap_ok mat_rel_nmat] assms(1) by auto

lemma operand_kept:
  assumes "mat_rel h m mr mc E" "m \<noteq> r" "mframe r h h'" "mat_rel h' r nr nc A"
  shows "mat_rel h' m mr mc E"
  by (rule frame_mat_rel [OF assms(3) mat_rel_heap_ok [OF assms(4)] assms(2,1)])

end
