(* ===== verification/Mod2sparse_Alg_Spec.thy ===== *)
theory Mod2sparse_Alg_Spec
  imports Mod2sparse_Alg_Lemmas
begin

text \<open>What each whole-matrix operation computes, on sets of positions.\<close>

section \<open>Copies\<close>

text \<open>The likelihoods kept in a node are not part of the structure.\<close>

lemma values_fields:
  "row (((ent h)(a := (ent h a)\<lparr>lr := v\<rparr>)) b) = row (ent h b)" "col (((ent h)(a := (ent h a)\<lparr>lr := v\<rparr>)) b) = col (ent h b)"
  "left (((ent h)(a := (ent h a)\<lparr>lr := v\<rparr>)) b) = left (ent h b)" "right (((ent h)(a := (ent h a)\<lparr>lr := v\<rparr>)) b) = right (ent h b)"
  "up (((ent h)(a := (ent h a)\<lparr>lr := v\<rparr>)) b) = up (ent h b)" "down (((ent h)(a := (ent h a)\<lparr>lr := v\<rparr>)) b) = down (ent h b)"
  "row (((ent h)(a := (ent h a)\<lparr>pr := v\<rparr>)) b) = row (ent h b)" "col (((ent h)(a := (ent h a)\<lparr>pr := v\<rparr>)) b) = col (ent h b)"
  "left (((ent h)(a := (ent h a)\<lparr>pr := v\<rparr>)) b) = left (ent h b)" "right (((ent h)(a := (ent h a)\<lparr>pr := v\<rparr>)) b) = right (ent h b)"
  "up (((ent h)(a := (ent h a)\<lparr>pr := v\<rparr>)) b) = up (ent h b)" "down (((ent h)(a := (ent h a)\<lparr>pr := v\<rparr>)) b) = down (ent h b)"
  by simp_all

lemma mat_rel_values:
  "mat_rel (upd_ent a (\<lambda>x. x\<lparr>lr := v\<rparr>) h) m nr nc E = mat_rel h m nr nc E"
  "mat_rel (upd_ent a (\<lambda>x. x\<lparr>pr := v\<rparr>) h) m nr nc E = mat_rel h m nr nc E"
  unfolding mat_rel_def mat_rep_def rows_ok_def cols_ok_def nodes_ok_def entries_of_def heap_ok_def owned_def
    upd_ent_simps values_fields by (rule refl)+

lemma insert_owned:
  assumes rel: "mat_rel h m nr nc E" and r: "r < nr" and c: "c < nc"
    and ins: "mod2sparse_insert m (int r) (int c) h = Inr (h', a)"
  shows "owned h' m a"
proof -
  from rel obtain rl cl fl where rep: "mat_rep h m rl cl fl" and ok: "heap_ok h"
    and r': "r < nrow h m" using r by (auto simp: mat_rel_def)
  obtain b re where pl: "place_of (\<lambda>a. col (ent h a)) (int c) (rl r) (RowHdr m r) = (b, re)" by fastforce
  have rp: "row_place m (int r) (int c) h = Inr (b, re)" using mat_rep_row_place [OF rep r'] pl by simp
  show ?thesis
  proof (cases b)
    case True
    then have "h' = h" "a = re" using ins rp by (auto simp: mod2sparse_insert_def split: if_splits)
    moreover have "re \<in> set (rl r)" using place_of_found [of _ _ _ _ re] pl True by auto
    ultimately show ?thesis using mat_rep_row_node(5) [OF rep r'] by simp
  next
    case False
    obtain h1 ne where al: "alloc_entry m h = (h1, ne)" and own: "owned h1 m ne"
      using alloc_entry_spec [OF rep ok] by blast
    then have "a = ne" "mat h' = mat h1"
      using ins rp False by (auto simp: mod2sparse_insert_def Let_def split: if_splits sum.splits prod.splits bool.splits)
    then show ?thesis using own by (simp add: owned_def)
  qed
qed

lemma copy_entry_ok:
  assumes "mat_rel h r nr nc A" "i < nr" "j < nc" "row (ent h e) = int i" "col (ent h e) = int j"
  shows "\<exists>h'. copy_entry r e h = Inr h' \<and> mframe r h h' \<and> mat_rel h' r nr nc (insert (i, j) A)"
proof -
  obtain h1 a where h1: "mod2sparse_insert r (int i) (int j) h = Inr (h1, a)" "mat_rel h1 r nr nc (insert (i, j) A)" "mframe r h h1"
    using insert_ok [OF assms(1-3)] by metis
  note ok = mat_rel_heap_ok [OF h1(2)] mat_rel_nmat [OF h1(2)]
  have ft: "foot h1 r a" using insert_owned [OF assms(1-3) h1(1)] by (simp add: foot_def)
  define h2 where "h2 = upd_ent a (\<lambda>x. x\<lparr>lr := lr (ent h1 e)\<rparr>) h1"
  define h3 where "h3 = upd_ent a (\<lambda>x. x\<lparr>pr := pr (ent h2 e)\<rparr>) h2"
  have 2: "mframe r h1 h2" unfolding h2_def by (rule frame_upd_ent [OF ok ft])
  have 3: "mframe r h2 h3"
    unfolding h3_def by (rule frame_upd_ent) (use ok ft in \<open>simp_all add: h2_def foot_def owned_def\<close>)
  have "mat_rel h3 r nr nc (insert (i, j) A)" using h1(2) by (simp only: mat_rel_values h2_def h3_def)
  moreover have "copy_entry r e h = Inr h3"
    by (simp only: copy_entry_def assms(4,5) h1(1) res_bind_simps case_prod_conv Let_def h2_def h3_def)
  ultimately show ?thesis using frame_trans [OF frame_trans [OF h1(3) 2] 3] by blast
qed

section \<open>Filling a matrix from the rows or columns of another\<close>

lemma fill_rows:
  assumes m: "mat_rel h m mr mc E" and r: "mat_rel h r nr nc F" "next_free (mat h r) = Null"
    and ne: "m \<noteq> r" and src: "\<And>i. i < n \<Longrightarrow> src i < mr"
    and outer: "\<And>h i. i < n \<Longrightarrow> mat_rel h m mr mc E \<Longrightarrow>
      outer i h = walk next_in_row (walk_fuel h m) (body i) (first_in_row h m (src i)) h"
    and body: "\<And>h A e i j. mat_rel h r nr nc A \<Longrightarrow> i < n \<Longrightarrow> (src i, j) \<in> E \<Longrightarrow>
      row (ent h e) = int (src i) \<Longrightarrow> col (ent h e) = int j \<Longrightarrow>
      \<exists>h'. body i e h = Inr h' \<and> mframe r h h' \<and> mat_rel h' r nr nc (insert (g i j) A)"
  shows "\<exists>h'. for_each outer [0..<n] (mod2sparse_clear r h) = Inr h' \<and> mframe r h h' \<and>
    mat_rel h' r nr nc {g i j | i j. i < n \<and> (src i, j) \<in> E}"
proof -
  let ?h = "mod2sparse_clear r h" and ?F = "\<lambda>S. {g i j | i j. i \<in> S \<and> (src i, j) \<in> E}"
  note c = cleared [OF r]
  have "\<exists>h'. for_each outer [0..<n] ?h = Inr h' \<and> mframe r ?h h' \<and> mat_rel h' r nr nc (?F (set [0..<n]))"
  proof (rule for_each_ok)
    fix h1 S i assume h1: "mframe r ?h h1" "mat_rel h1 r nr nc (?F S)" and "i \<in> set [0..<n]"
    then have i: "i < n" by simp
    have m1: "mat_rel h1 m mr mc E" by (rule operand_kept [OF m ne frame_trans [OF c(2) h1(1)] h1(2)])
    note rl = row_list_facts(1,3) [OF m1, of "src i"]
    have "\<exists>h2. walk next_in_row (walk_fuel h1 m) (body i) (first_in_row h1 m (src i)) h1 = Inr h2 \<and> mframe r h1 h2 \<and>
        mat_rel h2 r nr nc ((\<lambda>p. g i (snd p)) ` set (map (Pair (src i)) (row_list E (src i))) \<union> ?F S)"
      by (rule walk_ok [OF row_cursor [OF m1 src [OF i]] _ ne mat_rel_nmat [OF m1] _ h1(2)])
        (use body [OF _ i] rl in auto)
    moreover have "(\<lambda>p. g i (snd p)) ` set (map (Pair (src i)) (row_list E (src i))) \<union> ?F S = ?F (insert i S)"
      unfolding list.set_map image_image snd_conv rl(1) by blast
    ultimately show "\<exists>h2. outer i h1 = Inr h2 \<and> mframe r h1 h2 \<and> mat_rel h2 r nr nc (?F (insert i S))"
      unfolding outer [OF i m1] by simp
  qed (use c in simp)
  then show ?thesis using frame_trans [OF c(2)] by auto
qed

lemma fill_cols:
  assumes m: "mat_rel h m mr mc E" and r: "mat_rel h r nr nc F" "next_free (mat h r) = Null"
    and ne: "m \<noteq> r" and src: "\<And>j. j < n \<Longrightarrow> src j < mc"
    and outer: "\<And>h j. j < n \<Longrightarrow> mat_rel h m mr mc E \<Longrightarrow>
      outer j h = walk next_in_col (walk_fuel h m) (body j) (first_in_col h m (src j)) h"
    and body: "\<And>h A e i j. mat_rel h r nr nc A \<Longrightarrow> j < n \<Longrightarrow> (i, src j) \<in> E \<Longrightarrow>
      row (ent h e) = int i \<Longrightarrow> col (ent h e) = int (src j) \<Longrightarrow>
      \<exists>h'. body j e h = Inr h' \<and> mframe r h h' \<and> mat_rel h' r nr nc (insert (g i j) A)"
  shows "\<exists>h'. for_each outer [0..<n] (mod2sparse_clear r h) = Inr h' \<and> mframe r h h' \<and>
    mat_rel h' r nr nc {g i j | i j. j < n \<and> (i, src j) \<in> E}"
proof -
  let ?h = "mod2sparse_clear r h" and ?F = "\<lambda>S. {g i j | i j. j \<in> S \<and> (i, src j) \<in> E}"
  note c = cleared [OF r]
  have "\<exists>h'. for_each outer [0..<n] ?h = Inr h' \<and> mframe r ?h h' \<and> mat_rel h' r nr nc (?F (set [0..<n]))"
  proof (rule for_each_ok)
    fix h1 S j assume h1: "mframe r ?h h1" "mat_rel h1 r nr nc (?F S)" and "j \<in> set [0..<n]"
    then have j: "j < n" by simp
    have m1: "mat_rel h1 m mr mc E" by (rule operand_kept [OF m ne frame_trans [OF c(2) h1(1)] h1(2)])
    note cl = row_list_facts(4,6) [OF m1, of "src j"]
    have "\<exists>h2. walk next_in_col (walk_fuel h1 m) (body j) (first_in_col h1 m (src j)) h1 = Inr h2 \<and> mframe r h1 h2 \<and>
        mat_rel h2 r nr nc ((\<lambda>p. g (fst p) j) ` set (map (\<lambda>i. (i, src j)) (col_list E (src j))) \<union> ?F S)"
      by (rule walk_ok [OF col_cursor [OF m1 src [OF j]] _ ne mat_rel_nmat [OF m1] _ h1(2)])
        (use body [OF _ j] cl in auto)
    moreover have "(\<lambda>p. g (fst p) j) ` set (map (\<lambda>i. (i, src j)) (col_list E (src j))) \<union> ?F S = ?F (insert j S)"
      unfolding list.set_map image_image fst_conv cl(1) by blast
    ultimately show "\<exists>h2. outer j h1 = Inr h2 \<and> mframe r h1 h2 \<and> mat_rel h2 r nr nc (?F (insert j S))"
      unfolding outer [OF j m1] by simp
  qed (use c in simp)
  then show ?thesis using frame_trans [OF c(2)] by auto
qed

lemma bounds_le:
  assumes "mat_rel h m mr mc E" "(i, j) \<in> E"
  shows "mr \<le> nr \<Longrightarrow> i < nr" "mc \<le> nc \<Longrightarrow> j < nc"
  using mat_rel_bounds [OF assms] by simp_all

lemma copy_ok:
  assumes m: "mat_rel h m mr mc E" and r: "mat_rel h r nr nc F" "next_free (mat h r) = Null"
    and ne: "m \<noteq> r" and dim: "mr \<le> nr" "mc \<le> nc"
  shows "\<exists>h'. mod2sparse_copy m r h = Inr h' \<and> mframe r h h' \<and> mat_rel h' r nr nc E"
proof -
  have "{(i, j) | i j. i < mr \<and> (i, j) \<in> E} = E" using mat_rel_bounds [OF m] by auto
  moreover have "\<exists>h'. for_each (\<lambda>i h. walk next_in_row (walk_fuel h m) (copy_entry r) (first_in_row h m i) h) [0..<mr]
      (mod2sparse_clear r h) = Inr h' \<and> mframe r h h' \<and> mat_rel h' r nr nc {(i, j) | i j. i < mr \<and> (i, j) \<in> E}"
    by (rule fill_rows [OF m r ne]) (use bounds_le [OF m] dim in \<open>auto intro!: copy_entry_ok\<close>)
  ultimately show ?thesis
    using dim by (simp add: mod2sparse_copy_def mat_rel_dims [OF m] mat_rel_dims [OF r(1)])
qed

lemma transpose_ok:
  assumes m: "mat_rel h m mr mc E" and r: "mat_rel h r mc mr F" "next_free (mat h r) = Null" and ne: "m \<noteq> r"
  shows "\<exists>h'. mod2sparse_transpose m r h = Inr h' \<and> mframe r h h' \<and> mat_rel h' r mc mr (E\<inverse>)"
proof -
  have "{(j, i) | i j. i < mr \<and> (i, j) \<in> E} = E\<inverse>" using mat_rel_bounds [OF m] by auto
  moreover have "\<exists>h'. for_each (\<lambda>i h. walk next_in_row (walk_fuel h m) (\<lambda>e h. insert_at r (col (ent h e)) (int i) h)
      (first_in_row h m i) h) [0..<mr] (mod2sparse_clear r h) = Inr h' \<and> mframe r h h' \<and>
      mat_rel h' r mc mr {(j, i) | i j. i < mr \<and> (i, j) \<in> E}"
    by (rule fill_rows [OF m r ne]) (use mat_rel_bounds [OF m] in \<open>auto intro!: insert_at_ok\<close>)
  ultimately show ?thesis
    using ne by (simp add: mod2sparse_transpose_def mat_rel_dims [OF m] mat_rel_dims [OF r(1)])
qed

lemma copyrows_ok:
  assumes m: "mat_rel h m mr mc E" and r: "mat_rel h r nr nc F" "next_free (mat h r) = Null"
    and ne: "m \<noteq> r" and dim: "mc \<le> nc" and rows: "\<forall>i < nr. rows i < mr"
  shows "\<exists>h'. mod2sparse_copyrows m r (map (int \<circ> rows) [0..<nr]) h = Inr h' \<and> mframe r h h' \<and>
    mat_rel h' r nr nc {(i, j). i < nr \<and> (rows i, j) \<in> E}"
proof -
  let ?rs = "map (int \<circ> rows) [0..<nr]"
  have "\<exists>h'. for_each (\<lambda>i h. if ?rs ! i < 0 \<or> ?rs ! i \<ge> mod2sparse_rows h m
             then Inl (Exit ''mod2sparse_copyrows: Row index out of range'')
             else walk next_in_row (walk_fuel h m) (\<lambda>e h. insert_at r (int i) (col (ent h e)) h)
                    (first_in_row h m (nat (?rs ! i))) h) [0..<nr] (mod2sparse_clear r h) = Inr h' \<and> mframe r h h' \<and>
      mat_rel h' r nr nc {(i, j) | i j. i < nr \<and> (rows i, j) \<in> E}"
    by (rule fill_rows [OF m r ne])
      (use rows dim bounds_le [OF m] in \<open>auto simp: mat_rel_dims intro!: insert_at_ok\<close>)
  then show ?thesis
    using dim by (simp add: mod2sparse_copyrows_def mat_rel_dims [OF m] mat_rel_dims [OF r(1)])
qed

lemma copycols_ok:
  assumes m: "mat_rel h m mr mc E" and r: "mat_rel h r nr nc F" "next_free (mat h r) = Null"
    and ne: "m \<noteq> r" and dim: "mr \<le> nr" and cols: "\<forall>j < nc. cols j < mc"
  shows "\<exists>h'. mod2sparse_copycols m r (map (int \<circ> cols) [0..<nc]) h = Inr h' \<and> mframe r h h' \<and>
    mat_rel h' r nr nc {(i, j). j < nc \<and> (i, cols j) \<in> E}"
proof -
  let ?cs = "map (int \<circ> cols) [0..<nc]"
  have "\<exists>h'. for_each (\<lambda>j h. if ?cs ! j < 0 \<or> ?cs ! j \<ge> mod2sparse_cols h m
             then Inl (Exit ''mod2sparse_copycols: Column index out of range'')
             else walk next_in_col (walk_fuel h m) (\<lambda>e h. insert_at r (row (ent h e)) (int j) h)
                    (first_in_col h m (nat (?cs ! j))) h) [0..<nc] (mod2sparse_clear r h) = Inr h' \<and> mframe r h h' \<and>
      mat_rel h' r nr nc {(i, j) | i j. j < nc \<and> (i, cols j) \<in> E}"
    by (rule fill_cols [OF m r ne])
      (use cols dim bounds_le [OF m] in \<open>auto simp: mat_rel_dims intro!: insert_at_ok\<close>)
  then show ?thesis
    using dim by (simp add: mod2sparse_copycols_def mat_rel_dims [OF m] mat_rel_dims [OF r(1)])
qed

end
