(* ===== verification/Mod2sparse_Alg_Merge.thy ===== *)
theory Mod2sparse_Alg_Merge
  imports Mod2sparse_Alg_Spec
begin

text \<open>The operations that walk along two lists at once: comparison, sum and product.\<close>

section \<open>Comparison\<close>

lemma equal_row_ok:
  assumes "cursor next_in_row h m1 e1 (map (Pair i) js)" "cursor next_in_row h m2 e2 (map (Pair i) ks)" "length js < n"
  shows "equal_row n h e1 e2 = Inr (js = ks)"
  using assms
proof (induction js arbitrary: ks n e1 e2)
  case Nil
  then show ?case using cursor_at_end [of next_in_row h m2 e2] by (cases n) auto
next
  case (Cons j js)
  then obtain n' where n: "n = Suc n'" "length js < n'" by (cases n) auto
  show ?case
  proof (cases ks)
    case Nil
    with Cons n show ?thesis using at_end_node [of h e1 i] by auto
  next
    fix k ks' assume "ks = k # ks'"
    with Cons n show ?thesis using at_end_node [of h e1 i] at_end_node [of h e2 i] by auto
  qed
qed

lemma equal_rows_ok:
  assumes "mat_rel h m1 nr nc E" "mat_rel h m2 nr nc F" "set is \<subseteq> {..<nr}"
  shows "equal_rows m1 m2 h is = Inr (\<forall>i \<in> set is. row_list E i = row_list F i)"
  using assms(3)
proof (induction "is")
  case (Cons i "is")
  then have "equal_row (walk_fuel h m1) h (first_in_row h m1 i) (first_in_row h m2 i) = Inr (row_list E i = row_list F i)"
    using row_cursor [OF assms(1), of i] row_cursor [OF assms(2), of i] row_list_facts(3) [OF assms(1)]
    by (intro equal_row_ok) auto
  with Cons show ?case by simp
qed simp

lemma equal_ok:
  assumes "mat_rel h m1 nr nc E" "mat_rel h m2 nr nc F"
  shows "mod2sparse_equal m1 m2 h = Inr (E = F)"
proof -
  have "(\<forall>i \<in> set [0..<nr]. row_list E i = row_list F i) \<longleftrightarrow> E = F"
  proof
    assume eq: "\<forall>i \<in> set [0..<nr]. row_list E i = row_list F i"
    have "(i, j) \<in> E \<longleftrightarrow> (i, j) \<in> F" for i j
    proof (cases "i < nr")
      case True
      then have "set (row_list E i) = set (row_list F i)" using eq by simp
      then show ?thesis unfolding row_list_facts(1) [OF assms(1)] row_list_facts(1) [OF assms(2)] by blast
    qed (use mat_rel_bounds(1) [OF assms(1)] mat_rel_bounds(1) [OF assms(2)] in blast)
    then show "E = F" by auto
  qed simp
  moreover have "set [0..<nr] \<subseteq> {..<nr}" by auto
  ultimately show ?thesis
    using equal_rows_ok [OF assms, of "[0..<nr]"] by (simp add: mod2sparse_equal_def mat_rel_dims [OF assms(1)] mat_rel_dims [OF assms(2)])
qed

section \<open>Product\<close>

definition gf2_mult :: "(nat \<times> nat) set \<Rightarrow> (nat \<times> nat) set \<Rightarrow> (nat \<times> nat) set" where
  "gf2_mult E F = {(i, j). odd (card {k. (i, k) \<in> E \<and> (k, j) \<in> F})}"

lemma gf2_mult_bounds:
  assumes "mat_rel h m1 n1 n2 E" "mat_rel h m2 n2 n3 F" "(i, j) \<in> gf2_mult E F"
  shows "i < n1" "j < n3"
proof -
  have "\<exists>k. (i, k) \<in> E \<and> (k, j) \<in> F"
  proof (rule ccontr)
    assume "\<not> ?thesis"
    then have "{k. (i, k) \<in> E \<and> (k, j) \<in> F} = {}" by blast
    with assms(3) show False by (simp add: gf2_mult_def)
  qed
  then show "i < n1" "j < n3" using mat_rel_bounds [OF assms(1)] mat_rel_bounds [OF assms(2)] by blast+
qed

lemma dot_loop_ok:
  assumes "cursor next_in_row h m1 e1 (map (Pair i) js)" "cursor next_in_col h m2 e2 (map (\<lambda>k. (k, j)) ks)"
    "sorted_wrt (<) js" "sorted_wrt (<) ks" "length js + length ks < n"
  shows "dot_loop n h e1 e2 b = Inr (b \<noteq> odd (card (set js \<inter> set ks)))"
  using assms
proof (induction n arbitrary: js ks e1 e2 b)
  case (Suc n)
  consider "js = []" | "ks = []" | a js' c ks' where "js = a # js'" "ks = c # ks'" by (cases js; cases ks) auto
  then show ?case
  proof cases
    case 3
    have e: "\<not> at_end h e1" "\<not> at_end h e2" "col (ent h e1) = int a" "row (ent h e2) = int c"
      "cursor next_in_row h m1 (next_in_row h e1) (map (Pair i) js')" "cursor next_in_col h m2 (next_in_col h e2) (map (\<lambda>k. (k, j)) ks')"
      using Suc.prems(1,2) 3 by (auto simp: at_end_def)
    have srt: "sorted_wrt (<) js'" "sorted_wrt (<) ks'" "\<forall>x \<in> set js'. a < x" "\<forall>x \<in> set ks'. c < x"
      using Suc.prems(3,4) 3 by auto
    consider "a = c" | "a < c" | "c < a" by linarith
    then show ?thesis
    proof cases
      case 1
      then have "set js \<inter> set ks = insert a (set js' \<inter> set ks')" "a \<notin> set js' \<inter> set ks'" using 3 srt by auto
      then show ?thesis using e 1 Suc.IH [OF e(5,6) srt(1,2)] Suc.prems(5) 3 by auto
    next
      case 2
      then have "set js \<inter> set ks = set js' \<inter> set ks" using 3 srt by auto
      then show ?thesis using e 2 Suc.IH [OF e(5) Suc.prems(2) srt(1) Suc.prems(4)] Suc.prems(5) 3 by simp
    next
      case 3
      then have "set js \<inter> set ks = set js \<inter> set ks'" using \<open>js = a # js'\<close> \<open>ks = c # ks'\<close> srt by auto
      then show ?thesis
        using e 3 Suc.IH [OF Suc.prems(1) e(6) Suc.prems(3) srt(2)] Suc.prems(5) \<open>ks = c # ks'\<close> by simp
    qed
  qed (use Suc.prems cursor_at_end in auto)
qed simp

lemma multiply_row:
  assumes m1: "mat_rel h m1 n1 n2 E" and m2: "mat_rel h m2 n2 n3 F" and r: "mat_rel h r n1 n3 A"
    and ne: "m1 \<noteq> r" "m2 \<noteq> r" and i: "i < n1"
  shows "\<exists>h'. for_each (\<lambda>j h.
      res_bind (dot_loop (walk_fuel h m1 + walk_fuel h m2) h (first_in_row h m1 i) (first_in_col h m2 j) False)
        (\<lambda>b. if b then insert_at r (int i) (int j) h else Inr h)) [0..<n3] h = Inr h' \<and> mframe r h h' \<and>
    mat_rel h' r n1 n3 (A \<union> {(i', j). i' = i \<and> j \<in> set [0..<n3] \<and> (i, j) \<in> gf2_mult E F})"
proof (rule for_each_ok)
  fix h' S j assume h': "mframe r h h'" "mat_rel h' r n1 n3 (A \<union> {(i', j). i' = i \<and> j \<in> S \<and> (i, j) \<in> gf2_mult E F})" and "j \<in> set [0..<n3]"
  then have j: "j < n3" by simp
  note k1 = operand_kept [OF m1 ne(1) h'] and k2 = operand_kept [OF m2 ne(2) h']
  have "dot_loop (walk_fuel h' m1 + walk_fuel h' m2) h' (first_in_row h' m1 i) (first_in_col h' m2 j) False =
      Inr (False \<noteq> odd (card (set (row_list E i) \<inter> set (col_list F j))))"
    by (rule dot_loop_ok [OF row_cursor [OF k1 i] col_cursor [OF k2 j]])
      (use row_list_facts(2,3) [OF k1, of i] row_list_facts(5,6) [OF k2, of j] in auto)
  moreover have "set (row_list E i) \<inter> set (col_list F j) = {k. (i, k) \<in> E \<and> (k, j) \<in> F}"
    using row_list_facts(1) [OF k1, of i] row_list_facts(4) [OF k2, of j] by auto
  ultimately have d: "dot_loop (walk_fuel h' m1 + walk_fuel h' m2) h' (first_in_row h' m1 i) (first_in_col h' m2 j) False =
      Inr ((i, j) \<in> gf2_mult E F)" by (simp add: gf2_mult_def)
  let ?A = "\<lambda>S. A \<union> {(i', j). i' = i \<and> j \<in> S \<and> (i, j) \<in> gf2_mult E F}"
  show "\<exists>h''. res_bind (dot_loop (walk_fuel h' m1 + walk_fuel h' m2) h' (first_in_row h' m1 i) (first_in_col h' m2 j) False)
        (\<lambda>b. if b then insert_at r (int i) (int j) h' else Inr h') = Inr h'' \<and> mframe r h' h'' \<and> mat_rel h'' r n1 n3 (?A (insert j S))"
  proof (cases "(i, j) \<in> gf2_mult E F")
    case True
    then have "?A (insert j S) = insert (i, j) (?A S)" by auto
    then show ?thesis using insert_at_ok [OF h'(2) i j] d True by simp
  next
    case False
    then have "?A (insert j S) = ?A S" by auto
    then show ?thesis using d False h'(2) frame_refl by simp
  qed
qed (use r in simp)

lemma multiply_ok:
  assumes m1: "mat_rel h m1 n1 n2 E" and m2: "mat_rel h m2 n2 n3 F"
    and r: "mat_rel h r n1 n3 G" "next_free (mat h r) = Null" and ne: "m1 \<noteq> r" "m2 \<noteq> r"
  shows "\<exists>h'. mod2sparse_multiply m1 m2 r h = Inr h' \<and> mframe r h h' \<and> mat_rel h' r n1 n3 (gf2_mult E F)"
proof -
  let ?h = "mod2sparse_clear r h" and ?P = "\<lambda>S. {(i, j). i \<in> S \<and> (i, j) \<in> gf2_mult E F}"
  let ?row = "\<lambda>i h. if at_end h (first_in_row h m1 i) then Inr h
             else for_each (\<lambda>j h.
                    res_bind (dot_loop (walk_fuel h m1 + walk_fuel h m2) h (first_in_row h m1 i) (first_in_col h m2 j) False)
                      (\<lambda>b. if b then insert_at r (int i) (int j) h else Inr h))
                  [0..<nat (mod2sparse_cols h m2)] h"
  note c = cleared [OF r]
  note bnd = gf2_mult_bounds [OF m1 m2]
  have "\<exists>h'. for_each ?row [0..<n1] ?h = Inr h' \<and> mframe r ?h h' \<and> mat_rel h' r n1 n3 (?P (set [0..<n1]))"
  proof (rule for_each_ok)
    fix h' S i assume h': "mframe r ?h h'" "mat_rel h' r n1 n3 (?P S)" and "i \<in> set [0..<n1]"
    then have i: "i < n1" by simp
    note fr = frame_trans [OF c(2) h'(1)]
    note k1 = operand_kept [OF m1 ne(1) fr h'(2)] and k2 = operand_kept [OF m2 ne(2) fr h'(2)]
    show "\<exists>h''. ?row i h' = Inr h'' \<and> mframe r h' h'' \<and> mat_rel h'' r n1 n3 (?P (insert i S))"
    proof (cases "at_end h' (first_in_row h' m1 i)")
      case True
      then have "{k. (i, k) \<in> E} = {}"
        using cursor_at_end [OF row_cursor [OF k1 i]] row_list_facts(1) [OF k1, of i] by simp
      then have "?P (insert i S) = ?P S" by (auto simp: gf2_mult_def)
      then show ?thesis using True h'(2) frame_refl by simp
    next
      case False
      have "?P S \<union> {(i', j). i' = i \<and> j \<in> set [0..<n3] \<and> (i, j) \<in> gf2_mult E F} = ?P (insert i S)" using bnd(2) by auto
      then show ?thesis using multiply_row [OF k1 k2 h'(2) ne i] False by (simp add: mat_rel_dims [OF k2])
    qed
  qed (use c in simp)
  moreover have "?P (set [0..<n1]) = gf2_mult E F" using bnd(1) by auto
  ultimately show ?thesis
    using frame_trans [OF c(2)] ne
    by (auto simp: mod2sparse_multiply_def mat_rel_dims [OF m1] mat_rel_dims [OF m2] mat_rel_dims [OF r(1)])
qed

section \<open>Sum\<close>

definition symdiff :: "'a set \<Rightarrow> 'a set \<Rightarrow> 'a set" where
  "symdiff A B = (A - B) \<union> (B - A)"

text \<open>
  What the merging loop leaves: the columns inserted into row \<open>i\<close> of \<open>r\<close> and those still ahead of the
  two pointers are the ones in exactly one of the rows.
\<close>

definition merged :: "nat \<Rightarrow> nat \<Rightarrow> nat \<Rightarrow> nat \<Rightarrow> nat \<Rightarrow> nat \<Rightarrow> heap \<Rightarrow> (nat \<times> nat) set \<Rightarrow> nat list \<Rightarrow> nat list \<Rightarrow>
    mod2err + heap \<times> addr \<times> addr \<Rightarrow> bool" where
  "merged m1 m2 r nr nc i h A js ks res \<longleftrightarrow> (\<exists>h' e1 e2 js' ks' D. res = Inr (h', e1, e2) \<and> mframe r h h' \<and>
     mat_rel h' r nr nc (Pair i ` D \<union> A) \<and> cursor next_in_row h' m1 e1 (map (Pair i) js') \<and>
     cursor next_in_row h' m2 e2 (map (Pair i) ks') \<and> length js' \<le> length js \<and> length ks' \<le> length ks \<and>
     D \<union> (set js' \<union> set ks') = symdiff (set js) (set ks))"

lemma merged_done:
  assumes "mat_rel h r nr nc A" "cursor next_in_row h m1 e1 (map (Pair i) js)" "cursor next_in_row h m2 e2 (map (Pair i) ks)"
    "js = [] \<or> ks = []"
  shows "merged m1 m2 r nr nc i h A js ks (Inr (h, e1, e2))"
proof -
  have "{} \<union> (set js \<union> set ks) = symdiff (set js) (set ks)" using assms(4) by (auto simp: symdiff_def)
  moreover have "mat_rel h r nr nc (Pair i ` {} \<union> A)" using assms(1) by simp
  ultimately show ?thesis unfolding merged_def using assms(2,3) frame_refl by blast
qed

lemma merged_insert:
  assumes "merged m1 m2 r nr nc i h1 (insert (i, a) A) js' ks' res" "mframe r h h1"
    "insert a (symdiff (set js') (set ks')) = symdiff (set js) (set ks)" "length js' \<le> length js" "length ks' \<le> length ks"
  shows "merged m1 m2 r nr nc i h A js ks res"
proof -
  obtain h' e1 e2 js2 ks2 D where IH: "res = Inr (h', e1, e2)" "mframe r h1 h'"
    "mat_rel h' r nr nc (Pair i ` D \<union> insert (i, a) A)" "cursor next_in_row h' m1 e1 (map (Pair i) js2)"
    "cursor next_in_row h' m2 e2 (map (Pair i) ks2)" "length js2 \<le> length js'" "length ks2 \<le> length ks'"
    "D \<union> (set js2 \<union> set ks2) = symdiff (set js') (set ks')"
    using assms(1) unfolding merged_def by blast
  have "insert a D \<union> (set js2 \<union> set ks2) = symdiff (set js) (set ks)" using IH(8) assms(3) by simp
  moreover have "mat_rel h' r nr nc (Pair i ` insert a D \<union> A)" using IH(3) by simp
  moreover have "length js2 \<le> length js" "length ks2 \<le> length ks" using IH(6,7) assms(4,5) by simp_all
  ultimately show ?thesis
    unfolding merged_def using IH(1,4,5) frame_trans [OF assms(2) IH(2)] by blast
qed

lemma insert_at_next:
  assumes "mat_rel h r nr nc A" "i < nr" "k < nc" "m1 < nmat h" "m2 < nmat h" "m1 \<noteq> r" "m2 \<noteq> r" "foot h m1 e1" "foot h m2 e2"
  shows "\<exists>h1. insert_at r (int i) (int k) h = Inr h1 \<and> mframe r h h1 \<and> mat_rel h1 r nr nc (insert (i, k) A) \<and>
    m1 < nmat h1 \<and> m2 < nmat h1 \<and> next_in_row h1 e1 = next_in_row h e1 \<and> next_in_row h1 e2 = next_in_row h e2"
proof -
  obtain h1 where h1: "insert_at r (int i) (int k) h = Inr h1" "mframe r h h1" "mat_rel h1 r nr nc (insert (i, k) A)"
    using insert_at_ok [OF assms(1-3)] by blast
  have "m1 < nmat h1" "m2 < nmat h1" using h1(2) assms(4,5) by (auto simp: mframe_def)
  moreover have "next_in_row h1 e1 = next_in_row h e1" "next_in_row h1 e2 = next_in_row h e2"
    using frame_ent(1) [OF h1(2) assms(6,4,8)] frame_ent(1) [OF h1(2) assms(7,5,9)] by (simp_all add: next_in_row_def)
  ultimately show ?thesis using h1 by blast
qed

lemma merged_skip:
  assumes "merged m1 m2 r nr nc i h A js' ks' res"
    "symdiff (set js') (set ks') = symdiff (set js) (set ks)" "length js' \<le> length js" "length ks' \<le> length ks"
  shows "merged m1 m2 r nr nc i h A js ks res"
proof -
  have len: "length xs \<le> length js' \<Longrightarrow> length xs \<le> length js" "length xs \<le> length ks' \<Longrightarrow> length xs \<le> length ks" for xs :: "nat list"
    using assms(3,4) by simp_all
  show ?thesis using assms(1) unfolding merged_def assms(2) by (blast intro: len)
qed

lemma add_loop_ok:
  assumes "cursor next_in_row h m1 e1 (map (Pair i) js)" "cursor next_in_row h m2 e2 (map (Pair i) ks)"
    "sorted_wrt (<) js" "sorted_wrt (<) ks" "length js + length ks < n" "mat_rel h r nr nc A"
    and nm: "m1 < nmat h" "m2 < nmat h" and ne: "m1 \<noteq> r" "m2 \<noteq> r" and i: "i < nr" and "\<forall>j \<in> set js \<union> set ks. j < nc"
  shows "merged m1 m2 r nr nc i h A js ks (add_loop n r i e1 e2 h)"
  using assms
proof (induction n arbitrary: js ks e1 e2 h A)
  case (Suc n)
  note prems = Suc.prems
  consider "js = [] \<or> ks = []" | a js' c ks' where "js = a # js'" "ks = c # ks'" by (cases js; cases ks) auto
  then show ?case
  proof cases
    case 1
    then have "add_loop (Suc n) r i e1 e2 h = Inr (h, e1, e2)"
      using cursor_at_end [OF prems(1)] cursor_at_end [OF prems(2)] by auto
    then show ?thesis using merged_done [OF prems(6,1,2) 1] by simp
  next
    case 2
    have e: "\<not> at_end h e1" "\<not> at_end h e2" "col (ent h e1) = int a" "col (ent h e2) = int c" "foot h m1 e1" "foot h m2 e2"
      "cursor next_in_row h m1 (next_in_row h e1) (map (Pair i) js')" "cursor next_in_row h m2 (next_in_row h e2) (map (Pair i) ks')"
      using prems(1,2) 2 by (auto simp: at_end_def)
    have srt: "sorted_wrt (<) js'" "sorted_wrt (<) ks'" "\<forall>x \<in> set js'. a < x" "\<forall>x \<in> set ks'. c < x"
      using prems(3,4) 2 by auto
    have len: "length js' + length ks < n" "length js + length ks' < n" "length js' + length ks' < n" using prems(5) 2 by simp_all
    have bnd: "a < nc" "c < nc" "\<forall>j \<in> set js' \<union> set ks. j < nc" "\<forall>j \<in> set js \<union> set ks'. j < nc" "\<forall>j \<in> set js' \<union> set ks'. j < nc"
      using prems(12) 2 by auto
    have ins: "\<exists>h1. insert_at r (int i) (int k) h = Inr h1 \<and> mframe r h h1 \<and> mat_rel h1 r nr nc (insert (i, k) A) \<and>
        m1 < nmat h1 \<and> m2 < nmat h1 \<and> next_in_row h1 e1 = next_in_row h e1 \<and> next_in_row h1 e2 = next_in_row h e2" if "k < nc" for k
      using insert_at_next [OF prems(6) i that prems(7,8) ne e(5,6)] .
    note keep1 = cursor_frame [OF _ _ ne(1) prems(7) disjI1 [OF refl]] and keep2 = cursor_frame [OF _ _ ne(2) prems(8) disjI1 [OF refl]]
    consider "a = c" | "a < c" | "c < a" by linarith
    then show ?thesis
    proof cases
      case 1
      then have "symdiff (set js') (set ks') = symdiff (set js) (set ks)" using 2 srt by (auto simp: symdiff_def)
      from merged_skip [OF Suc.IH [OF e(7,8) srt(1,2) len(3) prems(6-8) ne i bnd(5)] this]
      show ?thesis using 1 2 e by simp
    next
      case less: 2
      obtain h1 where h1: "insert_at r (int i) (int a) h = Inr h1" "mframe r h h1" "mat_rel h1 r nr nc (insert (i, a) A)"
        "m1 < nmat h1" "m2 < nmat h1" "next_in_row h1 e1 = next_in_row h e1" using ins [OF bnd(1)] by blast
      have "insert a (symdiff (set js') (set ks)) = symdiff (set js) (set ks)" using less 2 srt by (auto simp: symdiff_def)
      from merged_insert [OF Suc.IH [OF keep1 [OF e(7) h1(2)] keep2 [OF prems(2) h1(2)] srt(1) prems(4) len(1) h1(3-5) ne i bnd(3)] h1(2) this]
      show ?thesis using less 2 e h1(1,6) by simp
    next
      case more: 3
      obtain h1 where h1: "insert_at r (int i) (int c) h = Inr h1" "mframe r h h1" "mat_rel h1 r nr nc (insert (i, c) A)"
        "m1 < nmat h1" "m2 < nmat h1" "next_in_row h1 e2 = next_in_row h e2" using ins [OF bnd(2)] by blast
      have "insert c (symdiff (set js) (set ks')) = symdiff (set js) (set ks)" using more 2 srt by (auto simp: symdiff_def)
      from merged_insert [OF Suc.IH [OF keep1 [OF prems(1) h1(2)] keep2 [OF e(8) h1(2)] prems(3) srt(2) len(2) h1(3-5) ne i bnd(4)] h1(2) this]
      show ?thesis using more 2 e h1(1,6) by simp
    qed
  qed
qed simp

lemma insert_rest:
  assumes "cursor next_in_row h m e (map (Pair i) js)" "length js < n" "m \<noteq> r" "m < nmat h" "mat_rel h r nr nc A" "i < nr"
    "\<forall>j \<in> set js. j < nc"
  shows "\<exists>h'. walk next_in_row n (\<lambda>e h. insert_at r (int i) (col (ent h e)) h) e h = Inr h' \<and> mframe r h h' \<and>
    mat_rel h' r nr nc (Pair i ` set js \<union> A)"
proof -
  have "\<exists>h'. walk next_in_row n (\<lambda>e h. insert_at r (int i) (col (ent h e)) h) e h = Inr h' \<and> mframe r h h' \<and>
      mat_rel h' r nr nc (id ` set (map (Pair i) js) \<union> A)"
    by (rule walk_ok [OF assms(1) _ assms(3,4) _ assms(5)]) (use assms(2,6,7) in \<open>auto intro!: insert_at_ok\<close>)
  then show ?thesis by simp
qed

lemma add_rows_ok:
  assumes m1: "mat_rel h m1 nr nc E" and m2: "mat_rel h m2 nr nc F" and r: "mat_rel h r nr nc A"
    and ne: "m1 \<noteq> r" "m2 \<noteq> r" and i: "i < nr"
  shows "\<exists>h'. add_rows m1 m2 r i h = Inr h' \<and> mframe r h h' \<and>
    mat_rel h' r nr nc (Pair i ` {j. (i, j) \<in> symdiff E F} \<union> A)"
proof -
  note f1 = row_list_facts(1-3) [OF m1, of i] and f2 = row_list_facts(1-3) [OF m2, of i]
  have bnd: "\<forall>j \<in> set (row_list E i) \<union> set (row_list F i). j < nc"
    unfolding f1(1) f2(1) using mat_rel_bounds(2) [OF m1] mat_rel_bounds(2) [OF m2] by blast
  have "merged m1 m2 r nr nc i h A (row_list E i) (row_list F i)
      (add_loop (walk_fuel h m1 + walk_fuel h m2) r i (first_in_row h m1 i) (first_in_row h m2 i) h)"
    by (rule add_loop_ok [OF row_cursor [OF m1 i] row_cursor [OF m2 i] f1(2) f2(2) _ r mat_rel_nmat [OF m1] mat_rel_nmat [OF m2] ne i bnd])
      (use f1(3) f2(3) in simp)
  then obtain h1 e1 e2 js ks D where
    l: "add_loop (walk_fuel h m1 + walk_fuel h m2) r i (first_in_row h m1 i) (first_in_row h m2 i) h = Inr (h1, e1, e2)"
    and h1: "mframe r h h1" "mat_rel h1 r nr nc (Pair i ` D \<union> A)"
    and c: "cursor next_in_row h1 m1 e1 (map (Pair i) js)" "cursor next_in_row h1 m2 e2 (map (Pair i) ks)"
    and len: "length js \<le> length (row_list E i)" "length ks \<le> length (row_list F i)"
    and D: "D \<union> (set js \<union> set ks) = symdiff {j. (i, j) \<in> E} {j. (i, j) \<in> F}"
    unfolding merged_def f1(1) f2(1) by blast
  have sd: "symdiff {j. (i, j) \<in> E} {j. (i, j) \<in> F} = {j. (i, j) \<in> symdiff E F}" by (auto simp: symdiff_def)
  have b: "\<forall>j \<in> set js. j < nc" "\<forall>j \<in> set ks. j < nc"
    using bnd D unfolding f1(1) f2(1) symdiff_def by blast+
  note k1 = operand_kept [OF m1 ne(1) h1]
  obtain h2 where h2: "walk next_in_row (walk_fuel h1 m1) (\<lambda>e h. insert_at r (int i) (col (ent h e)) h) e1 h1 = Inr h2"
    "mframe r h1 h2" "mat_rel h2 r nr nc (Pair i ` set js \<union> (Pair i ` D \<union> A))"
    using insert_rest [OF c(1) _ ne(1) mat_rel_nmat [OF k1] h1(2) i b(1)] row_list_facts(3) [OF k1, of i] len(1)
    by (meson order.strict_trans1)
  note k2 = operand_kept [OF operand_kept [OF m2 ne(2) h1] ne(2) h2(2,3)]
  have c2: "cursor next_in_row h2 m2 e2 (map (Pair i) ks)"
    using cursor_frame [OF c(2) h2(2) ne(2) mat_rel_nmat [OF operand_kept [OF m2 ne(2) h1]]] by simp
  obtain h3 where h3: "walk next_in_row (walk_fuel h2 m2) (\<lambda>e h. insert_at r (int i) (col (ent h e)) h) e2 h2 = Inr h3"
    "mframe r h2 h3" "mat_rel h3 r nr nc (Pair i ` set ks \<union> (Pair i ` set js \<union> (Pair i ` D \<union> A)))"
    using insert_rest [OF c2 _ ne(2) mat_rel_nmat [OF k2] h2(3) i b(2)] row_list_facts(3) [OF k2, of i] len(2)
    by (meson order.strict_trans1)
  have "Pair i ` set ks \<union> (Pair i ` set js \<union> (Pair i ` D \<union> A)) = Pair i ` (D \<union> (set js \<union> set ks)) \<union> A" by auto
  then show ?thesis
    using l h2(1) h3 frame_trans [OF frame_trans [OF h1(1) h2(2)] h3(2)] unfolding D sd by (simp add: add_rows_def)
qed

lemma add_ok:
  assumes m1: "mat_rel h m1 nr nc E" and m2: "mat_rel h m2 nr nc F"
    and r: "mat_rel h r nr nc G" "next_free (mat h r) = Null" and ne: "m1 \<noteq> r" "m2 \<noteq> r"
  shows "\<exists>h'. mod2sparse_add m1 m2 r h = Inr h' \<and> mframe r h h' \<and> mat_rel h' r nr nc (symdiff E F)"
proof -
  let ?h = "mod2sparse_clear r h" and ?P = "\<lambda>S. {(i, j). i \<in> S \<and> (i, j) \<in> symdiff E F}"
  note c = cleared [OF r]
  have "\<exists>h'. for_each (add_rows m1 m2 r) [0..<nr] ?h = Inr h' \<and> mframe r ?h h' \<and> mat_rel h' r nr nc (?P (set [0..<nr]))"
  proof (rule for_each_ok)
    fix h' S i assume h': "mframe r ?h h'" "mat_rel h' r nr nc (?P S)" and "i \<in> set [0..<nr]"
    then have i: "i < nr" by simp
    note fr = frame_trans [OF c(2) h'(1)]
    have "Pair i ` {j. (i, j) \<in> symdiff E F} \<union> ?P S = ?P (insert i S)" by auto
    then show "\<exists>h''. add_rows m1 m2 r i h' = Inr h'' \<and> mframe r h' h'' \<and> mat_rel h'' r nr nc (?P (insert i S))"
      using add_rows_ok [OF operand_kept [OF m1 ne(1) fr h'(2)] operand_kept [OF m2 ne(2) fr h'(2)] h'(2) ne i] by simp
  qed (use c in simp)
  moreover have "?P (set [0..<nr]) = symdiff E F"
    using mat_rel_bounds(1) [OF m1] mat_rel_bounds(1) [OF m2] by (auto simp: symdiff_def)
  ultimately show ?thesis
    using frame_trans [OF c(2)] ne
    by (auto simp: mod2sparse_add_def mat_rel_dims [OF m1] mat_rel_dims [OF m2] mat_rel_dims [OF r(1)])
qed

end
