(* ===== verification/Mod2sparse_Alg_Solve.thy ===== *)
theory Mod2sparse_Alg_Solve
  imports Mod2sparse_Alg_Merge
begin

text \<open>Triangular systems: what a substitution that reports success has solved, and when it succeeds.\<close>

section \<open>One row\<close>

lemma xor_of_bool: "(of_bool a XOR of_bool b :: u8) = of_bool (a \<noteq> b)"
  by (cases a; cases b) simp_all

lemma sub_row_ok:
  assumes "cursor next_in_row h m e (map (Pair k) js)" "distinct js" "length js < n"
    "\<forall>j \<in> set js - {i}. y ! j = 0 \<or> y ! j = 1"
  shows "sub_row n h i y e d (of_bool b) =
    Inr (d \<or> i \<in> set js, of_bool (b \<noteq> odd (card {j \<in> set js. j \<noteq> i \<and> y ! j \<noteq> 0})))"
  using assms
proof (induction js arbitrary: n e d b)
  case Nil
  then show ?case by (cases n) auto
next
  case (Cons j js)
  then obtain n' where n: "n = Suc n'" "length js < n'" by (cases n) auto
  have e: "\<not> at_end h e" "nat (col (ent h e)) = j" "cursor next_in_row h m (next_in_row h e) (map (Pair k) js)"
    using Cons.prems(1) by (auto simp: at_end_def)
  have d: "distinct js" "j \<notin> set js" "\<forall>j \<in> set js - {i}. y ! j = 0 \<or> y ! j = 1" using Cons.prems(2,4) by auto
  note IH = Cons.IH [OF e(3) d(1) n(2) d(3)]
  let ?S = "\<lambda>js. {j \<in> set js. j \<noteq> i \<and> y ! j \<noteq> 0}"
  show ?case
  proof (cases "j = i")
    case True
    then have "?S (j # js) = ?S js" by auto
    then show ?thesis using n e IH [of True b] True by (simp add: Let_def)
  next
    case False
    have "?S (j # js) = (if y ! j \<noteq> 0 then insert j (?S js) else ?S js)" using False by auto
    then have c: "odd (card (?S (j # js))) \<longleftrightarrow> (odd (card (?S js)) \<noteq> (y ! j \<noteq> 0))" using d(2) by simp
    have "y ! j = 0 \<or> y ! j = 1" using Cons.prems(4) False by auto
    then have "of_bool b XOR y ! j = of_bool (b \<noteq> (y ! j \<noteq> 0))" by (elim disjE; cases b) simp_all
    then have "sub_row n h i y e d (of_bool b) = sub_row n' h i y (next_in_row h e) d (of_bool (b \<noteq> (y ! j \<noteq> 0)))"
      using n e False by (simp add: Let_def)
    then show ?thesis unfolding IH c using False by (auto simp: Let_def)
  qed
qed

text \<open>The row with its new bit satisfies its equation.\<close>

lemma row_solved:
  assumes "\<And>j. (r, j) \<in> E \<Longrightarrow> j < nc" "i < nc" "i < length y" "nc \<le> length y" "x = of_bool X"
    "(r, i) \<in> E \<or> odd (card {j. (r, j) \<in> E \<and> j \<noteq> i \<and> y ! j \<noteq> 0}) = X"
  shows "gf2_row E nc (\<lambda>j. y[i := of_bool (odd (card {j. (r, j) \<in> E \<and> j \<noteq> i \<and> y ! j \<noteq> 0})) XOR x] ! j \<noteq> 0) r = X"
proof -
  let ?S = "{j. (r, j) \<in> E \<and> j \<noteq> i \<and> y ! j \<noteq> 0}"
  let ?v = "of_bool (odd (card ?S)) XOR x"
  have fin: "finite ?S" by (rule finite_subset [of _ "{..<nc}"]) (use assms(1) in auto)
  have "{j. j < nc \<and> (r, j) \<in> E \<and> y[i := ?v] ! j \<noteq> 0} = (if (r, i) \<in> E \<and> ?v \<noteq> 0 then insert i ?S else ?S)"
    using assms(1-3) by (auto simp: nth_list_update)
  moreover have "?v \<noteq> 0 \<longleftrightarrow> odd (card ?S) \<noteq> X" unfolding assms(5) xor_of_bool by simp
  ultimately show ?thesis using assms(6) fin by (auto simp: gf2_row_def)
qed

lemma gf2_row_agree:
  "(\<And>j. j < nc \<Longrightarrow> (r, j) \<in> E \<Longrightarrow> u j = v j) \<Longrightarrow> gf2_row E nc u r = gf2_row E nc v r"
  unfolding gf2_row_def by (rule arg_cong [where f = "\<lambda>S. odd (card S)"]) auto

lemma gf2_row_upd:
  "(\<And>j. (r, j) \<in> E \<Longrightarrow> j \<noteq> i) \<Longrightarrow> gf2_row E nc (\<lambda>j. y[i := v] ! j \<noteq> 0) r = gf2_row E nc (\<lambda>j. y ! j \<noteq> 0) r"
  by (rule gf2_row_agree) (metis nth_list_update_neq)

lemma sub_row_mat:
  assumes rel: "mat_rel h m nr nc E" and r: "r < nr"
    and y: "\<And>j. (r, j) \<in> E \<Longrightarrow> j \<noteq> i \<Longrightarrow> y ! j = 0 \<or> y ! j = 1"
  shows "sub_row (walk_fuel h m) h i y (first_in_row h m r) False 0 =
    Inr ((r, i) \<in> E, of_bool (odd (card {j. (r, j) \<in> E \<and> j \<noteq> i \<and> y ! j \<noteq> 0})))"
proof -
  note f = row_list_facts(1-3) [OF rel, of r]
  have "distinct (row_list E r)" by (simp add: row_list_def)
  from sub_row_ok [OF row_cursor [OF rel r] this f(3), of i y False False] y show ?thesis unfolding f(1) by simp
qed

section \<open>The triangular form\<close>

lemma image_above:
  assumes "f ` A = int ` S" shows "(\<exists>j > k. j \<in> S) \<longleftrightarrow> (\<exists>x \<in> A. f x > int k)"
proof -
  have "(\<exists>x \<in> A. f x > int k) \<longleftrightarrow> (\<exists>c \<in> int ` S. c > int k)" unfolding assms [symmetric] by simp
  also have "\<dots> \<longleftrightarrow> (\<exists>j > k. j \<in> S)" by auto
  finally show ?thesis by simp
qed

lemma last_in_row_above:
  assumes "mat_rel h m nr nc E" "r < nr"
  shows "(let e = last_in_row h m r in \<not> at_end h e \<and> col (ent h e) > int k) \<longleftrightarrow> (\<exists>j > k. (r, j) \<in> E)"
proof -
  from assms obtain rl cl fl where rep: "mat_rep h m rl cl fl" and r: "r < nrow h m" by (auto simp: mat_rel_def)
  have R: "dseg (\<lambda>a. right (ent h a)) (\<lambda>a. left (ent h a)) (RowHdr m r) (rl r) (RowHdr m r)"
      "sorted_wrt (<) (map (\<lambda>x. col (ent h x)) (rl r))" "row (ent h (RowHdr m r)) = -1"
    using rep r by (auto simp: mat_rep_def rows_ok_def)
  have l: "last_in_row h m r = last (RowHdr m r # rl r)" using dseg_last [OF R(1)] by (simp add: last_in_row_def)
  have ex: "(\<exists>j > k. (r, j) \<in> E) \<longleftrightarrow> (\<exists>x \<in> set (rl r). col (ent h x) > int k)"
    using image_above [OF row_nodes [OF assms(1) rep r]] by simp
  show ?thesis
  proof (cases "rl r = []")
    case True
    then show ?thesis using l R(3) ex by (simp add: at_end_def)
  next
    case False
    then have e: "last_in_row h m r = last (rl r)" "last (rl r) \<in> set (rl r)" using l by simp_all
    have "\<not> at_end h (last (rl r))" using mat_rep_row_node(1) [OF rep r e(2)] by (simp add: at_end_def)
    moreover have "\<forall>x \<in> set (rl r). col (ent h x) \<le> col (ent h (last (rl r)))"
      using sorted_key_last [OF R(2)] False by force
    ultimately show ?thesis unfolding ex e(1) Let_def using e(2) by force
  qed
qed

lemma last_in_col_above:
  assumes "mat_rel h m nr nc E" "c < nc"
  shows "(let e = last_in_col h m c in \<not> at_end h e \<and> row (ent h e) > int k) \<longleftrightarrow> (\<exists>i > k. (i, c) \<in> E)"
proof -
  from assms obtain rl cl fl where rep: "mat_rep h m rl cl fl" and c: "c < ncol h m" by (auto simp: mat_rel_def)
  have C: "dseg (\<lambda>a. down (ent h a)) (\<lambda>a. up (ent h a)) (ColHdr m c) (cl c) (ColHdr m c)"
      "sorted_wrt (<) (map (\<lambda>x. row (ent h x)) (cl c))" "row (ent h (ColHdr m c)) = -1"
    using rep c by (auto simp: mat_rep_def cols_ok_def)
  have l: "last_in_col h m c = last (ColHdr m c # cl c)" using dseg_last [OF C(1)] by (simp add: last_in_col_def)
  have ex: "(\<exists>i > k. (i, c) \<in> E) \<longleftrightarrow> (\<exists>x \<in> set (cl c). row (ent h x) > int k)"
    using image_above [OF col_nodes [OF assms(1) rep c]] by simp
  show ?thesis
  proof (cases "cl c = []")
    case True
    then show ?thesis using l C(3) ex by (simp add: at_end_def)
  next
    case False
    then have e: "last_in_col h m c = last (cl c)" "last (cl c) \<in> set (cl c)" using l by simp_all
    have "\<not> at_end h (last (cl c))" using mat_rep_col_node(2) [OF rep c e(2)] by (simp add: at_end_def)
    moreover have "\<forall>x \<in> set (cl c). row (ent h x) \<le> row (ent h (last (cl c)))"
      using sorted_key_last [OF C(2)] False by force
    ultimately show ?thesis unfolding ex e(1) Let_def using e(2) by force
  qed
qed

section \<open>Forward substitution\<close>

text \<open>Row \<open>p k\<close> of the matrix is row \<open>k\<close> of the reordered one, which has no entry right of the diagonal.\<close>

definition lower_by :: "(nat \<Rightarrow> nat) \<Rightarrow> nat \<Rightarrow> (nat \<times> nat) set \<Rightarrow> bool" where
  "lower_by p K E \<longleftrightarrow> (\<forall>k < K. \<forall>j. (p k, j) \<in> E \<longrightarrow> j \<le> k)"

lemma lower_byD: "lower_by p K E \<Longrightarrow> k < K \<Longrightarrow> (p k, j) \<in> E \<Longrightarrow> j \<le> k"
  by (simp add: lower_by_def)

lemma forward_step:
  assumes rel: "mat_rel h L nr K E" and low: "lower_by p K E" and i: "i < K" "p i < nr" and y: "length y = K"
    and bits: "\<forall>j < i. y ! j = 0 \<or> y ! j = 1"
    and solved: "\<forall>k < i. gf2_row E K (\<lambda>j. y ! j \<noteq> 0) (p k) = (x ! p k \<noteq> 0)"
    and x: "x ! p i = 0 \<or> x ! p i = 1"
  defines "B \<equiv> odd (card {j. (p i, j) \<in> E \<and> j \<noteq> i \<and> y ! j \<noteq> 0})"
  defines "y' \<equiv> y[i := of_bool B XOR x ! p i]"
  shows "sub_row (walk_fuel h L) h i y (first_in_row h L (p i)) False 0 = Inr ((p i, i) \<in> E, of_bool B)"
    "\<forall>j < Suc i. y' ! j = 0 \<or> y' ! j = 1"
    "(p i, i) \<in> E \<or> of_bool B = x ! p i \<Longrightarrow> \<forall>k < Suc i. gf2_row E K (\<lambda>j. y' ! j \<noteq> 0) (p k) = (x ! p k \<noteq> 0)"
proof -
  have lt: "j < i" if "(p i, j) \<in> E" "j \<noteq> i" for j using lower_byD [OF low i(1) that(1)] that(2) by simp
  show "sub_row (walk_fuel h L) h i y (first_in_row h L (p i)) False 0 = Inr ((p i, i) \<in> E, of_bool B)"
    unfolding B_def by (rule sub_row_mat [OF rel i(2)]) (use lt bits in blast)
  show "\<forall>j < Suc i. y' ! j = 0 \<or> y' ! j = 1"
    using bits x y i(1) by (auto simp: y'_def nth_list_update less_Suc_eq)
  assume d: "(p i, i) \<in> E \<or> of_bool B = x ! p i"
  show "\<forall>k < Suc i. gf2_row E K (\<lambda>j. y' ! j \<noteq> 0) (p k) = (x ! p k \<noteq> 0)"
  proof (intro allI impI)
    fix k assume "k < Suc i"
    then consider "k < i" | "k = i" by linarith
    then show "gf2_row E K (\<lambda>j. y' ! j \<noteq> 0) (p k) = (x ! p k \<noteq> 0)"
    proof cases
      case 1
      then have "j \<noteq> i" if "(p k, j) \<in> E" for j using lower_byD [OF low _ that] i(1) by simp
      then have "gf2_row E K (\<lambda>j. y' ! j \<noteq> 0) (p k) = gf2_row E K (\<lambda>j. y ! j \<noteq> 0) (p k)"
        unfolding y'_def by (rule gf2_row_upd)
      with 1 solved show ?thesis by simp
    next
      case 2
      have xb: "x ! p i = of_bool (x ! p i \<noteq> 0)" using x by auto
      have "(p i, i) \<in> E \<or> B = (x ! p i \<noteq> 0)" using d by (cases B) auto
      from row_solved [OF mat_rel_bounds(2) [OF rel] i(1) _ _ xb this [unfolded B_def]] y i(1)
      show ?thesis unfolding 2 y'_def B_def by simp
    qed
  qed
qed

lemma forward_loop_ok:
  assumes rel: "mat_rel h L nr K E" and low: "lower_by p K E" and p: "\<forall>k < K. p k = order_of rows k \<and> p k < nr"
    and x: "\<forall>k < K. x ! p k = 0 \<or> x ! p k = 1"
    and "length y = K" "i \<le> K" "\<forall>j < i. y ! j = 0 \<or> y ! j = 1"
      "\<forall>k < i. gf2_row E K (\<lambda>j. y ! j \<noteq> 0) (p k) = (x ! p k \<noteq> 0)"
  shows "\<exists>ok y'. forward_loop L rows x h [i..<K] y = Inr (ok, y') \<and> length y' = K \<and>
    (ok \<longrightarrow> bitarr y' \<and> (\<forall>k < K. gf2_row E K (\<lambda>j. y' ! j \<noteq> 0) (p k) = (x ! p k \<noteq> 0))) \<and>
    ((\<forall>k < K. (p k, k) \<in> E) \<longrightarrow> ok)"
  using assms(5-8)
proof (induction "K - i" arbitrary: i y)
  case 0
  then have "i = K" by simp
  with 0 show ?case by (intro exI [of _ True] exI [of _ y]) (simp add: bitarr_nth)
next
  case (Suc n)
  then have i: "i < K" by simp
  have pi: "p i < nr" "order_of rows i = p i" "x ! p i = 0 \<or> x ! p i = 1" using p x i by auto
  note st = forward_step [OF rel low i pi(1) Suc.prems(1,3,4) pi(3)]
  let ?B = "odd (card {j. (p i, j) \<in> E \<and> j \<noteq> i \<and> y ! j \<noteq> 0})"
  have up: "[i..<K] = i # [Suc i..<K]" using i by (rule upt_conv_Cons)
  show ?case
  proof (cases "(p i, i) \<notin> E \<and> of_bool ?B \<noteq> x ! p i")
    case True
    then have "forward_loop L rows x h [i..<K] y = Inr (False, y)" unfolding up using st(1) pi(2) by simp
    then show ?thesis using Suc.prems(1) True i by auto
  next
    case False
    then have "forward_loop L rows x h [i..<K] y = forward_loop L rows x h [Suc i..<K] (y[i := of_bool ?B XOR x ! p i])"
      unfolding up using st(1) pi(2) by auto
    moreover have "\<exists>ok y'. forward_loop L rows x h [Suc i..<K] (y[i := of_bool ?B XOR x ! p i]) = Inr (ok, y') \<and> length y' = K \<and>
      (ok \<longrightarrow> bitarr y' \<and> (\<forall>k < K. gf2_row E K (\<lambda>j. y' ! j \<noteq> 0) (p k) = (x ! p k \<noteq> 0))) \<and> ((\<forall>k < K. (p k, k) \<in> E) \<longrightarrow> ok)"
      by (rule Suc.hyps(1)) (use Suc.hyps(2) Suc.prems(1) i st(2,3) False in auto)
    ultimately show ?thesis by simp
  qed
qed

lemma forward_sub_check:
  assumes rel: "mat_rel h L nr K E" and p: "\<forall>k < K. order_of rows k < nr"
  shows "mod2sparse_forward_sub L rows x y h = (if lower_by (order_of rows) K E then forward_loop L rows x h [0..<K] y
    else Inl (Exit ''mod2sparse_forward_sub: Matrix is not lower-triangular''))"
proof -
  have "(\<exists>i \<in> set [0..<K]. (let e = last_in_row h L (order_of rows i) in \<not> at_end h e \<and> col (ent h e) > int i)) \<longleftrightarrow>
      \<not> lower_by (order_of rows) K E"
    using last_in_row_above [OF rel] p by (fastforce simp: lower_by_def not_le)
  then show ?thesis unfolding mod2sparse_forward_sub_def mat_rel_dims(2) [OF rel] nat_int Let_def by simp
qed

lemma forward_sub_ok:
  assumes rel: "mat_rel h L nr K E" and p: "\<forall>k < K. order_of rows k < nr"
    and x: "\<forall>k < K. x ! order_of rows k = 0 \<or> x ! order_of rows k = 1" and y: "length y = K"
  shows "if lower_by (order_of rows) K E
    then \<exists>ok y'. mod2sparse_forward_sub L rows x y h = Inr (ok, y') \<and> length y' = K \<and>
      (ok \<longrightarrow> bitarr y' \<and> (\<forall>k < K. gf2_row E K (\<lambda>j. y' ! j \<noteq> 0) (order_of rows k) = (x ! order_of rows k \<noteq> 0))) \<and>
      ((\<forall>k < K. (order_of rows k, k) \<in> E) \<longrightarrow> ok)
    else mod2sparse_forward_sub L rows x y h = Inl (Exit ''mod2sparse_forward_sub: Matrix is not lower-triangular'')"
  unfolding forward_sub_check [OF rel p]
  using forward_loop_ok [OF rel, of "order_of rows" rows x y 0] p x y by auto

section \<open>Backward substitution\<close>

text \<open>Column \<open>q k\<close> of the matrix is column \<open>k\<close> of the reordered one, which has no entry below the diagonal.\<close>

definition upper_by :: "(nat \<Rightarrow> nat) \<Rightarrow> nat \<Rightarrow> (nat \<times> nat) set \<Rightarrow> bool" where
  "upper_by q K E \<longleftrightarrow> (\<forall>k < K. \<forall>i. (i, q k) \<in> E \<longrightarrow> i \<le> k)"

lemma upper_byD: "upper_by q K E \<Longrightarrow> k < K \<Longrightarrow> (i, q k) \<in> E \<Longrightarrow> i \<le> k"
  by (simp add: upper_by_def)

lemma backward_step:
  assumes rel: "mat_rel h U K nc E" and upp: "upper_by q K E" and i: "i < K" "q i < nc" and z: "length z = nc"
    and bits: "\<forall>j < nc. (\<forall>k < Suc i. j \<noteq> q k) \<longrightarrow> z ! j = 0 \<or> z ! j = 1"
    and solved: "\<forall>k. i < k \<and> k < K \<longrightarrow> gf2_row E nc (\<lambda>j. z ! j \<noteq> 0) k = (y ! k \<noteq> 0)"
    and y: "y ! i = 0 \<or> y ! i = 1"
  defines "B \<equiv> odd (card {j. (i, j) \<in> E \<and> j \<noteq> q i \<and> z ! j \<noteq> 0})"
  defines "z' \<equiv> z[q i := of_bool B XOR y ! i]"
  shows "sub_row (walk_fuel h U) h (q i) z (first_in_row h U i) False 0 = Inr ((i, q i) \<in> E, of_bool B)"
    "\<forall>j < nc. (\<forall>k < i. j \<noteq> q k) \<longrightarrow> z' ! j = 0 \<or> z' ! j = 1"
    "(i, q i) \<in> E \<or> of_bool B = y ! i \<Longrightarrow> \<forall>k. i \<le> k \<and> k < K \<longrightarrow> gf2_row E nc (\<lambda>j. z' ! j \<noteq> 0) k = (y ! k \<noteq> 0)"
proof -
  have "z ! j = 0 \<or> z ! j = 1" if "(i, j) \<in> E" "j \<noteq> q i" for j
  proof -
    have "j \<noteq> q k" if "k < Suc i" for k
    proof
      assume "j = q k"
      then have "i \<le> k" using upper_byD [OF upp, of k i] \<open>(i, j) \<in> E\<close> that i(1) by simp
      with that \<open>j = q k\<close> \<open>j \<noteq> q i\<close> show False by (simp add: le_antisym less_Suc_eq_le)
    qed
    then show ?thesis using bits mat_rel_bounds(2) [OF rel that(1)] by blast
  qed
  then show "sub_row (walk_fuel h U) h (q i) z (first_in_row h U i) False 0 = Inr ((i, q i) \<in> E, of_bool B)"
    unfolding B_def by (rule sub_row_mat [OF rel i(1)])
  show "\<forall>j < nc. (\<forall>k < i. j \<noteq> q k) \<longrightarrow> z' ! j = 0 \<or> z' ! j = 1"
    using bits y z i(2) by (auto simp: z'_def nth_list_update less_Suc_eq)
  assume d: "(i, q i) \<in> E \<or> of_bool B = y ! i"
  show "\<forall>k. i \<le> k \<and> k < K \<longrightarrow> gf2_row E nc (\<lambda>j. z' ! j \<noteq> 0) k = (y ! k \<noteq> 0)"
  proof (intro allI impI)
    fix k assume k: "i \<le> k \<and> k < K"
    then consider "i < k" | "k = i" by linarith
    then show "gf2_row E nc (\<lambda>j. z' ! j \<noteq> 0) k = (y ! k \<noteq> 0)"
    proof cases
      case 1
      then have "j \<noteq> q i" if "(k, j) \<in> E" for j using upper_byD [OF upp i(1), of k] that by auto
      then have "gf2_row E nc (\<lambda>j. z' ! j \<noteq> 0) k = gf2_row E nc (\<lambda>j. z ! j \<noteq> 0) k"
        unfolding z'_def by (rule gf2_row_upd)
      with 1 k solved show ?thesis by simp
    next
      case 2
      have yb: "y ! i = of_bool (y ! i \<noteq> 0)" using y by auto
      have "(i, q i) \<in> E \<or> B = (y ! i \<noteq> 0)" using d by (cases B) auto
      from row_solved [OF mat_rel_bounds(2) [OF rel] i(2) _ _ yb this [unfolded B_def]] z i(2)
      show ?thesis unfolding 2 z'_def B_def by simp
    qed
  qed
qed

lemma backward_loop_ok:
  assumes rel: "mat_rel h U K nc E" and upp: "upper_by q K E" and q: "\<forall>k < K. q k = order_of cols k \<and> q k < nc"
    and y: "\<forall>k < K. y ! k = 0 \<or> y ! k = 1"
    and "length z = nc" "i \<le> K" "\<forall>j < nc. (\<forall>k < i. j \<noteq> q k) \<longrightarrow> z ! j = 0 \<or> z ! j = 1"
      "\<forall>k. i \<le> k \<and> k < K \<longrightarrow> gf2_row E nc (\<lambda>j. z ! j \<noteq> 0) k = (y ! k \<noteq> 0)"
  shows "\<exists>ok z'. backward_loop U cols y h (rev [0..<i]) z = Inr (ok, z') \<and> length z' = nc \<and>
    (\<forall>j < nc. (\<forall>k < i. j \<noteq> q k) \<longrightarrow> z' ! j = z ! j) \<and>
    (ok \<longrightarrow> bitarr z' \<and> (\<forall>k < K. gf2_row E nc (\<lambda>j. z' ! j \<noteq> 0) k = (y ! k \<noteq> 0))) \<and>
    ((\<forall>k < K. (k, q k) \<in> E) \<longrightarrow> ok)"
  using assms(5-8)
proof (induction i arbitrary: z)
  case 0
  then show ?case by (intro exI [of _ True] exI [of _ z]) (simp add: bitarr_nth)
next
  case (Suc i)
  then have i: "i < K" by simp
  have qi: "q i < nc" "order_of cols i = q i" "y ! i = 0 \<or> y ! i = 1" using q y i by auto
  have solved: "\<forall>k. i < k \<and> k < K \<longrightarrow> gf2_row E nc (\<lambda>j. z ! j \<noteq> 0) k = (y ! k \<noteq> 0)" using Suc.prems(4) by auto
  note st = backward_step [OF rel upp i qi(1) Suc.prems(1,3) solved qi(3)]
  let ?B = "odd (card {j. (i, j) \<in> E \<and> j \<noteq> q i \<and> z ! j \<noteq> 0})"
  have up: "rev [0..<Suc i] = i # rev [0..<i]" by simp
  show ?case
  proof (cases "(i, q i) \<notin> E \<and> of_bool ?B \<noteq> y ! i")
    case True
    then have "backward_loop U cols y h (rev [0..<Suc i]) z = Inr (False, z)" unfolding up using st(1) qi(2) by simp
    then show ?thesis using Suc.prems(1) True i by auto
  next
    case False
    let ?z = "z[q i := of_bool ?B XOR y ! i]"
    have "backward_loop U cols y h (rev [0..<Suc i]) z = backward_loop U cols y h (rev [0..<i]) ?z"
      unfolding up using st(1) qi(2) False by auto
    moreover have "\<exists>ok z'. backward_loop U cols y h (rev [0..<i]) ?z = Inr (ok, z') \<and> length z' = nc \<and>
        (\<forall>j < nc. (\<forall>k < i. j \<noteq> q k) \<longrightarrow> z' ! j = ?z ! j) \<and>
        (ok \<longrightarrow> bitarr z' \<and> (\<forall>k < K. gf2_row E nc (\<lambda>j. z' ! j \<noteq> 0) k = (y ! k \<noteq> 0))) \<and>
        ((\<forall>k < K. (k, q k) \<in> E) \<longrightarrow> ok)"
      by (rule Suc.IH) (use Suc.prems(1) i st(2,3) False in auto)
    moreover have "?z ! j = z ! j" if "\<forall>k < Suc i. j \<noteq> q k" for j using that by auto
    ultimately show ?thesis by fastforce
  qed
qed

lemma backward_sub_ok:
  assumes rel: "mat_rel h U K nc E" and q: "\<forall>k < K. order_of cols k < nc"
    and y: "\<forall>k < K. y ! k = 0 \<or> y ! k = 1" and z: "length z = nc"
    and free: "\<forall>j < nc. (\<forall>k < K. j \<noteq> order_of cols k) \<longrightarrow> z ! j = 0 \<or> z ! j = 1"
  shows "if upper_by (order_of cols) K E
    then \<exists>ok z'. mod2sparse_backward_sub U cols y z h = Inr (ok, z') \<and> length z' = nc \<and>
      (\<forall>j < nc. (\<forall>k < K. j \<noteq> order_of cols k) \<longrightarrow> z' ! j = z ! j) \<and>
      (ok \<longrightarrow> bitarr z' \<and> (\<forall>k < K. gf2_row E nc (\<lambda>j. z' ! j \<noteq> 0) k = (y ! k \<noteq> 0))) \<and>
      ((\<forall>k < K. (k, order_of cols k) \<in> E) \<longrightarrow> ok)
    else mod2sparse_backward_sub U cols y z h = Inl (Exit ''mod2sparse_backward_sub: Matrix is not upper-triangular'')"
proof -
  have "(\<exists>i \<in> set [0..<K]. (let e = last_in_col h U (order_of cols i) in \<not> at_end h e \<and> row (ent h e) > int i)) \<longleftrightarrow>
      \<not> upper_by (order_of cols) K E"
    using last_in_col_above [OF rel] q by (fastforce simp: upper_by_def not_le)
  then have "mod2sparse_backward_sub U cols y z h = (if \<not> upper_by (order_of cols) K E
      then Inl (Exit ''mod2sparse_backward_sub: Matrix is not upper-triangular'') else backward_loop U cols y h (rev [0..<K]) z)"
    unfolding mod2sparse_backward_sub_def mat_rel_dims(1) [OF rel] nat_int Let_def by simp
  moreover have "\<forall>k. K \<le> k \<and> k < K \<longrightarrow> gf2_row E nc (\<lambda>j. z ! j \<noteq> 0) k = (y ! k \<noteq> 0)" by auto
  ultimately show ?thesis
    using backward_loop_ok [OF rel _ _ y z order_refl free] q by simp
qed

end
