(* ===== verification/Mod2sparse_Alg_Props.thy ===== *)
theory Mod2sparse_Alg_Props
  imports Mod2sparse_Alg_Solve
begin

text \<open>
  The properties of the whole-matrix operations. The result of an operation is cleared first; it has to
  have an empty free list, as a matrix just allocated has, because clearing keeps the free list of
  the blocks it frees.
\<close>

section \<open>Matrices for the witnesses\<close>

definition fresh :: "heap \<Rightarrow> nat \<Rightarrow> nat \<Rightarrow> nat \<Rightarrow> bool" where
  "fresh h m nr nc \<longleftrightarrow> mat_rel h m nr nc {} \<and> next_free (mat h m) = Null"

lemma allocate_fresh:
  assumes "heap_ok h" "0 < nr" "0 < nc"
  shows "\<exists>h'. mod2sparse_allocate (int nr) (int nc) h = Inr (h', nmat h) \<and> fresh h' (nmat h) nr nc \<and>
    mframe (nmat h) h h' \<and> nmat h' = Suc (nmat h)"
proof -
  obtain h' where h': "mod2sparse_allocate (int nr) (int nc) h = Inr (h', nmat h)" "mat_rel h' (nmat h) nr nc {}"
    "mframe (nmat h) h h'" "nmat h' = Suc (nmat h)" using allocate_ok [OF assms] .
  have "next_free (mat h' (nmat h)) = Null"
    using h'(1) assms by (auto simp: mod2sparse_allocate_def Let_def fold_init_row fold_init_col)
  with h' show ?thesis by (auto simp: fresh_def)
qed

lemma fresh_kept: "fresh h m nr nc \<Longrightarrow> mframe r h h' \<Longrightarrow> m \<noteq> r \<Longrightarrow> mat_rel h' r nr' nc' A \<Longrightarrow> fresh h' m nr nc"
  using operand_kept [of h m nr nc "{}" r h'] mat_rel_nmat [of h m] by (auto simp: fresh_def mframe_def)

lemma allocate_next:
  assumes "heap_ok h" "nmat h = m" "0 < nr" "0 < nc"
  shows "\<exists>h'. fresh h' m nr nc \<and> heap_ok h' \<and> nmat h' = Suc m \<and> (\<forall>m' nr' nc'. fresh h m' nr' nc' \<longrightarrow> fresh h' m' nr' nc')"
proof -
  obtain h' where h': "fresh h' m nr nc" "mframe m h h'" "nmat h' = Suc m"
    using allocate_fresh [OF assms(1,3,4)] assms(2) by blast
  then have rel: "mat_rel h' m nr nc {}" by (simp add: fresh_def)
  have "fresh h' m' nr' nc'" if "fresh h m' nr' nc'" for m' nr' nc'
    using fresh_kept [OF that h'(2) _ rel] that mat_rel_nmat [of h m'] assms(2) by (auto simp: fresh_def)
  with h' rel show ?thesis by (auto simp: mat_rel_heap_ok)
qed

text \<open>A matrix with one entry, a second one with one entry that can be multiplied to it, and three fresh ones.\<close>

lemma demo_heap:
  "\<exists>h. mat_rel h 0 2 3 {(1, 2)} \<and> mat_rel h 1 3 2 {(2, 0)} \<and> fresh h 2 2 3 \<and> fresh h 3 3 2 \<and> fresh h 4 2 2"
proof -
  have "nmat heap0 = 0" by (simp add: heap0_def)
  then obtain h1 where h1: "fresh h1 0 2 3" "heap_ok h1" "nmat h1 = 1" using allocate_next [of heap0 0 2 3] by auto
  then obtain h2 where h2: "fresh h2 0 2 3" "fresh h2 1 3 2" "heap_ok h2" "nmat h2 = 2" using allocate_next [of h1 1 3 2] by (auto simp: numeral_2_eq_2)
  then obtain h3 where h3: "fresh h3 0 2 3" "fresh h3 1 3 2" "fresh h3 2 2 3" "heap_ok h3" "nmat h3 = 3"
    using allocate_next [of h2 2 2 3] by auto
  then obtain h4 where h4: "fresh h4 0 2 3" "fresh h4 1 3 2" "fresh h4 2 2 3" "fresh h4 3 3 2" "heap_ok h4" "nmat h4 = 4"
    using allocate_next [of h3 3 3 2] by auto
  then obtain h5 where h5: "fresh h5 0 2 3" "fresh h5 1 3 2" "fresh h5 2 2 3" "fresh h5 3 3 2" "fresh h5 4 2 2"
    using allocate_next [of h4 4 2 2] by auto
  obtain h6 where h6: "mframe 0 h5 h6" "mat_rel h6 0 2 3 {(1, 2)}"
    using insert_at_ok [of h5 0 2 3 "{}" 1 2] h5(1) by (auto simp: fresh_def)
  have f6: "fresh h6 1 3 2" "fresh h6 2 2 3" "fresh h6 3 3 2" "fresh h6 4 2 2"
    using fresh_kept [OF _ h6(1) _ h6(2)] h5 by auto
  obtain h7 where h7: "mframe 1 h6 h7" "mat_rel h7 1 3 2 {(2, 0)}"
    using insert_at_ok [of h6 1 3 2 "{}" 2 0] f6(1) by (auto simp: fresh_def)
  have "fresh h7 2 2 3" "fresh h7 3 3 2" "fresh h7 4 2 2" using fresh_kept [OF _ h7(1) _ h7(2)] f6 by auto
  moreover have "mat_rel h7 0 2 3 {(1, 2)}" using operand_kept [OF h6(2) _ h7] by simp
  ultimately show ?thesis using h7(2) by blast
qed

lemma kept:
  "\<exists>h'. f = Inr h' \<and> mframe r h h' \<and> mat_rel h' r nr nc A \<Longrightarrow> \<exists>h'. f = Inr h' \<and> mat_rel h' r nr nc A \<and> others_kept r h h'"
  using others_keptI by blast

section \<open>Properties\<close>

text \<open>
  With a fresh result matrix, copying yields the positions of the operand, choosing rows or columns
  by an array of indices in range yields the chosen ones, and transposing yields the transposed
  positions; every other matrix, the operand among them, keeps its contents.
\<close>

theorem copies_refine:
  assumes "mat_rel h m mr mc E" "fresh h r nr nc" "fresh h t mc mr" "m \<noteq> r" "m \<noteq> t"
    "mr \<le> nr" "mc \<le> nc" "\<forall>i < nr. rows i < mr" "\<forall>j < nc. cols j < mc"
  shows "(\<exists>h'. mod2sparse_copy m r h = Inr h' \<and> mat_rel h' r nr nc E \<and> others_kept r h h') \<and>
    (\<exists>h'. mod2sparse_copyrows m r (map (int \<circ> rows) [0..<nr]) h = Inr h' \<and>
      mat_rel h' r nr nc {(i, j). i < nr \<and> (rows i, j) \<in> E} \<and> others_kept r h h') \<and>
    (\<exists>h'. mod2sparse_copycols m r (map (int \<circ> cols) [0..<nc]) h = Inr h' \<and>
      mat_rel h' r nr nc {(i, j). j < nc \<and> (i, cols j) \<in> E} \<and> others_kept r h h') \<and>
    (\<exists>h'. mod2sparse_transpose m t h = Inr h' \<and> mat_rel h' t mc mr (E\<inverse>) \<and> others_kept t h h')"
proof -
  have r: "mat_rel h r nr nc {}" "next_free (mat h r) = Null" and t: "mat_rel h t mc mr {}" "next_free (mat h t) = Null"
    using assms(2,3) by (simp_all add: fresh_def)
  show ?thesis
    by (intro conjI kept copy_ok [OF assms(1) r assms(4,6,7)] copyrows_ok [OF assms(1) r assms(4,7,8)]
        copycols_ok [OF assms(1) r assms(4,6,9)] transpose_ok [OF assms(1) t assms(5)])
qed

theorem copies_refine_witness:
  "\<exists>h. (\<exists>h'. mod2sparse_copy 0 2 h = Inr h' \<and> mat_rel h' 2 2 3 {(1, 2)}) \<and>
    (\<exists>h'. mod2sparse_copyrows 0 2 [1, 1] h = Inr h' \<and> mat_rel h' 2 2 3 {(0, 2), (1, 2)}) \<and>
    (\<exists>h'. mod2sparse_transpose 0 3 h = Inr h' \<and> mat_rel h' 3 3 2 {(2, 1)})"
proof -
  obtain h where h: "mat_rel h 0 2 3 {(1, 2)}" "fresh h 2 2 3" "fresh h 3 3 2" using demo_heap by blast
  have rows: "map (int \<circ> (\<lambda>_. 1)) [0..<2] = [1, 1]" by (simp add: numeral_2_eq_2)
  have chosen: "{(i :: nat, j :: nat). i < 2 \<and> (1, j) \<in> {(1 :: nat, 2)}} = {(0, 2), (1, 2)}" by (auto simp: less_2_cases_iff)
  have conv: "{(1 :: nat, 2 :: nat)}\<inverse> = {(2, 1)}" by auto
  have ne: "(0 :: nat) \<noteq> 2" "(0 :: nat) \<noteq> 3" by simp_all
  note f = copies_refine [OF h ne order_refl order_refl, of "\<lambda>_. 1" "\<lambda>_. 0", unfolded rows chosen conv]
  have "\<exists>h'. mod2sparse_copy 0 2 h = Inr h' \<and> mat_rel h' 2 2 3 {(1, 2)}"
    "\<exists>h'. mod2sparse_copyrows 0 2 [1, 1] h = Inr h' \<and> mat_rel h' 2 2 3 {(0, 2), (1, 2)}"
    "\<exists>h'. mod2sparse_transpose 0 3 h = Inr h' \<and> mat_rel h' 3 3 2 {(2, 1)}"
    using f by auto
  then show ?thesis by blast
qed

text \<open>
  C36: the sum of two matrices is the symmetric difference of their positions, their product is the
  product over GF(2), with result matrices that are fresh, and comparing them tells whether they have
  the same positions; operands and all other matrices keep their contents.
\<close>

theorem algebra_refines:
  assumes "mat_rel h m1 nr nc E" "mat_rel h m2 nr nc F" "mat_rel h m3 nc n3 G"
    "fresh h r nr nc" "fresh h p nr n3" "m1 \<noteq> r" "m2 \<noteq> r" "m1 \<noteq> p" "m3 \<noteq> p"
  shows "(\<exists>h'. mod2sparse_add m1 m2 r h = Inr h' \<and> mat_rel h' r nr nc ((E - F) \<union> (F - E)) \<and> others_kept r h h') \<and>
    (\<exists>h'. mod2sparse_multiply m1 m3 p h = Inr h' \<and>
      mat_rel h' p nr n3 {(i, j). odd (card {k. (i, k) \<in> E \<and> (k, j) \<in> G})} \<and> others_kept p h h') \<and>
    mod2sparse_equal m1 m2 h = Inr (E = F)"
proof -
  have r: "mat_rel h r nr nc {}" "next_free (mat h r) = Null" and p: "mat_rel h p nr n3 {}" "next_free (mat h p) = Null"
    using assms(4,5) by (simp_all add: fresh_def)
  show ?thesis
    by (intro conjI kept add_ok [OF assms(1,2) r assms(6,7), unfolded symdiff_def]
        multiply_ok [OF assms(1,3) p assms(8,9), unfolded gf2_mult_def] equal_ok [OF assms(1,2)])
qed

lemma demo_product: "{(i, j). odd (card {k. (i, k) \<in> {(1 :: nat, 2 :: nat)} \<and> (k, j) \<in> {(2, 0 :: nat)}})} = {(1, 0)}"
proof -
  have "{k. (i, k) \<in> {(1 :: nat, 2 :: nat)} \<and> (k, j) \<in> {(2, 0 :: nat)}} = (if i = 1 \<and> j = 0 then {2} else {})" for i j by auto
  then show ?thesis by (auto split: if_splits)
qed

theorem algebra_refines_witness:
  "\<exists>h h'. mod2sparse_multiply 0 1 4 h = Inr h' \<and> mat_rel h' 4 2 2 {(1, 0)} \<and> mod2sparse_equal 0 0 h = Inr True"
proof -
  obtain h where h: "mat_rel h 0 2 3 {(1, 2)}" "mat_rel h 1 3 2 {(2, 0)}" "fresh h 2 2 3" "fresh h 4 2 2" using demo_heap by blast
  have ne: "(0 :: nat) \<noteq> 2" "(0 :: nat) \<noteq> 4" "(1 :: nat) \<noteq> 4" by simp_all
  from algebra_refines [OF h(1,1,2-4) ne(1,1,2,3), unfolded demo_product] show ?thesis by auto
qed

text \<open>
  C37: forward and backward substitution refuse a matrix that is not triangular in the given order; on a
  triangular one they return, a success is a solution of every equation, the bits outside the order
  keep their values, and with a full diagonal they succeed.
\<close>

theorem substitution_solves:
  assumes "mat_rel h L nr K E" "\<forall>k < K. order_of rows k < nr" "\<forall>k < K. x ! order_of rows k = 0 \<or> x ! order_of rows k = 1"
    "length y = K"
    and "mat_rel h U K nc F" "\<forall>k < K. order_of cols k < nc" "\<forall>k < K. y0 ! k = 0 \<or> y0 ! k = 1" "length z = nc"
    "\<forall>j < nc. (\<forall>k < K. j \<noteq> order_of cols k) \<longrightarrow> z ! j = 0 \<or> z ! j = 1"
  shows "(if lower_by (order_of rows) K E
     then \<exists>ok y'. mod2sparse_forward_sub L rows x y h = Inr (ok, y') \<and> length y' = K \<and>
       (ok \<longrightarrow> bitarr y' \<and> (\<forall>k < K. gf2_row E K (\<lambda>j. y' ! j \<noteq> 0) (order_of rows k) = (x ! order_of rows k \<noteq> 0))) \<and>
       ((\<forall>k < K. (order_of rows k, k) \<in> E) \<longrightarrow> ok)
     else mod2sparse_forward_sub L rows x y h = Inl (Exit ''mod2sparse_forward_sub: Matrix is not lower-triangular'')) \<and>
    (if upper_by (order_of cols) K F
     then \<exists>ok z'. mod2sparse_backward_sub U cols y0 z h = Inr (ok, z') \<and> length z' = nc \<and>
       (\<forall>j < nc. (\<forall>k < K. j \<noteq> order_of cols k) \<longrightarrow> z' ! j = z ! j) \<and>
       (ok \<longrightarrow> bitarr z' \<and> (\<forall>k < K. gf2_row F nc (\<lambda>j. z' ! j \<noteq> 0) k = (y0 ! k \<noteq> 0))) \<and>
       ((\<forall>k < K. (k, order_of cols k) \<in> F) \<longrightarrow> ok)
     else mod2sparse_backward_sub U cols y0 z h = Inl (Exit ''mod2sparse_backward_sub: Matrix is not upper-triangular''))"
  using forward_sub_ok [OF assms(1-4)] backward_sub_ok [OF assms(5-9)] by blast

definition demo_L :: "(nat \<times> nat) list" where
  "demo_L = [(0, 0), (1, 0), (1, 1)]"

lemma demo_triangles: "\<exists>h L U. mat_rel h L 2 2 (set demo_L) \<and> mat_rel h U 2 2 (set [(0, 0), (0, 1), (1, 1)])"
proof -
  obtain h1 L where L: "mat_rel h1 L 2 2 (set demo_L)" using ms.load_ok [of heap0 2 2 demo_L] by (auto simp: demo_L_def)
  obtain h2 U where "mat_rel h2 U 2 2 (set [(0, 0), (0, 1), (1, 1)])" "mat_rel h2 L 2 2 (set demo_L)"
    using ms.load_ok [OF mat_rel_heap_ok [OF L], of 2 2 "[(0, 0), (0, 1), (1, 1)]"] L by fastforce
  then show ?thesis by blast
qed

theorem substitution_solves_witness:
  "\<exists>h L U y z. mod2sparse_forward_sub L None [1, 0] [0, 0] h = Inr (True, y) \<and>
    (\<forall>k < 2. gf2_row (set demo_L) 2 (\<lambda>j. y ! j \<noteq> 0) k = ([1, 0 :: u8] ! k \<noteq> 0)) \<and>
    mod2sparse_backward_sub U None [0, 1] [0, 0] h = Inr (True, z)"
proof -
  obtain h L U where h: "mat_rel h L 2 2 (set demo_L)" "mat_rel h U 2 2 (set [(0, 0), (0, 1), (1, 1)])" using demo_triangles by blast
  have o: "order_of None k = k" for k by (simp add: order_of_def)
  have b: "\<forall>k < 2. [1, 0 :: u8] ! k = 0 \<or> [1, 0 :: u8] ! k = 1" "\<forall>k < 2. [0, 1 :: u8] ! k = 0 \<or> [0, 1 :: u8] ! k = 1"
    by (simp_all add: less_2_cases_iff)
  have t: "lower_by (\<lambda>k. k) 2 (set demo_L)" "upper_by (\<lambda>k. k) 2 (set [(0, 0), (0, 1), (1, 1)])"
    "\<forall>k < 2. (k, k) \<in> set demo_L" "\<forall>k < 2. (k :: nat, k :: nat) \<in> set [(0, 0), (0, 1), (1, 1)]"
    by (auto simp: lower_by_def upper_by_def demo_L_def less_2_cases_iff)
  have f: "\<forall>j < 2. (\<forall>k < 2. j \<noteq> k) \<longrightarrow> [0, 0 :: u8] ! j = 0 \<or> [0, 0 :: u8] ! j = 1" by blast
  from substitution_solves [OF h(1), of None "[1, 0]" "[0, 0]" U 2 _ None "[0, 1]" "[0, 0]", unfolded o, OF _ b(1) _ h(2) _ b(2) _ f] t
  have "\<exists>y. mod2sparse_forward_sub L None [1, 0] [0, 0] h = Inr (True, y) \<and>
      (\<forall>k < 2. gf2_row (set demo_L) 2 (\<lambda>j. y ! j \<noteq> 0) k = ([1, 0 :: u8] ! k \<noteq> 0))"
    "\<exists>z. mod2sparse_backward_sub U None [0, 1] [0, 0] h = Inr (True, z)" by auto
  then show ?thesis by blast
qed

text \<open>
  A failure of the substitution does not mean that there is no solution: where the diagonal is zero it
  fixes the bit to zero, and a later row may need a one there.
\<close>

lemma forward_sub_incomplete:
  assumes "mat_rel h L 2 2 {(1, 0)}"
  shows "\<exists>y. mod2sparse_forward_sub L None [0, 1] [0, 0] h = Inr (False, y)"
    "\<forall>k < 2. gf2_row {(1, 0)} 2 (\<lambda>j. [1, 0 :: u8] ! j \<noteq> 0) k = ([0, 1 :: u8] ! k \<noteq> 0)"
proof -
  have o: "order_of None k = k" for k by (simp add: order_of_def)
  have row0: "gf2_row {(1, 0)} 2 u 0 = False" and row1: "gf2_row {(1, 0)} 2 u 1 = u 0" for u
    by (simp_all add: gf2_row_Suc numeral_2_eq_2)
  show "\<forall>k < 2. gf2_row {(1, 0)} 2 (\<lambda>j. [1, 0 :: u8] ! j \<noteq> 0) k = ([0, 1 :: u8] ! k \<noteq> 0)"
    using row0 row1 by (simp add: less_2_cases_iff)
  have s0: "sub_row (walk_fuel h L) h 0 [0, 0] (first_in_row h L 0) False 0 = Inr (False, 0)"
    using sub_row_mat [OF assms, of 0 0 "[0, 0]"] by simp
  have none: "{j. j = 0 \<and> j \<noteq> Suc 0 \<and> [0, 0 :: u8] ! j \<noteq> 0} = {}" by auto
  have s1: "sub_row (walk_fuel h L) h (Suc 0) [0, 0] (first_in_row h L (Suc 0)) False 0 = Inr (False, 0)"
    using sub_row_mat [OF assms, of 1 1 "[0, 0]"] none by simp
  have "lower_by (order_of None) 2 {(1, 0)}" by (auto simp: lower_by_def)
  then have "mod2sparse_forward_sub L None [0, 1] [0, 0] h = forward_loop L None [0, 1] h [0, Suc 0] [0, 0]"
    using forward_sub_check [OF assms, of None] by (simp add: o numeral_2_eq_2)
  then show "\<exists>y. mod2sparse_forward_sub L None [0, 1] [0, 0] h = Inr (False, y)" using s0 s1 by (simp add: o)
qed

end
