(* ===== verification/C_Double.thy ===== *)
theory C_Double
  imports Complex_Main
begin

text \<open>
  Arithmetic on the C type \<open>double\<close> as rational numbers rounded to 53 bits, to nearest, ties to even
  (IEEE 754 binary64, in the range of normal numbers and without infinities). The theory \<open>Sdr_Nav_Afs\<close>
  computes the time of week with it, because the code truncates a quotient of doubles to an integer.
\<close>

section \<open>Rounding\<close>

text \<open>
  The exponent that brings the number between \<open>2 ^ 52\<close> and \<open>2 ^ 53\<close>; the fuel is more than any
  exponent of the format.
\<close>

fun dbl_exp :: "nat \<Rightarrow> rat \<Rightarrow> int \<Rightarrow> int" where
  "dbl_exp 0 x e = e"
| "dbl_exp (Suc f) x e =
     (if x < 2 ^ 52 then dbl_exp f (2 * x) (e - 1) else if x \<ge> 2 ^ 53 then dbl_exp f (x / 2) (e + 1) else e)"

definition round_even :: "rat \<Rightarrow> int" where
  "round_even q = (let n = \<lfloor>q\<rfloor>; r = q - of_int n in
     if r < 1 / 2 then n else if r > 1 / 2 then n + 1 else if even n then n else n + 1)"

definition dbl :: "rat \<Rightarrow> rat" where
  "dbl x = (if x = 0 then 0 else let e = dbl_exp 1100 \<bar>x\<bar> 0 in of_int (round_even (x / 2 powi e)) * 2 powi e)"

definition dadd :: "rat \<Rightarrow> rat \<Rightarrow> rat" where
  "dadd x y = dbl (x + y)"

definition dmul :: "rat \<Rightarrow> rat \<Rightarrow> rat" where
  "dmul x y = dbl (x * y)"

definition ddiv :: "rat \<Rightarrow> rat \<Rightarrow> rat" where
  "ddiv x y = dbl (x / y)"

text \<open>\<open>(int)\<close> cuts towards zero.\<close>

definition int_of_dbl :: "rat \<Rightarrow> int" where
  "int_of_dbl x = (if x < 0 then - \<lfloor>- x\<rfloor> else \<lfloor>x\<rfloor>)"

section \<open>The error of a rounding\<close>

lemma round_even_error: "\<bar>of_int (round_even q) - q\<bar> \<le> 1 / 2"
proof -
  have "of_int \<lfloor>q\<rfloor> \<le> q" "q < of_int \<lfloor>q\<rfloor> + 1" by linarith+
  then show ?thesis unfolding round_even_def Let_def by (auto split: if_splits)
qed

lemma dbl_exp_scale:
  assumes "0 < x" "x < 2 ^ 53" "2 ^ 52 \<le> x * 2 ^ f"
  shows "\<exists>k. dbl_exp (Suc f) x e = e - int k \<and> 2 ^ 52 \<le> x * 2 ^ k \<and> x * 2 ^ k < 2 ^ 53"
  using assms
proof (induction f arbitrary: x e)
  case 0
  then show ?case by (intro exI [of _ 0]) simp
next
  case (Suc f)
  show ?case
  proof (cases "x < 2 ^ 52")
    case True
    have "\<exists>k. dbl_exp (Suc f) (2 * x) (e - 1) = e - 1 - int k \<and> 2 ^ 52 \<le> 2 * x * 2 ^ k \<and> 2 * x * 2 ^ k < 2 ^ 53"
      by (rule Suc.IH) (use Suc.prems True in simp_all)
    then obtain k where k: "dbl_exp (Suc f) (2 * x) (e - 1) = e - 1 - int k" "2 ^ 52 \<le> 2 * x * 2 ^ k" "2 * x * 2 ^ k < 2 ^ 53"
      by blast
    have "dbl_exp (Suc (Suc f)) x e = dbl_exp (Suc f) (2 * x) (e - 1)"
      by (subst dbl_exp.simps) (simp only: True if_True)
    with k show ?thesis by (intro exI [of _ "Suc k"]) (simp add: algebra_simps)
  next
    case False
    then show ?thesis using Suc.prems by (intro exI [of _ 0]) simp
  qed
qed

text \<open>The scaling between the two powers is unique, and gives the rounded number.\<close>

lemma scale_unique:
  assumes "2 ^ 52 \<le> x * 2 ^ k" "x * 2 ^ k < 2 ^ 53" "2 ^ 52 \<le> x * 2 ^ l" "x * 2 ^ l < 2 ^ 53" "0 < (x :: rat)"
  shows "k = l"
proof -
  have le: "j \<le> i" if "2 ^ 52 \<le> x * 2 ^ i" "x * 2 ^ j < 2 ^ 53" for i j
  proof (rule ccontr)
    assume "\<not> j \<le> i"
    then have "(2 :: rat) ^ Suc i \<le> 2 ^ j" by (intro power_increasing) auto
    then have "x * 2 ^ Suc i \<le> x * 2 ^ j" using assms(5) by simp
    then show False using that by simp
  qed
  show ?thesis using le [OF assms(1,4)] le [OF assms(3,2)] by simp
qed

lemma dbl_scaled:
  assumes "2 ^ 52 \<le> x * 2 ^ k" "x * 2 ^ k < 2 ^ 53" "k < 1100"
  shows "dbl x = of_int (round_even (x * 2 ^ k)) / 2 ^ k"
proof -
  have pos: "0 < x"
  proof (rule ccontr)
    assume "\<not> 0 < x"
    then have "x * 2 ^ k \<le> 0" by (simp add: mult_nonpos_nonneg)
    with assms(1) show False by simp
  qed
  have "x * 1 \<le> x * 2 ^ k" using pos by (intro mult_left_mono) auto
  then have lt: "x < 2 ^ 53" using assms(2) by simp
  have "x * 2 ^ k \<le> x * 2 ^ 1099" using pos assms(3) by (intro mult_left_mono power_increasing) auto
  then have "2 ^ 52 \<le> x * 2 ^ 1099" using assms(1) by simp
  from dbl_exp_scale [OF pos lt this, of 0] obtain l where
    l: "dbl_exp (Suc 1099) x 0 = 0 - int l" "2 ^ 52 \<le> x * 2 ^ l" "x * 2 ^ l < 2 ^ 53" by blast
  have f: "(1100 :: nat) = Suc 1099" by simp
  have e: "dbl_exp 1100 \<bar>x\<bar> 0 = - int k"
    unfolding f abs_of_pos [OF pos] l(1) using scale_unique [OF l(2,3) assms(1,2) pos] by simp
  have pw: "(2 :: rat) powi (- int k) = 1 / 2 ^ k" by (simp add: power_int_minus divide_inverse)
  show ?thesis unfolding dbl_def Let_def e pw using pos by simp
qed

text \<open>A rounding that is not a tie, from the rounded number.\<close>

lemma round_even_near:
  assumes "of_int n - 1 / 2 < q" "q < of_int n + 1 / 2"
  shows "round_even q = n"
proof -
  consider "\<lfloor>q\<rfloor> = n" "q - of_int n < 1 / 2" | "\<lfloor>q\<rfloor> = n - 1" "q - of_int (n - 1) > 1 / 2"
  proof (cases "of_int n \<le> q")
    case True
    then show ?thesis using assms that(1) by (simp add: floor_eq_iff)
  next
    case False
    then show ?thesis using assms that(2) by (simp add: floor_eq_iff)
  qed
  then show ?thesis unfolding round_even_def Let_def by cases simp_all
qed

lemma dbl_near:
  assumes "2 ^ 52 \<le> x * 2 ^ k" "x * 2 ^ k < 2 ^ 53" "k < 1100" "of_int n - 1 / 2 < x * 2 ^ k" "x * 2 ^ k < of_int n + 1 / 2"
  shows "dbl x = of_int n / 2 ^ k"
  unfolding dbl_scaled [OF assms(1-3)] round_even_near [OF assms(4,5)] ..

lemma scale_exists:
  assumes "1 / 2 ^ 1000 \<le> x" "x < (2 :: rat) ^ 53"
  obtains k where "2 ^ 52 \<le> x * 2 ^ k" "x * 2 ^ k < 2 ^ 53" "k < 1100" "0 < x"
proof -
  have pos: "0 < x" by (rule less_le_trans [OF _ assms(1)]) simp
  have big: "2 ^ 52 \<le> x * 2 ^ 1099"
  proof -
    have "(2 :: rat) ^ 52 \<le> 1 / 2 ^ 1000 * 2 ^ 1099" by (simp flip: power_diff)
    also have "\<dots> \<le> x * 2 ^ 1099" using assms(1) by (rule mult_right_mono) simp
    finally show ?thesis .
  qed
  obtain k where k: "2 ^ 52 \<le> x * 2 ^ k" "x * 2 ^ k < 2 ^ 53"
    using dbl_exp_scale [OF pos assms(2) big, of 0] by blast
  have "k < 1100"
  proof (rule ccontr)
    assume "\<not> k < 1100"
    then have "x * 2 ^ Suc 1099 \<le> x * 2 ^ k" using pos by (intro mult_left_mono power_increasing) auto
    then have "2 * (x * 2 ^ 1099) \<le> x * 2 ^ k" by (simp only: power_Suc ac_simps)
    moreover have False if "2 * y \<le> z" "2 ^ 52 \<le> y" "z < 2 ^ 53" for y z :: rat using that by simp
    ultimately show False using big k(2) by blast
  qed
  with that k pos show ?thesis by blast
qed

text \<open>A positive number between \<open>2 ^ -1000\<close> and \<open>2 ^ 53\<close> is rounded by at most one part in \<open>2 ^ 53\<close>.\<close>

lemma dbl_error:
  assumes "1 / 2 ^ 1000 \<le> x" "x < 2 ^ 53"
  shows "\<bar>dbl x - x\<bar> \<le> x / 2 ^ 53"
proof -
  obtain k where k: "2 ^ 52 \<le> x * 2 ^ k" "x * 2 ^ k < 2 ^ 53" "k < 1100" using scale_exists [OF assms] by blast
  note d = dbl_scaled [OF k]
  have "\<bar>of_int (round_even (x * 2 ^ k)) - x * 2 ^ k\<bar> \<le> 1 / 2" by (rule round_even_error)
  also have "\<dots> \<le> x * 2 ^ k / 2 ^ 53" using k(1) by simp
  finally have "\<bar>of_int (round_even (x * 2 ^ k)) - x * 2 ^ k\<bar> / 2 ^ k \<le> x / 2 ^ 53" by (simp add: field_simps)
  moreover have "dbl x - x = (of_int (round_even (x * 2 ^ k)) - x * 2 ^ k) / 2 ^ k" by (simp add: d field_simps)
  ultimately show ?thesis by simp
qed

text \<open>Integers below \<open>2 ^ 53\<close> are not rounded.\<close>

lemma dbl_int:
  assumes "0 \<le> n" "n < 2 ^ 53" shows "dbl (of_int n) = of_int n"
proof (cases "n = 0")
  case False
  then have "1 / 2 ^ 1000 \<le> (1 :: rat)" "(1 :: rat) \<le> of_int n" using assms(1) by simp_all
  moreover have "(of_int n :: rat) < of_int (2 ^ 53)" using assms(2) by (simp only: of_int_less_iff)
  ultimately obtain k where k: "2 ^ 52 \<le> (of_int n :: rat) * 2 ^ k" "of_int n * 2 ^ k < (2 :: rat) ^ 53" "k < 1100"
    using scale_exists [of "of_int n"] by auto
  have "(of_int n :: rat) * 2 ^ k = of_int (n * 2 ^ k)" by simp
  then have "round_even ((of_int n :: rat) * 2 ^ k) = n * 2 ^ k" by (simp only: round_even_def floor_of_int Let_def) simp
  then show ?thesis using dbl_scaled [OF k] by simp
qed (simp add: dbl_def)

end
