(* ===== verification/Sdr_Nav_Afs.thy ===== *)
theory Sdr_Nav_Afs
  imports Afs_Ldpc_Dec C_Double
begin

text \<open>
  The AFS part of the receiver's navigation decoder, \<open>sdr_nav.c\<close> of PocketSDR-AFS: the symbol buffer,
  frame synchronisation on two synchronisation patterns in either polarity, the search for the time
  of interval in subframe 1, and the decoding of the frame that updates the channel. Printing to the
  log is left out; the counter of detailed logs is kept, because the code changes it. The functions
  are called under the channel's lock, one at a time; the mutex around the LDPC library has no effect
  on the results of a single call.
\<close>

section \<open>State\<close>

definition SDR_MAX_NSYM :: nat where
  "SDR_MAX_NSYM = 6800"

definition SDR_MAX_DATA :: nat where
  "SDR_MAX_DATA = 4096"

definition SDR_N_HIST :: nat where
  "SDR_N_HIST = 5000"

text \<open>\<open>sdr_nav_t\<close>; \<open>nav_rev\<close>, \<open>nav_type\<close> are its \<open>rev\<close> and \<open>type\<close>.\<close>

record sdr_nav_t =
  ssync :: int
  fsync :: int
  nav_rev :: int
  nerr :: int
  seq :: int
  nav_type :: int
  stat :: int
  coff :: rat
  syms :: "u8 list"
  data :: "u8 list"
  count :: "int list"

text \<open>The fields of \<open>sdr_ch_t\<close> the decoder uses; \<open>trk_P\<close> is the in-phase part of the prompt correlations.\<close>

record sdr_ch_t =
  prn :: int
  week :: int
  tow :: int
  tow_v :: int
  lock :: int
  trk_P :: "rat list"
  ch_nav :: sdr_nav_t

text \<open>The channel with the static variables of the file and of the LDPC decoder.\<close>

record rx =
  AFSD_SP_SYMS :: "u8 list option"
  AFS_SF1 :: "u8 list option list"
  AFS_DETAIL_LOG_COUNT :: "int list"
  ldpc :: dec_state
  ch :: sdr_ch_t

definition afsd_sp :: "u8 list" where
  "afsd_sp = [0xCC, 0x63, 0xF7, 0x45, 0x36, 0xF4, 0x9E, 0x04, 0xA0]"

definition AFSD_ERASURE :: u8 where
  "AFSD_ERASURE = 2"

section \<open>Helpers\<close>

definition sdr_add_buff :: "'a list \<Rightarrow> nat \<Rightarrow> 'a \<Rightarrow> 'a list" where
  "sdr_add_buff buff len_buff item = take (len_buff - 1) (drop 1 buff) @ [item]"

text \<open>The loops over the bits with the error count; they stop at the first error too many.\<close>

fun bmatch_loop :: "(u8 \<Rightarrow> u8 \<Rightarrow> bool) \<Rightarrow> u8 list \<Rightarrow> u8 list \<Rightarrow> nat \<Rightarrow> nat list \<Rightarrow> nat \<Rightarrow> bool" where
  "bmatch_loop bad bits0 bits1 m [] n = True"
| "bmatch_loop bad bits0 bits1 m (i # is) n =
     (if bad (bits0 ! i) (bits1 ! i)
      then if n + 1 > m then False else bmatch_loop bad bits0 bits1 m is (n + 1)
      else bmatch_loop bad bits0 bits1 m is n)"

definition bmatch_n :: "u8 list \<Rightarrow> u8 list \<Rightarrow> nat \<Rightarrow> nat \<Rightarrow> bool" where
  "bmatch_n bits0 bits1 n m = bmatch_loop (\<noteq>) bits0 bits1 m [0..<n] 0"

definition bmatch_r :: "u8 list \<Rightarrow> u8 list \<Rightarrow> nat \<Rightarrow> nat \<Rightarrow> bool" where
  "bmatch_r bits0 bits1 n m = bmatch_loop (=) bits0 bits1 m [0..<n] 0"

definition sync_frame :: "u8 list \<Rightarrow> nat \<Rightarrow> nat \<Rightarrow> u8 list \<Rightarrow> nat \<Rightarrow> int" where
  "sync_frame preamb n m bits N =
     (if bmatch_n preamb bits n m \<and> bmatch_n preamb (drop N bits) n m then 0
      else if bmatch_r preamb bits n m \<and> bmatch_r preamb (drop N bits) n m then 1
      else -1)"

definition getbitu :: "u8 list \<Rightarrow> nat \<Rightarrow> nat \<Rightarrow> u32" where
  "getbitu buff pos len =
     foldl (\<lambda>bits i. push_bit 1 bits + (ucast (drop_bit (7 - i mod 8) (buff ! (i div 8))) AND 1)) 0 [pos..<pos + len]"

definition test_CRC :: "u8 list \<Rightarrow> nat \<Rightarrow> bool" where
  "test_CRC bits len_bits =
     (let N = (len_bits - 24 + 7) div 8 * 8;
          buff = sdr_pack_bits bits len_bits (N + 24 - len_bits)
      in rtk_crc24q buff (N div 8) = getbitu buff N 24)"

definition update_tow :: "sdr_ch_t \<Rightarrow> rat \<Rightarrow> sdr_ch_t" where
  "update_tow c t =
     (if tow c \<le> 0 then c\<lparr>tow := int_of_dbl (ddiv t (dbl (1 / 1000)))\<rparr>
      else if tow c = int_of_dbl (ddiv t (dbl (1 / 1000))) then c\<lparr>tow_v := 1\<rparr>
      else c\<lparr>tow := -1, tow_v := 0\<rparr>)"

definition unsync_nav :: "sdr_ch_t \<Rightarrow> sdr_ch_t" where
  "unsync_nav c = c\<lparr>ch_nav := (ch_nav c)\<lparr>fsync := 0, ssync := 0, nav_rev := 0, coff := 0\<rparr>, tow := -1, tow_v := 0\<rparr>"

definition sdr_nav_init :: "sdr_nav_t \<Rightarrow> sdr_nav_t" where
  "sdr_nav_init n = n\<lparr>ssync := 0, fsync := 0, nav_rev := 0, seq := 0, nav_type := 0, stat := 0, nerr := 0, coff := 0,
     syms := replicate SDR_MAX_NSYM 0, data := replicate SDR_MAX_DATA 0\<rparr>"

section \<open>Subframe 1\<close>

text \<open>The symbols the cache holds for time of interval \<open>t\<close>.\<close>

definition sf1_syms :: "nat \<Rightarrow> u8 list" where
  "sf1_syms t =
     (let w = word_of_nat t :: i32;
          code = LFSR 51 (rev_reg (w AND 0xFF) 8) 0x9F 8;
          bit9 = (ucast (signed_drop_bit 8 w AND 1) :: u8)
      in bit9 # map (\<lambda>i. word_of_int ((code ! (i - 1) + 1) div 2) XOR bit9) [1..<52])"

definition sync_AFS_SF1_FID0 :: "u8 list option list \<Rightarrow> u8 list \<Rightarrow> nat \<Rightarrow> u8 list option list \<times> int" where
  "sync_AFS_SF1_FID0 cache sb1 toi =
     (let cache' = (if cache ! 0 = None then map (\<lambda>t. Some (sf1_syms t)) [0..<100] else cache) in
      case cache' ! toi of
        None \<Rightarrow> (cache', -1)
      | Some SF1 \<Rightarrow>
          (cache', if bmatch_n sb1 SF1 52 0 then 0 else if bmatch_r sb1 SF1 52 0 then 1 else -1))"

text \<open>\<open>for (toi = 0; toi < 100; toi++) if (rev == sync_AFS_SF1_FID0 (...)) break;\<close>\<close>

fun toi_search :: "int \<Rightarrow> u8 list \<Rightarrow> nat list \<Rightarrow> u8 list option list \<Rightarrow> u8 list option list \<times> nat" where
  "toi_search rv sb1 [] cache = (cache, 100)"
| "toi_search rv sb1 (toi # ts) cache =
     (let (cache', r) = sync_AFS_SF1_FID0 cache sb1 toi in
      if rv = r then (cache', toi) else toi_search rv sb1 ts cache')"

section \<open>The frame\<close>

definition sf234_of :: "u8 list \<Rightarrow> int \<Rightarrow> u8 list" where
  "sf234_of ss rv = concat (map (\<lambda>i. map (\<lambda>j. ss ! (j * 60 + i + 120) XOR word_of_int rv) [0..<98]) [0..<60])"

definition rcv_sf2 :: "u8 list \<Rightarrow> u8 list" where
  "rcv_sf2 sf234 = replicate 240 AFSD_ERASURE @ map (\<lambda>i. sf234 ! i) [0..<2400] @ replicate 3600 AFSD_ERASURE"

definition rcv_sf34 :: "u8 list \<Rightarrow> nat \<Rightarrow> u8 list" where
  "rcv_sf34 sf234 off = replicate 176 AFSD_ERASURE @ map (\<lambda>i. sf234 ! (i + off)) [0..<694] @ replicate 10 AFSD_ERASURE @
     map (\<lambda>i. sf234 ! (i + off + 694)) [0..<1046] @ replicate 2650 AFSD_ERASURE"

text \<open>\<open>itow * 1200.0 + toi * 12.0 + 0.136\<close>: the synchronisation pattern takes 0.136 seconds.\<close>

definition afsd_tow :: "int \<Rightarrow> nat \<Rightarrow> rat" where
  "afsd_tow itow toi = dadd (dadd (dmul (of_int itow) 1200) (dmul (of_nat toi) 12)) (dbl (136 / 1000))"

text \<open>What a decoded subframe 2 does to the channel.\<close>

definition accept_sb2 :: "nat \<Rightarrow> int \<Rightarrow> u8 list \<Rightarrow> sdr_ch_t \<Rightarrow> sdr_ch_t" where
  "accept_sb2 toi rv syms_dec c =
     (let c1 = c\<lparr>ch_nav := (ch_nav c)\<lparr>ssync := lock c, fsync := lock c, nav_rev := rv, seq := int toi, nerr := 0\<rparr>\<rparr>;
          dat = sdr_pack_bits syms_dec 1200 0;
          itow = getbitu dat 13 9;
          c2 = update_tow (c1\<lparr>week := uint (getbitu dat 0 13)\<rparr>) (afsd_tow (uint itow) toi);
          n = ch_nav c2
      in c2\<lparr>ch_nav := n\<lparr>nav_type := 2, data := memcpy_at (data n) 0 dat, stat := 1,
              count := (count n)[0 := count n ! 0 + 1]\<rparr>\<rparr>)"

definition reject_sb2 :: "sdr_ch_t \<Rightarrow> sdr_ch_t" where
  "reject_sb2 c = (let c1 = unsync_nav c; n = ch_nav c1 in
     c1\<lparr>ch_nav := n\<lparr>count := (count n)[1 := count n ! 1 + 1]\<rparr>\<rparr>)"

text \<open>\<open>prn == 8 && AFS_DETAIL_LOG_COUNT[prn - 1] < 2\<close>: the detailed log is written and counted.\<close>

definition count_detail_log :: "int \<Rightarrow> int list \<Rightarrow> int list" where
  "count_detail_log p c = (if p = 8 \<and> c ! nat (p - 1) < 2 then c[nat (p - 1) := c ! nat (p - 1) + 1] else c)"

definition decode_AFSD_frame :: "ldpc_lib \<Rightarrow> u8 list \<Rightarrow> int \<Rightarrow> rx \<Rightarrow> mod2err + rx" where
  "decode_AFSD_frame lib ss rv s =
     (let (cache, toi) = toi_search rv (drop 68 ss) [0..<100] (AFS_SF1 s);
          s1 = s\<lparr>AFS_SF1 := cache\<rparr> in
      if toi = 100 then Inr (s1\<lparr>ch := unsync_nav (ch s1)\<rparr>)
      else let sf234 = sf234_of ss rv in
        res_bind (sdr_decode_LDPC_AFS_SF2 lib (rcv_sf2 sf234) (ldpc s1)) (\<lambda>(d2, nerr, syms_dec).
        let crcok = test_CRC syms_dec 1200;
            s2 = (if nerr \<ge> 0 \<and> crcok
                  then s1\<lparr>ldpc := d2, AFS_DETAIL_LOG_COUNT := count_detail_log (prn (ch s1)) (AFS_DETAIL_LOG_COUNT s1),
                          ch := accept_sb2 toi rv syms_dec (ch s1)\<rparr>
                  else s1\<lparr>ldpc := d2, ch := reject_sb2 (ch s1)\<rparr>) in
        res_bind (sdr_decode_LDPC_AFS_SF3 lib (rcv_sf34 sf234 2400) (ldpc s2)) (\<lambda>(d3, nerr3, dec3).
        res_bind (sdr_decode_LDPC_AFS_SF3 lib (rcv_sf34 sf234 4140) d3) (\<lambda>(d4, nerr4, dec4).
          Inr (s2\<lparr>ldpc := d4\<rparr>)))))"

section \<open>One symbol\<close>

definition decode_AFSD :: "ldpc_lib \<Rightarrow> rx \<Rightarrow> mod2err + rx" where
  "decode_AFSD lib s =
     (let s1 = (if AFSD_SP_SYMS s = None then s\<lparr>AFSD_SP_SYMS := Some (sdr_unpack_bits afsd_sp 68)\<rparr> else s);
          sym = (if trk_P (ch s1) ! (SDR_N_HIST - 1) \<ge> 0 then 1 else 0);
          c = (ch s1)\<lparr>ch_nav := (ch_nav (ch s1))\<lparr>syms := sdr_add_buff (syms (ch_nav (ch s1))) SDR_MAX_NSYM sym\<rparr>\<rparr>;
          s2 = s1\<lparr>ch := c\<rparr>;
          ss = drop (SDR_MAX_NSYM - 6068) (syms (ch_nav c));
          sp = the (AFSD_SP_SYMS s2) in
      if fsync (ch_nav c) > 0 then
        if lock c = fsync (ch_nav c) + 6000 then
          let rv = sync_frame sp 68 0 ss 6000 in
          if rv = nav_rev (ch_nav c) then decode_AFSD_frame lib ss rv s2 else Inr s2
        else if lock c > fsync (ch_nav c) + 6000 then Inr (s2\<lparr>ch := unsync_nav c\<rparr>)
        else Inr s2
      else if lock c \<ge> 6068 + 500 then
        let rv = sync_frame sp 68 0 ss 6000 in
        if rv \<ge> 0 then decode_AFSD_frame lib ss rv s2 else Inr s2
      else Inr s2)"

end
