(* ===== verification/Sdr_Nav_Afs_Lemmas.thy ===== *)
theory Sdr_Nav_Afs_Lemmas
  imports Sdr_Nav_Afs Lnis_Codec_Inv
begin

text \<open>
  What the pieces of the receiver compute: the matchers count errors, subframe 1 is the one the
  transmitter sends, the search finds its time of interval, the deinterleaver corrects the polarity,
  and the CRC test is the check of the remainder.
\<close>

section \<open>Matching bits\<close>

lemma bmatch_loop_count:
  "n \<le> m \<Longrightarrow> bmatch_loop bad a b m is n \<longleftrightarrow> n + length (filter (\<lambda>i. bad (a ! i) (b ! i)) is) \<le> m"
  by (induction "is" arbitrary: n) auto

lemma bmatch_exact:
  "bmatch_n a b n 0 \<longleftrightarrow> (\<forall>i < n. a ! i = b ! i)" "bmatch_r a b n 0 \<longleftrightarrow> (\<forall>i < n. a ! i \<noteq> b ! i)"
  by (auto simp: bmatch_n_def bmatch_r_def bmatch_loop_count filter_empty_conv)

text \<open>A symbol in either polarity.\<close>

definition pol :: "int \<Rightarrow> u8 \<Rightarrow> u8" where
  "pol rv b = b XOR word_of_int rv"

lemma pol_0 [simp]: "pol 0 b = b"
  by (simp add: pol_def)

lemma pol_pol [simp]: "pol rv (pol rv b) = b"
  by (simp add: pol_def xor.assoc)

lemma pol_1: "(a :: u8) = 0 \<or> a = 1 \<Longrightarrow> b = 0 \<or> b = 1 \<Longrightarrow> pol 1 a = b \<longleftrightarrow> a \<noteq> b"
  by (auto simp: pol_def)

lemma pol_01: "(a :: u8) = 0 \<or> a = 1 \<Longrightarrow> rv = 0 \<or> rv = 1 \<Longrightarrow> pol rv a = 0 \<or> pol rv a = 1"
  by (auto simp: pol_def)

lemma bitarr_pol: "bitarr xs \<Longrightarrow> rv = 0 \<or> rv = 1 \<Longrightarrow> bitarr (map (pol rv) xs)"
  by (simp add: bitarr_nth pol_01)

text \<open>Both matchers together tell in which polarity the bits match.\<close>

lemma bmatch_pol:
  assumes "bitarr a" "bitarr b" "n \<le> length a" "n \<le> length b" "rv = 0 \<or> rv = 1" "0 < n"
  shows "(if bmatch_n a b n 0 then 0 else if bmatch_r a b n 0 then 1 else -1) = rv \<longleftrightarrow>
    take n a = map (pol rv) (take n b)"
proof -
  have bit: "a ! i = 0 \<or> a ! i = 1" "b ! i = 0 \<or> b ! i = 1" if "i < n" for i
    using assms bitarr_nthD that by (meson less_le_trans)+
  have eq: "take n a = map (pol v) (take n b) \<longleftrightarrow> (\<forall>i < n. a ! i = pol v (b ! i))" for v
    using assms(3,4) by (auto simp: list_eq_iff_nth_eq)
  have r: "(\<forall>i < n. a ! i \<noteq> b ! i) \<longleftrightarrow> (\<forall>i < n. a ! i = pol 1 (b ! i))" using pol_1 [OF bit(2) bit(1)] by metis
  show ?thesis unfolding eq bmatch_exact r using assms(5,6) pol_1 [OF bit(2) bit(1)] by (auto split: if_splits)
qed

section \<open>Subframe 1\<close>

lemma sf1_syms_BCH: "sf1_syms t = generate_BCH_AFS_SF1 0 (word_of_nat t)"
  by (simp add: sf1_syms_def generate_BCH_AFS_SF1_def Let_def)

lemma length_sf1_syms [simp]: "length (sf1_syms t) = 52"
  by (simp add: sf1_syms_BCH)

lemma bitarr_sf1_syms [simp]: "bitarr (sf1_syms t)"
  by (simp add: sf1_syms_BCH generate_BCH_bits)

definition sf1_cache :: "u8 list option list" where
  "sf1_cache = map (\<lambda>t. Some (sf1_syms t)) [0..<100]"

definition cache_ok :: "u8 list option list \<Rightarrow> bool" where
  "cache_ok c \<longleftrightarrow> c ! 0 = None \<or> c = sf1_cache"

lemma sf1_cache_nth [simp]: "t < 100 \<Longrightarrow> sf1_cache ! t = Some (sf1_syms t)"
  by (simp add: sf1_cache_def)

lemma sync_SF1:
  assumes "cache_ok c" "t < 100" "bitarr sb1" "52 \<le> length sb1" "rv = 0 \<or> rv = 1"
  obtains r where "sync_AFS_SF1_FID0 c sb1 t = (sf1_cache, r)" "rv = r \<longleftrightarrow> take 52 sb1 = map (pol rv) (sf1_syms t)"
proof -
  define r :: int where "r = (if bmatch_n sb1 (sf1_syms t) 52 0 then 0 else if bmatch_r sb1 (sf1_syms t) 52 0 then 1 else -1)"
  have full: "(if c ! 0 = None then map (\<lambda>t. Some (sf1_syms t)) [0..<100] else c) = sf1_cache"
    using assms(1) by (auto simp: cache_ok_def sf1_cache_def)
  have "sync_AFS_SF1_FID0 c sb1 t = (sf1_cache, r)"
    unfolding sync_AFS_SF1_FID0_def Let_def full r_def using assms(2) by simp
  moreover have "r = rv \<longleftrightarrow> take 52 sb1 = map (pol rv) (take 52 (sf1_syms t))"
    unfolding r_def by (rule bmatch_pol) (use assms in simp_all)
  moreover have "take 52 (sf1_syms t) = sf1_syms t" by simp
  ultimately show ?thesis using that by metis
qed

lemma toi_search_spec:
  assumes "cache_ok c" "bitarr sb1" "52 \<le> length sb1" "rv = 0 \<or> rv = 1" "\<forall>t \<in> set ts. t < 100"
  shows "\<exists>t. toi_search rv sb1 ts c = (if ts = [] then c else sf1_cache, t) \<and>
    (if \<exists>u \<in> set ts. take 52 sb1 = map (pol rv) (sf1_syms u)
     then t \<in> set ts \<and> take 52 sb1 = map (pol rv) (sf1_syms t) else t = 100)"
  using assms(1,5)
proof (induction ts arbitrary: c)
  case Nil
  then show ?case by simp
next
  case (Cons a ts)
  obtain r where r: "sync_AFS_SF1_FID0 c sb1 a = (sf1_cache, r)" "rv = r \<longleftrightarrow> take 52 sb1 = map (pol rv) (sf1_syms a)"
    by (rule sync_SF1 [OF Cons.prems(1) _ assms(2,3,4), of a]) (use Cons.prems(2) that in auto)
  show ?case
  proof (cases "rv = r")
    case True
    then show ?thesis using r by auto
  next
    case False
    have "cache_ok sf1_cache" by (simp add: cache_ok_def)
    from Cons.IH [OF this] Cons.prems(2) obtain t where
      t: "toi_search rv sb1 ts sf1_cache = (sf1_cache, t)"
        "if \<exists>u \<in> set ts. take 52 sb1 = map (pol rv) (sf1_syms u)
         then t \<in> set ts \<and> take 52 sb1 = map (pol rv) (sf1_syms t) else t = 100" by auto
    show ?thesis by (rule exI [of _ t]) (use t r False in \<open>auto split: if_splits\<close>)
  qed
qed

lemma sf1_syms_inj: "t < 100 \<Longrightarrow> u < 100 \<Longrightarrow> sf1_syms t = sf1_syms u \<Longrightarrow> t = u"
proof -
  assume tu: "t < 100" "u < 100" "sf1_syms t = sf1_syms u"
  have un: "unat (word_of_nat x :: i32) = x" if "x < 100" for x
    using that by (simp add: unsigned_of_nat take_bit_nat_eq_self)
  have lt: "(word_of_nat x :: i32) < 128" if "x < 100" for x
    using un [OF that] that by (simp add: word_less_nat_alt)
  have "(word_of_nat t :: i32) = word_of_nat u"
    using BCH_args_eq [of 0 0 "word_of_nat t" "word_of_nat u"] tu lt by (simp add: sf1_syms_BCH)
  then show "t = u" using un tu(1,2) by metis
qed

text \<open>The search finds the time of interval that was sent.\<close>

lemma toi_search_found:
  assumes "cache_ok c" "bitarr sb1" "52 \<le> length sb1" "rv = 0 \<or> rv = 1" "t < 100" "take 52 sb1 = map (pol rv) (sf1_syms t)"
  shows "toi_search rv sb1 [0..<100] c = (sf1_cache, t)"
proof -
  have "\<exists>u. toi_search rv sb1 [0..<100] c = (sf1_cache, u) \<and> u < 100 \<and> take 52 sb1 = map (pol rv) (sf1_syms u)"
    using toi_search_spec [OF assms(1-4), of "[0..<100]"] assms(5,6) by (auto split: if_splits)
  then obtain u where u: "toi_search rv sb1 [0..<100] c = (sf1_cache, u)" "u < 100" "take 52 sb1 = map (pol rv) (sf1_syms u)"
    by blast
  have "map (pol rv) (map (pol rv) (sf1_syms t)) = map (pol rv) (map (pol rv) (sf1_syms u))"
    using assms(6) u(3) by simp
  then have "sf1_syms t = sf1_syms u" by (simp add: comp_def)
  with sf1_syms_inj assms(5) u show ?thesis by blast
qed

section \<open>Deinterleaving and depuncturing\<close>

lemma sf234_deinterleave:
  assumes "6000 \<le> length ss"
  shows "sf234_of ss rv = deinterleave (map (pol rv) (take 6000 ss))"
proof -
  have "map (\<lambda>j. ss ! (j * 60 + i + 120) XOR word_of_int rv) [0..<98] =
      map (\<lambda>j. map (pol rv) (take 6000 ss) ! (j * 60 + i + 120)) [0..<98]" if "i < 60" for i
    using assms that by (auto simp: pol_def)
  then show ?thesis unfolding sf234_of_def deinterleave_def by (intro arg_cong [of _ _ concat] map_cong) auto
qed

lemma rcv_received:
  assumes "length c = 5880"
  shows "rcv_sf2 c = received_sb2 c" "rcv_sf34 c 2400 = received_sb34 (drop 2400 c)" "rcv_sf34 c 4140 = received_sb34 (drop 4140 c)"
proof -
  have e: "AFSD_ERASURE = ERASURE" by (simp add: AFSD_ERASURE_def ERASURE_def)
  have s: "map (\<lambda>i. c ! (i + off)) [0..<694] = take 694 (drop off c)"
    "map (\<lambda>i. c ! (i + off + 694)) [0..<1046] = take 1046 (drop 694 (drop off c))" if "off + 1740 \<le> 5880" for off
    using assms that slice_map [of off 694 c] slice_map [of "off + 694" 1046 c] by (simp_all add: ac_simps)
  show "rcv_sf2 c = received_sb2 c" "rcv_sf34 c 2400 = received_sb34 (drop 2400 c)" "rcv_sf34 c 4140 = received_sb34 (drop 4140 c)"
    unfolding rcv_sf2_def rcv_sf34_def received_sb2_def received_sb34_def e using s [of 2400] s [of 4140] assms
    by (simp_all add: slice_map0)
qed

section \<open>Fields of the data and the CRC\<close>

lemma bit_getbitu:
  assumes "len \<le> 32"
  shows "bit (getbitu buff pos len) k \<longleftrightarrow> k < len \<and> bit (buff ! ((pos + len - 1 - k) div 8)) (7 - (pos + len - 1 - k) mod 8)"
  using assms
proof (induction len arbitrary: k)
  case 0
  then show ?case by (simp add: getbitu_def)
next
  case (Suc len)
  let ?b = "ucast (drop_bit (7 - (pos + len) mod 8) (buff ! ((pos + len) div 8))) AND 1 :: u32"
  have b: "bit ?b i \<longleftrightarrow> i = 0 \<and> bit (buff ! ((pos + len) div 8)) (7 - (pos + len) mod 8)" for i
    by (auto simp: bit_and_iff bit_unsigned_iff bit_drop_bit_eq bit_1_iff dest: bit_imp_le_length)
  have "push_bit 1 (getbitu buff pos len) AND ?b = 0"
    by (rule bit_eqI) (unfold bit_and_iff bit_push_bit_iff b, auto simp: bit_1_iff)
  then have "getbitu buff pos (Suc len) = push_bit 1 (getbitu buff pos len) OR ?b"
    by (simp add: getbitu_def disjunctive_add_eq_or)
  moreover have "bit (push_bit 1 (getbitu buff pos len)) k \<longleftrightarrow> 1 \<le> k \<and> k < 32 \<and> bit (getbitu buff pos len) (k - 1)"
    unfolding bit_push_bit_iff by (auto dest: bit_imp_le_length)
  ultimately have step: "bit (getbitu buff pos (Suc len)) k \<longleftrightarrow>
      1 \<le> k \<and> k < 32 \<and> bit (getbitu buff pos len) (k - 1) \<or> k = 0 \<and> bit (buff ! ((pos + len) div 8)) (7 - (pos + len) mod 8)"
    by (simp only: bit_or_iff b)
  have IH: "bit (getbitu buff pos len) (k - 1) \<longleftrightarrow>
      k - 1 < len \<and> bit (buff ! ((pos + len - 1 - (k - 1)) div 8)) (7 - (pos + len - 1 - (k - 1)) mod 8)"
    by (rule Suc.IH) (use Suc.prems in simp)
  show ?case
  proof (cases "k = 0")
    case True
    then show ?thesis unfolding step by simp
  next
    case False
    then have "pos + len - 1 - (k - 1) = pos + Suc len - 1 - k" "k - 1 < len \<longleftrightarrow> k < Suc len" by linarith+
    then show ?thesis unfolding step IH using False Suc.prems by auto
  qed
qed

text \<open>The number that bits \<open>pos\<close> to \<open>pos + len - 1\<close> of packed bits form, highest first.\<close>

lemma getbitu_packed:
  assumes "bitarr bits" "n \<le> length bits" "nz \<le> pos" "pos + len \<le> nz + n" "len \<le> 32"
  shows "bit (getbitu (sdr_pack_bits bits n nz) pos len) k \<longleftrightarrow> k < len \<and> bits ! (pos - nz + len - 1 - k) \<noteq> 0"
proof (cases "k < len")
  case True
  let ?i = "pos + len - 1 - k"
  have "?i div 8 < (nz + n + 7) div 8" using assms(4) True by (auto intro!: div_le_mono less_mult_imp_div_less simp: less_eq_div_iff_mult_less_eq)
  from bit_sdr_pack_bits [OF assms(1,2) this, of "7 - ?i mod 8"]
  have "bit (sdr_pack_bits bits n nz ! (?i div 8)) (7 - ?i mod 8) \<longleftrightarrow> bits ! (?i - nz) \<noteq> 0"
    unfolding bytes_index using assms(3,4) True by auto
  moreover have "?i - nz = pos - nz + len - 1 - k" using assms(3) True by linarith
  ultimately show ?thesis using bit_getbitu [OF assms(5)] True by simp
qed (simp add: bit_getbitu [OF assms(5)])

lemma test_CRC_remainder:
  assumes "bitarr bits" "len \<le> length bits" "24 \<le> len"
  shows "test_CRC bits len \<longleftrightarrow> crc_bits 0 (bools (take len bits)) = 0"
proof -
  define N where "N = (len - 24 + 7) div 8 * 8"
  let ?d = "take (len - 24) bits" and ?c = "take 24 (drop (len - 24) bits)"
  let ?buff = "sdr_pack_bits bits len (N + 24 - len)"
  have N: "len - 24 \<le> N" unfolding N_def by presburger
  have c: "length ?c = 24" using assms by simp
  have split: "take len bits = ?d @ ?c" using assms(3) take_add [of "len - 24" 24 bits] by simp
  have lb: "N div 8 \<le> length ?buff" using assms(3) N by simp
  have crc: "rtk_crc24q ?buff (N div 8) = crc_bits 0 (bools ?d)"
    unfolding rtk_crc24q_crc_bits [OF lb] packed_data_bits [OF assms, folded N_def] crc_bits_lead0 ..
  have "bits24 (getbitu ?buff N 24) = bools ?c"
  proof (rule nth_equalityI)
    fix i assume "i < length (bits24 (getbitu ?buff N 24))"
    then have i: "i < 24" by simp
    have "bit (getbitu ?buff N 24) (23 - i) \<longleftrightarrow> 23 - i < 24 \<and> bits ! (N - (N + 24 - len) + 24 - 1 - (23 - i)) \<noteq> 0"
      by (rule getbitu_packed [OF assms(1,2)]) (use N assms(3) in linarith)+
    moreover have "N - (N + 24 - len) + 24 - 1 - (23 - i) = len - 24 + i" using N assms(3) i by linarith
    moreover have "bools ?c ! i = (bits ! (len - 24 + i) \<noteq> 0)" using i assms(2,3) by simp
    moreover have "23 - i < (24 :: nat)" by linarith
    ultimately show "bits24 (getbitu ?buff N 24) ! i = bools ?c ! i" using i by (simp only: nth_bits24 simp_thms)
  qed (use c in simp)
  moreover have "crc_top (bits24 (getbitu ?buff N 24)) = getbitu ?buff N 24"
    by (rule crc_top_bits24) (simp add: bit_getbitu)
  moreover have "crc_top (bits24 (crc_bits 0 (bools ?d))) = crc_bits 0 (bools ?d)"
    by (rule crc_top_bits24) (metis crc_bits_less not_less)
  ultimately have "crc_bits 0 (bools ?d) = getbitu ?buff N 24 \<longleftrightarrow> bools ?c = bits24 (crc_bits 0 (bools ?d))" by metis
  also have "\<dots> \<longleftrightarrow> crc_bits 0 (bools ?d @ bools ?c) = 0" using crc_residue [of "bools ?c" "bools ?d"] c by simp
  finally show ?thesis unfolding test_CRC_def Let_def N_def [symmetric] crc split by (simp del: bools_take bools_drop crc_bits_simps)
qed

end
