(* ===== verification/Sdr_Nav_Afs_Inv.thy ===== *)
theory Sdr_Nav_Afs_Inv
  imports Sdr_Nav_Afs_Lemmas
begin

text \<open>
  The receiver over a sequence of symbols: the invariant of its state, that every call returns, and
  what a frame in the symbol buffer does to the channel.
\<close>

section \<open>The invariant\<close>

text \<open>
  The buffers have their sizes, and while the channel is synchronised to frames its navigation data
  is a block of subframe 2 that satisfies the parity checks and has the right CRC.
\<close>

definition sb2_data :: "u8 list \<Rightarrow> bool" where
  "sb2_data d \<longleftrightarrow> (\<exists>x. length x = 6240 \<and> bitarr x \<and> parity_ok SF2_H 5040 6240 x \<and>
     crc_bits 0 (bools (take 1200 x)) = 0 \<and> take 150 d = sdr_pack_bits (take 1200 x) 1200 0)"

definition nav_wf :: "sdr_nav_t \<Rightarrow> bool" where
  "nav_wf n \<longleftrightarrow> length (syms n) = SDR_MAX_NSYM \<and> bitarr (syms n) \<and> length (data n) = SDR_MAX_DATA \<and>
     length (count n) = 2 \<and> (nav_rev n = 0 \<or> nav_rev n = 1) \<and>
     (fsync n > 0 \<longrightarrow> 0 \<le> seq n \<and> seq n < 100 \<and> sb2_data (data n))"

definition rx_ok :: "rx \<Rightarrow> bool" where
  "rx_ok s \<longleftrightarrow> dec_ok (ldpc s) \<and> cache_ok (AFS_SF1 s) \<and>
     (AFSD_SP_SYMS s = None \<or> AFSD_SP_SYMS s = Some (sdr_unpack_bits afsd_sp 68)) \<and>
     length (AFS_DETAIL_LOG_COUNT s) = 210 \<and> nav_wf (ch_nav (ch s))"

section \<open>Fields the steps keep\<close>

lemma update_tow_nav [simp]: "ch_nav (update_tow c t) = ch_nav c" "week (update_tow c t) = week c" "lock (update_tow c t) = lock c"
  by (simp_all add: update_tow_def)

lemma accept_sb2_nav:
  "ch_nav (accept_sb2 toi rv x c) = (ch_nav c)\<lparr>ssync := lock c, fsync := lock c, nav_rev := rv, seq := int toi, nerr := 0,
     nav_type := 2, data := memcpy_at (data (ch_nav c)) 0 (sdr_pack_bits x 1200 0), stat := 1,
     count := (count (ch_nav c))[0 := count (ch_nav c) ! 0 + 1]\<rparr>"
  "week (accept_sb2 toi rv x c) = uint (getbitu (sdr_pack_bits x 1200 0) 0 13)"
  by (simp_all add: accept_sb2_def Let_def)

lemma reject_sb2_nav:
  "ch_nav (reject_sb2 c) = (ch_nav c)\<lparr>fsync := 0, ssync := 0, nav_rev := 0, coff := 0,
     count := (count (ch_nav c))[1 := count (ch_nav c) ! 1 + 1]\<rparr>"
  by (simp add: reject_sb2_def unsync_nav_def Let_def)

lemma unsync_nav_nav: "ch_nav (unsync_nav c) = (ch_nav c)\<lparr>fsync := 0, ssync := 0, nav_rev := 0, coff := 0\<rparr>"
  by (simp add: unsync_nav_def)

lemmas nav_fields = accept_sb2_nav reject_sb2_nav unsync_nav_nav

lemma nav_wf_unsync: "nav_wf (ch_nav c) \<Longrightarrow> nav_wf (ch_nav (unsync_nav c))"
  by (simp add: nav_wf_def nav_fields)

lemma nav_wf_reject: "nav_wf (ch_nav c) \<Longrightarrow> nav_wf (ch_nav (reject_sb2 c))"
  by (simp add: nav_wf_def nav_fields)

lemma sdr_pack_bits_take: "sdr_pack_bits (take n b) n nz = sdr_pack_bits b n nz"
  unfolding sdr_pack_bits_def by (rule foldl_or_at_cong) auto

lemma nav_wf_accept:
  assumes "nav_wf (ch_nav c)" "toi < 100" "rv = 0 \<or> rv = 1"
    and x: "length x = 6240" "bitarr x" "parity_ok SF2_H 5040 6240 x" "crc_bits 0 (bools (take 1200 x)) = 0"
    and dw: "take 1200 dw = take 1200 x" "length dw = 5040"
  shows "nav_wf (ch_nav (accept_sb2 toi rv dw c))"
proof -
  have "sdr_pack_bits dw 1200 0 = sdr_pack_bits (take 1200 x) 1200 0"
    using sdr_pack_bits_take [of 1200 dw] dw(1) by simp
  then have "sb2_data (memcpy_at (data (ch_nav c)) 0 (sdr_pack_bits dw 1200 0))"
    unfolding sb2_data_def by (intro exI [of _ x] conjI) (use x in \<open>simp_all add: memcpy_at_def\<close>)
  with assms(1-3) show ?thesis by (simp add: nav_wf_def nav_fields SDR_MAX_DATA_def)
qed

section \<open>A frame\<close>

lemma decode_B_LDPC_word:
  assumes "check_counts lib" "blocks_ok lib" "mat_rel h H 5040 6240 SF2_H"
    and "decode_B_LDPC lib h H 5040 6240 rcv = (r, dw)" "0 \<le> r"
  obtains x where "length x = 6240" "bitarr x" "parity_ok SF2_H 5040 6240 x" "dw = take 5040 x"
proof -
  let ?l = "map (\<lambda>i. LRATIO ! unat (rcv ! i)) [0..<6240]"
  let ?d = "prprp_decode lib h H ?l"
  have d: "length ?d = 6240" "bitarr ?d" using assms(2) by (auto simp: blocks_ok_def)
  have "dw = take 5040 ?d" "check_blk lib h H ?d = 0"
    using assms(4,5) by (auto simp: decode_B_LDPC_def Let_def split: if_splits)
  with that [OF d] check_counts_zero [OF assms(1,3)] show ?thesis by blast
qed

lemma decode_frame_returns:
  assumes lib: "check_counts lib" "blocks_ok lib" and ok: "rx_ok s" and ss: "bitarr ss" "6068 \<le> length ss" and rv: "rv = 0 \<or> rv = 1"
  shows "\<exists>s'. decode_AFSD_frame lib ss rv s = Inr s' \<and> rx_ok s'"
proof -
  have dok: "dec_ok (ldpc s)" and cok: "cache_ok (AFS_SF1 s)" using ok by (auto simp: rx_ok_def)
  have sb1: "bitarr (drop 68 ss)" "52 \<le> length (drop 68 ss)" using ss by (simp_all add: bitarr_drop)
  obtain toi where toi: "toi_search rv (drop 68 ss) [0..<100] (AFS_SF1 s) = (sf1_cache, toi)" "toi = 100 \<or> toi < 100"
    using toi_search_spec [OF cok sb1 rv, of "[0..<100]"] by (auto split: if_splits)
  define s1 where "s1 = s\<lparr>AFS_SF1 := sf1_cache\<rparr>"
  have dok1: "dec_ok (ldpc s1)" using dok by (simp add: s1_def)
  have ok1: "rx_ok s1" using ok by (simp add: rx_ok_def s1_def cache_ok_def)
  show ?thesis
  proof (cases "toi = 100")
    case True
    have "decode_AFSD_frame lib ss rv s = Inr (s1\<lparr>ch := unsync_nav (ch s1)\<rparr>)"
      unfolding decode_AFSD_frame_def toi(1) Let_def prod.case True s1_def by simp
    moreover have "rx_ok (s1\<lparr>ch := unsync_nav (ch s1)\<rparr>)" using ok1 nav_wf_unsync by (simp add: rx_ok_def)
    ultimately show ?thesis by blast
  next
    case False
    let ?c = "sf234_of ss rv"
    obtain d2 H where 2: "sdr_decode_LDPC_AFS_SF2 lib (rcv_sf2 ?c) (ldpc s1) =
        Inr (d2, decode_B_LDPC lib (dhp d2) H 5040 6240 (rcv_sf2 ?c))" "mat_rel (dhp d2) H 5040 6240 SF2_H" "dec_ok d2"
      using decode_SF2_ok [OF dok1] by metis
    obtain r dw where x: "decode_B_LDPC lib (dhp d2) H 5040 6240 (rcv_sf2 ?c) = (r, dw)" by fastforce
    define s2 where "s2 = (if r \<ge> 0 \<and> test_CRC dw 1200
      then s1\<lparr>ldpc := d2, AFS_DETAIL_LOG_COUNT := count_detail_log (prn (ch s1)) (AFS_DETAIL_LOG_COUNT s1),
              ch := accept_sb2 toi rv dw (ch s1)\<rparr>
      else s1\<lparr>ldpc := d2, ch := reject_sb2 (ch s1)\<rparr>)"
    have l2: "ldpc s2 = d2" by (simp add: s2_def)
    obtain d3 y3 where 3: "sdr_decode_LDPC_AFS_SF3 lib (rcv_sf34 ?c 2400) d2 = Inr (d3, y3)" "dec_ok d3"
      using decode_SF3_ok [OF 2(3)] by metis
    obtain d4 y4 where 4: "sdr_decode_LDPC_AFS_SF3 lib (rcv_sf34 ?c 4140) d3 = Inr (d4, y4)" "dec_ok d4"
      using decode_SF3_ok [OF 3(2)] by metis
    have res: "decode_AFSD_frame lib ss rv s = Inr (s2\<lparr>ldpc := d4\<rparr>)"
      unfolding decode_AFSD_frame_def toi(1) Let_def prod.case s1_def [symmetric] 2(1) x res_bind_simps
        s2_def [symmetric] l2 3(1) 4(1)
      using False by (cases y3; cases y4) simp
    have "nav_wf (ch_nav (ch s2))"
    proof (cases "r \<ge> 0 \<and> test_CRC dw 1200")
      case True
      obtain w where w: "length w = 6240" "bitarr w" "parity_ok SF2_H 5040 6240 w" "dw = take 5040 w"
        by (rule decode_B_LDPC_word [OF lib 2(2) x]) (use True that in auto)
      have "bitarr dw" "1200 \<le> length dw" using w by (simp_all add: bitarr_take)
      then have "crc_bits 0 (bools (take 1200 dw)) = 0" using True test_CRC_remainder [of dw 1200] by simp
      moreover have t: "take 1200 dw = take 1200 w" using w by (simp add: min_def)
      ultimately have "nav_wf (ch_nav (accept_sb2 toi rv dw (ch s1)))"
        by (intro nav_wf_accept [OF _ _ rv w(1-3)]) (use ok1 False toi(2) w in \<open>auto simp: rx_ok_def\<close>)
      then show ?thesis using True by (simp add: s2_def)
    next
      case False
      then have "ch s2 = reject_sb2 (ch s1)" by (auto simp: s2_def)
      then show ?thesis using ok1 nav_wf_reject by (simp add: rx_ok_def)
    qed
    moreover have "AFS_SF1 s2 = AFS_SF1 s1" "AFSD_SP_SYMS s2 = AFSD_SP_SYMS s1"
      "length (AFS_DETAIL_LOG_COUNT s2) = length (AFS_DETAIL_LOG_COUNT s1)"
      by (simp_all add: s2_def count_detail_log_def)
    ultimately have "rx_ok (s2\<lparr>ldpc := d4\<rparr>)" using ok1 4(2) by (simp add: rx_ok_def)
    with res show ?thesis by blast
  qed
qed

section \<open>One symbol\<close>

text \<open>The state after the symbol is added, and the symbols of the last frame.\<close>

definition rx_sym :: "rx \<Rightarrow> u8" where
  "rx_sym s = (if trk_P (ch s) ! (SDR_N_HIST - 1) \<ge> 0 then 1 else 0)"

definition rx_push :: "rx \<Rightarrow> rx" where
  "rx_push s = s\<lparr>AFSD_SP_SYMS := Some (sdr_unpack_bits afsd_sp 68),
     ch := (ch s)\<lparr>ch_nav := (ch_nav (ch s))\<lparr>syms := sdr_add_buff (syms (ch_nav (ch s))) SDR_MAX_NSYM (rx_sym s)\<rparr>\<rparr>\<rparr>"

definition last_frame :: "rx \<Rightarrow> u8 list" where
  "last_frame s = drop (SDR_MAX_NSYM - 6068) (sdr_add_buff (syms (ch_nav (ch s))) SDR_MAX_NSYM (rx_sym s))"

definition rx_sync :: "rx \<Rightarrow> int" where
  "rx_sync s = sync_frame (sdr_unpack_bits afsd_sp 68) 68 0 (last_frame s) 6000"

lemma add_buff_bits:
  "length b = n \<Longrightarrow> 0 < n \<Longrightarrow> length (sdr_add_buff b n x) = n"
  "bitarr b \<Longrightarrow> x = 0 \<or> x = 1 \<Longrightarrow> bitarr (sdr_add_buff b n x)"
  by (simp_all add: sdr_add_buff_def bitarr_take bitarr_drop)

lemma rx_push_ok: "rx_ok s \<Longrightarrow> rx_ok (rx_push s)"
  by (simp add: rx_ok_def rx_push_def nav_wf_def add_buff_bits SDR_MAX_NSYM_def rx_sym_def)

lemma last_frame_bits:
  assumes "rx_ok s" shows "bitarr (last_frame s)" "length (last_frame s) = 6068"
  using assms add_buff_bits(1) [of "syms (ch_nav (ch s))" SDR_MAX_NSYM "rx_sym s"]
    add_buff_bits(2) [of "syms (ch_nav (ch s))" "rx_sym s" SDR_MAX_NSYM]
  by (simp_all add: rx_ok_def nav_wf_def last_frame_def bitarr_drop SDR_MAX_NSYM_def rx_sym_def)

text \<open>The three things a call can do: nothing but take the symbol, lose the frame, decode it.\<close>

lemma decode_AFSD_cases:
  assumes "rx_ok s"
  shows "decode_AFSD lib s =
    (let n = ch_nav (ch s); l = lock (ch s) in
     if fsync n > 0 then
       if l = fsync n + 6000 then
         if rx_sync s = nav_rev n then decode_AFSD_frame lib (last_frame s) (rx_sync s) (rx_push s) else Inr (rx_push s)
       else if l > fsync n + 6000 then Inr ((rx_push s)\<lparr>ch := unsync_nav (ch (rx_push s))\<rparr>)
       else Inr (rx_push s)
     else if l \<ge> 6568 \<and> rx_sync s \<ge> 0 then decode_AFSD_frame lib (last_frame s) (rx_sync s) (rx_push s)
     else Inr (rx_push s))"
proof -
  have sp: "(if AFSD_SP_SYMS s = None then s\<lparr>AFSD_SP_SYMS := Some (sdr_unpack_bits afsd_sp 68)\<rparr> else s) =
      s\<lparr>AFSD_SP_SYMS := Some (sdr_unpack_bits afsd_sp 68)\<rparr>"
    using assms by (auto simp: rx_ok_def)
  show ?thesis unfolding decode_AFSD_def sp
    by (simp add: Let_def rx_push_def last_frame_def rx_sym_def rx_sync_def)
qed

lemma sync_frame_values: "sync_frame p n m b N = 0 \<or> sync_frame p n m b N = 1 \<or> sync_frame p n m b N = -1"
  by (simp add: sync_frame_def)

lemma decode_AFSD_returns:
  assumes lib: "check_counts lib" "blocks_ok lib" and ok: "rx_ok s"
  shows "\<exists>s'. decode_AFSD lib s = Inr s' \<and> rx_ok s'"
proof -
  have rv: "rx_sync s = 0 \<or> rx_sync s = 1 \<or> rx_sync s = -1" unfolding rx_sync_def by (rule sync_frame_values)
  have nr: "nav_rev (ch_nav (ch s)) = 0 \<or> nav_rev (ch_nav (ch s)) = 1" using ok by (simp add: rx_ok_def nav_wf_def)
  have fr: "\<exists>s'. decode_AFSD_frame lib (last_frame s) (rx_sync s) (rx_push s) = Inr s' \<and> rx_ok s'"
    if "rx_sync s = 0 \<or> rx_sync s = 1"
    by (rule decode_frame_returns [OF lib rx_push_ok [OF ok] last_frame_bits(1) [OF ok] _ that])
      (simp add: last_frame_bits(2) [OF ok])
  have un: "rx_ok ((rx_push s)\<lparr>ch := unsync_nav (ch (rx_push s))\<rparr>)"
    using rx_push_ok [OF ok] nav_wf_unsync by (simp add: rx_ok_def)
  show ?thesis
    unfolding decode_AFSD_cases [OF ok] Let_def using fr un rx_push_ok [OF ok] rv nr by (auto split: if_splits)
qed

section \<open>A transmitted frame\<close>

lemma sync_frame_found:
  assumes sp: "bitarr sp" "length sp = n" "0 < n" and rv: "rv = 0 \<or> rv = 1"
    and b: "take n b = map (pol rv) sp" "take n (drop N b) = map (pol rv) sp" and len: "n \<le> length b" "N + n \<le> length b"
  shows "sync_frame sp n 0 b N = rv"
proof -
  have at: "b ! i = pol rv (sp ! i)" "drop N b ! i = pol rv (sp ! i)" if "i < n" for i
    using that sp(2) len arg_cong [OF b(1), of "\<lambda>l. l ! i"] arg_cong [OF b(2), of "\<lambda>l. l ! i"] by simp_all
  have sb: "sp ! i = 0 \<or> sp ! i = 1" if "i < n" for i using bitarr_nthD [OF sp(1)] that sp(2) by simp
  from rv show ?thesis
  proof
    assume "rv = 0"
    then show ?thesis using at by (simp add: sync_frame_def bmatch_exact)
  next
    assume r: "rv = 1"
    have "pol 1 (sp ! i) \<noteq> sp ! i" if "i < n" for i using pol_1 [OF sb sb] that by blast
    then have "bmatch_r sp b n 0" "bmatch_r sp (drop N b) n 0" "\<not> bmatch_n sp b n 0"
      using at sp(3) r by (auto simp: bmatch_exact) metis+
    then show ?thesis by (simp add: sync_frame_def r)
  qed
qed

lemma afsd_sync: "sdr_unpack_bits afsd_sp 68 = unpack sync_bytes 68"
  by (simp add: unpack_eq afsd_sp_def sync_bytes_def)

lemma sf1_syms_u8: "t < 100 \<Longrightarrow> sf1_syms t = generate_BCH_AFS_SF1 0 (ucast (word_of_nat t :: u8))"
proof -
  assume t: "t < 100"
  have "unat (ucast (word_of_nat t :: u8) :: i32) = t"
    using t by (simp add: unsigned_ucast_eq unsigned_of_nat take_bit_nat_eq_self)
  moreover have "unat (word_of_nat t :: i32) = t" using t by (simp add: unsigned_of_nat take_bit_nat_eq_self)
  ultimately have "(ucast (word_of_nat t :: u8) :: i32) = word_of_nat t" by (simp add: word_unat_eq_iff)
  then show ?thesis by (simp add: sf1_syms_BCH)
qed

lemma toi_search_take: "toi_search rv (take 52 sb1) ts c = toi_search rv sb1 ts c"
proof (induction ts arbitrary: c)
  case (Cons t ts)
  have "bmatch_n (take 52 sb1) y 52 0 = bmatch_n sb1 y 52 0" "bmatch_r (take 52 sb1) y 52 0 = bmatch_r sb1 y 52 0" for y
    by (simp_all add: bmatch_exact)
  then have "sync_AFS_SF1_FID0 c (take 52 sb1) t = sync_AFS_SF1_FID0 c sb1 t"
    by (simp only: sync_AFS_SF1_FID0_def)
  then show ?case using Cons.IH by (simp split: prod.split)
qed simp

lemma toi_search_frame:
  assumes "cache_ok c" "rv = 0 \<or> rv = 1" "toi < 100" "take 6000 ss = map (pol rv) (frame_of (word_of_nat toi) d2 d3 d4)"
  shows "toi_search rv (drop 68 ss) [0..<100] c = (sf1_cache, toi)"
proof -
  have "take 52 (drop 68 (take 6000 ss)) = map (pol rv) (sf1_syms toi)"
    unfolding assms(4) by (simp add: frame_of_def sf1_syms_u8 [OF assms(3)])
  then have b: "take 52 (drop 68 ss) = map (pol rv) (sf1_syms toi)" by (simp add: take_drop min_def)
  have "toi_search rv (take 52 (drop 68 ss)) [0..<100] c = (sf1_cache, toi)"
    unfolding b by (rule toi_search_found [OF assms(1) _ _ assms(2,3)]) (use bitarr_pol [OF bitarr_sf1_syms assms(2)] in simp_all)
  then show ?thesis by (simp only: toi_search_take)
qed

lemma sf234_frame:
  assumes "length d2 = 1176" "length d3 = 846" "length d4 = 846" "6000 \<le> length ss"
    "take 6000 ss = map (pol rv) (frame_of toi d2 d3 d4)"
  shows "sf234_of ss rv = sb2_symbols d2 @ sb34_symbols d3 @ sb34_symbols d4"
proof -
  have "sf234_of ss rv = deinterleave (frame_of toi d2 d3 d4)"
    unfolding sf234_deinterleave [OF assms(4)] assms(5) by (simp add: comp_def)
  also have "\<dots> = sb2_symbols d2 @ sb34_symbols d3 @ sb34_symbols d4"
    unfolding frame_of_def append_assoc [symmetric] by (rule deinterleave_interleave) (use assms in simp_all)
  finally show ?thesis .
qed

lemma decode_SF2_recovered:
  assumes lib: "check_counts lib" "changed_counts lib" and dok: "dec_ok d0" and d: "bitarr d2" "length d2 = 1176"
    and rec: "recovers lib SF2_H 5040 6240 rcv (SF2_codeword (with_crc d2))"
  obtains d1 r dw where "sdr_decode_LDPC_AFS_SF2 lib rcv d0 = Inr (d1, r, dw)" "0 \<le> r" "dec_ok d1"
    "take 1200 dw = with_crc d2" "test_CRC dw 1200"
proof -
  let ?x = "SF2_codeword (with_crc d2)"
  obtain d1 H where e: "sdr_decode_LDPC_AFS_SF2 lib rcv d0 = Inr (d1, decode_B_LDPC lib (dhp d1) H 5040 6240 rcv)"
      "mat_rel (dhp d1) H 5040 6240 SF2_H" "dec_ok d1"
    using decode_SF2_ok [OF dok] by metis
  have par: "parity_ok SF2_H 5040 6240 ?x" by (rule SF2_parity) (use d in simp)
  obtain r where r: "decode_B_LDPC lib (dhp d1) H 5040 6240 rcv = (r, take 5040 ?x)" "0 \<le> r"
    using decode_recovered [OF lib rec par e(2)] by blast
  have tk: "take 1200 (take 5040 ?x) = with_crc d2" using d by (simp add: SF2_codeword_def min_def)
  have bits: "bitarr ?x" "length ?x = 6240"
    using d by (simp_all add: SF2_codeword_def SF2_p1_def SF2_p2_def bitarr_xor_list)
  have "crc_bits 0 (bools (with_crc d2)) = 0" unfolding with_crc_def by (simp add: crc_residue del: crc_bits_simps)
  then have "test_CRC (take 5040 ?x) 1200"
    using test_CRC_remainder [of "take 5040 ?x" 1200] bits tk by (simp add: bitarr_take del: bools_take)
  then show ?thesis using that e r tk by metis
qed

lemma decode_AFSD_frame_accepts:
  assumes lib: "check_counts lib" "changed_counts lib" and ok: "rx_ok s" and rv: "rv = 0 \<or> rv = 1" and toi: "toi < 100"
    and d: "bitarr d2" "length d2 = 1176" "length d3 = 846" "length d4 = 846"
    and ss: "6000 \<le> length ss" "take 6000 ss = map (pol rv) (frame_of (word_of_nat toi) d2 d3 d4)"
    and rec: "recovers lib SF2_H 5040 6240 (received_sb2 (sb2_symbols d2)) (SF2_codeword (with_crc d2))"
  shows "\<exists>e dw. take 1200 dw = with_crc d2 \<and> decode_AFSD_frame lib ss rv s =
    Inr (s\<lparr>AFS_SF1 := sf1_cache, ldpc := e, AFS_DETAIL_LOG_COUNT := count_detail_log (prn (ch s)) (AFS_DETAIL_LOG_COUNT s),
           ch := accept_sb2 toi rv dw (ch s)\<rparr>)"
proof -
  have dok: "dec_ok (ldpc s)" and cok: "cache_ok (AFS_SF1 s)" using ok by (auto simp: rx_ok_def)
  note t = toi_search_frame [OF cok rv toi ss(2)]
  have c: "sf234_of ss rv = sb2_symbols d2 @ sb34_symbols d3 @ sb34_symbols d4" by (rule sf234_frame [OF d(2-4) ss])
  have r2: "rcv_sf2 (sf234_of ss rv) = received_sb2 (sb2_symbols d2)"
    using rcv_received(1) [of "sf234_of ss rv"] d unfolding c by (simp add: received_sb2_def)
  obtain e2 r dw where 2: "sdr_decode_LDPC_AFS_SF2 lib (rcv_sf2 (sf234_of ss rv)) (ldpc s) = Inr (e2, r, dw)" "0 \<le> r" "dec_ok e2"
    "take 1200 dw = with_crc d2" "test_CRC dw 1200"
    by (rule decode_SF2_recovered [OF lib dok d(1,2) rec, folded r2]) (rule that)
  obtain e3 y3 where 3: "sdr_decode_LDPC_AFS_SF3 lib (rcv_sf34 (sf234_of ss rv) 2400) e2 = Inr (e3, y3)" "dec_ok e3"
    using decode_SF3_ok [OF 2(3)] by metis
  obtain e4 y4 where 4: "sdr_decode_LDPC_AFS_SF3 lib (rcv_sf34 (sf234_of ss rv) 4140) e3 = Inr (e4, y4)"
    using decode_SF3_ok [OF 3(2)] by metis
  have "decode_AFSD_frame lib ss rv s =
    Inr (s\<lparr>AFS_SF1 := sf1_cache, ldpc := e4, AFS_DETAIL_LOG_COUNT := count_detail_log (prn (ch s)) (AFS_DETAIL_LOG_COUNT s),
           ch := accept_sb2 toi rv dw (ch s)\<rparr>)"
    unfolding decode_AFSD_frame_def t Let_def prod.case using toi 2 3 4 by (cases y3; cases y4) simp
  with 2(4) show ?thesis by blast
qed

end
