(* ===== verification/Sdr_Nav_Afs_Props.thy ===== *)
theory Sdr_Nav_Afs_Props
  imports Sdr_Nav_Afs_Inv Codec_Instances
begin

text \<open>
  The properties of the receiver: it decodes what the transmitter sends, in either polarity; whatever
  symbols arrive it returns and keeps its invariant; how it loses a frame; and the time of week, which
  the conversion from floating point can make a millisecond early.
\<close>

section \<open>Sequences of symbols\<close>

text \<open>
  Between two calls the tracking loop sets correlations, lock count and time of week, resets the
  frame synchronisation when the signal is lost, and the receiver reads the status.
\<close>

definition rx_init :: "sdr_ch_t \<Rightarrow> rx" where
  "rx_init c = \<lparr>AFSD_SP_SYMS = None, AFS_SF1 = replicate 100 None, AFS_DETAIL_LOG_COUNT = replicate 210 0,
     ldpc = dec0, ch = c\<lparr>ch_nav := (sdr_nav_init (ch_nav c))\<lparr>count := [0, 0]\<rparr>\<rparr>\<rparr>"

definition rx_track :: "rat list \<Rightarrow> int \<Rightarrow> int \<Rightarrow> rx \<Rightarrow> rx" where
  "rx_track P l t s = s\<lparr>ch := (ch s)\<lparr>trk_P := P, lock := l, tow := t\<rparr>\<rparr>"

definition rx_lost :: "rx \<Rightarrow> rx" where
  "rx_lost s = s\<lparr>ch := (ch s)\<lparr>lock := 0, ch_nav := (ch_nav (ch s))\<lparr>ssync := 0, fsync := 0, nav_rev := 0\<rparr>\<rparr>\<rparr>"

definition rx_read :: "rx \<Rightarrow> rx" where
  "rx_read s = s\<lparr>ch := (ch s)\<lparr>ch_nav := (ch_nav (ch s))\<lparr>stat := 0\<rparr>\<rparr>\<rparr>"

inductive rx_reach :: "ldpc_lib \<Rightarrow> rx \<Rightarrow> bool" for lib where
  init: "rx_reach lib (rx_init c)"
| symbol: "rx_reach lib s \<Longrightarrow> decode_AFSD lib (rx_track P l t s) = Inr s' \<Longrightarrow> rx_reach lib s'"
| lost: "rx_reach lib s \<Longrightarrow> rx_reach lib (rx_lost s)"
| read: "rx_reach lib s \<Longrightarrow> rx_reach lib (rx_read s)"

inductive_cases rx_reachE: "rx_reach lib s"

lemma rx_env_ok:
  "rx_ok (rx_init c)" "rx_ok s \<Longrightarrow> rx_ok (rx_track P l t s)" "rx_ok s \<Longrightarrow> rx_ok (rx_lost s)" "rx_ok s \<Longrightarrow> rx_ok (rx_read s)"
  by (simp_all add: rx_ok_def rx_init_def rx_track_def rx_lost_def rx_read_def nav_wf_def sdr_nav_init_def cache_ok_def)

lemma rx_reach_ok:
  assumes lib: "check_counts lib" "blocks_ok lib"
  shows "rx_reach lib s \<Longrightarrow> rx_ok s"
proof (induction rule: rx_reach.induct)
  case (symbol s P l t s')
  from decode_AFSD_returns [OF lib rx_env_ok(2) [OF symbol.IH, of P l t]] symbol.hyps(2) show ?case by auto
qed (simp_all add: rx_env_ok)

section \<open>Properties\<close>

lemma sync_pattern_here:
  assumes "rx_ok s" "rv = 0 \<or> rv = 1" "last_frame s = map (pol rv) (frame_of toi d2 d3 d4 @ unpack sync_bytes 68)"
  shows "rx_sync s = rv" "take 6000 (last_frame s) = map (pol rv) (frame_of toi d2 d3 d4)" "6000 \<le> length (last_frame s)"
proof -
  have "take 6000 (last_frame s) = map (pol rv) (frame_of toi d2 d3 d4)"
    and d6: "drop 6000 (last_frame s) = map (pol rv) (unpack sync_bytes 68)"
    unfolding assms(3) map_append by simp_all
  moreover have t68: "take 68 (last_frame s) = map (pol rv) (unpack sync_bytes 68)"
    unfolding assms(3) frame_of_def by simp
  moreover have len: "length (last_frame s) = 6068" by (rule last_frame_bits(2) [OF assms(1)])
  moreover have "rx_sync s = rv"
    unfolding rx_sync_def afsd_sync by (rule sync_frame_found) (use assms(2) t68 d6 len in simp_all)
  ultimately show "rx_sync s = rv" "take 6000 (last_frame s) = map (pol rv) (frame_of toi d2 d3 d4)"
    "6000 \<le> length (last_frame s)" by simp_all
qed

lemma receiver_accepts:
  assumes "check_counts lib" "changed_counts lib" "rx_ok s" "rv = 0 \<or> rv = 1" "toi < 100"
    "bitarr d2" "length d2 = 1176" "length d3 = 846" "length d4 = 846"
    and frame: "last_frame s = map (pol rv) (frame_of (word_of_nat toi) d2 d3 d4 @ unpack sync_bytes 68)"
    and due: "fsync (ch_nav (ch s)) \<le> 0 \<and> 6568 \<le> lock (ch s) \<or>
      0 < fsync (ch_nav (ch s)) \<and> lock (ch s) = fsync (ch_nav (ch s)) + 6000 \<and> nav_rev (ch_nav (ch s)) = rv"
    and rec: "recovers lib SF2_H 5040 6240 (received_sb2 (sb2_symbols d2)) (SF2_codeword (with_crc d2))"
  shows "\<exists>e dw. take 1200 dw = with_crc d2 \<and> decode_AFSD lib s = Inr ((rx_push s)\<lparr>AFS_SF1 := sf1_cache, ldpc := e,
      AFS_DETAIL_LOG_COUNT := count_detail_log (prn (ch (rx_push s))) (AFS_DETAIL_LOG_COUNT (rx_push s)),
      ch := accept_sb2 toi rv dw (ch (rx_push s))\<rparr>)"
proof -
  note f = sync_pattern_here [OF assms(3,4) frame]
  have "decode_AFSD lib s = decode_AFSD_frame lib (last_frame s) rv (rx_push s)"
    unfolding decode_AFSD_cases [OF assms(3)] Let_def using due assms(4) f(1) by auto
  with decode_AFSD_frame_accepts [OF assms(1,2) rx_push_ok [OF assms(3)] assms(4-9) f(3,2) rec] show ?thesis by simp
qed

text \<open>
  C2: the receiver decodes what the transmitter sends, when the LDPC library finds the codeword sent for
  subframe 2 (\<open>recovers\<close>) and reports its counts as documented. Let the last 6068 symbols be a frame of the
  encoder, with a time of interval below 100, and the synchronisation pattern of the next one, all upright or
  all inverted. When the channel is not synchronised yet and is past its first 6568 symbols, in either
  polarity, or when it is synchronised, exactly one frame after its last one, and the frame has the same
  polarity as that one (a frame of the other polarity is dropped by the code), the call accepts subframe 2:
  time of interval, polarity, week and the 150 bytes of data are those of the frame, and the channel is
  synchronised at this symbol.
\<close>

theorem receiver_decodes:
  assumes "check_counts lib" "changed_counts lib" "rx_ok s" "rv = 0 \<or> rv = 1" "toi < 100"
    "bitarr d2" "length d2 = 1176" "length d3 = 846" "length d4 = 846"
    and frame: "last_frame s = map (pol rv) (frame_of (word_of_nat toi) d2 d3 d4 @ unpack sync_bytes 68)"
    and due: "fsync (ch_nav (ch s)) \<le> 0 \<and> 6568 \<le> lock (ch s) \<or>
      0 < fsync (ch_nav (ch s)) \<and> lock (ch s) = fsync (ch_nav (ch s)) + 6000 \<and> nav_rev (ch_nav (ch s)) = rv"
    and rec: "recovers lib SF2_H 5040 6240 (received_sb2 (sb2_symbols d2)) (SF2_codeword (with_crc d2))"
  shows "\<exists>s'. decode_AFSD lib s = Inr s' \<and> seq (ch_nav (ch s')) = int toi \<and> nav_rev (ch_nav (ch s')) = rv \<and>
    fsync (ch_nav (ch s')) = lock (ch s) \<and> stat (ch_nav (ch s')) = 1 \<and>
    take 150 (data (ch_nav (ch s'))) = sdr_pack_bits (with_crc d2) 1200 0 \<and>
    week (ch s') = uint (getbitu (sdr_pack_bits (with_crc d2) 1200 0) 0 13)"
proof -
  obtain e dw where f: "take 1200 dw = with_crc d2" "decode_AFSD lib s = Inr ((rx_push s)\<lparr>AFS_SF1 := sf1_cache, ldpc := e,
      AFS_DETAIL_LOG_COUNT := count_detail_log (prn (ch (rx_push s))) (AFS_DETAIL_LOG_COUNT (rx_push s)),
      ch := accept_sb2 toi rv dw (ch (rx_push s))\<rparr>)"
    using receiver_accepts [OF assms] by blast
  have p: "sdr_pack_bits dw 1200 0 = sdr_pack_bits (with_crc d2) 1200 0"
    using sdr_pack_bits_take [of 1200 dw] f(1) by simp
  have "length (data (ch_nav (ch (rx_push s)))) = 4096"
    using rx_push_ok [OF assms(3)] by (simp add: rx_ok_def nav_wf_def SDR_MAX_DATA_def)
  then show ?thesis unfolding f(2) by (simp add: nav_fields p memcpy_at_def) (simp add: rx_push_def)
qed

text \<open>A receiver whose buffer holds the frame of zeros but for its last symbol.\<close>

definition zero_syms :: "u8 list" where
  "zero_syms = frame_of 7 (replicate 1176 0) (replicate 846 0) (replicate 846 0) @ unpack sync_bytes 68"

definition rx1 :: rx where
  "rx1 = (rx_init undefined)\<lparr>ch := \<lparr>prn = 8, week = 0, tow = -1, tow_v = 0, lock = 7000, trk_P = replicate 5000 (-1),
     ch_nav = (sdr_nav_init undefined)\<lparr>count := [0, 0], syms := replicate 733 0 @ butlast zero_syms\<rparr>\<rparr>\<rparr>"

lemma zero_syms_bits: "length zero_syms = 6068" "bitarr zero_syms" "last zero_syms = 0"
proof -
  show "length zero_syms = 6068" by (simp add: zero_syms_def)
  show "bitarr zero_syms" by (simp add: zero_syms_def bitarr_frame_of)
  have "last zero_syms = unpack sync_bytes 68 ! 67"
    using length_unpack [of sync_bytes 68] by (simp add: zero_syms_def last_append last_conv_nth flip: length_0_conv)
  then show "last zero_syms = 0" by (simp add: unpack_def sync_bytes_def)
qed

lemma rx1_fields:
  "fsync (ch_nav (ch rx1)) = 0" "lock (ch rx1) = 7000" "lock (ch (rx_push s)) = lock (ch s)"
  by (simp_all add: rx1_def sdr_nav_init_def rx_push_def)

lemma map_pol_0: "map (pol 0) xs = xs"
  by (rule map_idI) (simp add: pol_def)

lemma rx1_ok: "rx_ok rx1"
proof -
  have "bitarr (butlast zero_syms)" using zero_syms_bits(2) by (simp add: butlast_conv_take bitarr_take)
  then show ?thesis
    using zero_syms_bits(1) by (simp add: rx1_def rx_ok_def rx_init_def nav_wf_def sdr_nav_init_def cache_ok_def SDR_MAX_NSYM_def)
qed

lemma rx1_frame: "last_frame rx1 = zero_syms"
proof -
  have "butlast zero_syms @ [0] = zero_syms"
    using append_butlast_last_id [of zero_syms] zero_syms_bits by (metis list.size(3) zero_neq_numeral)
  then show ?thesis
    using zero_syms_bits(1)
    by (simp add: last_frame_def rx1_def rx_sym_def sdr_add_buff_def SDR_MAX_NSYM_def SDR_N_HIST_def sdr_nav_init_def)
qed

lemma rx1_accepts:
  "\<exists>e dw. take 1200 dw = replicate 1200 0 \<and> decode_AFSD zero_lib rx1 = Inr ((rx_push rx1)\<lparr>AFS_SF1 := sf1_cache, ldpc := e,
      AFS_DETAIL_LOG_COUNT := count_detail_log (prn (ch (rx_push rx1))) (AFS_DETAIL_LOG_COUNT (rx_push rx1)),
      ch := accept_sb2 7 0 dw (ch (rx_push rx1))\<rparr>)"
  using receiver_accepts [OF zero_lib_check zero_lib_rest(1) rx1_ok, of 0 7 "replicate 1176 0" "replicate 846 0" "replicate 846 0"]
    zero_lib_recovers
  by (simp add: rx1_frame rx1_fields zero_syms_def with_crc_zeros codewords_zero map_pol_0)

theorem receiver_decodes_witness:
  "\<exists>s'. decode_AFSD zero_lib rx1 = Inr s' \<and> seq (ch_nav (ch s')) = 7 \<and> fsync (ch_nav (ch s')) = 7000 \<and>
    stat (ch_nav (ch s')) = 1 \<and> take 150 (data (ch_nav (ch s'))) = sdr_pack_bits (replicate 1200 0) 1200 0"
  using receiver_decodes [OF zero_lib_check zero_lib_rest(1) rx1_ok, of 0 7 "replicate 1176 0" "replicate 846 0" "replicate 846 0"]
    zero_lib_recovers
  by (simp add: rx1_frame rx1_fields zero_syms_def with_crc_zeros codewords_zero map_pol_0) blast

text \<open>
  C12: whatever symbols arrive, whenever the signal is lost and however the tracking loop moves the lock
  count, the receiver never fails: the next call returns, the buffers keep their sizes, and while the
  channel is synchronised its data is a block of subframe 2 that satisfies every parity check and has
  the right CRC.
\<close>

theorem receiver_invariant:
  assumes "check_counts lib" "blocks_ok lib" "rx_reach lib s"
  shows "(\<exists>s'. decode_AFSD lib (rx_track P l t s) = Inr s' \<and> rx_reach lib s') \<and>
    length (syms (ch_nav (ch s))) = 6800 \<and> length (data (ch_nav (ch s))) = 4096 \<and>
    (fsync (ch_nav (ch s)) > 0 \<longrightarrow> seq (ch_nav (ch s)) < 100 \<and> sb2_data (data (ch_nav (ch s))))"
proof -
  have ok: "rx_ok s" by (rule rx_reach_ok [OF assms])
  obtain s' where "decode_AFSD lib (rx_track P l t s) = Inr s'"
    using decode_AFSD_returns [OF assms(1,2) rx_env_ok(2) [OF ok]] by blast
  then show ?thesis
    using rx_reach.symbol [OF assms(3)] ok by (auto simp: rx_ok_def nav_wf_def SDR_MAX_NSYM_def SDR_MAX_DATA_def)
qed

theorem receiver_invariant_witness:
  "\<exists>s'. decode_AFSD zero_lib (rx_track (replicate 5000 1) 1 (-1) (rx_init (ch rx1))) = Inr s' \<and> rx_reach zero_lib s'"
  using receiver_invariant [OF zero_lib_check zero_lib_rest(2) rx_reach.init] by blast

text \<open>
  Between the frames of a synchronised channel a call only takes the symbol; when the pattern is
  missing or inverted where the next frame should end, the frame is skipped; and one symbol later the
  channel is no longer synchronised and its time of week is invalid.
\<close>

theorem receiver_between_frames:
  assumes "rx_ok s" "0 < fsync (ch_nav (ch s))"
  shows "(lock (ch s) < fsync (ch_nav (ch s)) + 6000 \<longrightarrow> decode_AFSD lib s = Inr (rx_push s)) \<and>
    (lock (ch s) = fsync (ch_nav (ch s)) + 6000 \<and> rx_sync s \<noteq> nav_rev (ch_nav (ch s)) \<longrightarrow> decode_AFSD lib s = Inr (rx_push s)) \<and>
    (lock (ch s) > fsync (ch_nav (ch s)) + 6000 \<longrightarrow>
      (\<exists>s'. decode_AFSD lib s = Inr s' \<and> fsync (ch_nav (ch s')) = 0 \<and> tow (ch s') = -1 \<and> tow_v (ch s') = 0 \<and>
        syms (ch_nav (ch s')) = syms (ch_nav (ch (rx_push s)))))"
  unfolding decode_AFSD_cases [OF assms(1)] Let_def using assms(2) by (simp add: unsync_nav_def)

theorem receiver_between_frames_witness:
  "\<exists>s'. (\<exists>s. decode_AFSD zero_lib rx1 = Inr s \<and>
    decode_AFSD zero_lib (rx_track (replicate 5000 1) 20000 5 s) = Inr s') \<and> fsync (ch_nav (ch s')) = 0 \<and> tow (ch s') = -1"
proof -
  obtain s where s: "decode_AFSD zero_lib rx1 = Inr s" "rx_ok s"
    using decode_AFSD_returns [OF zero_lib_check zero_lib_rest(2) rx1_ok] by blast
  have f: "fsync (ch_nav (ch s)) = 7000" using rx1_accepts s(1) by (auto simp: nav_fields rx1_fields)
  from receiver_between_frames [OF rx_env_ok(2) [OF s(2)], of "replicate 5000 1" 20000 5 zero_lib] f s(1)
  show ?thesis by (fastforce simp: rx_track_def)
qed

end
