(* ===== verification/Sdr_Nav_Afs_Tow.thy ===== *)
theory Sdr_Nav_Afs_Tow
  imports Sdr_Nav_Afs_Inv
begin

text \<open>
  The time of week the receiver computes from a frame: it is a sum of doubles, divided by the double
  nearest to 0.001 and cut to an integer. The rounding errors stay far below a millisecond, but the
  cut turns an error to below into a whole millisecond.
\<close>

section \<open>The sum and the quotient\<close>

text \<open>The time in milliseconds the frame means.\<close>

definition frame_tow :: "int \<Rightarrow> nat \<Rightarrow> int" where
  "frame_tow itow toi = 1200000 * itow + 12000 * int toi + 136"

lemma afsd_tow_seconds:
  assumes "0 \<le> itow" "itow < 512" "toi < 100"
  shows "afsd_tow itow toi = dbl (of_int (1200 * itow + 12 * int toi) + dbl (17 / 125))"
proof -
  have "dbl (of_int itow * 1200) = of_int (itow * 1200)" "dbl (of_int (int toi) * 12) = of_int (int toi * 12)"
    using dbl_int [of "itow * 1200"] dbl_int [of "int toi * 12"] assms by simp_all
  then have "afsd_tow itow toi = dbl (dbl (of_int (itow * 1200 + int toi * 12)) + dbl (17 / 125))"
    by (simp add: afsd_tow_def dadd_def dmul_def)
  then show ?thesis using dbl_int [of "itow * 1200 + int toi * 12"] assms by (simp add: algebra_simps)
qed

lemma tiny: "(1 :: rat) / 2 ^ 1000 \<le> 1 / 2 ^ 20"
  by (intro divide_left_mono power_increasing) auto

lemma dbl_close:
  assumes "1 / 2 ^ 20 \<le> x" "x < 2 ^ 53"
  shows "x - x / 2 ^ 53 \<le> dbl x" "dbl x \<le> x + x / 2 ^ 53"
proof -
  have "\<bar>dbl x - x\<bar> \<le> x / 2 ^ 53" by (rule dbl_error [OF order_trans [OF tiny assms(1)] assms(2)])
  then show "x - x / 2 ^ 53 \<le> dbl x" "dbl x \<le> x + x / 2 ^ 53" unfolding abs_diff_le_iff by simp_all
qed

lemma sum_bounds:
  fixes N a b :: rat
  assumes "17 / 125 - 17 / 125 / 2 ^ 53 \<le> a" "a \<le> 17 / 125 + 17 / 125 / 2 ^ 53"
    "N + a - (N + a) / 2 ^ 53 \<le> b" "b \<le> N + a + (N + a) / 2 ^ 53" "0 \<le> N" "N \<le> 614388"
  shows "1000 * (N + 17 / 125) - 1 / 2 ^ 21 \<le> 1000 * b" "1000 * b \<le> 1000 * (N + 17 / 125) + 1 / 2 ^ 21"
  using assms by (simp_all add: field_simps)

lemma product_bounds:
  fixes T b y :: rat
  assumes "T / 1000 - T / 1000 / 2 ^ 53 \<le> y" "y \<le> T / 1000 + T / 1000 / 2 ^ 53"
    "T - 1 / 2 ^ 21 \<le> 1000 * b" "1000 * b \<le> T + 1 / 2 ^ 21" "136 \<le> T" "T \<le> 2 ^ 30"
  shows "y - 1 / 16000 \<le> b" "b \<le> y + 1 / 16000"
  using assms by (simp_all add: field_simps)

lemma quotient_range:
  fixes T q :: rat
  assumes "T - 1 / 8 \<le> q" "q \<le> T + 1 / 8" "136 \<le> T" "T \<le> 2 ^ 30"
  shows "1 / 2 ^ 20 \<le> q" "q < 2 ^ 53"
  using assms by simp_all

lemma quotient_bounds:
  fixes T q y :: rat
  assumes "T - 1 / 8 \<le> q" "q \<le> T + 1 / 8" "q - q / 2 ^ 53 \<le> y" "y \<le> q + q / 2 ^ 53" "136 \<le> T" "T \<le> 2 ^ 30"
  shows "T - 1 / 4 \<le> y" "y \<le> T + 1 / 4"
  using assms by (simp_all add: field_simps)

lemma afsd_tow_error:
  assumes "0 \<le> itow" "itow < 512" "toi < 100"
  shows "\<bar>1000 * afsd_tow itow toi - of_int (frame_tow itow toi)\<bar> \<le> 1 / 2 ^ 21"
proof -
  define N :: rat where "N = of_int (1200 * itow + 12 * int toi)"
  have "of_int 0 \<le> N" "N \<le> of_int 614388" unfolding N_def of_int_le_iff using assms by linarith+
  then have N: "0 \<le> N" "N \<le> 614388" by simp_all
  have a: "17 / 125 - 17 / 125 / 2 ^ 53 \<le> dbl (17 / 125)" "dbl (17 / 125) \<le> 17 / 125 + 17 / 125 / 2 ^ 53"
    by (rule dbl_close; simp)+
  have "1 / 2 ^ 20 \<le> N + dbl (17 / 125)" "N + dbl (17 / 125) < 2 ^ 53" using a N by simp_all
  note b = dbl_close [OF this]
  have "of_int (frame_tow itow toi) = 1000 * (N + 17 / 125)" by (simp add: N_def frame_tow_def)
  with sum_bounds [OF a b N] show ?thesis
    unfolding afsd_tow_seconds [OF assms] N_def [symmetric] abs_diff_le_iff by simp
qed

lemma quotient_error:
  fixes b T :: rat
  assumes b: "\<bar>1000 * b - T\<bar> \<le> 1 / 2 ^ 21" and T: "136 \<le> T" "T \<le> 2 ^ 30"
  shows "\<bar>ddiv b (dbl (1 / 1000)) - T\<bar> \<le> 1 / 4"
proof -
  define d where "d = dbl (1 / 1000)"
  have d: "1 / 1000 - 1 / 1000 / 2 ^ 53 \<le> d" "d \<le> 1 / 1000 + 1 / 1000 / 2 ^ 53"
    unfolding d_def by (rule dbl_close; simp)+
  then have pos: "1 / 2000 \<le> d" by simp
  have "T * (1 / 1000 - 1 / 1000 / 2 ^ 53) \<le> T * d" "T * d \<le> T * (1 / 1000 + 1 / 1000 / 2 ^ 53)"
    using d T by (intro mult_left_mono; simp)+
  then have "T / 1000 - T / 1000 / 2 ^ 53 \<le> T * d" "T * d \<le> T / 1000 + T / 1000 / 2 ^ 53"
    by (simp_all only: right_diff_distrib distrib_left) simp_all
  then have "T * d - 1 / 16000 \<le> b" "b \<le> T * d + 1 / 16000"
    using b T unfolding abs_diff_le_iff by (blast intro: product_bounds)+
  then have "(T - 1 / 8) * d \<le> b" "b \<le> (T + 1 / 8) * d" using pos by (simp_all add: algebra_simps)
  then have q: "T - 1 / 8 \<le> b / d" "b / d \<le> T + 1 / 8" using pos by (simp_all only: le_divide_eq divide_le_eq) auto
  from quotient_bounds [OF q dbl_close [OF quotient_range [OF q T]] T] show ?thesis
    unfolding ddiv_def d_def [symmetric] abs_diff_le_iff by blast
qed

lemma int_of_close:
  assumes "\<bar>x - of_int T\<bar> \<le> (1 / 4 :: rat)" "1 \<le> T"
  shows "int_of_dbl x = T \<or> int_of_dbl x = T - 1"
proof -
  have "(1 :: rat) \<le> of_int T" using assms(2) by simp
  then have "\<not> x < 0" "of_int (T - 1) \<le> x" "x < of_int (T + 1)" using assms(1) unfolding abs_diff_le_iff by simp_all
  then have "T - 1 \<le> \<lfloor>x\<rfloor>" "\<lfloor>x\<rfloor> < T + 1" "int_of_dbl x = \<lfloor>x\<rfloor>"
    by (simp_all only: le_floor_iff floor_less_iff int_of_dbl_def if_False)
  then show ?thesis by auto
qed

lemma frame_tow_ms:
  assumes "0 \<le> itow" "itow < 512" "toi < 100"
  shows "int_of_dbl (ddiv (afsd_tow itow toi) (dbl (1 / 1000))) \<in> {frame_tow itow toi - 1, frame_tow itow toi}"
proof -
  have "frame_tow itow toi \<le> 2 ^ 30" "136 \<le> frame_tow itow toi" using assms by (simp_all add: frame_tow_def)
  then have "(of_int 136 :: rat) \<le> of_int (frame_tow itow toi)" "(of_int (frame_tow itow toi) :: rat) \<le> of_int (2 ^ 30)"
    by (simp_all only: of_int_le_iff)
  then have "\<bar>ddiv (afsd_tow itow toi) (dbl (1 / 1000)) - of_int (frame_tow itow toi)\<bar> \<le> 1 / 4"
    using quotient_error [OF afsd_tow_error [OF assms]] by simp
  from int_of_close [OF this] show ?thesis using assms by (auto simp: frame_tow_def)
qed

lemma getbitu_less:
  assumes "len \<le> 32" shows "uint (getbitu buff pos len) < 2 ^ len"
proof -
  have "take_bit len (getbitu buff pos len) = getbitu buff pos len"
    by (rule bit_eqI) (use assms in \<open>auto simp: bit_take_bit_iff bit_getbitu\<close>)
  then have "uint (getbitu buff pos len) = take_bit len (uint (getbitu buff pos len))"
    by (metis unsigned_take_bit_eq)
  then show ?thesis by (metis take_bit_int_less_exp)
qed

lemma accept_sb2_tow:
  "tow (accept_sb2 toi rv x c) =
     (let t = int_of_dbl (ddiv (afsd_tow (uint (getbitu (sdr_pack_bits x 1200 0) 13 9)) toi) (dbl (1 / 1000)))
      in if tow c \<le> 0 \<or> tow c = t then t else -1)"
  by (simp add: accept_sb2_def Let_def update_tow_def)

section \<open>Properties\<close>

text \<open>
  C39: a channel without a time of week takes from an accepted subframe 2 the time the frame means or
  one millisecond less, and never more or earlier, for every value of the interval and of the time of
  interval.
\<close>

theorem tow_of_frame:
  assumes "toi < 100" "tow c \<le> 0"
  shows "tow (accept_sb2 toi rv x c) \<in>
    {frame_tow (uint (getbitu (sdr_pack_bits x 1200 0) 13 9)) toi - 1, frame_tow (uint (getbitu (sdr_pack_bits x 1200 0) 13 9)) toi}"
  using frame_tow_ms [OF _ _ assms(1), of "uint (getbitu (sdr_pack_bits x 1200 0) 13 9)"]
    getbitu_less [of 9 "sdr_pack_bits x 1200 0" 13] assms(2)
  unfolding accept_sb2_tow Let_def by simp

theorem tow_of_frame_witness:
  "tow (accept_sb2 7 0 (replicate 1200 0) \<lparr>prn = 8, week = 0, tow = -1, tow_v = 0, lock = 7000, trk_P = [], ch_nav = sdr_nav_init undefined\<rparr>) \<in>
    {frame_tow (uint (getbitu (sdr_pack_bits (replicate 1200 0) 1200 0) 13 9)) 7 - 1,
     frame_tow (uint (getbitu (sdr_pack_bits (replicate 1200 0) 1200 0) 13 9)) 7}"
  by (rule tow_of_frame) simp_all

text \<open>The first frame of the week after the one of time 0, in doubles.\<close>

lemma second_frame_ms: "int_of_dbl (ddiv (afsd_tow 0 (Suc 0)) (dbl (1 / 1000))) = 12135"
proof -
  have a: "dbl (17 / 125) = of_int 4899916394579100 / 2 ^ 55" by (rule dbl_near) simp_all
  have b: "afsd_tow 0 (Suc 0) = of_int 6831960634721042 / 2 ^ 49"
    unfolding afsd_tow_seconds [of 0 "Suc 0", simplified] a by (rule dbl_near) simp_all
  have d: "dbl (1 / 1000) = of_int 4611686018427388 / 2 ^ 62" by (rule dbl_near) simp_all
  have "ddiv (afsd_tow 0 (Suc 0)) (dbl (1 / 1000)) = of_int 6671836557344767 / 2 ^ 39"
    unfolding b d ddiv_def by (rule dbl_near) simp_all
  then show ?thesis by (simp add: int_of_dbl_def floor_eq_iff)
qed

text \<open>
  The second frame of the week means 12.136 seconds and the channel gets 12135 milliseconds; a channel
  that already counts the right time, from an earlier frame, then finds a mismatch and its time of week
  becomes invalid.
\<close>

theorem tow_millisecond_early:
  "frame_tow 0 1 = 12136 \<and> tow (update_tow (c\<lparr>tow := -1\<rparr>) (afsd_tow 0 1)) = 12135 \<and>
   tow (update_tow (c\<lparr>tow := 12136, tow_v := 1\<rparr>) (afsd_tow 0 1)) = -1 \<and>
   tow_v (update_tow (c\<lparr>tow := 12136, tow_v := 1\<rparr>) (afsd_tow 0 1)) = 0"
  by (simp add: update_tow_def second_frame_ms frame_tow_def)

end
