(* ===== verification/Afs_Rand.thy ===== *)
theory Afs_Rand
  imports Afs_Prelude
begin

text \<open>
  The noise generator of the simulator (\<open>afs_rand.c\<close>): a 32-bit xorshift generator whose state is the
  static word \<open>rng_state\<close>, and \<open>randn\<close>, the scaled sum of six of its outputs. The lemmas show that a
  state other than 0 never becomes 0 (from 0 the generator would produce 0 forever) and that two states
  never lead to the same one.
\<close>

section \<open>The generator\<close>

text \<open>\<open>int\<close> holds every value: the sum of six 16-bit numbers stays below \<open>2 ^ 19\<close>.\<close>

definition N_SAMPLES :: nat where
  "N_SAMPLES = 6"

definition rng_state0 :: u32 where
  "rng_state0 = 1"

definition xorshift32 :: "u32 \<Rightarrow> u32 \<times> u32" where
  "xorshift32 s = (let x = s;
     x = x XOR push_bit 13 x;
     x = x XOR drop_bit 17 x;
     x = x XOR push_bit 5 x in (x, x))"

definition randn_step :: "u32 \<times> int \<Rightarrow> nat \<Rightarrow> u32 \<times> int" where
  "randn_step = (\<lambda>(s, acc) i. let (s', x) = xorshift32 s in (s', acc + uint (x AND 0xFFFF)))"

definition randn :: "u32 \<Rightarrow> u32 \<times> int" where
  "randn s =
     (let (s, acc) = foldl randn_step (s, 0) [0..<N_SAMPLES];
          midpoint = (65535 * int N_SAMPLES) div 2;
          scaled = acc - midpoint;
          scaled = scaled div 2 ^ 5
      in (s, if scaled > 32767 then 32767 else if scaled < -32768 then -32768 else scaled))"

definition srandn :: "u32 \<Rightarrow> u32" where
  "srandn seed = (if seed = 0 then 1 else seed)"

section \<open>The step is one to one\<close>

lemma xor_push_bit_eq_0:
  assumes "x XOR push_bit n x = (0 :: u32)" "0 < n" shows "x = 0"
proof (rule bit_eqI)
  fix k
  have step: "bit x j \<longleftrightarrow> n \<le> j \<and> bit x (j - n)" if "j < 32" for j
    using arg_cong [OF assms(1), of "\<lambda>w. bit w j"] that by (auto simp: bit_simps)
  have "j < 32 \<longrightarrow> \<not> bit x j" for j
  proof (induction j rule: less_induct)
    case (less j)
    show ?case
    proof (cases "n \<le> j")
      case True
      then show ?thesis using less.IH [of "j - n"] step [of j] assms(2) by simp
    next
      case False
      then show ?thesis using step [of j] by blast
    qed
  qed
  then show "bit x k \<longleftrightarrow> bit 0 k" using bit_imp_le_length [of x k] by auto
qed

lemma xor_drop_bit_eq_0:
  assumes "x XOR drop_bit n x = (0 :: u32)" "0 < n" shows "x = 0"
proof (rule bit_eqI)
  fix k
  have step: "bit x j \<longleftrightarrow> bit x (n + j)" for j
    using arg_cong [OF assms(1), of "\<lambda>w. bit w j"] bit_imp_le_length [of x "n + j"] by (auto simp: bit_simps)
  have "\<not> bit x j" if "32 - m \<le> j" for m j
    using that
  proof (induction m arbitrary: j)
    case 0
    then show ?case using bit_imp_le_length [of x j] by auto
  next
    case (Suc m)
    then have "32 - m \<le> n + j" using assms(2) by simp
    then show ?case using Suc.IH step by blast
  qed
  from this [of 32 k] show "bit x k \<longleftrightarrow> bit 0 k" by simp
qed

lemma xor_shift_distrib:
  "push_bit n (x XOR y) = push_bit n x XOR push_bit n (y :: u32)" "drop_bit n (x XOR y) = drop_bit n x XOR drop_bit n (y :: u32)"
  by (rule bit_eqI; auto simp: bit_simps)+

lemma xorshift_linear: "fst (xorshift32 (x XOR y)) = fst (xorshift32 x) XOR fst (xorshift32 y)"
  unfolding xorshift32_def Let_def fst_conv by (simp only: xor_shift_distrib ac_simps)

lemma xorshift_eq_0_iff: "fst (xorshift32 x) = 0 \<longleftrightarrow> x = 0"
  unfolding xorshift32_def Let_def fst_conv using xor_push_bit_eq_0 [of _ 5] xor_drop_bit_eq_0 [of _ 17] xor_push_bit_eq_0 [of _ 13]
  by (metis push_bit_of_0 drop_bit_of_0 xor.left_neutral zero_less_numeral)

lemma word_xor_eq_0: "x XOR y = (0 :: 'a :: len word) \<longleftrightarrow> x = y"
  by (metis xor.assoc xor.right_neutral xor_self_eq)

lemma xorshift_inj: "fst (xorshift32 x) = fst (xorshift32 y) \<Longrightarrow> x = y"
  using xorshift_eq_0_iff [of "x XOR y"] by (simp add: xorshift_linear word_xor_eq_0)

section \<open>The sum\<close>

lemma randn_step_eq: "randn_step (s, acc) i = (fst (xorshift32 s), acc + uint (snd (xorshift32 s) AND 0xFFFF))"
  by (simp add: randn_step_def split_beta)

lemma randn_loop:
  assumes "s \<noteq> 0" "foldl randn_step (s, 0) [0..<n] = (s', acc)"
  shows "s' \<noteq> 0 \<and> 0 \<le> acc \<and> acc \<le> 65535 * int n"
  using assms(2)
proof (induction n arbitrary: s' acc)
  case 0
  then show ?case using assms(1) by simp
next
  case (Suc n)
  obtain t u where t: "foldl randn_step (s, 0) [0..<n] = (t, u)"
    by (cases "foldl randn_step (s, 0) [0..<n]")
  have m: "(0xFFFF :: u32) = mask 16" by (simp add: mask_eq_exp_minus_1)
  have "uint (x AND 0xFFFF) \<le> 65535" for x :: u32
    unfolding m using and_mask_less' [of 16 x] by (simp add: word_less_def uint_word_of_int mask_eq_exp_minus_1)
  moreover have "s' = fst (xorshift32 t)" "acc = u + uint (snd (xorshift32 t) AND 0xFFFF)"
    using Suc.prems t randn_step_eq [of t u n] by simp_all
  ultimately show ?case using Suc.IH [OF t] xorshift_eq_0_iff [of t] add_mono [of u "65535 * int n" "uint (snd (xorshift32 t) AND 0xFFFF)" 65535]
    by simp
qed

text \<open>
  The generator of the simulated noise never gets stuck and its clipping is never needed: the
  initial state and every seeded state differ from 0, and from such a state each call of \<open>randn\<close> leaves a state other than 0 and returns a number from -6144 to
  6143, the sum of six 16-bit outputs centred and divided by 32; and the step of the generator maps
  no two states to the same one.
\<close>

theorem randn_range:
  assumes "s \<noteq> 0"
  shows "rng_state0 \<noteq> 0 \<and> srandn seed \<noteq> 0 \<and>
    fst (randn s) \<noteq> 0 \<and> -6144 \<le> snd (randn s) \<and> snd (randn s) \<le> 6143 \<and>
    (fst (xorshift32 s) = fst (xorshift32 t) \<longrightarrow> s = t)"
proof -
  obtain s' u where u: "foldl randn_step (s, 0) [0..<N_SAMPLES] = (s', u)"
    by (cases "foldl randn_step (s, 0) [0..<N_SAMPLES]")
  have "s' \<noteq> 0" "0 \<le> u" "u \<le> 393210" using randn_loop [OF assms u] by (simp_all add: N_SAMPLES_def)
  moreover from this have "-6144 \<le> (u - 196605) div 32" "(u - 196605) div 32 \<le> 6143" by linarith+
  ultimately show ?thesis using xorshift_inj [of s t] by (simp add: rng_state0_def srandn_def randn_def u [unfolded N_SAMPLES_def] N_SAMPLES_def Let_def)
qed

theorem randn_range_witness: "fst (randn 1) \<noteq> 0 \<and> -6144 \<le> snd (randn 1) \<and> snd (randn 1) \<le> 6143"
  using randn_range [of 1 0 1] by simp

end
