(* ===== verification/Afs_Sim_Code.thy ===== *)
theory Afs_Sim_Code
  imports Afs_Prelude
begin

text \<open>
  The spreading codes of the signal simulator (\<open>afs_sim.c\<close>): \<open>icodegen\<close> writes the 2046 chips of the
  data channel from two shift registers of eleven stages, \<open>qcodegen\<close> the 10230 chips of the pilot
  channel from a Legendre sequence that is computed once and kept, \<open>scode\<close> holds the secondary codes
  and \<open>hex2bin\<close> turns one digit of the file of tertiary codes into four chips. The record
  \<open>sim_codes\<close> holds the static arrays of the two generators. A satellite number whose table entry does
  not exist gives \<open>None\<close>. The lemmas give every chip of the two codes in closed form.
\<close>

section \<open>Tables\<close>

definition delay :: "nat list" where
  "delay = [
    1845, 1071, 170, 2035, 1214, 1292, 1284, 1894, 1537, 735, 561, 1789, 1453, 196, 1040,
    326, 1787, 982, 1030, 1380, 1932, 1188, 390, 714, 303, 1001, 707, 1984, 139, 182,
    1891, 1247, 1434, 2000, 1843, 865, 616, 514, 449, 1173, 24, 1383, 1940, 1594, 1765,
    752, 145, 1615, 1666, 1372, 1634, 1068, 1181, 879, 1153, 1621, 927, 1848, 402, 413,
    1090, 657, 609, 1547, 370, 271, 1353, 635, 299, 697, 152, 678, 1329, 15, 1974,
    1884, 1868, 277, 302, 9, 603, 1583, 848, 1234, 1568, 510, 1303, 1921, 823, 1187,
    1299, 824, 672, 2034, 1388, 13, 223, 1840, 1161, 1132, 365, 2, 924, 1373, 959,
    220, 1542, 188, 264, 453, 68, 715, 75, 1095, 938, 1316, 394, 1156, 166, 969,
    269, 179, 957, 400, 625, 1513, 1796, 100, 1660, 1454, 1613, 1064, 844, 518, 320,
    661, 2031, 694, 1143, 1167, 1885, 833, 1601, 903, 399, 1896, 899, 133, 556, 331,
    198, 212, 1024, 1070, 1972, 1573, 884, 1177, 1691, 533, 480, 751, 447, 734, 973,
    857, 1767, 1548, 1876, 614, 1017, 1978, 275, 1141, 1252, 1952, 1714, 1067, 557, 522,
    1159, 545, 1580, 610, 935, 1134, 780, 691, 1038, 1418, 295, 916, 1654, 624, 706,
    1033, 1633, 790, 1451, 1300, 459, 106, 861, 1541, 114, 1381, 1945, 1069, 242, 356]"

definition weil :: "nat list" where
  "weil = [
    5111, 5109, 5108, 5106, 5103, 5101, 5100, 5098, 5095, 5094, 5093, 5091, 5090, 5081, 5080,
    5069, 5068, 5054, 5044, 5027, 5026, 5014, 5004, 4980, 4915, 4909, 4893, 4885, 4832, 4824,
    4591, 3706, 5092, 4986, 4965, 4920, 4917, 4858, 4847, 4790, 4770, 4318, 4126, 3961, 3790,
    4911, 4881, 4827, 4795, 4789, 4725, 4675, 4539, 4535, 4458, 4197, 4096, 3484, 3481, 3393,
    3175, 2360, 1852, 5065, 5063, 5055, 5012, 4981, 4952, 4934, 4932, 4786, 4762, 4640, 4601,
    4563, 4388, 3820, 3687, 5052, 5051, 5047, 5039, 5015, 5005, 4984, 4975, 4974, 4972, 4962,
    4913, 4907, 4903, 4833, 4778, 4721, 4661, 4660, 4655, 4623, 4590, 4548, 4461, 4442, 4347,
    4259, 4256, 4166, 4155, 4109, 4100, 4023, 3998, 3979, 3903, 3568, 5088, 5050, 5020, 4990,
    4982, 4966, 4949, 4947, 4937, 4935, 4906, 4901, 4872, 4865, 4863, 4818, 4785, 4781, 4776,
    4775, 4754, 4696, 4690, 4658, 4607, 4599, 4596, 4530, 4524, 4451, 4441, 4396, 4340, 4335,
    4296, 4267, 4168, 4149, 4097, 4061, 3989, 3966, 3789, 3775, 3622, 3523, 3515, 3492, 3345,
    3235, 3169, 3157, 3082, 3072, 3032, 3030, 4582, 4595, 4068, 4871, 4514, 4439, 4122, 4948,
    4774, 3923, 3411, 4745, 4195, 4897, 3047, 4185, 4354, 5077, 4042, 2111, 4311, 5024, 4352,
    4678, 5034, 5085, 3646, 4868, 3668, 4211, 2883, 2850, 2815, 2542, 2492, 2376, 2036, 1920]"

definition insert_idx :: "nat list" where
  "insert_idx = [
    412, 161, 1, 303, 207, 4971, 4496, 5, 4557, 485, 253, 4676, 1, 66, 4485,
    282, 193, 5211, 729, 4848, 982, 5955, 9805, 670, 464, 29, 429, 394, 616, 9457,
    4429, 4771, 365, 9705, 9489, 4193, 9947, 824, 864, 347, 677, 6544, 6312, 9804, 278,
    9461, 444, 4839, 4144, 9875, 197, 1156, 4674, 10035, 4504, 5, 9937, 430, 5, 355,
    909, 1622, 6284, 9429, 77, 932, 5973, 377, 10000, 951, 6212, 686, 9352, 5999, 9912,
    9620, 635, 4951, 5453, 4658, 4800, 59, 318, 571, 565, 9947, 4654, 148, 3929, 293,
    178, 10142, 9683, 137, 565, 35, 5949, 2, 5982, 825, 9614, 9790, 5613, 764, 660,
    4870, 4950, 4881, 1151, 9977, 5122, 10074, 4832, 77, 4698, 1002, 5549, 9606, 9228, 604,
    4678, 4854, 4122, 9471, 5026, 272, 1027, 317, 691, 509, 9708, 5033, 9938, 4314, 10140,
    4790, 9823, 6093, 469, 1215, 799, 756, 9994, 4843, 5271, 9661, 6255, 5203, 203, 10070,
    30, 103, 5692, 32, 9826, 76, 59, 6831, 958, 1471, 10070, 553, 5487, 55, 208,
    645, 5268, 1873, 427, 367, 1404, 5652, 5, 368, 451, 9595, 1030, 1324, 692, 9819,
    4520, 9911, 278, 642, 6330, 5508, 1872, 5445, 10131, 422, 4918, 787, 9864, 9753, 9859,
    328, 1, 4733, 164, 135, 174, 132, 538, 176, 198, 595, 574, 321, 596, 491]"

definition insertbit :: "int list" where
  "insertbit = [-1, 1, 1, -1, 1, -1, -1]"

definition scode :: "int list list" where
  "scode = [[1, 1, 1, 0], [0, 1, 1, 1], [1, 0, 1, 1], [1, 1, 0, 1]]"

section \<open>Loops that write an array\<close>

text \<open>\<open>for (i = a; i < b; i++) xs[i] = f(i);\<close>\<close>

definition fill :: "'a list \<Rightarrow> nat \<Rightarrow> nat \<Rightarrow> (nat \<Rightarrow> 'a) \<Rightarrow> 'a list" where
  "fill xs a b f = foldl (\<lambda>c i. c[i := f i]) xs [a..<b]"

section \<open>The data channel\<close>

record sim_codes =
  sim_g1 :: "int list"
  sim_g2 :: "int list"
  sim_legendre :: "int list"

definition sim_codes0 :: sim_codes where
  "sim_codes0 = \<lparr>sim_g1 = replicate 2047 0, sim_g2 = replicate 2047 0, sim_legendre = replicate 10223 0\<rparr>"

text \<open>\<open>for (j = 10; j > 0; j--) r[j] = r[j - 1];  r[0] = c;\<close>\<close>

definition shift_in :: "int \<Rightarrow> int list \<Rightarrow> int list" where
  "shift_in c r = (foldl (\<lambda>r j. r[j := r ! (j - 1)]) r (rev [1..<11]))[0 := c]"

definition icode_step :: "int list \<times> int list \<times> int list \<times> int list \<Rightarrow> nat \<Rightarrow>
    int list \<times> int list \<times> int list \<times> int list" where
  "icode_step = (\<lambda>(g1, g2, r1, r2) i.
     (g1[i := r1 ! 10], g2[i := r2 ! 10],
      shift_in (r1 ! 1 * r1 ! 10) r1, shift_in (r2 ! 1 * r2 ! 4 * r2 ! 7 * r2 ! 10) r2))"

definition icodegen :: "sim_codes \<Rightarrow> int list \<Rightarrow> int \<Rightarrow> (sim_codes \<times> int list) option" where
  "icodegen st code prn =
     (if 1 \<le> prn \<and> prn \<le> 210 then
        let r = fill (replicate 11 0) 0 11 (\<lambda>i. -1);
            (g1, g2, r1, r2) = foldl icode_step (sim_g1 st, sim_g2 st, r, r) [0..<2047];
            j = 2047 - delay ! nat (prn - 1)
        in Some (st\<lparr>sim_g1 := g1, sim_g2 := g2\<rparr>,
             fill code 0 2046 (\<lambda>i. g1 ! i * g2 ! ((j + i) mod 2047)))
      else None)"

section \<open>The pilot channel\<close>

definition gen_legendre_sequence :: "int list \<Rightarrow> int list" where
  "gen_legendre_sequence leg =
     (foldl (\<lambda>l i. l[(i * i) mod 10223 := -1]) (fill leg 0 10223 (\<lambda>i. 1)) [0..<10224])[0 := 1]"

definition weil_chips :: "int list \<Rightarrow> nat \<Rightarrow> int list" where
  "weil_chips leg w = fill (replicate 10223 0) 0 10223 (\<lambda>i. - (leg ! i) * leg ! ((i + w) mod 10223))"

definition qcodegen :: "sim_codes \<Rightarrow> int list \<Rightarrow> int \<Rightarrow> (sim_codes \<times> int list) option" where
  "qcodegen st code prn =
     (if 1 \<le> prn \<and> prn \<le> 210 then
        let w = weil ! nat (prn - 1);
            p = insert_idx ! nat (prn - 1) - 1;
            leg = (if sim_legendre st ! 0 = 0 then gen_legendre_sequence (sim_legendre st) else sim_legendre st);
            weilcode = weil_chips leg w;
            c1 = fill code 0 p (\<lambda>i. weilcode ! i);
            c2 = fill c1 p (p + 7) (\<lambda>i. insertbit ! (i - p));
            c3 = fill c2 (p + 7) 10230 (\<lambda>i. weilcode ! (i - 7));
            c4 = foldl (\<lambda>c i. c[i := -1 * c ! i]) c3 [0..<10230]
        in Some (st\<lparr>sim_legendre := leg\<rparr>, c4)
      else None)"

section \<open>Tertiary codes\<close>

text \<open>The value of a digit, and four chips of a row of \<open>tcode\<close>; another character leaves the row as it is.\<close>

definition hex_val :: "char \<Rightarrow> nat option" where
  "hex_val hex = (let c = of_char hex :: nat in
     if 48 \<le> c \<and> c \<le> 57 then Some (c - 48)
     else if 65 \<le> c \<and> c \<le> 70 then Some (c - 65 + 10)
     else if 97 \<le> c \<and> c \<le> 102 then Some (c - 97 + 10)
     else None)"

definition hex2bin :: "char \<Rightarrow> int list \<Rightarrow> nat \<Rightarrow> int list \<times> bool" where
  "hex2bin hex bin off = (case hex_val hex of
     None \<Rightarrow> (bin, False)
   | Some v \<Rightarrow> (fst (foldl (\<lambda>(b, v) i. (b[off + i := int (v mod 2)], v div 2)) (bin, v) (rev [0..<4])), True))"

definition tertiary_row :: "int list \<Rightarrow> string \<Rightarrow> int list" where
  "tertiary_row row str = foldl (\<lambda>row i. fst (hex2bin (str ! (i + 1)) row (i * 4))) row [0..<375]"

text \<open>
  \<open>readTertiary\<close> with the file as the contents of the buffer \<open>str\<close> (512 characters) after each
  \<open>fgets\<close> that succeeds, \<open>None\<close> where the file does not open; the first line is skipped.
\<close>

definition readTertiary :: "string list option \<Rightarrow> int list list \<Rightarrow> int list list \<times> nat" where
  "readTertiary file tcode = (case file of
     None \<Rightarrow> (tcode, 0)
   | Some strs \<Rightarrow>
       let lines = take 210 (drop 1 strs)
       in (foldl (\<lambda>t nsv. t[nsv := tertiary_row (t ! nsv) (lines ! nsv)]) tcode [0..<length lines], length lines))"

section \<open>What the loops write\<close>

lemma length_fill [simp, afs_length]: "length (fill xs a b f) = length xs"
proof (induction b)
  case (Suc b)
  then show ?case by (cases "a \<le> b") (simp_all add: fill_def)
qed (simp add: fill_def)

lemma nth_fill [afs_nth]:
  assumes "k < length xs"
  shows "fill xs a b f ! k = (if a \<le> k \<and> k < b then f k else xs ! k)"
proof (induction b)
  case (Suc b)
  have "fill xs a (Suc b) f = (if a \<le> b then (fill xs a b f)[b := f b] else fill xs a b f)"
    by (simp add: fill_def)
  then show ?case using Suc assms by (auto simp: nth_list_update less_Suc_eq)
qed (simp add: fill_def)

lemma fill_all: "length xs = n \<Longrightarrow> fill xs 0 n f = map f [0..<n]"
  by (simp add: list_eq_iff_nth_eq nth_fill)

lemma length_foldl_update [simp, afs_length]: "length (foldl (\<lambda>l i. l[f i := g l i]) xs is) = length xs"
  by (induction "is" arbitrary: xs) simp_all

text \<open>Writing one value at the indices \<open>f i\<close>.\<close>

lemma nth_foldl_mark:
  assumes "k < length xs"
  shows "foldl (\<lambda>l i. l[f i := v]) xs is ! k = (if k \<in> f ` set is then v else xs ! k)"
  using assms
proof (induction "is" arbitrary: xs)
  case (Cons i "is")
  then show ?case by (auto simp: nth_list_update)
qed simp

text \<open>A loop that replaces every element by a function of it.\<close>

lemma foldl_each:
  assumes "n \<le> length xs"
  shows "foldl (\<lambda>c i. c[i := h (c ! i)]) xs [0..<n] = map h (take n xs) @ drop n xs"
  using assms
proof (induction n)
  case (Suc n)
  then have "foldl (\<lambda>c i. c[i := h (c ! i)]) xs [0..<Suc n] =
    (map h (take n xs) @ drop n xs)[n := h ((map h (take n xs) @ drop n xs) ! n)]" by simp
  also have "\<dots> = map h (take (Suc n) xs) @ drop (Suc n) xs"
    using Suc.prems by (subst Cons_nth_drop_Suc [symmetric]) (simp_all add: take_Suc_conv_app_nth list_update_append nth_append)
  finally show ?case .
qed simp

lemma shift_in_eq:
  assumes "length r = 11" shows "shift_in c r = c # butlast r"
proof -
  obtain a0 a1 a2 a3 a4 a5 a6 a7 a8 a9 a10 where "r = [a0, a1, a2, a3, a4, a5, a6, a7, a8, a9, a10]"
    using assms by (auto simp: numeral_eq_Suc length_Suc_conv)
  moreover have "rev [1..<11] = [10, 9, 8, 7, 6, 5, 4, 3, 2, 1 :: nat]" by code_simp
  ultimately show ?thesis by (simp add: shift_in_def numeral_eq_Suc)
qed

end
