(* ===== verification/Sdr_Code_Afs.thy ===== *)
theory Sdr_Code_Afs
  imports Afs_Bits Afs_Sim_Code
begin

text \<open>
  The code generators of the receiver (\<open>sdr_code.c\<close>) for the AFS signals and for the GPS signals that
  share their tables and caches: C/A, L1C pilot and data, and the AFS data and pilot channels with their
  overlay codes. The record \<open>code_cache\<close> holds the static pointers of the file, each \<open>None\<close> for
  \<open>NULL\<close> until the first call that needs it; a generator returns the cache it leaves and the code, or
  \<open>None\<close> where the C function returns \<open>NULL\<close>. The length a generator stores through \<open>N\<close> is the
  length of the list. \<open>sdr_malloc\<close> is \<open>calloc\<close>, so a new array holds zeros.
\<close>

section \<open>Tables\<close>

definition L1CA_G2_delay :: "nat list" where
  "L1CA_G2_delay = [
    5, 6, 7, 8, 17, 18, 139, 140, 141, 251, 252, 254, 255, 256, 257,
    258, 469, 470, 471, 472, 473, 474, 509, 512, 513, 514, 515, 516, 859, 860,
    861, 862, 863, 950, 947, 948, 950, 67, 103, 91, 19, 679, 225, 625, 946,
    638, 161, 1001, 554, 280, 710, 709, 775, 864, 558, 220, 397, 55, 898, 759,
    367, 299, 1018, 729, 695, 780, 801, 788, 732, 34, 320, 327, 389, 407, 525,
    405, 221, 761, 260, 326, 955, 653, 699, 422, 188, 438, 959, 539, 879, 677,
    586, 153, 792, 814, 446, 264, 1015, 278, 536, 819, 156, 957, 159, 712, 885,
    461, 248, 713, 126, 807, 279, 122, 197, 693, 632, 771, 467, 647, 203, 145,
    175, 52, 21, 237, 235, 886, 657, 634, 762, 355, 1012, 176, 603, 130, 359,
    595, 68, 386, 797, 456, 499, 883, 307, 127, 211, 121, 118, 163, 628, 853,
    484, 289, 811, 202, 1021, 463, 568, 904, 670, 230, 911, 684, 309, 644, 932,
    12, 314, 891, 212, 185, 675, 503, 150, 395, 345, 846, 798, 992, 357, 995,
    877, 112, 144, 476, 193, 109, 445, 291, 87, 399, 292, 901, 339, 208, 711,
    189, 263, 537, 663, 942, 173, 900, 30, 500, 935, 556, 373, 85, 652, 310]"

definition L1CP_weil_idx :: "nat list" where
  "L1CP_weil_idx = [
    5111, 5109, 5108, 5106, 5103, 5101, 5100, 5098, 5095, 5094, 5093, 5091, 5090, 5081, 5080,
    5069, 5068, 5054, 5044, 5027, 5026, 5014, 5004, 4980, 4915, 4909, 4893, 4885, 4832, 4824,
    4591, 3706, 5092, 4986, 4965, 4920, 4917, 4858, 4847, 4790, 4770, 4318, 4126, 3961, 3790,
    4911, 4881, 4827, 4795, 4789, 4725, 4675, 4539, 4535, 4458, 4197, 4096, 3484, 3481, 3393,
    3175, 2360, 1852, 5065, 5063, 5055, 5012, 4981, 4952, 4934, 4932, 4786, 4762, 4640, 4601,
    4563, 4388, 3820, 3687, 5052, 5051, 5047, 5039, 5015, 5005, 4984, 4975, 4974, 4972, 4962,
    4913, 4907, 4903, 4833, 4778, 4721, 4661, 4660, 4655, 4623, 4590, 4548, 4461, 4442, 4347,
    4259, 4256, 4166, 4155, 4109, 4100, 4023, 3998, 3979, 3903, 3568, 5088, 5050, 5020, 4990,
    4982, 4966, 4949, 4947, 4937, 4935, 4906, 4901, 4872, 4865, 4863, 4818, 4785, 4781, 4776,
    4775, 4754, 4696, 4690, 4658, 4607, 4599, 4596, 4530, 4524, 4451, 4441, 4396, 4340, 4335,
    4296, 4267, 4168, 4149, 4097, 4061, 3989, 3966, 3789, 3775, 3622, 3523, 3515, 3492, 3345,
    3235, 3169, 3157, 3082, 3072, 3032, 3030, 4582, 4595, 4068, 4871, 4514, 4439, 4122, 4948,
    4774, 3923, 3411, 4745, 4195, 4897, 3047, 4185, 4354, 5077, 4042, 2111, 4311, 5024, 4352,
    4678, 5034, 5085, 3646, 4868, 3668, 4211, 2883, 2850, 2815, 2542, 2492, 2376, 2036, 1920]"

definition L1CP_ins_idx :: "nat list" where
  "L1CP_ins_idx = [
    412, 161, 1, 303, 207, 4971, 4496, 5, 4557, 485, 253, 4676, 1, 66, 4485,
    282, 193, 5211, 729, 4848, 982, 5955, 9805, 670, 464, 29, 429, 394, 616, 9457,
    4429, 4771, 365, 9705, 9489, 4193, 9947, 824, 864, 347, 677, 6544, 6312, 9804, 278,
    9461, 444, 4839, 4144, 9875, 197, 1156, 4674, 10035, 4504, 5, 9937, 430, 5, 355,
    909, 1622, 6284, 9429, 77, 932, 5973, 377, 10000, 951, 6212, 686, 9352, 5999, 9912,
    9620, 635, 4951, 5453, 4658, 4800, 59, 318, 571, 565, 9947, 4654, 148, 3929, 293,
    178, 10142, 9683, 137, 565, 35, 5949, 2, 5982, 825, 9614, 9790, 5613, 764, 660,
    4870, 4950, 4881, 1151, 9977, 5122, 10074, 4832, 77, 4698, 1002, 5549, 9606, 9228, 604,
    4678, 4854, 4122, 9471, 5026, 272, 1027, 317, 691, 509, 9708, 5033, 9938, 4314, 10140,
    4790, 9823, 6093, 469, 1215, 799, 756, 9994, 4843, 5271, 9661, 6255, 5203, 203, 10070,
    30, 103, 5692, 32, 9826, 76, 59, 6831, 958, 1471, 10070, 553, 5487, 55, 208,
    645, 5268, 1873, 427, 367, 1404, 5652, 5, 368, 451, 9595, 1030, 1324, 692, 9819,
    4520, 9911, 278, 642, 6330, 5508, 1872, 5445, 10131, 422, 4918, 787, 9864, 9753, 9859,
    328, 1, 4733, 164, 135, 174, 132, 538, 176, 198, 595, 574, 321, 596, 491]"

definition L1CD_weil_idx :: "nat list" where
  "L1CD_weil_idx = [
    5097, 5110, 5079, 4403, 4121, 5043, 5042, 5104, 4940, 5035, 4372, 5064, 5084, 5048, 4950,
    5019, 5076, 3736, 4993, 5060, 5061, 5096, 4983, 4783, 4991, 4815, 4443, 4769, 4879, 4894,
    4985, 5056, 4921, 5036, 4812, 4838, 4855, 4904, 4753, 4483, 4942, 4813, 4957, 4618, 4669,
    4969, 5031, 5038, 4740, 4073, 4843, 4979, 4867, 4964, 5025, 4579, 4390, 4763, 4612, 4784,
    3716, 4703, 4851, 4955, 5018, 4642, 4840, 4961, 4263, 5011, 4922, 4317, 3636, 4884, 5041,
    4912, 4504, 4617, 4633, 4566, 4702, 4758, 4860, 3962, 4882, 4467, 4730, 4910, 4684, 4908,
    4759, 4880, 4095, 4971, 4873, 4561, 4588, 4773, 4997, 4583, 4900, 4574, 4629, 4676, 4181,
    5057, 4944, 4401, 4586, 4699, 3676, 4387, 4866, 4926, 4657, 4477, 4359, 4673, 4258, 4447,
    4570, 4486, 4362, 4481, 4322, 4668, 3967, 4374, 4553, 4641, 4215, 3853, 4787, 4266, 4199,
    4545, 4208, 4485, 3714, 4407, 4182, 4203, 3788, 4471, 4691, 4281, 4410, 3953, 3465, 4801,
    4278, 4546, 3779, 4115, 4193, 3372, 3786, 3491, 3812, 3594, 4028, 3652, 4224, 4334, 3245,
    3921, 3840, 3514, 2922, 4227, 3376, 3560, 4989, 4756, 4624, 4446, 4174, 4551, 3972, 4399,
    4562, 3133, 4157, 5053, 4536, 5067, 3905, 3721, 3787, 4674, 3436, 2673, 4834, 4456, 4056,
    3804, 3672, 4205, 3348, 4152, 3883, 3473, 3669, 3455, 2318, 2945, 2947, 3220, 4052, 2953]"

definition L1CD_ins_idx :: "nat list" where
  "L1CD_ins_idx = [
    181, 359, 72, 1110, 1480, 5034, 4622, 1, 4547, 826, 6284, 4195, 368, 1, 4796,
    523, 151, 713, 9850, 5734, 34, 6142, 190, 644, 467, 5384, 801, 594, 4450, 9437,
    4307, 5906, 378, 9448, 9432, 5849, 5547, 9546, 9132, 403, 3766, 3, 684, 9711, 333,
    6124, 10216, 4251, 9893, 9884, 4627, 4449, 9798, 985, 4272, 126, 10024, 434, 1029, 561,
    289, 638, 4353, 9899, 4629, 669, 4378, 4528, 9718, 5485, 6222, 672, 1275, 6083, 5264,
    10167, 1085, 194, 5012, 4938, 9356, 5057, 866, 2, 204, 9808, 4365, 162, 367, 201,
    18, 251, 10167, 21, 685, 92, 1057, 3, 5756, 14, 9979, 9569, 515, 753, 1181,
    9442, 669, 4834, 541, 9933, 6683, 4828, 9710, 10170, 9629, 260, 86, 5544, 923, 257,
    507, 4572, 4491, 341, 130, 79, 1142, 448, 875, 555, 1272, 5198, 9529, 4459, 10019,
    9353, 9780, 375, 503, 4507, 875, 1246, 1, 4534, 8, 9549, 6240, 22, 5652, 10069,
    4796, 4980, 27, 90, 9788, 715, 9720, 301, 5450, 5215, 13, 1147, 4855, 1190, 1267,
    1302, 1, 5007, 549, 368, 6300, 5658, 4302, 851, 4353, 9618, 9652, 1232, 109, 10174,
    6178, 1851, 1299, 325, 10206, 9968, 10191, 5438, 10080, 219, 758, 2140, 9753, 4799, 10126,
    241, 1245, 1274, 1456, 9967, 235, 512, 1078, 1078, 953, 5647, 669, 1311, 5827, 15]"

definition AFSD_G2_delay :: "nat list" where
  "AFSD_G2_delay = [
    1845, 1071, 170, 2035, 1214, 1292, 1284, 1894, 1537, 735, 561, 1789, 1453, 196, 1040,
    326, 1787, 982, 1030, 1380, 1932, 1188, 390, 714, 303, 1001, 707, 1984, 139, 182,
    1891, 1247, 1434, 2000, 1843, 865, 616, 514, 449, 1173, 24, 1383, 1940, 1594, 1765,
    752, 145, 1615, 1666, 1372, 1634, 1068, 1181, 879, 1153, 1621, 927, 1848, 402, 413,
    1090, 657, 609, 1547, 370, 271, 1353, 635, 299, 697, 152, 678, 1329, 15, 1974,
    1884, 1868, 277, 302, 9, 603, 1583, 848, 1234, 1568, 510, 1303, 1921, 823, 1187,
    1299, 824, 672, 2034, 1388, 13, 223, 1840, 1161, 1132, 365, 2, 924, 1373, 959,
    220, 1542, 188, 264, 453, 68, 715, 75, 1095, 938, 1316, 394, 1156, 166, 969,
    269, 179, 957, 400, 625, 1513, 1796, 100, 1660, 1454, 1613, 1064, 844, 518, 320,
    661, 2031, 694, 1143, 1167, 1885, 833, 1601, 903, 399, 1896, 899, 133, 556, 331,
    198, 212, 1024, 1070, 1972, 1573, 884, 1177, 1691, 533, 480, 751, 447, 734, 973,
    857, 1767, 1548, 1876, 614, 1017, 1978, 275, 1141, 1252, 1952, 1714, 1067, 557, 522,
    1159, 545, 1580, 610, 935, 1134, 780, 691, 1038, 1418, 295, 916, 1654, 624, 706,
    1033, 1633, 790, 1451, 1300, 459, 106, 861, 1541, 114, 1381, 1945, 1069, 242, 356]"

definition BOC :: "int list" where
  "BOC = [-1, 1]"

definition ins_code :: "int list" where
  "ins_code = [-1, 1, 1, -1, 1, -1, -1]"

section \<open>Caches\<close>

record code_cache =
  L1CA :: "int list option list"
  L1CP :: "int list option list"
  L1CD :: "int list option list"
  AFSD :: "int list option list"
  AFSP :: "int list option list"
  AFSPT :: "int list option list"
  L1CA_G1 :: "int list option"
  L1CA_G2 :: "int list option"
  L1C_L_SEQ :: "int list option"
  AFSD_G1 :: "int list option"
  AFSD_G2 :: "int list option"

definition code_cache0 :: code_cache where
  "code_cache0 = \<lparr>L1CA = replicate 210 None, L1CP = replicate 210 None, L1CD = replicate 210 None,
     AFSD = replicate 210 None, AFSP = replicate 210 None, AFSPT = replicate 210 None,
     L1CA_G1 = None, L1CA_G2 = None, L1C_L_SEQ = None, AFSD_G1 = None, AFSD_G2 = None\<rparr>"

section \<open>Building blocks\<close>

definition mod_code :: "int list \<Rightarrow> nat \<Rightarrow> int list \<Rightarrow> nat \<Rightarrow> int list" where
  "mod_code code N sub_carr n =
     foldl (\<lambda>c i. foldl (\<lambda>c j. c[i * n + j := - (code ! i) * sub_carr ! j]) c [0..<n]) (replicate (N * n) 0) [0..<N]"

definition gold_chips :: "nat \<Rightarrow> int list \<Rightarrow> int list \<Rightarrow> nat \<Rightarrow> nat \<Rightarrow> int list" where
  "gold_chips N g1 g2 d n = fill (replicate n 0) 0 n (\<lambda>i. - (g1 ! i) * g2 ! ((i + N - d) mod N))"

definition gen_legendre_seq :: "nat \<Rightarrow> int list" where
  "gen_legendre_seq N = foldl (\<lambda>L i. L[(i * i) mod N := 1]) (fill (replicate N 0) 0 N (\<lambda>i. -1)) [1..<N]"

definition gen_code_L1CPD :: "code_cache \<Rightarrow> nat \<Rightarrow> nat \<Rightarrow> nat \<Rightarrow> code_cache \<times> int list" where
  "gen_code_L1CPD c N w p =
     (let L = (case L1C_L_SEQ c of None \<Rightarrow> gen_legendre_seq 10223 | Some L \<Rightarrow> L);
          c0 = fill (replicate N 0) 0 (p - 1) (\<lambda>t. - (L ! t) * L ! ((t + w) mod 10223));
          c1 = fill c0 (p - 1) (p + 6) (\<lambda>t. ins_code ! (t + 1 - p));
          c2 = fill c1 (p + 6) N (\<lambda>t. - (L ! (t - 7)) * L ! ((t - 7 + w) mod 10223))
      in (c\<lparr>L1C_L_SEQ := Some L\<rparr>, c2))"

section \<open>GPS C/A and L1C\<close>

definition gen_code_L1CA_G1 :: "nat \<Rightarrow> int list" where
  "gen_code_L1CA_G1 N = LFSR N 0x3FF 0x081 10"

definition gen_code_L1CA_G2 :: "nat \<Rightarrow> int list" where
  "gen_code_L1CA_G2 N = LFSR N 0x3FF 0x197 10"

definition gen_code_L1CA :: "code_cache \<Rightarrow> int \<Rightarrow> code_cache \<times> int list option" where
  "gen_code_L1CA c prn =
     (if prn < 1 \<or> prn > 210 then (c, None) else
      let k = nat (prn - 1); N = 1023 in
      case L1CA c ! k of Some code \<Rightarrow> (c, Some code)
      | None \<Rightarrow>
        let c = (if L1CA_G1 c = None then c\<lparr>L1CA_G1 := Some (gen_code_L1CA_G1 N), L1CA_G2 := Some (gen_code_L1CA_G2 N)\<rparr> else c);
            code = gold_chips N (the (L1CA_G1 c)) (the (L1CA_G2 c)) (L1CA_G2_delay ! k) N
        in (c\<lparr>L1CA := (L1CA c)[k := Some code]\<rparr>, Some code))"

definition gen_code_L1S :: "code_cache \<Rightarrow> int \<Rightarrow> code_cache \<times> int list option" where
  "gen_code_L1S c prn = (if prn < 183 \<or> prn > 191 then (c, None) else gen_code_L1CA c prn)"

definition gen_code_L1CB :: "code_cache \<Rightarrow> int \<Rightarrow> code_cache \<times> int list option" where
  "gen_code_L1CB c prn =
     (if prn \<noteq> 198 \<and> (prn < 202 \<or> prn > 206) then (c, None)
      else let (c, code) = gen_code_L1CA c prn in (c, map_option (\<lambda>code. mod_code code 1023 BOC 2) code))"

definition gen_code_L1CP :: "code_cache \<Rightarrow> int \<Rightarrow> code_cache \<times> int list option" where
  "gen_code_L1CP c prn =
     (if prn < 1 \<or> prn > 210 then (c, None) else
      let k = nat (prn - 1); n = 10230 in
      case L1CP c ! k of Some code \<Rightarrow> (c, Some code)
      | None \<Rightarrow>
        let (c, code) = gen_code_L1CPD c n (L1CP_weil_idx ! k) (L1CP_ins_idx ! k);
            code = mod_code code n BOC 2
        in (c\<lparr>L1CP := (L1CP c)[k := Some code]\<rparr>, Some code))"

definition gen_code_L1CD :: "code_cache \<Rightarrow> int \<Rightarrow> code_cache \<times> int list option" where
  "gen_code_L1CD c prn =
     (if prn < 1 \<or> prn > 210 then (c, None) else
      let k = nat (prn - 1); n = 10230 in
      case L1CD c ! k of Some code \<Rightarrow> (c, Some code)
      | None \<Rightarrow>
        let (c, code) = gen_code_L1CPD c n (L1CD_weil_idx ! k) (L1CD_ins_idx ! k);
            code = mod_code code n BOC 2
        in (c\<lparr>L1CD := (L1CD c)[k := Some code]\<rparr>, Some code))"

section \<open>AFS\<close>

definition gen_code_AFSD_G1 :: "nat \<Rightarrow> int list" where
  "gen_code_AFSD_G1 N = LFSR N 0x7FF 0x201 11"

definition gen_code_AFSD_G2 :: "nat \<Rightarrow> int list" where
  "gen_code_AFSD_G2 N = LFSR N 0x7FF 0x249 11"

definition gen_code_AFSD :: "code_cache \<Rightarrow> int \<Rightarrow> code_cache \<times> int list option" where
  "gen_code_AFSD c prn =
     (if prn < 1 \<or> prn > 210 then (c, None) else
      let k = nat (prn - 1); N = 2047 in
      case AFSD c ! k of Some code \<Rightarrow> (c, Some code)
      | None \<Rightarrow>
        let c = (if AFSD_G1 c = None then c\<lparr>AFSD_G1 := Some (gen_code_AFSD_G1 N), AFSD_G2 := Some (gen_code_AFSD_G2 N)\<rparr> else c);
            code = gold_chips N (the (AFSD_G1 c)) (the (AFSD_G2 c)) (AFSD_G2_delay ! k) (N - 1)
        in (c\<lparr>AFSD := (AFSD c)[k := Some code]\<rparr>, Some code))"

definition gen_code_AFSP :: "code_cache \<Rightarrow> int \<Rightarrow> code_cache \<times> int list option" where
  "gen_code_AFSP c prn =
     (if prn < 1 \<or> prn > 210 then (c, None) else
      let k = nat (prn - 1); N = 10230 in
      case AFSP c ! k of Some code \<Rightarrow> (c, Some code)
      | None \<Rightarrow>
        let (c, code) = gen_code_L1CPD c N (L1CP_weil_idx ! k) (L1CP_ins_idx ! k)
        in (c\<lparr>AFSP := (AFSP c)[k := Some code]\<rparr>, Some code))"

definition sec_code_AFSP :: "int \<Rightarrow> int list option" where
  "sec_code_AFSP prn =
     (if prn < 1 \<or> prn > 12 then None
      else Some ([[1, 1, 1, -1], [-1, 1, 1, 1], [1, -1, 1, 1], [1, 1, -1, 1]] ! nat ((prn - 1) mod 4)))"

definition ter_code_AFSP :: "code_cache \<Rightarrow> int \<Rightarrow> int list option" where
  "ter_code_AFSP c prn = (if prn < 1 \<or> prn > 12 then None else AFSPT c ! nat (prn - 1))"

end
