(* ===== verification/Sdr_Code_Afs_Lemmas.thy ===== *)
theory Sdr_Code_Afs_Lemmas
  imports Sdr_Code_Afs
begin

text \<open>
  The two programs compute the same codes in different ways. The eleven cells of a register of the
  simulator, each 1 or -1, are the bits of a register word of the receiver, and one step of the first
  corresponds to one step of the second; the two Legendre sequences differ in sign, which needs that
  no square of a number below 10223 is a multiple of 10223.
\<close>

section \<open>Registers\<close>

text \<open>Cell \<open>10 - k\<close> is -1 where bit \<open>k\<close> of the word is set, and the word has no other bits.\<close>

definition same_reg :: "int list \<Rightarrow> i32 \<Rightarrow> bool" where
  "same_reg r R \<longleftrightarrow> length r = 11 \<and> (\<forall>k < 11. r ! (10 - k) = (if bit R k then -1 else 1)) \<and> (\<forall>k \<ge> 11. \<not> bit R k)"

lemma same_reg_nth: "same_reg r R \<Longrightarrow> k < 11 \<Longrightarrow> r ! k = (if bit R (10 - k) then -1 else 1)"
proof -
  assume R: "same_reg r R" and k: "k < 11"
  from k have "10 - (10 - k) = k" "10 - k < 11" by simp_all
  with R show ?thesis by (metis same_reg_def)
qed

lemma bit_i32_by_cases:
  assumes "list_all (\<lambda>k. bit (w :: i32) k = P k) [0..<32]" "\<And>k. 32 \<le> k \<Longrightarrow> \<not> P k"
  shows "bit w k = P k"
  using assms bit_imp_le_length [of w k] by (cases "k < 32") (auto simp: list_all_iff)

lemma bit_taps:
  "bit (0x7FF :: i32) k = (k < 11)"
  "bit (0x201 :: i32) k = (k = 0 \<or> k = 9)"
  "bit (0x249 :: i32) k = (k = 0 \<or> k = 3 \<or> k = 6 \<or> k = 9)"
  by (rule bit_i32_by_cases, code_simp, simp)+

lemma same_reg_init: "same_reg (replicate 11 (-1)) 0x7FF"
  unfolding same_reg_def by (simp only: bit_taps) simp

lemma bits_parity_none: "(\<And>i. i < k \<Longrightarrow> \<not> bit w i) \<Longrightarrow> \<not> bits_parity k w"
  by (induction k) auto

text \<open>Bits that are clear do not count.\<close>

lemma bits_parity_skip:
  assumes "\<And>i. j \<le> i \<Longrightarrow> i < k \<Longrightarrow> \<not> bit w i" "j \<le> k"
  shows "bits_parity k w = bits_parity j w"
  using assms(2,1) by (induction k rule: dec_induct) auto

lemma bits_parity_taps:
  "bits_parity 32 ((R :: i32) AND 0x201) = (bit R 0 \<noteq> bit R 9)"
  "bits_parity 32 ((R :: i32) AND 0x249) = ((bit R 0 \<noteq> bit R 3) \<noteq> (bit R 6 \<noteq> bit R 9))"
proof -
  have s: "bits_parity (Suc k) w = (bits_parity k w \<noteq> bit w k)" for k and w :: i32 by simp
  show "bits_parity 32 (R AND 0x201) = (bit R 0 \<noteq> bit R 9)"
    using bits_parity_skip [of 10 32 "R AND 0x201"] bits_parity_skip [of 1 9 "R AND 0x201"]
      s [of 9 "R AND 0x201"] s [of 0 "R AND 0x201"]
    by (simp only: bit_and_iff bit_taps bits_parity.simps(1)) simp
  show "bits_parity 32 (R AND 0x249) = ((bit R 0 \<noteq> bit R 3) \<noteq> (bit R 6 \<noteq> bit R 9))"
    using bits_parity_skip [of 10 32 "R AND 0x249"] bits_parity_skip [of 7 9 "R AND 0x249"]
      bits_parity_skip [of 4 6 "R AND 0x249"] bits_parity_skip [of 1 3 "R AND 0x249"]
      s [of 9 "R AND 0x249"] s [of 6 "R AND 0x249"] s [of 3 "R AND 0x249"] s [of 0 "R AND 0x249"]
    by (simp only: bit_and_iff bit_taps bits_parity.simps(1)) auto
qed

lemma same_reg_step:
  assumes "same_reg r R" "c = (if bits_parity 32 (R AND tap) then -1 else 1)"
  shows "same_reg (shift_in c r) (lfsr_next R tap 11)"
proof -
  have len: "length r = 11" and hi: "\<And>k. 11 \<le> k \<Longrightarrow> \<not> bit R k" using assms(1) by (auto simp: same_reg_def)
  have nx: "bit (lfsr_next R tap 11) k \<longleftrightarrow> (if k = 10 then bits_parity 32 (R AND tap) else bit R (Suc k))" for k
    using lfsr_next_bit [of 11 R tap k] hi by (simp del: bits_parity.simps)
  have "(c # butlast r) ! (10 - k) = (if bit (lfsr_next R tap 11) k then -1 else 1)" if "k < 11" for k
  proof (cases "k = 10")
    case False
    then have "10 - k = Suc (10 - Suc k)" using that by simp
    then have "(c # butlast r) ! (10 - k) = r ! (10 - Suc k)" using len by (simp add: nth_butlast)
    then show ?thesis using False that same_reg_nth [OF assms(1), of "10 - Suc k"] by (simp add: nx del: bits_parity.simps)
  qed (simp add: nx assms(2) del: bits_parity.simps)
  then show ?thesis using len hi unfolding same_reg_def shift_in_eq [OF len] by (simp add: nx del: bits_parity.simps)
qed

section \<open>The data code of the simulator\<close>

lemma LFSR_nth: "i < N \<Longrightarrow> LFSR N R tap n ! i = (if bit (((\<lambda>R. lfsr_next R tap n) ^^ i) R) 0 then 1 else -1)"
proof (induction N arbitrary: R i)
  case (Suc N)
  then show ?case by (cases i) (simp_all add: CHIP_bit funpow_Suc_right del: funpow.simps)
qed simp

lemma icode_loop:
  assumes "foldl icode_step (a1, a2, replicate 11 (-1), replicate 11 (-1)) [0..<n] = (g1, g2, r1, r2)"
    "length a1 = 2047" "length a2 = 2047" "n \<le> 2047"
  shows "length g1 = 2047 \<and> length g2 = 2047 \<and>
    same_reg r1 (((\<lambda>R. lfsr_next R 0x201 11) ^^ n) 0x7FF) \<and> same_reg r2 (((\<lambda>R. lfsr_next R 0x249 11) ^^ n) 0x7FF) \<and>
    (\<forall>i < n. g1 ! i = - (gen_code_AFSD_G1 2047 ! i)) \<and> (\<forall>i < n. g2 ! i = - (gen_code_AFSD_G2 2047 ! i))"
  using assms(1,4)
proof (induction n arbitrary: g1 g2 r1 r2)
  case 0
  then show ?case using assms(2,3) same_reg_init by auto
next
  case (Suc n)
  let ?R1 = "((\<lambda>R. lfsr_next R 0x201 11) ^^ n) 0x7FF" and ?R2 = "((\<lambda>R. lfsr_next R 0x249 11) ^^ n) 0x7FF"
  obtain h1 h2 q1 q2 where h: "foldl icode_step (a1, a2, replicate 11 (-1), replicate 11 (-1)) [0..<n] = (h1, h2, q1, q2)"
    by (metis prod_cases4)
  note IH = Suc.IH [OF h]
  have q: "same_reg q1 ?R1" "same_reg q2 ?R2" and lens: "length h1 = 2047" "length h2 = 2047" and n: "n < 2047"
    using IH Suc.prems(2) by auto
  have eqs: "g1 = h1[n := q1 ! 10]" "g2 = h2[n := q2 ! 10]"
    "r1 = shift_in (q1 ! 1 * q1 ! 10) q1" "r2 = shift_in (q2 ! 1 * q2 ! 4 * q2 ! 7 * q2 ! 10) q2"
    using Suc.prems(1) h by (simp_all add: icode_step_def)
  have cell: "q1 ! k = (if bit ?R1 (10 - k) then -1 else 1)" "q2 ! k = (if bit ?R2 (10 - k) then -1 else 1)" if "k < 11" for k
    using q that by (auto simp: same_reg_nth)
  have "same_reg r1 (lfsr_next ?R1 0x201 11)" unfolding eqs
    by (rule same_reg_step [OF q(1)]) (simp add: cell bits_parity_taps del: bits_parity.simps)
  moreover have "same_reg r2 (lfsr_next ?R2 0x249 11)" unfolding eqs
    by (rule same_reg_step [OF q(2)]) (simp add: cell bits_parity_taps del: bits_parity.simps)
  moreover have "q1 ! 10 = - (gen_code_AFSD_G1 2047 ! n)" "q2 ! 10 = - (gen_code_AFSD_G2 2047 ! n)"
    using cell [of 10] n by (simp_all add: gen_code_AFSD_G1_def gen_code_AFSD_G2_def LFSR_nth)
  ultimately show ?case using IH Suc.prems(2) lens unfolding eqs by (auto simp: nth_list_update less_Suc_eq)
qed

section \<open>Tables\<close>

lemma same_tables: "AFSD_G2_delay = delay" "L1CP_weil_idx = weil" "L1CP_ins_idx = insert_idx"
  unfolding AFSD_G2_delay_def delay_def L1CP_weil_idx_def weil_def L1CP_ins_idx_def insert_idx_def by (rule refl)+

lemma length_tables: "length delay = 210" "length weil = 210" "length insert_idx = 210"
  "length L1CA_G2_delay = 210" "length L1CD_weil_idx = 210" "length L1CD_ins_idx = 210"
  by (simp_all add: delay_def weil_def insert_idx_def L1CA_G2_delay_def L1CD_weil_idx_def L1CD_ins_idx_def)

lemma list_all_nthD: "list_all P xs \<Longrightarrow> length xs = n \<Longrightarrow> k < n \<Longrightarrow> P (xs ! k)"
  by (auto simp: list_all_length)

lemma delay_bound: "k < 210 \<Longrightarrow> 1 \<le> delay ! k \<and> delay ! k \<le> 2047"
  by (rule list_all_nthD [OF _ length_tables(1)]) (simp_all add: delay_def)

lemma weil_bound: "k < 210 \<Longrightarrow> 1 \<le> weil ! k \<and> weil ! k < 10223"
  by (rule list_all_nthD [OF _ length_tables(2)]) (simp_all add: weil_def)

lemma insert_bound: "k < 210 \<Longrightarrow> 1 \<le> insert_idx ! k \<and> insert_idx ! k + 6 \<le> 10230"
  by (rule list_all_nthD [OF _ length_tables(3)]) (simp_all add: insert_idx_def)

lemma L1CD_ins_bound: "k < 210 \<Longrightarrow> 1 \<le> L1CD_ins_idx ! k \<and> L1CD_ins_idx ! k + 6 \<le> 10230"
  by (rule list_all_nthD [OF _ length_tables(6)]) (simp_all add: L1CD_ins_idx_def)

section \<open>Legendre sequences\<close>

text \<open>10223 is prime; here as the fact the sequences need.\<close>

lemma no_divisor_10223:
  assumes "d dvd (10223 :: nat)" "d \<noteq> 1" shows "d = 10223"
proof -
  have small: "\<not> e dvd 10223" if "1 < e" "e \<le> 101" for e :: nat
  proof -
    have "list_all (\<lambda>e. 10223 mod e \<noteq> 0) [2..<102 :: nat]" by simp
    moreover have "e \<in> set [2..<102]" using that by (simp only: set_upt) simp
    ultimately have "10223 mod e \<noteq> 0" unfolding list_all_iff by (rule bspec)
    then show ?thesis by (simp add: dvd_eq_mod_eq_0)
  qed
  obtain h where h: "10223 = d * h" using assms(1) by (rule dvdE)
  have "d = 0 \<or> h = 0 \<or> d \<le> 101 \<or> h \<le> 101"
  proof (rule ccontr)
    assume "\<not> ?thesis"
    then have "102 * 102 \<le> d * h" by (intro mult_le_mono) auto
    with h show False by simp
  qed
  moreover have "h dvd 10223" unfolding h by simp
  ultimately have "h = 1" using small [of d] small [of h] assms h by (cases "d = 0"; cases "h = 0"; force)
  with h show ?thesis by simp
qed

lemma square_mod_10223:
  assumes "0 < i" "i < (10223 :: nat)" shows "(i * i) mod 10223 \<noteq> 0"
proof
  assume "(i * i) mod 10223 = 0"
  then have dvd: "10223 dvd i * i" by auto
  have "gcd 10223 i \<noteq> 10223" using assms by (metis dvd_imp_le gcd_dvd2 not_le)
  then have "coprime 10223 i" using no_divisor_10223 [of "gcd 10223 i"] by (auto simp: coprime_iff_gcd_eq_1)
  then have "10223 dvd i" using dvd coprime_dvd_mult_left_iff by blast
  with assms show False by (auto dest: dvd_imp_le)
qed

lemma length_legendre [simp]: "length (gen_legendre_seq N) = N" "length (gen_legendre_sequence leg) = length leg"
  by (simp_all add: gen_legendre_seq_def gen_legendre_sequence_def)

text \<open>The receiver marks the squares with 1, the simulator with -1; 0 counts as no square in both.\<close>

lemma legendre_seq_nth:
  "k < 10223 \<Longrightarrow> gen_legendre_seq 10223 ! k = (if \<exists>i. 0 < i \<and> i < 10223 \<and> (i * i) mod 10223 = k then 1 else -1)"
  unfolding gen_legendre_seq_def by (subst nth_foldl_mark) (auto simp: nth_fill Suc_le_eq)

lemma legendre_sequence_nth:
  assumes "length leg = 10223" "k < 10223"
  shows "gen_legendre_sequence leg ! k = - (gen_legendre_seq 10223 ! k)"
proof (cases "k = 0")
  case True
  then have "\<not> (\<exists>i. 0 < i \<and> i < 10223 \<and> (i * i) mod 10223 = k)" using square_mod_10223 by metis
  then show ?thesis using True assms by (simp add: gen_legendre_sequence_def legendre_seq_nth)
next
  case False
  have "(\<exists>i. i < 10224 \<and> k = (i * i) mod 10223) \<longleftrightarrow> (\<exists>i. 0 < i \<and> i < 10223 \<and> (i * i) mod 10223 = k)"
  proof
    assume "\<exists>i. i < 10224 \<and> k = (i * i) mod 10223"
    then obtain i where i: "i < 10224" "k = (i * i) mod 10223" by blast
    have "0 < i" using False i(2) by (cases i) simp_all
    moreover have "i \<noteq> 10223" using False i(2) by (intro notI) simp
    ultimately show "\<exists>i. 0 < i \<and> i < 10223 \<and> (i * i) mod 10223 = k"
      using i by (intro exI [of _ i]) auto
  next
    assume "\<exists>i. 0 < i \<and> i < 10223 \<and> (i * i) mod 10223 = k"
    then obtain i where "i < 10223" "(i * i) mod 10223 = k" by blast
    then show "\<exists>i. i < 10224 \<and> k = (i * i) mod 10223" by (intro exI [of _ i]) simp
  qed
  then have "(k \<in> (\<lambda>i. (i * i) mod 10223) ` set [0..<10224]) \<longleftrightarrow> (\<exists>i. 0 < i \<and> i < 10223 \<and> (i * i) mod 10223 = k)"
    by (auto simp: image_iff)
  then show ?thesis using False assms unfolding gen_legendre_sequence_def
    by (simp add: nth_foldl_mark nth_fill legendre_seq_nth del: set_upt) metis
qed

text \<open>Signal levels.\<close>

definition pm :: "int \<Rightarrow> bool" where
  "pm x \<longleftrightarrow> x = 1 \<or> x = -1"

lemma pm_intros [intro]: "pm 1" "pm (-1)" "pm x \<Longrightarrow> pm (- x)" "pm x \<Longrightarrow> pm y \<Longrightarrow> pm (x * y)"
  by (auto simp: pm_def)

lemma pm_minus [simp]: "pm (- x) = pm x"
  by (auto simp: pm_def)

lemma pm_square: "pm x \<Longrightarrow> x * x = 1"
  by (auto simp: pm_def)

lemma legendre_seq_pm: "k < 10223 \<Longrightarrow> pm (gen_legendre_seq 10223 ! k)"
  by (simp add: legendre_seq_nth pm_def)

section \<open>The codes\<close>

text \<open>The code of the data channel, and a pilot code with a Weil index and an insertion point.\<close>

definition afsd_chips :: "nat \<Rightarrow> int list" where
  "afsd_chips k = gold_chips 2047 (gen_code_AFSD_G1 2047) (gen_code_AFSD_G2 2047) (AFSD_G2_delay ! k) 2046"

definition l1ca_chips :: "nat \<Rightarrow> int list" where
  "l1ca_chips k = gold_chips 1023 (gen_code_L1CA_G1 1023) (gen_code_L1CA_G2 1023) (L1CA_G2_delay ! k) 1023"

definition weil_pm :: "nat \<Rightarrow> nat \<Rightarrow> int" where
  "weil_pm w t = - (gen_legendre_seq 10223 ! t) * gen_legendre_seq 10223 ! ((t + w) mod 10223)"

definition pilot_chips :: "nat \<Rightarrow> nat \<Rightarrow> int list" where
  "pilot_chips w p = map (\<lambda>t. if t < p - 1 then weil_pm w t else if t < p + 6 then ins_code ! (t + 1 - p) else weil_pm w (t - 7)) [0..<10230]"

definition afsp_chips :: "nat \<Rightarrow> int list" where
  "afsp_chips k = pilot_chips (L1CP_weil_idx ! k) (L1CP_ins_idx ! k)"

definition l1cp_chips :: "nat \<Rightarrow> int list" where
  "l1cp_chips k = mod_code (pilot_chips (L1CP_weil_idx ! k) (L1CP_ins_idx ! k)) 10230 BOC 2"

definition l1cd_chips :: "nat \<Rightarrow> int list" where
  "l1cd_chips k = mod_code (pilot_chips (L1CD_weil_idx ! k) (L1CD_ins_idx ! k)) 10230 BOC 2"

lemma length_chips [simp, afs_length]: "length (gold_chips N g1 g2 d n) = n" "length (afsd_chips k) = 2046"
  "length (l1ca_chips k) = 1023" "length (pilot_chips w p) = 10230" "length (afsp_chips k) = 10230"
  by (simp_all add: afsp_chips_def gold_chips_def afsd_chips_def l1ca_chips_def pilot_chips_def)

lemma gold_chips_nth: "i < n \<Longrightarrow> gold_chips N g1 g2 d n ! i = - (g1 ! i) * g2 ! ((i + N - d) mod N)"
  by (simp add: gold_chips_def nth_fill)

lemma length_gens [simp]: "length (gen_code_AFSD_G1 N) = N" "length (gen_code_AFSD_G2 N) = N"
  "length (gen_code_L1CA_G1 N) = N" "length (gen_code_L1CA_G2 N) = N"
  by (simp_all add: gen_code_AFSD_G1_def gen_code_AFSD_G2_def gen_code_L1CA_G1_def gen_code_L1CA_G2_def)

lemma LFSR_pm: "i < N \<Longrightarrow> pm (LFSR N R tap n ! i)"
  using LFSR_values [OF nth_mem] by (simp add: pm_def)

lemma gold_chips_pm:
  assumes "c \<in> set (gold_chips N (LFSR N R1 t1 m) (LFSR N R2 t2 m) d n)" "n \<le> N" "0 < N"
  shows "pm c"
proof -
  obtain i where "i < n" "c = gold_chips N (LFSR N R1 t1 m) (LFSR N R2 t2 m) d n ! i"
    using assms(1) by (auto simp: in_set_conv_nth)
  then show ?thesis using assms(2,3) by (simp add: gold_chips_nth pm_intros LFSR_pm)
qed

lemma afsd_chips_pm: "c \<in> set (afsd_chips k) \<Longrightarrow> pm c"
  unfolding afsd_chips_def gen_code_AFSD_G1_def gen_code_AFSD_G2_def by (rule gold_chips_pm) auto

lemma l1ca_chips_pm: "c \<in> set (l1ca_chips k) \<Longrightarrow> pm c"
  unfolding l1ca_chips_def gen_code_L1CA_G1_def gen_code_L1CA_G2_def by (rule gold_chips_pm) auto

lemma weil_pm_pm: "t < 10223 \<Longrightarrow> pm (weil_pm w t)"
  unfolding weil_pm_def by (simp add: pm_intros legendre_seq_pm)

lemma ins_code_pm: "j < 7 \<Longrightarrow> pm (ins_code ! j)"
  by (rule list_all_nthD [of pm ins_code 7]) (simp_all add: ins_code_def pm_def)

lemma pilot_chips_pm:
  assumes "c \<in> set (pilot_chips w p)" "1 \<le> p" "p + 6 \<le> 10230" shows "pm c"
proof -
  obtain t where "t < 10230" "c = (if t < p - 1 then weil_pm w t else if t < p + 6 then ins_code ! (t + 1 - p) else weil_pm w (t - 7))"
    using assms(1) by (auto simp: pilot_chips_def)
  then show ?thesis using assms(2,3) weil_pm_pm [of t w] weil_pm_pm [of "t - 7" w] ins_code_pm [of "t + 1 - p"] by simp
qed

section \<open>Transmitted and expected codes\<close>

definition sim_ok :: "sim_codes \<Rightarrow> bool" where
  "sim_ok st \<longleftrightarrow> length (sim_g1 st) = 2047 \<and> length (sim_g2 st) = 2047 \<and>
     (sim_legendre st = replicate 10223 0 \<or> sim_legendre st = map uminus (gen_legendre_seq 10223))"

lemma sim_ok_start: "sim_ok sim_codes0"
  by (simp add: sim_ok_def sim_codes0_def)

lemma icodegen_chips:
  assumes "sim_ok st" "length code = 2046" "1 \<le> prn" "prn \<le> 210"
  shows "\<exists>st'. icodegen st code prn = Some (st', map uminus (afsd_chips (nat (prn - 1)))) \<and> sim_ok st'"
proof -
  let ?k = "nat (prn - 1)"
  have k: "?k < 210" using assms by simp
  have r: "fill (replicate 11 0) 0 11 (\<lambda>i. -1) = replicate 11 (-1 :: int)" by (simp add: list_eq_iff_nth_eq nth_fill)
  obtain g1 g2 r1 r2 where g: "foldl icode_step (sim_g1 st, sim_g2 st, replicate 11 (-1), replicate 11 (-1)) [0..<2047] = (g1, g2, r1, r2)"
    by (metis prod_cases4)
  have loop: "length g1 = 2047" "length g2 = 2047" "\<And>i. i < 2047 \<Longrightarrow> g1 ! i = - (gen_code_AFSD_G1 2047 ! i)"
    "\<And>i. i < 2047 \<Longrightarrow> g2 ! i = - (gen_code_AFSD_G2 2047 ! i)"
    using icode_loop [OF g] assms(1) by (auto simp: sim_ok_def)
  have "fill code 0 2046 (\<lambda>i. g1 ! i * g2 ! ((2047 - delay ! ?k + i) mod 2047)) = map uminus (afsd_chips ?k)"
  proof (rule nth_equalityI)
    fix i assume "i < length (fill code 0 2046 (\<lambda>i. g1 ! i * g2 ! ((2047 - delay ! ?k + i) mod 2047)))"
    then have i: "i < 2046" using assms(2) by simp
    have "2047 - delay ! ?k + i = i + 2047 - delay ! ?k" using delay_bound [OF k] by simp
    then show "fill code 0 2046 (\<lambda>i. g1 ! i * g2 ! ((2047 - delay ! ?k + i) mod 2047)) ! i = map uminus (afsd_chips ?k) ! i"
      using i assms(2) by (simp add: nth_fill afsd_chips_def gold_chips_nth loop same_tables)
  qed (simp add: assms(2))
  then show ?thesis using assms g loop(1,2) by (simp add: icodegen_def r sim_ok_def)
qed

lemma sim_legendre_next:
  assumes "sim_ok st"
  shows "(if sim_legendre st ! 0 = 0 then gen_legendre_sequence (sim_legendre st) else sim_legendre st) =
    map uminus (gen_legendre_seq 10223)"
proof -
  have "gen_legendre_sequence (replicate 10223 0) = map uminus (gen_legendre_seq 10223)"
    by (rule nth_equalityI) (simp_all add: legendre_sequence_nth)
  moreover have "map uminus (gen_legendre_seq 10223) ! 0 \<noteq> 0" using legendre_seq_pm [of 0] by (auto simp: pm_def)
  ultimately show ?thesis using assms by (auto simp: sim_ok_def)
qed

lemma qcodegen_chips:
  assumes "sim_ok st" "length code = 10230" "1 \<le> prn" "prn \<le> 210"
  shows "\<exists>st'. qcodegen st code prn =
    Some (st', map uminus (afsp_chips (nat (prn - 1)))) \<and> sim_ok st'"
proof -
  let ?k = "nat (prn - 1)" and ?leg = "map uminus (gen_legendre_seq 10223)"
  let ?w = "weil_chips ?leg (weil ! ?k)"
  have k: "?k < 210" using assms by simp
  obtain p where ins: "insert_idx ! ?k = Suc p" "p + 7 \<le> 10230" using insert_bound [OF k] by (cases "insert_idx ! ?k") auto
  have w: "?w ! t = weil_pm (weil ! ?k) t" if "t < 10223" for t
    using that by (simp add: weil_chips_def nth_fill weil_pm_def)
  have bits: "insertbit = ins_code" by (simp add: insertbit_def ins_code_def)
  let ?c = "fill (fill (fill code 0 p (\<lambda>i. ?w ! i)) p (p + 7) (\<lambda>i. insertbit ! (i - p))) (p + 7) 10230 (\<lambda>i. ?w ! (i - 7))"
  have "foldl (\<lambda>c i. c[i := -1 * c ! i]) ?c [0..<10230] = map (\<lambda>x. -1 * x) ?c"
    using foldl_each [of 10230 ?c "\<lambda>x. -1 * x"] assms(2) by simp
  also have "\<dots> = map uminus (pilot_chips (weil ! ?k) (insert_idx ! ?k))"
  proof (rule nth_equalityI)
    fix i assume "i < length (map (\<lambda>x. -1 * x) ?c)"
    then have i: "i < 10230" using assms(2) by simp
    consider "i < p" | "p \<le> i" "i < p + 7" | "p + 7 \<le> i" by linarith
    then show "map (\<lambda>x. -1 * x) ?c ! i = map uminus (pilot_chips (weil ! ?k) (insert_idx ! ?k)) ! i"
      using i ins assms(2) by cases (auto simp: nth_fill pilot_chips_def w bits)
  qed (simp add: assms(2))
  finally show ?thesis using assms(3,4)
    by (simp add: qcodegen_def Let_def ins(1) afsp_chips_def same_tables sim_legendre_next [OF assms(1)]) (use assms(1) in \<open>simp add: sim_ok_def\<close>)
qed

section \<open>Caches\<close>

text \<open>Every array that is there holds what its generator computes; \<open>AFSPT\<close> is empty.\<close>

definition slots_ok :: "int list option list \<Rightarrow> (nat \<Rightarrow> int list) \<Rightarrow> bool" where
  "slots_ok xs f \<longleftrightarrow> length xs = 210 \<and> (\<forall>k < 210. xs ! k = None \<or> xs ! k = Some (f k))"

definition code_cache_ok :: "code_cache \<Rightarrow> bool" where
  "code_cache_ok c \<longleftrightarrow> slots_ok (L1CA c) l1ca_chips \<and>
     slots_ok (L1CP c) l1cp_chips \<and>
     slots_ok (L1CD c) l1cd_chips \<and>
     slots_ok (AFSD c) afsd_chips \<and>
     slots_ok (AFSP c) afsp_chips \<and>
     AFSPT c = replicate 210 None \<and>
     (L1CA_G1 c = None \<or> L1CA_G1 c = Some (gen_code_L1CA_G1 1023) \<and> L1CA_G2 c = Some (gen_code_L1CA_G2 1023)) \<and>
     (L1C_L_SEQ c = None \<or> L1C_L_SEQ c = Some (gen_legendre_seq 10223)) \<and>
     (AFSD_G1 c = None \<or> AFSD_G1 c = Some (gen_code_AFSD_G1 2047) \<and> AFSD_G2 c = Some (gen_code_AFSD_G2 2047))"

lemma slots_ok_update: "slots_ok xs f \<Longrightarrow> slots_ok (xs[k := Some (f k)]) f"
  by (cases "k < 210") (auto simp: slots_ok_def nth_list_update)

lemma slots_ok_get: "slots_ok xs f \<Longrightarrow> k < 210 \<Longrightarrow> xs ! k = Some c \<Longrightarrow> c = f k"
  by (force simp: slots_ok_def)

lemma code_cache_ok_start: "code_cache_ok code_cache0"
  by (simp add: code_cache_ok_def code_cache0_def slots_ok_def)

lemma gen_code_L1CPD_chips:
  assumes "code_cache_ok c" "1 \<le> p" "p + 6 \<le> 10230"
  shows "gen_code_L1CPD c 10230 w p = (c\<lparr>L1C_L_SEQ := Some (gen_legendre_seq 10223)\<rparr>, pilot_chips w p)"
proof -
  have L: "(case L1C_L_SEQ c of None \<Rightarrow> gen_legendre_seq 10223 | Some L \<Rightarrow> L) = gen_legendre_seq 10223"
    using assms(1) by (auto simp: code_cache_ok_def)
  show ?thesis unfolding gen_code_L1CPD_def L Let_def
    using assms(2,3) by (auto simp: list_eq_iff_nth_eq nth_fill pilot_chips_def weil_pm_def)
qed

text \<open>
  The contract of a generator with a cache: it keeps the caches right and returns the code the number
  stands for, whatever was computed before.
\<close>

locale memo_codes =
  fixes gen :: "'s \<Rightarrow> int \<Rightarrow> 's \<times> 'c option" and ok :: "'s \<Rightarrow> bool" and chips :: "int \<Rightarrow> 'c option"
  assumes gen_ok: "ok s \<Longrightarrow> ok (fst (gen s prn))"
    and gen_chips: "ok s \<Longrightarrow> snd (gen s prn) = chips prn"
begin

lemma gen_pair: "ok s \<Longrightarrow> \<exists>s'. gen s prn = (s', chips prn) \<and> ok s'"
  using gen_ok [of s prn] gen_chips [of s prn] by (cases "gen s prn") auto

lemma repeated: "ok s \<Longrightarrow> snd (gen (fst (gen s prn')) prn) = snd (gen s prn)"
  by (simp add: gen_ok gen_chips)

end

definition of_prn :: "(nat \<Rightarrow> int list) \<Rightarrow> int \<Rightarrow> int list option" where
  "of_prn f prn = (if prn < 1 \<or> prn > 210 then None else Some (f (nat (prn - 1))))"

lemma of_prn_simps: "1 \<le> prn \<Longrightarrow> prn \<le> 210 \<Longrightarrow> of_prn f prn = Some (f (nat (prn - 1)))" "prn < 1 \<or> prn > 210 \<Longrightarrow> of_prn f prn = None"
  by (auto simp: of_prn_def)

text \<open>The shape all cached generators share: look in a slot, else compute and store.\<close>

lemma cached_gen:
  assumes ok: "code_cache_ok c" and slot: "slots_ok (slot c) f"
    and null: "prn < 1 \<or> prn > 210 \<Longrightarrow> gen c prn = (c, None)"
    and hit: "\<And>code. 1 \<le> prn \<Longrightarrow> prn \<le> 210 \<Longrightarrow> slot c ! nat (prn - 1) = Some code \<Longrightarrow> gen c prn = (c, Some code)"
    and miss: "1 \<le> prn \<Longrightarrow> prn \<le> 210 \<Longrightarrow> slot c ! nat (prn - 1) = None \<Longrightarrow>
      \<exists>c'. gen c prn = (c', Some (f (nat (prn - 1)))) \<and> code_cache_ok c'"
  shows "code_cache_ok (fst (gen c prn)) \<and> snd (gen c prn) = of_prn f prn"
proof (cases "prn < 1 \<or> prn > 210")
  case False
  then have r: "1 \<le> prn" "prn \<le> 210" and k: "nat (prn - 1) < 210" by auto
  show ?thesis
  proof (cases "slot c ! nat (prn - 1)")
    case None
    then show ?thesis using miss [OF r] r by (auto simp: of_prn_def)
  next
    case (Some code)
    then show ?thesis using hit [OF r Some] r ok slots_ok_get [OF slot k] by (simp add: of_prn_def)
  qed
qed (simp add: null of_prn_def ok)

lemma gen_code_AFSD_ok:
  assumes "code_cache_ok c" shows "code_cache_ok (fst (gen_code_AFSD c prn)) \<and> snd (gen_code_AFSD c prn) = of_prn afsd_chips prn"
proof (rule cached_gen [OF assms, of AFSD])
  show "slots_ok (AFSD c) afsd_chips" using assms by (simp add: code_cache_ok_def)
  assume "1 \<le> prn" "prn \<le> 210" "AFSD c ! nat (prn - 1) = None"
  then show "\<exists>c'. gen_code_AFSD c prn = (c', Some (afsd_chips (nat (prn - 1)))) \<and> code_cache_ok c'"
    using assms by (auto simp: gen_code_AFSD_def Let_def code_cache_ok_def slots_ok_update simp flip: afsd_chips_def)
qed (simp_all add: gen_code_AFSD_def)

lemma gen_code_L1CA_ok:
  assumes "code_cache_ok c" shows "code_cache_ok (fst (gen_code_L1CA c prn)) \<and> snd (gen_code_L1CA c prn) = of_prn l1ca_chips prn"
proof (rule cached_gen [OF assms, of L1CA])
  show "slots_ok (L1CA c) l1ca_chips" using assms by (simp add: code_cache_ok_def)
  assume "1 \<le> prn" "prn \<le> 210" "L1CA c ! nat (prn - 1) = None"
  then show "\<exists>c'. gen_code_L1CA c prn = (c', Some (l1ca_chips (nat (prn - 1)))) \<and> code_cache_ok c'"
    using assms by (auto simp: gen_code_L1CA_def Let_def code_cache_ok_def slots_ok_update simp flip: l1ca_chips_def)
qed (simp_all add: gen_code_L1CA_def)

text \<open>The two codes of a pilot generator: with a subcarrier and without.\<close>

lemma code_cache_ok_seq: "code_cache_ok c \<Longrightarrow> code_cache_ok (c\<lparr>L1C_L_SEQ := Some (gen_legendre_seq 10223)\<rparr>)"
  by (simp add: code_cache_ok_def)

lemma gen_code_AFSP_ok:
  assumes "code_cache_ok c"
  shows "code_cache_ok (fst (gen_code_AFSP c prn)) \<and>
    snd (gen_code_AFSP c prn) = of_prn afsp_chips prn"
proof (rule cached_gen [OF assms, of AFSP])
  show "slots_ok (AFSP c) afsp_chips" using assms by (simp add: code_cache_ok_def)
  assume a: "1 \<le> prn" "prn \<le> 210" "AFSP c ! nat (prn - 1) = None"
  then have "nat (prn - 1) < 210" by simp
  note ins = insert_bound [OF this, folded same_tables]
  show "\<exists>c'. gen_code_AFSP c prn = (c', Some (afsp_chips (nat (prn - 1)))) \<and> code_cache_ok c'"
    using assms a ins by (simp add: gen_code_AFSP_def Let_def gen_code_L1CPD_chips flip: afsp_chips_def) (simp add: code_cache_ok_def slots_ok_update)
qed (simp_all add: gen_code_AFSP_def)

lemma gen_code_L1CP_ok:
  assumes "code_cache_ok c"
  shows "code_cache_ok (fst (gen_code_L1CP c prn)) \<and>
    snd (gen_code_L1CP c prn) = of_prn l1cp_chips prn"
proof (rule cached_gen [OF assms, of L1CP])
  show "slots_ok (L1CP c) l1cp_chips" using assms by (simp add: code_cache_ok_def)
  assume a: "1 \<le> prn" "prn \<le> 210" "L1CP c ! nat (prn - 1) = None"
  then have "nat (prn - 1) < 210" by simp
  note ins = insert_bound [OF this, folded same_tables]
  show "\<exists>c'. gen_code_L1CP c prn =
      (c', Some (l1cp_chips (nat (prn - 1)))) \<and> code_cache_ok c'"
    using assms a ins by (simp add: gen_code_L1CP_def Let_def gen_code_L1CPD_chips flip: l1cp_chips_def) (simp add: code_cache_ok_def slots_ok_update)
qed (simp_all add: gen_code_L1CP_def)

lemma gen_code_L1CD_ok:
  assumes "code_cache_ok c"
  shows "code_cache_ok (fst (gen_code_L1CD c prn)) \<and>
    snd (gen_code_L1CD c prn) = of_prn l1cd_chips prn"
proof (rule cached_gen [OF assms, of L1CD])
  show "slots_ok (L1CD c) l1cd_chips" using assms by (simp add: code_cache_ok_def)
  assume a: "1 \<le> prn" "prn \<le> 210" "L1CD c ! nat (prn - 1) = None"
  then have "nat (prn - 1) < 210" by simp
  note ins = L1CD_ins_bound [OF this]
  show "\<exists>c'. gen_code_L1CD c prn =
      (c', Some (l1cd_chips (nat (prn - 1)))) \<and> code_cache_ok c'"
    using assms a ins by (simp add: gen_code_L1CD_def Let_def gen_code_L1CPD_chips flip: l1cd_chips_def) (simp add: code_cache_ok_def slots_ok_update)
qed (simp_all add: gen_code_L1CD_def)

interpretation afsd: memo_codes gen_code_AFSD code_cache_ok "of_prn afsd_chips"
  by unfold_locales (simp_all add: gen_code_AFSD_ok)

interpretation afsp: memo_codes gen_code_AFSP code_cache_ok "of_prn afsp_chips"
  by unfold_locales (simp_all add: gen_code_AFSP_ok)

interpretation l1ca: memo_codes gen_code_L1CA code_cache_ok "of_prn l1ca_chips"
  by unfold_locales (simp_all add: gen_code_L1CA_ok)

interpretation l1cp: memo_codes gen_code_L1CP code_cache_ok "of_prn l1cp_chips"
  by unfold_locales (simp_all add: gen_code_L1CP_ok)

interpretation l1cd: memo_codes gen_code_L1CD code_cache_ok "of_prn l1cd_chips"
  by unfold_locales (simp_all add: gen_code_L1CD_ok)

text \<open>Caches and simulator arrays that calls in any order can leave.\<close>

inductive cache_reach :: "code_cache \<Rightarrow> bool" where
  start: "cache_reach code_cache0"
| L1CA: "cache_reach c \<Longrightarrow> cache_reach (fst (gen_code_L1CA c prn))"
| L1S: "cache_reach c \<Longrightarrow> cache_reach (fst (gen_code_L1S c prn))"
| L1CB: "cache_reach c \<Longrightarrow> cache_reach (fst (gen_code_L1CB c prn))"
| L1CP: "cache_reach c \<Longrightarrow> cache_reach (fst (gen_code_L1CP c prn))"
| L1CD: "cache_reach c \<Longrightarrow> cache_reach (fst (gen_code_L1CD c prn))"
| AFSD: "cache_reach c \<Longrightarrow> cache_reach (fst (gen_code_AFSD c prn))"
| AFSP: "cache_reach c \<Longrightarrow> cache_reach (fst (gen_code_AFSP c prn))"

lemma cache_reach_ok: "cache_reach c \<Longrightarrow> code_cache_ok c"
  by (induction rule: cache_reach.induct)
    (simp_all add: code_cache_ok_start l1ca.gen_ok l1cp.gen_ok l1cd.gen_ok afsd.gen_ok afsp.gen_ok
      gen_code_L1S_def gen_code_L1CB_def split_beta)

inductive sim_reach :: "sim_codes \<Rightarrow> bool" where
  start: "sim_reach sim_codes0"
| icode: "sim_reach st \<Longrightarrow> length code = 2046 \<Longrightarrow> icodegen st code prn = Some (st', code') \<Longrightarrow> sim_reach st'"
| qcode: "sim_reach st \<Longrightarrow> length code = 10230 \<Longrightarrow> qcodegen st code prn = Some (st', code') \<Longrightarrow> sim_reach st'"

lemma codegen_range: "icodegen st code prn = Some x \<Longrightarrow> 1 \<le> prn \<and> prn \<le> 210" "qcodegen st code prn = Some x \<Longrightarrow> 1 \<le> prn \<and> prn \<le> 210"
  by (auto simp: icodegen_def qcodegen_def split: if_splits)

lemma sim_reach_ok: "sim_reach st \<Longrightarrow> sim_ok st"
proof (induction rule: sim_reach.induct)
  case (icode st code prn st' code')
  then show ?case using icodegen_chips [of st code prn] codegen_range(1) [OF icode.hyps(3)] by auto
next
  case (qcode st code prn st' code')
  then show ?case using qcodegen_chips [of st code prn] codegen_range(2) [OF qcode.hyps(3)] by auto
qed (rule sim_ok_start)

end
