(* ===== verification/Sdr_Code_Afs_Props.thy ===== *)
theory Sdr_Code_Afs_Props
  imports Sdr_Code_Afs_Lemmas
begin

text \<open>
  Properties of the spreading codes: the simulator and the receiver compute the same data, pilot and
  secondary codes up to the sign that their conventions differ by, every generator of the receiver
  returns chips of the right number and kind whatever its caches hold, and correlating the transmitted
  chips of a data bit with the receiver's replica gives the bit.
\<close>

section \<open>Subcarriers\<close>

lemma nth_inner_loop:
  assumes "k < length c"
  shows "foldl (\<lambda>c j. c[b + j := v j]) c [0..<n] ! k = (if b \<le> k \<and> k < b + n then v (k - b) else c ! k)"
  using assms
proof (induction n)
  case (Suc n)
  then show ?case by (cases "k = b + n") (auto simp: nth_list_update)
qed auto

lemma length_nested_loop [simp]:
  "length (foldl (\<lambda>c i. foldl (\<lambda>c j. c[b i + j := v i j]) c [0..<n]) xs is) = length xs"
  by (induction "is" arbitrary: xs) simp_all

lemma nested_loop_nth:
  assumes "N * n \<le> length xs" "k < N * n"
  shows "foldl (\<lambda>c i. foldl (\<lambda>c j. c[i * n + j := v i j]) c [0..<n]) xs [0..<N] ! k = v (k div n) (k mod n)"
  using assms
proof (induction N)
  case (Suc N)
  show ?case
  proof (cases "k < N * n")
    case True
    then show ?thesis using Suc by (simp add: nth_inner_loop)
  next
    case False
    then have d: "k div n = N" using Suc.prems(2) by (intro div_nat_eqI) (auto simp: algebra_simps)
    moreover have "k mod n = k - N * n" using d by (simp add: modulo_nat_def mult.commute)
    ultimately have "k div n = N" "k mod n = k - N * n" by simp_all
    then show ?thesis using False Suc.prems by (simp add: nth_inner_loop)
  qed
qed simp

lemma length_mod_code [simp, afs_length]: "length (mod_code code N sub_carr n) = N * n"
  by (simp add: mod_code_def)

lemma mod_code_nth: "k < N * n \<Longrightarrow> mod_code code N sub_carr n ! k = - (code ! (k div n)) * sub_carr ! (k mod n)"
  by (simp add: mod_code_def nested_loop_nth)

lemma mod_code_pm:
  assumes "c \<in> set (mod_code code N BOC 2)" "length code = N" "\<And>x. x \<in> set code \<Longrightarrow> pm x"
  shows "pm c"
proof -
  obtain k where k: "k < N * 2" "c = mod_code code N BOC 2 ! k" using assms(1) by (auto simp: in_set_conv_nth)
  have "pm (code ! (k div 2))" using k(1) assms(2,3) by simp
  moreover have "pm (BOC ! (k mod 2))" by (cases "even k") (auto simp: BOC_def pm_def odd_iff_mod_2_eq_one)
  ultimately show ?thesis using k by (simp add: mod_code_nth pm_intros)
qed

section \<open>Types\<close>

text \<open>A code of \<open>n\<close> chips, each 1 or -1.\<close>

definition code_of_len :: "nat \<Rightarrow> int list \<Rightarrow> bool" where
  "code_of_len n xs \<longleftrightarrow> length xs = n \<and> list_all (\<lambda>x. x = 1 \<or> x = -1) xs"

lemma code_of_lenI: "length xs = n \<Longrightarrow> (\<And>x. x \<in> set xs \<Longrightarrow> pm x) \<Longrightarrow> code_of_len n xs"
  by (auto simp: code_of_len_def list_all_iff pm_def)

lemma afsp_chips_pm: "k < 210 \<Longrightarrow> c \<in> set (afsp_chips k) \<Longrightarrow> pm c"
  using insert_bound [of k, folded same_tables] pilot_chips_pm by (auto simp: afsp_chips_def)

lemma chips_code_of_len:
  "code_of_len 2046 (afsd_chips k)" "code_of_len 1023 (l1ca_chips k)" "code_of_len 2046 (mod_code (l1ca_chips k) 1023 BOC 2)"
  by (intro code_of_lenI; auto simp: afsd_chips_pm l1ca_chips_pm intro: mod_code_pm [OF _ _ l1ca_chips_pm])+

lemma pilot_code_of_len:
  assumes "k < 210"
  shows "code_of_len 10230 (afsp_chips k)" "code_of_len 20460 (l1cp_chips k)" "code_of_len 20460 (l1cd_chips k)"
proof -
  show "code_of_len 10230 (afsp_chips k)" using afsp_chips_pm [OF assms] by (intro code_of_lenI) auto
  show "code_of_len 20460 (l1cp_chips k)"
    using afsp_chips_pm [OF assms] mod_code_pm [of _ "afsp_chips k" 10230]
    by (intro code_of_lenI) (auto simp: l1cp_chips_def simp flip: afsp_chips_def)
  show "code_of_len 20460 (l1cd_chips k)"
    using pilot_chips_pm [of _ "L1CD_weil_idx ! k" "L1CD_ins_idx ! k"] L1CD_ins_bound [OF assms]
      mod_code_pm [of _ "pilot_chips (L1CD_weil_idx ! k) (L1CD_ins_idx ! k)" 10230]
    by (intro code_of_lenI) (auto simp: l1cd_chips_def)
qed

text \<open>What a generator returns: a code for a number in the range, \<open>NULL\<close> for another.\<close>

definition returns_codes :: "(int \<Rightarrow> bool) \<Rightarrow> nat \<Rightarrow> (int \<Rightarrow> int list option) \<Rightarrow> bool" where
  "returns_codes valid n gen \<longleftrightarrow>
     (\<forall>prn. case gen prn of Some code \<Rightarrow> valid prn \<and> code_of_len n code | None \<Rightarrow> \<not> valid prn)"

lemma returns_of_prn:
  assumes "\<And>k. k < 210 \<Longrightarrow> code_of_len n (f k)" "\<And>prn. gen prn = of_prn f prn"
  shows "returns_codes (\<lambda>prn. 1 \<le> prn \<and> prn \<le> 210) n gen"
  using assms by (auto simp: returns_codes_def of_prn_def split: option.split)

text \<open>
  C40: Eight generators of the receiver, which are those of AFS data (\<open>gen_code_AFSD\<close>) and
  pilot (\<open>gen_code_AFSP\<close>), of \<open>L1CA\<close>, \<open>L1S\<close>, \<open>L1CB\<close>, \<open>L1CP\<close>, \<open>L1CD\<close>, and of the secondary code of the AFS pilot
  (\<open>sec_code_AFSP\<close>), return, for each number in their range, a code of their length whose chips are 1 or -1,
  and \<open>NULL\<close> outside the range, whatever calls of the first seven came before and filled the caches.
  The other generators of \<open>sdr_code.c\<close> are not covered; some of them (\<open>L2CM\<close>, \<open>L2CL\<close>) use chips 0 too.
\<close>

theorem generator_types:
  assumes "cache_reach c"
  shows "returns_codes (\<lambda>prn. 1 \<le> prn \<and> prn \<le> 210) 2046 (\<lambda>prn. snd (gen_code_AFSD c prn)) \<and>
    returns_codes (\<lambda>prn. 1 \<le> prn \<and> prn \<le> 210) 10230 (\<lambda>prn. snd (gen_code_AFSP c prn)) \<and>
    returns_codes (\<lambda>prn. 1 \<le> prn \<and> prn \<le> 210) 1023 (\<lambda>prn. snd (gen_code_L1CA c prn)) \<and>
    returns_codes (\<lambda>prn. 183 \<le> prn \<and> prn \<le> 191) 1023 (\<lambda>prn. snd (gen_code_L1S c prn)) \<and>
    returns_codes (\<lambda>prn. prn = 198 \<or> 202 \<le> prn \<and> prn \<le> 206) 2046 (\<lambda>prn. snd (gen_code_L1CB c prn)) \<and>
    returns_codes (\<lambda>prn. 1 \<le> prn \<and> prn \<le> 210) 20460 (\<lambda>prn. snd (gen_code_L1CP c prn)) \<and>
    returns_codes (\<lambda>prn. 1 \<le> prn \<and> prn \<le> 210) 20460 (\<lambda>prn. snd (gen_code_L1CD c prn)) \<and>
    returns_codes (\<lambda>prn. 1 \<le> prn \<and> prn \<le> 12) 4 sec_code_AFSP"
proof -
  note ok = cache_reach_ok [OF assms]
  have "returns_codes (\<lambda>prn. 1 \<le> prn \<and> prn \<le> 12) 4 sec_code_AFSP"
  proof -
    have "code_of_len 4 ([[1, 1, 1, -1], [-1, 1, 1, 1], [1, -1, 1, 1], [1, 1, -1, 1]] ! m)" if "m < 4" for m
      using that by (auto simp: code_of_len_def less_Suc_eq numeral_eq_Suc)
    then show ?thesis by (auto simp: returns_codes_def sec_code_AFSP_def)
  qed
  moreover have "returns_codes (\<lambda>prn. 183 \<le> prn \<and> prn \<le> 191) 1023 (\<lambda>prn. snd (gen_code_L1S c prn))"
    using l1ca.gen_chips [OF ok] chips_code_of_len(2) by (auto simp: returns_codes_def gen_code_L1S_def of_prn_def)
  moreover have "returns_codes (\<lambda>prn. prn = 198 \<or> 202 \<le> prn \<and> prn \<le> 206) 2046 (\<lambda>prn. snd (gen_code_L1CB c prn))"
    using l1ca.gen_chips [OF ok] chips_code_of_len(3) by (auto simp: returns_codes_def gen_code_L1CB_def of_prn_def split_beta)
  ultimately show ?thesis
    using returns_of_prn [OF chips_code_of_len(1) afsd.gen_chips [OF ok]] returns_of_prn [OF pilot_code_of_len(1) afsp.gen_chips [OF ok]]
      returns_of_prn [OF chips_code_of_len(2) l1ca.gen_chips [OF ok]] returns_of_prn [OF pilot_code_of_len(2) l1cp.gen_chips [OF ok]]
      returns_of_prn [OF pilot_code_of_len(3) l1cd.gen_chips [OF ok]] by blast
qed

theorem generator_types_witness:
  "snd (gen_code_AFSD (fst (gen_code_L1CP code_cache0 7)) 0) = None \<and> snd (gen_code_AFSD (fst (gen_code_L1CP code_cache0 7)) 210) \<noteq> None"
proof -
  have "cache_reach (fst (gen_code_L1CP code_cache0 7))" by (intro cache_reach.intros)
  from generator_types [OF this] have r: "returns_codes (\<lambda>prn. 1 \<le> prn \<and> prn \<le> 210) 2046
    (\<lambda>prn. snd (gen_code_AFSD (fst (gen_code_L1CP code_cache0 7)) prn))" by blast
  show ?thesis using r [unfolded returns_codes_def, THEN spec, of 0] r [unfolded returns_codes_def, THEN spec, of 210]
    by (auto split: option.splits)
qed

section \<open>Transmitter and receiver\<close>

lemma data_code_pair:
  assumes "sim_ok st" "code_cache_ok c" "length code = 2046" "icodegen st code prn = Some (st', sent)"
    "gen_code_AFSD c prn = (c', Some replica)"
  shows "replica = map uminus sent \<and> code_of_len 2046 sent"
proof -
  have r: "1 \<le> prn" "prn \<le> 210" using codegen_range(1) [OF assms(4)] by auto
  have sent: "sent = map uminus (afsd_chips (nat (prn - 1)))" using icodegen_chips [OF assms(1,3) r] assms(4) by auto
  moreover have "replica = afsd_chips (nat (prn - 1))" using afsd.gen_chips [OF assms(2), of prn] assms(5) r by (simp add: of_prn_simps)
  moreover have "code_of_len 2046 sent" unfolding sent by (intro code_of_lenI) (auto simp: afsd_chips_pm)
  ultimately show ?thesis by (simp add: comp_def)
qed

text \<open>
  C13: For each of the 210 numbers, the data code the receiver correlates with is the data code the
  simulator transmits with every chip negated (the simulator sends a logical 1 as -1, the receiver
  writes it as 1), although the one runs a register of eleven cells with values 1 and -1 and the other
  a register word with taps; this holds whatever the two programs computed before.
\<close>

theorem data_codes_agree:
  assumes "sim_reach st" "cache_reach c" "length code = 2046" "1 \<le> prn" "prn \<le> 210"
  shows "\<exists>st' c' sent. icodegen st code prn = Some (st', sent) \<and>
    gen_code_AFSD c prn = (c', Some (map uminus sent)) \<and> code_of_len 2046 sent \<and> sim_reach st' \<and> cache_reach c'"
proof -
  let ?sent = "map uminus (afsd_chips (nat (prn - 1)))"
  obtain st' where st: "icodegen st code prn = Some (st', ?sent)"
    using icodegen_chips [OF sim_reach_ok [OF assms(1)] assms(3-5)] by blast
  obtain c' where c: "gen_code_AFSD c prn = (c', of_prn afsd_chips prn)"
    using afsd.gen_pair [OF cache_reach_ok [OF assms(2)]] by blast
  moreover have "of_prn afsd_chips prn = Some (map uminus ?sent)" using assms(4,5) by (simp add: of_prn_simps comp_def)
  moreover have "code_of_len 2046 ?sent" by (intro code_of_lenI) (auto simp: afsd_chips_pm)
  moreover have "sim_reach st'" by (rule sim_reach.icode [OF assms(1,3) st])
  moreover have "cache_reach c'" using cache_reach.AFSD [OF assms(2), of prn] c by simp
  ultimately show ?thesis using st by auto
qed

theorem data_codes_agree_witness:
  "\<exists>st' c' sent. icodegen sim_codes0 (replicate 2046 0) 8 = Some (st', sent) \<and>
    gen_code_AFSD code_cache0 8 = (c', Some (map uminus sent)) \<and> length sent = 2046"
  using data_codes_agree [OF sim_reach.start cache_reach.start, of "replicate 2046 0" 8] by (auto simp: code_of_len_def)

text \<open>
  C14: For each of the 210 numbers, the pilot code the receiver correlates with is the pilot code the
  simulator transmits with every chip negated: the two programs build the Legendre sequence with
  opposite signs, combine it differently and insert the same seven chips at the same place. For the
  twelve satellites of the simulator the secondary codes are negations of each other too, so that the
  product of pilot and secondary code has the same sign in both.
\<close>

theorem pilot_codes_agree:
  assumes "sim_reach st" "cache_reach c" "length code = 10230" "1 \<le> prn" "prn \<le> 210"
  shows "\<exists>st' c' sent. qcodegen st code prn = Some (st', sent) \<and>
    gen_code_AFSP c prn = (c', Some (map uminus sent)) \<and> code_of_len 10230 sent \<and> sim_reach st' \<and> cache_reach c' \<and>
    (prn \<le> 12 \<longrightarrow> sec_code_AFSP prn = Some (map (\<lambda>s. - (-2 * s + 1)) (scode ! nat ((prn - 1) mod 4))))"
proof -
  let ?k = "nat (prn - 1)"
  let ?sent = "map uminus (afsp_chips ?k)"
  have k: "?k < 210" using assms(4,5) by simp
  obtain st' where st: "qcodegen st code prn = Some (st', ?sent)"
    using qcodegen_chips [OF sim_reach_ok [OF assms(1)] assms(3-5)] by blast
  obtain c' where c: "gen_code_AFSP c prn = (c', of_prn afsp_chips prn)"
    using afsp.gen_pair [OF cache_reach_ok [OF assms(2)]] by blast
  have "[[1, 1, 1, -1], [-1, 1, 1, 1], [1, -1, 1, 1], [1, 1, -1, 1]] ! m = map (\<lambda>s. - (-2 * s + 1 :: int)) (scode ! m)" if "m < 4" for m
    using that by (auto simp: scode_def less_Suc_eq numeral_eq_Suc)
  then have "prn \<le> 12 \<longrightarrow> sec_code_AFSP prn = Some (map (\<lambda>s. - (-2 * s + 1)) (scode ! nat ((prn - 1) mod 4)))"
    using assms(4) by (simp add: sec_code_AFSP_def)
  moreover have "of_prn afsp_chips prn = Some (map uminus ?sent)" using assms(4,5) by (simp add: of_prn_simps comp_def)
  moreover have "code_of_len 10230 ?sent" using afsp_chips_pm [OF k] by (intro code_of_lenI) auto
  moreover have "sim_reach st'" by (rule sim_reach.qcode [OF assms(1,3) st])
  moreover have "cache_reach c'" using cache_reach.AFSP [OF assms(2), of prn] c by simp
  ultimately show ?thesis using st c by auto
qed

theorem pilot_codes_agree_witness:
  "\<exists>st' c' sent. qcodegen sim_codes0 (replicate 10230 0) 8 = Some (st', sent) \<and>
    gen_code_AFSP code_cache0 8 = (c', Some (map uminus sent)) \<and> sec_code_AFSP 8 = Some [1, 1, -1, 1]"
proof -
  have "map (\<lambda>s. - (-2 * s + 1)) (scode ! nat ((8 - 1) mod 4)) = [1, 1, -1, 1 :: int]" by (simp add: scode_def)
  then show ?thesis using pilot_codes_agree [OF sim_reach.start cache_reach.start, of "replicate 10230 0" 8] by auto
qed

text \<open>
  A data bit \<open>b\<close> is sent as the chips of the code times \<open>-2 * b + 1\<close>. The sum of the sent chips
  times the replica of the receiver is then 2046 or -2046 and its sign is the one the receiver decides
  for: at least 0 exactly where the bit is 1.
\<close>

theorem despread_bit:
  assumes "sim_reach st" "cache_reach c" "length code = 2046" "icodegen st code prn = Some (st', sent)"
    "gen_code_AFSD c prn = (c', Some replica)" "b = 0 \<or> b = 1"
  shows "(\<Sum>i < 2046. replica ! i * (sent ! i * (-2 * b + 1))) = 2046 * (2 * b - 1) \<and>
    ((\<Sum>i < 2046. replica ! i * (sent ! i * (-2 * b + 1))) \<ge> 0 \<longleftrightarrow> b = 1)"
proof -
  have r: "replica = map uminus sent" "code_of_len 2046 sent"
    using data_code_pair [OF sim_reach_ok [OF assms(1)] cache_reach_ok [OF assms(2)] assms(3-5)] by auto
  have "replica ! i * (sent ! i * (-2 * b + 1)) = 2 * b - 1" if "i < 2046" for i
    using that r by (auto simp: code_of_len_def list_all_length algebra_simps)
  then have "(\<Sum>i < 2046. replica ! i * (sent ! i * (-2 * b + 1))) = (\<Sum>i < 2046 :: nat. 2 * b - 1)"
    by (intro sum.cong) auto
  also have "\<dots> = 2046 * (2 * b - 1)" by simp
  finally have eq: "(\<Sum>i < 2046. replica ! i * (sent ! i * (-2 * b + 1))) = 2046 * (2 * b - 1)" .
  show ?thesis unfolding eq using assms(6) by auto
qed

theorem despread_bit_witness:
  "\<exists>st' sent c' replica. icodegen sim_codes0 (replicate 2046 0) 8 = Some (st', sent) \<and>
    gen_code_AFSD code_cache0 8 = (c', Some replica) \<and> (\<Sum>i < 2046. replica ! i * (sent ! i * (-2 * 1 + 1))) = 2046"
proof -
  obtain st' sent where st: "icodegen sim_codes0 (replicate 2046 0) 8 = Some (st', sent)"
    using icodegen_chips [OF sim_ok_start, of "replicate 2046 0" 8] by auto
  obtain c' where c: "gen_code_AFSD code_cache0 8 = (c', Some (afsd_chips 7))"
    using afsd.gen_pair [OF code_cache_ok_start, of 8] by (auto simp: of_prn_def)
  show ?thesis using despread_bit [OF sim_reach.start cache_reach.start _ st c, of 1] st c by auto
qed

end
