(* ===== verification/C_Double_Exact.thy ===== *)
theory C_Double_Exact
  imports C_Double
begin

text \<open>
  Which operations on doubles are exact. A number is on the grid when it is an integer of at most 53
  bits over a power of two; rounding leaves such a number as it is. The difference of a number on the
  grid and an integer below it is on the grid again, and rounding the product of a number on the grid
  that is less than an integer stays below the product of the integer. From these follows that cutting
  the quotient of a double and an integer to an integer is integer division, although the quotient is
  rounded first.
\<close>

definition dsub :: "rat \<Rightarrow> rat \<Rightarrow> rat" where
  "dsub x y = dbl (x - y)"

definition on_grid :: "nat \<Rightarrow> rat \<Rightarrow> bool" where
  "on_grid K x \<longleftrightarrow> (\<exists>n k. x = of_int n / 2 ^ k \<and> \<bar>n\<bar> \<le> 2 ^ 53 \<and> k \<le> K)"

lemma on_gridI: "x = of_int n / 2 ^ k \<Longrightarrow> \<bar>n\<bar> \<le> 2 ^ 53 \<Longrightarrow> k \<le> K \<Longrightarrow> on_grid K x"
  by (auto simp: on_grid_def)

lemma on_gridE:
  assumes "on_grid K x"
  obtains n k where "x = of_int n / 2 ^ k" "\<bar>n\<bar> \<le> 2 ^ 53" "k \<le> K"
  using assms by (auto simp: on_grid_def)

lemma on_grid_int: "\<bar>n\<bar> \<le> 2 ^ 53 \<Longrightarrow> on_grid K (of_int n)"
  by (rule on_gridI [of _ n 0]) simp_all

lemma on_grid_mono: "on_grid K x \<Longrightarrow> K \<le> L \<Longrightarrow> on_grid L x"
  by (erule on_gridE) (rule on_gridI, assumption, assumption, simp)

lemma on_grid_half: "on_grid K x \<Longrightarrow> on_grid (Suc K) (x / 2)"
proof (erule on_gridE)
  fix n k assume "x = of_int n / 2 ^ k" "\<bar>n\<bar> \<le> 2 ^ 53" "k \<le> K"
  then show "on_grid (Suc K) (x / 2)" by (intro on_gridI [of _ n "Suc k"]) (simp_all add: field_simps)
qed

section \<open>Numbers on the grid are not rounded\<close>

text \<open>A positive number on the grid is an integer at its own scale.\<close>

lemma grid_scaled:
  assumes "on_grid K x" "2 ^ 52 \<le> x * 2 ^ k"
  obtains m where "x * 2 ^ k = of_int m"
proof -
  obtain n j where n: "x = of_int n / 2 ^ j" "\<bar>n\<bar> \<le> 2 ^ 53" using assms(1) by (rule on_gridE)
  show ?thesis
  proof (cases "j \<le> k")
    case True
    then have "(2 :: rat) ^ k = 2 ^ j * 2 ^ (k - j)" by (simp flip: power_add)
    then have "x * 2 ^ k = of_int (n * 2 ^ (k - j))" using n(1) by simp
    then show ?thesis by (rule that)
  next
    case False
    then have "(2 :: rat) ^ Suc k \<le> 2 ^ j" by (intro power_increasing) auto
    moreover have "0 < x"
    proof (rule ccontr)
      assume "\<not> 0 < x"
      then have "x * 2 ^ k \<le> 0" by (simp add: mult_nonpos_nonneg)
      with assms(2) show False by simp
    qed
    ultimately have "x * 2 ^ Suc k \<le> x * 2 ^ j" by simp
    also have "\<dots> = of_int n" using n(1) by simp
    also have "\<dots> \<le> of_int (2 ^ 53)" using n(2) by (simp only: of_int_le_iff)
    finally have "x * 2 ^ k \<le> 2 ^ 52" by simp
    then have "x * 2 ^ k = of_int (2 ^ 52)" using assms(2) by simp
    then show ?thesis by (rule that)
  qed
qed

lemma grid_pos_bound:
  assumes "on_grid K x" "0 < x" shows "1 / 2 ^ K \<le> x"
proof -
  obtain n k where n: "x = of_int n / 2 ^ k" "k \<le> K" using assms(1) by (rule on_gridE)
  then have "1 \<le> n" using assms(2) by (simp add: zero_less_divide_iff)
  then have "1 / 2 ^ k \<le> x" using n(1) by (simp add: divide_right_mono)
  moreover have "1 / (2 :: rat) ^ K \<le> 1 / 2 ^ k" using n(2) by (intro divide_left_mono power_increasing) auto
  ultimately show ?thesis by simp
qed

lemma dbl_grid:
  assumes "on_grid K x" "K \<le> 1000" "0 \<le> x" "x < 2 ^ 53"
  shows "dbl x = x"
proof (cases "x = 0")
  case False
  then have pos: "0 < x" using assms(3) by simp
  have "1 / 2 ^ 1000 \<le> x"
    using grid_pos_bound [OF on_grid_mono [OF assms(1,2)] pos] .
  then obtain k where k: "2 ^ 52 \<le> x * 2 ^ k" "x * 2 ^ k < 2 ^ 53" "k < 1100" using scale_exists assms(4) by blast
  obtain m where m: "x * 2 ^ k = of_int m" using grid_scaled [OF assms(1) k(1)] .
  then have "dbl x = of_int m / 2 ^ k" unfolding dbl_scaled [OF k] by (simp add: round_even_def)
  also have "\<dots> = x" using m [symmetric] by (simp add: field_simps)
  finally show ?thesis .
qed (simp add: dbl_def)

lemma round_even_int_le: "of_int m \<le> q \<Longrightarrow> m \<le> round_even q"
  unfolding round_even_def Let_def by (simp add: le_floor_iff) linarith

lemma round_even_le_int: "q \<le> of_int m \<Longrightarrow> round_even q \<le> m"
proof -
  assume q: "q \<le> of_int m"
  show ?thesis
  proof (cases "q = of_int m")
    case False
    then have "\<lfloor>q\<rfloor> + 1 \<le> m" using q by (simp add: floor_less_iff zless_imp_add1_zle)
    then show ?thesis unfolding round_even_def Let_def by auto
  qed (simp add: round_even_def)
qed

section \<open>Rounding against integers\<close>

lemma dbl_ge_int:
  assumes "of_int m \<le> x" "1 / 2 ^ 1000 \<le> x" "x < 2 ^ 53" shows "of_int m \<le> dbl x"
proof -
  obtain k where k: "2 ^ 52 \<le> x * 2 ^ k" "x * 2 ^ k < 2 ^ 53" "k < 1100" using scale_exists assms(2,3) by blast
  have "of_int (m * 2 ^ k) \<le> x * 2 ^ k" using assms(1) by simp
  then have "m * 2 ^ k \<le> round_even (x * 2 ^ k)" by (rule round_even_int_le)
  then have "(of_int (m * 2 ^ k) :: rat) \<le> of_int (round_even (x * 2 ^ k))" by (simp only: of_int_le_iff)
  then show ?thesis unfolding dbl_scaled [OF k] by (simp add: pos_le_divide_eq)
qed

lemma dbl_le_int:
  assumes "x \<le> of_int m" "1 / 2 ^ 1000 \<le> x" "x < 2 ^ 53" shows "dbl x \<le> of_int m"
proof -
  obtain k where k: "2 ^ 52 \<le> x * 2 ^ k" "x * 2 ^ k < 2 ^ 53" "k < 1100" using scale_exists assms(2,3) by blast
  have "x * 2 ^ k \<le> of_int (m * 2 ^ k)" using assms(1) by simp
  then have "round_even (x * 2 ^ k) \<le> m * 2 ^ k" by (rule round_even_le_int)
  then have "(of_int (round_even (x * 2 ^ k)) :: rat) \<le> of_int (m * 2 ^ k)" by (simp only: of_int_le_iff)
  then show ?thesis unfolding dbl_scaled [OF k] by (simp add: pos_divide_le_eq)
qed

text \<open>A number on the grid below an integer is below it by more than a rounding can add.\<close>

lemma grid_gap:
  assumes "on_grid K x" "K \<le> 1000" "0 < x" "x < of_int c" "x < 2 ^ 53"
  shows "x + x / 2 ^ 53 < of_int c"
proof -
  have "1 / 2 ^ 1000 \<le> x" using grid_pos_bound [OF on_grid_mono [OF assms(1,2)] assms(3)] .
  then obtain k where k: "2 ^ 52 \<le> x * 2 ^ k" "x * 2 ^ k < 2 ^ 53" using scale_exists assms(5) by blast
  obtain m where m: "x * 2 ^ k = of_int m" using grid_scaled [OF assms(1) k(1)] .
  have "x * 2 ^ k < of_int (c * 2 ^ k)" using assms(4) by simp
  then have "m + 1 \<le> c * 2 ^ k" unfolding m of_int_less_iff by simp
  then have "of_int (m + 1) \<le> (of_int (c * 2 ^ k) :: rat)" by (simp only: of_int_le_iff)
  then have "x * 2 ^ k + 1 \<le> of_int c * 2 ^ k" using m by simp
  moreover have "x * 2 ^ k / 2 ^ 53 < 1" using k(2) by simp
  ultimately have "x * 2 ^ k + x * 2 ^ k / 2 ^ 53 < of_int c * 2 ^ k" by linarith
  then have "(x + x / 2 ^ 53) * 2 ^ k < of_int c * 2 ^ k" by (simp only: distrib_right times_divide_eq_left)
  then show ?thesis by simp
qed

lemma dbl_mult_less:
  assumes "on_grid K x" "K \<le> 1000" "0 \<le> x" "x < of_int c" "x < 2 ^ 53" "0 < a"
    "x = 0 \<or> 1 / 2 ^ 1000 \<le> x * a" "x * a < 2 ^ 53"
  shows "dbl (x * a) < of_int c * a"
proof (cases "x = 0")
  case True
  then show ?thesis using assms(4,6) by (simp add: dbl_def)
next
  case False
  then have "x + x / 2 ^ 53 < of_int c" using grid_gap [OF assms(1,2) _ assms(4,5)] assms(3) by simp
  then have "(x + x / 2 ^ 53) * a < of_int c * a" using assms(6) by simp
  moreover have "\<bar>dbl (x * a) - x * a\<bar> \<le> x * a / 2 ^ 53" using dbl_error [of "x * a"] assms(7,8) False by blast
  ultimately show ?thesis unfolding distrib_right times_divide_eq_left by linarith
qed

section \<open>Exact operations\<close>

text \<open>\<open>(int)(x / d)\<close> for a double \<open>x\<close> and an integer \<open>d\<close>.\<close>

lemma trunc_quotient:
  assumes "on_grid K x" "K \<le> 900" "0 \<le> x" "x < 2 ^ 53" "0 < d" "d < 2 ^ 60"
  shows "int_of_dbl (ddiv x (of_int d)) = \<lfloor>x / of_int d\<rfloor>"
proof (cases "x = 0")
  case False
  let ?q = "x / of_int d" and ?m = "\<lfloor>x / of_int d\<rfloor>"
  have d: "1 \<le> (of_int d :: rat)" "(of_int d :: rat) \<le> 2 ^ 60"
    using assms(5,6) by (simp, metis of_int_le_iff of_int_numeral of_int_power less_imp_le)
  have pos: "0 < ?q" using False assms(3) d(1) by simp
  have "1 / 2 ^ 900 \<le> x" using grid_pos_bound [OF on_grid_mono [OF assms(1,2)]] False assms(3) by simp
  then have "1 / 2 ^ 900 / 2 ^ 60 \<le> ?q" using d by (intro frac_le) auto
  moreover have "1 / 2 ^ 1000 \<le> 1 / 2 ^ 900 / (2 :: rat) ^ 60" by simp
  ultimately have low: "1 / 2 ^ 1000 \<le> ?q" by linarith
  have "?q \<le> x / 1" using d(1) assms(3) by (intro divide_left_mono) auto
  then have high: "?q < 2 ^ 53" using assms(4) by simp
  have lb: "of_int ?m \<le> dbl ?q" by (rule dbl_ge_int [OF _ low high]) simp
  have "x < of_int (d * (?m + 1))"
  proof -
    have "?q < of_int (?m + 1)" by linarith
    then show ?thesis using d(1) by (simp add: pos_divide_less_eq mult.commute)
  qed
  then have "dbl (x * (1 / of_int d)) < of_int (d * (?m + 1)) * (1 / of_int d)"
    using assms d low high by (intro dbl_mult_less [OF assms(1)]) auto
  also have "\<dots> = of_int (?m + 1)" using assms(5) by simp
  finally have ub: "dbl ?q < of_int (?m + 1)" by simp
  have "0 \<le> ?m" using pos by simp
  then have "0 \<le> dbl ?q" using lb by (metis of_int_0_le_iff order_trans)
  then show ?thesis using lb ub unfolding int_of_dbl_def ddiv_def by (simp add: floor_eq_iff)
qed (simp add: int_of_dbl_def ddiv_def dbl_def)

text \<open>Taking an integer away.\<close>

lemma grid_minus_int:
  assumes "on_grid K x" "0 \<le> m" "of_int m \<le> x"
  shows "on_grid K (x - of_int m)"
proof -
  obtain n k where n: "x = of_int n / 2 ^ k" "\<bar>n\<bar> \<le> 2 ^ 53" "k \<le> K" using assms(1) by (rule on_gridE)
  have "of_int (m * 2 ^ k) \<le> (of_int n :: rat)" using assms(3) unfolding n(1) by (simp add: pos_le_divide_eq)
  then have "m * 2 ^ k \<le> n" unfolding of_int_le_iff .
  moreover have "0 \<le> m * 2 ^ k" using assms(2) by simp
  ultimately have "\<bar>n - m * 2 ^ k\<bar> \<le> 2 ^ 53" using n(2) by linarith
  moreover have "x - of_int m = of_int (n - m * 2 ^ k) / 2 ^ k" unfolding n(1) by (simp add: field_simps)
  ultimately show ?thesis using n(3) by (intro on_gridI) auto
qed

lemma dsub_int:
  assumes "on_grid K x" "K \<le> 1000" "0 \<le> m" "of_int m \<le> x" "x < 2 ^ 53"
  shows "dsub x (of_int m) = x - of_int m"
proof -
  have "0 \<le> (of_int m :: rat)" using assms(3) by simp
  then show ?thesis unfolding dsub_def using assms
    by (intro dbl_grid [OF grid_minus_int [OF assms(1,3,4)] assms(2)]) auto
qed

text \<open>The result of a rounding is on the grid.\<close>

lemma dbl_on_grid:
  assumes "1 / 2 ^ j \<le> x" "x < 2 ^ 53" "j \<le> 1000"
  shows "on_grid (j + 53) (dbl x)"
proof -
  have "1 / (2 :: rat) ^ 1000 \<le> 1 / 2 ^ j" using assms(3) by (intro divide_left_mono power_increasing) auto
  then have "1 / 2 ^ 1000 \<le> x" using assms(1) by (rule order_trans)
  then obtain k where k: "2 ^ 52 \<le> x * 2 ^ k" "x * 2 ^ k < 2 ^ 53" "k < 1100" "0 < x" using scale_exists assms(2) by blast
  note sc = dbl_scaled [OF k(1-3)]
  have "0 \<le> round_even (x * 2 ^ k)" by (rule order_trans [OF _ round_even_int_le [of 0]]) (use k(1) in auto)
  moreover have "round_even (x * 2 ^ k) \<le> 2 ^ 53" by (rule round_even_le_int) (use k(2) in simp)
  moreover have "k \<le> j + 53"
  proof (rule ccontr)
    assume "\<not> k \<le> j + 53"
    then have "(2 :: rat) ^ (j + 53) \<le> 2 ^ k" by (intro power_increasing) auto
    then have "1 / 2 ^ j * 2 ^ (j + 53) \<le> x * 2 ^ k" using assms(1) k(4) by (intro mult_mono) auto
    then show False using k(2) by (simp add: power_add)
  qed
  ultimately show ?thesis unfolding sc by (intro on_gridI) auto
qed

end
