(* ===== verification/Afs_Sim_Time.thy ===== *)
theory Afs_Sim_Time
  imports C_Double_Exact
begin

text \<open>
  The clocks of the simulator (\<open>afs_sim.c\<close>): GPS time as a week and seconds, AFS time as a week, an
  interval of 1200 seconds (\<open>itow\<close>), a frame of 12 seconds in it (\<open>toi\<close>) and the seconds in the frame.
  The seconds are doubles. The lemmas show that the conversion loses nothing: for a time within the week
  every rounding on the way is exact or is undone by the cut to an integer.
\<close>

record gpstime_t =
  gps_week :: int
  gps_sec :: rat

record afstime_t =
  afs_wn :: int
  afs_itow :: int
  afs_toi :: int
  afs_fsec :: rat

definition SECONDS_IN_WEEK :: rat where
  "SECONDS_IN_WEEK = 604800"

definition timeadd :: "gpstime_t \<Rightarrow> rat \<Rightarrow> gpstime_t" where
  "timeadd g dt =
     (let g = g\<lparr>gps_sec := dadd (gps_sec g) dt\<rparr> in
      if gps_sec g < 0 then g\<lparr>gps_sec := dadd (gps_sec g) SECONDS_IN_WEEK, gps_week := gps_week g - 1\<rparr>
      else if gps_sec g \<ge> SECONDS_IN_WEEK then g\<lparr>gps_sec := dsub (gps_sec g) SECONDS_IN_WEEK, gps_week := gps_week g + 1\<rparr>
      else g)"

definition gpst2afst :: "gpstime_t \<Rightarrow> afstime_t" where
  "gpst2afst gpst =
     (let (wn, fsec) =
            (if gps_sec gpst < 0 then (gps_week gpst - 1, dadd (gps_sec gpst) SECONDS_IN_WEEK)
             else if gps_sec gpst \<ge> SECONDS_IN_WEEK then (gps_week gpst + 1, dsub (gps_sec gpst) SECONDS_IN_WEEK)
             else (gps_week gpst, gps_sec gpst));
          itow = int_of_dbl (ddiv fsec 1200);
          fsec = dsub fsec (dmul (of_int itow) 1200);
          toi = int_of_dbl (ddiv fsec 12);
          fsec = dsub fsec (dmul (of_int toi) 12)
      in \<lparr>afs_wn = wn, afs_itow = itow, afs_toi = toi, afs_fsec = fsec\<rparr>)"

section \<open>Cutting off whole intervals\<close>

lemma cut_interval:
  assumes "on_grid K x" "K \<le> 900" "0 \<le> x" "x < of_int n * of_int d" "0 < d" "d < 2 ^ 20" "n < 2 ^ 20"
  shows "int_of_dbl (ddiv x (of_int d)) = \<lfloor>x / of_int d\<rfloor> \<and>
    dsub x (dmul (of_int (int_of_dbl (ddiv x (of_int d)))) (of_int d)) = x - of_int (\<lfloor>x / of_int d\<rfloor> * d) \<and>
    0 \<le> \<lfloor>x / of_int d\<rfloor> \<and> \<lfloor>x / of_int d\<rfloor> < n \<and>
    0 \<le> x - of_int (\<lfloor>x / of_int d\<rfloor> * d) \<and> x - of_int (\<lfloor>x / of_int d\<rfloor> * d) < of_int d \<and>
    on_grid K (x - of_int (\<lfloor>x / of_int d\<rfloor> * d))"
proof -
  let ?m = "\<lfloor>x / of_int d\<rfloor>"
  have d: "0 < (of_int d :: rat)" using assms(5) by simp
  have "x / of_int d < of_int n" using assms(4) d by (simp add: pos_divide_less_eq)
  then have mn: "?m < n" by (simp add: floor_less_iff)
  have m0: "0 \<le> ?m" using assms(3) d by simp
  have fl: "of_int ?m \<le> x / of_int d" "x / of_int d < of_int ?m + 1" by linarith+
  have lo: "of_int (?m * d) \<le> x" using fl(1) d by (simp only: pos_le_divide_eq of_int_mult)
  have "x < (of_int ?m + 1) * of_int d" using fl(2) d by (simp add: pos_divide_less_eq)
  then have hi: "x - of_int (?m * d) < of_int d" by (simp add: algebra_simps)
  have "n * d < 2 ^ 20 * 2 ^ 20" using assms(5-7) m0 mn by (intro mult_strict_mono) auto
  then have nd: "n * d < 2 ^ 53" by simp
  then have "(of_int (n * d) :: rat) < of_int (2 ^ 53)" by (simp only: of_int_less_iff)
  then have big: "x < 2 ^ 53" using assms(4) by simp
  have md: "0 \<le> ?m * d" using m0 assms(5) by (intro mult_nonneg_nonneg) auto
  have "?m * d \<le> n * d" using mn assms(5) by (intro mult_right_mono) auto
  then have md': "?m * d < 2 ^ 53" using nd by linarith
  have q: "int_of_dbl (ddiv x (of_int d)) = ?m" using assms by (intro trunc_quotient [OF assms(1,2,3) big]) auto
  have "dmul (of_int ?m) (of_int d) = of_int (?m * d)"
    unfolding dmul_def using dbl_int [OF md md'] by simp
  then have "dsub x (dmul (of_int ?m) (of_int d)) = x - of_int (?m * d)"
    using dsub_int [OF assms(1) _ md lo big] assms(2) by simp
  then show ?thesis using q m0 mn lo hi grid_minus_int [OF assms(1) md lo] by simp
qed

text \<open>The exact decomposition.\<close>

definition itow_of :: "rat \<Rightarrow> int" where
  "itow_of t = \<lfloor>t / 1200\<rfloor>"

definition toi_of :: "rat \<Rightarrow> int" where
  "toi_of t = \<lfloor>(t - of_int (itow_of t * 1200)) / 12\<rfloor>"

lemma afst_in_week:
  assumes "on_grid K x" "K \<le> 900" "0 \<le> x" "x < 604800"
  shows "gpst2afst \<lparr>gps_week = w, gps_sec = x\<rparr> =
      \<lparr>afs_wn = w, afs_itow = itow_of x, afs_toi = toi_of x, afs_fsec = x - of_int (itow_of x * 1200) - of_int (toi_of x * 12)\<rparr> \<and>
    0 \<le> itow_of x \<and> itow_of x < 504 \<and> 0 \<le> toi_of x \<and> toi_of x < 100 \<and>
    0 \<le> x - of_int (itow_of x * 1200) - of_int (toi_of x * 12) \<and>
    x - of_int (itow_of x * 1200) - of_int (toi_of x * 12) < 12 \<and>
    on_grid K (x - of_int (itow_of x * 1200) - of_int (toi_of x * 12))"
proof -
  note a = cut_interval [OF assms(1-3), of 504 1200, simplified, folded itow_of_def]
  let ?y = "x - of_int (itow_of x * 1200)"
  have a': "int_of_dbl (ddiv x 1200) = itow_of x" "dsub x (dmul (of_int (itow_of x)) 1200) = ?y" "0 \<le> itow_of x" "itow_of x < 504"
    "0 \<le> ?y" "?y < 1200" "on_grid K ?y" using a assms(4) by auto
  note b = cut_interval [OF a'(7) assms(2) a'(5), of 100 12, simplified, folded toi_of_def]
  have b': "int_of_dbl (ddiv ?y 12) = toi_of x" "dsub ?y (dmul (of_int (toi_of x)) 12) = ?y - of_int (toi_of x * 12)" "0 \<le> toi_of x" "toi_of x < 100"
    "0 \<le> ?y - of_int (toi_of x * 12)" "?y - of_int (toi_of x * 12) < 12" "on_grid K (?y - of_int (toi_of x * 12))"
    using b a'(6) by (auto simp: toi_of_def)
  show ?thesis using assms(3,4) a' b' by (simp add: gpst2afst_def SECONDS_IN_WEEK_def Let_def)
qed

text \<open>A time in the next week is moved there first.\<close>

lemma afst_next_week:
  assumes "on_grid K x" "K \<le> 900" "604800 \<le> x" "x < 1209600"
  shows "gpst2afst \<lparr>gps_week = w, gps_sec = x\<rparr> = gpst2afst \<lparr>gps_week = w + 1, gps_sec = x - 604800\<rparr>"
proof -
  have "dsub x 604800 = x - 604800" using dsub_int [OF assms(1), of 604800] assms by simp
  then show ?thesis using assms(3,4) by (simp add: gpst2afst_def SECONDS_IN_WEEK_def)
qed

section \<open>Adding a time\<close>

lemma round_even_minus: "round_even (- q) = - round_even q"
proof (cases "q = of_int \<lfloor>q\<rfloor>")
  case True
  then obtain n where n: "q = of_int n" by blast
  then have "- q = of_int (- n)" by simp
  then show ?thesis using n by (simp only: round_even_def floor_of_int Let_def) simp
next
  case False
  let ?n = "\<lfloor>q\<rfloor>"
  have "of_int ?n < q" "q < of_int ?n + 1" using False by linarith+
  then have f: "\<lfloor>- q\<rfloor> = - ?n - 1" by (simp add: floor_eq_iff)
  have "- q - of_int (- ?n - 1) = 1 - (q - of_int ?n)" by simp
  then show ?thesis unfolding round_even_def Let_def f by auto
qed

lemma dbl_minus: "dbl (- x) = - dbl x"
  by (simp add: dbl_def Let_def round_even_minus)

text \<open>
  A step of less than a second back, from a time on the grid: the sum is on the grid and lies in the
  week, or is its end, which \<open>gpst2afst\<close> takes for the start of the next.
\<close>

lemma grid_diff_pos:
  assumes "on_grid K x" "on_grid K y" "y < x" shows "1 / 2 ^ K \<le> x - y"
proof -
  obtain n k where n: "x = of_int n / 2 ^ k" "k \<le> K" using assms(1) by (rule on_gridE)
  obtain m l where m: "y = of_int m / 2 ^ l" "l \<le> K" using assms(2) by (rule on_gridE)
  have sc: "(2 :: rat) ^ K = 2 ^ k * 2 ^ (K - k)" "(2 :: rat) ^ K = 2 ^ l * 2 ^ (K - l)" using n(2) m(2) by (simp_all flip: power_add)
  have "x * 2 ^ K = of_int (n * 2 ^ (K - k))" unfolding n(1) sc(1) by simp
  moreover have "y * 2 ^ K = of_int (m * 2 ^ (K - l))" unfolding m(1) sc(2) by simp
  ultimately have d: "(x - y) * 2 ^ K = of_int (n * 2 ^ (K - k) - m * 2 ^ (K - l))" by (simp add: left_diff_distrib)
  moreover have "0 < (x - y) * 2 ^ K" using assms(3) by simp
  ultimately have "0 < n * 2 ^ (K - k) - m * 2 ^ (K - l)" by (simp only: of_int_0_less_iff)
  then have "1 \<le> (x - y) * 2 ^ K" unfolding d by (simp only: of_int_1_le_iff) 
  then show ?thesis by (simp add: pos_divide_le_eq)
qed

lemma timeadd_back:
  assumes "on_grid K x" "K \<le> 800" "0 \<le> x" "x \<le> 604800" "on_grid K y" "0 < y" "y \<le> 1"
  shows "\<exists>w' t. timeadd \<lparr>gps_week = w, gps_sec = x\<rparr> (- y) = \<lparr>gps_week = w', gps_sec = t\<rparr> \<and>
    on_grid (K + 53) t \<and> 0 \<le> t \<and> t \<le> 604800"
proof -
  have s: "dadd x (- y) = dbl (x - y)" by (simp add: dadd_def)
  consider "y < x" | "x = y" | "x < y" by linarith
  then show ?thesis
  proof cases
    case 1
    have low: "1 / 2 ^ K \<le> x - y" by (rule grid_diff_pos [OF assms(1,5) 1])
    have "1 / (2 :: rat) ^ 1000 \<le> 1 / 2 ^ K" using assms(2) by (intro divide_left_mono power_increasing) auto
    then have low': "1 / 2 ^ 1000 \<le> x - y" using low by (rule order_trans)
    have hi: "x - y < 2 ^ 53" using assms(4,6) by simp
    have g: "on_grid (K + 53) (dbl (x - y))" by (rule dbl_on_grid [OF low hi]) (use assms(2) in simp)
    have "0 \<le> dbl (x - y)" using dbl_ge_int [of 0, OF _ low' hi] 1 by simp
    moreover have "dbl (x - y) \<le> 604800" using dbl_le_int [of _ 604800, OF _ low' hi] assms(4,6) by simp
    moreover have "dsub (dbl (x - y)) 604800 = 0" if "dbl (x - y) = 604800" using that by (simp add: dsub_def dbl_def)
    ultimately show ?thesis using g on_grid_int [of 0 "K + 53"] by (auto simp: timeadd_def s SECONDS_IN_WEEK_def Let_def)
  next
    case 2
    then have "dadd x (- y) = 0" by (simp add: dadd_def dbl_def)
    then show ?thesis using on_grid_int [of 0 "K + 53"] by (simp add: timeadd_def SECONDS_IN_WEEK_def Let_def)
  next
    case 3
    have low: "1 / 2 ^ K \<le> y - x" by (rule grid_diff_pos [OF assms(5,1) 3])
    have "1 / (2 :: rat) ^ 1000 \<le> 1 / 2 ^ K" using assms(2) by (intro divide_left_mono power_increasing) auto
    then have low': "1 / 2 ^ 1000 \<le> y - x" using low by (rule order_trans)
    have hi: "y - x < 2 ^ 53" using assms(3,7) by simp
    have neg: "dbl (x - y) = - dbl (y - x)" using dbl_minus [of "y - x"] by simp
    have le: "dbl (y - x) \<le> 1" using dbl_le_int [of _ 1, OF _ low' hi] assms(3,7) by simp
    have "\<bar>dbl (y - x) - (y - x)\<bar> \<le> (y - x) / 2 ^ 53" by (rule dbl_error [OF low' hi])
    moreover have "(y - x) / 2 ^ 53 < y - x" using 3 by simp
    ultimately have pos: "0 < dbl (y - x)" by linarith
    let ?t = "604800 - dbl (y - x)"
    have t: "1 \<le> ?t" "?t \<le> 604800" using le pos by simp_all
    have r: "1 / 2 ^ 1000 \<le> ?t" "?t < 2 ^ 53" using t by (simp_all add: order_trans [of _ 1])
    have "on_grid (0 + 53) (dbl ?t)" by (rule dbl_on_grid) (use t in simp_all)
    then have "on_grid (K + 53) (dbl ?t)" by (rule on_grid_mono) simp
    moreover have "0 \<le> dbl ?t" using dbl_ge_int [of 0, OF _ r] t by simp
    moreover have "dbl ?t \<le> 604800" using dbl_le_int [of _ 604800, OF _ r] t by simp
    ultimately show ?thesis using pos by (auto simp: timeadd_def s neg SECONDS_IN_WEEK_def dadd_def Let_def)
  qed
qed

section \<open>The conversion is exact\<close>



end
