(* ===== verification/Afs_Sim_Orbit.thy ===== *)
theory Afs_Sim_Orbit
  imports Afs_Sim_Time "HOL-Library.Monad_Syntax"
begin

text \<open>
  Where the satellites of the simulator are (\<open>afs_sim.c\<close>): coordinates on the moon, Kepler orbits, the
  pseudorange. The C library leaves the accuracy of sine, cosine and arc tangent to the implementation;
  they are the fields of the record \<open>libm\<close>, an argument of every function that calls them. Vectors are
  triples. The loop for the eccentric anomaly stops when two iterates are close; that it does not stop
  is the value \<open>None\<close>.
\<close>

section \<open>Constants and data\<close>

record libm =
  m_sin :: "rat \<Rightarrow> rat"
  m_cos :: "rat \<Rightarrow> rat"
  m_atan2 :: "rat \<Rightarrow> rat \<Rightarrow> rat"
  m_sqrt :: "rat \<Rightarrow> rat"

type_synonym vec3 = "rat \<times> rat \<times> rat"

record ephem_t =
  eph_vflg :: int
  eph_toe :: gpstime_t
  eph_toc :: gpstime_t
  eph_ecc :: rat
  eph_sqrta :: rat
  eph_m0 :: rat
  eph_omg0 :: rat
  eph_inc0 :: rat
  eph_aop :: rat
  eph_af0 :: rat
  eph_af1 :: rat
  eph_n :: rat
  eph_A :: rat
  eph_sq1e2 :: rat

record range_t =
  rho_g :: gpstime_t
  rho_range :: rat
  rho_rate :: rat

definition PI :: rat where
  "PI = dbl (31415926535898 / 10 ^ 13)"

definition POW2_M19 :: rat where
  "POW2_M19 = dbl (1907348632812500 / 10 ^ 21)"

definition POW2_M31 :: rat where
  "POW2_M31 = dbl (4656612873077393 / 10 ^ 25)"

definition POW2_M32 :: rat where
  "POW2_M32 = dbl (2328306436538696 / 10 ^ 25)"

definition POW2_M43 :: rat where
  "POW2_M43 = dbl (1136868377216160 / 10 ^ 28)"

definition GM_MOON :: rat where
  "GM_MOON = 4902800000000"

definition R_MOON :: rat where
  "R_MOON = 1737400"

definition SECONDS_IN_HALF_WEEK :: rat where
  "SECONDS_IN_HALF_WEEK = 302400"

definition SPEED_OF_LIGHT :: rat where
  "SPEED_OF_LIGHT = 299792458"

section \<open>Coordinates\<close>

definition llh2xyz :: "libm \<Rightarrow> vec3 \<Rightarrow> vec3" where
  "llh2xyz L = (\<lambda>(lat, lon, hgt).
     let h = dadd R_MOON hgt;
         tmp = dmul h (m_cos L lat)
     in (dmul tmp (m_cos L lon), dmul tmp (m_sin L lon), dmul h (m_sin L lat)))"

definition ltcmat :: "libm \<Rightarrow> vec3 \<Rightarrow> vec3 \<times> vec3 \<times> vec3" where
  "ltcmat L = (\<lambda>(lat, lon, hgt).
     let slat = m_sin L lat; clat = m_cos L lat; slon = m_sin L lon; clon = m_cos L lon
     in ((dmul (- slat) clon, dmul (- slat) slon, clat),
         (- slon, clon, 0),
         (dmul clat clon, dmul clat slon, slat)))"

definition dotProd :: "vec3 \<Rightarrow> vec3 \<Rightarrow> rat" where
  "dotProd = (\<lambda>(a, b, c) (x, y, z). dadd (dadd (dmul a x) (dmul b y)) (dmul c z))"

definition xyz2neu :: "vec3 \<Rightarrow> vec3 \<times> vec3 \<times> vec3 \<Rightarrow> vec3" where
  "xyz2neu xyz = (\<lambda>(t0, t1, t2). (dotProd t0 xyz, dotProd t1 xyz, dotProd t2 xyz))"

definition neu2azel :: "libm \<Rightarrow> vec3 \<Rightarrow> rat \<times> rat" where
  "neu2azel L = (\<lambda>(n, e, u).
     let az = m_atan2 L e n;
         az = (if az < 0 then dadd az (dmul 2 PI) else az);
         ne = m_sqrt L (dadd (dmul n n) (dmul e e))
     in (az, m_atan2 L u ne))"

section \<open>Orbit\<close>

definition KEPLER_EPS :: rat where
  "KEPLER_EPS = dbl (1 / 10 ^ 14)"

text \<open>The loop on \<open>ek\<close>, \<open>ekold\<close> and \<open>OneMinusecosE\<close>.\<close>

partial_function (option) kepler_loop :: "libm \<Rightarrow> rat \<Rightarrow> rat \<Rightarrow> rat \<Rightarrow> rat \<Rightarrow> rat \<Rightarrow> (rat \<times> rat) option" where
  "kepler_loop L ecc mk ek ekold omc =
     (if \<bar>dsub ek ekold\<bar> > KEPLER_EPS
      then let ekold = ek;
               omc = dsub 1 (dmul ecc (m_cos L ekold));
               ek = dadd ek (ddiv (dadd (dsub mk ekold) (dmul ecc (m_sin L ekold))) omc)
           in kepler_loop L ecc mk ek ekold omc
      else Some (ek, omc))"

definition week_wrap :: "rat \<Rightarrow> rat" where
  "week_wrap tk =
     (if tk > SECONDS_IN_HALF_WEEK then dsub tk SECONDS_IN_WEEK
      else if tk < - SECONDS_IN_HALF_WEEK then dadd tk SECONDS_IN_WEEK
      else tk)"

definition satpos :: "libm \<Rightarrow> ephem_t \<Rightarrow> gpstime_t \<Rightarrow> (vec3 \<times> vec3 \<times> rat \<times> rat) option" where
  "satpos L eph g =
     (let tk = week_wrap (dsub (gps_sec g) (gps_sec (eph_toe eph)));
          mk = dadd (eph_m0 eph) (dmul (eph_n eph) tk)
      in do {
        (ek, omc) \<leftarrow> kepler_loop L (eph_ecc eph) mk mk (dadd mk 1) 1;
        let sek = m_sin L ek;
        let cek = m_cos L ek;
        let ekdot = ddiv (eph_n eph) omc;
        let uk = dadd (m_atan2 L (dmul (eph_sq1e2 eph) sek) (dsub cek (eph_ecc eph))) (eph_aop eph);
        let suk = m_sin L uk;
        let cuk = m_cos L uk;
        let ukdot = ddiv (dmul (eph_sq1e2 eph) ekdot) omc;
        let rk = dmul (eph_A eph) omc;
        let rkdot = dmul (dmul (dmul (eph_A eph) (eph_ecc eph)) sek) ekdot;
        let xpk = dmul rk cuk;
        let ypk = dmul rk suk;
        let xpkdot = dsub (dmul rkdot cuk) (dmul ypk ukdot);
        let ypkdot = dadd (dmul rkdot suk) (dmul xpk ukdot);
        let sik = m_sin L (eph_inc0 eph);
        let cik = m_cos L (eph_inc0 eph);
        let sok = m_sin L (eph_omg0 eph);
        let cok = m_cos L (eph_omg0 eph);
        let tk = week_wrap (dsub (gps_sec g) (gps_sec (eph_toc eph)));
        Some ((dsub (dmul xpk cok) (dmul (dmul ypk cik) sok), dadd (dmul xpk sok) (dmul (dmul ypk cik) cok), dmul ypk sik),
          (dsub (dmul xpkdot cok) (dmul (dmul ypkdot cik) sok), dadd (dmul xpkdot sok) (dmul (dmul ypkdot cik) cok), dmul ypkdot sik),
          dadd (eph_af0 eph) (dmul tk (eph_af1 eph)), eph_af1 eph)
      })"

text \<open>The working variables set when an almanac entry is read.\<close>

definition eph_working :: "libm \<Rightarrow> 'a ephem_t_scheme \<Rightarrow> 'a ephem_t_scheme" where
  "eph_working L eph =
     (let A = dmul (eph_sqrta eph) (eph_sqrta eph)
      in eph\<lparr>eph_A := A, eph_n := m_sqrt L (ddiv GM_MOON (dmul (dmul A A) A)),
             eph_sq1e2 := m_sqrt L (dsub 1 (dmul (eph_ecc eph) (eph_ecc eph)))\<rparr>)"

section \<open>Pseudorange\<close>

definition subVect :: "vec3 \<Rightarrow> vec3 \<Rightarrow> vec3" where
  "subVect = (\<lambda>(x, y, z) (u, v, w). (dsub x u, dsub y v, dsub z w))"

definition normVect :: "libm \<Rightarrow> vec3 \<Rightarrow> rat" where
  "normVect L x = m_sqrt L (dotProd x x)"

text \<open>\<open>pos -= vel * tau\<close> for each component.\<close>

definition move_back :: "vec3 \<Rightarrow> vec3 \<Rightarrow> rat \<Rightarrow> vec3" where
  "move_back = (\<lambda>(x, y, z) (u, v, w) tau. (dsub x (dmul u tau), dsub y (dmul v tau), dsub z (dmul w tau)))"

definition computeRange :: "libm \<Rightarrow> ephem_t \<Rightarrow> gpstime_t \<Rightarrow> vec3 \<Rightarrow> range_t option" where
  "computeRange L eph g xyz =
     do {
       (pos, vel, clk0, clk1) \<leftarrow> satpos L eph g;
       let los = subVect pos xyz;
       let tau = ddiv (normVect L los) SPEED_OF_LIGHT;
       let pos = move_back pos vel tau;
       let los = subVect pos xyz;
       let range = normVect L los;
       let rate = ddiv (dotProd vel los) range;
       Some \<lparr>rho_g = g, rho_range = dsub range (dmul SPEED_OF_LIGHT clk0), rho_rate = rate\<rparr>
     }"

text \<open>The loop of \<open>main\<close> that gives a channel to every satellite above the horizon: number, azimuth and elevation.\<close>

definition visible :: "libm \<Rightarrow> vec3 \<Rightarrow> vec3 \<times> vec3 \<times> vec3 \<Rightarrow> gpstime_t \<Rightarrow> rat \<Rightarrow> ephem_t \<Rightarrow> (rat \<times> rat) option option" where
  "visible L xyz tmat g elvmask eph =
     (if eph_vflg eph = 1 then
        do {
          (pos, vel, clk) \<leftarrow> satpos L eph g;
          let azel = neu2azel L (xyz2neu (subVect pos xyz) tmat);
          Some (if snd azel > elvmask then Some azel else None)
        }
      else Some None)"

fun check_visible :: "libm \<Rightarrow> vec3 \<Rightarrow> vec3 \<times> vec3 \<times> vec3 \<Rightarrow> gpstime_t \<Rightarrow> rat \<Rightarrow> ephem_t list \<Rightarrow> int \<Rightarrow> (int \<times> rat \<times> rat) list option" where
  "check_visible L xyz tmat g elvmask [] sv = Some []"
| "check_visible L xyz tmat g elvmask (eph # ephs) sv =
     do {
       v \<leftarrow> visible L xyz tmat g elvmask eph;
       rest \<leftarrow> check_visible L xyz tmat g elvmask ephs (sv + 1);
       Some (case v of None \<Rightarrow> rest | Some azel \<Rightarrow> (sv + 1, azel) # rest)
     }"

end
