(* ===== verification/Afs_Sim_Chan.thy ===== *)
theory Afs_Sim_Chan
  imports Afs_Sim_Code Afs_Sim_Orbit Afs_Rand
begin

text \<open>
  A channel of the simulator (\<open>afs_sim.c\<close>): \<open>computeCodePhase\<close> sets the code phases, bit and chip
  counters of a channel from the range of the satellite, and \<open>chan_sample\<close> is one round of the loop of
  \<open>main\<close> over the samples of a channel: it writes an in-phase and a quadrature sample and advances the
  phases and counters. Phases and frequencies are doubles. Reading an array outside its bounds gives
  \<open>None\<close>. A round of the main loop does this for every channel with the range of the moment; the samples
  of the channels are then added and quantised, with noise for two-bit samples. The azimuth and
  elevation of a satellite and its reference time are not part of the record: none of this uses them.
\<close>

section \<open>Constants and tables\<close>

text \<open>The constants of the L1 demonstration build (\<open>DEMO_L1\<close>), rounded as the compiler does.\<close>

definition LAMBDA :: rat where
  "LAMBDA = dbl (190293672798365 / 10 ^ 15)"

definition I_CODE_FREQ :: rat where
  "I_CODE_FREQ = 1023000"

definition CARR_TO_I_CODE :: rat where
  "CARR_TO_I_CODE = ddiv 1 1540"

definition Q_CODE_FREQ :: rat where
  "Q_CODE_FREQ = 5115000"

definition CARR_TO_Q_CODE :: rat where
  "CARR_TO_Q_CODE = ddiv 1 308"

definition sinT :: "int list" where
  "sinT = [
    2, 5, 8, 11, 14, 17, 20, 23, 26, 29, 32, 35, 38, 41, 44, 47,
    50, 53, 56, 59, 62, 65, 68, 71, 74, 77, 80, 83, 86, 89, 91, 94,
    97, 100, 103, 105, 108, 111, 114, 116, 119, 122, 125, 127, 130, 132, 135, 138,
    140, 143, 145, 148, 150, 153, 155, 157, 160, 162, 164, 167, 169, 171, 173, 176,
    178, 180, 182, 184, 186, 188, 190, 192, 194, 196, 198, 200, 202, 204, 205, 207,
    209, 210, 212, 214, 215, 217, 218, 220, 221, 223, 224, 225, 227, 228, 229, 230,
    232, 233, 234, 235, 236, 237, 238, 239, 240, 241, 241, 242, 243, 244, 244, 245,
    245, 246, 247, 247, 248, 248, 248, 249, 249, 249, 249, 250, 250, 250, 250, 250,
    250, 250, 250, 250, 250, 249, 249, 249, 249, 248, 248, 248, 247, 247, 246, 245,
    245, 244, 244, 243, 242, 241, 241, 240, 239, 238, 237, 236, 235, 234, 233, 232,
    230, 229, 228, 227, 225, 224, 223, 221, 220, 218, 217, 215, 214, 212, 210, 209,
    207, 205, 204, 202, 200, 198, 196, 194, 192, 190, 188, 186, 184, 182, 180, 178,
    176, 173, 171, 169, 167, 164, 162, 160, 157, 155, 153, 150, 148, 145, 143, 140,
    138, 135, 132, 130, 127, 125, 122, 119, 116, 114, 111, 108, 105, 103, 100, 97,
    94, 91, 89, 86, 83, 80, 77, 74, 71, 68, 65, 62, 59, 56, 53, 50,
    47, 44, 41, 38, 35, 32, 29, 26, 23, 20, 17, 14, 11, 8, 5, 2,
    -2, -5, -8, -11, -14, -17, -20, -23, -26, -29, -32, -35, -38, -41, -44, -47,
    -50, -53, -56, -59, -62, -65, -68, -71, -74, -77, -80, -83, -86, -89, -91, -94,
    -97, -100, -103, -105, -108, -111, -114, -116, -119, -122, -125, -127, -130, -132, -135, -138,
    -140, -143, -145, -148, -150, -153, -155, -157, -160, -162, -164, -167, -169, -171, -173, -176,
    -178, -180, -182, -184, -186, -188, -190, -192, -194, -196, -198, -200, -202, -204, -205, -207,
    -209, -210, -212, -214, -215, -217, -218, -220, -221, -223, -224, -225, -227, -228, -229, -230,
    -232, -233, -234, -235, -236, -237, -238, -239, -240, -241, -241, -242, -243, -244, -244, -245,
    -245, -246, -247, -247, -248, -248, -248, -249, -249, -249, -249, -250, -250, -250, -250, -250,
    -250, -250, -250, -250, -250, -249, -249, -249, -249, -248, -248, -248, -247, -247, -246, -245,
    -245, -244, -244, -243, -242, -241, -241, -240, -239, -238, -237, -236, -235, -234, -233, -232,
    -230, -229, -228, -227, -225, -224, -223, -221, -220, -218, -217, -215, -214, -212, -210, -209,
    -207, -205, -204, -202, -200, -198, -196, -194, -192, -190, -188, -186, -184, -182, -180, -178,
    -176, -173, -171, -169, -167, -164, -162, -160, -157, -155, -153, -150, -148, -145, -143, -140,
    -138, -135, -132, -130, -127, -125, -122, -119, -116, -114, -111, -108, -105, -103, -100, -97,
    -94, -91, -89, -86, -83, -80, -77, -74, -71, -68, -65, -62, -59, -56, -53, -50,
    -47, -44, -41, -38, -35, -32, -29, -26, -23, -20, -17, -14, -11, -8, -5, -2]"

definition cosT :: "int list" where
  "cosT = [
    250, 250, 250, 250, 250, 249, 249, 249, 249, 248, 248, 248, 247, 247, 246, 245,
    245, 244, 244, 243, 242, 241, 241, 240, 239, 238, 237, 236, 235, 234, 233, 232,
    230, 229, 228, 227, 225, 224, 223, 221, 220, 218, 217, 215, 214, 212, 210, 209,
    207, 205, 204, 202, 200, 198, 196, 194, 192, 190, 188, 186, 184, 182, 180, 178,
    176, 173, 171, 169, 167, 164, 162, 160, 157, 155, 153, 150, 148, 145, 143, 140,
    138, 135, 132, 130, 127, 125, 122, 119, 116, 114, 111, 108, 105, 103, 100, 97,
    94, 91, 89, 86, 83, 80, 77, 74, 71, 68, 65, 62, 59, 56, 53, 50,
    47, 44, 41, 38, 35, 32, 29, 26, 23, 20, 17, 14, 11, 8, 5, 2,
    -2, -5, -8, -11, -14, -17, -20, -23, -26, -29, -32, -35, -38, -41, -44, -47,
    -50, -53, -56, -59, -62, -65, -68, -71, -74, -77, -80, -83, -86, -89, -91, -94,
    -97, -100, -103, -105, -108, -111, -114, -116, -119, -122, -125, -127, -130, -132, -135, -138,
    -140, -143, -145, -148, -150, -153, -155, -157, -160, -162, -164, -167, -169, -171, -173, -176,
    -178, -180, -182, -184, -186, -188, -190, -192, -194, -196, -198, -200, -202, -204, -205, -207,
    -209, -210, -212, -214, -215, -217, -218, -220, -221, -223, -224, -225, -227, -228, -229, -230,
    -232, -233, -234, -235, -236, -237, -238, -239, -240, -241, -241, -242, -243, -244, -244, -245,
    -245, -246, -247, -247, -248, -248, -248, -249, -249, -249, -249, -250, -250, -250, -250, -250,
    -250, -250, -250, -250, -250, -249, -249, -249, -249, -248, -248, -248, -247, -247, -246, -245,
    -245, -244, -244, -243, -242, -241, -241, -240, -239, -238, -237, -236, -235, -234, -233, -232,
    -230, -229, -228, -227, -225, -224, -223, -221, -220, -218, -217, -215, -214, -212, -210, -209,
    -207, -205, -204, -202, -200, -198, -196, -194, -192, -190, -188, -186, -184, -182, -180, -178,
    -176, -173, -171, -169, -167, -164, -162, -160, -157, -155, -153, -150, -148, -145, -143, -140,
    -138, -135, -132, -130, -127, -125, -122, -119, -116, -114, -111, -108, -105, -103, -100, -97,
    -94, -91, -89, -86, -83, -80, -77, -74, -71, -68, -65, -62, -59, -56, -53, -50,
    -47, -44, -41, -38, -35, -32, -29, -26, -23, -20, -17, -14, -11, -8, -5, -2,
    2, 5, 8, 11, 14, 17, 20, 23, 26, 29, 32, 35, 38, 41, 44, 47,
    50, 53, 56, 59, 62, 65, 68, 71, 74, 77, 80, 83, 86, 89, 91, 94,
    97, 100, 103, 105, 108, 111, 114, 116, 119, 122, 125, 127, 130, 132, 135, 138,
    140, 143, 145, 148, 150, 153, 155, 157, 160, 162, 164, 167, 169, 171, 173, 176,
    178, 180, 182, 184, 186, 188, 190, 192, 194, 196, 198, 200, 202, 204, 205, 207,
    209, 210, 212, 214, 215, 217, 218, 220, 221, 223, 224, 225, 227, 228, 229, 230,
    232, 233, 234, 235, 236, 237, 238, 239, 240, 241, 241, 242, 243, 244, 244, 245,
    245, 246, 247, 247, 248, 248, 248, 249, 249, 249, 249, 250, 250, 250, 250, 250]"

section \<open>State\<close>

text \<open>\<open>I_data\<close> is the frame \<open>data[0]\<close>; the second frame of the C structure is never used.\<close>

record Ich_t =
  I_code :: "int list"
  I_f_code :: rat
  I_code_phase :: rat
  I_C :: int
  I_ibit :: int
  I_iframe :: int
  I_D :: int
  I_data :: "u8 list"

record Qch_t =
  Q_code :: "int list"
  Q_f_code :: rat
  Q_code_phase :: rat
  Q_C :: int
  Q_S :: int
  Q_T :: int
  Q_ibit :: int
  Q_ichip :: int

record channel_t =
  chan_prn :: int
  chan_I :: Ich_t
  chan_Q :: Qch_t
  f_carr :: rat
  carr_phase :: rat

text \<open>Reading an array at an index.\<close>

definition arr_at :: "'a list \<Rightarrow> int \<Rightarrow> 'a option" where
  "arr_at xs i = (if 0 \<le> i \<and> i < int (length xs) then Some (xs ! nat i) else None)"

section \<open>Setting a channel\<close>

definition computeCodePhase :: "int list list \<Rightarrow> channel_t \<Rightarrow> range_t \<Rightarrow> range_t \<Rightarrow> rat \<Rightarrow> channel_t option" where
  "computeCodePhase tcode chan rho0 rho1 dt =
     (let rhorate = ddiv (dsub (rho_range rho1) (rho_range rho0)) dt;
          fc = ddiv (- rhorate) LAMBDA;
          gt = timeadd (rho_g rho0) (ddiv (- rho_range rho0) SPEED_OF_LIGHT);
          afst = gpst2afst gt;
          iframe = afs_toi afst;
          ms = dmul (afs_fsec afst) 1000;
          ibit = int_of_dbl (ddiv ms 2);
          ms = dsub ms (dmul (of_int ibit) 2);
          ip = dmul (ddiv ms 2) 2046;
          qp = dmul (ddiv ms 2) 10230;
          sv = chan_prn chan - 1;
          ichip = int_of_dbl (ddiv (dmul (afs_fsec afst) 1000) 8)
      in do {
        ic \<leftarrow> arr_at (I_code (chan_I chan)) (int_of_dbl ip);
        qc \<leftarrow> arr_at (Q_code (chan_Q chan)) (int_of_dbl qp);
        b \<leftarrow> arr_at (I_data (chan_I chan)) ibit;
        srow \<leftarrow> arr_at scode (sv smod 4);
        s \<leftarrow> arr_at srow (ibit smod 4);
        trow \<leftarrow> arr_at tcode sv;
        t \<leftarrow> arr_at trow ichip;
        Some (chan\<lparr>f_carr := fc,
          chan_I := (chan_I chan)\<lparr>I_f_code := dadd I_CODE_FREQ (dmul fc CARR_TO_I_CODE), I_code_phase := ip, I_C := ic,
            I_ibit := ibit, I_iframe := iframe, I_D := -2 * uint b + 1\<rparr>,
          chan_Q := (chan_Q chan)\<lparr>Q_f_code := dadd Q_CODE_FREQ (dmul fc CARR_TO_Q_CODE), Q_code_phase := qp, Q_C := qc,
            Q_ibit := ibit smod 4, Q_S := -2 * s + 1, Q_ichip := ichip, Q_T := -2 * t + 1\<rparr>\<rparr>)
      })"

section \<open>One sample\<close>

text \<open>The in-phase code: at the end of a code the next data bit.\<close>

definition I_advance :: "rat \<Rightarrow> Ich_t \<Rightarrow> Ich_t option" where
  "I_advance delt I =
     (let cp = dadd (I_code_phase I) (dmul (I_f_code I) delt) in
      if cp \<ge> 2046 then
        let cp = dsub cp 2046;
            ibit = I_ibit I + 1;
            (ibit, iframe) = (if ibit \<ge> 6000 then (ibit - 6000, I_iframe I + 1) else (ibit, I_iframe I))
        in do {
          b \<leftarrow> arr_at (I_data I) ibit;
          Some (I\<lparr>I_code_phase := cp, I_ibit := ibit, I_iframe := iframe, I_D := -2 * uint b + 1\<rparr>)
        }
      else Some (I\<lparr>I_code_phase := cp\<rparr>))"

text \<open>The quadrature code: at the end of a code the next chip of the secondary code, after four of the tertiary code.\<close>

definition Q_advance :: "int list list \<Rightarrow> int \<Rightarrow> rat \<Rightarrow> Qch_t \<Rightarrow> Qch_t option" where
  "Q_advance tcode sv delt Q =
     (let cp = dadd (Q_code_phase Q) (dmul (Q_f_code Q) delt) in
      if cp \<ge> 10230 then do {
        let cp = dsub cp 10230;
        let ibit = Q_ibit Q + 1;
        Q \<leftarrow> (if ibit \<ge> 4 then do {
               trow \<leftarrow> arr_at tcode sv;
               t \<leftarrow> arr_at trow ((Q_ichip Q + 1) smod 1500);
               Some (Q\<lparr>Q_ibit := ibit - 4, Q_ichip := Q_ichip Q + 1, Q_T := -2 * t + 1\<rparr>)
             }
             else Some (Q\<lparr>Q_ibit := ibit\<rparr>));
        srow \<leftarrow> arr_at scode (sv smod 4);
        s \<leftarrow> arr_at srow (Q_ibit Q);
        Some (Q\<lparr>Q_code_phase := cp, Q_S := -2 * s + 1\<rparr>)
      }
      else Some (Q\<lparr>Q_code_phase := cp\<rparr>))"

definition carr_advance :: "rat \<Rightarrow> rat \<Rightarrow> rat \<Rightarrow> rat" where
  "carr_advance fc delt p =
     (let p = dadd p (dmul fc delt) in
      if p \<ge> 1 then dsub p 1 else if p < 0 then dadd p 1 else p)"

definition chan_sample :: "int list list \<Rightarrow> bool \<Rightarrow> int \<Rightarrow> rat \<Rightarrow> channel_t \<Rightarrow> (channel_t \<times> int \<times> int) option" where
  "chan_sample tcode inv_q gain delt chan =
     (let ph = \<lfloor>dmul (carr_phase chan) 512\<rfloor>;
          I = I_C (chan_I chan) * I_D (chan_I chan);
          Q = Q_C (chan_Q chan) * Q_S (chan_Q chan) * Q_T (chan_Q chan)
      in do {
        cs \<leftarrow> arr_at cosT ph;
        sn \<leftarrow> arr_at sinT ph;
        let ip = gain * (I * cs - Q * sn);
        let qp = gain * (I * sn + Q * cs);
        let qp = (if inv_q then qp * -1 else qp);
        ich \<leftarrow> I_advance delt (chan_I chan);
        qch \<leftarrow> Q_advance tcode (chan_prn chan - 1) delt (chan_Q chan);
        ic \<leftarrow> arr_at (I_code ich) (int_of_dbl (I_code_phase ich));
        qc \<leftarrow> arr_at (Q_code qch) (int_of_dbl (Q_code_phase qch));
        Some (chan\<lparr>chan_I := ich\<lparr>I_C := ic\<rparr>, chan_Q := qch\<lparr>Q_C := qc\<rparr>,
          carr_phase := carr_advance (f_carr chan) delt (carr_phase chan)\<rparr>, ip, qp)
      })"

text \<open>The samples of a tenth of a second. \<open>inv_q\<close> stands for the test \<open>inv_q == 1 && nbits == 2\<close>.\<close>

primrec chan_samples :: "nat \<Rightarrow> int list list \<Rightarrow> bool \<Rightarrow> int \<Rightarrow> rat \<Rightarrow> channel_t \<Rightarrow> (channel_t \<times> (int \<times> int) list) option" where
  "chan_samples 0 tcode inv_q gain delt chan = Some (chan, [])"
| "chan_samples (Suc n) tcode inv_q gain delt chan =
     do {
       (chan', ip, qp) \<leftarrow> chan_sample tcode inv_q gain delt chan;
       (chan'', iq) \<leftarrow> chan_samples n tcode inv_q gain delt chan';
       Some (chan'', (ip, qp) # iq)
     }"

section \<open>One round of the main loop\<close>

text \<open>Gain of a channel from the path loss.\<close>

definition GAIN_SCALE :: int where
  "GAIN_SCALE = 128"

definition gain_of :: "rat \<Rightarrow> int" where
  "gain_of rng = int_of_dbl (dmul (ddiv 5200000 rng) (of_int GAIN_SCALE))"

text \<open>A channel for a tenth of a second: \<open>rho0\<close> is the range of the round before.\<close>

definition chan_epoch :: "libm \<Rightarrow> int list list \<Rightarrow> bool \<Rightarrow> rat \<Rightarrow> nat \<Rightarrow> ephem_t \<Rightarrow> vec3 \<Rightarrow> gpstime_t \<Rightarrow> range_t \<Rightarrow> channel_t \<Rightarrow>
    (range_t \<times> channel_t \<times> (int \<times> int) list) option" where
  "chan_epoch L tcode inv_q delt n eph xyz grx rho0 chan =
     do {
       rho \<leftarrow> computeRange L eph grx xyz;
       chan \<leftarrow> computeCodePhase tcode chan rho0 rho (dbl (1 / 10));
       (chan, iq) \<leftarrow> chan_samples n tcode inv_q (gain_of (rho_range rho)) delt chan;
       Some (rho, chan, iq)
     }"

text \<open>The sum of the channels, as 16-bit numbers or, with noise, as two-bit numbers; \<open>int\<close> division cuts.\<close>

definition sum_channels :: "int list \<Rightarrow> int" where
  "sum_channels xs = foldl (+) 0 xs"

definition sample16 :: "int list \<Rightarrow> int" where
  "sample16 xs = signed_take_bit 15 (sum_channels xs sdiv GAIN_SCALE)"

definition twobitADC :: "int \<Rightarrow> int \<Rightarrow> int" where
  "twobitADC thresh sample =
     (if sample \<ge> 0 then (if sample > thresh then 3 else 1)
      else (if sample < - thresh then -3 else -1))"

definition sample2 :: "int \<Rightarrow> int \<Rightarrow> u32 \<Rightarrow> int list \<Rightarrow> u32 \<times> int" where
  "sample2 thresh noise_scale rng xs =
     (let (rng, r) = randn rng;
          sample = sum_channels xs + r * noise_scale
      in (rng, twobitADC thresh (sample sdiv GAIN_SCALE)))"

fun samples2 :: "int \<Rightarrow> int \<Rightarrow> u32 \<Rightarrow> int list list \<Rightarrow> u32 \<times> int list" where
  "samples2 thresh noise_scale rng [] = (rng, [])"
| "samples2 thresh noise_scale rng (xs # xss) =
     (let (rng, y) = sample2 thresh noise_scale rng xs;
          (rng, ys) = samples2 thresh noise_scale rng xss
      in (rng, y # ys))"

end
