(* ===== verification/Afs_Sim_Chan_Inv.thy ===== *)
theory Afs_Sim_Chan_Inv
  imports Afs_Sim_Chan Sdr_Code_Afs_Lemmas
begin

text \<open>
  The invariant of a channel of the simulator: phases and counters are in their ranges, and the chip
  levels are the ones the phases and counters select. \<open>computeCodePhase\<close> establishes it for every
  range of less than a light second, and the sample loop keeps it.
\<close>

section \<open>The invariant\<close>

definition tables_ok :: "int list list \<Rightarrow> bool" where
  "tables_ok tcode \<longleftrightarrow> length tcode = 210 \<and> (\<forall>row \<in> set tcode. length row = 1500 \<and> (\<forall>t \<in> set row. t = 0 \<or> t = 1))"

definition chan_static :: "channel_t \<Rightarrow> bool" where
  "chan_static ch \<longleftrightarrow> 1 \<le> chan_prn ch \<and> chan_prn ch \<le> 12 \<and>
     length (I_code (chan_I ch)) = 2046 \<and> (\<forall>c \<in> set (I_code (chan_I ch)). pm c) \<and>
     length (Q_code (chan_Q ch)) = 10230 \<and> (\<forall>c \<in> set (Q_code (chan_Q ch)). pm c) \<and>
     length (I_data (chan_I ch)) = 6000 \<and> bitarr (I_data (chan_I ch))"

definition I_ok :: "Ich_t \<Rightarrow> bool" where
  "I_ok I \<longleftrightarrow> 0 \<le> I_code_phase I \<and> I_code_phase I < 2046 \<and> 0 \<le> I_ibit I \<and> I_ibit I < 6000 \<and>
     I_D I = -2 * uint (I_data I ! nat (I_ibit I)) + 1"

definition Q_ok :: "int list list \<Rightarrow> int \<Rightarrow> Qch_t \<Rightarrow> bool" where
  "Q_ok tcode sv Q \<longleftrightarrow> 0 \<le> Q_code_phase Q \<and> Q_code_phase Q < 10230 \<and> 0 \<le> Q_ibit Q \<and> Q_ibit Q < 4 \<and> 0 \<le> Q_ichip Q \<and>
     Q_S Q = -2 * (scode ! nat (sv mod 4) ! nat (Q_ibit Q)) + 1 \<and>
     Q_T Q = -2 * (tcode ! nat sv ! nat (Q_ichip Q mod 1500)) + 1"

definition chan_ok :: "int list list \<Rightarrow> channel_t \<Rightarrow> bool" where
  "chan_ok tcode ch \<longleftrightarrow> chan_static ch \<and> I_ok (chan_I ch) \<and> Q_ok tcode (chan_prn ch - 1) (chan_Q ch) \<and>
     I_C (chan_I ch) = I_code (chan_I ch) ! nat \<lfloor>I_code_phase (chan_I ch)\<rfloor> \<and>
     Q_C (chan_Q ch) = Q_code (chan_Q ch) ! nat \<lfloor>Q_code_phase (chan_Q ch)\<rfloor>"

lemma arr_at_in: "0 \<le> i \<Longrightarrow> i < int (length xs) \<Longrightarrow> arr_at xs i = Some (xs ! nat i)"
  by (simp add: arr_at_def)

lemma int_of_dbl_pos: "0 \<le> x \<Longrightarrow> int_of_dbl x = \<lfloor>x\<rfloor>"
  by (simp add: int_of_dbl_def)

text \<open>The chip at a phase.\<close>

lemma arr_at_phase:
  assumes "0 \<le> x" "x < of_nat (length xs)"
  shows "arr_at xs (int_of_dbl x) = Some (xs ! nat \<lfloor>x\<rfloor>)"
  unfolding int_of_dbl_pos [OF assms(1)] using assms by (intro arr_at_in) (auto simp: floor_less_iff)

lemma smod_nonneg: "0 \<le> (a :: int) \<Longrightarrow> 0 < b \<Longrightarrow> a smod b = a mod b"
  by (cases "a = 0") (simp_all add: signed_modulo_int_def)

section \<open>Where a signal of the past is in its frame\<close>

lemma afst_closed_week:
  assumes "on_grid K t" "K \<le> 900" "0 \<le> t" "t \<le> 604800"
  shows "0 \<le> afs_fsec (gpst2afst \<lparr>gps_week = w, gps_sec = t\<rparr>) \<and> afs_fsec (gpst2afst \<lparr>gps_week = w, gps_sec = t\<rparr>) < 12 \<and>
    on_grid K (afs_fsec (gpst2afst \<lparr>gps_week = w, gps_sec = t\<rparr>))"
proof (cases "t = 604800")
  case True
  have "gpst2afst \<lparr>gps_week = w, gps_sec = t\<rparr> = gpst2afst \<lparr>gps_week = w + 1, gps_sec = 0\<rparr>"
    using afst_next_week [OF assms(1,2)] True by simp
  then show ?thesis using afst_in_week [OF on_grid_int [of 0 K, simplified] assms(2), of "w + 1"] by auto
next
  case False
  then show ?thesis using afst_in_week [OF assms(1-3), of w] assms(4) by auto
qed

lemma light_time:
  assumes "on_grid 600 r" "0 < r" "r \<le> 299792458"
  shows "\<exists>y. ddiv (- r) SPEED_OF_LIGHT = - y \<and> on_grid 700 y \<and> 0 < y \<and> y \<le> 1"
proof -
  let ?q = "r / 299792458"
  have "1 / 2 ^ 600 \<le> r" by (rule grid_pos_bound [OF assms(1,2)])
  then have low: "1 / 2 ^ 630 \<le> ?q" by (simp add: pos_le_divide_eq) 
  have "1 / 2 ^ 1000 \<le> 1 / (2 :: rat) ^ 630" by simp
  then have low': "1 / 2 ^ 1000 \<le> ?q" using low by (rule order_trans)
  have hi: "?q \<le> 1" "?q < 2 ^ 53" using assms(3) by simp_all
  have "on_grid (630 + 53) (dbl ?q)" by (rule dbl_on_grid [OF low hi(2)]) simp
  then have "on_grid 700 (dbl ?q)" by (rule on_grid_mono) simp
  moreover have "dbl ?q \<le> 1" using dbl_le_int [of ?q 1, OF _ low' hi(2)] hi(1) by simp
  moreover have "0 < dbl ?q"
  proof -
    have "\<bar>dbl ?q - ?q\<bar> \<le> ?q / 2 ^ 53" by (rule dbl_error [OF low' hi(2)])
    moreover have "?q / 2 ^ 53 < ?q" using assms(2) by simp
    ultimately show ?thesis by linarith
  qed
  moreover have "ddiv (- r) SPEED_OF_LIGHT = - dbl ?q" using dbl_minus [of ?q] by (simp add: ddiv_def SPEED_OF_LIGHT_def)
  ultimately show ?thesis by blast
qed

lemma frame_ms:
  assumes "on_grid K f" "K \<le> 800" "0 \<le> f" "f < 12"
  shows "0 \<le> dmul f 1000 \<and> dmul f 1000 < 12000 \<and> on_grid 853 (dmul f 1000)"
proof (cases "f = 0")
  case True
  then show ?thesis using on_grid_int [of 0 853] by (simp add: dmul_def dbl_def)
next
  case False
  then have "1 / 2 ^ 800 \<le> f" using grid_pos_bound [OF on_grid_mono [OF assms(1,2)]] assms(3) by simp
  then have low: "1 / 2 ^ 800 \<le> f * 1000" by simp
  then have low': "1 / 2 ^ 1000 \<le> f * 1000" by simp
  have hi: "f * 1000 < 2 ^ 53" using assms(4) by simp
  have "dbl (f * 1000) < 12000" using dbl_mult_less [OF assms(1) _ assms(3), of 12 1000] assms(2,4) low' hi by simp
  then show ?thesis unfolding dmul_def using dbl_on_grid [OF low hi] dbl_ge_int [of 0, OF _ low' hi] assms(3) by simp
qed

text \<open>A part of a code, as a part of its chips.\<close>

lemma part_of_chips:
  assumes "on_grid 854 x" "0 \<le> x" "x < 1" "1 \<le> c" "c < 2 ^ 40"
  shows "0 \<le> dmul x (of_int c) \<and> dmul x (of_int c) < of_int c"
proof (cases "x = 0")
  case True
  then show ?thesis using assms(4) by (simp add: dmul_def dbl_def)
next
  case False
  have "c < 2 ^ 53" using assms(5) by simp
  then have "(of_int c :: rat) < of_int (2 ^ 53)" by (simp only: of_int_less_iff)
  then have c: "1 \<le> (of_int c :: rat)" "(of_int c :: rat) < 2 ^ 53" using assms(4) by simp_all
  have "1 / 2 ^ 854 \<le> x" using grid_pos_bound [OF assms(1)] assms(2) False by simp
  then have "1 / 2 ^ 854 * 1 \<le> x * of_int c" using c(1) assms(2) by (intro mult_mono) auto
  then have low: "1 / 2 ^ 1000 \<le> x * of_int c" by simp
  have "x * of_int c \<le> 1 * of_int c" using assms(3) c(1) by (intro mult_right_mono) auto
  then have hi: "x * of_int c < 2 ^ 53" using c(2) by linarith
  have "0 \<le> dbl (x * of_int c)" using dbl_ge_int [of 0, OF _ low hi] assms(2) c(1) by simp
  moreover have "dbl (x * of_int c) < of_int 1 * of_int c"
    using low hi assms c by (intro dbl_mult_less [OF assms(1)]) auto
  ultimately show ?thesis by (simp add: dmul_def)
qed

text \<open>The bit, the rest of the code and the tertiary chip of a time in the frame.\<close>

lemma frame_position:
  assumes "on_grid K f" "K \<le> 800" "0 \<le> f" "f < 12"
  defines "ms \<equiv> dmul f 1000"
  defines "rest \<equiv> dsub ms (dmul (of_int (int_of_dbl (ddiv ms 2))) 2)"
  shows "0 \<le> int_of_dbl (ddiv ms 2) \<and> int_of_dbl (ddiv ms 2) < 6000 \<and>
    0 \<le> int_of_dbl (ddiv ms 8) \<and> int_of_dbl (ddiv ms 8) < 1500 \<and>
    0 \<le> dmul (ddiv rest 2) 2046 \<and> dmul (ddiv rest 2) 2046 < 2046 \<and>
    0 \<le> dmul (ddiv rest 2) 10230 \<and> dmul (ddiv rest 2) 10230 < 10230"
proof -
  have ms: "0 \<le> ms" "ms < 12000" "on_grid 853 ms" using frame_ms [OF assms(1-4)] by (simp_all add: ms_def)
  note a = cut_interval [OF ms(3) _ ms(1), of 6000 2, simplified] and b = cut_interval [OF ms(3) _ ms(1), of 1500 8, simplified]
  have rest: "0 \<le> rest" "rest < 2" "on_grid 853 rest" using a ms(2) by (auto simp: rest_def)
  have h: "on_grid 854 (rest / 2)" "0 \<le> rest / 2" "rest / 2 < 1" using on_grid_half [OF rest(3)] rest(1,2) by simp_all
  have half: "ddiv rest 2 = rest / 2" unfolding ddiv_def by (rule dbl_grid [OF h(1)]) (use h in simp_all)
  show ?thesis unfolding half using a b ms(2) part_of_chips [OF h, of 2046] part_of_chips [OF h, of 10230] by auto
qed

lemma scode_row: "0 \<le> sv \<Longrightarrow> arr_at scode (sv smod 4) = Some (scode ! nat (sv mod 4)) \<and> length (scode ! nat (sv mod 4)) = 4"
proof -
  assume sv: "0 \<le> sv"
  have "0 \<le> sv mod 4" "sv mod 4 < 4" by simp_all
  moreover have "length (scode ! m) = 4" if "m < 4" for m using that by (auto simp: scode_def less_Suc_eq numeral_eq_Suc)
  moreover have "length scode = 4" by (simp add: scode_def)
  ultimately show ?thesis using sv by (simp add: smod_nonneg arr_at_in nat_less_iff)
qed

lemma scode_chip: "0 \<le> sv \<Longrightarrow> 0 \<le> i \<Longrightarrow> i < 4 \<Longrightarrow>
  arr_at (scode ! nat (sv mod 4)) i = Some (scode ! nat (sv mod 4) ! nat i)"
  using scode_row [of sv] by (simp add: arr_at_in)

lemma tcode_row: "tables_ok tcode \<Longrightarrow> 0 \<le> sv \<Longrightarrow> sv < 12 \<Longrightarrow>
  arr_at tcode sv = Some (tcode ! nat sv) \<and> length (tcode ! nat sv) = 1500"
  by (simp add: tables_ok_def arr_at_in)

lemma compute_code_phase_ok:
  assumes "chan_static ch" "tables_ok tcode" "rho_g rho0 = \<lparr>gps_week = w, gps_sec = x\<rparr>"
    "on_grid 600 x" "0 \<le> x" "x \<le> 604800" "on_grid 600 (rho_range rho0)" "0 < rho_range rho0" "rho_range rho0 \<le> 299792458"
  shows "\<exists>ch'. computeCodePhase tcode ch rho0 rho1 dt = Some ch' \<and> chan_ok tcode ch' \<and> carr_phase ch' = carr_phase ch \<and>
    I_data (chan_I ch') = I_data (chan_I ch)"
proof -
  obtain y where y: "ddiv (- rho_range rho0) SPEED_OF_LIGHT = - y" "on_grid 700 y" "0 < y" "y \<le> 1"
    using light_time [OF assms(7-9)] by blast
  have x: "on_grid 700 x" by (rule on_grid_mono [OF assms(4)]) simp
  obtain w' t where t: "timeadd \<lparr>gps_week = w, gps_sec = x\<rparr> (- y) = \<lparr>gps_week = w', gps_sec = t\<rparr>"
    "on_grid (700 + 53) t" "0 \<le> t" "t \<le> 604800"
    using timeadd_back [OF x _ assms(5,6) y(2-4), of w] by auto
  let ?f = "afs_fsec (gpst2afst \<lparr>gps_week = w', gps_sec = t\<rparr>)"
  have f: "0 \<le> ?f" "?f < 12" "on_grid (700 + 53) ?f" using afst_closed_week [OF t(2) _ t(3,4)] by auto
  note pos = frame_position [OF f(3) _ f(1,2), simplified]
  define ms ibit where "ms = dmul ?f 1000" and "ibit = int_of_dbl (ddiv ms 2)"
  define ip qp where "ip = dmul (ddiv (dsub ms (dmul (of_int ibit) 2)) 2) 2046" and "qp = dmul (ddiv (dsub ms (dmul (of_int ibit) 2)) 2) 10230"
  have r: "0 \<le> ibit" "ibit < 6000" "0 \<le> int_of_dbl (ddiv ms 8)" "int_of_dbl (ddiv ms 8) < 1500" "0 \<le> ip" "ip < 2046" "0 \<le> qp" "qp < 10230"
    using pos by (simp_all add: ms_def ibit_def ip_def qp_def)
  have st: "0 \<le> chan_prn ch - 1" "chan_prn ch - 1 < 12" "length (I_code (chan_I ch)) = 2046" "length (Q_code (chan_Q ch)) = 10230"
    "length (I_data (chan_I ch)) = 6000" using assms(1) by (auto simp: chan_static_def)
  have m4: "ibit smod 4 = ibit mod 4" using r(1) by (simp add: smod_nonneg)
  show ?thesis
    using r st assms(1) scode_row [OF st(1)] scode_chip [OF st(1), of "ibit mod 4"] tcode_row [OF assms(2) st(1,2)]
    by (simp add: computeCodePhase_def Let_def assms(3) y(1) t(1) m4 arr_at_phase arr_at_in flip: ms_def ibit_def ip_def qp_def)
      (simp add: chan_ok_def chan_static_def I_ok_def Q_ok_def)
qed

end
