(* ===== verification/Afs_Sim_Chan_Props.thy ===== *)
theory Afs_Sim_Chan_Props
  imports Afs_Sim_Chan_Inv
begin

text \<open>
  The sample loop of the simulator keeps the invariant of a channel and never reads outside a table as
  long as the carrier phase does not run backwards; a carrier phase that runs backwards can reach the
  value 1 and then reads one entry past the end of the sine and cosine tables.
\<close>

section \<open>One step of a phase\<close>

lemma code_phase_step:
  assumes "0 \<le> x" "x < of_int c" "1 / 2 ^ 20 \<le> s" "s \<le> of_int c - 1" "1 \<le> c" "c < 2 ^ 20"
  shows "0 \<le> dadd x s \<and> (of_int c \<le> dadd x s \<longrightarrow> 0 \<le> dsub (dadd x s) (of_int c) \<and> dsub (dadd x s) (of_int c) < of_int c)"
proof -
  have "(of_int c :: rat) < of_int (2 ^ 20)" using assms(6) by (simp only: of_int_less_iff)
  then have c: "1 \<le> (of_int c :: rat)" "(of_int c :: rat) < 2 ^ 20" using assms(5) by simp_all
  have low: "1 / 2 ^ 20 \<le> x + s" using assms(1,3) by linarith
  have "1 / 2 ^ 1000 \<le> 1 / (2 :: rat) ^ 20" by simp
  then have low': "1 / 2 ^ 1000 \<le> x + s" using low by (rule order_trans)
  have hi: "x + s < 2 ^ 53" using assms(2,4) c(2) by simp
  have g: "on_grid (20 + 53) (dbl (x + s))" by (rule dbl_on_grid [OF low hi]) simp
  have "x + s \<le> of_int (2 * c - 1)" using assms(2,4) by simp
  then have le: "dbl (x + s) \<le> of_int (2 * c - 1)" by (rule dbl_le_int [OF _ low' hi])
  have "0 \<le> dbl (x + s)" using dbl_ge_int [of 0, OF _ low' hi] low by simp
  moreover have "dsub (dbl (x + s)) (of_int c) = dbl (x + s) - of_int c" if "of_int c \<le> dbl (x + s)"
    by (rule dsub_int [OF g]) (use that assms(5) le c in simp_all)
  ultimately show ?thesis using le unfolding dadd_def by simp
qed

lemma carr_phase_step:
  assumes "on_grid 853 p" "0 \<le> p" "p < 1" "dmul fc delt = 0 \<or> 1 / 2 ^ 800 \<le> dmul fc delt" "dmul fc delt \<le> 1 / 2"
  shows "on_grid 853 (carr_advance fc delt p) \<and> 0 \<le> carr_advance fc delt p \<and> carr_advance fc delt p < 1"
proof (cases "dmul fc delt = 0")
  case True
  have "dadd p 0 = p" unfolding dadd_def using dbl_grid [OF assms(1)] assms(2,3) by simp
  then show ?thesis using assms(1-3) True by (simp add: carr_advance_def)
next
  case False
  let ?z = "p + dmul fc delt"
  have low: "1 / 2 ^ 800 \<le> ?z" using assms(2,4) False by linarith
  then have low': "1 / 2 ^ 1000 \<le> ?z" by simp
  have hi: "?z < 3 / 2" "?z < 2 ^ 53" using assms(3,5) by simp_all
  have g: "on_grid (800 + 53) (dbl ?z)" by (rule dbl_on_grid [OF low hi(2)]) simp
  have "\<bar>dbl ?z - ?z\<bar> \<le> ?z / 2 ^ 53" by (rule dbl_error [OF low' hi(2)])
  moreover have "?z / 2 ^ 53 \<le> 1 / 4" using hi(1) by simp
  ultimately have lt: "dbl ?z < 2" using hi(1) by linarith
  have "of_int 0 \<le> ?z" using order_trans [OF _ low, of 0] by simp
  then have ge: "0 \<le> dbl ?z" using dbl_ge_int [OF _ low' hi(2), of 0] by simp
  have "dsub (dbl ?z) 1 = dbl ?z - 1 \<and> on_grid 853 (dbl ?z - 1)" if "1 \<le> dbl ?z"
    using dsub_int [OF g, of 1] grid_minus_int [OF g, of 1] that lt by simp
  then show ?thesis using g lt ge by (auto simp: carr_advance_def dadd_def Let_def)
qed

section \<open>One sample\<close>

lemma I_advance_ok:
  assumes "I_ok I" "length (I_data I) = 6000" "1 / 2 ^ 20 \<le> dmul (I_f_code I) delt" "dmul (I_f_code I) delt \<le> 2045"
  shows "\<exists>I'. I_advance delt I = Some I' \<and> I_ok I' \<and> I_data I' = I_data I \<and> I_code I' = I_code I \<and> I_f_code I' = I_f_code I"
proof -
  have p: "0 \<le> dadd (I_code_phase I) (dmul (I_f_code I) delt)"
    "2046 \<le> dadd (I_code_phase I) (dmul (I_f_code I) delt) \<Longrightarrow>
      0 \<le> dsub (dadd (I_code_phase I) (dmul (I_f_code I) delt)) 2046 \<and> dsub (dadd (I_code_phase I) (dmul (I_f_code I) delt)) 2046 < 2046"
    using code_phase_step [of "I_code_phase I" 2046 "dmul (I_f_code I) delt"] assms(1,3,4) by (simp_all add: I_ok_def)
  show ?thesis using assms(1,2) p by (auto simp: I_advance_def I_ok_def Let_def arr_at_in not_le)
qed

lemma Q_advance_ok:
  assumes "Q_ok tcode sv Q" "tables_ok tcode" "0 \<le> sv" "sv < 12" "1 / 2 ^ 20 \<le> dmul (Q_f_code Q) delt" "dmul (Q_f_code Q) delt \<le> 10229"
  shows "\<exists>Q'. Q_advance tcode sv delt Q = Some Q' \<and> Q_ok tcode sv Q' \<and> Q_code Q' = Q_code Q \<and> Q_f_code Q' = Q_f_code Q"
proof -
  have p: "0 \<le> dadd (Q_code_phase Q) (dmul (Q_f_code Q) delt)"
    "10230 \<le> dadd (Q_code_phase Q) (dmul (Q_f_code Q) delt) \<Longrightarrow>
      0 \<le> dsub (dadd (Q_code_phase Q) (dmul (Q_f_code Q) delt)) 10230 \<and> dsub (dadd (Q_code_phase Q) (dmul (Q_f_code Q) delt)) 10230 < 10230"
    using code_phase_step [of "Q_code_phase Q" 10230 "dmul (Q_f_code Q) delt"] assms(1,5,6) by (simp_all add: Q_ok_def)
  have tq: "arr_at (tcode ! nat sv) ((Q_ichip Q + 1) smod 1500) = Some (tcode ! nat sv ! nat ((Q_ichip Q + 1) mod 1500))"
    using tcode_row [OF assms(2-4)] assms(1) by (simp add: smod_nonneg arr_at_in Q_ok_def)
  consider "dadd (Q_code_phase Q) (dmul (Q_f_code Q) delt) < 10230"
    | "10230 \<le> dadd (Q_code_phase Q) (dmul (Q_f_code Q) delt)" "Q_ibit Q + 1 < 4"
    | "10230 \<le> dadd (Q_code_phase Q) (dmul (Q_f_code Q) delt)" "4 \<le> Q_ibit Q + 1" by linarith
  then show ?thesis
    by cases (use assms(1) p tq scode_row [OF assms(3)] scode_chip [OF assms(3)] tcode_row [OF assms(2-4)] in
      \<open>simp_all add: Q_advance_def Q_ok_def Let_def\<close>)
qed

lemma trig_tables: "length cosT = 512" "length sinT = 512" "list_all (\<lambda>v. \<bar>v\<bar> \<le> 250) cosT" "list_all (\<lambda>v. \<bar>v\<bar> \<le> 250) sinT"
  by (simp_all add: cosT_def sinT_def)

lemma mix_bound:
  assumes "pm i" "pm q" "\<bar>c\<bar> \<le> 250" "\<bar>s\<bar> \<le> 250"
  shows "\<bar>g * (i * c - q * s)\<bar> \<le> 500 * \<bar>g\<bar> \<and> \<bar>g * (i * s + q * c)\<bar> \<le> 500 * \<bar>g\<bar>"
proof -
  have "\<bar>i * c - q * s\<bar> \<le> 500" "\<bar>i * s + q * c\<bar> \<le> 500" using assms by (auto simp: pm_def)
  then show ?thesis by (simp add: abs_mult mult.commute mult_left_mono)
qed

lemma chan_levels:
  assumes "chan_ok tcode ch" "tables_ok tcode"
  shows "pm (I_C (chan_I ch) * I_D (chan_I ch))" "pm (Q_C (chan_Q ch) * Q_S (chan_Q ch) * Q_T (chan_Q ch))"
proof -
  have static: "chan_static ch" and I: "I_ok (chan_I ch)" and Q: "Q_ok tcode (chan_prn ch - 1) (chan_Q ch)"
    and C: "I_C (chan_I ch) = I_code (chan_I ch) ! nat \<lfloor>I_code_phase (chan_I ch)\<rfloor>"
      "Q_C (chan_Q ch) = Q_code (chan_Q ch) ! nat \<lfloor>Q_code_phase (chan_Q ch)\<rfloor>"
    using assms(1) by (auto simp: chan_ok_def)
  have "nat \<lfloor>I_code_phase (chan_I ch)\<rfloor> < 2046" "nat \<lfloor>Q_code_phase (chan_Q ch)\<rfloor> < 10230"
    using I Q by (simp_all add: I_ok_def Q_ok_def nat_less_iff floor_less_iff)
  then have "pm (I_C (chan_I ch))" "pm (Q_C (chan_Q ch))" using static C by (simp_all add: chan_static_def)
  moreover have "pm (I_D (chan_I ch))"
  proof -
    have "nat (I_ibit (chan_I ch)) < length (I_data (chan_I ch))" using I static by (simp add: I_ok_def chan_static_def nat_less_iff)
    then show ?thesis using I static bitarr_nthD [of "I_data (chan_I ch)" "nat (I_ibit (chan_I ch))"] by (auto simp: I_ok_def chan_static_def pm_def)
  qed
  moreover have "pm (Q_S (chan_Q ch))"
  proof -
    have "scode ! m ! j = 0 \<or> scode ! m ! j = 1" if "m < 4" "j < 4" for m j
      using that by (auto simp: scode_def less_Suc_eq numeral_eq_Suc)
    from this [of "nat ((chan_prn ch - 1) mod 4)" "nat (Q_ibit (chan_Q ch))"] Q show ?thesis by (auto simp: Q_ok_def pm_def nat_less_iff)
  qed
  moreover have "pm (Q_T (chan_Q ch))"
  proof -
    have row: "tcode ! nat (chan_prn ch - 1) \<in> set tcode"
      using static assms(2) by (intro nth_mem) (simp add: chan_static_def tables_ok_def nat_less_iff)
    then have "tcode ! nat (chan_prn ch - 1) ! nat (Q_ichip (chan_Q ch) mod 1500) \<in> {0, 1}"
      using assms(2) by (auto simp: tables_ok_def nat_less_iff)
    then show ?thesis using Q by (auto simp: Q_ok_def pm_def)
  qed
  ultimately show "pm (I_C (chan_I ch) * I_D (chan_I ch))" "pm (Q_C (chan_Q ch) * Q_S (chan_Q ch) * Q_T (chan_Q ch))" by auto
qed

text \<open>What the steps of a channel have to be for the loop: less than a code, and a carrier that does not run backwards.\<close>

definition code_steps_ok :: "rat \<Rightarrow> channel_t \<Rightarrow> bool" where
  "code_steps_ok delt ch \<longleftrightarrow>
     1 / 2 ^ 20 \<le> dmul (I_f_code (chan_I ch)) delt \<and> dmul (I_f_code (chan_I ch)) delt \<le> 2045 \<and>
     1 / 2 ^ 20 \<le> dmul (Q_f_code (chan_Q ch)) delt \<and> dmul (Q_f_code (chan_Q ch)) delt \<le> 10229"

definition carr_step_ok :: "rat \<Rightarrow> channel_t \<Rightarrow> bool" where
  "carr_step_ok delt ch \<longleftrightarrow>
     (dmul (f_carr ch) delt = 0 \<or> 1 / 2 ^ 800 \<le> dmul (f_carr ch) delt) \<and> dmul (f_carr ch) delt \<le> 1 / 2"

definition phase_ok :: "channel_t \<Rightarrow> bool" where
  "phase_ok ch \<longleftrightarrow> on_grid 853 (carr_phase ch) \<and> 0 \<le> carr_phase ch \<and> carr_phase ch < 1"

lemma chan_sample_ok:
  assumes "chan_ok tcode ch" "phase_ok ch" "tables_ok tcode" "code_steps_ok delt ch"
  shows "\<exists>ch' ip qp. chan_sample tcode inv_q gain delt ch = Some (ch', ip, qp) \<and> chan_ok tcode ch' \<and> code_steps_ok delt ch' \<and>
    f_carr ch' = f_carr ch \<and> carr_phase ch' = carr_advance (f_carr ch) delt (carr_phase ch) \<and>
    I_data (chan_I ch') = I_data (chan_I ch) \<and> \<bar>ip\<bar> \<le> 500 * \<bar>gain\<bar> \<and> \<bar>qp\<bar> \<le> 500 * \<bar>gain\<bar>"
proof -
  have static: "chan_static ch" and I: "I_ok (chan_I ch)" and Q: "Q_ok tcode (chan_prn ch - 1) (chan_Q ch)"
    using assms(1) by (auto simp: chan_ok_def)
  have sv: "0 \<le> chan_prn ch - 1" "chan_prn ch - 1 < 12" and len: "length (I_code (chan_I ch)) = 2046" "length (Q_code (chan_Q ch)) = 10230" "length (I_data (chan_I ch)) = 6000"
    using static by (simp_all add: chan_static_def)
  obtain I' where I': "I_advance delt (chan_I ch) = Some I'" "I_ok I'" "I_data I' = I_data (chan_I ch)" "I_code I' = I_code (chan_I ch)" "I_f_code I' = I_f_code (chan_I ch)"
    using I_advance_ok [OF I len(3), of delt] assms(4) by (auto simp: code_steps_ok_def)
  obtain Q' where Q': "Q_advance tcode (chan_prn ch - 1) delt (chan_Q ch) = Some Q'" "Q_ok tcode (chan_prn ch - 1) Q'" "Q_code Q' = Q_code (chan_Q ch)" "Q_f_code Q' = Q_f_code (chan_Q ch)"
    using Q_advance_ok [OF Q assms(3) sv, of delt] assms(4) by (auto simp: code_steps_ok_def)
  have "0 \<le> dmul (carr_phase ch) 512 \<and> dmul (carr_phase ch) 512 < 512"
    using part_of_chips [of "carr_phase ch" 512] on_grid_mono [of 853 "carr_phase ch" 854] assms(2) by (simp add: phase_ok_def)
  then have ph: "0 \<le> \<lfloor>dmul (carr_phase ch) 512\<rfloor>" "\<lfloor>dmul (carr_phase ch) 512\<rfloor> < 512" by (simp_all add: floor_less_iff)
  let ?k = "nat \<lfloor>dmul (carr_phase ch) 512\<rfloor>"
  have tr: "arr_at cosT \<lfloor>dmul (carr_phase ch) 512\<rfloor> = Some (cosT ! ?k)" "arr_at sinT \<lfloor>dmul (carr_phase ch) 512\<rfloor> = Some (sinT ! ?k)"
    using ph trig_tables by (simp_all add: arr_at_in)
  have "?k < 512" using ph by (simp add: nat_less_iff)
  then have "\<bar>cosT ! ?k\<bar> \<le> 250" "\<bar>sinT ! ?k\<bar> \<le> 250" using trig_tables by (simp_all add: list_all_length)
  note mix = mix_bound [OF chan_levels [OF assms(1,3)] this, of gain]
  have at: "arr_at (I_code I') (int_of_dbl (I_code_phase I')) = Some (I_code I' ! nat \<lfloor>I_code_phase I'\<rfloor>)"
    "arr_at (Q_code Q') (int_of_dbl (Q_code_phase Q')) = Some (Q_code Q' ! nat \<lfloor>Q_code_phase Q'\<rfloor>)"
    using I'(2,4) Q'(2,3) len by (simp_all add: arr_at_phase I_ok_def Q_ok_def)
  let ?ch = "ch\<lparr>chan_I := I'\<lparr>I_C := I_code I' ! nat \<lfloor>I_code_phase I'\<rfloor>\<rparr>, chan_Q := Q'\<lparr>Q_C := Q_code Q' ! nat \<lfloor>Q_code_phase Q'\<rfloor>\<rparr>,
    carr_phase := carr_advance (f_carr ch) delt (carr_phase ch)\<rparr>"
  have "chan_static ?ch" using static I'(3,4) Q'(3) by (simp add: chan_static_def)
  moreover have "I_ok (chan_I ?ch)" using I'(2) by (simp add: I_ok_def)
  moreover have "Q_ok tcode (chan_prn ?ch - 1) (chan_Q ?ch)" using Q'(2) by (simp add: Q_ok_def)
  ultimately have "chan_ok tcode ?ch" by (simp add: chan_ok_def)
  moreover have "code_steps_ok delt ?ch" using assms(4) I'(5) Q'(4) by (simp add: code_steps_ok_def)
  moreover have "f_carr ?ch = f_carr ch" "carr_phase ?ch = carr_advance (f_carr ch) delt (carr_phase ch)" by simp_all
  moreover have "I_data (chan_I ?ch) = I_data (chan_I ch)" using I'(3) by simp
  moreover have "\<exists>ip qp. chan_sample tcode inv_q gain delt ch = Some (?ch, ip, qp) \<and> \<bar>ip\<bar> \<le> 500 * \<bar>gain\<bar> \<and> \<bar>qp\<bar> \<le> 500 * \<bar>gain\<bar>"
    using mix by (simp add: chan_sample_def Let_def tr at I'(1) Q'(1))
  ultimately show ?thesis by blast
qed

lemma chan_samples_ok:
  assumes "chan_ok tcode ch" "phase_ok ch" "tables_ok tcode" "code_steps_ok delt ch" "carr_step_ok delt ch"
  shows "\<exists>ch' iq. chan_samples n tcode inv_q gain delt ch = Some (ch', iq) \<and> chan_ok tcode ch' \<and> phase_ok ch' \<and>
    I_data (chan_I ch') = I_data (chan_I ch) \<and> length iq = n \<and> list_all (\<lambda>(ip, qp). \<bar>ip\<bar> \<le> 500 * \<bar>gain\<bar> \<and> \<bar>qp\<bar> \<le> 500 * \<bar>gain\<bar>) iq"
  using assms
proof (induction n arbitrary: ch)
  case (Suc n)
  obtain ch' ip qp where one: "chan_sample tcode inv_q gain delt ch = Some (ch', ip, qp)" "chan_ok tcode ch'" "code_steps_ok delt ch'"
    "f_carr ch' = f_carr ch" "carr_phase ch' = carr_advance (f_carr ch) delt (carr_phase ch)"
    "I_data (chan_I ch') = I_data (chan_I ch)" "\<bar>ip\<bar> \<le> 500 * \<bar>gain\<bar>" "\<bar>qp\<bar> \<le> 500 * \<bar>gain\<bar>"
    using chan_sample_ok [OF Suc.prems(1,2) assms(3) Suc.prems(4), of inv_q gain] by blast
  have "phase_ok ch'" using carr_phase_step [of "carr_phase ch" "f_carr ch" delt] Suc.prems(2,5) one(5) by (simp add: phase_ok_def carr_step_ok_def)
  moreover have "carr_step_ok delt ch'" using Suc.prems(5) one(4) by (simp add: carr_step_ok_def)
  ultimately show ?case using Suc.IH [OF one(2) _ assms(3) one(3)] one by auto
qed simp

section \<open>A channel to evaluate\<close>

definition chan_demo :: "rat \<Rightarrow> channel_t" where
  "chan_demo fc = \<lparr>chan_prn = 1,
     chan_I = \<lparr>I_code = replicate 2046 1, I_f_code = 1023000, I_code_phase = 0, I_C = 1, I_ibit = 0, I_iframe = 0, I_D = 1, I_data = replicate 6000 0\<rparr>,
     chan_Q = \<lparr>Q_code = replicate 10230 1, Q_f_code = 5115000, Q_code_phase = 0, Q_C = 1, Q_S = -1, Q_T = 1, Q_ibit = 0, Q_ichip = 0\<rparr>,
     f_carr = fc, carr_phase = 0\<rparr>"

definition tcode_demo :: "int list list" where
  "tcode_demo = replicate 210 (replicate 1500 0)"

lemma tables_ok_demo: "tables_ok tcode_demo"
  by (simp add: tables_ok_def tcode_demo_def)

lemma chan_static_demo: "chan_static (chan_demo fc)"
  by (auto simp: chan_static_def chan_demo_def)

lemma chan_ok_demo: "chan_ok tcode_demo (chan_demo fc)"
  using chan_static_demo [of fc] by (simp add: chan_ok_def I_ok_def Q_ok_def chan_demo_def scode_def tcode_demo_def)

lemma code_steps_demo: "code_steps_ok (1 / 2 ^ 20) (chan_demo fc)"
proof -
  have "dbl (1023000 / 2 ^ 20) = 1023000 / 2 ^ 20" by (rule dbl_grid [OF on_gridI [of _ 1023000 20 20]]) simp_all
  moreover have "dbl (5115000 / 2 ^ 20) = 5115000 / 2 ^ 20" by (rule dbl_grid [OF on_gridI [of _ 5115000 20 20]]) simp_all
  ultimately show ?thesis by (simp add: code_steps_ok_def chan_demo_def dmul_def)
qed

section \<open>Properties\<close>

text \<open>
  C25: Setting a channel for a satellite less than a light second away never reads outside an array,
  although bit, chip and frame counters are computed with rounded doubles: whatever the receiver time in
  the week, \<open>computeCodePhase\<close> leaves code phases below the code lengths, a bit counter below 6000, a
  secondary chip below 4 and a tertiary chip of the period, and selects the levels these counters
  stand for.
\<close>

theorem code_phase_in_range:
  assumes "chan_static ch" "tables_ok tcode" "rho_g rho0 = \<lparr>gps_week = w, gps_sec = x\<rparr>"
    "on_grid 600 x" "0 \<le> x" "x \<le> 604800" "on_grid 600 (rho_range rho0)" "0 < rho_range rho0" "rho_range rho0 \<le> 299792458"
  shows "\<exists>ch'. computeCodePhase tcode ch rho0 rho1 dt = Some ch' \<and> chan_ok tcode ch' \<and> carr_phase ch' = carr_phase ch"
  using compute_code_phase_ok [OF assms, of rho1 dt] by blast

theorem code_phase_in_range_witness:
  "\<exists>ch'. computeCodePhase tcode_demo (chan_demo 0) \<lparr>rho_g = \<lparr>gps_week = 7, gps_sec = 0\<rparr>, rho_range = 5200000, rho_rate = 0\<rparr>
    \<lparr>rho_g = \<lparr>gps_week = 7, gps_sec = 1\<rparr>, rho_range = 5200001, rho_rate = 0\<rparr> 1 = Some ch' \<and> chan_ok tcode_demo ch'"
proof -
  have "on_grid 600 0" "on_grid 600 5200000" using on_grid_int [of 0 600] on_grid_int [of 5200000 600] by simp_all
  then show ?thesis
    using code_phase_in_range [OF chan_static_demo tables_ok_demo, of "\<lparr>rho_g = \<lparr>gps_week = 7, gps_sec = 0\<rparr>, rho_range = 5200000, rho_rate = 0\<rparr>" 7 0 0] by auto
qed

text \<open>
  C26: While the carrier phase of a channel does not run backwards, the sample loop returns for any
  number of samples: no table is read outside its bounds, phases and counters stay in their ranges, the
  levels stay the ones of the current chip, data bit, secondary and tertiary chip, and every sample is
  at most 500 times the gain.
\<close>

theorem samples_in_range:
  assumes "chan_ok tcode ch" "phase_ok ch" "tables_ok tcode" "code_steps_ok delt ch" "carr_step_ok delt ch"
  shows "\<exists>ch' iq. chan_samples n tcode inv_q gain delt ch = Some (ch', iq) \<and> chan_ok tcode ch' \<and> phase_ok ch' \<and>
    length iq = n \<and> list_all (\<lambda>(ip, qp). \<bar>ip\<bar> \<le> 500 * \<bar>gain\<bar> \<and> \<bar>qp\<bar> \<le> 500 * \<bar>gain\<bar>) iq"
  using chan_samples_ok [OF assms, of n inv_q gain] by blast

theorem samples_in_range_witness:
  "\<exists>ch' iq. chan_samples 1200000 tcode_demo True 128 (1 / 2 ^ 20) (chan_demo 0) = Some (ch', iq) \<and> length iq = 1200000"
proof -
  have "phase_ok (chan_demo 0)" using on_grid_int [of 0 853] by (simp add: phase_ok_def chan_demo_def)
  moreover have "carr_step_ok (1 / 2 ^ 20) (chan_demo 0)" by (simp add: carr_step_ok_def chan_demo_def dmul_def dbl_def)
  ultimately show ?thesis using samples_in_range [OF chan_ok_demo _ tables_ok_demo code_steps_demo] by blast
qed

lemma carr_wraps_to_1:
  assumes "on_grid 700 t" "0 < t" "t \<le> 1 / 2 ^ 55" "dmul fc delt = - t"
  shows "carr_advance fc delt 0 = 1"
proof -
  have "t < 2 ^ 53" using assms(3) by (rule le_less_trans) simp
  then have "dbl t = t" using dbl_grid [OF assms(1)] assms(2) by simp
  then have d: "dbl (- t) = - t" by (simp add: dbl_minus)
  have "dbl (1 - t) = of_int (2 ^ 53) / 2 ^ 53"
  proof (rule dbl_near)
    have "t * 2 ^ 53 \<le> 1 / 2 ^ 55 * 2 ^ 53" using assms(3) by (rule mult_right_mono) simp
    then have t: "t * 2 ^ 53 \<le> 1 / 4" "0 < t * 2 ^ 53" using assms(2) by simp_all
    show "2 ^ 52 \<le> (1 - t) * 2 ^ 53" "(1 - t) * 2 ^ 53 < 2 ^ 53" "of_int (2 ^ 53) - 1 / 2 < (1 - t) * 2 ^ 53" "(1 - t) * 2 ^ 53 < of_int (2 ^ 53) + 1 / 2"
      using t by (simp_all add: left_diff_distrib)
  qed simp
  then show ?thesis using assms(2,4) d by (simp add: carr_advance_def dadd_def)
qed

text \<open>
  C27: A carrier phase that runs backwards can reach exactly 1: from phase 0 a step back of at most
  \<open>2 ^ -55\<close> leads below 0, adding 1 rounds to 1, and the sample after it reads entry 512 of the tables of
  512 entries. The loop therefore leaves its tables after one sample.
\<close>

theorem carrier_table_overrun:
  assumes "chan_ok tcode ch" "tables_ok tcode" "code_steps_ok delt ch" "carr_phase ch = 0"
    "on_grid 700 t" "0 < t" "t \<le> 1 / 2 ^ 55" "dmul (f_carr ch) delt = - t"
  shows "(\<exists>x. chan_samples 1 tcode inv_q gain delt ch = Some x) \<and> chan_samples 2 tcode inv_q gain delt ch = None"
proof -
  have "phase_ok ch" using assms(4) on_grid_int [of 0 853] by (simp add: phase_ok_def)
  then obtain ch' ip qp where one: "chan_sample tcode inv_q gain delt ch = Some (ch', ip, qp)"
    "carr_phase ch' = carr_advance (f_carr ch) delt (carr_phase ch)"
    using chan_sample_ok [OF assms(1) _ assms(2,3), of inv_q gain] by blast
  have "carr_phase ch' = 1" using one(2) carr_wraps_to_1 [OF assms(5-8)] assms(4) by simp
  moreover have "dmul 1 512 = 512" using dbl_int [of 512] by (simp add: dmul_def)
  ultimately have "chan_sample tcode inv_q gain delt ch' = None" by (simp add: chan_sample_def arr_at_def trig_tables)
  then show ?thesis using one(1) by (simp add: numeral_2_eq_2)
qed

theorem carrier_table_overrun_witness:
  "chan_samples 2 tcode_demo False 128 (1 / 2 ^ 20) (chan_demo (- (1 / 2 ^ 40))) = None"
proof -
  have g: "on_grid 700 (1 / 2 ^ 60)" by (rule on_gridI [of _ 1 60]) simp_all
  then have "dbl (1 / 2 ^ 60) = 1 / 2 ^ 60" by (rule dbl_grid) simp_all
  then have "dmul (f_carr (chan_demo (- (1 / 2 ^ 40)))) (1 / 2 ^ 20) = - (1 / 2 ^ 60)"
    using dbl_minus [of "1 / 2 ^ 60"] by (simp add: dmul_def chan_demo_def)
  moreover have "carr_phase (chan_demo (- (1 / 2 ^ 40))) = 0" by (simp add: chan_demo_def)
  ultimately show ?thesis
    using carrier_table_overrun [OF chan_ok_demo tables_ok_demo code_steps_demo _ g, of "- (1 / 2 ^ 40)" False 128] by simp
qed

end
