(* ===== verification/Sdr_Pvt_Afs.thy ===== *)
theory Sdr_Pvt_Afs
  imports Sdr_Nav_Afs Afs_Sim_Orbit Afs_Sim_Chan
begin

text \<open>
  The position solution of the receiver for AFS satellites (\<open>sdr_pvt_afs.c\<close>): the ephemeris table, which
  \<open>decode_afs_frame\<close> fills from the data of subframe 2, and \<open>update_sol_afs\<close>, which selects the
  observations of satellites with an ephemeris and iterates least squares from the south pole of the
  moon. The file has its own copy of the orbit code of the simulator; the Kepler loop and the wrap of a
  week, which are the same text, are shared. The matrix code takes its four operations as a record, so
  that the same definition can be read with doubles (the program) and without rounding (the algorithm).
  Of RTKLIB, the functions for bits, times and satellite numbers that this code calls are modelled.
\<close>

section \<open>From RTKLIB\<close>

definition getbits :: "u8 list \<Rightarrow> nat \<Rightarrow> nat \<Rightarrow> int" where
  "getbits buff pos len =
     (let bits = getbitu buff pos len
      in if len = 0 \<or> 32 \<le> len \<or> bits AND push_bit (len - 1) 1 = 0 then sint bits
         else sint (bits OR push_bit len (NOT 0)))"

record gtime_t =
  gt_time :: int
  gt_sec :: rat

text \<open>\<open>epoch2time(gpst0)\<close>: 6 January 1980 in seconds since 1970.\<close>

definition gpst0_time :: int where
  "gpst0_time = 315964800"

definition time2gpst :: "gtime_t \<Rightarrow> int \<times> rat" where
  "time2gpst t =
     (let sec = gt_time t - gpst0_time;
          w = sec sdiv (86400 * 7)
      in (w, dadd (dsub (of_int sec) (dmul (dmul (of_int w) 86400) 7)) (gt_sec t)))"

definition rtk_timeadd :: "gtime_t \<Rightarrow> rat \<Rightarrow> gtime_t" where
  "rtk_timeadd t sec =
     (let s = dadd (gt_sec t) sec;
          tt = \<lfloor>s\<rfloor>
      in \<lparr>gt_time = gt_time t + tt, gt_sec = dsub s (of_int tt)\<rparr>)"

datatype satsystem = SYS_NONE | SYS_GPS | SYS_GLO | SYS_GAL | SYS_QZS | SYS_CMP | SYS_IRN | SYS_LEO | SYS_SBS

text \<open>Satellite numbers in blocks of 32, 27, 36, 10, 63, 14, 12 and 39; AFS satellites take the block of LEO.\<close>

definition satsys :: "int \<Rightarrow> satsystem \<times> int" where
  "satsys sat =
     (if sat \<le> 0 \<or> 233 < sat then (SYS_NONE, 0)
      else if sat \<le> 32 then (SYS_GPS, sat)
      else if sat \<le> 59 then (SYS_GLO, sat - 32)
      else if sat \<le> 95 then (SYS_GAL, sat - 59)
      else if sat \<le> 105 then (SYS_QZS, sat - 95 + 192)
      else if sat \<le> 168 then (SYS_CMP, sat - 105)
      else if sat \<le> 182 then (SYS_IRN, sat - 168)
      else if sat \<le> 194 then (SYS_LEO, sat - 182)
      else (SYS_SBS, sat - 194 + 119))"

text \<open>An observation, without the receiver number and the Doppler frequency, which only the log and RTCM output use.\<close>

record obsd_t =
  obs_time :: gtime_t
  obs_sat :: int
  obs_SNR :: "int list"
  obs_LLI :: "u8 list"
  obs_code :: "nat list"
  obs_L :: "rat list"
  obs_P :: "rat list"

section \<open>Ephemeris table\<close>

definition MAX_SAT :: nat where
  "MAX_SAT = 12"

definition RTK_PI :: rat where
  "RTK_PI = dbl (31415926535897932 / 10 ^ 16)"

record rx_ephem_t = ephem_t +
  eph_prn :: int

text \<open>The fields of a message.\<close>

definition read_ephemeris :: "libm \<Rightarrow> u8 list \<Rightarrow> int \<Rightarrow> rx_ephem_t \<Rightarrow> rx_ephem_t" where
  "read_ephemeris L buff p e =
     (let wn = uint (getbitu buff 0 13);
          angle = \<lambda>i. dmul (dmul (of_int (getbits buff i 32)) POW2_M31) RTK_PI;
          e = e\<lparr>eph_toe := \<lparr>gps_week = wn, gps_sec = dmul (of_int (uint (getbitu buff 22 16))) 16\<rparr>,
            eph_ecc := dmul (of_int (uint (getbitu buff 38 32))) POW2_M32,
            eph_sqrta := dmul (of_int (uint (getbitu buff 70 32))) POW2_M19,
            eph_inc0 := angle 102, eph_omg0 := angle 134, eph_aop := angle 166, eph_m0 := angle 198,
            eph_toc := \<lparr>gps_week = wn, gps_sec = dmul (of_int (uint (getbitu buff 230 16))) 16\<rparr>,
            eph_af0 := dmul (of_int (getbits buff 246 22)) POW2_M31,
            eph_af1 := dmul (of_int (getbits buff 268 16)) POW2_M43,
            eph_prn := p\<rparr>
      in (eph_working L e)\<lparr>eph_vflg := 1\<rparr>)"

text \<open>\<open>None\<close>: an index below the table.\<close>

definition decode_afs_frame :: "libm \<Rightarrow> u8 list \<Rightarrow> int \<Rightarrow> rx_ephem_t list \<Rightarrow> (rx_ephem_t list \<times> int) option" where
  "decode_afs_frame L buff p eph =
     (let sv = p - 1 in
      if sv \<ge> int MAX_SAT then Some (eph, 0)
      else do {
        e \<leftarrow> arr_at eph sv;
        Some (eph[nat sv := read_ephemeris L buff p e], 1)
      })"

section \<open>Range\<close>

definition satpos_rx :: "libm \<Rightarrow> rx_ephem_t \<Rightarrow> gpstime_t \<Rightarrow> (vec3 \<times> vec3 \<times> rat \<times> rat) option" where
  "satpos_rx L eph g =
     (let tk = week_wrap (dsub (gps_sec g) (gps_sec (eph_toe eph)));
          mk = dadd (eph_m0 eph) (dmul (eph_n eph) tk)
      in do {
        (ek, omc) \<leftarrow> kepler_loop L (eph_ecc eph) mk mk (dadd mk 1) 1;
        let sek = m_sin L ek;
        let cek = m_cos L ek;
        let ekdot = ddiv (eph_n eph) omc;
        let uk = dadd (m_atan2 L (dmul (eph_sq1e2 eph) sek) (dsub cek (eph_ecc eph))) (eph_aop eph);
        let suk = m_sin L uk;
        let cuk = m_cos L uk;
        let ukdot = ddiv (dmul (eph_sq1e2 eph) ekdot) omc;
        let rk = dmul (eph_A eph) omc;
        let rkdot = dmul (dmul (dmul (eph_A eph) (eph_ecc eph)) sek) ekdot;
        let xpk = dmul rk cuk;
        let ypk = dmul rk suk;
        let xpkdot = dsub (dmul rkdot cuk) (dmul ypk ukdot);
        let ypkdot = dadd (dmul rkdot suk) (dmul xpk ukdot);
        let sik = m_sin L (eph_inc0 eph);
        let cik = m_cos L (eph_inc0 eph);
        let sok = m_sin L (eph_omg0 eph);
        let cok = m_cos L (eph_omg0 eph);
        let tk = week_wrap (dsub (gps_sec g) (gps_sec (eph_toc eph)));
        Some ((dsub (dmul xpk cok) (dmul (dmul ypk cik) sok), dadd (dmul xpk sok) (dmul (dmul ypk cik) cok), dmul ypk sik),
          (dsub (dmul xpkdot cok) (dmul (dmul ypkdot cik) sok), dadd (dmul xpkdot sok) (dmul (dmul ypkdot cik) cok), dmul ypkdot sik),
          dadd (eph_af0 eph) (dmul tk (eph_af1 eph)), eph_af1 eph)
      })"

definition computeRange_rx :: "libm \<Rightarrow> rx_ephem_t \<Rightarrow> gpstime_t \<Rightarrow> vec3 \<Rightarrow> rat \<Rightarrow> (rat \<times> vec3) option" where
  "computeRange_rx L eph t_rcv xyz dt_rcv =
     (let sec = dsub (gps_sec t_rcv) dt_rcv;
          g = (if sec < 0 then \<lparr>gps_week = gps_week t_rcv - 1, gps_sec = dadd sec SECONDS_IN_WEEK\<rparr>
               else \<lparr>gps_week = gps_week t_rcv, gps_sec = sec\<rparr>)
      in do {
        (pos, vel, clk0, clk1) \<leftarrow> satpos_rx L eph g;
        let los = subVect pos xyz;
        let tau = ddiv (normVect L los) SPEED_OF_LIGHT;
        let pos = move_back pos vel tau;
        let los = subVect pos xyz;
        let r = normVect L los;
        let rho = dadd r (dmul dt_rcv SPEED_OF_LIGHT);
        Some (rho, ddiv (- fst los) r, ddiv (- fst (snd los)) r, ddiv (- snd (snd los)) r)
      })"

section \<open>Least squares\<close>

record arith =
  a_add :: "rat \<Rightarrow> rat \<Rightarrow> rat"
  a_sub :: "rat \<Rightarrow> rat \<Rightarrow> rat"
  a_mul :: "rat \<Rightarrow> rat \<Rightarrow> rat"
  a_div :: "rat \<Rightarrow> rat \<Rightarrow> rat"

definition dbl_arith :: arith where
  "dbl_arith = \<lparr>a_add = dadd, a_sub = dsub, a_mul = dmul, a_div = ddiv\<rparr>"

definition exact_arith :: arith where
  "exact_arith = \<lparr>a_add = (+), a_sub = (-), a_mul = (*), a_div = (/)\<rparr>"

definition PIVOT_EPS :: rat where
  "PIVOT_EPS = dbl (1 / 10 ^ 10)"

text \<open>The pivot row is divided, and a multiple of it taken from another row, from the last column down to the pivot.\<close>

definition scale_row :: "arith \<Rightarrow> nat \<Rightarrow> nat \<Rightarrow> rat list \<Rightarrow> rat list" where
  "scale_row A i n v = foldl (\<lambda>v j. v[j := a_div A (v ! j) (v ! i)]) v (rev [i..<n])"

definition elim_row :: "arith \<Rightarrow> nat \<Rightarrow> nat \<Rightarrow> rat list \<Rightarrow> rat list \<Rightarrow> rat list" where
  "elim_row A i n piv v = foldl (\<lambda>v j. v[j := a_sub A (v ! j) (a_mul A (v ! i) (piv ! j))]) v (rev [i..<n])"

definition elim_rows :: "arith \<Rightarrow> nat \<Rightarrow> nat \<Rightarrow> rat list list \<Rightarrow> rat list list" where
  "elim_rows A m i b = foldl (\<lambda>b k. if k \<noteq> i then b[k := elim_row A i (m + m) (b ! i) (b ! k)] else b) b [0..<m]"

fun gauss_jordan :: "arith \<Rightarrow> nat \<Rightarrow> nat list \<Rightarrow> rat list list \<Rightarrow> rat list list option" where
  "gauss_jordan A m [] b = Some b"
| "gauss_jordan A m (i # is) b =
     (if \<bar>b ! i ! i\<bar> \<le> PIVOT_EPS then None
      else gauss_jordan A m is (elim_rows A m i (b[i := scale_row A i (m + m) (b ! i)])))"

definition invMat :: "arith \<Rightarrow> rat list list \<Rightarrow> nat \<Rightarrow> rat list list option" where
  "invMat A a m =
     map_option (\<lambda>b. map (\<lambda>i. map (\<lambda>j. b ! i ! (j + m)) [0..<m]) [0..<m])
       (gauss_jordan A m [0..<m] (map (\<lambda>i. map (\<lambda>j. a ! i ! j) [0..<m] @ map (\<lambda>j. if i = j then 1 else 0) [0..<m]) [0..<m]))"

definition MAX_M :: nat where
  "MAX_M = 4"

text \<open>\<open>x += f(k)\<close> for \<open>k\<close> below \<open>n\<close>, from 0.\<close>

definition sum_loop :: "arith \<Rightarrow> nat \<Rightarrow> (nat \<Rightarrow> rat) \<Rightarrow> rat" where
  "sum_loop A n f = foldl (\<lambda>s k. a_add A s (f k)) 0 [0..<n]"

definition normal_mat :: "arith \<Rightarrow> rat list list \<Rightarrow> nat \<Rightarrow> rat list list" where
  "normal_mat A sm n = map (\<lambda>i. map (\<lambda>j. sum_loop A n (\<lambda>k. a_mul A (sm ! k ! i) (sm ! k ! j))) [0..<MAX_M]) [0..<MAX_M]"

text \<open>With the dilutions of precision \<open>gdop\<close> and \<open>pdop\<close>, static variables of the file.\<close>

definition invCovMat :: "libm \<Rightarrow> arith \<Rightarrow> rat list list \<Rightarrow> nat \<Rightarrow> (rat \<times> rat) \<times> rat list list option" where
  "invCovMat L A sm n =
     (case invMat A (normal_mat A sm n) MAX_M of
        None \<Rightarrow> ((0, 0), None)
      | Some icm \<Rightarrow>
          ((m_sqrt L (a_add A (a_add A (a_add A (icm ! 0 ! 0) (icm ! 1 ! 1)) (icm ! 2 ! 2)) (icm ! 3 ! 3)),
            m_sqrt L (a_add A (a_add A (icm ! 0 ! 0) (icm ! 1 ! 1)) (icm ! 2 ! 2))), Some icm))"

definition position_update :: "arith \<Rightarrow> rat list list \<Rightarrow> rat list list \<Rightarrow> rat list \<Rightarrow> nat \<Rightarrow> rat list" where
  "position_update A icm sm omp nsat =
     (let nm = map (\<lambda>i. map (\<lambda>j. sum_loop A MAX_M (\<lambda>k. a_mul A (icm ! i ! k) (sm ! j ! k))) [0..<nsat]) [0..<MAX_M]
      in map (\<lambda>i. sum_loop A nsat (\<lambda>k. a_mul A (nm ! i ! k) (omp ! k))) [0..<MAX_M])"

section \<open>Solution\<close>

text \<open>
  What can go wrong: an array read or written outside its bounds, a variable read before it is set, the
  Kepler loop that does not end.
\<close>

datatype pvt_err = Bad_index | Uninitialised | No_end

text \<open>\<open>sol_dtr0\<close> and \<open>sol_dtr_sys\<close> are \<open>dtr[0]\<close> and \<open>dtr[1]\<close> to \<open>dtr[5]\<close>.\<close>

record pvt_sol =
  sol_time :: gtime_t
  sol_rr :: "rat list"
  sol_dtr0 :: rat
  sol_dtr_sys :: "rat list"
  sol_type :: int
  sol_stat :: int
  sol_ns :: nat
  sol_age :: rat
  sol_ratio :: rat
  pvt_nsat :: nat
  gdop :: rat
  pdop :: rat

definition SOLQ_NONE :: int where
  "SOLQ_NONE = 0"

definition SOLQ_SINGLE :: int where
  "SOLQ_SINGLE = 5"

definition MAXSOLQ :: int where
  "MAXSOLQ = 7"

text \<open>The first of the eleven slots of an observation that has a code.\<close>

definition first_code :: "nat list \<Rightarrow> nat option" where
  "first_code codes = find (\<lambda>j. codes ! j \<noteq> 0) [0..<11]"

text \<open>The arrays \<open>obs.prn\<close> and \<open>obs.range\<close>; an entry that is not set is \<open>None\<close>.\<close>

fun read_obs :: "rx_ephem_t list \<Rightarrow> obsd_t list \<Rightarrow> nat \<Rightarrow> (int \<times> rat) option list \<Rightarrow> pvt_err + nat \<times> (int \<times> rat) option list" where
  "read_obs eph [] nsat arr = Inr (nsat, arr)"
| "read_obs eph (d # ds) nsat arr =
     (let p = snd (satsys (obs_sat d)) in
      case arr_at eph (p - 1) of
        None \<Rightarrow> Inl Bad_index
      | Some e \<Rightarrow>
          if eph_vflg e \<noteq> 1 then read_obs eph ds nsat arr
          else (case first_code (obs_code d) of
              None \<Rightarrow> read_obs eph ds (nsat + 1) arr
            | Some j \<Rightarrow> if nsat \<ge> MAX_SAT then Inl Bad_index
                else read_obs eph ds (nsat + 1) (arr[nsat := Some (p, obs_P d ! j)])))"

text \<open>Predicted ranges: the matrix of partial derivatives and the observed minus predicted ranges.\<close>

definition predict_row :: "libm \<Rightarrow> rx_ephem_t list \<Rightarrow> gpstime_t \<Rightarrow> vec3 \<Rightarrow> rat \<Rightarrow> (int \<times> rat) option \<Rightarrow> pvt_err + rat list \<times> rat" where
  "predict_row L eph g r dt entry =
     (case entry of
        None \<Rightarrow> Inl Uninitialised
      | Some (p, rng) \<Rightarrow>
          (case arr_at eph (p - 1) of
             None \<Rightarrow> Inl Bad_index
           | Some e \<Rightarrow>
               (case computeRange_rx L e g r dt of
                  None \<Rightarrow> Inl No_end
                | Some (rho_c, dx, dy, dz) \<Rightarrow> Inr ([dx, dy, dz, 1], dsub rng rho_c))))"

fun predict :: "libm \<Rightarrow> rx_ephem_t list \<Rightarrow> gpstime_t \<Rightarrow> vec3 \<Rightarrow> rat \<Rightarrow> (int \<times> rat) option list \<Rightarrow> nat list \<Rightarrow> pvt_err + (rat list \<times> rat) list" where
  "predict L eph g r dt arr [] = Inr []"
| "predict L eph g r dt arr (i # is) =
     (case arr_at arr (int i) of
        None \<Rightarrow> Inl Bad_index
      | Some entry \<Rightarrow>
          (case predict_row L eph g r dt entry of
             Inl err \<Rightarrow> Inl err
           | Inr sr \<Rightarrow> map_sum id (\<lambda>rest. sr # rest) (predict L eph g r dt arr is)))"

text \<open>One iteration: \<open>None\<close> in the result stands for a singular matrix.\<close>

definition pvt_iter :: "libm \<Rightarrow> arith \<Rightarrow> rx_ephem_t list \<Rightarrow> gpstime_t \<Rightarrow> (int \<times> rat) option list \<Rightarrow> nat \<Rightarrow> vec3 \<times> rat \<Rightarrow>
    pvt_err + (rat \<times> rat) \<times> (vec3 \<times> rat) option" where
  "pvt_iter L A eph g arr nsat = (\<lambda>((x, y, z), dt).
     case predict L eph g (x, y, z) dt arr [0..<nsat] of
       Inl err \<Rightarrow> Inl err
     | Inr rows \<Rightarrow>
         let sm = map fst rows; omp = map snd rows;
             (dops, icm) = invCovMat L A sm nsat
         in Inr (dops, map_option (\<lambda>icm.
              let u = position_update A icm sm omp nsat
              in ((a_add A x (u ! 0), a_add A y (u ! 1), a_add A z (u ! 2)), a_add A dt (a_div A (u ! 3) SPEED_OF_LIGHT))) icm))"

fun pvt_iters :: "nat \<Rightarrow> libm \<Rightarrow> arith \<Rightarrow> rx_ephem_t list \<Rightarrow> gpstime_t \<Rightarrow> (int \<times> rat) option list \<Rightarrow> nat \<Rightarrow> rat \<times> rat \<Rightarrow> vec3 \<times> rat \<Rightarrow>
    pvt_err + (rat \<times> rat) \<times> (vec3 \<times> rat) option" where
  "pvt_iters 0 L A eph g arr nsat dops p = Inr (dops, Some p)"
| "pvt_iters (Suc k) L A eph g arr nsat dops p =
     (case pvt_iter L A eph g arr nsat p of
        Inl err \<Rightarrow> Inl err
      | Inr (dops, None) \<Rightarrow> Inr (dops, None)
      | Inr (dops, Some p) \<Rightarrow> pvt_iters k L A eph g arr nsat dops p)"

text \<open>\<open>t0\<close> is the time of the first observation. The log lines are left out.\<close>

definition update_sol_afs :: "libm \<Rightarrow> rx_ephem_t list \<Rightarrow> gtime_t \<Rightarrow> obsd_t list \<Rightarrow> pvt_sol \<Rightarrow> pvt_err + pvt_sol" where
  "update_sol_afs L eph t0 obs s =
     (let s = s\<lparr>sol_stat := SOLQ_NONE, sol_time := t0, pvt_nsat := length obs\<rparr>;
          (week, tow) = time2gpst t0;
          g = \<lparr>gps_week = week, gps_sec = tow\<rparr>
      in case read_obs eph obs 0 (replicate MAX_SAT None) of
           Inl err \<Rightarrow> Inl err
         | Inr (nsat, arr) \<Rightarrow>
             if nsat < 4 then Inr s
             else (case pvt_iters 4 L dbl_arith eph g arr nsat (gdop s, pdop s) ((0, 0, - R_MOON), 0) of
                 Inl err \<Rightarrow> Inl err
               | Inr ((gd, pd), None) \<Rightarrow> Inr (s\<lparr>gdop := gd, pdop := pd, sol_ns := 0\<rparr>)
               | Inr ((gd, pd), Some ((x, y, z), dt)) \<Rightarrow>
                   Inr (s\<lparr>gdop := gd, pdop := pd, sol_type := 0, sol_time := rtk_timeadd t0 (- dt), sol_dtr0 := dt,
                     sol_rr := [x, y, z, 0, 0, 0], sol_age := 0, sol_ratio := 0, sol_stat := SOLQ_SINGLE + MAXSOLQ, sol_ns := nsat\<rparr>)))"

text \<open>Moon-fixed coordinates of a solution, for the log and the status line.\<close>

definition xyz2llh :: "libm \<Rightarrow> vec3 \<Rightarrow> vec3" where
  "xyz2llh L = (\<lambda>(x, y, z).
     let rho2 = dadd (dmul x x) (dmul y y)
     in (m_atan2 L z (m_sqrt L rho2), m_atan2 L y x, dsub (m_sqrt L (dadd rho2 (dmul z z))) R_MOON))"

end
