(* ===== verification/Sdr_Pvt.thy ===== *)
theory Sdr_Pvt
  imports Sdr_Pvt_Afs
begin

text \<open>
  The position and time component of the receiver (\<open>sdr_pvt.c\<close>): the table of observations that the
  channels fill at every epoch, the navigation data they hand on, and the solution of an epoch, which is
  that of \<open>sdr_pvt_afs.c\<close> as soon as one observation has an AFS code. The functions of RTKLIB for the
  other systems (frequency index of a code, message decoders, single point positioning) are arguments.
  Of RTKLIB, satellite numbers and identifiers and the conversion of times are modelled. Logs and RTCM
  output are left out.
\<close>

section \<open>From RTKLIB\<close>

definition satno :: "satsystem \<Rightarrow> int \<Rightarrow> int" where
  "satno sys p =
     (if p \<le> 0 then 0
      else case sys of
        SYS_GPS \<Rightarrow> if p < 1 \<or> 32 < p then 0 else p
      | SYS_GLO \<Rightarrow> if p < 1 \<or> 27 < p then 0 else 32 + p
      | SYS_GAL \<Rightarrow> if p < 1 \<or> 36 < p then 0 else 59 + p
      | SYS_QZS \<Rightarrow> if p < 193 \<or> 202 < p then 0 else 95 + p - 192
      | SYS_CMP \<Rightarrow> if p < 1 \<or> 63 < p then 0 else 105 + p
      | SYS_IRN \<Rightarrow> if p < 1 \<or> 14 < p then 0 else 168 + p
      | SYS_LEO \<Rightarrow> if p < 1 \<or> 12 < p then 0 else 182 + p
      | SYS_SBS \<Rightarrow> if p < 120 \<or> 158 < p then 0 else 194 + p - 119
      | SYS_NONE \<Rightarrow> 0)"

text \<open>\<open>sscanf\<close> with \<open>%d\<close>: white space, a sign, digits.\<close>

definition is_digit :: "char \<Rightarrow> bool" where
  "is_digit c \<longleftrightarrow> 48 \<le> (of_char c :: nat) \<and> (of_char c :: nat) \<le> 57"

definition is_space :: "char \<Rightarrow> bool" where
  "is_space c \<longleftrightarrow> (of_char c :: nat) = 32 \<or> 9 \<le> (of_char c :: nat) \<and> (of_char c :: nat) \<le> 13"

definition digits_value :: "string \<Rightarrow> int" where
  "digits_value ds = foldl (\<lambda>v c. 10 * v + (int (of_char c) - 48)) 0 ds"

definition scan_int :: "string \<Rightarrow> int option" where
  "scan_int s =
     (let s = dropWhile is_space s;
          neg = (s \<noteq> [] \<and> hd s = CHR ''-'');
          s = (if s \<noteq> [] \<and> (hd s = CHR ''-'' \<or> hd s = CHR ''+'') then tl s else s);
          ds = takeWhile is_digit s
      in if ds = [] then None else Some (if neg then - digits_value ds else digits_value ds))"

definition satid2no :: "string \<Rightarrow> int" where
  "satid2no idt =
     (case scan_int idt of
        Some p \<Rightarrow>
          if 1 \<le> p \<and> p \<le> 32 then satno SYS_GPS p
          else if 120 \<le> p \<and> p \<le> 158 then satno SYS_SBS p
          else if 193 \<le> p \<and> p \<le> 202 then satno SYS_QZS p
          else 0
      | None \<Rightarrow>
          (case idt of
             [] \<Rightarrow> 0
           | code # rest \<Rightarrow>
               (case scan_int rest of
                  None \<Rightarrow> 0
                | Some p \<Rightarrow>
                    if code = CHR ''G'' then satno SYS_GPS p
                    else if code = CHR ''R'' then satno SYS_GLO p
                    else if code = CHR ''E'' then satno SYS_GAL p
                    else if code = CHR ''J'' then satno SYS_QZS (p + 192)
                    else if code = CHR ''C'' then satno SYS_CMP p
                    else if code = CHR ''I'' then satno SYS_IRN p
                    else if code = CHR ''L'' then satno SYS_LEO p
                    else if code = CHR ''S'' then satno SYS_SBS (p + 100)
                    else 0)))"

definition gpst2time :: "int \<Rightarrow> rat \<Rightarrow> gtime_t" where
  "gpst2time w sec =
     (let sec = (if sec < -1000000000 \<or> 1000000000 < sec then 0 else sec)
      in \<lparr>gt_time = gpst0_time + (86400 * 7 * w + int_of_dbl sec), gt_sec = dsub sec (of_int (int_of_dbl sec))\<rparr>)"

section \<open>Satellites and signals\<close>

text \<open>The identifier of a channel's satellite (\<open>sdr_code.c\<close>); \<open>%02d\<close> of a number that is not negative.\<close>

definition digit :: "int \<Rightarrow> char" where
  "digit n = char_of (48 + nat n)"

function dec_digits :: "int \<Rightarrow> string" where
  "dec_digits n = (if n < 10 then [digit n] else dec_digits (n div 10) @ [digit (n mod 10)])"
  by pat_completeness auto
termination by (relation "measure nat") auto

declare dec_digits.simps [simp del]

definition fmt_02d :: "int \<Rightarrow> string" where
  "fmt_02d n = (if n < 10 then [CHR ''0'', digit n] else dec_digits n)"

definition afs_sat_id :: "int \<Rightarrow> string" where
  "afs_sat_id p = CHR ''L'' # fmt_02d p"

definition sys_idx :: "int \<Rightarrow> int" where
  "sys_idx sat =
     (case fst (satsys sat) of
        SYS_GPS \<Rightarrow> 0 | SYS_GLO \<Rightarrow> 1 | SYS_GAL \<Rightarrow> 2 | SYS_QZS \<Rightarrow> 3 | SYS_CMP \<Rightarrow> 4 | SYS_IRN \<Rightarrow> 5 | SYS_SBS \<Rightarrow> 6 | _ \<Rightarrow> -1)"

definition CODE_L9D :: nat where
  "CODE_L9D = 80"

definition CODE_L9P :: nat where
  "CODE_L9P = 81"

definition sig_codes :: "(string \<times> nat) list" where
  "sig_codes =
     [(''L1CA'', 1), (''L1S'', 13), (''L1CB'', 9), (''L1CP'', 8), (''L1CD'', 7), (''L2CM'', 16), (''L2CL'', 17),
      (''L5I'', 24), (''L5Q'', 25), (''L5SI'', 57), (''L5SQ'', 58), (''L5SIV'', 57), (''L5SQV'', 58), (''L6D'', 35),
      (''L6E'', 60), (''G1CA'', 1), (''G2CA'', 14), (''G1OCD'', 66), (''G1OCP'', 67), (''G2OCP'', 31), (''G3OCD'', 44),
      (''G3OCP'', 45), (''E1B'', 11), (''E1C'', 1), (''E5AI'', 24), (''E5AQ'', 25), (''E5BI'', 27), (''E5BQ'', 28),
      (''E6B'', 31), (''E6C'', 32), (''B1I'', 40), (''B1CD'', 56), (''B1CP'', 2), (''B2I'', 27), (''B2AD'', 57),
      (''B2AP'', 58), (''B2BI'', 61), (''B3I'', 42), (''I1SD'', 56), (''I1SP'', 2), (''I5S'', 49), (''ISS'', 52),
      (''AFSD'', CODE_L9D), (''AFSP'', CODE_L9P)]"

definition sig2code :: "string \<Rightarrow> nat" where
  "sig2code sig = (case map_of sig_codes sig of None \<Rightarrow> 0 | Some c \<Rightarrow> c)"

section \<open>State\<close>

text \<open>The further fields of a channel that this component reads; the last two are those of its tracking loop.\<close>

record pvt_ch = sdr_ch_t +
  ch_state :: int
  ch_sat :: string
  ch_sig :: string
  ch_T :: rat
  ch_coff :: rat
  ch_adr :: rat
  ch_cn0 :: rat
  trk_sec_sync :: int
  trk_err_phas :: rat

definition SDR_STATE_LOCK :: int where
  "SDR_STATE_LOCK = 3"

definition SDR_CYC :: rat where
  "SDR_CYC = dbl (1 / 1000)"

text \<open>The global variables \<open>sdr_epoch\<close> and \<open>sdr_lag_epoch\<close> and the number of channels of the receiver.\<close>

record pvt_conf =
  sdr_epoch :: rat
  sdr_lag_epoch :: rat
  rcv_nch :: int

definition conf0 :: "int \<Rightarrow> pvt_conf" where
  "conf0 n = \<lparr>sdr_epoch = 1, sdr_lag_epoch = dbl (5 / 100), rcv_nch = n\<rparr>"

text \<open>
  The state, with the ephemeris table of \<open>sdr_pvt_afs.c\<close>; \<open>'n\<close> is the navigation data of the other
  systems. \<open>pvt_count\<close> counts solutions, epochs with observations and messages.
\<close>

record 'n sdr_pvt_t =
  pvt_time :: gtime_t
  pvt_ix :: int
  pvt_nch :: int
  pvt_obs :: "obsd_t list"
  pvt_nav :: 'n
  pvt_sol :: pvt_sol
  pvt_count :: "int \<times> int \<times> int"
  pvt_eph :: "rx_ephem_t list"

text \<open>All zero, but for the navigation data read from a file.\<close>

definition eph0 :: rx_ephem_t where
  "eph0 = \<lparr>eph_vflg = 0, eph_toe = \<lparr>gps_week = 0, gps_sec = 0\<rparr>, eph_toc = \<lparr>gps_week = 0, gps_sec = 0\<rparr>, eph_ecc = 0, eph_sqrta = 0,
     eph_m0 = 0, eph_omg0 = 0, eph_inc0 = 0, eph_aop = 0, eph_af0 = 0, eph_af1 = 0, eph_n = 0, eph_A = 0, eph_sq1e2 = 0, eph_prn = 0\<rparr>"

definition sol0 :: pvt_sol where
  "sol0 = \<lparr>sol_time = \<lparr>gt_time = 0, gt_sec = 0\<rparr>, sol_rr = replicate 6 0, sol_dtr0 = 0, sol_dtr_sys = replicate 5 0, sol_type = 0,
     sol_stat = 0, sol_ns = 0, sol_age = 0, sol_ratio = 0, pvt_nsat = 0, gdop = 0, pdop = 0\<rparr>"

definition sdr_pvt_new :: "'n \<Rightarrow> 'n sdr_pvt_t" where
  "sdr_pvt_new n =
     \<lparr>pvt_time = \<lparr>gt_time = 0, gt_sec = 0\<rparr>, pvt_ix = 0, pvt_nch = 0, pvt_obs = [], pvt_nav = n, pvt_sol = sol0,
      pvt_count = (0, 0, 0), pvt_eph = replicate MAX_SAT eph0\<rparr>"

section \<open>Observations\<close>

text \<open>\<open>(int)floor(x + 0.5)\<close>.\<close>

definition ROUND :: "rat \<Rightarrow> int" where
  "ROUND x = \<lfloor>dadd x (1 / 2)\<rfloor>"

definition init_epoch :: "pvt_conf \<Rightarrow> int \<Rightarrow> pvt_ch \<Rightarrow> 'n sdr_pvt_t \<Rightarrow> 'n sdr_pvt_t" where
  "init_epoch conf ix c s =
     (if week c = 0 then s
      else let t = dmul (of_int (tow c)) (dbl (1 / 1000));
               tw = dadd (dmul (of_int \<lfloor>ddiv t (sdr_epoch conf)\<rfloor>) (sdr_epoch conf)) (sdr_epoch conf);
               i = ix + ROUND (ddiv (dsub (dsub tw t) (dbl (7 / 100))) SDR_CYC)
           in s\<lparr>pvt_time := gpst2time (week c) tw, pvt_ix := (i sdiv 20) * 20\<rparr>)"

text \<open>The slot for a code; -1 if all are taken. \<open>code2idx\<close> is the function of RTKLIB.\<close>

definition data_idx :: "(satsystem \<Rightarrow> nat \<Rightarrow> int) \<Rightarrow> int \<Rightarrow> obsd_t \<Rightarrow> nat \<Rightarrow> pvt_err + int" where
  "data_idx code2idx sat d code =
     (if code \<ge> CODE_L9D then Inr (if code = CODE_L9D then 0 else 1)
      else let i = code2idx (fst (satsys sat)) code
           in case arr_at (obs_code d) i of
                None \<Rightarrow> Inl Bad_index
              | Some c \<Rightarrow>
                  if c = 0 then Inr i
                  else (case find (\<lambda>i. obs_code d ! i = 0) [5..<11] of None \<Rightarrow> Inr (-1) | Some i \<Rightarrow> Inr (int i)))"

definition gen_prng :: "gtime_t \<Rightarrow> pvt_ch \<Rightarrow> rat" where
  "gen_prng time c =
     (let (w, tw) = time2gpst time;
          t = dmul (of_int (tow c)) (dbl (1 / 1000));
          tau = (if week c > 0 then dadd (dsub (dadd (dmul (dmul (of_int (w - week c)) 86400) 7) tw) t) (ch_coff c)
                 else if tow_v c = 2 then
                   let tau = dadd (dadd (dsub tw t) (ch_coff c)) (coff (ch_nav c));
                       tau = dsub tau (dmul (of_int \<lfloor>ddiv tau (dbl (1 / 10))\<rfloor>) (dbl (1 / 10)))
                   in if tau < dbl (5 / 100) then dadd tau (dbl (1 / 10)) else tau
                 else 0)
      in dmul SPEED_OF_LIGHT tau)"

text \<open>\<open>strstr(s, t) != NULL\<close>.\<close>

fun occurs :: "string \<Rightarrow> string \<Rightarrow> bool" where
  "occurs t [] \<longleftrightarrow> t = []"
| "occurs t (c # s) \<longleftrightarrow> take (length t) (c # s) = t \<or> occurs t s"

definition new_obs :: "gtime_t \<Rightarrow> int \<Rightarrow> obsd_t" where
  "new_obs time sat =
     \<lparr>obs_time = time, obs_sat = sat, obs_SNR = replicate 11 0, obs_LLI = replicate 11 0, obs_code = replicate 11 0,
      obs_L = replicate 11 0, obs_P = replicate 11 0\<rparr>"

definition set_obs :: "nat \<Rightarrow> nat \<Rightarrow> rat \<Rightarrow> pvt_ch \<Rightarrow> obsd_t \<Rightarrow> obsd_t" where
  "set_obs j code P c d =
     (let lli = obs_LLI d ! j;
          lli = (if dmul (of_int (lock c)) (ch_T c) \<le> 2 \<or> \<bar>trk_err_phas c\<bar> > dbl (2 / 10) then lli OR 1 else lli);
          lli = (if fsync (ch_nav c) \<le> 0 \<and> trk_sec_sync c \<le> 0 then lli OR 2 else lli)
      in d\<lparr>obs_code := (obs_code d)[j := code], obs_P := (obs_P d)[j := P],
           obs_L := (obs_L d)[j := dadd (- ch_adr c) (if nav_rev (ch_nav c) \<noteq> 0 then 1 / 2 else 0)],
           obs_SNR := (obs_SNR d)[j := int_of_dbl (dadd (ddiv (ch_cn0 c) (dbl (1 / 1000))) (1 / 2)) mod 65536],
           obs_LLI := (obs_LLI d)[j := lli]\<rparr>)"

text \<open>The number of satellites RTKLIB knows, the size of the table.\<close>

definition MAXSAT :: nat where
  "MAXSAT = 233"

definition update_obs :: "(satsystem \<Rightarrow> nat \<Rightarrow> int) \<Rightarrow> gtime_t \<Rightarrow> pvt_ch \<Rightarrow> obsd_t list \<Rightarrow> pvt_err + obsd_t list" where
  "update_obs code2idx time c obs =
     (let code = sig2code (ch_sig c);
          sat = satid2no (ch_sat c)
      in if occurs ''R-'' (ch_sat c) \<or> occurs ''R+'' (ch_sat c) \<or> sat = 0 then Inr obs
         else let i = length (takeWhile (\<lambda>d. obs_sat d \<noteq> sat) obs);
                  obs = (if i \<ge> length obs then obs @ [new_obs time sat] else obs);
                  P = gen_prng time c
              in if i \<ge> MAXSAT then Inl Bad_index
                 else if P > 0 then
                   (case data_idx code2idx sat (obs ! i) code of
                      Inl err \<Rightarrow> Inl err
                    | Inr j \<Rightarrow> Inr (if j \<ge> 0 then obs[i := set_obs (nat j) code P c (obs ! i)] else obs))
                 else Inr obs)"

definition sdr_pvt_udobs :: "(satsystem \<Rightarrow> nat \<Rightarrow> int) \<Rightarrow> pvt_conf \<Rightarrow> int \<Rightarrow> pvt_ch \<Rightarrow> 'n sdr_pvt_t \<Rightarrow> pvt_err + 'n sdr_pvt_t" where
  "sdr_pvt_udobs code2idx conf ix c s =
     (let s = (if pvt_ix s \<le> 0 then init_epoch conf ix c s else s)
      in if ix = pvt_ix s then
           (if ch_state c = SDR_STATE_LOCK \<and> tow c \<ge> 0 \<and> tow_v c > 0 \<and> (fsync (ch_nav c) > 0 \<or> trk_sec_sync c > 0)
            then map_sum id (\<lambda>obs. s\<lparr>pvt_obs := obs, pvt_nch := pvt_nch s + 1\<rparr>) (update_obs code2idx (pvt_time s) c (pvt_obs s))
            else Inr (s\<lparr>pvt_nch := pvt_nch s + 1\<rparr>))
         else Inr s)"

section \<open>Navigation data\<close>

text \<open>
  The message decoders of RTKLIB, on the navigation data of the other systems: the value tells whether a
  complete ephemeris was decoded. The second number is the position in the array of ephemerides. The two
  functions \<open>set_sat\<close> and \<open>set_geph\<close> stand for the assignments to the fields \<open>sat\<close>, \<open>frq\<close> and \<open>tof\<close>.
\<close>

record 'n rtk_decoders =
  decode_lnav :: "u8 list \<Rightarrow> int \<Rightarrow> 'n \<Rightarrow> bool \<times> 'n"
  decode_lnav_ion :: "u8 list \<Rightarrow> 'n \<Rightarrow> 'n"
  decode_glostr :: "u8 list \<Rightarrow> int \<Rightarrow> 'n \<Rightarrow> bool \<times> 'n"
  decode_gal_inav :: "u8 list \<Rightarrow> int \<Rightarrow> 'n \<Rightarrow> bool \<times> 'n"
  decode_gal_fnav :: "u8 list \<Rightarrow> int \<Rightarrow> 'n \<Rightarrow> bool \<times> 'n"
  decode_bds_d1 :: "u8 list \<Rightarrow> int \<Rightarrow> 'n \<Rightarrow> bool \<times> 'n"
  decode_bds_d2 :: "u8 list \<Rightarrow> int \<Rightarrow> 'n \<Rightarrow> bool \<times> 'n"
  decode_irn_nav :: "u8 list \<Rightarrow> int \<Rightarrow> 'n \<Rightarrow> bool \<times> 'n"
  set_sat :: "int \<Rightarrow> int \<Rightarrow> 'n \<Rightarrow> 'n"
  set_geph_tof :: "int \<Rightarrow> gtime_t \<Rightarrow> 'n \<Rightarrow> 'n"
  set_geph_sat :: "int \<Rightarrow> int \<Rightarrow> int \<Rightarrow> 'n \<Rightarrow> 'n"

definition count_nav :: "int \<times> int \<times> int \<Rightarrow> int \<times> int \<times> int" where
  "count_nav = (\<lambda>(a, b, c). (a, b, c + 1))"

text \<open>A decoder for a message type: on success the satellite's number is set and the message counted.\<close>

definition nav_message :: "(u8 list \<Rightarrow> int \<Rightarrow> 'n \<Rightarrow> bool \<times> 'n) \<Rightarrow> ('n \<Rightarrow> 'n) \<Rightarrow> int \<Rightarrow> int \<Rightarrow> pvt_ch \<Rightarrow> 'n sdr_pvt_t \<Rightarrow> 'n sdr_pvt_t" where
  "nav_message dcd mark typ pos c s =
     (if nav_type (ch_nav c) = typ then
        (let (ok, n) = dcd (data (ch_nav c)) pos (pvt_nav s)
         in if ok then s\<lparr>pvt_nav := mark n, pvt_count := count_nav (pvt_count s)\<rparr> else s\<lparr>pvt_nav := n\<rparr>)
      else s)"

definition sdr_pvt_udnav :: "libm \<Rightarrow> 'n rtk_decoders \<Rightarrow> pvt_ch \<Rightarrow> 'n sdr_pvt_t \<Rightarrow> pvt_err + 'n sdr_pvt_t" where
  "sdr_pvt_udnav L R c s =
     (let sat = satid2no (ch_sat c);
          (sys, p) = satsys sat;
          sig = ch_sig c;
          eph = set_sat R (sat - 1) sat
      in if sys = SYS_NONE \<or> sys = SYS_SBS then Inr s
         else if sig = ''L1CA'' \<or> sig = ''L1CB'' then
           (let s = nav_message (decode_lnav R) eph 3 (sat - 1) c s
            in Inr (if nav_type (ch_nav c) = 4 then s\<lparr>pvt_nav := decode_lnav_ion R (data (ch_nav c)) (pvt_nav s)\<rparr> else s))
         else if sig = ''G1CA'' \<or> sig = ''G2CA'' then
           Inr (nav_message (decode_glostr R) (set_geph_sat R (p - 1) sat (prn c)) 3 (p - 1) c
             (s\<lparr>pvt_nav := set_geph_tof R (p - 1) (pvt_time s) (pvt_nav s)\<rparr>))
         else if sig = ''E1B'' \<or> sig = ''E5BI'' then Inr (nav_message (decode_gal_inav R) eph 4 (sat - 1) c s)
         else if sig = ''E5AI'' then
           Inr (nav_message (decode_gal_fnav R) (set_sat R (int MAXSAT + sat - 1) sat) 4 (int MAXSAT + sat - 1) c s)
         else if sig = ''B1I'' \<or> sig = ''B2I'' \<or> sig = ''B3I'' then
           (if 6 \<le> prn c \<and> prn c \<le> 58 then Inr (nav_message (decode_bds_d1 R) eph 5 (sat - 1) c s)
            else Inr (nav_message (decode_bds_d2 R) eph 10 (sat - 1) c s))
         else if sig = ''I5S'' \<or> sig = ''ISS'' then Inr (nav_message (decode_irn_nav R) eph 2 (sat - 1) c s)
         else if sig = ''AFSD'' \<and> nav_type (ch_nav c) = 2 then
           (case decode_afs_frame L (data (ch_nav c)) (prn c) (pvt_eph s) of
              None \<Rightarrow> Inl Bad_index
            | Some (e, ok) \<Rightarrow> Inr (s\<lparr>pvt_eph := e, pvt_count := if ok \<noteq> 0 then count_nav (pvt_count s) else pvt_count s\<rparr>))
         else Inr s)"

section \<open>Solution\<close>

definition corr_sol_time :: "pvt_sol \<Rightarrow> pvt_sol" where
  "corr_sol_time sol =
     (if \<bar>sol_dtr0 sol\<bar> \<ge> dbl (1 / 10 ^ 9) then sol
      else case find (\<lambda>d. \<not> \<bar>d\<bar> < dbl (1 / 10 ^ 9)) (take 4 (sol_dtr_sys sol)) of
             None \<Rightarrow> sol
           | Some d \<Rightarrow> sol\<lparr>sol_dtr0 := d, sol_time := rtk_timeadd (sol_time sol) (- d)\<rparr>)"

text \<open>Single point positioning of RTKLIB: whether it succeeds, and the solution.\<close>

definition update_sol :: "(obsd_t list \<Rightarrow> 'n \<Rightarrow> pvt_sol \<Rightarrow> bool \<times> pvt_sol) \<Rightarrow> 'n sdr_pvt_t \<Rightarrow> 'n sdr_pvt_t" where
  "update_sol pntpos s =
     (let (ok, sol) = pntpos (pvt_obs s) (pvt_nav s) (pvt_sol s);
          s = (if ok then s\<lparr>pvt_sol := corr_sol_time sol, pvt_count := (case pvt_count s of (a, b, c) \<Rightarrow> (a + 1, b, c))\<rparr>
               else s\<lparr>pvt_sol := sol\<lparr>sol_ns := 0\<rparr>\<rparr>)
      in s\<lparr>pvt_sol := (pvt_sol s)\<lparr>pvt_nsat := length (pvt_obs s)\<rparr>\<rparr>)"

text \<open>\<open>fmod\<close>, which is exact.\<close>

definition fmod :: "rat \<Rightarrow> rat \<Rightarrow> rat" where
  "fmod x y = x - y * of_int (int_of_dbl (x / y))"

definition CODE_L5Q :: nat where
  "CODE_L5Q = 25"

definition CODE_L5P :: nat where
  "CODE_L5P = 58"

definition CODE_L3Q :: nat where
  "CODE_L3Q = 45"

definition resolved :: "rat \<Rightarrow> rat \<Rightarrow> rat \<Rightarrow> rat" where
  "resolved sec Pj Pk =
     (let tau1 = ddiv Pj SPEED_OF_LIGHT;
          tau2 = ddiv Pk SPEED_OF_LIGHT;
          tau3 = dadd (dmul (of_int \<lfloor>ddiv tau2 sec\<rfloor>) sec) (fmod tau1 sec);
          tau3 = (if tau3 < dsub tau2 (ddiv sec 2) then dadd tau3 sec
                  else if tau3 > dadd tau2 (ddiv sec 2) then dsub tau3 sec else tau3)
      in dmul SPEED_OF_LIGHT tau3)"

definition res_obs :: "nat \<Rightarrow> rat \<Rightarrow> obsd_t \<Rightarrow> obsd_t" where
  "res_obs code sec d =
     foldl (\<lambda>d j.
       if obs_code d ! j \<noteq> code then d
       else (case find (\<lambda>k. \<not> (obs_code d ! k = 0 \<or> obs_code d ! k = code \<or> obs_code d ! k = CODE_L5Q \<or> obs_code d ! k = CODE_L5P)) [0..<11] of
               None \<Rightarrow> d\<lparr>obs_P := (obs_P d)[j := 0]\<rparr>
             | Some k \<Rightarrow> d\<lparr>obs_P := (obs_P d)[j := resolved sec (obs_P d ! j) (obs_P d ! k)]\<rparr>)) d [0..<11]"

definition res_obs_amb :: "satsystem list \<Rightarrow> nat \<Rightarrow> rat \<Rightarrow> obsd_t list \<Rightarrow> obsd_t list" where
  "res_obs_amb systems code sec obs =
     map (\<lambda>d. if fst (satsys (obs_sat d)) \<in> set systems then res_obs code sec d else d) obs"

definition resolve_obs :: "obsd_t list \<Rightarrow> obsd_t list" where
  "resolve_obs obs =
     res_obs_amb [SYS_SBS] CODE_L5Q (dbl (2 / 1000))
       (res_obs_amb [SYS_GLO] CODE_L3Q (dbl (10 / 1000))
         (res_obs_amb [SYS_QZS] CODE_L5P (dbl (20 / 1000))
           (res_obs_amb [SYS_GPS, SYS_QZS] CODE_L5Q (dbl (20 / 1000)) obs)))"

text \<open>An epoch is due: all channels have handed in their observation, or the time to wait for them is over.\<close>

definition epoch_due :: "pvt_conf \<Rightarrow> int \<Rightarrow> 'n sdr_pvt_t \<Rightarrow> bool" where
  "epoch_due conf ix s \<longleftrightarrow>
     pvt_ix s > 0 \<and> (pvt_nch s \<ge> rcv_nch conf \<or> ix \<ge> pvt_ix s + int_of_dbl (ddiv (sdr_lag_epoch conf) SDR_CYC))"

definition next_epoch :: "pvt_conf \<Rightarrow> 'n sdr_pvt_t \<Rightarrow> 'n sdr_pvt_t" where
  "next_epoch conf s =
     (let s = s\<lparr>pvt_time := rtk_timeadd (pvt_time s) (sdr_epoch conf),
            pvt_ix := pvt_ix s + int_of_dbl (ddiv (sdr_epoch conf) SDR_CYC), pvt_nch := 0, pvt_obs := []\<rparr>
      in if sol_stat (pvt_sol s) \<noteq> 0
         then s\<lparr>pvt_ix := pvt_ix s + int_of_dbl (ddiv (dmul (of_int (ROUND (ddiv (sol_dtr0 (pvt_sol s)) (dbl (2 / 100))))) (dbl (2 / 100))) SDR_CYC)\<rparr>
         else s)"

definition sdr_pvt_udsol :: "libm \<Rightarrow> (obsd_t list \<Rightarrow> 'n \<Rightarrow> pvt_sol \<Rightarrow> bool \<times> pvt_sol) \<Rightarrow> pvt_conf \<Rightarrow> int \<Rightarrow> 'n sdr_pvt_t \<Rightarrow> pvt_err + 'n sdr_pvt_t" where
  "sdr_pvt_udsol L pntpos conf ix s =
     (if \<not> epoch_due conf ix s then Inr s
      else let afs = (\<exists>d \<in> set (pvt_obs s). obs_code d ! 0 = CODE_L9D);
               s = s\<lparr>pvt_obs := resolve_obs (pvt_obs s)\<rparr>;
               s = (if pvt_obs s \<noteq> [] then s\<lparr>pvt_count := (case pvt_count s of (a, b, c) \<Rightarrow> (a, b + 1, c))\<rparr> else s)
           in if afs then map_sum id (\<lambda>sol. next_epoch conf (s\<lparr>pvt_sol := sol\<rparr>))
                (update_sol_afs L (pvt_eph s) (obs_time (pvt_obs s ! 0)) (pvt_obs s) (pvt_sol s))
              else Inr (next_epoch conf (update_sol pntpos s)))"

end
