(* ===== verification/Sdr_Pvt_Afs_Lemmas.thy ===== *)
theory Sdr_Pvt_Afs_Lemmas
  imports Sdr_Pvt_Afs
begin

text \<open>
  The matrix code of the position solution without rounding: elimination keeps a left inverse, so that
  a result of \<open>invMat\<close> is the inverse and the position update solves the least squares problem.
\<close>

section \<open>Rows\<close>

text \<open>A loop from the last column down to the pivot reads the pivot before it changes it.\<close>

lemma foldl_down:
  assumes "n \<le> length v" "i < n"
  shows "foldl (\<lambda>v j. v[j := f j (v ! j) (v ! i)]) v (rev [i..<n]) =
    map (\<lambda>c. if i \<le> c \<and> c < n then f c (v ! c) (v ! i) else v ! c) [0..<length v]"
  using assms
proof (induction n arbitrary: v)
  case (Suc n)
  show ?case
  proof (cases "i = n")
    case True
    then show ?thesis using Suc.prems by (auto intro!: nth_equalityI simp: nth_list_update)
  next
    case False
    let ?v = "v[n := f n (v ! n) (v ! i)]"
    have r: "rev [i..<Suc n] = n # rev [i..<n]" using Suc.prems by simp
    have "foldl (\<lambda>v j. v[j := f j (v ! j) (v ! i)]) v (rev [i..<Suc n]) = foldl (\<lambda>v j. v[j := f j (v ! j) (v ! i)]) ?v (rev [i..<n])"
      unfolding r by simp
    also have "\<dots> = map (\<lambda>c. if i \<le> c \<and> c < n then f c (?v ! c) (?v ! i) else ?v ! c) [0..<length ?v]"
      by (rule Suc.IH) (use Suc.prems False in auto)
    also have "\<dots> = map (\<lambda>c. if i \<le> c \<and> c < Suc n then f c (v ! c) (v ! i) else v ! c) [0..<length v]"
      using Suc.prems False by (auto intro!: nth_equalityI simp: nth_list_update)
    finally show ?thesis .
  qed
qed simp

lemma scale_row_eq:
  assumes "n \<le> length v" "i < n"
  shows "scale_row A i n v = map (\<lambda>c. if i \<le> c \<and> c < n then a_div A (v ! c) (v ! i) else v ! c) [0..<length v]"
  unfolding scale_row_def using foldl_down [OF assms, of "\<lambda>j. a_div A"] .

lemma elim_row_eq:
  assumes "n \<le> length v" "i < n"
  shows "elim_row A i n piv v = map (\<lambda>c. if i \<le> c \<and> c < n then a_sub A (v ! c) (a_mul A (v ! i) (piv ! c)) else v ! c) [0..<length v]"
  unfolding elim_row_def using foldl_down [OF assms, of "\<lambda>j x p. a_sub A x (a_mul A p (piv ! j))"] .

lemma elim_rows_eq:
  assumes "m \<le> length b" "i < m"
  shows "elim_rows A m i b = map (\<lambda>k. if k < m \<and> k \<noteq> i then elim_row A i (m + m) (b ! i) (b ! k) else b ! k) [0..<length b]"
proof -
  have "foldl (\<lambda>b k. if k \<noteq> i then b[k := elim_row A i (m + m) (b ! i) (b ! k)] else b) b [0..<n] =
      map (\<lambda>k. if k < n \<and> k \<noteq> i then elim_row A i (m + m) (b ! i) (b ! k) else b ! k) [0..<length b]" if "n \<le> length b" for n
    using that assms by (induction n) (auto intro!: nth_equalityI simp: nth_list_update less_Suc_eq)
  from this [OF assms(1)] show ?thesis by (simp add: elim_rows_def)
qed

section \<open>Elimination without rounding\<close>

text \<open>The left half is the right half times the matrix, and the columns before \<open>i\<close> are those of the unit matrix.\<close>

definition gj_inv :: "rat list list \<Rightarrow> nat \<Rightarrow> nat \<Rightarrow> rat list list \<Rightarrow> bool" where
  "gj_inv a m i b \<longleftrightarrow> length b = m \<and> (\<forall>r < m. length (b ! r) = m + m) \<and>
     (\<forall>r < m. \<forall>c < m. b ! r ! c = (\<Sum>k<m. b ! r ! (m + k) * a ! k ! c)) \<and>
     (\<forall>r < m. \<forall>c < i. b ! r ! c = (if r = c then 1 else 0))"

text \<open>Row \<open>r\<close> after step \<open>i\<close>.\<close>

lemma gj_step_rows:
  assumes "length b = m" "\<forall>r < m. length (b ! r) = m + m" "i < m" "r < m" "c < m + m" "\<forall>c < i. b ! i ! c = 0"
    and b': "b' = elim_rows exact_arith m i (b[i := scale_row exact_arith i (m + m) (b ! i)])"
  shows "b' ! r ! c = (if r = i then (if i \<le> c then b ! i ! c / b ! i ! i else b ! i ! c)
      else b ! r ! c - b ! r ! i * (b ! i ! c / b ! i ! i))" "length b' = m" "length (b' ! r) = m + m"
proof -
  let ?p = "scale_row exact_arith i (m + m) (b ! i)"
  have p: "?p = map (\<lambda>c. if i \<le> c \<and> c < m + m then b ! i ! c / b ! i ! i else b ! i ! c) [0..<m + m]"
    using scale_row_eq [of "m + m" "b ! i" i exact_arith] assms by (simp add: exact_arith_def)
  have e: "b' = map (\<lambda>k. if k < m \<and> k \<noteq> i then elim_row exact_arith i (m + m) ?p (b ! k) else (b[i := ?p]) ! k) [0..<m]"
    unfolding b' using elim_rows_eq [of m "b[i := ?p]" i exact_arith] assms(1,3) by (auto simp: nth_list_update)
  have q: "elim_row exact_arith i (m + m) ?p (b ! k) = map (\<lambda>c. if i \<le> c \<and> c < m + m then b ! k ! c - b ! k ! i * ?p ! c else b ! k ! c) [0..<m + m]"
    if "k < m" for k using elim_row_eq [of "m + m" "b ! k" i exact_arith ?p] assms that by (simp add: exact_arith_def)
  show "length b' = m" using e by simp
  show "length (b' ! r) = m + m" unfolding e using assms(1,3,4) q p by (simp add: nth_list_update)
  show "b' ! r ! c = (if r = i then (if i \<le> c then b ! i ! c / b ! i ! i else b ! i ! c) else b ! r ! c - b ! r ! i * (b ! i ! c / b ! i ! i))"
    unfolding e using assms(1,3-6) q p by (auto simp: nth_list_update)
qed

lemma gj_step:
  assumes "gj_inv a m i b" "i < m" "b ! i ! i \<noteq> 0"
  shows "gj_inv a m (Suc i) (elim_rows exact_arith m i (b[i := scale_row exact_arith i (m + m) (b ! i)]))"
proof -
  let ?b = "elim_rows exact_arith m i (b[i := scale_row exact_arith i (m + m) (b ! i)])" and ?d = "b ! i ! i"
  have len: "length b = m" "\<forall>r < m. length (b ! r) = m + m" and z: "\<forall>c < i. b ! i ! c = 0"
    and lr: "\<And>r c. r < m \<Longrightarrow> c < m \<Longrightarrow> b ! r ! c = (\<Sum>k<m. b ! r ! (m + k) * a ! k ! c)"
    and u: "\<And>r c. r < m \<Longrightarrow> c < i \<Longrightarrow> b ! r ! c = (if r = c then 1 else 0)" using assms(1,2) by (auto simp: gj_inv_def)
  note st = gj_step_rows [OF len assms(2) _ _ z refl]
  have row_i: "?b ! i ! c = b ! i ! c / ?d" if "c < m + m" for c using st(1) [OF assms(2) that] z that by auto
  have row_r: "?b ! r ! c = b ! r ! c - b ! r ! i * (b ! i ! c / ?d)" if "r < m" "r \<noteq> i" "c < m + m" for r c using st(1) that by simp
  have "?b ! r ! c = (\<Sum>k<m. ?b ! r ! (m + k) * a ! k ! c)" if "r < m" "c < m" for r c
  proof (cases "r = i")
    case True
    have "(\<Sum>k<m. ?b ! i ! (m + k) * a ! k ! c) = (\<Sum>k<m. b ! i ! (m + k) * a ! k ! c) / ?d"
      unfolding sum_divide_distrib by (intro sum.cong) (simp_all add: row_i)
    then show ?thesis using True that row_i [of c] lr [of i c] by simp
  next
    case False
    have "(\<Sum>k<m. ?b ! r ! (m + k) * a ! k ! c) = (\<Sum>k<m. b ! r ! (m + k) * a ! k ! c - b ! r ! i / ?d * (b ! i ! (m + k) * a ! k ! c))"
      by (intro sum.cong) (simp_all add: row_r [OF that(1) False] field_simps)
    also have "\<dots> = b ! r ! c - b ! r ! i / ?d * b ! i ! c"
      using lr [OF that] lr [OF assms(2) that(2)] by (simp add: sum_subtractf sum_distrib_left)
    finally show ?thesis using row_r [OF that(1) False] that by simp
  qed
  moreover have "?b ! r ! c = (if r = c then 1 else 0)" if "r < m" "c < Suc i" for r c
    using that u [of r c] u [OF assms(2), of c] row_i [of c] row_r [of r c] assms(2,3) by (cases "c = i"; cases "r = i") auto
  moreover have "length ?b = m" "\<forall>r < m. length (?b ! r) = m + m" using st(2) [OF assms(2), of 0] st(3) [of _ 0] assms(2) by auto
  ultimately show ?thesis unfolding gj_inv_def by blast
qed

lemma PIVOT_EPS_pos: "0 \<le> PIVOT_EPS"
proof -
  have "(1 :: rat) / 2 ^ 1000 \<le> 1 / 2 ^ 34" by (intro divide_left_mono power_increasing) auto
  then have "(1 :: rat) / 2 ^ 1000 \<le> 1 / 10 ^ 10" by (rule order_trans) simp
  then show ?thesis using dbl_ge_int [of 0 "1 / 10 ^ 10"] by (simp add: PIVOT_EPS_def)
qed

lemma gauss_jordan_inv:
  assumes "gauss_jordan exact_arith m [i..<m] b = Some b'" "gj_inv a m i b" "i \<le> m"
  shows "gj_inv a m m b'"
  using assms
proof (induction "m - i" arbitrary: i b)
  case (Suc n)
  then have i: "i < m" by simp
  then have "\<not> \<bar>b ! i ! i\<bar> \<le> PIVOT_EPS"
    "gauss_jordan exact_arith m [Suc i..<m] (elim_rows exact_arith m i (b[i := scale_row exact_arith i (m + m) (b ! i)])) = Some b'"
    using Suc.prems(1) by (auto simp: upt_conv_Cons split: if_splits)
  then show ?case using Suc.hyps(1) [of "Suc i"] gj_step [OF Suc.prems(2) i] Suc.hyps(2) i PIVOT_EPS_pos by auto
qed simp

text \<open>What \<open>invMat\<close> returns is a left inverse.\<close>

lemma invMat_left_inverse:
  assumes "invMat exact_arith a m = Some x" "r < m" "c < m"
  shows "(\<Sum>k<m. x ! r ! k * a ! k ! c) = (if r = c then 1 else 0)" "length x = m" "length (x ! r) = m"
proof -
  let ?b = "map (\<lambda>i. map (\<lambda>j. a ! i ! j) [0..<m] @ map (\<lambda>j. if i = j then 1 else 0) [0..<m]) [0..<m] :: rat list list"
  obtain b where b: "gauss_jordan exact_arith m [0..<m] ?b = Some b" "x = map (\<lambda>i. map (\<lambda>j. b ! i ! (j + m)) [0..<m]) [0..<m]"
    using assms(1) by (auto simp: invMat_def)
  have "(\<Sum>k<m. (if r = k then 1 else 0) * a ! k ! c) = a ! r ! c" if "r < m" for r c
    using that by (simp add: if_distrib [of "\<lambda>x. x * _"] cong: if_cong)
  then have "gj_inv a m 0 ?b" by (auto simp: gj_inv_def nth_append)
  from gauss_jordan_inv [OF b(1) this] have "gj_inv a m m b" by simp
  then have "(\<Sum>k<m. b ! r ! (m + k) * a ! k ! c) = (if r = c then 1 else 0)" using assms(2,3) unfolding gj_inv_def by auto
  then show "(\<Sum>k<m. x ! r ! k * a ! k ! c) = (if r = c then 1 else 0)" "length x = m" "length (x ! r) = m"
    using assms(2) b(2) by (simp_all add: add.commute)
qed

section \<open>Least squares without rounding\<close>

lemma sum_loop_exact: "sum_loop exact_arith n f = (\<Sum>k<n. f k)"
  by (induction n) (simp_all add: sum_loop_def exact_arith_def)

lemma normal_mat_exact:
  assumes "i < 4" "j < 4" shows "normal_mat exact_arith sm n ! i ! j = (\<Sum>k<n. sm ! k ! i * sm ! k ! j)"
  using assms by (simp add: normal_mat_def MAX_M_def sum_loop_exact) (simp add: exact_arith_def)

lemma position_update_exact:
  assumes "i < 4"
  shows "position_update exact_arith icm sm omp n ! i = (\<Sum>k<n. (\<Sum>l<4. icm ! i ! l * sm ! k ! l) * omp ! k)"
  using assms by (simp add: position_update_def MAX_M_def sum_loop_exact Let_def) (simp add: exact_arith_def)

text \<open>If the residuals are a linear function of the state, the update is its argument.\<close>

lemma position_update_recovers:
  assumes "invMat exact_arith (normal_mat exact_arith sm n) 4 = Some icm" "\<forall>k < n. omp ! k = (\<Sum>l<4. sm ! k ! l * x l)" "i < 4"
  shows "position_update exact_arith icm sm omp n ! i = x i"
proof -
  have "position_update exact_arith icm sm omp n ! i = (\<Sum>k<n. (\<Sum>l<4. icm ! i ! l * sm ! k ! l) * (\<Sum>j<4. sm ! k ! j * x j))"
    using assms(2,3) by (simp add: position_update_exact)
  also have "\<dots> = (\<Sum>k<n. \<Sum>j<4. \<Sum>l<4. icm ! i ! l * (sm ! k ! l * sm ! k ! j) * x j)"
    by (simp add: sum_distrib_left sum_distrib_right mult.assoc)
  also have "\<dots> = (\<Sum>j<4. \<Sum>l<4. \<Sum>k<n. icm ! i ! l * (sm ! k ! l * sm ! k ! j) * x j)"
    by (subst sum.swap) (intro sum.cong refl sum.swap)
  also have "\<dots> = (\<Sum>j<4. (\<Sum>l<4. icm ! i ! l * normal_mat exact_arith sm n ! l ! j) * x j)"
    by (simp add: normal_mat_exact sum_distrib_left sum_distrib_right)
  also have "\<dots> = (\<Sum>j<4. (if i = j then 1 else 0) * x j)"
    using invMat_left_inverse(1) [OF assms(1,3)] by (intro sum.cong) auto
  also have "\<dots> = x i" using assms(3) by (simp add: if_distrib [of "\<lambda>x. x * _"] cong: if_cong)
  finally show ?thesis .
qed

text \<open>A left inverse of a symmetric matrix is its inverse.\<close>

lemma symmetric_inverse:
  fixes M N :: "nat \<Rightarrow> nat \<Rightarrow> rat"
  assumes inv: "\<And>i j. i < m \<Longrightarrow> j < m \<Longrightarrow> (\<Sum>l<m. M i l * N l j) = (if i = j then 1 else 0)"
    and sym: "\<And>i j. i < m \<Longrightarrow> j < m \<Longrightarrow> N i j = N j i" and "i < m" "l < m"
  shows "(\<Sum>j<m. N i j * M j l) = (if i = l then 1 else 0)"
proof -
  have left: "(\<Sum>j<m. (\<Sum>k<m. M a k * N k j) * M b j) = M b a" if "a < m" "b < m" for a b
    using that inv by (simp add: if_distrib [of "\<lambda>x. x * _"] cong: if_cong)
  have t: "M a k * N k j * M b j = M b j * N j k * M a k" if "k < m" "j < m" for a b k j using sym [OF that] by simp
  have swap: "(\<Sum>j<m. (\<Sum>k<m. M a k * N k j) * M b j) = (\<Sum>k<m. (\<Sum>j<m. M b j * N j k) * M a k)" for a b
    unfolding sum_distrib_right by (subst sum.swap) (intro sum.cong refl t, simp_all)
  have M: "M a b = M b a" if "a < m" "b < m" for a b
    by (rule trans [OF left [OF that(2,1), symmetric] trans [OF swap left [OF that]]])
  have "(\<Sum>j<m. N i j * M j l) = (\<Sum>j<m. M l j * N j i)" using assms(3,4) M sym by (intro sum.cong) (auto simp: mult.commute)
  then show ?thesis using inv assms(3,4) by simp
qed

text \<open>The update solves the normal equations.\<close>

lemma normal_equations:
  assumes "invMat exact_arith (normal_mat exact_arith sm n) 4 = Some icm" "i < 4"
  shows "(\<Sum>j<4. (\<Sum>k<n. sm ! k ! i * sm ! k ! j) * position_update exact_arith icm sm omp n ! j) = (\<Sum>k<n. sm ! k ! i * omp ! k)"
proof -
  let ?N = "\<lambda>i j. \<Sum>k<n. sm ! k ! i * sm ! k ! j" and ?M = "\<lambda>i j. icm ! i ! j" and ?b = "\<lambda>l. \<Sum>k<n. sm ! k ! l * omp ! k"
  have inv: "(\<Sum>l<4. ?M i l * ?N l j) = (if i = j then 1 else 0)" if "i < 4" "j < 4" for i j
  proof -
    have "(\<Sum>l<4. ?M i l * ?N l j) = (\<Sum>l<4. ?M i l * normal_mat exact_arith sm n ! l ! j)"
      using that by (intro sum.cong) (simp_all add: normal_mat_exact)
    then show ?thesis using invMat_left_inverse(1) [OF assms(1) that] by simp
  qed
  have sym: "?N i j = ?N j i" for i j by (simp add: mult.commute)
  have u: "position_update exact_arith icm sm omp n ! j = (\<Sum>l<4. ?M j l * ?b l)" if "j < 4" for j
    unfolding position_update_exact [OF that] sum_distrib_left sum_distrib_right by (subst sum.swap) (simp add: mult.assoc)
  have "(\<Sum>j<4. ?N i j * position_update exact_arith icm sm omp n ! j) = (\<Sum>j<4. \<Sum>l<4. ?N i j * ?M j l * ?b l)"
    by (intro sum.cong refl) (simp add: u sum_distrib_left mult.assoc)
  also have "\<dots> = (\<Sum>l<4. (\<Sum>j<4. ?N i j * ?M j l) * ?b l)" by (subst sum.swap) (simp add: sum_distrib_right)
  also have "\<dots> = (\<Sum>l<4. (if i = l then 1 else 0) * ?b l)"
    by (intro sum.cong refl) (simp only: symmetric_inverse [OF inv sym assms(2)] lessThan_iff)
  also have "\<dots> = ?b i" using assms(2) by (simp add: if_distrib [of "\<lambda>x. x * _"] cong: if_cong)
  finally show ?thesis .
qed

text \<open>A solution of the normal equations has the least squares.\<close>

lemma normal_minimal:
  fixes S :: "nat \<Rightarrow> nat \<Rightarrow> rat"
  assumes "\<And>i. i < m \<Longrightarrow> (\<Sum>j<m. (\<Sum>k<n. S k i * S k j) * u j) = (\<Sum>k<n. S k i * b k)"
  shows "(\<Sum>k<n. (b k - (\<Sum>l<m. S k l * u l))\<^sup>2) \<le> (\<Sum>k<n. (b k - (\<Sum>l<m. S k l * v l))\<^sup>2)"
proof -
  define e where "e k = b k - (\<Sum>l<m. S k l * u l)" for k
  define c where "c k = (\<Sum>l<m. S k l * (u l - v l))" for k
  have orth: "(\<Sum>k<n. S k i * e k) = 0" if "i < m" for i
  proof -
    have "(\<Sum>k<n. S k i * (\<Sum>l<m. S k l * u l)) = (\<Sum>l<m. (\<Sum>k<n. S k i * S k l) * u l)"
      unfolding sum_distrib_left sum_distrib_right by (subst sum.swap) (simp add: mult.assoc)
    then show ?thesis using assms [OF that] by (simp add: e_def right_diff_distrib sum_subtractf)
  qed
  have "(\<Sum>k<n. e k * c k) = (\<Sum>l<m. (\<Sum>k<n. S k l * e k) * (u l - v l))"
    unfolding c_def sum_distrib_left sum_distrib_right by (subst sum.swap) (simp add: mult_ac)
  then have z: "(\<Sum>k<n. e k * c k) = 0" using orth by simp
  have "b k - (\<Sum>l<m. S k l * v l) = e k + c k" for k by (simp add: e_def c_def right_diff_distrib sum_subtractf)
  then have "(\<Sum>k<n. (b k - (\<Sum>l<m. S k l * v l))\<^sup>2) = (\<Sum>k<n. (e k)\<^sup>2 + (c k)\<^sup>2 + 2 * (e k * c k))"
    by (simp add: power2_sum mult.assoc)
  also have "\<dots> = (\<Sum>k<n. (e k)\<^sup>2) + (\<Sum>k<n. (c k)\<^sup>2)" using z by (simp add: sum.distrib flip: sum_distrib_left)
  finally show ?thesis unfolding e_def by (simp add: sum_nonneg)
qed

lemma position_update_minimal:
  assumes "invMat exact_arith (normal_mat exact_arith sm n) 4 = Some icm"
  shows "(\<Sum>k<n. (omp ! k - (\<Sum>l<4. sm ! k ! l * position_update exact_arith icm sm omp n ! l))\<^sup>2) \<le> (\<Sum>k<n. (omp ! k - (\<Sum>l<4. sm ! k ! l * v ! l))\<^sup>2)"
  by (rule normal_minimal) (rule normal_equations [OF assms])

end
