(* ===== verification/Sdr_Pvt_Afs_Range.thy ===== *)
theory Sdr_Pvt_Afs_Range
  imports Sdr_Pvt_Afs_Lemmas
begin

text \<open>
  The ranges of simulator and receiver and what the position solution makes of them, in doubles: the
  two programs have the same orbits, the residuals at the true position are 0 when the satellite clocks
  are right, and which observations the solution can take.
\<close>

section \<open>The same range in both programs\<close>

text \<open>The C library returns doubles.\<close>

definition sqrt_dbl :: "libm \<Rightarrow> bool" where
  "sqrt_dbl L \<longleftrightarrow> (\<forall>x. dbl (m_sqrt L x) = m_sqrt L x)"

lemma dbl_0 [simp]: "dbl 0 = 0"
  by (simp add: dbl_def)

lemma truncate_fields:
  "eph_toe (ephem_t.truncate e) = eph_toe e" "eph_toc (ephem_t.truncate e) = eph_toc e" "eph_ecc (ephem_t.truncate e) = eph_ecc e"
  "eph_m0 (ephem_t.truncate e) = eph_m0 e" "eph_omg0 (ephem_t.truncate e) = eph_omg0 e" "eph_inc0 (ephem_t.truncate e) = eph_inc0 e"
  "eph_aop (ephem_t.truncate e) = eph_aop e" "eph_af0 (ephem_t.truncate e) = eph_af0 e" "eph_af1 (ephem_t.truncate e) = eph_af1 e"
  "eph_n (ephem_t.truncate e) = eph_n e" "eph_A (ephem_t.truncate e) = eph_A e" "eph_sq1e2 (ephem_t.truncate e) = eph_sq1e2 e"
  by (simp_all add: ephem_t.truncate_def)

lemma satpos_rx_eq: "satpos_rx L e g = satpos L (ephem_t.truncate e) g"
  unfolding satpos_rx_def satpos_def truncate_fields ..

lemma satpos_clock:
  assumes "satpos L eph g = Some (pos, vel, clk0, clk1)"
  shows "clk0 = dadd (eph_af0 eph) (dmul (week_wrap (dsub (gps_sec g) (gps_sec (eph_toc eph)))) (eph_af1 eph))"
  using assms by (auto simp: satpos_def Let_def split: bind_splits)

text \<open>
  At the position and the time the simulator used, with no clock error of its own, the receiver predicts
  the distance, and the simulator takes from it the satellite's clock error.
\<close>

lemma ranges_related:
  assumes "sqrt_dbl L" "computeRange L (ephem_t.truncate e) g xyz = Some rho" "dbl (gps_sec g) = gps_sec g" "0 \<le> gps_sec g"
  obtains r d pos vel clk0 clk1 where "computeRange_rx L e g xyz 0 = Some (r, d)" "dbl r = r"
    "satpos L (ephem_t.truncate e) g = Some (pos, vel, clk0, clk1)" "rho_range rho = dsub r (dmul SPEED_OF_LIGHT clk0)"
proof -
  obtain pos vel clk0 clk1 where s: "satpos L (ephem_t.truncate e) g = Some (pos, vel, clk0, clk1)"
    using assms(2) by (auto simp: computeRange_def split: bind_splits)
  let ?r = "normVect L (subVect (move_back pos vel (ddiv (normVect L (subVect pos xyz)) SPEED_OF_LIGHT)) xyz)"
  have r: "dbl ?r = ?r" using assms(1) by (simp add: normVect_def sqrt_dbl_def)
  have rho: "rho_range rho = dsub ?r (dmul SPEED_OF_LIGHT clk0)" using assms(2) s by (auto simp: computeRange_def Let_def)
  have g: "\<lparr>gps_week = gps_week g, gps_sec = gps_sec g\<rparr> = g" by simp
  have "\<exists>d. computeRange_rx L e g xyz 0 = Some (?r, d)"
    using assms(3,4) r by (simp add: computeRange_rx_def satpos_rx_eq dsub_def dmul_def dadd_def Let_def g s)
  then obtain d where "computeRange_rx L e g xyz 0 = Some (?r, d)" by blast
  from that [OF this r s rho] show ?thesis .
qed

lemma no_clock_error:
  assumes "satpos L eph g = Some (pos, vel, clk0, clk1)" "eph_af0 eph = 0" "eph_af1 eph = 0"
  shows "clk0 = 0"
  using satpos_clock [OF assms(1)] assms(2,3) by (simp add: dmul_def dadd_def)

section \<open>The true position\<close>

text \<open>The entry of a satellite: its range is the one the simulator computes for the true position.\<close>

definition true_entry :: "libm \<Rightarrow> rx_ephem_t list \<Rightarrow> gpstime_t \<Rightarrow> vec3 \<Rightarrow> (int \<times> rat) option \<Rightarrow> bool" where
  "true_entry L eph g xyz entry \<longleftrightarrow> (\<exists>p rng rho. entry = Some (p, rng) \<and> 1 \<le> p \<and> p \<le> int (length eph) \<and>
     eph_af0 (eph ! nat (p - 1)) = 0 \<and> eph_af1 (eph ! nat (p - 1)) = 0 \<and>
     computeRange L (ephem_t.truncate (eph ! nat (p - 1))) g xyz = Some rho \<and> rng = rho_range rho)"

lemma true_entry_row:
  assumes "sqrt_dbl L" "true_entry L eph g xyz entry" "dbl (gps_sec g) = gps_sec g" "0 \<le> gps_sec g"
  shows "\<exists>v. predict_row L eph g xyz 0 entry = Inr (v, 0)"
proof -
  obtain p rng rho where e: "entry = Some (p, rng)" "1 \<le> p" "p \<le> int (length eph)"
    "eph_af0 (eph ! nat (p - 1)) = 0" "eph_af1 (eph ! nat (p - 1)) = 0"
    "computeRange L (ephem_t.truncate (eph ! nat (p - 1))) g xyz = Some rho" "rng = rho_range rho"
    using assms(2) unfolding true_entry_def by blast
  obtain r d pos vel clk0 clk1 where r: "computeRange_rx L (eph ! nat (p - 1)) g xyz 0 = Some (r, d)" "dbl r = r"
    "satpos L (ephem_t.truncate (eph ! nat (p - 1))) g = Some (pos, vel, clk0, clk1)" "rho_range rho = dsub r (dmul SPEED_OF_LIGHT clk0)"
    using ranges_related [OF assms(1) e(6) assms(3,4)] by blast
  have "clk0 = 0" using no_clock_error [OF r(3)] e(4,5) by (simp add: truncate_fields)
  then have "rng = r" using e(7) r(2,4) by (simp add: dsub_def dmul_def)
  then show ?thesis using e(1-3) r(1) by (cases d) (auto simp: predict_row_def arr_at_def dsub_def)
qed

lemma predict_true:
  assumes "sqrt_dbl L" "\<forall>i \<in> set is. i < length arr \<and> true_entry L eph g xyz (arr ! i)" "dbl (gps_sec g) = gps_sec g" "0 \<le> gps_sec g"
  shows "\<exists>rows. predict L eph g xyz 0 arr is = Inr rows \<and> map snd rows = replicate (length is) 0"
  using assms(2)
proof (induction "is")
  case (Cons i "is")
  then obtain v where "predict_row L eph g xyz 0 (arr ! i) = Inr (v, 0)" using true_entry_row [OF assms(1) _ assms(3,4)] by fastforce
  then show ?case using Cons by (auto simp: arr_at_def)
qed simp

lemma sum_loop_zero:
  assumes "\<And>k. k < n \<Longrightarrow> f k = 0" shows "sum_loop dbl_arith n f = 0"
  using assms by (induction n) (simp_all add: sum_loop_def dbl_arith_def dadd_def)

lemma position_update_zero:
  assumes "i < 4" "\<And>k. k < n \<Longrightarrow> omp ! k = 0" shows "position_update dbl_arith icm sm omp n ! i = 0"
proof -
  have "a_mul dbl_arith c 0 = 0" for c by (simp add: dbl_arith_def dmul_def)
  then show ?thesis using assms by (simp add: position_update_def MAX_M_def Let_def sum_loop_zero)
qed

lemma pvt_iter_true:
  assumes "sqrt_dbl L" "\<forall>i < nsat. i < length arr \<and> true_entry L eph g (x, y, z) (arr ! i)" "dbl (gps_sec g) = gps_sec g" "0 \<le> gps_sec g"
    "dbl x = x" "dbl y = y" "dbl z = z"
  shows "\<exists>dops q. pvt_iter L dbl_arith eph g arr nsat ((x, y, z), 0) = Inr (dops, q) \<and> (q = None \<or> q = Some ((x, y, z), 0))"
proof -
  obtain rows where r: "predict L eph g (x, y, z) 0 arr [0..<nsat] = Inr rows" "map snd rows = replicate nsat 0"
    using predict_true [OF assms(1) _ assms(3,4), of "[0..<nsat]" arr eph "(x, y, z)"] assms(2) by auto
  obtain dops icm where c: "invCovMat L dbl_arith (map fst rows) nsat = (dops, icm)" by fastforce
  have u: "position_update dbl_arith m (map fst rows) (map snd rows) nsat ! i = 0" if "i < 4" for m i
    using that by (intro position_update_zero) (simp_all add: r(2))
  then have "map_option (\<lambda>icm. let u = position_update dbl_arith icm (map fst rows) (map snd rows) nsat
      in ((a_add dbl_arith x (u ! 0), a_add dbl_arith y (u ! 1), a_add dbl_arith z (u ! 2)), a_add dbl_arith 0 (a_div dbl_arith (u ! 3) SPEED_OF_LIGHT))) icm \<in>
      {None, Some ((x, y, z), 0)}"
    using assms(5-7) by (cases icm) (simp_all add: Let_def dbl_arith_def dadd_def ddiv_def)
  then show ?thesis unfolding pvt_iter_def using r(1) c by (auto simp: Let_def)
qed

lemma pvt_iters_true:
  assumes "sqrt_dbl L" "\<forall>i < nsat. i < length arr \<and> true_entry L eph g (x, y, z) (arr ! i)" "dbl (gps_sec g) = gps_sec g" "0 \<le> gps_sec g"
    "dbl x = x" "dbl y = y" "dbl z = z"
  shows "\<exists>dops q. pvt_iters k L dbl_arith eph g arr nsat d0 ((x, y, z), 0) = Inr (dops, q) \<and> (q = None \<or> q = Some ((x, y, z), 0))"
proof (induction k arbitrary: d0)
  case (Suc k)
  then show ?case using pvt_iter_true [OF assms] by fastforce
qed simp

end
