(* ===== verification/Afs_Sim_Frame.thy ===== *)
theory Afs_Sim_Frame
  imports Afs_Nav Afs_Sim_Code Afs_Sim_Orbit
begin

text \<open>
  How \<open>main\<close> of the simulator (\<open>afs_sim.c\<close>) makes the data of its channels: the ephemeris as bit fields
  (\<open>eph2sbf\<close>), the test pattern in subframes 3 and 4, week and interval in subframe 2, CRC, LDPC and
  interleaver, the time of interval in subframe 1, and the update of the time of interval while the
  signal is generated. The arrays \<open>syms\<close> and \<open>AFS_SB234\<close> of \<open>main\<close> are not initialised and are
  arguments; so is the frame of a channel. Logging is left out.
\<close>

section \<open>Ephemeris\<close>

text \<open>The fields that go into the message. A conversion to an integer type cuts; C leaves it undefined outside the type.\<close>

definition u32_of_dbl :: "rat \<Rightarrow> u32" where
  "u32_of_dbl x = word_of_int (int_of_dbl x)"

definition eph2sbf :: "ephem_t \<Rightarrow> u8 list \<Rightarrow> nat \<Rightarrow> u8 list" where
  "eph2sbf eph buf off =
     (let toc = u32_of_dbl (ddiv (gps_sec (eph_toc eph)) 16);
          ecc = u32_of_dbl (ddiv (eph_ecc eph) POW2_M32);
          sqrta = u32_of_dbl (ddiv (eph_sqrta eph) POW2_M19);
          inc0 = u32_of_dbl (ddiv (ddiv (eph_inc0 eph) POW2_M31) PI);
          omg0 = u32_of_dbl (ddiv (ddiv (eph_omg0 eph) POW2_M31) PI);
          aop = u32_of_dbl (ddiv (ddiv (eph_aop eph) POW2_M31) PI);
          m0 = u32_of_dbl (ddiv (ddiv (eph_m0 eph) POW2_M31) PI);
          toe = u32_of_dbl (ddiv (gps_sec (eph_toe eph)) 16);
          af0 = u32_of_dbl (ddiv (eph_af0 eph) POW2_M31);
          af1 = u32_of_dbl (ddiv (eph_af1 eph) POW2_M43);
          buf = memcpy_at buf off (sdr_unpack_data toe 16);
          buf = memcpy_at buf (off + 16) (sdr_unpack_data ecc 32);
          buf = memcpy_at buf (off + 48) (sdr_unpack_data sqrta 32);
          buf = memcpy_at buf (off + 80) (sdr_unpack_data inc0 32);
          buf = memcpy_at buf (off + 112) (sdr_unpack_data omg0 32);
          buf = memcpy_at buf (off + 144) (sdr_unpack_data aop 32);
          buf = memcpy_at buf (off + 176) (sdr_unpack_data m0 32);
          buf = memcpy_at buf (off + 208) (sdr_unpack_data toc 16);
          buf = memcpy_at buf (off + 224) (sdr_unpack_data af0 22);
          buf = memcpy_at buf (off + 246) (sdr_unpack_data af1 16)
      in buf)"

section \<open>Subframes\<close>

text \<open>\<open>for (i = 0; i < n; i++) syms[i] = i % 2;\<close>\<close>

definition test_pattern :: "u8 list \<Rightarrow> nat \<Rightarrow> u8 list" where
  "test_pattern buf n = fill buf 0 n (\<lambda>i. of_nat (i mod 2))"

definition sim_sync :: "u8 list" where
  "sim_sync = [0xCC, 0x63, 0xF7, 0x45, 0x36, 0xF4, 0x9E, 0x04, 0xA0]"

text \<open>Subframe 1 for frame identifier 0; \<open>AFS_SB1\<close> is written as a whole.\<close>

definition sim_sb1 :: "int \<Rightarrow> u8 list" where
  "sim_sb1 toi = generate_BCH_AFS_SF1 0 (word_of_int (toi + 1))"

definition sim_frame_start :: "afstime_t \<Rightarrow> u8 list \<Rightarrow> u8 list" where
  "sim_frame_start afst frame =
     (let frame = memcpy_at frame 0 (sdr_unpack_bits sim_sync 68)
      in memcpy_at frame 68 (sim_sb1 (afs_toi afst)))"

text \<open>Subframes 3 and 4, the same for all satellites: the coder reads 870 symbols.\<close>

definition sim_sb34 :: "u8 list \<Rightarrow> u8 list \<Rightarrow> nav_state \<Rightarrow> mod2err + nav_state \<times> u8 list \<times> u8 list" where
  "sim_sb34 buf sb234 s =
     (let buf = append_CRC24 (test_pattern buf 846) 870 in
      res_bind (encode_LDPC_AFS_SF3 buf s) (\<lambda>(s1, c3).
      let sb234 = memcpy_at sb234 2400 c3 in
      res_bind (encode_LDPC_AFS_SF3 buf s1) (\<lambda>(s2, c4).
      Inr (s2, buf, memcpy_at sb234 4140 c4))))"

text \<open>Week and interval, 13 and 9 bits, as one number.\<close>

definition wn_itow :: "afstime_t \<Rightarrow> u32" where
  "wn_itow afst = push_bit 9 (word_of_int (afs_wn afst)) OR (word_of_int (afs_itow afst) AND 0x1ff)"

definition sim_sb2_data :: "afstime_t \<Rightarrow> ephem_t \<Rightarrow> u8 list \<Rightarrow> u8 list" where
  "sim_sb2_data afst eph buf =
     (let buf = test_pattern buf 1176;
          buf = memcpy_at buf 0 (sdr_unpack_data (wn_itow afst) 22)
      in eph2sbf eph buf 22)"

text \<open>Subframe 2 of a satellite and its frame: the coder reads 1200 symbols.\<close>

definition sim_satellite :: "afstime_t \<Rightarrow> ephem_t \<Rightarrow> u8 list \<Rightarrow> u8 list \<Rightarrow> u8 list \<Rightarrow> nav_state \<Rightarrow>
    mod2err + nav_state \<times> u8 list \<times> u8 list \<times> u8 list" where
  "sim_satellite afst eph buf sb234 frame s =
     (let buf = append_CRC24 (sim_sb2_data afst eph buf) 1200 in
      res_bind (encode_LDPC_AFS_SF2 (take 1200 buf) s) (\<lambda>(s1, c2).
      let sb234 = memcpy_at sb234 0 c2;
          buf = interleave_AFS_SF234 sb234
      in Inr (s1, buf, sb234, memcpy_at frame 120 buf)))"

text \<open>The loop over the visible satellites.\<close>

fun sim_satellites :: "afstime_t \<Rightarrow> ephem_t list \<Rightarrow> u8 list list \<Rightarrow> u8 list \<Rightarrow> u8 list \<Rightarrow> nav_state \<Rightarrow>
    mod2err + nav_state \<times> u8 list list" where
  "sim_satellites afst (eph # ephs) (frame # frames) buf sb234 s =
     res_bind (sim_satellite afst eph buf sb234 frame s) (\<lambda>(s1, buf, sb234, frame).
     res_bind (sim_satellites afst ephs frames buf sb234 s1) (\<lambda>(s2, frames).
     Inr (s2, frame # frames)))"
| "sim_satellites afst ephs frames buf sb234 s = Inr (s, [])"

definition sim_frames :: "afstime_t \<Rightarrow> ephem_t list \<Rightarrow> u8 list list \<Rightarrow> u8 list \<Rightarrow> u8 list \<Rightarrow> nav_state \<Rightarrow>
    mod2err + nav_state \<times> u8 list list" where
  "sim_frames afst ephs frames buf sb234 s =
     (let frames = map (sim_frame_start afst) frames in
      res_bind (sim_sb34 buf sb234 s) (\<lambda>(s1, buf, sb234).
      sim_satellites afst ephs frames buf sb234 s1))"

section \<open>While the signal is generated\<close>

text \<open>One round of the main loop after the samples: \<open>igrx\<close>, the update of subframe 1 and of the receiver time.\<close>

definition igrx_of :: "rat \<Rightarrow> int" where
  "igrx_of grx_sec = int_of_dbl (dadd (dmul grx_sec 10) (dbl (1 / 2)))"

definition sim_epoch :: "rat \<times> afstime_t \<times> u8 list list \<Rightarrow> rat \<times> afstime_t \<times> u8 list list" where
  "sim_epoch = (\<lambda>(grx_sec, afst, frames).
     let (afst, frames) =
       (if igrx_of grx_sec smod 120 = 110
        then let afst = afst\<lparr>afs_toi := afs_toi afst + 1\<rparr>
             in (afst, map (\<lambda>frame. memcpy_at frame 68 (sim_sb1 (afs_toi afst))) frames)
        else (afst, frames))
     in (dadd grx_sec (dbl (1 / 10)), afst, frames))"

end
