(* ===== verification/Afs_Sim_Frame_Lemmas.thy ===== *)
theory Afs_Sim_Frame_Lemmas
  imports Afs_Sim_Frame Lnis_Codec_Lemmas
begin

text \<open>
  The frames of the simulator are frames of the code: what the arrays of \<open>main\<close> held before does not
  matter, and the data of subframe 2 are week, interval, ephemeris and the rest of the test pattern.
\<close>

section \<open>The CRC of a buffer with anything behind the data\<close>

lemma foldl_or_at_byte:
  assumes "\<And>i. i \<in> set is \<Longrightarrow> i div 8 = b \<Longrightarrow> f i = g i" "x ! b = y ! b" "length x = length y"
  shows "foldl (or_at f) x is ! b = foldl (or_at g) y is ! b"
  using assms
proof (induction "is" arbitrary: x y)
  case (Cons i "is")
  show ?case unfolding foldl_Cons
  proof (rule Cons.IH)
    show "or_at f x i ! b = or_at g y i ! b" 
      using Cons.prems by (cases "i div 8 = b"; cases "b < length y") (auto simp: or_at_def list_update_beyond)
  qed (use Cons.prems in auto)
qed simp

lemma pack_prefix:
  assumes "8 * b + 8 \<le> nz + m" "\<And>i. i < m \<Longrightarrow> xs ! i = ys ! i"
  shows "sdr_pack_bits xs n nz ! b = sdr_pack_bits ys n nz ! b"
  unfolding sdr_pack_bits_def
proof (rule foldl_or_at_byte)
  fix i assume "i \<in> set [nz..<nz + n]" "i div 8 = b"
  then have "i - nz < m" using assms(1) by auto
  then show "xs ! (i - nz) = ys ! (i - nz)" by (rule assms(2))
qed simp_all

lemma append_CRC24_any:
  assumes "bitarr (take (len - 24) xs)" "len \<le> length xs" "24 \<le> len"
  shows "append_CRC24 xs len = take (len - 24) xs @ unbools (bits24 (crc_bits 0 (bools (take (len - 24) xs)))) @ drop len xs"
proof -
  let ?N = "(len - 24 + 7) div 8 * 8" and ?ys = "take (len - 24) xs @ replicate (length xs - (len - 24)) 0"
  have "sdr_pack_bits xs len (?N + 24 - len) ! b = sdr_pack_bits ?ys len (?N + 24 - len) ! b" if "b < ?N div 8" for b
  proof (rule pack_prefix [of _ _ "len - 24"])
    have "len - 24 \<le> ?N" by presburger
    then show "8 * b + 8 \<le> ?N + 24 - len + (len - 24)" using that assms(3) by auto
  qed (use assms(2) in \<open>simp add: nth_append\<close>)
  then have crc: "rtk_crc24q (sdr_pack_bits xs len (?N + 24 - len)) (?N div 8) = rtk_crc24q (sdr_pack_bits ?ys len (?N + 24 - len)) (?N div 8)"
    unfolding rtk_crc24q_def by (intro foldl_cong) auto
  have ys: "bitarr ?ys" "len \<le> length ?ys" "take (len - 24) ?ys = take (len - 24) xs" using assms by simp_all
  have "memcpy_at ?ys (len - 24) (sdr_unpack_data (rtk_crc24q (sdr_pack_bits ?ys len (?N + 24 - len)) (?N div 8)) 24) =
    take (len - 24) xs @ unbools (bits24 (crc_bits 0 (bools (take (len - 24) xs)))) @ drop len ?ys"
    using append_CRC24_eq [OF ys(1,2) assms(3)] unfolding append_CRC24_def Let_def ys(3) .
  then have "sdr_unpack_data (rtk_crc24q (sdr_pack_bits ?ys len (?N + 24 - len)) (?N div 8)) 24 = unbools (bits24 (crc_bits 0 (bools (take (len - 24) xs))))"
    unfolding memcpy_at_def ys(3) using assms by (simp add: append_eq_append_conv)
  then show ?thesis unfolding append_CRC24_def Let_def crc using assms by (simp add: memcpy_at_def)
qed

lemma append_CRC24_with_crc:
  assumes "bitarr d" "length d = n" "n + 24 \<le> length buf"
  shows "append_CRC24 (d @ drop n buf) (n + 24) = with_crc d @ drop (n + 24) buf"
  using append_CRC24_any [of "n + 24" "d @ drop n buf"] assms by (simp add: with_crc_def add.commute)

section \<open>Subframe 2\<close>

lemma memcpy_at_next:
  assumes "off + length xs + length ys \<le> length buf" "off' = off + length xs"
  shows "memcpy_at (memcpy_at buf off xs) off' ys = memcpy_at buf off (xs @ ys)"
  using assms by (simp add: memcpy_at_def add.commute add.left_commute)

text \<open>The fields of the ephemeris in the order of the message.\<close>

definition eph_bits :: "ephem_t \<Rightarrow> u8 list" where
  "eph_bits eph =
     sdr_unpack_data (u32_of_dbl (ddiv (gps_sec (eph_toe eph)) 16)) 16 @
     sdr_unpack_data (u32_of_dbl (ddiv (eph_ecc eph) POW2_M32)) 32 @
     sdr_unpack_data (u32_of_dbl (ddiv (eph_sqrta eph) POW2_M19)) 32 @
     sdr_unpack_data (u32_of_dbl (ddiv (ddiv (eph_inc0 eph) POW2_M31) PI)) 32 @
     sdr_unpack_data (u32_of_dbl (ddiv (ddiv (eph_omg0 eph) POW2_M31) PI)) 32 @
     sdr_unpack_data (u32_of_dbl (ddiv (ddiv (eph_aop eph) POW2_M31) PI)) 32 @
     sdr_unpack_data (u32_of_dbl (ddiv (ddiv (eph_m0 eph) POW2_M31) PI)) 32 @
     sdr_unpack_data (u32_of_dbl (ddiv (gps_sec (eph_toc eph)) 16)) 16 @
     sdr_unpack_data (u32_of_dbl (ddiv (eph_af0 eph) POW2_M31)) 22 @
     sdr_unpack_data (u32_of_dbl (ddiv (eph_af1 eph) POW2_M43)) 16"

lemma length_eph_bits [simp, afs_length]: "length (eph_bits eph) = 262"
  by (simp add: eph_bits_def)

lemma bitarr_eph_bits [simp, afs_bits]: "bitarr (eph_bits eph)"
  by (simp add: eph_bits_def)

lemma eph2sbf_eq: "off + 262 \<le> length buf \<Longrightarrow> eph2sbf eph buf off = memcpy_at buf off (eph_bits eph)"
  unfolding eph2sbf_def Let_def eph_bits_def by (simp add: memcpy_at_next)

definition pattern_bits :: "nat \<Rightarrow> nat \<Rightarrow> u8 list" where
  "pattern_bits a b = map (\<lambda>i. of_nat (i mod 2)) [a..<b]"

lemma length_pattern_bits [simp, afs_length]: "length (pattern_bits a b) = b - a"
  by (simp add: pattern_bits_def)

lemma bitarr_pattern_bits [simp, afs_bits]: "bitarr (pattern_bits a b)"
proof -
  have "(of_nat (i mod 2) :: u8) = 0 \<or> (of_nat (i mod 2) :: u8) = 1" for i by (cases "even i") (auto simp: odd_iff_mod_2_eq_one)
  then show ?thesis by (simp add: pattern_bits_def bitarr_def list_all_iff)
qed

lemma test_pattern_eq:
  assumes "n \<le> length buf" shows "test_pattern buf n = pattern_bits 0 n @ drop n buf"
  using assms by (intro nth_equalityI) (auto simp: test_pattern_def nth_fill pattern_bits_def nth_append)

definition sb2_bits :: "afstime_t \<Rightarrow> ephem_t \<Rightarrow> u8 list" where
  "sb2_bits afst eph = sdr_unpack_data (wn_itow afst) 22 @ eph_bits eph @ pattern_bits 284 1176"

lemma sb2_bits_ok [simp]: "length (sb2_bits afst eph) = 1176" "bitarr (sb2_bits afst eph)"
  by (simp_all add: sb2_bits_def)

lemma sim_sb2_data_eq:
  assumes "1176 \<le> length buf" shows "sim_sb2_data afst eph buf = sb2_bits afst eph @ drop 1176 buf"
proof -
  have d: "drop 284 (pattern_bits 0 1176) = pattern_bits 284 1176" by (simp add: pattern_bits_def drop_map)
  have "sim_sb2_data afst eph buf = memcpy_at (pattern_bits 0 1176 @ drop 1176 buf) 0 (sdr_unpack_data (wn_itow afst) 22 @ eph_bits eph)"
    using assms by (simp add: sim_sb2_data_def Let_def test_pattern_eq eph2sbf_eq memcpy_at_next)
  then show ?thesis by (simp add: memcpy_at_def sb2_bits_def d)
qed

section \<open>Frames\<close>

definition pattern34 :: "u8 list" where
  "pattern34 = pattern_bits 0 846"

lemma pattern34_ok [simp]: "length pattern34 = 846" "bitarr pattern34"
  by (simp_all add: pattern34_def)

lemma sim_sb34_ok:
  assumes "nav_ok s" "length buf = 5880" "length sb234 = 5880"
  obtains s' buf' where "sim_sb34 buf sb234 s = Inr (s', buf', take 2400 sb234 @ sb34_symbols pattern34 @ sb34_symbols pattern34)"
    "nav_ok s'" "length buf' = 5880"
proof -
  let ?b = "append_CRC24 (test_pattern buf 846) 870"
  have b: "?b = with_crc pattern34 @ drop 870 buf"
    using append_CRC24_with_crc [of "pattern34" 846 buf] assms(2) by (simp add: test_pattern_eq pattern34_def)
  then have len: "length ?b = 5880" using assms(2) by simp
  have fill: "SF3_fill ?b = with_crc pattern34 @ replicate 10 0" using len by (simp add: SF3_fill_def b)
  have enc: "\<exists>s'. encode_LDPC_AFS_SF3 ?b s = Inr (s', sb34_symbols pattern34) \<and> nav_ok s'" if "nav_ok s" for s
    using encode_SF3_ok [OF that, of ?b] len fill unfolding sb34_symbols_def sb34_codeword_def by auto
  obtain s1 where 1: "encode_LDPC_AFS_SF3 ?b s = Inr (s1, sb34_symbols pattern34)" "nav_ok s1" using enc [OF assms(1)] by blast
  obtain s2 where 2: "encode_LDPC_AFS_SF3 ?b s1 = Inr (s2, sb34_symbols pattern34)" "nav_ok s2" using enc [OF 1(2)] by blast
  have "memcpy_at (memcpy_at sb234 2400 (sb34_symbols pattern34)) 4140 (sb34_symbols pattern34) =
    take 2400 sb234 @ sb34_symbols pattern34 @ sb34_symbols pattern34"
    using assms(3) by (simp add: memcpy_at_next) (simp add: memcpy_at_def)
  then have "sim_sb34 buf sb234 s = Inr (s2, ?b, take 2400 sb234 @ sb34_symbols pattern34 @ sb34_symbols pattern34)"
    by (simp add: sim_sb34_def Let_def 1 2)
  then show ?thesis using that 2(2) len by blast
qed

lemma sim_satellite_ok:
  assumes "nav_ok s" "length buf = 5880" "length sb234 = 5880" "drop 2400 sb234 = sb34_symbols pattern34 @ sb34_symbols pattern34"
    "length frame = 6000"
  obtains s' where "sim_satellite afst eph buf sb234 frame s =
      Inr (s', interleave_AFS_SF234 (sb2_symbols (sb2_bits afst eph) @ sb34_symbols pattern34 @ sb34_symbols pattern34),
        sb2_symbols (sb2_bits afst eph) @ sb34_symbols pattern34 @ sb34_symbols pattern34,
        take 120 frame @ interleave_AFS_SF234 (sb2_symbols (sb2_bits afst eph) @ sb34_symbols pattern34 @ sb34_symbols pattern34))"
    "nav_ok s'"
proof -
  let ?b = "append_CRC24 (sim_sb2_data afst eph buf) 1200"
  have b: "?b = with_crc (sb2_bits afst eph) @ drop 1200 buf"
    using append_CRC24_with_crc [of "sb2_bits afst eph" 1176 buf] assms(2) by (simp add: sim_sb2_data_eq)
  obtain s1 where 1: "encode_LDPC_AFS_SF2 (with_crc (sb2_bits afst eph)) s = Inr (s1, sb2_symbols (sb2_bits afst eph))" "nav_ok s1"
    using encode_SF2_ok [OF assms(1), of "with_crc (sb2_bits afst eph)"] unfolding sb2_symbols_def by auto
  show ?thesis
    by (rule that [OF _ 1(2)]) (use assms(4,5) in \<open>simp add: sim_satellite_def Let_def b 1(1) memcpy_at_def\<close>)
qed

definition sim_coded :: "afstime_t \<Rightarrow> ephem_t \<Rightarrow> u8 list" where
  "sim_coded afst eph = interleave_AFS_SF234 (sb2_symbols (sb2_bits afst eph) @ sb34_symbols pattern34 @ sb34_symbols pattern34)"

lemma sim_satellites_ok:
  assumes "nav_ok s" "length buf = 5880" "length sb234 = 5880" "drop 2400 sb234 = sb34_symbols pattern34 @ sb34_symbols pattern34"
    "length ephs = length frames" "\<forall>frame \<in> set frames. length frame = 6000"
  shows "\<exists>s'. sim_satellites afst ephs frames buf sb234 s = Inr (s', map2 (\<lambda>eph frame. take 120 frame @ sim_coded afst eph) ephs frames) \<and> nav_ok s'"
  using assms(5,1-4,6)
proof (induction ephs frames arbitrary: s buf sb234 rule: list_induct2)
  case (Cons eph ephs frame frames)
  obtain s1 where 1: "sim_satellite afst eph buf sb234 frame s = Inr (s1, sim_coded afst eph,
      sb2_symbols (sb2_bits afst eph) @ sb34_symbols pattern34 @ sb34_symbols pattern34, take 120 frame @ sim_coded afst eph)" "nav_ok s1"
    using sim_satellite_ok [OF Cons.prems(1-4), of frame afst eph] Cons.prems(5) unfolding sim_coded_def by auto
  have "length (sim_coded afst eph) = 5880" by (simp add: sim_coded_def)
  with Cons.IH [OF 1(2), of "sim_coded afst eph" "sb2_symbols (sb2_bits afst eph) @ sb34_symbols pattern34 @ sb34_symbols pattern34"]
    1 Cons.prems(5) show ?case by auto
qed simp

lemma sim_sync_eq: "sdr_unpack_bits sim_sync 68 = unpack sync_bytes 68"
  by (simp add: unpack_eq sim_sync_def sync_bytes_def)

lemma length_sim_sb1 [simp, afs_length]: "length (sim_sb1 toi) = 52"
  by (simp add: sim_sb1_def)

lemma take_frame_start:
  assumes "length frame = 6000" shows "take 120 (sim_frame_start afst frame) = unpack sync_bytes 68 @ sim_sb1 (afs_toi afst)"
    "length (sim_frame_start afst frame) = 6000"
proof -
  have "sim_frame_start afst frame = memcpy_at frame 0 (unpack sync_bytes 68 @ sim_sb1 (afs_toi afst))"
    unfolding sim_frame_start_def Let_def sim_sync_eq by (rule memcpy_at_next) (use assms in simp_all)
  then show "take 120 (sim_frame_start afst frame) = unpack sync_bytes 68 @ sim_sb1 (afs_toi afst)" "length (sim_frame_start afst frame) = 6000"
    using assms by (simp_all add: memcpy_at_def)
qed

text \<open>The frame a channel sends: the time of interval of the next frame, and the data of the satellite.\<close>

definition sim_frame_of :: "afstime_t \<Rightarrow> ephem_t \<Rightarrow> u8 list" where
  "sim_frame_of afst eph = unpack sync_bytes 68 @ sim_sb1 (afs_toi afst) @ sim_coded afst eph"

lemma sim_frames_ok:
  assumes "nav_ok s" "length buf = 5880" "length sb234 = 5880" "length ephs = length frames" "\<forall>frame \<in> set frames. length frame = 6000"
  shows "\<exists>s'. sim_frames afst ephs frames buf sb234 s = Inr (s', map (sim_frame_of afst) ephs) \<and> nav_ok s'"
proof -
  obtain s1 buf1 where 1: "sim_sb34 buf sb234 s = Inr (s1, buf1, take 2400 sb234 @ sb34_symbols pattern34 @ sb34_symbols pattern34)"
    "nav_ok s1" "length buf1 = 5880" using sim_sb34_ok [OF assms(1-3)] by blast
  let ?fs = "map (sim_frame_start afst) frames" and ?sb = "take 2400 sb234 @ sb34_symbols pattern34 @ sb34_symbols pattern34"
  have sb: "length ?sb = 5880" "drop 2400 ?sb = sb34_symbols pattern34 @ sb34_symbols pattern34" using assms(3) by simp_all
  have fs: "length ephs = length ?fs" "\<forall>frame \<in> set ?fs. length frame = 6000" using assms(4,5) by (auto simp: take_frame_start)
  obtain s2 where 2: "sim_satellites afst ephs ?fs buf1 ?sb s1 = Inr (s2, map2 (\<lambda>eph frame. take 120 frame @ sim_coded afst eph) ephs ?fs)" "nav_ok s2"
    using sim_satellites_ok [OF 1(2,3) sb fs] by blast
  have "map2 (\<lambda>eph frame. take 120 frame @ sim_coded afst eph) ephs ?fs = map (sim_frame_of afst) ephs"
    using assms(4,5) by (intro nth_equalityI) (auto simp: sim_frame_of_def take_frame_start)
  then show ?thesis using 1(1) 2 by (simp add: sim_frames_def Let_def)
qed

text \<open>While the time of interval is a byte, this is a frame of the code.\<close>

lemma sim_frame_of_eq:
  assumes "-1 \<le> afs_toi afst" "afs_toi afst < 255"
  shows "sim_frame_of afst eph = frame_of (word_of_int (afs_toi afst + 1)) (sb2_bits afst eph) pattern34 pattern34"
proof -
  have "(ucast (word_of_int x :: u8) :: i32) = word_of_int x" if "0 \<le> x" "x < 256" for x
    using that by (simp add: unsigned_of_int take_bit_int_eq_self)
  from this [of "afs_toi afst + 1"] assms
  have "(ucast (word_of_int (afs_toi afst + 1) :: u8) :: i32) = word_of_int (afs_toi afst + 1)" by linarith
  then show ?thesis by (simp add: sim_frame_of_def frame_of_def sim_coded_def sim_sb1_def)
qed

text \<open>Rewriting subframe 1 is making the frame with the new time of interval.\<close>

lemma sim_frame_update:
  "memcpy_at (sim_frame_of afst eph) 68 (sim_sb1 toi) = sim_frame_of (afst\<lparr>afs_toi := toi\<rparr>) eph"
  by (simp add: sim_frame_of_def memcpy_at_def sim_coded_def sb2_bits_def wn_itow_def)

lemma length_sim_frame_of [simp]: "length (sim_frame_of afst eph) = 6000"
  by (simp add: sim_frame_of_def sim_coded_def)

end
