(* ===== verification/Sdr_Pvt_Afs_Eph.thy ===== *)
theory Sdr_Pvt_Afs_Eph
  imports Sdr_Pvt_Afs_Range Afs_Sim_Frame_Lemmas Sdr_Nav_Afs_Tow
begin

text \<open>
  The ephemeris from the simulator to the receiver: every field is divided by its unit and cut to an
  integer, sent as bits, read back and multiplied by the unit. The theory bounds what a field loses.
\<close>

section \<open>Bit fields\<close>

text \<open>Reading a field of a packed message gives the low bits of the word that was written.\<close>

lemma getbitu_slice:
  assumes "bits = pre @ sdr_unpack_data w len @ post" "bitarr bits" "length bits = n" "len \<le> 32"
  shows "getbitu (sdr_pack_bits bits n 0) (length pre) len = take_bit len w"
proof (rule bit_eqI)
  fix k
  have "bit (getbitu (sdr_pack_bits bits n 0) (length pre) len) k \<longleftrightarrow> k < len \<and> bits ! (length pre + len - 1 - k) \<noteq> 0"
    using getbitu_packed [of bits n 0 "length pre" len k] assms by simp
  also have "\<dots> \<longleftrightarrow> k < len \<and> bit w k"
    unfolding assms(1) by (auto simp: nth_append nth_sdr_unpack_data)
  also have "\<dots> \<longleftrightarrow> bit (take_bit len w) k" by (auto simp: bit_take_bit_iff)
  finally show "bit (getbitu (sdr_pack_bits bits n 0) (length pre) len) k \<longleftrightarrow> bit (take_bit len w) k" .
qed

lemma uint_take_bit_of_int:
  assumes "0 \<le> x" "x < 2 ^ n" "n \<le> 32" shows "uint (take_bit n (word_of_int x :: u32)) = x"
proof -
  have "(2 :: int) ^ n \<le> 2 ^ 32" using assms(3) by (intro power_increasing) auto
  then show ?thesis using assms by (simp add: unsigned_take_bit_eq uint_word_of_int_eq take_bit_int_eq_self)
qed

lemma getbits_eq:
  assumes "getbitu buff pos len = take_bit len (word_of_int x)" "- (2 ^ (len - 1)) \<le> x" "x < 2 ^ (len - 1)" "0 < len" "len \<le> 32"
  shows "getbits buff pos len = x"
proof -
  let ?w = "word_of_int x :: u32"
  have big: "(2 :: int) ^ (len - 1) \<le> 2 ^ 31" using assms(5) by (intro power_increasing) auto
  then have s: "sint ?w = x" using assms(2,3) by (simp add: signed_of_int signed_take_bit_int_eq_self)
  have x: "signed_take_bit (len - 1) x = x" using assms(2,3) by (intro signed_take_bit_int_eq_self) auto
  have hi: "bit x k = bit x (len - 1)" if "len - 1 \<le> k" for k
    using that arg_cong [OF x, of "\<lambda>y. bit y k"] by (simp add: bit_signed_take_bit_iff min_def split: if_splits)
  have sign: "bits AND push_bit (len - 1) 1 = 0 \<longleftrightarrow> \<not> bit bits (len - 1)" for bits :: u32
    by (simp only: bit_iff_and_push_bit_not_eq_0 not_not)
  show ?thesis
  proof (cases "len = 32 \<or> \<not> bit x (len - 1)")
    case True
    have "take_bit len ?w = ?w"
    proof (rule bit_word_eqI)
      fix k assume k: "k < LENGTH(32)"
      have "\<not> bit ?w k" if "\<not> k < len" using True that k hi [of k] by (auto simp: bit_word_of_int_iff)
      then show "bit (take_bit len ?w) k \<longleftrightarrow> bit ?w k" by (auto simp: bit_take_bit_iff)
    qed
    then have "getbitu buff pos len = ?w" using assms(1) by simp
    then show ?thesis using True s sign [of ?w] assms(4,5) by (auto simp: getbits_def Let_def bit_word_of_int_iff)
  next
    case False
    have "take_bit len ?w OR push_bit len (NOT 0) = ?w"
    proof (rule bit_word_eqI)
      fix k assume k: "k < LENGTH(32)"
      have "bit ?w k" if "\<not> k < len" using False that k hi [of k] by (auto simp: bit_word_of_int_iff)
      then show "bit (take_bit len ?w OR push_bit len (NOT 0)) k \<longleftrightarrow> bit ?w k"
        using k by (cases "k < len") (auto simp: bit_or_iff bit_take_bit_iff bit_push_bit_iff bit_not_iff bit_mask_iff)
    qed
    moreover have "bit (take_bit len ?w) (len - 1)" using False assms(4,5) by (simp add: bit_take_bit_iff bit_word_of_int_iff)
    ultimately show ?thesis using False assms s sign by (simp add: getbits_def Let_def)
  qed
qed

section \<open>Units\<close>

lemma int_of_dbl_minus: "int_of_dbl (- x) = - int_of_dbl x"
  by (simp add: int_of_dbl_def)

lemma dbl_close_unit:
  assumes "1 / 2 ^ 1000 \<le> x" "x \<le> 2 ^ 33" shows "\<bar>dbl x - x\<bar> \<le> 1 / 2 ^ 20"
proof -
  have "x < 2 ^ 53" by (rule le_less_trans [OF assms(2)]) simp
  from dbl_error [OF assms(1) this] have "\<bar>dbl x - x\<bar> \<le> x / 2 ^ 53" .
  also have "\<dots> \<le> 2 ^ 33 / 2 ^ 53" by (rule divide_right_mono [OF assms(2)]) simp
  also have "\<dots> = 1 / 2 ^ 20" by simp
  finally show ?thesis .
qed

text \<open>An integer near the quotient, times the unit, is near the number.\<close>

lemma unit_error:
  fixes q x y S :: rat
  assumes "\<bar>q - x / S\<bar> \<le> 1 / 2 ^ 12" "0 \<le> q" "\<bar>y - of_int \<lfloor>q\<rfloor> * S\<bar> \<le> S / 2 ^ 12" "0 < S"
  shows "\<bar>y - x\<bar> \<le> 1001 / 1000 * S"
proof -
  have "\<bar>of_int \<lfloor>q\<rfloor> - x / S\<bar> \<le> 1 + 1 / 2 ^ 12" using assms(1) by linarith
  then have "\<bar>of_int \<lfloor>q\<rfloor> - x / S\<bar> * S \<le> (1 + 1 / 2 ^ 12) * S" using assms(4) by (intro mult_right_mono) auto
  moreover have "\<bar>of_int \<lfloor>q\<rfloor> - x / S\<bar> * S = \<bar>of_int \<lfloor>q\<rfloor> * S - x\<bar>"
    using assms(4) abs_mult_pos [of S "of_int \<lfloor>q\<rfloor> - x / S"] by (simp add: left_diff_distrib)
  ultimately have "\<bar>of_int \<lfloor>q\<rfloor> * S - x\<bar> \<le> S + S / 4096" by (simp add: distrib_right)
  moreover have "\<bar>y - of_int \<lfloor>q\<rfloor> * S\<bar> \<le> S / 4096" using assms(3) by simp
  ultimately show ?thesis using assms(4) by linarith
qed

text \<open>A product of a field and its unit.\<close>

lemma field_product:
  assumes "0 \<le> u" "u \<le> 2 ^ 33" "1 / 2 ^ 60 \<le> s" "s \<le> 1"
  shows "\<bar>dmul (of_int u) s - of_int u * s\<bar> \<le> s / 2 ^ 20" "0 \<le> dmul (of_int u) s"
proof -
  have s: "0 < s" by (rule less_le_trans [OF _ assms(3)]) simp
  have "\<bar>dmul (of_int u) s - of_int u * s\<bar> \<le> s / 2 ^ 20 \<and> 0 \<le> dmul (of_int u) s"
  proof (cases "u = 0")
    case False
    then have u: "1 \<le> (of_int u :: rat)" "(of_int u :: rat) \<le> 2 ^ 33"
    proof -
      have "1 \<le> u" using False assms(1) by simp
      then show "1 \<le> (of_int u :: rat)" by simp
      have "(of_int u :: rat) \<le> of_int (2 ^ 33)" using assms(2) by (simp only: of_int_le_iff)
      then show "(of_int u :: rat) \<le> 2 ^ 33" by simp
    qed
    have lo: "s \<le> of_int u * s" using mult_right_mono [OF u(1), of s] s by simp
    have hi: "of_int u * s \<le> 2 ^ 33 * s" using u(2) s by (intro mult_right_mono) auto
    have "(1 :: rat) / 2 ^ 1000 \<le> 1 / 2 ^ 60" by (intro divide_left_mono power_increasing) auto
    then have r: "1 / 2 ^ 1000 \<le> of_int u * s" using assms(3) lo by linarith
    have "of_int u * s < 2 ^ 53" using hi assms(4) by simp
    from dbl_error [OF r this] have e: "\<bar>dmul (of_int u) s - of_int u * s\<bar> \<le> of_int u * s / 2 ^ 53" by (simp add: dmul_def)
    also have "\<dots> \<le> 2 ^ 33 * s / 2 ^ 53" by (rule divide_right_mono [OF hi]) simp
    also have "\<dots> = s / 2 ^ 20" by simp
    finally have *: "\<bar>dmul (of_int u) s - of_int u * s\<bar> \<le> s / 2 ^ 20" .
    moreover have "s / 2 ^ 20 \<le> s" using s by simp
    ultimately show ?thesis using lo by linarith
  qed (use s in \<open>simp add: dmul_def\<close>)
  then show "\<bar>dmul (of_int u) s - of_int u * s\<bar> \<le> s / 2 ^ 20" "0 \<le> dmul (of_int u) s" by simp_all
qed

text \<open>Numbers that are 0 or not astronomically small.\<close>

definition sizable :: "rat \<Rightarrow> bool" where
  "sizable x \<longleftrightarrow> x = 0 \<or> 1 / 2 ^ 900 \<le> \<bar>x\<bar>"

lemma quantise_pos:
  assumes "1 / 2 ^ 60 \<le> s" "s \<le> 1" "sizable x" "0 \<le> x" "x / s \<le> 2 ^ 32"
  shows "\<bar>dmul (of_int (int_of_dbl (ddiv x s))) s - x\<bar> \<le> 1001 / 1000 * s"
    "0 \<le> int_of_dbl (ddiv x s)" "of_int (int_of_dbl (ddiv x s)) \<le> x / s + 1 / 2 ^ 20"
proof -
  have s: "0 < s" by (rule less_le_trans [OF _ assms(1)]) simp
  have t0: "x \<le> x / s" if "0 < x" using that s assms(2) by (simp add: pos_le_divide_eq mult_left_le)
  have q: "\<bar>ddiv x s - x / s\<bar> \<le> 1 / 2 ^ 20 \<and> 0 \<le> ddiv x s"
  proof (cases "x = 0")
    case False
    then have pos: "0 < x" using assms(4) by simp
    have "1 / 2 ^ 900 \<le> x" using assms(3) False pos by (simp add: sizable_def)
    moreover have "(1 :: rat) / 2 ^ 1000 \<le> 1 / 2 ^ 900" by (intro divide_left_mono power_increasing) auto
    ultimately have lo: "1 / 2 ^ 1000 \<le> x / s" using t0 [OF pos] by linarith
    have hi: "x / s \<le> 2 ^ 33" using assms(5) by simp
    have big: "x / s < 2 ^ 53" by (rule le_less_trans [OF hi]) simp
    have "\<bar>ddiv x s - x / s\<bar> \<le> 1 / 2 ^ 20" unfolding ddiv_def by (rule dbl_close_unit [OF lo hi])
    moreover have "0 \<le> ddiv x s" unfolding ddiv_def using dbl_ge_int [of 0 "x / s", OF _ lo big] pos s by simp
    ultimately show ?thesis by simp
  qed (simp add: ddiv_def)
  then have u: "int_of_dbl (ddiv x s) = \<lfloor>ddiv x s\<rfloor>" "0 \<le> \<lfloor>ddiv x s\<rfloor>" by (simp_all add: int_of_dbl_def)
  have le: "of_int \<lfloor>ddiv x s\<rfloor> \<le> x / s + 1 / 2 ^ 20" using q by linarith
  moreover have "x / s \<le> of_int (2 ^ 32)" "(1 :: rat) / 2 ^ 20 \<le> of_int 1" using assms(5) by simp_all
  ultimately have "(of_int \<lfloor>ddiv x s\<rfloor> :: rat) \<le> of_int (2 ^ 32) + of_int 1" by linarith
  then have "\<lfloor>ddiv x s\<rfloor> \<le> 2 ^ 32 + 1" by (simp only: of_int_le_iff flip: of_int_add)
  then have "\<lfloor>ddiv x s\<rfloor> \<le> 2 ^ 33" by simp
  then have y: "\<bar>dmul (of_int \<lfloor>ddiv x s\<rfloor>) s - of_int \<lfloor>ddiv x s\<rfloor> * s\<bar> \<le> s / 2 ^ 20" using field_product(1) [OF u(2) _ assms(1,2)] by blast
  have w: "s / 2 ^ 20 \<le> s / 2 ^ 12" using s by simp
  have "\<bar>ddiv x s - x / s\<bar> \<le> 1 / 2 ^ 12" using q by simp
  from unit_error [OF this _ order_trans [OF y w] s] q
  show "\<bar>dmul (of_int (int_of_dbl (ddiv x s))) s - x\<bar> \<le> 1001 / 1000 * s" unfolding u(1) by blast
  show "0 \<le> int_of_dbl (ddiv x s)" "of_int (int_of_dbl (ddiv x s)) \<le> x / s + 1 / 2 ^ 20" using u le by simp_all
qed

lemma quantise:
  assumes "1 / 2 ^ 60 \<le> s" "s \<le> 1" "sizable x" "\<bar>x\<bar> / s \<le> 2 ^ 32"
  shows "\<bar>dmul (of_int (int_of_dbl (ddiv x s))) s - x\<bar> \<le> 1001 / 1000 * s"
    "\<bar>of_int (int_of_dbl (ddiv x s))\<bar> \<le> \<bar>x\<bar> / s + 1 / 2 ^ 20"
proof -
  have "\<bar>dmul (of_int (int_of_dbl (ddiv x s))) s - x\<bar> \<le> 1001 / 1000 * s \<and>
    \<bar>of_int (int_of_dbl (ddiv x s))\<bar> \<le> \<bar>x\<bar> / s + 1 / 2 ^ 20"
  proof (cases "0 \<le> x")
    case True
    then show ?thesis using quantise_pos [of s x] assms by simp
  next
    case False
    have m: "ddiv x s = - ddiv (- x) s" "dmul (- a) s = - dmul a s" for a
      using dbl_minus [of "- x / s"] dbl_minus [of "a * s"] by (simp_all add: ddiv_def dmul_def)
    have "sizable (- x)" "- x / s \<le> 2 ^ 32" "0 \<le> - x" using assms(3,4) False by (simp_all add: sizable_def)
    note p = quantise_pos [OF assms(1,2) this(1,3,2)]
    then show ?thesis unfolding m(1) int_of_dbl_minus of_int_minus m(2) using False by linarith
  qed
  then show "\<bar>dmul (of_int (int_of_dbl (ddiv x s))) s - x\<bar> \<le> 1001 / 1000 * s"
    "\<bar>of_int (int_of_dbl (ddiv x s))\<bar> \<le> \<bar>x\<bar> / s + 1 / 2 ^ 20" by simp_all
qed

section \<open>Angles\<close>

text \<open>Angles are divided by their unit and by pi; the two programs have pi to 13 and to 16 decimals.\<close>

lemma PI_bounds: "31415926 / 10 ^ 7 \<le> PI" "PI \<le> 31415927 / 10 ^ 7" "31415926 / 10 ^ 7 \<le> RTK_PI" "RTK_PI \<le> 31415927 / 10 ^ 7"
    "\<bar>RTK_PI - PI\<bar> \<le> 1 / 2 ^ 46"
proof -
  have "(1 :: rat) / 2 ^ 1000 \<le> 1 / 1" by (intro divide_left_mono) auto
  then have lo: "1 / 2 ^ 1000 \<le> (31415926535898 / 10 ^ 13 :: rat)" "1 / 2 ^ 1000 \<le> (31415926535897932 / 10 ^ 16 :: rat)"
    by (simp_all add: order_trans [of _ 1])
  have a: "\<bar>PI - 31415926535898 / 10 ^ 13\<bar> \<le> 31415926535898 / 10 ^ 13 / 2 ^ 53"
    unfolding PI_def by (rule dbl_error [OF lo(1)]) simp
  have b: "\<bar>RTK_PI - 31415926535897932 / 10 ^ 16\<bar> \<le> 31415926535897932 / 10 ^ 16 / 2 ^ 53"
    unfolding RTK_PI_def by (rule dbl_error [OF lo(2)]) simp
  have c: "(31415926535898 / 10 ^ 13 / 2 ^ 53 :: rat) \<le> 1 / 2 ^ 51" "(31415926535897932 / 10 ^ 16 / 2 ^ 53 :: rat) \<le> 1 / 2 ^ 51"
    "\<bar>31415926535897932 / 10 ^ 16 - 31415926535898 / 10 ^ 13 :: rat\<bar> \<le> 1 / 2 ^ 47" by simp_all
  have d: "(1 / 2 ^ 51 + 1 / 2 ^ 51 + 1 / 2 ^ 47 :: rat) \<le> 1 / 2 ^ 46" "31415926 / 10 ^ 7 + 1 / 2 ^ 51 \<le> (31415926535898 / 10 ^ 13 :: rat)"
    "31415926 / 10 ^ 7 + 1 / 2 ^ 51 \<le> (31415926535897932 / 10 ^ 16 :: rat)" "31415926535898 / 10 ^ 13 + 1 / 2 ^ 51 \<le> (31415927 / 10 ^ 7 :: rat)"
    "31415926535897932 / 10 ^ 16 + 1 / 2 ^ 51 \<le> (31415927 / 10 ^ 7 :: rat)" by simp_all
  show "31415926 / 10 ^ 7 \<le> PI" "PI \<le> 31415927 / 10 ^ 7" using a c(1) d(2,4) by linarith+
  show "31415926 / 10 ^ 7 \<le> RTK_PI" "RTK_PI \<le> 31415927 / 10 ^ 7" using b c(2) d(3,5) by linarith+
  show "\<bar>RTK_PI - PI\<bar> \<le> 1 / 2 ^ 46" using a b c d(1) by linarith
qed

lemma pi_range: "3 \<le> PI" "PI \<le> 4" "3 \<le> RTK_PI" "RTK_PI \<le> 4"
proof -
  have "(3 :: rat) \<le> 31415926 / 10 ^ 7" "(31415927 / 10 ^ 7 :: rat) \<le> 4" by simp_all
  then show "3 \<le> PI" "PI \<le> 4" "3 \<le> RTK_PI" "RTK_PI \<le> 4" using PI_bounds(1-4) by linarith+
qed

lemma quotient_by_pi:
  fixes X :: rat
  assumes "0 \<le> X" "X \<le> 2 ^ 33" shows "\<bar>X / PI - X / RTK_PI\<bar> \<le> 1 / 2 ^ 13"
proof -
  note p = pi_range(1,3)
  have "X / PI - X / RTK_PI = X * (RTK_PI - PI) / (PI * RTK_PI)" using p by (simp add: field_simps)
  then have "\<bar>X / PI - X / RTK_PI\<bar> = X * \<bar>RTK_PI - PI\<bar> / (PI * RTK_PI)" using p assms(1) by (simp add: abs_mult)
  also have "\<dots> \<le> X * \<bar>RTK_PI - PI\<bar> / 1"
    using p assms(1) mult_mono [of 1 PI 1 RTK_PI] by (intro divide_left_mono) auto
  also have "\<dots> \<le> 2 ^ 33 * (1 / 2 ^ 46)" using mult_mono [OF assms(2) PI_bounds(5)] by simp
  finally show ?thesis by simp
qed

lemma angle_quotient_scaled:
  fixes t :: rat
  assumes c: "1 / 2 ^ 1000 = c" and t: "c \<le> t / 8" "t \<le> 2 ^ 33"
  shows "\<bar>ddiv (dbl t) PI - t / RTK_PI\<bar> \<le> 1 / 2 ^ 12" "0 \<le> ddiv (dbl t) PI"
proof -
  let ?a = "dbl t" and ?q = "ddiv (dbl t) PI"
  have pos: "0 < t" using c t(1) by (simp add: order_less_le_trans [of 0 c] flip: c)
  have lo: "1 / 2 ^ 1000 \<le> t" unfolding c using t(1) pos by linarith
  have big: "t < 2 ^ 53" by (rule le_less_trans [OF t(2)]) simp
  have a: "\<bar>?a - t\<bar> \<le> 1 / 2 ^ 20" by (rule dbl_close_unit [OF lo t(2)])
  have "\<bar>?a - t\<bar> \<le> t / 2 ^ 53" by (rule dbl_error [OF lo big])
  also have "\<dots> \<le> t / 2" using pos by (intro divide_left_mono) auto
  finally have a2: "t / 2 \<le> ?a" "?a \<le> 2 * t" using pos by linarith+
  have "?a / 4 \<le> ?a / PI" using pi_range a2 pos by (intro divide_left_mono) auto
  then have lo3: "1 / 2 ^ 1000 \<le> ?a / PI" unfolding c using a2 t(1) by linarith
  have "?a / PI \<le> ?a / 2" using pi_range a2 pos by (intro divide_left_mono) auto
  then have hi3: "?a / PI \<le> 2 ^ 33" using a2 t(2) by linarith
  have b: "\<bar>?q - ?a / PI\<bar> \<le> 1 / 2 ^ 20" unfolding ddiv_def by (rule dbl_close_unit [OF lo3 hi3])
  have "\<bar>?a / PI - t / PI\<bar> = \<bar>?a - t\<bar> / PI" using pi_range by (simp flip: diff_divide_distrib)
  also have "\<dots> \<le> \<bar>?a - t\<bar> / 1" using pi_range by (intro divide_left_mono) auto
  finally have d: "\<bar>?a / PI - t / PI\<bar> \<le> 1 / 2 ^ 20" using a by simp
  have "\<bar>t / PI - t / RTK_PI\<bar> \<le> 1 / 2 ^ 13" using quotient_by_pi [of t] pos t(2) by simp
  moreover have "(1 / 2 ^ 20 + 1 / 2 ^ 20 + 1 / 2 ^ 13 :: rat) \<le> 1 / 2 ^ 12" by simp
  ultimately show "\<bar>?q - t / RTK_PI\<bar> \<le> 1 / 2 ^ 12" using b d by linarith
  have "?a / PI < 2 ^ 53" by (rule le_less_trans [OF hi3]) simp
  then show "0 \<le> ?q" unfolding ddiv_def using dbl_ge_int [of 0 "?a / PI", OF _ lo3] a2 pos pi_range by simp
qed

lemma angle_quotient:
  assumes "0 < s" "s \<le> 1" "1 / 2 ^ 900 \<le> x" "x / s \<le> 2 ^ 33"
  shows "\<bar>ddiv (ddiv x s) PI - x / s / RTK_PI\<bar> \<le> 1 / 2 ^ 12" "0 \<le> ddiv (ddiv x s) PI"
proof -
  have x: "0 < x" by (rule less_le_trans [OF _ assms(3)]) simp
  have "x \<le> x / s" using x assms(1,2) by (simp add: pos_le_divide_eq mult_left_le)
  then have "x / 8 \<le> x / s / 8" by (rule divide_right_mono) simp
  moreover have "1 / 2 ^ 900 / 8 \<le> x / 8" using assms(3) by (rule divide_right_mono) simp
  moreover have "(1 :: rat) / 2 ^ 1000 \<le> 1 / 2 ^ 903" by (intro divide_left_mono power_increasing) auto
  moreover have "(1 :: rat) / 2 ^ 903 = 1 / 2 ^ 900 / 8" by (simp add: power_add [of 2 900 3, symmetric])
  ultimately have "1 / 2 ^ 1000 \<le> x / s / 8" by (metis order_trans)
  from angle_quotient_scaled [OF refl this assms(4)]
  show "\<bar>ddiv (ddiv x s) PI - x / s / RTK_PI\<bar> \<le> 1 / 2 ^ 12" "0 \<le> ddiv (ddiv x s) PI"
    unfolding ddiv_def [of x] by blast+
qed

lemma angle_product:
  assumes "0 \<le> u" "u \<le> 2 ^ 33" "1 / 2 ^ 40 \<le> s" "s \<le> 1"
  shows "\<bar>dmul (dmul (of_int u) s) RTK_PI - of_int u * (s * RTK_PI)\<bar> \<le> s * RTK_PI / 2 ^ 12"
proof (cases "u = 0")
  case True
  then show ?thesis using assms(3) pi_range by (simp add: dmul_def)
next
  case False
  let ?v = "dmul (of_int u) s" and ?P = RTK_PI
  have s: "0 < s" by (rule less_le_trans [OF _ assms(3)]) simp
  have "1 \<le> u" using False assms(1) by simp
  then have "(of_int 1 :: rat) \<le> of_int u" "(of_int u :: rat) \<le> of_int (2 ^ 33)" using assms(2) by (simp_all only: of_int_le_iff)
  then have u: "1 \<le> (of_int u :: rat)" "(of_int u :: rat) \<le> 2 ^ 33" by simp_all
  have us: "s \<le> of_int u * s" "of_int u * s \<le> 2 ^ 33 * s"
    using mult_right_mono [OF u(1), of s] mult_right_mono [OF u(2), of s] s by simp_all
  have "(1 :: rat) / 2 ^ 60 \<le> 1 / 2 ^ 40" by simp
  then have "1 / 2 ^ 60 \<le> s" using assms(3) by (rule order_trans)
  then have v: "\<bar>?v - of_int u * s\<bar> \<le> s / 2 ^ 20" by (rule field_product(1) [OF assms(1,2) _ assms(4)])
  have "s / 2 ^ 20 \<le> s / 2" "2 ^ 33 * s + s / 2 \<le> 2 ^ 34 * s" using s by simp_all
  then have v2: "s / 2 \<le> ?v" "?v \<le> 2 ^ 34 * s" using v us by linarith+
  have vp: "s / 2 \<le> ?v * ?P" using mult_mono [OF v2(1), of 1 ?P] pi_range s v2 by simp
  have "?v * ?P \<le> 2 ^ 34 * s * ?P" using v2(2) pi_range by (intro mult_right_mono) auto
  also have "2 ^ 34 * s * ?P \<le> 2 ^ 34 * 1 * 4" using assms(4) s pi_range by (intro mult_mono) auto
  also have "\<dots> < (2 ^ 53 :: rat)" by simp
  finally have hi: "?v * ?P < 2 ^ 53" .
  have "(1 :: rat) / 2 ^ 1000 \<le> 1 / 2 ^ 41" by (intro divide_left_mono power_increasing) auto
  moreover have "1 / 2 ^ 41 \<le> s / 2" using assms(3) by simp
  ultimately have lo: "1 / 2 ^ 1000 \<le> ?v * ?P" using vp by (meson order_trans)
  have "\<bar>dmul ?v ?P - ?v * ?P\<bar> \<le> ?v * ?P / 2 ^ 53" unfolding dmul_def [of ?v] by (rule dbl_error [OF lo hi])
  also have "\<dots> \<le> 2 ^ 34 * s * ?P / 2 ^ 53" using v2(2) pi_range by (intro divide_right_mono mult_right_mono) auto
  finally have y: "\<bar>dmul ?v ?P - ?v * ?P\<bar> \<le> s * ?P / 2 ^ 19" by (simp add: mult.commute)
  have "\<bar>?v * ?P - of_int u * (s * ?P)\<bar> = \<bar>?v - of_int u * s\<bar> * ?P"
    using abs_mult_pos [of ?P "?v - of_int u * s"] pi_range by (simp add: algebra_simps)
  also have "\<dots> \<le> s / 2 ^ 20 * ?P" using v pi_range by (intro mult_right_mono) auto
  finally have "\<bar>?v * ?P - of_int u * (s * ?P)\<bar> \<le> s * ?P / 2 ^ 20" by simp
  moreover have "s * ?P / 2 ^ 19 + s * ?P / 2 ^ 20 \<le> s * ?P / 2 ^ 12" using s pi_range by simp
  ultimately show ?thesis using y by linarith
qed

lemma angle_pos:
  assumes "1 / 2 ^ 40 \<le> s" "s \<le> 1" "sizable x" "0 \<le> x" "x / s \<le> 2 ^ 33"
  shows "\<bar>dmul (dmul (of_int (int_of_dbl (ddiv (ddiv x s) PI))) s) RTK_PI - x\<bar> \<le> 1001 / 1000 * (s * RTK_PI)"
    "0 \<le> int_of_dbl (ddiv (ddiv x s) PI)" "of_int (int_of_dbl (ddiv (ddiv x s) PI)) \<le> x / s / RTK_PI + 1 / 2 ^ 12"
proof -
  let ?q = "ddiv (ddiv x s) PI"
  have s: "0 < s" by (rule less_le_trans [OF _ assms(1)]) simp
  have q: "\<bar>?q - x / s / RTK_PI\<bar> \<le> 1 / 2 ^ 12 \<and> 0 \<le> ?q"
  proof (cases "x = 0")
    case False
    then have "1 / 2 ^ 900 \<le> x" using assms(3,4) by (simp add: sizable_def)
    then show ?thesis using angle_quotient [OF s assms(2) _ assms(5)] by blast
  qed (simp add: ddiv_def)
  then have u: "int_of_dbl ?q = \<lfloor>?q\<rfloor>" "0 \<le> \<lfloor>?q\<rfloor>" by (simp_all add: int_of_dbl_def)
  have le: "of_int \<lfloor>?q\<rfloor> \<le> x / s / RTK_PI + 1 / 2 ^ 12" using q by linarith
  have "x / s / RTK_PI \<le> x / s / 2" using pi_range assms(4) s by (intro divide_left_mono) auto
  moreover have "x / s / 2 \<le> of_int (2 ^ 32)" "(1 :: rat) / 2 ^ 12 \<le> of_int 1" using assms(5) by simp_all
  ultimately have "(of_int \<lfloor>?q\<rfloor> :: rat) \<le> of_int (2 ^ 32) + of_int 1" using le by linarith
  then have "\<lfloor>?q\<rfloor> \<le> 2 ^ 32 + 1" by (simp only: of_int_le_iff flip: of_int_add)
  then have y: "\<bar>dmul (dmul (of_int \<lfloor>?q\<rfloor>) s) RTK_PI - of_int \<lfloor>?q\<rfloor> * (s * RTK_PI)\<bar> \<le> s * RTK_PI / 2 ^ 12"
    by (intro angle_product [OF u(2) _ assms(1,2)]) simp
  have S: "0 < s * RTK_PI" using s pi_range by simp
  have "\<bar>?q - x / (s * RTK_PI)\<bar> \<le> 1 / 2 ^ 12" using q by simp
  from unit_error [OF this _ y S] q
  show "\<bar>dmul (dmul (of_int (int_of_dbl ?q)) s) RTK_PI - x\<bar> \<le> 1001 / 1000 * (s * RTK_PI)" unfolding u(1) by blast
  show "0 \<le> int_of_dbl ?q" "of_int (int_of_dbl ?q) \<le> x / s / RTK_PI + 1 / 2 ^ 12" using u le by simp_all
qed

lemma angle_error:
  assumes "1 / 2 ^ 40 \<le> s" "s \<le> 1" "sizable x" "\<bar>x\<bar> / s \<le> 2 ^ 33"
  shows "\<bar>dmul (dmul (of_int (int_of_dbl (ddiv (ddiv x s) PI))) s) RTK_PI - x\<bar> \<le> 1001 / 1000 * (s * RTK_PI)"
    "\<bar>of_int (int_of_dbl (ddiv (ddiv x s) PI))\<bar> \<le> \<bar>x\<bar> / s / RTK_PI + 1 / 2 ^ 12"
proof -
  have "\<bar>dmul (dmul (of_int (int_of_dbl (ddiv (ddiv x s) PI))) s) RTK_PI - x\<bar> \<le> 1001 / 1000 * (s * RTK_PI) \<and>
    \<bar>of_int (int_of_dbl (ddiv (ddiv x s) PI))\<bar> \<le> \<bar>x\<bar> / s / RTK_PI + 1 / 2 ^ 12"
  proof (cases "0 \<le> x")
    case True
    then show ?thesis using angle_pos [of s x] assms by simp
  next
    case False
    have m: "ddiv (- a) b = - ddiv a b" "dmul (- a) b = - dmul a b" for a b
      using dbl_minus [of "a / b"] dbl_minus [of "a * b"] by (simp_all add: ddiv_def dmul_def)
    have q: "ddiv (ddiv x s) PI = - ddiv (ddiv (- x) s) PI" using m(1) [of "- x" s] m(1) [of "ddiv (- x) s" PI] by simp
    have "sizable (- x)" "- x / s \<le> 2 ^ 33" "0 \<le> - x" using assms(3,4) False by (simp_all add: sizable_def)
    note p = angle_pos [OF assms(1,2) this(1,3,2)]
    then show ?thesis unfolding q int_of_dbl_minus of_int_minus m(2) using False by linarith
  qed
  then show "\<bar>dmul (dmul (of_int (int_of_dbl (ddiv (ddiv x s) PI))) s) RTK_PI - x\<bar> \<le> 1001 / 1000 * (s * RTK_PI)"
    "\<bar>of_int (int_of_dbl (ddiv (ddiv x s) PI))\<bar> \<le> \<bar>x\<bar> / s / RTK_PI + 1 / 2 ^ 12" by simp_all
qed

section \<open>The units of the message\<close>

lemma dbl_unit:
  assumes "\<bar>1000000 * (x * 2 ^ k) - 1000000\<bar> \<le> 1 / 2" "k \<le> 50"
  shows "\<bar>1000000 * (dbl x * 2 ^ k) - 1000000\<bar> \<le> 1"
proof -
  have p: "(1 :: rat) \<le> 2 ^ k" "0 < (2 :: rat) ^ k" by simp_all
  have t: "1 / 2 \<le> x * 2 ^ k" "x * 2 ^ k \<le> 2" using assms(1) by linarith+
  have "(2 :: rat) ^ k \<le> 2 ^ 50" by (rule power_increasing [OF assms(2)]) simp
  then have "1 / 2 / 2 ^ 50 \<le> 1 / 2 / (2 :: rat) ^ k" by (intro divide_left_mono) auto
  also have "\<dots> \<le> x" using t(1) p(2) by (simp add: pos_divide_le_eq)
  finally have x: "1 / 2 ^ 51 \<le> x" by simp
  have "(1 :: rat) / 2 ^ 1000 \<le> 1 / 2 ^ 51" by (intro divide_left_mono power_increasing) auto
  then have lo: "1 / 2 ^ 1000 \<le> x" using x by (rule order_trans)
  have "0 < x" by (rule less_le_trans [OF _ x]) simp
  then have "x \<le> x * 2 ^ k" using mult_left_mono [OF p(1), of x] by simp
  then have hi: "x < 2 ^ 53" using t(2) by simp
  have "\<bar>dbl x - x\<bar> * 2 ^ k \<le> x / 2 ^ 53 * 2 ^ k" using dbl_error [OF lo hi] by (intro mult_right_mono) auto
  moreover have "\<bar>dbl x - x\<bar> * 2 ^ k = \<bar>dbl x * 2 ^ k - x * 2 ^ k\<bar>" using p(2) by (simp add: abs_mult_pos left_diff_distrib)
  ultimately have "\<bar>dbl x * 2 ^ k - x * 2 ^ k\<bar> \<le> 1 / 2 ^ 52" using t(2) by simp
  moreover have "(1 :: rat) / 2 ^ 52 \<le> 1 / 2000000" by simp
  ultimately show ?thesis using assms(1) by linarith
qed

lemma POW2_bounds:
  "\<bar>1000000 * (POW2_M19 * 2 ^ 19) - 1000000\<bar> \<le> 1" "\<bar>1000000 * (POW2_M31 * 2 ^ 31) - 1000000\<bar> \<le> 1"
  "\<bar>1000000 * (POW2_M32 * 2 ^ 32) - 1000000\<bar> \<le> 1" "\<bar>1000000 * (POW2_M43 * 2 ^ 43) - 1000000\<bar> \<le> 1"
  unfolding POW2_M19_def POW2_M31_def POW2_M32_def POW2_M43_def by (rule dbl_unit; simp)+

section \<open>The message\<close>

text \<open>A message is a list of words with their widths.\<close>

definition field_bits :: "(u32 \<times> nat) list \<Rightarrow> u8 list" where
  "field_bits fs = concat (map (\<lambda>(w, n). sdr_unpack_data w n) fs)"

lemma length_field_bits: "length (field_bits fs) = sum_list (map snd fs)"
  by (induction fs) (auto simp: field_bits_def)

lemma getbitu_field_bits:
  assumes "bits = field_bits fs @ rest" "bitarr bits" "length bits = n" "i < length fs" "snd (fs ! i) \<le> 32"
  shows "getbitu (sdr_pack_bits bits n 0) (sum_list (map snd (take i fs))) (snd (fs ! i)) = take_bit (snd (fs ! i)) (fst (fs ! i))"
proof -
  obtain w l where w: "fs ! i = (w, l)" by fastforce
  have "fs = take i fs @ (w, l) # drop (Suc i) fs" using id_take_nth_drop [OF assms(4)] w by simp
  then have "field_bits fs = field_bits (take i fs) @ sdr_unpack_data w l @ field_bits (drop (Suc i) fs)"
    unfolding field_bits_def by (metis concat.simps(2) concat_append list.simps(9) map_append case_prod_conv)
  then have "bits = field_bits (take i fs) @ sdr_unpack_data w l @ field_bits (drop (Suc i) fs) @ rest" using assms(1) by simp
  from getbitu_slice [OF this assms(2,3)] show ?thesis using assms(5) w by (simp add: length_field_bits)
qed

definition eph_fields :: "afstime_t \<Rightarrow> ephem_t \<Rightarrow> (u32 \<times> nat) list" where
  "eph_fields a eph =
     [(wn_itow a, 22), (u32_of_dbl (ddiv (gps_sec (eph_toe eph)) 16), 16),
      (u32_of_dbl (ddiv (eph_ecc eph) POW2_M32), 32), (u32_of_dbl (ddiv (eph_sqrta eph) POW2_M19), 32),
      (u32_of_dbl (ddiv (ddiv (eph_inc0 eph) POW2_M31) PI), 32), (u32_of_dbl (ddiv (ddiv (eph_omg0 eph) POW2_M31) PI), 32),
      (u32_of_dbl (ddiv (ddiv (eph_aop eph) POW2_M31) PI), 32), (u32_of_dbl (ddiv (ddiv (eph_m0 eph) POW2_M31) PI), 32),
      (u32_of_dbl (ddiv (gps_sec (eph_toc eph)) 16), 16), (u32_of_dbl (ddiv (eph_af0 eph) POW2_M31), 22),
      (u32_of_dbl (ddiv (eph_af1 eph) POW2_M43), 16)]"

text \<open>The packed message of subframe 2, and reading it from the start of a longer buffer.\<close>

definition sb2_message :: "afstime_t \<Rightarrow> ephem_t \<Rightarrow> u8 list" where
  "sb2_message a eph = sdr_pack_bits (with_crc (sb2_bits a eph)) 1200 0"

lemma getbitu_take:
  assumes "pos + len \<le> 8 * n" shows "getbitu (take n buff) pos len = getbitu buff pos len"
proof -
  have "i div 8 < n" if "i < pos + len" for i using that assms by (simp add: less_mult_imp_div_less mult.commute)
  then show ?thesis unfolding getbitu_def by (intro foldl_cong) auto
qed

lemma message_field:
  assumes "take 150 buff = sb2_message a eph" "i < 11"
  shows "getbitu buff (sum_list (map snd (take i (eph_fields a eph)))) (snd (eph_fields a eph ! i)) =
    take_bit (snd (eph_fields a eph ! i)) (fst (eph_fields a eph ! i))"
proof -
  let ?pos = "sum_list (map snd (take i (eph_fields a eph)))" and ?len = "snd (eph_fields a eph ! i)"
  obtain rest where r: "with_crc (sb2_bits a eph) = field_bits (eph_fields a eph) @ rest"
    by (simp add: with_crc_def sb2_bits_def eph_bits_def field_bits_def eph_fields_def)
  have i: "i < length (eph_fields a eph)" using assms(2) by (simp add: eph_fields_def)
  have "list_all (\<lambda>f. snd f \<le> 32) (eph_fields a eph)" by (simp add: eph_fields_def)
  then have len: "?len \<le> 32" using i by (simp add: list_all_length)
  have "?pos + ?len = sum_list (map snd (take (Suc i) (eph_fields a eph)))" using i by (simp add: take_Suc_conv_app_nth)
  also have "\<dots> \<le> sum_list (map snd (take (Suc i) (eph_fields a eph))) + sum_list (map snd (drop (Suc i) (eph_fields a eph)))" by simp
  also have "\<dots> = sum_list (map snd (eph_fields a eph))" by (simp flip: sum_list_append map_append)
  also have "\<dots> = 284" by (simp add: eph_fields_def)
  finally have "getbitu buff ?pos ?len = getbitu (take 150 buff) ?pos ?len" by (intro getbitu_take [symmetric]) simp
  also have "\<dots> = take_bit ?len (fst (eph_fields a eph ! i))"
    unfolding assms(1) sb2_message_def by (rule getbitu_field_bits [OF r _ _ i len]) simp_all
  finally show ?thesis .
qed

lemma message_words:
  assumes "take 150 buff = sb2_message a eph"
  shows "getbitu buff 22 16 = take_bit 16 (u32_of_dbl (ddiv (gps_sec (eph_toe eph)) 16))"
    "getbitu buff 38 32 = take_bit 32 (u32_of_dbl (ddiv (eph_ecc eph) POW2_M32))"
    "getbitu buff 70 32 = take_bit 32 (u32_of_dbl (ddiv (eph_sqrta eph) POW2_M19))"
    "getbitu buff 102 32 = take_bit 32 (u32_of_dbl (ddiv (ddiv (eph_inc0 eph) POW2_M31) PI))"
    "getbitu buff 134 32 = take_bit 32 (u32_of_dbl (ddiv (ddiv (eph_omg0 eph) POW2_M31) PI))"
    "getbitu buff 166 32 = take_bit 32 (u32_of_dbl (ddiv (ddiv (eph_aop eph) POW2_M31) PI))"
    "getbitu buff 198 32 = take_bit 32 (u32_of_dbl (ddiv (ddiv (eph_m0 eph) POW2_M31) PI))"
    "getbitu buff 230 16 = take_bit 16 (u32_of_dbl (ddiv (gps_sec (eph_toc eph)) 16))"
    "getbitu buff 246 22 = take_bit 22 (u32_of_dbl (ddiv (eph_af0 eph) POW2_M31))"
    "getbitu buff 268 16 = take_bit 16 (u32_of_dbl (ddiv (eph_af1 eph) POW2_M43))"
  using message_field [OF assms, of 1] message_field [OF assms, of 2] message_field [OF assms, of 3] message_field [OF assms, of 4]
    message_field [OF assms, of 5] message_field [OF assms, of 6] message_field [OF assms, of 7] message_field [OF assms, of 8]
    message_field [OF assms, of 9] message_field [OF assms, of 10]
  by (simp_all add: eph_fields_def)

section \<open>What a field loses\<close>

lemma unit_range:
  fixes s X :: rat
  assumes "\<bar>1000000 * (s * 2 ^ k) - 1000000\<bar> \<le> 1" "k \<le> 50"
  shows "1 / 2 ^ 60 \<le> s" "s \<le> 2 / 2 ^ k" "1001 / 1000 * s \<le> 1002 / 1000 / 2 ^ k" "0 \<le> X \<Longrightarrow> X / s \<le> X * 2 ^ k * (1000002 / 1000000)"
proof -
  define T where "T = s * 2 ^ k"
  have T: "999999 / 1000000 \<le> T" "T \<le> 1000001 / 1000000" using assms(1) unfolding T_def by linarith+
  have s: "s = T / 2 ^ k" by (simp add: T_def)
  have "(2 :: rat) ^ k \<le> 2 ^ 50" by (rule power_increasing [OF assms(2)]) simp
  then have "1 / 2 ^ 50 / 2 \<le> 1 / (2 :: rat) ^ k / 2" by (intro divide_left_mono divide_right_mono) auto
  moreover have "1 / (2 :: rat) ^ k / 2 \<le> T / 2 ^ k" using T by (simp add: field_simps)
  moreover have "(1 :: rat) / 2 ^ 60 \<le> 1 / 2 ^ 50 / 2" by simp
  ultimately show "1 / 2 ^ 60 \<le> s" unfolding s by (meson order_trans)
  show "s \<le> 2 / 2 ^ k" unfolding s using T by (intro divide_right_mono) auto
  have "1001 / 1000 * T / 2 ^ k \<le> 1002 / 1000 / 2 ^ k" using T by (intro divide_right_mono) auto
  then show "1001 / 1000 * s \<le> 1002 / 1000 / 2 ^ k" unfolding s by simp
  have "1 / T \<le> 1 / (999999 / 1000000)" using T by (intro divide_left_mono) auto
  then have "1 / T \<le> 1000002 / 1000000" by (rule order_trans) simp
  then have "X * 2 ^ k * (1 / T) \<le> X * 2 ^ k * (1000002 / 1000000)" if "0 \<le> X" using that by (intro mult_left_mono) auto
  moreover have "X / s = X * 2 ^ k * (1 / T)" unfolding s by simp
  ultimately show "X / s \<le> X * 2 ^ k * (1000002 / 1000000)" if "0 \<le> X" using that by simp
qed

lemma rat_less_pow: "\<bar>of_int u :: rat\<bar> < 2 ^ n \<longleftrightarrow> \<bar>u\<bar> < 2 ^ n"
proof -
  have "\<bar>of_int u :: rat\<bar> < 2 ^ n \<longleftrightarrow> (of_int \<bar>u\<bar> :: rat) < of_int (2 ^ n)" by simp
  also have "\<dots> \<longleftrightarrow> \<bar>u\<bar> < 2 ^ n" by (simp only: of_int_less_iff)
  finally show ?thesis .
qed

lemma field_in_range:
  assumes "\<bar>1000000 * (s * 2 ^ k) - 1000000\<bar> \<le> 1" "1 \<le> k" "k \<le> 50" "sizable x" "\<bar>x\<bar> * 2 ^ k * (1000002 / 1000000) + 1 \<le> 2 ^ n" "n \<le> 32"
  shows "\<bar>dmul (of_int (int_of_dbl (ddiv x s))) s - x\<bar> \<le> 1002 / 1000 / 2 ^ k" "\<bar>int_of_dbl (ddiv x s)\<bar> < 2 ^ n"
proof -
  note r = unit_range [OF assms(1,3)]
  have k: "(2 :: rat) / 2 ^ k \<le> 1" using power_increasing [OF assms(2), of "2 :: rat"] by simp
  then have s1: "s \<le> 1" by (rule order_trans [OF r(2)])
  have n: "(2 :: rat) ^ n \<le> 2 ^ 32" by (rule power_increasing [OF assms(6)]) simp
  have q: "\<bar>x\<bar> / s + 1 \<le> 2 ^ n" using r(4) [of "\<bar>x\<bar>"] assms(5) by linarith
  then have "\<bar>x\<bar> / s \<le> 2 ^ 32" using n by linarith
  note e = quantise [OF r(1) s1 assms(4) this]
  show "\<bar>dmul (of_int (int_of_dbl (ddiv x s))) s - x\<bar> \<le> 1002 / 1000 / 2 ^ k" using e(1) r(3) by linarith
  have "(1 :: rat) / 2 ^ 20 < 1" by simp
  then have "\<bar>of_int (int_of_dbl (ddiv x s)) :: rat\<bar> < 2 ^ n" using e(2) q by linarith
  then show "\<bar>int_of_dbl (ddiv x s)\<bar> < 2 ^ n" by (simp only: rat_less_pow)
qed

lemma unsigned_field:
  assumes "\<bar>1000000 * (s * 2 ^ k) - 1000000\<bar> \<le> 1" "1 \<le> k" "k \<le> 50" "sizable x" "0 \<le> x" "x * 2 ^ k * (1000002 / 1000000) + 1 \<le> 2 ^ n" "n \<le> 32"
    "getbitu buff pos n = take_bit n (u32_of_dbl (ddiv x s))"
  shows "\<bar>dmul (of_int (uint (getbitu buff pos n))) s - x\<bar> \<le> 1002 / 1000 / 2 ^ k"
proof -
  have "\<bar>x\<bar> * 2 ^ k * (1000002 / 1000000) + 1 \<le> 2 ^ n" using assms(5,6) by simp
  note f = field_in_range [OF assms(1-4) this assms(7)]
  note r = unit_range [OF assms(1,3)]
  have s: "0 < s" by (rule less_le_trans [OF _ r(1)]) simp
  have "(2 :: rat) / 2 ^ k \<le> 1" using power_increasing [OF assms(2), of "2 :: rat"] by simp
  then have k: "s \<le> 1" using r(2) by linarith
  have "0 \<le> int_of_dbl (ddiv x s)"
  proof (rule quantise_pos(2) [OF r(1) k assms(4,5)])
    have "(2 :: rat) ^ n \<le> 2 ^ 32" by (rule power_increasing [OF assms(7)]) simp
    then show "x / s \<le> 2 ^ 32" using r(4) [OF assms(5)] assms(6) by linarith
  qed
  then have "uint (getbitu buff pos n) = int_of_dbl (ddiv x s)"
    using f(2) assms(7,8) by (simp add: u32_of_dbl_def uint_take_bit_of_int)
  then show ?thesis using f(1) by simp
qed

lemma signed_field:
  assumes "\<bar>1000000 * (s * 2 ^ k) - 1000000\<bar> \<le> 1" "1 \<le> k" "k \<le> 50" "sizable x" "\<bar>x\<bar> * 2 ^ k * (1000002 / 1000000) + 1 \<le> 2 ^ (n - 1)" "0 < n" "n \<le> 32"
    "getbitu buff pos n = take_bit n (u32_of_dbl (ddiv x s))"
  shows "\<bar>dmul (of_int (getbits buff pos n)) s - x\<bar> \<le> 1002 / 1000 / 2 ^ k"
proof -
  have "n - 1 \<le> 32" using assms(7) by simp
  note f = field_in_range [OF assms(1-5) this]
  have "getbits buff pos n = int_of_dbl (ddiv x s)"
    by (rule getbits_eq) (use assms(6-8) f(2) in \<open>simp_all add: u32_of_dbl_def abs_less_iff\<close>)
  then show ?thesis using f(1) by simp
qed

lemma angle_field:
  assumes "sizable x" "\<bar>x\<bar> \<le> 314 / 100" "getbitu buff pos 32 = take_bit 32 (u32_of_dbl (ddiv (ddiv x POW2_M31) PI))"
  shows "\<bar>dmul (dmul (of_int (getbits buff pos 32)) POW2_M31) RTK_PI - x\<bar> \<le> 315 / 100 / 2 ^ 31"
proof -
  let ?s = POW2_M31 and ?u = "int_of_dbl (ddiv (ddiv x POW2_M31) PI)"
  have s: "999999 / 2147483648000000 \<le> ?s" "?s \<le> 1000001 / 2147483648000000" using POW2_bounds(2) by simp_all
  then have s2: "1 / 2 ^ 40 \<le> ?s" "?s \<le> 1" by simp_all
  have "\<bar>x\<bar> / ?s \<le> \<bar>x\<bar> / (999999 / 2147483648000000)" using s by (intro divide_left_mono) auto
  also have "\<dots> \<le> 314 / 100 / (999999 / 2147483648000000)" by (rule divide_right_mono [OF assms(2)]) simp
  also have "\<dots> \<le> 6743200000" by simp
  finally have X: "\<bar>x\<bar> / ?s \<le> 6743200000" .
  then have "\<bar>x\<bar> / ?s \<le> 2 ^ 33" by simp
  note e = angle_error [OF s2 assms(1) this]
  have P: "31415926 / 10000000 \<le> RTK_PI" "RTK_PI \<le> 31415927 / 10000000" using PI_bounds(3,4) by simp_all
  have "?s * RTK_PI \<le> 1000001 / 2147483648000000 * (31415927 / 10000000)" using s P by (intro mult_mono) auto
  then have "1001 / 1000 * (?s * RTK_PI) \<le> 315 / 100 / 2 ^ 31" by simp
  then have y: "\<bar>dmul (dmul (of_int ?u) ?s) RTK_PI - x\<bar> \<le> 315 / 100 / 2 ^ 31" using e(1) by linarith
  have "\<bar>x\<bar> / ?s / RTK_PI \<le> (6743200000) / (31415926 / 10000000)" using X P by (intro frac_le) auto
  moreover have "(6743200000) / (31415926 / 10000000) + 1 / 2 ^ 12 < (2 ^ 31 :: rat)" by simp
  ultimately have "\<bar>of_int ?u :: rat\<bar> < 2 ^ 31" using e(2) by linarith
  then have "\<bar>?u\<bar> < 2 ^ 31" by (simp only: rat_less_pow)
  then have "getbits buff pos 32 = ?u" by (intro getbits_eq) (use assms(3) in \<open>simp_all add: u32_of_dbl_def\<close>)
  then show ?thesis using y by simp
qed

lemma seconds_field:
  assumes "on_grid 900 x" "0 \<le> x" "x < 604800" "getbitu buff pos 16 = take_bit 16 (u32_of_dbl (ddiv x 16))"
  shows "dmul (of_int (uint (getbitu buff pos 16))) 16 = of_int (16 * \<lfloor>x / 16\<rfloor>)"
proof -
  have u: "int_of_dbl (ddiv x 16) = \<lfloor>x / 16\<rfloor>" using trunc_quotient [OF assms(1) _ assms(2), of 16] assms(3) by simp
  have r: "0 \<le> \<lfloor>x / 16\<rfloor>" "\<lfloor>x / 16\<rfloor> < 37800" using assms(2,3) by (simp_all add: floor_less_iff)
  then have "uint (getbitu buff pos 16) = \<lfloor>x / 16\<rfloor>" using assms(4) u by (simp add: u32_of_dbl_def uint_take_bit_of_int)
  moreover have "dbl (of_int (16 * \<lfloor>x / 16\<rfloor>)) = of_int (16 * \<lfloor>x / 16\<rfloor>)" by (rule dbl_int) (use r in simp_all)
  ultimately show ?thesis by (simp add: dmul_def mult.commute)
qed

end
