(* ===== verification/Sdr_Pvt_Afs_Obs.thy ===== *)
theory Sdr_Pvt_Afs_Obs
  imports Sdr_Pvt_Afs_Eph
begin

text \<open>
  Which observations the position solution takes, the whole ephemeris of a message, and the Kepler loop
  of a circular orbit.
\<close>

section \<open>Reading the observations\<close>

text \<open>An observation of an AFS satellite with a code, its satellite and its range.\<close>

definition afs_obs :: "obsd_t \<Rightarrow> bool" where
  "afs_obs d \<longleftrightarrow> fst (satsys (obs_sat d)) = SYS_LEO \<and> first_code (obs_code d) \<noteq> None"

definition obs_entry :: "obsd_t \<Rightarrow> int \<times> rat" where
  "obs_entry d = (snd (satsys (obs_sat d)), obs_P d ! the (first_code (obs_code d)))"

definition has_eph :: "rx_ephem_t list \<Rightarrow> obsd_t \<Rightarrow> bool" where
  "has_eph eph d \<longleftrightarrow> eph_vflg (eph ! nat (snd (satsys (obs_sat d)) - 1)) = 1"

lemma satsys_leo: "fst (satsys k) = SYS_LEO \<Longrightarrow> 1 \<le> snd (satsys k) \<and> snd (satsys k) \<le> 12"
  by (auto simp: satsys_def split: if_splits)

lemma read_obs_ok:
  assumes "length eph = 12" "\<forall>d \<in> set obs. afs_obs d" "length es + length (filter (has_eph eph) obs) \<le> 12" "length arr = 12"
    "take (length es) arr = map Some es"
  shows "\<exists>arr'. read_obs eph obs (length es) arr = Inr (length es + length (filter (has_eph eph) obs), arr') \<and> length arr' = 12 \<and>
    take (length es + length (filter (has_eph eph) obs)) arr' = map Some (es @ map obs_entry (filter (has_eph eph) obs))"
  using assms(2-5)
proof (induction obs arbitrary: es arr)
  case (Cons d obs)
  have p: "1 \<le> snd (satsys (obs_sat d))" "snd (satsys (obs_sat d)) \<le> 12" using Cons.prems(1) satsys_leo by (auto simp: afs_obs_def)
  then have e: "arr_at eph (snd (satsys (obs_sat d)) - 1) = Some (eph ! nat (snd (satsys (obs_sat d)) - 1))"
    using assms(1) by (simp add: arr_at_def)
  obtain j where j: "first_code (obs_code d) = Some j" using Cons.prems(1) by (auto simp: afs_obs_def)
  show ?case
  proof (cases "has_eph eph d")
    case False
    then have "eph_vflg (eph ! nat (snd (satsys (obs_sat d)) - 1)) \<noteq> 1" by (simp add: has_eph_def)
    then show ?thesis using Cons.IH [of es arr] Cons.prems False e by (simp add: Let_def)
  next
    case True
    let ?es = "es @ [obs_entry d]" and ?arr = "arr[length es := Some (obs_entry d)]"
    have n: "length es < 12" using Cons.prems(2) True by simp
    have "take (length ?es) ?arr = map Some ?es" using Cons.prems(3,4) n by (simp add: take_Suc_conv_app_nth)
    then have "\<exists>arr'. read_obs eph obs (length ?es) ?arr = Inr (length ?es + length (filter (has_eph eph) obs), arr') \<and> length arr' = 12 \<and>
        take (length ?es + length (filter (has_eph eph) obs)) arr' = map Some (?es @ map obs_entry (filter (has_eph eph) obs))"
      by (intro Cons.IH) (use Cons.prems True in auto)
    moreover have "read_obs eph (d # obs) (length es) arr = read_obs eph obs (length ?es) ?arr"
      using True e j n by (simp add: Let_def has_eph_def obs_entry_def MAX_SAT_def)
    ultimately show ?thesis using True by simp
  qed
qed simp

lemma read_obs_append:
  "read_obs eph (xs @ ys) n arr = (case read_obs eph xs n arr of Inl err \<Rightarrow> Inl err | Inr (n', arr') \<Rightarrow> read_obs eph ys n' arr')"
  by (induction eph xs n arr rule: read_obs.induct) (simp_all add: Let_def split: option.split)

text \<open>What the arrays hold for AFS observations only.\<close>

lemma read_afs_obs:
  assumes "length eph = 12" "\<forall>d \<in> set obs. afs_obs d" "length obs \<le> 12"
  obtains arr where "read_obs eph obs 0 (replicate MAX_SAT None) = Inr (length (filter (has_eph eph) obs), arr)" "length arr = 12"
    "\<And>i. i < length (filter (has_eph eph) obs) \<Longrightarrow> arr ! i = Some (obs_entry (filter (has_eph eph) obs ! i))"
proof -
  let ?n = "length (filter (has_eph eph) obs)"
  have "?n \<le> 12" using assms(3) by (rule order_trans [OF length_filter_le])
  then obtain arr where a: "read_obs eph obs 0 (replicate MAX_SAT None) = Inr (?n, arr)" "length arr = 12"
    "take ?n arr = map Some (map obs_entry (filter (has_eph eph) obs))"
    using read_obs_ok [OF assms(1,2), of "[]" "replicate MAX_SAT None"] by (auto simp: MAX_SAT_def)
  have "arr ! i = Some (obs_entry (filter (has_eph eph) obs ! i))" if "i < ?n" for i
    using that a(3) nth_take [OF that, of arr] by simp
  then show ?thesis using that a(1,2) by blast
qed

section \<open>The solution\<close>

definition kepler_ends :: "libm \<Rightarrow> rx_ephem_t list \<Rightarrow> bool" where
  "kepler_ends L eph \<longleftrightarrow> (\<forall>e \<in> set eph. \<forall>g r dt. computeRange_rx L e g r dt \<noteq> None)"

lemma predict_ok:
  assumes "length eph = 12" "kepler_ends L eph" "\<forall>i \<in> set is. i < length arr \<and> (\<exists>p x. arr ! i = Some (p, x) \<and> 1 \<le> p \<and> p \<le> 12)"
  shows "\<exists>rows. predict L eph g r dt arr is = Inr rows"
  using assms(3)
proof (induction "is")
  case (Cons i "is")
  then obtain p x where p: "arr ! i = Some (p, x)" "1 \<le> p" "p \<le> 12" by auto
  then have e: "arr_at eph (p - 1) = Some (eph ! nat (p - 1))" "eph ! nat (p - 1) \<in> set eph" using assms(1) by (simp_all add: arr_at_def)
  then have "computeRange_rx L (eph ! nat (p - 1)) g r dt \<noteq> None"
    using assms(2) unfolding kepler_ends_def by blast
  then obtain y where "computeRange_rx L (eph ! nat (p - 1)) g r dt = Some y" by blast
  then have "\<exists>row. predict_row L eph g r dt (arr ! i) = Inr row" using p(1) e(1) by (cases y) (auto simp: predict_row_def)
  then show ?case using Cons by (auto simp: arr_at_def)
qed simp

lemma pvt_iters_ok:
  assumes "length eph = 12" "kepler_ends L eph" "\<forall>i < nsat. i < length arr \<and> (\<exists>p x. arr ! i = Some (p, x) \<and> 1 \<le> p \<and> p \<le> 12)"
  shows "\<exists>dops q. pvt_iters k L A eph g arr nsat d0 p = Inr (dops, q)"
proof (induction k arbitrary: d0 p)
  case (Suc k)
  obtain x y z dt where p: "p = ((x, y, z), dt)" by (metis prod.exhaust)
  obtain rows where "predict L eph g (x, y, z) dt arr [0..<nsat] = Inr rows"
    using predict_ok [OF assms(1,2), of "[0..<nsat]" arr g "(x, y, z)" dt] assms(3) by auto
  moreover obtain dops icm where "invCovMat L A (map fst rows) nsat = (dops, icm)" by fastforce
  ultimately obtain q where "pvt_iter L A eph g arr nsat p = Inr (dops, q)" unfolding p pvt_iter_def by (simp add: Let_def)
  then show ?case using Suc by (cases q) auto
qed simp

text \<open>What the solution returns for AFS observations only.\<close>

lemma update_sol_afs_cases:
  assumes "length eph = 12" "\<forall>d \<in> set obs. afs_obs d" "length obs \<le> 12" "kepler_ends L eph"
  shows "\<exists>s'. update_sol_afs L eph t0 obs s = Inr s' \<and> pvt_nsat s' = length obs \<and>
    (if length (filter (has_eph eph) obs) < 4 then s' = s\<lparr>sol_stat := 0, sol_time := t0, pvt_nsat := length obs\<rparr>
     else sol_stat s' = 0 \<and> sol_ns s' = 0 \<and> sol_rr s' = sol_rr s \<and> sol_time s' = t0 \<or>
          sol_stat s' = 12 \<and> sol_ns s' = length (filter (has_eph eph) obs) \<and> length (sol_rr s') = 6 \<and> drop 3 (sol_rr s') = [0, 0, 0] \<and>
          sol_time s' = rtk_timeadd t0 (- sol_dtr0 s'))"
proof -
  let ?n = "length (filter (has_eph eph) obs)"
  obtain week tow where w: "time2gpst t0 = (week, tow)" by fastforce
  let ?g = "\<lparr>gps_week = week, gps_sec = tow\<rparr>"
  obtain arr where arr: "read_obs eph obs 0 (replicate MAX_SAT None) = Inr (?n, arr)" "length arr = 12"
    "\<And>i. i < ?n \<Longrightarrow> arr ! i = Some (obs_entry (filter (has_eph eph) obs ! i))"
    using read_afs_obs [OF assms(1-3)] by blast
  have n: "?n \<le> 12" using assms(3) by (rule order_trans [OF length_filter_le])
  have "\<exists>p x. arr ! i = Some (p, x) \<and> 1 \<le> p \<and> p \<le> 12" if "i < ?n" for i
    using arr(3) [OF that] nth_mem [OF that] assms(2) satsys_leo by (simp add: obs_entry_def afs_obs_def)
  then have "\<forall>i < ?n. i < length arr \<and> (\<exists>p x. arr ! i = Some (p, x) \<and> 1 \<le> p \<and> p \<le> 12)" using n arr(2) by simp
  from pvt_iters_ok [OF assms(1,4) this, of 4 dbl_arith ?g "(gdop s, pdop s)" "((0, 0, - R_MOON), 0)"]
  obtain dops q where it: "pvt_iters 4 L dbl_arith eph ?g arr ?n (gdop s, pdop s) ((0, 0, - R_MOON), 0) = Inr (dops, q)" by blast
  obtain gd pd where d: "dops = (gd, pd)" by fastforce
  show ?thesis
  proof (cases q)
    case None
    then show ?thesis using arr(1) w it d by (simp add: update_sol_afs_def Let_def SOLQ_NONE_def)
  next
    case (Some p)
    obtain x y z dt where "p = ((x, y, z), dt)" by (metis prod.exhaust)
    then show ?thesis using Some arr(1) w it d by (simp add: update_sol_afs_def Let_def SOLQ_NONE_def SOLQ_SINGLE_def MAXSOLQ_def)
  qed
qed

section \<open>The Kepler loop of a circular orbit\<close>

lemma kepler_circular:
  assumes "dbl mk = mk" shows "kepler_loop L 0 mk mk ekold 1 = Some (mk, 1)"
proof -
  have one: "dbl 1 = 1" using dbl_int [of 1] by simp
  have eps: "0 \<le> KEPLER_EPS"
  proof -
    have "(1 :: rat) / 2 ^ 1000 \<le> 1 / 2 ^ 47" by (intro divide_left_mono power_increasing) auto
    then have "(1 :: rat) / 2 ^ 1000 \<le> 1 / 10 ^ 14" by (rule order_trans) simp
    then show ?thesis using dbl_ge_int [of 0 "1 / 10 ^ 14"] by (simp add: KEPLER_EPS_def)
  qed
  have last: "kepler_loop L 0 mk mk mk 1 = Some (mk, 1)"
    by (subst kepler_loop.simps) (use eps in \<open>simp add: dsub_def\<close>)
  show ?thesis
    by (subst kepler_loop.simps) (use last one assms in \<open>simp add: dsub_def dmul_def dadd_def ddiv_def Let_def\<close>)
qed

lemma dbl_idem:
  assumes "x = 0 \<or> 1 / 2 ^ 900 \<le> \<bar>x\<bar>" "\<bar>x\<bar> \<le> 2 ^ 52" shows "dbl (dbl x) = dbl x"
proof -
  have pos: "dbl (dbl y) = dbl y" if "1 / 2 ^ 900 \<le> y" "y \<le> 2 ^ 52" for y :: rat
  proof -
    have hi: "y < 2 ^ 53" by (rule le_less_trans [OF that(2)]) simp
    have "(1 :: rat) / 2 ^ 1000 \<le> 1 / 2 ^ 900" by (intro divide_left_mono power_increasing) auto
    then have lo: "1 / 2 ^ 1000 \<le> y" using that(1) by (rule order_trans)
    have y: "0 \<le> y" by (rule order_trans [OF _ lo]) simp
    have "on_grid (900 + 53) (dbl y)" by (rule dbl_on_grid [OF that(1) hi]) simp
    moreover have "0 \<le> dbl y" using dbl_ge_int [of 0, OF _ lo hi] y by simp
    moreover have "dbl y \<le> of_int (2 ^ 52)" by (rule dbl_le_int [OF _ lo hi]) (use that(2) in simp)
    ultimately show ?thesis by (intro dbl_grid [of "900 + 53"]) auto
  qed
  show ?thesis
  proof (cases "x = 0")
    case False
    then show ?thesis using pos [of x] pos [of "- x"] dbl_minus [of x] dbl_minus [of "dbl x"] assms
      by (cases "0 \<le> x") (simp_all add: dbl_minus)
  qed simp
qed

section \<open>The ephemeris of a message\<close>

text \<open>The range in which every field fits, and what a received ephemeris may differ.\<close>

definition eph_range :: "ephem_t \<Rightarrow> bool" where
  "eph_range x \<longleftrightarrow> on_grid 900 (gps_sec (eph_toe x)) \<and> 0 \<le> gps_sec (eph_toe x) \<and> gps_sec (eph_toe x) < 604800 \<and>
     on_grid 900 (gps_sec (eph_toc x)) \<and> 0 \<le> gps_sec (eph_toc x) \<and> gps_sec (eph_toc x) < 604800 \<and>
     sizable (eph_ecc x) \<and> 0 \<le> eph_ecc x \<and> eph_ecc x \<le> 99 / 100 \<and> sizable (eph_sqrta x) \<and> 0 \<le> eph_sqrta x \<and> eph_sqrta x \<le> 8000 \<and>
     list_all (\<lambda>a. sizable a \<and> \<bar>a\<bar> \<le> 314 / 100) [eph_inc0 x, eph_omg0 x, eph_aop x, eph_m0 x] \<and>
     sizable (eph_af0 x) \<and> \<bar>eph_af0 x\<bar> \<le> 9 / 10000 \<and> sizable (eph_af1 x) \<and> \<bar>eph_af1 x\<bar> \<le> 3 / 1000000000"

definition eph_close :: "ephem_t \<Rightarrow> rx_ephem_t \<Rightarrow> bool" where
  "eph_close x y \<longleftrightarrow> gps_sec (eph_toe y) = of_int (16 * \<lfloor>gps_sec (eph_toe x) / 16\<rfloor>) \<and>
     gps_sec (eph_toc y) = of_int (16 * \<lfloor>gps_sec (eph_toc x) / 16\<rfloor>) \<and>
     \<bar>eph_ecc y - eph_ecc x\<bar> \<le> 1002 / 1000 / 2 ^ 32 \<and> \<bar>eph_sqrta y - eph_sqrta x\<bar> \<le> 1002 / 1000 / 2 ^ 19 \<and>
     \<bar>eph_inc0 y - eph_inc0 x\<bar> \<le> 315 / 100 / 2 ^ 31 \<and> \<bar>eph_omg0 y - eph_omg0 x\<bar> \<le> 315 / 100 / 2 ^ 31 \<and>
     \<bar>eph_aop y - eph_aop x\<bar> \<le> 315 / 100 / 2 ^ 31 \<and> \<bar>eph_m0 y - eph_m0 x\<bar> \<le> 315 / 100 / 2 ^ 31 \<and>
     \<bar>eph_af0 y - eph_af0 x\<bar> \<le> 1002 / 1000 / 2 ^ 31 \<and> \<bar>eph_af1 y - eph_af1 x\<bar> \<le> 1002 / 1000 / 2 ^ 43"

lemma read_ephemeris_fields:
  "gps_sec (eph_toe (read_ephemeris L buff p e)) = dmul (of_int (uint (getbitu buff 22 16))) 16"
  "gps_sec (eph_toc (read_ephemeris L buff p e)) = dmul (of_int (uint (getbitu buff 230 16))) 16"
  "eph_ecc (read_ephemeris L buff p e) = dmul (of_int (uint (getbitu buff 38 32))) POW2_M32"
  "eph_sqrta (read_ephemeris L buff p e) = dmul (of_int (uint (getbitu buff 70 32))) POW2_M19"
  "eph_inc0 (read_ephemeris L buff p e) = dmul (dmul (of_int (getbits buff 102 32)) POW2_M31) RTK_PI"
  "eph_omg0 (read_ephemeris L buff p e) = dmul (dmul (of_int (getbits buff 134 32)) POW2_M31) RTK_PI"
  "eph_aop (read_ephemeris L buff p e) = dmul (dmul (of_int (getbits buff 166 32)) POW2_M31) RTK_PI"
  "eph_m0 (read_ephemeris L buff p e) = dmul (dmul (of_int (getbits buff 198 32)) POW2_M31) RTK_PI"
  "eph_af0 (read_ephemeris L buff p e) = dmul (of_int (getbits buff 246 22)) POW2_M31"
  "eph_af1 (read_ephemeris L buff p e) = dmul (of_int (getbits buff 268 16)) POW2_M43"
  "eph_vflg (read_ephemeris L buff p e) = 1" "eph_prn (read_ephemeris L buff p e) = p"
  by (simp_all add: read_ephemeris_def eph_working_def Let_def)

lemma read_ephemeris_close:
  assumes "take 150 buff = sb2_message a x" "eph_range x"
  shows "eph_close x (read_ephemeris L buff p e)"
proof -
  note w = message_words [OF assms(1)]
  note r = assms(2) [unfolded eph_range_def list.pred_inject]
  have ecc: "eph_ecc x * 2 ^ 32 * (1000002 / 1000000) + 1 \<le> 2 ^ 32" and sqa: "eph_sqrta x * 2 ^ 19 * (1000002 / 1000000) + 1 \<le> 2 ^ 32"
    and af0: "\<bar>eph_af0 x\<bar> * 2 ^ 31 * (1000002 / 1000000) + 1 \<le> 2 ^ (22 - 1)" and af1: "\<bar>eph_af1 x\<bar> * 2 ^ 43 * (1000002 / 1000000) + 1 \<le> 2 ^ (16 - 1)"
    using r by simp_all
  show ?thesis unfolding eph_close_def read_ephemeris_fields
  proof (intro conjI)
    show "\<bar>dmul (of_int (uint (getbitu buff 38 32))) POW2_M32 - eph_ecc x\<bar> \<le> 1002 / 1000 / 2 ^ 32"
      by (rule unsigned_field [OF POW2_bounds(3) _ _ _ _ ecc _ w(2)]) (use r in simp_all)
    show "\<bar>dmul (of_int (uint (getbitu buff 70 32))) POW2_M19 - eph_sqrta x\<bar> \<le> 1002 / 1000 / 2 ^ 19"
      by (rule unsigned_field [OF POW2_bounds(1) _ _ _ _ sqa _ w(3)]) (use r in simp_all)
    show "\<bar>dmul (of_int (getbits buff 246 22)) POW2_M31 - eph_af0 x\<bar> \<le> 1002 / 1000 / 2 ^ 31"
      by (rule signed_field [OF POW2_bounds(2) _ _ _ af0 _ _ w(9)]) (use r in simp_all)
    show "\<bar>dmul (of_int (getbits buff 268 16)) POW2_M43 - eph_af1 x\<bar> \<le> 1002 / 1000 / 2 ^ 43"
      by (rule signed_field [OF POW2_bounds(4) _ _ _ af1 _ _ w(10)]) (use r in simp_all)
  qed (use r angle_field [OF _ _ w(4)] angle_field [OF _ _ w(5)] angle_field [OF _ _ w(6)] angle_field [OF _ _ w(7)]
    seconds_field [OF _ _ _ w(1)] seconds_field [OF _ _ _ w(8)] in simp_all)
qed

end
