(* ===== verification/Sdr_Pvt_Lemmas.thy ===== *)
theory Sdr_Pvt_Lemmas
  imports Sdr_Pvt Sdr_Pvt_Afs_Obs
begin

text \<open>
  Lemmas on the position and time component: rounding errors of its arithmetic, satellite identifiers,
  the table of observations, and the times of its epochs.
\<close>

section \<open>Rounding of any double\<close>

lemma dbl_exp_small:
  assumes "0 < x" "x < 2 ^ 53"
  shows "\<exists>k \<le> f. dbl_exp f x e = e - int k \<and> (k = f \<or> 2 ^ 52 \<le> x * 2 ^ k)"
  using assms
proof (induction f arbitrary: x e)
  case (Suc f)
  show ?case
  proof (cases "x < 2 ^ 52")
    case True
    from Suc.IH [of "2 * x" "e - 1"] Suc.prems True obtain k where
      "k \<le> f" "dbl_exp f (2 * x) (e - 1) = e - 1 - int k" "k = f \<or> 2 ^ 52 \<le> 2 * x * 2 ^ k" by auto
    then show ?thesis using True by (intro exI [of _ "Suc k"]) (auto simp: mult_ac)
  next
    case False
    then show ?thesis using Suc.prems by (intro exI [of _ 0]) auto
  qed
qed simp

lemma dbl_error_any:
  assumes "\<bar>x\<bar> < 2 ^ 53" shows "\<bar>dbl x - x\<bar> \<le> \<bar>x\<bar> / 2 ^ 53 + 1 / 2 ^ 1100"
proof -
  have pos: "\<bar>dbl x - x\<bar> \<le> x / 2 ^ 53 + 1 / 2 ^ 1100" if x: "0 < x" "x < 2 ^ 53" for x :: rat
  proof -
    obtain k where k: "dbl_exp 1100 x 0 = - int k" "k = 1100 \<or> 2 ^ 52 \<le> x * 2 ^ k" using dbl_exp_small [OF x, of 1100 0] by auto
    have pw: "(2 :: rat) powi (- int k) = 1 / 2 ^ k" by (simp add: power_int_minus divide_inverse)
    have "dbl x = of_int (round_even (x * 2 ^ k)) / 2 ^ k" unfolding dbl_def Let_def using x(1) k(1) pw by simp
    moreover have "x * 2 ^ k / 2 ^ k = x" by simp
    ultimately have "dbl x - x = (of_int (round_even (x * 2 ^ k)) - x * 2 ^ k) / 2 ^ k" by (simp only: diff_divide_distrib)
    then have "\<bar>dbl x - x\<bar> = \<bar>of_int (round_even (x * 2 ^ k)) - x * 2 ^ k\<bar> / 2 ^ k"
      by (simp only: abs_div_pos [OF zero_less_power [OF zero_less_numeral]])
    also have "\<dots> \<le> 1 / 2 / 2 ^ k" by (intro divide_right_mono round_even_error) simp
    finally have e: "\<bar>dbl x - x\<bar> \<le> 1 / 2 / 2 ^ k" .
    show ?thesis
    proof (cases "k = 1100")
      case True
      have "(1 :: rat) / 2 / 2 ^ 1100 \<le> 1 / 2 ^ 1100" by (simp add: divide_right_mono)
      moreover have "0 \<le> x / 2 ^ 53" using x by simp
      ultimately show ?thesis using e True by (meson add_increasing order_trans)
    next
      case False
      then have "2 ^ 52 / 2 ^ 53 / 2 ^ k \<le> x * 2 ^ k / 2 ^ 53 / 2 ^ k" using k(2) by (intro divide_right_mono) auto
      then have "1 / 2 / 2 ^ k \<le> x / 2 ^ 53" by simp
      moreover have "(0 :: rat) \<le> 1 / 2 ^ 1100" by simp
      ultimately show ?thesis using e by (meson add_increasing2 order_trans)
    qed
  qed
  consider "x = 0" | "0 < x" | "0 < - x" by linarith
  then show ?thesis using pos [of x] pos [of "- x"] assms by cases (auto simp: dbl_minus abs_minus_commute)
qed

text \<open>With a bound on the number and room for the smallest doubles.\<close>

lemma dbl_error_le:
  assumes "\<bar>x\<bar> \<le> B" "B < 2 ^ 53" "1 / 2 ^ 1000 \<le> B" shows "\<bar>dbl x - x\<bar> \<le> B / 2 ^ 52"
proof -
  have "(1 :: rat) / 2 ^ 1100 = 1 / 2 ^ 1000 / 2 ^ 100" by (simp flip: power_add)
  also have "\<dots> \<le> B / 2 ^ 100" using assms(3) by (rule divide_right_mono) simp
  also have "\<dots> \<le> B / 2 ^ 53" using assms(3) by (intro divide_left_mono power_increasing) (auto intro: order_trans [OF _ assms(3)])
  finally have "1 / 2 ^ 1100 \<le> B / 2 ^ 53" .
  moreover have "\<bar>dbl x - x\<bar> \<le> \<bar>x\<bar> / 2 ^ 53 + 1 / 2 ^ 1100" using dbl_error_any [of x] assms by linarith
  moreover have "\<bar>x\<bar> / 2 ^ 53 \<le> B / 2 ^ 53" using assms(1) by (rule divide_right_mono) simp
  ultimately have "\<bar>dbl x - x\<bar> \<le> B / 2 ^ 53 + B / 2 ^ 53" by (meson add_mono order_trans)
  then show ?thesis by simp
qed

lemma dbl_of_int: "\<bar>n\<bar> < 2 ^ 53 \<Longrightarrow> dbl (of_int n) = of_int n"
  using dbl_int [of n] dbl_int [of "- n"] dbl_minus [of "of_int n"] by (cases "0 \<le> n") simp_all

section \<open>Times\<close>

lemma gpst_roundtrip:
  assumes "0 \<le> w" "w < 65536" "0 \<le> t" "t < 604800"
  shows "time2gpst (gpst2time w (of_int t)) = (w, of_int t)" "gt_time (gpst2time w (of_int t)) = gpst0_time + 604800 * w + t"
    "gt_sec (gpst2time w (of_int t)) = 0"
proof -
  have "(of_int t :: rat) \<le> of_int 1000000000" using assms by (simp only: of_int_le_iff)
  then have r: "\<not> (of_int t :: rat) < -1000000000" "\<not> 1000000000 < (of_int t :: rat)" using assms(3) by simp_all
  have i: "int_of_dbl (of_int t) = t" using assms(3) by (simp add: int_of_dbl_def)
  show g: "gt_time (gpst2time w (of_int t)) = gpst0_time + 604800 * w + t" "gt_sec (gpst2time w (of_int t)) = 0"
    using r i by (simp_all add: gpst2time_def dsub_def)
  have d: "(604800 * w + t) sdiv 604800 = w" using assms by (simp add: signed_divide_int_def sgn_if)
  have m: "dmul (dmul (of_int w) 86400) 7 = of_int (604800 * w)"
    using dbl_of_int [of "w * 86400"] dbl_of_int [of "w * 86400 * 7"] assms by (simp add: dmul_def mult.commute)
  have "dsub (of_int (604800 * w + t)) (of_int (604800 * w)) = of_int t" "dbl (of_int t) = of_int t"
    using dbl_of_int [of t] assms by (simp_all add: dsub_def)
  then show "time2gpst (gpst2time w (of_int t)) = (w, of_int t)"
    using d m by (simp add: time2gpst_def g dadd_def)
qed

lemma thousandth: "\<bar>dbl (1 / 1000) - 1 / 1000\<bar> \<le> 1 / 1000 / 2 ^ 53"
proof -
  have "(1 :: rat) / 2 ^ 1000 \<le> 1 / 2 ^ 10" by (intro divide_left_mono power_increasing) auto
  then have "(1 :: rat) / 2 ^ 1000 \<le> 1 / 1000" by (rule order_trans) simp
  then show ?thesis by (rule dbl_error) simp
qed

lemma at_least_tiny: "1 \<le> (B :: rat) \<Longrightarrow> 1 / 2 ^ 1000 \<le> B"
  by (rule order_trans [of _ 1]) simp_all

text \<open>Milliseconds to seconds: within a few ten thousand millionths.\<close>

lemma ms_to_s:
  assumes "0 \<le> m" "m \<le> 604800000"
  shows "\<bar>dmul (of_int m) (dbl (1 / 1000)) - of_int m / 1000\<bar> \<le> 3 / 10000000000"
proof -
  have "(of_int m :: rat) \<le> of_int 604800000" using assms(2) by (simp only: of_int_le_iff)
  then have m: "0 \<le> (of_int m :: rat)" "(of_int m :: rat) \<le> 604800000" using assms(1) by simp_all
  define x where "x = of_int m * dbl (1 / 1000)"
  have "x - of_int m / 1000 = of_int m * (dbl (1 / 1000) - 1 / 1000)" by (simp add: x_def right_diff_distrib)
  then have "\<bar>x - of_int m / 1000\<bar> = of_int m * \<bar>dbl (1 / 1000) - 1 / 1000\<bar>" using m(1) by (simp add: abs_mult)
  also have "\<dots> \<le> 604800000 * (1 / 1000 / 2 ^ 53)" by (rule mult_mono) (use m thousandth in auto)
  also have "\<dots> \<le> 1 / 10000000000" by simp
  finally have e: "\<bar>x - of_int m / 1000\<bar> \<le> 1 / 10000000000" .
  then have "\<bar>x\<bar> \<le> 604801" using m by linarith
  then have "\<bar>dbl x - x\<bar> \<le> 604801 / 2 ^ 52" by (rule dbl_error_le) (simp, rule at_least_tiny, simp)
  also have "\<dots> \<le> 2 / 10000000000" by simp
  finally show ?thesis using e unfolding dmul_def x_def by linarith
qed

text \<open>The pseudorange of a channel that knows the week.\<close>

lemma gen_prng_close:
  assumes "week c = w" "0 < w" "w < 65536" "0 \<le> t" "t < 604800" "0 \<le> tow c" "tow c \<le> 604800000"
    and near: "\<bar>of_int t - of_int (tow c) / 1000\<bar> \<le> (1 :: rat)" "\<bar>ch_coff c\<bar> \<le> 1"
  shows "\<bar>gen_prng (gpst2time w (of_int t)) c - 299792458 * (of_int t - of_int (tow c) / 1000 + ch_coff c)\<bar> \<le> 1 / 10"
proof -
  let ?t = "dmul (of_int (tow c)) (dbl (1 / 1000))"
  define a where "a = dsub (of_int t) ?t"
  define b where "b = dadd a (ch_coff c)"
  have "0 \<le> w" using assms(2) by simp
  have tau: "gen_prng (gpst2time w (of_int t)) c = dmul 299792458 b"
    using gpst_roundtrip(1) [OF \<open>0 \<le> w\<close> assms(3-5)] assms(1,2,4,5) dbl_of_int [of t]
    by (simp add: gen_prng_def SPEED_OF_LIGHT_def a_def b_def dmul_def [of 0] dadd_def [of 0])
  have t: "\<bar>?t - of_int (tow c) / 1000\<bar> \<le> 3 / 10000000000" by (rule ms_to_s [OF assms(6,7)])
  have "\<bar>of_int t - ?t\<bar> \<le> 2" using t near(1) by linarith
  then have "\<bar>a - (of_int t - ?t)\<bar> \<le> 2 / 2 ^ 52" unfolding a_def dsub_def by (rule dbl_error_le) (simp, rule at_least_tiny, simp)
  also have "\<dots> \<le> 1 / 1000000000000" by simp
  finally have a: "\<bar>a - (of_int t - of_int (tow c) / 1000)\<bar> \<le> 301 / 1000000000000" using t by linarith
  then have "\<bar>a + ch_coff c\<bar> \<le> 3" using near by linarith
  then have "\<bar>b - (a + ch_coff c)\<bar> \<le> 3 / 2 ^ 52" unfolding b_def dadd_def by (rule dbl_error_le) (simp, rule at_least_tiny, simp)
  also have "\<dots> \<le> 1 / 1000000000000" by simp
  finally have b: "\<bar>b - (of_int t - of_int (tow c) / 1000 + ch_coff c)\<bar> \<le> 302 / 1000000000000" using a by linarith
  then have "\<bar>299792458 * b\<bar> \<le> 1000000000" using near by linarith
  then have "\<bar>dmul 299792458 b - 299792458 * b\<bar> \<le> 1000000000 / 2 ^ 52" unfolding dmul_def by (rule dbl_error_le) (simp, rule at_least_tiny, simp)
  also have "\<dots> \<le> 1 / 1000000" by simp
  finally have "\<bar>dmul 299792458 b - 299792458 * b\<bar> \<le> 1 / 1000000" .
  moreover define y where "y = of_int t - of_int (tow c) / 1000 + ch_coff c"
  ultimately show ?thesis using b unfolding tau y_def [symmetric] by linarith
qed

section \<open>Identifiers\<close>

lemma satid_afs_all: "list_all (\<lambda>p. satid2no (afs_sat_id p) = 182 + p) [1, 2, 3, 4, 5, 6, 7, 8, 9, 10, 11, 12]"
  by code_simp

lemma satid_afs:
  assumes "p \<in> {1..12}" shows "satid2no (afs_sat_id p) = 182 + p"
proof -
  have "p \<in> set [1, 2, 3, 4, 5, 6, 7, 8, 9, 10, 11, 12]" using assms unfolding set_simps insert_iff empty_iff atLeastAtMost_iff by presburger
  then show ?thesis using satid_afs_all unfolding list_all_iff by blast
qed

lemma satno_range: "0 \<le> satno sys p \<and> satno sys p \<le> 233"
  by (simp add: satno_def split: satsystem.split)

lemma satid2no_range: "0 \<le> satid2no s \<and> satid2no s \<le> 233"
  by (simp add: satid2no_def satno_range split: option.split list.split)

section \<open>The first epoch\<close>

text \<open>A number that is an integer up to a quarter of a unit in the last place rounds to it.\<close>

lemma dbl_snap:
  assumes "0 < q" "q < 2 ^ 50" "of_int q \<le> x" "x \<le> of_int q * (1 + 1 / 2 ^ 55)"
  shows "dbl x = of_int q"
proof -
  have q: "(of_int 1 :: rat) \<le> of_int q" "(of_int q :: rat) < of_int (2 ^ 50)" using assms(1,2) by (simp_all only: of_int_le_iff of_int_less_iff)
  have "1 / 2 ^ 1000 \<le> (of_int q :: rat)" using q(1) by (intro at_least_tiny) simp
  moreover have "(of_int q :: rat) < 2 ^ 53" using q(2) by (rule less_le_trans) simp
  ultimately obtain k where k: "2 ^ 52 \<le> (of_int q :: rat) * 2 ^ k" "(of_int q :: rat) * 2 ^ k < 2 ^ 53" "k < 1100" using scale_exists by blast
  define n where "n = q * 2 ^ k"
  have n: "(of_int n :: rat) = of_int q * 2 ^ k" by (simp add: n_def)
  have "(of_int n :: rat) < of_int (2 ^ 53)" using k(2) n by simp
  then have "n + 1 \<le> 2 ^ 53" by (simp only: of_int_less_iff)
  then have "(of_int (n + 1) :: rat) \<le> of_int (2 ^ 53)" by (simp only: of_int_le_iff)
  then have n53: "of_int n + 1 \<le> (2 :: rat) ^ 53" by simp
  have lo: "of_int n \<le> x * 2 ^ k" unfolding n using assms(3) by (rule mult_right_mono) simp
  have "x * 2 ^ k \<le> of_int q * (1 + 1 / 2 ^ 55) * 2 ^ k" using assms(4) by (rule mult_right_mono) simp
  also have "\<dots> = of_int n + of_int n / 2 ^ 55" unfolding n by (simp add: distrib_left distrib_right)
  finally have hi: "x * 2 ^ k \<le> of_int n + of_int n / 2 ^ 55" .
  have "of_int n / 2 ^ 55 \<le> (2 :: rat) ^ 53 / 2 ^ 55" using k(2) n by (intro divide_right_mono) auto
  also have "\<dots> = 1 / 4" by simp
  finally have "x * 2 ^ k \<le> of_int n + 1 / 4" using hi by linarith
  then have "dbl x = of_int n / 2 ^ k"
    by (intro dbl_near) (use lo k n n53 in linarith)+
  then show ?thesis by (simp add: n)
qed

lemma thousandth_value: "dbl (1 / 1000) = 4611686018427388 / 2 ^ 62"
  using dbl_near [of "1 / 1000" 62 4611686018427388] by simp

text \<open>Whole seconds are exact.\<close>

lemma ms_to_s_whole:
  assumes "0 \<le> q" "q < 604800" shows "dmul (of_int (1000 * q)) (dbl (1 / 1000)) = of_int q"
proof (cases "q = 0")
  case False
  then have "0 < q" using assms(1) by simp
  have q: "(of_int 0 :: rat) \<le> of_int q" using assms(1) by (simp only: of_int_le_iff)
  have v: "of_int (1000 * q) * dbl (1 / 1000) = of_int q * (1000 * 4611686018427388 / 2 ^ 62)" unfolding thousandth_value by simp
  have "of_int q * 1 \<le> (of_int q :: rat) * (1000 * 4611686018427388 / 2 ^ 62)" by (rule mult_left_mono) (use q in simp_all)
  moreover have "(of_int q :: rat) * (1000 * 4611686018427388 / 2 ^ 62) \<le> of_int q * (1 + 1 / 2 ^ 55)" by (rule mult_left_mono) (use q in simp_all)
  ultimately show ?thesis unfolding dmul_def v using \<open>0 < q\<close> assms(2) by (intro dbl_snap) auto
qed (simp add: dmul_def)

lemma floor_seconds:
  assumes "0 \<le> m" "m < 604800000" shows "\<lfloor>dmul (of_int m) (dbl (1 / 1000))\<rfloor> = m div 1000"
proof (cases "m mod 1000 = 0")
  case True
  then have "m = 1000 * (m div 1000)" using mult_div_mod_eq [of 1000 m] by simp
  moreover have "dmul (of_int (1000 * (m div 1000))) (dbl (1 / 1000)) = of_int (m div 1000)" by (rule ms_to_s_whole) (use assms in auto)
  ultimately show ?thesis by (metis floor_of_int)
next
  case False
  define q r where "q = m div 1000" and "r = m mod 1000"
  have r: "1 \<le> r" "r \<le> 999" "m = 1000 * q + r" using False pos_mod_bound [of 1000 m] pos_mod_sign [of 1000 m] by (auto simp: q_def r_def)
  have "1 \<le> (of_int r :: rat)" "(of_int r :: rat) \<le> 999" using r(1,2) by simp_all
  moreover have "\<bar>dmul (of_int m) (dbl (1 / 1000)) - of_int m / 1000\<bar> \<le> 3 / 10000000000" by (rule ms_to_s) (use assms in auto)
  moreover have "(of_int m :: rat) / 1000 = of_int q + of_int r / 1000" unfolding r(3) by simp
  ultimately show ?thesis unfolding floor_eq_iff q_def [symmetric] by (intro conjI) linarith+
qed

lemma cycle_value: "SDR_CYC = 4611686018427388 / 2 ^ 62"
  by (simp only: SDR_CYC_def thousandth_value)

lemma init_epoch_eq:
  assumes "week c = w" "0 < w" "w < 65536" "0 \<le> tow c" "tow c < 604799000" "conf = conf0 n"
  shows "init_epoch conf ix c s = s\<lparr>pvt_time := gpst2time w (of_int (tow c div 1000 + 1)), pvt_ix := (ix + (930 - tow c mod 1000)) sdiv 20 * 20\<rparr>"
proof -
  let ?t = "dmul (of_int (tow c)) (dbl (1 / 1000))"
  define q r where "q = tow c div 1000" and "r = tow c mod 1000"
  have q: "0 \<le> q" "q < 604799" using assms(4,5) by (auto simp: q_def)
  have r: "0 \<le> r" "r < 1000" "tow c = 1000 * q + r" by (simp_all add: q_def r_def)
  have rr: "0 \<le> (of_int r :: rat)" "(of_int r :: rat) \<le> 1000" and q1: "(of_int (q + 1) :: rat) = of_int q + 1" using r(1,2) by simp_all
  have tq: "(of_int (tow c) :: rat) / 1000 = of_int q + of_int r / 1000" unfolding r(3) by simp
  have "\<bar>?t - of_int (tow c) / 1000\<bar> \<le> 3 / 10000000000" by (rule ms_to_s) (use assms in auto)
  then have t: "\<bar>?t - (of_int q + of_int r / 1000)\<bar> \<le> 3 / 10000000000" unfolding tq .
  have "dbl ?t = ?t" unfolding dmul_def
  proof (rule dbl_idem)
    have "(of_int m :: rat) * dbl (1 / 1000) = 0 \<or> 1 / 2 ^ 900 \<le> \<bar>of_int m * dbl (1 / 1000)\<bar>" if "0 \<le> m" for m :: int
    proof (cases "m = 0")
      case False
      then have "(of_int 1 :: rat) \<le> of_int m" using that by simp
      then have "1 * (1 / 2 ^ 10) \<le> of_int m * dbl (1 / 1000)" unfolding thousandth_value by (intro mult_mono) simp_all
      moreover have "(1 :: rat) / 2 ^ 900 \<le> 1 / 2 ^ 10" by (intro divide_left_mono power_increasing) auto
      ultimately have "1 / 2 ^ 900 \<le> of_int m * dbl (1 / 1000)" unfolding mult_1 by (rule order_trans [rotated])
      then show ?thesis by (meson abs_ge_self order_trans)
    qed simp
    then show "of_int (tow c) * dbl (1 / 1000) = 0 \<or> 1 / 2 ^ 900 \<le> \<bar>of_int (tow c) * dbl (1 / 1000)\<bar>" using assms(4) .
    have "0 \<le> (of_int (tow c) :: rat)" "(of_int (tow c) :: rat) \<le> of_int 604799000" using assms(4,5) by (simp_all only: of_int_le_iff of_int_0_le_iff)
    then have "\<bar>of_int (tow c) * dbl (1 / 1000)\<bar> \<le> 604799000 * 1" unfolding thousandth_value abs_mult by (intro mult_mono) simp_all
    then show "\<bar>of_int (tow c) * dbl (1 / 1000)\<bar> \<le> 2 ^ 52" by (rule order_trans) simp
  qed
  then have "\<lfloor>ddiv ?t 1\<rfloor> = q" using floor_seconds [of "tow c"] assms(4,5) by (simp add: ddiv_def q_def)
  then have tw: "dadd (dmul (of_int \<lfloor>ddiv ?t 1\<rfloor>) 1) 1 = of_int (q + 1)"
    using dbl_of_int [of q] dbl_of_int [of "q + 1"] q by (simp add: dmul_def dadd_def)
  define a where "a = dsub (of_int (q + 1)) ?t"
  define b where "b = dsub a (dbl (7 / 100))"
  define z where "z = ddiv b SDR_CYC"
  have "\<bar>of_int (q + 1) - ?t\<bar> \<le> 2" using t rr q1 by linarith
  then have "\<bar>a - (of_int (q + 1) - ?t)\<bar> \<le> 2 / 2 ^ 52" unfolding a_def dsub_def by (rule dbl_error_le) (simp, rule at_least_tiny, simp)
  also have "\<dots> \<le> 1 / 1000000000000" by simp
  finally have a: "\<bar>a - (1 - of_int r / 1000)\<bar> \<le> 301 / 1000000000000" using t q1 by linarith
  have "\<bar>dbl (7 / 100) - 7 / 100\<bar> \<le> 1 / 2 ^ 52" by (rule dbl_error_le) (simp_all add: at_least_tiny)
  also have "\<dots> \<le> 1 / 1000000000000" by simp
  finally have s: "\<bar>dbl (7 / 100) - 7 / 100\<bar> \<le> 1 / 1000000000000" .
  have "\<bar>a - dbl (7 / 100)\<bar> \<le> 2" using a s rr by linarith
  then have "\<bar>b - (a - dbl (7 / 100))\<bar> \<le> 2 / 2 ^ 52" unfolding b_def dsub_def by (rule dbl_error_le) (simp, rule at_least_tiny, simp)
  also have "\<dots> \<le> 1 / 1000000000000" by simp
  finally have b: "\<bar>b - (93 / 100 - of_int r / 1000)\<bar> \<le> 303 / 1000000000000" using a s by linarith
  have "b / SDR_CYC = b * (2 ^ 62 / 4611686018427388)" unfolding cycle_value by simp
  moreover have "\<bar>b * (2 ^ 62 / 4611686018427388) - b * 1000\<bar> \<le> 1 / 1000000"
  proof -
    have "\<bar>b\<bar> \<le> 2" using b rr by linarith
    have "\<bar>b * (2 ^ 62 / 4611686018427388 - 1000)\<bar> = \<bar>b\<bar> * \<bar>2 ^ 62 / 4611686018427388 - 1000\<bar>" by (rule abs_mult)
    also have "\<dots> \<le> 2 * (1 / 2000000)" by (rule mult_mono) (use \<open>\<bar>b\<bar> \<le> 2\<close> in simp_all)
    finally show ?thesis by (simp only: right_diff_distrib)
  qed
  ultimately have d: "\<bar>b / SDR_CYC - (930 - of_int r)\<bar> \<le> 2 / 1000000" using b by linarith
  then have "\<bar>b / SDR_CYC\<bar> \<le> 1000" using rr by linarith
  then have "\<bar>z - b / SDR_CYC\<bar> \<le> 1000 / 2 ^ 52" unfolding z_def ddiv_def by (rule dbl_error_le) (simp, rule at_least_tiny, simp)
  also have "\<dots> \<le> 1 / 1000000" by simp
  finally have z: "\<bar>z - (930 - of_int r)\<bar> \<le> 3 / 1000000" using d by linarith
  then have "\<bar>z + 1 / 2\<bar> \<le> 1000" using rr by linarith
  then have "\<bar>dadd z (1 / 2) - (z + 1 / 2)\<bar> \<le> 1000 / 2 ^ 52" unfolding dadd_def by (rule dbl_error_le) (simp, rule at_least_tiny, simp)
  also have "\<dots> \<le> 1 / 1000000" by simp
  finally have "\<lfloor>dadd z (1 / 2)\<rfloor> = 930 - r" using z unfolding floor_eq_iff of_int_diff of_int_numeral by (intro conjI) linarith+
  then have "ROUND z = 930 - r" by (simp only: ROUND_def)
  then show ?thesis using assms(1,2,6) tw
    unfolding init_epoch_def Let_def by (simp add: conf0_def z_def b_def a_def q_def r_def)
qed

end
