(* ===== verification/Sdr_Pvt_Inv.thy ===== *)
theory Sdr_Pvt_Inv
  imports Sdr_Pvt_Lemmas
begin

text \<open>
  The table of observations never holds a satellite twice, and so has room for every satellite that
  RTKLIB knows: the invariant of the component, its steps, and an epoch of AFS satellites from the first
  channel to the solution.
\<close>

section \<open>The invariant\<close>

definition obs_wf :: "obsd_t \<Rightarrow> bool" where
  "obs_wf d \<longleftrightarrow> 1 \<le> obs_sat d \<and> obs_sat d \<le> 233 \<and> length (obs_SNR d) = 11 \<and> length (obs_LLI d) = 11 \<and> length (obs_code d) = 11 \<and>
     length (obs_L d) = 11 \<and> length (obs_P d) = 11"

definition table_ok :: "obsd_t list \<Rightarrow> bool" where
  "table_ok obs \<longleftrightarrow> distinct (map obs_sat obs) \<and> (\<forall>d \<in> set obs. obs_wf d)"

definition pvt_ok :: "'n sdr_pvt_t \<Rightarrow> bool" where
  "pvt_ok s \<longleftrightarrow> table_ok (pvt_obs s) \<and> length (pvt_eph s) = 12"

text \<open>RTKLIB has a frequency for the code of the channel's signal, or it is an AFS signal.\<close>

definition code_known :: "(satsystem \<Rightarrow> nat \<Rightarrow> int) \<Rightarrow> pvt_ch \<Rightarrow> bool" where
  "code_known code2idx c \<longleftrightarrow> CODE_L9D \<le> sig2code (ch_sig c) \<or>
     (let i = code2idx (fst (satsys (satid2no (ch_sat c)))) (sig2code (ch_sig c)) in 0 \<le> i \<and> i < 11)"

lemma table_length:
  assumes "table_ok obs" shows "length obs \<le> 233"
proof -
  have "set (map obs_sat obs) \<subseteq> {1..233}" using assms by (auto simp: table_ok_def obs_wf_def)
  from card_mono [OF _ this] have "card (set (map obs_sat obs)) \<le> 233" by simp
  moreover have "card (set (map obs_sat obs)) = length obs" using distinct_card [of "map obs_sat obs"] assms by (simp add: table_ok_def)
  ultimately show ?thesis by simp
qed

lemma find_index:
  fixes obs :: "obsd_t list" and sat :: int
  defines "i \<equiv> length (takeWhile (\<lambda>d. obs_sat d \<noteq> sat) obs)"
  shows "i < length obs \<and> obs_sat (obs ! i) = sat \<or> i = length obs \<and> sat \<notin> set (map obs_sat obs)"
proof (cases "sat \<in> set (map obs_sat obs)")
  case True
  have "i < length obs"
  proof (rule ccontr)
    assume "\<not> i < length obs"
    then have "takeWhile (\<lambda>d. obs_sat d \<noteq> sat) obs = obs" using takeWhile_eq_take [of "\<lambda>d. obs_sat d \<noteq> sat" obs] by (simp add: i_def)
    then show False using True by (auto simp: takeWhile_eq_all_conv)
  qed
  then show ?thesis using nth_length_takeWhile [of "\<lambda>d. obs_sat d \<noteq> sat" obs] unfolding i_def by blast
next
  case False
  then have "takeWhile (\<lambda>d. obs_sat d \<noteq> sat) obs = obs" by (auto simp: takeWhile_eq_all_conv)
  then have "i = length obs" unfolding i_def by (simp only:)
  then show ?thesis using False by blast
qed

lemma find_none:
  assumes "sat \<notin> set (map obs_sat obs)" shows "length (takeWhile (\<lambda>d. obs_sat d \<noteq> sat) obs) = length obs"
proof -
  have "takeWhile (\<lambda>d. obs_sat d \<noteq> sat) obs = obs" using assms by (auto simp: takeWhile_eq_all_conv)
  then show ?thesis by (simp only:)
qed

lemma new_obs_fields: "obs_sat (new_obs time sat) = sat" "obs_code (new_obs time sat) = replicate 11 0" "obs_time (new_obs time sat) = time"
  by (simp_all add: new_obs_def)

lemma new_obs_wf: "1 \<le> sat \<Longrightarrow> sat \<le> 233 \<Longrightarrow> obs_wf (new_obs time sat)"
  by (simp add: obs_wf_def new_obs_def)

lemma set_obs_fields:
  "obs_sat (set_obs j code P c d) = obs_sat d" "obs_time (set_obs j code P c d) = obs_time d"
  "obs_code (set_obs j code P c d) = (obs_code d)[j := code]" "obs_P (set_obs j code P c d) = (obs_P d)[j := P]"
  by (simp_all add: set_obs_def Let_def)

lemma set_obs_wf: "obs_wf d \<Longrightarrow> obs_wf (set_obs j code P c d)"
  by (simp add: obs_wf_def set_obs_def Let_def)

lemma table_snoc:
  "table_ok obs \<Longrightarrow> 1 \<le> sat \<Longrightarrow> sat \<le> 233 \<Longrightarrow> sat \<notin> set (map obs_sat obs) \<Longrightarrow> table_ok (obs @ [new_obs time sat])"
  by (auto simp: table_ok_def new_obs_fields new_obs_wf)

lemma table_update:
  assumes "table_ok obs" "i < length obs" shows "table_ok (obs[i := set_obs j code P c (obs ! i)])"
proof -
  have "map obs_sat (obs[i := set_obs j code P c (obs ! i)]) = map obs_sat obs"
    using assms(2) by (simp add: map_update set_obs_fields list_update_same_conv)
  moreover have "set (obs[i := set_obs j code P c (obs ! i)]) \<subseteq> insert (set_obs j code P c (obs ! i)) (set obs)" by (rule set_update_subset_insert)
  ultimately show ?thesis using assms set_obs_wf [of "obs ! i"] unfolding table_ok_def by auto
qed

lemma data_idx_known:
  assumes "obs_wf d" "CODE_L9D \<le> code \<or> 0 \<le> code2idx (fst (satsys sat)) code \<and> code2idx (fst (satsys sat)) code < 11"
  shows "\<exists>j. data_idx code2idx sat d code = Inr j"
  using assms by (auto simp: data_idx_def arr_at_def Let_def obs_wf_def split: option.split)

text \<open>One update of the table.\<close>

lemma update_obs_table:
  assumes "table_ok obs"
  shows "update_obs code2idx time c obs = Inr obs' \<Longrightarrow> table_ok obs'"
    "code_known code2idx c \<Longrightarrow> \<exists>obs'. update_obs code2idx time c obs = Inr obs'"
proof -
  let ?sat = "satid2no (ch_sat c)" and ?code = "sig2code (ch_sig c)"
  let ?i = "length (takeWhile (\<lambda>d. obs_sat d \<noteq> ?sat) obs)"
  let ?obs = "if ?i \<ge> length obs then obs @ [new_obs time ?sat] else obs"
  have t: "table_ok ?obs \<and> ?i < length ?obs" if "?sat \<noteq> 0"
    using find_index [of ?sat obs] table_snoc [OF assms, of ?sat time] satid2no_range [of "ch_sat c"] that assms by auto
  have i: "?i < MAXSAT" if "?sat \<noteq> 0" using table_length t [OF that] unfolding MAXSAT_def by (meson less_le_trans)
  show "table_ok obs'" if "update_obs code2idx time c obs = Inr obs'"
    using that t i assms table_update [of ?obs ?i] by (auto simp: update_obs_def Let_def split: if_splits sum.splits)
  show "\<exists>obs'. update_obs code2idx time c obs = Inr obs'" if k: "code_known code2idx c"
  proof (cases "?sat = 0")
    case False
    have "obs_wf (?obs ! ?i)" using t [OF False] nth_mem [of ?i ?obs] unfolding table_ok_def by blast
    then obtain j where "data_idx code2idx ?sat (?obs ! ?i) ?code = Inr j"
      using data_idx_known [of "?obs ! ?i" ?code code2idx ?sat] k unfolding code_known_def Let_def by blast
    then show ?thesis using i [OF False] unfolding update_obs_def Let_def by simp
  qed (simp add: update_obs_def Let_def)
qed

lemma init_epoch_obs [simp]: "pvt_obs (init_epoch conf ix c s) = pvt_obs s" "pvt_eph (init_epoch conf ix c s) = pvt_eph s"
  by (simp_all add: init_epoch_def Let_def)

lemma udobs_ok:
  assumes "pvt_ok s"
  shows "sdr_pvt_udobs code2idx conf ix c s = Inr s' \<Longrightarrow> pvt_ok s'"
    "code_known code2idx c \<Longrightarrow> \<exists>s'. sdr_pvt_udobs code2idx conf ix c s = Inr s'"
proof -
  let ?s = "if pvt_ix s \<le> 0 then init_epoch conf ix c s else s"
  have s: "pvt_ok ?s" using assms by (simp add: pvt_ok_def)
  show "pvt_ok s'" if "sdr_pvt_udobs code2idx conf ix c s = Inr s'"
    using that s update_obs_table(1) [of "pvt_obs ?s" code2idx "pvt_time ?s" c] unfolding sdr_pvt_udobs_def Let_def
    by (cases "update_obs code2idx (pvt_time ?s) c (pvt_obs ?s)") (auto simp: pvt_ok_def split: if_splits)
  show "\<exists>s'. sdr_pvt_udobs code2idx conf ix c s = Inr s'" if "code_known code2idx c"
    using update_obs_table(2) [OF _ that, of "pvt_obs ?s" "pvt_time ?s"] s unfolding sdr_pvt_udobs_def Let_def pvt_ok_def by auto
qed

section \<open>The steps\<close>

lemma nav_message_keeps [simp]:
  "pvt_obs (nav_message dcd mark typ pos c s) = pvt_obs s" "pvt_eph (nav_message dcd mark typ pos c s) = pvt_eph s"
  by (simp_all add: nav_message_def split: prod.split)

lemma decode_afs_frame_length: "decode_afs_frame L buff p tab = Some (tab', r) \<Longrightarrow> length tab' = length tab"
  by (auto simp: decode_afs_frame_def Let_def split: if_splits bind_splits)

lemma udnav_ok:
  assumes "pvt_ok s" "sdr_pvt_udnav L R c s = Inr s'" shows "pvt_ok s'"
  using assms decode_afs_frame_length
  by (fastforce simp: sdr_pvt_udnav_def pvt_ok_def Let_def split: prod.splits if_splits option.splits)

lemma next_epoch_keeps [simp]: "pvt_obs (next_epoch conf s) = []" "pvt_eph (next_epoch conf s) = pvt_eph s" "pvt_nch (next_epoch conf s) = 0"
  "pvt_time (next_epoch conf s) = rtk_timeadd (pvt_time s) (sdr_epoch conf)" "pvt_sol (next_epoch conf s) = pvt_sol s"
  by (simp_all add: next_epoch_def Let_def)

lemma update_sol_keeps [simp]: "pvt_eph (update_sol pntpos s) = pvt_eph s"
  by (simp add: update_sol_def Let_def split: prod.split)

lemma map_sum_Inr: "map_sum id f x = Inr y \<longleftrightarrow> (\<exists>z. x = Inr z \<and> y = f z)"
  by (cases x) auto

lemma udsol_ok:
  assumes "pvt_ok s" "sdr_pvt_udsol L pntpos conf ix s = Inr s'" shows "pvt_ok s'"
  using assms by (auto simp: sdr_pvt_udsol_def pvt_ok_def table_ok_def Let_def map_sum_Inr split: if_splits)

text \<open>What the receiver's threads can do to the component: \<open>c\<close> is any channel, \<open>ix\<close> any cycle.\<close>

inductive pvt_reach :: "libm \<Rightarrow> (satsystem \<Rightarrow> nat \<Rightarrow> int) \<Rightarrow> 'n rtk_decoders \<Rightarrow> (obsd_t list \<Rightarrow> 'n \<Rightarrow> pvt_sol \<Rightarrow> bool \<times> pvt_sol) \<Rightarrow> pvt_conf \<Rightarrow>
    'n sdr_pvt_t \<Rightarrow> bool" for L code2idx R pntpos conf where
  new: "pvt_reach L code2idx R pntpos conf (sdr_pvt_new n)"
| udobs: "pvt_reach L code2idx R pntpos conf s \<Longrightarrow> sdr_pvt_udobs code2idx conf ix c s = Inr s' \<Longrightarrow> pvt_reach L code2idx R pntpos conf s'"
| udnav: "pvt_reach L code2idx R pntpos conf s \<Longrightarrow> sdr_pvt_udnav L R c s = Inr s' \<Longrightarrow> pvt_reach L code2idx R pntpos conf s'"
| udsol: "pvt_reach L code2idx R pntpos conf s \<Longrightarrow> sdr_pvt_udsol L pntpos conf ix s = Inr s' \<Longrightarrow> pvt_reach L code2idx R pntpos conf s'"

lemma pvt_new_ok: "pvt_ok (sdr_pvt_new n)"
  by (simp add: pvt_ok_def table_ok_def sdr_pvt_new_def MAX_SAT_def)

lemma pvt_reach_ok: "pvt_reach L code2idx R pntpos conf s \<Longrightarrow> pvt_ok s"
proof (induction rule: pvt_reach.induct)
  case (udobs s ix c s')
  show ?case by (rule udobs_ok(1) [OF udobs.IH udobs.hyps(2)])
next
  case (udnav s c s')
  show ?case by (rule udnav_ok [OF udnav.IH udnav.hyps(2)])
next
  case (udsol s ix s')
  show ?case by (rule udsol_ok [OF udsol.IH udsol.hyps(2)])
qed (rule pvt_new_ok)

section \<open>An epoch of AFS satellites\<close>

text \<open>The channels hand in their observations one after the other, in any order.\<close>

fun udobs_all :: "(satsystem \<Rightarrow> nat \<Rightarrow> int) \<Rightarrow> pvt_conf \<Rightarrow> int \<Rightarrow> pvt_ch list \<Rightarrow> 'n sdr_pvt_t \<Rightarrow> pvt_err + 'n sdr_pvt_t" where
  "udobs_all code2idx conf ix [] s = Inr s"
| "udobs_all code2idx conf ix (c # cs) s = (case sdr_pvt_udobs code2idx conf ix c s of Inl err \<Rightarrow> Inl err | Inr s \<Rightarrow> udobs_all code2idx conf ix cs s)"

text \<open>A channel that tracks the data signal of an AFS satellite and has a pseudorange.\<close>

definition afs_ready :: "gtime_t \<Rightarrow> pvt_ch \<Rightarrow> bool" where
  "afs_ready time c \<longleftrightarrow> ch_sig c = ''AFSD'' \<and> (\<exists>p \<in> {1..12}. ch_sat c = afs_sat_id p) \<and> ch_state c = SDR_STATE_LOCK \<and>
     0 \<le> tow c \<and> 0 < tow_v c \<and> 0 < fsync (ch_nav c) \<and> 0 < gen_prng time c"

definition afs_observation :: "gtime_t \<Rightarrow> pvt_ch \<Rightarrow> obsd_t" where
  "afs_observation time c = set_obs 0 CODE_L9D (gen_prng time c) c (new_obs time (satid2no (ch_sat c)))"

lemma afs_id_string:
  assumes "p \<in> {1..12}" shows "\<not> occurs ''R-'' (afs_sat_id p)" "\<not> occurs ''R+'' (afs_sat_id p)"
proof -
  have "list_all (\<lambda>p. \<not> occurs ''R-'' (afs_sat_id p) \<and> \<not> occurs ''R+'' (afs_sat_id p)) [1, 2, 3, 4, 5, 6, 7, 8, 9, 10, 11, 12]"
    by code_simp
  moreover have "p \<in> set [1, 2, 3, 4, 5, 6, 7, 8, 9, 10, 11, 12]"
    using assms unfolding set_simps insert_iff empty_iff atLeastAtMost_iff by presburger
  ultimately show "\<not> occurs ''R-'' (afs_sat_id p)" "\<not> occurs ''R+'' (afs_sat_id p)" unfolding list_all_iff by blast+
qed

lemma sig2code_afsd: "sig2code ''AFSD'' = 80"
  by (simp add: sig2code_def sig_codes_def CODE_L9D_def)

lemma afs_ready_sat: "afs_ready time c \<Longrightarrow> 183 \<le> satid2no (ch_sat c) \<and> satid2no (ch_sat c) \<le> 194"
  using satid_afs by (auto simp: afs_ready_def)

lemma update_obs_afs:
  assumes "afs_ready time c" "satid2no (ch_sat c) \<notin> set (map obs_sat obs)" "length obs < 233"
  shows "update_obs code2idx time c obs = Inr (obs @ [afs_observation time c])"
proof -
  let ?sat = "satid2no (ch_sat c)"
  have sat: "?sat \<noteq> 0" using afs_ready_sat [OF assms(1)] by simp
  have i: "length (takeWhile (\<lambda>d. obs_sat d \<noteq> ?sat) obs) = length obs" by (rule find_none [OF assms(2)])
  have r: "\<not> occurs ''R-'' (ch_sat c)" "\<not> occurs ''R+'' (ch_sat c)" "ch_sig c = ''AFSD''" "0 < gen_prng time c"
    using assms(1) afs_id_string by (auto simp: afs_ready_def)
  show ?thesis unfolding update_obs_def Let_def i using sat r assms(3)
    by (simp add: sig2code_afsd data_idx_def CODE_L9D_def MAXSAT_def afs_observation_def)
qed

lemma afs_observation_fields:
  assumes "afs_ready time c"
  shows "afs_obs (afs_observation time c)" "obs_sat (afs_observation time c) = satid2no (ch_sat c)" "obs_time (afs_observation time c) = time"
    "obs_code (afs_observation time c) = 80 # replicate 10 0" "obs_P (afs_observation time c) ! 0 = gen_prng time c"
proof -
  have r: "replicate 11 (0 :: nat) = 0 # replicate 10 0" by (simp add: numeral_eq_Suc)
  show code: "obs_code (afs_observation time c) = 80 # replicate 10 0"
    by (simp add: afs_observation_def set_obs_fields new_obs_fields CODE_L9D_def r)
  show "obs_sat (afs_observation time c) = satid2no (ch_sat c)" "obs_time (afs_observation time c) = time"
    by (simp_all add: afs_observation_def set_obs_fields new_obs_fields)
  then have "fst (satsys (obs_sat (afs_observation time c))) = SYS_LEO" using afs_ready_sat [OF assms] by (simp add: satsys_def)
  moreover have "first_code (obs_code (afs_observation time c)) \<noteq> None" unfolding code by (simp add: first_code_def upt_conv_Cons)
  ultimately show "afs_obs (afs_observation time c)" by (simp add: afs_obs_def)
  show "obs_P (afs_observation time c) ! 0 = gen_prng time c" by (simp add: afs_observation_def set_obs_fields new_obs_def)
qed

lemma udobs_all_afs:
  assumes "0 < pvt_ix s" "\<forall>c \<in> set cs. afs_ready (pvt_time s) c" "distinct (map obs_sat (pvt_obs s) @ map (\<lambda>c. satid2no (ch_sat c)) cs)"
    "length (pvt_obs s) + length cs \<le> 233"
  shows "udobs_all code2idx conf (pvt_ix s) cs s =
    Inr (s\<lparr>pvt_obs := pvt_obs s @ map (afs_observation (pvt_time s)) cs, pvt_nch := pvt_nch s + int (length cs)\<rparr>)"
  using assms
proof (induction cs arbitrary: s)
  case (Cons c cs)
  let ?s = "s\<lparr>pvt_obs := pvt_obs s @ [afs_observation (pvt_time s) c], pvt_nch := pvt_nch s + 1\<rparr>"
  have c: "afs_ready (pvt_time s) c" using Cons.prems(2) by simp
  have u: "update_obs code2idx (pvt_time s) c (pvt_obs s) = Inr (pvt_obs s @ [afs_observation (pvt_time s) c])"
    by (rule update_obs_afs [OF c]) (use Cons.prems(3,4) in auto)
  have "sdr_pvt_udobs code2idx conf (pvt_ix s) c s = Inr ?s"
    using Cons.prems(1) c u by (simp add: sdr_pvt_udobs_def Let_def afs_ready_def)
  moreover have "udobs_all code2idx conf (pvt_ix ?s) cs ?s =
      Inr (?s\<lparr>pvt_obs := pvt_obs ?s @ map (afs_observation (pvt_time ?s)) cs, pvt_nch := pvt_nch ?s + int (length cs)\<rparr>)"
    by (rule Cons.IH) (use Cons.prems afs_observation_fields(2) [OF c] in auto)
  ultimately show ?case by simp
qed simp

lemma res_obs_leo: "\<forall>d \<in> set obs. afs_obs d \<Longrightarrow> SYS_LEO \<notin> set systems \<Longrightarrow> res_obs_amb systems code sec obs = obs"
  unfolding res_obs_amb_def by (rule map_idI) (auto simp: afs_obs_def)

lemma resolve_obs_afs: "\<forall>d \<in> set obs. afs_obs d \<Longrightarrow> resolve_obs obs = obs"
  by (simp add: resolve_obs_def res_obs_leo)

lemma afs_distinct:
  assumes "\<forall>c \<in> set cs. afs_ready time c" "distinct (map ch_sat cs)"
  shows "distinct (map (\<lambda>c. satid2no (ch_sat c)) cs)"
proof -
  have "inj_on satid2no (ch_sat ` set cs)"
  proof (rule inj_onI)
    fix a b assume "a \<in> ch_sat ` set cs" "b \<in> ch_sat ` set cs" and eq: "satid2no a = satid2no b"
    then obtain p q where "p \<in> {1..12}" "a = afs_sat_id p" "q \<in> {1..12}" "b = afs_sat_id q" using assms(1) unfolding afs_ready_def by blast
    then show "a = b" using eq satid_afs by auto
  qed
  then have "distinct (map satid2no (map ch_sat cs))" using assms(2) by (simp only: distinct_map set_map simp_thms)
  then show ?thesis by (simp add: comp_def)
qed

lemma afs_at_most_12:
  assumes "\<forall>c \<in> set cs. afs_ready time c" "distinct (map ch_sat cs)" shows "length cs \<le> 12"
proof -
  have "set (map (\<lambda>c. satid2no (ch_sat c)) cs) \<subseteq> {183..194}" using assms(1) afs_ready_sat by fastforce
  from card_mono [OF _ this] have "card (set (map (\<lambda>c. satid2no (ch_sat c)) cs)) \<le> 12" by simp
  then show ?thesis using distinct_card [OF afs_distinct [OF assms]] by simp
qed

lemma udsol_afs:
  assumes "epoch_due conf ix s" "\<exists>d \<in> set (pvt_obs s). obs_code d ! 0 = CODE_L9D" "\<forall>d \<in> set (pvt_obs s). afs_obs d"
    "update_sol_afs L (pvt_eph s) (obs_time (pvt_obs s ! 0)) (pvt_obs s) (pvt_sol s) = Inr sol"
  shows "\<exists>s2. sdr_pvt_udsol L pntpos conf ix s = Inr s2 \<and> pvt_obs s2 = [] \<and> pvt_nch s2 = 0 \<and> pvt_eph s2 = pvt_eph s \<and>
    pvt_time s2 = rtk_timeadd (pvt_time s) (sdr_epoch conf) \<and> pvt_sol s2 = sol"
proof -
  have "pvt_obs s \<noteq> []" using assms(2) by auto
  then show ?thesis using assms resolve_obs_afs [OF assms(3)] unfolding sdr_pvt_udsol_def Let_def by (auto simp: map_sum_Inr)
qed

section \<open>An observation without a code\<close>

lemma read_obs_none:
  "read_obs eph obs nsat arr = Inr (n', arr') \<Longrightarrow> nsat \<le> n' \<and> length arr' = length arr \<and> (\<forall>i \<ge> n'. arr' ! i = arr ! i)"
proof (induction eph obs nsat arr rule: read_obs.induct)
  case (2 eph d ds nsat arr)
  then show ?case by (fastforce simp: Let_def split: option.splits if_splits)
qed simp

lemma predict_unset:
  "predict L eph g r dt arr is = Inr rows \<Longrightarrow> i < length arr \<Longrightarrow> arr ! i = None \<Longrightarrow> predict L eph g r dt arr (is @ [i]) = Inl Uninitialised"
proof (induction "is" arbitrary: rows)
  case (Cons a "is")
  obtain e sr rest where "arr_at arr (int a) = Some e" "predict_row L eph g r dt e = Inr sr" "predict L eph g r dt arr is = Inr rest"
    using Cons.prems(1) by (auto simp: map_sum_Inr split: option.splits sum.splits)
  then show ?case using Cons.IH [of rest] Cons.prems(2,3) by simp
qed (simp add: arr_at_def predict_row_def)

lemma codeless_uninitialised:
  assumes "length eph = 12" "kepler_ends L eph" "\<forall>d \<in> set obs. afs_obs d" "length obs < 12" "3 \<le> length (filter (has_eph eph) obs)"
    "snd (satsys (obs_sat d)) = p" "1 \<le> p" "p \<le> 12" "first_code (obs_code d) = None" "eph_vflg (eph ! nat (p - 1)) = 1"
  shows "update_sol_afs L eph t0 (obs @ [d]) s = Inl Uninitialised"
proof -
  let ?n = "length (filter (has_eph eph) obs)"
  have "length obs \<le> 12" using assms(4) by simp
  then obtain arr where arr: "read_obs eph obs 0 (replicate MAX_SAT None) = Inr (?n, arr)" "length arr = 12"
    "\<And>i. i < ?n \<Longrightarrow> arr ! i = Some (obs_entry (filter (has_eph eph) obs ! i))"
    using read_afs_obs [OF assms(1,3)] by blast
  have n: "?n < 12" using assms(4) by (rule le_less_trans [OF length_filter_le])
  then have none: "arr ! ?n = None" using read_obs_none [OF arr(1)] by (simp add: MAX_SAT_def)
  have read: "read_obs eph (obs @ [d]) 0 (replicate MAX_SAT None) = Inr (?n + 1, arr)"
    unfolding read_obs_append arr(1) using assms(1,6-10) by (simp add: arr_at_def)
  obtain w tw where w: "time2gpst t0 = (w, tw)" by fastforce
  let ?g = "\<lparr>gps_week = w, gps_sec = tw\<rparr>" and ?r = "(0, 0, - R_MOON)"
  have "\<exists>p x. arr ! i = Some (p, x) \<and> 1 \<le> p \<and> p \<le> 12" if "i < ?n" for i
    using arr(3) [OF that] nth_mem [OF that] assms(3) satsys_leo by (simp add: obs_entry_def afs_obs_def)
  then have "\<forall>i \<in> set [0..<?n]. i < length arr \<and> (\<exists>p x. arr ! i = Some (p, x) \<and> 1 \<le> p \<and> p \<le> 12)" using n arr(2) by simp
  from predict_ok [OF assms(1,2) this, of ?g ?r 0] obtain rows where "predict L eph ?g ?r 0 arr [0..<?n] = Inr rows" by blast
  from predict_unset [OF this, of ?n] have "predict L eph ?g ?r 0 arr [0..<?n + 1] = Inl Uninitialised" using n arr(2) none by simp
  then have "pvt_iters 4 L dbl_arith eph ?g arr (?n + 1) dops (?r, 0) = Inl Uninitialised" for dops
    by (simp add: numeral_eq_Suc pvt_iter_def)
  then show ?thesis using read w assms(5) by (simp add: update_sol_afs_def Let_def)
qed

end
