(* ===== verification/Sdr_Pvt_Flight.thy ===== *)
theory Sdr_Pvt_Flight
  imports Sdr_Pvt_Lemmas
begin

text \<open>
  The pseudorange in every branch of \<open>gen_prng\<close>: the rounding of the time of flight, and the resolution of the
  ambiguity of a hundred milliseconds.
\<close>

section \<open>Rounding\<close>

lemma dbl_add_error:
  assumes "\<bar>x - y\<bar> \<le> e" "\<bar>y\<bar> + e \<le> B" "1 \<le> B" "B < 9007199254740992"
  shows "\<bar>dbl x - y\<bar> \<le> e + B / 2 ^ 52"
proof -
  have "\<bar>x\<bar> \<le> B" using assms(1,2) by linarith
  then have "\<bar>dbl x - x\<bar> \<le> B / 2 ^ 52" using assms(3,4) at_least_tiny by (intro dbl_error_le) auto
  then show ?thesis using assms(1) by linarith
qed

lemma tenth_double: "\<bar>dbl (1 / 10) - 1 / 10\<bar> \<le> 1 / 2 ^ 56" "\<bar>dbl (5 / 100) - 5 / 100\<bar> \<le> 1 / 2 ^ 56" "0 < dbl (1 / 10)"
proof -
  have t: "(1 :: rat) / 2 ^ 1000 \<le> 1 / 2 ^ 10" by (intro divide_left_mono power_increasing) auto
  have "\<bar>dbl (1 / 10) - 1 / 10\<bar> \<le> (1 / 10) / 2 ^ 53" by (rule dbl_error) (rule order_trans [OF t], simp_all)
  also have "\<dots> \<le> 1 / 2 ^ 56" by simp
  finally show a: "\<bar>dbl (1 / 10) - 1 / 10\<bar> \<le> 1 / 2 ^ 56" .
  have "\<bar>dbl (5 / 100) - 5 / 100\<bar> \<le> (5 / 100) / 2 ^ 53" by (rule dbl_error) (rule order_trans [OF t], simp_all)
  also have "\<dots> \<le> 1 / 2 ^ 56" by simp
  finally show "\<bar>dbl (5 / 100) - 5 / 100\<bar> \<le> 1 / 2 ^ 56" .
  show "0 < dbl (1 / 10)" using abs_le_D2 [OF a] by simp
qed

section \<open>The time of flight\<close>

lemma flight_time:
  assumes "0 \<le> tow c" "tow c \<le> 604800000" "\<bar>x\<bar> \<le> 1500000" "\<bar>o1\<bar> \<le> 1"
  shows "\<bar>dadd (dsub x (dmul (of_int (tow c)) (dbl (1 / 1000)))) o1 - (x - of_int (tow c) / 1000 + o1)\<bar> \<le> 15 / 10000000000"
proof -
  let ?t = "dmul (of_int (tow c)) (dbl (1 / 1000))"
  have t: "\<bar>?t - of_int (tow c) / 1000\<bar> \<le> 3 / 10000000000" by (rule ms_to_s [OF assms(1,2)])
  have tw: "0 \<le> (of_int (tow c) / 1000 :: rat)" "of_int (tow c) / 1000 \<le> (604800 :: rat)"
    using assms(1,2) by simp_all
  have "\<bar>dsub x ?t - (x - of_int (tow c) / 1000)\<bar> \<le> 3 / 10000000000 + 2200000 / 2 ^ 52"
    unfolding dsub_def by (rule dbl_add_error) (use t tw assms(3) in linarith)+
  also have "\<dots> \<le> 8 / 10000000000" by simp
  finally have a: "\<bar>dsub x ?t - (x - of_int (tow c) / 1000)\<bar> \<le> 8 / 10000000000" .
  have "\<bar>dadd (dsub x ?t) o1 - (x - of_int (tow c) / 1000 + o1)\<bar> \<le> 8 / 10000000000 + 2200000 / 2 ^ 52"
    unfolding dadd_def by (rule dbl_add_error) (use a tw assms(3,4) in linarith)+
  also have "\<dots> \<le> 15 / 10000000000" by simp
  finally show ?thesis .
qed

text \<open>\<open>tau -= floor(tau / 0.1) * 0.1; if (tau < 0.05) tau += 0.1\<close>.\<close>

lemma hundred_ms:
  assumes "\<bar>u\<bar> \<le> 1300000"
  defines "d \<equiv> dbl (1 / 10)"
  defines "v \<equiv> dsub u (dmul (of_int \<lfloor>ddiv u d\<rfloor>) d)"
  defines "r \<equiv> (if v < dbl (5 / 100) then dadd v d else v)"
  shows "\<exists>k :: int. \<bar>r - (u - of_int k / 10)\<bar> \<le> 1 / 1000000000" "49999999 / 1000000000 \<le> r" "r \<le> 150000001 / 1000000000"
proof -
  note d = tenth_double [folded d_def]
  note db = abs_le_D1 [OF d(1)] abs_le_D2 [OF d(1)] abs_le_D1 [OF d(2)] abs_le_D2 [OF d(2)]
  define q where "q = ddiv u d"
  define k where "k = \<lfloor>q\<rfloor>"
  have "u / d - u * 10 = u * 10 * (1 / 10 - d) / d" using d(3) by (simp add: field_simps)
  then have "\<bar>u / d - u * 10\<bar> = \<bar>u\<bar> * 10 * \<bar>1 / 10 - d\<bar> / d" using d(3) by (simp add: abs_mult)
  also have "\<dots> \<le> 1300000 * 10 * (1 / 2 ^ 56) / (1 / 11)"
    by (intro frac_le mult_mono) (use assms(1) db d(1) abs_minus_commute [of d "1 / 10"] in auto)
  also have "\<dots> \<le> 21 / 10000000000" by simp
  finally have e: "\<bar>u / d - u * 10\<bar> \<le> 21 / 10000000000" .
  have "\<bar>q - u * 10\<bar> \<le> 21 / 10000000000 + 13000001 / 2 ^ 52" unfolding q_def ddiv_def
    by (rule dbl_add_error [OF e]) (use assms(1) in linarith)+
  also have "\<dots> \<le> 6 / 1000000000" by simp
  finally have q: "\<bar>q - u * 10\<bar> \<le> 6 / 1000000000" .
  have k: "of_int k \<le> q" "q < of_int k + 1" unfolding k_def by linarith+
  have kb: "\<bar>of_int k\<bar> \<le> (13000002 :: rat)" using k q assms(1) by linarith
  have "\<bar>of_int k * d - of_int k / 10\<bar> = \<bar>of_int k\<bar> * \<bar>d - 1 / 10\<bar>" by (simp flip: abs_mult add: right_diff_distrib)
  also have "\<dots> \<le> 13000002 * (1 / 2 ^ 56)" by (intro mult_mono) (use kb d(1) in auto)
  also have "\<dots> \<le> 2 / 10000000000" by simp
  finally have kd: "\<bar>of_int k * d - of_int k / 10\<bar> \<le> 2 / 10000000000" .
  have "\<bar>dmul (of_int k) d - of_int k / 10\<bar> \<le> 2 / 10000000000 + 1300002 / 2 ^ 52" unfolding dmul_def
    by (rule dbl_add_error [OF kd]) (use kb in linarith)+
  also have "\<dots> \<le> 5 / 10000000000" by simp
  finally have m: "\<bar>dmul (of_int k) d - of_int k / 10\<bar> \<le> 5 / 10000000000" .
  then have y: "\<bar>(u - dmul (of_int k) d) - (u - of_int k / 10)\<bar> \<le> 5 / 10000000000" by linarith
  have s: "\<bar>u - of_int k / 10\<bar> \<le> 1 / 2" using k q by linarith
  have "\<bar>v - (u - of_int k / 10)\<bar> \<le> 5 / 10000000000 + 1 / 2 ^ 52" unfolding v_def dsub_def k_def [symmetric] q_def [symmetric]
    by (rule dbl_add_error [OF y]) (use s in linarith)+
  also have "\<dots> \<le> 6 / 10000000000" by simp
  finally have v: "\<bar>v - (u - of_int k / 10)\<bar> \<le> 6 / 10000000000" .
  have vr: "- (13 / 10000000000) \<le> v" "v \<le> 1 / 10 + 13 / 10000000000" using v k q by linarith+
  have w: "\<bar>dadd v d - (v + 1 / 10)\<bar> \<le> 1 / 10000000000"
  proof -
    have "\<bar>(v + d) - (v + 1 / 10)\<bar> \<le> 1 / 2 ^ 50" using d(1) by simp
    then have "\<bar>dbl (v + d) - (v + 1 / 10)\<bar> \<le> 1 / 2 ^ 50 + 1 / 2 ^ 52" by (rule dbl_add_error) (use vr in \<open>simp_all add: abs_le_iff\<close>)
    also have "\<dots> \<le> 1 / 10000000000" by simp
    finally show ?thesis by (simp add: dadd_def)
  qed
  have small: "(1 :: rat) / 2 ^ 56 \<le> 1 / 10000000000" by simp
  show "\<exists>k :: int. \<bar>r - (u - of_int k / 10)\<bar> \<le> 1 / 1000000000"
  proof (cases "v < dbl (5 / 100)")
    case True
    then have r: "r = dadd v d" by (simp add: r_def)
    have k1: "(of_int (k - 1) / 10 :: rat) = of_int k / 10 - 1 / 10" by (simp add: diff_divide_distrib)
    have "\<bar>r - (u - of_int (k - 1) / 10)\<bar> \<le> 1 / 1000000000" unfolding r k1
      by (rule abs_leI) (use abs_le_D1 [OF v] abs_le_D2 [OF v] abs_le_D1 [OF w] abs_le_D2 [OF w] in linarith)+
    then show ?thesis by blast
  next
    case False
    then have "r = v" by (simp add: r_def)
    then have "\<bar>r - (u - of_int k / 10)\<bar> \<le> 1 / 1000000000" using v by linarith
    then show ?thesis by blast
  qed
  show "49999999 / 1000000000 \<le> r" "r \<le> 150000001 / 1000000000"
    using vr db small abs_le_D1 [OF w] abs_le_D2 [OF w] unfolding r_def by (cases "v < dbl (5 / 100)"; simp; linarith)+
qed

section \<open>Pseudoranges\<close>

lemma light_second:
  assumes "\<bar>b - y\<bar> \<le> 15 / 10000000000" "\<bar>y\<bar> \<le> 2000000" shows "\<bar>dmul SPEED_OF_LIGHT b - 299792458 * y\<bar> \<le> 1"
proof -
  have "299792458 * b - 299792458 * y = 299792458 * (b - y)" by (simp add: right_diff_distrib)
  then have "\<bar>299792458 * b - 299792458 * y\<bar> \<le> 45 / 100" using assms(1) by linarith
  then have "\<bar>dbl (299792458 * b) - 299792458 * y\<bar> \<le> 45 / 100 + 600000000000001 / 2 ^ 52"
    by (rule dbl_add_error) (use assms(2) in linarith)+
  also have "\<dots> \<le> 1" by simp
  finally show ?thesis by (simp add: dmul_def SPEED_OF_LIGHT_def)
qed

lemma flight_seconds:
  assumes "0 \<le> t" "t < 604800" "0 \<le> tow c" "tow c \<le> 604800000"
  shows "0 \<le> (of_int t :: rat)" "of_int t \<le> (604800 :: rat)" "0 \<le> (of_int (tow c) / 1000 :: rat)" "of_int (tow c) / 1000 \<le> (604800 :: rat)"
  using assms by simp_all

lemma gen_prng_week:
  assumes "0 < w" "w < 65536" "0 \<le> t" "t < 604800" "0 \<le> tow c" "tow c \<le> 604800000" "\<bar>ch_coff c\<bar> \<le> 1" "0 < week c" "\<bar>w - week c\<bar> \<le> 1"
  shows "\<bar>gen_prng (gpst2time w (of_int t)) c - 299792458 * (of_int ((w - week c) * 604800) + (of_int t - of_int (tow c) / 1000 + ch_coff c))\<bar> \<le> 1"
proof -
  have "0 \<le> w" using assms(1) by simp
  define d where "d = w - week c"
  have d: "d = - 1 \<or> d = 0 \<or> d = 1" using assms(9) unfolding d_def by linarith
  let ?x = "of_int (d * 604800 + t) :: rat"
  have "dmul (dmul (of_int d) 86400) 7 = of_int (d * 604800)"
    using d dbl_of_int [of "d * 86400"] dbl_of_int [of "d * 604800"] by (auto simp: dmul_def)
  then have x: "dadd (dmul (dmul (of_int d) 86400) 7) (of_int t) = ?x"
    using d dbl_of_int [of "d * 604800 + t"] assms(3,4) by (auto simp: dadd_def)
  have dr: "(of_int w - of_int (week c) :: rat) = of_int d" by (simp add: d_def)
  have P: "gen_prng (gpst2time w (of_int t)) c =
      dmul SPEED_OF_LIGHT (dadd (dsub ?x (dmul (of_int (tow c)) (dbl (1 / 1000)))) (ch_coff c))"
    using gpst_roundtrip(1) [OF \<open>0 \<le> w\<close> assms(2-4)] assms(8) x by (simp add: gen_prng_def dr)
  note b = flight_seconds [OF assms(3-6)]
  have xb: "\<bar>?x\<bar> \<le> 1300000" using d b(1,2) by auto
  have e: "?x - of_int (tow c) / 1000 + ch_coff c = of_int (d * 604800) + (of_int t - of_int (tow c) / 1000 + ch_coff c)" by simp
  show ?thesis unfolding P d_def [symmetric] e [symmetric]
    by (rule light_second [OF flight_time [OF assms(5,6) _ assms(7)]]) (use xb b(3,4) assms(7) in linarith)+
qed

lemma gen_prng_ambiguous:
  assumes "0 < w" "w < 65536" "0 \<le> t" "t < 604800" "0 \<le> tow c" "tow c \<le> 604800000" "\<bar>ch_coff c\<bar> \<le> 1" "\<bar>coff (ch_nav c)\<bar> \<le> 1"
    "week c \<le> 0" "tow_v c = 2"
  shows "\<exists>k :: int. \<bar>gen_prng (gpst2time w (of_int t)) c - 299792458 * (of_int t - of_int (tow c) / 1000 + ch_coff c + coff (ch_nav c) - of_int k / 10)\<bar> \<le> 1"
    "299792458 / 20 - 1 \<le> gen_prng (gpst2time w (of_int t)) c" "gen_prng (gpst2time w (of_int t)) c \<le> 299792458 * 3 / 20 + 1"
proof -
  have "0 \<le> w" using assms(1) by simp
  note b = flight_seconds [OF assms(3-6)]
  define y where "y = of_int t - of_int (tow c) / 1000 + ch_coff c + coff (ch_nav c)"
  define u where "u = dadd (dadd (dsub (of_int t) (dmul (of_int (tow c)) (dbl (1 / 1000)))) (ch_coff c)) (coff (ch_nav c))"
  define v where "v = dsub u (dmul (of_int \<lfloor>ddiv u (dbl (1 / 10))\<rfloor>) (dbl (1 / 10)))"
  define r where "r = (if v < dbl (5 / 100) then dadd v (dbl (1 / 10)) else v)"
  have P: "gen_prng (gpst2time w (of_int t)) c = dmul SPEED_OF_LIGHT r"
    using gpst_roundtrip(1) [OF \<open>0 \<le> w\<close> assms(2-4)] assms(9,10) by (simp add: gen_prng_def Let_def r_def v_def u_def)
  have yb: "\<bar>y\<bar> \<le> 604802" using b assms(7,8) unfolding y_def by linarith
  have "\<bar>dadd (dsub (of_int t) (dmul (of_int (tow c)) (dbl (1 / 1000)))) (ch_coff c) - (of_int t - of_int (tow c) / 1000 + ch_coff c)\<bar> \<le> 15 / 10000000000"
    by (rule flight_time [OF assms(5,6) _ assms(7)]) (use b in linarith)
  then have "\<bar>(dadd (dsub (of_int t) (dmul (of_int (tow c)) (dbl (1 / 1000)))) (ch_coff c) + coff (ch_nav c)) - y\<bar> \<le> 15 / 10000000000"
    unfolding y_def by linarith
  then have "\<bar>u - y\<bar> \<le> 15 / 10000000000 + 604803 / 2 ^ 52" unfolding u_def dadd_def [of _ "coff (ch_nav c)"]
    by (rule dbl_add_error) (use yb in linarith)+
  also have "\<dots> \<le> 17 / 10000000000" by simp
  finally have u: "\<bar>u - y\<bar> \<le> 17 / 10000000000" .
  then have ub: "\<bar>u\<bar> \<le> 1300000" using yb by linarith
  note h = hundred_ms [OF ub, folded v_def, folded r_def]
  have rb: "\<bar>r\<bar> \<le> 1" using h(2,3) by linarith
  have "\<bar>299792458 * r\<bar> \<le> 299792458" using rb by (simp add: abs_mult)
  then have "\<bar>dbl (299792458 * r) - 299792458 * r\<bar> \<le> 299792458 / 2 ^ 52" by (rule dbl_error_le) (simp_all add: at_least_tiny)
  also have "\<dots> \<le> 1 / 1000" by simp
  finally have p: "\<bar>dmul SPEED_OF_LIGHT r - 299792458 * r\<bar> \<le> 1 / 1000" by (simp add: dmul_def SPEED_OF_LIGHT_def)
  from h(1) obtain k :: int where k: "\<bar>r - (u - of_int k / 10)\<bar> \<le> 1 / 1000000000" ..
  define z where "z = y - of_int k / 10"
  have "\<bar>r - z\<bar> \<le> 27 / 10000000000" using k u unfolding z_def by linarith
  then have "\<bar>299792458 * r - 299792458 * z\<bar> \<le> 9 / 10" by linarith
  then have "\<bar>dmul SPEED_OF_LIGHT r - 299792458 * z\<bar> \<le> 1" using p by linarith
  then show "\<exists>k :: int. \<bar>gen_prng (gpst2time w (of_int t)) c - 299792458 * (of_int t - of_int (tow c) / 1000 + ch_coff c + coff (ch_nav c) - of_int k / 10)\<bar> \<le> 1"
    unfolding P z_def y_def by blast
  show "299792458 / 20 - 1 \<le> gen_prng (gpst2time w (of_int t)) c" "gen_prng (gpst2time w (of_int t)) c \<le> 299792458 * 3 / 20 + 1"
    unfolding P using p h(2,3) by linarith+
qed

lemma gen_prng_unknown: "week c \<le> 0 \<Longrightarrow> tow_v c \<noteq> 2 \<Longrightarrow> gen_prng time c = 0"
  by (simp add: gen_prng_def dmul_def split: prod.split)

end
