(* ===== verification/Afs_End_To_End.thy ===== *)
theory Afs_End_To_End
  imports Afs_Sim_Frame_Lemmas Sdr_Nav_Afs_Props Sdr_Nav_Afs_Tow
begin

text \<open>
  From the clock of the simulator to the time in the receiver: a frame made for a GPS time gives the
  receiver the week, the frame number and the time of week of that time, up to the millisecond the
  receiver loses by cutting; the simulator counts frames without ever starting a new interval, and
  the receiver drops the frames whose number is 100 or more.
\<close>

section \<open>Fields of subframe 2\<close>

lemma getbitu_field:
  assumes "bitarr rest" "1200 \<le> 22 + length rest" "pos + len \<le> 22"
  shows "uint (getbitu (sdr_pack_bits (sdr_unpack_data w 22 @ rest) 1200 0) pos len) = uint w div 2 ^ (22 - (pos + len)) mod 2 ^ len"
proof -
  let ?bits = "sdr_unpack_data w 22 @ rest"
  have "getbitu (sdr_pack_bits ?bits 1200 0) pos len = take_bit len (drop_bit (22 - (pos + len)) w)"
  proof (rule bit_eqI)
    fix k
    have "bit (getbitu (sdr_pack_bits ?bits 1200 0) pos len) k \<longleftrightarrow> k < len \<and> ?bits ! (pos - 0 + len - 1 - k) \<noteq> 0"
      by (rule getbitu_packed) (use assms in simp_all)
    also have "\<dots> \<longleftrightarrow> k < len \<and> bit w (22 - (pos + len) + k)"
      using assms(3) by (auto simp: nth_append nth_sdr_unpack_data)
    also have "\<dots> \<longleftrightarrow> bit (take_bit len (drop_bit (22 - (pos + len)) w)) k"
      by (auto simp: bit_take_bit_iff bit_drop_bit_eq)
    finally show "bit (getbitu (sdr_pack_bits ?bits 1200 0) pos len) k \<longleftrightarrow> bit (take_bit len (drop_bit (22 - (pos + len)) w)) k" .
  qed
  moreover have "uint (take_bit len (drop_bit (22 - (pos + len)) w)) = take_bit len (drop_bit (22 - (pos + len)) (uint w))"
    by (simp add: unsigned_take_bit_eq unsigned_drop_bit_eq bintr_uint)
  ultimately show ?thesis by (simp add: take_bit_eq_mod drop_bit_eq_div)
qed

lemma uint_wn_itow:
  assumes "0 \<le> afs_wn a" "afs_wn a < 8192" "0 \<le> afs_itow a" "afs_itow a < 512"
  shows "uint (wn_itow a) = afs_wn a * 512 + afs_itow a"
proof -
  have hi: "\<not> bit (afs_itow a) k" if "9 \<le> k" for k
  proof -
    have "take_bit 9 (afs_itow a) = afs_itow a" using assms(3,4) by (simp add: take_bit_int_eq_self)
    then show ?thesis using that by (metis bit_take_bit_iff not_less)
  qed
  have m: "(0x1ff :: u32) = mask 9" by (simp add: mask_eq_exp_minus_1)
  have i: "word_of_int (afs_itow a) AND (0x1ff :: u32) = word_of_int (afs_itow a)"
    unfolding m by (rule bit_eqI) (use hi in \<open>auto simp: bit_and_iff bit_mask_iff bit_word_of_int_iff not_less [symmetric]\<close>)
  have "push_bit 9 (word_of_int (afs_wn a)) AND (word_of_int (afs_itow a) :: u32) = 0"
    by (rule bit_eqI) (use hi in \<open>auto simp: bit_and_iff bit_push_bit_iff bit_word_of_int_iff\<close>)
  then have "wn_itow a = push_bit 9 (word_of_int (afs_wn a)) + word_of_int (afs_itow a)"
    unfolding wn_itow_def i by (simp add: disjunctive_add_eq_or)
  also have "\<dots> = word_of_int (afs_wn a * 512 + afs_itow a)" by (simp add: push_bit_eq_mult)
  finally have w: "wn_itow a = word_of_int (afs_wn a * 512 + afs_itow a)" .
  have "uint (word_of_int x :: u32) = x" if "0 \<le> x" "x < 2 ^ 32" for x using that by (simp add: uint_word_of_int_eq take_bit_int_eq_self)
  from this [of "afs_wn a * 512 + afs_itow a"] show ?thesis unfolding w using assms by simp
qed

lemma sb2_fields:
  assumes "0 \<le> afs_wn a" "afs_wn a < 8192" "0 \<le> afs_itow a" "afs_itow a < 512" "take 1200 dw = with_crc (sb2_bits a eph)"
  shows "uint (getbitu (sdr_pack_bits dw 1200 0) 0 13) = afs_wn a" "uint (getbitu (sdr_pack_bits dw 1200 0) 13 9) = afs_itow a"
proof -
  obtain rest where r: "with_crc (sb2_bits a eph) = sdr_unpack_data (wn_itow a) 22 @ rest" "bitarr rest" "length rest = 1178"
  proof
    show "with_crc (sb2_bits a eph) = sdr_unpack_data (wn_itow a) 22 @ drop 22 (with_crc (sb2_bits a eph))"
      by (simp add: with_crc_def sb2_bits_def)
  qed (simp_all add: bitarr_drop)
  have p: "sdr_pack_bits dw 1200 0 = sdr_pack_bits (sdr_unpack_data (wn_itow a) 22 @ rest) 1200 0"
    using sdr_pack_bits_take [of 1200 dw 0] assms(5) r(1) by simp
  show "uint (getbitu (sdr_pack_bits dw 1200 0) 0 13) = afs_wn a" "uint (getbitu (sdr_pack_bits dw 1200 0) 13 9) = afs_itow a"
    unfolding p using getbitu_field [OF r(2), of 0 13 "wn_itow a"] getbitu_field [OF r(2), of 13 9 "wn_itow a"] r(3)
      uint_wn_itow [OF assms(1-4)] assms(1-4) by simp_all
qed

section \<open>A frame of the simulator at the receiver\<close>

text \<open>The receiver holds the frame and the pattern of the next one and is due to decode.\<close>

definition frame_due :: "rx \<Rightarrow> int \<Rightarrow> u8 list \<Rightarrow> bool" where
  "frame_due s rv frame \<longleftrightarrow> rx_ok s \<and> (rv = 0 \<or> rv = 1) \<and> last_frame s = map (pol rv) (frame @ unpack sync_bytes 68) \<and>
     (fsync (ch_nav (ch s)) \<le> 0 \<and> 6568 \<le> lock (ch s) \<or>
      0 < fsync (ch_nav (ch s)) \<and> lock (ch s) = fsync (ch_nav (ch s)) + 6000 \<and> nav_rev (ch_nav (ch s)) = rv)"

lemma frame_number:
  assumes "0 \<le> toi" "toi < 99"
  shows "(word_of_int (toi + 1) :: u8) = word_of_nat (nat (toi + 1))" "nat (toi + 1) < 100"
  using assms by simp_all

lemma sim_frame_accepted:
  assumes "check_counts lib" "changed_counts lib" "frame_due s rv (sim_frame_of a eph)"
    "0 \<le> afs_wn a" "afs_wn a < 8192" "0 \<le> afs_itow a" "afs_itow a < 512" "0 \<le> afs_toi a" "afs_toi a < 99"
    "recovers lib SF2_H 5040 6240 (received_sb2 (sb2_symbols (sb2_bits a eph))) (SF2_codeword (with_crc (sb2_bits a eph)))"
  shows "\<exists>s'. decode_AFSD lib s = Inr s' \<and> week (ch s') = afs_wn a \<and> seq (ch_nav (ch s')) = afs_toi a + 1 \<and>
    take 150 (data (ch_nav (ch s'))) = sdr_pack_bits (with_crc (sb2_bits a eph)) 1200 0 \<and>
    (tow (ch s) \<le> 0 \<longrightarrow> tow (ch s') \<in> {frame_tow (afs_itow a) (nat (afs_toi a + 1)) - 1, frame_tow (afs_itow a) (nat (afs_toi a + 1))})"
proof -
  let ?t = "nat (afs_toi a + 1)"
  have ok: "rx_ok s" and rv: "rv = 0 \<or> rv = 1" using assms(3) by (simp_all add: frame_due_def)
  have fr: "sim_frame_of a eph = frame_of (word_of_nat ?t) (sb2_bits a eph) pattern34 pattern34"
    using sim_frame_of_eq [of a eph] frame_number [OF assms(8,9)] assms(8,9) by simp
  have t: "?t < 100" using assms(8,9) by simp
  have "\<exists>e dw. take 1200 dw = with_crc (sb2_bits a eph) \<and> decode_AFSD lib s = Inr ((rx_push s)\<lparr>AFS_SF1 := sf1_cache, ldpc := e,
      AFS_DETAIL_LOG_COUNT := count_detail_log (prn (ch (rx_push s))) (AFS_DETAIL_LOG_COUNT (rx_push s)),
      ch := accept_sb2 ?t rv dw (ch (rx_push s))\<rparr>)"
    by (rule receiver_accepts [OF assms(1,2) ok rv t]) (use assms(3,10) in \<open>simp_all add: frame_due_def fr\<close>)
  then obtain e dw where d: "take 1200 dw = with_crc (sb2_bits a eph)" "decode_AFSD lib s = Inr ((rx_push s)\<lparr>AFS_SF1 := sf1_cache, ldpc := e,
      AFS_DETAIL_LOG_COUNT := count_detail_log (prn (ch (rx_push s))) (AFS_DETAIL_LOG_COUNT (rx_push s)),
      ch := accept_sb2 ?t rv dw (ch (rx_push s))\<rparr>)" by blast
  note fields = sb2_fields [OF assms(4-7) d(1)]
  have "tow (ch (rx_push s)) = tow (ch s)" by (simp add: rx_push_def)
  then have "tow (ch s) \<le> 0 \<longrightarrow> tow (accept_sb2 ?t rv dw (ch (rx_push s))) \<in> {frame_tow (afs_itow a) ?t - 1, frame_tow (afs_itow a) ?t}"
    using frame_tow_ms [OF assms(6,7) t] fields(2) unfolding accept_sb2_tow Let_def by simp
  moreover have "sdr_pack_bits dw 1200 0 = sdr_pack_bits (with_crc (sb2_bits a eph)) 1200 0"
    using sdr_pack_bits_take [of 1200 dw] d(1) by simp
  moreover have "length (data (ch_nav (ch (rx_push s)))) = 4096"
    using rx_push_ok [OF ok] by (simp add: rx_ok_def nav_wf_def SDR_MAX_DATA_def)
  ultimately show ?thesis using d(2) fields assms(8) by (simp add: nav_fields memcpy_at_def)
qed

text \<open>A frame number above 99: the search over the 100 symbols of subframe 1 fails.\<close>

lemma sf1_number_inj:
  assumes "u < 100" "100 \<le> t" "t < 128" shows "sf1_syms u \<noteq> generate_BCH_AFS_SF1 0 (word_of_nat t)"
proof
  assume eq: "sf1_syms u = generate_BCH_AFS_SF1 0 (word_of_nat t)"
  have un: "unat (word_of_nat x :: i32) = x" if "x < 128" for x using that by (simp add: unsigned_of_nat take_bit_nat_eq_self)
  have lt: "(word_of_nat x :: i32) < 128" if "x < 128" for x using un [OF that] that by (simp add: word_less_nat_alt)
  have "(word_of_nat u :: i32) = word_of_nat t"
    using BCH_args_eq [of 0 0 "word_of_nat u" "word_of_nat t"] eq lt assms by (simp add: sf1_syms_BCH)
  then show False using un [of u] un [of t] assms by simp
qed

lemma pol_inj: "map (pol rv) xs = map (pol rv) ys \<longleftrightarrow> xs = ys"
  by (rule inj_map_eq_map) (rule inj_on_inverseI [of _ "pol rv"], simp)

lemma sim_frame_dropped:
  assumes "frame_due s rv (sim_frame_of a eph)" "99 \<le> afs_toi a" "afs_toi a < 127"
  shows "\<exists>s'. decode_AFSD lib s = Inr s' \<and> fsync (ch_nav (ch s')) = 0 \<and> tow (ch s') = -1 \<and> tow_v (ch s') = 0"
proof -
  have ok: "rx_ok s" and rv: "rv = 0 \<or> rv = 1" using assms(1) by (simp_all add: frame_due_def)
  have fr: "sim_frame_of a eph = frame_of (word_of_int (afs_toi a + 1)) (sb2_bits a eph) pattern34 pattern34"
    by (rule sim_frame_of_eq) (use assms in simp_all)
  have due: "last_frame s = map (pol rv) (frame_of (word_of_int (afs_toi a + 1)) (sb2_bits a eph) pattern34 pattern34 @ unpack sync_bytes 68)"
    using assms(1) fr by (simp add: frame_due_def)
  note f = sync_pattern_here [OF ok rv due]
  have d: "fsync (ch_nav (ch s)) \<le> 0 \<and> 6568 \<le> lock (ch s) \<or>
      0 < fsync (ch_nav (ch s)) \<and> lock (ch s) = fsync (ch_nav (ch s)) + 6000 \<and> nav_rev (ch_nav (ch s)) = rv"
    using assms(1) by (simp only: frame_due_def)
  have dec: "decode_AFSD lib s = decode_AFSD_frame lib (last_frame s) rv (rx_push s)"
    unfolding decode_AFSD_cases [OF ok] Let_def f(1) using d rv by auto
  have cok: "cache_ok (AFS_SF1 (rx_push s))" using rx_push_ok [OF ok] by (simp add: rx_ok_def)
  have lf: "last_frame s = map (pol rv) (unpack sync_bytes 68) @ map (pol rv) (sim_sb1 (afs_toi a)) @ map (pol rv) (sim_coded a eph @ unpack sync_bytes 68)"
    using assms(1) by (simp add: frame_due_def sim_frame_of_def)
  have sb1: "take 52 (drop 68 (last_frame s)) = map (pol rv) (sim_sb1 (afs_toi a))" unfolding lf by simp
  moreover have "sim_sb1 (afs_toi a) = generate_BCH_AFS_SF1 0 (word_of_nat (nat (afs_toi a + 1)))"
    using assms(2) by (simp add: sim_sb1_def)
  moreover have "100 \<le> nat (afs_toi a + 1)" "nat (afs_toi a + 1) < 128" using assms(2,3) by linarith+
  ultimately have no: "take 52 (drop 68 (last_frame s)) \<noteq> map (pol rv) (sf1_syms u)" if "u < 100" for u
    using sf1_number_inj [OF that, of "nat (afs_toi a + 1)"] by (simp only: pol_inj) metis
  have len: "52 \<le> length (drop 68 (last_frame s))" "bitarr (drop 68 (last_frame s))"
    using last_frame_bits [OF ok] by (simp_all add: bitarr_drop)
  have "toi_search rv (drop 68 (last_frame s)) [0..<100] (AFS_SF1 (rx_push s)) = (sf1_cache, 100)"
    using toi_search_spec [OF cok len(2,1) rv, of "[0..<100]"] no by auto
  then show ?thesis unfolding dec decode_AFSD_frame_def by (simp add: unsync_nav_def)
qed

section \<open>The clock of the simulation\<close>

text \<open>The receiver time after \<open>n\<close> steps of a tenth of a second: \<open>grx.sec += 0.1\<close> adds a rounding error each time.\<close>

definition grx_clock :: "int \<Rightarrow> nat \<Rightarrow> rat" where
  "grx_clock g n = ((\<lambda>x. dadd x (dbl (1 / 10))) ^^ n) (of_int g)"

lemma tenth_close: "\<bar>dbl (1 / 10) - 1 / 10\<bar> \<le> 1 / 2 ^ 50"
proof -
  have "\<bar>dbl (1 / 10) - 1 / 10\<bar> \<le> 1 / 10 / 2 ^ 53" by (rule dbl_error) simp_all
  then show ?thesis by (rule order_trans) simp
qed

lemma grx_sum_range:
  fixes c d t e :: rat
  assumes "\<bar>c - t\<bar> \<le> e" "\<bar>d - 1 / 10\<bar> \<le> 1 / 2 ^ 50" "0 \<le> t" "t \<le> 705000" "e \<le> 1 / 1000"
  shows "1 / 20 \<le> c + d" "c + d \<le> 705001"
proof -
  have "\<bar>d - 1 / 10\<bar> \<le> 1 / 1000" by (rule order_trans [OF assms(2)]) simp
  then show "1 / 20 \<le> c + d" "c + d \<le> 705001" using assms(1,3-5) by linarith+
qed

lemma grx_step_bound:
  fixes c d y t e :: rat
  assumes "\<bar>c - t\<bar> \<le> e" "\<bar>d - 1 / 10\<bar> \<le> 1 / 2 ^ 50" "\<bar>y - (c + d)\<bar> \<le> (c + d) / 2 ^ 53" "0 \<le> t" "t \<le> 705000" "e \<le> 1 / 1000"
  shows "\<bar>y - (t + 1 / 10)\<bar> \<le> e + 1 / 2 ^ 32"
proof -
  have "(c + d) / 2 ^ 53 \<le> 705001 / 2 ^ 53" using grx_sum_range [OF assms(1,2,4-6)] by (intro divide_right_mono) auto
  moreover have "(705001 :: rat) / 2 ^ 53 + 1 / 2 ^ 50 \<le> 1 / 2 ^ 32" by simp
  ultimately show ?thesis using assms(1-3) by linarith
qed

lemma grx_clock_drift:
  assumes "0 \<le> g" "g \<le> 604800" "n \<le> 1000000"
  shows "\<bar>grx_clock g n - (of_int g + of_nat n / 10)\<bar> \<le> of_nat n / 2 ^ 32"
  using assms(3)
proof (induction n)
  case (Suc n)
  let ?c = "grx_clock g n" and ?d = "dbl (1 / 10)" and ?t = "of_int g + of_nat n / 10 :: rat"
  have "(of_int g :: rat) \<le> of_int 604800" using assms(2) by (simp only: of_int_le_iff)
  moreover have n: "(of_nat n :: rat) \<le> of_nat 1000000" using Suc.prems by (simp only: of_nat_le_iff)
  ultimately have t: "0 \<le> ?t" "?t \<le> 705000" using assms(1) by simp_all
  have IH: "\<bar>?c - ?t\<bar> \<le> of_nat n / 2 ^ 32" using Suc by simp
  have e: "(of_nat n :: rat) / 2 ^ 32 \<le> 1 / 1000" using n by simp
  note r = grx_sum_range [OF IH tenth_close t e]
  have "1 / 2 ^ 20 \<le> ?c + ?d" by (rule order_trans [OF _ r(1)]) simp
  moreover have "?c + ?d < 2 ^ 53" by (rule le_less_trans [OF r(2)]) simp
  ultimately have "\<bar>dbl (?c + ?d) - (?c + ?d)\<bar> \<le> (?c + ?d) / 2 ^ 53" by (intro dbl_error) (auto intro: order_trans [OF tiny])
  from grx_step_bound [OF IH tenth_close this t e]
  have "\<bar>dbl (?c + ?d) - (?t + 1 / 10)\<bar> \<le> of_nat n / 2 ^ 32 + 1 / 2 ^ 32" .
  then show ?case by (simp add: grx_clock_def dadd_def field_simps)
qed (simp add: grx_clock_def)

lemma half_sum_bounds:
  fixes x m y T :: rat
  assumes "\<bar>x - T / 10\<bar> \<le> 1 / 1000" "\<bar>m - x * 10\<bar> \<le> x * 10 / 2 ^ 53" "\<bar>y - (m + 1 / 2)\<bar> \<le> (m + 1 / 2) / 2 ^ 53" "1 \<le> T" "T \<le> 8388608"
  shows "T \<le> y" "y < T + 1"
proof -
  have "x * 10 \<le> 16777216" using assms(1,5) by linarith
  then have "x * 10 / 2 ^ 53 \<le> 16777216 / 2 ^ 53" by (rule divide_right_mono) simp
  also have "\<dots> \<le> (1 / 1000 :: rat)" by simp
  finally have m: "\<bar>m - x * 10\<bar> \<le> 1 / 1000" using assms(2) by linarith
  then have "m + 1 / 2 \<le> 16777216" using assms(1,5) by linarith
  then have "(m + 1 / 2) / 2 ^ 53 \<le> 16777216 / 2 ^ 53" by (rule divide_right_mono) simp
  also have "\<dots> \<le> (1 / 1000 :: rat)" by simp
  finally have "\<bar>y - (m + 1 / 2)\<bar> \<le> 1 / 1000" using assms(3) by linarith
  then show "T \<le> y" "y < T + 1" using m assms(1) by linarith+
qed

lemma igrx_of_close:
  assumes "\<bar>x - of_int T / 10\<bar> \<le> 1 / 1000" "1 \<le> T" "T \<le> 8388608"
  shows "igrx_of x = T"
proof -
  have "(of_int 1 :: rat) \<le> of_int T" "(of_int T :: rat) \<le> of_int (8388608)" using assms(2,3) by (simp_all only: of_int_le_iff)
  then have T: "1 \<le> (of_int T :: rat)" "(of_int T :: rat) \<le> 8388608" by simp_all
  have x: "1 / 2 \<le> x * 10" "x * 10 \<le> 16777216" using assms(1) T by linarith+
  have half: "dbl (1 / 2) = 1 / 2" using dbl_near [of "1 / 2" 53 "2 ^ 52"] by simp
  have m: "\<bar>dbl (x * 10) - x * 10\<bar> \<le> x * 10 / 2 ^ 53" by (rule dbl_error) (use x in \<open>simp_all add: order_trans [of _ "1 / 2"]\<close>)
  have "x * 10 / 2 ^ 53 \<le> x * 10 / 2" using x by (intro divide_left_mono) auto
  then have d: "0 \<le> dbl (x * 10)" "dbl (x * 10) \<le> 33554432" using m x by linarith+
  have y: "\<bar>dbl (dbl (x * 10) + 1 / 2) - (dbl (x * 10) + 1 / 2)\<bar> \<le> (dbl (x * 10) + 1 / 2) / 2 ^ 53"
    by (rule dbl_error) (use d in \<open>simp_all add: order_trans [of _ "1 / 2"]\<close>)
  note b = half_sum_bounds [OF assms(1) m y T]
  have "0 \<le> dbl (dbl (x * 10) + 1 / 2)" using b(1) T(1) by simp
  then show ?thesis using b by (simp add: igrx_of_def dadd_def dmul_def half int_of_dbl_def floor_eq_iff)
qed

end
