(* ===== verification/Afs_End_To_End_Props.thy ===== *)
theory Afs_End_To_End_Props
  imports Afs_End_To_End Afs_Sim_Chan_Inv
begin

text \<open>
  Properties of the whole chain: the main loop of the simulator over many epochs, and the receiver on
  the frames it makes.
\<close>

section \<open>Objects for the witnesses\<close>

text \<open>An ephemeris, a receiver whose buffer holds a frame but for the last symbol, and a decoder of one block.\<close>

definition eph_demo :: ephem_t where
  "eph_demo = \<lparr>eph_vflg = 1, eph_toe = \<lparr>gps_week = 5, gps_sec = 60\<rparr>, eph_toc = \<lparr>gps_week = 5, gps_sec = 60\<rparr>, eph_ecc = 1 / 2, eph_sqrta = 2048,
     eph_m0 = 1, eph_omg0 = 1 / 4, eph_inc0 = 3 / 4, eph_aop = 3 / 2, eph_af0 = 0, eph_af1 = 0, eph_n = 0, eph_A = 0, eph_sq1e2 = 0\<rparr>"

definition rx_of :: "u8 list \<Rightarrow> rx" where
  "rx_of f = (rx_init undefined)\<lparr>ch := \<lparr>prn = 8, week = 0, tow = -1, tow_v = 0, lock = 7000, trk_P = replicate 5000 (-1),
     ch_nav = (sdr_nav_init undefined)\<lparr>count := [0, 0], syms := replicate 733 0 @ f @ butlast (unpack sync_bytes 68)\<rparr>\<rparr>\<rparr>"

lemma frame_due_rx_of:
  assumes "length f = 6000" "bitarr f" shows "frame_due (rx_of f) 0 f"
proof -
  have ne: "unpack sync_bytes 68 \<noteq> []" using length_unpack [of sync_bytes 68] by (metis list.size(3) zero_neq_numeral)
  then have "last (unpack sync_bytes 68) = unpack sync_bytes 68 ! 67" by (simp add: last_conv_nth)
  then have "last (unpack sync_bytes 68) = 0" by (simp add: unpack_def sync_bytes_def)
  then have "butlast (unpack sync_bytes 68) @ [0] = unpack sync_bytes 68" using append_butlast_last_id [OF ne] by simp
  moreover have "bitarr (butlast (unpack sync_bytes 68))" by (simp add: butlast_conv_take bitarr_take)
  ultimately show ?thesis using assms
    by (simp add: frame_due_def rx_of_def rx_ok_def rx_init_def nav_wf_def sdr_nav_init_def cache_ok_def SDR_MAX_NSYM_def
      last_frame_def rx_sym_def sdr_add_buff_def SDR_N_HIST_def map_pol_0)
qed

lemma frame_due_sim:
  assumes "-1 \<le> afs_toi a" "afs_toi a < 255" shows "frame_due (rx_of (sim_frame_of a eph)) 0 (sim_frame_of a eph)"
  by (rule frame_due_rx_of) (simp_all add: sim_frame_of_eq [OF assms] bitarr_frame_of)

definition block_lib :: "u8 list \<Rightarrow> ldpc_lib" where
  "block_lib x = zero_lib\<lparr>prprp_decode := \<lambda>h H l. x\<rparr>"

lemma block_lib_ok: "check_counts (block_lib x)" "changed_counts (block_lib x)" "recovers (block_lib x) E m n received x"
  using zero_lib_check zero_lib_rest(1) by (simp_all add: check_counts_def changed_counts_def block_lib_def recovers_def)

section \<open>The main loop\<close>

text \<open>The number of updates in the first \<open>n\<close> rounds of a run that starts at second \<open>g\<close>.\<close>

definition toi_updates :: "int \<Rightarrow> nat \<Rightarrow> int" where
  "toi_updates g n = (10 * g + int n + 10) div 120 - (10 * g + 10) div 120"

lemma toi_updates_Suc:
  "toi_updates g (Suc n) = toi_updates g n + (if (10 * g + int n + 1) mod 120 = 110 then 1 else 0)"
proof -
  let ?q = "(10 * g + int n) div 120" and ?r = "(10 * g + int n) mod 120"
  have t: "10 * g + int n = 120 * ?q + ?r" "0 \<le> ?r" "?r < 120" by simp_all
  then have "?r < 109 \<or> ?r = 109 \<or> 109 < ?r \<and> ?r < 119 \<or> ?r = 119" by linarith
  moreover have "10 * g + int (Suc n) + 10 = 120 * ?q + (?r + 11)" "10 * g + int n + 10 = 120 * ?q + (?r + 10)" "10 * g + int n + 1 = 120 * ?q + (?r + 1)"
    using t(1) by simp_all
  ultimately show ?thesis using t(2,3) unfolding toi_updates_def
    by (elim disjE) (simp_all only: div_mult_self4 mod_mult_self4, auto simp: div_pos_geq mod_pos_geq)
qed

lemma igrx_clock:
  assumes "0 \<le> g" "g \<le> 604800" "n < 1000000"
  shows "igrx_of (grx_clock g (Suc n)) = 10 * g + int n + 1"
proof (rule igrx_of_close)
  have n: "Suc n \<le> 1000000" using assms(3) by simp
  then have "(of_nat (Suc n) :: rat) \<le> of_nat 1000000" by (simp only: of_nat_le_iff)
  then have "(of_nat (Suc n) :: rat) / 2 ^ 32 \<le> 1 / 1000" by simp
  then have "\<bar>grx_clock g (Suc n) - (of_int g + of_nat (Suc n) / 10)\<bar> \<le> 1 / 1000"
    using grx_clock_drift [OF assms(1,2) n] by linarith
  moreover have "(of_int g + of_nat (Suc n) / 10 :: rat) = of_int (10 * g + int n + 1) / 10" by simp
  ultimately show "\<bar>grx_clock g (Suc n) - of_int (10 * g + int n + 1) / 10\<bar> \<le> 1 / 1000" by (simp only:)
qed (use assms in simp_all)

lemma grx_clock_Suc: "grx_clock g (Suc n) = dadd (grx_clock g n) (dbl (1 / 10))"
  by (simp add: grx_clock_def)

lemma sim_epochs:
  assumes "0 \<le> g" "g \<le> 604800" "n \<le> 1000000"
  shows "(sim_epoch ^^ n) (grx_clock g 1, a, map (sim_frame_of a) ephs) =
    (grx_clock g (Suc n), a\<lparr>afs_toi := afs_toi a + toi_updates g n\<rparr>, map (sim_frame_of (a\<lparr>afs_toi := afs_toi a + toi_updates g n\<rparr>)) ephs)"
  using assms(3)
proof (induction n)
  case (Suc n)
  have i: "igrx_of (grx_clock g (Suc n)) smod 120 = (10 * g + int n + 1) mod 120"
    using igrx_clock [OF assms(1,2), of n] Suc.prems assms(1) by (simp add: smod_nonneg)
  show ?case using Suc by (simp add: sim_epoch_def i toi_updates_Suc grx_clock_Suc [of g "Suc n"] sim_frame_update add.assoc)
qed (simp add: toi_updates_def)

text \<open>The frame number of a whole second.\<close>

lemma afst_second:
  assumes "0 \<le> g" "g < 604800"
  shows "gpst2afst \<lparr>gps_week = w, gps_sec = of_int g\<rparr> = \<lparr>afs_wn = w, afs_itow = g div 1200, afs_toi = g mod 1200 div 12, afs_fsec = of_int (g mod 12)\<rparr>"
proof -
  have i: "itow_of (of_int g) = g div 1200" unfolding itow_of_def using floor_divide_of_int_eq [of g 1200] by simp
  have "of_int g - of_int (g div 1200 * 1200) = (of_int (g mod 1200) :: rat)" by (simp add: minus_div_mult_eq_mod flip: of_int_diff of_int_mult)
  then have t: "toi_of (of_int g) = g mod 1200 div 12" unfolding toi_of_def i using floor_divide_of_int_eq [of "g mod 1200" 12] by simp
  have "g mod 1200 mod 12 = g mod 12" by (rule mod_mod_cancel) simp
  then have "g - g div 1200 * 1200 - g mod 1200 div 12 * 12 = g mod 12" by (simp add: minus_div_mult_eq_mod)
  then have f: "(of_int g - of_int (g div 1200 * 1200) - of_int (g mod 1200 div 12 * 12) :: rat) = of_int (g mod 12)" by (metis of_int_diff)
  have "on_grid 0 (of_int g)" by (rule on_grid_int) (use assms in simp)
  from afst_in_week [OF this, of w] assms f show ?thesis by (simp add: i t)
qed

lemma frame_count: "100 * (g div 1200) + g mod 1200 div 12 = (10 * g + 10) div 120 - (if g mod 12 = 11 then 1 else (0 :: int))"
proof -
  have "g mod (12 * 100) = 12 * (g div 12 mod 100) + g mod 12" by (rule zmod_zmult2_eq) simp
  moreover have "g div (12 * 100) = g div 12 div 100" by (rule zdiv_zmult2_eq) simp
  ultimately have a: "100 * (g div 1200) + g mod 1200 div 12 = g div 12" by simp
  define q r where "q = g div 12" and "r = g mod 12"
  have g: "g + 1 = 12 * q + (r + 1)" "0 \<le> r" "r < 12" by (simp_all add: q_def r_def)
  have "(10 * g + 10) div 120 = (g + 1) div 12" using div_mult_mult1 [of 10 "g + 1" 12] by simp
  also have "\<dots> = q + (r + 1) div 12" unfolding g(1) by (rule div_mult_self4) simp
  also have "(r + 1) div 12 = (if r = 11 then 1 else 0)" using g(2,3) by simp
  finally show ?thesis unfolding a q_def r_def by (simp only: add_diff_cancel_right')
qed



section \<open>The frames at the receiver\<close>

lemma toi_itow: "100 * itow_of x + toi_of x = \<lfloor>x / 12\<rfloor>"
proof -
  have "(x - of_int (itow_of x * 1200)) / 12 = x / 12 - of_int (100 * itow_of x)" by (simp add: diff_divide_distrib)
  then show ?thesis by (simp only: toi_of_def floor_diff_of_int)
qed

text \<open>
  C3: from the clock of the simulator to the time in the receiver. The frames that the simulator builds for
  a GPS time outside the last frame of an interval, whatever its arrays held, are accepted by the
  receiver when the LDPC code recovers subframe 2; the week is that of the GPS time, the frame number the
  one of the next frame, and a channel without time of week gets the start of the next frame, 136
  milliseconds on, at most a millisecond early.
\<close>

theorem simulated_frame_received:
  assumes "check_counts lib" "changed_counts lib" "on_grid K x" "K \<le> 900" "0 \<le> x" "x < 604800" "0 \<le> w" "w < 8192"
    and time: "a = gpst2afst \<lparr>gps_week = w, gps_sec = x\<rparr>" "afs_toi a \<noteq> 99"
    and init: "nav_ok st" "length buf = 5880" "length sb234 = 5880" "length ephs = length frames" "\<forall>frame \<in> set frames. length frame = 6000"
    and built: "sim_frames a ephs frames buf sb234 st = Inr (st', sent)" "k < length sent"
    and due: "frame_due s rv (sent ! k)"
    and rec: "recovers lib SF2_H 5040 6240 (received_sb2 (sb2_symbols (sb2_bits a (ephs ! k)))) (SF2_codeword (with_crc (sb2_bits a (ephs ! k))))"
  shows "\<exists>s'. decode_AFSD lib s = Inr s' \<and> week (ch s') = w \<and> seq (ch_nav (ch s')) = \<lfloor>x / 12\<rfloor> mod 100 + 1 \<and>
    (tow (ch s) \<le> 0 \<longrightarrow> tow (ch s') \<in> {12000 * (\<lfloor>x / 12\<rfloor> + 1) + 135, 12000 * (\<lfloor>x / 12\<rfloor> + 1) + 136})"
proof -
  note t = afst_in_week [OF assms(3-6), of w]
  have a: "afs_wn a = w" "afs_itow a = itow_of x" "afs_toi a = toi_of x" "0 \<le> itow_of x" "itow_of x < 512" "0 \<le> toi_of x" "toi_of x < 99"
    using t time by auto
  have sent: "sent = map (sim_frame_of a) ephs" using sim_frames_ok [OF init, of a] built(1) by auto
  then have "frame_due s rv (sim_frame_of a (ephs ! k))" using due built(2) by simp
  from sim_frame_accepted [OF assms(1,2) this _ _ _ _ _ _ rec] a assms(7,8)
  obtain s' where s': "decode_AFSD lib s = Inr s'" "week (ch s') = w" "seq (ch_nav (ch s')) = toi_of x + 1"
    "tow (ch s) \<le> 0 \<longrightarrow> tow (ch s') \<in> {frame_tow (itow_of x) (nat (toi_of x + 1)) - 1, frame_tow (itow_of x) (nat (toi_of x + 1))}" by auto
  have f: "\<lfloor>x / 12\<rfloor> = 100 * itow_of x + toi_of x" by (simp only: toi_itow)
  then have "\<lfloor>x / 12\<rfloor> mod 100 = toi_of x" using a(6,7) by simp
  moreover have "frame_tow (itow_of x) (nat (toi_of x + 1)) = 12000 * (\<lfloor>x / 12\<rfloor> + 1) + 136" using a(6) by (simp add: frame_tow_def f)
  ultimately show ?thesis using s' by auto
qed

theorem simulated_frame_received_witness:
  "let a = gpst2afst \<lparr>gps_week = 5, gps_sec = 1245\<rparr>;
       lib = block_lib (SF2_codeword (with_crc (sb2_bits a eph_demo)))
   in \<exists>st sent s'. sim_frames a [eph_demo] [replicate 6000 0] (replicate 5880 0) (replicate 5880 0) nav0 = Inr (st, sent) \<and>
     decode_AFSD lib (rx_of (sent ! 0)) = Inr s' \<and> week (ch s') = 5 \<and> seq (ch_nav (ch s')) = 4"
proof -
  let ?a = "gpst2afst \<lparr>gps_week = 5, gps_sec = 1245\<rparr>"
  let ?lib = "block_lib (SF2_codeword (with_crc (sb2_bits ?a eph_demo)))"
  have a: "afs_toi ?a = 3" using afst_second [of 1245 5] by simp
  obtain st where b: "sim_frames ?a [eph_demo] [replicate 6000 0] (replicate 5880 0) (replicate 5880 0) nav0 = Inr (st, map (sim_frame_of ?a) [eph_demo])"
    using sim_frames_ok [of nav0 "replicate 5880 0" "replicate 5880 0" "[eph_demo]" "[replicate 6000 0]" ?a] by auto
  have g: "on_grid 0 1245" using on_grid_int [of 1245 0] by simp
  have fl: "\<lfloor>1245 / 12 :: rat\<rfloor> = 103" by (simp add: floor_eq_iff)
  have due: "frame_due (rx_of (map (sim_frame_of ?a) [eph_demo] ! 0)) 0 (map (sim_frame_of ?a) [eph_demo] ! 0)"
    using frame_due_sim [of ?a] a by simp
  have "\<exists>s'. decode_AFSD ?lib (rx_of (map (sim_frame_of ?a) [eph_demo] ! 0)) = Inr s' \<and> week (ch s') = 5 \<and>
      seq (ch_nav (ch s')) = \<lfloor>1245 / 12 :: rat\<rfloor> mod 100 + 1 \<and> (tow (ch (rx_of (map (sim_frame_of ?a) [eph_demo] ! 0))) \<le> 0 \<longrightarrow>
        tow (ch s') \<in> {12000 * (\<lfloor>1245 / 12 :: rat\<rfloor> + 1) + 135, 12000 * (\<lfloor>1245 / 12 :: rat\<rfloor> + 1) + 136})"
    by (rule simulated_frame_received [OF block_lib_ok(1,2) g _ _ _ _ _ refl _ _ _ _ _ _ b _ due])
      (use a in \<open>simp_all add: block_lib_ok\<close>)
  then show ?thesis unfolding Let_def fl using b by auto
qed

text \<open>
  C16: in the last frame of an interval the simulator sends frame number 100 (and, since it never starts a
  new interval, higher ones after it), which is not a frame number of the code: the receiver does not
  find it, drops the frame and loses its synchronisation and its time of week.
\<close>

theorem simulated_toi_overflow:
  assumes "0 \<le> g" "g < 604800" "n < 1000000" "a = gpst2afst \<lparr>gps_week = w, gps_sec = of_int g\<rparr>"
    and run: "(sim_epoch ^^ n) (dadd (of_int g) (dbl (1 / 10)), a, map (sim_frame_of a) ephs) = (grx, a', sent)"
    and late: "(10 * g + int n + 10) div 120 - (if g mod 12 = 11 then 1 else 0) - 100 * (g div 1200) \<in> {99..126}"
    and due: "k < length ephs" "frame_due s rv (sent ! k)"
  shows "\<exists>s'. decode_AFSD lib s = Inr s' \<and> fsync (ch_nav (ch s')) = 0 \<and> tow (ch s') = -1 \<and> tow_v (ch s') = 0"
proof -
  have c: "dadd (of_int g) (dbl (1 / 10)) = grx_clock g 1" by (simp add: grx_clock_def)
  have r: "a' = a\<lparr>afs_toi := afs_toi a + toi_updates g n\<rparr>" "sent = map (sim_frame_of a') ephs"
    using run sim_epochs [OF assms(1), of n a ephs] assms(2,3) unfolding c by auto
  have "afs_toi a' = g mod 1200 div 12 + toi_updates g n" using r(1) assms(4) by (simp add: afst_second [OF assms(1,2)])
  then have "99 \<le> afs_toi a'" "afs_toi a' < 127" using late frame_count [of g] by (auto simp: toi_updates_def)
  moreover have "frame_due s rv (sim_frame_of a' (ephs ! k))" using due r(2) by simp
  ultimately show ?thesis by (intro sim_frame_dropped)
qed

theorem simulated_toi_overflow_witness:
  "let a = gpst2afst \<lparr>gps_week = 5, gps_sec = of_int 1195\<rparr>
   in \<exists>s'. decode_AFSD zero_lib (rx_of (sim_frame_of a eph_demo)) = Inr s' \<and> fsync (ch_nav (ch s')) = 0 \<and> tow (ch s') = -1"
proof -
  let ?a = "gpst2afst \<lparr>gps_week = 5, gps_sec = of_int 1195\<rparr>"
  have a: "afs_toi ?a = 99" using afst_second [of 1195 5] by simp
  have due: "frame_due (rx_of (sim_frame_of ?a eph_demo)) 0 (map (sim_frame_of ?a) [eph_demo] ! 0)"
    using frame_due_sim [of ?a] a by simp
  have run: "(sim_epoch ^^ 0) (dadd (of_int 1195) (dbl (1 / 10)), ?a, map (sim_frame_of ?a) [eph_demo]) =
    (dadd (of_int 1195) (dbl (1 / 10)), ?a, map (sim_frame_of ?a) [eph_demo])" by simp
  from simulated_toi_overflow [OF _ _ _ refl run _ _ due, of zero_lib] show ?thesis by (auto simp: Let_def)
qed

end
