(* ===== verification/Sdr_Pvt_Afs_Props.thy ===== *)
theory Sdr_Pvt_Afs_Props
  imports Sdr_Pvt_Afs_Obs Afs_End_To_End_Props
begin

text \<open>
  Properties of the position solution for AFS satellites: the ephemeris that arrives from the simulator,
  the least squares step, the true position as a fixed point, and what the program returns.
\<close>

section \<open>Objects for the witnesses\<close>

text \<open>
  The C library at the few arguments the examples evaluate: an orbit in the plane of the equator, seen
  at its epoch on the x axis.
\<close>

definition libm_demo :: libm where
  "libm_demo = \<lparr>m_sin = \<lambda>x. 0, m_cos = \<lambda>x. 1, m_atan2 = \<lambda>y x. 0, m_sqrt = \<lambda>x. if x = 2 ^ 42 then 2 ^ 21 else 0\<rparr>"

definition eph_axis :: "rat \<Rightarrow> rx_ephem_t" where
  "eph_axis af0 = \<lparr>eph_vflg = 1, eph_toe = \<lparr>gps_week = 5, gps_sec = 64\<rparr>, eph_toc = \<lparr>gps_week = 5, gps_sec = 64\<rparr>, eph_ecc = 0, eph_sqrta = 2048,
     eph_m0 = 0, eph_omg0 = 0, eph_inc0 = 0, eph_aop = 0, eph_af0 = af0, eph_af1 = 0, eph_n = 0, eph_A = 4194304, eph_sq1e2 = 1, eph_prn = 1\<rparr>"

definition g_demo :: gpstime_t where
  "g_demo = \<lparr>gps_week = 5, gps_sec = 64\<rparr>"

lemma dbl_numeral [simp]:
  "dbl 1 = 1" "(numeral n :: int) < 2 ^ 53 \<Longrightarrow> dbl (numeral n) = numeral n" "(numeral n :: int) < 2 ^ 53 \<Longrightarrow> dbl (- numeral n) = - numeral n"
  using dbl_int [of 1] dbl_int [of "numeral n"] dbl_minus [of "numeral n"] by simp_all

lemma sqrt_dbl_demo: "sqrt_dbl libm_demo"
  by (simp add: sqrt_dbl_def libm_demo_def)

lemma dbl_2_pow_m20: "dbl (1 / 1048576) = 1 / 1048576"
  using dbl_near [of "1 / 1048576" 72 "2 ^ 52"] by simp

lemma satpos_demo:
  assumes "dbl af0 = af0"
  shows "satpos libm_demo (ephem_t.truncate (eph_axis af0)) g_demo = Some ((4194304, 0, 0), (0, 0, 0), af0, 0)"
proof -
  have k: "kepler_loop libm_demo 0 0 0 1 1 = Some (0, 1)" using kepler_circular [of 0] by simp
  show ?thesis unfolding satpos_def truncate_fields eph_axis_def g_demo_def
    by (simp add: Let_def dsub_def dadd_def dmul_def ddiv_def week_wrap_def SECONDS_IN_HALF_WEEK_def k)
      (simp add: libm_demo_def dsub_def dadd_def dmul_def ddiv_def assms)
qed

section \<open>The ephemeris\<close>

lemma message_week:
  assumes "take 150 buff = sb2_message a eph" "0 \<le> afs_wn a" "afs_wn a < 8192" "0 \<le> afs_itow a" "afs_itow a < 512"
  shows "uint (getbitu buff 0 13) = afs_wn a"
proof -
  have "getbitu buff 0 13 = getbitu (take 150 buff) 0 13" by (rule getbitu_take [symmetric]) simp
  then show ?thesis using sb2_fields(1) [OF assms(2-5), of "with_crc (sb2_bits a eph)" eph] unfolding assms(1) sb2_message_def by simp
qed

lemma decode_message:
  assumes "take 150 buff = sb2_message a x" "eph_range x" "length tab = 12" "1 \<le> p" "p \<le> 12"
    "0 \<le> afs_wn a" "afs_wn a < 8192" "0 \<le> afs_itow a" "afs_itow a < 512"
  obtains e where "decode_afs_frame L buff p tab = Some (tab[nat (p - 1) := e], 1)" "eph_close x e" "eph_vflg e = 1"
    "gps_week (eph_toe e) = afs_wn a" "gps_week (eph_toc e) = afs_wn a" "eph_working L e = e"
proof -
  let ?e = "read_ephemeris L buff p (tab ! nat (p - 1))"
  have "decode_afs_frame L buff p tab = Some (tab[nat (p - 1) := ?e], 1)"
    using assms(3-5) by (simp add: decode_afs_frame_def arr_at_def MAX_SAT_def Let_def)
  moreover have "gps_week (eph_toe ?e) = afs_wn a" "gps_week (eph_toc ?e) = afs_wn a"
    using message_week [OF assms(1,6-9)] by (simp_all add: read_ephemeris_def eph_working_def Let_def)
  moreover have "eph_working L ?e = ?e" by (simp add: read_ephemeris_def eph_working_def Let_def)
  ultimately show ?thesis using that read_ephemeris_close [OF assms(1,2)] read_ephemeris_fields(11) by blast
qed

text \<open>
  C4: the ephemeris of the simulator in the receiver, for an ephemeris within \<open>eph_range\<close>: times of the
  ephemeris and of the clock within the week, eccentricity from 0 to 0.99, square root of the axis from 0 to
  8000, the four angles within 3.14 of zero, clock offset within 0.0009 and drift within 3e-9, each of them
  zero or not astronomically small. Of the frames that the simulator builds for a GPS time outside the last
  frame of an interval, with a week below 8192, the one of such a satellite is accepted by a receiver channel
  for which it is due (\<open>frame_due\<close>: unsynchronised, or one frame after the last in the same polarity) when the
  LDPC library recovers subframe 2, and the ephemeris the position solution then stores for the satellite is
  the simulator's: times to the 16 seconds of their field, the orbit to one unit of each field (the angles to
  \<open>\<pi>\<close> units), the week of the frame, the working variables computed, and no other satellite's entry changed.
  Nothing is claimed outside these ranges. Of the repository's default almanac the satellites 1, 2 and 4 are
  within them (\<open>default_almanac_range\<close>); 3 and 5 to 8 have an angle of 3.1415926536, above the program's \<open>PI\<close>,
  are outside (\<open>default_almanac_outside\<close>), and the conversion of that angle is undefined in C.
\<close>

theorem ephemeris_received:
  assumes "check_counts lib" "changed_counts lib" "on_grid K x" "K \<le> 900" "0 \<le> x" "x < 604800" "0 \<le> w" "w < 8192"
    and time: "a = gpst2afst \<lparr>gps_week = w, gps_sec = x\<rparr>" "afs_toi a \<noteq> 99"
    and init: "nav_ok st" "length buf = 5880" "length sb234 = 5880" "length ephs = length frames" "\<forall>frame \<in> set frames. length frame = 6000"
    and built: "sim_frames a ephs frames buf sb234 st = Inr (st', sent)" "k < length sent"
    and due: "frame_due s rv (sent ! k)"
    and rec: "recovers lib SF2_H 5040 6240 (received_sb2 (sb2_symbols (sb2_bits a (ephs ! k)))) (SF2_codeword (with_crc (sb2_bits a (ephs ! k))))"
    and table: "eph_range (ephs ! k)" "length tab = 12" "1 \<le> p" "p \<le> 12"
  shows "\<exists>s' e. decode_AFSD lib s = Inr s' \<and> decode_afs_frame L (data (ch_nav (ch s'))) p tab = Some (tab[nat (p - 1) := e], 1) \<and>
    eph_close (ephs ! k) e \<and> eph_vflg e = 1 \<and> gps_week (eph_toe e) = w \<and> gps_week (eph_toc e) = w \<and> eph_working L e = e"
proof -
  note t = afst_in_week [OF assms(3-6), of w]
  have a: "afs_wn a = w" "0 \<le> afs_itow a" "afs_itow a < 512" "0 \<le> afs_toi a" "afs_toi a < 99" using t time by auto
  have "sent = map (sim_frame_of a) ephs" using sim_frames_ok [OF init, of a] built(1) by auto
  then have "frame_due s rv (sim_frame_of a (ephs ! k))" using due built(2) by simp
  from sim_frame_accepted [OF assms(1,2) this _ _ _ _ _ _ rec] a assms(7,8)
  obtain s' where s': "decode_AFSD lib s = Inr s'" "take 150 (data (ch_nav (ch s'))) = sb2_message a (ephs ! k)" by (auto simp: sb2_message_def)
  from decode_message [OF s'(2) table] a assms(7,8) s'(1) show ?thesis by metis
qed

lemma eph_demo_range: "eph_range eph_demo"
proof -
  have "on_grid 900 60" using on_grid_int [of 60 900] by simp
  moreover have "sizable x" if "1 / 4 \<le> x" for x
  proof -
    have "(1 :: rat) / 2 ^ 900 \<le> 1 / 2 ^ 2" by (intro divide_left_mono power_increasing) auto
    then have "(1 :: rat) / 2 ^ 900 \<le> 1 / 4" by (rule order_trans) simp
    then have "1 / 2 ^ 900 \<le> \<bar>x\<bar>" using that by (meson abs_ge_self order_trans)
    then show ?thesis unfolding sizable_def by blast
  qed
  moreover have "sizable 0" by (simp add: sizable_def)
  ultimately show ?thesis by (simp add: eph_range_def eph_demo_def)
qed

theorem ephemeris_received_witness:
  "let a = gpst2afst \<lparr>gps_week = 5, gps_sec = 1245\<rparr>;
       lib = block_lib (SF2_codeword (with_crc (sb2_bits a eph_demo)))
   in \<exists>s' e. decode_AFSD lib (rx_of (sim_frame_of a eph_demo)) = Inr s' \<and>
     decode_afs_frame libm_demo (data (ch_nav (ch s'))) 8 (replicate 12 (eph_axis 0)) = Some ((replicate 12 (eph_axis 0))[7 := e], 1) \<and>
     gps_sec (eph_toe e) = 48 \<and> eph_vflg e = 1 \<and> gps_week (eph_toe e) = 5"
proof -
  let ?a = "gpst2afst \<lparr>gps_week = 5, gps_sec = 1245\<rparr>"
  let ?lib = "block_lib (SF2_codeword (with_crc (sb2_bits ?a eph_demo)))"
  have a: "afs_toi ?a = 3" using afst_second [of 1245 5] by simp
  obtain st where b: "sim_frames ?a [eph_demo] [replicate 6000 0] (replicate 5880 0) (replicate 5880 0) nav0 = Inr (st, map (sim_frame_of ?a) [eph_demo])"
    using sim_frames_ok [of nav0 "replicate 5880 0" "replicate 5880 0" "[eph_demo]" "[replicate 6000 0]" ?a] by auto
  have g: "on_grid 0 1245" using on_grid_int [of 1245 0] by simp
  have due: "frame_due (rx_of (sim_frame_of ?a eph_demo)) 0 (map (sim_frame_of ?a) [eph_demo] ! 0)" using frame_due_sim [of ?a] a by simp
  have "\<exists>s' e. decode_AFSD ?lib (rx_of (sim_frame_of ?a eph_demo)) = Inr s' \<and>
      decode_afs_frame libm_demo (data (ch_nav (ch s'))) 8 (replicate 12 (eph_axis 0)) = Some ((replicate 12 (eph_axis 0))[nat (8 - 1) := e], 1) \<and>
      eph_close ([eph_demo] ! 0) e \<and> eph_vflg e = 1 \<and> gps_week (eph_toe e) = 5 \<and> gps_week (eph_toc e) = 5 \<and> eph_working libm_demo e = e"
    by (rule ephemeris_received [OF block_lib_ok(1,2) g _ _ _ _ _ refl _ _ _ _ _ _ b _ due])
      (use a in \<open>simp_all add: block_lib_ok eph_demo_range\<close>)
  moreover have "\<lfloor>60 / 16 :: rat\<rfloor> = 3" by (simp add: floor_eq_iff)
  ultimately show ?thesis unfolding Let_def by (auto simp: eph_close_def eph_demo_def)
qed

section \<open>The true position\<close>

text \<open>
  C22: the true position is a fixed point. For observations of AFS satellites with the ranges the simulator
  computes at \<open>(x, y, z)\<close> from the same ephemerides, with satellite clocks that are right, every number of
  iterations from \<open>(x, y, z)\<close> ends there exactly, in doubles, with no receiver clock error, unless the
  geometry is found singular.
\<close>

theorem true_position_fixed:
  assumes "sqrt_dbl L" "length eph = 12" "\<forall>d \<in> set obs. afs_obs d" "length obs \<le> 12"
    and ranges: "\<forall>d \<in> set obs. has_eph eph d \<longrightarrow> true_entry L eph g (x, y, z) (Some (obs_entry d))"
    and dbls: "dbl (gps_sec g) = gps_sec g" "0 \<le> gps_sec g" "dbl x = x" "dbl y = y" "dbl z = z"
  shows "\<exists>arr dops q. read_obs eph obs 0 (replicate MAX_SAT None) = Inr (length (filter (has_eph eph) obs), arr) \<and>
    pvt_iters k L dbl_arith eph g arr (length (filter (has_eph eph) obs)) d0 ((x, y, z), 0) = Inr (dops, q) \<and>
    (q = None \<or> q = Some ((x, y, z), 0))"
proof -
  let ?n = "length (filter (has_eph eph) obs)"
  obtain arr where arr: "read_obs eph obs 0 (replicate MAX_SAT None) = Inr (?n, arr)" "length arr = 12"
    "\<And>i. i < ?n \<Longrightarrow> arr ! i = Some (obs_entry (filter (has_eph eph) obs ! i))"
    using read_afs_obs [OF assms(2-4)] by blast
  have n: "?n \<le> 12" using assms(4) by (rule order_trans [OF length_filter_le])
  have "true_entry L eph g (x, y, z) (arr ! i)" if "i < ?n" for i
    using that arr(3) ranges nth_mem [OF that] by simp
  then have "\<forall>i < ?n. i < length arr \<and> true_entry L eph g (x, y, z) (arr ! i)" using n arr(2) by simp
  from pvt_iters_true [OF assms(1) this dbls, of k d0] arr(1) show ?thesis by blast
qed

definition obs_demo :: "int \<Rightarrow> obsd_t" where
  "obs_demo k = \<lparr>obs_time = \<lparr>gt_time = 319593664, gt_sec = 0\<rparr>, obs_sat = k, obs_SNR = replicate 11 0, obs_LLI = replicate 11 0,
     obs_code = 80 # replicate 10 0, obs_L = replicate 11 0, obs_P = 2097152 # replicate 10 0\<rparr>"

lemma first_code_demo: "first_code (obs_code (obs_demo k)) = Some 0"
  by (simp add: first_code_def obs_demo_def upt_conv_Cons)

lemma afs_obs_demo: "k \<in> {183..194} \<Longrightarrow> afs_obs (obs_demo k)"
  using first_code_demo by (simp add: afs_obs_def) (simp add: obs_demo_def satsys_def)

lemma range_demo:
  assumes "dbl af0 = af0"
  shows "computeRange libm_demo (ephem_t.truncate (eph_axis af0)) g_demo (2097152, 0, 0) =
      Some \<lparr>rho_g = g_demo, rho_range = dsub 2097152 (dmul SPEED_OF_LIGHT af0), rho_rate = 0\<rparr>"
    "\<exists>d. computeRange_rx libm_demo (eph_axis af0) g_demo (2097152, 0, 0) 0 = Some (2097152, d)"
  using satpos_demo [OF assms]
  by (simp_all add: computeRange_def computeRange_rx_def satpos_rx_eq subVect_def normVect_def dotProd_def move_back_def Let_def g_demo_def
      dsub_def dadd_def dmul_def ddiv_def libm_demo_def)

theorem true_position_fixed_witness:
  "let obs = map obs_demo [183, 184, 185, 186]; eph = replicate 12 (eph_axis 0) in
   \<exists>arr dops q. read_obs eph obs 0 (replicate MAX_SAT None) = Inr (4, arr) \<and>
     pvt_iters 4 libm_demo dbl_arith eph g_demo arr 4 (0, 0) ((2097152, 0, 0), 0) = Inr (dops, q) \<and> (q = None \<or> q = Some ((2097152, 0, 0), 0))"
proof -
  let ?obs = "map obs_demo [183, 184, 185, 186]" and ?eph = "replicate 12 (eph_axis 0)"
  have all: "has_eph ?eph (obs_demo k)" "obs_entry (obs_demo k) = (k - 182, 2097152)" if "k \<in> {183..194}" for k
    using that first_code_demo [of k] by (simp_all add: has_eph_def obs_entry_def nth_replicate obs_demo_def satsys_def eph_axis_def nat_less_iff)
  then have "length (filter (has_eph ?eph) ?obs) = 4" by simp
  moreover have entry: "true_entry libm_demo ?eph g_demo (2097152, 0, 0) (Some (j, 2097152))" if "1 \<le> j" "j \<le> 12" for j
    using that range_demo(1) [of 0] by (simp add: true_entry_def nth_replicate nat_less_iff dsub_def dmul_def) (simp add: eph_axis_def)
  moreover have "\<exists>arr dops q. read_obs ?eph ?obs 0 (replicate MAX_SAT None) = Inr (length (filter (has_eph ?eph) ?obs), arr) \<and>
      pvt_iters 4 libm_demo dbl_arith ?eph g_demo arr (length (filter (has_eph ?eph) ?obs)) (0, 0) ((2097152, 0, 0), 0) = Inr (dops, q) \<and>
      (q = None \<or> q = Some ((2097152, 0, 0), 0))"
    by (rule true_position_fixed [OF sqrt_dbl_demo]) (use entry afs_obs_demo all in \<open>simp_all add: g_demo_def\<close>)
  ultimately show ?thesis unfolding Let_def by (simp only:)
qed

section \<open>Satellite clocks\<close>

lemma dbl_error_abs:
  assumes "1 / 2 ^ 1000 \<le> \<bar>x\<bar>" "\<bar>x\<bar> < 2 ^ 53" shows "\<bar>dbl x - x\<bar> \<le> \<bar>x\<bar> / 2 ^ 53"
proof (cases "0 \<le> x")
  case False
  then have "\<bar>dbl (- x) - (- x)\<bar> \<le> - x / 2 ^ 53" using dbl_error [of "- x"] assms by simp
  then show ?thesis using False by (simp add: dbl_minus)
qed (use dbl_error [of x] assms in simp)

lemma dbl_error_range:
  assumes "1 \<le> \<bar>x\<bar>" "\<bar>x\<bar> \<le> 4000000000" shows "\<bar>dbl x - x\<bar> \<le> 1 / 10000"
proof -
  have "1 / 2 ^ 1000 \<le> \<bar>x\<bar>" by (rule order_trans [OF _ assms(1)]) simp
  moreover have "\<bar>x\<bar> < 2 ^ 53" by (rule le_less_trans [OF assms(2)]) simp
  ultimately have "\<bar>dbl x - x\<bar> \<le> \<bar>x\<bar> / 2 ^ 53" by (rule dbl_error_abs)
  also have "\<dots> \<le> 4000000000 / 2 ^ 53" using assms(2) by (intro divide_right_mono) auto
  also have "\<dots> \<le> 1 / 10000" by simp
  finally show ?thesis .
qed

section \<open>The default almanac\<close>

text \<open>
  The entries of the repository's default almanac differ in the ascending node and the mean anomaly only. Those of
  the satellites 1, 2 and 4 are in the ranges; the others have an angle of 3.1415926536, which is not.
\<close>

definition almanac_entry :: "rat \<Rightarrow> rat \<Rightarrow> ephem_t" where
  "almanac_entry node anomaly = eph_demo\<lparr>eph_toe := \<lparr>gps_week = 229, gps_sec = 319488\<rparr>, eph_toc := \<lparr>gps_week = 229, gps_sec = 319488\<rparr>,
     eph_ecc := dbl (6 / 10), eph_inc0 := dbl (9826203689 / 10 ^ 10), eph_sqrta := dbl (2557342371 / 10 ^ 6),
     eph_omg0 := dbl node, eph_aop := dbl (1570796327 / 10 ^ 9), eph_m0 := dbl anomaly, eph_af0 := 0, eph_af1 := 0\<rparr>"

lemma read_double:
  assumes "1 / 2 \<le> \<bar>x\<bar>" "\<bar>x\<bar> \<le> 3000"
  shows "\<bar>dbl x - x\<bar> \<le> 1 / 10 ^ 11" "sizable (dbl x)"
proof -
  have "(1 :: rat) / 2 ^ 1000 \<le> 1 / 2 ^ 1" by (intro divide_left_mono power_increasing) auto
  then have "1 / 2 ^ 1000 \<le> \<bar>x\<bar>" using assms(1) by simp
  then have "\<bar>dbl x - x\<bar> \<le> \<bar>x\<bar> / 2 ^ 53" by (rule dbl_error_abs) (use assms(2) in simp)
  also have "\<dots> \<le> 3000 / 2 ^ 53" using assms(2) by (intro divide_right_mono) auto
  also have "\<dots> \<le> 1 / 10 ^ 11" by simp
  finally show e: "\<bar>dbl x - x\<bar> \<le> 1 / 10 ^ 11" .
  have "(1 :: rat) / 2 ^ 900 \<le> 1 / 2 ^ 2" by (intro divide_left_mono power_increasing) auto
  moreover have "1 / 4 \<le> \<bar>dbl x\<bar>" using e assms(1) by (simp add: abs_if split: if_splits)
  ultimately have "1 / 2 ^ 900 \<le> \<bar>dbl x\<bar>" by simp
  then show "sizable (dbl x)" by (simp add: sizable_def)
qed

lemma default_almanac_range:
  assumes "m \<in> {0, 15707963268 / 10 ^ 10, - (15707963268 / 10 ^ 10)}"
  shows "eph_range (almanac_entry 0 m)"
proof -
  have angle: "sizable (dbl x) \<and> \<bar>dbl x\<bar> \<le> 314 / 100" if "x = 0 \<or> 1 / 2 \<le> \<bar>x\<bar> \<and> \<bar>x\<bar> \<le> 2" for x
  proof (cases "x = 0")
    case True
    then show ?thesis by (simp add: sizable_def dbl_def)
  next
    case False
    then show ?thesis using read_double [of x] that by (auto simp: abs_if split: if_splits)
  qed
  have m: "sizable (dbl m) \<and> \<bar>dbl m\<bar> \<le> 314 / 100" by (rule angle) (use assms in auto)
  note o = angle [of 0, simplified] angle [of "9826203689 / 10 ^ 10", simplified] angle [of "1570796327 / 10 ^ 9", simplified]
  have e: "sizable (dbl (6 / 10)) \<and> 0 \<le> dbl (6 / 10) \<and> dbl (6 / 10) \<le> 99 / 100" using abs_le_D1 [OF read_double(1) [of "6 / 10"]] abs_le_D2 [OF read_double(1) [of "6 / 10"]] read_double(2) [of "6 / 10"] by simp
  have q: "sizable (dbl (2557342371 / 10 ^ 6)) \<and> 0 \<le> dbl (2557342371 / 10 ^ 6) \<and> dbl (2557342371 / 10 ^ 6) \<le> 8000"
    using abs_le_D1 [OF read_double(1) [of "2557342371 / 10 ^ 6"]] abs_le_D2 [OF read_double(1) [of "2557342371 / 10 ^ 6"]] read_double(2) [of "2557342371 / 10 ^ 6"] by simp
  have "on_grid 900 319488" using on_grid_int [of 319488 900] by simp
  moreover have "sizable 0" by (simp add: sizable_def)
  ultimately show ?thesis using m o e q by (simp add: eph_range_def almanac_entry_def)
qed

lemma default_almanac_outside: "\<not> eph_range (almanac_entry (31415926536 / 10 ^ 10) m)" "\<not> eph_range (almanac_entry x (31415926536 / 10 ^ 10))"
proof -
  have "\<not> \<bar>dbl (31415926536 / 10 ^ 10)\<bar> \<le> 314 / 100"
    using abs_le_D2 [OF read_double(1) [of "31415926536 / 10 ^ 10"]] by simp
  then show "\<not> eph_range (almanac_entry (31415926536 / 10 ^ 10) m)" "\<not> eph_range (almanac_entry x (31415926536 / 10 ^ 10))"
    by (auto simp: eph_range_def almanac_entry_def)
qed

text \<open>
  C31: the receiver leaves out the clock of the satellite. The term \<open>- dt_sat * SPEED_OF_LIGHT\<close> of the
  predicted range is a comment, while the simulator takes it from its range: at the true position the
  observed minus predicted range of a satellite is not 0 but, to a millimetre, the negated clock error
  times the speed of light.
\<close>

theorem satellite_clock_ignored:
  assumes "sqrt_dbl L" "1 \<le> p" "p \<le> int (length eph)" "dbl (gps_sec g) = gps_sec g" "0 \<le> gps_sec g"
    and sim: "computeRange L (ephem_t.truncate (eph ! nat (p - 1))) g xyz = Some rho"
    and clk: "satpos L (ephem_t.truncate (eph ! nat (p - 1))) g = Some (pos, vel, clk0, clk1)" "1 / 100000000 \<le> \<bar>clk0\<bar>" "\<bar>clk0\<bar> \<le> 1 / 1000"
    and dist: "computeRange_rx L (eph ! nat (p - 1)) g xyz 0 = Some (r, d)" "1000000 \<le> r" "r \<le> 1000000000"
  shows "\<exists>v res. predict_row L eph g xyz 0 (Some (p, rho_range rho)) = Inr (v, res) \<and> \<bar>res + SPEED_OF_LIGHT * clk0\<bar> \<le> 1 / 1000"
proof -
  obtain r' d' pos' vel' c0 c1 where x: "computeRange_rx L (eph ! nat (p - 1)) g xyz 0 = Some (r', d')" "dbl r' = r'"
    "satpos L (ephem_t.truncate (eph ! nat (p - 1))) g = Some (pos', vel', c0, c1)" "rho_range rho = dsub r' (dmul SPEED_OF_LIGHT c0)"
    by (rule ranges_related [OF assms(1) sim assms(4,5)])
  have "c0 = clk0" "r' = r" using trans [OF x(3) [symmetric] clk(1)] trans [OF x(1) [symmetric] dist(1)] by simp_all
  then have rho: "rho_range rho = dbl (r - dbl (299792458 * clk0))" using x(4) by (simp only: dsub_def dmul_def SPEED_OF_LIGHT_def)
  have row: "\<exists>v. predict_row L eph g xyz 0 (Some (p, rho_range rho)) = Inr (v, dbl (rho_range rho - r))"
    using assms(2,3) dist(1) by (cases d) (simp add: predict_row_def arr_at_def dsub_def)
  have c: "2 \<le> \<bar>299792458 * clk0\<bar>" "\<bar>299792458 * clk0\<bar> \<le> 300000" using clk(2,3) by (simp_all add: abs_mult)
  have e1: "\<bar>dbl (299792458 * clk0) - 299792458 * clk0\<bar> \<le> 1 / 10000" by (rule dbl_error_range) (use c in linarith)+
  have e2: "\<bar>rho_range rho - (r - dbl (299792458 * clk0))\<bar> \<le> 1 / 10000"
    unfolding rho by (rule dbl_error_range) (use c e1 dist(2,3) in linarith)+
  have e3: "\<bar>dbl (rho_range rho - r) - (rho_range rho - r)\<bar> \<le> 1 / 10000" by (rule dbl_error_range) (use c e1 e2 in linarith)+
  have "\<bar>dbl (rho_range rho - r) + 299792458 * clk0\<bar> \<le> 1 / 1000" using e1 e2 e3 by linarith
  then show ?thesis using row unfolding SPEED_OF_LIGHT_def by blast
qed

theorem satellite_clock_ignored_witness:
  "\<exists>v res. predict_row libm_demo [eph_axis (1 / 1048576)] g_demo (2097152, 0, 0) 0
      (Some (1, dsub 2097152 (dmul SPEED_OF_LIGHT (1 / 1048576)))) = Inr (v, res) \<and> \<bar>res + SPEED_OF_LIGHT * (1 / 1048576)\<bar> \<le> 1 / 1000"
proof -
  obtain d where d: "computeRange_rx libm_demo (eph_axis (1 / 1048576)) g_demo (2097152, 0, 0) 0 = Some (2097152, d)"
    using range_demo(2) [OF dbl_2_pow_m20] by blast
  let ?eph = "[eph_axis (1 / 1048576)]" and ?d = "dsub 2097152 (dmul SPEED_OF_LIGHT (1 / 1048576))"
  have "\<exists>v res. predict_row libm_demo ?eph g_demo (2097152, 0, 0) 0 (Some (1, rho_range \<lparr>rho_g = g_demo, rho_range = ?d, rho_rate = 0\<rparr>)) = Inr (v, res) \<and>
      \<bar>res + SPEED_OF_LIGHT * (1 / 1048576)\<bar> \<le> 1 / 1000"
    by (rule satellite_clock_ignored [OF sqrt_dbl_demo, where r = 2097152 and d = d])
      (use range_demo(1) [OF dbl_2_pow_m20] satpos_demo [OF dbl_2_pow_m20] d in \<open>simp_all add: g_demo_def\<close>)
  then show ?thesis by simp
qed

section \<open>Least squares\<close>

text \<open>
  C5: the least squares step without rounding. When the matrix of the normal equations is found regular, no
  other change of position and clock makes the sum of the squares of the residuals smaller than the
  update that the program computes, and residuals that are an exact linear function of a change are
  answered with that change.
\<close>

theorem least_squares_optimal:
  assumes "invCovMat L exact_arith sm n = (dops, Some icm)"
  shows "let u = position_update exact_arith icm sm omp n; predicted = \<lambda>v k. \<Sum>l<4. sm ! k ! l * v ! l in
    (\<Sum>k<n. (omp ! k - predicted u k)\<^sup>2) \<le> (\<Sum>k<n. (omp ! k - predicted v k)\<^sup>2) \<and>
    ((\<forall>k < n. omp ! k = predicted v k) \<longrightarrow> (\<forall>i < 4. u ! i = v ! i))"
proof -
  have m: "invMat exact_arith (normal_mat exact_arith sm n) 4 = Some icm"
    using assms by (auto simp: invCovMat_def MAX_M_def split: option.splits)
  then show ?thesis unfolding Let_def
    using position_update_minimal [OF m, of omp v] position_update_recovers [OF m, of omp "\<lambda>i. v ! i"] by blast
qed

definition sm_demo :: "rat list list" where
  "sm_demo = [[1, 0, 0, 1], [0, 1, 0, 1], [0, 0, 1, 1], [0, 0, 0, 1]]"

lemma PIVOT_EPS_demo: "PIVOT_EPS < 1 / 5"
proof -
  have "(1 :: rat) / 2 ^ 1000 \<le> 1 / 2 ^ 34" by (intro divide_left_mono power_increasing) auto
  then have "(1 :: rat) / 2 ^ 1000 \<le> 1 / 10 ^ 10" by (rule order_trans) simp
  then have "\<bar>PIVOT_EPS - 1 / 10 ^ 10\<bar> \<le> 1 / 10 ^ 10 / 2 ^ 53" unfolding PIVOT_EPS_def by (intro dbl_error) auto
  also have "\<dots> \<le> 1 / 1000" by simp
  finally have "\<bar>PIVOT_EPS - 1 / 10000000000\<bar> \<le> 1 / 1000" by simp
  then show ?thesis by linarith
qed

lemma invMat_demo:
  "invMat exact_arith (normal_mat exact_arith sm_demo 4) 4 = Some [[2, 1, 1, - 1], [1, 2, 1, - 1], [1, 1, 2, - 1], [- 1, - 1, - 1, 1]]"
proof -
  have e: "\<not> 1 \<le> PIVOT_EPS" "\<not> 1 / 4 \<le> PIVOT_EPS" "\<not> 1 / 2 \<le> PIVOT_EPS" "\<not> 1 / 3 \<le> PIVOT_EPS" using PIVOT_EPS_demo by linarith+
  have n: "normal_mat exact_arith sm_demo 4 = [[1, 0, 0, 1], [0, 1, 0, 1], [0, 0, 1, 1], [1, 1, 1, 4]]"
    by (simp add: normal_mat_def MAX_M_def sum_loop_def exact_arith_def sm_demo_def upt_conv_Cons)
  show ?thesis unfolding n
    by (simp add: invMat_def exact_arith_def upt_conv_Cons elim_rows_def elim_row_def scale_row_def e)
qed

theorem least_squares_optimal_witness:
  "position_update exact_arith [[2, 1, 1, - 1], [1, 2, 1, - 1], [1, 1, 2, - 1], [- 1, - 1, - 1, 1]] sm_demo [10, 11, 12, 9] 4 ! 2 = 3"
proof -
  let ?i = "[[2, 1, 1, - 1], [1, 2, 1, - 1], [1, 1, 2, - 1], [- 1, - 1, - 1, 1]] :: rat list list"
  have "\<exists>dops. invCovMat libm_demo exact_arith sm_demo 4 = (dops, Some ?i)" using invMat_demo by (simp add: invCovMat_def MAX_M_def)
  then obtain dops where d: "invCovMat libm_demo exact_arith sm_demo 4 = (dops, Some ?i)" by blast
  have "\<forall>k < 4. [10, 11, 12, 9] ! k = (\<Sum>l<4. sm_demo ! k ! l * [1, 2, 3, 9] ! l)"
    by (simp add: sm_demo_def All_less_Suc numeral_eq_Suc)
  then have "\<forall>i < 4. position_update exact_arith ?i sm_demo [10, 11, 12, 9] 4 ! i = [1, 2, 3, 9] ! i"
    using least_squares_optimal [OF d, of "[10, 11, 12, 9]" "[1, 2, 3, 9]"] unfolding Let_def by blast
  then show ?thesis by simp
qed

section \<open>The solution\<close>

lemma kepler_ends_demo: "kepler_ends libm_demo (replicate 12 (eph_axis 0))"
proof -
  have k: "kepler_loop libm_demo 0 0 0 1 1 = Some (0, 1)" using kepler_circular [of 0] by simp
  have "\<exists>y. satpos_rx libm_demo (eph_axis 0) g = Some y" for g
    unfolding satpos_rx_def eph_axis_def by (simp add: Let_def dadd_def dmul_def k)
  then obtain f where "\<And>g. satpos_rx libm_demo (eph_axis 0) g = Some (f g)" by metis
  then show ?thesis by (auto simp: kepler_ends_def computeRange_rx_def Let_def split: prod.splits)
qed

text \<open>
  C18: what the solution returns. For at most twelve observations, all of AFS satellites with a code, and
  ephemerides for which the Kepler loop ends, the function returns: it keeps inside its arrays and reads
  nothing it has not set. With fewer than four satellites that have an ephemeris only time and status
  change; otherwise the position is either kept, with no solution and no satellites, when the geometry is
  singular, or set, with the status for AFS solutions and the number of satellites used.
\<close>

theorem position_solution_safe:
  assumes "length eph = 12" "\<forall>d \<in> set obs. afs_obs d" "length obs \<le> 12" "kepler_ends L eph"
  shows "\<exists>s'. update_sol_afs L eph t0 obs s = Inr s' \<and> pvt_nsat s' = length obs \<and>
    (if length (filter (has_eph eph) obs) < 4 then s' = s\<lparr>sol_stat := 0, sol_time := t0, pvt_nsat := length obs\<rparr>
     else sol_stat s' = 0 \<and> sol_ns s' = 0 \<and> sol_rr s' = sol_rr s \<and> sol_time s' = t0 \<or>
          sol_stat s' = 12 \<and> sol_ns s' = length (filter (has_eph eph) obs) \<and> length (sol_rr s') = 6 \<and> drop 3 (sol_rr s') = [0, 0, 0] \<and>
          sol_time s' = rtk_timeadd t0 (- sol_dtr0 s'))"
  using assms by (rule update_sol_afs_cases)

definition sol_demo :: pvt_sol where
  "sol_demo = \<lparr>sol_time = \<lparr>gt_time = 0, gt_sec = 0\<rparr>, sol_rr = [1, 2, 3, 0, 0, 0], sol_dtr0 = 0, sol_dtr_sys = replicate 5 0, sol_type = 0, sol_stat = 5, sol_ns = 9, sol_age = 0, sol_ratio = 0,
     pvt_nsat = 7, gdop = 0, pdop = 0\<rparr>"

theorem position_solution_safe_witness:
  "(\<exists>s'. update_sol_afs libm_demo (replicate 12 (eph_axis 0)) \<lparr>gt_time = 319593664, gt_sec = 0\<rparr> (map obs_demo [183, 184, 185, 186]) sol_demo = Inr s' \<and>
      pvt_nsat s' = 4 \<and> (sol_stat s' = 0 \<and> sol_ns s' = 0 \<or> sol_stat s' = 12 \<and> sol_ns s' = 4)) \<and>
   update_sol_afs libm_demo (replicate 12 (eph_axis 0)) \<lparr>gt_time = 319593664, gt_sec = 0\<rparr> [obs_demo 183] sol_demo =
     Inr (sol_demo\<lparr>sol_stat := 0, sol_time := \<lparr>gt_time = 319593664, gt_sec = 0\<rparr>, pvt_nsat := 1\<rparr>)"
proof -
  let ?eph = "replicate 12 (eph_axis 0)"
  have h: "has_eph ?eph (obs_demo k)" if "k \<in> {183..194}" for k
    using that by (simp add: has_eph_def nth_replicate obs_demo_def satsys_def eph_axis_def nat_less_iff)
  note safe = position_solution_safe [of ?eph _ libm_demo "\<lparr>gt_time = 319593664, gt_sec = 0\<rparr>" sol_demo, OF _ _ _ kepler_ends_demo]
  show ?thesis using safe [of "map obs_demo [183, 184, 185, 186]"] safe [of "[obs_demo 183]"] h afs_obs_demo by auto
qed

text \<open>
  The satellite's system is not looked at. \<open>sdr_pvt_udsol\<close> takes this solution as soon as one
  observation has an AFS code, with the observations of every system; a GPS satellite with a number up
  to 12 is then taken for the AFS satellite of that number, and one with a higher number reads behind
  the ephemeris table.
\<close>

theorem systems_confused:
  assumes "length eph = 12" "p \<in> {1..32}" "\<forall>d' \<in> set ds. afs_obs d'" "length ds \<le> 12"
  shows "fst (satsys p) = SYS_GPS \<and> update_sol_afs L eph t0 (ds @ d\<lparr>obs_sat := p\<rparr> # ds') s =
    (if p \<le> 12 then update_sol_afs L eph t0 (ds @ d\<lparr>obs_sat := 182 + p\<rparr> # ds') s else Inl Bad_index)"
proof -
  obtain n arr where ds: "read_obs eph ds 0 (replicate MAX_SAT None) = Inr (n, arr)" using read_afs_obs [OF assms(1,3,4)] by blast
  have "read_obs eph (ds @ d\<lparr>obs_sat := p\<rparr> # ds') 0 (replicate MAX_SAT None) =
      (if p \<le> 12 then read_obs eph (ds @ d\<lparr>obs_sat := 182 + p\<rparr> # ds') 0 (replicate MAX_SAT None) else Inl Bad_index)"
    unfolding read_obs_append ds using assms(1,2) by (simp add: satsys_def arr_at_def split: option.split)
  then show ?thesis using assms(2) by (simp add: update_sol_afs_def satsys_def split: prod.splits)
qed

theorem systems_confused_witness:
  "update_sol_afs libm_demo (replicate 12 (eph_axis 0)) \<lparr>gt_time = 319593664, gt_sec = 0\<rparr> [obs_demo 183, obs_demo 13] sol_demo = Inl Bad_index \<and>
   update_sol_afs libm_demo (replicate 12 (eph_axis 0)) \<lparr>gt_time = 319593664, gt_sec = 0\<rparr> [obs_demo 183, obs_demo 5] sol_demo =
     update_sol_afs libm_demo (replicate 12 (eph_axis 0)) \<lparr>gt_time = 319593664, gt_sec = 0\<rparr> [obs_demo 183, obs_demo 187] sol_demo"
  using systems_confused [of "replicate 12 (eph_axis 0)" 13 "[obs_demo 183]" libm_demo "\<lparr>gt_time = 319593664, gt_sec = 0\<rparr>" "obs_demo 13" "[]" sol_demo]
    systems_confused [of "replicate 12 (eph_axis 0)" 5 "[obs_demo 183]" libm_demo "\<lparr>gt_time = 319593664, gt_sec = 0\<rparr>" "obs_demo 5" "[]" sol_demo] afs_obs_demo [of 183]
  by (simp add: obs_demo_def)

section \<open>Termination\<close>

text \<open>
  C32: the Kepler loop of a circular orbit ends. Whatever the C library returns for sine and cosine, the
  position of a satellite with eccentricity 0 is computed, and with it the range, unless the mean anomaly
  is absurdly small or large.
\<close>

theorem circular_orbit_terminates:
  assumes "eph_ecc eph = 0" and y: "y = eph_m0 eph + dmul (eph_n eph) (week_wrap (dsub (gps_sec g) (gps_sec (eph_toe eph))))"
    and "y = 0 \<or> 1 / 2 ^ 900 \<le> \<bar>y\<bar>" "\<bar>y\<bar> \<le> 2 ^ 52"
  shows "\<exists>rho. computeRange L eph g xyz = Some rho"
proof -
  let ?mk = "dadd (eph_m0 eph) (dmul (eph_n eph) (week_wrap (dsub (gps_sec g) (gps_sec (eph_toe eph)))))"
  have "dbl ?mk = ?mk" using dbl_idem [OF assms(3,4)] by (simp add: dadd_def y)
  then have k: "kepler_loop L (eph_ecc eph) ?mk ?mk (dadd ?mk 1) 1 = Some (?mk, 1)" unfolding assms(1) by (rule kepler_circular)
  have "satpos L eph g \<noteq> None" unfolding satpos_def Let_def k by simp
  then show ?thesis by (auto simp: computeRange_def Let_def split: bind_splits)
qed

theorem circular_orbit_terminates_witness:
  "\<exists>rho. computeRange libm_demo (ephem_t.truncate ((eph_axis 0)\<lparr>eph_m0 := 1 / 4\<rparr>)) g_demo (0, 0, -1737400) = Some rho"
proof -
  have q: "dbl 0 = 0" by simp
  have "(1 :: rat) / 2 ^ 900 \<le> 1 / 2 ^ 2" by (intro divide_left_mono power_increasing) auto
  then have "(1 :: rat) / 2 ^ 900 \<le> \<bar>1 / 4\<bar>" by (rule order_trans) simp
  moreover have "\<bar>1 / 4 :: rat\<bar> \<le> 2 ^ 52" by simp
  ultimately show ?thesis
    by (intro circular_orbit_terminates [where y = "1 / 4"]) (simp_all only: truncate_fields, simp_all add: eph_axis_def g_demo_def dmul_def)
qed

end
