(* ===== verification/Sdr_Pvt_Props.thy ===== *)
theory Sdr_Pvt_Props
  imports Sdr_Pvt_Inv Sdr_Pvt_Flight Sdr_Pvt_Afs_Props
begin

text \<open>
  Properties of the position and time component: its table of observations, the pseudoranges and epochs,
  and an epoch of AFS satellites from the channels to the solution.
\<close>

section \<open>Objects for the witnesses\<close>

definition decoders_demo :: "unit rtk_decoders" where
  "decoders_demo = \<lparr>decode_lnav = \<lambda>d i n. (False, n), decode_lnav_ion = \<lambda>d n. n, decode_glostr = \<lambda>d i n. (False, n),
     decode_gal_inav = \<lambda>d i n. (False, n), decode_gal_fnav = \<lambda>d i n. (False, n), decode_bds_d1 = \<lambda>d i n. (False, n),
     decode_bds_d2 = \<lambda>d i n. (False, n), decode_irn_nav = \<lambda>d i n. (False, n), set_sat = \<lambda>i s n. n, set_geph_tof = \<lambda>i t n. n,
     set_geph_sat = \<lambda>i s f n. n\<rparr>"

definition pntpos_demo :: "obsd_t list \<Rightarrow> unit \<Rightarrow> pvt_sol \<Rightarrow> bool \<times> pvt_sol" where
  "pntpos_demo obs n sol = (False, sol)"

text \<open>A channel of AFS satellite \<open>p\<close> of week \<open>w\<close>, an eighth of a second behind the epoch.\<close>

definition ch_demo :: "int \<Rightarrow> int \<Rightarrow> pvt_ch" where
  "ch_demo p w = \<lparr>prn = p, week = w, tow = 64000, tow_v = 1, lock = 7000, trk_P = [], ch_nav = (sdr_nav_init undefined)\<lparr>fsync := 1\<rparr>,
     ch_state = 3, ch_sat = afs_sat_id p, ch_sig = ''AFSD'', ch_T = 1, ch_coff = 1 / 8, ch_adr = 0, ch_cn0 = 45, trk_sec_sync = 0, trk_err_phas = 0\<rparr>"

section \<open>The table of observations\<close>

text \<open>
  C19: the table of observations. Whatever the channels and the receiver do, in any order, no satellite is
  in the table twice, and so the next observation, whose place the code takes without a check, is within
  the table's 233 entries: handing in an observation never leaves an array when RTKLIB knows the
  frequency of its code, as for the AFS signals, whose places are fixed.
\<close>

theorem observation_table_safe:
  assumes "pvt_reach L code2idx R pntpos conf s"
  shows "distinct (map obs_sat (pvt_obs s)) \<and> length (pvt_obs s) \<le> MAXSAT \<and>
    (code_known code2idx c \<longrightarrow> (\<exists>s'. sdr_pvt_udobs code2idx conf ix c s = Inr s' \<and> length (pvt_obs s') \<le> MAXSAT))"
proof -
  have ok: "pvt_ok s" by (rule pvt_reach_ok [OF assms])
  have len: "length (pvt_obs s) \<le> MAXSAT" if "pvt_ok s" for s :: "'a sdr_pvt_t" using that table_length by (simp add: pvt_ok_def MAXSAT_def)
  show ?thesis using ok len [OF ok] udobs_ok(2) [OF ok, of code2idx c conf ix] udobs_ok(1) [OF ok, of code2idx conf ix c] len
    by (auto simp: pvt_ok_def [of s] table_ok_def)
qed

theorem observation_table_safe_witness:
  "\<exists>s'. sdr_pvt_udobs (\<lambda>sys code. -1) (conf0 1) 3 (ch_demo 7 5) (sdr_pvt_new ()) = Inr s' \<and> length (pvt_obs s') \<le> MAXSAT"
proof -
  have "code_known (\<lambda>sys code. -1) (ch_demo 7 5)" by (simp add: code_known_def ch_demo_def sig2code_afsd CODE_L9D_def)
  then show ?thesis
    using observation_table_safe [OF pvt_reach.new [of libm_demo "\<lambda>sys code. -1" decoders_demo pntpos_demo "conf0 1" "()"], of "ch_demo 7 5" 3] by blast
qed

section \<open>Pseudoranges\<close>

text \<open>
  C33: the pseudorange in each branch of \<open>gen_prng\<close>, for a receiver time of a whole second \<open>t\<close> of a week \<open>w\<close> with
  \<open>0 < w < 65536\<close>, a time of week of the channel from 0 to 604800000 ms, and a code offset of at most a second.
  Let \<open>tau\<close> be the receiver's second of the week, less the channel's time of week, plus the code offset.
  (1) When the channel's week is the receiver's and its time of week is within a second of the receiver's time,
  the pseudorange is the speed of light times \<open>tau\<close>, to a decimetre (the milliseconds are multiplied by a rounded
  thousandth, which costs up to four centimetres at the end of the week). (2) When the channel has a week, at
  most one away from the receiver's, 604800 seconds for each week of the difference are added to \<open>tau\<close>, and the
  pseudorange is the speed of light times the sum, to a metre: right for a signal sent before the receiver's
  week began, and off by a week's distance for a channel whose week number has not turned with the week.
  (3) When it has no week but its time of week is marked 2, as ambiguous, and the coarse offset in the
  navigation data is at most a second, the pseudorange is, to a metre, that of \<open>tau\<close> plus this offset less a
  multiple of a tenth of a second, and it is between light's distances of 50 and 150 milliseconds, to a metre.
  (4) With neither it is 0. Weeks further apart and fractions of a second in the receiver's time are not covered.
\<close>

theorem pseudorange_accuracy:
  assumes "0 < w" "w < 65536" "0 \<le> t" "t < 604800" "0 \<le> tow c" "tow c \<le> 604800000" "\<bar>ch_coff c\<bar> \<le> 1"
  shows "let P = gen_prng (gpst2time w (of_int t)) c; tau = of_int t - of_int (tow c) / 1000 + ch_coff c
    in (week c = w \<longrightarrow> \<bar>of_int t - of_int (tow c) / 1000\<bar> \<le> (1 :: rat) \<longrightarrow> \<bar>P - 299792458 * tau\<bar> \<le> 1 / 10) \<and>
       (0 < week c \<longrightarrow> \<bar>w - week c\<bar> \<le> 1 \<longrightarrow> \<bar>P - 299792458 * (of_int ((w - week c) * 604800) + tau)\<bar> \<le> 1) \<and>
       (week c \<le> 0 \<longrightarrow> tow_v c = 2 \<longrightarrow> \<bar>coff (ch_nav c)\<bar> \<le> 1 \<longrightarrow> (\<exists>k :: int. \<bar>P - 299792458 * (tau + coff (ch_nav c) - of_int k / 10)\<bar> \<le> 1) \<and>
          299792458 / 20 - 1 \<le> P \<and> P \<le> 299792458 * 3 / 20 + 1) \<and>
       (week c \<le> 0 \<longrightarrow> tow_v c \<noteq> 2 \<longrightarrow> P = 0)"
  unfolding Let_def
proof (intro conjI impI, goal_cases)
  case 1
  then show ?case using gen_prng_close assms by blast
next
  case 2
  then show ?case by (rule gen_prng_week [OF assms])
next
  case 3
  then show ?case using gen_prng_ambiguous(1) [OF assms] by blast
next
  case 4
  then show ?case using gen_prng_ambiguous(2) [OF assms] by blast
next
  case 5
  then show ?case using gen_prng_ambiguous(3) [OF assms] by blast
next
  case 6
  then show ?case by (rule gen_prng_unknown)
qed

theorem pseudorange_accuracy_witness:
  "\<bar>gen_prng (gpst2time 5 64) (ch_demo 7 5) - 299792458 / 8\<bar> \<le> 1 / 10 \<and>
   \<bar>gen_prng (gpst2time 5 64) (ch_demo 7 4) - 299792458 * (604800 + 1 / 8)\<bar> \<le> 1 \<and>
   299792458 / 20 - 1 \<le> gen_prng (gpst2time 5 64) ((ch_demo 7 0)\<lparr>tow_v := 2\<rparr>)"
proof -
  have n: "coff (ch_nav (ch_demo p w)) = 0"
    "tow (ch_demo p w) = 64000" "ch_coff (ch_demo p w) = 1 / 8" "week (ch_demo p w) = w" for p w
    by (simp_all add: ch_demo_def sdr_nav_init_def)
  show ?thesis
    using pseudorange_accuracy [of 5 64 "ch_demo 7 5"] pseudorange_accuracy [of 5 64 "ch_demo 7 4"]
      pseudorange_accuracy [of 5 64 "(ch_demo 7 0)\<lparr>tow_v := 2\<rparr>"] by (simp add: n Let_def)
qed

section \<open>An epoch\<close>

text \<open>
  C17: an epoch of AFS satellites, provided that the Kepler loop ends for every ephemeris stored
  (\<open>kepler_ends\<close>: at every time and receiver position; shown for circular orbits only, and an assumption for others,
  such as those of the default almanac with eccentricity 0.6). When the time of the epoch is set, the ephemeris table
  has its 12 entries and the table of observations is empty, and the channels of different AFS satellites, in lock, with a
  time of week, synchronised frames and positive pseudoranges, hand in their observations in any order, each
  appears in the table with its pseudorange under the AFS code, and when with them all channels have come the
  solution for AFS satellites is computed without an error, the table is emptied and the time moves on by one
  epoch; the solution is either none (status 0) or fixed from at least four satellites, and then counts those with an
  ephemeris.
\<close>

theorem afs_epoch:
  assumes "length (pvt_eph s) = 12" "kepler_ends L (pvt_eph s)" "0 < pvt_ix s" "pvt_obs s = []"
    and chs: "cs \<noteq> []" "\<forall>c \<in> set cs. afs_ready (pvt_time s) c" "distinct (map ch_sat cs)" "rcv_nch conf \<le> pvt_nch s + int (length cs)"
  shows "\<exists>s1 s2. udobs_all code2idx conf (pvt_ix s) cs s = Inr s1 \<and> pvt_obs s1 = map (afs_observation (pvt_time s)) cs \<and>
    (\<forall>d \<in> set (pvt_obs s1). afs_obs d \<and> obs_code d ! 0 = CODE_L9D) \<and>
    sdr_pvt_udsol L pntpos conf (pvt_ix s) s1 = Inr s2 \<and> pvt_obs s2 = [] \<and> pvt_nch s2 = 0 \<and> pvt_eph s2 = pvt_eph s \<and>
    pvt_time s2 = rtk_timeadd (pvt_time s) (sdr_epoch conf) \<and>
    (let n = length (filter (has_eph (pvt_eph s)) (pvt_obs s1))
     in sol_stat (pvt_sol s2) = 0 \<or> 4 \<le> n \<and> sol_stat (pvt_sol s2) = 12 \<and> sol_ns (pvt_sol s2) = n)"
proof -
  let ?obs = "map (afs_observation (pvt_time s)) cs"
  have dist: "distinct (map (\<lambda>c. satid2no (ch_sat c)) cs)" by (rule afs_distinct [OF chs(2,3)])
  have twelve: "length cs \<le> 12" by (rule afs_at_most_12 [OF chs(2,3)])
  let ?s1 = "s\<lparr>pvt_obs := ?obs, pvt_nch := pvt_nch s + int (length cs)\<rparr>"
  have u: "udobs_all code2idx conf (pvt_ix s) cs s = Inr ?s1"
    using udobs_all_afs [OF assms(3) chs(2), of code2idx conf] dist twelve assms(4) by simp
  have a: "\<forall>d \<in> set ?obs. afs_obs d \<and> obs_code d ! 0 = CODE_L9D"
    using chs(2) afs_observation_fields(1,4) by (auto simp: CODE_L9D_def)
  have some: "\<exists>d \<in> set ?obs. obs_code d ! 0 = CODE_L9D" using chs(1) a by (cases cs) auto
  obtain sol where sol: "update_sol_afs L (pvt_eph s) (obs_time (?obs ! 0)) ?obs (pvt_sol s) = Inr sol"
    "sol_stat sol = 0 \<or> 4 \<le> length (filter (has_eph (pvt_eph s)) ?obs) \<and> sol_stat sol = 12 \<and> sol_ns sol = length (filter (has_eph (pvt_eph s)) ?obs)"
    using update_sol_afs_cases [OF assms(1) _ _ assms(2), of ?obs "obs_time (?obs ! 0)" "pvt_sol s"] a twelve
    by (auto split: if_splits)
  have due: "epoch_due conf (pvt_ix s) ?s1" using assms(3) chs(4) by (simp add: epoch_due_def)
  obtain s2 where "sdr_pvt_udsol L pntpos conf (pvt_ix s) ?s1 = Inr s2" "pvt_obs s2 = []" "pvt_nch s2 = 0" "pvt_eph s2 = pvt_eph s"
    "pvt_time s2 = rtk_timeadd (pvt_time s) (sdr_epoch conf)" "pvt_sol s2 = sol"
    using udsol_afs [OF due, of L sol pntpos] some a sol(1) by auto
  then show ?thesis using u a sol(2) by (intro exI [of _ ?s1] exI [of _ s2]) simp
qed

lemma ch_demo_ready:
  assumes "p \<in> {1..12}" shows "afs_ready (gpst2time 5 64) (ch_demo p 5)"
proof -
  have "\<bar>gen_prng (gpst2time 5 (of_int 64)) (ch_demo p 5) - 299792458 * (of_int 64 - of_int (tow (ch_demo p 5)) / 1000 + ch_coff (ch_demo p 5))\<bar> \<le> 1 / 10"
    by (rule gen_prng_close) (simp_all add: ch_demo_def)
  moreover have "tow (ch_demo p 5) = 64000" "ch_coff (ch_demo p 5) = 1 / 8" by (simp_all add: ch_demo_def)
  ultimately have "\<bar>gen_prng (gpst2time 5 64) (ch_demo p 5) - 299792458 / 8\<bar> \<le> 1 / 10" by simp
  then have "0 < gen_prng (gpst2time 5 64) (ch_demo p 5)" by linarith
  moreover have "ch_sig (ch_demo p 5) = ''AFSD''" "ch_sat (ch_demo p 5) = afs_sat_id p" "ch_state (ch_demo p 5) = 3" "tow_v (ch_demo p 5) = 1"
    "fsync (ch_nav (ch_demo p 5)) = 1" by (simp_all add: ch_demo_def)
  ultimately show ?thesis using assms \<open>tow (ch_demo p 5) = 64000\<close> by (auto simp: afs_ready_def SDR_STATE_LOCK_def)
qed

lemma distinct_demo: "distinct (map afs_sat_id [4, 5, 6, 7])"
proof -
  have "satid2no (afs_sat_id p) = 182 + p" if "p \<in> {4, 5, 6, 7}" for p using satid_afs that by auto
  then have "distinct (map satid2no (map afs_sat_id [4, 5, 6, 7]))" by simp
  then show ?thesis by (simp only: distinct_map)
qed

definition pvt_demo :: "unit sdr_pvt_t" where
  "pvt_demo = (sdr_pvt_new ())\<lparr>pvt_time := gpst2time 5 64, pvt_ix := 1000, pvt_eph := replicate 12 (eph_axis 0)\<rparr>"

theorem afs_epoch_witness:
  "let cs = map (\<lambda>p. ch_demo p 5) [4, 5, 6, 7] in
   \<exists>s1 s2. udobs_all (\<lambda>sys code. -1) (conf0 4) 1000 cs pvt_demo = Inr s1 \<and> length (pvt_obs s1) = 4 \<and>
     sdr_pvt_udsol libm_demo pntpos_demo (conf0 4) 1000 s1 = Inr s2 \<and> pvt_obs s2 = [] \<and> pvt_nch s2 = 0"
proof -
  let ?cs = "map (\<lambda>p. ch_demo p 5) [4, 5, 6, 7]"
  have s: "pvt_eph pvt_demo = replicate 12 (eph_axis 0)" "pvt_ix pvt_demo = 1000" "pvt_obs pvt_demo = []" "pvt_time pvt_demo = gpst2time 5 64" "pvt_nch pvt_demo = 0"
    by (simp_all add: pvt_demo_def sdr_pvt_new_def)
  have d: "distinct (map ch_sat ?cs)" using distinct_demo by (simp add: ch_demo_def)
  have r: "\<forall>c \<in> set ?cs. afs_ready (pvt_time pvt_demo) c" using ch_demo_ready s(4) by simp
  have "\<exists>s1 s2. udobs_all (\<lambda>sys code. -1) (conf0 4) (pvt_ix pvt_demo) ?cs pvt_demo = Inr s1 \<and> pvt_obs s1 = map (afs_observation (pvt_time pvt_demo)) ?cs \<and>
      (\<forall>d \<in> set (pvt_obs s1). afs_obs d \<and> obs_code d ! 0 = CODE_L9D) \<and>
      sdr_pvt_udsol libm_demo pntpos_demo (conf0 4) (pvt_ix pvt_demo) s1 = Inr s2 \<and> pvt_obs s2 = [] \<and> pvt_nch s2 = 0 \<and> pvt_eph s2 = pvt_eph pvt_demo \<and>
      pvt_time s2 = rtk_timeadd (pvt_time pvt_demo) (sdr_epoch (conf0 4)) \<and>
      (let n = length (filter (has_eph (pvt_eph pvt_demo)) (pvt_obs s1))
       in sol_stat (pvt_sol s2) = 0 \<or> 4 \<le> n \<and> sol_stat (pvt_sol s2) = 12 \<and> sol_ns (pvt_sol s2) = n)"
    by (rule afs_epoch [OF _ _ _ _ _ r d]) (use s kepler_ends_demo in \<open>simp_all add: conf0_def\<close>)
  then show ?thesis unfolding Let_def s(2) by fastforce
qed

section \<open>The first epoch\<close>

text \<open>
  The first epoch. The first channel that knows the week sets the time of the epoch to the next full
  second after its own time of week, and the cycle to the multiple of 20 milliseconds that lies at or
  before 70 milliseconds ahead of that second; the roundings of the thousandths never show.
\<close>

theorem first_epoch:
  assumes "week c = w" "0 < w" "w < 65536" "0 \<le> tow c" "tow c < 604799000" "conf = conf0 n"
  shows "init_epoch conf ix c s = s\<lparr>pvt_time := gpst2time w (of_int (tow c div 1000 + 1)), pvt_ix := (ix + (930 - tow c mod 1000)) sdiv 20 * 20\<rparr>"
  using assms by (intro init_epoch_eq)

theorem first_epoch_witness:
  "init_epoch (conf0 4) 5000 ((ch_demo 7 5)\<lparr>tow := 63990\<rparr>) (sdr_pvt_new ()) = (sdr_pvt_new ())\<lparr>pvt_time := gpst2time 5 64, pvt_ix := 4940\<rparr>"
  using first_epoch [of "(ch_demo 7 5)\<lparr>tow := 63990\<rparr>" 5 "conf0 4" 4 5000 "sdr_pvt_new ()"] by (simp add: ch_demo_def signed_divide_int_def)

section \<open>An observation without a code\<close>

text \<open>
  An observation without a code. A channel whose pseudorange is not positive, such as one of a week
  with number 0, puts its satellite into the table without a code; the solution for AFS satellites
  counts it when the satellite has an ephemeris, and with three others it reads satellite number and range
  from places of its arrays that were never set.
\<close>

theorem codeless_observation:
  assumes "length eph = 12" "kepler_ends L eph" "\<forall>d \<in> set obs. afs_obs d" "length obs < 12" "3 \<le> length (filter (has_eph eph) obs)"
    and ch: "ch_sat c = afs_sat_id p" "p \<in> {1..12}" "182 + p \<notin> set (map obs_sat obs)" "week c \<le> 0" "tow_v c \<noteq> 2" "eph_vflg (eph ! nat (p - 1)) = 1"
  shows "\<exists>d. update_obs code2idx time c obs = Inr (obs @ [d]) \<and> update_sol_afs L eph t0 (obs @ [d]) s = Inl Uninitialised"
proof -
  let ?d = "new_obs time (182 + p)" and ?n = "length (filter (has_eph eph) obs)"
  have sat: "satid2no (ch_sat c) = 182 + p" using satid_afs [OF ch(2)] ch(1) by simp
  have "gen_prng time c = 0" using ch(4,5) by (simp add: gen_prng_def dmul_def split: prod.split)
  moreover have "length (takeWhile (\<lambda>d. obs_sat d \<noteq> 182 + p) obs) = length obs" by (rule find_none [OF ch(3)])
  ultimately have "update_obs code2idx time c obs = Inr (obs @ [?d])"
    using afs_id_string [OF ch(2)] ch(2) sat assms(4) unfolding update_obs_def Let_def sat by (simp add: ch(1) MAXSAT_def)
  moreover have "update_sol_afs L eph t0 (obs @ [?d]) s = Inl Uninitialised"
  proof (rule codeless_uninitialised [OF assms(1-5)])
    show "snd (satsys (obs_sat ?d)) = p" using ch(2) by (simp add: new_obs_fields satsys_def)
    show "first_code (obs_code ?d) = None" by (simp add: new_obs_fields first_code_def upt_conv_Cons find_None_iff)
  qed (use ch in auto)
  ultimately show ?thesis by blast
qed

theorem codeless_observation_witness:
  "\<exists>d. update_obs (\<lambda>sys code. -1) \<lparr>gt_time = 319593664, gt_sec = 0\<rparr> (ch_demo 9 0) (map obs_demo [183, 184, 185]) = Inr (map obs_demo [183, 184, 185] @ [d]) \<and>
     update_sol_afs libm_demo (replicate 12 (eph_axis 0)) \<lparr>gt_time = 319593664, gt_sec = 0\<rparr> (map obs_demo [183, 184, 185] @ [d]) sol_demo = Inl Uninitialised"
proof -
  have h: "has_eph (replicate 12 (eph_axis 0)) (obs_demo k)" if "k \<in> {183..194}" for k
    using that by (simp add: has_eph_def nth_replicate obs_demo_def satsys_def eph_axis_def nat_less_iff)
  have s: "obs_sat (obs_demo k) = k" for k by (simp add: obs_demo_def)
  show ?thesis
    by (rule codeless_observation [OF _ kepler_ends_demo, where p = 9])
      (use h s afs_obs_demo in \<open>simp_all add: ch_demo_def eph_axis_def\<close>)
qed

end
