(* ===== verification/Sdr_Corr.thy ===== *)
theory Sdr_Corr
  imports Sdr_Pvt
begin

text \<open>
  Signal processing of the receiver (\<open>sdr_func.c\<close>, and the sampling of a code in \<open>sdr_code.c\<close>): mixing the
  samples with the carrier by table, the correlator, acquisition by parallel code search, and the
  sampled codes. Samples are bytes with two four bit numbers. A read or write outside an array is
  \<open>None\<close>. The portable loops are modelled, not their versions with vector instructions, which take the
  samples in blocks. The C library, the Fourier transform and the least squares routine of RTKLIB are
  arguments, the record \<open>sdr_ext\<close>.
\<close>

section \<open>Numbers\<close>

text \<open>The C type \<open>float\<close>: 24 bits, to nearest, ties to even, in the range of normal numbers.\<close>

fun flt_exp :: "nat \<Rightarrow> rat \<Rightarrow> int \<Rightarrow> int" where
  "flt_exp 0 x e = e"
| "flt_exp (Suc f) x e =
     (if x < 2 ^ 23 then flt_exp f (2 * x) (e - 1) else if x \<ge> 2 ^ 24 then flt_exp f (x / 2) (e + 1) else e)"

definition flt :: "rat \<Rightarrow> rat" where
  "flt x = (if x = 0 then 0 else let e = flt_exp 300 \<bar>x\<bar> 0 in of_int (round_even (x / 2 powi e)) * 2 powi e)"

text \<open>The value of a number stored in an \<open>int8_t\<close>.\<close>

definition s8 :: "int \<Rightarrow> int" where
  "s8 x = (x + 128) mod 256 - 128"

type_synonym cpx = "rat \<times> rat"

record sdr_ext = libm +
  m_atan :: "rat \<Rightarrow> rat"
  m_log10 :: "rat \<Rightarrow> rat"
  m_sqrtf :: "rat \<Rightarrow> rat"
  fft_fwd :: "cpx list \<Rightarrow> cpx list"
  fft_bwd :: "cpx list \<Rightarrow> cpx list"
  rtk_lsq :: "rat list \<Rightarrow> rat list \<Rightarrow> nat \<Rightarrow> nat \<Rightarrow> rat list option"

definition cpx_mul1 :: "cpx \<Rightarrow> cpx \<Rightarrow> rat \<Rightarrow> cpx" where
  "cpx_mul1 a b s =
     (flt (flt (flt (fst a * fst b) - flt (snd a * snd b)) * s), flt (flt (flt (fst a * snd b) + flt (snd a * fst b)) * s))"

definition sdr_cpx_mul :: "cpx list \<Rightarrow> cpx list \<Rightarrow> rat \<Rightarrow> cpx list" where
  "sdr_cpx_mul a b s = map2 (\<lambda>x y. cpx_mul1 x y s) a b"

definition sqr_sum :: "cpx \<Rightarrow> rat" where
  "sqr_sum c = flt (flt (fst c * fst c) + flt (snd c * snd c))"

definition sdr_cpx_abs :: "'e sdr_ext_scheme \<Rightarrow> cpx \<Rightarrow> rat" where
  "sdr_cpx_abs E c = m_sqrtf E (sqr_sum c)"

section \<open>Mixing with the carrier\<close>

definition SDR_CSCALE :: rat where
  "SDR_CSCALE = flt (1 / 24)"

definition SDR_CPX8_I :: "u8 \<Rightarrow> int" where
  "SDR_CPX8_I x = s8 (16 * uint x) div 16"

definition SDR_CPX8_Q :: "u8 \<Rightarrow> int" where
  "SDR_CPX8_Q x = s8 (uint x) div 16"

definition carr_angle :: "nat \<Rightarrow> rat" where
  "carr_angle i = ddiv (dmul (dmul (-2) RTK_PI) (of_nat i)) 256"

definition carr_I :: "'e sdr_ext_scheme \<Rightarrow> nat \<Rightarrow> int" where
  "carr_I E i = s8 (ROUND (ddiv (m_cos E (carr_angle i)) SDR_CSCALE))"

definition carr_Q :: "'e sdr_ext_scheme \<Rightarrow> nat \<Rightarrow> int" where
  "carr_Q E i = s8 (ROUND (ddiv (m_sin E (carr_angle i)) SDR_CSCALE))"

text \<open>The entry \<open>(j << 8) + i\<close> of the table.\<close>

definition mix_tbl :: "'e sdr_ext_scheme \<Rightarrow> u8 \<Rightarrow> nat \<Rightarrow> int \<times> int" where
  "mix_tbl E j i =
     (let I = SDR_CPX8_I j; Q = SDR_CPX8_Q j
      in (s8 (I * carr_I E i - Q * carr_Q E i), s8 (I * carr_Q E i + Q * carr_I E i)))"

definition mix_scale :: rat where
  "mix_scale = 4294967296"

definition mix_phase :: "rat \<Rightarrow> u32" where
  "mix_phase phi = word_of_int (int_of_dbl (dmul (dsub phi (of_int \<lfloor>phi\<rfloor>)) mix_scale))"

definition mix_step :: "rat \<Rightarrow> u32" where
  "mix_step step = word_of_int (int_of_dbl (dmul step mix_scale))"

fun mix_loop :: "'e sdr_ext_scheme \<Rightarrow> u8 list \<Rightarrow> int \<Rightarrow> u32 \<Rightarrow> u32 \<Rightarrow> nat \<Rightarrow> (int \<times> int) list option" where
  "mix_loop E dat i p s 0 = Some []"
| "mix_loop E dat i p s (Suc n) =
     do {
       d \<leftarrow> arr_at dat i;
       IQ \<leftarrow> mix_loop E dat (i + 1) (p + s) s n;
       Some (mix_tbl E d (unat (drop_bit 24 p)) # IQ)
     }"

definition mix_carr :: "'e sdr_ext_scheme \<Rightarrow> u8 list \<Rightarrow> int \<Rightarrow> int \<Rightarrow> rat \<Rightarrow> rat \<Rightarrow> (int \<times> int) list option" where
  "mix_carr E dat ix N phi step = mix_loop E dat ix (mix_phase phi) (mix_step step) (nat N)"

text \<open>
  Across the end of the buffer the rest comes from its start. Behind the end, the rest would be written
  before the array of results.
\<close>

definition sdr_mix_carr :: "'e sdr_ext_scheme \<Rightarrow> u8 list \<Rightarrow> int \<Rightarrow> int \<Rightarrow> rat \<Rightarrow> rat \<Rightarrow> rat \<Rightarrow> (int \<times> int) list option" where
  "sdr_mix_carr E buff ix N fs fc phi =
     (let step = ddiv fc fs in
      if ix + N \<le> int (length buff) then mix_carr E buff ix N phi step
      else let n = int (length buff) - ix in
        if n < 0 then None
        else do {
          a \<leftarrow> mix_carr E buff ix n phi step;
          b \<leftarrow> mix_carr E buff 0 (N - n) (dadd phi (dmul step (of_int n))) step;
          Some (a @ b)
        })"

section \<open>Correlation\<close>

fun corr_loop :: "(int \<times> int) list \<Rightarrow> int \<Rightarrow> int list \<Rightarrow> int \<Rightarrow> nat \<Rightarrow> cpx \<Rightarrow> cpx option" where
  "corr_loop IQ a code b 0 c = Some c"
| "corr_loop IQ a code b (Suc n) c =
     do {
       x \<leftarrow> arr_at IQ a;
       y \<leftarrow> arr_at code b;
       corr_loop IQ (a + 1) code (b + 1) n (flt (fst c + of_int (fst x * y)), flt (snd c + of_int (snd x * y)))
     }"

text \<open>\<open>IQ + a\<close> and \<open>code + b\<close>, as in C pointers into the arrays.\<close>

definition dot_IQ_code :: "(int \<times> int) list \<Rightarrow> int \<Rightarrow> int list \<Rightarrow> int \<Rightarrow> int \<Rightarrow> rat \<Rightarrow> cpx option" where
  "dot_IQ_code IQ a code b N s =
     do {
       c \<leftarrow> corr_loop IQ a code b (nat N) (0, 0);
       Some (flt (fst c * flt (s * SDR_CSCALE)), flt (snd c * flt (s * SDR_CSCALE)))
     }"

definition corr_at :: "(int \<times> int) list \<Rightarrow> int list \<Rightarrow> int \<Rightarrow> int \<Rightarrow> int \<Rightarrow> cpx option" where
  "corr_at IQ code b N p =
     (if p > 0 then dot_IQ_code IQ p code b (N - p) (flt (1 / of_int (N - p)))
      else if p < 0 then dot_IQ_code IQ 0 code (b - p) (N + p) (flt (1 / of_int (N + p)))
      else dot_IQ_code IQ 0 code b N (flt (1 / of_int N)))"

definition corr_std :: "(int \<times> int) list \<Rightarrow> int list \<Rightarrow> int \<Rightarrow> int \<Rightarrow> int list \<Rightarrow> cpx list option" where
  "corr_std IQ code b N ps = those (map (corr_at IQ code b N) ps)"

definition sdr_corr_std :: "'e sdr_ext_scheme \<Rightarrow> u8 list \<Rightarrow> int \<Rightarrow> int \<Rightarrow> rat \<Rightarrow> rat \<Rightarrow> rat \<Rightarrow> int list \<Rightarrow> int \<Rightarrow> int list \<Rightarrow> cpx list option" where
  "sdr_corr_std E buff ix N fs fc phi code b ps =
     do { IQ \<leftarrow> sdr_mix_carr E buff ix N fs fc phi; corr_std IQ code b N ps }"

text \<open>The correlator by Fourier transform; the plans of the library, at most 32 sizes, are left out.\<close>

definition corr_fft :: "'e sdr_ext_scheme \<Rightarrow> (int \<times> int) list \<Rightarrow> cpx list \<Rightarrow> int \<Rightarrow> cpx list" where
  "corr_fft E IQ code_fft N =
     (let cpx = map (\<lambda>x. (flt (of_int (fst x) * SDR_CSCALE), flt (of_int (snd x) * SDR_CSCALE))) IQ
      in fft_bwd E (sdr_cpx_mul (fft_fwd E cpx) code_fft (flt (flt (1 / of_int N) / of_int N))))"

definition sdr_corr_fft :: "'e sdr_ext_scheme \<Rightarrow> u8 list \<Rightarrow> int \<Rightarrow> int \<Rightarrow> rat \<Rightarrow> rat \<Rightarrow> rat \<Rightarrow> cpx list \<Rightarrow> cpx list option" where
  "sdr_corr_fft E buff ix N fs fc phi code_fft =
     do { IQ \<leftarrow> sdr_mix_carr E buff ix N fs fc phi; Some (corr_fft E IQ code_fft N) }"

section \<open>Acquisition\<close>

text \<open>One row of powers per Doppler bin is added to.\<close>

fun search_loop :: "'e sdr_ext_scheme \<Rightarrow> cpx list \<Rightarrow> u8 list \<Rightarrow> int \<Rightarrow> nat \<Rightarrow> rat \<Rightarrow> rat \<Rightarrow> rat list \<Rightarrow> rat list \<Rightarrow> rat list option" where
  "search_loop E code_fft buff ix N fs fi [] P = Some P"
| "search_loop E code_fft buff ix N fs fi (fd # fds) P =
     do {
       C \<leftarrow> sdr_corr_fft E buff ix (int N) fs (dadd fi fd) 0 code_fft;
       row \<leftarrow> those (map (\<lambda>j. do { p \<leftarrow> arr_at P (int j); Some (flt (p + sqr_sum (C ! j))) }) [0..<N]);
       rest \<leftarrow> search_loop E code_fft buff ix N fs fi fds (drop N P);
       Some (row @ rest)
     }"

definition sdr_search_code :: "'e sdr_ext_scheme \<Rightarrow> cpx list \<Rightarrow> u8 list \<Rightarrow> int \<Rightarrow> nat \<Rightarrow> rat \<Rightarrow> rat \<Rightarrow> rat list \<Rightarrow> rat list \<Rightarrow> rat list option" where
  "sdr_search_code E code_fft buff ix N fs fi fds P = search_loop E code_fft buff ix N fs fi fds P"

text \<open>Number and mean of the powers so far, the largest, and where it was found.\<close>

definition max_step :: "rat list \<Rightarrow> nat \<Rightarrow> int \<times> rat \<times> rat \<times> (nat \<times> nat) option \<Rightarrow> nat \<times> nat \<Rightarrow> int \<times> rat \<times> rat \<times> (nat \<times> nat) option" where
  "max_step P N s ij =
     (case s of (n, ave, mx, ix) \<Rightarrow>
        let p = P ! (fst ij * N + snd ij);
            ave = dadd ave (ddiv (dsub p ave) (of_int (n + 1)))
        in if p \<le> mx then (n + 1, ave, mx, ix) else (n + 1, ave, p, Some ij))"

definition sdr_corr_max :: "'e sdr_ext_scheme \<Rightarrow> rat list \<Rightarrow> nat \<Rightarrow> nat \<Rightarrow> nat \<Rightarrow> rat \<Rightarrow> rat \<times> (nat \<times> nat) option" where
  "sdr_corr_max E P N Nmax M T =
     (case foldl (max_step P N) (0, 0, 0, None) (List.product [0..<M] [0..<Nmax]) of (n, ave, mx, ix) \<Rightarrow>
        (if ave > 0 then flt (dmul 10 (m_log10 E (ddiv (ddiv (dsub mx ave) ave) T))) else 0, ix))"

fun powers :: "rat \<Rightarrow> rat \<Rightarrow> nat \<Rightarrow> rat list" where
  "powers x v 0 = []"
| "powers x v (Suc n) = v # powers x (dmul v x) n"

definition poly_fit :: "'e sdr_ext_scheme \<Rightarrow> rat list \<Rightarrow> rat list \<Rightarrow> nat \<Rightarrow> nat \<Rightarrow> rat list option" where
  "poly_fit E x y nx np = (if nx < np then None else rtk_lsq E (concat (map (\<lambda>i. powers (x ! i) 1 np) [0..<nx])) y np nx)"

definition sdr_fine_dop :: "'e sdr_ext_scheme \<Rightarrow> rat list \<Rightarrow> nat \<Rightarrow> rat list \<Rightarrow> nat \<times> nat \<Rightarrow> rat" where
  "sdr_fine_dop E P N fds ix =
     (case ix of (i0, i1) \<Rightarrow>
        if i0 = 0 \<or> i0 = length fds - 1 then fds ! i0
        else (case poly_fit E (map (\<lambda>i. fds ! (i0 - 1 + i)) [0..<3]) (map (\<lambda>i. P ! ((i0 - 1 + i) * N + i1)) [0..<3]) 3 3 of
                None \<Rightarrow> fds ! i0
              | Some p \<Rightarrow> ddiv (- (p ! 1)) (dmul 2 (p ! 2))))"

definition sdr_dop_bins :: "rat \<Rightarrow> rat \<Rightarrow> rat \<Rightarrow> rat list" where
  "sdr_dop_bins T dop max_dop =
     (let step = flt (ddiv (1 / 2) T);
          len = int_of_dbl (ddiv (dmul 2 max_dop) step) + 1
      in map (\<lambda>i. flt (flt (dop - max_dop) + flt (of_nat i * step))) [0..<nat len])"

definition sdr_shift_freq :: "string \<Rightarrow> int \<Rightarrow> rat \<Rightarrow> rat" where
  "sdr_shift_freq sig fcn fi =
     (if sig = ''G1CA'' then dadd fi (dmul 562500 (of_int fcn))
      else if sig = ''G2CA'' then dadd fi (dmul 437500 (of_int fcn))
      else fi)"

section \<open>Sampled codes\<close>

definition code_dx :: "nat \<Rightarrow> rat \<Rightarrow> rat \<Rightarrow> rat" where
  "code_dx len T fs = ddiv (ddiv (of_nat len) T) fs"

definition res_chip :: "int list \<Rightarrow> rat \<Rightarrow> rat \<Rightarrow> rat \<Rightarrow> nat \<Rightarrow> int option" where
  "res_chip code dx off fs i =
     arr_at code (int_of_dbl (dmul (dadd (dmul off fs) (of_nat i)) dx) smod int (length code))"

definition sdr_res_code :: "int list \<Rightarrow> rat \<Rightarrow> rat \<Rightarrow> rat \<Rightarrow> nat \<Rightarrow> nat \<Rightarrow> int list option" where
  "sdr_res_code code T off fs N Nz =
     do {
       cs \<leftarrow> those (map (res_chip code (code_dx (length code) T fs) off fs) [0..<N]);
       Some (cs @ replicate Nz 0)
     }"

definition sdr_gen_code_fft :: "'e sdr_ext_scheme \<Rightarrow> int list \<Rightarrow> rat \<Rightarrow> rat \<Rightarrow> rat \<Rightarrow> nat \<Rightarrow> nat \<Rightarrow> cpx list option" where
  "sdr_gen_code_fft E code T off fs N Nz =
     do {
       cs \<leftarrow> sdr_res_code code T off fs N Nz;
       Some (map (\<lambda>c. (fst c, - snd c)) (fft_fwd E (map (\<lambda>c. (of_int c, 0)) cs)))
     }"

end
