(* ===== verification/Sdr_Ch.thy ===== *)
theory Sdr_Ch
  imports Sdr_Corr
begin

text \<open>
  The receiver channel (\<open>sdr_ch.c\<close>): a state machine that is idle, searches its signal or tracks it, one
  code cycle of samples at a time. The channel extends the record of \<open>sdr_pvt.c\<close>. What the navigation
  decoder does to a channel is an argument; \<open>Sdr_Rcv\<close> has that of the AFS signals. Errors are an array
  accessed outside its bounds, a variable read before it is set, a division by zero, and the errors of
  the decoder. The lock of a channel has no effect on one call and is left out, as are the logs.
\<close>

section \<open>State\<close>

definition SDR_N_CORR :: nat where
  "SDR_N_CORR = 4 + 81"

definition SDR_STATE_IDLE :: int where
  "SDR_STATE_IDLE = 1"

definition SDR_STATE_SRCH :: int where
  "SDR_STATE_SRCH = 2"

record sdr_acq_t =
  acq_code_fft :: "cpx list"
  acq_fds :: "rat list"
  fd_ext :: rat
  P_sum :: "rat list option"
  n_sum :: int

text \<open>The further fields of \<open>sdr_trk_t\<close>; \<open>trk_PQ\<close> is the quadrature part of the history \<open>P\<close>.\<close>

record sdr_trk_t =
  trk_npos :: nat
  trk_pos :: "int list"
  trk_C :: "cpx list"
  trk_PQ :: "rat list"
  sec_pol :: int
  err_code :: rat
  sumP :: rat
  sumE :: rat
  sumL :: rat
  sumN :: rat
  trk_code :: "int list"
  trk_code_fft :: "cpx list"

record trk_ch = pvt_ch +
  ch_time :: rat
  ch_code :: "int list"
  ch_sec_code :: "int list"
  ch_fc :: rat
  ch_fs :: rat
  ch_fi :: rat
  ch_N :: int
  ch_fd :: rat
  ch_lost :: int
  ch_costas :: bool
  ch_acq :: sdr_acq_t
  ch_trk :: sdr_trk_t

text \<open>The global variables of the file, and their initial values.\<close>

record ch_conf =
  sdr_sp_corr :: rat
  sdr_t_acq :: rat
  sdr_t_dll :: rat
  sdr_b_dll :: rat
  sdr_b_pll :: rat
  sdr_b_fll_w :: rat
  sdr_b_fll_n :: rat
  sdr_max_dop :: rat
  sdr_thres_cn0_l :: rat
  sdr_thres_cn0_u :: rat

definition ch_conf0 :: ch_conf where
  "ch_conf0 = \<lparr>sdr_sp_corr = 1 / 4, sdr_t_acq = dbl (1 / 100), sdr_t_dll = dbl (1 / 100), sdr_b_dll = 1 / 4, sdr_b_pll = 5,
     sdr_b_fll_w = 5, sdr_b_fll_n = 2, sdr_max_dop = 5000, sdr_thres_cn0_l = 35, sdr_thres_cn0_u = 32\<rparr>"

definition T_CN0 :: rat where
  "T_CN0 = 1"

definition T_FPULLIN :: rat where
  "T_FPULLIN = 1"

definition T_NPULLIN :: rat where
  "T_NPULLIN = 3 / 2"

definition THRES_SYNC :: rat where
  "THRES_SYNC = dbl (2 / 100)"

definition THRES_LOST :: rat where
  "THRES_LOST = dbl (2 / 1000)"

definition N_CODE :: nat where
  "N_CODE = 10"

datatype ch_err = Ch_bad_index | Ch_uninitialised | Ch_div_zero | Ch_nav mod2err

definition or_err :: "ch_err \<Rightarrow> 'a option \<Rightarrow> ch_err + 'a" where
  "or_err e x = (case x of None \<Rightarrow> Inl e | Some a \<Rightarrow> Inr a)"

lemma or_err_simps [simp]: "or_err e None = Inl e" "or_err e (Some a) = Inr a"
  by (simp_all add: or_err_def)

section \<open>Signals\<close>

text \<open>Code cycle, carrier frequency and satellite identifier of a signal (\<open>sdr_code.c\<close>).\<close>

definition to_upper :: "char \<Rightarrow> char" where
  "to_upper c = (if 97 \<le> (of_char c :: nat) \<and> (of_char c :: nat) \<le> 122 then char_of ((of_char c :: nat) - 32) else c)"

definition sig_upper :: "string \<Rightarrow> string" where
  "sig_upper sig = map to_upper (take 15 sig)"

definition code_cycles :: "(string list \<times> rat) list" where
  "code_cycles =
     [([''L1CA'', ''L1CB'', ''L1S'', ''L5I'', ''L5Q'', ''L5SI'', ''L5SIV'', ''L5SQ'', ''L5SQV'', ''G1CA'', ''G2CA'', ''G3OCD'',
        ''G3OCP'', ''E5AI'', ''E5AQ'', ''E5BI'', ''E5BQ'', ''E6B'', ''E6C'', ''B1I'', ''B2I'', ''B2AD'', ''B2AP'', ''B2BI'',
        ''B3I'', ''I5S'', ''ISS''], dbl (1 / 1000)),
      ([''G1OCD''], dbl (2 / 1000)),
      ([''L6D'', ''L6E'', ''E1B'', ''E1C''], dbl (4 / 1000)),
      ([''G1OCP''], dbl (8 / 1000)),
      ([''L1CP'', ''L1CD'', ''B1CD'', ''B1CP'', ''I1SD'', ''I1SP''], dbl (10 / 1000)),
      ([''L2CM'', ''G2OCP''], dbl (20 / 1000)),
      ([''L2CL''], dbl (1500 / 1000)),
      ([''AFSD'', ''AFSP''], dbl (2 / 1000))]"

definition lookup_sig :: "(string list \<times> rat) list \<Rightarrow> string \<Rightarrow> rat" where
  "lookup_sig tab sig = (case find (\<lambda>e. sig \<in> set (fst e)) tab of None \<Rightarrow> 0 | Some e \<Rightarrow> snd e)"

definition sdr_code_cyc :: "string \<Rightarrow> rat" where
  "sdr_code_cyc sig = lookup_sig code_cycles (sig_upper sig)"

text \<open>The frequency of the AFS signals is that of a build without \<open>DEMO_L1\<close>.\<close>

definition sig_freqs :: "(string list \<times> rat) list" where
  "sig_freqs =
     [([''L1CA'', ''L1CB'', ''L1S'', ''E1B'', ''E1C'', ''L1CP'', ''L1CD'', ''B1CD'', ''B1CP'', ''I1SD'', ''I1SP''], 1575420000),
      ([''L2CM'', ''L2CL''], 1227600000),
      ([''L5I'', ''L5Q'', ''L5SI'', ''L5SQ'', ''L5SIV'', ''L5SQV'', ''E5AI'', ''E5AQ'', ''B2AD'', ''B2AP'', ''I5S''], 1176450000),
      ([''E5BI'', ''E5BQ'', ''B2I'', ''B2BI''], 1207140000),
      ([''L6D'', ''L6E'', ''E6B'', ''E6C''], 1278750000),
      ([''B1I''], 1561098000),
      ([''B3I''], 1268520000),
      ([''G1CA''], 1602000000),
      ([''G1OCD'', ''G1OCP''], 1600995000),
      ([''G2CA''], 1246000000),
      ([''G2OCP''], 1248000000),
      ([''G3OCD'', ''G3OCP''], 1202025000),
      ([''ISS''], 2492028000),
      ([''AFSD'', ''AFSP''], 2492028000)]"

definition sdr_sig_freq :: "string \<Rightarrow> rat" where
  "sdr_sig_freq sig = lookup_sig sig_freqs (sig_upper sig)"

definition sat_id_qzss :: "string \<Rightarrow> int \<Rightarrow> string" where
  "sat_id_qzss sig pn =
     (if sig = ''L1CB'' \<and> 203 \<le> pn \<and> pn \<le> 206 then CHR ''J'' # fmt_02d ([4, 5, 8, 9] ! nat (pn - 203))
      else if sig \<in> {''L1CA'', ''L1CD'', ''L1CP'', ''L2CM'', ''L5I'', ''L5Q'', ''L6D''} \<and> 193 \<le> pn \<and> pn \<le> 202
      then CHR ''J'' # fmt_02d (pn - 192)
      else if sig = ''L1S'' \<and> 183 \<le> pn \<and> pn \<le> 191 then CHR ''J'' # fmt_02d (pn - 182)
      else if take 3 sig = ''L5S'' \<and> 184 \<le> pn \<and> pn \<le> 206 \<and>
        ([2, 4, 5, 0, 0, 3, 0, 0, 0, 0, 0, 0, 0, 0, 0, 0, 0, 0, 0, 0, 0, 7, 8] ! nat (pn - 184) :: int) \<noteq> 0
      then CHR ''J'' # fmt_02d ([2, 4, 5, 0, 0, 3, 0, 0, 0, 0, 0, 0, 0, 0, 0, 0, 0, 0, 0, 0, 0, 7, 8] ! nat (pn - 184))
      else if sig = ''L6E'' \<and> 203 \<le> pn \<and> pn \<le> 212 then CHR ''J'' # fmt_02d (pn - 202)
      else ''???'')"

text \<open>Numbers of satellites that are printed without a sign are taken to be not negative.\<close>

definition sdr_sat_id :: "string \<Rightarrow> int \<Rightarrow> string" where
  "sdr_sat_id sig pn =
     (let c0 = (if sig = [] then CHR ''-'' else hd sig) in
      if c0 = CHR ''L'' then
        (if 1 \<le> pn \<and> pn \<le> 63 then CHR ''G'' # fmt_02d pn
         else if 120 \<le> pn \<and> pn \<le> 158 then CHR ''S'' # fmt_02d (pn - 100)
         else sat_id_qzss sig pn)
      else if sig = ''G1CA'' \<or> sig = ''G2CA'' then
        CHR ''R'' # (if pn < 0 then CHR ''-'' # dec_digits (- pn) else CHR ''+'' # dec_digits pn)
      else if c0 = CHR ''G'' then CHR ''R'' # fmt_02d pn
      else if c0 = CHR ''E'' then CHR ''E'' # fmt_02d pn
      else if c0 = CHR ''B'' then CHR ''C'' # fmt_02d pn
      else if c0 = CHR ''I'' then CHR ''I'' # fmt_02d pn
      else if c0 = CHR ''A'' then CHR ''L'' # fmt_02d pn
      else ''???'')"

section \<open>A new channel\<close>

definition is_L6 :: "string \<Rightarrow> bool" where
  "is_L6 sig \<longleftrightarrow> sig = ''L6D'' \<or> sig = ''L6E''"

definition acq_new :: "'e sdr_ext_scheme \<Rightarrow> ch_conf \<Rightarrow> int list \<Rightarrow> rat \<Rightarrow> rat \<Rightarrow> nat \<Rightarrow> sdr_acq_t option" where
  "acq_new E cf code T fs N =
     do {
       F \<leftarrow> sdr_gen_code_fft E code T 0 fs N N;
       Some \<lparr>acq_code_fft = F, acq_fds = sdr_dop_bins T 0 (sdr_max_dop cf), fd_ext = 0, P_sum = None, n_sum = 0\<rparr>
     }"

definition corr_positions :: "ch_conf \<Rightarrow> nat \<Rightarrow> rat \<Rightarrow> rat \<Rightarrow> int list" where
  "corr_positions cf len T fs =
     (let p = int_of_dbl (dmul (ddiv (dmul (sdr_sp_corr cf) T) (of_nat len)) fs) + 1
      in [0, - p, p, -80] @ map (\<lambda>k. int k - 40) [0..<81])"

definition bank_offset :: "rat \<Rightarrow> nat \<Rightarrow> rat" where
  "bank_offset fs i = ddiv (ddiv (- of_nat i) fs) (of_nat N_CODE)"

definition trk_new :: "'e sdr_ext_scheme \<Rightarrow> ch_conf \<Rightarrow> string \<Rightarrow> int list \<Rightarrow> rat \<Rightarrow> rat \<Rightarrow> sdr_trk_t option" where
  "trk_new E cf sig code T fs =
     (let N = nat (int_of_dbl (dmul fs T));
          t = \<lparr>trk_npos = 4, trk_pos = corr_positions cf (length code) T fs, trk_C = replicate SDR_N_CORR (0, 0),
               trk_PQ = replicate SDR_N_HIST 0, sec_pol = 0, err_code = 0, sumP = 0, sumE = 0, sumL = 0, sumN = 0,
               trk_code = [], trk_code_fft = []\<rparr>
      in if is_L6 sig then
           do {
             bank \<leftarrow> those (map (\<lambda>i. sdr_gen_code_fft E code T (bank_offset fs i) fs N 0) [0..<N_CODE]);
             Some (t\<lparr>trk_code_fft := concat bank\<rparr>)
           }
         else
           do {
             bank \<leftarrow> those (map (\<lambda>i. sdr_res_code code T (bank_offset fs i) fs N 0) [0..<N_CODE]);
             Some (t\<lparr>trk_code := concat bank\<rparr>)
           })"

text \<open>\<open>sdr_nav_new\<close>: all zero.\<close>

definition nav_zero :: sdr_nav_t where
  "nav_zero = \<lparr>ssync = 0, fsync = 0, nav_rev = 0, nerr = 0, seq = 0, nav_type = 0, stat = 0, coff = 0,
     syms = replicate SDR_MAX_NSYM 0, data = replicate SDR_MAX_DATA 0, count = [0, 0]\<rparr>"

text \<open>The generators of the codes are arguments; the result is \<open>None\<close> where the C code returns \<open>NULL\<close>.\<close>

definition sdr_ch_new ::
  "'e sdr_ext_scheme \<Rightarrow> ch_conf \<Rightarrow> (string \<Rightarrow> int \<Rightarrow> int list option) \<Rightarrow> (string \<Rightarrow> int \<Rightarrow> int list option) \<Rightarrow> string \<Rightarrow> int \<Rightarrow> rat \<Rightarrow> rat \<Rightarrow>
   ch_err + trk_ch option" where
  "sdr_ch_new E cf gen_code gen_sec sig pn fs fi =
     (case (gen_code sig pn, gen_sec sig pn) of
        (Some code, Some sec) \<Rightarrow>
          (let Sig = sig_upper sig; T = sdr_code_cyc sig; N = int_of_dbl (dmul fs T)
           in res_bind (or_err Ch_bad_index (acq_new E cf code T fs (nat N))) (\<lambda>acq.
              res_bind (or_err Ch_bad_index (trk_new E cf Sig code T fs)) (\<lambda>trk.
              Inr (Some
                \<lparr>prn = pn, week = 0, tow = 0, tow_v = 0, lock = 0, trk_P = replicate SDR_N_HIST 0, ch_nav = nav_zero,
                 ch_state = SDR_STATE_IDLE, ch_sat = sdr_sat_id Sig pn, ch_sig = Sig, ch_T = T, ch_coff = 0, ch_adr = 0, ch_cn0 = 0,
                 trk_sec_sync = 0, trk_err_phas = 0, ch_time = 0, ch_code = code, ch_sec_code = sec, ch_fc = sdr_sig_freq sig,
                 ch_fs = fs, ch_fi = sdr_shift_freq sig pn fi, ch_N = N, ch_fd = 0, ch_lost = 0, ch_costas = (\<not> is_L6 Sig),
                 ch_acq = acq, ch_trk = trk\<rparr>))))
      | _ \<Rightarrow> Inr None)"

section \<open>Searching\<close>

definition trk_init :: "trk_ch \<Rightarrow> trk_ch" where
  "trk_init c =
     c\<lparr>trk_err_phas := 0, trk_sec_sync := 0, trk_P := replicate SDR_N_HIST 0,
       ch_trk := (ch_trk c)\<lparr>sec_pol := 0, sumP := 0, sumE := 0, sumL := 0, sumN := 0, trk_C := replicate SDR_N_CORR (0, 0),
         trk_PQ := replicate SDR_N_HIST 0\<rparr>\<rparr>"

definition start_track :: "trk_ch \<Rightarrow> rat \<Rightarrow> rat \<Rightarrow> rat \<Rightarrow> rat \<Rightarrow> trk_ch" where
  "start_track c time fd cf cn0 =
     (let c = trk_init (c\<lparr>ch_state := SDR_STATE_LOCK, ch_time := time, lock := 0, ch_fd := fd, ch_coff := cf, ch_adr := 0,
        ch_cn0 := cn0, week := 0, tow := -1\<rparr>)
      in c\<lparr>ch_nav := sdr_nav_init (ch_nav c)\<rparr>)"

definition search_bins :: "trk_ch \<Rightarrow> rat list" where
  "search_bins c =
     (if fd_ext (ch_acq c) \<noteq> 0
      then map (\<lambda>n. flt (dadd (fd_ext (ch_acq c)) (ddiv (dmul (of_int (int n - 1)) (1 / 2)) (ch_T c)))) [0..<3]
      else acq_fds (ch_acq c))"

definition search_done :: "trk_ch \<Rightarrow> trk_ch" where
  "search_done c = c\<lparr>ch_acq := (ch_acq c)\<lparr>P_sum := None, n_sum := 0\<rparr>\<rparr>"

text \<open>The largest power decides; \<open>c\<close> has the sums \<open>P\<close>.\<close>

definition search_end :: "'e sdr_ext_scheme \<Rightarrow> ch_conf \<Rightarrow> rat \<Rightarrow> rat list \<Rightarrow> trk_ch \<Rightarrow> ch_err + trk_ch" where
  "search_end E cf time P c =
     (let fds = search_bins c; N2 = nat (2 * ch_N c);
          (cn0, ixs) = sdr_corr_max E P N2 (nat (ch_N c)) (length fds) (ch_T c)
      in if cn0 \<ge> sdr_thres_cn0_l cf then
           (case ixs of
              None \<Rightarrow> Inl Ch_uninitialised
            | Some jx \<Rightarrow>
                Inr (search_done (start_track c time (sdr_fine_dop E P N2 fds jx) (ddiv (of_nat (snd jx)) (ch_fs c)) cn0)))
         else Inr (search_done (c\<lparr>ch_state := SDR_STATE_IDLE\<rparr>)))"

definition add_search :: "rat list \<Rightarrow> trk_ch \<Rightarrow> trk_ch" where
  "add_search P c = c\<lparr>ch_acq := (ch_acq c)\<lparr>P_sum := Some P, n_sum := n_sum (ch_acq c) + 1\<rparr>\<rparr>"

definition search_sig :: "'e sdr_ext_scheme \<Rightarrow> ch_conf \<Rightarrow> rat \<Rightarrow> u8 list \<Rightarrow> int \<Rightarrow> trk_ch \<Rightarrow> ch_err + trk_ch" where
  "search_sig E cf time buff ix c =
     (let fds = search_bins c; N2 = nat (2 * ch_N c);
          P0 = (case P_sum (ch_acq c) of None \<Rightarrow> replicate (N2 * length fds) 0 | Some P \<Rightarrow> P)
      in res_bind (or_err Ch_bad_index
           (sdr_search_code E (acq_code_fft (ch_acq c)) buff ix N2 (ch_fs c) (ch_fi c) fds P0)) (\<lambda>P.
         let c = add_search P c
         in if dmul (of_int (n_sum (ch_acq c))) (ch_T c) \<ge> sdr_t_acq cf then search_end E cf time P c else Inr c))"

end
