(* ===== verification/Sdr_Trk.thy ===== *)
theory Sdr_Trk
  imports Sdr_Ch
begin

text \<open>
  Tracking in a receiver channel (\<open>sdr_ch.c\<close>): carrier aiding of the code offset and its wrap, the
  correlators, the secondary code, the frequency, phase and delay loops, the estimate of the carrier to
  noise density, and the step of the state machine.
\<close>

section \<open>Secondary code\<close>

text \<open>The last \<open>n\<close> in-phase correlations.\<close>

definition last_I :: "nat \<Rightarrow> trk_ch \<Rightarrow> rat list" where
  "last_I n c = map (\<lambda>i. trk_P c ! (SDR_N_HIST - n + i)) [0..<n]"

definition sec_corr :: "trk_ch \<Rightarrow> nat \<Rightarrow> rat" where
  "sec_corr c n = foldl (\<lambda>P i. flt (P + flt (flt (last_I n c ! i * of_int (ch_sec_code c ! i)) / of_nat n))) 0 [0..<n]"

definition sec_abs :: "trk_ch \<Rightarrow> nat \<Rightarrow> rat" where
  "sec_abs c n = foldl (\<lambda>R i. flt (R + flt (\<bar>last_I n c ! i\<bar> / of_nat n))) 0 [0..<n]"

definition mean_I :: "trk_ch \<Rightarrow> nat \<Rightarrow> rat" where
  "mean_I c n = foldl (\<lambda>P i. flt (P + flt (last_I n c ! i / of_nat n))) 0 [0..<n]"

text \<open>The secondary code is found, or found lost.\<close>

definition sec_found :: "trk_ch \<Rightarrow> nat \<Rightarrow> bool" where
  "sec_found c n \<longleftrightarrow> \<bar>sec_corr c n\<bar> \<ge> sec_abs c n \<and> sec_abs c n \<ge> THRES_SYNC"

definition sec_search :: "trk_ch \<Rightarrow> nat \<Rightarrow> trk_ch" where
  "sec_search c n =
     (if trk_sec_sync c = 0 then
        (if sec_found c n
         then c\<lparr>trk_sec_sync := lock c, ch_trk := (ch_trk c)\<lparr>sec_pol := if sec_corr c n > 0 then 1 else -1\<rparr>\<rparr>
         else c)
      else if (lock c - trk_sec_sync c) smod int n = 0 then
        (if \<bar>mean_I c n\<bar> < THRES_LOST
         then c\<lparr>trk_sec_sync := 0, ch_trk := (ch_trk c)\<lparr>sec_pol := 0\<rparr>\<rparr>
         else c)
      else c)"

definition last_times :: "rat \<Rightarrow> rat list \<Rightarrow> rat list" where
  "last_times k xs = xs[SDR_N_HIST - 1 := flt (xs ! (SDR_N_HIST - 1) * k)]"

definition remove_chip :: "int \<Rightarrow> trk_ch \<Rightarrow> trk_ch" where
  "remove_chip chip c =
     (let k = of_int chip; t = ch_trk c
      in c\<lparr>trk_P := last_times k (trk_P c),
           ch_trk := t\<lparr>trk_C := map (\<lambda>x. (flt (fst x * k), flt (snd x * k))) (take (trk_npos t) (trk_C t)) @ drop (trk_npos t) (trk_C t),
             trk_PQ := last_times k (trk_PQ t)\<rparr>\<rparr>)"

definition sync_sec_code :: "trk_ch \<Rightarrow> nat \<Rightarrow> ch_err + trk_ch" where
  "sync_sec_code c n =
     (let c = sec_search c n
      in if trk_sec_sync c > 0 then
           res_bind (or_err Ch_bad_index (arr_at (ch_sec_code c) ((lock c - trk_sec_sync c - 1) smod int n))) (\<lambda>s.
             Inr (remove_chip (s8 (s * sec_pol (ch_trk c))) c))
         else Inr c)"

section \<open>Loops\<close>

definition two_pi :: rat where
  "two_pi = dmul 2 RTK_PI"

definition FLL :: "'e sdr_ext_scheme \<Rightarrow> ch_conf \<Rightarrow> trk_ch \<Rightarrow> trk_ch" where
  "FLL E cf c =
     (if lock c \<ge> 2 then
        let IP1 = trk_P c ! (SDR_N_HIST - 1); QP1 = trk_PQ (ch_trk c) ! (SDR_N_HIST - 1);
            IP2 = trk_P c ! (SDR_N_HIST - 2); QP2 = trk_PQ (ch_trk c) ! (SDR_N_HIST - 2);
            dot = dadd (dmul IP1 IP2) (dmul QP1 QP2);
            cross = dsub (dmul IP1 QP2) (dmul QP1 IP2)
        in if dot \<noteq> 0 then
             let B = (if dmul (of_int (lock c)) (ch_T c) < T_FPULLIN then sdr_b_fll_w cf else sdr_b_fll_n cf);
                 err = (if ch_costas c then m_atan E (ddiv cross dot) else m_atan2 E cross dot)
             in c\<lparr>ch_fd := dsub (ch_fd c) (ddiv (dmul (ddiv B (1 / 4)) err) two_pi)\<rparr>
           else c
      else c)"

definition PLL :: "'e sdr_ext_scheme \<Rightarrow> ch_conf \<Rightarrow> trk_ch \<Rightarrow> trk_ch" where
  "PLL E cf c =
     (let IP = fst (trk_C (ch_trk c) ! 0); QP = snd (trk_C (ch_trk c) ! 0)
      in if IP \<noteq> 0 then
           let err = ddiv (if ch_costas c then m_atan E (ddiv QP IP) else m_atan2 E QP IP) two_pi;
               W = ddiv (sdr_b_pll cf) (dbl (53 / 100))
           in c\<lparr>ch_fd := dadd (ch_fd c)
                  (dadd (dmul (dmul (dbl (14 / 10)) W) (dsub err (trk_err_phas c))) (dmul (dmul (dmul W W) err) (ch_T c))),
                trk_err_phas := err\<rparr>
         else c)"

definition dll_cycles :: "ch_conf \<Rightarrow> rat \<Rightarrow> int" where
  "dll_cycles cf T = (let n = int_of_dbl (ddiv (sdr_t_dll cf) T) in if 1 > n then 1 else n)"

definition dll_error :: "rat \<Rightarrow> rat \<Rightarrow> rat \<Rightarrow> nat \<Rightarrow> rat" where
  "dll_error e l T len = ddiv (dmul (dmul (ddiv (dsub e l) (dadd e l)) (1 / 2)) T) (of_nat len)"

definition DLL :: "'e sdr_ext_scheme \<Rightarrow> ch_conf \<Rightarrow> trk_ch \<Rightarrow> trk_ch" where
  "DLL E cf c =
     (let n = dll_cycles cf (ch_T c); t = ch_trk c;
          e = dadd (sumE t) (sdr_cpx_abs E (trk_C t ! 1));
          l = dadd (sumL t) (sdr_cpx_abs E (trk_C t ! 2))
      in if lock c smod n = 0 then
           (if dadd e l > 0 then
              let err = dll_error e l (ch_T c) (length (ch_code c))
              in c\<lparr>ch_coff := dsub (ch_coff c) (dmul (dmul (dmul (ddiv (sdr_b_dll cf) (1 / 4)) err) (ch_T c)) (of_int n)),
                   ch_trk := t\<lparr>err_code := err, sumE := 0, sumL := 0\<rparr>\<rparr>
            else c\<lparr>ch_trk := t\<lparr>sumE := 0, sumL := 0\<rparr>\<rparr>)
         else c\<lparr>ch_trk := t\<lparr>sumE := e, sumL := l\<rparr>\<rparr>)"

definition CN0 :: "'e sdr_ext_scheme \<Rightarrow> trk_ch \<Rightarrow> ch_err + trk_ch" where
  "CN0 E c =
     (let n = int_of_dbl (ddiv T_CN0 (ch_T c)); t = ch_trk c;
          p = dadd (sumP t) (sqr_sum (trk_C t ! 0));
          q = dadd (sumN t) (sqr_sum (trk_C t ! 3))
      in if n = 0 then Inl Ch_div_zero
         else if lock c smod n = 0 then
           (if q > 0 then
              let v = dmul 10 (m_log10 E (ddiv (ddiv p q) (ch_T c)))
              in Inr (c\<lparr>ch_cn0 := dadd (ch_cn0 c) (dmul (1 / 2) (dsub v (ch_cn0 c))), ch_trk := t\<lparr>sumP := 0, sumN := 0\<rparr>\<rparr>)
            else Inr (c\<lparr>ch_trk := t\<lparr>sumP := 0, sumN := 0\<rparr>\<rparr>))
         else Inr (c\<lparr>ch_trk := t\<lparr>sumP := p, sumN := q\<rparr>\<rparr>))"

section \<open>Code shift keying\<close>

definition interp_corr :: "cpx list \<Rightarrow> rat \<Rightarrow> cpx option" where
  "interp_corr C x =
     (let i = int_of_dbl x; a1 = dsub x (of_int i); a0 = dsub 1 a1
      in do {
        p \<leftarrow> arr_at C i;
        q \<leftarrow> arr_at C (i + 1);
        Some (flt (dadd (dmul a0 (fst p)) (dmul a1 (fst q))), flt (dadd (dmul a0 (snd p)) (dmul a1 (snd q))))
      })"

fun csk_peak :: "'e sdr_ext_scheme \<Rightarrow> cpx list \<Rightarrow> int \<Rightarrow> rat \<Rightarrow> int list \<Rightarrow> rat \<times> int \<Rightarrow> int option" where
  "csk_peak E C n R [] s = Some (snd s)"
| "csk_peak E C n R (i # is) s =
     do {
       c \<leftarrow> interp_corr C (dadd (of_int n) (dmul (of_int i) R));
       let p = sdr_cpx_abs E c;
       csk_peak E C n R is (if p \<le> fst s then s else (p, i))
     }"

text \<open>\<open>memcpy\<close> of the \<open>n\<close> entries from position \<open>i\<close> on.\<close>

definition slice :: "'a list \<Rightarrow> int \<Rightarrow> int \<Rightarrow> 'a list option" where
  "slice xs i n = (if 0 \<le> i \<and> 0 \<le> n \<and> i + n \<le> int (length xs) then Some (take (nat n) (drop (nat i) xs)) else None)"

definition CSK :: "'e sdr_ext_scheme \<Rightarrow> cpx list \<Rightarrow> trk_ch \<Rightarrow> trk_ch option" where
  "CSK E corr c =
     (let R = ddiv (of_int (ch_N c)) (of_int (int (length (ch_code c)) sdiv 2));
          n = int_of_dbl (dmul 280 R); t = ch_trk c
      in do {
        a \<leftarrow> slice corr (ch_N c - n) n;
        b \<leftarrow> slice corr 0 n;
        let C = a @ b;
        ix \<leftarrow> csk_peak E C n R (map (\<lambda>k. int k - 255) [0..<511]) (0, 0);
        let sym = word_of_int (255 - ix smod 256);
        cs \<leftarrow> those (map (\<lambda>p. interp_corr C (dadd (dadd (of_int n) (dmul (of_int ix) R)) (of_int p))) (take (trk_npos t) (trk_pos t)));
        Some (c\<lparr>ch_nav := (ch_nav c)\<lparr>syms := sdr_add_buff (syms (ch_nav c)) SDR_MAX_NSYM sym\<rparr>,
                ch_trk := t\<lparr>trk_C := cs @ drop (length cs) (trk_C t)\<rparr>\<rparr>)
      })"

section \<open>Tracking\<close>

text \<open>\<open>update_tow\<close> of this file.\<close>

definition ch_update_tow :: "rat \<Rightarrow> trk_ch \<Rightarrow> trk_ch" where
  "ch_update_tow sec c =
     (if tow c < 0 then c
      else c\<lparr>tow := (tow c + int_of_dbl (ddiv sec (dbl (1 / 1000)))) smod (86400 * 7 * 1000)\<rparr>)"

definition carrier_aid :: "rat \<Rightarrow> trk_ch \<Rightarrow> trk_ch" where
  "carrier_aid time c =
     (let tau = dsub time (ch_time c)
      in c\<lparr>ch_adr := dadd (ch_adr c) (dmul (ch_fd c) tau), ch_coff := dsub (ch_coff c) (dmul (ddiv (ch_fd c) (ch_fc c)) tau),
           ch_time := time\<rparr>)"

text \<open>The moves of the history by one place, either way.\<close>

definition move_up :: "'a list \<Rightarrow> 'a list" where
  "move_up xs = take 1 xs @ butlast xs"

definition move_down :: "'a list \<Rightarrow> 'a list" where
  "move_down xs = drop 1 xs @ [last xs]"

definition wrap_code :: "trk_ch \<Rightarrow> trk_ch" where
  "wrap_code c =
     (let t = ch_trk c in
      if ch_coff c \<ge> ch_T c then
        let c = ch_update_tow (- ch_T c) (c\<lparr>ch_coff := dsub (ch_coff c) (ch_T c)\<rparr>)
        in c\<lparr>lock := lock c - 1, trk_P := move_up (trk_P c), ch_trk := t\<lparr>trk_PQ := move_up (trk_PQ t)\<rparr>\<rparr>
      else if ch_coff c < 0 then
        let c = ch_update_tow (ch_T c) (c\<lparr>ch_coff := dadd (ch_coff c) (ch_T c)\<rparr>)
        in c\<lparr>lock := lock c + 1, trk_P := move_down (trk_P c), ch_trk := t\<lparr>trk_PQ := move_down (trk_PQ t)\<rparr>\<rparr>
      else c)"

definition code_pos :: "trk_ch \<Rightarrow> int" where
  "code_pos c = int_of_dbl (dmul (ch_coff c) (ch_fs c))"

definition bank_index :: "trk_ch \<Rightarrow> int" where
  "bank_index c = int_of_dbl (dmul (dsub (dmul (ch_coff c) (ch_fs c)) (of_int (code_pos c))) (of_nat N_CODE))"

text \<open>\<open>fc\<close> and \<open>tau\<close> are computed before the channel is changed.\<close>

definition correlate :: "'e sdr_ext_scheme \<Rightarrow> u8 list \<Rightarrow> int \<Rightarrow> rat \<Rightarrow> rat \<Rightarrow> trk_ch \<Rightarrow> trk_ch option" where
  "correlate E buff ix fc tau c =
     (let i = code_pos c; j = bank_index c; t = ch_trk c;
          phi = dadd (dadd (dmul (ch_fi c) tau) (ch_adr c)) (ddiv (dmul fc (of_int i)) (ch_fs c))
      in if is_L6 (ch_sig c) then
           do {
             F \<leftarrow> slice (trk_code_fft t) (j * ch_N c) (ch_N c);
             corr \<leftarrow> sdr_corr_fft E buff (ix + i) (ch_N c) (ch_fs c) fc phi F;
             CSK E corr c
           }
         else
           do {
             cs \<leftarrow> sdr_corr_std E buff (ix + i) (ch_N c) (ch_fs c) fc phi (trk_code t) (j * ch_N c) (take (trk_npos t) (trk_pos t));
             Some (c\<lparr>ch_trk := t\<lparr>trk_C := cs @ drop (length cs) (trk_C t)\<rparr>\<rparr>)
           })"

definition add_history :: "trk_ch \<Rightarrow> trk_ch" where
  "add_history c =
     (let t = ch_trk c; P = trk_C t ! 0
      in c\<lparr>trk_P := sdr_add_buff (trk_P c) SDR_N_HIST (fst P), ch_trk := t\<lparr>trk_PQ := sdr_add_buff (trk_PQ t) SDR_N_HIST (snd P)\<rparr>\<rparr>)"

definition count_cycle :: "trk_ch \<Rightarrow> trk_ch" where
  "count_cycle c = (let c = ch_update_tow (ch_T c) c in c\<lparr>lock := lock c + 1\<rparr>)"

definition lock_time :: "trk_ch \<Rightarrow> rat" where
  "lock_time c = dmul (of_int (lock c)) (ch_T c)"

definition signal_lost :: "trk_ch \<Rightarrow> trk_ch" where
  "signal_lost c =
     c\<lparr>ch_state := SDR_STATE_IDLE, lock := 0, trk_sec_sync := 0, ch_nav := (ch_nav c)\<lparr>ssync := 0, fsync := 0, nav_rev := 0\<rparr>,
       ch_lost := ch_lost c + 1, ch_trk := (ch_trk c)\<lparr>sec_pol := 0\<rparr>\<rparr>"

text \<open>
  The navigation decoder works on a state of its own and the channel: \<open>nav s c\<close>.
\<close>

definition track_sig ::
  "'e sdr_ext_scheme \<Rightarrow> ch_conf \<Rightarrow> ('s \<Rightarrow> trk_ch \<Rightarrow> mod2err + 's \<times> trk_ch) \<Rightarrow> rat \<Rightarrow> u8 list \<Rightarrow> int \<Rightarrow> 's \<Rightarrow> trk_ch \<Rightarrow> ch_err + 's \<times> trk_ch" where
  "track_sig E cf nav time buff ix s c =
     (let fc = dadd (ch_fi c) (ch_fd c); tau = dsub time (ch_time c)
      in res_bind (or_err Ch_bad_index (correlate E buff ix fc tau (wrap_code (carrier_aid time c)))) (\<lambda>c.
         let c = count_cycle (add_history c)
         in res_bind (if length (ch_sec_code c) \<ge> 2 \<and> lock_time c \<ge> T_NPULLIN then sync_sec_code c (length (ch_sec_code c)) else Inr c) (\<lambda>c.
         let c = (if lock_time c \<le> T_FPULLIN then FLL E cf c else PLL E cf c)
         in res_bind (CN0 E (DLL E cf c)) (\<lambda>c.
            res_bind (if lock_time c \<ge> T_NPULLIN then map_sum Ch_nav id (nav s c) else Inr (s, c)) (\<lambda>(s, c).
            Inr (s, if ch_cn0 c < sdr_thres_cn0_u cf then signal_lost c else c))))))"

definition sdr_ch_update ::
  "'e sdr_ext_scheme \<Rightarrow> ch_conf \<Rightarrow> ('s \<Rightarrow> trk_ch \<Rightarrow> mod2err + 's \<times> trk_ch) \<Rightarrow> rat \<Rightarrow> u8 list \<Rightarrow> int \<Rightarrow> 's \<Rightarrow> trk_ch \<Rightarrow> ch_err + 's \<times> trk_ch" where
  "sdr_ch_update E cf nav time buff ix s c =
     (if ch_state c = SDR_STATE_SRCH then map_sum id (\<lambda>c. (s, c)) (search_sig E cf time buff ix c)
      else if ch_state c = SDR_STATE_LOCK then track_sig E cf nav time buff ix s c
      else Inr (s, c))"

section \<open>Requests from outside\<close>

definition sdr_ch_set_corr :: "nat \<Rightarrow> trk_ch \<Rightarrow> trk_ch" where
  "sdr_ch_set_corr n c = c\<lparr>ch_trk := (ch_trk c)\<lparr>trk_npos := n\<rparr>\<rparr>"

definition sdr_ch_corr_stat :: "trk_ch \<Rightarrow> rat list \<times> int list \<times> cpx list" where
  "sdr_ch_corr_stat c =
     ([of_int (ch_state c), ch_fs c, dmul (of_int (lock c)) (ch_T c), ch_cn0 c, dmul (ch_coff c) 1000, ch_fd c],
      take SDR_N_CORR (trk_pos (ch_trk c)), take SDR_N_CORR (trk_C (ch_trk c)))"

text \<open>A negative time span asks \<open>memcpy\<close> for a negative number of entries.\<close>

definition sdr_ch_corr_hist :: "rat \<Rightarrow> trk_ch \<Rightarrow> ch_err + (rat list \<times> (rat \<times> rat) list)" where
  "sdr_ch_corr_hist tspan c =
     (let n = min (int_of_dbl (ddiv tspan (ch_T c))) (int SDR_N_HIST)
      in if n < 0 then Inl Ch_bad_index
         else Inr ([ch_time c, ch_T c], drop (SDR_N_HIST - nat n) (zip (trk_P c) (trk_PQ (ch_trk c)))))"

end
