(* ===== verification/Sdr_Rcv.thy ===== *)
theory Sdr_Rcv
  imports Sdr_Trk
begin

text \<open>
  The receiver (\<open>sdr_rcv.c\<close>): which channel searches next, with which help, and one round of a channel's
  thread, which updates the channel and hands its navigation data and observation on. The decoder of
  the channels is that of \<open>sdr_nav.c\<close>, with the AFS part of \<open>Sdr_Nav_Afs\<close>; the decoders of the other
  signals are an argument. Threads interleave by whole rounds; devices, logs and rates are left out.
\<close>

section \<open>Navigation decoder of a channel\<close>

definition to_ch :: "trk_ch \<Rightarrow> sdr_ch_t" where
  "to_ch c = \<lparr>prn = prn c, week = week c, tow = tow c, tow_v = tow_v c, lock = lock c, trk_P = trk_P c, ch_nav = ch_nav c\<rparr>"

definition put_ch :: "sdr_ch_t \<Rightarrow> trk_ch \<Rightarrow> trk_ch" where
  "put_ch d c = c\<lparr>prn := prn d, week := week d, tow := tow d, tow_v := tow_v d, lock := lock d, trk_P := trk_P d, ch_nav := ch_nav d\<rparr>"

type_synonym ch_decoder = "rx \<Rightarrow> trk_ch \<Rightarrow> mod2err + rx \<times> trk_ch"

text \<open>The field \<open>ch\<close> of the state of the decoder is the channel at hand; between calls it has no meaning.\<close>

definition sdr_nav_decode :: "ldpc_lib \<Rightarrow> ch_decoder \<Rightarrow> ch_decoder" where
  "sdr_nav_decode lib other s c =
     (if ch_sig c = ''AFSD'' then map_sum id (\<lambda>s'. (s', put_ch (ch s') c)) (decode_AFSD lib (s\<lparr>ch := to_ch c\<rparr>))
      else if ch_sig c = ''AFSP'' then Inr (s, c)
      else other s c)"

definition to_pvt :: "trk_ch \<Rightarrow> pvt_ch" where
  "to_pvt c = \<lparr>prn = prn c, week = week c, tow = tow c, tow_v = tow_v c, lock = lock c, trk_P = trk_P c, ch_nav = ch_nav c,
     ch_state = ch_state c, ch_sat = ch_sat c, ch_sig = ch_sig c, ch_T = ch_T c, ch_coff = ch_coff c, ch_adr = ch_adr c,
     ch_cn0 = ch_cn0 c, trk_sec_sync = trk_sec_sync c, trk_err_phas = trk_err_phas c\<rparr>"

section \<open>State\<close>

definition MAX_BUFF :: int where
  "MAX_BUFF = 8000"

definition TO_REACQ :: rat where
  "TO_REACQ = 60"

definition MIN_LOCK :: rat where
  "MIN_LOCK = 2"

definition MAX_ACQ :: rat where
  "MAX_ACQ = dbl (4 / 1000)"

definition MAX_BUFF_USE :: rat where
  "MAX_BUFF_USE = 90"

text \<open>
  Channels with the read pointers of their threads, the channel that searches, the write pointer, the use
  of the buffer in percent, samples per cycle, and the states the channels share.
\<close>

record 'n sdr_rcv_t =
  rcv_chs :: "trk_ch list"
  rcv_th_ix :: "int list"
  rcv_ich :: int
  rcv_ix :: int
  rcv_use :: rat
  rcv_N :: int
  rcv_nav :: rx
  rcv_pvt :: "'n sdr_pvt_t"

section \<open>The next search\<close>

definition set_fd_ext :: "rat \<Rightarrow> trk_ch \<Rightarrow> trk_ch" where
  "set_fd_ext fd c = c\<lparr>ch_acq := (ch_acq c)\<lparr>fd_ext := flt fd\<rparr>\<rparr>"

definition re_acq :: "int \<Rightarrow> trk_ch \<Rightarrow> bool \<times> trk_ch" where
  "re_acq ix c =
     (if lock_time c \<ge> MIN_LOCK \<and> dmul (of_int ix) SDR_CYC < dadd (ch_time c) TO_REACQ then (True, set_fd_ext (ch_fd c) c)
      else (False, c))"

definition assists :: "trk_ch \<Rightarrow> trk_ch \<Rightarrow> bool" where
  "assists c d \<longleftrightarrow> ch_sat c = ch_sat d \<and> ch_state d = SDR_STATE_LOCK \<and> \<not> lock_time d < MIN_LOCK"

definition assist_acq :: "trk_ch list \<Rightarrow> trk_ch \<Rightarrow> bool \<times> trk_ch" where
  "assist_acq chs c =
     (case find (assists c) chs of
        None \<Rightarrow> (False, c)
      | Some d \<Rightarrow> (True, set_fd_ext (ddiv (dmul (ch_fd d) (ch_fc c)) (ch_fc d)) c))"

text \<open>\<open>re_acq (...) || assist_acq (...) || ch->T <= MAX_ACQ\<close>, and the channel as the calls leave it.\<close>

definition may_search :: "int \<Rightarrow> trk_ch list \<Rightarrow> trk_ch \<Rightarrow> bool \<times> trk_ch" where
  "may_search ix chs c =
     (let (ok, c) = re_acq ix c in
      if ok then (True, c)
      else let (ok, c) = assist_acq chs c in
        if ok then (True, c) else (ch_T c \<le> MAX_ACQ, c))"

fun next_search :: "int \<Rightarrow> nat \<Rightarrow> trk_ch list \<Rightarrow> int \<Rightarrow> trk_ch list \<times> int" where
  "next_search ix 0 chs ich = (chs, ich)"
| "next_search ix (Suc n) chs ich =
     (let ich = (ich + 1) smod int (length chs); c = chs ! nat ich
      in if ch_state c \<noteq> SDR_STATE_IDLE then next_search ix n chs ich
         else (case may_search ix chs c of
           (ok, c) \<Rightarrow>
             if ok then (chs[nat ich := c\<lparr>ch_state := SDR_STATE_SRCH\<rparr>], ich)
             else next_search ix n (chs[nat ich := c]) ich))"

definition update_srch_ch :: "'n sdr_rcv_t \<Rightarrow> 'n sdr_rcv_t" where
  "update_srch_ch r =
     (if rcv_use r > MAX_BUFF_USE then r
      else if rcv_ich r \<ge> 0 \<and> ch_state (rcv_chs r ! nat (rcv_ich r)) = SDR_STATE_SRCH then r
      else (case next_search (rcv_ix r) (length (rcv_chs r)) (rcv_chs r) (rcv_ich r) of
              (chs, ich) \<Rightarrow> r\<lparr>rcv_chs := chs, rcv_ich := ich\<rparr>))"

definition buff_use :: "int \<Rightarrow> int list \<Rightarrow> rat" where
  "buff_use ix th = foldl (\<lambda>u t. let use = ddiv (dmul (of_int (ix - t)) 100) (of_int MAX_BUFF) in if use > u then use else u) 0 th"

definition update_buff_use :: "'n sdr_rcv_t \<Rightarrow> 'n sdr_rcv_t" where
  "update_buff_use r = r\<lparr>rcv_use := buff_use (rcv_ix r) (rcv_th_ix r)\<rparr>"

section \<open>A round of a channel\<close>

datatype rcv_err = Rcv_ch ch_err | Rcv_pvt pvt_err

definition ch_cycles :: "'n sdr_rcv_t \<Rightarrow> trk_ch \<Rightarrow> int" where
  "ch_cycles r c = ch_N c sdiv rcv_N r"

text \<open>The body of the loop in \<open>ch_thread\<close> on channel \<open>k\<close>, with the samples in its buffer.\<close>

definition ch_round ::
  "'e sdr_ext_scheme \<Rightarrow> ch_conf \<Rightarrow> ch_decoder \<Rightarrow> 'n rtk_decoders \<Rightarrow> (satsystem \<Rightarrow> nat \<Rightarrow> int) \<Rightarrow> pvt_conf \<Rightarrow> u8 list \<Rightarrow> nat \<Rightarrow>
   'n sdr_rcv_t \<Rightarrow> rcv_err + 'n sdr_rcv_t" where
  "ch_round E cf nav R code2idx conf buff k r =
     (let c = rcv_chs r ! k; ix = rcv_th_ix r ! k; n = ch_cycles r c
      in res_bind (map_sum Rcv_ch id
           (sdr_ch_update E cf nav (dmul (of_int ix) SDR_CYC) buff (rcv_N r * (ix smod MAX_BUFF)) (rcv_nav r) c)) (\<lambda>(s, c).
         let pvt = rcv_pvt r
         in res_bind (if stat (ch_nav c) \<noteq> 0
              then map_sum Rcv_pvt (\<lambda>p. (p, c\<lparr>ch_nav := (ch_nav c)\<lparr>stat := 0\<rparr>\<rparr>)) (sdr_pvt_udnav (libm.truncate E) R (to_pvt c) pvt)
              else Inr (pvt, c)) (\<lambda>(pvt, c).
         res_bind (map_sum Rcv_pvt id (sdr_pvt_udobs code2idx conf ix (to_pvt c) pvt)) (\<lambda>pvt.
           Inr (r\<lparr>rcv_nav := s, rcv_pvt := pvt, rcv_chs := (rcv_chs r)[k := c], rcv_th_ix := (rcv_th_ix r)[k := ix + n]\<rparr>)))))"

text \<open>The thread takes a round while two code cycles of samples are there.\<close>

definition round_due :: "'n sdr_rcv_t \<Rightarrow> nat \<Rightarrow> bool" where
  "round_due r k \<longleftrightarrow> k < length (rcv_chs r) \<and> rcv_th_ix r ! k + 2 * ch_cycles r (rcv_chs r ! k) \<le> rcv_ix r"

text \<open>A cycle of the receiver's thread: samples are written, the next search is chosen, the solution updated.\<close>

definition rcv_cycle ::
  "libm \<Rightarrow> (obsd_t list \<Rightarrow> 'n \<Rightarrow> pvt_sol \<Rightarrow> bool \<times> pvt_sol) \<Rightarrow> pvt_conf \<Rightarrow> int \<Rightarrow> 'n sdr_rcv_t \<Rightarrow> rcv_err + 'n sdr_rcv_t" where
  "rcv_cycle L pntpos conf ix r =
     (let r = update_srch_ch (r\<lparr>rcv_ix := ix\<rparr>)
      in map_sum Rcv_pvt (\<lambda>p. r\<lparr>rcv_pvt := p\<rparr>) (sdr_pvt_udsol L pntpos conf ix (rcv_pvt r)))"

text \<open>
  A new receiver: signals, numbers and intermediate frequencies of its channels; a channel that cannot be
  made is left out.
\<close>

definition SDR_MAX_NCH :: nat where
  "SDR_MAX_NCH = 999"

fun new_channels ::
  "'e sdr_ext_scheme \<Rightarrow> ch_conf \<Rightarrow> (string \<Rightarrow> int \<Rightarrow> int list option) \<Rightarrow> (string \<Rightarrow> int \<Rightarrow> int list option) \<Rightarrow> rat \<Rightarrow>
   (string \<times> int \<times> rat) list \<Rightarrow> nat \<Rightarrow> ch_err + trk_ch list" where
  "new_channels E cf gen_code gen_sec fs [] n = Inr []"
| "new_channels E cf gen_code gen_sec fs ((sig, pn, fi) # xs) n =
     (if n = 0 then Inr []
      else res_bind (sdr_ch_new E cf gen_code gen_sec sig pn fs fi) (\<lambda>c.
        case c of None \<Rightarrow> new_channels E cf gen_code gen_sec fs xs n
        | Some c \<Rightarrow> map_sum id ((#) c) (new_channels E cf gen_code gen_sec fs xs (n - 1))))"

definition sdr_rcv_new ::
  "'e sdr_ext_scheme \<Rightarrow> ch_conf \<Rightarrow> (string \<Rightarrow> int \<Rightarrow> int list option) \<Rightarrow> (string \<Rightarrow> int \<Rightarrow> int list option) \<Rightarrow> rat \<Rightarrow>
   (string \<times> int \<times> rat) list \<Rightarrow> rx \<Rightarrow> 'n sdr_pvt_t \<Rightarrow> ch_err + 'n sdr_rcv_t" where
  "sdr_rcv_new E cf gen_code gen_sec fs xs s p =
     map_sum id (\<lambda>chs.
       \<lparr>rcv_chs = chs, rcv_th_ix = map (\<lambda>c. 0) chs, rcv_ich = -1, rcv_ix = 0, rcv_use = 0, rcv_N = int_of_dbl (dmul SDR_CYC fs),
        rcv_nav = s, rcv_pvt = p\<rparr>) (new_channels E cf gen_code gen_sec fs xs SDR_MAX_NCH)"

text \<open>Correlators for a display: all of them for channel \<open>k\<close>, four for the others; \<open>k = 0\<close> is no channel.\<close>

definition sdr_rcv_sel_ch :: "nat \<Rightarrow> 'n sdr_rcv_t \<Rightarrow> 'n sdr_rcv_t" where
  "sdr_rcv_sel_ch k r =
     r\<lparr>rcv_chs := map (\<lambda>i. sdr_ch_set_corr (if i + 1 = k then SDR_N_CORR else 4) (rcv_chs r ! i)) [0..<length (rcv_chs r)]\<rparr>"

end
