(* ===== verification/C_Double_Mono.thy ===== *)
theory C_Double_Mono
  imports Afs_Sim_Time
begin

text \<open>
  Rounding to doubles is monotone, for all numbers; with it go bounds by numbers that are doubles
  themselves.
\<close>

section \<open>The exponent\<close>

text \<open>Below \<open>2 ^ 53\<close> the number is only scaled up, from there on only down.\<close>

lemma dbl_exp_up:
  assumes "0 < x" "x < 2 ^ 53"
  shows "\<exists>k \<le> f. dbl_exp f x e = e - int k \<and> (k = f \<or> 2 ^ 52 \<le> x * 2 ^ k) \<and> x * 2 ^ k < 2 ^ 53"
  using assms
proof (induction f arbitrary: x e)
  case (Suc f)
  show ?case
  proof (cases "x < 2 ^ 52")
    case True
    from Suc.IH [of "2 * x" "e - 1"] Suc.prems True obtain k where
      "k \<le> f" "dbl_exp f (2 * x) (e - 1) = e - 1 - int k" "k = f \<or> 2 ^ 52 \<le> 2 * x * 2 ^ k" "2 * x * 2 ^ k < 2 ^ 53" by auto
    then show ?thesis using True by (intro exI [of _ "Suc k"]) (auto simp: mult_ac)
  next
    case False
    then show ?thesis using Suc.prems by (intro exI [of _ 0]) auto
  qed
qed simp

lemma dbl_exp_down:
  assumes "2 ^ 52 \<le> x"
  shows "\<exists>k \<le> f. dbl_exp f x e = e + int k \<and> (k = f \<or> x < 2 ^ 53 * 2 ^ k) \<and> 2 ^ 52 * 2 ^ k \<le> x"
  using assms
proof (induction f arbitrary: x e)
  case (Suc f)
  show ?case
  proof (cases "x \<ge> 2 ^ 53")
    case True
    then have "2 ^ 52 \<le> x / 2" by simp
    from Suc.IH [OF this, of "e + 1"] obtain k where
      "k \<le> f" "dbl_exp f (x / 2) (e + 1) = e + 1 + int k" "k = f \<or> x / 2 < 2 ^ 53 * 2 ^ k" "2 ^ 52 * 2 ^ k \<le> x / 2" by auto
    then show ?thesis using True by (intro exI [of _ "Suc k"]) auto
  next
    case False
    then show ?thesis using Suc.prems by (intro exI [of _ 0]) auto
  qed
qed simp

definition dexp :: "rat \<Rightarrow> int" where
  "dexp x = dbl_exp 1100 x 0"

lemma dexp_cases:
  assumes "0 < x"
  shows "\<bar>dexp x\<bar> \<le> 1100" "dexp x = - 1100 \<or> 2 ^ 52 * 2 powi dexp x \<le> x" "dexp x = 1100 \<or> x < 2 ^ 53 * 2 powi dexp x"
proof -
  have *: "\<bar>dexp x\<bar> \<le> 1100 \<and> (dexp x = - 1100 \<or> 2 ^ 52 * 2 powi dexp x \<le> x) \<and> (dexp x = 1100 \<or> x < 2 ^ 53 * 2 powi dexp x)"
  proof (cases "x < 2 ^ 53")
    case True
    then obtain k where k: "k \<le> 1100" "dexp x = - int k" "k = 1100 \<or> 2 ^ 52 \<le> x * 2 ^ k" "x * 2 ^ k < 2 ^ 53"
      using dbl_exp_up [OF assms, of 1100 0] by (auto simp: dexp_def)
    have pw: "(2 :: rat) powi (- int k) = 1 / 2 ^ k" by (simp add: power_int_minus divide_inverse)
    show ?thesis unfolding k(2) pw using k(1,3,4) by (auto simp: pos_divide_le_eq pos_less_divide_eq)
  next
    case False
    then have "2 ^ 52 \<le> x" by simp
    then obtain k where k: "k \<le> 1100" "dexp x = int k" "k = 1100 \<or> x < 2 ^ 53 * 2 ^ k" "2 ^ 52 * 2 ^ k \<le> x"
      using dbl_exp_down [of x 1100 0] by (auto simp: dexp_def)
    then show ?thesis by auto
  qed
  then show "\<bar>dexp x\<bar> \<le> 1100" "dexp x = - 1100 \<or> 2 ^ 52 * 2 powi dexp x \<le> x" "dexp x = 1100 \<or> x < 2 ^ 53 * 2 powi dexp x"
    by blast+
qed

lemma powi_less:
  assumes "a < b" shows "2 * (2 :: rat) powi a \<le> 2 powi b"
proof -
  have "(2 :: rat) powi (a + 1) \<le> 2 powi b" using assms by (intro power_int_increasing) auto
  then show ?thesis by (simp add: power_int_add)
qed

lemma dexp_mono:
  assumes "0 < x" "x \<le> y" shows "dexp x \<le> dexp y"
proof (rule ccontr)
  assume "\<not> dexp x \<le> dexp y"
  then have less: "dexp y < dexp x" by simp
  have y: "0 < y" using assms by simp
  have "2 ^ 52 * 2 powi dexp x \<le> x" "y < 2 ^ 53 * 2 powi dexp y"
    using dexp_cases [OF assms(1)] dexp_cases [OF y] less by auto
  moreover have "a < 2 * b" if "2 ^ 52 * a \<le> x" "y < 2 ^ 53 * b" for a b :: rat
  proof -
    have "2 ^ 52 * a < 2 ^ 52 * (2 * b)" using that assms(2) by simp
    then show ?thesis by simp
  qed
  ultimately have "2 powi dexp x < 2 * (2 :: rat) powi dexp y" by blast
  then show False using powi_less [OF less] by linarith
qed

section \<open>Monotony\<close>

lemma round_even_mono: "p \<le> q \<Longrightarrow> round_even p \<le> round_even q"
proof -
  assume le: "p \<le> q"
  show ?thesis
  proof (cases "\<lfloor>p\<rfloor> = \<lfloor>q\<rfloor>")
    case True
    then show ?thesis using le unfolding round_even_def Let_def True by auto
  next
    case False
    then have "\<lfloor>p\<rfloor> + 1 \<le> \<lfloor>q\<rfloor>" using floor_mono [OF le] by linarith
    moreover have "round_even p \<le> \<lfloor>p\<rfloor> + 1" "\<lfloor>q\<rfloor> \<le> round_even q" unfolding round_even_def Let_def by auto
    ultimately show ?thesis by linarith
  qed
qed

lemma dbl_dexp: "0 < x \<Longrightarrow> dbl x = of_int (round_even (x / 2 powi dexp x)) * 2 powi dexp x"
  by (simp add: dbl_def dexp_def Let_def)

lemma dbl_mono_pos:
  assumes "0 < x" "x \<le> y" shows "dbl x \<le> dbl y"
proof -
  have y: "0 < y" using assms by simp
  consider "dexp x = dexp y" | "dexp x < dexp y" using dexp_mono [OF assms] by linarith
  then show ?thesis
  proof cases
    case 1
    have "round_even (x / 2 powi dexp y) \<le> round_even (y / 2 powi dexp y)"
      by (rule round_even_mono) (simp add: assms(2) divide_right_mono)
    then show ?thesis unfolding dbl_dexp [OF assms(1)] dbl_dexp [OF y] 1 by (intro mult_right_mono) auto
  next
    case 2
    have "x < 2 ^ 53 * 2 powi dexp x" "2 ^ 52 * 2 powi dexp y \<le> y"
      using dexp_cases [OF assms(1)] dexp_cases [OF y] 2 by auto
    then have "x / 2 powi dexp x \<le> of_int (2 ^ 53)" "of_int (2 ^ 52) \<le> y / 2 powi dexp y"
      by (simp_all add: pos_divide_le_eq pos_le_divide_eq)
    then have r: "round_even (x / 2 powi dexp x) \<le> 2 ^ 53" "2 ^ 52 \<le> round_even (y / 2 powi dexp y)"
      using round_even_le_int round_even_int_le by blast+
    have "dbl x \<le> of_int (2 ^ 53) * 2 powi dexp x"
      unfolding dbl_dexp [OF assms(1)] using r(1) by (intro mult_right_mono) (auto simp only: of_int_le_iff, simp)
    also have "\<dots> = of_int (2 ^ 52) * (2 * 2 powi dexp x)" by simp
    also have "\<dots> \<le> of_int (2 ^ 52) * 2 powi dexp y" using powi_less [OF 2] by simp
    also have "\<dots> \<le> dbl y"
      unfolding dbl_dexp [OF y] using r(2) by (intro mult_right_mono) (auto simp only: of_int_le_iff, simp)
    finally show ?thesis .
  qed
qed

lemma dbl_zero [simp]: "dbl 0 = 0"
  by (simp add: dbl_def)

lemma dbl_nonneg: "0 \<le> x \<Longrightarrow> 0 \<le> dbl x"
proof (cases "x = 0")
  case False
  assume "0 \<le> x"
  then have x: "0 < x" using False by simp
  have "of_int 0 \<le> x / 2 powi dexp x" using x by simp
  then have "0 \<le> round_even (x / 2 powi dexp x)" by (rule round_even_int_le)
  then show ?thesis unfolding dbl_dexp [OF x] by simp
qed simp

lemma dbl_mono: "x \<le> y \<Longrightarrow> dbl x \<le> dbl y"
proof -
  assume le: "x \<le> y"
  consider "0 < x" | "x \<le> 0" "0 \<le> y" | "y < 0" by linarith
  then show ?thesis
  proof cases
    case 1
    then show ?thesis using dbl_mono_pos le by blast
  next
    case 2
    have "dbl x \<le> 0" using dbl_nonneg [of "- x"] 2(1) by (simp add: dbl_minus)
    then show ?thesis using dbl_nonneg [OF 2(2)] by simp
  next
    case 3
    then have "dbl (- y) \<le> dbl (- x)" using le by (intro dbl_mono_pos) auto
    then show ?thesis by (simp add: dbl_minus)
  qed
qed

lemma dbl_le: "x \<le> b \<Longrightarrow> dbl b = b \<Longrightarrow> dbl x \<le> b"
  using dbl_mono [of x b] by simp

lemma dbl_ge: "b \<le> x \<Longrightarrow> dbl b = b \<Longrightarrow> b \<le> dbl x"
  using dbl_mono [of b x] by simp

lemma dbl_abs_le:
  assumes "\<bar>x\<bar> \<le> b" "dbl b = b" shows "\<bar>dbl x\<bar> \<le> b"
  using dbl_le [of x b] dbl_le [of "- x" b] assms by (simp add: dbl_minus abs_le_iff)

lemma dbl_abs: "\<bar>dbl x\<bar> = dbl \<bar>x\<bar>"
  using dbl_nonneg [of x] dbl_nonneg [of "- x"] by (cases "0 \<le> x") (simp_all add: dbl_minus)

text \<open>Powers of two, down to \<open>2 ^ -1000\<close>, are doubles; so are rounded numbers.\<close>

lemma dbl_half_power: "k \<le> 1000 \<Longrightarrow> dbl (1 / 2 ^ k) = 1 / 2 ^ k"
proof -
  assume k: "k \<le> 1000"
  have "on_grid k (1 / 2 ^ k)" by (rule on_gridI [of _ 1 k]) auto
  then show ?thesis by (rule dbl_grid [OF _ k]) (auto intro: le_less_trans [of _ 1])
qed

lemma dbl_dbl:
  assumes "1 / 2 ^ 900 \<le> x" "x < 2 ^ 53" "dbl x < 2 ^ 53" shows "dbl (dbl x) = dbl x"
proof -
  have "0 \<le> x" using assms(1) by (rule order_trans [rotated]) simp
  then show ?thesis by (intro dbl_grid [OF dbl_on_grid [OF assms(1,2)]] dbl_nonneg assms(3)) simp_all
qed

section \<open>Cutting to integers\<close>

lemma int_of_dbl_mono: "0 \<le> x \<Longrightarrow> x \<le> y \<Longrightarrow> int_of_dbl x \<le> int_of_dbl y"
  by (simp add: int_of_dbl_def floor_mono)

lemma int_of_dbl_nonneg: "0 \<le> x \<Longrightarrow> 0 \<le> int_of_dbl x"
  by (simp add: int_of_dbl_def)

text \<open>
  The tenth part of the distance to the next integer: for a number \<open>x\<close> that is not negative, cutting ten times
  its fraction gives a number from 0 to 9, although fraction and product are rounded.
\<close>

lemma fraction_tenth:
  assumes "0 \<le> y" "y < 2 ^ 53" "dbl y < 2 ^ 53"
  defines "x \<equiv> dbl y"
  shows "0 \<le> int_of_dbl (dmul (dsub x (of_int (int_of_dbl x))) 10)" "int_of_dbl (dmul (dsub x (of_int (int_of_dbl x))) 10) < 10"
proof -
  let ?i = "int_of_dbl x" and ?f = "dsub x (of_int (int_of_dbl x))"
  have x: "0 \<le> x" unfolding x_def using assms(1) by (rule dbl_nonneg)
  have i: "?i = \<lfloor>x\<rfloor>" using x by (simp add: int_of_dbl_def)
  have fr: "0 \<le> x - of_int ?i" "x - of_int ?i < 1" unfolding i by linarith+
  have f0: "0 \<le> ?f" unfolding dsub_def using fr(1) by (rule dbl_nonneg)
  have lt: "dmul ?f 10 < 10"
  proof (cases "x < 1 / 2")
    case True
    have half: "dbl (1 / 2) = 1 / 2" using dbl_half_power [of 1] by simp
    have five: "dbl 5 = 5" using dbl_int [of 5] by simp
    have "0 \<le> (of_int ?i :: rat)" using int_of_dbl_nonneg [OF x] by simp
    then have "x - of_int ?i \<le> 1 / 2" using True by linarith
    then have "?f \<le> 1 / 2" unfolding dsub_def by (rule dbl_le [OF _ half])
    then have "dmul ?f 10 \<le> 5" unfolding dmul_def by (intro dbl_le [OF _ five]) simp
    then show ?thesis by simp
  next
    case False
    have y: "1 / 2 ^ 2 \<le> y"
    proof (rule ccontr)
      assume "\<not> 1 / 2 ^ 2 \<le> y"
      then have "dbl y \<le> 1 / 2 ^ 2" by (intro dbl_le [OF _ dbl_half_power]) auto
      then show False using False by (simp add: x_def)
    qed
    have g: "on_grid (2 + 53) x" unfolding x_def by (rule dbl_on_grid [OF y assms(2)]) simp
    have "0 \<le> ?i" using x by (rule int_of_dbl_nonneg)
    moreover have le: "of_int ?i \<le> x" unfolding i by simp
    ultimately have f: "?f = x - of_int ?i" "on_grid (2 + 53) (x - of_int ?i)"
      using dsub_int [OF g] grid_minus_int [OF g] assms(3) unfolding x_def by simp_all
    have "?f = 0 \<or> 1 / 2 ^ 1000 \<le> ?f * 10"
    proof (cases "?f = 0")
      case False
      then have "1 / 2 ^ (2 + 53) \<le> ?f" using grid_pos_bound [OF f(2)] f0 f(1) by simp
      moreover have "1 / (2 :: rat) ^ 1000 \<le> 1 / 2 ^ (2 + 53)" by (intro divide_left_mono power_increasing) auto
      ultimately have "1 / 2 ^ 1000 \<le> ?f" by linarith
      then show ?thesis using f0 by simp
    qed simp
    moreover have "?f < of_int 1" "?f < 2 ^ 53" "?f * 10 < 2 ^ 53" using fr(2) unfolding f(1) by simp_all
    ultimately have "dbl (?f * 10) < of_int 1 * 10" using f f0 by (intro dbl_mult_less [of "2 + 53"]) simp_all
    then show ?thesis by (simp add: dmul_def)
  qed
  have ge: "0 \<le> dmul ?f 10" unfolding dmul_def using f0 by (intro dbl_nonneg) simp
  show "0 \<le> int_of_dbl (dmul ?f 10)" using ge by (rule int_of_dbl_nonneg)
  show "int_of_dbl (dmul ?f 10) < 10" using ge lt by (simp add: int_of_dbl_def floor_less_iff)
qed

end
