(* ===== verification/Sdr_Ch_Lemmas.thy ===== *)
theory Sdr_Ch_Lemmas
  imports Sdr_Rcv C_Double_Mono Sdr_Pvt_Lemmas
begin

text \<open>
  Lemmas on the receiver channel: what the stages of a tracking step keep, and the outcomes of a step of
  the state machine.
\<close>

named_theorems ch_frame \<open>fields of a channel that the stages of tracking keep\<close>

section \<open>Results\<close>

lemma res_bind_Inr: "res_bind x f = Inr y \<longleftrightarrow> (\<exists>a. x = Inr a \<and> f a = Inr y)"
  by (cases x) simp_all

lemma or_err_Inr: "or_err e x = Inr a \<longleftrightarrow> x = Some a"
  by (cases x) simp_all

lemma map_sum_eq_Inr: "map_sum f g x = Inr y \<longleftrightarrow> (\<exists>a. x = Inr a \<and> y = g a)"
  by (cases x) auto

lemma bind_Some: "Option.bind x f = Some y \<longleftrightarrow> (\<exists>a. x = Some a \<and> f a = Some y)"
  by (cases x) auto

lemmas results = res_bind_Inr or_err_Inr map_sum_eq_Inr bind_Some

section \<open>What the stages keep\<close>

text \<open>The fields that only starting and losing a signal change, and those set up once.\<close>

definition ch_fix :: "trk_ch \<Rightarrow> int \<times> sdr_acq_t \<times> rat \<times> string \<times> string \<times> int \<times> rat \<times> rat \<times> int list \<times> int list \<times> bool" where
  "ch_fix c = (ch_state c, ch_acq c, ch_T c, ch_sig c, ch_sat c, ch_N c, ch_fs c, ch_fc c, ch_sec_code c, ch_code c, ch_costas c)"

lemma ch_fixD:
  assumes "ch_fix d = ch_fix c"
  shows "ch_state d = ch_state c" "ch_acq d = ch_acq c" "ch_T d = ch_T c" "ch_sig d = ch_sig c" "ch_sat d = ch_sat c" "ch_N d = ch_N c"
    "ch_fs d = ch_fs c" "ch_fc d = ch_fc c" "ch_sec_code d = ch_sec_code c" "ch_code d = ch_code c" "ch_costas d = ch_costas c"
  using assms by (simp_all add: ch_fix_def)

lemma ch_update_tow_fix [ch_frame]: "ch_fix (ch_update_tow sec c) = ch_fix c"
  by (simp add: ch_fix_def ch_update_tow_def)

lemma carrier_aid_fix [ch_frame]: "ch_fix (carrier_aid time c) = ch_fix c"
  by (simp add: ch_fix_def carrier_aid_def Let_def)

lemma ch_update_tow_fields [simp]:
  "lock (ch_update_tow sec c) = lock c" "trk_P (ch_update_tow sec c) = trk_P c" "ch_trk (ch_update_tow sec c) = ch_trk c"
  "ch_nav (ch_update_tow sec c) = ch_nav c" "ch_coff (ch_update_tow sec c) = ch_coff c" "ch_T (ch_update_tow sec c) = ch_T c"
  "ch_state (ch_update_tow sec c) = ch_state c" "week (ch_update_tow sec c) = week c" "trk_sec_sync (ch_update_tow sec c) = trk_sec_sync c"
  "ch_adr (ch_update_tow sec c) = ch_adr c" "ch_fi (ch_update_tow sec c) = ch_fi c" "ch_fd (ch_update_tow sec c) = ch_fd c"
  "ch_time (ch_update_tow sec c) = ch_time c" "ch_fs (ch_update_tow sec c) = ch_fs c" "ch_N (ch_update_tow sec c) = ch_N c"
  "ch_sig (ch_update_tow sec c) = ch_sig c" "ch_acq (ch_update_tow sec c) = ch_acq c" "ch_sat (ch_update_tow sec c) = ch_sat c"
  "ch_fc (ch_update_tow sec c) = ch_fc c" "ch_sec_code (ch_update_tow sec c) = ch_sec_code c" "ch_code (ch_update_tow sec c) = ch_code c"
  "ch_costas (ch_update_tow sec c) = ch_costas c"
  by (simp_all add: ch_update_tow_def)

lemma wrap_code_fix [ch_frame]: "ch_fix (wrap_code c) = ch_fix c"
  by (simp add: ch_fix_def wrap_code_def Let_def)

lemma add_history_fix [ch_frame]: "ch_fix (add_history c) = ch_fix c"
  by (simp add: ch_fix_def add_history_def Let_def)

lemma count_cycle_fix [ch_frame]: "ch_fix (count_cycle c) = ch_fix c"
  by (simp add: ch_fix_def count_cycle_def Let_def)

lemma FLL_fix [ch_frame]: "ch_fix (FLL E cf c) = ch_fix c"
  by (simp add: ch_fix_def FLL_def Let_def)

lemma PLL_fix [ch_frame]: "ch_fix (PLL E cf c) = ch_fix c"
  by (simp add: ch_fix_def PLL_def Let_def)

lemma DLL_fix [ch_frame]: "ch_fix (DLL E cf c) = ch_fix c"
  by (simp add: ch_fix_def DLL_def Let_def)

lemma CN0_fix: "CN0 E c = Inr d \<Longrightarrow> ch_fix d = ch_fix c"
  by (auto simp: ch_fix_def CN0_def Let_def split: if_splits)

lemma sec_search_fix [ch_frame]: "ch_fix (sec_search c n) = ch_fix c"
  by (simp add: ch_fix_def sec_search_def)

lemma remove_chip_fix [ch_frame]: "ch_fix (remove_chip k c) = ch_fix c"
  by (simp add: ch_fix_def remove_chip_def Let_def)

lemma sync_sec_code_fix: "sync_sec_code c n = Inr d \<Longrightarrow> ch_fix d = ch_fix c"
  by (auto simp: sync_sec_code_def Let_def results ch_frame split: if_splits)

lemma CSK_fix: "CSK E corr c = Some d \<Longrightarrow> ch_fix d = ch_fix c"
  by (auto simp: CSK_def Let_def results ch_fix_def)

lemma correlate_fix: "correlate E buff ix fc tau c = Some d \<Longrightarrow> ch_fix d = ch_fix c"
  by (auto simp: correlate_def Let_def results dest: CSK_fix split: if_splits) (simp add: ch_fix_def)

lemma put_ch_fix [ch_frame]: "ch_fix (put_ch d c) = ch_fix c"
  by (simp add: ch_fix_def put_ch_def)

lemmas stage_fix = CN0_fix sync_sec_code_fix correlate_fix

section \<open>The lock count\<close>

lemma loops_lock [ch_frame]:
  "lock (FLL E cf c) = lock c" "lock (PLL E cf c) = lock c" "lock (DLL E cf c) = lock c" "lock (add_history c) = lock c"
  "lock (count_cycle c) = lock c + 1" "lock (sec_search c n) = lock c" "lock (remove_chip k c) = lock c" "lock (carrier_aid time c) = lock c"
  by (simp_all add: FLL_def PLL_def DLL_def add_history_def count_cycle_def sec_search_def remove_chip_def carrier_aid_def Let_def)

lemma CN0_lock: "CN0 E c = Inr d \<Longrightarrow> lock d = lock c"
  by (auto simp: CN0_def Let_def split: if_splits)

lemma sync_sec_code_lock: "sync_sec_code c n = Inr d \<Longrightarrow> lock d = lock c"
  by (auto simp: sync_sec_code_def Let_def results ch_frame split: if_splits)

lemma correlate_lock: "correlate E buff ix fc tau c = Some d \<Longrightarrow> lock d = lock c"
  by (auto simp: correlate_def CSK_def Let_def results split: if_splits)

lemma wrap_code_lock: "lock c - 1 \<le> lock (wrap_code c)"
  by (simp add: wrap_code_def Let_def)

section \<open>The decoder of a channel\<close>

text \<open>What a decoder leaves alone: the decoders of \<open>sdr_nav.c\<close> set only time of week, week and navigation data.\<close>

definition nav_keeps :: "('s \<Rightarrow> trk_ch \<Rightarrow> mod2err + 's \<times> trk_ch) \<Rightarrow> bool" where
  "nav_keeps nd \<longleftrightarrow> (\<forall>s c s' d. nd s c = Inr (s', d) \<longrightarrow>
     ch_fix d = ch_fix c \<and> lock d = lock c \<and> ch_coff d = ch_coff c \<and> ch_cn0 d = ch_cn0 c \<and> ch_trk d = ch_trk c \<and> trk_P d = trk_P c \<and>
     trk_sec_sync d = trk_sec_sync c)"

lemma nav_keepsD:
  assumes "nav_keeps nd" "nd s c = Inr (s', d)"
  shows "ch_fix d = ch_fix c" "lock d = lock c" "ch_coff d = ch_coff c" "ch_cn0 d = ch_cn0 c" "ch_trk d = ch_trk c" "trk_P d = trk_P c"
    "trk_sec_sync d = trk_sec_sync c"
  using assms by (auto simp: nav_keeps_def)

lemma unsync_nav_fields: "lock (unsync_nav c) = lock c" "trk_P (unsync_nav c) = trk_P c" "prn (unsync_nav c) = prn c"
  by (simp_all add: unsync_nav_def)

lemma accept_sb2_fields: "lock (accept_sb2 toi rv x c) = lock c" "trk_P (accept_sb2 toi rv x c) = trk_P c"
  by (simp_all add: accept_sb2_def update_tow_def Let_def)

lemma reject_sb2_fields: "lock (reject_sb2 c) = lock c" "trk_P (reject_sb2 c) = trk_P c"
  by (simp_all add: reject_sb2_def unsync_nav_def Let_def)

lemmas decoder_fields = unsync_nav_fields accept_sb2_fields reject_sb2_fields

lemma decode_AFSD_frame_fields:
  assumes "decode_AFSD_frame lib ss rv s = Inr s'"
  shows "lock (ch s') = lock (ch s) \<and> trk_P (ch s') = trk_P (ch s)"
  using assms by (auto simp: decode_AFSD_frame_def Let_def results decoder_fields split: prod.splits if_splits)

lemma decode_AFSD_fields:
  assumes "decode_AFSD lib s = Inr s'"
  shows "lock (ch s') = lock (ch s)" "trk_P (ch s') = trk_P (ch s)"
  using assms
  by (auto simp: decode_AFSD_def Let_def decoder_fields dest!: decode_AFSD_frame_fields split: if_splits option.splits)

lemma put_ch_fields: "ch_coff (put_ch d c) = ch_coff c" "ch_cn0 (put_ch d c) = ch_cn0 c" "ch_trk (put_ch d c) = ch_trk c"
  "lock (put_ch d c) = lock d" "trk_P (put_ch d c) = trk_P d" "trk_sec_sync (put_ch d c) = trk_sec_sync c" "ch_nav (put_ch d c) = ch_nav d"
  by (simp_all add: put_ch_def)

lemma afs_decoder_keeps:
  assumes "nav_keeps other" shows "nav_keeps (sdr_nav_decode lib other)"
  unfolding nav_keeps_def
proof (intro allI impI)
  fix s c s' d assume *: "sdr_nav_decode lib other s c = Inr (s', d)"
  show "ch_fix d = ch_fix c \<and> lock d = lock c \<and> ch_coff d = ch_coff c \<and> ch_cn0 d = ch_cn0 c \<and> ch_trk d = ch_trk c \<and> trk_P d = trk_P c \<and>
     trk_sec_sync d = trk_sec_sync c"
  proof (cases "ch_sig c = ''AFSD''")
    case True
    then obtain s1 where 1: "decode_AFSD lib (s\<lparr>ch := to_ch c\<rparr>) = Inr s1" "d = put_ch (ch s1) c"
      using * unfolding sdr_nav_decode_def if_P [OF True] map_sum_eq_Inr by blast
    from decode_AFSD_fields [OF 1(1)] show ?thesis unfolding 1(2) by (simp add: ch_frame put_ch_fields to_ch_def)
  next
    case False
    then have "d = c \<or> other s c = Inr (s', d)" using * unfolding sdr_nav_decode_def if_not_P [OF False] by (simp split: if_splits)
    then show ?thesis using nav_keepsD [OF assms] by auto
  qed
qed

section \<open>A step of the state machine\<close>

lemma signal_lost_fields: "ch_state (signal_lost c) = SDR_STATE_IDLE" "lock (signal_lost c) = 0" "ch_acq (signal_lost c) = ch_acq c"
  "ch_T (signal_lost c) = ch_T c" "ch_sat (signal_lost c) = ch_sat c" "ch_N (signal_lost c) = ch_N c" "ch_sig (signal_lost c) = ch_sig c"
  by (simp_all add: signal_lost_def)

lemma track_sig_outcome:
  assumes "nav_keeps nd" "track_sig E cf nd time buff ix s c = Inr (s', c')"
  obtains d where "ch_fix d = ch_fix c" "c' = d \<or> c' = signal_lost d"
proof -
  from assms(2) obtain c1 c2 c3 c4 where
    1: "correlate E buff ix (dadd (ch_fi c) (ch_fd c)) (dsub time (ch_time c)) (wrap_code (carrier_aid time c)) = Some c1" and
    2: "c2 = count_cycle (add_history c1) \<or> sync_sec_code (count_cycle (add_history c1)) (length (ch_sec_code (count_cycle (add_history c1)))) = Inr c2" and
    3: "CN0 E (DLL E cf (if lock_time c2 \<le> T_FPULLIN then FLL E cf c2 else PLL E cf c2)) = Inr c3" and
    4: "c4 = c3 \<or> nd s c3 = Inr (s', c4)" "c' = c4 \<or> c' = signal_lost c4"
    unfolding track_sig_def Let_def results by (fastforce simp: results split: if_splits)
  have "ch_fix c1 = ch_fix c" using stage_fix(3) [OF 1] by (simp add: ch_frame)
  moreover have "ch_fix c2 = ch_fix c1" using 2 by (auto simp: ch_frame dest: stage_fix(2))
  moreover have "ch_fix c3 = ch_fix c2" using stage_fix(1) [OF 3] by (simp add: ch_frame)
  moreover have "ch_fix c4 = ch_fix c3" using 4(1) nav_keepsD(1) [OF assms(1)] by blast
  ultimately show ?thesis using that 4(2) by simp
qed

text \<open>Everything about a channel that has no signal: it counts no cycles.\<close>

definition lock_idle :: "trk_ch \<Rightarrow> bool" where
  "lock_idle c \<longleftrightarrow> ch_state c \<in> {SDR_STATE_IDLE, SDR_STATE_SRCH, SDR_STATE_LOCK} \<and> (ch_state c \<noteq> SDR_STATE_LOCK \<longrightarrow> lock c = 0)"

lemmas states = SDR_STATE_IDLE_def SDR_STATE_SRCH_def SDR_STATE_LOCK_def

lemma add_search_fields: "ch_state (add_search P c) = ch_state c" "lock (add_search P c) = lock c" "fd_ext (ch_acq (add_search P c)) = fd_ext (ch_acq c)"
  "ch_T (add_search P c) = ch_T c" "ch_sat (add_search P c) = ch_sat c" "ch_N (add_search P c) = ch_N c"
  "n_sum (ch_acq (add_search P c)) = n_sum (ch_acq c) + 1" "search_bins (add_search P c) = search_bins c"
  "P_sum (ch_acq (add_search P c)) = Some P" "ch_fs (add_search P c) = ch_fs c" "acq_code_fft (ch_acq (add_search P c)) = acq_code_fft (ch_acq c)"
  "ch_fi (add_search P c) = ch_fi c"
  by (simp_all add: add_search_def search_bins_def)

lemma search_sig_outcome:
  assumes "search_sig E cf time buff ix c = Inr c'"
  obtains (going) P where "c' = add_search P c"
  | (found) P fd cf' cn0 where "c' = search_done (start_track (add_search P c) time fd cf' cn0)"
  | (not_found) P where "c' = search_done ((add_search P c)\<lparr>ch_state := SDR_STATE_IDLE\<rparr>)"
  using assms unfolding search_sig_def Let_def results search_end_def
  by (auto split: if_splits prod.splits option.splits)

lemma ch_update_outcome:
  assumes "nav_keeps nd" "sdr_ch_update E cf nd time buff ix s c = Inr (s', c')" "lock_idle c"
  shows "lock_idle c' \<and> (ch_state c' = SDR_STATE_SRCH \<longrightarrow> ch_state c = SDR_STATE_SRCH) \<and> fd_ext (ch_acq c') = fd_ext (ch_acq c) \<and>
    ch_T c' = ch_T c \<and> ch_sat c' = ch_sat c \<and> ch_N c' = ch_N c"
proof -
  consider "search_sig E cf time buff ix c = Inr c'" "ch_state c = SDR_STATE_SRCH"
    | "track_sig E cf nd time buff ix s c = Inr (s', c')" "ch_state c = SDR_STATE_LOCK" | "c' = c"
    using assms(2) by (auto simp: sdr_ch_update_def results split: if_splits)
  then show ?thesis
  proof cases
    case 1
    from 1(1) show ?thesis
    proof (cases rule: search_sig_outcome)
      case found
      then show ?thesis by (simp add: lock_idle_def search_done_def start_track_def trk_init_def Let_def add_search_fields states)
    next
      case not_found
      then show ?thesis using 1(2) assms(3) by (simp add: lock_idle_def search_done_def add_search_fields states)
    qed (use 1(2) assms(3) in \<open>simp add: lock_idle_def add_search_fields\<close>)
  next
    case 2
    then obtain d where d: "ch_fix d = ch_fix c" "c' = d \<or> c' = signal_lost d" using track_sig_outcome [OF assms(1)] by blast
    then show ?thesis using 2(2) ch_fixD [OF d(1)] by (auto simp: lock_idle_def signal_lost_fields states)
  next
    case 3
    then show ?thesis using assms(3) by simp
  qed
qed

end
