(* ===== verification/Sdr_Corr_Lemmas.thy ===== *)
theory Sdr_Corr_Lemmas
  imports Sdr_Ch_Lemmas Afs_Sim_Chan_Inv
begin

text \<open>
  When the correlators, the acquisition and the sampling of codes stay inside their arrays, and the sizes
  and signs of what they return.
\<close>

lemma those_map_Some: "(\<And>x. x \<in> set xs \<Longrightarrow> f x \<noteq> None) \<Longrightarrow> those (map f xs) = Some (map (\<lambda>x. the (f x)) xs)"
  by (induction xs) (auto split: option.splits)

lemma those_Some_length: "those xs = Some ys \<Longrightarrow> length ys = length xs"
  by (induction xs arbitrary: ys) (auto split: option.splits)

lemma those_Some_nth: "those xs = Some ys \<Longrightarrow> i < length xs \<Longrightarrow> xs ! i = Some (ys ! i)"
  by (induction xs arbitrary: ys i) (auto simp: nth_Cons split: option.splits nat.splits)

section \<open>Signs\<close>

lemma half_flt: "flt (1 / 2) = 1 / 2" "flt (1 / 4) = 1 / 4"
proof -
  have "flt_exp 300 (1 / 2) 0 = - 24" "flt_exp 300 (1 / 4) 0 = - 25" by (simp_all add: eval_nat_numeral)
  then show "flt (1 / 2) = 1 / 2" "flt (1 / 4) = 1 / 4" by (simp_all add: flt_def Let_def round_even_def)
qed

lemma flt_nonneg: "0 \<le> x \<Longrightarrow> 0 \<le> flt x"
proof -
  assume x: "0 \<le> x"
  define e where "e = flt_exp 300 \<bar>x\<bar> 0"
  have "of_int 0 \<le> x / 2 powi e" using x by simp
  then have "0 \<le> round_even (x / 2 powi e)" by (rule round_even_int_le)
  then show ?thesis by (simp add: flt_def Let_def e_def)
qed

lemma sqr_sum_nonneg: "0 \<le> sqr_sum c"
  by (simp add: sqr_sum_def flt_nonneg)

section \<open>Mixing and correlating\<close>

lemma mix_loop_ok: "0 \<le> i \<Longrightarrow> i + int n \<le> int (length dat) \<Longrightarrow> \<exists>IQ. mix_loop E dat i p s n = Some IQ \<and> length IQ = n"
proof (induction n arbitrary: i p)
  case (Suc n)
  then have "0 \<le> i + 1" "i + 1 + int n \<le> int (length dat)" by simp_all
  from Suc.IH [OF this, of "p + s"] obtain IQ where "mix_loop E dat (i + 1) (p + s) s n = Some IQ" "length IQ = n" by blast
  moreover have "arr_at dat i = Some (dat ! nat i)" using Suc.prems by (intro arr_at_in) auto
  ultimately show ?case by simp
qed simp

lemma sdr_mix_carr_ok:
  assumes "0 \<le> ix" "ix \<le> int (length buff)" "0 \<le> N" "N \<le> int (length buff)"
  shows "\<exists>IQ. sdr_mix_carr E buff ix N fs fc phi = Some IQ \<and> length IQ = nat N"
proof (cases "ix + N \<le> int (length buff)")
  case True
  then show ?thesis using mix_loop_ok [of ix "nat N" buff E] assms by (simp add: sdr_mix_carr_def mix_carr_def Let_def)
next
  case False
  define n where "n = int (length buff) - ix"
  have n: "0 \<le> n" "n \<le> N" using assms False by (simp_all add: n_def)
  obtain a where "mix_carr E buff ix n phi (ddiv fc fs) = Some a" "length a = nat n"
    using mix_loop_ok [of ix "nat n" buff E] assms n by (auto simp: mix_carr_def n_def)
  moreover obtain b where "mix_carr E buff 0 (N - n) (dadd phi (dmul (ddiv fc fs) (of_int n))) (ddiv fc fs) = Some b" "length b = nat (N - n)"
    using mix_loop_ok [of 0 "nat (N - n)" buff E] assms n unfolding mix_carr_def by force
  ultimately show ?thesis using False n by (simp add: sdr_mix_carr_def Let_def n_def [symmetric] nat_add_distrib [symmetric])
qed

lemma corr_loop_ok:
  "0 \<le> a \<Longrightarrow> a + int n \<le> int (length IQ) \<Longrightarrow> 0 \<le> b \<Longrightarrow> b + int n \<le> int (length code) \<Longrightarrow> corr_loop IQ a code b n c \<noteq> None"
proof (induction n arbitrary: a b c)
  case (Suc n)
  then have "arr_at IQ a = Some (IQ ! nat a)" "arr_at code b = Some (code ! nat b)" by (simp_all add: arr_at_in)
  then show ?case using Suc.IH [of "a + 1" "b + 1"] Suc.prems by simp
qed simp

lemma dot_IQ_code_ok:
  assumes "0 \<le> a" "a + N \<le> int (length IQ)" "0 \<le> b" "b + N \<le> int (length code)" "0 \<le> N"
  shows "dot_IQ_code IQ a code b N s \<noteq> None"
  using corr_loop_ok [of a "nat N" IQ b code "(0, 0)"] assms by (auto simp: dot_IQ_code_def)

lemma corr_at_ok:
  assumes "\<bar>p\<bar> < N" "int (length IQ) = N" "0 \<le> b" "b + N \<le> int (length code)"
  shows "corr_at IQ code b N p \<noteq> None"
proof -
  consider "0 < p" | "p < 0" | "p = 0" by linarith
  then show ?thesis
  proof cases
    case 1
    then show ?thesis using dot_IQ_code_ok [of p "N - p" IQ b code] assms by (simp add: corr_at_def)
  next
    case 2
    then show ?thesis using dot_IQ_code_ok [of 0 "N + p" IQ "b - p" code] assms by (simp add: corr_at_def)
  next
    case 3
    then show ?thesis using dot_IQ_code_ok [of 0 N IQ b code] assms by (simp add: corr_at_def)
  qed
qed

lemma corr_std_ok:
  assumes "\<forall>p \<in> set ps. \<bar>p\<bar> < N" "int (length IQ) = N" "0 \<le> b" "b + N \<le> int (length code)"
  shows "\<exists>cs. corr_std IQ code b N ps = Some cs \<and> length cs = length ps"
proof -
  have "those (map (corr_at IQ code b N) ps) = Some (map (\<lambda>p. the (corr_at IQ code b N p)) ps)"
    by (rule those_map_Some) (use corr_at_ok assms in blast)
  then show ?thesis by (simp add: corr_std_def)
qed

lemma sdr_corr_std_ok:
  assumes "\<forall>p \<in> set ps. \<bar>p\<bar> < N" "0 \<le> ix" "ix \<le> int (length buff)" "0 \<le> N" "N \<le> int (length buff)" "0 \<le> b" "b + N \<le> int (length code)"
  shows "\<exists>cs. sdr_corr_std E buff ix N fs fc phi code b ps = Some cs \<and> length cs = length ps"
proof -
  obtain IQ where IQ: "sdr_mix_carr E buff ix N fs fc phi = Some IQ" "length IQ = nat N" using sdr_mix_carr_ok [OF assms(2-5)] by blast
  have "int (length IQ) = N" using IQ(2) assms(4) by simp
  from corr_std_ok [OF assms(1) this assms(6,7)] IQ(1) show ?thesis by (auto simp: sdr_corr_std_def)
qed

section \<open>Acquisition\<close>

text \<open>The transforms keep the number of values.\<close>

definition fft_ok :: "'e sdr_ext_scheme \<Rightarrow> bool" where
  "fft_ok E \<longleftrightarrow> (\<forall>xs. length (fft_fwd E xs) = length xs \<and> length (fft_bwd E xs) = length xs)"

lemma sdr_corr_fft_ok:
  assumes "fft_ok E" "length F = nat N" "0 \<le> ix" "ix \<le> int (length buff)" "0 \<le> N" "N \<le> int (length buff)"
  shows "\<exists>cs. sdr_corr_fft E buff ix N fs fc phi F = Some cs \<and> length cs = nat N"
proof -
  obtain IQ where IQ: "sdr_mix_carr E buff ix N fs fc phi = Some IQ" "length IQ = nat N" using sdr_mix_carr_ok [OF assms(3-6)] by blast
  then show ?thesis using assms(1,2) by (simp add: sdr_corr_fft_def corr_fft_def Let_def sdr_cpx_mul_def fft_ok_def)
qed

lemma search_loop_ok:
  assumes "fft_ok E" "length F = N" "0 \<le> ix" "ix \<le> int (length buff)" "N \<le> length buff"
  shows "length P = N * length fds \<Longrightarrow> \<forall>p \<in> set P. 0 \<le> p \<Longrightarrow>
    \<exists>P'. search_loop E F buff ix N fs fi fds P = Some P' \<and> length P' = length P \<and> (\<forall>p \<in> set P'. 0 \<le> p)"
proof (induction fds arbitrary: P)
  case (Cons fd fds)
  obtain cs where cs: "sdr_corr_fft E buff ix (int N) fs (dadd fi fd) 0 F = Some cs" using sdr_corr_fft_ok [OF assms(1), of F "int N"] assms by fastforce
  define row where "row = map (\<lambda>j. flt (P ! j + sqr_sum (cs ! j))) [0..<N]"
  have len: "N \<le> length P" using Cons.prems(1) by simp
  have nn: "0 \<le> P ! j" if "j < N" for j using Cons.prems(2) that len by simp
  have "those (map (\<lambda>j. do { p \<leftarrow> arr_at P (int j); Some (flt (p + sqr_sum (cs ! j))) }) [0..<N]) = Some row"
    unfolding row_def by (subst those_map_Some) (use len in \<open>auto simp: arr_at_in\<close>)
  moreover have "\<forall>p \<in> set row. 0 \<le> p" using nn by (auto simp: row_def intro!: flt_nonneg add_nonneg_nonneg sqr_sum_nonneg)
  moreover have "length (drop N P) = N * length fds" "\<forall>p \<in> set (drop N P). 0 \<le> p" using Cons.prems by (auto dest: in_set_dropD)
  from Cons.IH [OF this] obtain rest where
    "search_loop E F buff ix N fs fi fds (drop N P) = Some rest" "length rest = length (drop N P)" "\<forall>p \<in> set rest. 0 \<le> p" by blast
  moreover have "length row = N" by (simp add: row_def)
  ultimately show ?case using cs len by (intro exI [of _ "row @ rest"]) auto
qed simp

text \<open>The largest power: its place is known as soon as the mean is positive.\<close>

lemma max_fold:
  assumes "\<forall>p \<in> set P. 0 \<le> p" "\<forall>ij \<in> set L. fst ij < M \<and> snd ij < K" "M * N \<le> length P" "K \<le> N"
    "ix = None \<longrightarrow> mx = 0 \<and> ave = 0" "\<forall>ij. ix = Some ij \<longrightarrow> fst ij < M \<and> snd ij < K"
    "foldl (max_step P N) (n, ave, mx, ix) L = (n', ave', mx', ix')"
  shows "(ix' = None \<longrightarrow> ave' = 0) \<and> (\<forall>ij. ix' = Some ij \<longrightarrow> fst ij < M \<and> snd ij < K)"
  using assms(2,5-)
proof (induction L arbitrary: n ave mx ix)
  case (Cons ij L)
  let ?p = "P ! (fst ij * N + snd ij)"
  have "fst ij * N + snd ij < M * N"
  proof -
    have "fst ij * N + snd ij < (fst ij + 1) * N" using Cons.prems(1) assms(4) by auto
    also have "\<dots> \<le> M * N" using Cons.prems(1) by (intro mult_right_mono) auto
    finally show ?thesis .
  qed
  then have p: "0 \<le> ?p" using assms(1,3) by simp
  obtain a2 m2 i2 where st: "max_step P N (n, ave, mx, ix) ij = (n + 1, a2, m2, i2)"
    "i2 = ix \<and> m2 = mx \<and> ?p \<le> mx \<or> i2 = Some ij" "a2 = dadd ave (ddiv (dsub ?p ave) (of_int (n + 1)))"
    by (cases "?p \<le> mx") (auto simp: max_step_def Let_def)
  have n: "i2 = None \<longrightarrow> m2 = 0 \<and> a2 = 0"
  proof
    assume "i2 = None"
    then have "ix = None" "m2 = mx" "?p \<le> mx" using st(2) by auto
    then have "mx = 0" "ave = 0" "?p = 0" using Cons.prems(2) p by auto
    then show "m2 = 0 \<and> a2 = 0" using st(3) \<open>m2 = mx\<close> by (simp add: dadd_def ddiv_def dsub_def)
  qed
  have s: "\<forall>ij. i2 = Some ij \<longrightarrow> fst ij < M \<and> snd ij < K" using st(2) Cons.prems(1,3) by auto
  show ?case by (rule Cons.IH [OF _ n s]) (use Cons.prems(1,4) st(1) in auto)
qed auto

lemma sdr_corr_max_place:
  assumes "\<forall>p \<in> set P. 0 \<le> p" "M * N \<le> length P" "K \<le> N" "sdr_corr_max E P N K M T = (v, ix)" "0 < v"
  obtains i j where "ix = Some (i, j)" "i < M" "j < K"
proof -
  obtain n ave mx ix' where f: "foldl (max_step P N) (0, 0, 0, None) (List.product [0..<M] [0..<K]) = (n, ave, mx, ix')" by (cases "foldl (max_step P N) (0, 0, 0, None) (List.product [0..<M] [0..<K])") auto
  have "(ix' = None \<longrightarrow> ave = 0) \<and> (\<forall>ij. ix' = Some ij \<longrightarrow> fst ij < M \<and> snd ij < K)"
    by (rule max_fold [OF assms(1) _ assms(2,3) _ _ f]) auto
  moreover have "ave > 0" "ix = ix'" using assms(4,5) f by (auto simp: sdr_corr_max_def split: if_splits)
  ultimately show ?thesis using that by (cases ix') auto
qed

end
