(* ===== verification/Sdr_Ch_Inv.thy ===== *)
theory Sdr_Ch_Inv
  imports Sdr_Corr_Lemmas Sdr_Nav_Afs_Props
begin

text \<open>
  The invariant of a channel for the AFS data signal, and that its steps keep it and return: the code
  offset stays near one cycle, so that the correlators stay inside the samples and the code bank.
\<close>

section \<open>Numbers\<close>

definition T_AFS :: rat where
  "T_AFS = dbl (2 / 1000)"

lemma T_AFS_close: "\<bar>T_AFS - 2 / 1000\<bar> \<le> 1 / 10 ^ 12"
proof -
  have "\<bar>dbl (2 / 1000) - 2 / 1000\<bar> \<le> (2 / 1000) / 2 ^ 53"
  proof (rule dbl_error)
    have "1 / (2 :: rat) ^ 1000 \<le> 1 / 2 ^ 10" by (intro divide_left_mono power_increasing) auto
    then show "1 / (2 :: rat) ^ 1000 \<le> 2 / 1000" by (rule order_trans) simp
  qed simp
  also have "\<dots> \<le> 1 / 10 ^ 12" by simp
  finally show ?thesis by (simp add: T_AFS_def)
qed

lemma T_AFS_bounds: "1999 / 1000000 \<le> T_AFS" "T_AFS \<le> 2001 / 1000000"
proof -
  have "1 / 10 ^ 12 \<le> 1 / (1000000 :: rat)" by simp
  then have e: "\<bar>T_AFS - 2 / 1000\<bar> \<le> 1 / 1000000" using T_AFS_close by linarith
  then show "1999 / 1000000 \<le> T_AFS" using abs_le_D2 [OF e] by linarith
  show "T_AFS \<le> 2001 / 1000000" using abs_le_D1 [OF e] by linarith
qed

lemma T_AFS_dbl: "dbl T_AFS = T_AFS"
proof -
  have "1 / (2 :: rat) ^ 900 \<le> 1 / 2 ^ 10" by (intro divide_left_mono power_increasing) auto
  then have "1 / (2 :: rat) ^ 900 \<le> 2 / 1000" by (rule order_trans) simp
  then show ?thesis unfolding T_AFS_def by (rule dbl_dbl) (use T_AFS_bounds in \<open>simp_all add: T_AFS_def\<close>)
qed

section \<open>The code offset\<close>

text \<open>Between steps the offset may be outside the cycle by less than the correction of the delay loop.\<close>

definition off_ok :: "rat \<Rightarrow> bool" where
  "off_ok x \<longleftrightarrow> - (1 / 2 ^ 13) \<le> x \<and> x \<le> T_AFS + 1 / 2 ^ 13"

text \<open>The move of the code by the carrier in one step, at most a quarter of a cycle.\<close>

definition aided :: "rat \<Rightarrow> trk_ch \<Rightarrow> bool" where
  "aided time c \<longleftrightarrow> \<bar>dmul (ddiv (ch_fd c) (ch_fc c)) (dsub time (ch_time c))\<bar> \<le> 1 / 2 ^ 11"

lemma carrier_aid_fields [simp]: "ch_coff (carrier_aid time c) = dsub (ch_coff c) (dmul (ddiv (ch_fd c) (ch_fc c)) (dsub time (ch_time c)))"
  "ch_trk (carrier_aid time c) = ch_trk c" "trk_P (carrier_aid time c) = trk_P c" "ch_nav (carrier_aid time c) = ch_nav c"
  "tow (carrier_aid time c) = tow c" "week (carrier_aid time c) = week c"
  by (simp_all add: carrier_aid_def Let_def)

lemma wrapped_offset:
  assumes "off_ok (ch_coff c)" "aided time c" "ch_T c = T_AFS"
  shows "0 \<le> ch_coff (wrap_code (carrier_aid time c))" "ch_coff (wrap_code (carrier_aid time c)) \<le> T_AFS"
proof -
  define x where "x = ch_coff (carrier_aid time c)"
  define m where "m = dmul (ddiv (ch_fd c) (ch_fc c)) (dsub time (ch_time c))"
  have m: "\<bar>m\<bar> \<le> 1 / 2 ^ 11" using assms(2) by (simp add: aided_def m_def)
  have o: "- (1 / 2 ^ 13) \<le> ch_coff c" "ch_coff c \<le> T_AFS + 1 / 2 ^ 13" using assms(1) by (simp_all add: off_ok_def)
  have x: "x = dbl (ch_coff c - m)" by (simp add: x_def m_def dsub_def)
  have "ch_coff c - m \<le> 1 / 2 ^ 8" using o(2) m T_AFS_bounds(2) by (simp add: abs_le_iff)
  then have hi: "x \<le> 1 / 2 ^ 8" unfolding x by (rule dbl_le [OF _ dbl_half_power]) simp
  have "- (1 / 2 ^ 10) \<le> ch_coff c - m" using o(1) m by (simp add: abs_le_iff)
  then have lo: "- (1 / 2 ^ 10) \<le> x" unfolding x by (rule dbl_ge) (use dbl_half_power [of 10] in \<open>simp add: dbl_minus\<close>)
  have T: "ch_T (carrier_aid time c) = T_AFS" using assms(3) ch_fixD(3) [OF carrier_aid_fix [of time c]] by simp
  consider "x \<ge> T_AFS" | "x < 0" | "0 \<le> x" "x < T_AFS" by linarith
  then have "0 \<le> ch_coff (wrap_code (carrier_aid time c)) \<and> ch_coff (wrap_code (carrier_aid time c)) \<le> T_AFS"
  proof cases
    case 1
    then have "ch_coff (wrap_code (carrier_aid time c)) = dbl (x - T_AFS)"
      unfolding wrap_code_def Let_def T x_def [symmetric] by (simp add: dsub_def)
    moreover have "0 \<le> dbl (x - T_AFS)" using 1 by (intro dbl_nonneg) simp
    moreover have "dbl (x - T_AFS) \<le> T_AFS" by (rule dbl_le [OF _ T_AFS_dbl]) (use hi T_AFS_bounds in simp)
    ultimately show ?thesis by simp
  next
    case 2
    then have "\<not> x \<ge> T_AFS" using T_AFS_bounds by simp
    then have "ch_coff (wrap_code (carrier_aid time c)) = dbl (x + T_AFS)"
      unfolding wrap_code_def Let_def T x_def [symmetric] using 2 by (simp add: dadd_def)
    moreover have "0 \<le> dbl (x + T_AFS)" using lo T_AFS_bounds by (intro dbl_nonneg) simp
    moreover have "dbl (x + T_AFS) \<le> T_AFS" by (rule dbl_le [OF _ T_AFS_dbl]) (use 2 in simp)
    ultimately show ?thesis by simp
  next
    case 3
    then have "wrap_code (carrier_aid time c) = carrier_aid time c"
      unfolding wrap_code_def Let_def T x_def [symmetric] by simp
    then show ?thesis using 3 by (simp add: x_def)
  qed
  then show "0 \<le> ch_coff (wrap_code (carrier_aid time c))" "ch_coff (wrap_code (carrier_aid time c)) \<le> T_AFS" by blast+
qed

text \<open>Sampling rates for which the positions are computed exactly enough.\<close>

definition fs_ok :: "rat \<Rightarrow> bool" where
  "fs_ok fs \<longleftrightarrow> 1200000 \<le> fs \<and> fs \<le> 1000000000"

definition afs_N :: "rat \<Rightarrow> int" where
  "afs_N fs = int_of_dbl (dmul fs T_AFS)"

lemma afs_N_bounds:
  assumes "fs_ok fs" shows "2000 \<le> afs_N fs" "afs_N fs \<le> 2100000" "of_int (afs_N fs) \<le> fs * T_AFS + 1"
proof -
  have f: "1200000 \<le> fs" "fs \<le> 1000000000" using assms by (simp_all add: fs_ok_def)
  have "1200000 * (1999 / 1000000) \<le> fs * T_AFS" using f T_AFS_bounds by (intro mult_mono) auto
  then have lo: "2000 \<le> fs * T_AFS" by simp
  have "fs * T_AFS \<le> 1000000000 * (2001 / 1000000)" using f T_AFS_bounds by (intro mult_mono) auto
  then have hi: "fs * T_AFS \<le> 2097152" by simp
  have d: "2000 \<le> dmul fs T_AFS" unfolding dmul_def by (rule dbl_ge [OF lo]) (use dbl_int [of 2000] in simp)
  moreover have "dmul fs T_AFS \<le> 2097152" unfolding dmul_def by (rule dbl_le [OF hi]) (use dbl_int [of 2097152] in simp)
  moreover have e: "\<bar>dmul fs T_AFS - fs * T_AFS\<bar> \<le> 2097152 / 2 ^ 52" unfolding dmul_def
    by (rule dbl_error_le) (use lo hi in \<open>simp_all add: at_least_tiny\<close>)
  have "dmul fs T_AFS \<le> fs * T_AFS + 1" using abs_le_D1 [OF e] by simp
  then have "of_int \<lfloor>dmul fs T_AFS\<rfloor> \<le> fs * T_AFS + 1" using of_int_floor_le [of "dmul fs T_AFS"] by (rule order_trans [rotated])
  ultimately show "2000 \<le> afs_N fs" "afs_N fs \<le> 2100000" "of_int (afs_N fs) \<le> fs * T_AFS + 1"
    unfolding afs_N_def int_of_dbl_def by (simp_all add: le_floor_iff floor_le_iff)
qed

lemma code_position:
  assumes "fs_ok fs" "0 \<le> x" "x \<le> T_AFS"
  defines "i \<equiv> int_of_dbl (dmul x fs)"
  shows "0 \<le> i" "i \<le> afs_N fs" "0 \<le> int_of_dbl (dmul (dsub (dmul x fs) (of_int i)) (of_nat N_CODE))"
    "int_of_dbl (dmul (dsub (dmul x fs) (of_int i)) (of_nat N_CODE)) < 10"
proof -
  have f: "1200000 \<le> fs" "fs \<le> 1000000000" using assms(1) by (simp_all add: fs_ok_def)
  have "x * fs \<le> T_AFS * fs" by (rule mult_right_mono [OF assms(3)]) (use f in simp)
  then have "x * fs \<le> fs * T_AFS" by (metis mult.commute)
  moreover have "0 \<le> x * fs" using assms(2) f by simp
  ultimately have x: "0 \<le> x * fs" "x * fs \<le> fs * T_AFS" by blast+
  have d: "0 \<le> dmul x fs" "dmul x fs \<le> dmul fs T_AFS" unfolding dmul_def by (rule dbl_nonneg [OF x(1)], rule dbl_mono [OF x(2)])
  show "0 \<le> i" unfolding i_def using d(1) by (rule int_of_dbl_nonneg)
  show "i \<le> afs_N fs" unfolding i_def afs_N_def using d by (rule int_of_dbl_mono)
  have "fs * T_AFS \<le> 1000000000 * (2001 / 1000000)" using f T_AFS_bounds by (intro mult_mono) auto
  then have hi: "x * fs \<le> 2097152" using x(2) by simp
  then have "dbl (x * fs) \<le> 2097152" by (rule dbl_le) (use dbl_int [of 2097152] in simp)
  then have "dbl (x * fs) < 2 ^ 53" "x * fs < 2 ^ 53" using hi by simp_all
  from fraction_tenth [OF x(1) this(2,1)]
  show "0 \<le> int_of_dbl (dmul (dsub (dmul x fs) (of_int i)) (of_nat N_CODE))"
    "int_of_dbl (dmul (dsub (dmul x fs) (of_int i)) (of_nat N_CODE)) < 10" unfolding i_def by (simp_all add: dmul_def N_CODE_def)
qed

section \<open>The invariant\<close>

text \<open>A square root of a number that is not negative is not negative.\<close>

definition ext_ok :: "'e sdr_ext_scheme \<Rightarrow> bool" where
  "ext_ok E \<longleftrightarrow> fft_ok E \<and> (\<forall>x. 0 \<le> x \<longrightarrow> 0 \<le> m_sqrtf E x)"

text \<open>What is set up once, and the sizes of the arrays.\<close>

definition afs_set_up :: "rat \<Rightarrow> trk_ch \<Rightarrow> bool" where
  "afs_set_up fs c \<longleftrightarrow> fs_ok fs \<and> ch_sig c = ''AFSD'' \<and> ch_T c = T_AFS \<and> length (ch_code c) = 2046 \<and> length (ch_sec_code c) = 1 \<and> ch_fs c = fs \<and>
     ch_N c = afs_N fs"

definition trk_ok :: "rat \<Rightarrow> trk_ch \<Rightarrow> bool" where
  "trk_ok fs c \<longleftrightarrow> (let t = ch_trk c in
     int (length (trk_code t)) = 10 * afs_N fs \<and> length (trk_C t) = SDR_N_CORR \<and> length (trk_pos t) = SDR_N_CORR \<and>
     (\<forall>p \<in> set (trk_pos t). \<bar>p\<bar> < afs_N fs) \<and> 4 \<le> trk_npos t \<and> trk_npos t \<le> SDR_N_CORR \<and>
     length (trk_P c) = SDR_N_HIST \<and> length (trk_PQ t) = SDR_N_HIST \<and> 0 \<le> sumE t \<and> 0 \<le> sumL t)"

definition acq_ok :: "rat \<Rightarrow> trk_ch \<Rightarrow> bool" where
  "acq_ok fs c \<longleftrightarrow> (let a = ch_acq c in
     int (length (acq_code_fft a)) = 2 * afs_N fs \<and>
     (case P_sum a of None \<Rightarrow> n_sum a = 0
      | Some P \<Rightarrow> ch_state c = SDR_STATE_SRCH \<and> int (length P) = 2 * afs_N fs * int (length (search_bins c)) \<and> (\<forall>p \<in> set P. 0 \<le> p)))"

definition afsd_ok :: "rat \<Rightarrow> rx \<Rightarrow> trk_ch \<Rightarrow> bool" where
  "afsd_ok fs s c \<longleftrightarrow> lock_idle c \<and> afs_set_up fs c \<and> trk_ok fs c \<and> acq_ok fs c \<and> rx_ok (s\<lparr>ch := to_ch c\<rparr>) \<and>
     (ch_state c = SDR_STATE_LOCK \<longrightarrow> off_ok (ch_coff c))"

text \<open>The samples of a step: two code cycles, the first of them not across the end of the buffer.\<close>

definition samples_ok :: "rat \<Rightarrow> u8 list \<Rightarrow> int \<Rightarrow> bool" where
  "samples_ok fs buff ix \<longleftrightarrow> 0 \<le> ix \<and> ix + afs_N fs \<le> int (length buff) \<and> 2 * afs_N fs \<le> int (length buff)"

section \<open>Stages of tracking\<close>

lemma wrap_code_trk: "ch_trk (wrap_code c) = (ch_trk c)\<lparr>trk_PQ := trk_PQ (ch_trk (wrap_code c))\<rparr>"
  "length (trk_P c) = SDR_N_HIST \<Longrightarrow> length (trk_P (wrap_code c)) = SDR_N_HIST"
  "length (trk_PQ (ch_trk c)) = SDR_N_HIST \<Longrightarrow> length (trk_PQ (ch_trk (wrap_code c))) = SDR_N_HIST"
  by (auto simp: wrap_code_def Let_def move_up_def move_down_def SDR_N_HIST_def)

lemma trk_ok_wrap:
  assumes "trk_ok fs c" shows "trk_ok fs (wrap_code (carrier_aid time c))"
proof -
  let ?d = "carrier_aid time c"
  have d: "ch_trk ?d = ch_trk c" "trk_P ?d = trk_P c" by simp_all
  obtain q where q: "ch_trk (wrap_code ?d) = (ch_trk c)\<lparr>trk_PQ := q\<rparr>" "length q = SDR_N_HIST"
    using wrap_code_trk(1) [of ?d] wrap_code_trk(3) [of ?d] assms unfolding d trk_ok_def Let_def by metis
  moreover have "length (trk_P (wrap_code ?d)) = SDR_N_HIST" using wrap_code_trk(2) [of ?d] assms by (simp add: trk_ok_def Let_def)
  ultimately show ?thesis using assms by (simp add: trk_ok_def Let_def)
qed

lemma correlate_ok:
  assumes "afs_set_up fs c" "trk_ok fs c" "0 \<le> ch_coff c" "ch_coff c \<le> T_AFS" "samples_ok fs buff ix"
  obtains cs where "correlate E buff ix fc tau c = Some (c\<lparr>ch_trk := (ch_trk c)\<lparr>trk_C := cs\<rparr>\<rparr>)" "length cs = SDR_N_CORR"
proof -
  let ?t = "ch_trk c" and ?N = "afs_N fs"
  have su: "fs_ok fs" "ch_sig c = ''AFSD''" "ch_fs c = fs" "ch_N c = ?N" using assms(1) by (simp_all add: afs_set_up_def)
  have tk: "int (length (trk_code ?t)) = 10 * ?N" "length (trk_C ?t) = SDR_N_CORR" "length (trk_pos ?t) = SDR_N_CORR"
    "\<forall>p \<in> set (trk_pos ?t). \<bar>p\<bar> < ?N" "trk_npos ?t \<le> SDR_N_CORR" using assms(2) by (simp_all add: trk_ok_def Let_def)
  have bu: "0 \<le> ix" "ix + ?N \<le> int (length buff)" "2 * ?N \<le> int (length buff)" using assms(5) by (simp_all add: samples_ok_def)
  have i: "0 \<le> code_pos c" "code_pos c \<le> ?N" and j: "0 \<le> bank_index c" "bank_index c < 10"
    using code_position [OF su(1) assms(3,4)] by (simp_all add: code_pos_def bank_index_def su(3))
  have N: "0 \<le> ?N" using afs_N_bounds(1) [OF su(1)] by simp
  have b: "0 \<le> bank_index c * ?N" "bank_index c * ?N + ?N \<le> int (length (trk_code ?t))"
  proof -
    show "0 \<le> bank_index c * ?N" using j(1) N by simp
    have "(bank_index c + 1) * ?N \<le> 10 * ?N" using j(2) N by (intro mult_right_mono) auto
    then show "bank_index c * ?N + ?N \<le> int (length (trk_code ?t))" using tk(1) by (simp add: distrib_right)
  qed
  obtain cs where cs: "sdr_corr_std E buff (ix + code_pos c) ?N fs fc (dadd (dadd (dmul (ch_fi c) tau) (ch_adr c)) (ddiv (dmul fc (of_int (code_pos c))) fs))
      (trk_code ?t) (bank_index c * ?N) (take (trk_npos ?t) (trk_pos ?t)) = Some cs" "length cs = length (take (trk_npos ?t) (trk_pos ?t))"
  proof -
    have "\<forall>p \<in> set (take (trk_npos ?t) (trk_pos ?t)). \<bar>p\<bar> < ?N" using tk(4) by (auto dest: in_set_takeD)
    moreover have "0 \<le> ix + code_pos c" "ix + code_pos c \<le> int (length buff)" "?N \<le> int (length buff)" using bu i N by linarith+
    ultimately show thesis using sdr_corr_std_ok [OF _ _ _ N _ b] that by metis
  qed
  have "\<not> is_L6 (ch_sig c)" by (simp add: is_L6_def su(2))
  then have "correlate E buff ix fc tau c = Some (c\<lparr>ch_trk := ?t\<lparr>trk_C := cs @ drop (length cs) (trk_C ?t)\<rparr>\<rparr>)"
    using cs(1) by (simp add: correlate_def Let_def su)
  moreover have "length (cs @ drop (length cs) (trk_C ?t)) = SDR_N_CORR" using cs(2) tk(2,3,5) by simp
  ultimately show ?thesis by (rule that)
qed

lemma trk_ok_stages:
  "trk_ok fs c \<Longrightarrow> length cs = SDR_N_CORR \<Longrightarrow> trk_ok fs (c\<lparr>ch_trk := (ch_trk c)\<lparr>trk_C := cs\<rparr>\<rparr>)"
  "trk_ok fs c \<Longrightarrow> trk_ok fs (add_history c)" "trk_ok fs c \<Longrightarrow> trk_ok fs (count_cycle c)"
  "trk_ok fs c \<Longrightarrow> trk_ok fs (FLL E cf c)" "trk_ok fs c \<Longrightarrow> trk_ok fs (PLL E cf c)"
  by (auto simp: trk_ok_def Let_def add_history_def count_cycle_def FLL_def PLL_def sdr_add_buff_def SDR_N_HIST_def)

lemma trk_ok_CN0: "trk_ok fs c \<Longrightarrow> CN0 E c = Inr d \<Longrightarrow> trk_ok fs d"
  by (auto simp: trk_ok_def Let_def CN0_def split: if_splits)

lemma sdr_cpx_abs_nonneg: "ext_ok E \<Longrightarrow> 0 \<le> sdr_cpx_abs E c"
  by (simp add: ext_ok_def sdr_cpx_abs_def sqr_sum_nonneg)

lemma trk_ok_DLL: "ext_ok E \<Longrightarrow> trk_ok fs c \<Longrightarrow> trk_ok fs (DLL E cf c)"
  by (auto simp: trk_ok_def Let_def DLL_def dadd_def intro!: dbl_nonneg add_nonneg_nonneg sdr_cpx_abs_nonneg)

end
