(* ===== verification/Sdr_Ch_Safe.thy ===== *)
theory Sdr_Ch_Safe
  imports Sdr_Ch_Inv
begin

text \<open>
  Every step of a channel for the AFS data signal returns and keeps the invariant: the delay loop moves the
  code by a small part of a cycle, tracking and searching stay inside their arrays, and a new channel
  satisfies the invariant.
\<close>

section \<open>The delay loop\<close>

lemma dll_ratio:
  assumes "0 \<le> e" "0 \<le> l" "0 < dadd e l" shows "\<bar>ddiv (dsub e l) (dadd e l)\<bar> \<le> 1"
proof -
  have "\<bar>dsub e l\<bar> \<le> dadd e l" unfolding dsub_def dadd_def dbl_abs by (rule dbl_mono) (use assms in linarith)
  then have "\<bar>dsub e l / dadd e l\<bar> \<le> 1" using assms(3) by (simp add: abs_divide)
  then show ?thesis unfolding ddiv_def by (rule dbl_abs_le) (use dbl_int [of 1] in simp)
qed

lemma dll_error_small:
  assumes "0 \<le> e" "0 \<le> l" "0 < dadd e l" shows "\<bar>dll_error e l T_AFS 2046\<bar> \<le> 1 / 2 ^ 19"
proof -
  let ?r = "ddiv (dsub e l) (dadd e l)"
  have "\<bar>?r * (1 / 2)\<bar> \<le> 1 / 2 ^ 1" using dll_ratio [OF assms] by (simp add: abs_mult)
  then have a: "\<bar>dmul ?r (1 / 2)\<bar> \<le> 1 / 2" unfolding dmul_def using dbl_abs_le [OF _ dbl_half_power [of 1]] by simp
  have "\<bar>dmul ?r (1 / 2)\<bar> * T_AFS \<le> 1 / 2 * (2001 / 1000000)" using a T_AFS_bounds by (intro mult_mono) auto
  then have "\<bar>dmul ?r (1 / 2) * T_AFS\<bar> \<le> 1 / 2 ^ 9" using T_AFS_bounds by (simp add: abs_mult)
  then have b: "\<bar>dmul (dmul ?r (1 / 2)) T_AFS\<bar> \<le> 1 / 2 ^ 9" unfolding dmul_def [of _ T_AFS] by (rule dbl_abs_le [OF _ dbl_half_power]) simp
  then have "\<bar>dmul (dmul ?r (1 / 2)) T_AFS / 2046\<bar> \<le> 1 / 2 ^ 9 / 2046" unfolding abs_divide by (simp add: divide_right_mono)
  also have "\<dots> \<le> 1 / 2 ^ 19" by simp
  finally have "\<bar>dmul (dmul ?r (1 / 2)) T_AFS / 2046\<bar> \<le> 1 / 2 ^ 19" .
  then have "\<bar>ddiv (dmul (dmul ?r (1 / 2)) T_AFS) 2046\<bar> \<le> 1 / 2 ^ 19" unfolding ddiv_def [of _ 2046] by (rule dbl_abs_le [OF _ dbl_half_power]) simp
  then show ?thesis by (simp add: dll_error_def)
qed

lemma dll_cycles_afs: "1 \<le> dll_cycles ch_conf0 T_AFS" "dll_cycles ch_conf0 T_AFS \<le> 8"
proof -
  have "\<bar>dbl (1 / 100)\<bar> \<le> 1 / 2 ^ 6" by (rule dbl_abs_le [OF _ dbl_half_power]) simp_all
  then have "dbl (1 / 100) \<le> 1 / 64" by simp
  then have "dbl (1 / 100) / T_AFS \<le> (1 / 64) / (1999 / 1000000)" using T_AFS_bounds by (intro frac_le) auto
  also have "\<dots> \<le> 8" by simp
  finally have "dbl (1 / 100) / T_AFS \<le> 8" .
  then have "ddiv (sdr_t_dll ch_conf0) T_AFS \<le> 8" unfolding ddiv_def ch_conf0_def by simp (rule dbl_le, use dbl_int [of 8] in auto)
  moreover have "0 \<le> ddiv (sdr_t_dll ch_conf0) T_AFS" unfolding ddiv_def ch_conf0_def using T_AFS_bounds dbl_nonneg [of "1 / 100"] by (intro dbl_nonneg) simp
  ultimately show "1 \<le> dll_cycles ch_conf0 T_AFS" "dll_cycles ch_conf0 T_AFS \<le> 8"
    by (auto simp: dll_cycles_def Let_def int_of_dbl_def floor_le_iff)
qed

lemma dll_move:
  assumes "0 \<le> e" "0 \<le> l" "0 < dadd e l"
  shows "\<bar>dmul (dmul (dmul (ddiv (sdr_b_dll ch_conf0) (1 / 4)) (dll_error e l T_AFS 2046)) T_AFS) (of_int (dll_cycles ch_conf0 T_AFS))\<bar> \<le> 1 / 2 ^ 24"
proof -
  let ?err = "dll_error e l T_AFS 2046"
  have one: "ddiv (sdr_b_dll ch_conf0) (1 / 4) = 1" using dbl_int [of 1] by (simp add: ddiv_def ch_conf0_def)
  have "\<bar>1 * ?err\<bar> \<le> 1 / 2 ^ 19" using dll_error_small [OF assms] by simp
  then have a: "\<bar>dmul 1 ?err\<bar> \<le> 1 / 2 ^ 19" unfolding dmul_def by (rule dbl_abs_le [OF _ dbl_half_power]) simp
  have "\<bar>dmul 1 ?err\<bar> * T_AFS \<le> 1 / 2 ^ 19 * (1 / 2 ^ 8)" using a T_AFS_bounds by (intro mult_mono) auto
  then have "\<bar>dmul 1 ?err * T_AFS\<bar> \<le> 1 / 2 ^ 27" using T_AFS_bounds by (simp add: abs_mult)
  then have b: "\<bar>dmul (dmul 1 ?err) T_AFS\<bar> \<le> 1 / 2 ^ 27" unfolding dmul_def [of _ T_AFS] by (rule dbl_abs_le [OF _ dbl_half_power]) simp
  have n: "0 \<le> (of_int (dll_cycles ch_conf0 T_AFS) :: rat)" "(of_int (dll_cycles ch_conf0 T_AFS) :: rat) \<le> 8" using dll_cycles_afs by simp_all
  have "\<bar>dmul (dmul 1 ?err) T_AFS\<bar> * of_int (dll_cycles ch_conf0 T_AFS) \<le> 1 / 2 ^ 27 * 8" using b n by (intro mult_mono) auto
  then have "\<bar>dmul (dmul 1 ?err) T_AFS * of_int (dll_cycles ch_conf0 T_AFS)\<bar> \<le> 1 / 2 ^ 24" using n by (simp add: abs_mult)
  then show ?thesis unfolding one dmul_def [of _ "of_int (dll_cycles ch_conf0 T_AFS)"] by (rule dbl_abs_le [OF _ dbl_half_power]) simp
qed

lemma DLL_offset:
  assumes "ext_ok E" "afs_set_up fs c" "trk_ok fs c"
  obtains m where "\<bar>m\<bar> \<le> 1 / 2 ^ 24" "ch_coff (DLL E ch_conf0 c) = ch_coff c \<or> ch_coff (DLL E ch_conf0 c) = dbl (ch_coff c - m)"
proof -
  let ?t = "ch_trk c"
  define e where "e = dadd (sumE ?t) (sdr_cpx_abs E (trk_C ?t ! 1))"
  define l where "l = dadd (sumL ?t) (sdr_cpx_abs E (trk_C ?t ! 2))"
  have nn: "0 \<le> e" "0 \<le> l" using assms(1,3) by (auto simp: e_def l_def dadd_def trk_ok_def Let_def intro!: dbl_nonneg add_nonneg_nonneg sdr_cpx_abs_nonneg)
  have su: "ch_T c = T_AFS" "length (ch_code c) = 2046" using assms(2) by (simp_all add: afs_set_up_def)
  define m where "m = dmul (dmul (dmul (ddiv (sdr_b_dll ch_conf0) (1 / 4)) (dll_error e l T_AFS 2046)) T_AFS) (of_int (dll_cycles ch_conf0 T_AFS))"
  have "ch_coff (DLL E ch_conf0 c) = ch_coff c \<or> 0 < dadd e l \<and> ch_coff (DLL E ch_conf0 c) = dbl (ch_coff c - m)"
    unfolding DLL_def Let_def e_def [symmetric] l_def [symmetric] su m_def [symmetric] by (simp add: dsub_def)
  moreover have "\<bar>m\<bar> \<le> 1 / 2 ^ 24" if "0 < dadd e l" unfolding m_def by (intro dll_move nn that)
  ultimately show ?thesis using that [of 0] that [of m] by auto
qed

lemma DLL_offset_close:
  assumes "ext_ok E" "afs_set_up fs c" "trk_ok fs c" "0 \<le> ch_coff c" "ch_coff c \<le> T_AFS"
  shows "\<bar>ch_coff (DLL E ch_conf0 c) - ch_coff c\<bar> \<le> 1 / 2 ^ 24 + 1 / 2 ^ 52"
proof -
  obtain m where m: "\<bar>m\<bar> \<le> 1 / 2 ^ 24" and
    c: "ch_coff (DLL E ch_conf0 c) = ch_coff c \<or> ch_coff (DLL E ch_conf0 c) = dbl (ch_coff c - m)" by (rule DLL_offset [OF assms(1-3)])
  note b = abs_le_D1 [OF m] abs_le_D2 [OF m] assms(4,5) T_AFS_bounds
  have "\<bar>ch_coff c - m\<bar> \<le> 1" by (rule abs_leI) (use b in simp_all)
  then have e: "\<bar>dbl (ch_coff c - m) - (ch_coff c - m)\<bar> \<le> 1 / 2 ^ 52" by (rule dbl_error_le) (simp_all add: at_least_tiny)
  have "\<bar>dbl (ch_coff c - m) - ch_coff c\<bar> \<le> 1 / 2 ^ 24 + 1 / 2 ^ 52"
    by (rule abs_leI) (use b abs_le_D1 [OF e] abs_le_D2 [OF e] in simp_all)
  then show ?thesis using c by auto
qed

lemma off_ok_DLL:
  assumes "ext_ok E" "afs_set_up fs c" "trk_ok fs c" "0 \<le> ch_coff c" "ch_coff c \<le> T_AFS"
  shows "off_ok (ch_coff (DLL E ch_conf0 c))"
proof -
  note e = DLL_offset_close [OF assms]
  show ?thesis unfolding off_ok_def using abs_le_D1 [OF e] abs_le_D2 [OF e] assms(4,5) by simp
qed

section \<open>Tracking\<close>

lemma stages_nav [simp]:
  "ch_nav (wrap_code c) = ch_nav c" "ch_nav (add_history c) = ch_nav c" "ch_nav (count_cycle c) = ch_nav c" "ch_nav (FLL E cf c) = ch_nav c"
  "ch_nav (PLL E cf c) = ch_nav c" "ch_nav (DLL E cf c) = ch_nav c"
  by (simp_all add: wrap_code_def add_history_def count_cycle_def FLL_def PLL_def DLL_def Let_def)

lemma stages_off [simp]:
  "ch_coff (add_history c) = ch_coff c" "ch_coff (count_cycle c) = ch_coff c" "ch_coff (FLL E cf c) = ch_coff c" "ch_coff (PLL E cf c) = ch_coff c"
  by (simp_all add: add_history_def count_cycle_def FLL_def PLL_def Let_def)

lemma CN0_keeps: "CN0 E c = Inr d \<Longrightarrow> ch_nav d = ch_nav c \<and> ch_coff d = ch_coff c \<and> tow d = tow c \<and> week d = week c"
  by (auto simp: CN0_def Let_def split: if_splits)

lemma set_up_fix: "ch_fix d = ch_fix c \<Longrightarrow> afs_set_up fs d = afs_set_up fs c"
  by (auto simp: afs_set_up_def dest: ch_fixD)

lemma search_bins_fix: "ch_fix d = ch_fix c \<Longrightarrow> search_bins d = search_bins c"
  by (simp add: search_bins_def ch_fix_def)

lemma acq_ok_fix: "ch_fix d = ch_fix c \<Longrightarrow> acq_ok fs d = acq_ok fs c"
  using search_bins_fix [of d c] ch_fixD(1,2) [of d c] by (cases "P_sum (ch_acq c)") (simp_all add: acq_ok_def Let_def)

lemma rx_ok_ch: "rx_ok (s\<lparr>ch := d\<rparr>) \<longleftrightarrow> rx_ok (s\<lparr>ch := d'\<rparr>)" if "ch_nav d = ch_nav d'"
  using that by (simp add: rx_ok_def)

lemma to_ch_nav [simp]: "ch_nav (to_ch c) = ch_nav c"
  by (simp add: to_ch_def)

lemma CN0_returns:
  assumes "ch_T c = T_AFS" shows "\<exists>d. CN0 E c = Inr d"
proof -
  have "1 \<le> 1 / T_AFS" using T_AFS_bounds by (simp add: le_divide_eq)
  then have "1 \<le> ddiv 1 T_AFS" unfolding ddiv_def by (rule dbl_ge) (use dbl_int [of 1] in simp)
  then have "int_of_dbl (ddiv T_CN0 (ch_T c)) \<noteq> 0" using assms by (simp add: T_CN0_def int_of_dbl_def) (metis one_le_floor not_one_le_zero)
  then show ?thesis by (simp add: CN0_def Let_def)
qed

lemma nav_wf_lost: "nav_wf n \<Longrightarrow> nav_wf (n\<lparr>ssync := 0, fsync := 0, nav_rev := 0\<rparr>)"
  by (simp add: nav_wf_def)

lemma signal_lost_ok:
  assumes "afsd_ok fs s c" "ch_state c = SDR_STATE_LOCK" shows "afsd_ok fs s (signal_lost c)"
proof -
  have "P_sum (ch_acq c) = None" using assms by (auto simp: afsd_ok_def acq_ok_def Let_def states split: option.splits)
  then show ?thesis using assms
    by (simp add: afsd_ok_def lock_idle_def signal_lost_def afs_set_up_def trk_ok_def acq_ok_def Let_def states to_ch_def rx_ok_def nav_wf_lost)
qed

lemma track_sig_returns:
  assumes E: "ext_ok E" and lib: "check_counts lib" "blocks_ok lib" and ok: "afsd_ok fs s c" and st: "ch_state c = SDR_STATE_LOCK"
    and aid: "aided time c" and buf: "samples_ok fs buff ix"
  shows "\<exists>s' c'. track_sig E ch_conf0 (sdr_nav_decode lib other) time buff ix s c = Inr (s', c') \<and> afsd_ok fs s' c'"
proof -
  have su: "afs_set_up fs c" and tk: "trk_ok fs c" and aq: "acq_ok fs c" and rx: "rx_ok (s\<lparr>ch := to_ch c\<rparr>)" and of: "off_ok (ch_coff c)"
    using ok st by (simp_all add: afsd_ok_def)
  have T: "ch_T c = T_AFS" using su by (simp add: afs_set_up_def)
  define c0 where "c0 = wrap_code (carrier_aid time c)"
  have f0: "ch_fix c0 = ch_fix c" by (simp add: c0_def ch_frame)
  have o0: "0 \<le> ch_coff c0" "ch_coff c0 \<le> T_AFS" unfolding c0_def by (rule wrapped_offset [OF of aid T])+
  have su0: "afs_set_up fs c0" using su set_up_fix [OF f0] by simp
  have tk0: "trk_ok fs c0" unfolding c0_def by (rule trk_ok_wrap [OF tk])
  obtain cs where c1: "correlate E buff ix (dadd (ch_fi c) (ch_fd c)) (dsub time (ch_time c)) c0 = Some (c0\<lparr>ch_trk := (ch_trk c0)\<lparr>trk_C := cs\<rparr>\<rparr>)"
    "length cs = SDR_N_CORR" by (rule correlate_ok [OF su0 tk0 o0 buf])
  define c2 where "c2 = count_cycle (add_history (c0\<lparr>ch_trk := (ch_trk c0)\<lparr>trk_C := cs\<rparr>\<rparr>))"
  have f2: "ch_fix c2 = ch_fix c" using stage_fix(3) [OF c1(1)] f0 by (simp add: c2_def ch_frame)
  have tk2: "trk_ok fs c2" unfolding c2_def by (intro trk_ok_stages tk0 c1(2))
  define c3 where "c3 = (if lock_time c2 \<le> T_FPULLIN then FLL E ch_conf0 c2 else PLL E ch_conf0 c2)"
  have f3: "ch_fix c3 = ch_fix c" using f2 by (simp add: c3_def ch_frame)
  have tk3: "trk_ok fs c3" by (simp add: c3_def trk_ok_stages(4,5) tk2)
  have o3: "ch_coff c3 = ch_coff c0" by (simp add: c3_def c2_def)
  have su3: "afs_set_up fs c3" using su set_up_fix [OF f3] by simp
  define c4 where "c4 = DLL E ch_conf0 c3"
  have f4: "ch_fix c4 = ch_fix c" using f3 by (simp add: c4_def ch_frame)
  have tk4: "trk_ok fs c4" unfolding c4_def by (rule trk_ok_DLL [OF E tk3])
  have o4: "off_ok (ch_coff c4)" unfolding c4_def by (rule off_ok_DLL [OF E su3 tk3]) (use o0 o3 in simp_all)
  obtain c5 where c5: "CN0 E c4 = Inr c5" using CN0_returns ch_fixD(3) [OF f4] T by metis
  have f5: "ch_fix c5 = ch_fix c" using CN0_fix [OF c5] f4 by simp
  have tk5: "trk_ok fs c5" by (rule trk_ok_CN0 [OF tk4 c5])
  have n5: "ch_nav c5 = ch_nav c" "off_ok (ch_coff c5)" using CN0_keeps [OF c5] o4 by (simp_all add: c4_def c3_def c2_def c0_def)
  have "rx_ok (s\<lparr>ch := to_ch c5\<rparr>)" using rx rx_ok_ch [of "to_ch c5" "to_ch c" s] n5(1) by simp
  then obtain s6 where s6: "decode_AFSD lib (s\<lparr>ch := to_ch c5\<rparr>) = Inr s6" "rx_ok s6" using decode_AFSD_returns [OF lib] by blast
  have ok5: "afsd_ok fs s c5"
    using su set_up_fix [OF f5] tk5 aq acq_ok_fix [OF f5] n5 \<open>rx_ok (s\<lparr>ch := to_ch c5\<rparr>)\<close> ch_fixD(1) [OF f5] st
    by (simp add: afsd_ok_def lock_idle_def)
  define c6 where "c6 = put_ch (ch s6) c5"
  have f6: "ch_fix c6 = ch_fix c" using f5 by (simp add: c6_def ch_frame)
  have "trk_P (ch s6) = trk_P c5" using decode_AFSD_fields [OF s6(1)] by (simp add: to_ch_def)
  then have tk6: "trk_ok fs c6" using tk5 by (simp add: trk_ok_def c6_def put_ch_def Let_def)
  have "rx_ok (s6\<lparr>ch := to_ch c6\<rparr>)" using s6(2) by (simp add: rx_ok_def c6_def put_ch_def)
  then have ok6: "afsd_ok fs s6 c6"
    using su set_up_fix [OF f6] tk6 aq acq_ok_fix [OF f6] n5(2) ch_fixD(1) [OF f6] st
    by (simp add: afsd_ok_def lock_idle_def c6_def put_ch_fields)
  have sig: "ch_sig c5 = ''AFSD''" "length (ch_sec_code c2) = 1" using su ch_fixD(4) [OF f5] ch_fixD(9) [OF f2] by (simp_all add: afs_set_up_def)
  define r where "r = (if lock_time c5 \<ge> T_NPULLIN then (s6, c6) else (s, c5))"
  have nav: "(if lock_time c5 \<ge> T_NPULLIN then map_sum Ch_nav id (sdr_nav_decode lib other s c5) else Inr (s, c5)) = Inr r"
    using s6(1) sig(1) by (simp add: r_def sdr_nav_decode_def c6_def)
  have okr: "afsd_ok fs (fst r) (snd r)" "ch_state (snd r) = SDR_STATE_LOCK"
    using ok5 ok6 st ch_fixD(1) [OF f5] ch_fixD(1) [OF f6] by (auto simp: r_def)
  have "track_sig E ch_conf0 (sdr_nav_decode lib other) time buff ix s c =
      Inr (fst r, if ch_cn0 (snd r) < sdr_thres_cn0_u ch_conf0 then signal_lost (snd r) else snd r)"
    unfolding track_sig_def Let_def c0_def [symmetric] c1(1) or_err_simps res_bind_simps c2_def [symmetric]
    using sig(2) nav by (simp add: c3_def [symmetric] c4_def [symmetric] c5 case_prod_beta)
  then show ?thesis using okr signal_lost_ok [OF okr] by auto
qed

section \<open>Searching\<close>

lemma search_sig_returns:
  assumes E: "ext_ok E" and ok: "afsd_ok fs s c" and st: "ch_state c = SDR_STATE_SRCH" and buf: "samples_ok fs buff ix"
  shows "\<exists>c'. search_sig E ch_conf0 time buff ix c = Inr c' \<and> afsd_ok fs s c'"
proof -
  have li: "lock_idle c" and su: "afs_set_up fs c" and tk: "trk_ok fs c" and aq: "acq_ok fs c" and rx: "rx_ok (s\<lparr>ch := to_ch c\<rparr>)"
    using ok by (simp_all add: afsd_ok_def)
  let ?N = "afs_N fs" and ?a = "ch_acq c" and ?fds = "search_bins c"
  have fs: "fs_ok fs" "ch_N c = ?N" "ch_fs c = fs" using su by (simp_all add: afs_set_up_def)
  have N: "2000 \<le> ?N" by (rule afs_N_bounds(1) [OF fs(1)])
  define N2 where "N2 = nat (2 * ?N)"
  have N2: "int N2 = 2 * ?N" using N by (simp add: N2_def)
  have F: "length (acq_code_fft ?a) = N2" using aq N2 by (simp add: acq_ok_def Let_def)
  define P0 where "P0 = (case P_sum ?a of None \<Rightarrow> replicate (N2 * length ?fds) 0 | Some P \<Rightarrow> P)"
  have P0: "length P0 = N2 * length ?fds" "\<forall>p \<in> set P0. 0 \<le> p"
  proof -
    have "int (length P0) = int N2 * int (length ?fds)" using aq N2 by (auto simp: P0_def acq_ok_def Let_def split: option.splits)
    then show "length P0 = N2 * length ?fds" by (simp only: of_nat_mult [symmetric] of_nat_eq_iff)
    show "\<forall>p \<in> set P0. 0 \<le> p" using aq by (auto simp: P0_def acq_ok_def Let_def split: option.splits)
  qed
  have "\<exists>P. search_loop E (acq_code_fft ?a) buff ix N2 fs (ch_fi c) ?fds P0 = Some P \<and> length P = length P0 \<and> (\<forall>p \<in> set P. 0 \<le> p)"
    by (rule search_loop_ok [OF _ F _ _ _ P0]) (use E buf N N2 in \<open>simp_all add: ext_ok_def samples_ok_def\<close>)
  then obtain P where P: "search_loop E (acq_code_fft ?a) buff ix N2 fs (ch_fi c) ?fds P0 = Some P" "length P = length P0" "\<forall>p \<in> set P. 0 \<le> p" by blast
  define d where "d = add_search P c"
  have r: "search_sig E ch_conf0 time buff ix c =
      (if dmul (of_int (n_sum (ch_acq d))) (ch_T d) \<ge> sdr_t_acq ch_conf0 then search_end E ch_conf0 time P d else Inr d)"
    unfolding search_sig_def Let_def sdr_search_code_def fs N2_def [symmetric] P0_def [symmetric] P(1) or_err_simps res_bind_simps d_def [symmetric] ..
  have d: "ch_trk d = ch_trk c" "trk_P d = trk_P c" "ch_nav d = ch_nav c" "ch_state d = ch_state c" "lock d = lock c" "search_bins d = ?fds"
    "ch_sig d = ch_sig c" "ch_T d = ch_T c" "ch_code d = ch_code c" "ch_sec_code d = ch_sec_code c" "ch_fs d = ch_fs c" "ch_N d = ch_N c"
    "acq_code_fft (ch_acq d) = acq_code_fft ?a" "P_sum (ch_acq d) = Some P"
    by (simp_all add: d_def add_search_def search_bins_def)
  have sd: "afs_set_up fs d" "trk_ok fs d" "rx_ok (s\<lparr>ch := to_ch d\<rparr>)" "lock_idle d"
    using su tk rx li rx_ok_ch [of "to_ch d" "to_ch c" s] d by (simp_all add: afs_set_up_def trk_ok_def Let_def lock_idle_def)
  have ad: "acq_ok fs d" using aq d P(2,3) P0(1) N2 st by (simp add: acq_ok_def Let_def)
  have okd: "afsd_ok fs s d" using sd ad d(4) st by (simp add: afsd_ok_def states)
  obtain v ixs where m: "sdr_corr_max E P N2 (nat ?N) (length ?fds) (ch_T c) = (v, ixs)" by fastforce
  have e: "search_end E ch_conf0 time P d = (if v \<ge> 35 then
      (case ixs of None \<Rightarrow> Inl Ch_uninitialised
        | Some jx \<Rightarrow> Inr (search_done (start_track d time (sdr_fine_dop E P N2 ?fds jx) (ddiv (of_nat (snd jx)) fs) v)))
      else Inr (search_done (d\<lparr>ch_state := SDR_STATE_IDLE\<rparr>)))"
    unfolding search_end_def Let_def d(6,8,11,12) fs N2_def [symmetric] m by (simp add: ch_conf0_def)
  have nf: "afsd_ok fs s (search_done (d\<lparr>ch_state := SDR_STATE_IDLE\<rparr>))"
    using sd ad st d(4,5) by (simp add: afsd_ok_def search_done_def lock_idle_def afs_set_up_def trk_ok_def acq_ok_def Let_def states to_ch_def rx_ok_def)
  have found: "\<exists>c'. search_end E ch_conf0 time P d = Inr c' \<and> afsd_ok fs s c'" if v: "v \<ge> 35"
  proof -
    have "length ?fds * N2 \<le> length P" "nat ?N \<le> N2" "0 < v" using P(2) P0(1) N v by (simp_all add: N2_def mult.commute)
    then obtain i j where ij: "ixs = Some (i, j)" "j < nat ?N" using sdr_corr_max_place [OF P(3) _ _ m] by metis
    let ?x = "ddiv (of_nat j) fs"
    have f: "1200000 \<le> fs" "fs \<le> 1000000000" using fs(1) by (simp_all add: fs_ok_def)
    have "int j + 1 \<le> ?N" using ij(2) by linarith
    then have "of_int (int j + 1) \<le> (of_int ?N :: rat)" by (simp only: of_int_le_iff)
    then have "of_nat j \<le> fs * T_AFS" using afs_N_bounds(3) [OF fs(1)] by simp
    then have "of_nat j / fs \<le> T_AFS" using f by (simp add: pos_divide_le_eq mult.commute)
    then have x: "?x \<le> T_AFS" unfolding ddiv_def by (rule dbl_le [OF _ T_AFS_dbl])
    have "0 \<le> ?x" unfolding ddiv_def using f by (intro dbl_nonneg) simp
    then have "off_ok ?x" using x by (simp add: off_ok_def)
    moreover have "nav_wf (sdr_nav_init (ch_nav d))" using sd(3)
      by (simp add: rx_ok_def nav_wf_def sdr_nav_init_def bitarr_nth)
    ultimately have "afsd_ok fs s (search_done (start_track d time (sdr_fine_dop E P N2 ?fds (i, j)) ?x v))"
      using sd ad by (simp add: afsd_ok_def search_done_def start_track_def trk_init_def lock_idle_def afs_set_up_def trk_ok_def acq_ok_def
          Let_def states to_ch_def rx_ok_def)
    then show ?thesis using e v ij(1) by simp
  qed
  show ?thesis
  proof (cases "dmul (of_int (n_sum (ch_acq d))) (ch_T d) \<ge> sdr_t_acq ch_conf0")
    case True
    then show ?thesis using r found nf e by (cases "v \<ge> 35") auto
  qed (use r okd in auto)
qed

end
