(* ===== verification/Sdr_Ch_New.thy ===== *)
theory Sdr_Ch_New
  imports Sdr_Ch_Safe
begin

text \<open>
  A new channel for the AFS data signal: its sampled codes are made without leaving the code, and it
  satisfies the invariant; the runs of such a channel.
\<close>

section \<open>Sampling the code\<close>

lemma int_of_dbl_above: "- 1 < x \<Longrightarrow> 0 \<le> int_of_dbl x"
  by (auto simp: int_of_dbl_def floor_le_iff)

lemma code_dx_afs:
  assumes "fs_ok fs" shows "0 \<le> code_dx 2046 T_AFS fs" "code_dx 2046 T_AFS fs \<le> 7 / 8"
proof -
  have f: "1200000 \<le> fs" using assms by (simp add: fs_ok_def)
  have "(2046 :: rat) / T_AFS \<le> 2046 / (1999 / 1000000)" using T_AFS_bounds by (intro divide_left_mono) auto
  also have "\<dots> \<le> 1024000" by simp
  finally have c: "2046 / T_AFS \<le> 1024000" .
  have d: "0 \<le> ddiv 2046 T_AFS" "ddiv 2046 T_AFS \<le> 1024000" unfolding ddiv_def using T_AFS_bounds
    by (intro dbl_nonneg, simp) (rule dbl_le [OF c], use dbl_int [of 1024000] in simp)
  then have "ddiv 2046 T_AFS / fs \<le> 1024000 / 1200000" using f by (intro frac_le) auto
  also have "\<dots> \<le> 7 / 8" by simp
  finally have e: "ddiv 2046 T_AFS / fs \<le> 7 / 8" .
  have g: "dbl (7 / 8) = 7 / 8" by (rule dbl_grid [of 3]) (auto intro: on_gridI [of _ 7 3])
  show "0 \<le> code_dx 2046 T_AFS fs" unfolding code_dx_def ddiv_def [of _ fs] using d(1) f by (intro dbl_nonneg) simp
  show "code_dx 2046 T_AFS fs \<le> 7 / 8" unfolding code_dx_def ddiv_def [of _ fs] using dbl_le [OF e g] by simp
qed

lemma res_chip_ok:
  assumes "fs_ok fs" "length code = 2046" "- 1 \<le> dmul off fs"
  shows "res_chip code (code_dx 2046 T_AFS fs) off fs i \<noteq> None"
proof -
  let ?dx = "code_dx 2046 T_AFS fs" and ?a = "dadd (dmul off fs) (of_nat i)"
  have "- 1 \<le> dmul off fs + of_nat i" using assms(3) by simp
  then have a: "- 1 \<le> ?a" unfolding dadd_def by (rule dbl_ge) (use dbl_int [of 1] in \<open>simp add: dbl_minus\<close>)
  have dx: "0 \<le> ?dx" "?dx \<le> 7 / 8" by (rule code_dx_afs [OF assms(1)])+
  have "(- 1) * ?dx \<le> ?a * ?dx" using a dx(1) by (rule mult_right_mono)
  then have "- (7 / 8) \<le> ?a * ?dx" using dx by linarith
  moreover have g: "dbl (- (7 / 8)) = - (7 / 8)" using dbl_grid [of 3 "7 / 8"] by (simp add: dbl_minus on_gridI [of _ 7 3])
  ultimately have "- (7 / 8) \<le> dmul ?a ?dx" unfolding dmul_def [of ?a] by (intro dbl_ge)
  then have "0 \<le> int_of_dbl (dmul ?a ?dx)" by (intro int_of_dbl_above) simp
  then have "int_of_dbl (dmul ?a ?dx) smod 2046 = int_of_dbl (dmul ?a ?dx) mod 2046" by (intro smod_nonneg) auto
  then show ?thesis using assms(2) by (simp add: res_chip_def arr_at_def)
qed

lemma bank_offset_ok:
  assumes "fs_ok fs" "i < 10" shows "- 1 \<le> dmul (bank_offset fs i) fs"
proof -
  have f: "1200000 \<le> fs" "fs \<le> 1000000000" using assms(1) by (simp_all add: fs_ok_def)
  have up: "dbl x \<le> x * (1 + 1 / 2 ^ 10)" if "x = 0 \<or> 1 / 2 ^ 60 \<le> x" "x \<le> 1" for x
  proof (cases "x = 0")
    case False
    then have x: "1 / 2 ^ 60 \<le> x" using that by simp
    have "(1 :: rat) / 2 ^ 1000 \<le> 1 / 2 ^ 60" by (intro divide_left_mono power_increasing) auto
    then have "\<bar>dbl x - x\<bar> \<le> x / 2 ^ 53" using x that(2) by (intro dbl_error) auto
    moreover have "x / 2 ^ 53 \<le> x / 2 ^ 10" using x by (intro divide_left_mono) auto
    ultimately have "dbl x \<le> x + x / 2 ^ 10" by linarith
    then show ?thesis by (simp add: distrib_left)
  qed simp
  define a where "a = dbl (of_nat i / fs)"
  have i: "(of_nat i :: rat) \<le> 9" "i = 0 \<or> 1 \<le> (of_nat i :: rat)" using assms(2) by auto
  have "of_nat i / fs = 0 \<or> 1 / 2 ^ 60 \<le> of_nat i / fs"
  proof (cases "i = 0")
    case False
    then have "1 / 1000000000 \<le> of_nat i / fs" using f i by (intro frac_le) auto
    moreover have "(1 :: rat) / 2 ^ 60 \<le> 1 / 1000000000" by simp
    ultimately show ?thesis by linarith
  qed simp
  moreover have "of_nat i / fs \<le> 1" using f i by (simp add: divide_le_eq)
  ultimately have "a \<le> of_nat i / fs * (1 + 1 / 2 ^ 10)" unfolding a_def by (rule up)
  then have "a * fs \<le> of_nat i / fs * (1 + 1 / 2 ^ 10) * fs" using f by (intro mult_right_mono) auto
  also have "\<dots> = of_nat i * (1 + 1 / 2 ^ 10)" using f by simp
  also have "\<dots> \<le> 9 * (1 + 1 / 2 ^ 10)" using i(1) by (rule mult_right_mono) simp
  finally have af: "a * fs \<le> 9 * (1 + 1 / 2 ^ 10)" .
  have a0: "0 \<le> a" unfolding a_def using f by (intro dbl_nonneg) simp
  define b where "b = dbl (a / 10)"
  have "a / 10 = 0 \<or> 1 / 2 ^ 60 \<le> a / 10"
  proof (cases "i = 0")
    case False
    then have "1 / 1000000000 \<le> of_nat i / fs" using f i by (intro frac_le) auto
    moreover have "(1 :: rat) / 2 ^ 40 \<le> 1 / 1000000000" by simp
    ultimately have "(1 :: rat) / 2 ^ 40 \<le> of_nat i / fs" by linarith
    then have "1 / 2 ^ 40 \<le> a" unfolding a_def by (rule dbl_ge [OF _ dbl_half_power]) simp
    then show ?thesis by simp
  qed (simp add: a_def)
  moreover have "a / 10 \<le> 1"
  proof -
    have "of_nat i / fs \<le> 1" using f i by (simp add: divide_le_eq)
    then have "a \<le> 1" unfolding a_def by (rule dbl_le) (use dbl_int [of 1] in simp)
    then show ?thesis by simp
  qed
  ultimately have "b \<le> a / 10 * (1 + 1 / 2 ^ 10)" unfolding b_def by (rule up)
  then have "b * fs \<le> a / 10 * (1 + 1 / 2 ^ 10) * fs" using f by (intro mult_right_mono) auto
  also have "\<dots> = a * fs * ((1 + 1 / 2 ^ 10) / 10)" by simp
  also have "\<dots> \<le> 9 * (1 + 1 / 2 ^ 10) * ((1 + 1 / 2 ^ 10) / 10)" using af by (rule mult_right_mono) simp
  also have "\<dots> \<le> 1" by simp
  finally have "b * fs \<le> 1" .
  then have "dbl (b * fs) \<le> 1" by (rule dbl_le) (use dbl_int [of 1] in simp)
  moreover have "dmul (bank_offset fs i) fs = - dbl (b * fs)"
    by (simp add: dmul_def bank_offset_def ddiv_def N_CODE_def a_def b_def dbl_minus)
  ultimately show ?thesis by simp
qed

lemma sdr_res_code_ok:
  assumes "fs_ok fs" "length code = 2046" "- 1 \<le> dmul off fs"
  obtains cs where "sdr_res_code code T_AFS off fs N Nz = Some cs" "length cs = N + Nz"
proof -
  have "those (map (res_chip code (code_dx (length code) T_AFS fs) off fs) [0..<N]) =
      Some (map (\<lambda>i. the (res_chip code (code_dx (length code) T_AFS fs) off fs i)) [0..<N])"
    by (rule those_map_Some) (use res_chip_ok [OF assms] assms(2) in auto)
  then show ?thesis using that by (simp add: sdr_res_code_def)
qed

lemma length_concat_same: "\<forall>x \<in> set xs. length x = n \<Longrightarrow> length (concat xs) = length xs * n"
  by (induction xs) auto

section \<open>A new channel\<close>

lemma afs_cycle: "sdr_code_cyc ''AFSD'' = T_AFS" "sig_upper ''AFSD'' = ''AFSD''"
proof -
  show u: "sig_upper ''AFSD'' = ''AFSD''" by (simp add: sig_upper_def to_upper_def)
  show "sdr_code_cyc ''AFSD'' = T_AFS" unfolding sdr_code_cyc_def u by (simp add: lookup_sig_def code_cycles_def T_AFS_def)
qed

lemma corr_positions_ok:
  assumes "fs_ok fs" shows "length (corr_positions ch_conf0 2046 T_AFS fs) = SDR_N_CORR"
    "\<forall>p \<in> set (corr_positions ch_conf0 2046 T_AFS fs). \<bar>p\<bar> < afs_N fs"
proof -
  have f: "1200000 \<le> fs" "fs \<le> 1000000000" using assms by (simp_all add: fs_ok_def)
  have "\<bar>dmul (1 / 4) T_AFS\<bar> \<le> 1 / 2 ^ 10" unfolding dmul_def by (rule dbl_abs_le [OF _ dbl_half_power]) (use T_AFS_bounds in simp_all)
  then have "\<bar>dmul (1 / 4) T_AFS / 2046\<bar> \<le> 1 / 2 ^ 10 / 2046" unfolding abs_divide by (simp add: divide_right_mono)
  also have "\<dots> \<le> 1 / 2 ^ 20" by simp
  finally have "\<bar>ddiv (dmul (1 / 4) T_AFS) 2046\<bar> \<le> 1 / 2 ^ 20" unfolding ddiv_def by (rule dbl_abs_le [OF _ dbl_half_power]) simp
  then have "\<bar>ddiv (dmul (1 / 4) T_AFS) 2046\<bar> * \<bar>fs\<bar> \<le> 1 / 2 ^ 20 * 1000000000" using f by (intro mult_mono) auto
  also have "\<dots> \<le> 1024" by simp
  finally have "\<bar>ddiv (dmul (1 / 4) T_AFS) 2046 * fs\<bar> \<le> 1024" by (simp only: abs_mult)
  then have b: "\<bar>dmul (ddiv (dmul (1 / 4) T_AFS) 2046) fs\<bar> \<le> 1024" unfolding dmul_def [of _ fs] by (rule dbl_abs_le) (use dbl_int [of 1024] in simp)
  have ge: "0 \<le> dmul (ddiv (dmul (1 / 4) T_AFS) 2046) fs" unfolding dmul_def ddiv_def using f T_AFS_bounds
    by (intro dbl_nonneg mult_nonneg_nonneg divide_nonneg_nonneg) auto
  define p where "p = int_of_dbl (dmul (ddiv (dmul (1 / 4) T_AFS) 2046) fs) + 1"
  have p: "1 \<le> p" "p \<le> 1025" using b ge by (simp_all add: p_def int_of_dbl_def floor_le_iff)
  have e: "corr_positions ch_conf0 2046 T_AFS fs = [0, - p, p, -80] @ map (\<lambda>k. int k - 40) [0..<81]"
    by (simp add: corr_positions_def p_def ch_conf0_def Let_def)
  show "length (corr_positions ch_conf0 2046 T_AFS fs) = SDR_N_CORR" unfolding e by (simp add: SDR_N_CORR_def)
  show "\<forall>p \<in> set (corr_positions ch_conf0 2046 T_AFS fs). \<bar>p\<bar> < afs_N fs"
    unfolding e using p afs_N_bounds(1) [OF assms] by auto
qed

text \<open>The caches of the decoder before the first symbol.\<close>

definition rx_start :: rx where
  "rx_start = \<lparr>AFSD_SP_SYMS = None, AFS_SF1 = replicate 100 None, AFS_DETAIL_LOG_COUNT = replicate 210 0, ldpc = dec0,
     ch = \<lparr>prn = 0, week = 0, tow = 0, tow_v = 0, lock = 0, trk_P = [], ch_nav = nav_zero\<rparr>\<rparr>"

lemma rx_start_ok: "nav_wf (ch_nav d) \<Longrightarrow> rx_ok (rx_start\<lparr>ch := d\<rparr>)"
  using rx_env_ok(1) [of undefined] by (simp add: rx_ok_def rx_start_def rx_init_def)

lemma nav_wf_zero: "nav_wf nav_zero"
  by (simp add: nav_wf_def nav_zero_def bitarr_nth)

lemma new_afsd_channel:
  assumes E: "ext_ok E" and fs: "fs_ok fs" and gen: "gen_code ''AFSD'' pn = Some code" "length code = 2046" "gen_sec ''AFSD'' pn = Some sec" "length sec = 1"
  obtains c where "sdr_ch_new E ch_conf0 gen_code gen_sec ''AFSD'' pn fs fi = Inr (Some c)" "afsd_ok fs rx_start c" "ch_state c = SDR_STATE_IDLE"
    "P_sum (ch_acq c) = None" "fd_ext (ch_acq c) = 0" "ch_sig c = ''AFSD''" "prn c = pn"
proof -
  let ?N = "nat (afs_N fs)"
  have N: "2000 \<le> afs_N fs" "int_of_dbl (dmul fs T_AFS) = afs_N fs" using afs_N_bounds(1) [OF fs] by (simp_all add: afs_N_def)
  have z: "- 1 \<le> dmul 0 fs" by (simp add: dmul_def)
  obtain cs where cs: "sdr_res_code code T_AFS 0 fs ?N ?N = Some cs" "length cs = ?N + ?N" by (rule sdr_res_code_ok [OF fs gen(2) z])
  obtain F where F: "sdr_gen_code_fft E code T_AFS 0 fs ?N ?N = Some F" "length F = ?N + ?N"
    using cs E by (auto simp: sdr_gen_code_fft_def ext_ok_def fft_ok_def)
  have len: "\<exists>x. sdr_res_code code T_AFS (bank_offset fs i) fs ?N 0 = Some x \<and> length x = ?N" if "i < 10" for i
    using sdr_res_code_ok [OF fs gen(2) bank_offset_ok [OF fs that], of ?N 0] by auto
  have lt: "length (the (sdr_res_code code T_AFS (bank_offset fs i) fs ?N 0)) = ?N" if "i < 10" for i using len [OF that] by auto
  define bank where "bank = map (\<lambda>i. the (sdr_res_code code T_AFS (bank_offset fs i) fs ?N 0)) [0..<N_CODE]"
  have "those (map (\<lambda>i. sdr_res_code code T_AFS (bank_offset fs i) fs ?N 0) [0..<N_CODE]) = Some bank"
    unfolding bank_def by (rule those_map_Some) (use len in \<open>auto simp: N_CODE_def\<close>)
  moreover have bl: "length (concat bank) = 10 * ?N"
    by (subst length_concat_same [of _ ?N]) (auto simp: bank_def N_CODE_def lt)
  ultimately obtain t where t: "trk_new E ch_conf0 ''AFSD'' code T_AFS fs = Some t" "trk_code t = concat bank" "trk_npos t = 4"
    "trk_pos t = corr_positions ch_conf0 2046 T_AFS fs" "trk_C t = replicate SDR_N_CORR (0, 0)" "trk_PQ t = replicate SDR_N_HIST 0" "sumE t = 0" "sumL t = 0"
    by (simp add: trk_new_def Let_def is_L6_def N(2) gen(2))
  define a where "a = \<lparr>acq_code_fft = F, acq_fds = sdr_dop_bins T_AFS 0 (sdr_max_dop ch_conf0), fd_ext = 0, P_sum = None, n_sum = 0\<rparr>"
  have a: "acq_new E ch_conf0 code T_AFS fs ?N = Some a" using F(1) by (simp add: acq_new_def a_def)
  obtain c where c: "sdr_ch_new E ch_conf0 gen_code gen_sec ''AFSD'' pn fs fi = Inr (Some c)"
    and f: "ch_sig c = ''AFSD''" "ch_T c = T_AFS" "ch_code c = code" "ch_sec_code c = sec" "ch_fs c = fs" "ch_N c = afs_N fs" "ch_acq c = a" "ch_trk c = t"
    "ch_state c = SDR_STATE_IDLE" "lock c = 0" "trk_P c = replicate SDR_N_HIST 0" "ch_nav c = nav_zero" "prn c = pn"
    by (simp add: sdr_ch_new_def Let_def gen afs_cycle N(2) a t(1))
  have "int (length (concat bank)) = 10 * afs_N fs" using bl N(1) by simp
  then have "trk_ok fs c" using f t corr_positions_ok [OF fs] by (simp add: trk_ok_def Let_def SDR_N_CORR_def)
  moreover have "acq_ok fs c" using F(2) N(1) f(7) by (simp add: acq_ok_def Let_def a_def)
  moreover have "rx_ok (rx_start\<lparr>ch := to_ch c\<rparr>)" by (rule rx_start_ok) (simp add: f nav_wf_zero)
  ultimately have "afsd_ok fs rx_start c" using f fs gen(2,4) by (simp add: afsd_ok_def lock_idle_def afs_set_up_def states)
  with c f show ?thesis by (intro that) (simp_all add: a_def)
qed

section \<open>Runs of a channel\<close>

text \<open>
  A channel as the receiver drives it: made, told to search with or without a Doppler frequency to start
  from, asked for four or all correlators, its status read, and given samples. Other channels use the
  same caches of the decoder.
\<close>

inductive afsd_reach :: "'e sdr_ext_scheme \<Rightarrow> ldpc_lib \<Rightarrow> ch_decoder \<Rightarrow> rat \<Rightarrow> rx \<Rightarrow> trk_ch \<Rightarrow> bool" for E lib other fs where
  new: "fs_ok fs \<Longrightarrow> gen_code ''AFSD'' pn = Some code \<Longrightarrow> length code = 2046 \<Longrightarrow> gen_sec ''AFSD'' pn = Some sec \<Longrightarrow> length sec = 1 \<Longrightarrow>
    sdr_ch_new E ch_conf0 gen_code gen_sec ''AFSD'' pn fs fi = Inr (Some c) \<Longrightarrow> afsd_reach E lib other fs rx_start c"
| search: "afsd_reach E lib other fs s c \<Longrightarrow> ch_state c = SDR_STATE_IDLE \<Longrightarrow>
    afsd_reach E lib other fs s (c\<lparr>ch_state := SDR_STATE_SRCH, ch_acq := (ch_acq c)\<lparr>fd_ext := x\<rparr>\<rparr>)"
| select: "afsd_reach E lib other fs s c \<Longrightarrow> n = 4 \<or> n = SDR_N_CORR \<Longrightarrow> afsd_reach E lib other fs s (sdr_ch_set_corr n c)"
| read: "afsd_reach E lib other fs s c \<Longrightarrow> afsd_reach E lib other fs s (c\<lparr>ch_nav := (ch_nav c)\<lparr>stat := 0\<rparr>\<rparr>)"
| shared: "afsd_reach E lib other fs s c \<Longrightarrow> rx_ok s' \<Longrightarrow> afsd_reach E lib other fs s' c"
| update: "afsd_reach E lib other fs s c \<Longrightarrow> ch_state c = SDR_STATE_LOCK \<longrightarrow> aided time c \<Longrightarrow> samples_ok fs buff ix \<Longrightarrow>
    sdr_ch_update E ch_conf0 (sdr_nav_decode lib other) time buff ix s c = Inr (s', c') \<Longrightarrow> afsd_reach E lib other fs s' c'"

inductive_cases afsd_reachE: "afsd_reach E lib other fs s c"

lemma sdr_ch_update_returns:
  assumes "ext_ok E" "check_counts lib" "blocks_ok lib" "afsd_ok fs s c" "ch_state c = SDR_STATE_LOCK \<longrightarrow> aided time c" "samples_ok fs buff ix"
  shows "\<exists>s' c'. sdr_ch_update E ch_conf0 (sdr_nav_decode lib other) time buff ix s c = Inr (s', c') \<and> afsd_ok fs s' c'"
proof -
  consider "ch_state c = SDR_STATE_SRCH" | "ch_state c = SDR_STATE_LOCK" | "ch_state c = SDR_STATE_IDLE"
    using assms(4) by (auto simp: afsd_ok_def lock_idle_def)
  then show ?thesis
  proof cases
    case 1
    from search_sig_returns [OF assms(1,4) 1 assms(6), of time] obtain c' where
      "search_sig E ch_conf0 time buff ix c = Inr c'" "afsd_ok fs s c'" by blast
    then show ?thesis using 1 by (simp add: sdr_ch_update_def)
  next
    case 2
    then show ?thesis using track_sig_returns [OF assms(1-4) 2 _ assms(6)] assms(5) by (simp add: sdr_ch_update_def states)
  next
    case 3
    then show ?thesis using assms(4) by (simp add: sdr_ch_update_def states)
  qed
qed

lemma afsd_reach_ok:
  assumes "ext_ok E" "check_counts lib" "blocks_ok lib"
  shows "afsd_reach E lib other fs s c \<Longrightarrow> afsd_ok fs s c"
proof (induction rule: afsd_reach.induct)
  case (new gen_code pn code gen_sec sec fi c)
  from new_afsd_channel [where gen_code = gen_code and pn = pn and gen_sec = gen_sec and fi = fi, OF assms(1) new.hyps(1-5)] obtain d where
    "sdr_ch_new E ch_conf0 gen_code gen_sec ''AFSD'' pn fs fi = Inr (Some d)" "afsd_ok fs rx_start d" by blast
  then show ?case using new.hyps(6) by simp
next
  case (search s c x)
  have "P_sum (ch_acq c) = None" using search by (auto simp: afsd_ok_def acq_ok_def Let_def states split: option.splits)
  then show ?case using search
    by (simp add: afsd_ok_def lock_idle_def afs_set_up_def trk_ok_def acq_ok_def Let_def states to_ch_def rx_ok_def)
next
  case (select s c n)
  then show ?case
    by (auto simp: sdr_ch_set_corr_def afsd_ok_def lock_idle_def afs_set_up_def trk_ok_def acq_ok_def Let_def to_ch_def search_bins_def SDR_N_CORR_def
        split: option.splits)
next
  case (read s c)
  then have "rx_ok (s\<lparr>ch := to_ch (c\<lparr>ch_nav := (ch_nav c)\<lparr>stat := 0\<rparr>\<rparr>)\<rparr>)" by (simp add: afsd_ok_def rx_ok_def nav_wf_def)
  then show ?case using read
    by (auto simp: afsd_ok_def lock_idle_def afs_set_up_def trk_ok_def acq_ok_def Let_def search_bins_def split: option.splits)
next
  case (shared s c s')
  then show ?case by (simp add: afsd_ok_def rx_ok_def)
next
  case (update s c time buff ix s' c')
  then show ?case using sdr_ch_update_returns [OF assms update.IH update.hyps(2,3), of other] by simp
qed

end
