(* ===== verification/Sdr_Ch_Time.thy ===== *)
theory Sdr_Ch_Time
  imports Sdr_Ch_New Sdr_Pvt_Props
begin

text \<open>
  Time in a channel: how a tracking step moves time of week and code offset, whose difference is the
  time the signal was sent.
\<close>

section \<open>Milliseconds of a cycle\<close>

lemma T_AFS_value: "T_AFS = 4611686018427388 / 2 ^ 61"
  unfolding T_AFS_def using dbl_near [of "2 / 1000" 61 4611686018427388] by simp

lemma cycle_ms: "int_of_dbl (ddiv T_AFS (dbl (1 / 1000))) = 2" "int_of_dbl (ddiv (- T_AFS) (dbl (1 / 1000))) = - 2"
proof -
  have "T_AFS / dbl (1 / 1000) = 2" unfolding T_AFS_value thousandth_value by simp
  then have d: "ddiv T_AFS (dbl (1 / 1000)) = 2" "ddiv (- T_AFS) (dbl (1 / 1000)) = - 2"
    using dbl_int [of 2] by (simp_all add: ddiv_def dbl_minus)
  show "int_of_dbl (ddiv T_AFS (dbl (1 / 1000))) = 2" "int_of_dbl (ddiv (- T_AFS) (dbl (1 / 1000))) = - 2"
    unfolding d by (simp_all add: int_of_dbl_def)
qed

definition WEEK_MS :: int where
  "WEEK_MS = 604800000"

lemma ch_update_tow_afs:
  assumes "ch_T c = T_AFS" "0 \<le> tow c"
  shows "tow (ch_update_tow (ch_T c) c) = (tow c + 2) smod WEEK_MS" "tow (ch_update_tow (- ch_T c) c) = (tow c - 2) smod WEEK_MS"
  using assms by (simp_all add: ch_update_tow_def cycle_ms WEEK_MS_def)

lemma count_cycle_tow: "tow (count_cycle c) = tow (ch_update_tow (ch_T c) c)" "week (count_cycle c) = week c"
  by (simp_all add: count_cycle_def Let_def)

section \<open>The stages that leave time alone\<close>

definition timing :: "trk_ch \<Rightarrow> int \<times> int \<times> rat" where
  "timing c = (tow c, week c, ch_coff c)"

lemma correlate_timing: "correlate E buff ix fc tau c = Some d \<Longrightarrow> timing d = timing c \<and> fsync (ch_nav d) = fsync (ch_nav c)"
  by (auto simp: correlate_def CSK_def Let_def results timing_def split: if_splits)

lemma sync_sec_code_timing: "sync_sec_code c n = Inr d \<Longrightarrow> timing d = timing c \<and> ch_nav d = ch_nav c"
  by (auto simp: sync_sec_code_def sec_search_def remove_chip_def Let_def results timing_def split: if_splits)

lemma loops_timing: "timing (add_history c) = timing c" "timing (FLL E cf c) = timing c" "timing (PLL E cf c) = timing c"
  by (simp_all add: timing_def add_history_def FLL_def PLL_def Let_def)

lemma CN0_timing: "CN0 E c = Inr d \<Longrightarrow> timing d = timing c \<and> ch_nav d = ch_nav c"
  using CN0_keeps [of E c d] by (simp add: timing_def)

lemma DLL_tow: "tow (DLL E cf c) = tow c" "week (DLL E cf c) = week c"
  by (simp_all add: DLL_def Let_def)

lemma signal_lost_timing: "timing (signal_lost c) = timing c"
  by (simp add: signal_lost_def timing_def)

text \<open>Between two frames the decoder only stores the symbol.\<close>

lemma decode_between_frames:
  assumes "0 < fsync (ch_nav (ch s))" "lock (ch s) < fsync (ch_nav (ch s)) + 6000" "decode_AFSD lib s = Inr s'"
  shows "tow (ch s') = tow (ch s) \<and> week (ch s') = week (ch s)"
proof -
  have "lock (ch s) \<noteq> fsync (ch_nav (ch s)) + 6000" "\<not> lock (ch s) > fsync (ch_nav (ch s)) + 6000" using assms(2) by simp_all
  then show ?thesis using assms(1,3) by (cases "AFSD_SP_SYMS s") (auto simp: decode_AFSD_def Let_def)
qed

lemma nav_between_frames:
  assumes "ch_sig c = ''AFSD''" "0 < fsync (ch_nav c)" "lock c < fsync (ch_nav c) + 6000" "sdr_nav_decode lib other s c = Inr (s', d)"
  shows "timing d = timing c"
proof -
  obtain s1 where s1: "decode_AFSD lib (s\<lparr>ch := to_ch c\<rparr>) = Inr s1" "d = put_ch (ch s1) c"
    using assms(1,4) by (auto simp: sdr_nav_decode_def results)
  have "tow (ch s1) = tow c \<and> week (ch s1) = week c"
    using decode_between_frames [OF _ _ s1(1)] assms(2,3) by (simp add: to_ch_def)
  then show ?thesis by (simp add: s1(2) timing_def put_ch_def)
qed

text \<open>A tracking step between two frames.\<close>

definition between_frames :: "trk_ch \<Rightarrow> bool" where
  "between_frames c \<longleftrightarrow> 0 < fsync (ch_nav c) \<and> lock c + 2 < fsync (ch_nav c) + 6000"

lemma wrap_code_lock_le: "lock (wrap_code c) \<le> lock c + 1"
  by (simp add: wrap_code_def Let_def)

lemma track_sig_time:
  assumes E: "ext_ok E" and ok: "afsd_ok fs s c" and st: "ch_state c = SDR_STATE_LOCK" and aid: "aided time c" and buf: "samples_ok fs buff ix"
    and bet: "between_frames c" and run: "track_sig E ch_conf0 (sdr_nav_decode lib other) time buff ix s c = Inr (s', c')"
  obtains c3 where "tow c' = tow (ch_update_tow T_AFS (wrap_code (carrier_aid time c)))" "week c' = week c"
    "ch_coff c' = ch_coff (DLL E ch_conf0 c3)" "ch_coff c3 = ch_coff (wrap_code (carrier_aid time c))" "afs_set_up fs c3" "trk_ok fs c3"
proof -
  have su: "afs_set_up fs c" and tk: "trk_ok fs c" and of: "off_ok (ch_coff c)" using ok st by (simp_all add: afsd_ok_def)
  have T: "ch_T c = T_AFS" "ch_sig c = ''AFSD''" "length (ch_sec_code c) = 1" using su by (simp_all add: afs_set_up_def)
  define c0 where "c0 = wrap_code (carrier_aid time c)"
  have f0: "ch_fix c0 = ch_fix c" by (simp add: c0_def ch_frame)
  have tk0: "trk_ok fs c0" unfolding c0_def by (rule trk_ok_wrap [OF tk])
  obtain cs where c1: "correlate E buff ix (dadd (ch_fi c) (ch_fd c)) (dsub time (ch_time c)) c0 = Some (c0\<lparr>ch_trk := (ch_trk c0)\<lparr>trk_C := cs\<rparr>\<rparr>)"
    "length cs = SDR_N_CORR"
    by (rule correlate_ok [OF _ tk0 _ _ buf]) (use su set_up_fix [OF f0] wrapped_offset [OF of aid T(1)] c0_def in auto)
  define c2 where "c2 = count_cycle (add_history (c0\<lparr>ch_trk := (ch_trk c0)\<lparr>trk_C := cs\<rparr>\<rparr>))"
  have f2: "ch_fix c2 = ch_fix c" using stage_fix(3) [OF c1(1)] f0 by (simp add: c2_def ch_frame)
  have tk2: "trk_ok fs c2" unfolding c2_def by (intro trk_ok_stages tk0 c1(2))
  have tow2: "tow c2 = tow (ch_update_tow T_AFS c0)" "week c2 = week c" "ch_coff c2 = ch_coff c0"
    using ch_fixD(3) [OF f0] T(1) by (simp_all add: c2_def count_cycle_tow add_history_def ch_update_tow_def Let_def c0_def wrap_code_def)
  define c3 where "c3 = (if lock_time c2 \<le> T_FPULLIN then FLL E ch_conf0 c2 else PLL E ch_conf0 c2)"
  have f3: "ch_fix c3 = ch_fix c" using f2 by (simp add: c3_def ch_frame)
  have tk3: "trk_ok fs c3" by (simp add: c3_def trk_ok_stages(4,5) tk2)
  have t3: "timing c3 = timing c2" by (simp add: c3_def loops_timing)
  have s2: "length (ch_sec_code c2) = 1" using ch_fixD(9) [OF f2] T(3) by simp
  obtain c4 c5 where 4: "CN0 E (DLL E ch_conf0 c3) = Inr c4" and
    5: "c5 = c4 \<or> sdr_nav_decode lib other s c4 = Inr (s', c5)" "c' = c5 \<or> c' = signal_lost c5"
    using run unfolding track_sig_def Let_def c0_def [symmetric] c1(1) or_err_simps res_bind_simps c2_def [symmetric]
    by (auto simp: s2 c3_def [symmetric] results split: if_splits prod.splits)
  have n4: "timing c4 = timing (DLL E ch_conf0 c3)" "ch_nav c4 = ch_nav c" using CN0_timing [OF 4] by (simp_all add: c3_def c2_def c0_def)
  have "lock c4 = lock c0 + 1" using CN0_lock [OF 4] by (simp add: c3_def c2_def ch_frame)
  then have "lock c4 < fsync (ch_nav c4) + 6000" "0 < fsync (ch_nav c4)"
    using bet wrap_code_lock_le [of "carrier_aid time c"] unfolding n4(2) by (simp_all add: between_frames_def c0_def ch_frame)
  moreover have "ch_sig c4 = ''AFSD''" using CN0_fix [OF 4] f3 T(2) by (metis DLL_fix ch_fixD(4))
  ultimately have "timing c5 = timing c4" using 5(1) nav_between_frames by metis
  then have t: "timing c' = timing (DLL E ch_conf0 c3)" using 5(2) n4(1) signal_lost_timing by auto
  show ?thesis
    by (rule that [of c3]) (use t t3 tow2 DLL_tow [of E ch_conf0 c3] su set_up_fix [OF f3] tk3 in \<open>simp_all add: timing_def c0_def\<close>)
qed

text \<open>What carrier and wrap do to the difference of time of week and code offset.\<close>

lemma wrapped_time:
  assumes "off_ok (ch_coff c)" "aided time c" "ch_T c = T_AFS" "2 \<le> tow c" "tow c + 4 < WEEK_MS"
  defines "d \<equiv> wrap_code (carrier_aid time c)" and "m \<equiv> dmul (ddiv (ch_fd c) (ch_fc c)) (dsub time (ch_time c))"
  shows "\<bar>(of_int (tow d) / 1000 - ch_coff d) - (of_int (tow c) / 1000 - ch_coff c + m)\<bar> \<le> 1 / 2 ^ 38" "0 \<le> tow d" "tow d + 2 < WEEK_MS"
proof -
  have m: "\<bar>m\<bar> \<le> 1 / 2 ^ 11" using assms(2) by (simp add: aided_def m_def)
  have o: "- (1 / 2 ^ 13) \<le> ch_coff c" "ch_coff c \<le> T_AFS + 1 / 2 ^ 13" using assms(1) by (simp_all add: off_ok_def)
  define x where "x = ch_coff (carrier_aid time c)"
  have x: "x = dbl (ch_coff c - m)" by (simp add: x_def m_def dsub_def)
  have b: "\<bar>ch_coff c - m\<bar> \<le> 1 / 2 ^ 8" using o abs_le_D1 [OF m] abs_le_D2 [OF m] T_AFS_bounds by (intro abs_leI) simp_all
  have ex: "\<bar>x - (ch_coff c - m)\<bar> \<le> 1 / 2 ^ 50" unfolding x by (rule order_trans [OF dbl_error_le [of _ 1]]) (use b in \<open>simp_all add: at_least_tiny\<close>)
  have xb: "\<bar>x\<bar> \<le> 1 / 2 ^ 8" unfolding x by (rule dbl_abs_le [OF b dbl_half_power]) simp
  have T: "ch_T (carrier_aid time c) = T_AFS" using assms(3) ch_fixD(3) [OF carrier_aid_fix [of time c]] by simp
  have tw: "tow (carrier_aid time c) = tow c" by simp
  have Tc: "\<bar>T_AFS - 2 / 1000\<bar> \<le> 1 / 2 ^ 39"
  proof -
    have "1 / 10 ^ 12 \<le> 1 / (2 :: rat) ^ 39" by simp
    then show ?thesis using T_AFS_close by (rule order_trans [rotated])
  qed
  have r: "\<bar>dbl y - y\<bar> \<le> 1 / 2 ^ 50" if "\<bar>y\<bar> \<le> 1" for y
    by (rule order_trans [OF dbl_error_le [OF that]]) (simp_all add: at_least_tiny)
  note near = abs_le_D1 [OF ex] abs_le_D2 [OF ex] abs_le_D1 [OF Tc] abs_le_D2 [OF Tc] abs_le_D1 [OF xb] abs_le_D2 [OF xb] T_AFS_bounds
  consider "x \<ge> T_AFS" | "x < 0" | "0 \<le> x" "x < T_AFS" by linarith
  then have "\<bar>(of_int (tow d) / 1000 - ch_coff d) - (of_int (tow c) / 1000 - ch_coff c + m)\<bar> \<le> 1 / 2 ^ 39 + 1 / 2 ^ 49 \<and> 0 \<le> tow d \<and> tow d + 2 < WEEK_MS"
  proof cases
    case 1
    have t: "tow d = tow c - 2" "ch_coff d = dbl (x - T_AFS)"
      using 1 assms(4,5) unfolding d_def wrap_code_def Let_def T x_def [symmetric]
      by (simp_all add: ch_update_tow_def cycle_ms dsub_def smod_nonneg WEEK_MS_def)
    have e: "\<bar>dbl (x - T_AFS) - (x - T_AFS)\<bar> \<le> 1 / 2 ^ 50" by (rule r, rule abs_leI) (use near in simp_all)
    have "\<bar>(of_int (tow c) / 1000 - 2 / 1000 - dbl (x - T_AFS)) - (of_int (tow c) / 1000 - ch_coff c + m)\<bar> \<le> 1 / 2 ^ 39 + 1 / 2 ^ 49"
      by (rule abs_leI) (use near abs_le_D1 [OF e] abs_le_D2 [OF e] in simp_all)
    then show ?thesis unfolding t using assms(4,5) by (simp add: diff_divide_distrib)
  next
    case 2
    have t: "tow d = tow c + 2" "ch_coff d = dbl (x + T_AFS)"
      using 2 assms(4,5) T_AFS_bounds unfolding d_def wrap_code_def Let_def T x_def [symmetric]
      by (simp_all add: ch_update_tow_def cycle_ms dadd_def smod_nonneg WEEK_MS_def)
    have e: "\<bar>dbl (x + T_AFS) - (x + T_AFS)\<bar> \<le> 1 / 2 ^ 50" by (rule r, rule abs_leI) (use near in simp_all)
    have "\<bar>(of_int (tow c) / 1000 + 2 / 1000 - dbl (x + T_AFS)) - (of_int (tow c) / 1000 - ch_coff c + m)\<bar> \<le> 1 / 2 ^ 39 + 1 / 2 ^ 49"
      by (rule abs_leI) (use near abs_le_D1 [OF e] abs_le_D2 [OF e] in simp_all)
    then show ?thesis unfolding t using assms(4,5) by (simp add: add_divide_distrib)
  next
    case 3
    have t: "tow d = tow c" "ch_coff d = x"
      using 3 unfolding d_def wrap_code_def Let_def T x_def [symmetric] by (simp, simp add: x_def)
    have "\<bar>(of_int (tow c) / 1000 - x) - (of_int (tow c) / 1000 - ch_coff c + m)\<bar> \<le> 1 / 2 ^ 39 + 1 / 2 ^ 49"
      by (rule abs_leI) (use near in simp_all)
    then show ?thesis unfolding t using assms(4,5) by simp
  qed
  moreover have "(1 :: rat) / 2 ^ 39 + 1 / 2 ^ 49 \<le> 1 / 2 ^ 38" by simp
  ultimately show "\<bar>(of_int (tow d) / 1000 - ch_coff d) - (of_int (tow c) / 1000 - ch_coff c + m)\<bar> \<le> 1 / 2 ^ 38" "0 \<le> tow d" "tow d + 2 < WEEK_MS"
    by linarith+
qed

text \<open>Seconds of the week, and the carrier's share in the move of the code.\<close>

definition sent_time :: "trk_ch \<Rightarrow> rat" where
  "sent_time c = of_int (tow c) / 1000 - ch_coff c"

definition carrier_move :: "rat \<Rightarrow> trk_ch \<Rightarrow> rat" where
  "carrier_move time c = dmul (ddiv (ch_fd c) (ch_fc c)) (dsub time (ch_time c))"

end
