(* ===== verification/Sdr_Ch_Demo.thy ===== *)
theory Sdr_Ch_Demo
  imports Sdr_Ch_Time Codec_Instances
begin

text \<open>
  The channel, the receiver and the library on which the witnesses of the receiver's properties rest.
\<close>

section \<open>A channel for the witnesses\<close>

text \<open>A library, and a new channel for a code of ones at 1.2 million samples a second, searching or in lock.\<close>

definition ext_demo :: sdr_ext where
  "ext_demo = \<lparr>m_sin = \<lambda>x. 0, m_cos = \<lambda>x. 1, m_atan2 = \<lambda>y x. 0, m_sqrt = \<lambda>x. x, m_atan = \<lambda>x. 0, m_log10 = \<lambda>x. 0, m_sqrtf = \<lambda>x. x,
     fft_fwd = \<lambda>xs. xs, fft_bwd = \<lambda>xs. xs, rtk_lsq = \<lambda>A y n m. None\<rparr>"

definition demo_code :: "string \<Rightarrow> int \<Rightarrow> int list option" where
  "demo_code sig pn = Some (replicate 2046 1)"

definition demo_sec :: "string \<Rightarrow> int \<Rightarrow> int list option" where
  "demo_sec sig pn = Some [1]"

definition no_decoder :: ch_decoder where
  "no_decoder s c = Inr (s, c)"

lemma ext_demo_ok: "ext_ok ext_demo"
  by (simp add: ext_ok_def fft_ok_def ext_demo_def)

lemma demo_fs: "fs_ok 1200000"
  by (simp add: fs_ok_def)

lemma demo_samples: "samples_ok 1200000 (replicate 6000 0) 0"
proof -
  have "of_int (afs_N 1200000) \<le> 1200000 * T_AFS + 1" by (rule afs_N_bounds(3) [OF demo_fs])
  also have "\<dots> \<le> 3000" using T_AFS_bounds by simp
  finally have "afs_N 1200000 \<le> 3000" by simp
  then show ?thesis by (simp add: samples_ok_def)
qed

lemma demo_new:
  obtains c where "sdr_ch_new ext_demo ch_conf0 demo_code demo_sec ''AFSD'' pn 1200000 0 = Inr (Some c)" "afsd_ok 1200000 rx_start c"
    "ch_state c = SDR_STATE_IDLE" "P_sum (ch_acq c) = None"
proof -
  have "demo_code ''AFSD'' pn = Some (replicate 2046 1)" "length (replicate 2046 1 :: int list) = 2046" "demo_sec ''AFSD'' pn = Some [1]" "length [1 :: int] = 1"
    by (simp_all add: demo_code_def demo_sec_def)
  from new_afsd_channel [where fi = 0 and gen_code = demo_code and gen_sec = demo_sec and pn = pn, OF ext_demo_ok demo_fs this] show ?thesis
    using that by metis
qed

lemma demo_search:
  obtains c where "afsd_reach ext_demo zero_lib no_decoder 1200000 rx_start c" "ch_state c = SDR_STATE_SRCH" "P_sum (ch_acq c) = None"
proof -
  obtain c where c: "sdr_ch_new ext_demo ch_conf0 demo_code demo_sec ''AFSD'' 1 1200000 0 = Inr (Some c)" "ch_state c = SDR_STATE_IDLE" "P_sum (ch_acq c) = None"
    using demo_new by blast
  have "afsd_reach ext_demo zero_lib no_decoder 1200000 rx_start c"
    by (rule afsd_reach.new [of _ demo_code 1 "replicate 2046 1" demo_sec "[1]", OF demo_fs _ _ _ _ c(1)]) (simp_all add: demo_code_def demo_sec_def)
  from afsd_reach.search [OF this c(2), of 0] show ?thesis using that c(3) by simp
qed

definition demo_data :: "u8 list" where
  "demo_data = sdr_pack_bits (replicate 1200 0) 1200 0 @ replicate (SDR_MAX_DATA - 150) 0"

lemma demo_data_ok: "length demo_data = SDR_MAX_DATA" "sb2_data demo_data"
proof -
  show "length demo_data = SDR_MAX_DATA" by (simp add: demo_data_def SDR_MAX_DATA_def)
  have "parity_ok SF2_H 5040 6240 (replicate 6240 0)" using SF2_parity [of "replicate 1200 0"] codewords_zero(1) by simp
  moreover have "bools (replicate 1200 0) = replicate 1200 False" by (simp add: bools_def)
  ultimately show "sb2_data demo_data" unfolding sb2_data_def demo_data_def
    by (intro exI [of _ "replicate 6240 0"] conjI) (simp_all add: bitarr_nth crc_zeros)
qed

definition locked :: "int \<Rightarrow> trk_ch \<Rightarrow> trk_ch" where
  "locked t c = c\<lparr>ch_state := SDR_STATE_LOCK, lock := 7000, week := 5, tow := t, ch_coff := 0, ch_fd := 0, ch_time := 0,
     ch_nav := (ch_nav c)\<lparr>fsync := 6568, seq := 0, data := demo_data\<rparr>\<rparr>"

lemma demo_locked:
  obtains c s' c' where "afsd_ok 1200000 rx_start (locked t c)" "aided (2 / 1000) (locked t c)" "between_frames (locked t c)"
    "carrier_move (2 / 1000) (locked t c) = 0" "ch_coff (carrier_aid (2 / 1000) (locked t c)) = 0"
    "sdr_ch_update ext_demo ch_conf0 (sdr_nav_decode zero_lib no_decoder) (2 / 1000) (replicate 6000 0) 0 rx_start (locked t c) = Inr (s', c')"
proof -
  obtain c where c: "afsd_ok 1200000 rx_start c" "P_sum (ch_acq c) = None" using demo_new by blast
  have n: "nav_wf (ch_nav c)" using c(1) by (simp add: afsd_ok_def rx_ok_def)
  have z: "dmul (ddiv 0 x) y = 0" for x y by (simp add: dmul_def ddiv_def)
  have ok: "afsd_ok 1200000 rx_start (locked t c)" using c n T_AFS_bounds demo_data_ok
    by (simp add: afsd_ok_def locked_def lock_idle_def afs_set_up_def trk_ok_def acq_ok_def Let_def states to_ch_def rx_ok_def nav_wf_def off_ok_def)
  have a: "aided (2 / 1000) (locked t c)" by (simp add: aided_def locked_def z)
  from sdr_ch_update_returns [OF ext_demo_ok zero_lib_check zero_lib_rest(2) ok _ demo_samples, of "2 / 1000" no_decoder] a obtain s' c' where
    u: "sdr_ch_update ext_demo ch_conf0 (sdr_nav_decode zero_lib no_decoder) (2 / 1000) (replicate 6000 0) 0 rx_start (locked t c) = Inr (s', c')" by blast
  show ?thesis by (rule that [OF ok a _ _ _ u]) (simp_all add: between_frames_def locked_def carrier_move_def z dsub_def)
qed

lemma locked_fields: "ch_state (locked t c) = SDR_STATE_LOCK" "tow (locked t c) = t" "week (locked t c) = 5"
  by (simp_all add: locked_def)

section \<open>A receiver for the witnesses\<close>

lemma demo_keeps: "nav_keeps (sdr_nav_decode zero_lib no_decoder)"
  by (rule afs_decoder_keeps) (simp add: nav_keeps_def no_decoder_def)

lemma demo_receiver:
  obtains r where "sdr_rcv_new ext_demo ch_conf0 demo_code demo_sec 1200000 [(''AFSD'', 1, 0), (''AFSD'', 2, 0)] rx_start (sdr_pvt_new ()) = Inr r"
    "length (rcv_chs r) = 2" "\<forall>c \<in> set (rcv_chs r). ch_state c = SDR_STATE_IDLE \<and> ch_T c = T_AFS" "rcv_ich r = - 1" "rcv_use r = 0"
    "rcv_pvt r = sdr_pvt_new ()"
proof -
  obtain c where c: "sdr_ch_new ext_demo ch_conf0 demo_code demo_sec ''AFSD'' 1 1200000 0 = Inr (Some c)" "afsd_ok 1200000 rx_start c" "ch_state c = SDR_STATE_IDLE"
    by (rule demo_new)
  obtain d where d: "sdr_ch_new ext_demo ch_conf0 demo_code demo_sec ''AFSD'' 2 1200000 0 = Inr (Some d)" "afsd_ok 1200000 rx_start d" "ch_state d = SDR_STATE_IDLE"
    by (rule demo_new)
  have n: "new_channels ext_demo ch_conf0 demo_code demo_sec 1200000 [(''AFSD'', 1, 0), (''AFSD'', 2, 0)] SDR_MAX_NCH = Inr [c, d]"
    by (simp add: c(1) d(1) SDR_MAX_NCH_def)
  show ?thesis
    by (rule that, unfold sdr_rcv_new_def n map_sum.simps, rule refl) (use c d in \<open>simp_all add: afsd_ok_def afs_set_up_def\<close>)
qed

lemma T_AFS_short: "T_AFS \<le> MAX_ACQ"
  unfolding T_AFS_def MAX_ACQ_def by (rule dbl_mono) simp

end
