(* ===== verification/Sdr_Rcv_Props.thy ===== *)
theory Sdr_Rcv_Props
  imports Sdr_Ch_Demo
begin

text \<open>
  Properties of the receiver's channels: one search at a time, taken in turn; and what never happens
  although it is meant to.
\<close>

section \<open>Runs of the receiver\<close>

inductive rcv_reach ::
  "'e sdr_ext_scheme \<Rightarrow> ch_conf \<Rightarrow> ch_decoder \<Rightarrow> 'n rtk_decoders \<Rightarrow> (satsystem \<Rightarrow> nat \<Rightarrow> int) \<Rightarrow> pvt_conf \<Rightarrow>
   (obsd_t list \<Rightarrow> 'n \<Rightarrow> pvt_sol \<Rightarrow> bool \<times> pvt_sol) \<Rightarrow> 'n sdr_rcv_t \<Rightarrow> bool" for E cf nd R code2idx conf pntpos where
  new: "sdr_rcv_new E cf gen_code gen_sec fs xs s p = Inr r \<Longrightarrow> rcv_reach E cf nd R code2idx conf pntpos r"
| round: "rcv_reach E cf nd R code2idx conf pntpos r \<Longrightarrow> round_due r k \<Longrightarrow> ch_round E cf nd R code2idx conf buff k r = Inr r' \<Longrightarrow>
    rcv_reach E cf nd R code2idx conf pntpos r'"
| cycle: "rcv_reach E cf nd R code2idx conf pntpos r \<Longrightarrow> rcv_cycle L pntpos conf ix r = Inr r' \<Longrightarrow> rcv_reach E cf nd R code2idx conf pntpos r'"
| usage: "rcv_reach E cf nd R code2idx conf pntpos r \<Longrightarrow> rcv_reach E cf nd R code2idx conf pntpos (update_buff_use r)"
| select: "rcv_reach E cf nd R code2idx conf pntpos r \<Longrightarrow> rcv_reach E cf nd R code2idx conf pntpos (sdr_rcv_sel_ch k r)"

inductive_cases rcv_reachE: "rcv_reach E cf nd R code2idx conf pntpos r"

definition rcv_ok :: "'n sdr_rcv_t \<Rightarrow> bool" where
  "rcv_ok r \<longleftrightarrow> - 1 \<le> rcv_ich r \<and> (0 \<le> rcv_ich r \<longrightarrow> nat (rcv_ich r) < length (rcv_chs r)) \<and> (\<forall>c \<in> set (rcv_chs r). lock_idle c) \<and>
     (\<forall>k < length (rcv_chs r). ch_state (rcv_chs r ! k) = SDR_STATE_SRCH \<longrightarrow> int k = rcv_ich r)"

section \<open>Choosing the next search\<close>

lemma may_search_keeps:
  assumes "may_search ix chs c = (ok, c')"
  shows "ch_state c' = ch_state c" "lock c' = lock c" "ch_T c' = ch_T c" "ch_sat c' = ch_sat c"
  using assms
  by (auto simp: may_search_def re_acq_def assist_acq_def set_fd_ext_def split: if_splits option.splits)

lemma may_search_short: "ch_T c \<le> MAX_ACQ \<Longrightarrow> fst (may_search ix chs c)"
  by (auto simp: may_search_def re_acq_def assist_acq_def set_fd_ext_def split: option.splits)

text \<open>No channel searches before; afterwards at most the one the receiver points at.\<close>

definition no_search :: "trk_ch list \<Rightarrow> bool" where
  "no_search chs \<longleftrightarrow> (\<forall>c \<in> set chs. lock_idle c \<and> ch_state c \<noteq> SDR_STATE_SRCH)"

lemma next_index:
  assumes "chs \<noteq> []" "- 1 \<le> ich" "ich < int (length chs)"
  shows "0 \<le> (ich + 1) smod int (length chs)" "(ich + 1) smod int (length chs) < int (length chs)"
    "(ich + 1) smod int (length chs) = (ich + 1) mod int (length chs)"
proof -
  have s: "(ich + 1) smod int (length chs) = (ich + 1) mod int (length chs)" by (rule smod_nonneg) (use assms in auto)
  show "(ich + 1) smod int (length chs) = (ich + 1) mod int (length chs)" by (rule s)
  show "0 \<le> (ich + 1) smod int (length chs)" "(ich + 1) smod int (length chs) < int (length chs)" unfolding s using assms(1) by simp_all
qed

lemma next_search_ok:
  assumes "no_search chs" "- 1 \<le> ich" "ich < int (length chs)" "next_search ix n chs ich = (chs', ich')" "n \<le> length chs"
  shows "length chs' = length chs \<and> - 1 \<le> ich' \<and> (0 \<le> ich' \<longrightarrow> nat ich' < length chs') \<and> (\<forall>c \<in> set chs'. lock_idle c) \<and>
    (\<forall>k < length chs'. ch_state (chs' ! k) = SDR_STATE_SRCH \<longrightarrow> int k = ich')"
  using assms
proof (induction n arbitrary: chs ich)
  case 0
  then show ?case by (auto simp: no_search_def)
next
  case (Suc n)
  show ?case
  proof -
    have ne: "chs \<noteq> []" using Suc.prems(5) by auto
    let ?i = "(ich + 1) smod int (length chs)"
    note i = next_index [OF ne Suc.prems(2,3)]
    then have k: "nat ?i < length chs" by simp
    have ok: "lock_idle (chs ! nat ?i)" using Suc.prems(1) k by (auto simp: no_search_def)
    show ?thesis
    proof (cases "ch_state (chs ! nat ?i) = SDR_STATE_IDLE")
      case idle: True
      obtain b c where m: "may_search ix chs (chs ! nat ?i) = (b, c)" by fastforce
      note keep = may_search_keeps [OF m]
      have c: "lock_idle c" "ch_state c = SDR_STATE_IDLE" "lock c = 0" using ok keep idle by (auto simp: lock_idle_def states)
      show ?thesis
      proof (cases b)
        case True
        then have r: "chs' = chs[nat ?i := c\<lparr>ch_state := SDR_STATE_SRCH\<rparr>]" "ich' = ?i" using Suc.prems(4) idle m by (auto simp: Let_def)
        have "lock_idle (c\<lparr>ch_state := SDR_STATE_SRCH\<rparr>)" using c by (simp add: lock_idle_def)
        then show ?thesis unfolding r using i k Suc.prems(1)
          by (auto simp: no_search_def nth_list_update dest!: set_update_subset_insert [THEN subsetD])
      next
        case False
        then have r: "next_search ix n (chs[nat ?i := c]) ?i = (chs', ich')" using Suc.prems(4) idle m by (simp add: Let_def)
        have "no_search (chs[nat ?i := c])" using Suc.prems(1) c
          by (auto simp: no_search_def states dest!: set_update_subset_insert [THEN subsetD])
        from Suc.IH [OF this _ _ r] i Suc.prems(5) show ?thesis by auto
      qed
    next
      case False
      then have "next_search ix n chs ?i = (chs', ich')" using Suc.prems(4) by (simp add: Let_def)
      from Suc.IH [OF Suc.prems(1) _ _ this] i Suc.prems(5) show ?thesis by auto
    qed
  qed
qed

lemma update_srch_ch_ok:
  assumes "rcv_ok r" shows "rcv_ok (update_srch_ch r)"
proof (cases "rcv_use r > MAX_BUFF_USE \<or> (rcv_ich r \<ge> 0 \<and> ch_state (rcv_chs r ! nat (rcv_ich r)) = SDR_STATE_SRCH)")
  case True
  then show ?thesis using assms by (auto simp: update_srch_ch_def)
next
  case False
  obtain chs ich where n: "next_search (rcv_ix r) (length (rcv_chs r)) (rcv_chs r) (rcv_ich r) = (chs, ich)" by fastforce
  have "ch_state (rcv_chs r ! k) \<noteq> SDR_STATE_SRCH" if "k < length (rcv_chs r)" for k
  proof
    assume s: "ch_state (rcv_chs r ! k) = SDR_STATE_SRCH"
    then have "int k = rcv_ich r" using assms that by (simp add: rcv_ok_def)
    then have "0 \<le> rcv_ich r" "nat (rcv_ich r) = k" by auto
    then show False using False s by simp
  qed
  then have "no_search (rcv_chs r)" using assms by (auto simp: rcv_ok_def no_search_def in_set_conv_nth)
  moreover have "rcv_ich r < int (length (rcv_chs r))" using assms by (auto simp: rcv_ok_def)
  ultimately show ?thesis using next_search_ok [OF _ _ _ n] assms False n by (auto simp: update_srch_ch_def rcv_ok_def)
qed

section \<open>The invariant\<close>

lemma sdr_ch_new_idle:
  assumes "sdr_ch_new E cf gen_code gen_sec sig pn fs fi = Inr (Some c)"
  shows "lock_idle c" "ch_state c = SDR_STATE_IDLE"
  using assms by (auto simp: sdr_ch_new_def results Let_def lock_idle_def split: option.splits)

lemma new_channels_idle:
  "new_channels E cf gen_code gen_sec fs xs n = Inr chs \<Longrightarrow> c \<in> set chs \<Longrightarrow> lock_idle c \<and> ch_state c = SDR_STATE_IDLE"
proof (induction xs arbitrary: n chs)
  case (Cons x xs)
  obtain sig pn fi where x: "x = (sig, pn, fi)" by (cases x) auto
  show ?case
  proof (cases "n = 0")
    case False
    from Cons.prems(1) False x obtain y where y: "sdr_ch_new E cf gen_code gen_sec sig pn fs fi = Inr y"
      "(case y of None \<Rightarrow> new_channels E cf gen_code gen_sec fs xs n
        | Some c \<Rightarrow> map_sum id ((#) c) (new_channels E cf gen_code gen_sec fs xs (n - 1))) = Inr chs"
      by (simp only: new_channels.simps if_False results) blast
    then show ?thesis using Cons.IH Cons.prems(2) sdr_ch_new_idle by (auto simp: results split: option.splits)
  qed (use Cons.prems x in auto)
qed auto

lemma ch_round_ok:
  assumes "nav_keeps nd" "rcv_ok r" "k < length (rcv_chs r)" "ch_round E cf nd R code2idx conf buff k r = Inr r'"
  shows "rcv_ok r'"
proof -
  let ?c = "rcv_chs r ! k"
  obtain s c1 c where u: "sdr_ch_update E cf nd (dmul (of_int (rcv_th_ix r ! k)) SDR_CYC) buff (rcv_N r * (rcv_th_ix r ! k smod MAX_BUFF)) (rcv_nav r) ?c = Inr (s, c1)"
    and u2: "c = c1 \<or> c = c1\<lparr>ch_nav := (ch_nav c1)\<lparr>stat := 0\<rparr>\<rparr>" "rcv_chs r' = (rcv_chs r)[k := c]" "rcv_ich r' = rcv_ich r"
    using assms(4) unfolding ch_round_def Let_def results by (fastforce simp: results split: if_splits)
  have "lock_idle ?c" using assms(2,3) by (simp add: rcv_ok_def)
  from ch_update_outcome [OF assms(1) u(1) this] u2(1)
  have "lock_idle c" "ch_state c = SDR_STATE_SRCH \<longrightarrow> ch_state ?c = SDR_STATE_SRCH" by (auto simp: lock_idle_def)
  then show ?thesis using assms(2,3) u2(2,3)
    by (auto simp: rcv_ok_def nth_list_update dest!: set_update_subset_insert [THEN subsetD])
qed

lemma rcv_reach_ok:
  assumes nd: "nav_keeps nd"
  shows "rcv_reach E cf nd R code2idx conf pntpos r \<Longrightarrow> rcv_ok r"
proof (induction rule: rcv_reach.induct)
  case (new gen_code gen_sec fs xs s p r)
  then obtain chs where chs: "new_channels E cf gen_code gen_sec fs xs SDR_MAX_NCH = Inr chs" "rcv_chs r = chs" "rcv_ich r = - 1"
    by (auto simp: sdr_rcv_new_def results)
  have "\<forall>c \<in> set chs. lock_idle c \<and> ch_state c \<noteq> SDR_STATE_SRCH" using new_channels_idle [OF chs(1)] by (auto simp: states)
  then show ?case using chs(2,3) nth_mem by (auto simp: rcv_ok_def)
next
  case (round r k buff r')
  then show ?case using ch_round_ok [OF nd round.IH _ round.hyps(3)] by (simp add: round_due_def)
next
  case (cycle r L ix r')
  have "rcv_ok (r\<lparr>rcv_ix := ix\<rparr>)" using cycle.IH by (simp add: rcv_ok_def)
  then have "rcv_ok (update_srch_ch (r\<lparr>rcv_ix := ix\<rparr>))" by (rule update_srch_ch_ok)
  then show ?case using cycle.hyps by (auto simp: rcv_cycle_def results Let_def rcv_ok_def)
next
  case (usage r)
  then show ?case by (simp add: rcv_ok_def update_buff_use_def)
next
  case (select r k)
  then show ?case by (auto simp: rcv_ok_def sdr_rcv_sel_ch_def sdr_ch_set_corr_def lock_idle_def)
qed

section \<open>Turns\<close>

lemma mod_after: "((i + 1) mod n + 1 + m) mod n = (i + 2 + m) mod (n :: int)"
  by (metis (no_types, opaque_lifting) add.assoc add.commute mod_add_left_eq one_add_one)

lemma next_search_turn:
  assumes "no_search chs" "- 1 \<le> ich" "ich < int (length chs)" "next_search ix n chs ich = (chs', ich')" "n \<le> length chs"
    and "m < n" "ch_state (chs ! nat ((ich + 1 + int m) mod int (length chs))) = SDR_STATE_IDLE"
    "ch_T (chs ! nat ((ich + 1 + int m) mod int (length chs))) \<le> MAX_ACQ"
  shows "\<exists>l \<le> m. ich' = (ich + 1 + int l) mod int (length chs) \<and> ch_state (chs' ! nat ich') = SDR_STATE_SRCH"
  using assms
proof (induction n arbitrary: chs ich m)
  case (Suc n)
  have ne: "chs \<noteq> []" using Suc.prems(5) by auto
  define i where "i = (ich + 1) mod int (length chs)"
  have i: "0 \<le> i" "i < int (length chs)" "(ich + 1) smod int (length chs) = i"
    using next_index [OF ne Suc.prems(2,3)] by (simp_all add: i_def)
  have k: "nat i < length chs" using i by simp
  have step: "\<exists>l \<le> m. ich' = (ich + 1 + int l) mod int (length chs) \<and> ch_state (chs' ! nat ich') = SDR_STATE_SRCH"
    if r: "next_search ix n ds i = (chs', ich')" and ds: "no_search ds" "length ds = length chs" and m: "m \<noteq> 0"
      "ch_state (ds ! nat ((ich + 1 + int m) mod int (length chs))) = SDR_STATE_IDLE"
      "ch_T (ds ! nat ((ich + 1 + int m) mod int (length chs))) \<le> MAX_ACQ" for ds
  proof -
    have e: "(i + 1 + int l) mod int (length ds) = (ich + 1 + int (Suc l)) mod int (length chs)" for l
      unfolding i_def ds(2) mod_after by (simp add: ac_simps)
    obtain m' where m': "m = Suc m'" using m(1) by (cases m) auto
    have p: "ch_state (ds ! nat ((i + 1 + int m') mod int (length ds))) = SDR_STATE_IDLE"
      "ch_T (ds ! nat ((i + 1 + int m') mod int (length ds))) \<le> MAX_ACQ" unfolding e m' [symmetric] by (fact m(2), fact m(3))
    have "\<exists>l \<le> m'. ich' = (i + 1 + int l) mod int (length ds) \<and> ch_state (chs' ! nat ich') = SDR_STATE_SRCH"
      by (rule Suc.IH [OF ds(1) _ _ r _ _ p]) (use i Suc.prems(5,6) ds(2) m' in simp_all)
    then obtain l where "l \<le> m'" "ich' = (ich + 1 + int (Suc l)) mod int (length chs)" "ch_state (chs' ! nat ich') = SDR_STATE_SRCH" unfolding e by blast
    then show ?thesis using m' by (intro exI [of _ "Suc l"]) simp
  qed
  have m0: "nat ((ich + 1 + int m) mod int (length chs)) = nat i" if "m = 0" using that by (simp add: i_def)
  show ?case
  proof (cases "ch_state (chs ! nat i) = SDR_STATE_IDLE")
    case idle: True
    obtain b c where s: "may_search ix chs (chs ! nat i) = (b, c)" by fastforce
    note keep = may_search_keeps [OF s]
    show ?thesis
    proof (cases b)
      case True
      then have "chs' = chs[nat i := c\<lparr>ch_state := SDR_STATE_SRCH\<rparr>]" "ich' = i" using Suc.prems(4) idle s i(3) by (auto simp: Let_def)
      then show ?thesis using k by (intro exI [of _ 0]) (simp add: i_def)
    next
      case False
      have r: "next_search ix n (chs[nat i := c]) i = (chs', ich')" using Suc.prems(4) idle s i(3) False by (simp add: Let_def)
      have "lock_idle (chs ! nat i)" using Suc.prems(1) k by (simp add: no_search_def)
      then have "lock_idle c" "ch_state c \<noteq> SDR_STATE_SRCH" using keep idle by (auto simp: lock_idle_def states)
      then have "no_search (chs[nat i := c])" using Suc.prems(1) by (auto simp: no_search_def dest!: set_update_subset_insert [THEN subsetD])
      moreover have "m \<noteq> 0"
      proof
        assume "m = 0"
        then have "ch_T (chs ! nat i) \<le> MAX_ACQ" using m0 Suc.prems(8) by metis
        from may_search_short [OF this, of ix chs] show False using s False by simp
      qed
      ultimately show ?thesis using keep Suc.prems(7,8) k idle
        by (intro step [OF r]) (auto simp: nth_list_update)
    qed
  next
    case False
    have r: "next_search ix n chs i = (chs', ich')" using Suc.prems(4) False i(3) by (simp add: Let_def)
    have "m \<noteq> 0" using m0 Suc.prems(7) False by metis
    then show ?thesis using Suc.prems(1,7,8) by (intro step [OF r]) auto
  qed
qed simp

lemma next_search_length: "next_search ix n chs ich = (chs', ich') \<Longrightarrow> length chs' = length chs"
  by (induction ix n chs ich rule: next_search.induct) (auto simp: Let_def split: if_splits prod.splits)

lemma update_srch_ch_length: "length (rcv_chs (update_srch_ch r)) = length (rcv_chs r)"
  by (auto simp: update_srch_ch_def dest: next_search_length split: prod.splits)

lemma search_chosen:
  assumes ok: "rcv_ok r" and "rcv_use r \<le> 90"
    "\<forall>c \<in> set (rcv_chs r). ch_state c \<noteq> SDR_STATE_SRCH"
    "k < length (rcv_chs r)" "ch_state (rcv_chs r ! k) = SDR_STATE_IDLE" "ch_T (rcv_chs r ! k) \<le> MAX_ACQ"
  shows "let r' = update_srch_ch r; n = int (length (rcv_chs r)) in
    0 \<le> rcv_ich r' \<and> rcv_ich r' < n \<and> ch_state (rcv_chs r' ! nat (rcv_ich r')) = SDR_STATE_SRCH \<and>
    (rcv_ich r' - rcv_ich r - 1) mod n \<le> (int k - rcv_ich r - 1) mod n"
proof -
  let ?n = "int (length (rcv_chs r))" and ?i = "rcv_ich r"
  define m where "m = nat ((int k - ?i - 1) mod ?n)"
  have n: "0 < ?n" using assms(4) by (cases "rcv_chs r") auto
  have ich: "- 1 \<le> ?i" "?i < ?n" using ok n by (auto simp: rcv_ok_def)
  have m: "int m = (int k - ?i - 1) mod ?n" "m < length (rcv_chs r)" using n by (simp_all add: m_def nat_less_iff)
  have "(?i + 1 + int m) mod ?n = (?i + 1 + (int k - ?i - 1)) mod ?n" unfolding m(1) by (rule mod_add_right_eq)
  then have at: "(?i + 1 + int m) mod ?n = int k" using assms(4) by simp
  obtain chs ich where s: "next_search (rcv_ix r) (length (rcv_chs r)) (rcv_chs r) ?i = (chs, ich)" by fastforce
  have no: "no_search (rcv_chs r)" using ok assms(3) by (auto simp: rcv_ok_def no_search_def)
  from next_search_turn [OF no ich s order.refl m(2)] assms(5,6) at obtain l where
    l: "l \<le> m" "ich = (?i + 1 + int l) mod ?n" "ch_state (chs ! nat ich) = SDR_STATE_SRCH" by auto
  have "\<not> (?i \<ge> 0 \<and> ch_state (rcv_chs r ! nat ?i) = SDR_STATE_SRCH)" using assms(3) ich by auto
  then have u: "update_srch_ch r = r\<lparr>rcv_chs := chs, rcv_ich := ich\<rparr>"
    using assms(2) s by (auto simp: update_srch_ch_def MAX_BUFF_USE_def)
  have "(ich - ?i - 1) mod ?n = (?i + 1 + int l - (?i + 1)) mod ?n" unfolding l(2) by (metis diff_diff_eq mod_diff_left_eq)
  also have "\<dots> = int l" using l(1) m(2) by simp
  finally have "(ich - ?i - 1) mod ?n \<le> (int k - ?i - 1) mod ?n" using l(1) m(1) by simp
  then show ?thesis using l(2,3) n unfolding u Let_def by simp
qed

section \<open>Properties\<close>

text \<open>
  C20: one search at a time. Whatever the samples, in whatever order the threads of the channels take their
  rounds, at most one channel searches its signal, the one the receiver points at.
\<close>

theorem single_search:
  assumes "nav_keeps nd" "rcv_reach E cf nd R code2idx conf pntpos r" "j < length (rcv_chs r)" "k < length (rcv_chs r)"
    "ch_state (rcv_chs r ! j) = SDR_STATE_SRCH" "ch_state (rcv_chs r ! k) = SDR_STATE_SRCH"
  shows "j = k \<and> rcv_ich r = int k"
proof -
  have "int j = rcv_ich r" "int k = rcv_ich r" using rcv_reach_ok [OF assms(1,2)] assms(3-6) by (simp_all add: rcv_ok_def)
  then show ?thesis by simp
qed

theorem single_search_witness:
  "\<exists>r :: unit sdr_rcv_t. rcv_reach ext_demo ch_conf0 (sdr_nav_decode zero_lib no_decoder) decoders_demo (\<lambda>sys code. -1) (conf0 2) pntpos_demo r \<and>
    ch_state (rcv_chs r ! 0) = SDR_STATE_SRCH \<and> ch_state (rcv_chs r ! 1) \<noteq> SDR_STATE_SRCH"
proof -
  obtain r where r: "sdr_rcv_new ext_demo ch_conf0 demo_code demo_sec 1200000 [(''AFSD'', 1, 0), (''AFSD'', 2, 0)] rx_start (sdr_pvt_new ()) = Inr r"
    "length (rcv_chs r) = 2" "\<forall>c \<in> set (rcv_chs r). ch_state c = SDR_STATE_IDLE \<and> ch_T c = T_AFS" "rcv_ich r = - 1" "rcv_use r = 0" "rcv_pvt r = sdr_pvt_new ()"
    by (rule demo_receiver)
  let ?R = "rcv_reach ext_demo ch_conf0 (sdr_nav_decode zero_lib no_decoder) decoders_demo (\<lambda>sys code. -1) (conf0 2) pntpos_demo"
  define r' where "r' = update_srch_ch (r\<lparr>rcv_ix := 1\<rparr>)"
  have n: "?R r" by (rule rcv_reach.new [OF r(1)])
  then have "rcv_ok r" by (rule rcv_reach_ok [OF demo_keeps])
  then have ok: "rcv_ok (r\<lparr>rcv_ix := 1\<rparr>)" by (simp add: rcv_ok_def)
  have "ch_state (rcv_chs r ! 0) = SDR_STATE_IDLE \<and> ch_T (rcv_chs r ! 0) = T_AFS" using r(2,3) by simp
  then have s: "rcv_ich r' = 0" "ch_state (rcv_chs r' ! 0) = SDR_STATE_SRCH"
    using search_chosen [OF ok, of 0] r T_AFS_short by (auto simp: r'_def Let_def states)
  have l: "length (rcv_chs r') = 2" using r(2) by (simp add: r'_def update_srch_ch_length)
  have "rcv_pvt r' = sdr_pvt_new ()" using r(6) by (simp add: r'_def update_srch_ch_def split: prod.splits)
  then have "rcv_cycle libm_demo pntpos_demo (conf0 2) 1 r = Inr r'"
    by (simp add: rcv_cycle_def Let_def flip: r'_def) (simp add: sdr_pvt_udsol_def epoch_due_def sdr_pvt_new_def)
  from rcv_reach.cycle [OF n this] have reach: "?R r'" .
  moreover have "ch_state (rcv_chs r' ! 1) \<noteq> SDR_STATE_SRCH"
    using single_search [OF demo_keeps reach, of 0 1] l s(2) by auto
  ultimately show ?thesis using s(2) by blast
qed

text \<open>
  C21: the search goes round. When no channel searches, the buffer is not almost full and a channel with a
  short code is idle, the next cycle starts a search, and the channel it chooses does not come later in the
  round than any of these channels.
\<close>

theorem search_round_robin:
  assumes "nav_keeps nd" "rcv_reach E cf nd R code2idx conf pntpos r" "rcv_use r \<le> 90"
    "\<forall>c \<in> set (rcv_chs r). ch_state c \<noteq> SDR_STATE_SRCH"
    "k < length (rcv_chs r)" "ch_state (rcv_chs r ! k) = SDR_STATE_IDLE" "ch_T (rcv_chs r ! k) \<le> MAX_ACQ"
  shows "let r' = update_srch_ch r; n = int (length (rcv_chs r)) in
    0 \<le> rcv_ich r' \<and> rcv_ich r' < n \<and> ch_state (rcv_chs r' ! nat (rcv_ich r')) = SDR_STATE_SRCH \<and>
    (rcv_ich r' - rcv_ich r - 1) mod n \<le> (int k - rcv_ich r - 1) mod n"
  by (rule search_chosen [OF rcv_reach_ok [OF assms(1,2)] assms(3-7)])

theorem search_round_robin_witness:
  "\<exists>r :: unit sdr_rcv_t. rcv_reach ext_demo ch_conf0 (sdr_nav_decode zero_lib no_decoder) decoders_demo (\<lambda>sys code. -1) (conf0 2) pntpos_demo r \<and>
    length (rcv_chs r) = 2 \<and> rcv_ich (update_srch_ch r) = 0 \<and> ch_state (rcv_chs (update_srch_ch r) ! 0) = SDR_STATE_SRCH"
proof -
  obtain r where r: "sdr_rcv_new ext_demo ch_conf0 demo_code demo_sec 1200000 [(''AFSD'', 1, 0), (''AFSD'', 2, 0)] rx_start (sdr_pvt_new ()) = Inr r"
    "length (rcv_chs r) = 2" "\<forall>c \<in> set (rcv_chs r). ch_state c = SDR_STATE_IDLE \<and> ch_T c = T_AFS" "rcv_ich r = - 1" "rcv_use r = 0"
    by (rule demo_receiver)
  have "ch_state (rcv_chs r ! 0) = SDR_STATE_IDLE \<and> ch_T (rcv_chs r ! 0) = T_AFS" using r(2,3) by simp
  moreover have n: "rcv_reach ext_demo ch_conf0 (sdr_nav_decode zero_lib no_decoder) decoders_demo (\<lambda>sys code. -1) (conf0 2) pntpos_demo r"
    by (rule rcv_reach.new [OF r(1)])
  ultimately have "rcv_ich (update_srch_ch r) = 0 \<and> ch_state (rcv_chs (update_srch_ch r) ! 0) = SDR_STATE_SRCH"
    using search_round_robin [OF demo_keeps n, of 0] r T_AFS_short by (auto simp: Let_def states)
  then show ?thesis using n r(2) by blast
qed

text \<open>
  C28: no channel is ever acquired again by its own last Doppler. An idle channel counts no cycles, since losing
  the signal clears the count, but \<open>re_acq\<close> asks for two seconds of them: in every state the receiver can be
  in, for every idle channel and at any time, it refuses. A channel with a code cycle of more than four
  milliseconds is therefore not searched again unless another channel tracks the same satellite.
\<close>

theorem reacquisition_never:
  assumes "nav_keeps nd" "rcv_reach E cf nd R code2idx conf pntpos r" "c \<in> set (rcv_chs r)" "ch_state c = SDR_STATE_IDLE"
  shows "re_acq ix c = (False, c) \<and>
    (ch_T c > MAX_ACQ \<longrightarrow> (\<forall>d \<in> set (rcv_chs r). \<not> assists c d) \<longrightarrow> may_search ix (rcv_chs r) c = (False, c))"
proof -
  have "lock_idle c" using rcv_reach_ok [OF assms(1,2)] assms(3) by (simp add: rcv_ok_def)
  then have "lock c = 0" using assms(4) by (simp add: lock_idle_def states)
  then have r: "re_acq ix c = (False, c)" by (simp add: re_acq_def lock_time_def dmul_def MIN_LOCK_def)
  moreover have "may_search ix (rcv_chs r) c = (False, c)" if "ch_T c > MAX_ACQ" "\<forall>d \<in> set (rcv_chs r). \<not> assists c d"
  proof -
    have "find (assists c) (rcv_chs r) = None" using that(2) by (simp add: find_None_iff)
    then show ?thesis using that(1) by (simp add: may_search_def r assist_acq_def)
  qed
  ultimately show ?thesis by blast
qed

theorem reacquisition_never_witness:
  "\<exists>r :: unit sdr_rcv_t. length (rcv_chs r) = 2 \<and> ch_state (rcv_chs r ! 0) = SDR_STATE_IDLE \<and> re_acq 100000 (rcv_chs r ! 0) = (False, rcv_chs r ! 0)"
proof -
  obtain r where r: "sdr_rcv_new ext_demo ch_conf0 demo_code demo_sec 1200000 [(''AFSD'', 1, 0), (''AFSD'', 2, 0)] rx_start (sdr_pvt_new ()) = Inr r"
    "length (rcv_chs r) = 2" "\<forall>c \<in> set (rcv_chs r). ch_state c = SDR_STATE_IDLE \<and> ch_T c = T_AFS"
    by (rule demo_receiver)
  have "rcv_reach ext_demo ch_conf0 (sdr_nav_decode zero_lib no_decoder) decoders_demo (\<lambda>sys code. -1) (conf0 2) pntpos_demo r"
    by (rule rcv_reach.new [OF r(1)])
  from reacquisition_never [OF demo_keeps this, of "rcv_chs r ! 0" 100000] r(2,3) show ?thesis by auto
qed

end
