(* ===== verification/Sdr_Ch_Props.thy ===== *)
theory Sdr_Ch_Props
  imports Sdr_Ch_Demo
begin

text \<open>
  Properties of a receiver channel: every step of an AFS data channel returns and stays inside its arrays,
  a search ends, the time a channel keeps is continuous between two frames, and what goes wrong at the end
  of a week, when a secondary code is found, and with the long code of L2.
\<close>

section \<open>Every step returns\<close>

text \<open>
  C9: a channel stays inside its arrays. Whatever the samples, the correlators and the decoder give, whatever
  other channels do to the caches of the decoder, and in whatever order the channel is told to search and
  asked for correlators, the next step returns; and in tracking, the position of the code in the samples
  and the number of the sampled code are inside the buffer and the bank, although the code offset has just
  been moved by the carrier. The hypothesis on the move of the code is that it is less than a quarter of a
  cycle, a Doppler shift of a quarter of the speed of light.
\<close>

theorem tracking_safe:
  assumes "ext_ok E" "check_counts lib" "blocks_ok lib" "afsd_reach E lib other fs s c" "ch_state c = SDR_STATE_LOCK \<longrightarrow> aided time c"
    "samples_ok fs buff ix"
  shows "(\<exists>s' c'. sdr_ch_update E ch_conf0 (sdr_nav_decode lib other) time buff ix s c = Inr (s', c') \<and> afsd_reach E lib other fs s' c') \<and>
    (ch_state c = SDR_STATE_LOCK \<longrightarrow> (let d = wrap_code (carrier_aid time c) in
       0 \<le> code_pos d \<and> code_pos d \<le> ch_N d \<and> 0 \<le> bank_index d \<and> bank_index d < 10))"
proof (intro conjI impI)
  have ok: "afsd_ok fs s c" by (rule afsd_reach_ok [OF assms(1-4)])
  from sdr_ch_update_returns [OF assms(1-3) ok assms(5,6), of other] afsd_reach.update [OF assms(4-6)]
  show "\<exists>s' c'. sdr_ch_update E ch_conf0 (sdr_nav_decode lib other) time buff ix s c = Inr (s', c') \<and> afsd_reach E lib other fs s' c'" by blast
  let ?d = "wrap_code (carrier_aid time c)"
  assume st: "ch_state c = SDR_STATE_LOCK"
  then have o: "off_ok (ch_coff c)" "aided time c" "ch_T c = T_AFS" "fs_ok fs" "ch_fs c = fs" "ch_N c = afs_N fs"
    using ok assms(5) by (simp_all add: afsd_ok_def afs_set_up_def)
  have f: "ch_fix ?d = ch_fix c" by (simp add: ch_frame)
  show "let d = ?d in 0 \<le> code_pos d \<and> code_pos d \<le> ch_N d \<and> 0 \<le> bank_index d \<and> bank_index d < 10"
    using code_position [OF o(4) wrapped_offset [OF o(1-3)]] o(5,6) ch_fixD(6,7) [OF f]
    by (simp add: Let_def code_pos_def bank_index_def)
qed

theorem tracking_safe_witness:
  "\<exists>c. afsd_reach ext_demo zero_lib no_decoder 1200000 rx_start c \<and> ch_state c = SDR_STATE_SRCH \<and>
    (\<exists>s' c'. sdr_ch_update ext_demo ch_conf0 (sdr_nav_decode zero_lib no_decoder) 0 (replicate 6000 0) 0 rx_start c = Inr (s', c'))"
proof -
  obtain c where c: "afsd_reach ext_demo zero_lib no_decoder 1200000 rx_start c" "ch_state c = SDR_STATE_SRCH" using demo_search by blast
  from tracking_safe [OF ext_demo_ok zero_lib_check zero_lib_rest(2) c(1) _ demo_samples, of 0] c show ?thesis by (auto simp: states)
qed

section \<open>A search ends\<close>

text \<open>A sequence of steps, each with its time and samples.\<close>

fun ch_updates ::
  "'e sdr_ext_scheme \<Rightarrow> ch_conf \<Rightarrow> ('s \<Rightarrow> trk_ch \<Rightarrow> mod2err + 's \<times> trk_ch) \<Rightarrow> (rat \<times> u8 list \<times> int) list \<Rightarrow> 's \<Rightarrow> trk_ch \<Rightarrow> ch_err + 's \<times> trk_ch" where
  "ch_updates E cf nd [] s c = Inr (s, c)"
| "ch_updates E cf nd ((time, buff, ix) # xs) s c =
     res_bind (sdr_ch_update E cf nd time buff ix s c) (\<lambda>(s, c). ch_updates E cf nd xs s c)"

lemma search_end_stops:
  assumes "search_end E cf time P c = Inr c'"
  shows "ch_state c' \<in> {SDR_STATE_IDLE, SDR_STATE_LOCK} \<and> P_sum (ch_acq c') = None"
proof -
  have "(\<exists>fd cf' cn0. c' = search_done (start_track c time fd cf' cn0)) \<or> c' = search_done (c\<lparr>ch_state := SDR_STATE_IDLE\<rparr>)"
    using assms unfolding search_end_def Let_def by (auto split: if_splits prod.splits option.splits)
  then show ?thesis by (auto simp: search_done_def start_track_def trk_init_def Let_def)
qed

lemma search_sig_step:
  assumes "search_sig E cf time buff ix c = Inr c'"
  shows "if dmul (of_int (n_sum (ch_acq c) + 1)) (ch_T c) \<ge> sdr_t_acq cf
    then ch_state c' \<in> {SDR_STATE_IDLE, SDR_STATE_LOCK} \<and> P_sum (ch_acq c') = None
    else ch_state c' = ch_state c \<and> n_sum (ch_acq c') = n_sum (ch_acq c) + 1"
proof -
  obtain P where "(if dmul (of_int (n_sum (ch_acq (add_search P c)))) (ch_T (add_search P c)) \<ge> sdr_t_acq cf
      then search_end E cf time P (add_search P c) else Inr (add_search P c)) = Inr c'"
    using assms unfolding search_sig_def Let_def res_bind_Inr by blast
  then show ?thesis using search_end_stops [of E cf time P "add_search P c" c'] by (auto simp: add_search_fields split: if_splits)
qed

lemma five_cycles:
  assumes "1 \<le> k" "k \<le> 5" shows "sdr_t_acq ch_conf0 \<le> dmul (of_int k) T_AFS \<longleftrightarrow> k = 5"
proof -
  have h: "dbl (1 / 100) = 5764607523034235 / 2 ^ 59" using dbl_near [of "1 / 100" 59 5764607523034235] by simp
  have "5 * T_AFS = dbl (1 / 100)" unfolding h T_AFS_value by simp
  moreover have "dbl (dbl (1 / 100)) = dbl (1 / 100)"
    unfolding h by (rule dbl_grid [of 59]) (auto intro: on_gridI [of _ 5764607523034235 59])
  ultimately have five: "dmul 5 T_AFS = dbl (1 / 100)" by (simp add: dmul_def)
  have "dmul (of_int k) T_AFS < dbl (1 / 100)" if "k \<le> 4"
  proof -
    have "of_int k * T_AFS \<le> 4 * (2001 / 1000000)" using that assms(1) T_AFS_bounds by (intro mult_mono) auto
    then have x: "dmul (of_int k) T_AFS \<le> dbl (4 * (2001 / 1000000))" unfolding dmul_def by (rule dbl_mono)
    have "\<bar>dbl (4 * (2001 / 1000000)) - 4 * (2001 / 1000000)\<bar> \<le> 1 / 2 ^ 52" by (rule dbl_error_le) (simp_all add: at_least_tiny)
    from abs_le_D1 [OF this] show ?thesis unfolding h using x by simp
  qed
  then show ?thesis using assms five by (cases "k = 5") (auto simp: ch_conf0_def not_le)
qed

lemma search_run:
  assumes "ext_ok E" "ch_state c = SDR_STATE_SRCH" "afsd_ok fs s c" "\<forall>x \<in> set xs. samples_ok fs (fst (snd x)) (snd (snd x))"
    "0 \<le> n_sum (ch_acq c)" "n_sum (ch_acq c) + int (length xs) \<le> 5" "n_sum (ch_acq c) < 5"
  shows "\<exists>c'. ch_updates E ch_conf0 nd xs s c = Inr (s, c') \<and> (if n_sum (ch_acq c) + int (length xs) = 5
    then ch_state c' \<in> {SDR_STATE_IDLE, SDR_STATE_LOCK} \<and> P_sum (ch_acq c') = None else ch_state c' = SDR_STATE_SRCH)"
  using assms(2-)
proof (induction xs arbitrary: c)
  case (Cons x xs)
  obtain time buff ix where x: "x = (time, buff, ix)" by (cases x)
  obtain c1 where c1: "search_sig E ch_conf0 time buff ix c = Inr c1" "afsd_ok fs s c1"
    using search_sig_returns [OF assms(1) Cons.prems(2,1)] Cons.prems(3) x by fastforce
  have T: "ch_T c = T_AFS" using Cons.prems(2) by (simp add: afsd_ok_def afs_set_up_def)
  have u: "sdr_ch_update E ch_conf0 nd time buff ix s c = Inr (s, c1)" using c1(1) Cons.prems(1) by (simp add: sdr_ch_update_def)
  note st = search_sig_step [OF c1(1), unfolded T]
  show ?case
  proof (cases "n_sum (ch_acq c) + 1 = 5")
    case True
    then have "xs = []" using Cons.prems(5) by (cases xs) auto
    then show ?thesis using st u x True five_cycles [of 5] by simp
  next
    case False
    then have s1: "ch_state c1 = SDR_STATE_SRCH" "n_sum (ch_acq c1) = n_sum (ch_acq c) + 1"
      using st five_cycles [of "n_sum (ch_acq c) + 1"] Cons.prems(1,4,6) by auto
    from Cons.IH [OF s1(1) c1(2)] show ?thesis using Cons.prems(3-6) s1(2) u x False by (simp add: add.assoc)
  qed
qed auto

text \<open>
  C11: a search ends. Of the steps of an AFS data channel after a search has begun, the fifth, after exactly ten
  milliseconds of samples, ends it, in lock or idle and with the sums given up; until then the channel keeps
  searching. The comparison with the acquisition time is one of doubles that are just equal.
\<close>

theorem search_concludes:
  assumes "ext_ok E" "check_counts lib" "blocks_ok lib" "afsd_reach E lib other fs s c" "ch_state c = SDR_STATE_SRCH" "P_sum (ch_acq c) = None"
    "\<forall>x \<in> set xs. samples_ok fs (fst (snd x)) (snd (snd x))" "length xs \<le> 5"
  shows "\<exists>c'. ch_updates E ch_conf0 (sdr_nav_decode lib other) xs s c = Inr (s, c') \<and> (if length xs = 5
    then ch_state c' \<in> {SDR_STATE_IDLE, SDR_STATE_LOCK} \<and> P_sum (ch_acq c') = None else ch_state c' = SDR_STATE_SRCH)"
proof -
  have ok: "afsd_ok fs s c" by (rule afsd_reach_ok [OF assms(1-4)])
  then have "n_sum (ch_acq c) = 0" using assms(6) by (simp add: afsd_ok_def acq_ok_def Let_def)
  then show ?thesis using search_run [OF assms(1,5) ok assms(7), of "sdr_nav_decode lib other"] assms(8) by simp
qed

theorem search_concludes_witness:
  "\<exists>c c'. ch_state c = SDR_STATE_SRCH \<and> ch_updates ext_demo ch_conf0 (sdr_nav_decode zero_lib no_decoder) (replicate 5 (0, replicate 6000 0, 0)) rx_start c =
      Inr (rx_start, c') \<and> ch_state c' \<in> {SDR_STATE_IDLE, SDR_STATE_LOCK}"
proof -
  obtain c where c: "afsd_reach ext_demo zero_lib no_decoder 1200000 rx_start c" "ch_state c = SDR_STATE_SRCH" "P_sum (ch_acq c) = None"
    using demo_search by blast
  from search_concludes [OF ext_demo_ok zero_lib_check zero_lib_rest(2) c, of "replicate 5 (0, replicate 6000 0, 0)"] demo_samples c(2)
  show ?thesis by fastforce
qed

section \<open>The time a signal was sent\<close>

lemma step_time:
  assumes "ext_ok E" "afsd_ok fs s c" "ch_state c = SDR_STATE_LOCK" "aided time c" "samples_ok fs buff ix" "between_frames c"
    "sdr_ch_update E ch_conf0 (sdr_nav_decode lib other) time buff ix s c = Inr (s', c')"
  obtains x where "tow c' = tow (ch_update_tow T_AFS (wrap_code (carrier_aid time c)))" "week c' = week c"
    "\<bar>ch_coff c' - ch_coff (wrap_code (carrier_aid time c))\<bar> \<le> 1 / 2 ^ 24 + 1 / 2 ^ 52"
proof -
  have ok: "off_ok (ch_coff c)" "ch_T c = T_AFS" using assms(2,3) by (simp_all add: afsd_ok_def afs_set_up_def)
  have run: "track_sig E ch_conf0 (sdr_nav_decode lib other) time buff ix s c = Inr (s', c')"
    using assms(3,7) by (simp add: sdr_ch_update_def states)
  obtain c3 where c3: "tow c' = tow (ch_update_tow T_AFS (wrap_code (carrier_aid time c)))" "week c' = week c"
    "ch_coff c' = ch_coff (DLL E ch_conf0 c3)" "ch_coff c3 = ch_coff (wrap_code (carrier_aid time c))" "afs_set_up fs c3" "trk_ok fs c3"
    by (rule track_sig_time [OF assms(1-6) run])
  show ?thesis using that DLL_offset_close [OF assms(1) c3(5,6)] wrapped_offset [OF ok(1) assms(4) ok(2)] c3 by simp
qed

text \<open>
  C10: the time of a channel is continuous. Between two frames, a tracking step of an AFS data channel moves
  the time its signal was sent, time of week less code offset, by the two milliseconds of a code cycle
  plus the carrier's share, within a ten millionth of a second, whether or not the code wraps, the signal
  is lost, and whatever the correlators see. The bound is the move of the delay loop.
\<close>

theorem code_time_continuous:
  assumes "ext_ok E" "afsd_ok fs s c" "ch_state c = SDR_STATE_LOCK" "aided time c" "samples_ok fs buff ix" "between_frames c"
    "2 \<le> tow c" "tow c + 4 < WEEK_MS"
    "sdr_ch_update E ch_conf0 (sdr_nav_decode lib other) time buff ix s c = Inr (s', c')"
  shows "\<bar>sent_time c' - (sent_time c + 2 / 1000 + carrier_move time c)\<bar> \<le> 1 / 10 ^ 7 \<and> week c' = week c"
proof -
  let ?d = "wrap_code (carrier_aid time c)"
  have ok: "off_ok (ch_coff c)" "ch_T c = T_AFS" using assms(2,3) by (simp_all add: afsd_ok_def afs_set_up_def)
  obtain c3 where t: "tow c' = tow (ch_update_tow T_AFS ?d)" "week c' = week c" and
    e: "\<bar>ch_coff c' - ch_coff ?d\<bar> \<le> 1 / 2 ^ 24 + 1 / 2 ^ 52" by (rule step_time [OF assms(1-6,9)])
  note w = wrapped_time [OF ok(1) assms(4) ok(2) assms(7,8)]
  have "tow c' = tow ?d + 2" unfolding t(1) using w(2,3) by (simp add: ch_update_tow_def cycle_ms smod_nonneg WEEK_MS_def)
  then have "sent_time c' = of_int (tow ?d) / 1000 + 2 / 1000 - ch_coff c'" by (simp add: sent_time_def add_divide_distrib)
  moreover have "\<bar>of_int (tow ?d) / 1000 + 2 / 1000 - ch_coff c' - (sent_time c + 2 / 1000 + carrier_move time c)\<bar> \<le> 1 / 10 ^ 7"
    unfolding sent_time_def carrier_move_def
    by (rule abs_leI) (use abs_le_D1 [OF e] abs_le_D2 [OF e] abs_le_D1 [OF w(1)] abs_le_D2 [OF w(1)] in simp_all)
  ultimately show ?thesis using t(2) by simp
qed

theorem code_time_continuous_witness:
  "\<exists>c c'. tow c = 1000 \<and> week c = 5 \<and> week c' = 5 \<and> \<bar>sent_time c' - (sent_time c + 2 / 1000)\<bar> \<le> 1 / 10 ^ 7"
proof -
  obtain c s' c' where c: "afsd_ok 1200000 rx_start (locked 1000 c)" "aided (2 / 1000) (locked 1000 c)" "between_frames (locked 1000 c)"
    "carrier_move (2 / 1000) (locked 1000 c) = 0" and
    u: "sdr_ch_update ext_demo ch_conf0 (sdr_nav_decode zero_lib no_decoder) (2 / 1000) (replicate 6000 0) 0 rx_start (locked 1000 c) = Inr (s', c')"
    by (rule demo_locked)
  from code_time_continuous [OF ext_demo_ok c(1) locked_fields(1) c(2) demo_samples c(3) _ _ u] c(4)
  show ?thesis by (intro exI [of _ "locked 1000 c"] exI [of _ c']) (simp add: locked_fields WEEK_MS_def)
qed

text \<open>
  C29: the week does not turn. In the last cycle of a week the time of week wraps to its beginning, but the
  week stays: the time in weeks and seconds falls back by a whole week, until the next frame is decoded.
\<close>

theorem week_rollover:
  assumes "ext_ok E" "afsd_ok fs s c" "ch_state c = SDR_STATE_LOCK" "aided time c" "samples_ok fs buff ix" "between_frames c"
    "0 \<le> ch_coff (carrier_aid time c)" "ch_coff (carrier_aid time c) < T_AFS" "WEEK_MS - 2 \<le> tow c" "tow c < WEEK_MS"
    "sdr_ch_update E ch_conf0 (sdr_nav_decode lib other) time buff ix s c = Inr (s', c')"
  shows "week c' = week c \<and> tow c' = tow c + 2 - WEEK_MS \<and>
    \<bar>(of_int (week c') * 604800 + sent_time c') - (of_int (week c) * 604800 + sent_time c + 2 / 1000 + carrier_move time c - 604800)\<bar> \<le> 1 / 10 ^ 7"
proof -
  let ?d = "carrier_aid time c"
  have T: "ch_T ?d = T_AFS" using assms(2) ch_fixD(3) [OF carrier_aid_fix [of time c]] by (simp add: afsd_ok_def afs_set_up_def)
  have d: "wrap_code ?d = ?d" unfolding wrap_code_def Let_def T using assms(7,8) by simp
  obtain x :: 'b where t: "tow c' = tow (ch_update_tow T_AFS ?d)" "week c' = week c" and
    e: "\<bar>ch_coff c' - ch_coff ?d\<bar> \<le> 1 / 2 ^ 24 + 1 / 2 ^ 52" by (rule step_time [OF assms(1-6,11), unfolded d])
  have "tow c' = (tow c + 2) smod WEEK_MS" unfolding t(1) using assms(9) by (simp add: ch_update_tow_def cycle_ms WEEK_MS_def)
  also have "\<dots> = (tow c + 2) mod WEEK_MS" using assms(9) by (intro smod_nonneg) (simp_all add: WEEK_MS_def)
  also have "\<dots> = (tow c + 2 - WEEK_MS) mod WEEK_MS" by (simp only: minus_mod_self2)
  also have "\<dots> = tow c + 2 - WEEK_MS" using assms(9,10) by (intro mod_pos_pos_trivial) (simp_all add: WEEK_MS_def)
  finally have tw: "tow c' = tow c + 2 - WEEK_MS" .
  then have s: "sent_time c' = of_int (tow c) / 1000 + 2 / 1000 - 604800 - ch_coff c'"
    by (simp add: sent_time_def add_divide_distrib diff_divide_distrib WEEK_MS_def)
  have o: "- (1 / 2 ^ 13) \<le> ch_coff c" "ch_coff c \<le> T_AFS + 1 / 2 ^ 13" and m: "\<bar>carrier_move time c\<bar> \<le> 1 / 2 ^ 11"
    using assms(2-4) by (simp_all add: afsd_ok_def off_ok_def aided_def carrier_move_def)
  have "\<bar>ch_coff c - carrier_move time c\<bar> \<le> 1" by (rule abs_leI) (use o abs_le_D1 [OF m] abs_le_D2 [OF m] T_AFS_bounds in simp_all)
  then have "\<bar>dbl (ch_coff c - carrier_move time c) - (ch_coff c - carrier_move time c)\<bar> \<le> 1 / 2 ^ 52"
    by (rule dbl_error_le) (simp_all add: at_least_tiny)
  then have a: "\<bar>ch_coff ?d - (ch_coff c - carrier_move time c)\<bar> \<le> 1 / 2 ^ 52" by (simp add: dsub_def carrier_move_def)
  have "\<bar>(of_int (tow c) / 1000 + 2 / 1000 - 604800 - ch_coff c') -
      (of_int (tow c) / 1000 - ch_coff c + 2 / 1000 + carrier_move time c - 604800)\<bar> \<le> 1 / 10 ^ 7"
    by (rule abs_leI) (use abs_le_D1 [OF e] abs_le_D2 [OF e] abs_le_D1 [OF a] abs_le_D2 [OF a] in simp_all)
  moreover have "(of_int (week c') * 604800 + sent_time c') - (of_int (week c) * 604800 + sent_time c + 2 / 1000 + carrier_move time c - 604800) =
      (of_int (tow c) / 1000 + 2 / 1000 - 604800 - ch_coff c') - (of_int (tow c) / 1000 - ch_coff c + 2 / 1000 + carrier_move time c - 604800)"
    unfolding s sent_time_def [of c] t(2) by simp
  ultimately have "\<bar>(of_int (week c') * 604800 + sent_time c') -
      (of_int (week c) * 604800 + sent_time c + 2 / 1000 + carrier_move time c - 604800)\<bar> \<le> 1 / 10 ^ 7" by (simp only:)
  then show ?thesis using t(2) tw by (intro conjI)
qed

theorem week_rollover_witness:
  "\<exists>c c'. tow c = 604799999 \<and> tow c' = 1 \<and> week c = 5 \<and> week c' = 5 \<and>
    \<bar>(of_int (week c') * 604800 + sent_time c') - (of_int (week c) * 604800 + sent_time c + 2 / 1000 - 604800)\<bar> \<le> 1 / 10 ^ 7"
proof -
  obtain c s' c' where c: "afsd_ok 1200000 rx_start (locked 604799999 c)" "aided (2 / 1000) (locked 604799999 c)" "between_frames (locked 604799999 c)"
    "carrier_move (2 / 1000) (locked 604799999 c) = 0" "ch_coff (carrier_aid (2 / 1000) (locked 604799999 c)) = 0" and
    u: "sdr_ch_update ext_demo ch_conf0 (sdr_nav_decode zero_lib no_decoder) (2 / 1000) (replicate 6000 0) 0 rx_start (locked 604799999 c) = Inr (s', c')"
    by (rule demo_locked)
  have "0 < T_AFS" using T_AFS_bounds by simp
  then have p: "0 \<le> ch_coff (carrier_aid (2 / 1000) (locked 604799999 c))" "ch_coff (carrier_aid (2 / 1000) (locked 604799999 c)) < T_AFS"
    "WEEK_MS - 2 \<le> tow (locked 604799999 c)" "tow (locked 604799999 c) < WEEK_MS" unfolding c(5) by (simp_all add: locked_fields WEEK_MS_def)
  note r = week_rollover [OF ext_demo_ok c(1) locked_fields(1) c(2) demo_samples c(3) p u, unfolded c(4) add_0_right]
  show ?thesis
  proof (intro exI conjI)
    show "tow (locked 604799999 c) = 604799999" "week (locked 604799999 c) = 5" by (rule locked_fields)+
    show "tow c' = 1" "week c' = 5" using r by (simp_all add: locked_fields WEEK_MS_def)
    show "\<bar>(of_int (week c') * 604800 + sent_time c') -
      (of_int (week (locked 604799999 c)) * 604800 + sent_time (locked 604799999 c) + 2 / 1000 - 604800)\<bar> \<le> 1 / 10 ^ 7" using r by blast
  qed
qed

section \<open>Secondary codes\<close>

text \<open>
  C30: the secondary code is read before its beginning. In the step in which the code is found, the count
  since it was found is zero and the chip to remove is the one with number -1: the first read of every
  secondary code of two or more chips, of the pilot signal of the AFS among others, is outside its array.
\<close>

theorem sync_reads_before_code:
  assumes "trk_sec_sync c = 0" "0 < lock c" "2 \<le> n" "sec_found c n"
  shows "sync_sec_code c n = Inl Ch_bad_index"
proof -
  have "(- 1 :: int) smod int n = - 1" using assms(3) by (simp add: signed_modulo_int_def)
  then show ?thesis using assms by (simp add: sync_sec_code_def sec_search_def Let_def arr_at_def)
qed

text \<open>A pilot channel with a secondary code of two chips, and two correlations of one half.\<close>

theorem sync_reads_before_code_witness:
  "\<exists>c. trk_sec_sync c = 0 \<and> lock c = 800 \<and> sync_sec_code c 2 = Inl Ch_bad_index"
proof -
  obtain c where "sdr_ch_new ext_demo ch_conf0 demo_code demo_sec ''AFSD'' 1 1200000 0 = Inr (Some c)" by (rule demo_new)
  let ?c = "c\<lparr>trk_sec_sync := 0, lock := 800, ch_sec_code := [1, 1], trk_P := replicate SDR_N_HIST (1 / 2)\<rparr>"
  have l: "last_I 2 ?c = [1 / 2, 1 / 2]" by (simp add: last_I_def SDR_N_HIST_def upt_rec)
  have f: "\<bar>dbl (2 / 100)\<bar> \<le> 1 / 2 ^ 5" by (rule dbl_abs_le [OF _ dbl_half_power]) simp_all
  have "sec_corr ?c 2 = 1 / 2" "sec_abs ?c 2 = 1 / 2" unfolding sec_corr_def sec_abs_def l by (simp_all add: upt_rec half_flt)
  then have "sec_found ?c 2" using abs_le_D1 [OF f] by (simp add: sec_found_def THRES_SYNC_def)
  then show ?thesis using sync_reads_before_code [of ?c 2] by (intro exI [of _ ?c]) simp
qed

text \<open>
  A channel for the long code of L2, whose cycle is longer than the second over which the noise density is
  taken, never gets through a step of tracking: the number of cycles in that second is zero, and the
  lock count is divided by it.
\<close>

lemma L2CL_cycles: "int_of_dbl (ddiv T_CN0 (sdr_code_cyc ''L2CL'')) = 0"
proof -
  have "sdr_code_cyc ''L2CL'' = dbl (1500 / 1000)"
    by (simp add: sdr_code_cyc_def sig_upper_def to_upper_def lookup_sig_def code_cycles_def)
  also have "\<dots> = 3 / 2" using dbl_grid [of 1 "3 / 2"] on_gridI [of "3 / 2" 3 1 1] by simp
  finally have T: "sdr_code_cyc ''L2CL'' = 3 / 2" .
  have "ddiv 1 (3 / 2) \<le> 3 / 4" unfolding ddiv_def by (rule dbl_le) (use dbl_grid [of 2 "3 / 4"] on_gridI [of "3 / 4" 3 2 2] in simp_all)
  moreover have "0 \<le> ddiv 1 (3 / 2)" unfolding ddiv_def by (rule dbl_nonneg) simp
  ultimately show ?thesis unfolding T by (simp add: T_CN0_def int_of_dbl_def floor_eq_iff)
qed

lemma L2CL_divides_by_zero:
  assumes "ch_T c = sdr_code_cyc ''L2CL''"
  shows "track_sig E cf nd time buff ix s c \<noteq> Inr r"
proof
  assume "track_sig E cf nd time buff ix s c = Inr r"
  then obtain c1 c2 c3 where
    1: "correlate E buff ix (dadd (ch_fi c) (ch_fd c)) (dsub time (ch_time c)) (wrap_code (carrier_aid time c)) = Some c1" and
    2: "c2 = count_cycle (add_history c1) \<or> sync_sec_code (count_cycle (add_history c1)) (length (ch_sec_code (count_cycle (add_history c1)))) = Inr c2" and
    3: "CN0 E (DLL E cf (if lock_time c2 \<le> T_FPULLIN then FLL E cf c2 else PLL E cf c2)) = Inr c3"
    unfolding track_sig_def Let_def results by (fastforce simp: results split: if_splits)
  have "ch_fix c1 = ch_fix c" using stage_fix(3) [OF 1] by (simp add: ch_frame)
  moreover have "ch_fix c2 = ch_fix c1" using 2 by (auto simp: ch_frame dest: stage_fix(2))
  ultimately have "ch_fix (DLL E cf (if lock_time c2 \<le> T_FPULLIN then FLL E cf c2 else PLL E cf c2)) = ch_fix c" by (simp add: ch_frame)
  then have "ch_T (DLL E cf (if lock_time c2 \<le> T_FPULLIN then FLL E cf c2 else PLL E cf c2)) = sdr_code_cyc ''L2CL''" using assms by (auto dest: ch_fixD)
  then have "int_of_dbl (ddiv T_CN0 (ch_T (DLL E cf (if lock_time c2 \<le> T_FPULLIN then FLL E cf c2 else PLL E cf c2)))) = 0"
    by (simp only: L2CL_cycles)
  then show False using 3 unfolding CN0_def Let_def by simp
qed

end
