(* ===== verification/Spec2Isabelle.thy ===== *)
theory Spec2Isabelle
  imports Codec_Instances Afs_Props Mod2sparse_Alg_Props Sdr_Nav_Afs_Props Sdr_Nav_Afs_Tow
    Afs_Rand Sdr_Code_Afs_Props Afs_Sim_Chan_Props Sdr_Pvt_Props Sdr_Rcv_Props Sdr_Ch_Props
begin

text \<open>
  \<^bold>\<open>The LNIS AFS codec, verified.\<close>

  The repository validates the augmented forward signal (AFS) navigation frames of a lunar navigation
  system. Its C core is the native codec \<open>Native/LnisAfsCodec\<close>, which the application calls, built on
  the frame coder of the simulator LANS-AFS-SIM (\<open>afs_nav.c\<close>, with \<open>ldpc/mod2sparse.c\<close>,
  \<open>pocketsdr/pocketsdr.c\<close>, \<open>rtklib/rtkcmn.c\<close>) and on the LDPC decoder of the receiver PocketSDR-AFS
  (\<open>sdr_ldpc_afs.c\<close>); the receiver's own decoder of AFS frames is in \<open>sdr_nav.c\<close>, its ranging codes in
  \<open>sdr_code.c\<close>, its position solution for AFS satellites in \<open>sdr_pvt_afs.c\<close>, and the simulator that
  makes the signal is \<open>afs_sim.c\<close>. This development models that stack from the pointers of the sparse
  matrices up to the two calls of the codec, the symbol by symbol decoder of the receiver, its ephemeris
  and its position solution, and the frames, codes, orbits and samples of the simulator, and shows that
  the parts fit together.

  \<^bold>\<open>Parts and theories.\<close>

  \<^item> \<open>Afs_Prelude\<close>: C integer types as words, results with errors (\<open>error + value\<close>), arrays of bits,
    \<open>memcpy\<close>; the rule collections the other theories extend.
  \<^item> \<open>Afs_Bits\<close> (\<open>pocketsdr.c\<close>): packing, parity by table, shift register codes. \<open>Afs_Crc24q\<close>
    (\<open>rtkcmn.c\<close>): the CRC-24Q loop, its bit-serial reference, linearity and burst detection.
  \<^item> \<open>Mod2sparse\<close> (\<open>ldpc/mod2sparse.c\<close> and \<open>.h\<close>): sparse matrices over GF(2) with their heap of doubly
    linked nodes, blocks and free lists; an address is a header or a node of a block, and \<open>exit\<close> is an
    error value. \<open>Mod2sparse_Lists\<close>, \<open>Mod2sparse_Inv\<close>, \<open>Mod2sparse_Ops\<close>: segments of doubly linked
    lists, the representation invariant \<open>mat_rep\<close>, what each pointer operation does to it.
    \<open>Mod2sparse_Spec\<close>: the abstract contract \<open>mat_rel h m nr nc E\<close> (matrix \<open>m\<close> of heap \<open>h\<close> represents
    the positions \<open>E\<close>), the refinement of every operation, and the locale \<open>mod2_store\<close>, the interface
    the coder relies on, interpreted on the pointer model. \<open>Mod2sparse_Props\<close>: the properties.
  \<^item> \<open>Mod2sparse_Alg\<close> (same file): copying, choosing rows and columns, transposing, comparing, adding,
    multiplying, forward and backward substitution, as loops along rows and columns.
    \<open>Mod2sparse_Alg_Lemmas\<close>: cursors, the positions a pointer will still visit, and the loops that fill a
    matrix; \<open>Mod2sparse_Alg_Spec\<close>, \<open>Mod2sparse_Alg_Merge\<close>, \<open>Mod2sparse_Alg_Solve\<close>: what the
    operations compute; \<open>Mod2sparse_Alg_Props\<close>: their properties.
  \<^item> \<open>Afs_Tab_SF2\<close>, \<open>Afs_Tab_SF2_C\<close>, \<open>Afs_Tab_SF3\<close>, \<open>Afs_Tab_SF3_C\<close>: the ten index tables of
    \<open>afs_nav.c\<close>; \<open>Afs_Gf2\<close>, \<open>Afs_Inv_SF2\<close>, \<open>Afs_Inv_SF3\<close>: matrix products over GF(2) evaluated in the
    kernel, and that the tables of inverses are inverses.
  \<^item> \<open>Afs_Nav\<close>, \<open>Afs_Frame\<close> (functions of \<open>afs_nav.c\<close>): the LDPC coders with the matrices they cache in
    static variables (record \<open>nav_state\<close>), CRC, BCH code of subframe 1, interleaver.
  \<^item> \<open>Afs_Ldpc_Dec\<close> (\<open>sdr_ldpc_afs.c\<close>): the parity check matrix, its cache (record \<open>dec_state\<close>) and the
    decoder. \<open>Afs_Props\<close>: the properties of coder and decoder.
  \<^item> \<open>Lnis_Codec\<close> (\<open>lnis_afs_codec.c\<close> and \<open>.h\<close>): every function of the codec, over the record \<open>codec\<close> of
    the two caches and the error text. \<open>Lnis_Codec_Lemmas\<close>: the round trip, layer by layer.
    \<open>Lnis_Codec_Inv\<close>: the state invariant, the step relation \<open>codec_reach\<close> of all sequences of calls,
    and what a successful decoding guarantees. \<open>Codec_Instances\<close>: an LDPC library that satisfies the
    hypotheses, on blocks of zeros. This theory: the properties of the codec.
  \<^item> \<open>Sdr_Nav_Afs\<close> (\<open>sdr_nav.c\<close>, functions \<open>decode_AFSD\<close>, \<open>decode_AFSD_frame\<close>, \<open>sync_AFS_SF1_FID0\<close> and
    what they call): the receiver's decoder over the record \<open>rx\<close> of the channel, the static caches and
    the LDPC decoder's state. \<open>C_Double\<close>: addition, multiplication, division and truncation of doubles
    on rational numbers. \<open>Sdr_Nav_Afs_Lemmas\<close>: what synchronisation and the frame's parts yield;
    \<open>Sdr_Nav_Afs_Inv\<close>: the invariant \<open>rx_ok\<close> and the cases of a call; \<open>Sdr_Nav_Afs_Tow\<close>: the time of
    week; \<open>Sdr_Nav_Afs_Props\<close>: the step relation \<open>rx_reach\<close> and the properties of the receiver.

  \<^item> \<open>Afs_Sim_Code\<close> (\<open>afs_sim.c\<close>: \<open>icodegen\<close>, \<open>qcodegen\<close>, \<open>hex2bin\<close>, \<open>readTertiary\<close>) and \<open>Sdr_Code_Afs\<close>
    (\<open>sdr_code.c\<close>: the AFS codes and the L1 codes with the same tables, with the static caches as the record
    \<open>code_cache\<close>). \<open>Sdr_Code_Afs_Lemmas\<close>: shift registers and Legendre sequences, and the locale
    \<open>memo_codes\<close> of a generator with a cache, interpreted on five generators; \<open>Sdr_Code_Afs_Props\<close>: both
    programs make the same codes. \<open>Afs_Rand\<close> (\<open>afs_rand.c\<close>): the noise generator.
  \<^item> \<open>C_Double_Exact\<close>: where arithmetic on doubles is exact. \<open>Afs_Sim_Time\<close> (\<open>timeadd\<close>, \<open>gpst2afst\<close>): GPS and
    AFS time. \<open>Afs_Sim_Orbit\<close> (\<open>llh2xyz\<close>, \<open>ltcmat\<close>, \<open>xyz2neu\<close>, \<open>neu2azel\<close>, \<open>satpos\<close>, \<open>computeRange\<close> and the
    choice of visible satellites in \<open>main\<close>): coordinates, Kepler orbits and ranges.
    \<open>Afs_Sim_Chan\<close> (\<open>computeCodePhase\<close>, the sample loop of \<open>main\<close>, the sum of the channels and the
    quantiser): a channel, the record \<open>channel_t\<close>; reading outside an array is \<open>None\<close>.
    \<open>Afs_Sim_Chan_Inv\<close>: the invariant \<open>chan_ok\<close>; \<open>Afs_Sim_Chan_Props\<close>: its properties.
  \<^item> \<open>Afs_Sim_Frame\<close> (\<open>eph2sbf\<close> and the parts of \<open>main\<close> that build and update the frames),
    \<open>Afs_Sim_Frame_Lemmas\<close>: the frames are frames of the code. \<open>Afs_End_To_End\<close>, \<open>Afs_End_To_End_Props\<close>:
    the simulator's frames at the receiver, and its frame count over a run.
  \<^item> \<open>Sdr_Pvt_Afs\<close> (\<open>sdr_pvt_afs.c\<close>, with the functions of RTKLIB it calls): the ephemeris table, ranges,
    matrix inversion and the position solution. The matrix code takes its four operations as a record,
    \<open>dbl_arith\<close> for the program and \<open>exact_arith\<close> for the algorithm without rounding.
    \<open>Sdr_Pvt_Afs_Lemmas\<close>: elimination and least squares without rounding; \<open>Sdr_Pvt_Afs_Range\<close>: the
    ranges of both programs; \<open>Sdr_Pvt_Afs_Eph\<close>: what each field of the message loses;
    \<open>Sdr_Pvt_Afs_Obs\<close>: which observations are taken, circular orbits; \<open>Sdr_Pvt_Afs_Props\<close>: the properties.
  \<^item> \<open>Sdr_Pvt\<close> (\<open>sdr_pvt.c\<close>: \<open>sdr_pvt_new\<close>, \<open>sdr_pvt_udobs\<close>, \<open>sdr_pvt_udnav\<close>, \<open>sdr_pvt_udsol\<close> and what they call): the
    component that collects the observations of an epoch and calls the solution, over the record
    \<open>sdr_pvt_t\<close>; the decoders and the positioning of RTKLIB are arguments. \<open>Sdr_Pvt_Lemmas\<close>: roundings, times
    and identifiers; \<open>Sdr_Pvt_Flight\<close>: the time of flight in each branch of \<open>gen_prng\<close>; \<open>Sdr_Pvt_Inv\<close>: the invariant \<open>pvt_ok\<close>, the step relation \<open>pvt_reach\<close>, an epoch of AFS
    satellites; \<open>Sdr_Pvt_Props\<close>: the properties.
  \<^item> \<open>Sdr_Corr\<close> (\<open>sdr_func.c\<close>, and the sampled codes of \<open>sdr_code.c\<close>): carrier mixing by table, correlators,
    parallel code search, fine Doppler; a read or write outside an array is \<open>None\<close>. The C library, the Fourier
    transform and the least squares routine are the record \<open>sdr_ext\<close>, which extends \<open>libm\<close>; \<open>flt\<close> is the rounding to a
    \<open>float\<close>. \<open>Sdr_Corr_Lemmas\<close>: when they stay inside the buffer. \<open>C_Double_Mono\<close>: rounding is monotone.
  \<^item> \<open>Sdr_Ch\<close> and \<open>Sdr_Trk\<close> (\<open>sdr_ch.c\<close>): a receiver channel, the record \<open>trk_ch\<close> that extends \<open>pvt_ch\<close> of \<open>Sdr_Pvt\<close> by
    the rest of \<open>sdr_ch_t\<close>, \<open>sdr_acq_t\<close> and \<open>sdr_trk_t\<close>. Its states are idle, search and lock; \<open>sdr_ch_update\<close> is a
    step, with the navigation decoder as an argument; an index outside an array, an uninitialised variable and a
    division by zero are values of \<open>ch_err\<close>. \<open>Sdr_Rcv\<close> (\<open>sdr_rcv.c\<close>, and the dispatch in \<open>sdr_nav.c\<close>): the receiver
    \<open>sdr_rcv_t\<close> of channels with their read pointers, the choice of the next search, the rounds of the threads.
    \<open>Sdr_Ch_Lemmas\<close>: what each stage of tracking keeps; \<open>Sdr_Ch_Inv\<close>: the invariant \<open>afsd_ok\<close> of an AFS data
    channel; \<open>Sdr_Ch_Safe\<close>: a step returns and keeps it; \<open>Sdr_Ch_New\<close>: a new channel has it, and the step relation
    \<open>afsd_reach\<close>; \<open>Sdr_Ch_Time\<close>: time of week and code offset; \<open>Sdr_Ch_Demo\<close>: a channel and a receiver for the
    witnesses; \<open>Sdr_Ch_Props\<close>, \<open>Sdr_Rcv_Props\<close> (with the step relation \<open>rcv_reach\<close>): the properties.

  \<^bold>\<open>What is shown.\<close> Encoding and decoding are inverse to each other when the LDPC library finds the
  transmitted codeword; a decoding that reports success is sound whatever the library does; in every
  state calls can lead to, every call returns a result code; errors leave the caller's arrays as the
  code says. Below, the symbols of the coder are part of a codeword of the decoder's matrix, every
  matrix operation refines its counterpart on sets of positions, the table-driven CRC and parity are
  their bit-serial references, and the index tables of the inverses are inverses. \<open>mod2sparse_clear\<close>
  is shown to leave a pointer into freed memory. The receiver decodes the frames of the encoder when
  the LDPC library recovers subframe 2, in either polarity while it is not synchronised and in the polarity of
  the last frame afterwards (it drops a frame of the other one); it never fails on any sequence of symbols, and
  its time of week is exact or one millisecond early, which happens. The simulator's clock arithmetic is exact, its spreading codes are
  the receiver's, its channels stay within their arrays while the carrier phase does not run backwards
  (and can leave them when it does), and its frames give the receiver the week and time they were
  made for; except in the last frame of an interval, where the frame number becomes 100 and the
  receiver drops the frame. The ephemeris in the receiver is the simulator's up to the resolution of
  the fields, for orbits within \<open>eph_range\<close> (of the default almanac the satellites 1, 2 and 4; the others have an
  angle whose conversion is undefined in C, and nothing is claimed of them); the least squares step, without rounding, has the least residual; in doubles the true
  position is a fixed point of the iteration when the satellite clocks are right, and their errors are
  left out otherwise; the solution stays in its arrays for AFS satellites, and does not when other
  systems are observed too, or a satellite without a pseudorange. The table of observations never
  overflows, an epoch of AFS satellites leads from the channels to a solution without an error
  provided that the Kepler loop ends for every stored ephemeris, and at whole seconds pseudoranges are right to a
  decimetre when the channel has the receiver's week and a time of week within a second of the receiver's time, to
  a metre with a week one away, a tenth of a second ambiguous when the week is unknown and the time of week is
  marked so, and 0 otherwise. An AFS data channel never leaves its buffers, codes and correlators, its
  searches end after ten milliseconds, and the time it keeps runs on by a code cycle at every step to a ten
  millionth of a second, except that the week number does not turn with the week; the receiver has one channel
  search at a time and takes the channels in turn, and never acquires one again by its last Doppler, although
  it means to. Channels with a secondary code read before its beginning when they find it.

  \<^bold>\<open>Conventions.\<close> A pointer argument is an option (\<open>None\<close> is \<open>NULL\<close>) of the array it points to; the
  arrays a call writes are part of its result. A loop along a list carries as fuel the number of rows
  plus columns of the matrix and one more; a list of a well-formed matrix has no more nodes than that,
  so that the error \<open>No_return\<close> never occurs (the refinement theorems state a result, not only what
  holds of it). Allocation is taken to succeed, and the caches of coder and decoder, whose pointers
  never meet, live in heaps of their own. Likelihood ratios are real numbers. A double is the rational
  number it stands for, and every operation rounds to the nearest double as IEEE 754 does; the option
  \<open>-Ofast\<close> of the simulator's makefile lets a compiler deviate from that. The bounds on times
  (\<open>on_grid K x\<close>: \<open>x\<close> is a multiple of \<open>2 ^ -K\<close> with 53 significant bits) hold for every double that is not
  astronomically small, and a run of the simulator is at most a million rounds of a tenth of a second,
  more than a day. The C standard does not fix the accuracy of \<open>sin\<close>, \<open>cos\<close>, \<open>atan2\<close> and \<open>sqrt\<close>: they are
  the record \<open>libm\<close>, and \<open>sqrt_dbl\<close> (a square root is a double) is all that is asked of them. The Kepler
  loop is a partial function, \<open>None\<close> when it does not end; \<open>kepler_ends\<close> names that it does, and circular
  orbits are shown to satisfy it, eccentric ones such as those of the default almanac are not. A quotient by zero, which C makes infinite or not a number, is zero; no
  property rests on one. A conversion of a double out of the range of its integer type, which is undefined in C
  (\<open>sdr_pvt.c\<close> for the signal strength, \<open>eph2sbf\<close> for angles), wraps in the model, and no property rests on the
  value. The counters \<open>lock\<close> and of cycles, of type \<open>int\<close>, are unbounded integers. An observation has no
  Doppler frequency (field \<open>D\<close>), which the modelled code only writes. The runs \<open>rx_reach\<close> of the decoder start with
  its initial state and do not initialise it again in between, as the start of tracking does; the runs \<open>afsd_reach\<close>
  of a channel cover that. Correlator sampling rates are from 1.2 to 1000 million samples a second (\<open>fs_ok\<close>), for which
  positions in the buffer are exact to a sample, and \<open>aided\<close> bounds the move of the code in one step.

  \<^bold>\<open>Not modelled.\<close> Of \<open>mod2sparse.c\<close>, adding to a row or column, the LU decomposition, freeing and
  printing. The functions \<open>prprp_decode\<close>, \<open>check\<close> and \<open>changed\<close> of the library LDPC-codes are
  not in the repository: they are the record \<open>ldpc_lib\<close>, and \<open>check_counts\<close>, \<open>changed_counts\<close>,
  \<open>blocks_ok\<close> and \<open>recovers\<close> name what the properties assume of them. Of the simulator, calendar dates, reading the
  almanac and the command line, and the output file. Logging and printing of arrays, the receiver's other
  message decoders and ranging codes, the loops with vector instructions (\<open>AVX2\<close>, \<open>NEON\<close>), which add in
  another order, spectra, the positioning with other systems and device code (drivers, files, starting and
  stopping of threads; a thread's round is one step), the RTCM and NMEA output, the C# application and the vendored bladeRF, HDTN and RTKLIB sources,
  but for the few functions the modelled code calls, are left out.
\<close>

section \<open>Frames: encoding and decoding\<close>

text \<open>
  C1: a frame encoded with any TOI below 100 from three blocks of bits is decoded, with the same TOI,
  to the same three blocks, with return value 0 and all flags set, whenever the LDPC library finds
  the transmitted codewords; synchronisation pattern, subframe 1, interleaving, puncturing, parity
  checks and CRCs all fit together.
\<close>

theorem codec_roundtrip:
  assumes "codec_ok st" "toi < 100" "bitarr d2" "length d2 = 1176" "bitarr d3" "length d3 = 846" "bitarr d4" "length d4 = 846"
    and "length buf = 750" "length b2 = 1176" "length b3 = 846" "length b4 = 846"
    and "check_counts lib" "changed_counts lib"
    and "recovers lib SF2_H 5040 6240 (received_sb2 (sb2_symbols d2)) (SF2_codeword (with_crc d2))"
    and "recovers lib SF3_H 3696 4576 (received_sb34 (sb34_symbols d3)) (sb34_codeword d3)"
    and "recovers lib SF3_H 3696 4576 (received_sb34 (sb34_symbols d4)) (sb34_codeword d4)"
  shows "\<exists>st1 bytes st2 stat.
    lnis_afs_encode_frame toi (Some d2) 1176 (Some d3) 846 (Some d4) 846 (Some buf) 750 st = Inr (st1, 0, Some bytes) \<and>
    lnis_afs_decode_frame lib toi (Some bytes) 750 1176 846 846
      \<lparr>out_sb2 = Some b2, out_sb3 = Some b3, out_sb4 = Some b4, out_status = Some s0\<rparr> st1 =
      Inr (st2, 0, \<lparr>out_sb2 = Some d2, out_sb3 = Some d3, out_sb4 = Some d4, out_status = Some stat\<rparr>) \<and>
    sb2_ok stat = 1 \<and> sb3_ok stat = 1 \<and> sb4_ok stat = 1 \<and> codec_ok st2 \<and> last_error st2 = []"
proof -
  let ?bytes = "pack (frame_of toi d2 d3 d4) 6000"
  obtain s' where e: "lnis_afs_encode_frame toi (Some d2) 1176 (Some d3) 846 (Some d4) 846 (Some buf) 750 st =
      Inr (st\<lparr>nav := s', last_error := []\<rparr>, 0, Some ?bytes)" "nav_ok s'"
    using encode_frame_ok [OF _ assms(2-9)] assms(1) unfolding codec_ok_def by blast
  let ?st = "st\<lparr>nav := s', last_error := []\<rparr>"
  have dok: "dec_ok (dec ?st)" using assms(1) by (simp add: codec_ok_def)
  have "unpack ?bytes 6000 = frame_of toi d2 d3 d4"
    by (rule unpack_pack) (use bitarr_frame_of [OF assms(3-8)] in simp_all)
  from decode_encoded [OF assms(13,14) dok assms(2-8,15-17) assms(10-12) this, of s0] obtain st2 stat where
    d: "lnis_afs_decode_frame lib toi (Some ?bytes) 750 1176 846 846
      \<lparr>out_sb2 = Some b2, out_sb3 = Some b3, out_sb4 = Some b4, out_status = Some s0\<rparr> ?st =
      Inr (st2, 0, \<lparr>out_sb2 = Some d2, out_sb3 = Some d3, out_sb4 = Some d4, out_status = Some stat\<rparr>)"
    "sb2_ok stat = 1" "sb3_ok stat = 1" "sb4_ok stat = 1" "last_error st2 = []" by blast
  have "codec_ok ?st" using assms(1) e(2) by (simp add: codec_ok_def)
  then have "codec_ok st2"
    using decode_frame_total [of ?st lib toi "Some ?bytes" 750 1176 846 846
      "\<lparr>out_sb2 = Some b2, out_sb3 = Some b3, out_sb4 = Some b4, out_status = Some s0\<rparr>"] d(1) by auto
  with e d show ?thesis by blast
qed

theorem codec_roundtrip_witness:
  "\<exists>st1 bytes st2 stat.
    lnis_afs_encode_frame 7 (Some (replicate 1176 0)) 1176 (Some (replicate 846 0)) 846 (Some (replicate 846 0)) 846
      (Some (replicate 750 0)) 750 codec0 = Inr (st1, 0, Some bytes) \<and>
    lnis_afs_decode_frame zero_lib 7 (Some bytes) 750 1176 846 846 zeros_out st1 =
      Inr (st2, 0, \<lparr>out_sb2 = Some (replicate 1176 0), out_sb3 = Some (replicate 846 0), out_sb4 = Some (replicate 846 0),
        out_status = Some stat\<rparr>) \<and>
    sb2_ok stat = 1 \<and> sb3_ok stat = 1 \<and> sb4_ok stat = 1 \<and> codec_ok st2 \<and> last_error st2 = []"
  unfolding zeros_out_def
  by (rule codec_roundtrip)
    (use zero_lib_ok in \<open>simp_all add: with_crc_zeros codewords_zero sb34_codeword_zero\<close>)


text \<open>
  C8: a call of the encoder with valid arguments returns 0, clears the error message and writes the
  750 bytes whose bits are the synchronisation pattern, subframe 1 for the TOI, and the interleaved
  symbols of the three blocks with their CRCs; the decoder's state is not touched.
\<close>

theorem encode_frame_spec:
  assumes "codec_ok st" "toi < 100" "bitarr d2" "length d2 = 1176" "bitarr d3" "length d3 = 846"
    "bitarr d4" "length d4 = 846" "length buf = 750"
  shows "\<exists>st' bytes. lnis_afs_encode_frame toi (Some d2) 1176 (Some d3) 846 (Some d4) 846 (Some buf) 750 st = Inr (st', 0, Some bytes) \<and>
    length bytes = 750 \<and> codec_ok st' \<and> dec st' = dec st \<and> lnis_afs_get_last_error st' = [] \<and>
    unpack bytes 6000 = unpack sync_bytes 68 @ generate_BCH_AFS_SF1 0 (ucast toi) @
      interleave_AFS_SF234 (sb2_symbols d2 @ sb34_symbols d3 @ sb34_symbols d4)"
proof -
  have nav: "nav_ok (nav st)" using assms(1) by (simp add: codec_ok_def)
  obtain s' where s': "lnis_afs_encode_frame toi (Some d2) 1176 (Some d3) 846 (Some d4) 846 (Some buf) 750 st =
      Inr (st\<lparr>nav := s', last_error := []\<rparr>, 0, Some (pack (frame_of toi d2 d3 d4) 6000))" "nav_ok s'"
    using encode_frame_ok [OF nav assms(2-9)] .
  have "unpack (pack (frame_of toi d2 d3 d4) 6000) 6000 = frame_of toi d2 d3 d4"
    by (rule unpack_pack) (use bitarr_frame_of [OF assms(3-8)] in simp_all)
  then show ?thesis
    using s' assms(1) by (simp add: codec_ok_def lnis_afs_get_last_error_def frame_of_def)
qed

theorem encode_frame_spec_witness:
  "\<exists>st' bytes. lnis_afs_encode_frame 99 (Some (replicate 1176 0)) 1176 (Some (replicate 846 0)) 846 (Some (replicate 846 0)) 846
      (Some (replicate 750 7)) 750 codec0 = Inr (st', 0, Some bytes) \<and>
    length bytes = 750 \<and> codec_ok st' \<and> dec st' = dec codec0 \<and> lnis_afs_get_last_error st' = [] \<and>
    unpack bytes 6000 = unpack sync_bytes 68 @ generate_BCH_AFS_SF1 0 (ucast (99 :: u8)) @
      interleave_AFS_SF234 (sb2_symbols (replicate 1176 0) @ sb34_symbols (replicate 846 0) @ sb34_symbols (replicate 846 0))"
  by (rule encode_frame_spec) simp_all

text \<open>
  C7: a decoding that returns 0 is sound, whatever the LDPC decoder does: the frame carries the
  synchronisation pattern and the subframe 1 of the TOI asked for, and each of the three blocks
  returned is the data part of a word that satisfies every parity check of its code and whose CRC is
  right.
\<close>

theorem decode_frame_sound:
  assumes "check_counts lib" "blocks_ok lib" "codec_ok st"
    "length b2 = 1176" "length b3 = 846" "length b4 = 846"
    "lnis_afs_decode_frame lib toi (Some bytes) 750 1176 846 846
       \<lparr>out_sb2 = Some b2, out_sb3 = Some b3, out_sb4 = Some b4, out_status = Some s0\<rparr> st = Inr (st', 0, out')"
  shows "toi < 100 \<and> take 68 (unpack bytes 6000) = unpack sync_bytes 68 \<and>
    take 52 (drop 68 (unpack bytes 6000)) = generate_BCH_AFS_SF1 0 (ucast toi) \<and>
    (\<exists>d2 d3 d4 stat. out' = \<lparr>out_sb2 = Some d2, out_sb3 = Some d3, out_sb4 = Some d4, out_status = Some stat\<rparr> \<and>
      good_block SF2_H 5040 6240 1176 d2 \<and> good_block SF3_H 3696 4576 846 d3 \<and> good_block SF3_H 3696 4576 846 d4)"
  using decode_frame_good [OF assms(1-3) refl assms(4-7)] by blast

theorem decode_frame_sound_witness:
  "take 68 (unpack zero_bytes 6000) = unpack sync_bytes 68 \<and>
    (\<exists>st' out'. lnis_afs_decode_frame zero_lib 7 (Some zero_bytes) 750 1176 846 846 zeros_out codec0 = Inr (st', 0, out') \<and>
      (\<exists>d2 d3 d4 stat. out' = \<lparr>out_sb2 = Some d2, out_sb3 = Some d3, out_sb4 = Some d4, out_status = Some stat\<rparr> \<and>
        good_block SF2_H 5040 6240 1176 d2 \<and> good_block SF3_H 3696 4576 846 d3 \<and> good_block SF3_H 3696 4576 846 d4))"
proof -
  obtain st' out' where d: "lnis_afs_decode_frame zero_lib 7 (Some zero_bytes) 750 1176 846 846 zeros_out codec0 = Inr (st', 0, out')"
    using decode_zero_bytes by blast
  from decode_frame_sound [OF zero_lib_check zero_lib_rest(2) codec_ok_codec0 _ _ _ this [unfolded zeros_out_def]] d
  show ?thesis unfolding zeros_out_def by auto
qed

section \<open>Errors\<close>

lemma unat_ucast_i32: "unat (ucast (t :: u8) :: i32) = unat t"
proof -
  have "unat t < 2 ^ 8" using unsigned_less [of t] by simp
  then show ?thesis by (simp add: unsigned_ucast_eq take_bit_nat_eq_self)
qed

text \<open>
  A frame encoded for one TOI and decoded with another one is refused with the message of the
  subframe 1 check; no block is written, only the status is reset.
\<close>

theorem wrong_toi_refused:
  assumes "toi < 100" "toi' < 100" "toi \<noteq> toi'" "unpack bytes 6000 = frame_of toi d2 d3 d4"
    "out_sb2 out \<noteq> None" "out_sb3 out \<noteq> None" "out_sb4 out \<noteq> None" "out_status out \<noteq> None"
  shows "lnis_afs_decode_frame lib toi' (Some bytes) 750 1176 846 846 out st =
    Inr (st\<lparr>last_error := ''AFS SB1/TOI mismatch''\<rparr>, -1, out\<lparr>out_status := Some zero_status\<rparr>)"
proof (rule decode_frame_bad_sb1)
  show "\<not> decode_args_bad toi' (Some bytes) 750 1176 846 846 out"
    using assms(2,5-8) by (simp add: decode_args_bad_def)
  show "take 68 (unpack (the (Some bytes)) 6000) = unpack sync_bytes 68" by (simp add: assms(4) frame_of_def)
  have "(ucast t :: i32) < 128" if "t < 100" for t :: u8
    using that by (simp add: word_less_nat_alt unat_ucast_i32)
  then have lt: "(ucast toi :: i32) < 128" "(ucast toi' :: i32) < 128" using assms(1,2) by auto
  show "take 52 (drop 68 (unpack (the (Some bytes)) 6000)) \<noteq> generate_BCH_AFS_SF1 0 (ucast toi')"
  proof
    assume "take 52 (drop 68 (unpack (the (Some bytes)) 6000)) = generate_BCH_AFS_SF1 0 (ucast toi')"
    then have "generate_BCH_AFS_SF1 0 (ucast toi) = generate_BCH_AFS_SF1 0 (ucast toi')"
      by (simp add: assms(4) frame_of_def)
    with BCH_args_eq [of 0 0 "ucast toi" "ucast toi'"] lt have "(ucast toi :: i32) = ucast toi'" by simp
    with assms(3) show False by (simp add: word_unat_eq_iff unat_ucast_i32)
  qed
qed

theorem wrong_toi_refused_witness:
  "lnis_afs_decode_frame zero_lib 8 (Some zero_bytes) 750 1176 846 846 zeros_out codec0 =
    Inr (codec0\<lparr>last_error := ''AFS SB1/TOI mismatch''\<rparr>, -1, zeros_out)"
proof -
  have "lnis_afs_decode_frame zero_lib 8 (Some zero_bytes) 750 1176 846 846 zeros_out codec0 =
      Inr (codec0\<lparr>last_error := ''AFS SB1/TOI mismatch''\<rparr>, -1, zeros_out\<lparr>out_status := Some zero_status\<rparr>)"
    by (rule wrong_toi_refused [OF _ _ _ unpack_zero_bytes]) (simp_all add: zeros_out_def)
  then show ?thesis by (simp add: zeros_out_def)
qed

text \<open>
  A call of the encoder with an argument out of range returns \<open>-1\<close> with the message of the first
  check that fails (TOI, lengths, contents, in this order) and writes nothing to the frame.
\<close>

theorem encode_frame_errors:
  assumes "encode_args_bad toi sb2 n2 sb3 n3 sb4 n4 fb fl = Some msg"
  shows "lnis_afs_encode_frame toi sb2 n2 sb3 n3 sb4 n4 fb fl st = Inr (st\<lparr>last_error := msg\<rparr>, -1, fb) \<and>
    lnis_afs_get_last_error (st\<lparr>last_error := msg\<rparr>) = msg"
  using encode_frame_refused [OF assms] by (simp add: lnis_afs_get_last_error_def)

theorem encode_frame_errors_witness:
  "lnis_afs_encode_frame 100 None 0 None 0 None 0 None 0 codec0 =
     Inr (codec0\<lparr>last_error := ''TOI must be in the range 0..99''\<rparr>, -1, None)"
  using encode_frame_errors [of 100 None 0 None 0 None 0 None 0 "''TOI must be in the range 0..99''" codec0]
  by (simp add: encode_args_bad_def)

text \<open>
  A call of the decoder with a missing buffer, a wrong length or a TOI above 99 returns \<open>-1\<close> and
  writes nothing at all; a frame without the synchronisation pattern is refused with the status reset
  and the blocks as they were.
\<close>

theorem decode_frame_errors:
  "(decode_args_bad toi fb fl n2 n3 n4 out \<longrightarrow> lnis_afs_decode_frame lib toi fb fl n2 n3 n4 out st =
      Inr (st\<lparr>last_error := ''Invalid AFS decode argument''\<rparr>, -1, out)) \<and>
   (\<not> decode_args_bad toi fb fl n2 n3 n4 out \<and> take 68 (unpack (the fb) 6000) \<noteq> unpack sync_bytes 68 \<longrightarrow>
      lnis_afs_decode_frame lib toi fb fl n2 n3 n4 out st =
      Inr (st\<lparr>last_error := ''AFS synchronization pattern mismatch''\<rparr>, -1, out\<lparr>out_status := Some zero_status\<rparr>))"
  using decode_frame_bad_args decode_frame_bad_sync by blast

lemma unpack_zeros_nth0: "unpack (replicate 750 0) 6000 ! 0 = 0" "unpack sync_bytes 68 ! 0 = 1"
  by (simp_all add: unpack_def sync_bytes_def)

theorem decode_frame_errors_witness:
  "lnis_afs_decode_frame zero_lib 7 None 750 1176 846 846 zeros_out codec0 =
     Inr (codec0\<lparr>last_error := ''Invalid AFS decode argument''\<rparr>, -1, zeros_out) \<and>
   lnis_afs_decode_frame zero_lib 7 (Some (replicate 750 0)) 750 1176 846 846 zeros_out codec0 =
     Inr (codec0\<lparr>last_error := ''AFS synchronization pattern mismatch''\<rparr>, -1, zeros_out\<lparr>out_status := Some zero_status\<rparr>)"
proof -
  have bad: "decode_args_bad 7 None 750 1176 846 846 zeros_out"
    and good: "\<not> decode_args_bad 7 (Some (replicate 750 0)) 750 1176 846 846 zeros_out"
    by (simp_all add: decode_args_bad_def zeros_out_def)
  have "take 68 (unpack (replicate 750 0) 6000) ! 0 \<noteq> unpack sync_bytes 68 ! 0"
    by (simp add: unpack_zeros_nth0)
  then have "take 68 (unpack (the (Some (replicate 750 0))) 6000) \<noteq> unpack sync_bytes 68" by (metis option.sel)
  with bad good show ?thesis
    using decode_frame_errors [of 7 None 750 1176 846 846 zeros_out zero_lib codec0]
      decode_frame_errors [of 7 "Some (replicate 750 0)" 750 1176 846 846 zeros_out zero_lib codec0] by blast
qed

text \<open>
  A block of subframe 3 or 4 that is not accepted leaves the caller's array as it was; an accepted
  one is the data part of a codeword with the right CRC.
\<close>

theorem decode_sb34_blocks:
  assumes "check_counts lib" "blocks_ok lib" "dec_ok d0" "length b = 846"
  shows "\<exists>d1 ok r b'. decode_sb34 lib source b d0 = Inr (d1, ok, r, b') \<and> dec_ok d1 \<and> (ok = 0 \<or> ok = 1) \<and>
    (if ok = 0 then b' = b else good_block SF3_H 3696 4576 846 b')"
proof -
  obtain d1 ok r b' where d: "decode_sb34 lib source b d0 = Inr (d1, ok, r, b')" "dec_ok d1" "ok = 0 \<or> ok = 1" "ok = 0 \<Longrightarrow> b' = b"
    by (rule decode_sb34_total [OF assms(3), of lib source b]) (rule that)
  then show ?thesis using decode_sb34_good [OF assms(1-3) d(1) _ assms(4)] by auto
qed

theorem decode_sb34_blocks_witness:
  "\<exists>d1 ok r b'. decode_sb34 zero_lib (replicate 1740 1) (replicate 846 1) dec0 = Inr (d1, ok, r, b') \<and> dec_ok d1 \<and>
    (ok = 0 \<or> ok = 1) \<and> (if ok = 0 then b' = replicate 846 1 else good_block SF3_H 3696 4576 846 b')"
  by (rule decode_sb34_blocks) (use zero_lib_ok in simp_all)

section \<open>Any sequence of calls\<close>

text \<open>
  C6: in every state that calls of the codec can lead to, in any order and with any arguments, the
  matrix caches are well formed, and every further call returns a result code: no call ends through
  \<open>exit\<close>, aborts, or walks a list without end.
\<close>

theorem codec_always_returns:
  assumes "codec_reach lib st" "buf_ok sb2 n2" "buf_ok sb3 n3" "buf_ok sb4 n4"
  shows "codec_ok st \<and>
    (\<exists>st' r out. lnis_afs_encode_frame toi sb2 n2 sb3 n3 sb4 n4 fb fl st = Inr (st', r, out) \<and>
      (r = 0 \<or> r = -1) \<and> codec_reach lib st') \<and>
    (\<exists>st' r out'. lnis_afs_decode_frame lib toi fb fl' m2 m3 m4 dout st = Inr (st', r, out') \<and>
      (r = 0 \<or> r = 1 \<or> r = -1) \<and> codec_reach lib st')"
proof -
  have ok: "codec_ok st" by (rule codec_reach_ok [OF assms(1)])
  obtain st' r out where e: "lnis_afs_encode_frame toi sb2 n2 sb3 n3 sb4 n4 fb fl st = Inr (st', r, out)" "r = 0 \<or> r = -1"
    by (rule encode_frame_total [OF ok assms(2-4), of toi fb fl]) (rule that)
  obtain st'' r' out' where d: "lnis_afs_decode_frame lib toi fb fl' m2 m3 m4 dout st = Inr (st'', r', out')"
      "r' = 0 \<or> r' = 1 \<or> r' = -1"
    by (rule decode_frame_total [OF ok, of lib toi fb fl' m2 m3 m4 dout]) (rule that)
  show ?thesis
    using ok e d codec_reach.encode [OF assms e(1)] codec_reach.decode [OF assms(1) d(1)] by blast
qed

theorem codec_always_returns_witness:
  "(\<exists>st' r out. lnis_afs_encode_frame 3 (Some (replicate 1176 1)) 1176 None 846 None 846 None 750 codec0 = Inr (st', r, out) \<and>
      (r = 0 \<or> r = -1) \<and> codec_reach zero_lib st') \<and>
    (\<exists>st' r out'. lnis_afs_decode_frame zero_lib 3 None 750 1176 846 846 zeros_out codec0 = Inr (st', r, out') \<and>
      (r = 0 \<or> r = 1 \<or> r = -1) \<and> codec_reach zero_lib st')"
proof -
  have "buf_ok (Some (replicate 1176 1)) 1176" "buf_ok None 846" by (simp_all add: buf_ok_def)
  from codec_always_returns [OF codec_reach.start this(1,2,2)] show ?thesis by blast
qed

section \<open>Error detection and rearrangement\<close>

text \<open>
  C38: the CRC check of the decoder rejects every accepted block in which the errors lie within a window
  of at most 24 bits: no burst of that length goes unnoticed.
\<close>

theorem crc_burst_detected:
  assumes "bitarr x" "n + 24 \<le> length x" "n + 24 \<le> 1200" "crc_ok x n (n + 24)"
    and "burst24 es" "length es = n + 24"
  shows "\<not> crc_ok (unbools (map2 (\<noteq>) (bools (take (n + 24) x)) es)) n (n + 24)"
proof -
  let ?y = "unbools (map2 (\<noteq>) (bools (take (n + 24) x)) es)"
  have len: "length (bools (take (n + 24) x)) = length es" using assms(2,6) by simp
  have y: "length ?y = n + 24" using len assms(6) by simp
  have z: "crc_bits 0 (bools (take (n + 24) x)) = 0" using crc_ok_iff [OF assms(1-3)] assms(4) by simp
  have "crc_bits 0 (bools (take (n + 24) ?y)) = crc_bits (0 XOR 0) (map2 (\<noteq>) (bools (take (n + 24) x)) es)"
    using y by simp
  also have "\<dots> = crc_bits 0 (bools (take (n + 24) x)) XOR crc_bits 0 es" by (rule crc_bits_xor [OF len])
  finally have "crc_bits 0 (bools (take (n + 24) ?y)) \<noteq> 0" using z crc_burst_nonzero [OF assms(5)] by simp
  moreover have "n + 24 \<le> length ?y" using y by linarith
  ultimately show ?thesis using crc_ok_iff [OF bitarr_unbools _ assms(3)] by blast
qed

theorem crc_burst_detected_witness:
  "\<not> crc_ok (unbools (map2 (\<noteq>) (bools (take 30 (replicate 30 0))) (replicate 10 False @ [True, False, True] @ replicate 17 False))) 6 30"
proof -
  have "crc_ok (with_crc (replicate 6 0) @ []) 6 (6 + 24)" by (rule crc_ok_with_crc) simp_all
  then have "crc_ok (replicate 30 0) 6 (6 + 24)" by (simp add: with_crc_zeros)
  moreover have "burst24 (replicate 10 False @ [True, False, True] @ replicate 17 False)"
    unfolding burst24_def by (intro exI conjI) (rule refl, simp_all)
  ultimately show ?thesis
    using crc_burst_detected [of "replicate 30 0" 6 "replicate 10 False @ [True, False, True] @ replicate 17 False"] by simp
qed

text \<open>
  The loops of the decoder undo the interleaver of the encoder, behind any 120 symbols, and the
  interleaver undoes them.
\<close>

theorem interleaver_roundtrip:
  assumes "length pre = 120" "length c = 5880"
  shows "deinterleave (pre @ interleave_AFS_SF234 c) = c \<and> interleave_AFS_SF234 (deinterleave (pre @ c)) = c"
proof
  show "deinterleave (pre @ interleave_AFS_SF234 c) = c" by (rule deinterleave_interleave [OF assms])
  show "interleave_AFS_SF234 (deinterleave (pre @ c)) = c"
  proof (rule nth_equalityI)
    fix k assume "k < length (interleave_AFS_SF234 (deinterleave (pre @ c)))"
    then have k: "k < 5880" by simp
    define i j where "i = k div 60" and "j = k mod 60"
    have ij: "i < 98" "j < 60" "k = i * 60 + j" using k by (auto simp: i_def j_def)
    have "interleave_AFS_SF234 (deinterleave (pre @ c)) ! k = deinterleave (pre @ c) ! (j * 98 + i)"
      using k by (simp add: interleave_nth i_def j_def)
    also have "\<dots> = (pre @ c) ! ((j * 98 + i) mod 98 * 60 + (j * 98 + i) div 98 + 120)"
      by (rule deinterleave_nth) (use ij in linarith)
    also have "(j * 98 + i) mod 98 * 60 + (j * 98 + i) div 98 + 120 = k + 120" using ij by simp
    finally show "interleave_AFS_SF234 (deinterleave (pre @ c)) ! k = c ! k"
      using assms(1) by (simp add: nth_append)
  qed (use assms in simp)
qed

theorem interleaver_roundtrip_witness:
  "deinterleave (replicate 120 1 @ interleave_AFS_SF234 (replicate 5879 0 @ [1])) = replicate 5879 0 @ [1]"
  using interleaver_roundtrip [of "replicate 120 1" "replicate 5879 0 @ [1]"] by simp

text \<open>
  The byte packing of the codec: the bits of a frame survive \<open>pack\<close> and \<open>unpack\<close>, the packed
  array is the one \<open>sdr_pack_bits\<close> of the simulator makes, and 750 bytes survive the way back.
\<close>

theorem frame_bytes_roundtrip:
  assumes "bitarr bits" "length bits = n"
  shows "unpack (pack bits n) n = bits \<and> pack bits n = sdr_pack_bits bits n 0 \<and> length (pack bits n) = (n + 7) div 8 \<and>
    pack (unpack bytes (8 * length bytes)) (8 * length bytes) = bytes"
proof -
  have "pack (unpack bytes (8 * length bytes)) (8 * length bytes) = bytes"
    using pack_eq [of "unpack bytes (8 * length bytes)" "8 * length bytes"] sdr_pack_unpack [of bytes]
    by (simp add: unpack_eq)
  then show ?thesis using unpack_pack [OF assms] pack_eq [OF assms(1), of n] assms(2) by simp
qed

theorem frame_bytes_roundtrip_witness: "unpack (pack [1, 1, 0, 0, 1, 1, 0, 0, 0, 1] 10) 10 = [1, 1, 0, 0, 1, 1, 0, 0, 0, 1]"
  by (rule frame_bytes_roundtrip [THEN conjunct1]) simp_all

end
